(* ===== verification/Prelude.thy ===== *)
theory Prelude
  imports Main "HOL-Library.Char_ord" "HOL-Library.List_Lexorder" "HOL-Library.Product_Lexorder"
begin

text \<open>
  The vocabulary every component of the development shares.

  \<^item> Results: a call that can throw returns \<open>'e + 'a\<close>; \<open>res_bind\<close> sequences such calls as
    statements of the source are sequenced, and \<open>require\<close> is \<open>if (!cond) throw error\<close>.
  \<^item> Strings: a JavaScript string is a list of code units. The model's \<open>string\<close> has the code
    units 0 to 255 only, and on those \<open>js_trim\<close>, \<open>js_lower\<close>, \<open>js_split\<close> and \<open>js_join\<close> are
    \<open>String.prototype.trim\<close>, \<open>toLowerCase\<close>, \<open>split\<close> (by one character) and \<open>Array.join\<close>,
    and \<open>length\<close> is \<open>.length\<close>.
  \<^item> Tables: an SQLite table is the list of its rows. \<open>tbl_get\<close> is a \<open>SELECT\<close> by a unique key,
    \<open>tbl_modify\<close> an \<open>UPDATE ... WHERE\<close>, \<open>next_sequence\<close> is \<open>COALESCE(MAX(sequence), 0) + 1\<close>.
  \<^item> Two interfaces, stated as locales and interpreted by the components that provide them:
    tables guarded by a revision (optimistic concurrency) and append-only event logs.
\<close>

section \<open>Results\<close>

definition res_bind :: "'e + 'a \<Rightarrow> ('a \<Rightarrow> 'e + 'b) \<Rightarrow> 'e + 'b" where
  "res_bind r f = (case r of Inl e \<Rightarrow> Inl e | Inr x \<Rightarrow> f x)"

definition require :: "bool \<Rightarrow> 'e \<Rightarrow> 'e + unit" where
  "require b e = (if b then Inr () else Inl e)"

primrec res_map :: "('a \<Rightarrow> 'e + 'b) \<Rightarrow> 'a list \<Rightarrow> 'e + 'b list" where
  "res_map f [] = Inr []"
| "res_map f (x # xs) = res_bind (f x) (\<lambda>y. res_bind (res_map f xs) (\<lambda>ys. Inr (y # ys)))"

text \<open>A loop over a list that may throw, with the mutable locals as its state.\<close>

primrec res_fold :: "('a \<Rightarrow> 's \<Rightarrow> 'e + 's) \<Rightarrow> 'a list \<Rightarrow> 's \<Rightarrow> 'e + 's" where
  "res_fold f [] s = Inr s"
| "res_fold f (x # xs) s = res_bind (f x s) (\<lambda>s'. res_fold f xs s')"

lemma res_bind_Inl [simp]: "res_bind (Inl e) f = Inl e"
  and res_bind_Inr [simp]: "res_bind (Inr x) f = f x"
  by (simp_all add: res_bind_def)

lemma res_bind_require [simp]: "res_bind (require b e) f = (if b then f () else Inl e)"
  by (simp add: require_def)

lemma res_bind_if [simp]:
  "res_bind (if b then r else s) f = (if b then res_bind r f else res_bind s f)"
  by simp

lemma require_Inr_iff [simp]: "require b e = Inr u \<longleftrightarrow> b"
  and require_Inl_iff [simp]: "require b e = Inl e' \<longleftrightarrow> \<not> b \<and> e' = e"
  by (auto simp: require_def)

lemma res_bind_eq_Inr [simp]: "res_bind r f = Inr y \<longleftrightarrow> (\<exists>x. r = Inr x \<and> f x = Inr y)"
  by (cases r) simp_all

lemma res_bind_eq_Inl: "res_bind r f = Inl e \<longleftrightarrow> r = Inl e \<or> (\<exists>x. r = Inr x \<and> f x = Inl e)"
  by (cases r) auto

lemma res_map_length: "res_map f xs = Inr ys \<Longrightarrow> length ys = length xs"
  by (induction xs arbitrary: ys) auto

lemma res_map_total: "(\<And>x. x \<in> set xs \<Longrightarrow> f x = Inr (g x)) \<Longrightarrow> res_map f xs = Inr (map g xs)"
  by (induction xs) auto

text \<open>The loop rule: what the body keeps, the loop keeps.\<close>

lemma res_fold_invariant:
  assumes "res_fold f xs s = Inr s'" and "P s"
    and "\<And>x s s'. x \<in> set xs \<Longrightarrow> P s \<Longrightarrow> f x s = Inr s' \<Longrightarrow> P s'"
  shows "P s'"
  using assms
proof (induction xs arbitrary: s)
  case Nil
  then show ?case by simp
next
  case (Cons x xs)
  from Cons.prems(1) obtain t where t: "f x s = Inr t" "res_fold f xs t = Inr s'" by auto
  have "P t" using Cons.prems(2) Cons.prems(3) t(1) by auto
  with t(2) show ?case by (rule Cons.IH) (auto intro: Cons.prems(3))
qed

lemma res_fold_append: "res_fold f (xs @ ys) s = res_bind (res_fold f xs s) (res_fold f ys)"
  by (induction xs arbitrary: s) (auto simp: res_bind_def split: sum.splits)

text \<open>\<open>v ?? d\<close>.\<close>

definition or_default :: "'a option \<Rightarrow> 'a \<Rightarrow> 'a" where
  "or_default v d = (case v of None \<Rightarrow> d | Some x \<Rightarrow> x)"

section \<open>JavaScript strings\<close>

text \<open>White space of \<open>trim\<close> and of \<open>\s\<close> among the code units 0 to 255: tab, line feed, vertical
  tab, form feed, carriage return, space and no-break space.\<close>

definition js_white :: "char \<Rightarrow> bool" where
  "js_white c \<longleftrightarrow> of_char c \<in> {9 :: nat, 10, 11, 12, 13, 32, 160}"

definition js_trim :: "string \<Rightarrow> string" where
  "js_trim s = rev (dropWhile js_white (rev (dropWhile js_white s)))"

definition js_lower_char :: "char \<Rightarrow> char" where
  "js_lower_char c =
     (let n = (of_char c :: nat)
      in if (65 \<le> n \<and> n \<le> 90) \<or> (192 \<le> n \<and> n \<le> 222 \<and> n \<noteq> 215) then char_of (n + 32) else c)"

definition js_lower :: "string \<Rightarrow> string" where
  "js_lower s = map js_lower_char s"

fun js_split :: "char \<Rightarrow> string \<Rightarrow> string list" where
  "js_split d [] = [[]]"
| "js_split d (c # cs) =
     (if c = d then [] # js_split d cs
      else (case js_split d cs of [] \<Rightarrow> [[c]] | w # ws \<Rightarrow> (c # w) # ws))"

fun js_join :: "string \<Rightarrow> string list \<Rightarrow> string" where
  "js_join sep [] = []"
| "js_join sep [w] = w"
| "js_join sep (w # v # ws) = w @ sep @ js_join sep (v # ws)"

text \<open>The character classes \<open>[A-Za-z0-9]\<close> and \<open>[a-z0-9]\<close> of the patterns.\<close>

definition any_text :: "string \<Rightarrow> bool" where
  "any_text s = True"

definition lower_letter :: "char \<Rightarrow> bool" where
  "lower_letter c \<longleftrightarrow> 97 \<le> (of_char c :: nat) \<and> (of_char c :: nat) \<le> 122"

definition upper_letter :: "char \<Rightarrow> bool" where
  "upper_letter c \<longleftrightarrow> 65 \<le> (of_char c :: nat) \<and> (of_char c :: nat) \<le> 90"

definition alnum :: "char \<Rightarrow> bool" where
  "alnum c \<longleftrightarrow> (let n = (of_char c :: nat) in (48 \<le> n \<and> n \<le> 57) \<or> (65 \<le> n \<and> n \<le> 90) \<or> (97 \<le> n \<and> n \<le> 122))"

definition lower_alnum :: "char \<Rightarrow> bool" where
  "lower_alnum c \<longleftrightarrow> (let n = (of_char c :: nat) in (48 \<le> n \<and> n \<le> 57) \<or> (97 \<le> n \<and> n \<le> 122))"

text \<open>\<open>String.prototype.startsWith\<close>, \<open>endsWith\<close> and \<open>includes\<close>.\<close>

definition starts_with :: "string \<Rightarrow> string \<Rightarrow> bool" where
  "starts_with s p \<longleftrightarrow> take (length p) s = p"

definition ends_with :: "string \<Rightarrow> string \<Rightarrow> bool" where
  "ends_with s p \<longleftrightarrow> length p \<le> length s \<and> drop (length s - length p) s = p"

fun str_includes :: "string \<Rightarrow> string \<Rightarrow> bool" where
  "str_includes [] p \<longleftrightarrow> p = []"
| "str_includes (c # cs) p \<longleftrightarrow> starts_with (c # cs) p \<or> str_includes cs p"

definition js_digit :: "char \<Rightarrow> bool" where
  "js_digit c \<longleftrightarrow> 48 \<le> (of_char c :: nat) \<and> (of_char c :: nat) \<le> 57"

definition digit_value :: "char \<Rightarrow> nat" where
  "digit_value c = of_char c - 48"

text \<open>\<open>Number(s)\<close> of a string of decimal digits, and the decimal string of a number.\<close>

definition digits_value :: "string \<Rightarrow> nat" where
  "digits_value s = foldl (\<lambda>n c. 10 * n + digit_value c) 0 s"

fun show_nat :: "nat \<Rightarrow> string" where
  "show_nat n = (if n < 10 then [char_of (48 + n)] else show_nat (n div 10) @ [char_of (48 + n mod 10)])"

declare show_nat.simps [simp del]

definition show_int :: "int \<Rightarrow> string" where
  "show_int i = (if i < 0 then CHR ''-'' # show_nat (nat (- i)) else show_nat (nat i))"

lemma js_trim_length: "length (js_trim s) \<le> length s"
proof -
  have "length (js_trim s) \<le> length (dropWhile js_white s)"
    unfolding js_trim_def by (metis length_dropWhile_le length_rev)
  then show ?thesis by (rule le_trans) (rule length_dropWhile_le)
qed

lemma dropWhile_hd: "dropWhile P xs = y # ys \<Longrightarrow> \<not> P y"
  by (induction xs) (auto split: if_splits)

lemma dropWhile_noop: "xs = [] \<or> \<not> P (hd xs) \<Longrightarrow> dropWhile P xs = xs"
  by (cases xs) auto

lemma dropWhile_rev_cases:
  "\<exists>zs. xs = rev (dropWhile P (rev xs)) @ zs"
  by (metis rev_append rev_rev_ident takeWhile_dropWhile_id)

text \<open>A trimmed string starts and ends with a visible character, so trimming twice changes nothing.\<close>

lemma js_trim_hd: "js_trim s = c # cs \<Longrightarrow> \<not> js_white c"
proof -
  assume a: "js_trim s = c # cs"
  let ?d = "dropWhile js_white s"
  obtain zs where "?d = js_trim s @ zs"
    using dropWhile_rev_cases [of ?d js_white] unfolding js_trim_def by blast
  with a show ?thesis by (auto dest: dropWhile_hd)
qed

lemma js_trim_idem [simp]: "js_trim (js_trim s) = js_trim s"
proof -
  have d: "dropWhile js_white (js_trim s) = js_trim s"
    by (rule dropWhile_noop) (cases "js_trim s"; auto dest: js_trim_hd)
  have r: "dropWhile js_white (rev (js_trim s)) = rev (js_trim s)"
    by (simp add: js_trim_def)
  show ?thesis by (subst js_trim_def) (simp add: d r)
qed

lemma js_split_nonempty [simp]: "js_split d s \<noteq> []"
  by (induction d s rule: js_split.induct) (auto split: list.splits)

lemma js_split_no_sep: "w \<in> set (js_split d s) \<Longrightarrow> d \<notin> set w"
  by (induction d s arbitrary: w rule: js_split.induct)
    (fastforce split: if_splits list.splits)+

lemma js_join_Cons: "ws \<noteq> [] \<Longrightarrow> js_join sep (w # ws) = w @ sep @ js_join sep ws"
  by (cases ws) auto

lemma js_join_char: "js_join sep ((c # w) # ws) = c # js_join sep (w # ws)"
  by (cases ws) auto

text \<open>Splitting at a character and joining with it is the identity.\<close>

lemma js_join_split: "js_join [d] (js_split d s) = s"
proof (induction d s rule: js_split.induct)
  case (1 d)
  show ?case by simp
next
  case (2 d c cs)
  show ?case
  proof (cases "c = d")
    case True
    with 2 show ?thesis by (simp add: js_join_Cons)
  next
    case False
    obtain w ws where w: "js_split d cs = w # ws" by (meson js_split_nonempty neq_Nil_conv)
    from 2(2) [OF False] w have "js_join [d] (w # ws) = cs" by simp
    with False w show ?thesis by (simp add: js_join_char)
  qed
qed

lemma js_split_plain: "d \<notin> set w \<Longrightarrow> js_split d w = [w]"
  by (induction w) auto

lemma js_split_append: "d \<notin> set w \<Longrightarrow> js_split d (w @ d # s) = w # js_split d s"
  by (induction w) auto

lemma js_split_join:
  "ws \<noteq> [] \<Longrightarrow> (\<And>w. w \<in> set ws \<Longrightarrow> d \<notin> set w) \<Longrightarrow> js_split d (js_join [d] ws) = ws"
proof (induction ws)
  case Nil
  then show ?case by simp
next
  case (Cons w ws)
  then show ?case
    by (cases "ws = []") (simp_all add: js_split_plain js_join_Cons js_split_append)
qed

section \<open>Arrays\<close>

text \<open>\<open>Array.prototype.flatMap\<close>.\<close>

definition flat_map :: "('a \<Rightarrow> 'b list) \<Rightarrow> 'a list \<Rightarrow> 'b list" where
  "flat_map f xs = concat (map f xs)"

lemma flat_map_simps [simp]: "flat_map f [] = []" "flat_map f (x # xs) = f x @ flat_map f xs"
  by (simp_all add: flat_map_def)

lemma set_flat_map: "set (flat_map f xs) = (\<Union>x \<in> set xs. set (f x))"
  by (simp add: flat_map_def)

lemma flat_map_Nil_iff: "flat_map f xs = [] \<longleftrightarrow> (\<forall>x \<in> set xs. f x = [])"
  by (simp add: flat_map_def)

lemma list_all_if: "list_all P (if b then xs else ys) \<longleftrightarrow> (b \<longrightarrow> list_all P xs) \<and> (\<not> b \<longrightarrow> list_all P ys)"
  by simp

section \<open>Sorting\<close>

text \<open>\<open>Array.prototype.sort\<close> with a comparison function: stable, so insertion behind equal elements.\<close>

fun insort_cmp :: "('a \<Rightarrow> 'a \<Rightarrow> int) \<Rightarrow> 'a \<Rightarrow> 'a list \<Rightarrow> 'a list" where
  "insort_cmp cmp x [] = [x]"
| "insort_cmp cmp x (y # ys) = (if cmp x y \<le> 0 then x # y # ys else y # insort_cmp cmp x ys)"

definition js_sort :: "('a \<Rightarrow> 'a \<Rightarrow> int) \<Rightarrow> 'a list \<Rightarrow> 'a list" where
  "js_sort cmp xs = foldr (insort_cmp cmp) xs []"

lemma set_insort_cmp [simp]: "set (insort_cmp cmp x xs) = insert x (set xs)"
  by (induction xs) auto

lemma length_insort_cmp [simp]: "length (insort_cmp cmp x xs) = Suc (length xs)"
  by (induction xs) auto

lemma set_js_sort [simp]: "set (js_sort cmp xs) = set xs"
  by (induction xs) (auto simp: js_sort_def)

lemma length_js_sort [simp]: "length (js_sort cmp xs) = length xs"
  by (induction xs) (auto simp: js_sort_def)

lemma filter_insort_cmp:
  "length (filter P (insort_cmp cmp x xs)) = length (filter P (x # xs))"
  by (induction xs) auto

lemma filter_js_sort: "length (filter P (js_sort cmp xs)) = length (filter P xs)"
  by (induction xs) (auto simp: js_sort_def filter_insort_cmp)

section \<open>Tables\<close>

definition tbl_get :: "('r \<Rightarrow> 'k) \<Rightarrow> 'k \<Rightarrow> 'r list \<Rightarrow> 'r option" where
  "tbl_get key k rows = find (\<lambda>r. key r = k) rows"

definition tbl_modify :: "('r \<Rightarrow> bool) \<Rightarrow> ('r \<Rightarrow> 'r) \<Rightarrow> 'r list \<Rightarrow> 'r list" where
  "tbl_modify p f rows = map (\<lambda>r. if p r then f r else r) rows"

definition tbl_changes :: "('r \<Rightarrow> bool) \<Rightarrow> 'r list \<Rightarrow> nat" where
  "tbl_changes p rows = length (filter p rows)"

definition next_sequence :: "('r \<Rightarrow> bool) \<Rightarrow> ('r \<Rightarrow> int) \<Rightarrow> 'r list \<Rightarrow> int" where
  "next_sequence p sq rows = foldl (\<lambda>m r. if p r then max m (sq r) else m) 0 rows + 1"

lemma tbl_get_key: "tbl_get key k rows = Some r \<Longrightarrow> key r = k \<and> r \<in> set rows"
  by (auto simp: tbl_get_def find_Some_iff)

lemma tbl_get_None: "tbl_get key k rows = None \<longleftrightarrow> k \<notin> key ` set rows"
  by (auto simp: tbl_get_def find_None_iff)

lemma tbl_get_append:
  "tbl_get key k (rows @ [r]) = (case tbl_get key k rows of None \<Rightarrow> if key r = k then Some r else None | Some x \<Rightarrow> Some x)"
  by (induction rows) (auto simp: tbl_get_def)

lemma tbl_get_modify:
  assumes "\<And>r. key (f r) = key r" and "distinct (map key rows)"
  shows "tbl_get key k (tbl_modify p f rows) = map_option (\<lambda>r. if p r then f r else r) (tbl_get key k rows)"
  using assms(2) by (induction rows) (auto simp: tbl_get_def tbl_modify_def assms(1))

lemma tbl_get_distinct:
  "distinct (map key rows) \<Longrightarrow> r \<in> set rows \<Longrightarrow> tbl_get key (key r) rows = Some r"
  by (induction rows) (auto simp: tbl_get_def)

lemma set_tbl_modify: "set (tbl_modify p f rows) = (\<lambda>r. if p r then f r else r) ` set rows"
  by (simp add: tbl_modify_def)

lemma keys_tbl_modify [simp]:
  "(\<And>r. key (f r) = key r) \<Longrightarrow> map key (tbl_modify p f rows) = map key rows"
  by (simp add: tbl_modify_def)

lemma length_tbl_modify [simp]: "length (tbl_modify p f rows) = length rows"
  by (simp add: tbl_modify_def)

lemma next_sequence_append:
  "next_sequence p sq (rows @ [r]) =
     (if p r then max (next_sequence p sq rows) (sq r + 1) else next_sequence p sq rows)"
  by (auto simp: next_sequence_def)

lemma foldl_max_ge:
  fixes m :: int
  shows "m \<le> foldl (\<lambda>m r. if p r then max m (sq r) else m) m rows"
proof (induction rows arbitrary: m)
  case Nil
  then show ?case by simp
next
  case (Cons r rows)
  have "m \<le> (if p r then max m (sq r) else m)" by simp
  also note Cons.IH [of "if p r then max m (sq r) else m"]
  finally show ?case by simp
qed

lemma next_sequence_greater: "r \<in> set rows \<Longrightarrow> p r \<Longrightarrow> sq r < next_sequence p sq rows"
  by (induction rows rule: rev_induct) (auto simp: next_sequence_append)

lemma next_sequence_pos: "0 < next_sequence p sq rows"
  using foldl_max_ge [of 0 p sq rows] by (simp add: next_sequence_def)

text \<open>Where a key is unique, updating the row that has it replaces that one row.\<close>

definition tbl_replace :: "('r \<Rightarrow> 'k) \<Rightarrow> 'k \<Rightarrow> 'r \<Rightarrow> 'r list \<Rightarrow> 'r list" where
  "tbl_replace key k r rows = map (\<lambda>x. if key x = k then r else x) rows"

lemma tbl_modify_unique:
  assumes "distinct (map key rows)" and "tbl_get key k rows = Some r" and "p r"
    and "\<And>x. p x \<Longrightarrow> key x = k"
  shows "tbl_modify p f rows = tbl_replace key k (f r) rows"
proof -
  have "(if p x then f x else x) = (if key x = k then f r else x)" if "x \<in> set rows" for x
  proof (cases "key x = k")
    case True
    then have "x = r" using tbl_get_distinct [OF assms(1) that] assms(2) by simp
    with assms(3) True show ?thesis by simp
  next
    case False
    with assms(4) show ?thesis by auto
  qed
  then show ?thesis by (simp add: tbl_modify_def tbl_replace_def)
qed

lemma keys_tbl_replace [simp]: "key r = k \<Longrightarrow> map key (tbl_replace key k r rows) = map key rows"
  by (auto simp: tbl_replace_def)

lemma map_tbl_replace:
  assumes "distinct (map key rows)" and "tbl_get key k rows = Some r0" and "g r = g r0"
  shows "map g (tbl_replace key k r rows) = map g rows"
proof -
  have "g (if key x = k then r else x) = g x" if "x \<in> set rows" for x
    using tbl_get_distinct [OF assms(1) that] assms(2,3) by auto
  then show ?thesis by (simp add: tbl_replace_def)
qed

lemma set_tbl_replace:
  assumes "tbl_get key k rows = Some r0"
  shows "set (tbl_replace key k r rows) = insert r {x \<in> set rows. key x \<noteq> k}"
  using tbl_get_key [OF assms] by (auto simp: tbl_replace_def)

lemma tbl_get_replace:
  assumes "key r = k"
  shows "tbl_get key k' (tbl_replace key k r rows)
    = (if k' = k then map_option (\<lambda>_. r) (tbl_get key k rows) else tbl_get key k' rows)"
  using assms by (induction rows) (auto simp: tbl_get_def tbl_replace_def)

end
