(* ===== verification/Regex.thy ===== *)
theory Regex
  imports Prelude
begin

text \<open>
  JavaScript regular expressions as backtracking matchers. A matcher maps a string to the list of
  what can be left after a match at its start, in the order the engine tries them, so
  \<open>/^re/.test(s)\<close> is \<open>re s \<noteq> []\<close> and the match the engine reports is the head of the list.
\<close>

type_synonym rx = "string \<Rightarrow> string list"

definition rx_test :: "rx \<Rightarrow> string \<Rightarrow> bool" where
  "rx_test r s \<longleftrightarrow> r s \<noteq> []"

text \<open>\<open>/^re$/.test(s)\<close> without the multiline flag.\<close>

definition rx_full :: "rx \<Rightarrow> string \<Rightarrow> bool" where
  "rx_full r s \<longleftrightarrow> [] \<in> set (r s)"

definition rx_lit :: "string \<Rightarrow> rx" where
  "rx_lit w s = (if starts_with s w then [drop (length w) s] else [])"

text \<open>A literal of lower-case letters under the \<open>i\<close> flag.\<close>

definition rx_word :: "string \<Rightarrow> rx" where
  "rx_word w s = (if starts_with (js_lower s) w then [drop (length w) s] else [])"

definition rx_chr :: "(char \<Rightarrow> bool) \<Rightarrow> rx" where
  "rx_chr p s = (case s of [] \<Rightarrow> [] | c # cs \<Rightarrow> if p c then [cs] else [])"

definition rx_seq :: "rx \<Rightarrow> rx \<Rightarrow> rx" where
  "rx_seq r1 r2 s = concat (map r2 (r1 s))"

definition rx_alt :: "rx list \<Rightarrow> rx" where
  "rx_alt rs s = concat (map (\<lambda>r. r s) rs)"

definition rx_opt :: "rx \<Rightarrow> rx" where
  "rx_opt r s = r s @ [s]"

text \<open>Greedy repetition of a character class: the longest match first.\<close>

fun rx_star :: "(char \<Rightarrow> bool) \<Rightarrow> rx" where
  "rx_star p [] = [[]]"
| "rx_star p (c # cs) = (if p c then rx_star p cs @ [c # cs] else [c # cs])"

definition rx_plus :: "(char \<Rightarrow> bool) \<Rightarrow> rx" where
  "rx_plus p = rx_seq (rx_chr p) (rx_star p)"

definition rx_spaces :: rx where
  "rx_spaces = rx_plus js_white"

definition rx_words :: "string list \<Rightarrow> rx" where
  "rx_words ws = rx_alt (map rx_word ws)"

definition word_char :: "char \<Rightarrow> bool" where
  "word_char c \<longleftrightarrow> (let n = (of_char c :: nat) in
     (48 \<le> n \<and> n \<le> 57) \<or> (65 \<le> n \<and> n \<le> 90) \<or> n = 95 \<or> (97 \<le> n \<and> n \<le> 122))"

text \<open>\<open>\b\<close> after a word character.\<close>

definition rx_wordend :: rx where
  "rx_wordend s = (case s of [] \<Rightarrow> [[]] | c # _ \<Rightarrow> if word_char c then [] else [s])"

lemmas rx_defs = rx_test_def rx_full_def rx_lit_def rx_word_def rx_chr_def rx_seq_def rx_alt_def
  rx_opt_def rx_plus_def rx_spaces_def rx_words_def rx_wordend_def starts_with_def

lemma rx_test_seq: "rx_test (rx_seq r1 r2) s \<longleftrightarrow> (\<exists>t \<in> set (r1 s). rx_test r2 t)"
  by (auto simp: rx_test_def rx_seq_def)

lemma rx_test_alt: "rx_test (rx_alt rs) s \<longleftrightarrow> (\<exists>r \<in> set rs. rx_test r s)"
  by (auto simp: rx_test_def rx_alt_def)

text \<open>A greedy class, once at least: it tests the first character, and can stop after any prefix
  of characters of the class.\<close>

lemma rx_star_set: "t \<in> set (rx_star p s) \<longleftrightarrow> (\<exists>w. s = w @ t \<and> (\<forall>c \<in> set w. p c))"
proof (induction s)
  case Nil
  then show ?case by auto
next
  case (Cons c cs)
  have "(\<exists>w. c # cs = w @ t \<and> (\<forall>x \<in> set w. p x))
      \<longleftrightarrow> t = c # cs \<or> (p c \<and> (\<exists>w. cs = w @ t \<and> (\<forall>x \<in> set w. p x)))"
    by (auto simp: Cons_eq_append_conv)
  with Cons show ?case by auto
qed

lemma rx_star_full: "[] \<in> set (rx_star p s) \<longleftrightarrow> (\<forall>c \<in> set s. p c)"
  by (simp add: rx_star_set)

lemma rx_plus_full: "rx_full (rx_plus p) s \<longleftrightarrow> s \<noteq> [] \<and> (\<forall>c \<in> set s. p c)"
  by (cases s) (auto simp: rx_full_def rx_plus_def rx_seq_def rx_chr_def rx_star_full)

end
