(* ===== verification/Json.thy ===== *)
theory Json
  imports Prelude
begin

text \<open>
  JavaScript data values as the ledgers store them, and the two library functions the code applies
  to them. \<open>json\<close> is a value of type \<open>unknown\<close> that is plain data: \<open>JUndef\<close> is \<open>undefined\<close>, numbers
  are integers, an object is its properties in enumeration order.

  \<open>json_stringify\<close> is \<open>JSON.stringify(value)\<close> with one argument: \<open>None\<close> where the library returns
  \<open>undefined\<close>. \<open>json_clean\<close> is what \<open>JSON.parse(JSON.stringify(value))\<close> returns, that is what a
  value reads back as from a JSON column: \<open>undefined\<close> properties are dropped, \<open>undefined\<close> array
  elements become \<open>null\<close>.
\<close>

datatype json =
    JUndef
  | JNull
  | JBool bool
  | JNum int
  | JStr string
  | JArr "json list"
  | JObj "(string \<times> json) list"

definition jopt_str :: "string option \<Rightarrow> json" where
  "jopt_str v = (case v of None \<Rightarrow> JNull | Some s \<Rightarrow> JStr s)"

definition jopt_num :: "int option \<Rightarrow> json" where
  "jopt_num v = (case v of None \<Rightarrow> JNull | Some n \<Rightarrow> JNum n)"

text \<open>A property of an object, and \<open>undefined\<close> where there is none.\<close>

definition json_field :: "string \<Rightarrow> json \<Rightarrow> json" where
  "json_field k v = (case v of JObj ms \<Rightarrow> (case map_of ms k of None \<Rightarrow> JUndef | Some x \<Rightarrow> x) | _ \<Rightarrow> JUndef)"

definition hex_digit :: "nat \<Rightarrow> char" where
  "hex_digit n = (if n < 10 then char_of (48 + n) else char_of (87 + n))"

text \<open>String quoting: the two-character escapes, then \<open>\u00XX\<close> for the other control characters.\<close>

definition json_escape_char :: "char \<Rightarrow> string" where
  "json_escape_char c =
     (let n = (of_char c :: nat)
      in if n = 34 then [CHR 0x5C, CHR 0x22]
         else if n = 92 then [CHR 0x5C, CHR 0x5C]
         else if n = 8 then [CHR 0x5C, CHR ''b'']
         else if n = 9 then [CHR 0x5C, CHR ''t'']
         else if n = 10 then [CHR 0x5C, CHR ''n'']
         else if n = 12 then [CHR 0x5C, CHR ''f'']
         else if n = 13 then [CHR 0x5C, CHR ''r'']
         else if n < 32 then [CHR 0x5C] @ ''u00'' @ [hex_digit (n div 16), hex_digit (n mod 16)]
         else [c])"

definition json_quote :: "string \<Rightarrow> string" where
  "json_quote s = [CHR 0x22] @ concat (map json_escape_char s) @ [CHR 0x22]"

fun json_stringify :: "json \<Rightarrow> string option"
  and json_elems :: "json list \<Rightarrow> string list"
  and json_members :: "(string \<times> json) list \<Rightarrow> string list" where
  "json_stringify JUndef = None"
| "json_stringify JNull = Some ''null''"
| "json_stringify (JBool b) = Some (if b then ''true'' else ''false'')"
| "json_stringify (JNum n) = Some (show_int n)"
| "json_stringify (JStr s) = Some (json_quote s)"
| "json_stringify (JArr xs) = Some (''['' @ js_join '','' (json_elems xs) @ '']'')"
| "json_stringify (JObj ms) = Some (''{'' @ js_join '','' (json_members ms) @ ''}'')"
| "json_elems [] = []"
| "json_elems (x # xs) = (case json_stringify x of None \<Rightarrow> ''null'' | Some s \<Rightarrow> s) # json_elems xs"
| "json_members [] = []"
| "json_members ((k, v) # ms) =
     (case json_stringify v of None \<Rightarrow> json_members ms
      | Some s \<Rightarrow> (json_quote k @ '':'' @ s) # json_members ms)"

fun json_clean :: "json \<Rightarrow> json"
  and json_clean_elems :: "json list \<Rightarrow> json list"
  and json_clean_members :: "(string \<times> json) list \<Rightarrow> (string \<times> json) list" where
  "json_clean (JArr xs) = JArr (json_clean_elems xs)"
| "json_clean (JObj ms) = JObj (json_clean_members ms)"
| "json_clean v = v"
| "json_clean_elems [] = []"
| "json_clean_elems (x # xs) = (if x = JUndef then JNull else json_clean x) # json_clean_elems xs"
| "json_clean_members [] = []"
| "json_clean_members ((k, v) # ms) =
     (if v = JUndef then json_clean_members ms else (k, json_clean v) # json_clean_members ms)"

lemma json_stringify_None [simp]: "json_stringify v = None \<longleftrightarrow> v = JUndef"
  by (cases v) auto

lemma json_clean_undef [simp]: "json_clean v = JUndef \<longleftrightarrow> v = JUndef"
  by (cases v) auto

lemma json_clean_idem:
  "json_clean (json_clean v) = json_clean v"
  "json_clean_elems (json_clean_elems xs) = json_clean_elems xs"
  "json_clean_members (json_clean_members ms) = json_clean_members ms"
  by (induction v and xs and ms rule: json_clean_json_clean_elems_json_clean_members.induct) auto

text \<open>What is read back prints as the same text.\<close>

lemma json_stringify_clean:
  "json_stringify (json_clean v) = json_stringify v"
  "json_elems (json_clean_elems xs) = json_elems xs"
  "json_members (json_clean_members ms) = json_members ms"
  by (induction v and xs and ms rule: json_clean_json_clean_elems_json_clean_members.induct)
    (auto split: option.splits)

section \<open>Canonical text\<close>

text \<open>\<open>canonical\<close>, which the source repeats in several modules: the JSON text with the keys of every
  object sorted.\<close>

fun canonical :: "json \<Rightarrow> string"
  and canonical_items :: "json list \<Rightarrow> string list"
  and canonical_members :: "(string \<times> json) list \<Rightarrow> (string \<times> string) list" where
  "canonical (JArr xs) = ''['' @ js_join '','' (canonical_items xs) @ '']''"
| "canonical (JObj ms) = ''{'' @ js_join '','' (map (\<lambda>(k, t). json_quote k @ '':'' @ t) (sort_key fst (canonical_members ms))) @ ''}''"
| "canonical v = (case json_stringify v of None \<Rightarrow> ''undefined'' | Some t \<Rightarrow> t)"
| "canonical_items [] = []"
| "canonical_items (x # xs) = canonical x # canonical_items xs"
| "canonical_members [] = []"
| "canonical_members ((k, v) # ms) = (k, canonical v) # canonical_members ms"

end
