(* ===== verification/Connector_Rows.thy ===== *)
theory Connector_Rows
  imports Json
begin

text \<open>
  The rows of the tables of the connectors (\<open>packages/state/src/connector-repository.ts\<close>), of the memory
  (\<open>packages/state/src/memory-repository.ts\<close>) and of the retention (\<open>packages/state/src/retention-repository.ts\<close>).
\<close>

section \<open>Connectors\<close>

datatype account_status = ENABLED | DISABLED

datatype ingress_status = NI_RECEIVED | NI_CLAIMED | NI_ADOPTED | NI_IGNORED | NI_DEAD

datatype outgoing_status = ND_PENDING | ND_DELIVERING | ND_DELIVERED | ND_SUPPRESSED | ND_UNCERTAIN | ND_DEAD

datatype dispatch_status = NT_CLAIMED | NT_DISPATCHED | NT_ACCEPTED | NT_REJECTED | NT_ABANDONED | NT_UNCERTAIN

datatype letter_kind = INGRESS | DELIVERY

datatype letter_status = LETTER_OPEN | LETTER_RESOLVED

record account_row =
  na_connectorId :: string
  na_accountId :: string
  na_workspaceId :: string
  na_extensionId :: string
  na_status :: account_status
  na_revision :: int
  na_createdAt :: int
  na_updatedAt :: int

record binding_row =
  nb_bindingId :: string
  nb_connectorId :: string
  nb_accountId :: string
  nb_workspaceId :: string
  nb_externalScopeId :: string
  nb_externalConversationId :: string
  nb_externalThreadId :: string
  nb_conversationId :: string
  nb_createdAt :: int
  nb_updatedAt :: int

record ingress_row =
  ni_ingressId :: string
  ni_connectorId :: string
  ni_accountId :: string
  ni_externalEventId :: string
  ni_laneKey :: string
  ni_payloadVersion :: int
  ni_payload :: json
  ni_payloadHash :: string
  ni_status :: ingress_status
  ni_attemptCount :: int
  ni_availableAt :: int
  ni_claimToken :: "string option"
  ni_claimDeadlineAt :: "int option"
  ni_bindingId :: "string option"
  ni_messageId :: "string option"
  ni_runId :: "string option"
  ni_lastErrorCode :: "string option"
  ni_lastErrorSummary :: "string option"
  ni_receivedAt :: int
  ni_updatedAt :: int

text \<open>\<open>nd_cleanupAfter\<close> is the column of the retention.\<close>

record outgoing_row =
  nd_deliveryId :: string
  nd_connectorId :: string
  nd_accountId :: string
  nd_conversationId :: string
  nd_runId :: "string option"
  nd_sourceMessageId :: "string option"
  nd_targetKey :: string
  nd_threadKey :: string
  nd_payloadVersion :: int
  nd_payload :: json
  nd_payloadHash :: string
  nd_idempotencyKey :: string
  nd_status :: outgoing_status
  nd_attemptCount :: int
  nd_availableAt :: int
  nd_claimToken :: "string option"
  nd_claimDeadlineAt :: "int option"
  nd_lastErrorCode :: "string option"
  nd_lastErrorSummary :: "string option"
  nd_createdAt :: int
  nd_updatedAt :: int
  nd_cleanupAfter :: "int option"

record dispatch_row =
  ny_attemptId :: string
  ny_deliveryId :: string
  ny_attemptNumber :: int
  ny_claimToken :: string
  ny_requestHash :: string
  ny_status :: dispatch_status
  ny_errorCode :: "string option"
  ny_errorSummary :: "string option"
  ny_startedAt :: int
  ny_dispatchedAt :: "int option"
  ny_endedAt :: "int option"

record receipt_row =
  nr_receiptId :: string
  nr_deliveryId :: string
  nr_attemptId :: string
  nr_providerMessageId :: string
  nr_providerConversationId :: "string option"
  nr_providerThreadId :: "string option"
  nr_receipt :: json
  nr_receiptHash :: string
  nr_acceptedAt :: int

record letter_row =
  nl_deadLetterId :: string
  nl_connectorId :: string
  nl_accountId :: string
  nl_kind :: letter_kind
  nl_subjectId :: string
  nl_reasonCode :: string
  nl_summary :: string
  nl_payloadHash :: string
  nl_status :: letter_status
  nl_createdAt :: int
  nl_resolvedAt :: "int option"
  nl_resolution :: "string option"

section \<open>Memory\<close>

datatype memory_kind = MEM_FACT | MEM_PREFERENCE | MEM_DECISION | MEM_CONSTRAINT | MEM_NOTE

record memory_row =
  my_memoryId :: string
  my_workspaceId :: string
  my_kind :: memory_kind
  my_text :: string
  my_contentHash :: string
  my_sourceConversationId :: "string option"
  my_sourceRunId :: "string option"
  my_createdAt :: int
  my_updatedAt :: int
  my_forgottenAt :: "int option"
  my_revision :: int

section \<open>Retention\<close>

datatype entity_kind = KIND_TASK | KIND_TASK_FLOW | KIND_CONNECTOR_DELIVERY

record lease_row =
  ls_scopeKey :: string
  ls_ownerId :: string
  ls_leaseToken :: string
  ls_leaseExpiresAt :: int
  ls_updatedAt :: int
  ls_revision :: int

record retention_cursor =
  rk_cleanupAfter :: int
  rk_entityKind :: entity_kind
  rk_entityId :: string

record sweep_row =
  sq_scopeKey :: string
  sq_cursor :: "retention_cursor option"
  sq_updatedAt :: int
  sq_revision :: int

record candidate_row =
  cd_entityKind :: entity_kind
  cd_entityId :: string
  cd_workspaceId :: string
  cd_terminalStatus :: string
  cd_sourceRef :: "string option"
  cd_terminalAt :: int
  cd_cleanupAfter :: int

record tombstone_row =
  tb_candidate :: candidate_row
  tb_prunedAt :: int
  tb_metadataHash :: string

end
