(* ===== verification/State_Db.thy ===== *)
theory State_Db
  imports Connector_Rows
begin

text \<open>
  The durable state: the rows of the SQLite tables the ledgers own (\<open>packages/state/src\<close>, tables as
  created by \<open>packages/state/migrations\<close>), the exceptions the program throws, and transactions.

  A table is a list of rows; a row is a record with one field per column of the \<open>Ledger...Row\<close>
  interface of the source, prefixed by the table's initial. Timestamps, revisions and sequence
  numbers are integers. \<open>NULL\<close> is \<open>None\<close>. A JSON column holds the value it parses to.

  A repository operation maps a database to an exception or to a new database and a result. The
  schema's constraints are part of it: a statement that violates one throws \<open>Sql_Constraint\<close>.
  \<open>transaction\<close> is \<open>runImmediateStateTransaction\<close>: it commits the operation's database or, when the
  operation throws, keeps the old one and rethrows.
\<close>

section \<open>Exceptions\<close>

datatype sql_kind = Sql_Unique string | Sql_Check | Sql_ForeignKey | Sql_Trigger

datatype state_code =
    STATE_SQLITE_UNAVAILABLE | STATE_MIGRATION_SET_INVALID | STATE_MIGRATION_DRIFT
  | STATE_SCHEMA_NEWER | STATE_SCHEMA_INCONSISTENT | STATE_OWNERSHIP_MISMATCH
  | STATE_INTEGRITY_FAILED | STATE_BUSY | STATE_CONFLICT | STATE_TRANSACTION_ASYNC
  | STATE_CLOSED | STATE_BACKUP_FAILED

datatype task_code =
  TASK_INVALID_ARGUMENT | TASK_NOT_FOUND | TASK_ACCESS_DENIED | TASK_STATE_INVALID

datatype flow_code =
    TASK_FLOW_INVALID_ARGUMENT | TASK_FLOW_NOT_FOUND | TASK_FLOW_ACCESS_DENIED
  | TASK_FLOW_REVISION_CONFLICT | TASK_FLOW_STATE_INVALID | TASK_FLOW_TASK_CONFLICT
  | TASK_FLOW_REQUEST_CONFLICT | TASK_FLOW_EXECUTOR_UNAVAILABLE

datatype automation_code =
    AUTOMATION_INVALID_ARGUMENT | AUTOMATION_INVALID_TIMEZONE | AUTOMATION_INVALID_SCHEDULE
  | AUTOMATION_SCHEDULE_IN_PAST | AUTOMATION_SCHEDULE_NO_FUTURE | AUTOMATION_JOB_NOT_FOUND
  | AUTOMATION_REVISION_CONFLICT | AUTOMATION_REQUEST_CONFLICT | AUTOMATION_SCHEDULER_NOT_STARTED
  | AUTOMATION_SCHEDULER_CLOSED | AUTOMATION_LEASE_LOST

datatype conversation_code =
    INVALID_ARGUMENT | WORKSPACE_ACCESS_DENIED | CONVERSATION_NOT_FOUND | RUN_NOT_FOUND | SUBMISSION_CONFLICT
  | RUN_STATE_INVALID | EVENT_SEQUENCE_CONFLICT | EVENT_IDEMPOTENCY_CONFLICT | DELEGATION_BUDGET_CONFLICT
  | DELEGATION_BUDGET_NOT_CONFIGURED | DELEGATION_IDEMPOTENCY_CONFLICT | DELEGATION_SCOPE_ESCALATION
  | DELEGATION_BUDGET_ESCALATION | DELEGATION_DEPTH_EXCEEDED | DELEGATION_TIME_BUDGET_EXCEEDED
  | DELEGATION_ACTIVE_CHILD_LIMIT | DELEGATION_TOTAL_CHILD_LIMIT | DELEGATION_BUDGET_EXCEEDED | DELEGATION_NOT_FOUND

datatype goal_code =
    GOAL_INPUT_INVALID | GOAL_NOT_FOUND | GOAL_ALREADY_OPEN | GOAL_REVISION_CONFLICT | GOAL_TRANSITION_INVALID
  | GOAL_PLAN_INVALID | GOAL_COMPLETION_UNPROVEN | GOAL_EXECUTION_ACTIVE | GOAL_PROVENANCE_INVALID

datatype executor_code =
    GOAL_EXECUTION_NOT_FOUND | GOAL_EXECUTION_ALREADY_EXISTS | GOAL_EXECUTION_ACCESS_DENIED
  | GOAL_EXECUTION_REVISION_CONFLICT | GOAL_EXECUTION_STATE_INVALID | GOAL_EXECUTION_PLAN_INVALID
  | GOAL_EXECUTION_REQUEST_CONFLICT | GOAL_EXECUTION_STALE_DECISION | GOAL_EXECUTION_RETRY_LIMIT
  | GOAL_EXECUTION_BLOCKER_REQUIRED

datatype approval_code =
    APPROVAL_NOT_FOUND | APPROVAL_VERSION_CONFLICT | APPROVAL_STATE_INVALID | APPROVAL_BINDING_MISMATCH
  | APPROVAL_TOOL_CALL_CONFLICT

text \<open>\<open>State_Error\<close> carries the message as well, because one caller inspects it.\<close>

datatype connector_code =
    CONNECTOR_INVALID_ARGUMENT | CONNECTOR_NOT_REGISTERED | CONNECTOR_ALREADY_REGISTERED | CONNECTOR_ACCOUNT_NOT_FOUND
  | CONNECTOR_ACCOUNT_DISABLED | CONNECTOR_WORKSPACE_ACCESS_DENIED | CONNECTOR_BINDING_CONFLICT
  | CONNECTOR_INGRESS_NOT_FOUND | CONNECTOR_INGRESS_CONFLICT | CONNECTOR_INGRESS_STATE_INVALID
  | CONNECTOR_INGRESS_CLAIM_LOST | CONNECTOR_DELIVERY_NOT_FOUND | CONNECTOR_DELIVERY_CONFLICT
  | CONNECTOR_DELIVERY_STATE_INVALID | CONNECTOR_DELIVERY_CLAIM_LOST | CONNECTOR_RECEIPT_CONFLICT

datatype memory_code = MEMORY_TEXT_INVALID | MEMORY_QUERY_INVALID | MEMORY_NOT_FOUND | MEMORY_SENSITIVE_CONTENT_REJECTED

datatype err =
    Sql_Constraint sql_kind
  | Js_Error
  | State_Error state_code string
  | Task_Error task_code
  | Flow_Error flow_code
  | Automation_Error automation_code
  | Conversation_Error conversation_code
  | Goal_Error goal_code
  | Executor_Error executor_code
  | Approval_Error approval_code
  | Connector_Error connector_code
  | Memory_Error memory_code

section \<open>Conversations, runs and attempts\<close>

datatype conversation_status = ACTIVE | ARCHIVED

datatype message_role = Role_user | Role_assistant | Role_tool | Role_system

datatype run_status = R_CREATED | R_RUNNING | R_WAITING_APPROVAL | R_COMPLETED | R_FAILED | R_CANCELLED

datatype attempt_status = A_RUN run_status | A_ABORTED

datatype recovery_state = NONE | RESUMABLE | NON_RESUMABLE

record conversation_row =
  c_conversationId :: string
  c_workspaceId :: string
  c_modelProfile :: string
  c_title :: "string option"
  c_status :: conversation_status
  c_lastMessageSequence :: int
  c_createdAt :: int
  c_updatedAt :: int

record message_row =
  m_messageId :: string
  m_conversationId :: string
  m_sequence :: int
  m_role :: message_role
  m_content :: json
  m_createdAt :: int

record run_row =
  r_runId :: string
  r_conversationId :: string
  r_triggerMessageId :: "string option"
  r_status :: run_status
  r_recoveryState :: recovery_state
  r_currentAttemptId :: "string option"
  r_lastEventSequence :: int
  r_createdAt :: int
  r_startedAt :: "int option"
  r_endedAt :: "int option"
  r_updatedAt :: int

record attempt_row =
  a_attemptId :: string
  a_runId :: string
  a_attemptNumber :: int
  a_status :: attempt_status
  a_startedAt :: "int option"
  a_endedAt :: "int option"
  a_recoveryReason :: "string option"
  a_providerId :: "string option"
  a_modelId :: "string option"
  a_maxTurns :: "int option"
  a_maxModelCalls :: "int option"
  a_maxToolCalls :: "int option"
  a_maxOutputTokens :: "int option"
  a_maxTotalTokens :: "int option"
  a_maxDurationMs :: "int option"
  a_usedTurns :: int
  a_usedInputTokens :: int
  a_usedOutputTokens :: int
  a_modelCallCount :: int
  a_toolCallCount :: int
  a_terminalReason :: "string option"
  a_createdAt :: int
  a_updatedAt :: int

record event_row =
  e_runId :: string
  e_sequence :: int
  e_eventId :: string
  e_attemptId :: "string option"
  e_eventType :: string
  e_payload :: json
  e_idempotencyKey :: "string option"
  e_emittedAt :: int

record submission_row =
  s_conversationId :: string
  s_submissionKey :: string
  s_inputHash :: string
  s_messageId :: string
  s_runId :: string
  s_createdAt :: int

record projection_row =
  p_conversationId :: string
  p_messageCount :: int
  p_lastMessageSequence :: int
  p_lastRunId :: "string option"
  p_lastRunStatus :: "run_status option"
  p_rebuiltAt :: int

datatype invocation_status = I_STARTED | I_COMPLETED | I_FAILED | I_CANCELLED

record invocation_row =
  i_invocationId :: string
  i_runId :: string
  i_attemptId :: string
  i_turnNumber :: int
  i_requestNumber :: int
  i_providerId :: string
  i_modelId :: string
  i_requestHash :: string
  i_status :: invocation_status
  i_providerResponseId :: "string option"
  i_inputTokens :: int
  i_outputTokens :: int
  i_errorCode :: "string option"
  i_startedAt :: int
  i_endedAt :: "int option"

section \<open>Background tasks and their completion deliveries\<close>

datatype task_runtime = CONVERSATION | DELEGATION | AUTOMATION

datatype task_status = T_QUEUED | T_RUNNING | T_SUCCEEDED | T_FAILED | T_TIMED_OUT | T_CANCELLED | T_LOST

datatype notify_policy = DONE_ONLY | STATE_CHANGES | SILENT

datatype delivery_status = D_PENDING | D_SESSION_QUEUED | D_DELIVERED | D_FAILED | D_NOT_APPLICABLE

datatype terminal_outcome = O_SUCCEEDED | O_BLOCKED

record task_row =
  t_taskId :: string
  t_workspaceId :: string
  t_conversationId :: string
  t_runId :: string
  t_parentTaskId :: "string option"
  t_runtime :: task_runtime
  t_taskKind :: string
  t_sourceId :: "string option"
  t_taskText :: string
  t_status :: task_status
  t_recoveryState :: recovery_state
  t_notifyPolicy :: notify_policy
  t_deliveryStatus :: delivery_status
  t_terminalOutcome :: "terminal_outcome option"
  t_progressSummary :: "string option"
  t_terminalSummary :: "string option"
  t_errorCode :: "string option"
  t_createdAt :: int
  t_startedAt :: "int option"
  t_endedAt :: "int option"
  t_updatedAt :: int
  t_cleanupAfter :: "int option"
  t_revision :: int

record task_event_row =
  te_taskId :: string
  te_sequence :: int
  te_eventType :: string
  te_status :: task_status
  te_recoveryState :: recovery_state
  te_payload :: json
  te_runEventSequence :: "int option"
  te_emittedAt :: int

record delivery_row =
  d_deliveryId :: string
  d_taskId :: string
  d_taskEventSequence :: int
  d_flowId :: "string option"
  d_workspaceId :: string
  d_ownerConversationId :: string
  d_controllerId :: "string option"
  d_notifyPolicy :: notify_policy
  d_deliveryStatus :: delivery_status
  d_taskStatus :: task_status
  d_terminalOutcome :: "terminal_outcome option"
  d_idempotencyKey :: string
  d_payload :: json
  d_attemptCount :: int
  d_lastError :: "string option"
  d_systemMessageId :: "string option"
  d_wakeRunId :: "string option"
  d_controllerExecutionRevision :: "int option"
  d_controllerStepRevision :: "int option"
  d_controllerFlowRevision :: "int option"
  d_createdAt :: int
  d_updatedAt :: int
  d_deliveredAt :: "int option"
  d_revision :: int

section \<open>Task flows\<close>

datatype flow_status =
  F_QUEUED | F_RUNNING | F_WAITING | F_BLOCKED | F_SUCCEEDED | F_FAILED | F_CANCELLED | F_LOST

record flow_row =
  f_flowId :: string
  f_workspaceId :: string
  f_ownerKey :: string
  f_controllerId :: string
  f_goal :: string
  f_status :: flow_status
  f_currentStep :: "string option"
  f_blockedTaskId :: "string option"
  f_blockedSummary :: "string option"
  f_state :: json
  f_wait :: json
  f_cancelRequestedAt :: "int option"
  f_createdAt :: int
  f_updatedAt :: int
  f_endedAt :: "int option"
  f_cleanupAfter :: "int option"
  f_revision :: int

record flow_event_row =
  fe_flowId :: string
  fe_sequence :: int
  fe_eventType :: string
  fe_status :: flow_status
  fe_revision :: int
  fe_payload :: json
  fe_emittedAt :: int

record flow_link_row =
  l_flowId :: string
  l_taskId :: string
  l_stepKey :: "string option"
  l_linkedAt :: int

section \<open>Automations\<close>

datatype schedule_type = AT | INTERVAL | CRON

datatype catch_up = SKIP | RUN_ONCE | BOUNDED

datatype trigger_kind = SCHEDULED | MANUAL

datatype arun_status = PENDING | CLAIMED | RUNNING | SUCCEEDED | FAILED | SKIPPED | CANCELLED

record job_row =
  j_jobId :: string
  j_name :: string
  j_enabled :: bool
  j_scheduleType :: schedule_type
  j_schedulePayload :: json
  j_timezone :: string
  j_conversationTemplate :: json
  j_catchUpPolicy :: catch_up
  j_catchUpLimit :: "int option"
  j_failurePolicy :: json
  j_revision :: int
  j_nextScheduledFor :: "int option"
  j_lastScheduledFor :: "int option"
  j_consecutiveFailures :: int
  j_createdAt :: int
  j_updatedAt :: int

record arun_row =
  x_automationRunId :: string
  x_jobId :: string
  x_scheduledFor :: int
  x_triggerKind :: trigger_kind
  x_requestKey :: "string option"
  x_claimedAt :: "int option"
  x_leaseOwner :: "string option"
  x_leaseExpiresAt :: "int option"
  x_runId :: "string option"
  x_status :: arun_status
  x_attempt :: int
  x_errorCode :: "string option"
  x_createdAt :: int
  x_updatedAt :: int

section \<open>Delegations\<close>

datatype delegation_status = N_CREATED | N_RUNNING | N_WAITING | N_COMPLETED | N_FAILED | N_CANCELLED | N_TIMED_OUT

datatype delegation_event_type = V_STATUS delegation_status | V_STARTED | V_WAIT_CLEARED

datatype expected_output = TEXT | JSON | ARTIFACTS

datatype result_status = DR_PENDING | DR_DELIVERED

datatype reservation_status = RESERVED | RELEASED

record budget_row =
  be_runId :: string
  be_rootRunId :: string
  be_parentRunId :: "string option"
  be_depth :: int
  be_maxTurns :: int
  be_maxModelCalls :: int
  be_maxToolCalls :: int
  be_maxOutputTokens :: int
  be_maxTotalTokens :: int
  be_maxDurationMs :: int
  be_deadlineAt :: int
  be_maxDelegationDepth :: int
  be_maxActiveChildren :: int
  be_maxTotalChildren :: int
  be_allowedWorkspaceIds :: "string list"
  be_allowedSkillIds :: "string list"
  be_allowedToolNames :: "string list"
  be_usedTurns :: int
  be_usedInputTokens :: int
  be_usedOutputTokens :: int
  be_usedModelCalls :: int
  be_usedToolCalls :: int
  be_delegatedUsedTurns :: int
  be_delegatedUsedInputTokens :: int
  be_delegatedUsedOutputTokens :: int
  be_delegatedUsedModelCalls :: int
  be_delegatedUsedToolCalls :: int
  be_createdAt :: int
  be_updatedAt :: int

record delegation_row =
  dg_delegationId :: string
  dg_idempotencyKey :: string
  dg_rootRunId :: string
  dg_parentRunId :: string
  dg_parentAttemptId :: string
  dg_parentToolCallId :: "string option"
  dg_childConversationId :: string
  dg_childRunId :: string
  dg_depth :: int
  dg_status :: delegation_status
  dg_taskSha256 :: string
  dg_workspaceScope :: "string list"
  dg_skillIds :: "string list"
  dg_toolNames :: "string list"
  dg_expectedOutput :: expected_output
  dg_resultSummarySha256 :: "string option"
  dg_createdAt :: int
  dg_startedAt :: "int option"
  dg_endedAt :: "int option"
  dg_updatedAt :: int

record delegation_event_row =
  dv_delegationId :: string
  dv_sequence :: int
  dv_eventType :: delegation_event_type
  dv_payload :: json
  dv_emittedAt :: int

record wait_row =
  dw_parentRunId :: string
  dw_delegationId :: string
  dw_state :: string
  dw_createdAt :: int
  dw_updatedAt :: int

record result_delivery_row =
  dr_delegationId :: string
  dr_parentRunId :: string
  dr_parentAttemptId :: string
  dr_parentToolCallId :: string
  dr_toolName :: string
  dr_status :: result_status
  dr_resultSha256 :: "string option"
  dr_createdAt :: int
  dr_deliveredAt :: "int option"
  dr_updatedAt :: int

record reservation_row =
  rs_delegationId :: string
  rs_parentRunId :: string
  rs_childRunId :: string
  rs_status :: reservation_status
  rs_reservedTurns :: int
  rs_reservedModelCalls :: int
  rs_reservedToolCalls :: int
  rs_reservedTotalTokens :: int
  rs_chargedTurns :: int
  rs_chargedInputTokens :: int
  rs_chargedOutputTokens :: int
  rs_chargedModelCalls :: int
  rs_chargedToolCalls :: int
  rs_releaseReason :: "delegation_status option"
  rs_createdAt :: int
  rs_releasedAt :: "int option"
  rs_updatedAt :: int

section \<open>Goals\<close>

datatype goal_status = G_ACTIVE | G_PAUSED | G_BLOCKED | G_COMPLETED | G_CANCELLED

datatype step_status = S_PENDING | S_IN_PROGRESS | S_BLOCKED | S_COMPLETED | S_CANCELLED

datatype execution_status = E_QUEUED | E_RUNNING | E_WAITING | E_BLOCKED | E_SUCCEEDED | E_FAILED | E_CANCELLED

datatype step_execution_status = P_PENDING | P_READY | P_RUNNING | P_WAITING | P_BLOCKED | P_SUCCEEDED | P_FAILED
  | P_CANCELLED | P_SKIPPED

datatype retry_mode = RETRY_MANUAL

datatype blocker_type = TASK_OUTPUT | TASK_FAILURE | OPERATOR | DEPENDENCY | RETRY_LIMIT

datatype blocker_status = B_OPEN | B_RESOLVED

record goal_row =
  g_goalId :: string
  g_workspaceId :: string
  g_conversationId :: string
  g_objective :: string
  g_status :: goal_status
  g_lastNote :: "string option"
  g_blockerFingerprint :: "string option"
  g_consecutiveBlockerCount :: int
  g_continuationCount :: int
  g_planRevision :: int
  g_sourceRunId :: "string option"
  g_sourceAttemptId :: "string option"
  g_createdAt :: int
  g_updatedAt :: int
  g_terminalAt :: "int option"
  g_revision :: int

record step_row =
  ps_stepId :: string
  ps_goalId :: string
  ps_ordinal :: int
  ps_title :: string
  ps_status :: step_status
  ps_note :: "string option"
  ps_sourceRunId :: "string option"
  ps_sourceAttemptId :: "string option"
  ps_startedAt :: "int option"
  ps_completedAt :: "int option"
  ps_updatedAt :: int
  ps_revision :: int

record revision_step_row =
  pr_goalId :: string
  pr_planRevision :: int
  pr_stepId :: string
  pr_ordinal :: int
  pr_title :: string
  pr_required :: bool
  pr_retryMode :: retry_mode
  pr_maxAttempts :: int
  pr_createdAt :: int

record goal_event_row =
  ge_goalId :: string
  ge_sequence :: int
  ge_eventType :: string
  ge_payload :: json
  ge_sourceRunId :: "string option"
  ge_sourceAttemptId :: "string option"
  ge_emittedAt :: int

record execution_row =
  gx_goalId :: string
  gx_workspaceId :: string
  gx_conversationId :: string
  gx_planRevision :: int
  gx_flowId :: string
  gx_controllerId :: string
  gx_status :: execution_status
  gx_currentStepId :: "string option"
  gx_createdAt :: int
  gx_updatedAt :: int
  gx_endedAt :: "int option"
  gx_revision :: int

record step_execution_row =
  sx_goalId :: string
  sx_stepId :: string
  sx_planRevision :: int
  sx_ordinal :: int
  sx_status :: step_execution_status
  sx_currentTaskId :: "string option"
  sx_attemptCount :: int
  sx_lastTerminalOutcome :: "terminal_outcome option"
  sx_lastSummary :: "string option"
  sx_startedAt :: "int option"
  sx_completedAt :: "int option"
  sx_retryMode :: retry_mode
  sx_maxAttempts :: int
  sx_nextRetryAt :: "int option"
  sx_lastRetryReason :: "string option"
  sx_updatedAt :: int
  sx_revision :: int

record blocker_row =
  bk_blockerId :: string
  bk_goalId :: string
  bk_stepId :: string
  bk_planRevision :: int
  bk_taskId :: "string option"
  bk_blockerType :: blocker_type
  bk_fingerprint :: string
  bk_summary :: string
  bk_evidence :: json
  bk_status :: blocker_status
  bk_occurrenceCount :: int
  bk_createdAt :: int
  bk_updatedAt :: int
  bk_resolvedAt :: "int option"
  bk_resolvedBy :: "string option"
  bk_resolution :: "string option"
  bk_revision :: int

section \<open>Workspaces, tool calls and approvals\<close>

datatype workspace_access = READ_ONLY | READ_WRITE

datatype workspace_trust = CONFIGURED_LOCAL

datatype artifact_kind = READ_OUTPUT | SEARCH_OUTPUT | FILE_CHANGE | BROWSER_SCREENSHOT | BROWSER_DOWNLOAD

record workspace_row =
  wg_workspaceId :: string
  wg_displayName :: string
  wg_canonicalRoot :: string
  wg_rootRevision :: string
  wg_accessMode :: workspace_access
  wg_trustState :: workspace_trust
  wg_updatedAt :: int

record artifact_row =
  wa_artifactId :: string
  wa_runId :: string
  wa_attemptId :: string
  wa_workspaceId :: string
  wa_kind :: artifact_kind
  wa_relativePath :: "string option"
  wa_operation :: string
  wa_beforeSha256 :: "string option"
  wa_afterSha256 :: "string option"
  wa_storagePath :: string
  wa_sizeBytes :: int
  wa_createdAt :: int

datatype tool_call_status = TC_PENDING_APPROVAL | TC_APPROVED | TC_RUNNING | TC_COMPLETED | TC_FAILED | TC_DENIED | TC_CANCELLED

datatype approval_status = AP_PENDING | AP_APPROVED | AP_DENIED | AP_EXPIRED | AP_CONSUMED | AP_CANCELLED

datatype approval_decision = Allow_once | Allow_for_conversation | Deny

datatype process_status = PC_STARTING | PC_RUNNING | PC_EXITED | PC_FAILED_TO_START | PC_CANCELLED | PC_ORPHANED

datatype process_mode = FOREGROUND | BACKGROUND

datatype command_kind = ARGV | SHELL

datatype backend_kind = HOST | DOCKER

record tool_call_row =
  tc_toolExecutionId :: string
  tc_runId :: string
  tc_attemptId :: string
  tc_conversationId :: string
  tc_workspaceId :: string
  tc_toolCallId :: string
  tc_toolName :: string
  tc_input :: json
  tc_inputHash :: string
  tc_schemaHash :: string
  tc_bindingDigest :: string
  tc_status :: tool_call_status
  tc_result :: "json option"
  tc_errorCode :: "string option"
  tc_createdAt :: int
  tc_updatedAt :: int

record approval_row =
  ap_requestId :: string
  ap_version :: int
  ap_toolExecutionId :: string
  ap_runId :: string
  ap_attemptId :: string
  ap_conversationId :: string
  ap_workspaceId :: string
  ap_toolCallId :: string
  ap_toolName :: string
  ap_bindingDigest :: string
  ap_policyFingerprint :: string
  ap_status :: approval_status
  ap_decision :: "approval_decision option"
  ap_summary :: json
  ap_continuation :: json
  ap_expiresAt :: int
  ap_resolvedAt :: "int option"
  ap_consumedAt :: "int option"
  ap_createdAt :: int
  ap_updatedAt :: int

record grant_row =
  ag_conversationId :: string
  ag_policyFingerprint :: string
  ag_createdFromRequestId :: string
  ag_createdAt :: int

record process_row =
  pc_processId :: string
  pc_toolExecutionId :: string
  pc_runId :: string
  pc_attemptId :: string
  pc_workspaceId :: string
  pc_toolCallId :: string
  pc_mode :: process_mode
  pc_commandKind :: command_kind
  pc_commandDisplay :: string
  pc_cwdRelative :: string
  pc_status :: process_status
  pc_pid :: "int option"
  pc_stdoutPath :: string
  pc_stderrPath :: string
  pc_backendKind :: backend_kind
  pc_backendHandleId :: "string option"
  pc_sandboxed :: bool
  pc_confinement :: "json option"
  pc_exitCode :: "int option"
  pc_exitSignal :: "string option"
  pc_startedAt :: "int option"
  pc_endedAt :: "int option"
  pc_updatedAt :: int

section \<open>The database and its transactions\<close>

record db =
  conversations :: "conversation_row list"
  conversation_messages :: "message_row list"
  agent_runs :: "run_row list"
  run_attempts :: "attempt_row list"
  run_events :: "event_row list"
  conversation_submissions :: "submission_row list"
  conversation_projections :: "projection_row list"
  model_invocations :: "invocation_row list"
  background_tasks :: "task_row list"
  background_task_events :: "task_event_row list"
  task_completion_deliveries :: "delivery_row list"
  task_flows :: "flow_row list"
  task_flow_tasks :: "flow_link_row list"
  task_flow_events :: "flow_event_row list"
  automation_jobs :: "job_row list"
  automation_runs :: "arun_row list"
  run_budget_envelopes :: "budget_row list"
  run_delegations :: "delegation_row list"
  run_delegation_events :: "delegation_event_row list"
  run_delegation_waits :: "wait_row list"
  run_delegation_result_deliveries :: "result_delivery_row list"
  run_delegation_budget_reservations :: "reservation_row list"
  agent_goals :: "goal_row list"
  agent_goal_plan_steps :: "step_row list"
  agent_goal_plan_revision_steps :: "revision_step_row list"
  agent_goal_events :: "goal_event_row list"
  agent_goal_executions :: "execution_row list"
  agent_goal_step_executions :: "step_execution_row list"
  agent_goal_step_blockers :: "blocker_row list"
  workspace_registrations :: "workspace_row list"
  workspace_artifacts :: "artifact_row list"
  tool_calls :: "tool_call_row list"
  approval_requests :: "approval_row list"
  approval_conversation_grants :: "grant_row list"
  process_records :: "process_row list"
  connector_accounts :: "account_row list"
  connector_bindings :: "binding_row list"
  connector_ingress_events :: "ingress_row list"
  connector_deliveries :: "outgoing_row list"
  connector_delivery_attempts :: "dispatch_row list"
  connector_delivery_receipts :: "receipt_row list"
  connector_dead_letters :: "letter_row list"
  memory_records :: "memory_row list"
  maintenance_leases :: "lease_row list"
  maintenance_sweep_state :: "sweep_row list"
  retention_tombstones :: "tombstone_row list"

definition empty_db :: db where
  "empty_db = \<lparr>conversations = [], conversation_messages = [], agent_runs = [], run_attempts = [],
     run_events = [], conversation_submissions = [], conversation_projections = [], model_invocations = [],
     background_tasks = [], background_task_events = [], task_completion_deliveries = [],
     task_flows = [], task_flow_tasks = [], task_flow_events = [],
     automation_jobs = [], automation_runs = [],
     run_budget_envelopes = [], run_delegations = [], run_delegation_events = [], run_delegation_waits = [],
     run_delegation_result_deliveries = [], run_delegation_budget_reservations = [],
     agent_goals = [], agent_goal_plan_steps = [], agent_goal_plan_revision_steps = [], agent_goal_events = [],
     agent_goal_executions = [], agent_goal_step_executions = [], agent_goal_step_blockers = [],
     workspace_registrations = [], workspace_artifacts = [], tool_calls = [], approval_requests = [],
     approval_conversation_grants = [], process_records = [],
     connector_accounts = [], connector_bindings = [], connector_ingress_events = [], connector_deliveries = [],
     connector_delivery_attempts = [], connector_delivery_receipts = [], connector_dead_letters = [],
     memory_records = [], maintenance_leases = [], maintenance_sweep_state = [], retention_tombstones = []\<rparr>"

text \<open>The caller sees the outcome and the database that outlives it.\<close>

definition transaction :: "(db \<Rightarrow> err + (db \<times> 'a)) \<Rightarrow> db \<Rightarrow> (err + 'a) \<times> db" where
  "transaction op s = (case op s of Inl e \<Rightarrow> (Inl e, s) | Inr (s', x) \<Rightarrow> (Inr x, s'))"

lemma transaction_rollback: "fst (transaction op s) = Inl e \<Longrightarrow> snd (transaction op s) = s"
  by (auto simp: transaction_def split: sum.splits)

lemma transaction_commit: "op s = Inr (s', x) \<Longrightarrow> transaction op s = (Inr x, s')"
  by (simp add: transaction_def)

text \<open>Reads of the conversation tables by primary key.\<close>

definition getConversation :: "string \<Rightarrow> db \<Rightarrow> conversation_row option" where
  "getConversation i s = tbl_get c_conversationId i (conversations s)"

definition getRun :: "string \<Rightarrow> db \<Rightarrow> run_row option" where
  "getRun i s = tbl_get r_runId i (agent_runs s)"

definition getAttempt :: "string \<Rightarrow> db \<Rightarrow> attempt_row option" where
  "getAttempt i s = tbl_get a_attemptId i (run_attempts s)"

definition getMessage :: "string \<Rightarrow> db \<Rightarrow> message_row option" where
  "getMessage i s = tbl_get m_messageId i (conversation_messages s)"

section \<open>Statements of a transaction\<close>

text \<open>
  The body of a transaction: a sequence of repository calls on the one database, which the first exception
  leaves. \<open>rop_do\<close> is a call without a result, \<open>rop_found\<close> is \<open>if (!row) throw error\<close>.
\<close>

type_synonym 'a rop = "db \<Rightarrow> err + (db \<times> 'a)"

definition rop_return :: "'a \<Rightarrow> 'a rop" where
  "rop_return x s = Inr (s, x)"

definition rop_throw :: "err \<Rightarrow> 'a rop" where
  "rop_throw e s = Inl e"

definition rop_bind :: "'a rop \<Rightarrow> ('a \<Rightarrow> 'b rop) \<Rightarrow> 'b rop" where
  "rop_bind m f s = (case m s of Inl e \<Rightarrow> Inl e | Inr (s', x) \<Rightarrow> f x s')"

definition rop_do :: "(db \<Rightarrow> err + db) \<Rightarrow> unit rop" where
  "rop_do f s = (case f s of Inl e \<Rightarrow> Inl e | Inr s' \<Rightarrow> Inr (s', ()))"

definition rop_read :: "(db \<Rightarrow> 'a) \<Rightarrow> 'a rop" where
  "rop_read q s = Inr (s, q s)"

definition rop_require :: "bool \<Rightarrow> err \<Rightarrow> unit rop" where
  "rop_require b e s = (if b then Inr (s, ()) else Inl e)"

definition rop_of :: "err + 'a \<Rightarrow> 'a rop" where
  "rop_of r s = (case r of Inl e \<Rightarrow> Inl e | Inr x \<Rightarrow> Inr (s, x))"

definition rop_found :: "err \<Rightarrow> (db \<Rightarrow> 'a option) \<Rightarrow> 'a rop" where
  "rop_found e q s = (case q s of None \<Rightarrow> Inl e | Some x \<Rightarrow> Inr (s, x))"

definition rop_when :: "bool \<Rightarrow> unit rop \<Rightarrow> unit rop" where
  "rop_when b m = (if b then m else rop_return ())"

primrec rop_each :: "('a \<Rightarrow> 'b rop) \<Rightarrow> 'a list \<Rightarrow> 'b list rop" where
  "rop_each f [] = rop_return []"
| "rop_each f (x # xs) = rop_bind (f x) (\<lambda>y. rop_bind (rop_each f xs) (\<lambda>ys. rop_return (y # ys)))"

lemma rop_simps [simp]:
  "rop_return x s = Inr (s, x)"
  "rop_throw e s = Inl e"
  "rop_read q s = Inr (s, q s)"
  "rop_bind (rop_return x) f s = f x s"
  "rop_bind (rop_throw e) g s = Inl e"
  "rop_bind (rop_read q) h s = h (q s) s"
  "rop_bind (rop_require b e) k s = (if b then k () s else Inl e)"
  "rop_require b e s = (if b then Inr (s, ()) else Inl e)"
  by (simp_all add: rop_return_def rop_throw_def rop_read_def rop_bind_def rop_require_def)

lemma rop_bind_Inr:
  "rop_bind m f s = Inr (s', y) \<longleftrightarrow> (\<exists>s1 x. m s = Inr (s1, x) \<and> f x s1 = Inr (s', y))"
  by (auto simp: rop_bind_def split: sum.splits)

lemma rop_do_Inr: "rop_do f s = Inr (s', u) \<longleftrightarrow> f s = Inr s'"
  by (auto simp: rop_do_def split: sum.splits)

lemma rop_found_Inr: "rop_found e q s = Inr (s', x) \<longleftrightarrow> s' = s \<and> q s = Some x"
  by (auto simp: rop_found_def split: option.splits)

lemma rop_of_Inr: "rop_of r s = Inr (s', x) \<longleftrightarrow> s' = s \<and> r = Inr x"
  by (auto simp: rop_of_def split: sum.splits)

text \<open>What every statement keeps, a body keeps.\<close>

definition keeps :: "(db \<Rightarrow> db \<Rightarrow> bool) \<Rightarrow> 'a rop \<Rightarrow> bool" where
  "keeps R m \<longleftrightarrow> (\<forall>s s' x. m s = Inr (s', x) \<longrightarrow> R s s')"

lemma keeps_bind:
  assumes "transp R" "keeps R m" "\<And>x. keeps R (f x)"
  shows "keeps R (rop_bind m f)"
  unfolding keeps_def rop_bind_Inr using assms unfolding keeps_def transp_def by blast

lemma keeps_read:
  assumes "reflp R"
  shows "keeps R (rop_return x)" "keeps R (rop_read q)" "keeps R (rop_require b e)" "keeps R (rop_of r)"
    "keeps R (rop_found e2 q2)" "keeps R (rop_throw e3)"
  using assms by (auto simp: keeps_def reflp_def rop_of_Inr rop_found_Inr rop_return_def rop_read_def rop_require_def rop_throw_def)

lemma keeps_do: "keeps R (rop_do f) \<longleftrightarrow> (\<forall>s s'. f s = Inr s' \<longrightarrow> R s s')"
  by (auto simp: keeps_def rop_do_Inr)

lemma keeps_each:
  assumes "reflp R" "transp R" "\<And>x. x \<in> set xs \<Longrightarrow> keeps R (f x)"
  shows "keeps R (rop_each f xs)"
  using assms(3) by (induction xs) (auto intro!: keeps_bind [OF assms(2)] keeps_read [OF assms(1)])

section \<open>Service calls\<close>

text \<open>
  A service method runs several transactions in turn. It returns or throws, and the transactions it
  committed before throwing stay committed: its type is \<open>'a svc\<close>.
\<close>

type_synonym 'a svc = "db \<Rightarrow> (err + 'a) \<times> db"

definition svc_return :: "'a \<Rightarrow> 'a svc" where
  "svc_return x s = (Inr x, s)"

definition svc_of :: "err + 'a \<Rightarrow> 'a svc" where
  "svc_of r s = (r, s)"

definition svc_bind :: "'a svc \<Rightarrow> ('a \<Rightarrow> 'b svc) \<Rightarrow> 'b svc" where
  "svc_bind m f s = (case m s of (Inl e, s') \<Rightarrow> (Inl e, s') | (Inr x, s') \<Rightarrow> f x s')"

definition svc_require :: "bool \<Rightarrow> err \<Rightarrow> unit svc" where
  "svc_require b e s = (if b then Inr () else Inl e, s)"

text \<open>A transaction that only reads.\<close>

definition svc_read :: "(db \<Rightarrow> 'a) \<Rightarrow> 'a svc" where
  "svc_read q s = (Inr (q s), s)"

primrec svc_fold :: "('a \<Rightarrow> 'b \<Rightarrow> 'b svc) \<Rightarrow> 'a list \<Rightarrow> 'b \<Rightarrow> 'b svc" where
  "svc_fold f [] b = svc_return b"
| "svc_fold f (x # xs) b = svc_bind (f x b) (svc_fold f xs)"

lemma svc_bind_return [simp]: "svc_bind (svc_return x) f = f x"
  by (simp add: svc_bind_def svc_return_def fun_eq_iff)

lemma svc_apply_simps [simp]:
  "svc_return x s = (Inr x, s)"
  "svc_of r s = (r, s)"
  "svc_read q s = (Inr (q s), s)"
  "svc_bind (svc_read q2) f s = f (q2 s) s"
  "svc_bind (svc_require b e) g s = (if b then g () s else (Inl e, s))"
  "svc_bind (svc_of r2) h s = (case r2 of Inl e \<Rightarrow> (Inl e, s) | Inr y \<Rightarrow> h y s)"
  by (auto simp: svc_return_def svc_of_def svc_read_def svc_bind_def svc_require_def split: sum.splits)

lemma svc_bind_Inr:
  "svc_bind m f s = (Inr y, s') \<longleftrightarrow> (\<exists>x s1. m s = (Inr x, s1) \<and> f x s1 = (Inr y, s'))"
  by (auto simp: svc_bind_def split: prod.splits sum.splits)

lemma transaction_Inr: "transaction op s = (Inr x, s') \<longleftrightarrow> op s = Inr (s', x)"
  by (auto simp: transaction_def split: sum.splits)

text \<open>What a call may do to the database, as a preorder on databases: a call built from steps of the
  preorder is a step of it, whether it returns or throws.\<close>

locale step_preorder =
  fixes R :: "db \<Rightarrow> db \<Rightarrow> bool"
  assumes refl: "R s s" and trans: "R a b \<Longrightarrow> R b c \<Longrightarrow> R a c"
begin

definition steps :: "'a svc \<Rightarrow> bool" where
  "steps m \<longleftrightarrow> (\<forall>s. R s (snd (m s)))"

lemma stepsD: "steps m \<Longrightarrow> m s = (r, s') \<Longrightarrow> R s s'"
  unfolding steps_def by (metis snd_conv)

lemma steps_return: "steps (svc_return x)" and steps_of: "steps (svc_of r)"
  and steps_read: "steps (svc_read q)" and steps_require: "steps (svc_require b e)"
  by (simp_all add: steps_def svc_require_def refl)

lemma steps_bind:
  assumes "steps m" and "\<And>x. steps (f x)"
  shows "steps (svc_bind m f)"
  unfolding steps_def
proof
  fix s
  obtain r s1 where m: "m s = (r, s1)" by (cases "m s")
  with assms(1) have s1: "R s s1" by (rule stepsD)
  show "R s (snd (svc_bind m f s))"
  proof (cases r)
    case (Inl e)
    with m s1 show ?thesis by (simp add: svc_bind_def)
  next
    case (Inr x)
    with m have "snd (svc_bind m f s) = snd (f x s1)" by (simp add: svc_bind_def)
    with assms(2) s1 show ?thesis by (simp add: steps_def) (meson trans)
  qed
qed

lemma steps_fold: "(\<And>x b. steps (f x b)) \<Longrightarrow> steps (svc_fold f xs b)"
  by (induction xs arbitrary: b) (auto intro: steps_return steps_bind)

lemma steps_transaction: "(\<And>s s' x. op s = Inr (s', x) \<Longrightarrow> R s s') \<Longrightarrow> steps (transaction op)"
  by (auto simp: steps_def transaction_def refl split: sum.splits)

lemma steps_if: "(b \<Longrightarrow> steps m) \<Longrightarrow> (\<not> b \<Longrightarrow> steps n) \<Longrightarrow> steps (if b then m else n)"
  by simp

lemma steps_split: "(\<And>x y. steps (f x y)) \<Longrightarrow> steps (case p of (x, y) \<Rightarrow> f x y)"
  by (simp split: prod.splits)

lemma steps_let: "(\<And>x. steps (f x)) \<Longrightarrow> steps (Let v f)"
  by (simp add: Let_def)

lemma steps_option:
  "(v = None \<Longrightarrow> steps m) \<Longrightarrow> (\<And>x. v = Some x \<Longrightarrow> steps (f x)) \<Longrightarrow>
   steps (case v of None \<Rightarrow> m | Some x \<Rightarrow> f x)"
  by (simp split: option.splits)

lemmas steps_intros = steps_return steps_of steps_read steps_require steps_bind steps_fold
  steps_transaction steps_if steps_split steps_let steps_option

end

end
