(* ===== verification/Task_Completion.thy ===== *)
theory Task_Completion
  imports Regex State_Db
begin

text \<open>
  \<open>packages/state/src/task-completion.ts\<close>: whether the text a managed child task ended with is a
  deliverable. An empty text and a text whose first line only announces further work ("I'll check
  ...", "running the tests") are not, and the task's outcome is \<open>BLOCKED\<close>.

  The pattern for Korean announcements begins with a Hangul syllable in every alternative, which no
  string of code units 0 to 255 contains, so it never matches here; the typographic apostrophe is
  likewise outside the model's strings.
\<close>

section \<open>The patterns\<close>

text \<open>\<open>i'll | i will | i'm | i am | i'm going to | i am going to | let me | i need to\<close>.\<close>

definition rx_intent :: rx where
  "rx_intent = rx_alt
     [rx_seq (rx_word ''i'') (rx_seq (rx_opt (rx_word [CHR 39])) (rx_word ''ll'')),
      rx_word ''i will'',
      rx_seq (rx_word ''i'') (rx_seq (rx_opt (rx_word [CHR 39])) (rx_word ''m'')),
      rx_word ''i am'',
      rx_seq (rx_word ''i'') (rx_seq (rx_opt (rx_word [CHR 39])) (rx_word ''m going to'')),
      rx_word ''i am going to'',
      rx_word ''let me'',
      rx_word ''i need to'']"

definition rx_verb :: "string \<Rightarrow> rx" where
  "rx_verb stem = rx_seq (rx_word stem) (rx_opt (rx_word ''ing''))"

definition rx_e_or_ing :: "string \<Rightarrow> rx" where
  "rx_e_or_ing stem = rx_seq (rx_word stem) (rx_words [''e'', ''ing''])"

definition ENGLISH_PROGRESS_ONLY :: rx where
  "ENGLISH_PROGRESS_ONLY =
     rx_seq rx_intent (rx_seq rx_spaces (rx_seq (rx_opt (rx_seq (rx_word ''now'') rx_spaces))
       (rx_alt
         [rx_e_or_ing ''analyz'', rx_word ''apply'', rx_verb ''check'', rx_word ''continue'',
          rx_seq (rx_word ''debug'') (rx_opt (rx_word ''ging'')),
          rx_seq (rx_verb ''follow'') (rx_seq rx_spaces (rx_word ''up'')),
          rx_verb ''inspect'', rx_e_or_ing ''investigat'',
          rx_seq (rx_verb ''look'') (rx_opt (rx_seq rx_spaces (rx_word ''into''))),
          rx_seq (rx_word ''map'') (rx_opt (rx_word ''ping'')),
          rx_verb ''open'', rx_verb ''read'',
          rx_seq (rx_verb ''report'') (rx_opt (rx_seq rx_spaces (rx_word ''back''))),
          rx_verb ''review'', rx_seq (rx_word ''run'') (rx_opt (rx_word ''ning'')),
          rx_verb ''start'', rx_verb ''test'', rx_word ''trace'', rx_e_or_ing ''trac'',
          rx_verb ''try'', rx_word ''update'', rx_verb ''verify'', rx_verb ''work''])))"

definition BARE_ENGLISH_PROGRESS_ONLY :: rx where
  "BARE_ENGLISH_PROGRESS_ONLY =
     rx_seq (rx_alt
       [rx_e_or_ing ''analyz'', rx_verb ''check'',
        rx_seq (rx_word ''debug'') (rx_opt (rx_word ''ging'')),
        rx_verb ''inspect'', rx_e_or_ing ''investigat'',
        rx_seq (rx_verb ''look'') (rx_seq rx_spaces (rx_word ''into'')),
        rx_seq (rx_word ''map'') (rx_opt (rx_word ''ping'')),
        rx_verb ''read'',
        rx_seq (rx_verb ''report'') (rx_seq rx_spaces (rx_word ''back'')),
        rx_verb ''review'', rx_seq (rx_word ''run'') (rx_opt (rx_word ''ning'')),
        rx_verb ''test'', rx_e_or_ing ''trac'', rx_verb ''verify'',
        rx_seq (rx_verb ''work'') (rx_seq rx_spaces (rx_word ''on''))])
       rx_wordend"

definition FOLLOW_UP_PREFIX :: rx where
  "FOLLOW_UP_PREFIX =
     rx_seq (rx_alt
       [rx_seq (rx_word ''after'')
          (rx_opt (rx_alt [rx_word ''wards'', rx_seq rx_spaces (rx_word ''that'')])),
        rx_seq (rx_word ''from'') (rx_seq rx_spaces (rx_word ''there'')),
        rx_word ''next'',
        rx_seq (rx_word ''once'') (rx_seq rx_spaces (rx_alt
          [rx_word ''done'',
           rx_seq (rx_word ''that'') (rx_seq (rx_opt (rx_word [CHR 39]))
             (rx_seq (rx_word ''s'') (rx_seq rx_spaces (rx_word ''done'')))),
           rx_seq (rx_word ''that'') (rx_seq rx_spaces (rx_seq (rx_word ''is'')
             (rx_seq rx_spaces (rx_word ''done''))))])),
        rx_word ''then''])
       (rx_plus (\<lambda>c. c = CHR '','' \<or> c = CHR ''.'' \<or> js_white c))"

section \<open>The functions\<close>

fun crlf_to_lf :: "string \<Rightarrow> string" where
  "crlf_to_lf (a # b # s) =
     (if a = CHR 13 \<and> b = CHR 10 then CHR 10 # crlf_to_lf s else a # crlf_to_lf (b # s))"
| "crlf_to_lf s = s"

definition normalize_output :: "string option \<Rightarrow> string" where
  "normalize_output v = js_trim (crlf_to_lf (case v of None \<Rightarrow> [] | Some s \<Rightarrow> s))"

definition firstMeaningfulLine :: "string \<Rightarrow> string" where
  "firstMeaningfulLine v =
     (case find (\<lambda>l. l \<noteq> []) (map js_trim (js_split (CHR 10) v)) of None \<Rightarrow> [] | Some l \<Rightarrow> l)"

definition leading_mark :: "char \<Rightarrow> bool" where
  "leading_mark c \<longleftrightarrow> c \<in> {CHR ''-'', CHR ''*'', CHR ''#'', CHR ''>''} \<or> js_white c"

definition isProgressOnly :: "string \<Rightarrow> bool" where
  "isProgressOnly v =
     (let line = js_trim (dropWhile leading_mark (firstMeaningfulLine v))
      in if line = [] then False
         else let withoutFollowUp = (case FOLLOW_UP_PREFIX line of [] \<Rightarrow> line | rest # _ \<Rightarrow> rest)
              in rx_test ENGLISH_PROGRESS_ONLY withoutFollowUp
                 \<or> rx_test BARE_ENGLISH_PROGRESS_ONLY withoutFollowUp)"

record required_completion =
  rc_terminalOutcome :: terminal_outcome
  rc_terminalSummary :: string
  rc_normalizedOutput :: string

definition resolveRequiredTaskCompletion :: "string option \<Rightarrow> required_completion" where
  "resolveRequiredTaskCompletion output =
     (let normalizedOutput = normalize_output output
      in if normalizedOutput = [] then
           \<lparr>rc_terminalOutcome = O_BLOCKED,
            rc_terminalSummary = ''Required completion did not produce a final deliverable.'',
            rc_normalizedOutput = normalizedOutput\<rparr>
         else if isProgressOnly normalizedOutput then
           \<lparr>rc_terminalOutcome = O_BLOCKED,
            rc_terminalSummary =
              ''Required completion ended with progress-only text, not a final deliverable.'',
            rc_normalizedOutput = normalizedOutput\<rparr>
         else
           \<lparr>rc_terminalOutcome = O_SUCCEEDED,
            rc_terminalSummary = ''Completed with a final deliverable.'',
            rc_normalizedOutput = normalizedOutput\<rparr>)"

lemma resolve_None: "rc_terminalOutcome (resolveRequiredTaskCompletion None) = O_BLOCKED"
  by (simp add: resolveRequiredTaskCompletion_def normalize_output_def js_trim_def)

lemma resolve_outcome:
  "rc_terminalOutcome (resolveRequiredTaskCompletion output) = O_SUCCEEDED \<longleftrightarrow>
     normalize_output output \<noteq> [] \<and> \<not> isProgressOnly (normalize_output output)"
  by (simp add: resolveRequiredTaskCompletion_def Let_def)

end
