(* ===== verification/Interfaces.thy ===== *)
theory Interfaces
  imports Prelude
begin

text \<open>
  The contracts between the state repositories and the services above them, as locales.

  \<^item> \<open>revisioned\<close>: a table whose rows are written by \<open>UPDATE ... SET revision = revision + 1
    WHERE key = ? AND revision = ? RETURNING ...\<close>; \<open>revisioned_table\<close> is the same for a table
    given as a list of rows, and a sublocale of it. Clients get, once and for all, that two writers
    holding the same revision cannot both succeed, and that a row's revision counts the writes.
  \<^item> \<open>event_log\<close>: an append-only table keyed by an entity and a sequence number. Clients get that
    appending at \<open>COALESCE(MAX(sequence), 0) + 1\<close> never collides and keeps every entity's sequence
    numbers gap-free from 1.

  The repositories interpret both on their own operations.
\<close>

section \<open>Revisioned tables\<close>

locale revisioned =
  fixes get :: "'k \<Rightarrow> 's \<Rightarrow> 'r option"
    and rev_of :: "'r \<Rightarrow> int"
    and key :: "'u \<Rightarrow> 'k"
    and expected :: "'u \<Rightarrow> int"
    and upd :: "'u \<Rightarrow> 's \<Rightarrow> 'e + ('s \<times> 'r option)"
    and inv :: "'s \<Rightarrow> bool"
  assumes upd_hit: "inv s \<Longrightarrow> upd u s = Inr (s', Some r) \<Longrightarrow>
      (\<exists>r0. get (key u) s = Some r0 \<and> rev_of r0 = expected u)
      \<and> get (key u) s' = Some r \<and> rev_of r = expected u + 1"
    and upd_miss: "inv s \<Longrightarrow> upd u s = Inr (s', None) \<Longrightarrow>
      s' = s \<and> (\<forall>r0. get (key u) s = Some r0 \<longrightarrow> rev_of r0 \<noteq> expected u)"
    and upd_frame: "inv s \<Longrightarrow> upd u s = Inr (s', ro) \<Longrightarrow> k \<noteq> key u \<Longrightarrow> get k s' = get k s"
    and upd_inv: "inv s \<Longrightarrow> upd u s = Inr (s', ro) \<Longrightarrow> inv s'"
begin

text \<open>Two writers that read the same revision: after the first commits, the second changes nothing.\<close>

lemma no_lost_update:
  assumes "inv s" and "upd u s = Inr (s1, Some r1)"
    and "key v = key u" and "expected v = expected u"
    and "upd v s1 = Inr (s2, ro)"
  shows "ro = None \<and> s2 = s1"
proof -
  have inv1: "inv s1" using assms(1,2) by (rule upd_inv)
  have now: "get (key v) s1 = Some r1" "rev_of r1 = expected v + 1"
    using upd_hit [OF assms(1,2)] assms(3,4) by auto
  show ?thesis
  proof (cases ro)
    case None
    with upd_miss [OF inv1] assms(5) show ?thesis by auto
  next
    case (Some r2)
    with upd_hit [OF inv1] assms(5) now show ?thesis by fastforce
  qed
qed

text \<open>A sequence of writes, each of which may miss, and how many of them hit a key.\<close>

fun run_updates :: "'u list \<Rightarrow> 's \<Rightarrow> 'k \<Rightarrow> 'e + ('s \<times> int)" where
  "run_updates [] s k = Inr (s, 0)"
| "run_updates (u # us) s k =
     (case upd u s of Inl e \<Rightarrow> Inl e
      | Inr (s', ro) \<Rightarrow>
          (case run_updates us s' k of Inl e \<Rightarrow> Inl e
           | Inr (s'', n) \<Rightarrow> Inr (s'', if ro \<noteq> None \<and> key u = k then n + 1 else n)))"

lemma upd_revision_step:
  assumes "inv s" and "upd u s = Inr (s', ro)" and "get k s = Some r0"
  shows "\<exists>r1. get k s' = Some r1
      \<and> rev_of r1 = rev_of r0 + (if ro \<noteq> None \<and> key u = k then 1 else 0)"
proof (cases ro)
  case None
  with upd_miss [OF assms(1)] assms(2,3) show ?thesis by auto
next
  case (Some r)
  show ?thesis
  proof (cases "key u = k")
    case True
    with upd_hit [OF assms(1)] assms(2,3) Some show ?thesis by fastforce
  next
    case False
    with upd_frame [OF assms(1,2)] assms(3) show ?thesis by auto
  qed
qed

text \<open>The revision of a row is its initial revision plus the number of writes that hit it.\<close>

lemma revision_counts_updates:
  "inv s \<Longrightarrow> run_updates us s k = Inr (s', n) \<Longrightarrow> get k s = Some r0 \<Longrightarrow>
   \<exists>r1. get k s' = Some r1 \<and> rev_of r1 = rev_of r0 + n"
proof (induction us arbitrary: s r0 n)
  case Nil
  then show ?case by auto
next
  case (Cons u us)
  from Cons.prems(2) obtain t ro m where
      t: "upd u s = Inr (t, ro)" and m: "run_updates us t k = Inr (s', m)"
    and n: "n = (if ro \<noteq> None \<and> key u = k then m + 1 else m)"
    by (auto split: sum.splits prod.splits)
  from upd_revision_step [OF Cons.prems(1) t Cons.prems(3)] obtain r1 where
      r1: "get k t = Some r1" "rev_of r1 = rev_of r0 + (if ro \<noteq> None \<and> key u = k then 1 else 0)"
    by blast
  from Cons.IH [OF upd_inv [OF Cons.prems(1) t] m r1(1)] r1(2) n show ?case by auto
qed

end

text \<open>A table kept as a list of rows with a unique key gives the contract: a write replaces the one row
  that has the key and the expected revision, or changes nothing.\<close>

locale revisioned_table =
  fixes rows :: "'s \<Rightarrow> 'r list"
    and row_key :: "'r \<Rightarrow> 'k"
    and rev_of :: "'r \<Rightarrow> int"
    and key :: "'u \<Rightarrow> 'k"
    and expected :: "'u \<Rightarrow> int"
    and upd :: "'u \<Rightarrow> 's \<Rightarrow> 'e + ('s \<times> 'r option)"
  assumes upd_row: "distinct (map row_key (rows s)) \<Longrightarrow> upd u s = Inr (s', Some r) \<Longrightarrow>
      \<exists>r0. tbl_get row_key (key u) (rows s) = Some r0 \<and> rev_of r0 = expected u
        \<and> rev_of r = expected u + 1 \<and> row_key r = key u
        \<and> rows s' = tbl_replace row_key (key u) r (rows s)"
    and upd_none: "upd u s = Inr (s', None) \<Longrightarrow>
      s' = s \<and> (\<forall>r0. tbl_get row_key (key u) (rows s) = Some r0 \<longrightarrow> rev_of r0 \<noteq> expected u)"

sublocale revisioned_table \<subseteq>
  revisioned "\<lambda>k s. tbl_get row_key k (rows s)" rev_of key expected upd "\<lambda>s. distinct (map row_key (rows s))"
proof
  fix s u s' r
  assume "distinct (map row_key (rows s))" "upd u s = Inr (s', Some r)"
  from upd_row [OF this] show "(\<exists>r0. tbl_get row_key (key u) (rows s) = Some r0 \<and> rev_of r0 = expected u)
      \<and> tbl_get row_key (key u) (rows s') = Some r \<and> rev_of r = expected u + 1"
    by (auto simp: tbl_get_replace)
next
  fix s u s'
  assume "upd u s = Inr (s', None)"
  then show "s' = s \<and> (\<forall>r0. tbl_get row_key (key u) (rows s) = Some r0 \<longrightarrow> rev_of r0 \<noteq> expected u)"
    by (rule upd_none)
next
  fix s u s' ro k
  assume a: "distinct (map row_key (rows s))" "upd u s = Inr (s', ro)" "k \<noteq> key u"
  then show "tbl_get row_key k (rows s') = tbl_get row_key k (rows s)"
    by (cases ro) (auto simp: tbl_get_replace dest: upd_none upd_row)
next
  fix s u s' ro
  assume a: "distinct (map row_key (rows s))" "upd u s = Inr (s', ro)"
  show "distinct (map row_key (rows s'))"
  proof (cases ro)
    case None
    with upd_none a show ?thesis by blast
  next
    case (Some r)
    from upd_row [OF a(1) a(2) [unfolded Some]] a(1) show ?thesis by auto
  qed
qed

section \<open>Event logs\<close>

text \<open>The sequence numbers one entity has in a log, oldest row first.\<close>

definition seqs_of :: "('ev \<Rightarrow> 'k) \<Rightarrow> ('ev \<Rightarrow> int) \<Rightarrow> 'k \<Rightarrow> 'ev list \<Rightarrow> int list" where
  "seqs_of key sq k rows = map sq (filter (\<lambda>e. key e = k) rows)"

definition gap_free :: "int list \<Rightarrow> bool" where
  "gap_free sqs \<longleftrightarrow> sqs = map int [1..<Suc (length sqs)]"

lemma gap_free_Nil [simp]: "gap_free []"
  by (simp add: gap_free_def)

lemma gap_free_snoc: "gap_free sqs \<Longrightarrow> gap_free (sqs @ [int (length sqs) + 1])"
  by (simp add: gap_free_def)

lemma foldl_max_upto:
  "foldl (\<lambda>m r. max m r) 0 (map int [1..<Suc n]) = int n"
  by (induction n) auto

lemma next_sequence_seqs_of:
  "next_sequence (\<lambda>e. key e = k) sq rows = foldl max 0 (seqs_of key sq k rows) + 1"
proof -
  have "foldl (\<lambda>m r. if key r = k then max m (sq r) else m) m rows
      = foldl max m (map sq (filter (\<lambda>e. key e = k) rows))" for m :: int
    by (induction rows arbitrary: m) auto
  then show ?thesis by (simp add: next_sequence_def seqs_of_def)
qed

lemma next_sequence_gap_free:
  assumes "gap_free (seqs_of key sq k rows)"
  shows "next_sequence (\<lambda>e. key e = k) sq rows = int (length (seqs_of key sq k rows)) + 1"
proof -
  let ?q = "seqs_of key sq k rows"
  have "foldl max 0 ?q = foldl max 0 (map int [1..<Suc (length ?q)])"
    using assms by (metis gap_free_def)
  then show ?thesis
    using foldl_max_upto [of "length ?q"] by (simp add: next_sequence_seqs_of)
qed

locale event_log =
  fixes events :: "'s \<Rightarrow> 'ev list"
    and key :: "'ev \<Rightarrow> 'k"
    and sq :: "'ev \<Rightarrow> int"
    and next_seq :: "'k \<Rightarrow> 's \<Rightarrow> int"
    and append :: "'ev \<Rightarrow> 's \<Rightarrow> 'e + 's"
  assumes next_seq: "next_seq k s = next_sequence (\<lambda>e. key e = k) sq (events s)"
    and append_events: "append e s = Inr s' \<Longrightarrow>
      \<exists>e'. key e' = key e \<and> sq e' = sq e \<and> events s' = events s @ [e']"
begin

definition log_ok :: "'s \<Rightarrow> bool" where
  "log_ok s \<longleftrightarrow> (\<forall>k. gap_free (seqs_of key sq k (events s)))"

text \<open>The number handed out is unused, so the primary key (entity, sequence) cannot collide.\<close>

lemma next_seq_fresh: "e \<in> set (events s) \<Longrightarrow> key e = k \<Longrightarrow> sq e \<noteq> next_seq k s"
  using next_sequence_greater [of e "events s" "\<lambda>e. key e = k" sq] by (simp add: next_seq)

text \<open>Appending at the next number keeps every entity's numbers gap-free.\<close>

lemma append_next_log_ok:
  assumes "log_ok s" and "append e s = Inr s'" and "sq e = next_seq (key e) s"
  shows "log_ok s'"
  unfolding log_ok_def
proof
  fix k
  obtain e' where e': "key e' = key e" "sq e' = sq e" "events s' = events s @ [e']"
    using append_events [OF assms(2)] by blast
  have ok: "gap_free (seqs_of key sq k (events s))" using assms(1) by (simp add: log_ok_def)
  show "gap_free (seqs_of key sq k (events s'))"
  proof (cases "key e = k")
    case True
    then have "seqs_of key sq k (events s')
        = seqs_of key sq k (events s) @ [int (length (seqs_of key sq k (events s))) + 1]"
      using e' assms(3) next_sequence_gap_free [OF ok] by (simp add: seqs_of_def next_seq)
    with ok show ?thesis by (simp add: gap_free_snoc)
  next
    case False
    with e' ok show ?thesis by (simp add: seqs_of_def)
  qed
qed

lemma log_ok_same_events: "log_ok s \<Longrightarrow> events s' = events s \<Longrightarrow> log_ok s'"
  by (simp add: log_ok_def)

end

section \<open>Logs that record the status of a row\<close>

text \<open>A table of entities and the log of their events, where every event carries the status its entity
  has from then on. Clients get that the newest event of an entity always shows its status, as long
  as every write of a row is logged in the same transaction.\<close>

definition newest :: "('ev \<Rightarrow> 'k) \<Rightarrow> 'k \<Rightarrow> 'ev list \<Rightarrow> 'ev option" where
  "newest key k evs = (case rev (filter (\<lambda>e. key e = k) evs) of [] \<Rightarrow> None | e # _ \<Rightarrow> Some e)"

lemma newest_append: "newest key k (evs @ [e]) = (if key e = k then Some e else newest key k evs)"
  by (simp add: newest_def)

locale status_log = event_log events key sq next_seq append
  for events :: "'s \<Rightarrow> 'ev list" and key :: "'ev \<Rightarrow> 'k" and sq :: "'ev \<Rightarrow> int"
    and next_seq :: "'k \<Rightarrow> 's \<Rightarrow> int" and append :: "'ev \<Rightarrow> 's \<Rightarrow> 'e + 's" +
  fixes rows :: "'s \<Rightarrow> 'r list" and row_key :: "'r \<Rightarrow> 'k" and row_status :: "'r \<Rightarrow> 'st"
    and event_status :: "'ev \<Rightarrow> 'st"
  assumes append_row: "append e s = Inr s' \<Longrightarrow> rows s' = rows s
      \<and> (\<exists>e'. key e' = key e \<and> sq e' = sq e \<and> event_status e' = event_status e \<and> events s' = events s @ [e'])"
begin

definition status_ok :: "'s \<Rightarrow> bool" where
  "status_ok s \<longleftrightarrow> log_ok s \<and> (\<forall>e \<in> set (events s). key e \<in> row_key ` set (rows s))
     \<and> (\<forall>(k, st) \<in> set (map (\<lambda>r. (row_key r, row_status r)) (rows s)).
          \<exists>e. newest key k (events s) = Some e \<and> event_status e = st)"

lemma status_okD:
  "status_ok s \<Longrightarrow> r \<in> set (rows s) \<Longrightarrow> \<exists>e. newest key (row_key r) (events s) = Some e \<and> event_status e = row_status r"
  by (auto simp: status_ok_def)

lemma status_ok_cong:
  assumes "events s' = events s"
    and "map (\<lambda>r. (row_key r, row_status r)) (rows s') = map (\<lambda>r. (row_key r, row_status r)) (rows s)"
  shows "status_ok s' = status_ok s"
proof -
  have keys: "row_key ` set (rows s') = row_key ` set (rows s)"
    using arg_cong [OF assms(2), of "\<lambda>ps. fst ` set ps"] by (simp add: image_image)
  show ?thesis unfolding status_ok_def log_ok_def assms keys ..
qed

text \<open>Whatever the rows were, logging one entity's status at its next number restores the contract for
  that entity.\<close>

lemma append_status_ok:
  assumes ok: "status_ok s" and ev: "events s1 = events s"
    and e: "append e s1 = Inr s2" and sq: "sq e = next_seq (key e) s1"
    and keys: "row_key ` set (rows s) \<subseteq> row_key ` set (rows s1)" "key e \<in> row_key ` set (rows s1)"
    and rest: "\<And>r. r \<in> set (rows s1) \<Longrightarrow> row_key r \<noteq> key e \<Longrightarrow> r \<in> set (rows s)"
    and new: "\<And>r. r \<in> set (rows s1) \<Longrightarrow> row_key r = key e \<Longrightarrow> row_status r = event_status e"
  shows "status_ok s2"
proof -
  obtain e' where e': "key e' = key e" "event_status e' = event_status e" "events s2 = events s @ [e']"
    and rows2: "rows s2 = rows s1" using append_row [OF e] ev by auto
  have "log_ok s2"
    by (rule append_next_log_ok [OF _ e sq]) (use ok ev in \<open>auto simp: status_ok_def log_ok_def\<close>)
  moreover have "\<exists>x. newest key (row_key r) (events s2) = Some x \<and> event_status x = row_status r"
    if r: "r \<in> set (rows s1)" for r
    using rest [OF r] new [OF r] status_okD [OF ok, of r] e' by (auto simp: newest_append)
  ultimately show ?thesis
    using ok keys e' rows2 by (auto simp: status_ok_def)
qed

lemma write_status_ok:
  assumes ok: "status_ok s" and get: "tbl_get row_key k (rows s) = Some r0" and r: "row_key r = k"
    and s1: "rows s1 = tbl_replace row_key k r (rows s)" "events s1 = events s"
    and e: "append e s1 = Inr s2" "key e = k" "sq e = next_seq k s1" "event_status e = row_status r"
  shows "status_ok s2"
proof (rule append_status_ok [OF ok s1(2) e(1)])
  have set1: "set (rows s1) = insert r {x \<in> set (rows s). row_key x \<noteq> k}"
    using get by (simp add: s1(1) set_tbl_replace)
  show "row_key ` set (rows s) \<subseteq> row_key ` set (rows s1)" "key e \<in> row_key ` set (rows s1)"
    using set1 r e(2) by auto
  show "x \<in> set (rows s)" if "x \<in> set (rows s1)" "row_key x \<noteq> key e" for x
    using that set1 r e(2) by auto
  show "row_status x = event_status e" if "x \<in> set (rows s1)" "row_key x = key e" for x
    using that set1 r e by auto
qed (use e in simp)

lemma insert_status_ok:
  assumes ok: "status_ok s" and fresh: "row_key r \<notin> row_key ` set (rows s)"
    and s1: "rows s1 = rows s @ [r]" "events s1 = events s"
    and e: "append e s1 = Inr s2" "key e = row_key r" "sq e = 1" "event_status e = row_status r"
  shows "status_ok s2"
proof (rule append_status_ok [OF ok s1(2) e(1)])
  have "filter (\<lambda>x. key x = key e) (events s1) = []"
    using ok fresh e(2) s1(2) unfolding status_ok_def filter_empty_conv by metis
  then show "sq e = next_seq (key e) s1"
    by (simp add: e(3) next_seq next_sequence_seqs_of seqs_of_def)
  show "row_status x = event_status e" if "x \<in> set (rows s1)" "row_key x = key e" for x
    using that s1 e fresh by (auto simp: image_iff)
qed (use s1 e in auto)

end

end
