(* ===== verification/Task_Ledger.thy ===== *)
theory Task_Ledger
  imports Task_Completion Interfaces
begin

text \<open>
  \<open>packages/state/src/task-repository.ts\<close>: the durable ledger of background tasks. Every run has one
  task; the task's row is a projection of the run's lifecycle, its events are an append-only log, and
  when a task of a managed flow ends, the same transaction records the completion delivery that will
  wake the flow's controller. The insert of a delivery is the one of
  \<open>packages/state/src/task-delivery-repository.ts\<close>.
\<close>

section \<open>Statements on the task tables\<close>

definition task_terminal :: "task_status \<Rightarrow> bool" where
  "task_terminal st \<longleftrightarrow> st \<in> {T_SUCCEEDED, T_FAILED, T_TIMED_OUT, T_CANCELLED, T_LOST}"

definition task_get :: "string \<Rightarrow> db \<Rightarrow> task_row option" where
  "task_get taskId s = tbl_get t_taskId taskId (background_tasks s)"

definition task_getByRun :: "string \<Rightarrow> db \<Rightarrow> task_row option" where
  "task_getByRun runId s = tbl_get t_runId runId (background_tasks s)"

text \<open>The \<open>CHECK\<close> constraints of \<open>background_tasks\<close> that its types do not already imply.\<close>

definition task_checks :: "task_row \<Rightarrow> bool" where
  "task_checks v \<longleftrightarrow>
     1 \<le> length (t_taskKind v) \<and> length (t_taskKind v) \<le> 128
     \<and> 1 \<le> length (t_taskText v) \<and> length (t_taskText v) \<le> 65536
     \<and> (case t_cleanupAfter v of None \<Rightarrow> True | Some n \<Rightarrow> 0 \<le> n)
     \<and> 0 < t_revision v"

definition parent_exists :: "task_row \<Rightarrow> db \<Rightarrow> bool" where
  "parent_exists v s \<longleftrightarrow> (case t_parentTaskId v of None \<Rightarrow> True
     | Some p \<Rightarrow> p = t_taskId v \<or> task_get p s \<noteq> None)"

definition task_insert :: "task_row \<Rightarrow> db \<Rightarrow> err + db" where
  "task_insert v s =
     res_bind (require (task_checks v) (Sql_Constraint Sql_Check)) (\<lambda>_.
     res_bind (require (task_get (t_taskId v) s = None)
       (Sql_Constraint (Sql_Unique ''background_tasks.task_id''))) (\<lambda>_.
     res_bind (require (task_getByRun (t_runId v) s = None)
       (Sql_Constraint (Sql_Unique ''background_tasks.run_id''))) (\<lambda>_.
     res_bind (require (getConversation (t_conversationId v) s \<noteq> None
         \<and> getRun (t_runId v) s \<noteq> None \<and> parent_exists v s)
       (Sql_Constraint Sql_ForeignKey)) (\<lambda>_.
     Inr (s\<lparr>background_tasks := background_tasks s @ [v]\<rparr>)))))"

definition task_nextEventSequence :: "string \<Rightarrow> db \<Rightarrow> int" where
  "task_nextEventSequence taskId s =
     next_sequence (\<lambda>e. te_taskId e = taskId) te_sequence (background_task_events s)"

definition task_appendEvent :: "task_event_row \<Rightarrow> db \<Rightarrow> err + db" where
  "task_appendEvent v s =
     res_bind (require (json_stringify (te_payload v) \<noteq> None) Js_Error) (\<lambda>_.
     res_bind (require (0 < te_sequence v \<and> 1 \<le> length (te_eventType v)
         \<and> length (te_eventType v) \<le> 128) (Sql_Constraint Sql_Check)) (\<lambda>_.
     res_bind (require (\<not> (\<exists>e \<in> set (background_task_events s).
         te_taskId e = te_taskId v \<and> te_sequence e = te_sequence v))
       (Sql_Constraint (Sql_Unique ''background_task_events.task_id, background_task_events.sequence''))) (\<lambda>_.
     res_bind (require (task_get (te_taskId v) s \<noteq> None) (Sql_Constraint Sql_ForeignKey)) (\<lambda>_.
     Inr (s\<lparr>background_task_events :=
       background_task_events s @ [v\<lparr>te_payload := json_clean (te_payload v)\<rparr>]\<rparr>)))))"

text \<open>The argument of \<open>update\<close>. A field whose presence the code tests is an option.\<close>

record task_patch =
  tu_taskId :: string
  tu_expectedRevision :: int
  tu_parentTaskId :: "string option"
  tu_runtime :: task_runtime
  tu_taskKind :: string
  tu_sourceId :: "string option"
  tu_status :: task_status
  tu_recoveryState :: recovery_state
  tu_notifyPolicy :: "notify_policy option"
  tu_deliveryStatus :: "delivery_status option"
  tu_terminalOutcome :: "terminal_outcome option option"
  tu_progressSummary :: "string option"
  tu_terminalSummary :: "string option"
  tu_errorCode :: "string option"
  tu_startedAt :: "int option"
  tu_endedAt :: "int option"
  tu_updatedAt :: int
  tu_cleanupAfter :: "int option option"

text \<open>The row \<open>UPDATE ... SET\<close> writes: \<open>existing\<close> supplies the defaults the code read before.\<close>

definition task_updated_row :: "task_patch \<Rightarrow> task_row \<Rightarrow> task_row \<Rightarrow> task_row" where
  "task_updated_row u existing r = r\<lparr>
     t_parentTaskId := tu_parentTaskId u, t_runtime := tu_runtime u, t_taskKind := tu_taskKind u,
     t_sourceId := tu_sourceId u, t_status := tu_status u, t_recoveryState := tu_recoveryState u,
     t_notifyPolicy := (case tu_notifyPolicy u of None \<Rightarrow> t_notifyPolicy existing | Some p \<Rightarrow> p),
     t_deliveryStatus := (case tu_deliveryStatus u of None \<Rightarrow> t_deliveryStatus existing | Some d \<Rightarrow> d),
     t_terminalOutcome := (case tu_terminalOutcome u of None \<Rightarrow> t_terminalOutcome existing | Some v \<Rightarrow> v),
     t_progressSummary := tu_progressSummary u, t_terminalSummary := tu_terminalSummary u,
     t_errorCode := tu_errorCode u, t_startedAt := tu_startedAt u, t_endedAt := tu_endedAt u,
     t_updatedAt := tu_updatedAt u,
     t_cleanupAfter := (case tu_cleanupAfter u of None \<Rightarrow> t_cleanupAfter r | Some v \<Rightarrow> v),
     t_revision := t_revision r + 1\<rparr>"

definition task_update :: "task_patch \<Rightarrow> db \<Rightarrow> err + (db \<times> task_row option)" where
  "task_update u s =
     (case task_get (tu_taskId u) s of
        None \<Rightarrow> Inr (s, None)
      | Some existing \<Rightarrow>
          if t_revision existing \<noteq> tu_expectedRevision u then Inr (s, None)
          else let updated = task_updated_row u existing existing in
            res_bind (require (task_checks updated) (Sql_Constraint Sql_Check)) (\<lambda>_.
            res_bind (require (parent_exists updated s) (Sql_Constraint Sql_ForeignKey)) (\<lambda>_.
            Inr (s\<lparr>background_tasks := tbl_modify
                   (\<lambda>r. t_taskId r = tu_taskId u \<and> t_revision r = tu_expectedRevision u)
                   (task_updated_row u existing) (background_tasks s)\<rparr>,
                 Some updated))))"

text \<open>An update that keeps every column of a row but those the caller then changes.\<close>

definition keep_task :: "task_row \<Rightarrow> int \<Rightarrow> task_patch" where
  "keep_task c now = \<lparr>tu_taskId = t_taskId c, tu_expectedRevision = t_revision c,
     tu_parentTaskId = t_parentTaskId c, tu_runtime = t_runtime c, tu_taskKind = t_taskKind c,
     tu_sourceId = t_sourceId c, tu_status = t_status c, tu_recoveryState = t_recoveryState c,
     tu_notifyPolicy = Some (t_notifyPolicy c), tu_deliveryStatus = Some (t_deliveryStatus c),
     tu_terminalOutcome = Some (t_terminalOutcome c), tu_progressSummary = t_progressSummary c,
     tu_terminalSummary = t_terminalSummary c, tu_errorCode = t_errorCode c,
     tu_startedAt = t_startedAt c, tu_endedAt = t_endedAt c, tu_updatedAt = now,
     tu_cleanupAfter = Some (t_cleanupAfter c)\<rparr>"

section \<open>Creating and classifying the task of a run\<close>

record create_for_run =
  cr_taskId :: string
  cr_workspaceId :: string
  cr_conversationId :: string
  cr_runId :: string
  cr_taskText :: string
  cr_createdAt :: int

definition runtime_name :: "task_runtime \<Rightarrow> string" where
  "runtime_name r = (case r of CONVERSATION \<Rightarrow> ''CONVERSATION'' | DELEGATION \<Rightarrow> ''DELEGATION''
     | AUTOMATION \<Rightarrow> ''AUTOMATION'')"

definition notify_name :: "notify_policy \<Rightarrow> string" where
  "notify_name p = (case p of DONE_ONLY \<Rightarrow> ''DONE_ONLY'' | STATE_CHANGES \<Rightarrow> ''STATE_CHANGES''
     | SILENT \<Rightarrow> ''SILENT'')"

definition task_status_name :: "task_status \<Rightarrow> string" where
  "task_status_name st = (case st of T_QUEUED \<Rightarrow> ''QUEUED'' | T_RUNNING \<Rightarrow> ''RUNNING''
     | T_SUCCEEDED \<Rightarrow> ''SUCCEEDED'' | T_FAILED \<Rightarrow> ''FAILED'' | T_TIMED_OUT \<Rightarrow> ''TIMED_OUT''
     | T_CANCELLED \<Rightarrow> ''CANCELLED'' | T_LOST \<Rightarrow> ''LOST'')"

definition run_status_name :: "run_status \<Rightarrow> string" where
  "run_status_name st = (case st of R_CREATED \<Rightarrow> ''CREATED'' | R_RUNNING \<Rightarrow> ''RUNNING''
     | R_WAITING_APPROVAL \<Rightarrow> ''WAITING_APPROVAL'' | R_COMPLETED \<Rightarrow> ''COMPLETED''
     | R_FAILED \<Rightarrow> ''FAILED'' | R_CANCELLED \<Rightarrow> ''CANCELLED'')"

definition outcome_json :: "terminal_outcome option \<Rightarrow> json" where
  "outcome_json v = (case v of None \<Rightarrow> JNull | Some O_SUCCEEDED \<Rightarrow> JStr ''SUCCEEDED''
     | Some O_BLOCKED \<Rightarrow> JStr ''BLOCKED'')"

definition new_task_row :: "create_for_run \<Rightarrow> task_row" where
  "new_task_row i = \<lparr>t_taskId = cr_taskId i, t_workspaceId = cr_workspaceId i,
     t_conversationId = cr_conversationId i, t_runId = cr_runId i, t_parentTaskId = None,
     t_runtime = CONVERSATION, t_taskKind = ''agent.run'', t_sourceId = None,
     t_taskText = cr_taskText i, t_status = T_QUEUED, t_recoveryState = NONE,
     t_notifyPolicy = SILENT, t_deliveryStatus = D_NOT_APPLICABLE, t_terminalOutcome = None,
     t_progressSummary = Some ''Queued'', t_terminalSummary = None, t_errorCode = None,
     t_createdAt = cr_createdAt i, t_startedAt = None, t_endedAt = None,
     t_updatedAt = cr_createdAt i, t_cleanupAfter = None, t_revision = 1\<rparr>"

definition createForRun :: "create_for_run \<Rightarrow> db \<Rightarrow> err + (db \<times> task_row)" where
  "createForRun i s =
     (let v = new_task_row i in
      res_bind (task_insert v s) (\<lambda>s1.
      res_bind (task_appendEvent \<lparr>te_taskId = t_taskId v, te_sequence = 1,
          te_eventType = ''task.queued'', te_status = t_status v,
          te_recoveryState = t_recoveryState v,
          te_payload = JObj [(''runId'', JStr (t_runId v)), (''runtime'', JStr (runtime_name (t_runtime v)))],
          te_runEventSequence = None, te_emittedAt = t_createdAt v\<rparr> s1) (\<lambda>s2.
      Inr (s2, v))))"

record classify_input =
  ci_runId :: string
  ci_runtime :: task_runtime
  ci_taskKind :: string
  ci_sourceId :: "string option"
  ci_parentRunId :: "string option"
  ci_notifyPolicy :: "notify_policy option"
  ci_updatedAt :: int

text \<open>A string used as a condition: the empty string, \<open>null\<close> and \<open>undefined\<close> count as absent.\<close>

definition truthy :: "string option \<Rightarrow> string option" where
  "truthy v = (case v of Some (c # cs) \<Rightarrow> v | _ \<Rightarrow> None)"

definition classify_patch :: "classify_input \<Rightarrow> task_row \<Rightarrow> string option \<Rightarrow> notify_policy \<Rightarrow> task_patch" where
  "classify_patch i current parentTaskId notifyPolicy = (keep_task current (ci_updatedAt i))\<lparr>
     tu_parentTaskId := parentTaskId, tu_runtime := ci_runtime i, tu_taskKind := ci_taskKind i,
     tu_sourceId := ci_sourceId i, tu_notifyPolicy := Some notifyPolicy\<rparr>"

definition classifyRun :: "classify_input \<Rightarrow> db \<Rightarrow> err + (db \<times> task_row)" where
  "classifyRun i s =
     (case task_getByRun (ci_runId i) s of
        None \<Rightarrow> Inl Js_Error
      | Some current \<Rightarrow>
          let parentTaskId = (case truthy (ci_parentRunId i) of
                  None \<Rightarrow> t_parentTaskId current
                | Some pr \<Rightarrow> map_option t_taskId (task_getByRun pr s));
              notifyPolicy = (case ci_notifyPolicy i of
                  Some p \<Rightarrow> p
                | None \<Rightarrow> if ci_taskKind i = ''task_flow.child'' then DONE_ONLY
                          else t_notifyPolicy current)
          in if t_runtime current = ci_runtime i \<and> t_taskKind current = ci_taskKind i
                \<and> t_sourceId current = ci_sourceId i \<and> t_parentTaskId current = parentTaskId
                \<and> t_notifyPolicy current = notifyPolicy
             then Inr (s, current)
             else
               res_bind (task_update (classify_patch i current parentTaskId notifyPolicy) s) (\<lambda>(s1, ro).
               (case ro of None \<Rightarrow> Inl Js_Error
                | Some updated \<Rightarrow>
                    res_bind (task_appendEvent \<lparr>te_taskId = t_taskId updated,
                        te_sequence = task_nextEventSequence (t_taskId updated) s1,
                        te_eventType = ''task.classified'', te_status = t_status updated,
                        te_recoveryState = t_recoveryState updated,
                        te_payload = JObj
                          [(''runtime'', JStr (runtime_name (t_runtime updated))),
                           (''taskKind'', JStr (t_taskKind updated)),
                           (''sourceId'', jopt_str (t_sourceId updated)),
                           (''parentTaskId'', jopt_str (t_parentTaskId updated)),
                           (''notifyPolicy'', JStr (notify_name (t_notifyPolicy updated)))],
                        te_runEventSequence = None, te_emittedAt = ci_updatedAt i\<rparr> s1) (\<lambda>s2.
                    Inr (s2, updated)))))"

section \<open>Projecting the run's lifecycle\<close>

definition boundedOutput :: "string option \<Rightarrow> string" where
  "boundedOutput v =
     (let output = js_trim (case v of None \<Rightarrow> [] | Some s \<Rightarrow> s)
      in if length output \<le> 16384 then output else take 16381 output @ ''...'')"

record sync_input =
  si_runId :: string
  si_runStatus :: run_status
  si_recoveryState :: recovery_state
  si_startedAt :: "int option"
  si_endedAt :: "int option"
  si_updatedAt :: int
  si_currentAttemptId :: "string option"
  si_completionText :: "string option"
  si_projectionLost :: bool
  si_projectionErrorCode :: "string option"

definition terminal_reason :: "string option \<Rightarrow> db \<Rightarrow> string option" where
  "terminal_reason attemptId s =
     (case truthy attemptId of None \<Rightarrow> None
      | Some a \<Rightarrow> (case getAttempt a s of None \<Rightarrow> None | Some row \<Rightarrow> a_terminalReason row))"

definition project_status :: "sync_input \<Rightarrow> task_row \<Rightarrow> db \<Rightarrow> task_status" where
  "project_status i current s =
     (if si_projectionLost i then T_LOST
      else case si_runStatus i of
        R_CREATED \<Rightarrow>
          if si_recoveryState i = RESUMABLE \<and> (t_startedAt current \<noteq> None \<or> si_startedAt i \<noteq> None)
          then T_RUNNING else T_QUEUED
      | R_RUNNING \<Rightarrow> T_RUNNING
      | R_WAITING_APPROVAL \<Rightarrow> T_RUNNING
      | R_COMPLETED \<Rightarrow> T_SUCCEEDED
      | R_CANCELLED \<Rightarrow> T_CANCELLED
      | R_FAILED \<Rightarrow>
          if terminal_reason (si_currentAttemptId i) s = Some ''AGENT_TIME_BUDGET_EXCEEDED''
          then T_TIMED_OUT else T_FAILED)"

definition project_error :: "sync_input \<Rightarrow> task_status \<Rightarrow> db \<Rightarrow> string option" where
  "project_error i status s =
     (if status = T_LOST then
        Some (case si_projectionErrorCode i of None \<Rightarrow> ''RUNTIME_AUTHORITY_LOST'' | Some e \<Rightarrow> e)
      else if status = T_FAILED \<or> status = T_TIMED_OUT then
        Some (case terminal_reason (si_currentAttemptId i) s of None \<Rightarrow> ''RUN_FAILED'' | Some e \<Rightarrow> e)
      else if status = T_CANCELLED then Some ''OPERATOR_CANCELLED'' else None)"

definition project_completion :: "sync_input \<Rightarrow> task_row \<Rightarrow> task_status \<Rightarrow> required_completion option" where
  "project_completion i current status =
     (if status = T_SUCCEEDED \<and> t_taskKind current = ''task_flow.child''
      then Some (resolveRequiredTaskCompletion (si_completionText i)) else None)"

definition project_progress :: "sync_input \<Rightarrow> task_row \<Rightarrow> task_status \<Rightarrow> string option" where
  "project_progress i current status =
     (if si_runStatus i = R_WAITING_APPROVAL then Some ''Waiting for approval''
      else if si_runStatus i = R_CREATED \<and> si_recoveryState i = RESUMABLE
      then Some ''Waiting for host resume''
      else if status = T_QUEUED then Some ''Queued''
      else if status = T_RUNNING then Some ''Running''
      else t_progressSummary current)"

definition project_summary :: "required_completion option \<Rightarrow> task_status \<Rightarrow> string option" where
  "project_summary completion status =
     (case completion of Some c \<Rightarrow> Some (rc_terminalSummary c)
      | None \<Rightarrow> (case status of T_SUCCEEDED \<Rightarrow> Some ''Completed'' | T_CANCELLED \<Rightarrow> Some ''Cancelled''
          | T_TIMED_OUT \<Rightarrow> Some ''Timed out'' | T_FAILED \<Rightarrow> Some ''Failed'' | T_LOST \<Rightarrow> Some ''Lost''
          | _ \<Rightarrow> None))"

text \<open>\<open>INSERT INTO task_completion_deliveries\<close> under the constraints of the table.\<close>

definition delivery_checks :: "delivery_row \<Rightarrow> bool" where
  "delivery_checks v \<longleftrightarrow>
     0 < d_taskEventSequence v \<and> task_terminal (d_taskStatus v) \<and> 0 \<le> d_attemptCount v
     \<and> 0 < d_revision v
     \<and> (case json_stringify (d_payload v) of None \<Rightarrow> False | Some p \<Rightarrow> length p \<le> 262144)
     \<and> 1 \<le> length (d_deliveryId v) \<and> length (d_deliveryId v) \<le> 256
     \<and> 1 \<le> length (d_workspaceId v) \<and> length (d_workspaceId v) \<le> 64
     \<and> 1 \<le> length (d_ownerConversationId v) \<and> length (d_ownerConversationId v) \<le> 256
     \<and> (case d_controllerId v of None \<Rightarrow> True | Some c \<Rightarrow> 1 \<le> length c \<and> length c \<le> 128)
     \<and> 1 \<le> length (d_idempotencyKey v) \<and> length (d_idempotencyKey v) \<le> 256
     \<and> d_createdAt v \<le> d_updatedAt v
     \<and> (case d_deliveredAt v of None \<Rightarrow> True | Some t \<Rightarrow> d_createdAt v \<le> t)"

definition delivery_refs :: "delivery_row \<Rightarrow> db \<Rightarrow> bool" where
  "delivery_refs v s \<longleftrightarrow>
     (\<exists>e \<in> set (background_task_events s). te_taskId e = d_taskId v \<and> te_sequence e = d_taskEventSequence v)
     \<and> (case d_flowId v of None \<Rightarrow> True | Some f \<Rightarrow> tbl_get f_flowId f (task_flows s) \<noteq> None)
     \<and> getConversation (d_ownerConversationId v) s \<noteq> None
     \<and> (case d_systemMessageId v of None \<Rightarrow> True | Some m \<Rightarrow> getMessage m s \<noteq> None)
     \<and> (case d_wakeRunId v of None \<Rightarrow> True | Some r \<Rightarrow> getRun r s \<noteq> None)"

definition delivery_insert :: "delivery_row \<Rightarrow> db \<Rightarrow> err + db" where
  "delivery_insert v s =
     res_bind (require (json_stringify (d_payload v) \<noteq> None) Js_Error) (\<lambda>_.
     res_bind (require (delivery_checks v) (Sql_Constraint Sql_Check)) (\<lambda>_.
     res_bind (require (\<not> (\<exists>d \<in> set (task_completion_deliveries s). d_deliveryId d = d_deliveryId v))
       (Sql_Constraint (Sql_Unique ''task_completion_deliveries.delivery_id''))) (\<lambda>_.
     res_bind (require (\<not> (\<exists>d \<in> set (task_completion_deliveries s). d_idempotencyKey d = d_idempotencyKey v))
       (Sql_Constraint (Sql_Unique ''task_completion_deliveries.idempotency_key''))) (\<lambda>_.
     res_bind (require (\<not> (\<exists>d \<in> set (task_completion_deliveries s).
         d_taskId d = d_taskId v \<and> d_taskEventSequence d = d_taskEventSequence v))
       (Sql_Constraint (Sql_Unique ''task_completion_deliveries.task_id, task_completion_deliveries.task_event_sequence''))) (\<lambda>_.
     res_bind (require (delivery_refs v s) (Sql_Constraint Sql_ForeignKey)) (\<lambda>_.
     Inr (s\<lparr>task_completion_deliveries :=
       task_completion_deliveries s @ [v\<lparr>d_payload := json_clean (d_payload v)\<rparr>]\<rparr>)))))))"

text \<open>The flow a task is linked to: the join of \<open>task_flow_tasks\<close> with \<open>task_flows\<close>.\<close>

definition linked_flow :: "string \<Rightarrow> db \<Rightarrow> flow_row option" where
  "linked_flow taskId s =
     (case tbl_get l_taskId taskId (task_flow_tasks s) of None \<Rightarrow> None
      | Some l \<Rightarrow> tbl_get f_flowId (l_flowId l) (task_flows s))"

definition completion_delivery ::
    "task_row \<Rightarrow> flow_row \<Rightarrow> int \<Rightarrow> string option \<Rightarrow> int \<Rightarrow> delivery_row" where
  "completion_delivery t f sq completionText now =
     (let deliveryId = ''delivery:'' @ t_taskId t @ '':'' @ show_int sq in
      \<lparr>d_deliveryId = deliveryId, d_taskId = t_taskId t, d_taskEventSequence = sq,
       d_flowId = Some (f_flowId f), d_workspaceId = f_workspaceId f,
       d_ownerConversationId = f_ownerKey f, d_controllerId = Some (f_controllerId f),
       d_notifyPolicy = t_notifyPolicy t, d_deliveryStatus = D_PENDING, d_taskStatus = t_status t,
       d_terminalOutcome = t_terminalOutcome t, d_idempotencyKey = deliveryId,
       d_payload = JObj
         [(''taskId'', JStr (t_taskId t)), (''runId'', JStr (t_runId t)),
          (''flowId'', JStr (f_flowId f)), (''taskStatus'', JStr (task_status_name (t_status t))),
          (''terminalOutcome'', outcome_json (t_terminalOutcome t)),
          (''terminalSummary'', jopt_str (t_terminalSummary t)),
          (''errorCode'', jopt_str (t_errorCode t)),
          (''output'', JStr (boundedOutput completionText))],
       d_attemptCount = 0, d_lastError = None, d_systemMessageId = None, d_wakeRunId = None,
       d_controllerExecutionRevision = None, d_controllerStepRevision = None,
       d_controllerFlowRevision = None, d_createdAt = now, d_updatedAt = now,
       d_deliveredAt = None, d_revision = 1\<rparr>)"

definition deliver_completion :: "task_row \<Rightarrow> int \<Rightarrow> sync_input \<Rightarrow> db \<Rightarrow> err + db" where
  "deliver_completion updated eventSequence i s =
     (case linked_flow (t_taskId updated) s of
        None \<Rightarrow> Inl Js_Error
      | Some f \<Rightarrow> delivery_insert
          (completion_delivery updated f eventSequence (si_completionText i) (si_updatedAt i)) s)"

text \<open>The columns \<open>syncRunLifecycle\<close> computes before it compares them with the current row.\<close>

definition sync_patch :: "sync_input \<Rightarrow> task_row \<Rightarrow> db \<Rightarrow> task_patch" where
  "sync_patch i current s =
     (let status = project_status i current s;
          completion = project_completion i current status;
          willDeliver = task_terminal status \<and> t_notifyPolicy current \<noteq> SILENT
      in (keep_task current (si_updatedAt i))\<lparr>
           tu_status := status, tu_recoveryState := si_recoveryState i,
           tu_deliveryStatus := Some (if willDeliver then D_PENDING else t_deliveryStatus current),
           tu_terminalOutcome := Some (map_option rc_terminalOutcome completion),
           tu_progressSummary := project_progress i current status,
           tu_terminalSummary := project_summary completion status,
           tu_errorCode := project_error i status s,
           tu_startedAt := (case t_startedAt current of Some t \<Rightarrow> Some t
             | None \<Rightarrow> (case si_startedAt i of Some t \<Rightarrow> Some t
                | None \<Rightarrow> if status = T_RUNNING then Some (si_updatedAt i) else None)),
           tu_endedAt := (if task_terminal status
             then Some (case si_endedAt i of Some t \<Rightarrow> t | None \<Rightarrow> si_updatedAt i) else None)\<rparr>)"

definition sync_unchanged :: "task_patch \<Rightarrow> task_row \<Rightarrow> bool" where
  "sync_unchanged p current \<longleftrightarrow>
     t_status current = tu_status p \<and> t_recoveryState current = tu_recoveryState p
     \<and> t_progressSummary current = tu_progressSummary p \<and> t_errorCode current = tu_errorCode p
     \<and> Some (t_terminalOutcome current) = tu_terminalOutcome p
     \<and> t_terminalSummary current = tu_terminalSummary p
     \<and> Some (t_deliveryStatus current) = tu_deliveryStatus p"

definition syncRunLifecycle :: "sync_input \<Rightarrow> db \<Rightarrow> err + (db \<times> task_row)" where
  "syncRunLifecycle i s =
     (case task_getByRun (si_runId i) s of
        None \<Rightarrow> Inl Js_Error
      | Some current \<Rightarrow>
          if task_terminal (t_status current) then Inr (s, current)
          else let patch = sync_patch i current s;
                   willDeliver = task_terminal (tu_status patch) \<and> t_notifyPolicy current \<noteq> SILENT
          in if sync_unchanged patch current then Inr (s, current)
             else res_bind (task_update patch s) (\<lambda>(s1, ro).
               (case ro of None \<Rightarrow> Inl Js_Error
                | Some updated \<Rightarrow>
                    let eventSequence = task_nextEventSequence (t_taskId updated) s1 in
                    res_bind (task_appendEvent \<lparr>te_taskId = t_taskId updated,
                        te_sequence = eventSequence,
                        te_eventType = ''task.'' @ js_lower (task_status_name (t_status updated)),
                        te_status = t_status updated, te_recoveryState = t_recoveryState updated,
                        te_payload = JObj
                          [(''runId'', JStr (si_runId i)),
                           (''runStatus'', JStr (run_status_name (si_runStatus i))),
                           (''errorCode'', jopt_str (t_errorCode updated)),
                           (''terminalOutcome'', outcome_json (t_terminalOutcome updated))],
                        te_runEventSequence = None, te_emittedAt = si_updatedAt i\<rparr> s1) (\<lambda>s2.
                    if willDeliver
                    then res_bind (deliver_completion updated eventSequence i s2) (\<lambda>s3. Inr (s3, updated))
                    else Inr (s2, updated)))))"

section \<open>Delivery state and queries\<close>

definition delivery_state_patch ::
    "task_row \<Rightarrow> delivery_status \<Rightarrow> terminal_outcome option option \<Rightarrow> int \<Rightarrow> task_patch" where
  "delivery_state_patch current deliveryStatus terminalOutcome updatedAt = (keep_task current updatedAt)\<lparr>
     tu_deliveryStatus := Some deliveryStatus,
     tu_terminalOutcome := (case terminalOutcome of
       None \<Rightarrow> Some (t_terminalOutcome current) | Some v \<Rightarrow> Some v)\<rparr>"

definition updateDeliveryState ::
    "string \<Rightarrow> delivery_status \<Rightarrow> terminal_outcome option option \<Rightarrow> int \<Rightarrow> db \<Rightarrow> err + (db \<times> task_row)" where
  "updateDeliveryState taskId deliveryStatus terminalOutcome updatedAt s =
     (case task_get taskId s of
        None \<Rightarrow> Inl Js_Error
      | Some current \<Rightarrow>
          if t_deliveryStatus current = deliveryStatus
             \<and> (terminalOutcome = None \<or> Some (t_terminalOutcome current) = terminalOutcome)
          then Inr (s, current)
          else res_bind (task_update (delivery_state_patch current deliveryStatus terminalOutcome updatedAt) s) (\<lambda>(s1, ro).
            (case ro of None \<Rightarrow> Inl Js_Error | Some updated \<Rightarrow> Inr (s1, updated))))"

definition task_list :: "string \<Rightarrow> task_status option \<Rightarrow> task_runtime option \<Rightarrow> nat \<Rightarrow> db \<Rightarrow> task_row list" where
  "task_list workspaceId status runtime limit s =
     take limit (sort_key (\<lambda>t. (- t_updatedAt t, t_taskId t))
       (filter (\<lambda>t. t_workspaceId t = workspaceId
          \<and> (status = None \<or> status = Some (t_status t))
          \<and> (runtime = None \<or> runtime = Some (t_runtime t))) (background_tasks s)))"

definition task_listAll :: "string \<Rightarrow> nat \<Rightarrow> db \<Rightarrow> task_row list" where
  "task_listAll workspaceId limit s =
     take limit (sort_key (\<lambda>t. (t_createdAt t, t_taskId t))
       (filter (\<lambda>t. t_workspaceId t = workspaceId) (background_tasks s)))"

definition task_listRetentionCandidates :: "string \<Rightarrow> int \<Rightarrow> nat \<Rightarrow> db \<Rightarrow> task_row list" where
  "task_listRetentionCandidates workspaceId now limit s =
     take limit (sort_key (\<lambda>t. (the (t_cleanupAfter t), t_taskId t))
       (filter (\<lambda>t. t_workspaceId t = workspaceId
          \<and> (case t_cleanupAfter t of None \<Rightarrow> False | Some c \<Rightarrow> c \<le> now)) (background_tasks s)))"

definition run_terminal :: "run_status \<Rightarrow> bool" where
  "run_terminal st \<longleftrightarrow> st \<in> {R_COMPLETED, R_FAILED, R_CANCELLED}"

definition task_listRetentionSchedulingCandidates :: "string \<Rightarrow> nat \<Rightarrow> db \<Rightarrow> task_row list" where
  "task_listRetentionSchedulingCandidates workspaceId limit s =
     take limit (sort_key (\<lambda>t. (the (t_endedAt t), t_taskId t))
       (filter (\<lambda>t. t_workspaceId t = workspaceId \<and> t_cleanupAfter t = None \<and> t_endedAt t \<noteq> None
          \<and> task_terminal (t_status t)
          \<and> (\<exists>r \<in> set (agent_runs s). r_runId r = t_runId t \<and> run_terminal (r_status r)))
        (background_tasks s)))"

definition task_listEvents :: "string \<Rightarrow> nat \<Rightarrow> db \<Rightarrow> task_event_row list" where
  "task_listEvents taskId limit s =
     rev (take limit (sort_key (\<lambda>e. - te_sequence e)
       (filter (\<lambda>e. te_taskId e = taskId) (background_task_events s))))"

section \<open>The interfaces the ledger provides\<close>

abbreviation task_ids_ok :: "db \<Rightarrow> bool" where
  "task_ids_ok s \<equiv> distinct (map t_taskId (background_tasks s))"

lemma task_updated_keys [simp]:
  "t_taskId (task_updated_row u e r) = t_taskId r"
  "t_runId (task_updated_row u e r) = t_runId r"
  "t_revision (task_updated_row u e r) = t_revision r + 1"
  "t_status (task_updated_row u e r) = tu_status u"
  "t_endedAt (task_updated_row u e r) = tu_endedAt u"
  "t_startedAt (task_updated_row u e r) = tu_startedAt u"
  "t_errorCode (task_updated_row u e r) = tu_errorCode u"
  "t_terminalSummary (task_updated_row u e r) = tu_terminalSummary u"
  "t_cleanupAfter (task_updated_row u e r) = (case tu_cleanupAfter u of None \<Rightarrow> t_cleanupAfter r | Some v \<Rightarrow> v)"
  "t_workspaceId (task_updated_row u e r) = t_workspaceId r"
  "t_conversationId (task_updated_row u e r) = t_conversationId r"
  "t_taskText (task_updated_row u e r) = t_taskText r"
  "t_createdAt (task_updated_row u e r) = t_createdAt r"
  by (simp_all add: task_updated_row_def)

lemma keep_task_simps [simp]:
  "tu_taskId (keep_task c now) = t_taskId c"
  "tu_expectedRevision (keep_task c now) = t_revision c"
  "tu_status (keep_task c now) = t_status c"
  "tu_endedAt (keep_task c now) = t_endedAt c"
  "tu_startedAt (keep_task c now) = t_startedAt c"
  "tu_errorCode (keep_task c now) = t_errorCode c"
  "tu_terminalSummary (keep_task c now) = t_terminalSummary c"
  "tu_cleanupAfter (keep_task c now) = Some (t_cleanupAfter c)"
  by (simp_all add: keep_task_def)

lemma task_update_hit:
  assumes "task_ids_ok s" and "task_update u s = Inr (s', Some r)"
  obtains e where "task_get (tu_taskId u) s = Some e" and "t_revision e = tu_expectedRevision u"
    and "r = task_updated_row u e e" and "task_checks r" and "parent_exists r s"
    and "t_taskId r = tu_taskId u"
    and "s' = s\<lparr>background_tasks := tbl_replace t_taskId (tu_taskId u) r (background_tasks s)\<rparr>"
proof -
  from assms(2) obtain e where e: "task_get (tu_taskId u) s = Some e"
      "t_revision e = tu_expectedRevision u" "r = task_updated_row u e e"
      "task_checks r" "parent_exists r s"
    and s': "s' = s\<lparr>background_tasks := tbl_modify
        (\<lambda>r. t_taskId r = tu_taskId u \<and> t_revision r = tu_expectedRevision u)
        (task_updated_row u e) (background_tasks s)\<rparr>"
    by (auto simp: task_update_def Let_def split: option.splits if_splits)
  have "tbl_modify (\<lambda>r. t_taskId r = tu_taskId u \<and> t_revision r = tu_expectedRevision u)
        (task_updated_row u e) (background_tasks s)
      = tbl_replace t_taskId (tu_taskId u) r (background_tasks s)"
    unfolding e(3) using e(1,2) tbl_get_key [of t_taskId "tu_taskId u" "background_tasks s" e]
    by (intro tbl_modify_unique [OF assms(1)]) (auto simp: task_get_def)
  moreover have "t_taskId r = tu_taskId u"
    using e(1,3) by (auto simp: task_get_def dest: tbl_get_key)
  ultimately show thesis using that e s' by simp
qed

lemma task_update_miss:
  "task_update u s = Inr (s', None) \<Longrightarrow>
     s' = s \<and> (\<forall>e. task_get (tu_taskId u) s = Some e \<longrightarrow> t_revision e \<noteq> tu_expectedRevision u)"
  by (auto simp: task_update_def Let_def split: option.splits if_splits)

lemma task_update_ids:
  assumes "task_ids_ok s" and "task_update u s = Inr (s', ro)"
  shows "task_ids_ok s'"
proof (cases ro)
  case None
  with task_update_miss assms show ?thesis by blast
next
  case (Some r)
  with assms(2) have "task_update u s = Inr (s', Some r)" by simp
  with assms(1) show ?thesis
  proof (rule task_update_hit)
    fix e
    assume "task_get (tu_taskId u) s = Some e" "r = task_updated_row u e e"
      "s' = s\<lparr>background_tasks := tbl_replace t_taskId (tu_taskId u) r (background_tasks s)\<rparr>"
    with assms(1) show ?thesis by (auto simp: task_get_def dest: tbl_get_key)
  qed
qed

interpretation trev: revisioned task_get t_revision tu_taskId tu_expectedRevision task_update task_ids_ok
proof
  fix s u s' r
  assume "task_ids_ok s" "task_update u s = Inr (s', Some r)"
  then show "(\<exists>r0. task_get (tu_taskId u) s = Some r0 \<and> t_revision r0 = tu_expectedRevision u)
      \<and> task_get (tu_taskId u) s' = Some r \<and> t_revision r = tu_expectedRevision u + 1"
    by (rule task_update_hit) (simp add: task_get_def tbl_get_replace)
next
  fix s u s'
  assume "task_update u s = Inr (s', None)"
  then show "s' = s \<and> (\<forall>r0. task_get (tu_taskId u) s = Some r0 \<longrightarrow> t_revision r0 \<noteq> tu_expectedRevision u)"
    by (rule task_update_miss)
next
  fix s u s' ro k
  assume a: "task_ids_ok s" "task_update u s = Inr (s', ro)" "k \<noteq> tu_taskId u"
  show "task_get k s' = task_get k s"
  proof (cases ro)
    case None
    with task_update_miss a(2) show ?thesis by blast
  next
    case (Some r)
    from a(1) a(2) [unfolded Some] show ?thesis
      by (rule task_update_hit) (use a(3) in \<open>simp add: task_get_def tbl_get_replace\<close>)
  qed
next
  fix s u s' ro
  assume "task_ids_ok s" "task_update u s = Inr (s', ro)"
  then show "task_ids_ok s'" by (rule task_update_ids)
qed

lemma task_appendEvent_Inr:
  "task_appendEvent v s = Inr s' \<Longrightarrow>
     s' = s\<lparr>background_task_events := background_task_events s @ [v\<lparr>te_payload := json_clean (te_payload v)\<rparr>]\<rparr>"
  by (auto simp: task_appendEvent_def split: if_splits)

lemma task_appendEvent_frame:
  assumes "task_appendEvent e s = Inr s'"
  shows "background_tasks s' = background_tasks s \<and> (\<exists>e'. te_taskId e' = te_taskId e
      \<and> te_sequence e' = te_sequence e \<and> te_status e' = te_status e
      \<and> background_task_events s' = background_task_events s @ [e'])"
  using task_appendEvent_Inr [OF assms]
  by (auto intro!: exI [of _ "e\<lparr>te_payload := json_clean (te_payload e)\<rparr>"])

interpretation tlog: status_log background_task_events te_taskId te_sequence task_nextEventSequence
    task_appendEvent background_tasks t_taskId t_status te_status
proof unfold_locales
  show "task_nextEventSequence k s = next_sequence (\<lambda>e. te_taskId e = k) te_sequence (background_task_events s)" for k s
    by (simp add: task_nextEventSequence_def)
qed (use task_appendEvent_frame in blast)+

section \<open>The invariant of the ledger\<close>

text \<open>A row: an end time exactly for a terminal status, a start time for a running task, an error
  code exactly for an unsuccessful end, a terminal summary exactly for a terminal status, and a
  cleanup time only for a terminal status.\<close>

definition task_row_ok :: "task_row \<Rightarrow> bool" where
  "task_row_ok t \<longleftrightarrow> task_checks t
     \<and> (t_endedAt t \<noteq> None \<longleftrightarrow> task_terminal (t_status t))
     \<and> (t_status t = T_RUNNING \<longrightarrow> t_startedAt t \<noteq> None)
     \<and> (t_errorCode t \<noteq> None \<longleftrightarrow> t_status t \<in> {T_FAILED, T_TIMED_OUT, T_CANCELLED, T_LOST})
     \<and> (t_terminalSummary t \<noteq> None \<longleftrightarrow> task_terminal (t_status t))
     \<and> (t_cleanupAfter t \<noteq> None \<longrightarrow> task_terminal (t_status t))"

text \<open>A delivery belongs to a task that has ended in the status it reports, and to no other
  delivery's task.\<close>

definition deliveries_ok :: "db \<Rightarrow> bool" where
  "deliveries_ok s \<longleftrightarrow> distinct (map d_taskId (task_completion_deliveries s))
     \<and> (\<forall>d \<in> set (task_completion_deliveries s). \<exists>t \<in> set (background_tasks s).
          t_taskId t = d_taskId d \<and> task_terminal (t_status t) \<and> t_status t = d_taskStatus d)"

definition rows_inv :: "db \<Rightarrow> bool" where
  "rows_inv s \<longleftrightarrow> task_ids_ok s \<and> distinct (map t_runId (background_tasks s))
     \<and> (\<forall>t \<in> set (background_tasks s). task_row_ok t) \<and> deliveries_ok s"

text \<open>The log: gap-free per task, and the newest event of every task shows the status of its row.\<close>

definition log_inv :: "db \<Rightarrow> bool" where
  "log_inv s \<longleftrightarrow> tlog.status_ok s"

definition tasks_inv :: "db \<Rightarrow> bool" where
  "tasks_inv s \<longleftrightarrow> rows_inv s \<and> log_inv s"

lemma rows_inv_cong:
  "background_tasks s' = background_tasks s \<Longrightarrow>
   task_completion_deliveries s' = task_completion_deliveries s \<Longrightarrow> rows_inv s' = rows_inv s"
  by (simp add: rows_inv_def deliveries_ok_def)

lemma log_inv_cong:
  "background_tasks s' = background_tasks s \<Longrightarrow>
   background_task_events s' = background_task_events s \<Longrightarrow> log_inv s' = log_inv s"
  unfolding log_inv_def by (rule tlog.status_ok_cong) simp_all

lemma task_ids_image: "task_get k s \<noteq> None \<longleftrightarrow> k \<in> set (map t_taskId (background_tasks s))"
  by (simp add: task_get_def tbl_get_None)

text \<open>Writing one row keeps the row invariant, provided the new row is well-formed and a terminal
  status stays what it was.\<close>

lemma task_update_rows_inv:
  assumes inv: "rows_inv s" and u: "task_update p s = Inr (s1, Some r)" and ok: "task_row_ok r"
    and keep: "\<And>c. task_get (tu_taskId p) s = Some c \<Longrightarrow> task_terminal (t_status c) \<Longrightarrow> tu_status p = t_status c"
  shows "rows_inv s1"
proof -
  have ids: "task_ids_ok s" using inv by (simp add: rows_inv_def)
  from task_update_hit [OF ids u] obtain c where
      c: "task_get (tu_taskId p) s = Some c" "r = task_updated_row p c c" "t_taskId r = tu_taskId p"
    and s1: "s1 = s\<lparr>background_tasks := tbl_replace t_taskId (tu_taskId p) r (background_tasks s)\<rparr>"
    by metis
  have set1: "set (background_tasks s1) = insert r {t \<in> set (background_tasks s). t_taskId t \<noteq> tu_taskId p}"
    using c(1) by (simp add: s1 set_tbl_replace task_get_def)
  have maps: "map t_taskId (background_tasks s1) = map t_taskId (background_tasks s)"
      "map t_runId (background_tasks s1) = map t_runId (background_tasks s)"
    using ids c by (simp_all add: s1 task_get_def map_tbl_replace)
  have "\<exists>t \<in> set (background_tasks s1). t_taskId t = d_taskId d \<and> task_terminal (t_status t)
      \<and> t_status t = d_taskStatus d" if d: "d \<in> set (task_completion_deliveries s)" for d
  proof -
    from inv d obtain t where t: "t \<in> set (background_tasks s)" "t_taskId t = d_taskId d"
        "task_terminal (t_status t)" "t_status t = d_taskStatus d"
      by (auto simp: rows_inv_def deliveries_ok_def)
    have "t = c" if "t_taskId t = tu_taskId p"
      using tbl_get_distinct [OF ids t(1)] c(1) that by (simp add: task_get_def)
    then show ?thesis using t keep [OF c(1)] c(2,3) set1 by (cases "t_taskId t = tu_taskId p") auto
  qed
  then show ?thesis
    using inv maps set1 ok by (auto simp: rows_inv_def deliveries_ok_def s1 simp del: keys_tbl_replace)
qed

text \<open>Logging the status of the row just written restores the log invariant.\<close>

lemma task_update_log_inv:
  assumes ids: "task_ids_ok s" and inv: "log_inv s" and u: "task_update p s = Inr (s1, Some r)"
    and e: "task_appendEvent e s1 = Inr s2" and ek: "te_taskId e = t_taskId r"
    and es: "te_sequence e = task_nextEventSequence (t_taskId r) s1" and est: "te_status e = t_status r"
  shows "log_inv s2"
proof -
  from task_update_hit [OF ids u] obtain c where
      c: "task_get (tu_taskId p) s = Some c" "t_taskId r = tu_taskId p"
    and s1: "s1 = s\<lparr>background_tasks := tbl_replace t_taskId (tu_taskId p) r (background_tasks s)\<rparr>"
    by metis
  show ?thesis
    unfolding log_inv_def
    by (rule tlog.write_status_ok [OF inv [unfolded log_inv_def] c(1) [unfolded task_get_def] c(2) _ _ e])
      (use s1 ek es est c in auto)
qed

lemma task_log_step:
  assumes "tasks_inv s" and "task_update p s = Inr (s1, Some r)" and "task_row_ok r"
    and "task_appendEvent e s1 = Inr s2" and "te_taskId e = t_taskId r"
    and "te_sequence e = task_nextEventSequence (t_taskId r) s1" and "te_status e = t_status r"
    and "\<And>c. task_get (tu_taskId p) s = Some c \<Longrightarrow> task_terminal (t_status c) \<Longrightarrow> tu_status p = t_status c"
  shows "tasks_inv s2"
proof -
  have inv: "rows_inv s" "log_inv s" "task_ids_ok s"
    using assms(1) by (simp_all add: tasks_inv_def rows_inv_def)
  have "rows_inv s1" using inv(1) assms(2,3,8) by (rule task_update_rows_inv)
  then have "rows_inv s2"
    using rows_inv_cong [of s2 s1] task_appendEvent_Inr [OF assms(4)] by simp
  moreover have "log_inv s2"
    using inv(3,2) assms(2,4-7) by (rule task_update_log_inv)
  ultimately show ?thesis by (simp add: tasks_inv_def)
qed

section \<open>Every operation keeps the invariant\<close>

lemma task_getByRun_get:
  assumes "task_ids_ok s" and "task_getByRun k s = Some c"
  shows "task_get (t_taskId c) s = Some c"
  using assms tbl_get_key [of t_runId k "background_tasks s" c]
  by (auto simp: task_get_def task_getByRun_def intro: tbl_get_distinct)

lemma task_update_hitD:
  assumes "task_ids_ok s" and "task_update u s = Inr (s', Some r)" and "task_get (tu_taskId u) s = Some c"
  shows "r = task_updated_row u c c" and "task_checks r"
    and "s' = s\<lparr>background_tasks := tbl_replace t_taskId (tu_taskId u) r (background_tasks s)\<rparr>"
proof -
  obtain e where e: "task_get (tu_taskId u) s = Some e" "r = task_updated_row u e e" "task_checks r"
      "s' = s\<lparr>background_tasks := tbl_replace t_taskId (tu_taskId u) r (background_tasks s)\<rparr>"
    using task_update_hit [OF assms(1,2)] by metis
  then show "r = task_updated_row u c c" and "task_checks r"
    and "s' = s\<lparr>background_tasks := tbl_replace t_taskId (tu_taskId u) r (background_tasks s)\<rparr>"
    using assms(3) by simp_all
qed

lemma tasks_inv_row:
  "tasks_inv s \<Longrightarrow> task_get k s = Some c \<Longrightarrow> task_row_ok c"
  by (auto simp: tasks_inv_def rows_inv_def task_get_def dest!: tbl_get_key)

text \<open>A task that has not ended has no delivery.\<close>

lemma active_task_undelivered:
  assumes "rows_inv s" and "task_get k s = Some c" and "\<not> task_terminal (t_status c)"
    and "d \<in> set (task_completion_deliveries s)"
  shows "d_taskId d \<noteq> k"
proof
  assume k: "d_taskId d = k"
  from assms(1,4) obtain t where t: "t \<in> set (background_tasks s)" "t_taskId t = k" "task_terminal (t_status t)"
    using k unfolding rows_inv_def deliveries_ok_def by metis
  have "task_get k s = Some t"
    using assms(1) t tbl_get_distinct [of t_taskId "background_tasks s" t]
    by (simp add: rows_inv_def task_get_def)
  with assms(2,3) t(3) show False by simp
qed

lemma createForRun_inv:
  assumes inv: "tasks_inv s" and c: "createForRun i s = Inr (s', v)"
  shows "tasks_inv s'"
proof -
  let ?v = "new_task_row i"
  from c obtain s1 e where s1: "task_insert ?v s = Inr s1" and e: "task_appendEvent e s1 = Inr s'"
    and ek: "te_taskId e = t_taskId ?v" "te_sequence e = 1" "te_status e = t_status ?v"
    by (auto simp: createForRun_def Let_def)
  from s1 have fresh: "task_get (t_taskId ?v) s = None" "task_getByRun (t_runId ?v) s = None"
    and checks: "task_checks ?v"
    and s1': "s1 = s\<lparr>background_tasks := background_tasks s @ [?v]\<rparr>"
    by (auto simp: task_insert_def split: if_splits)
  have "log_inv s'"
    unfolding log_inv_def
    by (rule tlog.insert_status_ok [OF _ _ _ _ e ek])
      (use inv fresh s1' in \<open>auto simp: tasks_inv_def log_inv_def task_get_def tbl_get_None\<close>)
  moreover have "rows_inv s'"
    using inv fresh checks s1' task_appendEvent_Inr [OF e]
    by (auto simp: tasks_inv_def rows_inv_def deliveries_ok_def task_get_def task_getByRun_def
        tbl_get_None task_row_ok_def new_task_row_def task_terminal_def)
  ultimately show ?thesis by (simp add: tasks_inv_def)
qed

text \<open>A patch that keeps a task's lifecycle columns.\<close>

definition keeps_lifecycle :: "task_patch \<Rightarrow> task_row \<Rightarrow> bool" where
  "keeps_lifecycle p c \<longleftrightarrow> tu_taskId p = t_taskId c \<and> tu_status p = t_status c
     \<and> tu_endedAt p = t_endedAt c \<and> tu_startedAt p = t_startedAt c \<and> tu_errorCode p = t_errorCode c
     \<and> tu_terminalSummary p = t_terminalSummary c \<and> tu_cleanupAfter p = Some (t_cleanupAfter c)"

lemma keeps_lifecycle_patches [simp]:
  "keeps_lifecycle (classify_patch i c parent notify) c"
  "keeps_lifecycle (delivery_state_patch c ds oc now) c"
  by (simp_all add: keeps_lifecycle_def classify_patch_def delivery_state_patch_def)

lemma keeps_lifecycle_row_ok:
  "keeps_lifecycle p c \<Longrightarrow> task_row_ok c \<Longrightarrow> task_checks (task_updated_row p c c) \<Longrightarrow>
   task_row_ok (task_updated_row p c c)"
  by (simp add: task_row_ok_def keeps_lifecycle_def)

lemma classifyRun_cases:
  assumes "task_ids_ok s" and "classifyRun i s = Inr (s', v)"
  obtains (same) "s' = s"
  | (logged) c p s1 e where "task_get (tu_taskId p) s = Some c" "keeps_lifecycle p c"
      "task_update p s = Inr (s1, Some v)" "task_appendEvent e s1 = Inr s'"
      "te_taskId e = t_taskId v" "te_sequence e = task_nextEventSequence (t_taskId v) s1"
      "te_status e = t_status v"
proof -
  from assms(2) obtain c where c: "task_getByRun (ci_runId i) s = Some c"
    by (auto simp: classifyRun_def split: option.splits)
  note get = task_getByRun_get [OF assms(1) c]
  show thesis
  proof (cases "s' = s")
    case True
    with same show thesis by simp
  next
    case False
    with assms(2) c obtain parent notify s1 e where
        u: "task_update (classify_patch i c parent notify) s = Inr (s1, Some v)"
        and e: "task_appendEvent e s1 = Inr s'"
        "te_taskId e = t_taskId v" "te_sequence e = task_nextEventSequence (t_taskId v) s1"
        "te_status e = t_status v"
      by (auto simp: classifyRun_def Let_def split: if_splits option.splits prod.splits)
    have "tu_taskId (classify_patch i c parent notify) = t_taskId c" by (simp add: classify_patch_def)
    with logged [OF _ keeps_lifecycle_patches(1) u e] get show thesis by simp
  qed
qed

lemma classifyRun_inv:
  assumes inv: "tasks_inv s" and c: "classifyRun i s = Inr (s', v)"
  shows "tasks_inv s'"
proof -
  have ids: "task_ids_ok s" using inv by (simp add: tasks_inv_def rows_inv_def)
  from ids c show ?thesis
  proof (cases rule: classifyRun_cases)
    case same
    with inv show ?thesis by simp
  next
    case (logged c p s1 e)
    note r = task_update_hitD [OF ids logged(3,1)]
    have "task_row_ok v" using keeps_lifecycle_row_ok logged(2) tasks_inv_row [OF inv logged(1)] r(1,2) by simp
    from task_log_step [OF inv logged(3) this logged(4-7)] logged(1,2) show ?thesis
      by (simp add: keeps_lifecycle_def)
  qed
qed

lemma task_terminal_cases [simp]:
  "task_terminal T_SUCCEEDED" "task_terminal T_FAILED" "task_terminal T_TIMED_OUT"
  "task_terminal T_CANCELLED" "task_terminal T_LOST" "\<not> task_terminal T_QUEUED" "\<not> task_terminal T_RUNNING"
  by (simp_all add: task_terminal_def)

lemma sync_patch_simps [simp]:
  "tu_taskId (sync_patch i c s) = t_taskId c"
  "tu_expectedRevision (sync_patch i c s) = t_revision c"
  "tu_status (sync_patch i c s) = project_status i c s"
  "tu_errorCode (sync_patch i c s) = project_error i (project_status i c s) s"
  "tu_cleanupAfter (sync_patch i c s) = Some (t_cleanupAfter c)"
  by (simp_all add: sync_patch_def Let_def)

text \<open>The projected columns fit together whatever the run's state is.\<close>

lemma sync_row_ok:
  assumes "r = task_updated_row (sync_patch i c s) c c" and "task_checks r"
    and "task_row_ok c" and "\<not> task_terminal (t_status c)"
  shows "task_row_ok r"
proof -
  let ?st = "project_status i c s"
  have "t_endedAt r \<noteq> None \<longleftrightarrow> task_terminal ?st"
    by (simp add: assms(1) sync_patch_def Let_def)
  moreover have "?st = T_RUNNING \<Longrightarrow> t_startedAt r \<noteq> None"
    by (auto simp: assms(1) sync_patch_def Let_def split: option.splits)
  moreover have "t_errorCode r \<noteq> None \<longleftrightarrow> ?st \<in> {T_FAILED, T_TIMED_OUT, T_CANCELLED, T_LOST}"
    by (auto simp: assms(1) project_error_def)
  moreover have "t_terminalSummary r \<noteq> None \<longleftrightarrow> task_terminal ?st"
    by (cases ?st) (auto simp: assms(1) sync_patch_def Let_def project_summary_def project_completion_def)
  ultimately show ?thesis using assms by (simp add: task_row_ok_def)
qed

lemma completion_delivery_simps [simp]:
  "d_taskId (completion_delivery t f sq ct now) = t_taskId t"
  "d_taskStatus (completion_delivery t f sq ct now) = t_status t"
  "d_taskEventSequence (completion_delivery t f sq ct now) = sq"
  "d_deliveryStatus (completion_delivery t f sq ct now) = D_PENDING"
  "d_flowId (completion_delivery t f sq ct now) = Some (f_flowId f)"
  "d_ownerConversationId (completion_delivery t f sq ct now) = f_ownerKey f"
  "d_controllerId (completion_delivery t f sq ct now) = Some (f_controllerId f)"
  by (simp_all add: completion_delivery_def Let_def)

lemma delivery_insert_Inr:
  "delivery_insert v s = Inr s' \<Longrightarrow>
     s' = s\<lparr>task_completion_deliveries :=
       task_completion_deliveries s @ [v\<lparr>d_payload := json_clean (d_payload v)\<rparr>]\<rparr>"
  by (auto simp: delivery_insert_def split: if_splits)

text \<open>The delivery recorded for a task that was active before this transaction.\<close>

lemma deliver_completion_inv:
  assumes inv: "tasks_inv s" and d: "deliver_completion r sq i s = Inr s'"
    and r: "r \<in> set (background_tasks s)" "task_terminal (t_status r)"
    and fresh: "\<And>d. d \<in> set (task_completion_deliveries s) \<Longrightarrow> d_taskId d \<noteq> t_taskId r"
  shows "tasks_inv s'"
proof -
  from d obtain f where "delivery_insert (completion_delivery r f sq (si_completionText i) (si_updatedAt i)) s = Inr s'"
    by (auto simp: deliver_completion_def split: option.splits)
  note s' = delivery_insert_Inr [OF this]
  define v where "v = (completion_delivery r f sq (si_completionText i) (si_updatedAt i))
    \<lparr>d_payload := json_clean (d_payload (completion_delivery r f sq (si_completionText i) (si_updatedAt i)))\<rparr>"
  then have v: "d_taskId v = t_taskId r" "d_taskStatus v = t_status r" by simp_all
  note s' = s' [folded v_def]
  have "deliveries_ok s'"
    using inv v r fresh unfolding s' tasks_inv_def rows_inv_def deliveries_ok_def by fastforce
  then show ?thesis
    using inv log_inv_cong [of s' s] s' by (simp add: tasks_inv_def rows_inv_def)
qed

lemma syncRunLifecycle_cases:
  assumes "syncRunLifecycle i s = Inr (s', v)"
  obtains (same) "task_getByRun (si_runId i) s = Some v" "s' = s"
  | (logged) cur s1 e s2 where "task_getByRun (si_runId i) s = Some cur" "\<not> task_terminal (t_status cur)"
      "task_update (sync_patch i cur s) s = Inr (s1, Some v)" "task_appendEvent e s1 = Inr s2"
      "te_taskId e = t_taskId v" "te_sequence e = task_nextEventSequence (t_taskId v) s1"
      "te_status e = t_status v"
      "if task_terminal (project_status i cur s) \<and> t_notifyPolicy cur \<noteq> SILENT
       then deliver_completion v (te_sequence e) i s2 = Inr s' else s' = s2"
proof -
  from assms obtain cur where cur: "task_getByRun (si_runId i) s = Some cur"
    by (auto simp: syncRunLifecycle_def split: option.splits)
  show thesis
  proof (cases "task_terminal (t_status cur) \<or> sync_unchanged (sync_patch i cur s) cur")
    case True
    with assms cur have "s' = s" "v = cur" by (auto simp: syncRunLifecycle_def Let_def split: if_splits)
    with cur same show thesis by simp
  next
    case False
    with assms cur obtain s1 ro where u: "task_update (sync_patch i cur s) s = Inr (s1, ro)"
      by (auto simp: syncRunLifecycle_def Let_def)
    with assms cur False obtain r where r: "ro = Some r"
      by (cases ro) (auto simp: syncRunLifecycle_def Let_def)
    have "thesis" if "r = v" "task_appendEvent e s1 = Inr s2" "te_taskId e = t_taskId v"
        "te_sequence e = task_nextEventSequence (t_taskId v) s1" "te_status e = t_status v"
        "if task_terminal (project_status i cur s) \<and> t_notifyPolicy cur \<noteq> SILENT
         then deliver_completion v (te_sequence e) i s2 = Inr s' else s' = s2" for e s2
      using logged [of cur s1 e s2] cur False u r that by blast
    with assms cur False u r show thesis
      by (simp add: syncRunLifecycle_def Let_def split: if_splits)
        (metis task_event_row.select_convs(1,2,4))+
  qed
qed

lemma syncRunLifecycle_inv:
  assumes inv: "tasks_inv s" and c: "syncRunLifecycle i s = Inr (s', v)"
  shows "tasks_inv s'"
proof -
  have rows: "rows_inv s" and ids: "task_ids_ok s" using inv by (simp_all add: tasks_inv_def rows_inv_def)
  from c show ?thesis
  proof (cases rule: syncRunLifecycle_cases)
    case same
    with inv show ?thesis by simp
  next
    case (logged cur s1 e s2)
    note get = task_getByRun_get [OF ids logged(1)]
    note hit = task_update_hitD [OF ids logged(3), unfolded sync_patch_simps, OF get]
    note v = hit(1,2) and s1 = hit(3)
    have inv2: "tasks_inv s2"
      using task_log_step [OF inv logged(3) sync_row_ok [OF v tasks_inv_row [OF inv get] logged(2)] logged(4-7)] get logged(2) by auto
    show ?thesis
    proof (cases "task_terminal (project_status i cur s) \<and> t_notifyPolicy cur \<noteq> SILENT")
      case True
      with logged(8) have d: "deliver_completion v (te_sequence e) i s2 = Inr s'" by simp
      note s2 = task_appendEvent_Inr [OF logged(4)]
      have "v \<in> set (background_tasks s2)"
        using get set_tbl_replace [of t_taskId "t_taskId cur" "background_tasks s" cur v]
        by (simp add: s1 s2 task_get_def)
      moreover have "d_taskId d \<noteq> t_taskId v" if "d \<in> set (task_completion_deliveries s2)" for d
        using active_task_undelivered [OF rows get logged(2), of d] that v(1) by (simp add: s1 s2)
      ultimately show ?thesis using deliver_completion_inv [OF inv2 d] True v(1) by simp
    next
      case False
      with logged(8) inv2 show ?thesis by simp
    qed
  qed
qed

lemma updateDeliveryState_cases:
  assumes "updateDeliveryState k ds oc now s = Inr (s', v)"
  obtains (same) "s' = s"
  | (written) c p where "task_get (tu_taskId p) s = Some c" "keeps_lifecycle p c"
      "task_update p s = Inr (s', Some v)"
proof -
  from assms obtain c where get: "task_get k s = Some c"
    by (auto simp: updateDeliveryState_def split: option.splits)
  then have k: "t_taskId c = k" by (auto simp: task_get_def dest: tbl_get_key)
  show thesis
  proof (cases "s' = s")
    case True
    with same show thesis by simp
  next
    case False
    with assms get have u: "task_update (delivery_state_patch c ds oc now) s = Inr (s', Some v)"
      by (auto simp: updateDeliveryState_def split: if_splits option.splits prod.splits)
    have "tu_taskId (delivery_state_patch c ds oc now) = k" by (simp add: delivery_state_patch_def k)
    with written [OF _ keeps_lifecycle_patches(2) u] get show thesis by simp
  qed
qed

lemma updateDeliveryState_inv:
  assumes inv: "tasks_inv s" and c: "updateDeliveryState k ds oc now s = Inr (s', v)"
  shows "tasks_inv s'"
proof -
  have ids: "task_ids_ok s" and rows: "rows_inv s" and log: "log_inv s"
    using inv by (simp_all add: tasks_inv_def rows_inv_def)
  from c show ?thesis
  proof (cases rule: updateDeliveryState_cases)
    case same
    with inv show ?thesis by simp
  next
    case (written c p)
    note hit = task_update_hitD [OF ids written(3,1)]
    have "task_row_ok v"
      using keeps_lifecycle_row_ok written(2) tasks_inv_row [OF inv written(1)] hit(1,2) by simp
    then have "rows_inv s'"
      using task_update_rows_inv [OF rows written(3)] written(1,2) by (simp add: keeps_lifecycle_def)
    moreover have "log_inv s'"
      using log tlog.status_ok_cong [of s' s] ids written(1,2) hit(1)
      by (simp add: hit(3) log_inv_def task_get_def map_tbl_replace keeps_lifecycle_def)
    ultimately show ?thesis by (simp add: tasks_inv_def)
  qed
qed

end
