(* ===== verification/Task_Delivery_Ledger.thy ===== *)
theory Task_Delivery_Ledger
  imports Task_Ledger
begin

text \<open>
  \<open>packages/state/src/task-delivery-repository.ts\<close>: the completion deliveries recorded by the task
  ledger, read by the controllers they wake and written under their own revision. The insert is
  \<open>delivery_insert\<close> of the task ledger, which is its caller.
\<close>

section \<open>Reads\<close>

definition delivery_get :: "string \<Rightarrow> db \<Rightarrow> delivery_row option" where
  "delivery_get deliveryId s = tbl_get d_deliveryId deliveryId (task_completion_deliveries s)"

definition delivery_getByTaskEvent :: "string \<Rightarrow> int \<Rightarrow> db \<Rightarrow> delivery_row option" where
  "delivery_getByTaskEvent taskId taskEventSequence s =
     tbl_get (\<lambda>d. (d_taskId d, d_taskEventSequence d)) (taskId, taskEventSequence) (task_completion_deliveries s)"

definition delivery_getByWakeRun :: "string \<Rightarrow> db \<Rightarrow> delivery_row option" where
  "delivery_getByWakeRun wakeRunId s = tbl_get d_wakeRunId (Some wakeRunId) (task_completion_deliveries s)"

definition delivery_listForTask :: "string \<Rightarrow> nat \<Rightarrow> db \<Rightarrow> delivery_row list" where
  "delivery_listForTask taskId limit s =
     take limit (sort_key (\<lambda>d. (d_taskEventSequence d, d_deliveryId d))
       (filter (\<lambda>d. d_taskId d = taskId) (task_completion_deliveries s)))"

definition delivery_listActionable :: "nat \<Rightarrow> db \<Rightarrow> delivery_row list" where
  "delivery_listActionable limit s =
     take limit (sort_key (\<lambda>d. (d_updatedAt d, d_deliveryId d))
       (filter (\<lambda>d. d_deliveryStatus d \<in> {D_PENDING, D_SESSION_QUEUED, D_FAILED}) (task_completion_deliveries s)))"

section \<open>Writes under a revision\<close>

text \<open>Both \<open>UPDATE ... WHERE delivery_id = ? AND revision = ? RETURNING\<close> statements share this frame;
  \<open>refs\<close> are the foreign keys of the columns the statement sets.\<close>

definition write_delivery ::
    "string \<Rightarrow> int \<Rightarrow> (delivery_row \<Rightarrow> delivery_row) \<Rightarrow> bool \<Rightarrow> db \<Rightarrow> err + (db \<times> delivery_row option)" where
  "write_delivery deliveryId expectedRevision f refs s =
     (case find (\<lambda>d. d_deliveryId d = deliveryId \<and> d_revision d = expectedRevision) (task_completion_deliveries s) of
        None \<Rightarrow> Inr (s, None)
      | Some d \<Rightarrow>
          let updated = (f d)\<lparr>d_revision := d_revision d + 1\<rparr> in
          res_bind (require (delivery_checks updated) (Sql_Constraint Sql_Check)) (\<lambda>_.
          res_bind (require refs (Sql_Constraint Sql_ForeignKey)) (\<lambda>_.
          Inr (s\<lparr>task_completion_deliveries := tbl_modify
                 (\<lambda>d. d_deliveryId d = deliveryId \<and> d_revision d = expectedRevision)
                 (\<lambda>d. (f d)\<lparr>d_revision := d_revision d + 1\<rparr>) (task_completion_deliveries s)\<rparr>,
               Some updated))))"

record delivery_bind =
  db_deliveryId :: string
  db_expectedRevision :: int
  db_controllerExecutionRevision :: "int option"
  db_controllerStepRevision :: "int option"
  db_controllerFlowRevision :: int
  db_updatedAt :: int

definition bindControllerSnapshot :: "delivery_bind \<Rightarrow> db \<Rightarrow> err + (db \<times> delivery_row option)" where
  "bindControllerSnapshot i s =
     write_delivery (db_deliveryId i) (db_expectedRevision i)
       (\<lambda>d. d\<lparr>d_controllerExecutionRevision := db_controllerExecutionRevision i,
              d_controllerStepRevision := db_controllerStepRevision i,
              d_controllerFlowRevision := Some (db_controllerFlowRevision i),
              d_updatedAt := db_updatedAt i\<rparr>) True s"

record delivery_patch =
  du_deliveryId :: string
  du_expectedRevision :: int
  du_deliveryStatus :: delivery_status
  du_attemptCount :: int
  du_lastError :: "string option"
  du_systemMessageId :: "string option"
  du_wakeRunId :: "string option"
  du_updatedAt :: int
  du_deliveredAt :: "int option"

definition delivery_update :: "delivery_patch \<Rightarrow> db \<Rightarrow> err + (db \<times> delivery_row option)" where
  "delivery_update i s =
     write_delivery (du_deliveryId i) (du_expectedRevision i)
       (\<lambda>d. d\<lparr>d_deliveryStatus := du_deliveryStatus i, d_attemptCount := du_attemptCount i,
              d_lastError := du_lastError i, d_systemMessageId := du_systemMessageId i,
              d_wakeRunId := du_wakeRunId i, d_updatedAt := du_updatedAt i,
              d_deliveredAt := du_deliveredAt i\<rparr>)
       ((case du_systemMessageId i of None \<Rightarrow> True | Some m \<Rightarrow> getMessage m s \<noteq> None)
        \<and> (case du_wakeRunId i of None \<Rightarrow> True | Some r \<Rightarrow> getRun r s \<noteq> None)) s"

section \<open>What the writes guarantee\<close>

abbreviation delivery_ids_ok :: "db \<Rightarrow> bool" where
  "delivery_ids_ok s \<equiv> distinct (map d_deliveryId (task_completion_deliveries s))"

text \<open>The columns that identify a delivery and say what it reports.\<close>

definition delivery_identity :: "delivery_row \<Rightarrow> _" where
  "delivery_identity d = (d_deliveryId d, d_taskId d, d_taskEventSequence d, d_flowId d, d_workspaceId d,
     d_ownerConversationId d, d_controllerId d, d_notifyPolicy d, d_taskStatus d, d_terminalOutcome d,
     d_idempotencyKey d, d_payload d, d_createdAt d)"

lemma write_delivery_hit:
  assumes "delivery_ids_ok s" and "write_delivery k n f refs s = Inr (s', Some r)"
    and f: "\<And>d. d_deliveryId (f d) = d_deliveryId d"
  obtains d where "tbl_get d_deliveryId k (task_completion_deliveries s) = Some d" and "d_revision d = n"
    and "r = (f d)\<lparr>d_revision := n + 1\<rparr>" and "d_deliveryId r = k"
    and "s' = s\<lparr>task_completion_deliveries :=
           tbl_replace d_deliveryId k r (task_completion_deliveries s)\<rparr>"
proof -
  let ?p = "\<lambda>d. d_deliveryId d = k \<and> d_revision d = n"
  let ?f = "\<lambda>d. (f d)\<lparr>d_revision := d_revision d + 1\<rparr>"
  from assms(2) obtain d where d: "find ?p (task_completion_deliveries s) = Some d" "r = ?f d"
      "s' = s\<lparr>task_completion_deliveries := tbl_modify ?p ?f (task_completion_deliveries s)\<rparr>"
    by (auto simp: write_delivery_def Let_def split: option.splits if_splits)
  then have p: "?p d" "d \<in> set (task_completion_deliveries s)" by (auto simp: find_Some_iff)
  with tbl_get_distinct [OF assms(1), of d]
  have get: "tbl_get d_deliveryId k (task_completion_deliveries s) = Some d" by simp
  have "tbl_modify ?p ?f (task_completion_deliveries s) = tbl_replace d_deliveryId k (?f d) (task_completion_deliveries s)"
    by (rule tbl_modify_unique [OF assms(1) get]) (use p in auto)
  with that d p get f show thesis by simp
qed

lemma write_delivery_miss:
  assumes "write_delivery k n f refs s = Inr (s', None)"
  shows "s' = s \<and> (\<forall>d. tbl_get d_deliveryId k (task_completion_deliveries s) = Some d \<longrightarrow> d_revision d \<noteq> n)"
  using assms
  by (auto simp: write_delivery_def Let_def find_None_iff split: option.splits if_splits dest!: tbl_get_key)

lemma write_delivery_table:
  assumes "delivery_ids_ok s" and "write_delivery k n f refs s = Inr (s', Some r)"
    and "\<And>d. d_deliveryId (f d) = d_deliveryId d"
  shows "\<exists>d. tbl_get d_deliveryId k (task_completion_deliveries s) = Some d \<and> d_revision d = n
      \<and> d_revision r = n + 1 \<and> d_deliveryId r = k
      \<and> task_completion_deliveries s' = tbl_replace d_deliveryId k r (task_completion_deliveries s)"
  using assms by (rule write_delivery_hit) auto

interpretation dbind: revisioned_table task_completion_deliveries d_deliveryId d_revision
    db_deliveryId db_expectedRevision bindControllerSnapshot
  by unfold_locales (auto simp: bindControllerSnapshot_def intro: write_delivery_table dest: write_delivery_miss)

interpretation drev: revisioned_table task_completion_deliveries d_deliveryId d_revision
    du_deliveryId du_expectedRevision delivery_update
  by unfold_locales (auto simp: delivery_update_def intro: write_delivery_table dest: write_delivery_miss)

text \<open>A write keeps what the delivery is for, so it keeps the invariant of the task ledger.\<close>

lemma write_delivery_identity:
  assumes "delivery_ids_ok s" and "write_delivery k n f refs s = Inr (s', ro)"
    and f: "\<And>d. delivery_identity (f d) = delivery_identity d"
  shows "map delivery_identity (task_completion_deliveries s') = map delivery_identity (task_completion_deliveries s)
    \<and> s' = s\<lparr>task_completion_deliveries := task_completion_deliveries s'\<rparr>"
proof (cases ro)
  case None
  with write_delivery_miss assms(2) have "s' = s" by blast
  then show ?thesis by simp
next
  case (Some r)
  have id: "d_deliveryId (f d) = d_deliveryId d" for d using f [of d] by (simp add: delivery_identity_def)
  from write_delivery_hit [OF assms(1) assms(2) [unfolded Some] id] obtain d where
    d: "tbl_get d_deliveryId k (task_completion_deliveries s) = Some d" "r = (f d)\<lparr>d_revision := n + 1\<rparr>"
    "s' = s\<lparr>task_completion_deliveries := tbl_replace d_deliveryId k r (task_completion_deliveries s)\<rparr>"
    by blast
  have "delivery_identity r = delivery_identity d" using f [of d] d(2) by (simp add: delivery_identity_def)
  with map_tbl_replace [OF assms(1) d(1)] d(3) show ?thesis by simp
qed

lemma deliveries_ok_identity:
  "deliveries_ok s \<longleftrightarrow>
     (let ids = map (\<lambda>d. (d_taskId d, d_taskStatus d)) (task_completion_deliveries s) in
      distinct (map fst ids) \<and> (\<forall>(k, st) \<in> set ids. \<exists>t \<in> set (background_tasks s).
        t_taskId t = k \<and> task_terminal (t_status t) \<and> t_status t = st))"
  by (simp add: deliveries_ok_def comp_def)

lemma tasks_inv_deliveries:
  assumes "tasks_inv s"
    and "map delivery_identity (task_completion_deliveries s') = map delivery_identity (task_completion_deliveries s)"
    and "s' = s\<lparr>task_completion_deliveries := task_completion_deliveries s'\<rparr>"
  shows "tasks_inv s'"
proof -
  let ?g = "\<lambda>(_, k, _, _, _, _, _, _, st, _, _, _, _). (k, st)"
  have g: "map (\<lambda>d. (d_taskId d, d_taskStatus d)) ds = map ?g (map delivery_identity ds)" for ds :: "delivery_row list"
    by (simp add: delivery_identity_def)
  have t: "background_tasks s' = background_tasks s" "background_task_events s' = background_task_events s"
    using arg_cong [OF assms(3), of background_tasks] arg_cong [OF assms(3), of background_task_events]
    by simp_all
  have "deliveries_ok s' = deliveries_ok s"
    unfolding deliveries_ok_identity g assms(2) t by simp
  with assms(1) t log_inv_cong [OF t] show ?thesis by (simp add: tasks_inv_def rows_inv_def)
qed

lemma delivery_update_identity:
  assumes "delivery_ids_ok s" and "delivery_update i s = Inr (s', ro)"
  shows "map delivery_identity (task_completion_deliveries s') = map delivery_identity (task_completion_deliveries s)
    \<and> s' = s\<lparr>task_completion_deliveries := task_completion_deliveries s'\<rparr>"
  using assms unfolding delivery_update_def by (rule write_delivery_identity) (simp add: delivery_identity_def)

lemma bindControllerSnapshot_identity:
  assumes "delivery_ids_ok s" and "bindControllerSnapshot i s = Inr (s', ro)"
  shows "map delivery_identity (task_completion_deliveries s') = map delivery_identity (task_completion_deliveries s)
    \<and> s' = s\<lparr>task_completion_deliveries := task_completion_deliveries s'\<rparr>"
  using assms unfolding bindControllerSnapshot_def by (rule write_delivery_identity) (simp add: delivery_identity_def)

end
