(* ===== verification/Conversation_Ledger.thy ===== *)
theory Conversation_Ledger
  imports Task_Ledger
begin

text \<open>
  \<open>packages/state/src/conversation-repository.ts\<close>: conversations with their messages, runs with their
  attempts and events, model invocations and the rebuilt projection of a conversation. \<open>insertRun\<close>
  and \<open>updateRun\<close> write the run and its background task in one transaction, through the task ledger.
\<close>

definition state_conflict :: "string \<Rightarrow> err" where
  "state_conflict m = State_Error STATE_SCHEMA_INCONSISTENT m"

section \<open>Conversations and messages\<close>

definition createConversation :: "conversation_row \<Rightarrow> db \<Rightarrow> err + db" where
  "createConversation row s =
     res_bind (require (0 \<le> c_lastMessageSequence row) (Sql_Constraint Sql_Check)) (\<lambda>_.
     res_bind (require (getConversation (c_conversationId row) s = None)
       (Sql_Constraint (Sql_Unique ''conversations.conversation_id''))) (\<lambda>_.
     Inr (s\<lparr>conversations := conversations s @ [row]\<rparr>)))"

definition listConversations :: "string \<Rightarrow> nat \<Rightarrow> db \<Rightarrow> conversation_row list" where
  "listConversations workspaceId limit s =
     take limit (sort_key (\<lambda>c. (- c_updatedAt c, c_conversationId c))
       (filter (\<lambda>c. c_workspaceId c = workspaceId) (conversations s)))"

definition nextMessageSequence :: "string \<Rightarrow> int \<Rightarrow> db \<Rightarrow> err + (db \<times> int)" where
  "nextMessageSequence i now s =
     (case getConversation i s of
        None \<Rightarrow> Inl (state_conflict ''conversation disappeared while allocating message sequence'')
      | Some c \<Rightarrow> Inr (s\<lparr>conversations := tbl_modify (\<lambda>r. c_conversationId r = i)
            (\<lambda>r. r\<lparr>c_lastMessageSequence := c_lastMessageSequence r + 1, c_updatedAt := now\<rparr>)
            (conversations s)\<rparr>, c_lastMessageSequence c + 1))"

definition insertMessage :: "message_row \<Rightarrow> db \<Rightarrow> err + db" where
  "insertMessage row s =
     res_bind (require (json_stringify (m_content row) \<noteq> None) Js_Error) (\<lambda>_.
     res_bind (require (0 < m_sequence row) (Sql_Constraint Sql_Check)) (\<lambda>_.
     res_bind (require (getMessage (m_messageId row) s = None)
       (Sql_Constraint (Sql_Unique ''conversation_messages.message_id''))) (\<lambda>_.
     res_bind (require (\<not> (\<exists>m \<in> set (conversation_messages s).
         m_conversationId m = m_conversationId row \<and> m_sequence m = m_sequence row))
       (Sql_Constraint (Sql_Unique ''conversation_messages.conversation_id, conversation_messages.sequence''))) (\<lambda>_.
     res_bind (require (getConversation (m_conversationId row) s \<noteq> None)
       (Sql_Constraint Sql_ForeignKey)) (\<lambda>_.
     Inr (s\<lparr>conversation_messages :=
       conversation_messages s @ [row\<lparr>m_content := json_clean (m_content row)\<rparr>]\<rparr>))))))"

definition listMessages :: "string \<Rightarrow> db \<Rightarrow> message_row list" where
  "listMessages i s = sort_key m_sequence
     (filter (\<lambda>m. m_conversationId m = i) (conversation_messages s))"

definition insertSubmission :: "submission_row \<Rightarrow> db \<Rightarrow> err + db" where
  "insertSubmission row s =
     res_bind (require (length (s_inputHash row) = 64) (Sql_Constraint Sql_Check)) (\<lambda>_.
     res_bind (require (\<not> (\<exists>x \<in> set (conversation_submissions s).
         s_conversationId x = s_conversationId row \<and> s_submissionKey x = s_submissionKey row))
       (Sql_Constraint (Sql_Unique ''conversation_submissions.conversation_id, conversation_submissions.submission_key''))) (\<lambda>_.
     res_bind (require (getConversation (s_conversationId row) s \<noteq> None
         \<and> getMessage (s_messageId row) s \<noteq> None \<and> getRun (s_runId row) s \<noteq> None)
       (Sql_Constraint Sql_ForeignKey)) (\<lambda>_.
     Inr (s\<lparr>conversation_submissions := conversation_submissions s @ [row]\<rparr>))))"

definition getSubmission :: "string \<Rightarrow> string \<Rightarrow> db \<Rightarrow> submission_row option" where
  "getSubmission conversationId key s =
     tbl_get (\<lambda>r. (s_conversationId r, s_submissionKey r)) (conversationId, key) (conversation_submissions s)"

section \<open>Runs\<close>

text \<open>\<open>#taskText\<close>: the text of the triggering message, if it has one that is not blank.\<close>

definition taskText :: "string option \<Rightarrow> db \<Rightarrow> string" where
  "taskText triggerMessageId s =
     (case truthy triggerMessageId of
        None \<Rightarrow> ''Background agent run''
      | Some m \<Rightarrow>
          (case getMessage m s of
             None \<Rightarrow> ''Background agent run''
           | Some row \<Rightarrow>
               (case json_field ''text'' (m_content row) of
                  JStr text \<Rightarrow> if js_trim text \<noteq> [] then text else ''Background agent run''
                | _ \<Rightarrow> ''Background agent run'')))"

definition insertRun :: "run_row \<Rightarrow> db \<Rightarrow> err + db" where
  "insertRun row s =
     res_bind (require (0 \<le> r_lastEventSequence row) (Sql_Constraint Sql_Check)) (\<lambda>_.
     res_bind (require (getRun (r_runId row) s = None)
       (Sql_Constraint (Sql_Unique ''agent_runs.run_id''))) (\<lambda>_.
     res_bind (require (getConversation (r_conversationId row) s \<noteq> None
         \<and> (case r_triggerMessageId row of None \<Rightarrow> True | Some m \<Rightarrow> getMessage m s \<noteq> None))
       (Sql_Constraint Sql_ForeignKey)) (\<lambda>_.
     let s1 = s\<lparr>agent_runs := agent_runs s @ [row]\<rparr> in
     (case getConversation (r_conversationId row) s1 of
        None \<Rightarrow> Inl (state_conflict ''run conversation missing while creating background task'')
      | Some c \<Rightarrow>
          res_bind (createForRun \<lparr>cr_taskId = ''task:'' @ r_runId row, cr_workspaceId = c_workspaceId c,
              cr_conversationId = r_conversationId row, cr_runId = r_runId row,
              cr_taskText = taskText (r_triggerMessageId row) s1, cr_createdAt = r_createdAt row\<rparr> s1)
            (\<lambda>(s2, _). Inr s2)))))"

definition listRuns :: "string \<Rightarrow> db \<Rightarrow> run_row list" where
  "listRuns conversationId s = sort_key (\<lambda>r. (r_createdAt r, r_runId r))
     (filter (\<lambda>r. r_conversationId r = conversationId) (agent_runs s))"

definition listIncompleteRuns :: "db \<Rightarrow> run_row list" where
  "listIncompleteRuns s = sort_key (\<lambda>r. (r_createdAt r, r_runId r))
     (filter (\<lambda>r. r_status r \<in> {R_RUNNING, R_WAITING_APPROVAL}) (agent_runs s))"

definition listCreatedRuns :: "db \<Rightarrow> run_row list" where
  "listCreatedRuns s = sort_key (\<lambda>r. (r_createdAt r, r_runId r))
     (filter (\<lambda>r. r_status r = R_CREATED) (agent_runs s))"

record run_update =
  ru_runId :: string
  ru_status :: run_status
  ru_recoveryState :: recovery_state
  ru_currentAttemptId :: "string option"
  ru_startedAt :: "int option"
  ru_endedAt :: "int option"
  ru_updatedAt :: int
  ru_taskProjectionLost :: bool
  ru_taskProjectionErrorCode :: "string option"
  ru_taskCompletionText :: "string option"

definition coalesce :: "'a option \<Rightarrow> 'a option \<Rightarrow> 'a option" where
  "coalesce a b = (case a of None \<Rightarrow> b | Some _ \<Rightarrow> a)"

definition updated_run :: "run_update \<Rightarrow> run_row \<Rightarrow> run_row" where
  "updated_run u r = r\<lparr>r_status := ru_status u, r_recoveryState := ru_recoveryState u,
     r_currentAttemptId := ru_currentAttemptId u,
     r_startedAt := coalesce (r_startedAt r) (ru_startedAt u),
     r_endedAt := ru_endedAt u, r_updatedAt := ru_updatedAt u\<rparr>"

definition run_sync_input :: "run_update \<Rightarrow> sync_input" where
  "run_sync_input u = \<lparr>si_runId = ru_runId u, si_runStatus = ru_status u,
     si_recoveryState = ru_recoveryState u, si_startedAt = ru_startedAt u,
     si_endedAt = ru_endedAt u, si_updatedAt = ru_updatedAt u,
     si_currentAttemptId = ru_currentAttemptId u, si_completionText = ru_taskCompletionText u,
     si_projectionLost = ru_taskProjectionLost u,
     si_projectionErrorCode = truthy (ru_taskProjectionErrorCode u)\<rparr>"

definition updateRun :: "run_update \<Rightarrow> db \<Rightarrow> err + db" where
  "updateRun u s =
     (let s1 = s\<lparr>agent_runs := tbl_modify (\<lambda>r. r_runId r = ru_runId u) (updated_run u) (agent_runs s)\<rparr> in
      res_bind (require (tbl_changes (\<lambda>r. r_runId r = ru_runId u) (agent_runs s) = 1)
        (state_conflict ''run update target missing'')) (\<lambda>_.
      res_bind (syncRunLifecycle (run_sync_input u) s1) (\<lambda>(s2, _). Inr s2)))"

definition nextEventSequence :: "string \<Rightarrow> int \<Rightarrow> db \<Rightarrow> err + (db \<times> int)" where
  "nextEventSequence runId now s =
     (case getRun runId s of
        None \<Rightarrow> Inl (state_conflict ''run disappeared while allocating event sequence'')
      | Some r \<Rightarrow> Inr (s\<lparr>agent_runs := tbl_modify (\<lambda>x. r_runId x = runId)
            (\<lambda>x. x\<lparr>r_lastEventSequence := r_lastEventSequence x + 1, r_updatedAt := now\<rparr>)
            (agent_runs s)\<rparr>, r_lastEventSequence r + 1))"

section \<open>Attempts\<close>

definition nextAttemptNumber :: "string \<Rightarrow> db \<Rightarrow> int" where
  "nextAttemptNumber runId s = next_sequence (\<lambda>a. a_runId a = runId) a_attemptNumber (run_attempts s)"

definition opt_all :: "('a \<Rightarrow> bool) \<Rightarrow> 'a option \<Rightarrow> bool" where
  "opt_all p v = (case v of None \<Rightarrow> True | Some x \<Rightarrow> p x)"

definition attempt_checks :: "attempt_row \<Rightarrow> bool" where
  "attempt_checks a \<longleftrightarrow> 0 < a_attemptNumber a
     \<and> opt_all (\<lambda>n. 0 < n) (a_maxTurns a) \<and> opt_all (\<lambda>n. 0 < n) (a_maxModelCalls a)
     \<and> opt_all (\<lambda>n. 0 \<le> n) (a_maxToolCalls a) \<and> opt_all (\<lambda>n. 0 < n) (a_maxOutputTokens a)
     \<and> opt_all (\<lambda>n. 0 < n) (a_maxTotalTokens a) \<and> opt_all (\<lambda>n. 0 < n) (a_maxDurationMs a)
     \<and> 0 \<le> a_usedTurns a \<and> 0 \<le> a_usedInputTokens a \<and> 0 \<le> a_usedOutputTokens a
     \<and> 0 \<le> a_modelCallCount a \<and> 0 \<le> a_toolCallCount a"

definition insertAttempt :: "attempt_row \<Rightarrow> db \<Rightarrow> err + db" where
  "insertAttempt row s =
     res_bind (require (attempt_checks row) (Sql_Constraint Sql_Check)) (\<lambda>_.
     res_bind (require (getAttempt (a_attemptId row) s = None)
       (Sql_Constraint (Sql_Unique ''run_attempts.attempt_id''))) (\<lambda>_.
     res_bind (require (\<not> (\<exists>a \<in> set (run_attempts s).
         a_runId a = a_runId row \<and> a_attemptNumber a = a_attemptNumber row))
       (Sql_Constraint (Sql_Unique ''run_attempts.run_id, run_attempts.attempt_number''))) (\<lambda>_.
     res_bind (require (getRun (a_runId row) s \<noteq> None) (Sql_Constraint Sql_ForeignKey)) (\<lambda>_.
     Inr (s\<lparr>run_attempts := run_attempts s @ [row]\<rparr>)))))"

text \<open>The three \<open>UPDATE run_attempts ... WHERE attempt_id = ?\<close> statements share their frame.\<close>

definition write_attempt :: "string \<Rightarrow> string \<Rightarrow> (attempt_row \<Rightarrow> attempt_row) \<Rightarrow> db \<Rightarrow> err + db" where
  "write_attempt attemptId missing f s =
     (let p = (\<lambda>a. a_attemptId a = attemptId) in
      res_bind (require (\<forall>a \<in> set (filter p (run_attempts s)). attempt_checks (f a))
        (Sql_Constraint Sql_Check)) (\<lambda>_.
      res_bind (require (tbl_changes p (run_attempts s) = 1) (state_conflict missing)) (\<lambda>_.
      Inr (s\<lparr>run_attempts := tbl_modify p f (run_attempts s)\<rparr>))))"

definition updateAttempt ::
    "string \<Rightarrow> attempt_status \<Rightarrow> int option \<Rightarrow> int option \<Rightarrow> string option \<Rightarrow> int \<Rightarrow> db \<Rightarrow> err + db" where
  "updateAttempt attemptId status startedAt endedAt recoveryReason updatedAt =
     write_attempt attemptId ''attempt update target missing''
       (\<lambda>a. a\<lparr>a_status := status, a_startedAt := coalesce (a_startedAt a) startedAt,
              a_endedAt := endedAt, a_recoveryReason := recoveryReason, a_updatedAt := updatedAt\<rparr>)"

record attempt_config =
  ac_providerId :: string
  ac_modelId :: string
  ac_maxTurns :: int
  ac_maxModelCalls :: int
  ac_maxToolCalls :: int
  ac_maxOutputTokens :: int
  ac_maxTotalTokens :: int
  ac_maxDurationMs :: int
  ac_updatedAt :: int

definition configureAttempt :: "string \<Rightarrow> attempt_config \<Rightarrow> db \<Rightarrow> err + db" where
  "configureAttempt attemptId c =
     write_attempt attemptId ''attempt configuration target missing''
       (\<lambda>a. a\<lparr>a_providerId := Some (ac_providerId c), a_modelId := Some (ac_modelId c),
              a_maxTurns := Some (ac_maxTurns c), a_maxModelCalls := Some (ac_maxModelCalls c),
              a_maxToolCalls := Some (ac_maxToolCalls c), a_maxOutputTokens := Some (ac_maxOutputTokens c),
              a_maxTotalTokens := Some (ac_maxTotalTokens c), a_maxDurationMs := Some (ac_maxDurationMs c),
              a_updatedAt := ac_updatedAt c\<rparr>)"

record attempt_usage =
  au_turns :: int
  au_inputTokens :: int
  au_outputTokens :: int
  au_modelCalls :: int
  au_toolCalls :: int

definition updateAttemptUsage :: "string \<Rightarrow> attempt_usage \<Rightarrow> string option \<Rightarrow> int \<Rightarrow> db \<Rightarrow> err + db" where
  "updateAttemptUsage attemptId u terminalReason updatedAt =
     write_attempt attemptId ''attempt usage target missing''
       (\<lambda>a. a\<lparr>a_usedTurns := au_turns u, a_usedInputTokens := au_inputTokens u,
              a_usedOutputTokens := au_outputTokens u, a_modelCallCount := au_modelCalls u,
              a_toolCallCount := au_toolCalls u,
              a_terminalReason := coalesce terminalReason (a_terminalReason a),
              a_updatedAt := updatedAt\<rparr>)"

definition usage_of :: "attempt_row list \<Rightarrow> attempt_usage" where
  "usage_of as = \<lparr>au_turns = sum_list (map a_usedTurns as),
     au_inputTokens = sum_list (map a_usedInputTokens as),
     au_outputTokens = sum_list (map a_usedOutputTokens as),
     au_modelCalls = sum_list (map a_modelCallCount as),
     au_toolCalls = sum_list (map a_toolCallCount as)\<rparr>"

definition aggregateRunUsage :: "string \<Rightarrow> db \<Rightarrow> attempt_usage" where
  "aggregateRunUsage runId s = usage_of (filter (\<lambda>a. a_runId a = runId) (run_attempts s))"

definition aggregateRunUsageExcluding :: "string \<Rightarrow> string \<Rightarrow> db \<Rightarrow> attempt_usage" where
  "aggregateRunUsageExcluding runId attemptId s =
     usage_of (filter (\<lambda>a. a_runId a = runId \<and> a_attemptId a \<noteq> attemptId) (run_attempts s))"

section \<open>Run events, model invocations and the projection\<close>

definition insertEvent :: "event_row \<Rightarrow> db \<Rightarrow> err + db" where
  "insertEvent row s =
     res_bind (require (json_stringify (e_payload row) \<noteq> None) Js_Error) (\<lambda>_.
     res_bind (require (0 < e_sequence row) (Sql_Constraint Sql_Check)) (\<lambda>_.
     res_bind (require (\<not> (\<exists>e \<in> set (run_events s). e_runId e = e_runId row \<and> e_sequence e = e_sequence row))
       (Sql_Constraint (Sql_Unique ''run_events.run_id, run_events.sequence''))) (\<lambda>_.
     res_bind (require (\<not> (\<exists>e \<in> set (run_events s). e_runId e = e_runId row \<and> e_eventId e = e_eventId row))
       (Sql_Constraint (Sql_Unique ''run_events.run_id, run_events.event_id''))) (\<lambda>_.
     res_bind (require (e_idempotencyKey row = None \<or> \<not> (\<exists>e \<in> set (run_events s).
         e_runId e = e_runId row \<and> e_idempotencyKey e = e_idempotencyKey row))
       (Sql_Constraint (Sql_Unique ''run_events.run_id, run_events.idempotency_key''))) (\<lambda>_.
     res_bind (require (getRun (e_runId row) s \<noteq> None
         \<and> (case e_attemptId row of None \<Rightarrow> True | Some a \<Rightarrow> getAttempt a s \<noteq> None))
       (Sql_Constraint Sql_ForeignKey)) (\<lambda>_.
     Inr (s\<lparr>run_events := run_events s @ [row\<lparr>e_payload := json_clean (e_payload row)\<rparr>]\<rparr>)))))))"

definition listEvents :: "string \<Rightarrow> db \<Rightarrow> event_row list" where
  "listEvents runId s = sort_key e_sequence (filter (\<lambda>e. e_runId e = runId) (run_events s))"

definition getEventByIdempotency :: "string \<Rightarrow> string \<Rightarrow> db \<Rightarrow> event_row option" where
  "getEventByIdempotency runId key s =
     find (\<lambda>e. e_runId e = runId \<and> e_idempotencyKey e = Some key) (run_events s)"

definition latestEventType :: "string \<Rightarrow> db \<Rightarrow> string option" where
  "latestEventType runId s = (case rev (listEvents runId s) of [] \<Rightarrow> None | e # _ \<Rightarrow> Some (e_eventType e))"

definition insertModelInvocation :: "invocation_row \<Rightarrow> db \<Rightarrow> err + db" where
  "insertModelInvocation row s =
     res_bind (require (0 < i_turnNumber row \<and> 0 < i_requestNumber row
         \<and> length (i_requestHash row) = 64 \<and> 0 \<le> i_inputTokens row \<and> 0 \<le> i_outputTokens row)
       (Sql_Constraint Sql_Check)) (\<lambda>_.
     res_bind (require (tbl_get i_invocationId (i_invocationId row) (model_invocations s) = None)
       (Sql_Constraint (Sql_Unique ''model_invocations.invocation_id''))) (\<lambda>_.
     res_bind (require (\<not> (\<exists>v \<in> set (model_invocations s).
         i_runId v = i_runId row \<and> i_requestNumber v = i_requestNumber row))
       (Sql_Constraint (Sql_Unique ''model_invocations.run_id, model_invocations.request_number''))) (\<lambda>_.
     res_bind (require (getRun (i_runId row) s \<noteq> None \<and> getAttempt (i_attemptId row) s \<noteq> None)
       (Sql_Constraint Sql_ForeignKey)) (\<lambda>_.
     Inr (s\<lparr>model_invocations := model_invocations s @ [row]\<rparr>)))))"

definition completeModelInvocation ::
    "string \<Rightarrow> invocation_status \<Rightarrow> string option \<Rightarrow> int \<Rightarrow> int \<Rightarrow> string option \<Rightarrow> int \<Rightarrow> db \<Rightarrow> err + db" where
  "completeModelInvocation invocationId status providerResponseId inputTokens outputTokens errorCode endedAt s =
     (let p = (\<lambda>v. i_invocationId v = invocationId) in
      res_bind (require (tbl_changes p (model_invocations s) = 0 \<or> 0 \<le> inputTokens \<and> 0 \<le> outputTokens)
        (Sql_Constraint Sql_Check)) (\<lambda>_.
      res_bind (require (tbl_changes p (model_invocations s) = 1)
        (state_conflict ''model invocation target missing'')) (\<lambda>_.
      Inr (s\<lparr>model_invocations := tbl_modify p (\<lambda>v. v\<lparr>i_status := status,
        i_providerResponseId := providerResponseId, i_inputTokens := inputTokens,
        i_outputTokens := outputTokens, i_errorCode := errorCode, i_endedAt := Some endedAt\<rparr>)
        (model_invocations s)\<rparr>))))"

definition recoverStartedModelInvocations :: "string \<Rightarrow> int \<Rightarrow> db \<Rightarrow> db \<times> nat" where
  "recoverStartedModelInvocations runId endedAt s =
     (let p = (\<lambda>v. i_runId v = runId \<and> i_status v = I_STARTED) in
      (s\<lparr>model_invocations := tbl_modify p (\<lambda>v. v\<lparr>i_status := I_FAILED,
         i_errorCode := Some ''MODEL_INTERRUPTED_BY_RESTART'', i_endedAt := Some endedAt\<rparr>)
         (model_invocations s)\<rparr>, tbl_changes p (model_invocations s)))"

definition listModelInvocations :: "string \<Rightarrow> db \<Rightarrow> invocation_row list" where
  "listModelInvocations runId s =
     sort_key i_requestNumber (filter (\<lambda>v. i_runId v = runId) (model_invocations s))"

definition latest_run :: "string \<Rightarrow> db \<Rightarrow> run_row option" where
  "latest_run conversationId s = (case rev (listRuns conversationId s) of [] \<Rightarrow> None | r # _ \<Rightarrow> Some r)"

definition rebuildProjection :: "string \<Rightarrow> int \<Rightarrow> db \<Rightarrow> err + (db \<times> projection_row)" where
  "rebuildProjection conversationId rebuiltAt s =
     (let ms = filter (\<lambda>m. m_conversationId m = conversationId) (conversation_messages s);
          row = \<lparr>p_conversationId = conversationId, p_messageCount = int (length ms),
            p_lastMessageSequence = next_sequence (\<lambda>_. True) m_sequence ms - 1,
            p_lastRunId = map_option r_runId (latest_run conversationId s),
            p_lastRunStatus = map_option r_status (latest_run conversationId s),
            p_rebuiltAt = rebuiltAt\<rparr> in
      res_bind (require (getConversation conversationId s \<noteq> None) (Sql_Constraint Sql_ForeignKey)) (\<lambda>_.
      Inr (s\<lparr>conversation_projections :=
             (if tbl_get p_conversationId conversationId (conversation_projections s) = None
              then conversation_projections s @ [row]
              else tbl_modify (\<lambda>p. p_conversationId p = conversationId) (\<lambda>_. row) (conversation_projections s))\<rparr>,
           row)))"

definition deleteProjection :: "string \<Rightarrow> db \<Rightarrow> db" where
  "deleteProjection conversationId s = s\<lparr>conversation_projections :=
     filter (\<lambda>p. p_conversationId p \<noteq> conversationId) (conversation_projections s)\<rparr>"

definition getProjection :: "string \<Rightarrow> db \<Rightarrow> projection_row option" where
  "getProjection conversationId s = tbl_get p_conversationId conversationId (conversation_projections s)"

end
