(* ===== verification/Task_Service.thy ===== *)
theory Task_Service
  imports Task_Delivery_Ledger Conversation_Ledger
begin

text \<open>
  \<open>packages/tasks/src/service.ts\<close>: what a workspace may see and do with its background tasks. The
  service's methods are calls of type \<open>svc\<close>; the run cancellation it is given is a parameter.
\<close>

section \<open>Authorization\<close>

definition task_bounded :: "string \<Rightarrow> nat \<Rightarrow> err + string" where
  "task_bounded v limit =
     (if v = [] \<or> length v > limit then Inl (Task_Error TASK_INVALID_ARGUMENT) else Inr v)"

definition task_authorize :: "string list \<Rightarrow> string \<Rightarrow> err + unit" where
  "task_authorize workspaceIds workspaceId =
     res_bind (task_bounded workspaceId 64) (\<lambda>_.
     require (workspaceId \<in> set workspaceIds) (Task_Error TASK_ACCESS_DENIED))"

section \<open>Reads\<close>

definition task_service_list ::
    "string list \<Rightarrow> string \<Rightarrow> task_status option \<Rightarrow> task_runtime option \<Rightarrow> int option \<Rightarrow> task_row list svc" where
  "task_service_list workspaceIds workspaceId status runtime limit =
     svc_bind (svc_of (task_authorize workspaceIds workspaceId)) (\<lambda>_.
     let l = (case limit of None \<Rightarrow> 50 | Some n \<Rightarrow> n) in
     svc_bind (svc_require (1 \<le> l \<and> l \<le> 200) (Task_Error TASK_INVALID_ARGUMENT)) (\<lambda>_.
     svc_read (task_list workspaceId status runtime (nat l))))"

text \<open>The part of a delivery a task's view shows.\<close>

record task_delivery_view =
  tv_deliveryId :: string
  tv_taskEventSequence :: int
  tv_flowId :: "string option"
  tv_ownerConversationId :: string
  tv_controllerId :: "string option"
  tv_notifyPolicy :: notify_policy
  tv_deliveryStatus :: delivery_status
  tv_taskStatus :: task_status
  tv_terminalOutcome :: "terminal_outcome option"
  tv_payload :: json
  tv_attemptCount :: int
  tv_lastError :: "string option"
  tv_systemMessageId :: "string option"
  tv_wakeRunId :: "string option"
  tv_createdAt :: int
  tv_updatedAt :: int
  tv_deliveredAt :: "int option"
  tv_revision :: int

definition to_delivery_view :: "delivery_row \<Rightarrow> task_delivery_view" where
  "to_delivery_view d = \<lparr>tv_deliveryId = d_deliveryId d, tv_taskEventSequence = d_taskEventSequence d,
     tv_flowId = d_flowId d, tv_ownerConversationId = d_ownerConversationId d,
     tv_controllerId = d_controllerId d, tv_notifyPolicy = d_notifyPolicy d,
     tv_deliveryStatus = d_deliveryStatus d, tv_taskStatus = d_taskStatus d,
     tv_terminalOutcome = d_terminalOutcome d, tv_payload = d_payload d,
     tv_attemptCount = d_attemptCount d, tv_lastError = d_lastError d,
     tv_systemMessageId = d_systemMessageId d, tv_wakeRunId = d_wakeRunId d,
     tv_createdAt = d_createdAt d, tv_updatedAt = d_updatedAt d, tv_deliveredAt = d_deliveredAt d,
     tv_revision = d_revision d\<rparr>"

record task_view =
  vw_task :: task_row
  vw_events :: "task_event_row list"
  vw_deliveries :: "task_delivery_view list"

definition task_service_get :: "string list \<Rightarrow> string \<Rightarrow> string \<Rightarrow> task_view svc" where
  "task_service_get workspaceIds workspaceId taskId =
     svc_bind (svc_of (task_authorize workspaceIds workspaceId)) (\<lambda>_.
     svc_bind (svc_of (task_bounded taskId 256)) (\<lambda>_.
     transaction (\<lambda>s.
       (case task_get taskId s of
          None \<Rightarrow> Inl (Task_Error TASK_NOT_FOUND)
        | Some row \<Rightarrow>
            res_bind (require (t_workspaceId row = workspaceId) (Task_Error TASK_ACCESS_DENIED)) (\<lambda>_.
            Inr (s, \<lparr>vw_task = row, vw_events = task_listEvents (t_taskId row) 100 s,
              vw_deliveries = map to_delivery_view (delivery_listForTask (t_taskId row) 100 s)\<rparr>))))))"

definition task_service_getByRun :: "string list \<Rightarrow> string \<Rightarrow> string \<Rightarrow> task_row svc" where
  "task_service_getByRun workspaceIds workspaceId runId =
     svc_bind (svc_of (task_authorize workspaceIds workspaceId)) (\<lambda>_.
     svc_bind (svc_of (task_bounded runId 256)) (\<lambda>_.
     transaction (\<lambda>s.
       (case task_getByRun runId s of
          None \<Rightarrow> Inl (Task_Error TASK_NOT_FOUND)
        | Some row \<Rightarrow>
            res_bind (require (t_workspaceId row = workspaceId) (Task_Error TASK_ACCESS_DENIED)) (\<lambda>_.
            Inr (s, row))))))"

section \<open>Commands\<close>

definition task_classify :: "classify_input \<Rightarrow> task_row svc" where
  "task_classify i = transaction (classifyRun i)"

definition task_cancel :: "string list \<Rightarrow> (task_row \<Rightarrow> unit svc) \<Rightarrow> string \<Rightarrow> string \<Rightarrow> task_row svc" where
  "task_cancel workspaceIds cancelRun workspaceId taskId =
     svc_bind (task_service_get workspaceIds workspaceId taskId) (\<lambda>v.
     let current = vw_task v in
     if task_terminal (t_status current) then svc_return current
     else svc_bind (cancelRun current) (\<lambda>_.
          svc_bind (task_service_get workspaceIds workspaceId taskId) (\<lambda>v'.
          let updated = vw_task v' in
          if t_status updated \<noteq> T_CANCELLED \<and> \<not> task_terminal (t_status updated)
          then svc_of (Inl (Task_Error TASK_STATE_INVALID))
          else svc_return updated)))"

section \<open>What the service guarantees\<close>

lemma task_authorize_Inr [simp]:
  "task_authorize ws w = Inr u \<longleftrightarrow> w \<noteq> [] \<and> length w \<le> 64 \<and> w \<in> set ws"
  by (auto simp: task_authorize_def task_bounded_def)

text \<open>Reads return only tasks of a workspace the service was given, and change nothing.\<close>

lemma task_service_get_Inr:
  "task_service_get ws w k s = (Inr v, s') \<Longrightarrow>
     s' = s \<and> w \<in> set ws \<and> task_get k s = Some (vw_task v) \<and> t_workspaceId (vw_task v) = w"
  by (auto simp: task_service_get_def transaction_def svc_bind_Inr split: option.splits sum.splits if_splits)

lemma task_service_get_state: "snd (task_service_get ws w k s) = s"
  by (auto simp: task_service_get_def svc_bind_def transaction_def split: option.splits sum.splits if_splits)

lemma task_service_getByRun_Inr:
  "task_service_getByRun ws w k s = (Inr t, s') \<Longrightarrow>
     s' = s \<and> w \<in> set ws \<and> task_getByRun k s = Some t \<and> t_workspaceId t = w"
  by (auto simp: task_service_getByRun_def transaction_def svc_bind_Inr split: option.splits sum.splits if_splits)

lemma task_service_list_Inr:
  "task_service_list ws w st rt l s = (Inr ts, s') \<Longrightarrow>
     s' = s \<and> w \<in> set ws \<and> length ts \<le> 200 \<and> (\<forall>t \<in> set ts. t_workspaceId t = w)"
  by (auto simp: task_service_list_def svc_bind_Inr Let_def task_list_def dest!: in_set_takeD split: option.splits if_splits sum.splits)

text \<open>A cancellation that returns has left a terminal task behind.\<close>

lemma task_cancel_terminal:
  assumes "task_cancel ws cancelRun w k s = (Inr t, s')"
  shows "task_terminal (t_status t) \<and> task_get k s' = Some t"
proof -
  from assms obtain v s1 where v: "task_service_get ws w k s = (Inr v, s1)"
    and rest: "(if task_terminal (t_status (vw_task v)) then svc_return (vw_task v)
      else svc_bind (cancelRun (vw_task v)) (\<lambda>_. svc_bind (task_service_get ws w k) (\<lambda>v'.
        if t_status (vw_task v') \<noteq> T_CANCELLED \<and> \<not> task_terminal (t_status (vw_task v'))
        then svc_of (Inl (Task_Error TASK_STATE_INVALID)) else svc_return (vw_task v')))) s1 = (Inr t, s')"
    unfolding task_cancel_def Let_def by (subst (asm) svc_bind_Inr) blast
  note get = task_service_get_Inr [OF v]
  show ?thesis
  proof (cases "task_terminal (t_status (vw_task v))")
    case True
    with rest get show ?thesis by simp
  next
    case False
    with rest obtain v' s2 where v': "task_service_get ws w k s2 = (Inr v', s')"
        "t = vw_task v'" "t_status t = T_CANCELLED \<or> task_terminal (t_status t)"
      by (auto simp: svc_bind_Inr split: if_splits dest: task_service_get_Inr)
    with task_service_get_Inr [OF v'(1)] show ?thesis by (auto simp: task_terminal_def)
  qed
qed

end
