(* ===== verification/Task_Maintenance.thy ===== *)
theory Task_Maintenance
  imports Task_Service
begin

text \<open>
  \<open>packages/tasks/src/maintenance.ts\<close>: the audit of a workspace's tasks against their runs, the repair
  of drift (\<open>reconcile\<close>) and the scheduling of retention.

  The host's answers (\<open>runtimeAuthorityAvailable\<close>, \<open>isRunActive\<close>, \<open>isRunExpectedIdle\<close>) are fields of
  the service; they stay fixed during one call. \<open>markRunLost\<close> is a call on the database. The order
  of strings \<open>localeCompare\<close> gives is a field as well, since it depends on the locale data.
\<close>

section \<open>The service and its options\<close>

record maintenance_options =
  mo_workspaceIds :: "string list"
  mo_hostStartedAt :: "int option"
  mo_authorityGraceMs :: "int option"
  mo_staleQueuedMs :: "int option"
  mo_staleRunningMs :: "int option"
  mo_taskRetentionMs :: "int option"
  mo_lostRetentionMs :: "int option"
  mo_runtimeAuthorityAvailable :: "bool option"
  mo_isRunActive :: "(string \<Rightarrow> bool) option"
  mo_isRunExpectedIdle :: "(string \<Rightarrow> bool) option"
  mo_markRunLost :: "(string \<Rightarrow> unit svc) option"
  mo_localeCompare :: "string \<Rightarrow> string \<Rightarrow> int"

record maintenance =
  mt_allowed :: "string list"
  mt_hostStartedAt :: int
  mt_authorityGraceMs :: int
  mt_staleQueuedMs :: int
  mt_staleRunningMs :: int
  mt_taskRetentionMs :: int
  mt_lostRetentionMs :: int
  mt_runtimeAuthorityAvailable :: bool
  mt_isRunActive :: "string \<Rightarrow> bool"
  mt_isRunExpectedIdle :: "string \<Rightarrow> bool"
  mt_markRunLost :: "(string \<Rightarrow> unit svc) option"
  mt_localeCompare :: "string \<Rightarrow> string \<Rightarrow> int"

definition new_maintenance :: "maintenance_options \<Rightarrow> int \<Rightarrow> maintenance" where
  "new_maintenance opts now = \<lparr>mt_allowed = mo_workspaceIds opts,
     mt_hostStartedAt = or_default (mo_hostStartedAt opts) now,
     mt_authorityGraceMs = or_default (mo_authorityGraceMs opts) (5 * 60000),
     mt_staleQueuedMs = or_default (mo_staleQueuedMs opts) (10 * 60000),
     mt_staleRunningMs = or_default (mo_staleRunningMs opts) (30 * 60000),
     mt_taskRetentionMs = or_default (mo_taskRetentionMs opts) (30 * 24 * 60 * 60000),
     mt_lostRetentionMs = or_default (mo_lostRetentionMs opts) (7 * 24 * 60 * 60000),
     mt_runtimeAuthorityAvailable = or_default (mo_runtimeAuthorityAvailable opts) False,
     mt_isRunActive = or_default (mo_isRunActive opts) (\<lambda>_. False),
     mt_isRunExpectedIdle = or_default (mo_isRunExpectedIdle opts) (\<lambda>_. False),
     mt_markRunLost = mo_markRunLost opts, mt_localeCompare = mo_localeCompare opts\<rparr>"

text \<open>\<open>/^[a-z][a-z0-9._-]{0,63}$/\<close>.\<close>

definition workspace_name :: "string \<Rightarrow> bool" where
  "workspace_name v \<longleftrightarrow> (case v of [] \<Rightarrow> False
     | c # cs \<Rightarrow> lower_letter c \<and> length cs \<le> 63
         \<and> list_all (\<lambda>d. lower_letter d \<or> js_digit d \<or> d \<in> set ''._-'') cs)"

definition boundedWorkspace :: "string \<Rightarrow> err + string" where
  "boundedWorkspace v = (if workspace_name v then Inr v else Inl (Task_Error TASK_INVALID_ARGUMENT))"

definition maint_authorize :: "maintenance \<Rightarrow> string \<Rightarrow> err + string" where
  "maint_authorize m workspaceId =
     res_bind (boundedWorkspace workspaceId) (\<lambda>normalized.
     res_bind (require (normalized \<in> set (mt_allowed m)) (Task_Error TASK_ACCESS_DENIED)) (\<lambda>_.
     Inr normalized))"

definition maint_limit :: "int option \<Rightarrow> err + nat" where
  "maint_limit v =
     (let limit = or_default v 200 in
      res_bind (require (1 \<le> limit \<and> limit \<le> 1000) (Task_Error TASK_INVALID_ARGUMENT)) (\<lambda>_. Inr (nat limit)))"

section \<open>The audit\<close>

definition task_active :: "task_status \<Rightarrow> bool" where
  "task_active st \<longleftrightarrow> st \<in> {T_QUEUED, T_RUNNING}"

definition expectedTaskStatus :: "run_row \<Rightarrow> attempt_row option \<Rightarrow> task_status" where
  "expectedTaskStatus run attempt =
     (if r_status run = R_CREATED
      then if r_recoveryState run = RESUMABLE \<and> r_startedAt run \<noteq> None then T_RUNNING else T_QUEUED
      else if r_status run = R_RUNNING \<or> r_status run = R_WAITING_APPROVAL then T_RUNNING
      else if r_status run = R_COMPLETED then T_SUCCEEDED
      else if r_status run = R_CANCELLED then T_CANCELLED
      else if Option.bind attempt a_terminalReason = Some ''RUNTIME_AUTHORITY_LOST'' then T_LOST
      else if Option.bind attempt a_terminalReason = Some ''AGENT_TIME_BUDGET_EXCEEDED'' then T_TIMED_OUT
      else T_FAILED)"

datatype audit_severity = WARN | ERROR

datatype repair_policy = SAFE_REPAIR | REPORT_ONLY

datatype task_audit_code =
    TASK_RUN_STATUS_DRIFT | TASK_TERMINAL_RUN_ACTIVE | RUNTIME_AUTHORITY_MISSING | STALE_QUEUED
  | STALE_RUNNING | MISSING_CLEANUP | LOST_RETAINED | LOST_RETENTION_EXPIRED
  | OWNER_SCOPE_MISMATCH | INCONSISTENT_TIMESTAMPS

record task_finding =
  tf_severity :: audit_severity
  tf_code :: task_audit_code
  tf_repairPolicy :: repair_policy
  tf_taskId :: string
  tf_runId :: string
  tf_detail :: string
  tf_ageMs :: "int option"

record task_audit_summary =
  ts_total :: nat
  ts_warnings :: nat
  ts_errors :: nat
  ts_byCode :: "task_audit_code \<Rightarrow> nat"

definition task_createSummary :: "task_finding list \<Rightarrow> task_audit_summary" where
  "task_createSummary findings =
     fold (\<lambda>f m. let m' = m\<lparr>ts_byCode := (ts_byCode m)(tf_code f := ts_byCode m (tf_code f) + 1)\<rparr> in
                 if tf_severity f = ERROR then m'\<lparr>ts_errors := ts_errors m' + 1\<rparr>
                 else m'\<lparr>ts_warnings := ts_warnings m' + 1\<rparr>)
       findings \<lparr>ts_total = length findings, ts_warnings = 0, ts_errors = 0, ts_byCode = (\<lambda>_. 0)\<rparr>"

definition severity_rank :: "audit_severity \<Rightarrow> int" where
  "severity_rank v = (if v = ERROR then 0 else 1)"

definition task_compareFindings :: "(string \<Rightarrow> string \<Rightarrow> int) \<Rightarrow> task_finding \<Rightarrow> task_finding \<Rightarrow> int" where
  "task_compareFindings localeCompare l r =
     (let severity = severity_rank (tf_severity l) - severity_rank (tf_severity r) in
      if severity \<noteq> 0 then severity
      else let age = or_default (tf_ageMs r) (- 1) - or_default (tf_ageMs l) (- 1) in
           if age \<noteq> 0 then age else localeCompare (tf_taskId l) (tf_taskId r))"

record task_snapshot =
  sn_task :: task_row
  sn_run :: run_row
  sn_attempt :: "attempt_row option"
  sn_ownerWorkspaceId :: string

definition current_attempt :: "run_row \<Rightarrow> db \<Rightarrow> attempt_row option" where
  "current_attempt run s = (case truthy (r_currentAttemptId run) of None \<Rightarrow> None | Some a \<Rightarrow> getAttempt a s)"

definition maint_snapshot :: "string \<Rightarrow> nat \<Rightarrow> db \<Rightarrow> task_snapshot list" where
  "maint_snapshot workspaceId limit s =
     flat_map (\<lambda>task.
       (case getRun (t_runId task) s of None \<Rightarrow> []
        | Some run \<Rightarrow>
            (case getConversation (t_conversationId task) s of None \<Rightarrow> []
             | Some owner \<Rightarrow> [\<lparr>sn_task = task, sn_run = run, sn_attempt = current_attempt run s,
                 sn_ownerWorkspaceId = c_workspaceId owner\<rparr>])))
       (task_listAll workspaceId limit s)"

definition authority_reference :: "maintenance \<Rightarrow> task_row \<Rightarrow> run_row \<Rightarrow> int" where
  "authority_reference m task run = max (max (mt_hostStartedAt m) (r_updatedAt run)) (t_updatedAt task)"

definition authorityMissing :: "maintenance \<Rightarrow> task_row \<Rightarrow> run_row \<Rightarrow> int \<Rightarrow> bool" where
  "authorityMissing m task run now \<longleftrightarrow>
     task_active (t_status task) \<and> (r_status run = R_CREATED \<or> r_status run = R_RUNNING)
     \<and> mt_runtimeAuthorityAvailable m
     \<and> \<not> mt_isRunActive m (r_runId run) \<and> \<not> mt_isRunExpectedIdle m (r_runId run)
     \<and> mt_authorityGraceMs m \<le> now - authority_reference m task run"

definition task_finding_for ::
    "task_row \<Rightarrow> audit_severity \<Rightarrow> task_audit_code \<Rightarrow> repair_policy \<Rightarrow> string \<Rightarrow> int \<Rightarrow> task_finding" where
  "task_finding_for task severity code policy detail ageMs = \<lparr>tf_severity = severity, tf_code = code,
     tf_repairPolicy = policy, tf_taskId = t_taskId task, tf_runId = t_runId task, tf_detail = detail,
     tf_ageMs = Some ageMs\<rparr>"

definition bad_timestamps :: "task_row \<Rightarrow> bool" where
  "bad_timestamps t \<longleftrightarrow>
     (case t_startedAt t of None \<Rightarrow> False | Some b \<Rightarrow> b < t_createdAt t)
     \<or> (case (t_endedAt t, t_startedAt t) of (Some e, Some b) \<Rightarrow> e < b | _ \<Rightarrow> False)
     \<or> (task_active (t_status t) \<and> t_endedAt t \<noteq> None)"

text \<open>The findings of one snapshot, in the order the loop body pushes them.\<close>

definition audit_snapshot :: "maintenance \<Rightarrow> int \<Rightarrow> task_snapshot \<Rightarrow> task_finding list" where
  "audit_snapshot m now sn =
     (let task = sn_task sn; run = sn_run sn; ageMs = max 0 (now - t_updatedAt task);
          expected = expectedTaskStatus run (sn_attempt sn); st = t_status task;
          finding = task_finding_for task in
      (if task_terminal st \<and> \<not> run_terminal (r_status run) then
         [finding ERROR TASK_TERMINAL_RUN_ACTIVE REPORT_ONLY
           (''terminal Task '' @ task_status_name st @ '' conflicts with active Run '' @ run_status_name (r_status run)) ageMs]
       else if st \<noteq> expected then
         [finding (if task_terminal st then ERROR else WARN) TASK_RUN_STATUS_DRIFT
           (if task_terminal st then REPORT_ONLY else SAFE_REPAIR)
           (''Task '' @ task_status_name st @ '' differs from Run projection '' @ task_status_name expected) ageMs]
       else [])
      @ (if authorityMissing m task run now then
           [finding ERROR RUNTIME_AUTHORITY_MISSING SAFE_REPAIR
             ''active Run did not regain Host runtime authority after recovery grace''
             (max 0 (now - authority_reference m task run))] else [])
      @ (if st = T_QUEUED \<and> mt_staleQueuedMs m \<le> ageMs then
           [finding WARN STALE_QUEUED REPORT_ONLY ''queued Task has not advanced recently'' ageMs] else [])
      @ (if st = T_RUNNING \<and> mt_staleRunningMs m \<le> ageMs then
           [finding ERROR STALE_RUNNING REPORT_ONLY ''running Task has not advanced recently'' ageMs] else [])
      @ (if task_terminal st \<and> run_terminal (r_status run) \<and> t_cleanupAfter task = None then
           [finding WARN MISSING_CLEANUP SAFE_REPAIR ''terminal Task is missing cleanupAfter'' ageMs] else [])
      @ (case t_cleanupAfter task of
           Some c \<Rightarrow> if st = T_LOST then
             [finding (if c \<le> now then ERROR else WARN)
               (if c \<le> now then LOST_RETENTION_EXPIRED else LOST_RETAINED) REPORT_ONLY
               (if c \<le> now then ''LOST Task retention is expired''
                else ''LOST Task is retained until cleanupAfter'') ageMs] else []
         | None \<Rightarrow> [])
      @ (if t_conversationId task \<noteq> r_conversationId run \<or> sn_ownerWorkspaceId sn \<noteq> t_workspaceId task then
           [finding ERROR OWNER_SCOPE_MISMATCH REPORT_ONLY
             ''Task Conversation/Workspace ownership differs from owning Run'' ageMs] else [])
      @ (if bad_timestamps task then
           [finding WARN INCONSISTENT_TIMESTAMPS REPORT_ONLY
             ''Task lifecycle timestamps are inconsistent'' ageMs] else []))"

record task_audit_report =
  ar_generatedAt :: int
  ar_findings :: "task_finding list"
  ar_summary :: task_audit_summary

definition task_audit :: "maintenance \<Rightarrow> int \<Rightarrow> string \<Rightarrow> int option \<Rightarrow> task_audit_report svc" where
  "task_audit m now workspaceId limit =
     svc_bind (svc_of (maint_authorize m workspaceId)) (\<lambda>w.
     svc_bind (svc_of (maint_limit limit)) (\<lambda>l.
     svc_bind (svc_read (maint_snapshot w l)) (\<lambda>sns.
     let findings = js_sort (task_compareFindings (mt_localeCompare m)) (flat_map (audit_snapshot m now) sns) in
     svc_return \<lparr>ar_generatedAt = now, ar_findings = findings, ar_summary = task_createSummary findings\<rparr>)))"

section \<open>Retention\<close>

definition cleanup_patch :: "task_row \<Rightarrow> int \<Rightarrow> int \<Rightarrow> task_patch" where
  "cleanup_patch current now cleanupAfter = (keep_task current now)\<lparr>tu_notifyPolicy := None,
     tu_deliveryStatus := None, tu_terminalOutcome := None, tu_cleanupAfter := Some (Some cleanupAfter)\<rparr>"

definition retention_ms :: "maintenance \<Rightarrow> task_status \<Rightarrow> int" where
  "retention_ms m st = (if st = T_LOST then mt_lostRetentionMs m else mt_taskRetentionMs m)"

definition task_scheduleCleanup :: "maintenance \<Rightarrow> string \<Rightarrow> int \<Rightarrow> db \<Rightarrow> err + (db \<times> bool)" where
  "task_scheduleCleanup m taskId now s =
     (case task_get taskId s of
        None \<Rightarrow> Inr (s, False)
      | Some current \<Rightarrow>
          (case (t_endedAt current, getRun (t_runId current) s) of
             (Some endedAt, Some run) \<Rightarrow>
               if \<not> task_terminal (t_status current) \<or> t_cleanupAfter current \<noteq> None
                  \<or> \<not> run_terminal (r_status run) then Inr (s, False)
               else
                 let retentionMs = retention_ms m (t_status current);
                     cleanupAfter = endedAt + retentionMs in
                 res_bind (task_update (cleanup_patch current now cleanupAfter) s) (\<lambda>(s1, ro).
                 (case ro of None \<Rightarrow> Inr (s1, False)
                  | Some updated \<Rightarrow>
                      res_bind (task_appendEvent \<lparr>te_taskId = t_taskId updated,
                          te_sequence = task_nextEventSequence (t_taskId updated) s1,
                          te_eventType = ''task.retention.scheduled'', te_status = t_status updated,
                          te_recoveryState = t_recoveryState updated,
                          te_payload = JObj [(''cleanupAfter'', JNum cleanupAfter), (''retentionMs'', JNum retentionMs)],
                          te_runEventSequence = None, te_emittedAt = now\<rparr> s1) (\<lambda>s2.
                      Inr (s2, True))))
           | _ \<Rightarrow> Inr (s, False)))"

definition task_scheduleRetention :: "maintenance \<Rightarrow> int \<Rightarrow> string \<Rightarrow> int option \<Rightarrow> nat svc" where
  "task_scheduleRetention m now workspaceId limit =
     svc_bind (svc_of (maint_authorize m workspaceId)) (\<lambda>w.
     svc_bind (svc_of (maint_limit limit)) (\<lambda>l.
     svc_bind (svc_read (task_listRetentionSchedulingCandidates w l)) (\<lambda>candidates.
     svc_fold (\<lambda>task scheduled.
         svc_bind (transaction (task_scheduleCleanup m (t_taskId task) now)) (\<lambda>done.
         svc_return (if done then scheduled + 1 else scheduled)))
       candidates 0)))"

section \<open>Repair\<close>

datatype reconcile_mode = PREVIEW | APPLY

datatype task_reconcile_action = SYNC_RUN_STATUS | MARK_RUNTIME_LOST | SCHEDULE_RETENTION

record task_decision =
  dc_taskId :: string
  dc_runId :: string
  dc_action :: task_reconcile_action
  dc_applied :: bool
  dc_detail :: string

record reconcile_acc =
  ra_decisions :: "task_decision list"
  ra_reconciled :: nat
  ra_lost :: nat
  ra_retentionScheduled :: nat

definition decision_for :: "task_row \<Rightarrow> task_reconcile_action \<Rightarrow> bool \<Rightarrow> string \<Rightarrow> task_decision" where
  "decision_for task action applied detail = \<lparr>dc_taskId = t_taskId task, dc_runId = t_runId task,
     dc_action = action, dc_applied = applied, dc_detail = detail\<rparr>"

definition run_resync :: "run_row \<Rightarrow> int \<Rightarrow> sync_input" where
  "run_resync run now = \<lparr>si_runId = r_runId run, si_runStatus = r_status run,
     si_recoveryState = r_recoveryState run, si_startedAt = r_startedAt run, si_endedAt = r_endedAt run,
     si_updatedAt = now, si_currentAttemptId = r_currentAttemptId run, si_completionText = None,
     si_projectionLost = False, si_projectionErrorCode = None\<rparr>"

text \<open>The three repairs of the loop body. Each returns the loop's locals.\<close>

definition repair_drift ::
    "maintenance \<Rightarrow> int \<Rightarrow> reconcile_mode \<Rightarrow> task_status \<Rightarrow> run_row \<Rightarrow> task_row \<Rightarrow> reconcile_acc
     \<Rightarrow> (task_row \<times> reconcile_acc) svc" where
  "repair_drift m now mode expected run task acc =
     (if task_active (t_status task) \<and> t_status task \<noteq> expected \<and> \<not> authorityMissing m task run now then
        svc_bind (if mode = APPLY then transaction (syncRunLifecycle (run_resync run now)) else svc_return task) (\<lambda>task'.
        let applied = (mode = APPLY \<and> t_status task' = expected) in
        svc_return (task', acc\<lparr>ra_reconciled := ra_reconciled acc + (if applied then 1 else 0),
          ra_decisions := ra_decisions acc @ [decision_for task' SYNC_RUN_STATUS applied
            (''project Task to '' @ task_status_name expected @ '' from Run '' @ run_status_name (r_status run))]\<rparr>))
      else svc_return (task, acc))"

definition repair_lost ::
    "maintenance \<Rightarrow> int \<Rightarrow> reconcile_mode \<Rightarrow> run_row \<Rightarrow> task_row \<Rightarrow> reconcile_acc
     \<Rightarrow> (run_row \<times> task_row \<times> reconcile_acc) svc" where
  "repair_lost m now mode run task acc =
     (if authorityMissing m task run now then
        svc_bind
          (if mode = APPLY then
             (case mt_markRunLost m of
                None \<Rightarrow> svc_of (Inl (Task_Error TASK_STATE_INVALID))
              | Some markRunLost \<Rightarrow>
                  svc_bind (markRunLost (t_runId task)) (\<lambda>_.
                  svc_read (\<lambda>s. (or_default (getRun (r_runId run) s) run, or_default (task_get (t_taskId task) s) task))))
           else svc_return (run, task)) (\<lambda>(run', task').
        let applied = (mode = APPLY) in
        svc_return (run', task', acc\<lparr>ra_lost := ra_lost acc + (if applied then 1 else 0),
          ra_decisions := ra_decisions acc @ [decision_for task' MARK_RUNTIME_LOST applied
            ''fail owning Run as non-resumable and project Task LOST'']\<rparr>))
      else svc_return (run, task, acc))"

definition repair_retention ::
    "maintenance \<Rightarrow> int \<Rightarrow> reconcile_mode \<Rightarrow> bool option \<Rightarrow> run_row \<Rightarrow> task_row \<Rightarrow> reconcile_acc \<Rightarrow> reconcile_acc svc" where
  "repair_retention m now mode includeRetention run task acc =
     (if includeRetention \<noteq> Some False \<and> task_terminal (t_status task) \<and> run_terminal (r_status run)
         \<and> t_cleanupAfter task = None \<and> t_endedAt task \<noteq> None then
        svc_bind (if mode = APPLY then transaction (task_scheduleCleanup m (t_taskId task) now) else svc_return False) (\<lambda>applied.
        svc_return (acc\<lparr>ra_retentionScheduled := ra_retentionScheduled acc + (if applied then 1 else 0),
          ra_decisions := ra_decisions acc @ [decision_for task SCHEDULE_RETENTION applied
            (''schedule '' @ show_int (retention_ms m (t_status task)) @ ''ms retention window'')]\<rparr>))
      else svc_return acc)"

definition reconcile_snapshot ::
    "maintenance \<Rightarrow> int \<Rightarrow> reconcile_mode \<Rightarrow> bool option \<Rightarrow> task_snapshot \<Rightarrow> reconcile_acc \<Rightarrow> reconcile_acc svc" where
  "reconcile_snapshot m now mode includeRetention sn acc =
     svc_bind (repair_drift m now mode (expectedTaskStatus (sn_run sn) (sn_attempt sn)) (sn_run sn) (sn_task sn) acc)
       (\<lambda>(task, acc1).
     svc_bind (repair_lost m now mode (sn_run sn) task acc1) (\<lambda>(run, task', acc2).
     repair_retention m now mode includeRetention run task' acc2))"

record task_reconcile_result =
  rr_mode :: reconcile_mode
  rr_generatedAt :: int
  rr_acc :: reconcile_acc

definition task_reconcile ::
    "maintenance \<Rightarrow> int \<Rightarrow> string \<Rightarrow> reconcile_mode \<Rightarrow> int option \<Rightarrow> bool option \<Rightarrow> task_reconcile_result svc" where
  "task_reconcile m now workspaceId mode limit includeRetention =
     svc_bind (svc_of (maint_authorize m workspaceId)) (\<lambda>w.
     svc_bind (svc_of (maint_limit limit)) (\<lambda>l.
     svc_bind (svc_read (maint_snapshot w l)) (\<lambda>sns.
     svc_bind (svc_fold (reconcile_snapshot m now mode includeRetention) sns
       \<lparr>ra_decisions = [], ra_reconciled = 0, ra_lost = 0, ra_retentionScheduled = 0\<rparr>) (\<lambda>acc.
     svc_return \<lparr>rr_mode = mode, rr_generatedAt = now, rr_acc = acc\<rparr>))))"

record retention_candidate =
  rt_taskId :: string
  rt_runId :: string
  rt_status :: task_status
  rt_endedAt :: int
  rt_cleanupAfter :: int

record task_retention_preview =
  rp_generatedAt :: int
  rp_candidates :: "retention_candidate list"
  rp_protectedActive :: nat

definition run_ended :: "string \<Rightarrow> db \<Rightarrow> bool" where
  "run_ended runId s = (case getRun runId s of None \<Rightarrow> False | Some run \<Rightarrow> run_terminal (r_status run))"

definition task_retentionPreview :: "maintenance \<Rightarrow> int \<Rightarrow> string \<Rightarrow> int option \<Rightarrow> task_retention_preview svc" where
  "task_retentionPreview m now workspaceId limit =
     svc_bind (svc_of (maint_authorize m workspaceId)) (\<lambda>w.
     svc_bind (svc_of (maint_limit limit)) (\<lambda>l.
     svc_read (\<lambda>s.
       let tasks = task_listAll w 1000 s;
           candidates = filter (\<lambda>t. run_ended (t_runId t) s) (task_listRetentionCandidates w now l s) in
       \<lparr>rp_generatedAt = now,
        rp_candidates = flat_map (\<lambda>t. case (t_endedAt t, t_cleanupAfter t) of
            (Some e, Some c) \<Rightarrow> [\<lparr>rt_taskId = t_taskId t, rt_runId = t_runId t, rt_status = t_status t,
               rt_endedAt = e, rt_cleanupAfter = c\<rparr>]
          | _ \<Rightarrow> []) candidates,
        rp_protectedActive = length (filter (\<lambda>t. task_active (t_status t) \<or> \<not> run_ended (t_runId t) s) tasks)\<rparr>)))"

end
