(* ===== verification/Task_Evolution.thy ===== *)
theory Task_Evolution
  imports Task_Maintenance
begin

text \<open>
  How a background task may change over its life, whatever sequence of ledger operations runs.
  \<open>row_evolves\<close> relates an earlier to a later version of one row; \<open>tasks_evolve\<close> says that every
  row of a database has a later version in another. Both are reflexive and transitive, and every
  operation of the task ledger and of its maintenance is a step of it.
\<close>

definition row_evolves :: "task_row \<Rightarrow> task_row \<Rightarrow> bool" where
  "row_evolves t t' \<longleftrightarrow>
     t_taskId t' = t_taskId t \<and> t_runId t' = t_runId t \<and> t_workspaceId t' = t_workspaceId t
     \<and> t_conversationId t' = t_conversationId t \<and> t_taskText t' = t_taskText t
     \<and> t_createdAt t' = t_createdAt t
     \<and> t_revision t \<le> t_revision t' \<and> (t_revision t' = t_revision t \<longrightarrow> t' = t)
     \<and> (t_startedAt t \<noteq> None \<longrightarrow> t_startedAt t' = t_startedAt t)
     \<and> (t_cleanupAfter t \<noteq> None \<longrightarrow> t_cleanupAfter t' = t_cleanupAfter t)
     \<and> (task_terminal (t_status t) \<longrightarrow> t_status t' = t_status t \<and> t_endedAt t' = t_endedAt t
          \<and> t_errorCode t' = t_errorCode t \<and> t_terminalSummary t' = t_terminalSummary t)"

definition tasks_evolve :: "db \<Rightarrow> db \<Rightarrow> bool" where
  "tasks_evolve s s' \<longleftrightarrow> (\<forall>k t. task_get k s = Some t \<longrightarrow> (\<exists>t'. task_get k s' = Some t' \<and> row_evolves t t'))"

lemma row_evolves_refl [simp]: "row_evolves t t"
  by (simp add: row_evolves_def)

lemma row_evolves_trans: "row_evolves a b \<Longrightarrow> row_evolves b c \<Longrightarrow> row_evolves a c"
  unfolding row_evolves_def by (smt (verit))

lemma tasks_evolve_refl [simp]: "tasks_evolve s s"
  by (simp add: tasks_evolve_def)

lemma tasks_evolve_trans: "tasks_evolve a b \<Longrightarrow> tasks_evolve b c \<Longrightarrow> tasks_evolve a c"
  unfolding tasks_evolve_def by (metis row_evolves_trans)

lemma tasks_evolve_same: "background_tasks s' = background_tasks s \<Longrightarrow> tasks_evolve s s'"
  by (simp add: tasks_evolve_def task_get_def)

lemma task_appendEvent_evolves: "task_appendEvent e s = Inr s' \<Longrightarrow> tasks_evolve s s'"
  by (rule tasks_evolve_same) (auto dest!: task_appendEvent_Inr)

lemma deliver_completion_evolves: "deliver_completion r sq i s = Inr s' \<Longrightarrow> tasks_evolve s s'"
  by (rule tasks_evolve_same) (auto simp: deliver_completion_def split: option.splits dest!: delivery_insert_Inr)

lemma task_update_evolves:
  assumes "task_ids_ok s" and "task_update p s = Inr (s1, Some r)"
    and c: "task_get (tu_taskId p) s = Some c" and "row_evolves c r"
  shows "tasks_evolve s s1"
  unfolding tasks_evolve_def
proof (intro allI impI)
  fix k t
  assume t: "task_get k s = Some t"
  note hit = trev.upd_hit [OF assms(1,2)] trev.upd_frame [OF assms(1,2)]
  show "\<exists>t'. task_get k s1 = Some t' \<and> row_evolves t t'"
  proof (cases "k = tu_taskId p")
    case True
    with hit(1) c t assms(4) show ?thesis by simp
  next
    case False
    with hit(2) t show ?thesis by simp
  qed
qed

text \<open>A row written from the values read in the same transaction.\<close>

lemma row_evolves_updated:
  assumes "t_startedAt c \<noteq> None \<longrightarrow> tu_startedAt p = t_startedAt c"
    and "t_cleanupAfter c \<noteq> None \<longrightarrow> tu_cleanupAfter p = Some (t_cleanupAfter c) \<or> tu_cleanupAfter p = None"
    and "task_terminal (t_status c) \<longrightarrow> tu_status p = t_status c \<and> tu_endedAt p = t_endedAt c
          \<and> tu_errorCode p = t_errorCode c \<and> tu_terminalSummary p = t_terminalSummary c"
  shows "row_evolves c (task_updated_row p c c)"
  using assms by (auto simp: row_evolves_def)

lemma createForRun_evolves:
  assumes "createForRun i s = Inr (s', v)"
  shows "tasks_evolve s s'"
proof -
  from assms obtain s1 e where s1: "task_insert (new_task_row i) s = Inr s1" "task_appendEvent e s1 = Inr s'"
    by (auto simp: createForRun_def Let_def)
  then have "tasks_evolve s s1"
    by (auto simp: tasks_evolve_def task_get_def tbl_get_append task_insert_def split: if_splits)
  from this task_appendEvent_evolves [OF s1(2)] show ?thesis by (rule tasks_evolve_trans)
qed

lemma keeps_lifecycle_evolves: "keeps_lifecycle p c \<Longrightarrow> row_evolves c (task_updated_row p c c)"
  by (simp add: keeps_lifecycle_def row_evolves_updated)

lemma classifyRun_evolves:
  assumes ids: "task_ids_ok s" and c: "classifyRun i s = Inr (s', v)"
  shows "tasks_evolve s s'"
  using ids c
proof (cases rule: classifyRun_cases)
  case same
  then show ?thesis by simp
next
  case (logged c p s1 e)
  have "row_evolves c v"
    using task_update_hitD(1) [OF ids logged(3,1)] keeps_lifecycle_evolves [OF logged(2)] by simp
  with logged(1) have "tasks_evolve s s1" using task_update_evolves [OF ids logged(3)] by simp
  from this task_appendEvent_evolves [OF logged(4)] show ?thesis by (rule tasks_evolve_trans)
qed

lemma syncRunLifecycle_evolves:
  assumes ids: "task_ids_ok s" and c: "syncRunLifecycle i s = Inr (s', v)"
  shows "tasks_evolve s s'"
  using c
proof (cases rule: syncRunLifecycle_cases)
  case same
  then show ?thesis by simp
next
  case (logged cur s1 e s2)
  note get = task_getByRun_get [OF ids logged(1)]
  have "row_evolves cur v"
    using task_update_hitD(1) [OF ids logged(3), unfolded sync_patch_simps, OF get] logged(2)
    by (auto simp: sync_patch_def Let_def intro!: row_evolves_updated)
  with get have "tasks_evolve s s1" using task_update_evolves [OF ids logged(3)] by simp
  moreover have "tasks_evolve s1 s2" using logged(4) by (rule task_appendEvent_evolves)
  moreover have "tasks_evolve s2 s'"
    using logged(8) deliver_completion_evolves by (auto split: if_splits)
  ultimately show ?thesis by (metis tasks_evolve_trans)
qed

lemma updateDeliveryState_evolves:
  assumes ids: "task_ids_ok s" and c: "updateDeliveryState k ds oc now s = Inr (s', v)"
  shows "tasks_evolve s s'"
  using c
proof (cases rule: updateDeliveryState_cases)
  case same
  then show ?thesis by simp
next
  case (written c p)
  have "row_evolves c v"
    using task_update_hitD(1) [OF ids written(3,1)] keeps_lifecycle_evolves [OF written(2)] by simp
  with written(1) show ?thesis using task_update_evolves [OF ids written(3)] by simp
qed

section \<open>Maintenance\<close>

lemma task_scheduleCleanup_cases:
  assumes "task_scheduleCleanup m k now s = Inr (s', ok)"
  obtains (skipped) "s' = s" "\<not> ok"
  | (scheduled) c run e s1 r ev where "ok" "task_get k s = Some c" "t_endedAt c = Some e"
      "getRun (t_runId c) s = Some run" "run_terminal (r_status run)" "task_terminal (t_status c)"
      "t_cleanupAfter c = None"
      "task_update (cleanup_patch c now (e + retention_ms m (t_status c))) s = Inr (s1, Some r)"
      "task_appendEvent ev s1 = Inr s'" "te_taskId ev = t_taskId r"
      "te_sequence ev = task_nextEventSequence (t_taskId r) s1" "te_status ev = t_status r"
proof (cases "s' = s \<and> \<not> ok")
  case True
  with skipped show thesis by blast
next
  case False
  with assms obtain c e run where c: "task_get k s = Some c" "t_endedAt c = Some e"
      "getRun (t_runId c) s = Some run" "run_terminal (r_status run)" "task_terminal (t_status c)"
      "t_cleanupAfter c = None"
    by (auto simp: task_scheduleCleanup_def split: option.splits if_splits)
  let ?p = "cleanup_patch c now (e + retention_ms m (t_status c))"
  from assms c obtain s1 ro where u: "task_update ?p s = Inr (s1, ro)"
    by (auto simp: task_scheduleCleanup_def Let_def)
  show thesis
  proof (cases ro)
    case None
    with assms c u False task_update_miss [of ?p s s1] show thesis
      by (simp add: task_scheduleCleanup_def Let_def)
  next
    case (Some r)
    with assms c u scheduled [of c e run s1 r] show thesis
      by (auto simp: task_scheduleCleanup_def Let_def)
  qed
qed

lemma cleanup_patch_simps [simp]:
  "tu_taskId (cleanup_patch c now x) = t_taskId c"
  "tu_status (cleanup_patch c now x) = t_status c"
  "tu_endedAt (cleanup_patch c now x) = t_endedAt c"
  "tu_startedAt (cleanup_patch c now x) = t_startedAt c"
  "tu_errorCode (cleanup_patch c now x) = t_errorCode c"
  "tu_terminalSummary (cleanup_patch c now x) = t_terminalSummary c"
  "tu_cleanupAfter (cleanup_patch c now x) = Some (Some x)"
  by (simp_all add: cleanup_patch_def)

lemma task_scheduleCleanup_step:
  assumes inv: "tasks_inv s" and c: "task_scheduleCleanup m k now s = Inr (s', ok)"
  shows "tasks_inv s' \<and> tasks_evolve s s'"
  using c
proof (cases rule: task_scheduleCleanup_cases)
  case skipped
  with inv show ?thesis by simp
next
  case (scheduled c run e s1 r ev)
  have ids: "task_ids_ok s" using inv by (simp add: tasks_inv_def rows_inv_def)
  have k: "t_taskId c = k" using scheduled(2) by (auto simp: task_get_def dest: tbl_get_key)
  then have get: "task_get (t_taskId c) s = Some c" using scheduled(2) by simp
  note r = task_update_hitD(1,2) [OF ids scheduled(8), unfolded cleanup_patch_simps, OF get]
  have ok: "task_row_ok r" using tasks_inv_row [OF inv get] r scheduled(6) by (simp add: task_row_ok_def)
  have "tasks_inv s'"
    using task_log_step [OF inv scheduled(8) ok scheduled(9-12)] get by auto
  moreover have "row_evolves c r" using r(1) scheduled(7) by (simp add: row_evolves_updated)
  then have "tasks_evolve s s1" using task_update_evolves [OF ids scheduled(8)] get by simp
  ultimately show ?thesis
    using task_appendEvent_evolves [OF scheduled(9)] tasks_evolve_trans by blast
qed

section \<open>Every operation is a sound step\<close>

definition ledger_ok :: "db \<Rightarrow> bool" where
  "ledger_ok s \<longleftrightarrow> tasks_inv s \<and> delivery_ids_ok s"

text \<open>A step that keeps the invariant and along which every task evolves.\<close>

definition sound_step :: "db \<Rightarrow> db \<Rightarrow> bool" where
  "sound_step s s' \<longleftrightarrow> (ledger_ok s \<longrightarrow> ledger_ok s' \<and> tasks_evolve s s')"

lemma sound_step_refl [simp]: "sound_step s s"
  by (simp add: sound_step_def)

lemma sound_step_trans: "sound_step a b \<Longrightarrow> sound_step b c \<Longrightarrow> sound_step a c"
  unfolding sound_step_def using tasks_evolve_trans by blast

lemma ledger_ok_ids: "ledger_ok s \<Longrightarrow> task_ids_ok s"
  by (simp add: ledger_ok_def tasks_inv_def rows_inv_def)

lemma sound_step_frame:
  assumes "background_tasks s' = background_tasks s"
    and "background_task_events s' = background_task_events s"
    and "task_completion_deliveries s' = task_completion_deliveries s"
  shows "sound_step s s'"
  unfolding sound_step_def ledger_ok_def tasks_inv_def
  using rows_inv_cong [OF assms(1,3)] log_inv_cong [OF assms(1,2)] tasks_evolve_same [OF assms(1)] assms(3)
  by simp

lemma task_update_deliveries:
  "task_update p s = Inr (s', ro) \<Longrightarrow> task_completion_deliveries s' = task_completion_deliveries s"
  by (auto simp: task_update_def Let_def split: option.splits if_splits)

lemma task_appendEvent_deliveries:
  "task_appendEvent e s = Inr s' \<Longrightarrow> task_completion_deliveries s' = task_completion_deliveries s"
  by (auto dest: task_appendEvent_Inr)

lemmas task_write_deliveries = task_update_deliveries task_appendEvent_deliveries

lemma sound_stepI:
  assumes "tasks_inv s \<Longrightarrow> tasks_inv s'" and "task_ids_ok s \<Longrightarrow> tasks_evolve s s'"
    and "delivery_ids_ok s \<Longrightarrow> delivery_ids_ok s'"
  shows "sound_step s s'"
  using assms by (simp add: sound_step_def ledger_ok_def tasks_inv_def rows_inv_def)

lemma createForRun_deliveries:
  assumes "createForRun i s = Inr (s', v)"
  shows "task_completion_deliveries s' = task_completion_deliveries s"
proof -
  from assms obtain s1 e where "task_insert (new_task_row i) s = Inr s1" "task_appendEvent e s1 = Inr s'"
    by (auto simp: createForRun_def Let_def)
  then show ?thesis by (auto simp: task_insert_def split: if_splits dest!: task_appendEvent_Inr)
qed

lemma createForRun_sound: "createForRun i s = Inr (s', v) \<Longrightarrow> sound_step s s'"
  by (rule sound_stepI) (simp_all only: createForRun_inv createForRun_evolves createForRun_deliveries [of i s s' v])

lemma classifyRun_sound:
  assumes "classifyRun i s = Inr (s', v)"
  shows "sound_step s s'"
proof -
  have "task_completion_deliveries s' = task_completion_deliveries s" if "task_ids_ok s"
    using that assms by (rule classifyRun_cases) (auto dest!: task_write_deliveries)
  then show ?thesis
    using classifyRun_inv [OF _ assms] classifyRun_evolves [OF _ assms]
    by (auto simp: sound_step_def ledger_ok_def tasks_inv_def rows_inv_def)
qed

lemma updateDeliveryState_sound:
  assumes "updateDeliveryState k ds oc now s = Inr (s', v)"
  shows "sound_step s s'"
proof -
  have "task_completion_deliveries s' = task_completion_deliveries s"
    using assms by (rule updateDeliveryState_cases) (auto dest!: task_write_deliveries)
  then show ?thesis
    using updateDeliveryState_inv [OF _ assms] updateDeliveryState_evolves [OF _ assms]
    by (auto intro!: sound_stepI)
qed

lemma task_scheduleCleanup_sound:
  assumes "task_scheduleCleanup m k now s = Inr (s', ok)"
  shows "sound_step s s'"
proof -
  have "task_completion_deliveries s' = task_completion_deliveries s"
    using assms by (rule task_scheduleCleanup_cases) (auto dest!: task_write_deliveries)
  with task_scheduleCleanup_step [OF _ assms] show ?thesis by (auto simp: sound_step_def ledger_ok_def)
qed

lemma deliver_completion_ids:
  assumes "deliver_completion r sq i s = Inr s'" and "delivery_ids_ok s"
  shows "delivery_ids_ok s'"
proof -
  from assms(1) obtain f where
    f: "delivery_insert (completion_delivery r f sq (si_completionText i) (si_updatedAt i)) s = Inr s'"
    by (auto simp: deliver_completion_def split: option.splits)
  let ?v = "completion_delivery r f sq (si_completionText i) (si_updatedAt i)"
  have "d_deliveryId ?v \<notin> d_deliveryId ` set (task_completion_deliveries s)"
    using f by (auto simp: delivery_insert_def split: if_splits)
  with assms(2) show ?thesis by (simp add: delivery_insert_Inr [OF f])
qed

lemma syncRunLifecycle_sound:
  assumes "syncRunLifecycle i s = Inr (s', v)"
  shows "sound_step s s'"
proof (rule sound_stepI)
  show "tasks_inv s'" if "tasks_inv s" using that assms by (rule syncRunLifecycle_inv)
  show "tasks_evolve s s'" if "task_ids_ok s" using that assms by (rule syncRunLifecycle_evolves)
  show "delivery_ids_ok s'" if ids: "delivery_ids_ok s"
    using assms
  proof (cases rule: syncRunLifecycle_cases)
    case same
    with ids show ?thesis by simp
  next
    case (logged cur s1 e s2)
    have "delivery_ids_ok s2" using ids logged(3,4) by (auto dest!: task_write_deliveries)
    with logged(8) show ?thesis by (auto split: if_splits intro: deliver_completion_ids)
  qed
qed

lemma write_delivery_ok_sound:
  assumes "delivery_ids_ok s \<Longrightarrow>
      map delivery_identity (task_completion_deliveries s') = map delivery_identity (task_completion_deliveries s)
      \<and> s' = s\<lparr>task_completion_deliveries := task_completion_deliveries s'\<rparr>"
  shows "sound_step s s'"
  unfolding sound_step_def
proof
  assume ok: "ledger_ok s"
  then have a: "map delivery_identity (task_completion_deliveries s') = map delivery_identity (task_completion_deliveries s)"
      "s' = s\<lparr>task_completion_deliveries := task_completion_deliveries s'\<rparr>"
    using assms by (simp_all add: ledger_ok_def)
  have "map (fst \<circ> delivery_identity) ds = map d_deliveryId ds" for ds :: "delivery_row list"
    by (simp add: delivery_identity_def)
  with arg_cong [OF a(1), of "map fst"] have "delivery_ids_ok s'" using ok by (simp add: ledger_ok_def)
  moreover have "tasks_inv s'" using ok tasks_inv_deliveries [OF _ a] by (simp add: ledger_ok_def)
  moreover have "background_tasks s' = background_tasks s" using arg_cong [OF a(2), of background_tasks] by simp
  ultimately show "ledger_ok s' \<and> tasks_evolve s s'" by (simp add: ledger_ok_def tasks_evolve_same)
qed

lemma delivery_update_sound: "delivery_update i s = Inr (s', ro) \<Longrightarrow> sound_step s s'"
  by (rule write_delivery_ok_sound) (rule delivery_update_identity)

lemma bindControllerSnapshot_sound: "bindControllerSnapshot i s = Inr (s', ro) \<Longrightarrow> sound_step s s'"
  by (rule write_delivery_ok_sound) (rule bindControllerSnapshot_identity)

text \<open>The two operations of the conversation ledger that write tasks.\<close>

lemma insertRun_sound:
  assumes "insertRun row s = Inr s'"
  shows "sound_step s s'"
proof -
  from assms obtain i v where "createForRun i (s\<lparr>agent_runs := agent_runs s @ [row]\<rparr>) = Inr (s', v)"
    by (auto simp: insertRun_def Let_def split: option.splits if_splits)
  then have "sound_step (s\<lparr>agent_runs := agent_runs s @ [row]\<rparr>) s'" by (rule createForRun_sound)
  moreover have "sound_step s (s\<lparr>agent_runs := agent_runs s @ [row]\<rparr>)" by (rule sound_step_frame) simp_all
  ultimately show ?thesis using sound_step_trans by blast
qed

lemma updateRun_sound:
  assumes "updateRun u s = Inr s'"
  shows "sound_step s s'"
proof -
  let ?s1 = "s\<lparr>agent_runs := tbl_modify (\<lambda>r. r_runId r = ru_runId u) (updated_run u) (agent_runs s)\<rparr>"
  from assms obtain v where "syncRunLifecycle (run_sync_input u) ?s1 = Inr (s', v)"
    by (auto simp: updateRun_def Let_def split: if_splits)
  then have "sound_step ?s1 s'" by (rule syncRunLifecycle_sound)
  moreover have "sound_step s ?s1" by (rule sound_step_frame) simp_all
  ultimately show ?thesis using sound_step_trans by blast
qed

text \<open>Service calls built from sound steps are sound, also when they throw half way.\<close>

interpretation sound: step_preorder sound_step
  by unfold_locales (auto intro: sound_step_trans)

lemma task_scheduleRetention_sound: "sound.steps (task_scheduleRetention m now w l)"
  unfolding task_scheduleRetention_def
  by (intro sound.steps_intros) (rule task_scheduleCleanup_sound)

lemma task_reconcile_sound:
  assumes "\<And>markRunLost k. mt_markRunLost m = Some markRunLost \<Longrightarrow> sound.steps (markRunLost k)"
  shows "sound.steps (task_reconcile m now w mode l ret)"
proof -
  have drift: "sound.steps (repair_drift m now mode ex run task acc)" for ex run task acc
    unfolding repair_drift_def Let_def by (intro sound.steps_intros) (rule syncRunLifecycle_sound)
  have lost: "sound.steps (repair_lost m now mode run task acc)" for run task acc
    unfolding repair_lost_def Let_def by (intro sound.steps_intros) (rule assms)
  have ret: "sound.steps (repair_retention m now mode ret run task acc)" for run task acc
    unfolding repair_retention_def by (intro sound.steps_intros) (rule task_scheduleCleanup_sound)
  have "sound.steps (reconcile_snapshot m now mode ret sn acc)" for sn acc
    unfolding reconcile_snapshot_def by (intro sound.steps_intros drift lost ret)
  then show ?thesis unfolding task_reconcile_def by (intro sound.steps_intros)
qed

text \<open>A preview changes nothing.\<close>

interpretation readonly: step_preorder "\<lambda>s s'. s' = (s :: db)"
  by unfold_locales auto

lemma task_reconcile_preview: "readonly.steps (task_reconcile m now w PREVIEW l ret)"
  unfolding task_reconcile_def reconcile_snapshot_def repair_drift_def repair_lost_def repair_retention_def Let_def
  by (intro readonly.steps_intros) simp_all

end
