(* ===== verification/Task_Flow_Ledger.thy ===== *)
theory Task_Flow_Ledger
  imports Task_Evolution
begin

text \<open>
  \<open>packages/state/src/task-flow-repository.ts\<close>: task flows, the tasks linked to them and their event
  log, with the constraints of the tables (migrations 019 to 021).
\<close>

section \<open>Flows\<close>

text \<open>\<open>serializeJson\<close>: \<open>null\<close> and \<open>undefined\<close> are stored as \<open>NULL\<close> and read back as \<open>null\<close>.\<close>

definition store_json :: "json \<Rightarrow> json" where
  "store_json v = (if v = JUndef then JNull else json_clean v)"

definition flow_checks :: "flow_row \<Rightarrow> bool" where
  "flow_checks v \<longleftrightarrow>
     0 < f_revision v
     \<and> 1 \<le> length (f_flowId v) \<and> length (f_flowId v) \<le> 256
     \<and> 1 \<le> length (f_workspaceId v) \<and> length (f_workspaceId v) \<le> 64
     \<and> 1 \<le> length (f_controllerId v) \<and> length (f_controllerId v) \<le> 128
     \<and> 1 \<le> length (f_goal v) \<and> length (f_goal v) \<le> 65536
     \<and> f_createdAt v \<le> f_updatedAt v
     \<and> opt_all (\<lambda>t. f_createdAt v \<le> t) (f_endedAt v)
     \<and> opt_all (\<lambda>t. 0 \<le> t) (f_cleanupAfter v)"

definition blocked_exists :: "string option \<Rightarrow> db \<Rightarrow> bool" where
  "blocked_exists b s \<longleftrightarrow> opt_all (\<lambda>t. task_get t s \<noteq> None) b"

definition flow_get :: "string \<Rightarrow> db \<Rightarrow> flow_row option" where
  "flow_get flowId s = tbl_get f_flowId flowId (task_flows s)"

definition flow_insert :: "flow_row \<Rightarrow> db \<Rightarrow> err + db" where
  "flow_insert v s =
     res_bind (require (1 \<le> length (f_ownerKey v) \<and> length (f_ownerKey v) \<le> 256) (Sql_Constraint Sql_Trigger)) (\<lambda>_.
     res_bind (require (flow_checks v) (Sql_Constraint Sql_Check)) (\<lambda>_.
     res_bind (require (flow_get (f_flowId v) s = None) (Sql_Constraint (Sql_Unique ''task_flows.flow_id''))) (\<lambda>_.
     res_bind (require (blocked_exists (f_blockedTaskId v) s) (Sql_Constraint Sql_ForeignKey)) (\<lambda>_.
     Inr (s\<lparr>task_flows := task_flows s @
       [v\<lparr>f_state := store_json (f_state v), f_wait := store_json (f_wait v)\<rparr>]\<rparr>)))))"

definition flow_list ::
    "string \<Rightarrow> string \<Rightarrow> flow_status option \<Rightarrow> string option \<Rightarrow> nat \<Rightarrow> db \<Rightarrow> flow_row list" where
  "flow_list workspaceId ownerKey status controllerId limit s =
     take limit (sort_key (\<lambda>f. (- f_updatedAt f, f_flowId f))
       (filter (\<lambda>f. f_workspaceId f = workspaceId \<and> f_ownerKey f = ownerKey
          \<and> (status = None \<or> status = Some (f_status f))
          \<and> (truthy controllerId = None \<or> controllerId = Some (f_controllerId f))) (task_flows s)))"

definition owner_matches :: "string option \<Rightarrow> flow_row \<Rightarrow> bool" where
  "owner_matches ownerKey f \<longleftrightarrow> truthy ownerKey = None \<or> ownerKey = Some (f_ownerKey f)"

definition flow_listAll :: "string \<Rightarrow> string option \<Rightarrow> nat \<Rightarrow> db \<Rightarrow> flow_row list" where
  "flow_listAll workspaceId ownerKey limit s =
     take limit (sort_key (\<lambda>f. (f_createdAt f, f_flowId f))
       (filter (\<lambda>f. f_workspaceId f = workspaceId \<and> owner_matches ownerKey f) (task_flows s)))"

definition flow_listRetentionCandidates :: "string \<Rightarrow> string option \<Rightarrow> int \<Rightarrow> nat \<Rightarrow> db \<Rightarrow> flow_row list" where
  "flow_listRetentionCandidates workspaceId ownerKey now limit s =
     take limit (sort_key (\<lambda>f. (the (f_cleanupAfter f), f_flowId f))
       (filter (\<lambda>f. f_workspaceId f = workspaceId \<and> owner_matches ownerKey f
          \<and> (case f_cleanupAfter f of None \<Rightarrow> False | Some c \<Rightarrow> c \<le> now)) (task_flows s)))"

definition flow_terminal :: "flow_status \<Rightarrow> bool" where
  "flow_terminal st \<longleftrightarrow> st \<in> {F_SUCCEEDED, F_FAILED, F_CANCELLED, F_LOST}"

text \<open>Some task linked to the flow is still queued or running.\<close>

definition has_active_child :: "string \<Rightarrow> db \<Rightarrow> bool" where
  "has_active_child flowId s \<longleftrightarrow>
     (\<exists>l \<in> set (task_flow_tasks s). l_flowId l = flowId
        \<and> (\<exists>t \<in> set (background_tasks s). t_taskId t = l_taskId l \<and> t_status t \<in> {T_QUEUED, T_RUNNING}))"

definition flow_listRetentionSchedulingCandidates :: "string \<Rightarrow> string option \<Rightarrow> nat \<Rightarrow> db \<Rightarrow> flow_row list" where
  "flow_listRetentionSchedulingCandidates workspaceId ownerKey limit s =
     take limit (sort_key (\<lambda>f. (the (f_endedAt f), f_flowId f))
       (filter (\<lambda>f. f_workspaceId f = workspaceId \<and> f_cleanupAfter f = None \<and> f_endedAt f \<noteq> None
          \<and> flow_terminal (f_status f) \<and> \<not> has_active_child (f_flowId f) s
          \<and> owner_matches ownerKey f) (task_flows s)))"

record flow_patch =
  fu_flowId :: string
  fu_expectedRevision :: int
  fu_status :: flow_status
  fu_currentStep :: "string option"
  fu_blockedTaskId :: "string option"
  fu_blockedSummary :: "string option"
  fu_state :: json
  fu_wait :: json
  fu_cancelRequestedAt :: "int option"
  fu_updatedAt :: int
  fu_endedAt :: "int option"
  fu_cleanupAfter :: "int option option"

definition flow_updated_row :: "flow_patch \<Rightarrow> flow_row \<Rightarrow> flow_row" where
  "flow_updated_row u r = r\<lparr>f_status := fu_status u, f_currentStep := fu_currentStep u,
     f_blockedTaskId := fu_blockedTaskId u, f_blockedSummary := fu_blockedSummary u,
     f_state := store_json (fu_state u), f_wait := store_json (fu_wait u),
     f_cancelRequestedAt := fu_cancelRequestedAt u, f_updatedAt := fu_updatedAt u,
     f_endedAt := fu_endedAt u,
     f_cleanupAfter := (case fu_cleanupAfter u of None \<Rightarrow> f_cleanupAfter r | Some v \<Rightarrow> v),
     f_revision := f_revision r + 1\<rparr>"

definition flow_update :: "flow_patch \<Rightarrow> db \<Rightarrow> err + (db \<times> flow_row option)" where
  "flow_update u s =
     (case find (\<lambda>r. f_flowId r = fu_flowId u \<and> f_revision r = fu_expectedRevision u) (task_flows s) of
        None \<Rightarrow> Inr (s, None)
      | Some r \<Rightarrow>
          res_bind (require (flow_checks (flow_updated_row u r)) (Sql_Constraint Sql_Check)) (\<lambda>_.
          res_bind (require (blocked_exists (fu_blockedTaskId u) s) (Sql_Constraint Sql_ForeignKey)) (\<lambda>_.
          Inr (s\<lparr>task_flows := tbl_modify
                 (\<lambda>r. f_flowId r = fu_flowId u \<and> f_revision r = fu_expectedRevision u)
                 (flow_updated_row u) (task_flows s)\<rparr>,
               Some (flow_updated_row u r)))))"

section \<open>Linked tasks\<close>

datatype link_outcome = LINKED | REPLAY | CONFLICT

definition getTaskLink :: "string \<Rightarrow> db \<Rightarrow> flow_link_row option" where
  "getTaskLink taskId s = tbl_get l_taskId taskId (task_flow_tasks s)"

definition flow_linkTask :: "flow_link_row \<Rightarrow> db \<Rightarrow> err + (db \<times> link_outcome)" where
  "flow_linkTask i s =
     (case getTaskLink (l_taskId i) s of
        Some existing \<Rightarrow>
          Inr (s, if l_flowId existing = l_flowId i \<and> l_stepKey existing = l_stepKey i then REPLAY else CONFLICT)
      | None \<Rightarrow>
          res_bind (require (flow_get (l_flowId i) s \<noteq> None \<and> task_get (l_taskId i) s \<noteq> None)
            (Sql_Constraint Sql_ForeignKey)) (\<lambda>_.
          Inr (s\<lparr>task_flow_tasks := task_flow_tasks s @ [i]\<rparr>, LINKED)))"

definition listTaskLinks :: "string \<Rightarrow> db \<Rightarrow> flow_link_row list" where
  "listTaskLinks flowId s = sort_key (\<lambda>l. (l_linkedAt l, l_taskId l))
     (filter (\<lambda>l. l_flowId l = flowId) (task_flow_tasks s))"

section \<open>Events\<close>

definition flow_nextEventSequence :: "string \<Rightarrow> db \<Rightarrow> int" where
  "flow_nextEventSequence flowId s =
     next_sequence (\<lambda>e. fe_flowId e = flowId) fe_sequence (task_flow_events s)"

definition flow_appendEvent :: "flow_event_row \<Rightarrow> db \<Rightarrow> err + db" where
  "flow_appendEvent v s =
     res_bind (require (json_stringify (fe_payload v) \<noteq> None) Js_Error) (\<lambda>_.
     res_bind (require (0 < fe_sequence v \<and> 0 < fe_revision v) (Sql_Constraint Sql_Check)) (\<lambda>_.
     res_bind (require (\<not> (\<exists>e \<in> set (task_flow_events s). fe_flowId e = fe_flowId v \<and> fe_sequence e = fe_sequence v))
       (Sql_Constraint (Sql_Unique ''task_flow_events.flow_id, task_flow_events.sequence''))) (\<lambda>_.
     res_bind (require (flow_get (fe_flowId v) s \<noteq> None) (Sql_Constraint Sql_ForeignKey)) (\<lambda>_.
     Inr (s\<lparr>task_flow_events := task_flow_events s @ [v\<lparr>fe_payload := json_clean (fe_payload v)\<rparr>]\<rparr>)))))"

definition flow_listEvents :: "string \<Rightarrow> nat \<Rightarrow> db \<Rightarrow> flow_event_row list" where
  "flow_listEvents flowId limit s =
     rev (take limit (sort_key (\<lambda>e. - fe_sequence e) (filter (\<lambda>e. fe_flowId e = flowId) (task_flow_events s))))"

section \<open>The interfaces the ledger provides\<close>

abbreviation flow_ids_ok :: "db \<Rightarrow> bool" where
  "flow_ids_ok s \<equiv> distinct (map f_flowId (task_flows s))"

lemma flow_updated_row_simps [simp]:
  "f_flowId (flow_updated_row u r) = f_flowId r" "f_ownerKey (flow_updated_row u r) = f_ownerKey r"
  "f_workspaceId (flow_updated_row u r) = f_workspaceId r"
  "f_controllerId (flow_updated_row u r) = f_controllerId r" "f_goal (flow_updated_row u r) = f_goal r"
  "f_createdAt (flow_updated_row u r) = f_createdAt r"
  "f_revision (flow_updated_row u r) = f_revision r + 1" "f_status (flow_updated_row u r) = fu_status u"
  "f_blockedTaskId (flow_updated_row u r) = fu_blockedTaskId u"
  "f_endedAt (flow_updated_row u r) = fu_endedAt u"
  "f_cancelRequestedAt (flow_updated_row u r) = fu_cancelRequestedAt u"
  "f_wait (flow_updated_row u r) = store_json (fu_wait u)"
  "f_cleanupAfter (flow_updated_row u r) = (case fu_cleanupAfter u of None \<Rightarrow> f_cleanupAfter r | Some v \<Rightarrow> v)"
  by (simp_all add: flow_updated_row_def)

lemma flow_update_hit:
  assumes ids: "flow_ids_ok s" and u: "flow_update u s = Inr (s', Some r')"
  obtains r where "flow_get (fu_flowId u) s = Some r" and "f_revision r = fu_expectedRevision u"
    and "r' = flow_updated_row u r" and "flow_checks r'" and "blocked_exists (fu_blockedTaskId u) s"
    and "f_flowId r = fu_flowId u"
    and "s' = s\<lparr>task_flows := tbl_replace f_flowId (fu_flowId u) r' (task_flows s)\<rparr>"
proof -
  let ?p = "\<lambda>r. f_flowId r = fu_flowId u \<and> f_revision r = fu_expectedRevision u"
  from u obtain r where r: "find ?p (task_flows s) = Some r" "r' = flow_updated_row u r" "flow_checks r'"
      "blocked_exists (fu_blockedTaskId u) s"
      "s' = s\<lparr>task_flows := tbl_modify ?p (flow_updated_row u) (task_flows s)\<rparr>"
    by (auto simp: flow_update_def split: option.splits if_splits)
  then have p: "?p r" "r \<in> set (task_flows s)" by (auto simp: find_Some_iff)
  with tbl_get_distinct [OF ids, of r] have get: "flow_get (fu_flowId u) s = Some r"
    by (simp add: flow_get_def)
  have "tbl_modify ?p (flow_updated_row u) (task_flows s) = tbl_replace f_flowId (fu_flowId u) r' (task_flows s)"
    unfolding r(2) using get p by (intro tbl_modify_unique [OF ids]) (auto simp: flow_get_def)
  with that r p get show thesis by simp
qed

lemma flow_update_miss:
  "flow_update u s = Inr (s', None) \<Longrightarrow>
     s' = s \<and> (\<forall>r. flow_get (fu_flowId u) s = Some r \<longrightarrow> f_revision r \<noteq> fu_expectedRevision u)"
  by (auto simp: flow_update_def flow_get_def find_None_iff split: option.splits if_splits dest!: tbl_get_key)

lemma flow_update_table:
  assumes "flow_ids_ok s" and "flow_update u s = Inr (s', Some r)"
  shows "\<exists>r0. tbl_get f_flowId (fu_flowId u) (task_flows s) = Some r0 \<and> f_revision r0 = fu_expectedRevision u
      \<and> f_revision r = fu_expectedRevision u + 1 \<and> f_flowId r = fu_flowId u
      \<and> task_flows s' = tbl_replace f_flowId (fu_flowId u) r (task_flows s)"
  using assms by (rule flow_update_hit) (auto simp: flow_get_def)

interpretation frev: revisioned_table task_flows f_flowId f_revision fu_flowId fu_expectedRevision flow_update
  by unfold_locales (auto intro: flow_update_table dest: flow_update_miss simp: flow_get_def)

lemma flow_appendEvent_Inr:
  "flow_appendEvent v s = Inr s' \<Longrightarrow>
     s' = s\<lparr>task_flow_events := task_flow_events s @ [v\<lparr>fe_payload := json_clean (fe_payload v)\<rparr>]\<rparr>"
  by (auto simp: flow_appendEvent_def split: if_splits)

lemma flow_appendEvent_frame:
  assumes "flow_appendEvent e s = Inr s'"
  shows "task_flows s' = task_flows s \<and> (\<exists>e'. fe_flowId e' = fe_flowId e
      \<and> fe_sequence e' = fe_sequence e \<and> fe_status e' = fe_status e
      \<and> task_flow_events s' = task_flow_events s @ [e'])"
  using flow_appendEvent_Inr [OF assms]
  by (auto intro!: exI [of _ "e\<lparr>fe_payload := json_clean (fe_payload e)\<rparr>"])

interpretation flog: status_log task_flow_events fe_flowId fe_sequence flow_nextEventSequence
    flow_appendEvent task_flows f_flowId f_status fe_status
proof unfold_locales
  show "flow_nextEventSequence k s = next_sequence (\<lambda>e. fe_flowId e = k) fe_sequence (task_flow_events s)" for k s
    by (simp add: flow_nextEventSequence_def)
qed (use flow_appendEvent_frame in blast)+

end
