(* ===== verification/Task_Flow_Service.thy ===== *)
theory Task_Flow_Service
  imports Task_Flow_Ledger
begin

text \<open>
  \<open>packages/task-flows/src/service.ts\<close>: flows as state machines. \<open>flow_mutate\<close> is the one transition
  (\<open>#mutate\<close>); the public methods are its instances. Parameters: the identifier \<open>randomUUID\<close> returns,
  each reading of the clock, the hook a caller runs inside the transition's transaction, and the
  cancellation of one task.
\<close>

section \<open>Arguments\<close>

record flow_service =
  fs_workspaceIds :: "string list"
  fs_taskWorkspaceIds :: "string list"

definition invalid_argument :: err where
  "invalid_argument = Flow_Error TASK_FLOW_INVALID_ARGUMENT"

definition flow_bounded :: "string \<Rightarrow> nat \<Rightarrow> err + string" where
  "flow_bounded v limit =
     (let normalized = js_trim v in
      if normalized = [] \<or> length normalized > limit then Inl invalid_argument else Inr normalized)"

definition optionalBounded :: "string option \<Rightarrow> nat \<Rightarrow> err + string option" where
  "optionalBounded v limit =
     (case v of None \<Rightarrow> Inr None
      | Some x \<Rightarrow> let normalized = js_trim x in
          if normalized = [] then Inr None
          else if length normalized > limit then Inl invalid_argument else Inr (Some normalized))"

definition assertJson :: "json \<Rightarrow> err + json" where
  "assertJson v =
     (if v = JUndef then Inr JNull
      else case json_stringify v of
        None \<Rightarrow> Inl invalid_argument
      | Some text \<Rightarrow> if length text > 262144 then Inl invalid_argument else Inr v)"

definition flow_authorize :: "flow_service \<Rightarrow> string \<Rightarrow> err + string" where
  "flow_authorize fs workspaceId =
     res_bind (flow_bounded workspaceId 64) (\<lambda>normalized.
     res_bind (require (normalized \<in> set (fs_workspaceIds fs)) (Flow_Error TASK_FLOW_ACCESS_DENIED)) (\<lambda>_.
     Inr normalized))"

definition flow_owned :: "flow_service \<Rightarrow> string \<Rightarrow> string \<Rightarrow> string \<Rightarrow> flow_row svc" where
  "flow_owned fs workspaceId ownerKey flowId =
     svc_bind (svc_of (flow_authorize fs workspaceId)) (\<lambda>_.
     svc_bind (svc_of (flow_bounded ownerKey 256)) (\<lambda>normalizedOwnerKey.
     svc_bind (svc_of (flow_bounded flowId 256)) (\<lambda>normalizedFlowId.
     svc_bind (svc_read (flow_get normalizedFlowId)) (\<lambda>row.
     (case row of
        None \<Rightarrow> svc_of (Inl (Flow_Error TASK_FLOW_NOT_FOUND))
      | Some f \<Rightarrow>
          svc_bind (svc_require (f_workspaceId f = workspaceId) (Flow_Error TASK_FLOW_ACCESS_DENIED)) (\<lambda>_.
          svc_bind (svc_require (f_ownerKey f = normalizedOwnerKey) (Flow_Error TASK_FLOW_ACCESS_DENIED)) (\<lambda>_.
          svc_return f)))))))"

section \<open>Creating and reading\<close>

record flow_create_input =
  fc_workspaceId :: string
  fc_ownerKey :: string
  fc_controllerId :: string
  fc_goal :: string
  fc_currentStep :: "string option"
  fc_state :: json
  fc_running :: "bool option"

text \<open>\<open>status?: "QUEUED" | "RUNNING"\<close> is \<open>fc_running\<close>.\<close>

definition initial_status :: "bool option \<Rightarrow> flow_status" where
  "initial_status v = (if v = Some True then F_RUNNING else F_QUEUED)"

definition flow_create :: "flow_service \<Rightarrow> string \<Rightarrow> int \<Rightarrow> flow_create_input \<Rightarrow> flow_row svc" where
  "flow_create fs uuid now i =
     svc_bind (svc_of (flow_authorize fs (fc_workspaceId i))) (\<lambda>workspaceId.
     svc_bind (svc_of (flow_bounded (fc_ownerKey i) 256)) (\<lambda>ownerKey.
     svc_bind (svc_of (flow_bounded (fc_controllerId i) 128)) (\<lambda>controllerId.
     svc_bind (svc_of (flow_bounded (fc_goal i) 65536)) (\<lambda>goal.
     svc_bind (svc_of (optionalBounded (fc_currentStep i) 256)) (\<lambda>currentStep.
     svc_bind (svc_of (assertJson (fc_state i))) (\<lambda>state.
     let flow = \<lparr>f_flowId = uuid, f_workspaceId = workspaceId, f_ownerKey = ownerKey,
           f_controllerId = controllerId, f_goal = goal, f_status = initial_status (fc_running i),
           f_currentStep = currentStep, f_blockedTaskId = None, f_blockedSummary = None,
           f_state = state, f_wait = JNull, f_cancelRequestedAt = None, f_createdAt = now,
           f_updatedAt = now, f_endedAt = None, f_cleanupAfter = None, f_revision = 1\<rparr> in
     transaction (\<lambda>s.
       (case getConversation ownerKey s of
          None \<Rightarrow> Inl (Flow_Error TASK_FLOW_NOT_FOUND)
        | Some owner \<Rightarrow>
            res_bind (require (c_workspaceId owner = workspaceId) (Flow_Error TASK_FLOW_ACCESS_DENIED)) (\<lambda>_.
            res_bind (flow_insert flow s) (\<lambda>s1.
            res_bind (flow_appendEvent \<lparr>fe_flowId = f_flowId flow, fe_sequence = 1,
                fe_eventType = ''taskFlow.created'', fe_status = f_status flow, fe_revision = f_revision flow,
                fe_payload = JObj [(''ownerKey'', JStr ownerKey), (''controllerId'', JStr controllerId),
                  (''goal'', JStr goal), (''currentStep'', jopt_str currentStep)],
                fe_emittedAt = now\<rparr> s1) (\<lambda>s2.
            Inr (s2, flow))))))))))))"

definition flow_service_list ::
    "flow_service \<Rightarrow> string \<Rightarrow> string \<Rightarrow> flow_status option \<Rightarrow> string option \<Rightarrow> int option \<Rightarrow> flow_row list svc" where
  "flow_service_list fs workspaceId ownerKey status controllerId limit =
     svc_bind (svc_of (flow_authorize fs workspaceId)) (\<lambda>w.
     svc_bind (svc_of (flow_bounded ownerKey 256)) (\<lambda>owner.
     svc_bind (svc_of (case controllerId of None \<Rightarrow> Inr None
         | Some c \<Rightarrow> res_bind (flow_bounded c 128) (\<lambda>x. Inr (Some x)))) (\<lambda>controller.
     let l = or_default limit 50 in
     svc_bind (svc_require (1 \<le> l \<and> l \<le> 200) invalid_argument) (\<lambda>_.
     svc_read (flow_list w owner status controller (nat l))))))"

record flow_task_link =
  fl_link :: flow_link_row
  fl_task :: task_row

record flow_view =
  fv_flow :: flow_row
  fv_tasks :: "flow_task_link list"
  fv_events :: "flow_event_row list"

definition flow_service_get :: "flow_service \<Rightarrow> string \<Rightarrow> string \<Rightarrow> string \<Rightarrow> flow_view svc" where
  "flow_service_get fs workspaceId ownerKey flowId =
     svc_bind (flow_owned fs workspaceId ownerKey flowId) (\<lambda>flow.
     svc_bind (svc_read (\<lambda>s. (listTaskLinks (f_flowId flow) s, flow_listEvents (f_flowId flow) 200 s))) (\<lambda>(links, events).
     svc_bind (svc_fold (\<lambda>l acc.
         svc_bind (task_service_get (fs_taskWorkspaceIds fs) (f_workspaceId flow) (l_taskId l)) (\<lambda>v.
         svc_return (acc @ [\<lparr>fl_link = l, fl_task = vw_task v\<rparr>]))) links []) (\<lambda>tasks.
     svc_return \<lparr>fv_flow = flow, fv_tasks = tasks, fv_events = events\<rparr>)))"

definition getByTask :: "flow_service \<Rightarrow> string \<Rightarrow> string \<Rightarrow> string \<Rightarrow> flow_view option svc" where
  "getByTask fs workspaceId ownerKey taskId =
     svc_bind (svc_of (flow_authorize fs workspaceId)) (\<lambda>_.
     svc_bind (svc_of (flow_bounded ownerKey 256)) (\<lambda>owner.
     svc_bind (svc_of (flow_bounded taskId 256)) (\<lambda>task.
     svc_bind (svc_read (getTaskLink task)) (\<lambda>link.
     (case link of None \<Rightarrow> svc_return None
      | Some l \<Rightarrow> svc_bind (flow_service_get fs workspaceId owner (l_flowId l)) (\<lambda>v. svc_return (Some v)))))))"

section \<open>Linking a task\<close>

definition flow_keep :: "flow_row \<Rightarrow> int \<Rightarrow> flow_patch" where
  "flow_keep f now = \<lparr>fu_flowId = f_flowId f, fu_expectedRevision = f_revision f, fu_status = f_status f,
     fu_currentStep = f_currentStep f, fu_blockedTaskId = f_blockedTaskId f,
     fu_blockedSummary = f_blockedSummary f, fu_state = f_state f, fu_wait = f_wait f,
     fu_cancelRequestedAt = f_cancelRequestedAt f, fu_updatedAt = now, fu_endedAt = f_endedAt f,
     fu_cleanupAfter = None\<rparr>"

text \<open>The guards of \<open>linkTask\<close> on a task that has no link yet.\<close>

definition link_guards :: "flow_row \<Rightarrow> string \<Rightarrow> db \<Rightarrow> err + unit" where
  "link_guards fresh taskId s =
     res_bind (require (\<not> flow_terminal (f_status fresh)) (Flow_Error TASK_FLOW_STATE_INVALID)) (\<lambda>_.
     res_bind (require (f_cancelRequestedAt fresh = None) (Flow_Error TASK_FLOW_STATE_INVALID)) (\<lambda>_.
     (case task_get taskId s of
        None \<Rightarrow> Inl (Flow_Error TASK_FLOW_NOT_FOUND)
      | Some task \<Rightarrow>
          res_bind (require (t_workspaceId task = f_workspaceId fresh) (Flow_Error TASK_FLOW_ACCESS_DENIED)) (\<lambda>_.
          require (t_conversationId task = f_ownerKey fresh) (Flow_Error TASK_FLOW_ACCESS_DENIED)))))"

definition link_transaction :: "string \<Rightarrow> int \<Rightarrow> string \<Rightarrow> string option \<Rightarrow> int \<Rightarrow> db \<Rightarrow> err + (db \<times> unit)" where
  "link_transaction flowId expectedRevision taskId stepKey now s =
     (case flow_get flowId s of
        None \<Rightarrow> Inl (Flow_Error TASK_FLOW_NOT_FOUND)
      | Some fresh \<Rightarrow>
          res_bind (require (f_revision fresh = expectedRevision) (Flow_Error TASK_FLOW_REVISION_CONFLICT)) (\<lambda>_.
          (case getTaskLink taskId s of
             Some existing \<Rightarrow>
               if l_flowId existing = f_flowId fresh \<and> l_stepKey existing = stepKey then Inr (s, ())
               else Inl (Flow_Error TASK_FLOW_TASK_CONFLICT)
           | None \<Rightarrow>
               res_bind (link_guards fresh taskId s) (\<lambda>_.
               res_bind (flow_linkTask \<lparr>l_flowId = f_flowId fresh, l_taskId = taskId, l_stepKey = stepKey, l_linkedAt = now\<rparr> s)
                 (\<lambda>(s1, linked).
               (case linked of
                  CONFLICT \<Rightarrow> Inl (Flow_Error TASK_FLOW_TASK_CONFLICT)
                | REPLAY \<Rightarrow> Inr (s1, ())
                | LINKED \<Rightarrow>
                    res_bind (flow_update (flow_keep fresh now) s1) (\<lambda>(s2, ro).
                    (case ro of
                       None \<Rightarrow> Inl (Flow_Error TASK_FLOW_REVISION_CONFLICT)
                     | Some updated \<Rightarrow>
                         res_bind (flow_appendEvent \<lparr>fe_flowId = f_flowId updated,
                             fe_sequence = flow_nextEventSequence (f_flowId updated) s2,
                             fe_eventType = ''taskFlow.task.linked'', fe_status = f_status updated,
                             fe_revision = f_revision updated,
                             fe_payload = JObj [(''taskId'', JStr taskId), (''stepKey'', jopt_str stepKey)],
                             fe_emittedAt = now\<rparr> s2) (\<lambda>s3. Inr (s3, ()))))))))))"

definition linkTask ::
    "flow_service \<Rightarrow> int \<Rightarrow> string \<Rightarrow> string \<Rightarrow> string \<Rightarrow> string \<Rightarrow> int \<Rightarrow> string option \<Rightarrow> flow_view svc" where
  "linkTask fs now workspaceId ownerKey flowId taskId expectedRevision stepKey =
     svc_bind (flow_owned fs workspaceId ownerKey flowId) (\<lambda>current.
     svc_bind (svc_of (flow_bounded taskId 256)) (\<lambda>task.
     svc_bind (svc_of (optionalBounded stepKey 256)) (\<lambda>step.
     svc_bind (transaction (link_transaction (f_flowId current) expectedRevision task step now)) (\<lambda>_.
     flow_service_get fs workspaceId ownerKey flowId))))"

section \<open>Transitions\<close>

text \<open>\<open>ALLOWED\<close>.\<close>

definition flow_allowed :: "flow_status \<Rightarrow> flow_status set" where
  "flow_allowed st = (case st of
     F_QUEUED \<Rightarrow> {F_RUNNING, F_WAITING, F_BLOCKED, F_FAILED, F_CANCELLED, F_LOST}
   | F_RUNNING \<Rightarrow> {F_WAITING, F_BLOCKED, F_SUCCEEDED, F_FAILED, F_CANCELLED, F_LOST}
   | F_WAITING \<Rightarrow> {F_QUEUED, F_RUNNING, F_FAILED, F_CANCELLED, F_LOST}
   | F_BLOCKED \<Rightarrow> {F_QUEUED, F_RUNNING, F_FAILED, F_CANCELLED, F_LOST}
   | _ \<Rightarrow> {})"

text \<open>The argument of \<open>#mutate\<close>. \<open>None\<close> is \<open>undefined\<close> where the code distinguishes it from \<open>null\<close>.\<close>

record flow_mutation =
  fm_workspaceId :: string
  fm_ownerKey :: string
  fm_flowId :: string
  fm_expectedRevision :: int
  fm_targetStatus :: flow_status
  fm_eventType :: string
  fm_currentStep :: "string option option"
  fm_blockedTaskId :: "string option option"
  fm_blockedSummary :: "string option"
  fm_state :: json
  fm_wait :: json
  fm_cancelRequestedAt :: "int option option"
  fm_endedAt :: "int option"

type_synonym flow_hook = "flow_row \<Rightarrow> flow_row \<Rightarrow> int \<Rightarrow> db \<Rightarrow> err + db"

definition no_hook :: flow_hook where
  "no_hook before after now s = Inr s"

definition mutation_blocked :: "flow_mutation \<Rightarrow> flow_row \<Rightarrow> db \<Rightarrow> err + string option" where
  "mutation_blocked i current s =
     res_bind (case fm_blockedTaskId i of None \<Rightarrow> Inr (f_blockedTaskId current)
       | Some v \<Rightarrow> optionalBounded v 256) (\<lambda>blockedTaskId.
     if fm_targetStatus i = F_BLOCKED then
       (case truthy blockedTaskId of
          None \<Rightarrow> Inl invalid_argument
        | Some b \<Rightarrow>
            res_bind (require (\<exists>l \<in> set (listTaskLinks (f_flowId current) s). l_taskId l = b)
              (Flow_Error TASK_FLOW_STATE_INVALID)) (\<lambda>_. Inr blockedTaskId))
     else Inr blockedTaskId)"

definition mutation_patch :: "flow_mutation \<Rightarrow> flow_row \<Rightarrow> string option \<Rightarrow> int \<Rightarrow> err + flow_patch" where
  "mutation_patch i current blockedTaskId now =
     (let target = fm_targetStatus i in
      res_bind (case fm_currentStep i of None \<Rightarrow> Inr (f_currentStep current) | Some v \<Rightarrow> optionalBounded v 256) (\<lambda>step.
      res_bind (if target = F_BLOCKED then optionalBounded (fm_blockedSummary i) 4096 else Inr None) (\<lambda>summary.
      res_bind (if fm_state i = JUndef then Inr (f_state current) else assertJson (fm_state i)) (\<lambda>state.
      res_bind (if target = F_WAITING then assertJson (fm_wait i) else Inr JNull) (\<lambda>wait.
      Inr \<lparr>fu_flowId = f_flowId current, fu_expectedRevision = f_revision current, fu_status = target,
        fu_currentStep = step, fu_blockedTaskId = (if target = F_BLOCKED then blockedTaskId else None),
        fu_blockedSummary = summary, fu_state = state, fu_wait = wait,
        fu_cancelRequestedAt = or_default (fm_cancelRequestedAt i) (f_cancelRequestedAt current),
        fu_updatedAt = now,
        fu_endedAt = (if flow_terminal target then Some (or_default (fm_endedAt i) now) else None),
        fu_cleanupAfter = None\<rparr>)))))"

definition flow_status_name :: "flow_status \<Rightarrow> string" where
  "flow_status_name st = (case st of F_QUEUED \<Rightarrow> ''QUEUED'' | F_RUNNING \<Rightarrow> ''RUNNING''
     | F_WAITING \<Rightarrow> ''WAITING'' | F_BLOCKED \<Rightarrow> ''BLOCKED'' | F_SUCCEEDED \<Rightarrow> ''SUCCEEDED''
     | F_FAILED \<Rightarrow> ''FAILED'' | F_CANCELLED \<Rightarrow> ''CANCELLED'' | F_LOST \<Rightarrow> ''LOST'')"

definition mutate_transaction :: "flow_hook \<Rightarrow> string \<Rightarrow> flow_mutation \<Rightarrow> int \<Rightarrow> db \<Rightarrow> err + (db \<times> flow_row)" where
  "mutate_transaction hook flowId i now s =
     (case flow_get flowId s of
        None \<Rightarrow> Inl (Flow_Error TASK_FLOW_NOT_FOUND)
      | Some current \<Rightarrow>
          res_bind (require (f_revision current = fm_expectedRevision i) (Flow_Error TASK_FLOW_REVISION_CONFLICT)) (\<lambda>_.
          res_bind (require (\<not> flow_terminal (f_status current)) (Flow_Error TASK_FLOW_STATE_INVALID)) (\<lambda>_.
          res_bind (require (f_status current = fm_targetStatus i \<or> fm_targetStatus i \<in> flow_allowed (f_status current))
            (Flow_Error TASK_FLOW_STATE_INVALID)) (\<lambda>_.
          res_bind (mutation_blocked i current s) (\<lambda>blockedTaskId.
          res_bind (mutation_patch i current blockedTaskId now) (\<lambda>patch.
          res_bind (flow_update patch s) (\<lambda>(s1, ro).
          (case ro of
             None \<Rightarrow> Inl (Flow_Error TASK_FLOW_REVISION_CONFLICT)
           | Some updated \<Rightarrow>
               res_bind (flow_appendEvent \<lparr>fe_flowId = f_flowId updated,
                   fe_sequence = flow_nextEventSequence (f_flowId updated) s1,
                   fe_eventType = fm_eventType i, fe_status = f_status updated, fe_revision = f_revision updated,
                   fe_payload = JObj [(''from'', JStr (flow_status_name (f_status current))),
                     (''to'', JStr (flow_status_name (f_status updated))),
                     (''currentStep'', jopt_str (f_currentStep updated)),
                     (''blockedTaskId'', jopt_str (f_blockedTaskId updated))],
                   fe_emittedAt = now\<rparr> s1) (\<lambda>s2.
               res_bind (hook current updated now s2) (\<lambda>s3.
               Inr (s3, updated)))))))))))"

definition flow_mutate :: "flow_service \<Rightarrow> flow_hook \<Rightarrow> int \<Rightarrow> flow_mutation \<Rightarrow> flow_row svc" where
  "flow_mutate fs hook now i =
     svc_bind (flow_owned fs (fm_workspaceId i) (fm_ownerKey i) (fm_flowId i)) (\<lambda>owned.
     transaction (mutate_transaction hook (f_flowId owned) i now))"

text \<open>The arguments the public transitions share, and a mutation with every optional field absent.\<close>

record flow_ref =
  fr_workspaceId :: string
  fr_ownerKey :: string
  fr_flowId :: string
  fr_expectedRevision :: int
  fr_currentStep :: "string option option"
  fr_state :: json

definition base_mutation :: "flow_ref \<Rightarrow> flow_status \<Rightarrow> string \<Rightarrow> flow_mutation" where
  "base_mutation r target eventType = \<lparr>fm_workspaceId = fr_workspaceId r, fm_ownerKey = fr_ownerKey r,
     fm_flowId = fr_flowId r, fm_expectedRevision = fr_expectedRevision r, fm_targetStatus = target,
     fm_eventType = eventType, fm_currentStep = fr_currentStep r, fm_blockedTaskId = None,
     fm_blockedSummary = None, fm_state = fr_state r, fm_wait = JUndef, fm_cancelRequestedAt = None,
     fm_endedAt = None\<rparr>"

definition flow_start :: "flow_service \<Rightarrow> flow_hook \<Rightarrow> int \<Rightarrow> flow_ref \<Rightarrow> flow_row svc" where
  "flow_start fs hook now r = flow_mutate fs hook now (base_mutation r F_RUNNING ''taskFlow.running'')"

definition flow_setWaiting :: "flow_service \<Rightarrow> flow_hook \<Rightarrow> int \<Rightarrow> flow_ref \<Rightarrow> json \<Rightarrow> flow_row svc" where
  "flow_setWaiting fs hook now r wait =
     flow_mutate fs hook now ((base_mutation r F_WAITING ''taskFlow.waiting'')\<lparr>fm_wait := wait\<rparr>)"

definition flow_setBlocked ::
    "flow_service \<Rightarrow> flow_hook \<Rightarrow> int \<Rightarrow> flow_ref \<Rightarrow> string \<Rightarrow> string option \<Rightarrow> flow_row svc" where
  "flow_setBlocked fs hook now r blockedTaskId blockedSummary =
     flow_mutate fs hook now ((base_mutation r F_BLOCKED ''taskFlow.blocked'')
       \<lparr>fm_blockedTaskId := Some (Some blockedTaskId), fm_blockedSummary := blockedSummary\<rparr>)"

definition flow_resume :: "flow_service \<Rightarrow> flow_hook \<Rightarrow> int \<Rightarrow> flow_ref \<Rightarrow> bool option \<Rightarrow> flow_row svc" where
  "flow_resume fs hook now r running =
     flow_mutate fs hook now (base_mutation r (initial_status running) ''taskFlow.resumed'')"

definition flow_finish :: "flow_service \<Rightarrow> flow_hook \<Rightarrow> int \<Rightarrow> flow_ref \<Rightarrow> flow_row svc" where
  "flow_finish fs hook now r = flow_mutate fs hook now (base_mutation r F_SUCCEEDED ''taskFlow.succeeded'')"

definition flow_fail ::
    "flow_service \<Rightarrow> flow_hook \<Rightarrow> int \<Rightarrow> flow_ref \<Rightarrow> string option option \<Rightarrow> string option \<Rightarrow> flow_row svc" where
  "flow_fail fs hook now r blockedTaskId blockedSummary =
     flow_mutate fs hook now ((base_mutation r F_FAILED ''taskFlow.failed'')
       \<lparr>fm_blockedTaskId := blockedTaskId, fm_blockedSummary := blockedSummary\<rparr>)"

section \<open>Cancellation\<close>

text \<open>The two readings of the clock are \<open>requestedAt\<close>, by \<open>requestCancel\<close> itself, and \<open>now\<close>, by the
  transition it calls.\<close>

definition flow_requestCancel ::
    "flow_service \<Rightarrow> int \<Rightarrow> int \<Rightarrow> string \<Rightarrow> string \<Rightarrow> string \<Rightarrow> int \<Rightarrow> flow_row svc" where
  "flow_requestCancel fs requestedAt now workspaceId ownerKey flowId expectedRevision =
     svc_bind (flow_owned fs workspaceId ownerKey flowId) (\<lambda>current.
     if flow_terminal (f_status current) then svc_return current
     else if f_cancelRequestedAt current \<noteq> None then svc_return current
     else flow_mutate fs no_hook now
       ((base_mutation \<lparr>fr_workspaceId = workspaceId, fr_ownerKey = ownerKey, fr_flowId = flowId,
           fr_expectedRevision = expectedRevision, fr_currentStep = None, fr_state = JUndef\<rparr>
           (f_status current) ''taskFlow.cancel.requested'')\<lparr>fm_cancelRequestedAt := Some (Some requestedAt)\<rparr>))"

record flow_cancel_result =
  cn_flow :: flow_view
  cn_affectedTasks :: nat
  cn_replayed :: bool

definition cancel_child :: "(task_row \<Rightarrow> task_row svc) \<Rightarrow> flow_task_link \<Rightarrow> nat \<Rightarrow> nat svc" where
  "cancel_child cancelTask entry affected =
     (if task_terminal (t_status (fl_task entry)) then svc_return affected
      else svc_bind (cancelTask (fl_task entry)) (\<lambda>updated.
        svc_return (if t_status updated \<noteq> t_status (fl_task entry) \<or> task_terminal (t_status updated)
                    then affected + 1 else affected)))"

definition flow_cancel ::
    "flow_service \<Rightarrow> (task_row \<Rightarrow> task_row svc) \<Rightarrow> int \<Rightarrow> int \<Rightarrow> int \<Rightarrow> string \<Rightarrow> string \<Rightarrow> string \<Rightarrow> int
     \<Rightarrow> flow_cancel_result svc" where
  "flow_cancel fs cancelTask requestedAt now1 now2 workspaceId ownerKey flowId expectedRevision =
     svc_bind (flow_owned fs workspaceId ownerKey flowId) (\<lambda>before.
     if flow_terminal (f_status before) then
       svc_bind (flow_service_get fs workspaceId ownerKey flowId) (\<lambda>v.
       svc_return \<lparr>cn_flow = v, cn_affectedTasks = 0, cn_replayed = True\<rparr>)
     else
       svc_bind (flow_requestCancel fs requestedAt now1 workspaceId ownerKey flowId expectedRevision) (\<lambda>current.
       svc_bind (flow_service_get fs workspaceId ownerKey flowId) (\<lambda>linked.
       svc_bind (svc_fold (cancel_child cancelTask) (fv_tasks linked) 0) (\<lambda>affected.
       svc_bind (flow_service_get fs workspaceId ownerKey flowId) (\<lambda>after.
       svc_bind
         (if list_all (\<lambda>entry. task_terminal (t_status (fl_task entry))) (fv_tasks after)
          then flow_mutate fs no_hook now2
            ((base_mutation \<lparr>fr_workspaceId = workspaceId, fr_ownerKey = ownerKey, fr_flowId = flowId,
                fr_expectedRevision = f_revision current, fr_currentStep = None, fr_state = JUndef\<rparr>
                F_CANCELLED ''taskFlow.cancelled'')\<lparr>fm_cancelRequestedAt := Some (f_cancelRequestedAt current)\<rparr>)
          else svc_return current) (\<lambda>current'.
       svc_bind (flow_service_get fs workspaceId ownerKey (f_flowId current')) (\<lambda>v.
       svc_return \<lparr>cn_flow = v, cn_affectedTasks = affected, cn_replayed = False\<rparr>)))))))"

end
