(* ===== verification/Task_Flow_Maintenance.thy ===== *)
theory Task_Flow_Maintenance
  imports Task_Flow_Service
begin

text \<open>
  \<open>packages/task-flows/src/maintenance.ts\<close>: the audit of flows against their linked tasks, the repair of
  stuck cancellations and the scheduling of retention. \<open>cancelFlow\<close> is a call on the database and
  \<open>localeCompare\<close> a function, both fields of the service.
\<close>

section \<open>The service and its options\<close>

type_synonym cancel_flow = "string \<Rightarrow> string \<Rightarrow> string \<Rightarrow> int \<Rightarrow> flow_cancel_result svc"

record flow_maintenance_options =
  fo_workspaceIds :: "string list"
  fo_staleRunningMs :: "int option"
  fo_staleWaitingMs :: "int option"
  fo_staleBlockedMs :: "int option"
  fo_cancelStuckMs :: "int option"
  fo_emptyFlowMs :: "int option"
  fo_flowRetentionMs :: "int option"
  fo_lostRetentionMs :: "int option"
  fo_cancelFlow :: "cancel_flow option"
  fo_localeCompare :: "string \<Rightarrow> string \<Rightarrow> int"

record flow_maintenance =
  fx_allowed :: "string list"
  fx_staleRunningMs :: int
  fx_staleWaitingMs :: int
  fx_staleBlockedMs :: int
  fx_cancelStuckMs :: int
  fx_emptyFlowMs :: int
  fx_flowRetentionMs :: int
  fx_lostRetentionMs :: int
  fx_cancelFlow :: "cancel_flow option"
  fx_localeCompare :: "string \<Rightarrow> string \<Rightarrow> int"

definition new_flow_maintenance :: "flow_maintenance_options \<Rightarrow> flow_maintenance" where
  "new_flow_maintenance opts = \<lparr>fx_allowed = fo_workspaceIds opts,
     fx_staleRunningMs = or_default (fo_staleRunningMs opts) (30 * 60000),
     fx_staleWaitingMs = or_default (fo_staleWaitingMs opts) (24 * 60 * 60000),
     fx_staleBlockedMs = or_default (fo_staleBlockedMs opts) (24 * 60 * 60000),
     fx_cancelStuckMs = or_default (fo_cancelStuckMs opts) (5 * 60000),
     fx_emptyFlowMs = or_default (fo_emptyFlowMs opts) (10 * 60000),
     fx_flowRetentionMs = or_default (fo_flowRetentionMs opts) (30 * 24 * 60 * 60000),
     fx_lostRetentionMs = or_default (fo_lostRetentionMs opts) (7 * 24 * 60 * 60000),
     fx_cancelFlow = fo_cancelFlow opts, fx_localeCompare = fo_localeCompare opts\<rparr>"

definition flow_boundedOwner :: "string option \<Rightarrow> err + string option" where
  "flow_boundedOwner v =
     (case v of None \<Rightarrow> Inr None
      | Some x \<Rightarrow> let normalized = js_trim x in
          if normalized = [] \<or> length normalized > 256 then Inl invalid_argument else Inr (Some normalized))"

definition flowm_authorize :: "flow_maintenance \<Rightarrow> string \<Rightarrow> err + string" where
  "flowm_authorize m workspaceId =
     res_bind (require (workspace_name workspaceId) invalid_argument) (\<lambda>_.
     res_bind (require (workspaceId \<in> set (fx_allowed m)) (Flow_Error TASK_FLOW_ACCESS_DENIED)) (\<lambda>_.
     Inr workspaceId))"

definition flowm_limit :: "int option \<Rightarrow> err + nat" where
  "flowm_limit v =
     (let limit = or_default v 200 in
      res_bind (require (1 \<le> limit \<and> limit \<le> 1000) invalid_argument) (\<lambda>_. Inr (nat limit)))"

section \<open>The audit\<close>

datatype flow_audit_code =
    FLOW_STALE_RUNNING | FLOW_STALE_WAITING | FLOW_STALE_BLOCKED | FLOW_CANCEL_STUCK
  | FLOW_CANCEL_FINALIZATION_PENDING | FLOW_WITHOUT_TASKS | FLOW_BLOCKED_TASK_MISSING
  | FLOW_TERMINAL_WITH_ACTIVE_TASK | FLOW_OWNER_SCOPE_MISMATCH | FLOW_ALL_CHILDREN_TERMINAL_ACTIVE
  | FLOW_MISSING_CLEANUP | FLOW_RETENTION_EXPIRED | FLOW_INCONSISTENT_TIMESTAMPS

record flow_finding =
  ff_severity :: audit_severity
  ff_code :: flow_audit_code
  ff_repairPolicy :: repair_policy
  ff_flowId :: string
  ff_detail :: string
  ff_ageMs :: "int option"
  ff_taskId :: "string option"

record flow_audit_summary =
  fy_total :: nat
  fy_warnings :: nat
  fy_errors :: nat
  fy_byCode :: "flow_audit_code \<Rightarrow> nat"

definition flow_summary :: "flow_finding list \<Rightarrow> flow_audit_summary" where
  "flow_summary findings =
     fold (\<lambda>f m. let m' = m\<lparr>fy_byCode := (fy_byCode m)(ff_code f := fy_byCode m (ff_code f) + 1)\<rparr> in
                 if ff_severity f = ERROR then m'\<lparr>fy_errors := fy_errors m' + 1\<rparr>
                 else m'\<lparr>fy_warnings := fy_warnings m' + 1\<rparr>)
       findings \<lparr>fy_total = length findings, fy_warnings = 0, fy_errors = 0, fy_byCode = (\<lambda>_. 0)\<rparr>"

definition flow_compareFindings :: "(string \<Rightarrow> string \<Rightarrow> int) \<Rightarrow> flow_finding \<Rightarrow> flow_finding \<Rightarrow> int" where
  "flow_compareFindings localeCompare l r =
     (let severity = severity_rank (ff_severity l) - severity_rank (ff_severity r) in
      if severity \<noteq> 0 then severity
      else let age = or_default (ff_ageMs r) (- 1) - or_default (ff_ageMs l) (- 1) in
           if age \<noteq> 0 then age
           else let flow = localeCompare (ff_flowId l) (ff_flowId r) in
                if flow \<noteq> 0 then flow
                else localeCompare (or_default (ff_taskId l) []) (or_default (ff_taskId r) []))"

record flow_snapshot =
  fn_flow :: flow_row
  fn_tasks :: "task_row list"
  fn_missingTaskIds :: "string list"

definition flow_children :: "string \<Rightarrow> db \<Rightarrow> task_row list" where
  "flow_children flowId s =
     flat_map (\<lambda>l. case task_get (l_taskId l) s of None \<Rightarrow> [] | Some t \<Rightarrow> [t]) (listTaskLinks flowId s)"

definition flowm_snapshot :: "string \<Rightarrow> string option \<Rightarrow> nat \<Rightarrow> db \<Rightarrow> flow_snapshot list" where
  "flowm_snapshot workspaceId ownerKey limit s =
     map (\<lambda>flow. \<lparr>fn_flow = flow, fn_tasks = flow_children (f_flowId flow) s,
            fn_missingTaskIds = flat_map (\<lambda>l. case task_get (l_taskId l) s of None \<Rightarrow> [l_taskId l] | Some t \<Rightarrow> [])
              (listTaskLinks (f_flowId flow) s)\<rparr>)
       (flow_listAll workspaceId ownerKey limit s)"

definition active_tasks :: "task_row list \<Rightarrow> task_row list" where
  "active_tasks ts = filter (\<lambda>t. \<not> task_terminal (t_status t)) ts"

definition flow_active :: "flow_status \<Rightarrow> bool" where
  "flow_active st \<longleftrightarrow> st \<in> {F_QUEUED, F_RUNNING, F_WAITING, F_BLOCKED}"

definition first_task :: "task_row list \<Rightarrow> string option" where
  "first_task ts = (case ts of [] \<Rightarrow> None | t # _ \<Rightarrow> Some (t_taskId t))"

definition flow_finding_for ::
    "flow_row \<Rightarrow> audit_severity \<Rightarrow> flow_audit_code \<Rightarrow> repair_policy \<Rightarrow> string \<Rightarrow> int \<Rightarrow> string option \<Rightarrow> flow_finding" where
  "flow_finding_for flow severity code policy detail ageMs taskId = \<lparr>ff_severity = severity, ff_code = code,
     ff_repairPolicy = policy, ff_flowId = f_flowId flow, ff_detail = detail, ff_ageMs = Some ageMs,
     ff_taskId = taskId\<rparr>"

definition flow_bad_timestamps :: "flow_row \<Rightarrow> bool" where
  "flow_bad_timestamps f \<longleftrightarrow>
     (case f_endedAt f of None \<Rightarrow> False | Some e \<Rightarrow> e < f_createdAt f)
     \<or> (flow_active (f_status f) \<and> f_endedAt f \<noteq> None) \<or> (flow_terminal (f_status f) \<and> f_endedAt f = None)"

text \<open>The findings of one flow, in the order the loop body pushes them.\<close>

definition audit_flow :: "flow_maintenance \<Rightarrow> int \<Rightarrow> flow_snapshot \<Rightarrow> flow_finding list" where
  "audit_flow m now sn =
     (let flow = fn_flow sn; tasks = fn_tasks sn; st = f_status flow;
          ageMs = max 0 (now - f_updatedAt flow); active = active_tasks tasks;
          finding = flow_finding_for flow in
      (if st = F_RUNNING \<and> fx_staleRunningMs m \<le> ageMs then
         [finding ERROR FLOW_STALE_RUNNING REPORT_ONLY ''running Task Flow has not advanced recently'' ageMs None] else [])
      @ (if st = F_WAITING \<and> fx_staleWaitingMs m \<le> ageMs then
         [finding WARN FLOW_STALE_WAITING REPORT_ONLY ''waiting Task Flow has not advanced recently'' ageMs None] else [])
      @ (if st = F_BLOCKED \<and> fx_staleBlockedMs m \<le> ageMs then
         [finding WARN FLOW_STALE_BLOCKED REPORT_ONLY ''blocked Task Flow has not advanced recently'' ageMs (f_blockedTaskId flow)] else [])
      @ (if flow_active st \<and> tasks = [] \<and> fx_emptyFlowMs m \<le> ageMs then
         [finding WARN FLOW_WITHOUT_TASKS REPORT_ONLY ''active Task Flow has no linked Tasks'' ageMs None] else [])
      @ map (\<lambda>k. finding ERROR FLOW_OWNER_SCOPE_MISMATCH REPORT_ONLY
           ''Task Flow link references a missing Task'' ageMs (Some k)) (fn_missingTaskIds sn)
      @ flat_map (\<lambda>t. if t_workspaceId t \<noteq> f_workspaceId flow \<or> t_conversationId t \<noteq> f_ownerKey flow then
           [finding ERROR FLOW_OWNER_SCOPE_MISMATCH REPORT_ONLY
             ''linked Task does not share Flow workspace/owner'' ageMs (Some (t_taskId t))] else []) tasks
      @ (if st = F_BLOCKED \<and> (f_blockedTaskId flow = None \<or> \<not> (\<exists>t \<in> set tasks. Some (t_taskId t) = f_blockedTaskId flow)) then
         [finding ERROR FLOW_BLOCKED_TASK_MISSING REPORT_ONLY
           ''blocked Task Flow does not reference a linked Task'' ageMs (f_blockedTaskId flow)] else [])
      @ (if flow_terminal st \<and> active \<noteq> [] then
         [finding ERROR FLOW_TERMINAL_WITH_ACTIVE_TASK REPORT_ONLY
           ''terminal Task Flow still has active child Tasks'' ageMs (first_task active)] else [])
      @ (if flow_active st \<and> f_cancelRequestedAt flow = None \<and> tasks \<noteq> [] \<and> active = [] then
         [finding WARN FLOW_ALL_CHILDREN_TERMINAL_ACTIVE REPORT_ONLY
           ''all child Tasks are terminal but controller has not completed the Flow'' ageMs None] else [])
      @ (case f_cancelRequestedAt flow of
           Some requested \<Rightarrow> if flow_active st then
             (let cancelAgeMs = max 0 (now - requested) in
              if active = [] then
                [finding WARN FLOW_CANCEL_FINALIZATION_PENDING SAFE_REPAIR
                  ''cancellation is requested and all linked Tasks are terminal'' cancelAgeMs None]
              else if fx_cancelStuckMs m \<le> cancelAgeMs then
                [finding ERROR FLOW_CANCEL_STUCK SAFE_REPAIR
                  ''cancellation request still has active child Tasks after grace'' cancelAgeMs (first_task active)]
              else []) else []
         | None \<Rightarrow> [])
      @ (if flow_terminal st \<and> active = [] \<and> f_cleanupAfter flow = None then
         [finding WARN FLOW_MISSING_CLEANUP SAFE_REPAIR ''terminal Task Flow is missing cleanupAfter'' ageMs None] else [])
      @ (if flow_terminal st \<and> (case f_cleanupAfter flow of None \<Rightarrow> False | Some c \<Rightarrow> c \<le> now) then
         [finding WARN FLOW_RETENTION_EXPIRED REPORT_ONLY ''Task Flow retention window is expired'' ageMs None] else [])
      @ (if flow_bad_timestamps flow then
         [finding ERROR FLOW_INCONSISTENT_TIMESTAMPS REPORT_ONLY
           ''Task Flow lifecycle timestamps are inconsistent'' ageMs None] else []))"

record flow_audit_report =
  fa_generatedAt :: int
  fa_findings :: "flow_finding list"
  fa_summary :: flow_audit_summary

definition flow_audit :: "flow_maintenance \<Rightarrow> int \<Rightarrow> string \<Rightarrow> string option \<Rightarrow> int option \<Rightarrow> flow_audit_report svc" where
  "flow_audit m now workspaceId ownerKey limit =
     svc_bind (svc_of (flowm_authorize m workspaceId)) (\<lambda>w.
     svc_bind (svc_of (flow_boundedOwner ownerKey)) (\<lambda>owner.
     svc_bind (svc_of (flowm_limit limit)) (\<lambda>l.
     svc_bind (svc_read (flowm_snapshot w owner l)) (\<lambda>sns.
     let findings = js_sort (flow_compareFindings (fx_localeCompare m)) (flat_map (audit_flow m now) sns) in
     svc_return \<lparr>fa_generatedAt = now, fa_findings = findings, fa_summary = flow_summary findings\<rparr>))))"

section \<open>Retention\<close>

text \<open>A link whose task is missing or not terminal.\<close>

definition unfinished_child :: "string \<Rightarrow> db \<Rightarrow> bool" where
  "unfinished_child flowId s \<longleftrightarrow> (\<exists>l \<in> set (listTaskLinks flowId s).
     (case task_get (l_taskId l) s of None \<Rightarrow> True | Some t \<Rightarrow> \<not> task_terminal (t_status t)))"

definition flow_retention_ms :: "flow_maintenance \<Rightarrow> flow_status \<Rightarrow> int" where
  "flow_retention_ms m st = (if st = F_LOST then fx_lostRetentionMs m else fx_flowRetentionMs m)"

definition flow_scheduleCleanup :: "flow_maintenance \<Rightarrow> string \<Rightarrow> int \<Rightarrow> db \<Rightarrow> err + (db \<times> bool)" where
  "flow_scheduleCleanup m flowId now s =
     (case flow_get flowId s of
        None \<Rightarrow> Inr (s, False)
      | Some current \<Rightarrow>
          (case f_endedAt current of
             None \<Rightarrow> Inr (s, False)
           | Some endedAt \<Rightarrow>
               if \<not> flow_terminal (f_status current) \<or> f_cleanupAfter current \<noteq> None
                  \<or> unfinished_child (f_flowId current) s then Inr (s, False)
               else
                 let retentionMs = flow_retention_ms m (f_status current);
                     cleanupAfter = endedAt + retentionMs in
                 res_bind (flow_update ((flow_keep current now)\<lparr>fu_cleanupAfter := Some (Some cleanupAfter)\<rparr>) s) (\<lambda>(s1, ro).
                 (case ro of None \<Rightarrow> Inr (s1, False)
                  | Some updated \<Rightarrow>
                      res_bind (flow_appendEvent \<lparr>fe_flowId = f_flowId updated,
                          fe_sequence = flow_nextEventSequence (f_flowId updated) s1,
                          fe_eventType = ''taskFlow.retention.scheduled'', fe_status = f_status updated,
                          fe_revision = f_revision updated,
                          fe_payload = JObj [(''cleanupAfter'', JNum cleanupAfter), (''retentionMs'', JNum retentionMs)],
                          fe_emittedAt = now\<rparr> s1) (\<lambda>s2. Inr (s2, True))))))"

definition flow_scheduleRetention :: "flow_maintenance \<Rightarrow> int \<Rightarrow> string \<Rightarrow> string option \<Rightarrow> int option \<Rightarrow> nat svc" where
  "flow_scheduleRetention m now workspaceId ownerKey limit =
     svc_bind (svc_of (flowm_authorize m workspaceId)) (\<lambda>w.
     svc_bind (svc_of (flow_boundedOwner ownerKey)) (\<lambda>owner.
     svc_bind (svc_of (flowm_limit limit)) (\<lambda>l.
     svc_bind (svc_read (flow_listRetentionSchedulingCandidates w owner l)) (\<lambda>candidates.
     svc_fold (\<lambda>f scheduled.
         svc_bind (transaction (flow_scheduleCleanup m (f_flowId f) now)) (\<lambda>done.
         svc_return (if done then scheduled + 1 else scheduled))) candidates 0))))"

section \<open>Repair\<close>

datatype flow_reconcile_action = REPLAY_CANCELLATION | FINALIZE_CANCELLED | FLOW_SCHEDULE_RETENTION

record flow_decision =
  fd_flowId :: string
  fd_action :: flow_reconcile_action
  fd_applied :: bool
  fd_detail :: string

record flow_reconcile_acc =
  fq_decisions :: "flow_decision list"
  fq_cancellationReplayed :: nat
  fq_cancelled :: nat
  fq_retentionScheduled :: nat

definition cancel_due :: "flow_maintenance \<Rightarrow> int \<Rightarrow> flow_row \<Rightarrow> task_row list \<Rightarrow> bool" where
  "cancel_due m now flow active \<longleftrightarrow> flow_active (f_status flow)
     \<and> (case f_cancelRequestedAt flow of None \<Rightarrow> False
        | Some requested \<Rightarrow> active = [] \<or> fx_cancelStuckMs m \<le> now - requested)"

definition repair_cancel ::
    "flow_maintenance \<Rightarrow> int \<Rightarrow> reconcile_mode \<Rightarrow> flow_row \<Rightarrow> task_row list \<Rightarrow> flow_reconcile_acc
     \<Rightarrow> (flow_row \<times> task_row list \<times> flow_reconcile_acc) svc" where
  "repair_cancel m now mode flow active acc =
     (if cancel_due m now flow active then
        let action = (if active = [] then FINALIZE_CANCELLED else REPLAY_CANCELLATION);
            detail = (if action = FINALIZE_CANCELLED
              then ''finalize cancel-requested Flow after all child Tasks became terminal''
              else ''replay cancellation cascade for active child Tasks'') in
        if mode = APPLY then
          (case fx_cancelFlow m of
             None \<Rightarrow> svc_of (Inl (Flow_Error TASK_FLOW_STATE_INVALID))
           | Some cancelFlow \<Rightarrow>
               svc_bind (cancelFlow (f_workspaceId flow) (f_ownerKey flow) (f_flowId flow) (f_revision flow)) (\<lambda>result.
               svc_bind (svc_read (\<lambda>s. (or_default (flow_get (f_flowId flow) s) flow,
                   active_tasks (flow_children (f_flowId flow) s)))) (\<lambda>(flow', active').
               svc_return (flow', active', acc\<lparr>
                 fq_cancellationReplayed := fq_cancellationReplayed acc + (if action = REPLAY_CANCELLATION then 1 else 0),
                 fq_cancelled := fq_cancelled acc + (if f_status (fv_flow (cn_flow result)) = F_CANCELLED then 1 else 0),
                 fq_decisions := fq_decisions acc @ [\<lparr>fd_flowId = f_flowId flow', fd_action = action,
                   fd_applied = True, fd_detail = detail\<rparr>]\<rparr>))))
        else svc_return (flow, active, acc\<lparr>fq_decisions := fq_decisions acc @
          [\<lparr>fd_flowId = f_flowId flow, fd_action = action, fd_applied = False, fd_detail = detail\<rparr>]\<rparr>)
      else svc_return (flow, active, acc))"

definition flow_repair_retention ::
    "flow_maintenance \<Rightarrow> int \<Rightarrow> reconcile_mode \<Rightarrow> bool option \<Rightarrow> flow_row \<Rightarrow> task_row list \<Rightarrow> flow_reconcile_acc
     \<Rightarrow> flow_reconcile_acc svc" where
  "flow_repair_retention m now mode includeRetention flow active acc =
     (if includeRetention \<noteq> Some False \<and> flow_terminal (f_status flow) \<and> active = []
         \<and> f_cleanupAfter flow = None \<and> f_endedAt flow \<noteq> None then
        svc_bind (if mode = APPLY then transaction (flow_scheduleCleanup m (f_flowId flow) now) else svc_return False) (\<lambda>applied.
        svc_return (acc\<lparr>fq_retentionScheduled := fq_retentionScheduled acc + (if applied then 1 else 0),
          fq_decisions := fq_decisions acc @ [\<lparr>fd_flowId = f_flowId flow, fd_action = FLOW_SCHEDULE_RETENTION,
            fd_applied = applied,
            fd_detail = ''schedule '' @ show_int (flow_retention_ms m (f_status flow)) @ ''ms retention window''\<rparr>]\<rparr>))
      else svc_return acc)"

definition reconcile_flow ::
    "flow_maintenance \<Rightarrow> int \<Rightarrow> reconcile_mode \<Rightarrow> bool option \<Rightarrow> flow_snapshot \<Rightarrow> flow_reconcile_acc
     \<Rightarrow> flow_reconcile_acc svc" where
  "reconcile_flow m now mode includeRetention sn acc =
     svc_bind (repair_cancel m now mode (fn_flow sn) (active_tasks (fn_tasks sn)) acc) (\<lambda>(flow, active, acc').
     flow_repair_retention m now mode includeRetention flow active acc')"

record flow_reconcile_result =
  fz_mode :: reconcile_mode
  fz_generatedAt :: int
  fz_acc :: flow_reconcile_acc

definition flow_reconcile ::
    "flow_maintenance \<Rightarrow> int \<Rightarrow> string \<Rightarrow> string option \<Rightarrow> reconcile_mode \<Rightarrow> int option \<Rightarrow> bool option
     \<Rightarrow> flow_reconcile_result svc" where
  "flow_reconcile m now workspaceId ownerKey mode limit includeRetention =
     svc_bind (svc_of (flowm_authorize m workspaceId)) (\<lambda>w.
     svc_bind (svc_of (flow_boundedOwner ownerKey)) (\<lambda>owner.
     svc_bind (svc_of (flowm_limit limit)) (\<lambda>l.
     svc_bind (svc_read (flowm_snapshot w owner l)) (\<lambda>sns.
     svc_bind (svc_fold (reconcile_flow m now mode includeRetention) sns
       \<lparr>fq_decisions = [], fq_cancellationReplayed = 0, fq_cancelled = 0, fq_retentionScheduled = 0\<rparr>) (\<lambda>acc.
     svc_return \<lparr>fz_mode = mode, fz_generatedAt = now, fz_acc = acc\<rparr>)))))"

record flow_retention_candidate =
  fg_flowId :: string
  fg_ownerKey :: string
  fg_status :: flow_status
  fg_endedAt :: int
  fg_cleanupAfter :: int

record flow_retention_preview =
  fp_generatedAt :: int
  fp_candidates :: "flow_retention_candidate list"
  fp_protectedActive :: nat

definition flow_retentionPreview ::
    "flow_maintenance \<Rightarrow> int \<Rightarrow> string \<Rightarrow> string option \<Rightarrow> int option \<Rightarrow> flow_retention_preview svc" where
  "flow_retentionPreview m now workspaceId ownerKey limit =
     svc_bind (svc_of (flowm_authorize m workspaceId)) (\<lambda>w.
     svc_bind (svc_of (flow_boundedOwner ownerKey)) (\<lambda>owner.
     svc_bind (svc_of (flowm_limit limit)) (\<lambda>l.
     svc_read (\<lambda>s.
       let flows = flow_listAll w owner 1000 s;
           candidates = filter (\<lambda>f. \<not> unfinished_child (f_flowId f) s) (flow_listRetentionCandidates w owner now l s) in
       \<lparr>fp_generatedAt = now,
        fp_candidates = flat_map (\<lambda>f. case (f_endedAt f, f_cleanupAfter f) of
            (Some e, Some c) \<Rightarrow> [\<lparr>fg_flowId = f_flowId f, fg_ownerKey = f_ownerKey f, fg_status = f_status f,
               fg_endedAt = e, fg_cleanupAfter = c\<rparr>]
          | _ \<Rightarrow> []) candidates,
        fp_protectedActive = length (filter (\<lambda>f. flow_active (f_status f) \<or> unfinished_child (f_flowId f) s) flows)\<rparr>))))"

end
