(* ===== verification/Task_Flow_Machine.thy ===== *)
theory Task_Flow_Machine
  imports Task_Flow_Maintenance
begin

text \<open>
  The invariant of the flow tables and how a flow may change over its life. Together with
  \<open>Task_Evolution\<close> it says what every operation on tasks and flows does to the shared database
  (\<open>world_step\<close>): the invariants hold again, every task evolved and every flow evolved.
\<close>

section \<open>The invariant\<close>

text \<open>A row: an end time exactly for a terminal status, a blocking task exactly for a blocked flow, a
  wait payload only for a waiting flow, a cleanup time only for a terminal status.\<close>

definition flow_row_ok :: "flow_row \<Rightarrow> bool" where
  "flow_row_ok f \<longleftrightarrow> flow_checks f
     \<and> (f_endedAt f \<noteq> None \<longleftrightarrow> flow_terminal (f_status f))
     \<and> (f_blockedTaskId f \<noteq> None \<longleftrightarrow> f_status f = F_BLOCKED)
     \<and> (f_status f \<noteq> F_WAITING \<longrightarrow> f_wait f = JNull)
     \<and> (f_cleanupAfter f \<noteq> None \<longrightarrow> flow_terminal (f_status f))"

definition blocked_linked :: "flow_row \<Rightarrow> db \<Rightarrow> bool" where
  "blocked_linked f s \<longleftrightarrow> opt_all (\<lambda>b. \<exists>l \<in> set (task_flow_tasks s). l_flowId l = f_flowId f \<and> l_taskId l = b)
     (f_blockedTaskId f)"

text \<open>A link joins a flow to a task of the flow's workspace and owner conversation.\<close>

definition link_ok :: "flow_link_row \<Rightarrow> db \<Rightarrow> bool" where
  "link_ok l s \<longleftrightarrow> (\<exists>f t. flow_get (l_flowId l) s = Some f \<and> task_get (l_taskId l) s = Some t
     \<and> t_workspaceId t = f_workspaceId f \<and> t_conversationId t = f_ownerKey f)"

definition flows_inv :: "db \<Rightarrow> bool" where
  "flows_inv s \<longleftrightarrow> flow_ids_ok s \<and> distinct (map l_taskId (task_flow_tasks s))
     \<and> (\<forall>f \<in> set (task_flows s). flow_row_ok f \<and> blocked_linked f s)
     \<and> (\<forall>l \<in> set (task_flow_tasks s). link_ok l s) \<and> flog.status_ok s"

section \<open>Evolution\<close>

text \<open>One write: the next revision, and the status stays or is one that the table allows after it.\<close>

definition flow_moves :: "flow_row \<Rightarrow> flow_row \<Rightarrow> bool" where
  "flow_moves f f' \<longleftrightarrow> f' = f
     \<or> f_revision f' = f_revision f + 1 \<and> (f_status f' = f_status f \<or> f_status f' \<in> flow_allowed (f_status f))"

definition flows_move :: "db \<Rightarrow> db \<Rightarrow> bool" where
  "flows_move s s' \<longleftrightarrow> (\<forall>k f. flow_get k s = Some f \<longrightarrow> (\<exists>f'. flow_get k s' = Some f' \<and> flow_moves f f'))"

text \<open>Any number of writes.\<close>

definition flow_evolves :: "flow_row \<Rightarrow> flow_row \<Rightarrow> bool" where
  "flow_evolves f f' \<longleftrightarrow>
     f_flowId f' = f_flowId f \<and> f_workspaceId f' = f_workspaceId f \<and> f_ownerKey f' = f_ownerKey f
     \<and> f_controllerId f' = f_controllerId f \<and> f_goal f' = f_goal f \<and> f_createdAt f' = f_createdAt f
     \<and> f_revision f \<le> f_revision f' \<and> (f_revision f' = f_revision f \<longrightarrow> f' = f)
     \<and> (flow_terminal (f_status f) \<longrightarrow> f_status f' = f_status f \<and> f_endedAt f' = f_endedAt f)
     \<and> (f_cleanupAfter f \<noteq> None \<longrightarrow> f_cleanupAfter f' = f_cleanupAfter f)"

definition flows_evolve :: "db \<Rightarrow> db \<Rightarrow> bool" where
  "flows_evolve s s' \<longleftrightarrow> (\<forall>k f. flow_get k s = Some f \<longrightarrow> (\<exists>f'. flow_get k s' = Some f' \<and> flow_evolves f f'))"

lemma flow_evolves_refl [simp]: "flow_evolves f f"
  by (simp add: flow_evolves_def)

lemma flow_evolves_trans: "flow_evolves a b \<Longrightarrow> flow_evolves b c \<Longrightarrow> flow_evolves a c"
  unfolding flow_evolves_def by (smt (verit))

lemma flows_evolve_refl [simp]: "flows_evolve s s"
  by (simp add: flows_evolve_def)

lemma flows_evolve_trans: "flows_evolve a b \<Longrightarrow> flows_evolve b c \<Longrightarrow> flows_evolve a c"
  unfolding flows_evolve_def by (metis flow_evolves_trans)

lemma flows_evolve_same: "task_flows s' = task_flows s \<Longrightarrow> flows_evolve s s'"
  by (simp add: flows_evolve_def flow_get_def)

lemma flows_move_same: "task_flows s' = task_flows s \<Longrightarrow> flows_move s s'"
  by (simp add: flows_move_def flow_moves_def flow_get_def)

section \<open>Steps of the shared database\<close>

definition world_ok :: "db \<Rightarrow> bool" where
  "world_ok s \<longleftrightarrow> ledger_ok s \<and> flows_inv s"

definition world_step :: "db \<Rightarrow> db \<Rightarrow> bool" where
  "world_step s s' \<longleftrightarrow> (world_ok s \<longrightarrow> world_ok s' \<and> tasks_evolve s s' \<and> flows_evolve s s')"

lemma world_step_refl [simp]: "world_step s s"
  by (simp add: world_step_def)

lemma world_step_trans: "world_step a b \<Longrightarrow> world_step b c \<Longrightarrow> world_step a c"
  unfolding world_step_def using tasks_evolve_trans flows_evolve_trans by blast

interpretation world: step_preorder world_step
  by unfold_locales (auto intro: world_step_trans)

text \<open>The flow part survives whatever the tasks do, as long as they evolve.\<close>

lemma link_ok_evolves:
  assumes "link_ok l s" and "tasks_evolve s s'" and "flows_evolve s s'"
  shows "link_ok l s'"
proof -
  from assms(1) obtain f t where f: "flow_get (l_flowId l) s = Some f" "task_get (l_taskId l) s = Some t"
      "t_workspaceId t = f_workspaceId f" "t_conversationId t = f_ownerKey f"
    by (auto simp: link_ok_def)
  from assms(2) f(2) obtain t' where t': "task_get (l_taskId l) s' = Some t'" "row_evolves t t'"
    unfolding tasks_evolve_def by blast
  from assms(3) f(1) obtain f' where f': "flow_get (l_flowId l) s' = Some f'" "flow_evolves f f'"
    unfolding flows_evolve_def by blast
  from t' f' f(3,4) show ?thesis by (auto simp: link_ok_def row_evolves_def flow_evolves_def)
qed

lemma flows_inv_tasks:
  assumes "flows_inv s" and "tasks_evolve s s'" and "task_flows s' = task_flows s"
    and "task_flow_tasks s' = task_flow_tasks s" and "task_flow_events s' = task_flow_events s"
  shows "flows_inv s'"
proof -
  have "link_ok l s'" if "l \<in> set (task_flow_tasks s)" for l
    using assms that by (auto simp: flows_inv_def intro: link_ok_evolves flows_evolve_same)
  moreover have "flog.status_ok s' = flog.status_ok s" using assms by (intro flog.status_ok_cong) simp_all
  ultimately show ?thesis using assms by (simp add: flows_inv_def blocked_linked_def)
qed

lemma world_step_tasks:
  assumes "sound_step s s'" and "task_flows s' = task_flows s"
    and "task_flow_tasks s' = task_flow_tasks s" and "task_flow_events s' = task_flow_events s"
  shows "world_step s s'"
  using assms by (auto simp: world_step_def world_ok_def sound_step_def intro: flows_inv_tasks flows_evolve_same)

text \<open>An operation that writes one row of the flow tables and leaves the tables of the tasks alone.\<close>

definition flow_step :: "db \<Rightarrow> db \<Rightarrow> bool" where
  "flow_step s s' \<longleftrightarrow> background_tasks s' = background_tasks s \<and> background_task_events s' = background_task_events s
     \<and> task_completion_deliveries s' = task_completion_deliveries s
     \<and> (flows_inv s \<longrightarrow> flows_inv s' \<and> flows_evolve s s' \<and> flows_move s s')"

lemma flow_step_refl: "flow_step s s"
  by (simp add: flow_step_def flows_move_same)

lemma flow_step_world: "flow_step s s' \<Longrightarrow> world_step s s'"
  using sound_step_frame [of s' s] by (simp add: flow_step_def world_step_def world_ok_def sound_step_def)

section \<open>Writing a flow\<close>

lemma flow_update_rows:
  assumes ids: "flow_ids_ok s" and u: "flow_update p s = Inr (s1, Some r)"
    and c: "flow_get (fu_flowId p) s = Some c" and rel: "R c r" "\<And>f. R f f"
  shows "\<forall>k f. flow_get k s = Some f \<longrightarrow> (\<exists>f'. flow_get k s1 = Some f' \<and> R f f')"
proof (intro allI impI)
  fix k f
  assume f: "flow_get k s = Some f"
  show "\<exists>f'. flow_get k s1 = Some f' \<and> R f f'"
    using frev.upd_hit [OF ids u] frev.upd_frame [OF ids u, of k] f c rel
    by (cases "k = fu_flowId p") (auto simp: flow_get_def)
qed

text \<open>The step all flow operations share: write one row, log it.\<close>

lemma flow_log_step:
  assumes inv: "flows_inv s" and u: "flow_update p s = Inr (s1, Some r)" and ok: "flow_row_ok r"
    and c: "flow_get (fu_flowId p) s = Some c" and ev: "flow_evolves c r" "flow_moves c r" and bl: "blocked_linked r s"
    and e: "flow_appendEvent e s1 = Inr s2" "fe_flowId e = f_flowId r"
      "fe_sequence e = flow_nextEventSequence (f_flowId r) s1" "fe_status e = f_status r"
  shows "flows_inv s2 \<and> flows_evolve s s2 \<and> flows_move s s2"
proof -
  have ids: "flow_ids_ok s" using inv by (simp add: flows_inv_def)
  from flow_update_hit [OF ids u] obtain r0 where
      r: "f_flowId r = fu_flowId p" "r = flow_updated_row p r0" "f_flowId r0 = fu_flowId p"
    and s1: "s1 = s\<lparr>task_flows := tbl_replace f_flowId (fu_flowId p) r (task_flows s)\<rparr>"
    by (metis flow_updated_row_simps(1))
  note s2 = flow_appendEvent_Inr [OF e(1)]
  have same: "flow_get k s2 = flow_get k s1" for k using s2 by (simp add: flow_get_def)
  have evol: "flows_evolve s s2"
    using flow_update_rows [where R = flow_evolves, OF ids u c ev(1)] same by (simp add: flows_evolve_def)
  have moved: "flows_move s s2"
    using flow_update_rows [where R = flow_moves, OF ids u c ev(2)] same by (simp add: flows_move_def flow_moves_def)
  have "flog.status_ok s2"
    by (rule flog.write_status_ok [OF _ c [unfolded flow_get_def] r(1) _ _ e(1)])
      (use inv s1 r e in \<open>auto simp: flows_inv_def\<close>)
  moreover have "set (task_flows s2) = insert r {f \<in> set (task_flows s). f_flowId f \<noteq> fu_flowId p}"
    using c by (simp add: s1 s2 flow_get_def set_tbl_replace)
  moreover have "link_ok l s2" if "l \<in> set (task_flow_tasks s)" for l
    using inv that evol tasks_evolve_same [of s2 s] s1 s2 by (auto simp: flows_inv_def intro: link_ok_evolves)
  moreover have "map f_flowId (task_flows s2) = map f_flowId (task_flows s)" using r by (simp add: s1 s2)
  ultimately have "flows_inv s2"
    using inv ok bl by (auto simp: flows_inv_def s1 s2 blocked_linked_def)
  with evol moved show ?thesis by simp
qed

section \<open>Creating a flow\<close>

lemma store_json_null [simp]: "store_json JNull = JNull"
  by (simp add: store_json_def)

lemma flow_insert_step:
  assumes inv: "flows_inv s" and i: "flow_insert v s = Inr s1" and ok: "flow_row_ok v"
    and e: "flow_appendEvent e s1 = Inr s2" "fe_flowId e = f_flowId v" "fe_sequence e = 1" "fe_status e = f_status v"
    and b: "f_blockedTaskId v = None" "f_wait v = JNull"
  shows "flows_inv s2 \<and> flows_evolve s s2 \<and> flows_move s s2"
proof -
  let ?v = "v\<lparr>f_state := store_json (f_state v), f_wait := store_json (f_wait v)\<rparr>"
  from i have fresh: "flow_get (f_flowId v) s = None" and s1: "s1 = s\<lparr>task_flows := task_flows s @ [?v]\<rparr>"
    by (auto simp: flow_insert_def split: if_splits)
  note s2 = flow_appendEvent_Inr [OF e(1)]
  have nk: "f_flowId v \<notin> f_flowId ` set (task_flows s)" using fresh by (simp add: flow_get_def tbl_get_None)
  have evol: "flows_evolve s s2" "flows_move s s2"
    by (auto simp: flows_evolve_def flows_move_def flow_moves_def flow_get_def tbl_get_append s1 s2)
  have "flog.status_ok s2"
    by (rule flog.insert_status_ok [of s ?v s1 e]) (use inv nk s1 e in \<open>auto simp: flows_inv_def\<close>)
  moreover have "link_ok l s2" if "l \<in> set (task_flow_tasks s)" for l
    using inv that evol tasks_evolve_same [of s2 s] s1 s2 by (auto simp: flows_inv_def intro: link_ok_evolves)
  moreover have "flow_row_ok ?v" using ok b by (simp add: flow_row_ok_def flow_checks_def)
  ultimately have "flows_inv s2"
    using inv nk b by (auto simp: flows_inv_def s1 s2 blocked_linked_def opt_all_def)
  with evol show ?thesis by simp
qed

lemma flow_create_step: "world.steps (flow_create fs uuid now i)"
  unfolding flow_create_def Let_def
proof (intro world.steps_intros)
  fix workspaceId ownerKey controllerId goal currentStep state s s' x
  let ?flow = "\<lparr>f_flowId = uuid, f_workspaceId = workspaceId, f_ownerKey = ownerKey,
           f_controllerId = controllerId, f_goal = goal, f_status = initial_status (fc_running i),
           f_currentStep = currentStep, f_blockedTaskId = None, f_blockedSummary = None,
           f_state = state, f_wait = JNull, f_cancelRequestedAt = None, f_createdAt = now,
           f_updatedAt = now, f_endedAt = None, f_cleanupAfter = None, f_revision = 1\<rparr>"
  assume "(case getConversation ownerKey s of
          None \<Rightarrow> Inl (Flow_Error TASK_FLOW_NOT_FOUND)
        | Some owner \<Rightarrow>
            res_bind (require (c_workspaceId owner = workspaceId) (Flow_Error TASK_FLOW_ACCESS_DENIED)) (\<lambda>_.
            res_bind (flow_insert ?flow s) (\<lambda>s1.
            res_bind (flow_appendEvent \<lparr>fe_flowId = f_flowId ?flow, fe_sequence = 1,
                fe_eventType = ''taskFlow.created'', fe_status = f_status ?flow, fe_revision = f_revision ?flow,
                fe_payload = JObj [(''ownerKey'', JStr ownerKey), (''controllerId'', JStr controllerId),
                  (''goal'', JStr goal), (''currentStep'', jopt_str currentStep)],
                fe_emittedAt = now\<rparr> s1) (\<lambda>s2.
            Inr (s2, ?flow))))) = Inr (s', x)"
  then obtain s1 e where i: "flow_insert ?flow s = Inr s1" and e: "flow_appendEvent e s1 = Inr s'"
      "fe_flowId e = f_flowId ?flow" "fe_sequence e = 1" "fe_status e = f_status ?flow"
    by (auto split: option.splits if_splits)
  have "flow_row_ok ?flow"
    using i by (auto simp: flow_insert_def flow_row_ok_def flow_terminal_def initial_status_def split: if_splits)
  from flow_insert_step [OF _ i this e] i show "world_step s s'"
    by (intro flow_step_world)
      (auto simp: flow_step_def flow_insert_def flow_appendEvent_Inr [OF e(1)] split: if_splits)
qed

text \<open>The flows that exist stay as they are.\<close>

definition flows_keep :: "db \<Rightarrow> db \<Rightarrow> bool" where
  "flows_keep s s' \<longleftrightarrow> (\<forall>k f. flow_get k s = Some f \<longrightarrow> flow_get k s' = Some f)"

interpretation kept_flows: step_preorder flows_keep
  by unfold_locales (simp_all add: flows_keep_def)

lemma flows_keep_moves: "flows_keep s s' \<Longrightarrow> flows_move s s'"
  by (simp add: flows_keep_def flows_move_def flow_moves_def)

lemma flow_create_keeps: "kept_flows.steps (flow_create fs uuid now i)"
  unfolding flow_create_def Let_def
  by (intro kept_flows.steps_intros)
    (auto simp: flows_keep_def flow_get_def flow_insert_def tbl_get_append
      split: option.splits if_splits dest!: flow_appendEvent_Inr)

section \<open>Linking a task\<close>

lemma flow_keep_simps [simp]:
  "fu_flowId (flow_keep f now) = f_flowId f" "fu_status (flow_keep f now) = f_status f"
  "fu_blockedTaskId (flow_keep f now) = f_blockedTaskId f" "fu_wait (flow_keep f now) = f_wait f"
  "fu_endedAt (flow_keep f now) = f_endedAt f" "fu_cleanupAfter (flow_keep f now) = None"
  by (simp_all add: flow_keep_def)

lemma flow_ids_row:
  assumes "flows_inv s" and "flow_get k s = Some f"
  shows "flow_row_ok f" and "blocked_linked f s" and "f_flowId f = k"
  using assms by (auto simp: flows_inv_def flow_get_def dest!: tbl_get_key)

lemma flow_update_hitD:
  assumes "flow_ids_ok s" and "flow_update u s = Inr (s', Some r)" and "flow_get (fu_flowId u) s = Some c"
  shows "r = flow_updated_row u c" and "flow_checks r"
    and "s' = s\<lparr>task_flows := tbl_replace f_flowId (fu_flowId u) r (task_flows s)\<rparr>"
  by (rule flow_update_hit [OF assms(1,2)]; use assms(3) in simp)+

lemma add_link_inv:
  assumes inv: "flows_inv s" and new: "getTaskLink (l_taskId l) s = None"
    and ok: "link_ok l s"
  shows "flows_inv (s\<lparr>task_flow_tasks := task_flow_tasks s @ [l]\<rparr>)"
proof -
  let ?s = "s\<lparr>task_flow_tasks := task_flow_tasks s @ [l]\<rparr>"
  have "flog.status_ok ?s = flog.status_ok s" by (rule flog.status_ok_cong) simp_all
  moreover have "link_ok l' ?s = link_ok l' s" for l'
    by (simp add: link_ok_def flow_get_def task_get_def)
  moreover have "blocked_linked f ?s" if "blocked_linked f s" for f
    using that by (auto simp: blocked_linked_def opt_all_def split: option.splits)
  ultimately show ?thesis
    using inv new ok by (auto simp: flows_inv_def getTaskLink_def tbl_get_None)
qed

lemma link_transaction_flow:
  assumes "link_transaction flowId rv taskId stepKey now s = Inr (s', u)"
  shows "flow_step s s'"
proof (cases "s' = s")
  case True
  then show ?thesis by (simp add: flow_step_refl)
next
  case False
  let ?l = "\<lambda>f. \<lparr>l_flowId = f_flowId f, l_taskId = taskId, l_stepKey = stepKey, l_linkedAt = now\<rparr>"
  from assms False obtain f s1 s2 r e where
      f: "flow_get flowId s = Some f" and new: "getTaskLink taskId s = None" and g: "link_guards f taskId s = Inr ()"
    and s1: "flow_linkTask (?l f) s = Inr (s1, LINKED)"
    and r: "flow_update (flow_keep f now) s1 = Inr (s2, Some r)"
    and e: "flow_appendEvent e s2 = Inr s'" "fe_flowId e = f_flowId r"
      "fe_sequence e = flow_nextEventSequence (f_flowId r) s2" "fe_status e = f_status r"
    by (auto simp: link_transaction_def flow_linkTask_def getTaskLink_def
        split: option.splits if_splits link_outcome.splits prod.splits)
  have s1': "s1 = s\<lparr>task_flow_tasks := task_flow_tasks s @ [?l f]\<rparr>"
    using s1 new by (auto simp: flow_linkTask_def split: if_splits)
  from g obtain t where t: "task_get taskId s = Some t" "t_workspaceId t = f_workspaceId f"
      "t_conversationId t = f_ownerKey f"
    by (auto simp: link_guards_def split: if_splits option.splits)
  show ?thesis
    unfolding flow_step_def
  proof (intro conjI impI)
    assume inv: "flows_inv s"
    note row = flow_ids_row [OF inv f]
    have "link_ok (?l f) s" using f t row(3) by (simp add: link_ok_def)
    then have inv1: "flows_inv s1" unfolding s1' using inv new by (intro add_link_inv) simp_all
    have f1: "flow_get (f_flowId f) s1 = Some f" using f row(3) by (simp add: s1' flow_get_def)
    have ids1: "flow_ids_ok s1" using inv1 by (simp add: flows_inv_def)
    note r' = flow_update_hitD [OF ids1 r, unfolded flow_keep_simps, OF f1]
    have "flow_row_ok r" using row(1) r'(1,2) by (auto simp: flow_row_ok_def)
    moreover have "flow_evolves f r" "flow_moves f r" using r'(1) by (simp_all add: flow_evolves_def flow_moves_def)
    moreover have "blocked_linked r s1" using row(2) r'(1) by (auto simp: blocked_linked_def s1' opt_all_def split: option.splits)
    ultimately have "flows_inv s' \<and> flows_evolve s1 s' \<and> flows_move s1 s'"
      using flow_log_step [OF inv1 r _ _ _ _ _ e, of f] f1 by simp
    moreover have "flow_get k s1 = flow_get k s" for k by (simp add: s1' flow_get_def)
    ultimately show "flows_inv s'" "flows_evolve s s'" "flows_move s s'" by (simp_all add: flows_evolve_def flows_move_def)
  qed (use s1' r e(1) in \<open>auto simp: flow_update_def split: option.splits if_splits dest!: flow_appendEvent_Inr\<close>)
qed

lemma link_transaction_step: "link_transaction flowId rv taskId stepKey now s = Inr (s', u) \<Longrightarrow> world_step s s'"
  by (rule flow_step_world) (rule link_transaction_flow)

section \<open>Transitions\<close>

lemma mutation_patch_Inr:
  assumes "mutation_patch i c b now = Inr p"
  shows "fu_flowId p = f_flowId c" "fu_expectedRevision p = f_revision c" "fu_status p = fm_targetStatus i"
    "fu_blockedTaskId p = (if fm_targetStatus i = F_BLOCKED then b else None)"
    "fm_targetStatus i \<noteq> F_WAITING \<Longrightarrow> fu_wait p = JNull"
    "fu_cancelRequestedAt p = or_default (fm_cancelRequestedAt i) (f_cancelRequestedAt c)"
    "fu_endedAt p \<noteq> None \<longleftrightarrow> flow_terminal (fm_targetStatus i)" "fu_cleanupAfter p = None"
  using assms by (auto simp: mutation_patch_def Let_def split: if_splits)

lemma truthy_Some [simp]: "truthy v = Some x \<longleftrightarrow> v = Some x \<and> x \<noteq> []"
  by (auto simp: truthy_def split: option.splits list.splits)

lemma mutation_blocked_Inr:
  assumes "mutation_blocked i c s = Inr b" and "fm_targetStatus i = F_BLOCKED"
  shows "\<exists>k. b = Some k \<and> (\<exists>l \<in> set (task_flow_tasks s). l_flowId l = f_flowId c \<and> l_taskId l = k)"
proof -
  from assms obtain b' where "(case truthy b' of None \<Rightarrow> Inl invalid_argument
      | Some k \<Rightarrow> res_bind (require (\<exists>l \<in> set (listTaskLinks (f_flowId c) s). l_taskId l = k)
          (Flow_Error TASK_FLOW_STATE_INVALID)) (\<lambda>_. Inr b')) = Inr b"
    unfolding mutation_blocked_def res_bind_eq_Inr by (auto simp only: if_True simp_thms)
  then show ?thesis by (cases "truthy b'") (auto simp: listTaskLinks_def split: if_splits)
qed

lemma mutate_transaction_cases:
  assumes "mutate_transaction hook flowId i now s = Inr (s', r)"
  obtains c b p s1 e s2 where "flow_get flowId s = Some c" "f_revision c = fm_expectedRevision i"
    "\<not> flow_terminal (f_status c)"
    "f_status c = fm_targetStatus i \<or> fm_targetStatus i \<in> flow_allowed (f_status c)"
    "mutation_blocked i c s = Inr b" "mutation_patch i c b now = Inr p"
    "flow_update p s = Inr (s1, Some r)" "flow_appendEvent e s1 = Inr s2" "fe_flowId e = f_flowId r"
    "fe_sequence e = flow_nextEventSequence (f_flowId r) s1" "fe_status e = f_status r"
    "hook c r now s2 = Inr s'"
proof -
  from assms obtain c where c: "flow_get flowId s = Some c" "f_revision c = fm_expectedRevision i"
    "\<not> flow_terminal (f_status c)"
    "f_status c = fm_targetStatus i \<or> fm_targetStatus i \<in> flow_allowed (f_status c)"
    by (auto simp: mutate_transaction_def split: option.splits if_splits)
  with assms obtain b p where bp: "mutation_blocked i c s = Inr b" "mutation_patch i c b now = Inr p"
    by (auto simp: mutate_transaction_def split: if_splits)
  with assms c obtain s1 ro where u: "flow_update p s = Inr (s1, ro)"
    by (auto simp: mutate_transaction_def)
  with assms c bp obtain r' where "ro = Some r'"
    by (cases ro) (auto simp: mutate_transaction_def)
  with that [OF c bp] assms c bp u show thesis by (auto simp: mutate_transaction_def)
qed

text \<open>A transition keeps the invariants and moves along the table, provided the hook does.\<close>

lemma mutate_transaction_flow:
  assumes m: "mutate_transaction hook flowId i now s = Inr (s', r)"
  shows "\<exists>c s2. flow_step s s2 \<and> hook c r now s2 = Inr s'"
  using m
proof (rule mutate_transaction_cases)
  fix c b p s1 e s2
  assume c: "flow_get flowId s = Some c" "\<not> flow_terminal (f_status c)"
      "f_status c = fm_targetStatus i \<or> fm_targetStatus i \<in> flow_allowed (f_status c)"
    and b: "mutation_blocked i c s = Inr b" and p: "mutation_patch i c b now = Inr p"
    and u: "flow_update p s = Inr (s1, Some r)"
    and e: "flow_appendEvent e s1 = Inr s2" "fe_flowId e = f_flowId r"
      "fe_sequence e = flow_nextEventSequence (f_flowId r) s1" "fe_status e = f_status r"
    and h: "hook c r now s2 = Inr s'"
  note p' = mutation_patch_Inr [OF p]
  have "flow_step s s2"
    unfolding flow_step_def
  proof (intro conjI impI)
    assume inv: "flows_inv s"
    note row = flow_ids_row [OF inv c(1)]
    have get: "flow_get (fu_flowId p) s = Some c" using c(1) row(3) p'(1) by simp
    have ids: "flow_ids_ok s" using inv by (simp add: flows_inv_def)
    note r = flow_update_hitD [OF ids u get]
    have bl: "fm_targetStatus i = F_BLOCKED \<Longrightarrow> b \<noteq> None" "blocked_linked r s"
      using mutation_blocked_Inr [OF b] r(1) p'(4) by (auto simp: blocked_linked_def opt_all_def split: option.splits)
    have "f_cleanupAfter c = None" using row(1) c(2) by (auto simp: flow_row_ok_def)
    then have "flow_row_ok r" using r(1,2) p' bl(1) by (auto simp: flow_row_ok_def)
    moreover have "flow_evolves c r" "flow_moves c r"
      using r(1) c(2,3) p' by (auto simp: flow_evolves_def flow_moves_def)
    ultimately show "flows_inv s2" "flows_evolve s s2" "flows_move s s2"
      using flow_log_step [OF inv u _ get _ _ bl(2) e] by simp_all
  qed (use u e(1) in \<open>auto simp: flow_update_def split: option.splits if_splits dest!: flow_appendEvent_Inr\<close>)
  with h show ?thesis by blast
qed

lemma mutate_transaction_step:
  assumes "mutate_transaction hook flowId i now s = Inr (s', r)" and "\<And>b a t s s'. hook b a t s = Inr s' \<Longrightarrow> world_step s s'"
  shows "world_step s s'"
  using mutate_transaction_flow [OF assms(1)] assms(2) by (blast intro: world_step_trans flow_step_world)

text \<open>Scheduling retention.\<close>

lemma flow_scheduleCleanup_flow:
  assumes "flow_scheduleCleanup m k now s = Inr (s', ok)"
  shows "flow_step s s'"
proof (cases "s' = s")
  case True
  then show ?thesis by (simp add: flow_step_refl)
next
  case False
  with assms obtain c x p s1 r e where c: "flow_get k s = Some c" "f_endedAt c = Some x"
      "flow_terminal (f_status c)" "f_cleanupAfter c = None"
    and p: "p = (flow_keep c now)\<lparr>fu_cleanupAfter := Some (Some (x + flow_retention_ms m (f_status c)))\<rparr>"
    and u: "flow_update p s = Inr (s1, Some r)"
    and e: "flow_appendEvent e s1 = Inr s'" "fe_flowId e = f_flowId r"
      "fe_sequence e = flow_nextEventSequence (f_flowId r) s1" "fe_status e = f_status r"
    by (auto simp: flow_scheduleCleanup_def Let_def split: option.splits if_splits dest: flow_update_miss)
  show ?thesis
    unfolding flow_step_def
  proof (intro conjI impI)
    assume inv: "flows_inv s"
    note row = flow_ids_row [OF inv c(1)]
    have get: "flow_get (fu_flowId p) s = Some c" using c(1) row(3) p by simp
    have ids: "flow_ids_ok s" using inv by (simp add: flows_inv_def)
    note r = flow_update_hitD [OF ids u get]
    have "flow_row_ok r" using row(1) r(1,2) c(3) p by (auto simp: flow_row_ok_def)
    moreover have "flow_evolves c r" "flow_moves c r" using r(1) c p by (simp_all add: flow_evolves_def flow_moves_def)
    moreover have "blocked_linked r s" using row(2) r(1) p by (simp add: blocked_linked_def)
    ultimately show "flows_inv s'" "flows_evolve s s'" "flows_move s s'"
      using flow_log_step [OF inv u _ get _ _ _ e] by simp_all
  qed (use u e(1) in \<open>auto simp: flow_update_def split: option.splits if_splits dest!: flow_appendEvent_Inr\<close>)
qed

lemma flow_scheduleCleanup_step: "flow_scheduleCleanup m k now s = Inr (s', ok) \<Longrightarrow> world_step s s'"
  by (rule flow_step_world) (rule flow_scheduleCleanup_flow)

end
