(* ===== verification/Ledger_Machine.thy ===== *)
theory Ledger_Machine
  imports Task_Flow_Machine
begin

text \<open>
  The durable ledgers as one state machine. \<open>ledger_step\<close> has one rule per committed operation of the
  conversation, task, delivery and flow repositories and of the services' transactions on them;
  \<open>ledger_reachable\<close> are the databases that any sequence of them makes from the empty one. The
  invariants hold on all of them, by rule induction over the lemmas of the components.
\<close>

section \<open>The task operations leave the flow tables alone\<close>

definition same_flows :: "db \<Rightarrow> db \<Rightarrow> bool" where
  "same_flows s s' \<longleftrightarrow> task_flows s' = task_flows s \<and> task_flow_tasks s' = task_flow_tasks s
     \<and> task_flow_events s' = task_flow_events s"

lemma same_flows_trans: "same_flows a b \<Longrightarrow> same_flows b c \<Longrightarrow> same_flows a c"
  by (simp add: same_flows_def)

lemma task_writes_same_flows:
  "task_update p s = Inr (s1, ro) \<Longrightarrow> same_flows s s1"
  "task_appendEvent e s = Inr s2 \<Longrightarrow> same_flows s s2"
  "task_insert v s = Inr s3 \<Longrightarrow> same_flows s s3"
  "deliver_completion r sq i s = Inr s4 \<Longrightarrow> same_flows s s4"
  "write_delivery k n f refs s = Inr (s5, d) \<Longrightarrow> same_flows s s5"
  by (auto simp: same_flows_def task_update_def task_insert_def deliver_completion_def write_delivery_def Let_def
      split: option.splits if_splits dest!: task_appendEvent_Inr delivery_insert_Inr)

lemma world_step_of_tasks: "sound_step s s' \<Longrightarrow> same_flows s s' \<Longrightarrow> world_step s s'"
  by (rule world_step_tasks) (simp_all add: same_flows_def)

lemma createForRun_same_flows: "createForRun i s = Inr (s', v) \<Longrightarrow> same_flows s s'"
  unfolding createForRun_def Let_def
  by (auto dest!: task_writes_same_flows(2,3) intro: same_flows_trans simp del: require_Inr_iff)

lemma syncRunLifecycle_same_flows:
  assumes "syncRunLifecycle i s = Inr (s', v)"
  shows "same_flows s s'"
  using assms
proof (cases rule: syncRunLifecycle_cases)
  case same
  then show ?thesis by (simp add: same_flows_def)
next
  case (logged cur s1 e s2)
  have "same_flows s s2" using task_writes_same_flows(1,2) logged(3,4) same_flows_trans by blast
  then show ?thesis using logged(8) task_writes_same_flows(4) same_flows_trans by (metis (full_types))
qed

lemma insertRun_same_flows: "insertRun row s = Inr s' \<Longrightarrow> same_flows s s'"
proof -
  assume i: "insertRun row s = Inr s'"
  then obtain i' v where "createForRun i' (s\<lparr>agent_runs := agent_runs s @ [row]\<rparr>) = Inr (s', v)"
    by (auto simp: insertRun_def Let_def split: option.splits if_splits)
  from createForRun_same_flows [OF this] show "same_flows s s'" by (simp add: same_flows_def)
qed

lemma insertRun_world: "insertRun row s = Inr s' \<Longrightarrow> world_step s s'"
  using insertRun_sound insertRun_same_flows world_step_of_tasks by blast

lemma updateRun_same_flows: "updateRun u s = Inr s' \<Longrightarrow> same_flows s s'"
proof -
  assume u: "updateRun u s = Inr s'"
  then obtain v where "syncRunLifecycle (run_sync_input u)
      (s\<lparr>agent_runs := tbl_modify (\<lambda>r. r_runId r = ru_runId u) (updated_run u) (agent_runs s)\<rparr>) = Inr (s', v)"
    by (auto simp: updateRun_def Let_def split: if_splits)
  from syncRunLifecycle_same_flows [OF this] show "same_flows s s'" by (simp add: same_flows_def)
qed

lemma updateRun_world: "updateRun u s = Inr s' \<Longrightarrow> world_step s s'"
  using updateRun_sound updateRun_same_flows world_step_of_tasks by blast

lemma syncRunLifecycle_world: "syncRunLifecycle i s = Inr (s', v) \<Longrightarrow> world_step s s'"
  using syncRunLifecycle_sound syncRunLifecycle_same_flows world_step_of_tasks by blast

lemma classifyRun_same_flows:
  assumes "classifyRun i s = Inr (s', v)" and "task_ids_ok s"
  shows "same_flows s s'"
  using assms(2,1)
proof (cases rule: classifyRun_cases)
  case same
  then show ?thesis by (simp add: same_flows_def)
next
  case (logged c p s1 e)
  then show ?thesis using task_writes_same_flows(1,2) same_flows_trans by blast
qed

lemma classifyRun_world: "classifyRun i s = Inr (s', v) \<Longrightarrow> world_step s s'"
  using classifyRun_sound [of i s s' v] classifyRun_same_flows [of i s s' v] world_step_of_tasks [of s s']
  by (auto simp: world_step_def world_ok_def ledger_ok_ids)

lemma updateDeliveryState_same_flows: "updateDeliveryState k ds oc now s = Inr (s', v) \<Longrightarrow> same_flows s s'"
  by (erule updateDeliveryState_cases) (auto simp: same_flows_def dest: task_writes_same_flows(1) [unfolded same_flows_def])

lemma updateDeliveryState_world: "updateDeliveryState k ds oc now s = Inr (s', v) \<Longrightarrow> world_step s s'"
  using updateDeliveryState_sound updateDeliveryState_same_flows world_step_of_tasks by blast

lemma task_scheduleCleanup_same_flows:
  assumes "task_scheduleCleanup m k now s = Inr (s', ok)"
  shows "same_flows s s'"
  using assms
proof (cases rule: task_scheduleCleanup_cases)
  case skipped
  then show ?thesis by (simp add: same_flows_def)
next
  case (scheduled c run e s1 r ev)
  then show ?thesis using task_writes_same_flows(1,2) same_flows_trans by blast
qed

lemma task_scheduleCleanup_world: "task_scheduleCleanup m k now s = Inr (s', ok) \<Longrightarrow> world_step s s'"
  using task_scheduleCleanup_sound task_scheduleCleanup_same_flows world_step_of_tasks by blast

lemma delivery_same_flows:
  "delivery_update i s = Inr (s', ro) \<Longrightarrow> same_flows s s'"
  "bindControllerSnapshot b s = Inr (s1, rb) \<Longrightarrow> same_flows s s1"
  by (auto simp: delivery_update_def bindControllerSnapshot_def dest: task_writes_same_flows(5))

lemma delivery_update_world: "delivery_update i s = Inr (s', ro) \<Longrightarrow> world_step s s'"
  using delivery_update_sound delivery_same_flows(1) world_step_of_tasks by blast

lemma bindControllerSnapshot_world: "bindControllerSnapshot i s = Inr (s', ro) \<Longrightarrow> world_step s s'"
  using bindControllerSnapshot_sound delivery_same_flows(2) world_step_of_tasks by blast

lemma world_step_frame:
  "background_tasks s' = background_tasks s \<Longrightarrow> background_task_events s' = background_task_events s \<Longrightarrow>
   task_completion_deliveries s' = task_completion_deliveries s \<Longrightarrow> same_flows s s' \<Longrightarrow> world_step s s'"
  by (rule world_step_of_tasks [OF sound_step_frame])

section \<open>Service calls\<close>

lemma task_service_get_world: "world.steps (task_service_get ws w k)"
  by (simp add: world.steps_def task_service_get_state)

lemma flow_owned_world: "world.steps (flow_owned fs w ow k)"
  unfolding flow_owned_def by (intro world.steps_intros)

lemma flow_service_get_world: "world.steps (flow_service_get fs w ow k)"
  unfolding flow_service_get_def by (intro world.steps_intros flow_owned_world task_service_get_world)

lemma no_hook_world: "no_hook b a t s = Inr s' \<Longrightarrow> world_step s s'"
  by (simp add: no_hook_def)

lemma flow_mutate_world:
  assumes "\<And>b a t s s'. hook b a t s = Inr s' \<Longrightarrow> world_step s s'"
  shows "world.steps (flow_mutate fs hook now i)"
  unfolding flow_mutate_def
  by (intro world.steps_intros flow_owned_world) (erule mutate_transaction_step, erule assms)

lemma linkTask_world: "world.steps (linkTask fs now w ow k task rv step)"
  unfolding linkTask_def
  by (intro world.steps_intros flow_owned_world flow_service_get_world) (rule link_transaction_step)

lemma flow_requestCancel_world: "world.steps (flow_requestCancel fs t1 t2 w ow k rv)"
  unfolding flow_requestCancel_def
  by (intro world.steps_intros flow_owned_world flow_mutate_world no_hook_world)

lemma flow_cancel_world:
  assumes "\<And>t. world.steps (cancelTask t)"
  shows "world.steps (flow_cancel fs cancelTask t1 t2 t3 w ow k rv)"
  unfolding flow_cancel_def cancel_child_def
  by (intro world.steps_intros flow_owned_world flow_service_get_world flow_requestCancel_world
      flow_mutate_world assms; erule no_hook_world)

lemma flow_scheduleRetention_world: "world.steps (flow_scheduleRetention m now w ow l)"
  unfolding flow_scheduleRetention_def
  by (intro world.steps_intros) (rule flow_scheduleCleanup_step)

lemma flow_reconcile_world:
  assumes "\<And>cancelFlow w ow k rv. fx_cancelFlow m = Some cancelFlow \<Longrightarrow> world.steps (cancelFlow w ow k rv)"
  shows "world.steps (flow_reconcile m now w ow mode l ret)"
  unfolding flow_reconcile_def reconcile_flow_def repair_cancel_def flow_repair_retention_def
  by (intro world.steps_intros) (blast intro: assms flow_scheduleCleanup_step)+

section \<open>The state machine\<close>

inductive ledger_step :: "db \<Rightarrow> db \<Rightarrow> bool" where
  conversation: "createConversation row s = Inr s' \<Longrightarrow> ledger_step s s'"
| message_sequence: "nextMessageSequence i now s = Inr (s', n) \<Longrightarrow> ledger_step s s'"
| message: "insertMessage m s = Inr s' \<Longrightarrow> ledger_step s s'"
| submission: "insertSubmission sub s = Inr s' \<Longrightarrow> ledger_step s s'"
| run_insert: "insertRun run s = Inr s' \<Longrightarrow> ledger_step s s'"
| run_update: "updateRun u s = Inr s' \<Longrightarrow> ledger_step s s'"
| event_sequence: "nextEventSequence i now s = Inr (s', n) \<Longrightarrow> ledger_step s s'"
| event: "insertEvent e s = Inr s' \<Longrightarrow> ledger_step s s'"
| attempt: "insertAttempt a s = Inr s' \<Longrightarrow> ledger_step s s'"
| attempt_update: "updateAttempt i st startedAt endedAt reason now s = Inr s' \<Longrightarrow> ledger_step s s'"
| attempt_config: "configureAttempt i c s = Inr s' \<Longrightarrow> ledger_step s s'"
| attempt_usage: "updateAttemptUsage i usage reason now s = Inr s' \<Longrightarrow> ledger_step s s'"
| invocation: "insertModelInvocation v s = Inr s' \<Longrightarrow> ledger_step s s'"
| invocation_end: "completeModelInvocation i st resp inp out err now s = Inr s' \<Longrightarrow> ledger_step s s'"
| invocation_recover: "recoverStartedModelInvocations i now s = (s', n) \<Longrightarrow> ledger_step s s'"
| projection: "rebuildProjection i now s = Inr (s', p) \<Longrightarrow> ledger_step s s'"
| projection_delete: "deleteProjection i s = s' \<Longrightarrow> ledger_step s s'"
| task_classify: "classifyRun c s = Inr (s', t) \<Longrightarrow> ledger_step s s'"
| task_sync: "syncRunLifecycle y s = Inr (s', t) \<Longrightarrow> ledger_step s s'"
| task_delivery: "updateDeliveryState k ds oc now s = Inr (s', t) \<Longrightarrow> ledger_step s s'"
| task_retention: "task_scheduleCleanup m k now s = Inr (s', ok) \<Longrightarrow> ledger_step s s'"
| delivery: "delivery_update d s = Inr (s', ro) \<Longrightarrow> ledger_step s s'"
| delivery_bind: "bindControllerSnapshot b s = Inr (s', ro) \<Longrightarrow> ledger_step s s'"
| flow_new: "flow_create fs uuid now fc s = (Inr f, s') \<Longrightarrow> ledger_step s s'"
| flow_link: "link_transaction flowId rv taskId stepKey now s = Inr (s', u) \<Longrightarrow> ledger_step s s'"
| flow_transition: "mutate_transaction no_hook flowId i now s = Inr (s', f) \<Longrightarrow> ledger_step s s'"
| flow_retention: "flow_scheduleCleanup fx flowId now s = Inr (s', ok) \<Longrightarrow> ledger_step s s'"

definition ledger_reachable :: "db \<Rightarrow> bool" where
  "ledger_reachable s \<longleftrightarrow> ledger_step\<^sup>*\<^sup>* empty_db s"

text \<open>The operations of the conversation ledger that touch neither tasks nor flows.\<close>

definition same_tasks :: "db \<Rightarrow> db \<Rightarrow> bool" where
  "same_tasks s s' \<longleftrightarrow> background_tasks s' = background_tasks s \<and> background_task_events s' = background_task_events s
     \<and> task_completion_deliveries s' = task_completion_deliveries s \<and> same_flows s s'"

lemma conversation_ops_same_tasks:
  "createConversation row s = Inr s1 \<Longrightarrow> same_tasks s s1"
  "nextMessageSequence i now s = Inr (s2, n) \<Longrightarrow> same_tasks s s2"
  "insertMessage m s = Inr s3 \<Longrightarrow> same_tasks s s3"
  "insertSubmission sub s = Inr s4 \<Longrightarrow> same_tasks s s4"
  "nextEventSequence i now s = Inr (s5, n) \<Longrightarrow> same_tasks s s5"
  "insertEvent e s = Inr s6 \<Longrightarrow> same_tasks s s6"
  "insertAttempt a s = Inr s7 \<Longrightarrow> same_tasks s s7"
  "write_attempt i msg f s = Inr s8 \<Longrightarrow> same_tasks s s8"
  "insertModelInvocation v s = Inr s9 \<Longrightarrow> same_tasks s s9"
  "completeModelInvocation i st resp inp out err now s = Inr s10 \<Longrightarrow> same_tasks s s10"
  "recoverStartedModelInvocations i now s = (s11, k) \<Longrightarrow> same_tasks s s11"
  "rebuildProjection i now s = Inr (s12, p) \<Longrightarrow> same_tasks s s12"
  "deleteProjection i s = s13 \<Longrightarrow> same_tasks s s13"
  by (force simp: same_tasks_def same_flows_def createConversation_def nextMessageSequence_def insertMessage_def
        insertSubmission_def nextEventSequence_def insertEvent_def insertAttempt_def write_attempt_def
        insertModelInvocation_def completeModelInvocation_def recoverStartedModelInvocations_def
        rebuildProjection_def deleteProjection_def Let_def split: if_splits option.splits)+

lemma same_tasks_world: "same_tasks s s' \<Longrightarrow> world_step s s'"
  unfolding same_tasks_def by (intro world_step_frame) simp_all

lemmas conversation_ops_world = conversation_ops_same_tasks [THEN same_tasks_world]

lemma ledger_step_world: "ledger_step s s' \<Longrightarrow> world_step s s'"
proof (induction rule: ledger_step.induct)
  case (flow_new fs uuid now fc s f s')
  with flow_create_step show ?case by (rule world.stepsD)
next
  case (flow_transition flowId i now s s' f)
  then show ?case by (rule mutate_transaction_step) (rule no_hook_world)
qed (auto intro: conversation_ops_world insertRun_world updateRun_world classifyRun_world
    syncRunLifecycle_world updateDeliveryState_world task_scheduleCleanup_world delivery_update_world
    bindControllerSnapshot_world link_transaction_step flow_scheduleCleanup_step
    simp: updateAttempt_def configureAttempt_def updateAttemptUsage_def)

lemma ledger_steps_world: "ledger_step\<^sup>*\<^sup>* s s' \<Longrightarrow> world_step s s'"
  by (induction rule: rtranclp_induct) (auto dest: ledger_step_world intro: world_step_trans)

lemma empty_db_ok: "world_ok empty_db"
  by (simp add: world_ok_def ledger_ok_def tasks_inv_def rows_inv_def log_inv_def deliveries_ok_def
      flows_inv_def tlog.status_ok_def tlog.log_ok_def flog.status_ok_def flog.log_ok_def seqs_of_def empty_db_def)

lemma reachable_world_ok: "ledger_reachable s \<Longrightarrow> world_ok s"
  using ledger_steps_world empty_db_ok by (auto simp: ledger_reachable_def world_step_def)

text \<open>One step writes a flow at most once.\<close>

lemma same_flows_move: "same_flows s s' \<Longrightarrow> flows_move s s'"
  by (simp add: same_flows_def flows_move_same)

lemma same_tasks_move: "same_tasks s s' \<Longrightarrow> flows_move s s'"
  by (simp add: same_tasks_def same_flows_move)

lemma flow_step_moves: "flow_step s s' \<Longrightarrow> world_ok s \<Longrightarrow> flows_move s s'"
  by (simp add: flow_step_def world_ok_def)

lemmas step_moves = same_flows_move [OF insertRun_same_flows] same_flows_move [OF updateRun_same_flows]
  same_flows_move [OF syncRunLifecycle_same_flows] same_flows_move [OF updateDeliveryState_same_flows]
  same_flows_move [OF task_scheduleCleanup_same_flows] delivery_same_flows [THEN same_flows_move]
  conversation_ops_same_tasks [THEN same_tasks_move] flow_step_moves [OF link_transaction_flow] flow_step_moves [OF flow_scheduleCleanup_flow]

lemma ledger_step_moves: "ledger_step s s' \<Longrightarrow> world_ok s \<Longrightarrow> flows_move s s'"
proof (induction rule: ledger_step.induct)
  case (task_classify c s s' t)
  then show ?case by (intro same_flows_move, elim classifyRun_same_flows) (simp add: world_ok_def ledger_ok_ids)
next
  case (flow_new fs uuid now fc s f s')
  with flow_create_keeps show ?case by (intro flows_keep_moves) (rule kept_flows.stepsD)
next
  case (flow_transition flowId i now s s' f)
  then show ?case using mutate_transaction_flow [of no_hook flowId i now s s' f]
    by (auto simp: no_hook_def intro: flow_step_moves)
qed (auto intro: step_moves simp: updateAttempt_def configureAttempt_def updateAttemptUsage_def)

section \<open>Facts the properties share\<close>

text \<open>After a sync the run's task is the row it returned.\<close>

lemma syncRunLifecycle_getByRun:
  assumes inv: "tasks_inv s" and y: "syncRunLifecycle i s = Inr (s1, v)"
  shows "task_getByRun (si_runId i) s1 = Some v"
  using y
proof (cases rule: syncRunLifecycle_cases)
  case same
  then show ?thesis by simp
next
  case (logged c s2 e s3)
  have ids: "task_ids_ok s" using inv by (simp add: tasks_inv_def rows_inv_def)
  note get = task_getByRun_get [OF ids logged(1)]
  note hit = task_update_hitD [OF ids logged(3), unfolded sync_patch_simps, OF get]
  have "background_tasks s1 = background_tasks s3"
    using logged(8) by (auto simp: deliver_completion_def split: if_splits option.splits dest!: delivery_insert_Inr)
  then have "background_tasks s1 = tbl_replace t_taskId (t_taskId c) v (background_tasks s)"
    using hit(3) task_appendEvent_Inr [OF logged(4)] by simp
  then have "v \<in> set (background_tasks s1)"
    using get set_tbl_replace [of t_taskId "t_taskId c" "background_tasks s" c v] by (simp add: task_get_def)
  moreover have "t_runId v = si_runId i"
    using hit(1) logged(1) by (auto simp: task_getByRun_def dest: tbl_get_key)
  ultimately show ?thesis
    using tbl_get_distinct [of t_runId "background_tasks s1" v] syncRunLifecycle_inv [OF inv y]
    by (simp add: task_getByRun_def tasks_inv_def rows_inv_def)
qed

lemma syncRunLifecycle_delivers:
  assumes ids: "task_ids_ok s" and y: "syncRunLifecycle i s = Inr (s1, v)"
    and c: "task_getByRun (si_runId i) s = Some c" "\<not> task_terminal (t_status c)" "t_notifyPolicy c \<noteq> SILENT"
    and t: "task_terminal (t_status v)"
  shows "\<exists>d. task_completion_deliveries s1 = task_completion_deliveries s @ [d]
      \<and> d_taskId d = t_taskId c \<and> d_taskStatus d = t_status v \<and> d_deliveryStatus d = D_PENDING"
  using y
proof (cases rule: syncRunLifecycle_cases)
  case same
  with c t show ?thesis by simp
next
  case (logged cur s2 e s3)
  then have cur: "cur = c" using c by simp
  note get = task_getByRun_get [OF ids logged(1)]
  note hit = task_update_hitD [OF ids logged(3), unfolded sync_patch_simps, OF get]
  have "deliver_completion v (te_sequence e) i s3 = Inr s1" using logged(8) c(3) t cur hit(1) by simp
  then obtain f where
    "delivery_insert (completion_delivery v f (te_sequence e) (si_completionText i) (si_updatedAt i)) s3 = Inr s1"
    by (auto simp: deliver_completion_def split: option.splits)
  note s1 = delivery_insert_Inr [OF this]
  have "task_completion_deliveries s3 = task_completion_deliveries s"
    using logged(3,4) by (auto dest!: task_write_deliveries)
  then show ?thesis using s1 hit(1) cur by simp
qed

lemma reachable_flows_evolve:
  assumes "ledger_reachable s" and "ledger_step\<^sup>*\<^sup>* s s'" and "flow_get k s = Some f"
  shows "\<exists>f'. flow_get k s' = Some f' \<and> flow_evolves f f'"
  using ledger_steps_world [OF assms(2)] reachable_world_ok [OF assms(1)] assms(3)
  by (simp add: world_step_def flows_evolve_def)

text \<open>The snapshot of a flow on a database that satisfies the invariant.\<close>

lemma flow_snapshot_ok:
  assumes inv: "flows_inv s" and sn: "sn \<in> set (flowm_snapshot w ow n s)"
  shows "fn_flow sn \<in> set (task_flows s)" and "fn_missingTaskIds sn = []"
    and "\<And>t. t \<in> set (fn_tasks sn) \<Longrightarrow> t_workspaceId t = f_workspaceId (fn_flow sn) \<and> t_conversationId t = f_ownerKey (fn_flow sn)"
    and "\<And>b. f_blockedTaskId (fn_flow sn) = Some b \<Longrightarrow> \<exists>t \<in> set (fn_tasks sn). t_taskId t = b"
proof -
  from sn obtain f where f: "f \<in> set (task_flows s)" and fsn: "fn_flow sn = f" "fn_tasks sn = flow_children (f_flowId f) s"
    and miss: "fn_missingTaskIds sn = flat_map (\<lambda>l. case task_get (l_taskId l) s of None \<Rightarrow> [l_taskId l] | Some t \<Rightarrow> [])
              (listTaskLinks (f_flowId f) s)"
    by (auto simp: flowm_snapshot_def flow_listAll_def dest!: in_set_takeD)
  have get: "flow_get (f_flowId f) s = Some f"
    using inv f tbl_get_distinct [of f_flowId "task_flows s" f] by (simp add: flows_inv_def flow_get_def)
  have link: "\<exists>t. task_get (l_taskId l) s = Some t \<and> t_workspaceId t = f_workspaceId f \<and> t_conversationId t = f_ownerKey f"
    if "l \<in> set (listTaskLinks (f_flowId f) s)" for l
    using that inv get by (auto simp: listTaskLinks_def flows_inv_def link_ok_def)
  show "fn_flow sn \<in> set (task_flows s)" using f fsn by simp
  show "fn_missingTaskIds sn = []" unfolding miss flat_map_Nil_iff using link by (auto split: option.splits)
  show "t_workspaceId t = f_workspaceId (fn_flow sn) \<and> t_conversationId t = f_ownerKey (fn_flow sn)"
    if "t \<in> set (fn_tasks sn)" for t
    using that link unfolding fsn flow_children_def set_flat_map by (fastforce split: option.splits)
  show "\<exists>t \<in> set (fn_tasks sn). t_taskId t = b" if "f_blockedTaskId (fn_flow sn) = Some b" for b
  proof -
    from inv f that fsn obtain l where l: "l \<in> set (listTaskLinks (f_flowId f) s)" "l_taskId l = b"
      by (fastforce simp: flows_inv_def blocked_linked_def opt_all_def listTaskLinks_def)
    from link [OF l(1)] obtain t where t: "task_get b s = Some t" using l(2) by auto
    then have "t_taskId t = b" by (auto simp: task_get_def dest: tbl_get_key)
    moreover have "t \<in> set (fn_tasks sn)"
      unfolding fsn flow_children_def set_flat_map using l t by force
    ultimately show ?thesis by blast
  qed
qed

lemma audit_flow_clean:
  assumes "fn_missingTaskIds sn = []"
    and "\<And>t. t \<in> set (fn_tasks sn) \<Longrightarrow> t_workspaceId t = f_workspaceId (fn_flow sn) \<and> t_conversationId t = f_ownerKey (fn_flow sn)"
    and "\<And>b. f_blockedTaskId (fn_flow sn) = Some b \<Longrightarrow> \<exists>t \<in> set (fn_tasks sn). t_taskId t = b"
    and "flow_row_ok (fn_flow sn)" and "x \<in> set (audit_flow m now sn)"
  shows "ff_code x \<notin> {FLOW_OWNER_SCOPE_MISMATCH, FLOW_BLOCKED_TASK_MISSING, FLOW_INCONSISTENT_TIMESTAMPS}"
proof -
  let ?f = "fn_flow sn"
  have scope: "flat_map (\<lambda>t. if t_workspaceId t \<noteq> f_workspaceId ?f \<or> t_conversationId t \<noteq> f_ownerKey ?f then [g t] else [])
      (fn_tasks sn) = []" for g :: "task_row \<Rightarrow> flow_finding"
    unfolding flat_map_Nil_iff using assms(2) by auto
  have blocked: "\<not> (f_status ?f = F_BLOCKED \<and> (f_blockedTaskId ?f = None
      \<or> \<not> (\<exists>t \<in> set (fn_tasks sn). Some (t_taskId t) = f_blockedTaskId ?f)))"
    using assms(3,4) by (fastforce simp: flow_row_ok_def)
  have times: "\<not> flow_bad_timestamps ?f"
    using assms(4) by (cases "f_status ?f"; cases "f_endedAt ?f")
      (simp_all add: flow_bad_timestamps_def flow_row_ok_def flow_checks_def opt_all_def flow_active_def flow_terminal_def)
  have "list_all (\<lambda>x. ff_code x \<notin> {FLOW_OWNER_SCOPE_MISMATCH, FLOW_BLOCKED_TASK_MISSING, FLOW_INCONSISTENT_TIMESTAMPS})
      (audit_flow m now sn)"
    unfolding audit_flow_def Let_def scope assms(1) if_not_P [OF blocked] if_not_P [OF times]
    by (simp add: list_all_if flow_finding_for_def split: option.splits)
  with assms(5) show ?thesis by (simp add: list_all_iff)
qed

end
