(* ===== verification/Scenario.thy ===== *)
theory Scenario
  imports Ledger_Machine
begin

text \<open>
  One life of a managed child task, evaluated step by step from the empty database: a conversation, a
  run with its task, the task classified as the child of a flow, the flow created, linked and
  started, the run started and completed with a deliverable. The states serve as concrete inputs
  for the properties.
\<close>

definition demo_conversation :: conversation_row where
  "demo_conversation = \<lparr>c_conversationId = ''c1'', c_workspaceId = ''main'', c_modelProfile = ''default'',
     c_title = None, c_status = ACTIVE, c_lastMessageSequence = 0, c_createdAt = 1, c_updatedAt = 1\<rparr>"

definition demo_run :: run_row where
  "demo_run = \<lparr>r_runId = ''r1'', r_conversationId = ''c1'', r_triggerMessageId = None,
     r_status = R_CREATED, r_recoveryState = NONE, r_currentAttemptId = None, r_lastEventSequence = 0,
     r_createdAt = 2, r_startedAt = None, r_endedAt = None, r_updatedAt = 2\<rparr>"

definition demo_classify :: classify_input where
  "demo_classify = \<lparr>ci_runId = ''r1'', ci_runtime = DELEGATION, ci_taskKind = ''task_flow.child'',
     ci_sourceId = Some ''f1'', ci_parentRunId = None, ci_notifyPolicy = None, ci_updatedAt = 3\<rparr>"

definition demo_service :: flow_service where
  "demo_service = \<lparr>fs_workspaceIds = [''main''], fs_taskWorkspaceIds = [''main'']\<rparr>"

definition demo_flow :: flow_create_input where
  "demo_flow = \<lparr>fc_workspaceId = ''main'', fc_ownerKey = ''c1'', fc_controllerId = ''goals'',
     fc_goal = ''ship it'', fc_currentStep = None, fc_state = JUndef, fc_running = None\<rparr>"

definition demo_start :: flow_mutation where
  "demo_start = base_mutation \<lparr>fr_workspaceId = ''main'', fr_ownerKey = ''c1'', fr_flowId = ''f1'',
     fr_expectedRevision = 2, fr_currentStep = None, fr_state = JUndef\<rparr> F_RUNNING ''taskFlow.running''"

definition demo_run_update :: "run_status \<Rightarrow> int option \<Rightarrow> int \<Rightarrow> string option \<Rightarrow> run_update" where
  "demo_run_update st endedAt now text = \<lparr>ru_runId = ''r1'', ru_status = st, ru_recoveryState = NONE,
     ru_currentAttemptId = None, ru_startedAt = Some 7, ru_endedAt = endedAt, ru_updatedAt = now,
     ru_taskProjectionLost = False, ru_taskProjectionErrorCode = None, ru_taskCompletionText = text\<rparr>"

definition demo_task :: task_row where
  "demo_task = new_task_row \<lparr>cr_taskId = ''task:r1'', cr_workspaceId = ''main'', cr_conversationId = ''c1'',
     cr_runId = ''r1'', cr_taskText = ''Background agent run'', cr_createdAt = 2\<rparr>"

definition demo_child :: task_row where
  "demo_child = demo_task\<lparr>t_runtime := DELEGATION, t_taskKind := ''task_flow.child'', t_sourceId := Some ''f1'',
     t_notifyPolicy := DONE_ONLY, t_updatedAt := 3, t_revision := 2\<rparr>"

definition demo_running :: task_row where
  "demo_running = demo_child\<lparr>t_status := T_RUNNING, t_progressSummary := Some ''Running'',
     t_startedAt := Some 7, t_updatedAt := 7, t_revision := 3\<rparr>"

definition demo_done :: task_row where
  "demo_done = demo_running\<lparr>t_status := T_SUCCEEDED, t_deliveryStatus := D_PENDING,
     t_terminalOutcome := Some O_SUCCEEDED, t_terminalSummary := Some ''Completed with a final deliverable.'',
     t_endedAt := Some 9, t_updatedAt := 9, t_revision := 4\<rparr>"

definition demo_event :: "int \<Rightarrow> string \<Rightarrow> task_status \<Rightarrow> json \<Rightarrow> int \<Rightarrow> task_event_row" where
  "demo_event n ty st payload now = \<lparr>te_taskId = ''task:r1'', te_sequence = n, te_eventType = ty, te_status = st,
     te_recoveryState = NONE, te_payload = payload, te_runEventSequence = None, te_emittedAt = now\<rparr>"

definition demo_run_event :: "int \<Rightarrow> string \<Rightarrow> task_status \<Rightarrow> string \<Rightarrow> json \<Rightarrow> int \<Rightarrow> task_event_row" where
  "demo_run_event n ty st run outcome now = demo_event n ty st
     (JObj [(''runId'', JStr ''r1''), (''runStatus'', JStr run), (''errorCode'', JNull), (''terminalOutcome'', outcome)]) now"

definition demo_flow_row :: flow_row where
  "demo_flow_row = \<lparr>f_flowId = ''f1'', f_workspaceId = ''main'', f_ownerKey = ''c1'', f_controllerId = ''goals'',
     f_goal = ''ship it'', f_status = F_QUEUED, f_currentStep = None, f_blockedTaskId = None,
     f_blockedSummary = None, f_state = JNull, f_wait = JNull, f_cancelRequestedAt = None, f_createdAt = 4,
     f_updatedAt = 4, f_endedAt = None, f_cleanupAfter = None, f_revision = 1\<rparr>"

definition demo_flow_event :: "int \<Rightarrow> string \<Rightarrow> flow_status \<Rightarrow> json \<Rightarrow> int \<Rightarrow> flow_event_row" where
  "demo_flow_event n ty st payload now = \<lparr>fe_flowId = ''f1'', fe_sequence = n, fe_eventType = ty,
     fe_status = st, fe_revision = n, fe_payload = payload, fe_emittedAt = now\<rparr>"

definition demo1 :: db where "demo1 = empty_db\<lparr>conversations := [demo_conversation]\<rparr>"

definition demo2 :: db where
  "demo2 = demo1\<lparr>agent_runs := [demo_run], background_tasks := [demo_task],
     background_task_events := [demo_event 1 ''task.queued'' T_QUEUED
       (JObj [(''runId'', JStr ''r1''), (''runtime'', JStr ''CONVERSATION'')]) 2]\<rparr>"

definition demo3 :: db where
  "demo3 = demo2\<lparr>background_tasks := [demo_child],
     background_task_events := background_task_events demo2 @ [demo_event 2 ''task.classified'' T_QUEUED
       (JObj [(''runtime'', JStr ''DELEGATION''), (''taskKind'', JStr ''task_flow.child''),
          (''sourceId'', JStr ''f1''), (''parentTaskId'', JNull), (''notifyPolicy'', JStr ''DONE_ONLY'')]) 3]\<rparr>"

definition demo4 :: db where
  "demo4 = demo3\<lparr>task_flows := [demo_flow_row],
     task_flow_events := [demo_flow_event 1 ''taskFlow.created'' F_QUEUED
       (JObj [(''ownerKey'', JStr ''c1''), (''controllerId'', JStr ''goals''), (''goal'', JStr ''ship it''),
          (''currentStep'', JNull)]) 4]\<rparr>"

definition demo5 :: db where
  "demo5 = demo4\<lparr>task_flows := [demo_flow_row\<lparr>f_updatedAt := 5, f_revision := 2\<rparr>],
     task_flow_tasks := [\<lparr>l_flowId = ''f1'', l_taskId = ''task:r1'', l_stepKey = Some ''build'', l_linkedAt = 5\<rparr>],
     task_flow_events := task_flow_events demo4 @ [demo_flow_event 2 ''taskFlow.task.linked'' F_QUEUED
       (JObj [(''taskId'', JStr ''task:r1''), (''stepKey'', JStr ''build'')]) 5]\<rparr>"

definition demo6 :: db where
  "demo6 = demo5\<lparr>task_flows := [demo_flow_row\<lparr>f_status := F_RUNNING, f_updatedAt := 6, f_revision := 3\<rparr>],
     task_flow_events := task_flow_events demo5 @ [demo_flow_event 3 ''taskFlow.running'' F_RUNNING
       (JObj [(''from'', JStr ''QUEUED''), (''to'', JStr ''RUNNING''), (''currentStep'', JNull),
          (''blockedTaskId'', JNull)]) 6]\<rparr>"

definition demo7 :: db where
  "demo7 = demo6\<lparr>agent_runs := [demo_run\<lparr>r_status := R_RUNNING, r_startedAt := Some 7, r_updatedAt := 7\<rparr>],
     background_tasks := [demo_running],
     background_task_events := background_task_events demo6 @
       [demo_run_event 3 ''task.running'' T_RUNNING ''RUNNING'' JNull 7]\<rparr>"

definition demo_delivery :: delivery_row where
  "demo_delivery = completion_delivery demo_done
     (demo_flow_row\<lparr>f_status := F_RUNNING, f_updatedAt := 6, f_revision := 3\<rparr>) 4 (Some ''All tests pass.'') 9"

definition demo8 :: db where
  "demo8 = demo7\<lparr>agent_runs := [demo_run\<lparr>r_status := R_COMPLETED, r_startedAt := Some 7, r_endedAt := Some 9, r_updatedAt := 9\<rparr>],
     background_tasks := [demo_done],
     background_task_events := background_task_events demo7 @
       [demo_run_event 4 ''task.succeeded'' T_SUCCEEDED ''COMPLETED'' (JStr ''SUCCEEDED'') 9],
     task_completion_deliveries := [demo_delivery]\<rparr>"

lemmas demo_data = empty_db_def demo_conversation_def demo_run_def demo_classify_def demo_service_def
  demo_flow_def demo_start_def demo_run_update_def demo_task_def demo_child_def demo_running_def demo_done_def
  demo_event_def demo_run_event_def demo_flow_row_def demo_flow_event_def
  demo1_def demo2_def demo3_def demo4_def demo5_def demo6_def demo7_def

lemmas table_defs = getRun_def getConversation_def getAttempt_def getMessage_def tbl_get_def tbl_modify_def
  tbl_changes_def task_get_def task_getByRun_def flow_get_def getTaskLink_def Let_def

lemmas task_defs = createForRun_def new_task_row_def taskText_def truthy_def task_insert_def task_checks_def
  parent_exists_def task_appendEvent_def runtime_name_def notify_name_def task_status_name_def run_status_name_def
  classifyRun_def classify_patch_def keep_task_def task_update_def task_updated_row_def task_nextEventSequence_def
  next_sequence_def jopt_str_def outcome_json_def

lemmas flow_defs = flow_bounded_def optionalBounded_def assertJson_def js_trim_def js_white_def
  flow_authorize_def initial_status_def transaction_def flow_insert_def flow_checks_def opt_all_def
  blocked_exists_def store_json_def flow_appendEvent_def link_transaction_def link_guards_def flow_linkTask_def
  flow_update_def flow_updated_row_def flow_keep_def flow_nextEventSequence_def mutate_transaction_def
  base_mutation_def mutation_blocked_def mutation_patch_def or_default_def flow_status_name_def no_hook_def
  flow_terminal_def flow_allowed_def

lemma demo1_ok: "createConversation demo_conversation empty_db = Inr demo1"
  by (simp add: createConversation_def demo_data table_defs)

lemma demo2_ok: "insertRun demo_run demo1 = Inr demo2"
  by (simp add: insertRun_def demo_data table_defs task_defs)

lemma demo3_ok: "classifyRun demo_classify demo2 = Inr (demo3, demo_child)"
  by (simp add: demo_data table_defs task_defs)

lemma demo4_ok: "flow_create demo_service ''f1'' 4 demo_flow demo3 = (Inr demo_flow_row, demo4)"
  by (simp add: flow_create_def svc_bind_def demo_data table_defs task_defs flow_defs)

lemma demo5_ok: "link_transaction ''f1'' 1 ''task:r1'' (Some ''build'') 5 demo4 = Inr (demo5, ())"
  by (simp add: demo_data table_defs task_defs flow_defs)

lemma demo6_ok:
  "mutate_transaction no_hook ''f1'' demo_start 6 demo5 =
     Inr (demo6, demo_flow_row\<lparr>f_status := F_RUNNING, f_updatedAt := 6, f_revision := 3\<rparr>)"
  by (simp add: demo_data table_defs task_defs flow_defs)

lemmas sync_defs = updateRun_def updated_run_def run_sync_input_def coalesce_def syncRunLifecycle_def
  sync_patch_def sync_unchanged_def project_status_def project_completion_def project_progress_def
  project_summary_def project_error_def terminal_reason_def task_terminal_def

lemma lower_status: "js_lower ''RUNNING'' = ''running''" "js_lower ''SUCCEEDED'' = ''succeeded''"
  by code_simp+

lemma demo7_ok: "updateRun (demo_run_update R_RUNNING None 7 None) demo6 = Inr demo7"
  by (simp add: sync_defs lower_status demo_data table_defs task_defs)

lemma demo_normalized: "normalize_output (Some ''All tests pass.'') = ''All tests pass.''"
  by code_simp

lemma demo_deliverable: "\<not> isProgressOnly ''All tests pass.''"
  by code_simp

lemma demo_completion:
  "resolveRequiredTaskCompletion (Some ''All tests pass.'') = \<lparr>rc_terminalOutcome = O_SUCCEEDED,
     rc_terminalSummary = ''Completed with a final deliverable.'', rc_normalizedOutput = ''All tests pass.''\<rparr>"
  by (simp add: resolveRequiredTaskCompletion_def demo_normalized demo_deliverable)

definition demo_payload :: json where
  "demo_payload = JObj [(''taskId'', JStr ''task:r1''), (''runId'', JStr ''r1''), (''flowId'', JStr ''f1''),
     (''taskStatus'', JStr ''SUCCEEDED''), (''terminalOutcome'', JStr ''SUCCEEDED''),
     (''terminalSummary'', JStr ''Completed with a final deliverable.''), (''errorCode'', JNull),
     (''output'', JStr ''All tests pass.'')]"

lemma demo_payload_text: "\<exists>p. json_stringify demo_payload = Some p \<and> length p \<le> 262144"
proof -
  have "length (the (json_stringify demo_payload)) \<le> 400" by code_simp
  moreover obtain p where "json_stringify demo_payload = Some p" by (simp add: demo_payload_def)
  ultimately show ?thesis by simp
qed

lemma demo_trim: "js_trim ''All tests pass.'' = ''All tests pass.''"
  by code_simp

lemma demo_digit: "char_of (52 :: nat) = CHR ''4''"
  by code_simp

lemma demo_texts: "show_int 4 = ''4''" "boundedOutput (Some ''All tests pass.'') = ''All tests pass.''"
  by (simp_all add: show_int_def show_nat.simps boundedOutput_def demo_trim demo_digit)

lemma demo_delivery_simps:
  "d_deliveryId demo_delivery = ''delivery:task:r1:4''" "d_taskId demo_delivery = ''task:r1''"
  "d_flowId demo_delivery = Some ''f1''" "d_ownerConversationId demo_delivery = ''c1''"
  "d_taskEventSequence demo_delivery = 4" "d_systemMessageId demo_delivery = None" "d_wakeRunId demo_delivery = None"
  "d_payload demo_delivery = demo_payload"
  by (simp_all add: demo_delivery_def completion_delivery_def Let_def demo_texts demo_payload_def demo_data
      new_task_row_def task_status_name_def outcome_json_def jopt_str_def)

lemma demo_delivery_checks: "delivery_checks demo_delivery"
  using demo_payload_text
  by (auto simp: delivery_checks_def demo_delivery_simps)
    (simp_all add: demo_delivery_def completion_delivery_def Let_def demo_texts demo_data new_task_row_def)

lemma demo_delivery_insert:
  assumes "task_completion_deliveries s = []" "delivery_refs demo_delivery s"
  shows "delivery_insert demo_delivery s = Inr (s\<lparr>task_completion_deliveries := [demo_delivery]\<rparr>)"
proof -
  have "demo_delivery\<lparr>d_payload := json_clean demo_payload\<rparr> = demo_delivery"
    using demo_delivery_simps(8) by (simp add: demo_payload_def)
  with assms demo_delivery_checks show ?thesis
    by (simp add: delivery_insert_def demo_delivery_simps demo_payload_def)
qed

lemmas demo_delivery_fold =
  demo_delivery_def [unfolded demo_done_def demo_running_def demo_child_def demo_task_def demo_flow_row_def new_task_row_def, simplified, symmetric]

lemma demo8_ok:
  "updateRun (demo_run_update R_COMPLETED (Some 9) 9 (Some ''All tests pass.'')) demo7 = Inr demo8"
  by (simp add: sync_defs demo_completion lower_status demo_data demo8_def table_defs task_defs
      deliver_completion_def linked_flow_def demo_delivery_fold demo_delivery_insert delivery_refs_def demo_delivery_simps)

lemmas demo_steps = ledger_step.conversation [OF demo1_ok] ledger_step.run_insert [OF demo2_ok]
  ledger_step.task_classify [OF demo3_ok] ledger_step.flow_new [OF demo4_ok] ledger_step.flow_link [OF demo5_ok]
  ledger_step.flow_transition [OF demo6_ok] ledger_step.run_update [OF demo7_ok] ledger_step.run_update [OF demo8_ok]

lemma demo6_reachable: "ledger_reachable demo6"
  unfolding ledger_reachable_def
  by (rule rtranclp.rtrancl_into_rtrancl, rule rtranclp.rtrancl_into_rtrancl, rule rtranclp.rtrancl_into_rtrancl,
      rule rtranclp.rtrancl_into_rtrancl, rule rtranclp.rtrancl_into_rtrancl, rule r_into_rtranclp)
    (rule demo_steps)+

lemma demo7_reachable: "ledger_reachable demo7"
  using demo6_reachable demo_steps(7) unfolding ledger_reachable_def by (rule rtranclp.rtrancl_into_rtrancl)

lemma demo8_reachable: "ledger_reachable demo8"
  using demo7_reachable demo_steps(8) unfolding ledger_reachable_def by (rule rtranclp.rtrancl_into_rtrancl)

text \<open>The flow of the sixth state blocked on its child.\<close>

definition demo_block :: flow_mutation where
  "demo_block = (base_mutation \<lparr>fr_workspaceId = ''main'', fr_ownerKey = ''c1'', fr_flowId = ''f1'',
     fr_expectedRevision = 3, fr_currentStep = None, fr_state = JUndef\<rparr> F_BLOCKED ''taskFlow.blocked'')
       \<lparr>fm_blockedTaskId := Some (Some ''task:r1'')\<rparr>"

definition demo_blocked :: flow_row where
  "demo_blocked = demo_flow_row\<lparr>f_status := F_BLOCKED, f_blockedTaskId := Some ''task:r1'', f_updatedAt := 7, f_revision := 4\<rparr>"

definition demo9 :: db where
  "demo9 = demo6\<lparr>task_flows := [demo_blocked],
     task_flow_events := task_flow_events demo6 @ [demo_flow_event 4 ''taskFlow.blocked'' F_BLOCKED
       (JObj [(''from'', JStr ''RUNNING''), (''to'', JStr ''BLOCKED''), (''currentStep'', JNull),
          (''blockedTaskId'', JStr ''task:r1'')]) 7]\<rparr>"

lemma demo9_ok: "mutate_transaction no_hook ''f1'' demo_block 7 demo6 = Inr (demo9, demo_blocked)"
  by (simp add: demo_block_def demo_blocked_def demo9_def demo_data table_defs task_defs flow_defs listTaskLinks_def)

lemma demo9_reachable: "ledger_reachable demo9"
  using demo6_reachable ledger_step.flow_transition [OF demo9_ok] unfolding ledger_reachable_def
  by (rule rtranclp.rtrancl_into_rtrancl)

definition demo_maintenance :: flow_maintenance where
  "demo_maintenance = new_flow_maintenance \<lparr>fo_workspaceIds = [''main''], fo_staleRunningMs = Some 10,
     fo_staleWaitingMs = None, fo_staleBlockedMs = None, fo_cancelStuckMs = None, fo_emptyFlowMs = None,
     fo_flowRetentionMs = None, fo_lostRetentionMs = None, fo_cancelFlow = None,
     fo_localeCompare = (\<lambda>a b. if a = b then 0 else if a \<le> b then - 1 else 1)\<rparr>"

end
