(* ===== verification/Ledger_Properties.thy ===== *)
theory Ledger_Properties
  imports Scenario
begin

text \<open>
  What holds of the task and flow ledgers on every database that calls of the repositories and
  services can produce (\<open>ledger_reachable\<close>), each with an application to the states of \<open>Scenario\<close>.
\<close>

text \<open>C1. On every database the operations can produce, a task row is well-formed (end time, error
  code, summary and cleanup time fit the status), its events are numbered 1, 2, 3, ... without a
  gap and the newest one shows the status of the row.\<close>

theorem reachable_tasks_consistent:
  assumes "ledger_reachable s" and "t \<in> set (background_tasks s)"
  shows "task_row_ok t
    \<and> gap_free (seqs_of te_taskId te_sequence (t_taskId t) (background_task_events s))
    \<and> (\<exists>e. newest te_taskId (t_taskId t) (background_task_events s) = Some e \<and> te_status e = t_status t)"
  using reachable_world_ok [OF assms(1)] assms(2) tlog.status_okD [of s t]
  by (auto simp: world_ok_def ledger_ok_def tasks_inv_def rows_inv_def log_inv_def tlog.status_ok_def tlog.log_ok_def)

theorem reachable_tasks_consistent_witness:
  "ledger_reachable demo8 \<and> demo_done \<in> set (background_tasks demo8) \<and> task_row_ok demo_done"
  using demo8_reachable reachable_tasks_consistent [OF demo8_reachable, of demo_done] by (simp add: demo8_def)

text \<open>C2. A task that has ended stays as it ended: whatever operations follow, its status, end time,
  error code and summary do not change, and neither does what identifies it.\<close>

theorem terminal_task_absorbing:
  assumes "ledger_reachable s" and "ledger_step\<^sup>*\<^sup>* s s'"
    and "task_get k s = Some t" and "task_terminal (t_status t)"
  shows "\<exists>t'. task_get k s' = Some t' \<and> t_status t' = t_status t \<and> t_endedAt t' = t_endedAt t
    \<and> t_errorCode t' = t_errorCode t \<and> t_terminalSummary t' = t_terminalSummary t
    \<and> t_runId t' = t_runId t \<and> t_workspaceId t' = t_workspaceId t \<and> t_conversationId t' = t_conversationId t"
proof -
  from ledger_steps_world [OF assms(2)] reachable_world_ok [OF assms(1)]
  have "tasks_evolve s s'" by (simp add: world_step_def)
  then obtain t' where "task_get k s' = Some t'" "row_evolves t t'"
    using assms(3) unfolding tasks_evolve_def by blast
  with assms(4) show ?thesis by (auto simp: row_evolves_def)
qed

theorem terminal_task_absorbing_witness:
  "\<exists>t'. task_get ''task:r1'' demo8 = Some t' \<and> t_status t' = T_SUCCEEDED"
  using terminal_task_absorbing [OF demo8_reachable rtranclp.rtrancl_refl, of "''task:r1''" demo_done]
  by (simp add: demo8_def demo_data task_get_def tbl_get_def new_task_row_def)

text \<open>The revision is a sound version token: along any operations a task's revision never falls,
  and if it is the same the whole row is the same.\<close>

theorem task_revision_token:
  assumes "ledger_reachable s" and "ledger_step\<^sup>*\<^sup>* s s'"
    and "task_get k s = Some t" and "task_get k s' = Some t'"
  shows "t_revision t \<le> t_revision t' \<and> (t_revision t' = t_revision t \<longrightarrow> t' = t)"
proof -
  from ledger_steps_world [OF assms(2)] reachable_world_ok [OF assms(1)]
  have "tasks_evolve s s'" by (simp add: world_step_def)
  with assms(3,4) show ?thesis unfolding tasks_evolve_def row_evolves_def by (metis option.inject)
qed

theorem task_revision_token_witness:
  "t_revision demo_running \<le> t_revision demo_done"
proof -
  have "ledger_step\<^sup>*\<^sup>* demo7 demo8" using demo_steps(8) by (rule r_into_rtranclp)
  from task_revision_token [OF demo7_reachable this, of "''task:r1''" demo_running demo_done]
  show ?thesis by (simp add: demo8_def demo_data task_get_def tbl_get_def new_task_row_def)
qed

text \<open>Two writers that read the same revision of a task: once the first has committed, the second
  changes nothing and is told so.\<close>

theorem task_no_lost_update:
  assumes "distinct (map t_taskId (background_tasks s))"
    and "task_update u s = Inr (s1, Some r1)"
    and "tu_taskId v = tu_taskId u" and "tu_expectedRevision v = tu_expectedRevision u"
    and "task_update v s1 = Inr (s2, ro)"
  shows "ro = None \<and> s2 = s1"
  using assms by (rule trev.no_lost_update)

theorem task_no_lost_update_witness:
  "let s1 = demo7\<lparr>background_tasks := [demo_running\<lparr>t_updatedAt := 8, t_revision := 4\<rparr>]\<rparr> in
   task_update (keep_task demo_running 8) demo7 = Inr (s1, Some (demo_running\<lparr>t_updatedAt := 8, t_revision := 4\<rparr>))
   \<and> task_update (keep_task demo_running 9) s1 = Inr (s1, None)"
proof -
  let ?r = "demo_running\<lparr>t_updatedAt := 8, t_revision := 4\<rparr>" and ?v = "keep_task demo_running 9"
  let ?s1 = "demo7\<lparr>background_tasks := [?r]\<rparr>"
  have u: "task_update (keep_task demo_running 8) demo7 = Inr (?s1, Some ?r)"
    by (simp add: demo_data table_defs task_defs)
  obtain s2 ro where v: "task_update ?v ?s1 = Inr (s2, ro)" by (simp add: demo_data table_defs task_defs)
  have "distinct (map t_taskId (background_tasks demo7))" by (simp add: demo_data)
  from task_no_lost_update [OF this u _ _ v] u v show ?thesis by simp
qed

text \<open>C5. Exactly-once completion: when a sync ends an active task that is not silent, the same
  transaction records exactly one delivery, pending, for that task and its final status; a second
  sync of the same run, whatever it reports, changes nothing. No task ever has two deliveries.\<close>

theorem completion_delivered_once:
  assumes "ledger_reachable s" and "syncRunLifecycle i s = Inr (s1, v)"
    and "task_getByRun (si_runId i) s = Some c" and "\<not> task_terminal (t_status c)"
    and "t_notifyPolicy c \<noteq> SILENT" and "task_terminal (t_status v)"
    and "si_runId j = si_runId i"
  shows "(\<exists>d. task_completion_deliveries s1 = task_completion_deliveries s @ [d]
      \<and> d_taskId d = t_taskId c \<and> d_taskStatus d = t_status v \<and> d_deliveryStatus d = D_PENDING)
    \<and> syncRunLifecycle j s1 = Inr (s1, v)
    \<and> distinct (map d_taskId (task_completion_deliveries s1))"
proof -
  have inv: "tasks_inv s" using reachable_world_ok [OF assms(1)] by (simp add: world_ok_def ledger_ok_def)
  then have ids: "task_ids_ok s" by (simp add: tasks_inv_def rows_inv_def)
  have "task_getByRun (si_runId j) s1 = Some v" using syncRunLifecycle_getByRun [OF inv assms(2)] assms(7) by simp
  then have "syncRunLifecycle j s1 = Inr (s1, v)" using assms(6) by (simp add: syncRunLifecycle_def)
  moreover have "distinct (map d_taskId (task_completion_deliveries s1))"
    using syncRunLifecycle_inv [OF inv assms(2)] by (simp add: tasks_inv_def rows_inv_def deliveries_ok_def)
  ultimately show ?thesis using syncRunLifecycle_delivers [OF ids assms(2-6)] by simp
qed

theorem completion_delivered_once_witness:
  "\<exists>s1 v. syncRunLifecycle (run_sync_input (demo_run_update R_COMPLETED (Some 9) 9 (Some ''All tests pass.''))) demo7 = Inr (s1, v)
     \<and> length (task_completion_deliveries s1) = 1
     \<and> syncRunLifecycle (run_sync_input (demo_run_update R_FAILED (Some 10) 10 None)) s1 = Inr (s1, v)"
proof -
  let ?i = "run_sync_input (demo_run_update R_COMPLETED (Some 9) 9 (Some ''All tests pass.''))"
  let ?j = "run_sync_input (demo_run_update R_FAILED (Some 10) 10 None)"
  let ?s1 = "demo8\<lparr>agent_runs := agent_runs demo7\<rparr>"
  have y: "syncRunLifecycle ?i demo7 = Inr (?s1, demo_done)"
    by (simp add: sync_defs demo_completion lower_status demo_data demo8_def table_defs task_defs
      deliver_completion_def linked_flow_def demo_delivery_fold demo_delivery_insert delivery_refs_def demo_delivery_simps)
  have c: "task_getByRun (si_runId ?i) demo7 = Some demo_running"
    by (simp add: run_sync_input_def demo_data table_defs new_task_row_def)
  have r: "si_runId ?j = si_runId ?i" by (simp add: run_sync_input_def demo_run_update_def)
  have "\<not> task_terminal (t_status demo_running)" "t_notifyPolicy demo_running \<noteq> SILENT" "task_terminal (t_status demo_done)"
    by (simp_all add: demo_data new_task_row_def)
  from completion_delivered_once [OF demo7_reachable y c this r] y show ?thesis
    by (auto simp: demo7_def demo6_def demo5_def demo4_def demo3_def demo2_def demo1_def empty_db_def)
qed

text \<open>C6. After any operations, the next one writes a flow at most once: it stays as it is, or its revision is the next one and its
  status stays or is one that the transition table \<open>ALLOWED\<close> lists after the status it had. A flow that has ended keeps its status and
  its end time along all operations, and no revision is used twice.\<close>

theorem flow_lifecycle:
  assumes "ledger_reachable s" and "ledger_step\<^sup>*\<^sup>* s s'" and "ledger_step s' s''" and "flow_get k s = Some f"
  shows "\<exists>f' f''. flow_get k s' = Some f' \<and> flow_get k s'' = Some f''
    \<and> (f'' = f' \<or> f_revision f'' = f_revision f' + 1 \<and> (f_status f'' = f_status f' \<or> f_status f'' \<in> flow_allowed (f_status f')))
    \<and> (flow_terminal (f_status f) \<longrightarrow> f_status f'' = f_status f \<and> f_endedAt f'' = f_endedAt f)
    \<and> f_revision f \<le> f_revision f'' \<and> (f_revision f'' = f_revision f \<longrightarrow> f'' = f)"
proof -
  from reachable_flows_evolve [OF assms(1,2,4)] obtain f' where f': "flow_get k s' = Some f'" by blast
  have "ledger_step\<^sup>*\<^sup>* s s''" using assms(2,3) by (rule rtranclp.rtrancl_into_rtrancl)
  from reachable_flows_evolve [OF assms(1) this assms(4)] obtain f'' where f'': "flow_get k s'' = Some f''" "flow_evolves f f''" by blast
  have "world_ok s'" using ledger_steps_world [OF assms(2)] reachable_world_ok [OF assms(1)] by (simp add: world_step_def)
  with ledger_step_moves [OF assms(3)] have "flows_move s' s''" by blast
  with f' f''(1) have "flow_moves f' f''" unfolding flows_move_def by (metis option.inject)
  with f' f'' show ?thesis by (auto simp: flow_evolves_def flow_moves_def)
qed

theorem flow_lifecycle_witness:
  "\<exists>f''. flow_get ''f1'' demo9 = Some f'' \<and> f_revision f'' = 4 \<and> f_status f'' = F_BLOCKED \<and> F_BLOCKED \<in> flow_allowed F_RUNNING"
proof -
  obtain f where g: "flow_get ''f1'' demo6 = Some f" and f: "f_revision f = 3" "f_status f = F_RUNNING"
    by (simp add: demo6_def flow_get_def tbl_get_def demo_flow_row_def)
  have b: "flow_get ''f1'' demo9 = Some demo_blocked" by (simp add: demo9_def flow_get_def tbl_get_def demo_blocked_def demo_flow_row_def)
  have v: "f_revision demo_blocked = 4" "f_status demo_blocked = F_BLOCKED" by (simp_all add: demo_blocked_def)
  from flow_lifecycle [OF demo6_reachable rtranclp.rtrancl_refl ledger_step.flow_transition [OF demo9_ok] g]
  show ?thesis using g b f v by auto
qed

text \<open>C7. A blocked flow always names a task that is linked to it, that exists, and that belongs to the
  flow's workspace and owner conversation; a flow that is not blocked names none.\<close>

theorem blocked_flow_names_child:
  assumes "ledger_reachable s" and "f \<in> set (task_flows s)"
  shows "case f_blockedTaskId f of
      None \<Rightarrow> f_status f \<noteq> F_BLOCKED
    | Some b \<Rightarrow> f_status f = F_BLOCKED
        \<and> (\<exists>l \<in> set (task_flow_tasks s). l_flowId l = f_flowId f \<and> l_taskId l = b)
        \<and> (\<exists>t. task_get b s = Some t \<and> t_workspaceId t = f_workspaceId f \<and> t_conversationId t = f_ownerKey f)"
proof -
  have inv: "flows_inv s" using reachable_world_ok [OF assms(1)] by (simp add: world_ok_def)
  then have f: "flow_row_ok f" "blocked_linked f s" "flow_get (f_flowId f) s = Some f"
    using assms(2) tbl_get_distinct [of f_flowId "task_flows s" f] by (simp_all add: flows_inv_def flow_get_def)
  show ?thesis
  proof (cases "f_blockedTaskId f")
    case None
    with f show ?thesis by (auto simp: flow_row_ok_def)
  next
    case (Some b)
    with f(2) obtain l where l: "l \<in> set (task_flow_tasks s)" "l_flowId l = f_flowId f" "l_taskId l = b"
      by (auto simp: blocked_linked_def opt_all_def)
    with inv have "link_ok l s" by (simp add: flows_inv_def)
    with l f(3) have "\<exists>t. task_get b s = Some t \<and> t_workspaceId t = f_workspaceId f \<and> t_conversationId t = f_ownerKey f"
      by (auto simp: link_ok_def)
    moreover have "f_status f = F_BLOCKED" using f(1) Some by (simp add: flow_row_ok_def)
    ultimately show ?thesis using Some l by auto
  qed
qed

theorem blocked_flow_names_child_witness:
  "\<exists>l \<in> set (task_flow_tasks demo9). l_flowId l = ''f1'' \<and> l_taskId l = ''task:r1''"
proof -
  have "demo_blocked \<in> set (task_flows demo9)" by (simp add: demo9_def)
  from blocked_flow_names_child [OF demo9_reachable this] show ?thesis
    by (simp add: demo_blocked_def demo_flow_row_def)
qed

text \<open>The audit of flows can only ever find work that is late: on a reachable database it reports no
  flow with a scope mismatch, a missing blocking task or inconsistent timestamps.\<close>

theorem flow_audit_finds_no_corruption:
  assumes "ledger_reachable s" and "flow_audit m now w ow l s = (Inr r, s')" and "x \<in> set (fa_findings r)"
  shows "ff_code x \<notin> {FLOW_OWNER_SCOPE_MISMATCH, FLOW_BLOCKED_TASK_MISSING, FLOW_INCONSISTENT_TIMESTAMPS}"
proof -
  have inv: "flows_inv s" using reachable_world_ok [OF assms(1)] by (simp add: world_ok_def)
  from assms(2,3) obtain w' ow' n sn where sn: "sn \<in> set (flowm_snapshot w' ow' n s)" "x \<in> set (audit_flow m now sn)"
    by (auto simp: flow_audit_def svc_bind_Inr Let_def set_flat_map split: sum.splits)
  note ok = flow_snapshot_ok [OF inv sn(1)]
  have "flow_row_ok (fn_flow sn)" using inv ok(1) by (simp add: flows_inv_def)
  from audit_flow_clean [OF ok(2,3,4) this sn(2)] show ?thesis .
qed

theorem flow_audit_finds_no_corruption_witness:
  "\<exists>r x. flow_audit demo_maintenance 100 ''main'' None None demo8 = (Inr r, demo8) \<and> x \<in> set (fa_findings r)
     \<and> ff_code x \<notin> {FLOW_OWNER_SCOPE_MISMATCH, FLOW_BLOCKED_TASK_MISSING, FLOW_INCONSISTENT_TIMESTAMPS}"
proof -
  have c: "\<exists>r x. flow_audit demo_maintenance 100 ''main'' None None demo8 = (Inr r, demo8) \<and> x \<in> set (fa_findings r)"
    by (simp add: flow_audit_def demo_maintenance_def new_flow_maintenance_def or_default_def flowm_authorize_def
      workspace_name_def lower_letter_def flow_boundedOwner_def flowm_limit_def flowm_snapshot_def flow_listAll_def
      owner_matches_def truthy_def demo8_def demo_data Let_def audit_flow_def ex_disj_distrib)
  with flow_audit_finds_no_corruption [OF demo8_reachable] show ?thesis by metis
qed
end
