(* ===== verification/Calendar.thy ===== *)
theory Calendar
  imports Prelude
begin

text \<open>
  The arithmetic of \<open>Date\<close> on UTC that the schedules use: \<open>Date.UTC\<close>, the \<open>getUTC...\<close> methods and
  \<open>toISOString\<close>. Time values are integers, in milliseconds since 1970; the calendar is the proleptic
  Gregorian one, with the day numbers as the language defines them (\<open>DayFromYear\<close>, \<open>YearFromTime\<close>,
  \<open>MakeDay\<close>). Months count from 0.

  The two directions are inverse to each other: \<open>utc_date_make_day\<close> and \<open>make_day_utc_date\<close>.
\<close>

section \<open>Days\<close>

definition leap :: "int \<Rightarrow> bool" where
  "leap y \<longleftrightarrow> y mod 4 = 0 \<and> (y mod 100 \<noteq> 0 \<or> y mod 400 = 0)"

definition day_from_year :: "int \<Rightarrow> int" where
  "day_from_year y = 365 * (y - 1970) + (y - 1969) div 4 - (y - 1901) div 100 + (y - 1601) div 400"

definition month_lengths :: "int \<Rightarrow> int list" where
  "month_lengths y = [31, if leap y then 29 else 28, 31, 30, 31, 30, 31, 31, 30, 31, 30, 31]"

definition make_day :: "int \<Rightarrow> nat \<Rightarrow> int \<Rightarrow> int" where
  "make_day y m d = day_from_year y + sum_list (take m (month_lengths y)) + d - 1"

text \<open>The year of a day: the last one that has begun, found from above.\<close>

function year_down :: "int \<Rightarrow> int \<Rightarrow> int" where
  "year_down d y = (if day_from_year y \<le> d then y else year_down d (y - 1))"
  by pat_completeness auto

lemma div_Suc:
  fixes x b :: int
  assumes "0 < b"
  shows "(x + 1) div b - x div b = (if (x + 1) mod b = 0 then 1 else 0)"
proof -
  define q r where "q = x div b" and "r = x mod b"
  have x: "x = b * q + r" "0 \<le> r" "r < b" using assms by (simp_all add: q_def r_def)
  show ?thesis
  proof (cases "r + 1 = b")
    case True
    with x have "x + 1 = b * (q + 1)" by (simp add: algebra_simps)
    then show ?thesis using assms by (simp add: q_def)
  next
    case False
    with x have "0 \<le> r + 1" "r + 1 < b" by auto
    then have "(x + 1) div b = q" "(x + 1) mod b = r + 1"
      using x(1) by (auto intro: int_div_pos_eq int_mod_pos_eq)
    then show ?thesis using x(2) by (simp add: q_def)
  qed
qed

lemma leap_div:
  "(y - 1968) div 4 - (y - 1969) div 4 = (if y mod 4 = 0 then 1 else (0::int))"
  "(y - 1900) div 100 - (y - 1901) div 100 = (if y mod 100 = 0 then 1 else (0::int))"
  "(y - 1600) div 400 - (y - 1601) div 400 = (if y mod 400 = 0 then 1 else (0::int))"
proof -
  have m: "(y - 1968) mod 4 = y mod 4" "(y - 1900) mod 100 = y mod 100" "(y - 1600) mod 400 = y mod 400"
    using mod_mult_self2 [of y 4 "- 492"] mod_mult_self2 [of y 100 "- 19"] mod_mult_self2 [of y 400 "- 4"] by simp_all
  show "(y - 1968) div 4 - (y - 1969) div 4 = (if y mod 4 = 0 then 1 else (0::int))"
    using div_Suc [of 4 "y - 1969"] by (simp add: m)
  show "(y - 1900) div 100 - (y - 1901) div 100 = (if y mod 100 = 0 then 1 else (0::int))"
    using div_Suc [of 100 "y - 1901"] by (simp add: m)
  show "(y - 1600) div 400 - (y - 1601) div 400 = (if y mod 400 = 0 then 1 else (0::int))"
    using div_Suc [of 400 "y - 1601"] by (simp add: m)
qed

lemma day_from_year_Suc: "day_from_year (y + 1) = day_from_year y + (if leap y then 366 else 365)"
proof -
  have e: "y mod 400 = 0 \<Longrightarrow> y mod 100 = 0" "y mod 100 = 0 \<Longrightarrow> y mod 4 = 0"
    using mod_mod_cancel [of 100 400 y] mod_mod_cancel [of 4 100 y] by auto
  have n: "y + 1 - 1969 = y - 1968" "y + 1 - 1901 = y - 1900" "y + 1 - 1601 = y - 1600" by simp_all
  have add: "365 * (y + 1 - 1970) + a' - b' + c' = 365 * (y - 1970) + a - b + c + 365 + (a' - a) - (b' - b) + (c' - c)"
    for a a' b b' c c' :: int by simp
  have "day_from_year (y + 1) = day_from_year y + 365
      + ((y - 1968) div 4 - (y - 1969) div 4) - ((y - 1900) div 100 - (y - 1901) div 100)
      + ((y - 1600) div 400 - (y - 1601) div 400)"
    unfolding day_from_year_def n by (rule add)
  moreover have "k + 365 + (if a then 1 else 0) - (if b then 1 else 0) + (if c then 1 else 0)
      = k + (if a \<and> (\<not> b \<or> c) then 366 else 365)" if "c \<Longrightarrow> b" "b \<Longrightarrow> a" for a b c and k :: int
    using that by auto
  ultimately show ?thesis unfolding leap_div leap_def using e by presburger
qed

lemma day_from_year_less: "day_from_year (y - 1) < day_from_year y"
  using day_from_year_Suc [of "y - 1"] by (simp split: if_splits)

termination year_down
  by (relation "measure (\<lambda>(d, y). nat (day_from_year y - d))") (use day_from_year_less in auto)

declare year_down.simps [simp del]

definition year_from_day :: "int \<Rightarrow> int" where
  "year_from_day d = year_down d (1971 + (if d < 0 then d div 366 else d div 365))"

text \<open>The month and the day of the month of the \<open>d\<close>-th day of a year.\<close>

fun month_walk :: "int list \<Rightarrow> int \<Rightarrow> nat \<times> int" where
  "month_walk [] d = (0, d + 1)"
| "month_walk (l # ls) d =
     (if d < l then (0, d + 1) else (case month_walk ls (d - l) of (m, r) \<Rightarrow> (Suc m, r)))"

definition utc_date :: "int \<Rightarrow> int \<times> nat \<times> int" where
  "utc_date d = (let y = year_from_day d in (y, month_walk (month_lengths y) (d - day_from_year y)))"

subsection \<open>Years\<close>

lemma day_from_year_steps: "day_from_year y + 365 * int n \<le> day_from_year (y + int n)"
proof (induction n)
  case 0
  then show ?case by simp
next
  case (Suc n)
  have "y + int (Suc n) = (y + int n) + 1" by simp
  then have "day_from_year (y + int (Suc n)) \<ge> day_from_year (y + int n) + 365" by (simp only: day_from_year_Suc) simp
  with Suc show ?case by simp
qed

lemma day_from_year_mono: "x \<le> y \<Longrightarrow> day_from_year x \<le> day_from_year y"
  using day_from_year_steps [of x "nat (y - x)"] by simp

lemma year_down_bracket:
  "d < day_from_year (y + 1) \<Longrightarrow> day_from_year (year_down d y) \<le> d \<and> d < day_from_year (year_down d y + 1)"
proof (induction d y rule: year_down.induct)
  case (1 d y)
  then show ?case by (cases "day_from_year y \<le> d") (simp_all add: year_down.simps)
qed

lemma year_start: "d < day_from_year (1972 + (if d < 0 then d div 366 else d div 365))"
proof (cases "d < 0")
  case True
  have up: "day_from_year 1970 - 366 * int n \<le> day_from_year (1970 - int n)" for n
  proof (induction n)
    case 0
    then show ?case by simp
  next
    case (Suc n)
    have "1970 - int n = (1970 - int (Suc n)) + 1" by simp
    then have "day_from_year (1970 - int n) \<le> day_from_year (1970 - int (Suc n)) + 366" by (simp only: day_from_year_Suc) simp
    with Suc show ?case by simp
  qed
  define q where "q = d div 366"
  have q: "366 * q \<le> d" "d < 366 * q + 366" "q < 0"
    using True mult_div_mod_eq [of 366 d] pos_mod_bound [of 366 d] pos_mod_sign [of 366 d]
    by (simp_all add: q_def neg_imp_zdiv_neg_iff)
  have "day_from_year 1970 = 0" "day_from_year 1971 = 365" by (simp_all add: day_from_year_def)
  moreover have "day_from_year 1970 - 366 * (- q - 2) \<le> day_from_year (1972 + q)" if "q \<noteq> - 1"
    using up [of "nat (- q - 2)"] that q(3) by (simp add: algebra_simps)
  ultimately show ?thesis using True q by (cases "q = - 1") (auto simp: q_def [symmetric])
next
  case False
  define q where "q = d div 365"
  have q: "0 \<le> q" "d < 365 * q + 365"
    using False mult_div_mod_eq [of 365 d] pos_mod_bound [of 365 d] by (simp_all add: q_def pos_imp_zdiv_nonneg_iff)
  have "day_from_year 1970 + 365 * (q + 2) \<le> day_from_year (1972 + q)"
    using day_from_year_steps [of 1970 "nat (q + 2)"] q(1) by (simp add: algebra_simps)
  moreover have "day_from_year 1970 = 0" by (simp add: day_from_year_def)
  ultimately show ?thesis using False q by (simp add: q_def [symmetric])
qed

lemma year_from_day_bracket:
  "day_from_year (year_from_day d) \<le> d" "d < day_from_year (year_from_day d + 1)"
  using year_down_bracket [of d "1971 + (if d < 0 then d div 366 else d div 365)"] year_start [of d]
  by (simp_all add: year_from_day_def algebra_simps split: if_splits)

lemma year_from_day_unique:
  assumes "day_from_year y \<le> d" and "d < day_from_year (y + 1)"
  shows "year_from_day d = y"
proof -
  note b = year_from_day_bracket [of d]
  have "\<not> y + 1 \<le> year_from_day d" using day_from_year_mono [of "y + 1"] assms b by force
  moreover have "\<not> year_from_day d + 1 \<le> y" using day_from_year_mono [of "year_from_day d + 1"] assms b by force
  ultimately show ?thesis by simp
qed

subsection \<open>Months\<close>

lemma month_lengths_pos: "\<forall>l \<in> set (month_lengths y). 0 < l" "length (month_lengths y) = 12"
  by (simp_all add: month_lengths_def)

lemma month_lengths_sum: "sum_list (month_lengths y) = (if leap y then 366 else 365)"
  by (simp add: month_lengths_def)

lemma month_walk_sum:
  assumes "m < length ls" and "1 \<le> d" and "d \<le> ls ! m" and "\<forall>l \<in> set ls. 0 < l"
  shows "month_walk ls (sum_list (take m ls) + d - 1) = (m, d)"
  using assms
proof (induction ls arbitrary: m)
  case Nil
  then show ?case by simp
next
  case (Cons l ls)
  show ?case
  proof (cases m)
    case 0
    with Cons.prems show ?thesis by simp
  next
    case (Suc n)
    have pos: "0 \<le> sum_list (take n ls)"
      using Cons.prems(4) by (intro sum_list_nonneg) (auto dest!: in_set_takeD)
    have "month_walk ls (sum_list (take n ls) + d - 1) = (n, d)" using Cons Suc by simp
    then show ?thesis using Suc pos Cons.prems(2) by (simp add: algebra_simps)
  qed
qed

lemma month_walk_inverse:
  assumes "0 \<le> d" and "d < sum_list ls" and "month_walk ls d = (m, r)"
  shows "m < length ls \<and> 1 \<le> r \<and> r \<le> ls ! m \<and> sum_list (take m ls) + r - 1 = d"
  using assms
proof (induction ls arbitrary: d m)
  case Nil
  then show ?case by simp
next
  case (Cons l ls)
  show ?case
  proof (cases "d < l")
    case True
    with Cons.prems show ?thesis by auto
  next
    case False
    with Cons.prems(3) obtain n where n: "m = Suc n" "month_walk ls (d - l) = (n, r)"
      by (auto split: prod.splits)
    from Cons.IH [OF _ _ n(2)] False Cons.prems(2) show ?thesis using n(1) by simp
  qed
qed

definition valid_date :: "int \<Rightarrow> nat \<Rightarrow> int \<Rightarrow> bool" where
  "valid_date y m d \<longleftrightarrow> m < 12 \<and> 1 \<le> d \<and> d \<le> month_lengths y ! m"

lemma month_offset:
  assumes "valid_date y m d"
  shows "0 \<le> sum_list (take m (month_lengths y)) + d - 1"
    and "sum_list (take m (month_lengths y)) + d - 1 < (if leap y then 366 else 365)"
proof -
  let ?ls = "month_lengths y"
  have pos: "0 \<le> sum_list (take m ?ls)" "0 \<le> sum_list (drop (Suc m) ?ls)"
    using month_lengths_pos(1) [of y] by (intro sum_list_nonneg; force dest!: in_set_takeD in_set_dropD)+
  have "?ls = take m ?ls @ ?ls ! m # drop (Suc m) ?ls"
    using assms month_lengths_pos(2) by (simp add: valid_date_def id_take_nth_drop)
  then have "sum_list ?ls = sum_list (take m ?ls) + ?ls ! m + sum_list (drop (Suc m) ?ls)"
    by (metis add.assoc sum_list.Cons sum_list.append)
  then show "sum_list (take m ?ls) + d - 1 < (if leap y then 366 else 365)"
    using assms pos(2) unfolding month_lengths_sum valid_date_def by (simp split: if_splits)
  show "0 \<le> sum_list (take m ?ls) + d - 1" using assms pos(1) by (simp add: valid_date_def)
qed

lemma utc_date_make_day: "valid_date y m d \<Longrightarrow> utc_date (make_day y m d) = (y, m, d)"
proof -
  assume v: "valid_date y m d"
  let ?o = "sum_list (take m (month_lengths y)) + d - 1"
  have y: "year_from_day (make_day y m d) = y"
    using month_offset [OF v] day_from_year_Suc [of y]
    by (intro year_from_day_unique) (auto simp: make_day_def)
  have "month_walk (month_lengths y) ?o = (m, d)"
    using v month_lengths_pos [of y] by (intro month_walk_sum) (auto simp: valid_date_def)
  then show ?thesis using y by (simp add: utc_date_def make_day_def Let_def algebra_simps)
qed

lemma utc_date_valid:
  assumes "utc_date n = (y, m, d)"
  shows "valid_date y m d" and "make_day y m d = n"
proof -
  note b = year_from_day_bracket [of n]
  have y: "year_from_day n = y" and w: "month_walk (month_lengths y) (n - day_from_year y) = (m, d)"
    using assms by (auto simp: utc_date_def Let_def)
  have "0 \<le> n - day_from_year y" "n - day_from_year y < sum_list (month_lengths y)"
    using b y day_from_year_Suc [of y] unfolding month_lengths_sum by (auto split: if_splits)
  from month_walk_inverse [OF this w] show "valid_date y m d" "make_day y m d = n"
    using month_lengths_pos(2) [of y] by (auto simp: valid_date_def make_day_def)
qed

section \<open>Time values\<close>

text \<open>\<open>Date.UTC(year, month, ...)\<close>: the years 0 to 99 stand for 1900 to 1999.\<close>

definition date_utc :: "int \<Rightarrow> nat \<Rightarrow> int \<Rightarrow> int \<Rightarrow> int \<Rightarrow> int \<Rightarrow> int \<Rightarrow> int" where
  "date_utc y m d h mi sec ms =
     make_day (if 0 \<le> y \<and> y \<le> 99 then 1900 + y else y) m d * 86400000 + h * 3600000 + mi * 60000 + sec * 1000 + ms"

definition utc_hours :: "int \<Rightarrow> int" where "utc_hours t = t div 3600000 mod 24"
definition utc_minutes :: "int \<Rightarrow> int" where "utc_minutes t = t div 60000 mod 60"
definition utc_seconds :: "int \<Rightarrow> int" where "utc_seconds t = t div 1000 mod 60"
definition utc_millis :: "int \<Rightarrow> int" where "utc_millis t = t mod 1000"

lemma utc_time_split:
  "t = t div 86400000 * 86400000 + utc_hours t * 3600000 + utc_minutes t * 60000 + utc_seconds t * 1000 + utc_millis t"
proof -
  have "t div 60000 = t div 1000 div 60" "t div 3600000 = t div 60000 div 60" "t div 86400000 = t div 3600000 div 24"
    by (simp_all add: zdiv_zmult2_eq [symmetric])
  then show ?thesis
    unfolding utc_hours_def utc_minutes_def utc_seconds_def utc_millis_def
    using mult_div_mod_eq [of 1000 t] mult_div_mod_eq [of 60 "t div 1000"] mult_div_mod_eq [of 60 "t div 60000"]
      mult_div_mod_eq [of 24 "t div 3600000"] by linarith
qed

lemma mixed_radix:
  fixes n b r :: int
  assumes "0 \<le> r" and "r < b"
  shows "(n * b + r) div b = n" and "(n * b + r) mod b = r"
  using assms by simp_all

lemma utc_time_bounds:
  "0 \<le> utc_hours t" "utc_hours t < 24" "0 \<le> utc_minutes t" "utc_minutes t < 60"
  "0 \<le> utc_seconds t" "utc_seconds t < 60" "0 \<le> utc_millis t" "utc_millis t < 1000"
  by (simp_all add: utc_hours_def utc_minutes_def utc_seconds_def utc_millis_def)

lemma utc_time_join:
  fixes n h mi sec ms :: int
  assumes "0 \<le> h" "h < 24" "0 \<le> mi" "mi < 60" "0 \<le> sec" "sec < 60" "0 \<le> ms" "ms < 1000"
    and "t = n * 86400000 + h * 3600000 + mi * 60000 + sec * 1000 + ms"
  shows "t div 86400000 = n" "utc_hours t = h" "utc_minutes t = mi" "utc_seconds t = sec" "utc_millis t = ms"
proof -
  have t: "t = (((n * 24 + h) * 60 + mi) * 60 + sec) * 1000 + ms" using assms(9) by simp
  have e: "t div 60000 = t div 1000 div 60" "t div 3600000 = t div 60000 div 60" "t div 86400000 = t div 3600000 div 24"
    by (simp_all add: zdiv_zmult2_eq [symmetric])
  have s: "t div 1000 = ((n * 24 + h) * 60 + mi) * 60 + sec" "t mod 1000 = ms"
    unfolding t by (rule mixed_radix [OF assms(7,8)])+
  have m: "t div 60000 = (n * 24 + h) * 60 + mi" "t div 1000 mod 60 = sec"
    unfolding e(1) s by (rule mixed_radix [OF assms(5,6)])+
  have h: "t div 3600000 = n * 24 + h" "t div 60000 mod 60 = mi"
    unfolding e(2) m by (rule mixed_radix [OF assms(3,4)])+
  show "t div 86400000 = n" "utc_hours t = h"
    unfolding e(3) utc_hours_def h by (rule mixed_radix [OF assms(1,2)])+
  show "utc_minutes t = mi" "utc_seconds t = sec" "utc_millis t = ms"
    using h m s by (simp_all add: utc_minutes_def utc_seconds_def utc_millis_def)
qed

section \<open>Decimal fields\<close>

text \<open>The last \<open>w\<close> decimal digits of a number, with leading zeros.\<close>

fun pad_digits :: "nat \<Rightarrow> nat \<Rightarrow> string" where
  "pad_digits 0 n = []"
| "pad_digits (Suc w) n = pad_digits w (n div 10) @ [char_of (48 + n mod 10)]"

lemma pad_digits_length [simp]: "length (pad_digits w n) = w"
  by (induction w arbitrary: n) auto

lemma digit_char: "k < 10 \<Longrightarrow> js_digit (char_of (48 + k))" "k < 10 \<Longrightarrow> digit_value (char_of (48 + k)) = k"
  by (simp_all add: js_digit_def digit_value_def)

lemma pad_digits_digits [simp]: "list_all js_digit (pad_digits w n)"
  by (induction w arbitrary: n) (auto simp: digit_char)

lemma digits_value_snoc: "digits_value (s @ [c]) = 10 * digits_value s + digit_value c"
  by (simp add: digits_value_def)

lemma pad_digits_value: "n < 10 ^ w \<Longrightarrow> digits_value (pad_digits w n) = n"
proof (induction w arbitrary: n)
  case 0
  then show ?case by (simp add: digits_value_def)
next
  case (Suc w)
  then have "digits_value (pad_digits w (n div 10)) = n div 10" by (auto simp: less_mult_imp_div_less mult.commute)
  then show ?case by (simp add: digits_value_snoc digit_char)
qed

text \<open>\<open>toISOString\<close>.\<close>

definition to_iso_string :: "int \<Rightarrow> string" where
  "to_iso_string t =
     (case utc_date (t div 86400000) of (y, m, d) \<Rightarrow>
        (if 0 \<le> y \<and> y \<le> 9999 then pad_digits 4 (nat y)
         else (if y < 0 then CHR ''-'' else CHR ''+'') # pad_digits 6 (nat \<bar>y\<bar>))
        @ CHR ''-'' # pad_digits 2 (m + 1) @ CHR ''-'' # pad_digits 2 (nat d)
        @ CHR ''T'' # pad_digits 2 (nat (utc_hours t)) @ CHR '':'' # pad_digits 2 (nat (utc_minutes t))
        @ CHR '':'' # pad_digits 2 (nat (utc_seconds t)) @ CHR ''.'' # pad_digits 3 (nat (utc_millis t)) @ ''Z'')"

end
