(* ===== verification/Cron_Schedule.thy ===== *)
theory Cron_Schedule
  imports Calendar State_Db
begin

text \<open>
  \<open>packages/automation/src/schedule.ts\<close>: timestamps, cron expressions, their caches and the next
  occurrence of a schedule.

  Time zones are data of the JavaScript engine. A formatter is a parameter: \<open>intl_resolve\<close> gives the
  canonical name of a zone (\<open>None\<close> where the constructor of \<open>Intl.DateTimeFormat\<close> throws) and
  \<open>intl_parts\<close> the fields \<open>formatToParts\<close> returns for a time value, as pairs of type and text.
  Numbers of the schedules are integers, so \<open>Number.isSafeInteger\<close> is a bound.

  The caches hold what the parser would compute: \<open>parseCronExpression\<close> works on a cache, and
  \<open>parse_cron\<close> is the parser without it, which the other functions use.
\<close>

section \<open>Timestamps\<close>

definition invalid_schedule :: err where
  "invalid_schedule = Automation_Error AUTOMATION_INVALID_SCHEDULE"

definition max_safe_integer :: int where
  "max_safe_integer = 9007199254740991"

definition safe_integer :: "int \<Rightarrow> bool" where
  "safe_integer n \<longleftrightarrow> - max_safe_integer \<le> n \<and> n \<le> max_safe_integer"

definition finiteInteger :: "int \<Rightarrow> int \<Rightarrow> int \<Rightarrow> err + int" where
  "finiteInteger value lo hi =
     res_bind (require (safe_integer value \<and> lo \<le> value \<and> value \<le> hi)
       (Automation_Error AUTOMATION_INVALID_ARGUMENT)) (\<lambda>_. Inr value)"

text \<open>The pieces of the pattern of \<open>parseAbsoluteTimestamp\<close>: exactly \<open>n\<close> digits, one character, the
  optional seconds with their optional fraction, and the zone, which must end the text.\<close>

definition rx_digits :: "nat \<Rightarrow> string \<Rightarrow> (string \<times> string) option" where
  "rx_digits n s = (if n \<le> length s \<and> list_all js_digit (take n s) then Some (take n s, drop n s) else None)"

definition rx_char :: "char \<Rightarrow> string \<Rightarrow> string option" where
  "rx_char c s = (case s of [] \<Rightarrow> None | x # xs \<Rightarrow> if x = c then Some xs else None)"

definition rx_fraction :: "string \<Rightarrow> string option \<times> string" where
  "rx_fraction s = (case rx_char CHR ''.'' s of
     None \<Rightarrow> (None, s)
   | Some r \<Rightarrow> let f = takeWhile js_digit (take 3 r) in if f = [] then (None, s) else (Some f, drop (length f) r))"

definition rx_seconds :: "string \<Rightarrow> string option \<times> string option \<times> string" where
  "rx_seconds s = (case rx_char CHR '':'' s of
     None \<Rightarrow> (None, None, s)
   | Some r \<Rightarrow> (case rx_digits 2 r of
       None \<Rightarrow> (None, None, s)
     | Some (sec, r2) \<Rightarrow> (Some sec, rx_fraction r2)))"

text \<open>\<open>None\<close> is \<open>Z\<close>; otherwise whether the sign is plus, the hours and the minutes.\<close>

definition rx_zone :: "string \<Rightarrow> (bool \<times> string \<times> string) option option" where
  "rx_zone s =
     (if s = ''Z'' then Some None
      else case s of
        [] \<Rightarrow> None
      | sign # r \<Rightarrow>
          if sign \<noteq> CHR ''+'' \<and> sign \<noteq> CHR ''-'' then None
          else Option.bind (rx_digits 2 r) (\<lambda>(h, r1). Option.bind (rx_char CHR '':'' r1) (\<lambda>r2.
            Option.bind (rx_digits 2 r2) (\<lambda>(m, r3). if r3 = [] then Some (Some (sign = CHR ''+'', h, m)) else None))))"

record timestamp_match =
  tm_year :: string
  tm_month :: string
  tm_day :: string
  tm_hour :: string
  tm_minute :: string
  tm_second :: "string option"
  tm_fraction :: "string option"
  tm_zone :: "(bool \<times> string \<times> string) option"

definition match_timestamp :: "string \<Rightarrow> timestamp_match option" where
  "match_timestamp s =
     Option.bind (rx_digits 4 s) (\<lambda>(y, s). Option.bind (rx_char CHR ''-'' s) (\<lambda>s.
     Option.bind (rx_digits 2 s) (\<lambda>(mo, s). Option.bind (rx_char CHR ''-'' s) (\<lambda>s.
     Option.bind (rx_digits 2 s) (\<lambda>(d, s). Option.bind (rx_char CHR ''T'' s) (\<lambda>s.
     Option.bind (rx_digits 2 s) (\<lambda>(h, s). Option.bind (rx_char CHR '':'' s) (\<lambda>s.
     Option.bind (rx_digits 2 s) (\<lambda>(mi, s).
     (case rx_seconds s of (sec, frac, s) \<Rightarrow>
     Option.bind (rx_zone s) (\<lambda>zone.
     Some \<lparr>tm_year = y, tm_month = mo, tm_day = d, tm_hour = h, tm_minute = mi, tm_second = sec,
       tm_fraction = frac, tm_zone = zone\<rparr>)))))))))))"

definition digits_int :: "string \<Rightarrow> int" where
  "digits_int s = int (digits_value s)"

definition offset_ms :: "(bool \<times> string \<times> string) option \<Rightarrow> err + int" where
  "offset_ms zone = (case zone of
     None \<Rightarrow> Inr 0
   | Some (east, hs, ms) \<Rightarrow>
       let offsetHour = digits_int hs; offsetMinute = digits_int ms in
       res_bind (require (\<not> (offsetHour > 14 \<or> offsetMinute > 59 \<or> offsetHour = 14 \<and> offsetMinute \<noteq> 0)) invalid_schedule)
         (\<lambda>_. Inr ((if east then 1 else - 1) * (offsetHour * 60 + offsetMinute) * 60000)))"

definition parseAbsoluteTimestamp :: "string \<Rightarrow> err + int" where
  "parseAbsoluteTimestamp value = (case match_timestamp value of
     None \<Rightarrow> Inl invalid_schedule
   | Some m \<Rightarrow>
       let year = digits_int (tm_year m); month = digits_int (tm_month m); day = digits_int (tm_day m);
           hour = digits_int (tm_hour m); minute = digits_int (tm_minute m);
           second = digits_int (case tm_second m of None \<Rightarrow> ''0'' | Some s \<Rightarrow> s);
           fraction = (case tm_fraction m of None \<Rightarrow> [] | Some f \<Rightarrow> f);
           millisecond = digits_int (fraction @ replicate (3 - length fraction) CHR ''0'') in
       res_bind (require (\<not> (month < 1 \<or> month > 12 \<or> day < 1 \<or> day > 31 \<or> hour > 23 \<or> minute > 59 \<or> second > 59))
         invalid_schedule) (\<lambda>_.
       let localUtc = date_utc year (nat (month - 1)) day hour minute second millisecond in
       res_bind (require (utc_date (localUtc div 86400000) = (year, nat (month - 1), day)
           \<and> utc_hours localUtc = hour \<and> utc_minutes localUtc = minute \<and> utc_seconds localUtc = second)
         invalid_schedule) (\<lambda>_.
       res_bind (offset_ms (tm_zone m)) (\<lambda>offsetMs.
       let result = localUtc - offsetMs in
       res_bind (require (safe_integer result \<and> 0 \<le> result) invalid_schedule) (\<lambda>_.
       Inr result)))))"

section \<open>Bounded caches\<close>

text \<open>A \<open>Map\<close> as the list of its entries, oldest first. A hit moves the entry to the end.\<close>

fun evict :: "nat \<Rightarrow> ('k \<times> 'v) list \<Rightarrow> ('k \<times> 'v) list" where
  "evict limit [] = []"
| "evict limit (e # es) = (if limit \<le> length (e # es) then evict limit es else e # es)"

definition cache_delete :: "'k \<Rightarrow> ('k \<times> 'v) list \<Rightarrow> ('k \<times> 'v) list" where
  "cache_delete k es = filter (\<lambda>e. fst e \<noteq> k) es"

definition boundedCacheSet :: "('k \<times> 'v) list \<Rightarrow> 'k \<Rightarrow> 'v \<Rightarrow> nat \<Rightarrow> ('k \<times> 'v) list" where
  "boundedCacheSet cache k v limit = evict limit (cache_delete k cache) @ [(k, v)]"

definition cache_touch :: "('k \<times> 'v) list \<Rightarrow> 'k \<Rightarrow> 'v \<Rightarrow> ('k \<times> 'v) list" where
  "cache_touch cache k v = cache_delete k cache @ [(k, v)]"

section \<open>Cron expressions\<close>

record cron_field =
  cf_values :: "int list"
  cf_wildcard :: bool

record parsed_cron =
  cron_expression :: string
  cron_minute :: cron_field
  cron_hour :: cron_field
  cron_dayOfMonth :: cron_field
  cron_month :: cron_field
  cron_dayOfWeek :: cron_field

definition normalizeDow :: "int \<Rightarrow> int" where
  "normalizeDow v = (if v = 7 then 0 else v)"

definition parseCronNumber :: "string \<Rightarrow> int \<Rightarrow> int \<Rightarrow> err + int" where
  "parseCronNumber raw lo hi =
     res_bind (require (raw \<noteq> [] \<and> list_all js_digit raw) invalid_schedule) (\<lambda>_.
     let value = digits_int raw in
     res_bind (require (lo \<le> value \<and> value \<le> hi) invalid_schedule) (\<lambda>_. Inr value))"

text \<open>\<open>Set.add\<close> on the list of the elements in insertion order.\<close>

definition set_add :: "int \<Rightarrow> int list \<Rightarrow> int list" where
  "set_add v vs = (if v \<in> set vs then vs else vs @ [v])"

text \<open>The loop \<open>for (value = start; value <= end; value += step)\<close>; a step is at least 1.\<close>

function cron_range :: "int \<Rightarrow> int \<Rightarrow> int \<Rightarrow> int list" where
  "cron_range start stop step =
     (if start \<le> stop \<and> 1 \<le> step then start # cron_range (start + step) stop step else [])"
  by pat_completeness auto

termination cron_range
  by (relation "measure (\<lambda>(start, stop, step). nat (stop - start + 1))") auto

declare cron_range.simps [simp del]

definition add_values :: "bool \<Rightarrow> int list \<Rightarrow> int list \<Rightarrow> int list" where
  "add_values dayOfWeek new values = foldl (\<lambda>vs v. set_add (if dayOfWeek then normalizeDow v else v) vs) values new"

definition parse_cron_item :: "int \<Rightarrow> int \<Rightarrow> bool \<Rightarrow> string \<Rightarrow> int list \<Rightarrow> err + int list" where
  "parse_cron_item lo hi dayOfWeek item values =
     res_bind (require (item \<noteq> []) invalid_schedule) (\<lambda>_.
     let parts = js_split CHR ''/'' item;
         base = hd parts;
         stepRaw = (case tl parts of [] \<Rightarrow> None | r # _ \<Rightarrow> Some r) in
     res_bind (require (length parts \<le> 2) invalid_schedule) (\<lambda>_.
     res_bind (case stepRaw of None \<Rightarrow> Inr 1 | Some r \<Rightarrow> parseCronNumber r 1 (hi - lo + 1)) (\<lambda>step.
     if base = ''*'' then Inr (add_values dayOfWeek (cron_range lo hi step) values)
     else if str_includes base ''-'' then
       (case js_split CHR ''-'' base of
          [startRaw, endRaw] \<Rightarrow>
            res_bind (parseCronNumber startRaw lo hi) (\<lambda>start.
            res_bind (parseCronNumber endRaw lo hi) (\<lambda>stop.
            res_bind (require (start \<le> stop) invalid_schedule) (\<lambda>_.
            Inr (add_values dayOfWeek (cron_range start stop step) values))))
        | _ \<Rightarrow> Inl invalid_schedule)
     else
       res_bind (require (stepRaw = None) invalid_schedule) (\<lambda>_.
       res_bind (parseCronNumber base lo hi) (\<lambda>value.
       Inr (add_values dayOfWeek [value] values))))))"

definition parseCronField :: "string \<Rightarrow> int \<Rightarrow> int \<Rightarrow> bool \<Rightarrow> err + cron_field" where
  "parseCronField raw lo hi dayOfWeek =
     res_bind (res_fold (parse_cron_item lo hi dayOfWeek) (js_split CHR '','' raw) []) (\<lambda>values.
     res_bind (require (values \<noteq> []) invalid_schedule) (\<lambda>_.
     Inr \<lparr>cf_values = values, cf_wildcard = (raw = ''*'')\<rparr>))"

text \<open>\<open>split(/\s+/)\<close>.\<close>

function split_white :: "string \<Rightarrow> string list" where
  "split_white s =
     (let w = takeWhile (\<lambda>c. \<not> js_white c) s; r = dropWhile (\<lambda>c. \<not> js_white c) s in
      if r = [] then [w] else w # split_white (dropWhile js_white r))"
  by pat_completeness auto

lemma dropWhile_Cons_length: "dropWhile P s = c # cs \<Longrightarrow> length cs < length s"
  by (metis Suc_le_eq length_Cons length_dropWhile_le)

termination split_white
proof (relation "measure length"; clarsimp)
  fix s :: string and c
  assume "c \<in> set s" "js_white c"
  then obtain d r where r: "dropWhile (\<lambda>c. \<not> js_white c) s = d # r" by (metis dropWhile_eq_Nil_conv neq_Nil_conv)
  then have "js_white d" using dropWhile_hd by fastforce
  then have "length (dropWhile js_white (d # r)) \<le> length r" by (simp add: length_dropWhile_le)
  also have "length r < length s" using r by (rule dropWhile_Cons_length)
  finally show "length (dropWhile js_white (dropWhile (\<lambda>c. \<not> js_white c) s)) < length s" by (simp only: r)
qed

declare split_white.simps [simp del]

definition normalize_expression :: "string \<Rightarrow> string" where
  "normalize_expression expression = js_join '' '' (split_white (js_trim expression))"

text \<open>The body of \<open>parseCronExpression\<close> after a miss.\<close>

definition parse_fields :: "string \<Rightarrow> err + parsed_cron" where
  "parse_fields normalized =
     (case js_split CHR '' '' normalized of
        [f0, f1, f2, f3, f4] \<Rightarrow>
          res_bind (parseCronField f0 0 59 False) (\<lambda>minute.
          res_bind (parseCronField f1 0 23 False) (\<lambda>hour.
          res_bind (parseCronField f2 1 31 False) (\<lambda>dayOfMonth.
          res_bind (parseCronField f3 1 12 False) (\<lambda>month.
          res_bind (parseCronField f4 0 7 True) (\<lambda>dayOfWeek.
          Inr \<lparr>cron_expression = normalized, cron_minute = minute, cron_hour = hour,
            cron_dayOfMonth = dayOfMonth, cron_month = month, cron_dayOfWeek = dayOfWeek\<rparr>)))))
      | _ \<Rightarrow> Inl invalid_schedule)"

definition parse_cron :: "string \<Rightarrow> err + parsed_cron" where
  "parse_cron expression = parse_fields (normalize_expression expression)"

type_synonym cron_cache = "(string \<times> parsed_cron) list"

definition parseCronExpression :: "cron_cache \<Rightarrow> string \<Rightarrow> (err + parsed_cron) \<times> cron_cache" where
  "parseCronExpression cache expression =
     (let normalized = normalize_expression expression in
      case map_of cache normalized of
        Some cached \<Rightarrow> (Inr cached, cache_touch cache normalized cached)
      | None \<Rightarrow> (case parse_fields normalized of
          Inl e \<Rightarrow> (Inl e, cache)
        | Inr parsed \<Rightarrow> (Inr parsed, boundedCacheSet cache normalized parsed 256)))"

section \<open>Time zones\<close>

record intl =
  intl_resolve :: "string \<Rightarrow> string option"
  intl_parts :: "string \<Rightarrow> int \<Rightarrow> (string \<times> string) list"

definition invalid_timezone :: err where
  "invalid_timezone = Automation_Error AUTOMATION_INVALID_TIMEZONE"

definition normalizeTimezone :: "intl \<Rightarrow> string \<Rightarrow> err + string" where
  "normalizeTimezone zones timezone =
     (let value = js_trim timezone in
      res_bind (require (value \<noteq> [] \<and> length value \<le> 128) invalid_timezone) (\<lambda>_.
      case intl_resolve zones value of None \<Rightarrow> Inl invalid_timezone | Some z \<Rightarrow> Inr z))"

text \<open>A formatter is the function from time values to parts; building one for an unknown zone throws.\<close>

definition timezoneFormatter ::
    "intl \<Rightarrow> (string \<times> (int \<Rightarrow> (string \<times> string) list)) list \<Rightarrow> string
     \<Rightarrow> (err + (int \<Rightarrow> (string \<times> string) list)) \<times> (string \<times> (int \<Rightarrow> (string \<times> string) list)) list" where
  "timezoneFormatter zones cache timezone =
     (case map_of cache timezone of
        Some cached \<Rightarrow> (Inr cached, cache_touch cache timezone cached)
      | None \<Rightarrow> (case intl_resolve zones timezone of
          None \<Rightarrow> (Inl Js_Error, cache)
        | Some z \<Rightarrow> (Inr (intl_parts zones timezone), boundedCacheSet cache timezone (intl_parts zones timezone) 128)))"

record zoned_parts =
  zp_year :: int
  zp_month :: int
  zp_day :: int
  zp_hour :: int
  zp_minute :: int
  zp_dayOfWeek :: int

text \<open>\<open>Number\<close> of a field the formatter returned: a digit string, or no number.\<close>

definition part_number :: "(string \<times> string) list \<Rightarrow> string \<Rightarrow> int option" where
  "part_number parts ty = (case map_of (rev parts) ty of
     None \<Rightarrow> None
   | Some v \<Rightarrow> if v \<noteq> [] \<and> list_all js_digit v then Some (digits_int v) else None)"

definition weekday_number :: "string \<Rightarrow> int option" where
  "weekday_number w = map_of [(''Sun'', 0), (''Mon'', 1), (''Tue'', 2), (''Wed'', 3), (''Thu'', 4), (''Fri'', 5), (''Sat'', 6)] w"

definition parts_record :: "(string \<times> string) list \<Rightarrow> zoned_parts option" where
  "parts_record parts =
     Option.bind (part_number parts ''year'') (\<lambda>year. Option.bind (part_number parts ''month'') (\<lambda>month.
     Option.bind (part_number parts ''day'') (\<lambda>day. Option.bind (part_number parts ''hour'') (\<lambda>hour.
     Option.bind (part_number parts ''minute'') (\<lambda>minute.
     Option.bind (weekday_number (case map_of (rev parts) ''weekday'' of None \<Rightarrow> [] | Some w \<Rightarrow> w)) (\<lambda>dow.
     Some \<lparr>zp_year = year, zp_month = month, zp_day = day, zp_hour = hour, zp_minute = minute, zp_dayOfWeek = dow\<rparr>))))))"

text \<open>A time value beyond the range of \<open>Date\<close> makes \<open>formatToParts\<close> throw a \<open>RangeError\<close>.\<close>

definition zonedParts :: "intl \<Rightarrow> int \<Rightarrow> string \<Rightarrow> err + zoned_parts" where
  "zonedParts zones epochMs timezone =
     (if intl_resolve zones timezone = None \<or> \<bar>epochMs\<bar> > 8640000000000000 then Inl Js_Error
      else case parts_record (intl_parts zones timezone epochMs) of None \<Rightarrow> Inl invalid_timezone | Some p \<Rightarrow> Inr p)"

section \<open>Occurrences\<close>

definition cronMatches :: "parsed_cron \<Rightarrow> zoned_parts \<Rightarrow> bool" where
  "cronMatches p parts =
     (if zp_minute parts \<notin> set (cf_values (cron_minute p)) then False
      else if zp_hour parts \<notin> set (cf_values (cron_hour p)) then False
      else if zp_month parts \<notin> set (cf_values (cron_month p)) then False
      else
        let dayOfMonthMatch = zp_day parts \<in> set (cf_values (cron_dayOfMonth p));
            dayOfWeekMatch = zp_dayOfWeek parts \<in> set (cf_values (cron_dayOfWeek p)) in
        if cf_wildcard (cron_dayOfMonth p) \<and> cf_wildcard (cron_dayOfWeek p) then True
        else if cf_wildcard (cron_dayOfMonth p) then dayOfWeekMatch
        else if cf_wildcard (cron_dayOfWeek p) then dayOfMonthMatch
        else dayOfMonthMatch \<or> dayOfWeekMatch)"

datatype schedule = At string | Interval int int | Cron string

definition normalizeSchedule :: "schedule \<Rightarrow> err + schedule" where
  "normalizeSchedule s = (case s of
     At a \<Rightarrow> res_bind (parseAbsoluteTimestamp a) (\<lambda>epochMs. Inr (At (to_iso_string epochMs)))
   | Interval everyMs anchorMs \<Rightarrow>
       res_bind (finiteInteger everyMs 1000 31536000000) (\<lambda>e.
       res_bind (finiteInteger anchorMs 0 max_safe_integer) (\<lambda>a. Inr (Interval e a)))
   | Cron expression \<Rightarrow> res_bind (parse_cron expression) (\<lambda>p. Inr (Cron (cron_expression p))))"

definition cron_search_limit :: nat where
  "cron_search_limit = 5 * 366 * 24 * 60"

fun cron_search :: "intl \<Rightarrow> parsed_cron \<Rightarrow> string \<Rightarrow> nat \<Rightarrow> int \<Rightarrow> err + int" where
  "cron_search zones cron timezone n candidate =
     (if n = 0 then Inl (Automation_Error AUTOMATION_SCHEDULE_NO_FUTURE)
      else res_bind (zonedParts zones candidate timezone) (\<lambda>parts.
        if cronMatches cron parts then Inr candidate
        else cron_search zones cron timezone (n - 1) (candidate + 60000)))"

declare cron_search.simps [simp del]

definition computeNextScheduledFor :: "intl \<Rightarrow> schedule \<Rightarrow> string \<Rightarrow> int \<Rightarrow> err + int option" where
  "computeNextScheduledFor zones scheduleInput timezoneInput afterMs =
     res_bind (finiteInteger afterMs 0 max_safe_integer) (\<lambda>after.
     res_bind (normalizeSchedule scheduleInput) (\<lambda>schedule.
     res_bind (normalizeTimezone zones timezoneInput) (\<lambda>timezone.
     case schedule of
       At a \<Rightarrow> res_bind (parseAbsoluteTimestamp a) (\<lambda>at. Inr (if at > after then Some at else None))
     | Interval everyMs anchorMs \<Rightarrow>
         if after < anchorMs then Inr (Some anchorMs)
         else
           let elapsed = after - anchorMs; steps = elapsed div everyMs + 1;
               result = anchorMs + steps * everyMs in
           res_bind (require (safe_integer result) (Automation_Error AUTOMATION_SCHEDULE_NO_FUTURE)) (\<lambda>_.
           Inr (Some result))
     | Cron expression \<Rightarrow>
         res_bind (parse_cron expression) (\<lambda>cron.
         res_bind (cron_search zones cron timezone cron_search_limit (after div 60000 * 60000 + 60000)) (\<lambda>t.
         Inr (Some t))))))"

record future_schedule =
  fut_schedule :: schedule
  fut_timezone :: string
  fut_nextScheduledFor :: int

definition assertFutureSchedule :: "intl \<Rightarrow> schedule \<Rightarrow> string \<Rightarrow> int \<Rightarrow> err + future_schedule" where
  "assertFutureSchedule zones schedule timezone nowMs =
     res_bind (normalizeSchedule schedule) (\<lambda>s.
     res_bind (normalizeTimezone zones timezone) (\<lambda>z.
     res_bind (computeNextScheduledFor zones s z nowMs) (\<lambda>next.
     case next of
       None \<Rightarrow> Inl (Automation_Error AUTOMATION_SCHEDULE_IN_PAST)
     | Some n \<Rightarrow> Inr \<lparr>fut_schedule = s, fut_timezone = z, fut_nextScheduledFor = n\<rparr>)))"

end
