(* ===== verification/Automation_Ledger.thy ===== *)
theory Automation_Ledger
  imports State_Db
begin

text \<open>
  \<open>packages/state/src/automation-repository.ts\<close> and the tables of the migrations 008 and 009: jobs with
  their cursor \<open>nextScheduledFor\<close>, and runs, one per job and occurrence, claimed by a scheduler under
  a lease. \<open>UPDATE ... WHERE\<close> statements are \<open>arun_write\<close> and \<open>job_write\<close>: every row the condition
  selects is changed, and the statement fails if a changed row violates a constraint (a foreign key
  where its column changes).
\<close>

section \<open>Constraints\<close>

definition job_checks :: "job_row \<Rightarrow> bool" where
  "job_checks r \<longleftrightarrow>
     1 \<le> length (j_name r) \<and> length (j_name r) \<le> 128
     \<and> 1 \<le> length (j_timezone r) \<and> length (j_timezone r) \<le> 128
     \<and> 0 < j_revision r
     \<and> (\<forall>t. j_nextScheduledFor r = Some t \<longrightarrow> 0 \<le> t)
     \<and> (\<forall>t. j_lastScheduledFor r = Some t \<longrightarrow> 0 \<le> t)
     \<and> 0 \<le> j_consecutiveFailures r
     \<and> (case j_catchUpLimit r of
          None \<Rightarrow> j_catchUpPolicy r \<noteq> BOUNDED
        | Some n \<Rightarrow> j_catchUpPolicy r = BOUNDED \<and> 1 \<le> n \<and> n \<le> 100)"

definition arun_checks :: "arun_row \<Rightarrow> bool" where
  "arun_checks r \<longleftrightarrow>
     0 \<le> x_scheduledFor r \<and> 0 \<le> x_attempt r
     \<and> (\<forall>k. x_requestKey r = Some k \<longrightarrow> 1 \<le> length k \<and> length k \<le> 128)
     \<and> (case (x_claimedAt r, x_leaseOwner r, x_leaseExpiresAt r) of
          (None, None, None) \<Rightarrow> True
        | (Some c, Some ow, Some e) \<Rightarrow> c \<le> e
        | _ \<Rightarrow> False)"

definition run_exists :: "string option \<Rightarrow> db \<Rightarrow> bool" where
  "run_exists k s = (case k of None \<Rightarrow> True | Some k \<Rightarrow> getRun k s \<noteq> None)"

definition arun_refs :: "arun_row \<Rightarrow> db \<Rightarrow> bool" where
  "arun_refs r s \<longleftrightarrow> tbl_get j_jobId (x_jobId r) (automation_jobs s) \<noteq> None \<and> run_exists (x_runId r) s"

text \<open>\<open>stringifyJson\<close> on a column, and what the column reads back as.\<close>

definition job_json_ok :: "job_row \<Rightarrow> bool" where
  "job_json_ok r \<longleftrightarrow> j_schedulePayload r \<noteq> JUndef \<and> j_conversationTemplate r \<noteq> JUndef \<and> j_failurePolicy r \<noteq> JUndef"

definition job_stored :: "job_row \<Rightarrow> job_row" where
  "job_stored r = r\<lparr>j_schedulePayload := json_clean (j_schedulePayload r),
     j_conversationTemplate := json_clean (j_conversationTemplate r), j_failurePolicy := json_clean (j_failurePolicy r)\<rparr>"

section \<open>Jobs\<close>

definition getJob :: "string \<Rightarrow> db \<Rightarrow> job_row option" where
  "getJob jobId s = tbl_get j_jobId jobId (automation_jobs s)"

definition insertJob :: "job_row \<Rightarrow> db \<Rightarrow> err + (db \<times> job_row)" where
  "insertJob row s =
     res_bind (require (job_json_ok row) Js_Error) (\<lambda>_.
     res_bind (require (job_checks row) (Sql_Constraint Sql_Check)) (\<lambda>_.
     res_bind (require (getJob (j_jobId row) s = None) (Sql_Constraint (Sql_Unique ''automation_jobs.job_id''))) (\<lambda>_.
     Inr (s\<lparr>automation_jobs := automation_jobs s @ [job_stored row]\<rparr>, row))))"

definition listJobs :: "bool option \<Rightarrow> nat option \<Rightarrow> db \<Rightarrow> job_row list" where
  "listJobs includeDisabled limit s =
     take (case limit of None \<Rightarrow> 100 | Some l \<Rightarrow> l) (sort_key (\<lambda>r. (- j_updatedAt r, j_jobId r))
       (filter (\<lambda>r. includeDisabled \<noteq> Some False \<or> j_enabled r) (automation_jobs s)))"

definition listDueJobs :: "int \<Rightarrow> nat \<Rightarrow> db \<Rightarrow> job_row list" where
  "listDueJobs now limit s =
     take limit (sort_key (\<lambda>r. (the (j_nextScheduledFor r), j_jobId r))
       (filter (\<lambda>r. j_enabled r \<and> (case j_nextScheduledFor r of None \<Rightarrow> False | Some t \<Rightarrow> t \<le> now)) (automation_jobs s)))"

definition job_write :: "(job_row \<Rightarrow> bool) \<Rightarrow> (job_row \<Rightarrow> job_row) \<Rightarrow> db \<Rightarrow> err + (db \<times> nat)" where
  "job_write p f s =
     res_bind (require (list_all (\<lambda>r. p r \<longrightarrow> job_checks (f r)) (automation_jobs s)) (Sql_Constraint Sql_Check)) (\<lambda>_.
     Inr (s\<lparr>automation_jobs := tbl_modify p f (automation_jobs s)\<rparr>, tbl_changes p (automation_jobs s)))"

record job_config_update =
  jc_jobId :: string
  jc_expectedRevision :: int
  jc_name :: string
  jc_enabled :: bool
  jc_scheduleType :: schedule_type
  jc_schedulePayload :: json
  jc_timezone :: string
  jc_conversationTemplate :: json
  jc_catchUpPolicy :: catch_up
  jc_catchUpLimit :: "int option"
  jc_failurePolicy :: json
  jc_nextScheduledFor :: "int option"
  jc_updatedAt :: int

definition job_configured :: "job_config_update \<Rightarrow> job_row \<Rightarrow> job_row" where
  "job_configured i r = r\<lparr>j_name := jc_name i, j_enabled := jc_enabled i, j_scheduleType := jc_scheduleType i,
     j_schedulePayload := json_clean (jc_schedulePayload i), j_timezone := jc_timezone i,
     j_conversationTemplate := json_clean (jc_conversationTemplate i), j_catchUpPolicy := jc_catchUpPolicy i,
     j_catchUpLimit := jc_catchUpLimit i, j_failurePolicy := json_clean (jc_failurePolicy i),
     j_revision := j_revision r + 1, j_nextScheduledFor := jc_nextScheduledFor i, j_updatedAt := jc_updatedAt i\<rparr>"

text \<open>The messages \<open>automation job not found: ...\<close>, \<open>automation job revision conflict: ...\<close> and so on.\<close>

definition job_not_found :: "string \<Rightarrow> err" where
  "job_not_found jobId = State_Error STATE_CONFLICT (''automation job not found: '' @ jobId)"

definition updateJobConfig :: "job_config_update \<Rightarrow> db \<Rightarrow> err + (db \<times> job_row)" where
  "updateJobConfig i s =
     res_bind (require (jc_schedulePayload i \<noteq> JUndef \<and> jc_conversationTemplate i \<noteq> JUndef \<and> jc_failurePolicy i \<noteq> JUndef)
       Js_Error) (\<lambda>_.
     res_bind (job_write (\<lambda>r. j_jobId r = jc_jobId i \<and> j_revision r = jc_expectedRevision i) (job_configured i) s)
       (\<lambda>(s1, changes).
     if changes \<noteq> 1 then
       (case getJob (jc_jobId i) s1 of
          None \<Rightarrow> Inl (job_not_found (jc_jobId i))
        | Some existing \<Rightarrow> Inl (State_Error STATE_CONFLICT (''automation job revision conflict: expected=''
            @ show_int (jc_expectedRevision i) @ '' actual='' @ show_int (j_revision existing))))
     else (case getJob (jc_jobId i) s1 of None \<Rightarrow> Inl Js_Error | Some r \<Rightarrow> Inr (s1, r))))"

definition updateJobRuntime ::
    "string \<Rightarrow> int option \<Rightarrow> int option \<Rightarrow> int \<Rightarrow> int \<Rightarrow> db \<Rightarrow> err + (db \<times> job_row)" where
  "updateJobRuntime jobId nextScheduledFor lastScheduledFor consecutiveFailures updatedAt s =
     res_bind (job_write (\<lambda>r. j_jobId r = jobId)
       (\<lambda>r. r\<lparr>j_nextScheduledFor := nextScheduledFor, j_lastScheduledFor := lastScheduledFor,
          j_consecutiveFailures := consecutiveFailures, j_updatedAt := updatedAt\<rparr>) s) (\<lambda>(s1, changes).
     if changes \<noteq> 1 then Inl (job_not_found jobId)
     else (case getJob jobId s1 of None \<Rightarrow> Inl Js_Error | Some r \<Rightarrow> Inr (s1, r)))"

section \<open>Runs\<close>

definition arun_get :: "string \<Rightarrow> db \<Rightarrow> arun_row option" where
  "arun_get automationRunId s = tbl_get x_automationRunId automationRunId (automation_runs s)"

definition getRunBySchedule :: "string \<Rightarrow> int \<Rightarrow> db \<Rightarrow> arun_row option" where
  "getRunBySchedule jobId scheduledFor s =
     tbl_get (\<lambda>r. (x_jobId r, x_scheduledFor r)) (jobId, scheduledFor) (automation_runs s)"

definition getRunByRequestKey :: "string \<Rightarrow> db \<Rightarrow> arun_row option" where
  "getRunByRequestKey requestKey s = tbl_get x_requestKey (Some requestKey) (automation_runs s)"

text \<open>\<open>ON CONFLICT(job_id, scheduled_for) DO NOTHING\<close>: that conflict is looked for first, the other
  unique keys and the foreign keys concern a row that is really inserted.\<close>

definition arun_insert :: "arun_row \<Rightarrow> db \<Rightarrow> err + (db \<times> bool \<times> arun_row)" where
  "arun_insert row s =
     res_bind (require (arun_checks row) (Sql_Constraint Sql_Check)) (\<lambda>_.
     (case getRunBySchedule (x_jobId row) (x_scheduledFor row) s of
        Some stored \<Rightarrow> Inr (s, False, stored)
      | None \<Rightarrow>
          res_bind (require (arun_get (x_automationRunId row) s = None)
            (Sql_Constraint (Sql_Unique ''automation_runs.automation_run_id''))) (\<lambda>_.
          res_bind (require (\<forall>k. x_requestKey row = Some k \<longrightarrow> getRunByRequestKey k s = None)
            (Sql_Constraint (Sql_Unique ''automation_runs.request_key''))) (\<lambda>_.
          res_bind (require (arun_refs row s) (Sql_Constraint Sql_ForeignKey)) (\<lambda>_.
          Inr (s\<lparr>automation_runs := automation_runs s @ [row]\<rparr>, True, row))))))"

record manual_input =
  mi_automationRunId :: string
  mi_jobId :: string
  mi_requestKey :: string
  mi_requestedAt :: int

definition manual_row :: "manual_input \<Rightarrow> int \<Rightarrow> arun_row" where
  "manual_row i scheduledFor = \<lparr>x_automationRunId = mi_automationRunId i, x_jobId = mi_jobId i,
     x_scheduledFor = scheduledFor, x_triggerKind = MANUAL, x_requestKey = Some (mi_requestKey i),
     x_claimedAt = None, x_leaseOwner = None, x_leaseExpiresAt = None, x_runId = None, x_status = PENDING,
     x_attempt = 0, x_errorCode = None, x_createdAt = mi_requestedAt i, x_updatedAt = mi_requestedAt i\<rparr>"

text \<open>The loop over the offsets, with the number of offsets left.\<close>

fun manual_loop :: "manual_input \<Rightarrow> nat \<Rightarrow> int \<Rightarrow> db \<Rightarrow> err + (db \<times> bool \<times> arun_row)" where
  "manual_loop i n scheduledFor s =
     (if n = 0 then Inl (State_Error STATE_CONFLICT (''automation manual occurrence collision limit exceeded: '' @ mi_jobId i))
      else case arun_insert (manual_row i scheduledFor) s of
        Inr (s1, created, run) \<Rightarrow>
          if created then Inr (s1, created, run) else manual_loop i (n - 1) (scheduledFor + 1) s1
      | Inl e \<Rightarrow>
          (case getRunByRequestKey (mi_requestKey i) s of
             Some existing \<Rightarrow> Inr (s, False, existing)
           | None \<Rightarrow>
               if e \<noteq> Sql_Constraint (Sql_Unique ''automation_runs.job_id, automation_runs.scheduled_for'') then Inl e
               else manual_loop i (n - 1) (scheduledFor + 1) s))"

declare manual_loop.simps [simp del]

lemma manual_loop_0 [simp]:
  "manual_loop i 0 t s = Inl (State_Error STATE_CONFLICT (''automation manual occurrence collision limit exceeded: '' @ mi_jobId i))"
  by (simp add: manual_loop.simps)

lemma manual_loop_Suc:
  "manual_loop i (Suc n) t s =
     (case arun_insert (manual_row i t) s of
        Inr (s1, created, run) \<Rightarrow> if created then Inr (s1, created, run) else manual_loop i n (t + 1) s1
      | Inl e \<Rightarrow>
          (case getRunByRequestKey (mi_requestKey i) s of
             Some existing \<Rightarrow> Inr (s, False, existing)
           | None \<Rightarrow>
               if e \<noteq> Sql_Constraint (Sql_Unique ''automation_runs.job_id, automation_runs.scheduled_for'') then Inl e
               else manual_loop i n (t + 1) s))"
  by (subst manual_loop.simps) (simp only: diff_Suc_1 nat.simps if_False)

definition reserveManualRun :: "manual_input \<Rightarrow> db \<Rightarrow> err + (db \<times> bool \<times> arun_row)" where
  "reserveManualRun i s =
     (case getRunByRequestKey (mi_requestKey i) s of
        Some replay \<Rightarrow>
          if x_jobId replay \<noteq> mi_jobId i \<or> x_triggerKind replay \<noteq> MANUAL
          then Inl (State_Error STATE_CONFLICT (''automation manual request conflict: '' @ mi_requestKey i))
          else Inr (s, False, replay)
      | None \<Rightarrow>
          res_bind (require (getJob (mi_jobId i) s \<noteq> None) (job_not_found (mi_jobId i))) (\<lambda>_.
          manual_loop i 1000 (mi_requestedAt i) s))"

definition arun_write :: "(arun_row \<Rightarrow> bool) \<Rightarrow> (arun_row \<Rightarrow> arun_row) \<Rightarrow> db \<Rightarrow> err + (db \<times> nat)" where
  "arun_write p f s =
     res_bind (require (list_all (\<lambda>r. p r \<longrightarrow> arun_checks (f r)) (automation_runs s)) (Sql_Constraint Sql_Check)) (\<lambda>_.
     res_bind (require (list_all (\<lambda>r. p r \<longrightarrow> x_runId (f r) = x_runId r \<or> run_exists (x_runId (f r)) s) (automation_runs s)) (Sql_Constraint Sql_ForeignKey)) (\<lambda>_.
     Inr (s\<lparr>automation_runs := tbl_modify p f (automation_runs s)\<rparr>, tbl_changes p (automation_runs s))))"

text \<open>\<open>return result.changes === 1 ? this.getRun(id) : null\<close>.\<close>

definition arun_changed :: "string \<Rightarrow> db \<times> nat \<Rightarrow> db \<times> arun_row option" where
  "arun_changed automationRunId = (\<lambda>(s1, changes). (s1, if changes = 1 then arun_get automationRunId s1 else None))"

definition lease_valid :: "string \<Rightarrow> int \<Rightarrow> arun_row \<Rightarrow> bool" where
  "lease_valid owner at r \<longleftrightarrow> x_leaseOwner r = Some owner \<and> (case x_leaseExpiresAt r of None \<Rightarrow> False | Some e \<Rightarrow> at \<le> e)"

definition bindRunId :: "string \<Rightarrow> string \<Rightarrow> string \<Rightarrow> int \<Rightarrow> db \<Rightarrow> err + (db \<times> arun_row option)" where
  "bindRunId automationRunId leaseOwner runId boundAt s =
     (if (case arun_get automationRunId s of None \<Rightarrow> False | Some current \<Rightarrow> x_runId current = Some runId)
      then Inr (s, arun_get automationRunId s)
      else
        res_bind (arun_write (\<lambda>r. x_automationRunId r = automationRunId \<and> x_status r = RUNNING
            \<and> lease_valid leaseOwner boundAt r \<and> x_runId r = None)
          (\<lambda>r. r\<lparr>x_runId := Some runId, x_updatedAt := boundAt\<rparr>) s) (\<lambda>w. Inr (arun_changed automationRunId w)))"

definition arun_list :: "string \<Rightarrow> nat \<Rightarrow> db \<Rightarrow> arun_row list" where
  "arun_list jobId limit s =
     take limit (sort_key (\<lambda>r. (- x_scheduledFor r, x_automationRunId r))
       (filter (\<lambda>r. x_jobId r = jobId) (automation_runs s)))"

section \<open>Materializing occurrences\<close>

primrec insert_runs :: "arun_row list \<Rightarrow> db \<Rightarrow> err + (db \<times> arun_row list)" where
  "insert_runs [] s = Inr (s, [])"
| "insert_runs (r # rs) s =
     res_bind (arun_insert r s) (\<lambda>(s1, created, stored).
     res_bind (insert_runs rs s1) (\<lambda>(s2, rest). Inr (s2, stored # rest)))"

record materialize_input =
  mz_jobId :: string
  mz_expectedNextScheduledFor :: int
  mz_nextScheduledFor :: "int option"
  mz_lastScheduledFor :: "int option"
  mz_runs :: "arun_row list"
  mz_updatedAt :: int

record materialized =
  md_materialized :: bool
  md_job :: "job_row option"
  md_runs :: "arun_row list"

text \<open>\<open>lastScheduledFor\<close> is left alone when the field is absent.\<close>

definition advance_cursor :: "materialize_input \<Rightarrow> job_row \<Rightarrow> job_row" where
  "advance_cursor i r = r\<lparr>j_nextScheduledFor := mz_nextScheduledFor i, j_updatedAt := mz_updatedAt i,
     j_lastScheduledFor := (case mz_lastScheduledFor i of None \<Rightarrow> j_lastScheduledFor r | Some l \<Rightarrow> Some l)\<rparr>"

definition materializeDueJob :: "materialize_input \<Rightarrow> db \<Rightarrow> err + (db \<times> materialized)" where
  "materializeDueJob i s =
     (let current = getJob (mz_jobId i) s in
      if (case current of None \<Rightarrow> True
          | Some c \<Rightarrow> \<not> j_enabled c \<or> j_nextScheduledFor c \<noteq> Some (mz_expectedNextScheduledFor i))
      then Inr (s, \<lparr>md_materialized = False, md_job = current, md_runs = []\<rparr>)
      else
        res_bind (insert_runs (mz_runs i) s) (\<lambda>(s1, stored).
        res_bind (job_write (\<lambda>r. j_jobId r = mz_jobId i \<and> j_enabled r
              \<and> j_nextScheduledFor r = Some (mz_expectedNextScheduledFor i))
            (advance_cursor i) s1) (\<lambda>(s2, changes).
        if changes \<noteq> 1 then Inl (State_Error STATE_CONFLICT ''automation due cursor changed concurrently'')
        else Inr (s2, \<lparr>md_materialized = True, md_job = getJob (mz_jobId i) s2, md_runs = stored\<rparr>))))"

section \<open>Leases\<close>

definition listClaimableRuns :: "nat \<Rightarrow> db \<Rightarrow> arun_row list" where
  "listClaimableRuns limit s =
     take limit (sort_key (\<lambda>r. (x_scheduledFor r, x_automationRunId r))
       (filter (\<lambda>r. x_status r = PENDING) (automation_runs s)))"

definition claimRun :: "string \<Rightarrow> string \<Rightarrow> int \<Rightarrow> int \<Rightarrow> db \<Rightarrow> err + (db \<times> arun_row option)" where
  "claimRun automationRunId leaseOwner claimedAt leaseExpiresAt s =
     res_bind (arun_write (\<lambda>r. x_automationRunId r = automationRunId \<and> x_status r = PENDING)
       (\<lambda>r. r\<lparr>x_claimedAt := Some claimedAt, x_leaseOwner := Some leaseOwner, x_leaseExpiresAt := Some leaseExpiresAt,
          x_status := CLAIMED, x_attempt := x_attempt r + 1, x_errorCode := None, x_updatedAt := claimedAt\<rparr>) s)
     (\<lambda>w. Inr (arun_changed automationRunId w))"

definition markRunRunning :: "string \<Rightarrow> string \<Rightarrow> int \<Rightarrow> int \<Rightarrow> db \<Rightarrow> err + (db \<times> arun_row option)" where
  "markRunRunning automationRunId leaseOwner runningAt leaseExpiresAt s =
     res_bind (arun_write (\<lambda>r. x_automationRunId r = automationRunId \<and> x_status r = CLAIMED \<and> lease_valid leaseOwner runningAt r)
       (\<lambda>r. r\<lparr>x_status := RUNNING, x_leaseExpiresAt := Some leaseExpiresAt, x_updatedAt := runningAt\<rparr>) s)
     (\<lambda>w. Inr (arun_changed automationRunId w))"

definition renewRunLease :: "string \<Rightarrow> string \<Rightarrow> int \<Rightarrow> int \<Rightarrow> db \<Rightarrow> err + (db \<times> arun_row option)" where
  "renewRunLease automationRunId leaseOwner renewedAt leaseExpiresAt s =
     res_bind (arun_write (\<lambda>r. x_automationRunId r = automationRunId \<and> x_status r \<in> {CLAIMED, RUNNING} \<and> lease_valid leaseOwner renewedAt r)
       (\<lambda>r. r\<lparr>x_leaseExpiresAt := Some leaseExpiresAt, x_updatedAt := renewedAt\<rparr>) s)
     (\<lambda>w. Inr (arun_changed automationRunId w))"

text \<open>The outcome counted in the job: the cursor of the last occurrence moves forward only.\<close>

definition count_outcome :: "int \<Rightarrow> bool \<Rightarrow> int \<Rightarrow> job_row \<Rightarrow> job_row" where
  "count_outcome scheduledFor failed now r = r\<lparr>
     j_lastScheduledFor := (case j_lastScheduledFor r of None \<Rightarrow> Some scheduledFor
        | Some l \<Rightarrow> if l < scheduledFor then Some scheduledFor else Some l),
     j_consecutiveFailures := (if failed then j_consecutiveFailures r + 1 else 0), j_updatedAt := now\<rparr>"

record finish_input =
  fi_automationRunId :: string
  fi_leaseOwner :: string
  fi_status :: arun_status
  fi_runId :: "string option"
  fi_errorCode :: "string option"
  fi_terminalAt :: int

definition released :: "arun_status \<Rightarrow> string option \<Rightarrow> int \<Rightarrow> arun_row \<Rightarrow> arun_row" where
  "released status errorCode now r = r\<lparr>x_status := status, x_errorCode := errorCode, x_claimedAt := None,
     x_leaseOwner := None, x_leaseExpiresAt := None, x_updatedAt := now\<rparr>"

definition finishRun :: "finish_input \<Rightarrow> db \<Rightarrow> err + (db \<times> arun_row option)" where
  "finishRun i s =
     (case arun_get (fi_automationRunId i) s of
        None \<Rightarrow> Inr (s, None)
      | Some current \<Rightarrow>
          if \<not> (x_status current = RUNNING \<and> lease_valid (fi_leaseOwner i) (fi_terminalAt i) current) then Inr (s, None)
          else
            res_bind (arun_write (\<lambda>r. x_automationRunId r = fi_automationRunId i \<and> x_status r = RUNNING
                \<and> lease_valid (fi_leaseOwner i) (fi_terminalAt i) r)
              (\<lambda>r. (released (fi_status i) (fi_errorCode i) (fi_terminalAt i) r)
                 \<lparr>x_runId := (case fi_runId i of None \<Rightarrow> x_runId r | Some k \<Rightarrow> Some k)\<rparr>) s) (\<lambda>(s1, changes).
            if changes \<noteq> 1 then Inr (s1, None)
            else
              res_bind (if fi_status i = SUCCEEDED \<or> fi_status i = FAILED then
                  job_write (\<lambda>r. j_jobId r = x_jobId current)
                    (count_outcome (x_scheduledFor current) (fi_status i = FAILED) (fi_terminalAt i)) s1
                else Inr (s1, 0)) (\<lambda>(s2, n).
              Inr (s2, arun_get (fi_automationRunId i) s2))))"

section \<open>Recovery\<close>

definition lease_expired :: "int \<Rightarrow> arun_row \<Rightarrow> bool" where
  "lease_expired now r \<longleftrightarrow> (case x_leaseExpiresAt r of None \<Rightarrow> False | Some e \<Rightarrow> e \<le> now)"

definition resumable_run :: "string option \<Rightarrow> db \<Rightarrow> bool" where
  "resumable_run k s = (case k of
     None \<Rightarrow> False
   | Some k \<Rightarrow> if k = [] then False else (case getRun k s of
       None \<Rightarrow> False
     | Some linked \<Rightarrow> r_recoveryState linked = RESUMABLE \<and> (r_status linked = R_CREATED \<or> r_status linked = R_WAITING_APPROVAL)))"

record recovered =
  rv_requeued :: "arun_row list"
  rv_failed :: "arun_row list"

text \<open>Giving a run back to the queue, from the status it is found in.\<close>

definition requeue :: "arun_status \<Rightarrow> int \<Rightarrow> arun_row \<Rightarrow> recovered \<Rightarrow> db \<Rightarrow> err + (db \<times> recovered)" where
  "requeue status now run acc s =
     res_bind (arun_write (\<lambda>r. x_automationRunId r = x_automationRunId run \<and> x_status r = status \<and> lease_expired now r)
       (released PENDING None now) s) (\<lambda>(s1, n).
     Inr (s1, case arun_get (x_automationRunId run) s1 of
       None \<Rightarrow> acc
     | Some r \<Rightarrow> if x_status r = PENDING then acc\<lparr>rv_requeued := rv_requeued acc @ [r]\<rparr> else acc))"

definition recover_run :: "int \<Rightarrow> arun_row \<Rightarrow> db \<times> recovered \<Rightarrow> err + (db \<times> recovered)" where
  "recover_run now run = (\<lambda>(s, acc).
     if x_status run = CLAIMED then requeue CLAIMED now run acc s
     else if resumable_run (x_runId run) s then requeue RUNNING now run acc s
     else
       res_bind (arun_write (\<lambda>r. x_automationRunId r = x_automationRunId run \<and> x_status r = RUNNING \<and> lease_expired now r)
         (released FAILED (Some ''AUTOMATION_INTERRUPTED_BY_RESTART'') now) s) (\<lambda>(s1, n).
       (case arun_get (x_automationRunId run) s1 of
          None \<Rightarrow> Inr (s1, acc)
        | Some r \<Rightarrow>
            if x_status r = FAILED then
              res_bind (job_write (\<lambda>j. j_jobId j = x_jobId run) (count_outcome (x_scheduledFor run) True now) s1) (\<lambda>(s2, m).
              Inr (s2, acc\<lparr>rv_failed := rv_failed acc @ [r]\<rparr>))
            else Inr (s1, acc))))"

definition recoverExpiredRuns :: "int \<Rightarrow> db \<Rightarrow> err + (db \<times> recovered)" where
  "recoverExpiredRuns now s =
     res_fold (recover_run now)
       (sort_key (\<lambda>r. (x_scheduledFor r, x_automationRunId r))
         (filter (\<lambda>r. x_status r \<in> {CLAIMED, RUNNING} \<and> lease_expired now r) (automation_runs s)))
       (s, \<lparr>rv_requeued = [], rv_failed = []\<rparr>)"

definition nextWakeAt :: "int \<Rightarrow> db \<Rightarrow> int option" where
  "nextWakeAt now s =
     (if \<exists>r \<in> set (automation_runs s). x_status r = PENDING then Some now
      else case flat_map (\<lambda>r. if j_enabled r then (case j_nextScheduledFor r of None \<Rightarrow> [] | Some t \<Rightarrow> [t]) else []) (automation_jobs s) of
        [] \<Rightarrow> None
      | t # ts \<Rightarrow> Some (fold min ts t))"

end
