(* ===== verification/Automation_Service.thy ===== *)
theory Automation_Service
  imports Cron_Schedule Automation_Ledger Regex
begin

text \<open>
  \<open>packages/automation/src/service.ts\<close>: the definitions of automations. The readings of the clock and
  the new identifiers are parameters. A template and a failure policy are checked as records and
  stored as JSON objects; a job read back carries them as JSON, as the code casts them.
\<close>

section \<open>Arguments\<close>

definition ID_PATTERN :: "string \<Rightarrow> bool" where
  "ID_PATTERN s = (case s of [] \<Rightarrow> False
     | c # cs \<Rightarrow> alnum c \<and> length cs \<le> 127 \<and> list_all (\<lambda>c. alnum c \<or> c \<in> set ''._:-'') cs)"

definition WORKSPACE_ID_PATTERN :: "string \<Rightarrow> bool" where
  "WORKSPACE_ID_PATTERN s = (case s of [] \<Rightarrow> False
     | c # cs \<Rightarrow> 97 \<le> (of_char c :: nat) \<and> (of_char c :: nat) \<le> 122 \<and> length cs \<le> 63
         \<and> list_all (\<lambda>c. lower_alnum c \<or> c \<in> set ''._-'') cs)"

definition MODEL_PROFILE_PATTERN :: "string \<Rightarrow> bool" where
  "MODEL_PROFILE_PATTERN s \<longleftrightarrow> s \<noteq> [] \<and> list_all (\<lambda>c. alnum c \<or> c \<in> set ''._-'') s"

definition auto_invalid :: err where
  "auto_invalid = Automation_Error AUTOMATION_INVALID_ARGUMENT"

definition stringValue :: "string \<Rightarrow> nat \<Rightarrow> nat \<Rightarrow> (string \<Rightarrow> bool) \<Rightarrow> err + string" where
  "stringValue v lo hi pattern =
     res_bind (require (lo \<le> length v \<and> length v \<le> hi \<and> pattern v) auto_invalid) (\<lambda>_. Inr v)"

definition integerValue :: "int \<Rightarrow> int \<Rightarrow> int \<Rightarrow> err + int" where
  "integerValue v lo hi =
     res_bind (require (safe_integer v \<and> lo \<le> v \<and> v \<le> hi) auto_invalid) (\<lambda>_. Inr v)"

record conversation_template =
  ct_workspaceId :: string
  ct_prompt :: string
  ct_modelProfile :: "string option"
  ct_title :: "string option"

definition optional_string :: "string option \<Rightarrow> nat \<Rightarrow> (string \<Rightarrow> bool) \<Rightarrow> err + string option" where
  "optional_string v hi pattern = (case v of None \<Rightarrow> Inr None
     | Some x \<Rightarrow> res_bind (stringValue x 1 hi pattern) (\<lambda>y. Inr (Some y)))"

definition field_if :: "string \<Rightarrow> string option \<Rightarrow> (string \<times> json) list" where
  "field_if k v = (case v of None \<Rightarrow> [] | Some x \<Rightarrow> [(k, JStr x)])"

definition normalizeConversationTemplate :: "conversation_template \<Rightarrow> err + json" where
  "normalizeConversationTemplate i =
     res_bind (stringValue (ct_workspaceId i) 1 64 WORKSPACE_ID_PATTERN) (\<lambda>workspaceId.
     res_bind (stringValue (ct_prompt i) 1 65536 any_text) (\<lambda>prompt.
     res_bind (optional_string (ct_modelProfile i) 64 MODEL_PROFILE_PATTERN) (\<lambda>modelProfile.
     res_bind (optional_string (ct_title i) 256 any_text) (\<lambda>title.
     Inr (JObj ([(''workspaceId'', JStr workspaceId), (''prompt'', JStr prompt)]
       @ field_if ''modelProfile'' modelProfile @ field_if ''title'' title))))))"

datatype catch_up_policy = CatchUp_SKIP | CatchUp_RUN_ONCE | CatchUp_BOUNDED int

definition normalizeCatchUpPolicy :: "catch_up_policy \<Rightarrow> err + catch_up_policy" where
  "normalizeCatchUpPolicy p = (case p of
     CatchUp_BOUNDED limit \<Rightarrow> res_bind (integerValue limit 1 100) (\<lambda>l. Inr (CatchUp_BOUNDED l))
   | _ \<Rightarrow> Inr p)"

record failure_policy =
  fp_backoffMs :: int
  fp_maxConsecutiveFailures :: int
  fp_autoDisable :: bool

definition normalizeFailurePolicy :: "failure_policy \<Rightarrow> err + json" where
  "normalizeFailurePolicy i =
     res_bind (integerValue (fp_backoffMs i) 0 2592000000) (\<lambda>backoffMs.
     res_bind (integerValue (fp_maxConsecutiveFailures i) 1 100) (\<lambda>maxConsecutiveFailures.
     Inr (JObj [(''backoffMs'', JNum backoffMs), (''maxConsecutiveFailures'', JNum maxConsecutiveFailures),
       (''autoDisable'', JBool (fp_autoDisable i))])))"

record schedule_state =
  ss_schedule :: schedule
  ss_timezone :: string
  ss_nextScheduledFor :: "int option"

definition normalizeScheduleState :: "intl \<Rightarrow> schedule \<Rightarrow> string \<Rightarrow> bool \<Rightarrow> int \<Rightarrow> err + schedule_state" where
  "normalizeScheduleState zones scheduleInput timezoneInput enabled now =
     res_bind (normalizeSchedule scheduleInput) (\<lambda>schedule.
     res_bind (normalizeTimezone zones timezoneInput) (\<lambda>timezone.
     if \<not> enabled then Inr \<lparr>ss_schedule = schedule, ss_timezone = timezone, ss_nextScheduledFor = None\<rparr>
     else
       res_bind (computeNextScheduledFor zones schedule timezone now) (\<lambda>next.
       case next of
         None \<Rightarrow> Inl (Automation_Error AUTOMATION_SCHEDULE_IN_PAST)
       | Some n \<Rightarrow> Inr \<lparr>ss_schedule = schedule, ss_timezone = timezone, ss_nextScheduledFor = Some n\<rparr>)))"

section \<open>Rows and jobs\<close>

definition scheduleType :: "schedule \<Rightarrow> schedule_type" where
  "scheduleType s = (case s of At a \<Rightarrow> AT | Interval e a \<Rightarrow> INTERVAL | Cron e \<Rightarrow> CRON)"

definition schedule_json :: "schedule \<Rightarrow> json" where
  "schedule_json s = (case s of
     At a \<Rightarrow> JObj [(''kind'', JStr ''at''), (''at'', JStr a)]
   | Interval everyMs anchorMs \<Rightarrow>
       JObj [(''kind'', JStr ''interval''), (''everyMs'', JNum everyMs), (''anchorMs'', JNum anchorMs)]
   | Cron expression \<Rightarrow> JObj [(''kind'', JStr ''cron''), (''expression'', JStr expression)])"

definition catchUpLedger :: "catch_up_policy \<Rightarrow> catch_up \<times> int option" where
  "catchUpLedger p = (case p of CatchUp_SKIP \<Rightarrow> (SKIP, None) | CatchUp_RUN_ONCE \<Rightarrow> (RUN_ONCE, None)
     | CatchUp_BOUNDED l \<Rightarrow> (BOUNDED, Some l))"

definition catchUpDomain :: "catch_up \<Rightarrow> int option \<Rightarrow> err + catch_up_policy" where
  "catchUpDomain policy limit = (case policy of
     BOUNDED \<Rightarrow> (case limit of None \<Rightarrow> Inl Js_Error | Some l \<Rightarrow> Inr (CatchUp_BOUNDED l))
   | SKIP \<Rightarrow> Inr CatchUp_SKIP
   | RUN_ONCE \<Rightarrow> Inr CatchUp_RUN_ONCE)"

text \<open>The schedule of a payload, where the type of the row and the payload agree.\<close>

definition payload_schedule :: "schedule_type \<Rightarrow> json \<Rightarrow> schedule option" where
  "payload_schedule type payload = (case type of
     AT \<Rightarrow> if json_field ''kind'' payload = JStr ''at''
       then (case json_field ''at'' payload of JStr a \<Rightarrow> Some (At a) | _ \<Rightarrow> None) else None
   | INTERVAL \<Rightarrow> if json_field ''kind'' payload = JStr ''interval''
       then (case (json_field ''everyMs'' payload, json_field ''anchorMs'' payload) of
           (JNum e, JNum a) \<Rightarrow> Some (Interval e a) | _ \<Rightarrow> None) else None
   | CRON \<Rightarrow> if json_field ''kind'' payload = JStr ''cron''
       then (case json_field ''expression'' payload of JStr e \<Rightarrow> Some (Cron e) | _ \<Rightarrow> None) else None)"

definition scheduleDomain :: "schedule_type \<Rightarrow> json \<Rightarrow> err + schedule" where
  "scheduleDomain type payload = (case payload_schedule type payload of None \<Rightarrow> Inl Js_Error | Some s \<Rightarrow> Inr s)"

record job_config =
  cfg_name :: string
  cfg_enabled :: bool
  cfg_schedule :: schedule
  cfg_timezone :: string
  cfg_conversationTemplate :: json
  cfg_catchUpPolicy :: catch_up_policy
  cfg_failurePolicy :: json

record automation_job =
  aj_jobId :: string
  aj_revision :: int
  aj_config :: job_config
  aj_nextScheduledFor :: "int option"
  aj_lastScheduledFor :: "int option"
  aj_consecutiveFailures :: int
  aj_createdAt :: int
  aj_updatedAt :: int

definition jobDomain :: "job_row \<Rightarrow> err + automation_job" where
  "jobDomain row =
     res_bind (scheduleDomain (j_scheduleType row) (j_schedulePayload row)) (\<lambda>schedule.
     res_bind (catchUpDomain (j_catchUpPolicy row) (j_catchUpLimit row)) (\<lambda>catchUp.
     Inr \<lparr>aj_jobId = j_jobId row, aj_revision = j_revision row,
       aj_config = \<lparr>cfg_name = j_name row, cfg_enabled = j_enabled row, cfg_schedule = schedule,
         cfg_timezone = j_timezone row, cfg_conversationTemplate = j_conversationTemplate row,
         cfg_catchUpPolicy = catchUp, cfg_failurePolicy = j_failurePolicy row\<rparr>,
       aj_nextScheduledFor = j_nextScheduledFor row, aj_lastScheduledFor = j_lastScheduledFor row,
       aj_consecutiveFailures = j_consecutiveFailures row, aj_createdAt = j_createdAt row, aj_updatedAt = j_updatedAt row\<rparr>))"

section \<open>The service\<close>

text \<open>\<open>try { ... } catch (error) { ... throw ... }\<close>: the exception is replaced, the database is not.\<close>

definition svc_catch :: "(err \<Rightarrow> err) \<Rightarrow> 'a svc \<Rightarrow> 'a svc" where
  "svc_catch h m s = (case m s of (Inl e, s') \<Rightarrow> (Inl (h e), s') | (Inr x, s') \<Rightarrow> (Inr x, s'))"

record create_job_input =
  cj_name :: string
  cj_enabled :: bool
  cj_schedule :: schedule
  cj_timezone :: string
  cj_conversationTemplate :: conversation_template
  cj_catchUpPolicy :: catch_up_policy
  cj_failurePolicy :: failure_policy

definition automation_create :: "intl \<Rightarrow> int \<Rightarrow> string \<Rightarrow> create_job_input \<Rightarrow> automation_job svc" where
  "automation_create zones clock newId i =
     svc_bind (svc_of (integerValue clock 0 max_safe_integer)) (\<lambda>now.
     svc_bind (svc_of (stringValue (js_trim (cj_name i)) 1 128 any_text)) (\<lambda>name.
     svc_bind (svc_of (normalizeScheduleState zones (cj_schedule i) (cj_timezone i) (cj_enabled i) now)) (\<lambda>sch.
     svc_bind (svc_of (normalizeConversationTemplate (cj_conversationTemplate i))) (\<lambda>template.
     svc_bind (svc_of (normalizeCatchUpPolicy (cj_catchUpPolicy i))) (\<lambda>catchUp.
     svc_bind (svc_of (normalizeFailurePolicy (cj_failurePolicy i))) (\<lambda>failure.
     svc_bind (svc_of (stringValue newId 1 128 ID_PATTERN)) (\<lambda>jobId.
     svc_bind (transaction (insertJob \<lparr>j_jobId = jobId, j_name = name, j_enabled = cj_enabled i,
       j_scheduleType = scheduleType (ss_schedule sch), j_schedulePayload = schedule_json (ss_schedule sch),
       j_timezone = ss_timezone sch, j_conversationTemplate = template, j_catchUpPolicy = fst (catchUpLedger catchUp),
       j_catchUpLimit = snd (catchUpLedger catchUp), j_failurePolicy = failure, j_revision = 1,
       j_nextScheduledFor = ss_nextScheduledFor sch, j_lastScheduledFor = None, j_consecutiveFailures = 0,
       j_createdAt = now, j_updatedAt = now\<rparr>)) (\<lambda>row.
     svc_of (jobDomain row)))))))))"

definition automation_get :: "string \<Rightarrow> automation_job svc" where
  "automation_get jobId =
     svc_bind (svc_of (stringValue jobId 1 128 ID_PATTERN)) (\<lambda>_.
     svc_bind (svc_read (getJob jobId)) (\<lambda>row.
     svc_of (case row of None \<Rightarrow> Inl (Automation_Error AUTOMATION_JOB_NOT_FOUND) | Some r \<Rightarrow> jobDomain r)))"

definition automation_list :: "bool option \<Rightarrow> int option \<Rightarrow> automation_job list svc" where
  "automation_list includeDisabled limit =
     svc_bind (svc_of (integerValue (case limit of None \<Rightarrow> 100 | Some l \<Rightarrow> l) 1 1000)) (\<lambda>l.
     svc_bind (svc_read (listJobs (Some (case includeDisabled of None \<Rightarrow> True | Some b \<Rightarrow> b)) (Some (nat l)))) (\<lambda>rows.
     svc_of (res_map jobDomain rows)))"

record update_job_patch =
  up_name :: "string option"
  up_enabled :: "bool option"
  up_schedule :: "schedule option"
  up_timezone :: "string option"
  up_conversationTemplate :: "conversation_template option"
  up_catchUpPolicy :: "catch_up_policy option"
  up_failurePolicy :: "failure_policy option"

definition given :: "'a option \<Rightarrow> 'b \<Rightarrow> ('a \<Rightarrow> err + 'b) \<Rightarrow> err + 'b" where
  "given v d f = (case v of None \<Rightarrow> Inr d | Some x \<Rightarrow> f x)"

definition revision_conflict :: "err \<Rightarrow> err" where
  "revision_conflict e = (case e of State_Error STATE_CONFLICT m \<Rightarrow> Automation_Error AUTOMATION_REVISION_CONFLICT | _ \<Rightarrow> e)"

text \<open>The new configuration of \<open>update\<close>: what the patch leaves out is kept.\<close>

definition updated_config :: "intl \<Rightarrow> int \<Rightarrow> string \<Rightarrow> int \<Rightarrow> update_job_patch \<Rightarrow> automation_job \<Rightarrow> err + job_config_update" where
  "updated_config zones clock jobId expectedRevision patch current =
     res_bind (integerValue clock 0 max_safe_integer) (\<lambda>now.
     res_bind (given (up_name patch) (cfg_name (aj_config current)) (\<lambda>n. stringValue (js_trim n) 1 128 any_text)) (\<lambda>name.
     let enabled = (case up_enabled patch of None \<Rightarrow> cfg_enabled (aj_config current) | Some b \<Rightarrow> b);
         scheduleInput = (case up_schedule patch of None \<Rightarrow> cfg_schedule (aj_config current) | Some x \<Rightarrow> x);
         timezoneInput = (case up_timezone patch of None \<Rightarrow> cfg_timezone (aj_config current) | Some z \<Rightarrow> z) in
     res_bind (normalizeScheduleState zones scheduleInput timezoneInput enabled now) (\<lambda>sch.
     res_bind (given (up_conversationTemplate patch) (cfg_conversationTemplate (aj_config current)) normalizeConversationTemplate) (\<lambda>template.
     res_bind (given (up_catchUpPolicy patch) (cfg_catchUpPolicy (aj_config current)) normalizeCatchUpPolicy) (\<lambda>catchUp.
     res_bind (given (up_failurePolicy patch) (cfg_failurePolicy (aj_config current)) normalizeFailurePolicy) (\<lambda>failure.
     Inr \<lparr>jc_jobId = jobId, jc_expectedRevision = expectedRevision, jc_name = name,
       jc_enabled = enabled, jc_scheduleType = scheduleType (ss_schedule sch),
       jc_schedulePayload = schedule_json (ss_schedule sch), jc_timezone = ss_timezone sch,
       jc_conversationTemplate = template, jc_catchUpPolicy = fst (catchUpLedger catchUp),
       jc_catchUpLimit = snd (catchUpLedger catchUp), jc_failurePolicy = failure,
       jc_nextScheduledFor = ss_nextScheduledFor sch, jc_updatedAt = now\<rparr>))))))"

definition automation_update :: "intl \<Rightarrow> int \<Rightarrow> string \<Rightarrow> int \<Rightarrow> update_job_patch \<Rightarrow> automation_job svc" where
  "automation_update zones clock jobId expectedRevision patch =
     svc_bind (svc_of (stringValue jobId 1 128 ID_PATTERN)) (\<lambda>_.
     svc_bind (svc_of (integerValue expectedRevision 1 max_safe_integer)) (\<lambda>_.
     svc_bind (automation_get jobId) (\<lambda>current.
     svc_bind (svc_of (updated_config zones clock jobId expectedRevision patch current)) (\<lambda>config.
     svc_catch revision_conflict
       (svc_bind (transaction (updateJobConfig config)) (\<lambda>row. svc_of (jobDomain row)))))))"

definition optional_time :: "int option \<Rightarrow> err + int option" where
  "optional_time v = (case v of None \<Rightarrow> Inr None | Some t \<Rightarrow> res_bind (integerValue t 0 max_safe_integer) (\<lambda>x. Inr (Some x)))"

definition conflict_not_found :: "err \<Rightarrow> err" where
  "conflict_not_found e = (case e of State_Error STATE_CONFLICT m \<Rightarrow> Automation_Error AUTOMATION_JOB_NOT_FOUND | _ \<Rightarrow> e)"

definition automation_updateRuntime :: "int \<Rightarrow> string \<Rightarrow> int option \<Rightarrow> int option \<Rightarrow> int \<Rightarrow> automation_job svc" where
  "automation_updateRuntime clock jobId nextScheduledFor lastScheduledFor consecutiveFailures =
     svc_bind (svc_of (stringValue jobId 1 128 ID_PATTERN)) (\<lambda>_.
     svc_bind (svc_of (optional_time nextScheduledFor)) (\<lambda>next.
     svc_bind (svc_of (optional_time lastScheduledFor)) (\<lambda>last.
     svc_bind (svc_of (integerValue consecutiveFailures 0 1000000)) (\<lambda>failures.
     svc_bind (svc_of (integerValue clock 0 max_safe_integer)) (\<lambda>updatedAt.
     svc_catch conflict_not_found
       (svc_bind (transaction (updateJobRuntime jobId next last failures updatedAt)) (\<lambda>row. svc_of (jobDomain row))))))))"

definition foreign_key_not_found :: "err \<Rightarrow> err" where
  "foreign_key_not_found e = (if e = Sql_Constraint Sql_ForeignKey then Automation_Error AUTOMATION_JOB_NOT_FOUND else e)"

definition automation_reserveRun :: "int \<Rightarrow> string \<Rightarrow> string \<Rightarrow> int \<Rightarrow> (bool \<times> arun_row) svc" where
  "automation_reserveRun clock newId jobId scheduledFor =
     svc_bind (svc_of (stringValue jobId 1 128 ID_PATTERN)) (\<lambda>_.
     svc_bind (svc_of (integerValue scheduledFor 0 max_safe_integer)) (\<lambda>_.
     svc_bind (svc_of (integerValue clock 0 max_safe_integer)) (\<lambda>now.
     svc_bind (svc_of (stringValue newId 1 128 ID_PATTERN)) (\<lambda>automationRunId.
     svc_catch foreign_key_not_found
       (transaction (arun_insert \<lparr>x_automationRunId = automationRunId, x_jobId = jobId, x_scheduledFor = scheduledFor,
         x_triggerKind = SCHEDULED, x_requestKey = None, x_claimedAt = None, x_leaseOwner = None, x_leaseExpiresAt = None,
         x_runId = None, x_status = PENDING, x_attempt = 0, x_errorCode = None, x_createdAt = now, x_updatedAt = now\<rparr>))))))"

definition manual_conflict :: "err \<Rightarrow> err" where
  "manual_conflict e = (case e of
     State_Error STATE_CONFLICT m \<Rightarrow> Automation_Error
       (if str_includes (js_lower m) ''job not found'' then AUTOMATION_JOB_NOT_FOUND else AUTOMATION_REQUEST_CONFLICT)
   | _ \<Rightarrow> e)"

text \<open>The identifier is made and checked inside the transaction.\<close>

definition automation_runNow :: "int \<Rightarrow> string \<Rightarrow> string \<Rightarrow> string \<Rightarrow> (bool \<times> arun_row) svc" where
  "automation_runNow clock newId jobId requestKey =
     svc_bind (svc_of (stringValue jobId 1 128 ID_PATTERN)) (\<lambda>_.
     svc_bind (svc_of (stringValue requestKey 1 128 ID_PATTERN)) (\<lambda>_.
     svc_bind (svc_of (integerValue clock 0 max_safe_integer)) (\<lambda>requestedAt.
     svc_catch manual_conflict
       (transaction (\<lambda>s. res_bind (stringValue newId 1 128 ID_PATTERN) (\<lambda>automationRunId.
         reserveManualRun \<lparr>mi_automationRunId = automationRunId, mi_jobId = jobId, mi_requestKey = requestKey,
           mi_requestedAt = requestedAt\<rparr> s))))))"

definition automation_listRuns :: "string \<Rightarrow> int option \<Rightarrow> arun_row list svc" where
  "automation_listRuns jobId limit =
     svc_bind (svc_of (stringValue jobId 1 128 ID_PATTERN)) (\<lambda>_.
     svc_bind (svc_of (integerValue (case limit of None \<Rightarrow> 100 | Some l \<Rightarrow> l) 1 1000)) (\<lambda>l.
     svc_read (arun_list jobId (nat l))))"

end
