(* ===== verification/Automation_Scheduler.thy ===== *)
theory Automation_Scheduler
  imports Automation_Service
begin

text \<open>
  \<open>packages/automation/src/scheduler.ts\<close>: the occurrences a scheduler materializes, the loop that
  claims and executes runs under a lease, and the life of the scheduler object.

  The executor is awaited while timers of the lease fire and other parts of the host write to the
  database. What happens in that time is a parameter: a list of events (\<open>exec_event\<close>) and the outcome
  of the executor. Clock readings and identifiers are parameters too. The promise of \<open>wake\<close> is split
  at its \<open>await\<close>s: \<open>wake_begin\<close> is what runs when \<open>wake\<close> is called, \<open>run_wake\<close> is \<open>#runWake\<close>, and
  \<open>wake_end\<close> is its \<open>finally\<close>.
\<close>

section \<open>Occurrences\<close>

definition sched_scheduleDomain :: "job_row \<Rightarrow> err + schedule" where
  "sched_scheduleDomain row = (case payload_schedule (j_scheduleType row) (j_schedulePayload row) of
     None \<Rightarrow> Inl invalid_schedule | Some s \<Rightarrow> normalizeSchedule s)"

definition sched_catchUpDomain :: "job_row \<Rightarrow> err + catch_up_policy" where
  "sched_catchUpDomain row = (case j_catchUpPolicy row of
     BOUNDED \<Rightarrow> (case j_catchUpLimit row of None \<Rightarrow> Inl auto_invalid | Some l \<Rightarrow> Inr (CatchUp_BOUNDED l))
   | SKIP \<Rightarrow> Inr CatchUp_SKIP
   | RUN_ONCE \<Rightarrow> Inr CatchUp_RUN_ONCE)"

definition sched_jobDomain :: "intl \<Rightarrow> job_row \<Rightarrow> err + automation_job" where
  "sched_jobDomain zones row =
     res_bind (sched_scheduleDomain row) (\<lambda>schedule.
     res_bind (normalizeTimezone zones (j_timezone row)) (\<lambda>timezone.
     res_bind (sched_catchUpDomain row) (\<lambda>catchUp.
     Inr \<lparr>aj_jobId = j_jobId row, aj_revision = j_revision row,
       aj_config = \<lparr>cfg_name = j_name row, cfg_enabled = j_enabled row, cfg_schedule = schedule,
         cfg_timezone = timezone, cfg_conversationTemplate = j_conversationTemplate row,
         cfg_catchUpPolicy = catchUp, cfg_failurePolicy = j_failurePolicy row\<rparr>,
       aj_nextScheduledFor = j_nextScheduledFor row, aj_lastScheduledFor = j_lastScheduledFor row,
       aj_consecutiveFailures = j_consecutiveFailures row, aj_createdAt = j_createdAt row, aj_updatedAt = j_updatedAt row\<rparr>)))"

definition createRunRow :: "string \<Rightarrow> string \<Rightarrow> int \<Rightarrow> arun_status \<Rightarrow> string option \<Rightarrow> int \<Rightarrow> arun_row" where
  "createRunRow automationRunId jobId scheduledFor status errorCode now =
     \<lparr>x_automationRunId = automationRunId, x_jobId = jobId, x_scheduledFor = scheduledFor, x_triggerKind = SCHEDULED,
      x_requestKey = None, x_claimedAt = None, x_leaseOwner = None, x_leaseExpiresAt = None, x_runId = None,
      x_status = status, x_attempt = 0, x_errorCode = errorCode, x_createdAt = now, x_updatedAt = now\<rparr>"

text \<open>\<open>nextAfterNow\<close> and \<open>nextAfterOccurrence\<close> have the same body.\<close>

definition next_after :: "intl \<Rightarrow> job_row \<Rightarrow> int \<Rightarrow> err + int option" where
  "next_after zones row t =
     res_bind (sched_scheduleDomain row) (\<lambda>schedule. computeNextScheduledFor zones schedule (j_timezone row) t)"

record plan =
  pl_pending :: "int list"
  pl_skipped :: "int list"
  pl_nextScheduledFor :: "int option"
  pl_lastScheduledFor :: "int option"

text \<open>The loop of a bounded catch-up, with the number of occurrences it may still take.\<close>

fun catch_up_loop :: "intl \<Rightarrow> job_row \<Rightarrow> int \<Rightarrow> nat \<Rightarrow> int option \<Rightarrow> err + (int list \<times> int option)" where
  "catch_up_loop zones row now 0 cursor = Inr ([], cursor)"
| "catch_up_loop zones row now (Suc n) None = Inr ([], None)"
| "catch_up_loop zones row now (Suc n) (Some c) =
     (if now < c then Inr ([], Some c)
      else
        res_bind (next_after zones row c) (\<lambda>cursor.
        res_bind (catch_up_loop zones row now n cursor) (\<lambda>(pending, final). Inr (c # pending, final))))"

definition startupPlan :: "intl \<Rightarrow> job_row \<Rightarrow> int \<Rightarrow> err + plan" where
  "startupPlan zones row now = (case j_nextScheduledFor row of
     None \<Rightarrow> Inr \<lparr>pl_pending = [], pl_skipped = [], pl_nextScheduledFor = None, pl_lastScheduledFor = None\<rparr>
   | Some first \<Rightarrow>
       if now < first then
         Inr \<lparr>pl_pending = [], pl_skipped = [], pl_nextScheduledFor = Some first, pl_lastScheduledFor = None\<rparr>
       else
         res_bind (sched_catchUpDomain row) (\<lambda>policy.
         case policy of
           CatchUp_SKIP \<Rightarrow>
             res_bind (next_after zones row now) (\<lambda>next.
             Inr \<lparr>pl_pending = [], pl_skipped = [first], pl_nextScheduledFor = next, pl_lastScheduledFor = Some first\<rparr>)
         | CatchUp_RUN_ONCE \<Rightarrow>
             res_bind (next_after zones row now) (\<lambda>next.
             Inr \<lparr>pl_pending = [first], pl_skipped = [], pl_nextScheduledFor = next, pl_lastScheduledFor = None\<rparr>)
         | CatchUp_BOUNDED limit \<Rightarrow>
             res_bind (catch_up_loop zones row now (nat limit) (Some first)) (\<lambda>(pending, cursor).
             res_bind (case cursor of Some c \<Rightarrow> if c \<le> now then next_after zones row now else Inr cursor
               | None \<Rightarrow> Inr cursor) (\<lambda>next.
             Inr \<lparr>pl_pending = pending, pl_skipped = [], pl_nextScheduledFor = next, pl_lastScheduledFor = None\<rparr>))))"

definition regularPlan :: "intl \<Rightarrow> job_row \<Rightarrow> err + plan" where
  "regularPlan zones row = (case j_nextScheduledFor row of
     None \<Rightarrow> Inr \<lparr>pl_pending = [], pl_skipped = [], pl_nextScheduledFor = None, pl_lastScheduledFor = None\<rparr>
   | Some first \<Rightarrow>
       res_bind (next_after zones row first) (\<lambda>next.
       Inr \<lparr>pl_pending = [first], pl_skipped = [], pl_nextScheduledFor = next, pl_lastScheduledFor = None\<rparr>))"

section \<open>Options and state\<close>

definition ERROR_CODE_PATTERN :: "string \<Rightarrow> bool" where
  "ERROR_CODE_PATTERN s = (case s of [] \<Rightarrow> False
     | c # cs \<Rightarrow> 65 \<le> (of_char c :: nat) \<and> (of_char c :: nat) \<le> 90 \<and> length cs \<le> 127
         \<and> list_all (\<lambda>c. js_digit c \<or> (65 \<le> (of_char c :: nat) \<and> (of_char c :: nat) \<le> 90) \<or> c = CHR ''_'') cs)"

definition sched_identifier :: "string \<Rightarrow> err + string" where
  "sched_identifier v = res_bind (require (ID_PATTERN v) auto_invalid) (\<lambda>_. Inr v)"

definition sched_errorCode :: "string \<Rightarrow> err + string" where
  "sched_errorCode v = res_bind (require (ERROR_CODE_PATTERN v) auto_invalid) (\<lambda>_. Inr v)"

record scheduler_options =
  so_ownerId :: string
  so_leaseDurationMs :: "int option"
  so_renewIntervalMs :: "int option"
  so_dueJobLimit :: "int option"
  so_runLimit :: "int option"
  so_autoArm :: "bool option"

record scheduler =
  sc_ownerId :: string
  sc_leaseDurationMs :: int
  sc_renewIntervalMs :: int
  sc_dueJobLimit :: int
  sc_runLimit :: int
  sc_autoArm :: bool
  sc_started :: bool
  sc_closing :: bool
  sc_closed :: bool
  sc_timer :: "int option"
  sc_waking :: bool
  sc_closePromise :: "(err + unit) option option"
  sc_lastWakeAt :: "int option"
  sc_recoveredClaims :: int
  sc_interruptedRuns :: int

definition scheduler_new :: "scheduler_options \<Rightarrow> err + scheduler" where
  "scheduler_new opts =
     res_bind (sched_identifier (so_ownerId opts)) (\<lambda>ownerId.
     res_bind (integerValue (or_default (so_leaseDurationMs opts) 30000) 1000 3600000) (\<lambda>lease.
     res_bind (integerValue (or_default (so_renewIntervalMs opts) 10000) 100 (lease - 1)) (\<lambda>renew.
     res_bind (integerValue (or_default (so_dueJobLimit opts) 100) 1 1000) (\<lambda>dueJobLimit.
     res_bind (integerValue (or_default (so_runLimit opts) 100) 1 1000) (\<lambda>runLimit.
     Inr \<lparr>sc_ownerId = ownerId, sc_leaseDurationMs = lease, sc_renewIntervalMs = renew, sc_dueJobLimit = dueJobLimit,
       sc_runLimit = runLimit, sc_autoArm = or_default (so_autoArm opts) True, sc_started = False, sc_closing = False,
       sc_closed = False, sc_timer = None, sc_waking = False, sc_closePromise = None, sc_lastWakeAt = None,
       sc_recoveredClaims = 0, sc_interruptedRuns = 0\<rparr>)))))"

datatype scheduler_state = S_STOPPED | S_STARTED | S_CLOSING | S_CLOSED

definition scheduler_status :: "scheduler \<Rightarrow> scheduler_state" where
  "scheduler_status c =
     (if sc_closed c then S_CLOSED else if sc_closing c then S_CLOSING else if sc_started c then S_STARTED else S_STOPPED)"

definition clock_value :: "int \<Rightarrow> err + int" where
  "clock_value t = integerValue t 0 max_safe_integer"

section \<open>Materializing\<close>

text \<open>The rows of a plan; \<open>ids\<close> are the values \<open>createId\<close> will return, one is used per row.\<close>

primrec plan_rows :: "string \<Rightarrow> arun_status \<Rightarrow> string option \<Rightarrow> int \<Rightarrow> int list \<Rightarrow> string list \<Rightarrow> err + (arun_row list \<times> string list)" where
  "plan_rows jobId status code now [] ids = Inr ([], ids)"
| "plan_rows jobId status code now (t # ts) ids =
     (case ids of
        [] \<Rightarrow> Inl Js_Error
      | k # ks \<Rightarrow>
          res_bind (sched_identifier k) (\<lambda>automationRunId.
          res_bind (plan_rows jobId status code now ts ks) (\<lambda>(rows, rest).
          Inr (createRunRow automationRunId jobId t status code now # rows, rest))))"

record counts =
  ct_materializedRuns :: nat
  ct_skippedRuns :: nat
  ct_ids :: "string list"

definition count_status :: "arun_status \<Rightarrow> arun_row list \<Rightarrow> nat" where
  "count_status st rows = length (filter (\<lambda>r. x_status r = st) rows)"

definition materialize_job :: "intl \<Rightarrow> bool \<Rightarrow> int \<Rightarrow> job_row \<Rightarrow> counts \<Rightarrow> counts svc" where
  "materialize_job zones startup now snapshot acc =
     svc_bind (svc_of (if startup then startupPlan zones snapshot now else regularPlan zones snapshot)) (\<lambda>plan.
     svc_bind (svc_of (plan_rows (j_jobId snapshot) PENDING None now (pl_pending plan) (ct_ids acc))) (\<lambda>(pending, ids1).
     svc_bind (svc_of (plan_rows (j_jobId snapshot) SKIPPED (Some ''AUTOMATION_CATCH_UP_SKIPPED'') now (pl_skipped plan) ids1)) (\<lambda>(skipped, ids2).
     svc_bind (transaction (materializeDueJob \<lparr>mz_jobId = j_jobId snapshot,
       mz_expectedNextScheduledFor = the (j_nextScheduledFor snapshot), mz_nextScheduledFor = pl_nextScheduledFor plan,
       mz_lastScheduledFor = pl_lastScheduledFor plan, mz_runs = pending @ skipped, mz_updatedAt = now\<rparr>)) (\<lambda>result.
     svc_return (if md_materialized result
       then acc\<lparr>ct_materializedRuns := ct_materializedRuns acc + count_status PENDING (md_runs result),
                ct_skippedRuns := ct_skippedRuns acc + count_status SKIPPED (md_runs result), ct_ids := ids2\<rparr>
       else acc\<lparr>ct_ids := ids2\<rparr>)))))"

definition materializeDue :: "intl \<Rightarrow> scheduler \<Rightarrow> int \<Rightarrow> bool \<Rightarrow> string list \<Rightarrow> counts svc" where
  "materializeDue zones c now startup ids =
     svc_bind (svc_read (listDueJobs now (nat (sc_dueJobLimit c)))) (\<lambda>due.
     svc_fold (materialize_job zones startup now) (if sc_closing c then [] else due)
       \<lparr>ct_materializedRuns = 0, ct_skippedRuns = 0, ct_ids = ids\<rparr>)"

section \<open>Executing a run\<close>

datatype exec_result = Exec_Succeeded "string option" | Exec_Failed string "string option"

text \<open>What may happen while the executor is awaited: the timer of the lease fires, the executor calls
  \<open>bindRunId\<close>, or another part of the host leaves the database as given.\<close>

datatype exec_event = Renew int | Bind string int | Elsewhere db

text \<open>One turn of the loop of \<open>#runWake\<close>: the readings of the clock, the events and the outcome.\<close>

record turn =
  tn_closing :: bool
  tn_claimedAt :: int
  tn_runningAt :: int
  tn_events :: "exec_event list"
  tn_outcome :: "err + exec_result"
  tn_terminalAt :: int

definition lease_lost :: err where
  "lease_lost = Automation_Error AUTOMATION_LEASE_LOST"

definition claim_next :: "scheduler \<Rightarrow> int \<Rightarrow> arun_row option svc" where
  "claim_next c claimedAt = transaction (\<lambda>s. case listClaimableRuns 1 s of
     [] \<Rightarrow> Inr (s, None)
   | candidate # _ \<Rightarrow> claimRun (x_automationRunId candidate) (sc_ownerId c) claimedAt (claimedAt + sc_leaseDurationMs c) s)"

definition some_or :: "err \<Rightarrow> 'a option \<Rightarrow> err + 'a" where
  "some_or e v = (case v of None \<Rightarrow> Inl e | Some x \<Rightarrow> Inr x)"

definition execute_begin :: "scheduler \<Rightarrow> int \<Rightarrow> arun_row \<Rightarrow> (arun_row \<times> job_row) svc" where
  "execute_begin c clock claimed =
     svc_bind (svc_of (clock_value clock)) (\<lambda>runningAt.
     svc_bind (transaction (markRunRunning (x_automationRunId claimed) (sc_ownerId c) runningAt (runningAt + sc_leaseDurationMs c))) (\<lambda>r.
     svc_bind (svc_of (some_or lease_lost r)) (\<lambda>running.
     svc_bind (svc_read (getJob (x_jobId running))) (\<lambda>j.
     svc_bind (svc_of (some_or (Automation_Error AUTOMATION_JOB_NOT_FOUND) j)) (\<lambda>jobRow.
     svc_return (running, jobRow))))))"

text \<open>\<open>renew\<close>: the callback of the lease timer; its result is the new value of \<open>leaseLost\<close>.\<close>

definition execute_renew :: "scheduler \<Rightarrow> arun_row \<Rightarrow> int \<Rightarrow> bool \<Rightarrow> bool svc" where
  "execute_renew c running clock leaseLost =
     (if leaseLost then svc_return True
      else
        svc_bind (svc_of (clock_value clock)) (\<lambda>renewedAt.
        svc_bind (transaction (renewRunLease (x_automationRunId running) (sc_ownerId c) renewedAt (renewedAt + sc_leaseDurationMs c))) (\<lambda>renewed.
        svc_return (renewed = None))))"

definition execute_bind :: "scheduler \<Rightarrow> arun_row \<Rightarrow> string \<Rightarrow> int \<Rightarrow> arun_row svc" where
  "execute_bind c running runId clock =
     svc_bind (svc_of (clock_value clock)) (\<lambda>boundAt.
     svc_bind (transaction (bindRunId (x_automationRunId running) (sc_ownerId c) runId boundAt)) (\<lambda>bound.
     svc_of (some_or lease_lost bound)))"

text \<open>An exception of \<open>bindRunId\<close> goes to the executor; what it makes of it is part of the outcome.\<close>

definition execute_event :: "scheduler \<Rightarrow> arun_row \<Rightarrow> exec_event \<Rightarrow> bool \<Rightarrow> bool svc" where
  "execute_event c running e leaseLost = (case e of
     Renew clock \<Rightarrow> execute_renew c running clock leaseLost
   | Bind runId clock \<Rightarrow> (\<lambda>s. (Inr leaseLost, snd (execute_bind c running runId clock s)))
   | Elsewhere d \<Rightarrow> (\<lambda>s. (Inr leaseLost, d)))"

definition automation_code_name :: "automation_code \<Rightarrow> string" where
  "automation_code_name k = (case k of
     AUTOMATION_INVALID_ARGUMENT \<Rightarrow> ''AUTOMATION_INVALID_ARGUMENT''
   | AUTOMATION_INVALID_TIMEZONE \<Rightarrow> ''AUTOMATION_INVALID_TIMEZONE''
   | AUTOMATION_INVALID_SCHEDULE \<Rightarrow> ''AUTOMATION_INVALID_SCHEDULE''
   | AUTOMATION_SCHEDULE_IN_PAST \<Rightarrow> ''AUTOMATION_SCHEDULE_IN_PAST''
   | AUTOMATION_SCHEDULE_NO_FUTURE \<Rightarrow> ''AUTOMATION_SCHEDULE_NO_FUTURE''
   | AUTOMATION_JOB_NOT_FOUND \<Rightarrow> ''AUTOMATION_JOB_NOT_FOUND''
   | AUTOMATION_REVISION_CONFLICT \<Rightarrow> ''AUTOMATION_REVISION_CONFLICT''
   | AUTOMATION_REQUEST_CONFLICT \<Rightarrow> ''AUTOMATION_REQUEST_CONFLICT''
   | AUTOMATION_SCHEDULER_NOT_STARTED \<Rightarrow> ''AUTOMATION_SCHEDULER_NOT_STARTED''
   | AUTOMATION_SCHEDULER_CLOSED \<Rightarrow> ''AUTOMATION_SCHEDULER_CLOSED''
   | AUTOMATION_LEASE_LOST \<Rightarrow> ''AUTOMATION_LEASE_LOST'')"

definition caught :: "err + exec_result \<Rightarrow> exec_result" where
  "caught r = (case r of
     Inr x \<Rightarrow> x
   | Inl (Automation_Error k) \<Rightarrow> Exec_Failed (automation_code_name k) None
   | Inl _ \<Rightarrow> Exec_Failed ''AUTOMATION_EXECUTOR_ERROR'' None)"

definition execute_end :: "scheduler \<Rightarrow> arun_row \<Rightarrow> bool \<Rightarrow> exec_result \<Rightarrow> int \<Rightarrow> bool svc" where
  "execute_end c running leaseLost result clock =
     svc_bind (svc_require (\<not> leaseLost) lease_lost) (\<lambda>_.
     svc_bind (svc_of (clock_value clock)) (\<lambda>terminalAt.
     case result of
       Exec_Succeeded runId \<Rightarrow>
         svc_bind (transaction (finishRun \<lparr>fi_automationRunId = x_automationRunId running, fi_leaseOwner = sc_ownerId c,
           fi_status = SUCCEEDED, fi_runId = runId, fi_errorCode = None, fi_terminalAt = terminalAt\<rparr>)) (\<lambda>completed.
         svc_bind (svc_of (some_or lease_lost completed)) (\<lambda>_. svc_return True))
     | Exec_Failed code runId \<Rightarrow>
         svc_bind (transaction (\<lambda>s. res_bind (sched_errorCode code) (\<lambda>code.
           finishRun \<lparr>fi_automationRunId = x_automationRunId running, fi_leaseOwner = sc_ownerId c,
             fi_status = FAILED, fi_runId = runId, fi_errorCode = Some code, fi_terminalAt = terminalAt\<rparr> s))) (\<lambda>completed.
         svc_bind (svc_of (some_or lease_lost completed)) (\<lambda>_. svc_return False))))"

text \<open>\<open>#executeClaimed\<close>; the result is \<open>True\<close> for \<open>"SUCCEEDED"\<close>. The job is read inside the \<open>try\<close>: a
  job that cannot be read back is a failure of the executor.\<close>

definition executeClaimed :: "intl \<Rightarrow> scheduler \<Rightarrow> turn \<Rightarrow> arun_row \<Rightarrow> bool svc" where
  "executeClaimed zones c t claimed =
     svc_bind (execute_begin c (tn_runningAt t) claimed) (\<lambda>(running, jobRow).
     case sched_jobDomain zones jobRow of
       Inl e \<Rightarrow> execute_end c running False (caught (Inl e)) (tn_terminalAt t)
     | Inr job \<Rightarrow>
         svc_bind (svc_fold (execute_event c running) (tn_events t) False) (\<lambda>leaseLost.
         execute_end c running leaseLost (caught (tn_outcome t)) (tn_terminalAt t)))"

section \<open>Waking\<close>

record wake_result =
  wr_materializedRuns :: nat
  wr_skippedRuns :: nat
  wr_claimedRuns :: nat
  wr_succeededRuns :: nat
  wr_failedRuns :: nat

text \<open>The loop, with the number of runs it may still claim and the turns to come.\<close>

fun wake_loop :: "intl \<Rightarrow> scheduler \<Rightarrow> nat \<Rightarrow> (nat \<Rightarrow> turn) \<Rightarrow> wake_result \<Rightarrow> wake_result svc" where
  "wake_loop zones c 0 turns w = svc_return w"
| "wake_loop zones c (Suc n) turns w =
     (let t = turns (wr_claimedRuns w) in
      if tn_closing t then svc_return w
      else
        svc_bind (svc_of (clock_value (tn_claimedAt t))) (\<lambda>claimedAt.
        svc_bind (claim_next c claimedAt) (\<lambda>claimed.
        case claimed of
          None \<Rightarrow> svc_return w
        | Some run \<Rightarrow>
            svc_bind (executeClaimed zones c t run) (\<lambda>ok.
            wake_loop zones c n turns (w\<lparr>wr_claimedRuns := wr_claimedRuns w + 1,
              wr_succeededRuns := wr_succeededRuns w + (if ok then 1 else 0),
              wr_failedRuns := wr_failedRuns w + (if ok then 0 else 1)\<rparr>)))))"

definition run_wake :: "intl \<Rightarrow> scheduler \<Rightarrow> int \<Rightarrow> string list \<Rightarrow> (nat \<Rightarrow> turn) \<Rightarrow> wake_result svc" where
  "run_wake zones c clock ids turns =
     svc_bind (svc_of (clock_value clock)) (\<lambda>now.
     svc_bind (materializeDue zones c now False ids) (\<lambda>m.
     wake_loop zones c (nat (sc_runLimit c)) turns \<lparr>wr_materializedRuns = ct_materializedRuns m,
       wr_skippedRuns = ct_skippedRuns m, wr_claimedRuns = 0, wr_succeededRuns = 0, wr_failedRuns = 0\<rparr>))"

section \<open>The life of a scheduler\<close>

definition MAX_TIMER_DELAY_MS :: int where
  "MAX_TIMER_DELAY_MS = 2147000000"

text \<open>\<open>#armTimer\<close>: the armed timer is the delay it was set with.\<close>

definition armTimer :: "int \<Rightarrow> db \<Rightarrow> scheduler \<Rightarrow> err + scheduler" where
  "armTimer clock s c =
     (if \<not> sc_autoArm c \<or> \<not> sc_started c \<or> sc_closing c \<or> sc_closed c \<or> sc_timer c \<noteq> None then Inr c
      else
        res_bind (clock_value clock) (\<lambda>now.
        case nextWakeAt now s of
          None \<Rightarrow> Inr c
        | Some wakeAt \<Rightarrow> Inr (c\<lparr>sc_timer := Some (max 0 (min MAX_TIMER_DELAY_MS (wakeAt - now)))\<rparr>)))"

definition scheduler_closed :: err where
  "scheduler_closed = Automation_Error AUTOMATION_SCHEDULER_CLOSED"

text \<open>\<open>start\<close>: what an exception leaves behind is returned with it.\<close>

definition scheduler_start :: "intl \<Rightarrow> int \<Rightarrow> int \<Rightarrow> string list \<Rightarrow> scheduler \<Rightarrow> db \<Rightarrow> (err + unit) \<times> scheduler \<times> db" where
  "scheduler_start zones clock clock2 ids c s =
     (if sc_closed c \<or> sc_closing c then (Inl scheduler_closed, c, s)
      else if sc_started c then (Inr (), c, s)
      else
        let c1 = c\<lparr>sc_started := True\<rparr> in
        (case svc_bind (svc_of (clock_value clock)) (\<lambda>now. transaction (recoverExpiredRuns now)) s of
           (Inl e, s1) \<Rightarrow> (Inl e, c1, s1)
         | (Inr recovered, s1) \<Rightarrow>
             let c2 = c1\<lparr>sc_recoveredClaims := sc_recoveredClaims c1 + int (length (rv_requeued recovered)),
                         sc_interruptedRuns := sc_interruptedRuns c1 + int (length (rv_failed recovered))\<rparr> in
             (case materializeDue zones c2 clock True ids s1 of
                (Inl e, s2) \<Rightarrow> (Inl e, c2, s2)
              | (Inr m, s2) \<Rightarrow>
                  (case armTimer clock2 s2 c2 of
                     Inl e \<Rightarrow> (Inl e, c2, s2)
                   | Inr c3 \<Rightarrow> (Inr (), c3, s2)))))"

text \<open>\<open>wake\<close> up to the first \<open>await\<close>: refused, joined to the wake under way, or begun (\<open>True\<close>). The first
  statements of \<open>#runWake\<close> run before the promise is kept, so \<open>lastWakeAt\<close> is set here.\<close>

definition wake_begin :: "int \<Rightarrow> scheduler \<Rightarrow> (err + bool) \<times> scheduler" where
  "wake_begin clock c =
     (if sc_closing c \<or> sc_closed c then (Inl scheduler_closed, c)
      else if \<not> sc_started c then (Inl (Automation_Error AUTOMATION_SCHEDULER_NOT_STARTED), c)
      else if sc_waking c then (Inr False, c)
      else (Inr True, c\<lparr>sc_timer := None, sc_waking := True,
        sc_lastWakeAt := (case clock_value clock of Inl _ \<Rightarrow> sc_lastWakeAt c | Inr now \<Rightarrow> Some now)\<rparr>))"

text \<open>\<open>finally\<close>: an exception of \<open>#armTimer\<close> replaces the outcome.\<close>

definition wake_end :: "int \<Rightarrow> db \<Rightarrow> scheduler \<Rightarrow> err + scheduler" where
  "wake_end clock s c =
     (let c1 = c\<lparr>sc_waking := False\<rparr> in
      if \<not> sc_closing c1 \<and> \<not> sc_closed c1 then armTimer clock s c1 else Inr c1)"

definition timer_fires :: "int \<Rightarrow> scheduler \<Rightarrow> scheduler" where
  "timer_fires clock c = snd (wake_begin clock (c\<lparr>sc_timer := None\<rparr>))"

text \<open>\<open>close\<close>. Its promise is absent, pending or settled; it settles when the wake under way does, and an
  exception of that wake leaves the \<open>async\<close> function before the flags are set.\<close>

definition close_begin :: "scheduler \<Rightarrow> scheduler" where
  "close_begin c = (if sc_closePromise c \<noteq> None then c
     else c\<lparr>sc_closing := True, sc_timer := None, sc_closePromise := Some None\<rparr>)"

definition close_end :: "err + unit \<Rightarrow> scheduler \<Rightarrow> scheduler" where
  "close_end wake c = (case wake of
     Inl e \<Rightarrow> c\<lparr>sc_closePromise := Some (Some (Inl e))\<rparr>
   | Inr _ \<Rightarrow> c\<lparr>sc_started := False, sc_closed := True, sc_closing := False, sc_closePromise := Some (Some (Inr ()))\<rparr>)"

section \<open>Steps of its life\<close>

text \<open>What the host and the event loop can do to a scheduler, in any order. \<open>start_done\<close> is the end of a
  \<open>start\<close> whose \<open>await\<close> let other calls in between.\<close>

inductive life_step :: "intl \<Rightarrow> scheduler \<Rightarrow> scheduler \<Rightarrow> bool" for zones where
  start: "scheduler_start zones clock clock2 ids c s = (r, c', s') \<Longrightarrow> life_step zones c c'"
| start_done: "armTimer clock s c = Inr c' \<Longrightarrow> life_step zones c c'"
| wake: "wake_begin clock c = (r, c') \<Longrightarrow> life_step zones c c'"
| fire: "sc_timer c \<noteq> None \<Longrightarrow> life_step zones c (timer_fires clock c)"
| wake_done: "sc_waking c \<Longrightarrow> wake_end clock s c = Inr c' \<Longrightarrow> life_step zones c c'"
| wake_failed: "sc_waking c \<Longrightarrow> wake_end clock s c = Inl e \<Longrightarrow> life_step zones c (c\<lparr>sc_waking := False\<rparr>)"
| close: "life_step zones c (close_begin c)"
| close_done: "sc_closePromise c = Some None \<Longrightarrow> life_step zones c (close_end r c)"

end
