(* ===== verification/Automation_Machine.thy ===== *)
theory Automation_Machine
  imports Automation_Ledger
begin

text \<open>
  What every operation on automations keeps: the invariant \<open>autos_inv\<close> (keys are unique, a lease is
  present exactly while a run is claimed or running, the constraints of the schema) and that runs
  evolve along their life cycle (\<open>arun_evolves\<close>): a run that has ended never changes again. The step
  relation \<open>auto_step\<close> has one rule per operation of the repository.
\<close>

section \<open>The invariant\<close>

definition arun_terminal :: "arun_status \<Rightarrow> bool" where
  "arun_terminal st \<longleftrightarrow> st \<in> {SUCCEEDED, FAILED, SKIPPED, CANCELLED}"

definition arun_shape :: "arun_row \<Rightarrow> bool" where
  "arun_shape r \<longleftrightarrow> arun_checks r \<and> (x_leaseOwner r \<noteq> None \<longleftrightarrow> x_status r \<in> {CLAIMED, RUNNING})"

definition unique_requests :: "arun_row list \<Rightarrow> bool" where
  "unique_requests rs \<longleftrightarrow> distinct (map x_requestKey (filter (\<lambda>r. x_requestKey r \<noteq> None) rs))"

definition autos_inv :: "db \<Rightarrow> bool" where
  "autos_inv s \<longleftrightarrow>
     distinct (map j_jobId (automation_jobs s)) \<and> (\<forall>j \<in> set (automation_jobs s). job_checks j)
     \<and> distinct (map x_automationRunId (automation_runs s))
     \<and> distinct (map (\<lambda>r. (x_jobId r, x_scheduledFor r)) (automation_runs s))
     \<and> unique_requests (automation_runs s)
     \<and> (\<forall>r \<in> set (automation_runs s). arun_shape r \<and> getJob (x_jobId r) s \<noteq> None)"

text \<open>The arrows of the life cycle: a run is claimed, started and finished, and recovery gives it back to the queue or fails it.\<close>

definition arun_next :: "arun_status \<Rightarrow> arun_status set" where
  "arun_next st = (case st of
     PENDING \<Rightarrow> {CLAIMED}
   | CLAIMED \<Rightarrow> {RUNNING, PENDING}
   | RUNNING \<Rightarrow> {SUCCEEDED, FAILED, CANCELLED, PENDING}
   | _ \<Rightarrow> {})"

definition arun_same :: "arun_row \<Rightarrow> arun_row \<Rightarrow> bool" where
  "arun_same r r' \<longleftrightarrow> x_automationRunId r' = x_automationRunId r \<and> x_jobId r' = x_jobId r
     \<and> x_scheduledFor r' = x_scheduledFor r \<and> x_triggerKind r' = x_triggerKind r
     \<and> x_requestKey r' = x_requestKey r \<and> x_createdAt r' = x_createdAt r"

text \<open>One operation: the run follows one arrow, where claiming it counts an attempt, or its holder renews the lease or binds it.\<close>

definition arun_moves :: "arun_row \<Rightarrow> arun_row \<Rightarrow> bool" where
  "arun_moves r r' \<longleftrightarrow> r' = r
     \<or> arun_same r r' \<and> x_status r' \<in> arun_next (x_status r) \<and> x_attempt r' = x_attempt r + (if x_status r' = CLAIMED then 1 else 0)
     \<or> arun_same r r' \<and> x_status r \<in> {CLAIMED, RUNNING} \<and> x_status r' = x_status r \<and> x_attempt r' = x_attempt r
         \<and> x_leaseOwner r' = x_leaseOwner r"

definition runs_move :: "db \<Rightarrow> db \<Rightarrow> bool" where
  "runs_move s s' \<longleftrightarrow> (\<forall>k r. arun_get k s = Some r \<longrightarrow> (\<exists>r'. arun_get k s' = Some r' \<and> arun_moves r r'))"

text \<open>Any number of operations: who the run is stays, attempts only grow, an ended run is frozen.\<close>

definition arun_evolves :: "arun_row \<Rightarrow> arun_row \<Rightarrow> bool" where
  "arun_evolves r r' \<longleftrightarrow> arun_same r r' \<and> x_attempt r \<le> x_attempt r' \<and> (arun_terminal (x_status r) \<longrightarrow> r' = r)"

definition runs_evolve :: "db \<Rightarrow> db \<Rightarrow> bool" where
  "runs_evolve s s' \<longleftrightarrow> (\<forall>k r. arun_get k s = Some r \<longrightarrow> (\<exists>r'. arun_get k s' = Some r' \<and> arun_evolves r r'))"

lemma arun_evolves_refl: "arun_evolves r r"
  by (simp add: arun_evolves_def arun_same_def)

lemma arun_evolves_trans: "arun_evolves a b \<Longrightarrow> arun_evolves b c \<Longrightarrow> arun_evolves a c"
  by (auto simp: arun_evolves_def arun_same_def)

definition auto_step_ok :: "db \<Rightarrow> db \<Rightarrow> bool" where
  "auto_step_ok s s' \<longleftrightarrow> (autos_inv s \<longrightarrow> autos_inv s' \<and> runs_evolve s s')"

lemma runs_evolve_refl: "runs_evolve s s"
  by (auto simp: runs_evolve_def intro: arun_evolves_refl)

lemma runs_evolve_trans: "runs_evolve a b \<Longrightarrow> runs_evolve b c \<Longrightarrow> runs_evolve a c"
  unfolding runs_evolve_def by (meson arun_evolves_trans)

interpretation autos: step_preorder auto_step_ok
  by unfold_locales (auto simp: auto_step_ok_def intro: runs_evolve_refl runs_evolve_trans)

section \<open>Writes\<close>

lemma arun_write_Inr:
  "arun_write p f s = Inr (s', n) \<longleftrightarrow>
     (\<forall>r \<in> set (automation_runs s). p r \<longrightarrow> arun_checks (f r) \<and> (x_runId (f r) = x_runId r \<or> run_exists (x_runId (f r)) s))
     \<and> s' = s\<lparr>automation_runs := tbl_modify p f (automation_runs s)\<rparr> \<and> n = tbl_changes p (automation_runs s)"
  by (auto simp: arun_write_def list_all_iff)

lemma job_write_Inr:
  "job_write p f s = Inr (s', n) \<longleftrightarrow> (\<forall>r \<in> set (automation_jobs s). p r \<longrightarrow> job_checks (f r))
     \<and> s' = s\<lparr>automation_jobs := tbl_modify p f (automation_jobs s)\<rparr> \<and> n = tbl_changes p (automation_jobs s)"
  by (auto simp: job_write_def list_all_iff)

lemma getJob_None: "getJob k s = None \<longleftrightarrow> k \<notin> set (map j_jobId (automation_jobs s))"
  by (simp add: getJob_def tbl_get_None)

lemma map_tbl_modify: "(\<And>r. r \<in> set rows \<Longrightarrow> p r \<Longrightarrow> g (f r) = g r) \<Longrightarrow> map g (tbl_modify p f rows) = map g rows"
  by (simp add: tbl_modify_def)

lemma filter_tbl_modify:
  "(\<And>r. r \<in> set rows \<Longrightarrow> p r \<Longrightarrow> g (f r) = g r) \<Longrightarrow>
   map g (filter (\<lambda>r. g r \<noteq> None) (tbl_modify p f rows)) = map g (filter (\<lambda>r. g r \<noteq> None) rows)"
  by (induction rows) (auto simp: tbl_modify_def)

lemma job_write_step:
  assumes "job_write p f s = Inr (s', n)" and "\<And>r. j_jobId (f r) = j_jobId r"
  shows "auto_step_ok s s'"
proof -
  from assms(1) have s': "s' = s\<lparr>automation_jobs := tbl_modify p f (automation_jobs s)\<rparr>"
    and ok: "\<forall>r \<in> set (automation_jobs s). p r \<longrightarrow> job_checks (f r)" by (auto simp: job_write_Inr)
  have ids: "map j_jobId (automation_jobs s') = map j_jobId (automation_jobs s)" by (simp add: s' assms(2))
  then have "getJob k s' = None \<longleftrightarrow> getJob k s = None" for k by (simp add: getJob_None)
  moreover note ids
  moreover have "\<forall>j \<in> set (automation_jobs s'). job_checks j" if "\<forall>j \<in> set (automation_jobs s). job_checks j"
    using that ok by (auto simp: s' set_tbl_modify)
  moreover have "automation_runs s' = automation_runs s" by (simp add: s')
  moreover from this have "runs_evolve s s'" by (auto simp: runs_evolve_def arun_get_def intro: arun_evolves_refl)
  ultimately show ?thesis by (simp add: auto_step_ok_def autos_inv_def)
qed

lemma arun_write_step:
  assumes w: "arun_write p f s = Inr (s', n)"
    and f: "\<And>r. r \<in> set (automation_runs s) \<Longrightarrow> p r \<Longrightarrow> arun_shape r \<Longrightarrow>
      arun_evolves r (f r) \<and> (x_leaseOwner (f r) \<noteq> None \<longleftrightarrow> x_status (f r) \<in> {CLAIMED, RUNNING})"
    and id: "\<And>r. x_automationRunId (f r) = x_automationRunId r"
  shows "auto_step_ok s s'"
  unfolding auto_step_ok_def
proof (intro impI conjI)
  assume inv: "autos_inv s"
  from w have s': "s' = s\<lparr>automation_runs := tbl_modify p f (automation_runs s)\<rparr>"
    and ok: "\<And>r. r \<in> set (automation_runs s) \<Longrightarrow> p r \<Longrightarrow> arun_checks (f r)" by (auto simp: arun_write_Inr)
  have row: "arun_evolves r (f r)" "arun_shape (f r)" if "r \<in> set (automation_runs s)" "p r" for r
    using f [OF that] ok [OF that] inv that by (auto simp: autos_inv_def arun_shape_def)
  have keys: "x_jobId (f r) = x_jobId r" "x_scheduledFor (f r) = x_scheduledFor r" "x_requestKey (f r) = x_requestKey r"
    if "r \<in> set (automation_runs s)" "p r" for r
    using row(1) [OF that] by (simp_all add: arun_evolves_def arun_same_def)
  have "unique_requests (automation_runs s')"
    using inv filter_tbl_modify [of "automation_runs s" p x_requestKey f] keys by (simp add: s' unique_requests_def autos_inv_def)
  moreover have "map (\<lambda>r. (x_jobId r, x_scheduledFor r)) (automation_runs s') = map (\<lambda>r. (x_jobId r, x_scheduledFor r)) (automation_runs s)"
    unfolding s' by simp (rule map_tbl_modify, simp add: keys)
  moreover have "\<forall>r \<in> set (automation_runs s'). arun_shape r \<and> getJob (x_jobId r) s' \<noteq> None"
    using inv row keys by (auto simp: s' set_tbl_modify autos_inv_def getJob_def)
  moreover have "map x_automationRunId (automation_runs s') = map x_automationRunId (automation_runs s)"
    by (simp add: s' id)
  ultimately show "autos_inv s'" using inv by (simp add: autos_inv_def s')
  show "runs_evolve s s'"
    unfolding runs_evolve_def arun_get_def s'
    using inv row(1) by (auto simp: tbl_get_modify id autos_inv_def intro: arun_evolves_refl dest!: tbl_get_key)
qed

section \<open>Inserting runs\<close>

lemma unique_requests_append:
  assumes "unique_requests rs" and "\<And>k. x_requestKey r = Some k \<Longrightarrow> tbl_get x_requestKey (Some k) rs = None"
  shows "unique_requests (rs @ [r])"
  using assms by (cases "x_requestKey r") (auto simp: unique_requests_def tbl_get_None image_iff)

lemma arun_insert_cases:
  assumes "arun_insert row s = Inr (s', created, r)"
  obtains (found) "\<not> created" "s' = s" "getRunBySchedule (x_jobId row) (x_scheduledFor row) s = Some r"
  | (inserted) "created" "r = row" "s' = s\<lparr>automation_runs := automation_runs s @ [row]\<rparr>" "arun_checks row"
      "getRunBySchedule (x_jobId row) (x_scheduledFor row) s = None" "arun_get (x_automationRunId row) s = None"
      "\<And>k. x_requestKey row = Some k \<Longrightarrow> getRunByRequestKey k s = None" "arun_refs row s"
  using assms by (auto simp: arun_insert_def split: option.splits if_splits)

definition unleased :: "arun_row \<Rightarrow> bool" where
  "unleased r \<longleftrightarrow> x_leaseOwner r = None \<and> x_status r \<notin> {CLAIMED, RUNNING}"

lemma arun_insert_step:
  assumes "arun_insert row s = Inr (s', created, r)" and "unleased row"
  shows "auto_step_ok s s'"
  using assms(1)
proof (cases rule: arun_insert_cases)
  case found
  then show ?thesis by (simp add: autos.refl)
next
  case inserted
  show ?thesis
    unfolding auto_step_ok_def
  proof (intro impI conjI)
    assume inv: "autos_inv s"
    have "unique_requests (automation_runs s')"
      using unique_requests_append [of "automation_runs s" row] inv inserted(3,7)
      by (simp add: autos_inv_def getRunByRequestKey_def)
    moreover have "arun_shape row" using inserted(4) assms(2) by (auto simp: arun_shape_def unleased_def)
    moreover have "getJob k s' = getJob k s" for k by (simp add: inserted(3) getJob_def)
    ultimately show "autos_inv s'"
      using inv inserted
      by (auto simp: autos_inv_def arun_refs_def getJob_def arun_get_def getRunBySchedule_def tbl_get_None)
    show "runs_evolve s s'"
      by (auto simp: runs_evolve_def inserted(3) arun_get_def tbl_get_append intro: arun_evolves_refl)
  qed
qed

lemma insert_runs_step: "insert_runs rs s = Inr (s', stored) \<Longrightarrow> list_all unleased rs \<Longrightarrow> auto_step_ok s s'"
proof (induction rs arbitrary: s stored)
  case Nil
  then show ?case by (simp add: autos.refl)
next
  case (Cons r rs)
  then obtain s1 c x rest where i: "arun_insert r s = Inr (s1, c, x)" "insert_runs rs s1 = Inr (s', rest)" by auto
  from arun_insert_step [OF i(1)] Cons.IH [OF i(2)] Cons.prems(2) show ?case by (auto intro: autos.trans)
qed

lemma manual_row_unleased [simp]: "unleased (manual_row i t)"
  by (simp add: unleased_def manual_row_def)

lemma manual_loop_step: "manual_loop i n t s = Inr (s', c, r) \<Longrightarrow> auto_step_ok s s'"
proof (induction n arbitrary: t s)
  case 0
  then show ?case by simp
next
  case (Suc n)
  show ?case
  proof (cases "arun_insert (manual_row i t) s")
    case (Inl e)
    with Suc show ?thesis by (auto simp: manual_loop_Suc split: if_splits option.splits intro: autos.refl)
  next
    case (Inr x)
    obtain s1 c1 r1 where x: "x = (s1, c1, r1)" by (cases x)
    note st = arun_insert_step [OF Inr [unfolded x] manual_row_unleased]
    show ?thesis
      using Suc Inr x st by (auto simp: manual_loop_Suc split: if_splits intro: autos.trans)
  qed
qed

lemma reserveManualRun_step: "reserveManualRun i s = Inr (s', c, r) \<Longrightarrow> auto_step_ok s s'"
  by (auto simp: reserveManualRun_def split: option.splits if_splits intro: manual_loop_step autos.refl)

section \<open>Jobs\<close>

lemma insertJob_step: "insertJob row s = Inr (s', r) \<Longrightarrow> auto_step_ok s s'"
proof -
  assume "insertJob row s = Inr (s', r)"
  then have s': "s' = s\<lparr>automation_jobs := automation_jobs s @ [job_stored row]\<rparr>" "job_checks row" "getJob (j_jobId row) s = None"
    by (auto simp: insertJob_def split: if_splits)
  moreover have "job_checks (job_stored row)" using s'(2) by (simp add: job_checks_def job_stored_def split: option.splits)
  moreover have "j_jobId (job_stored row) = j_jobId row" by (simp add: job_stored_def)
  ultimately show ?thesis
    by (auto simp: auto_step_ok_def autos_inv_def runs_evolve_def arun_get_def getJob_None intro: arun_evolves_refl)
qed

lemma updateJobConfig_step: "updateJobConfig i s = Inr (s', r) \<Longrightarrow> auto_step_ok s s'"
  by (auto simp: updateJobConfig_def split: if_splits option.splits elim!: job_write_step) (simp add: job_configured_def)

lemma updateJobRuntime_step: "updateJobRuntime k a b c d s = Inr (s', r) \<Longrightarrow> auto_step_ok s s'"
  by (auto simp: updateJobRuntime_def split: if_splits option.splits elim!: job_write_step)

lemma materializeDueJob_step:
  assumes "materializeDueJob i s = Inr (s', r)" and "list_all unleased (mz_runs i)"
  shows "auto_step_ok s s'"
proof (cases "insert_runs (mz_runs i) s")
  case (Inl e)
  with assms show ?thesis by (auto simp: materializeDueJob_def Let_def split: if_splits intro: autos.refl)
next
  case (Inr x)
  obtain s1 st where x: "x = (s1, st)" by (cases x)
  have "s' = s \<or> (\<exists>p f n. job_write p f s1 = Inr (s', n) \<and> (\<forall>r. j_jobId (f r) = j_jobId r))"
    using assms(1) Inr x by (fastforce simp: materializeDueJob_def Let_def advance_cursor_def split: if_splits)
  with insert_runs_step [OF Inr [unfolded x] assms(2)] show ?thesis
    by (auto intro: autos.refl autos.trans [OF _ job_write_step])
qed

section \<open>Leases\<close>

lemmas arun_step_defs = arun_evolves_def arun_same_def arun_terminal_def arun_shape_def

lemma arun_changed_eq [simp]: "arun_changed k w = (s', ro) \<longleftrightarrow> s' = fst w \<and> ro = (if snd w = 1 then arun_get k s' else None)"
  by (cases w) (auto simp: arun_changed_def)

lemma bindRunId_step: "bindRunId k ow run at s = Inr (s', ro) \<Longrightarrow> auto_step_ok s s'"
  by (auto simp: bindRunId_def arun_step_defs split: if_splits intro: autos.refl elim!: arun_write_step)

lemma claimRun_step: "claimRun k ow a e s = Inr (s', ro) \<Longrightarrow> auto_step_ok s s'"
  by (auto simp: claimRun_def arun_step_defs elim!: arun_write_step)

lemma markRunRunning_step: "markRunRunning k ow a e s = Inr (s', ro) \<Longrightarrow> auto_step_ok s s'"
  by (auto simp: markRunRunning_def arun_step_defs elim!: arun_write_step)

lemma renewRunLease_step: "renewRunLease k ow a e s = Inr (s', ro) \<Longrightarrow> auto_step_ok s s'"
  by (auto simp: renewRunLease_def arun_step_defs elim!: arun_write_step)

lemma finishRun_step:
  assumes "finishRun i s = Inr (s', ro)" and "fi_status i \<in> {SUCCEEDED, FAILED, CANCELLED}"
  shows "auto_step_ok s s'"
proof -
  have w: "auto_step_ok s s1" if "arun_write (\<lambda>r. x_automationRunId r = fi_automationRunId i \<and> x_status r = RUNNING
        \<and> lease_valid (fi_leaseOwner i) (fi_terminalAt i) r)
      (\<lambda>r. (released (fi_status i) (fi_errorCode i) (fi_terminalAt i) r)
         \<lparr>x_runId := (case fi_runId i of None \<Rightarrow> x_runId r | Some k \<Rightarrow> Some k)\<rparr>) s = Inr (s1, n)" for s1 n
    using that assms(2)
    by (auto simp: released_def arun_step_defs elim!: arun_write_step)
  show ?thesis
    using assms(1) unfolding finishRun_def
    by (auto split: option.splits if_splits intro: autos.refl w autos.trans [OF w job_write_step] simp: count_outcome_def)
qed

section \<open>Recovery\<close>

lemma released_step:
  assumes "arun_write (\<lambda>r. x_automationRunId r = k \<and> x_status r = st \<and> lease_expired now r) (released st' e now) s = Inr (s', n)"
    and "st' \<in> arun_next st" and "st' \<notin> {CLAIMED, RUNNING}"
  shows "auto_step_ok s s'"
proof -
  have "\<not> arun_terminal st" using assms(2) by (cases st) (auto simp: arun_next_def arun_terminal_def)
  then show ?thesis
    using assms
    by (auto simp: released_def arun_evolves_def arun_same_def elim!: arun_write_step)
qed

lemma requeue_step: "requeue st now run acc s = Inr (s', acc') \<Longrightarrow> st \<in> {CLAIMED, RUNNING} \<Longrightarrow> auto_step_ok s s'"
  by (auto simp: requeue_def elim!: released_step) (auto simp: arun_next_def)

lemma recover_run_step: "recover_run now run (s, acc) = Inr (s', acc') \<Longrightarrow> auto_step_ok s s'"
proof -
  assume a: "recover_run now run (s, acc) = Inr (s', acc')"
  have w: "auto_step_ok s s1" if "arun_write (\<lambda>r. x_automationRunId r = x_automationRunId run \<and> x_status r = RUNNING \<and> lease_expired now r)
      (released FAILED (Some ''AUTOMATION_INTERRUPTED_BY_RESTART'') now) s = Inr (s1, n)" for s1 n
    using that by (rule released_step) (auto simp: arun_next_def)
  consider (claimed) "x_status run = CLAIMED" | (resumable) "x_status run \<noteq> CLAIMED" "resumable_run (x_runId run) s"
    | (lost) "x_status run \<noteq> CLAIMED" "\<not> resumable_run (x_runId run) s" by blast
  then show ?thesis
  proof cases
    case lost
    with a obtain s1 n where s1: "arun_write (\<lambda>r. x_automationRunId r = x_automationRunId run \<and> x_status r = RUNNING \<and> lease_expired now r)
      (released FAILED (Some ''AUTOMATION_INTERRUPTED_BY_RESTART'') now) s = Inr (s1, n)"
      by (auto simp: recover_run_def)
    with a lost have "s' = s1 \<or> (\<exists>m. job_write (\<lambda>j. j_jobId j = x_jobId run) (count_outcome (x_scheduledFor run) True now) s1 = Inr (s', m))"
      by (cases "arun_get (x_automationRunId run) s1") (auto simp: recover_run_def split: if_splits)
    with w [OF s1] show ?thesis by (auto intro: autos.trans [OF _ job_write_step] simp: count_outcome_def)
  qed (use a in \<open>auto simp: recover_run_def intro: requeue_step\<close>)
qed

lemma recoverExpiredRuns_step: "recoverExpiredRuns now s = Inr (s', acc) \<Longrightarrow> auto_step_ok s s'"
  unfolding recoverExpiredRuns_def
  by (drule res_fold_invariant [where P = "\<lambda>(t, a). auto_step_ok s t"])
    (auto intro: autos.refl autos.trans recover_run_step)

section \<open>Steps\<close>

inductive auto_step :: "db \<Rightarrow> db \<Rightarrow> bool" where
  job_new: "insertJob row s = Inr (s', r) \<Longrightarrow> auto_step s s'"
| job_config: "updateJobConfig i s = Inr (s', r) \<Longrightarrow> auto_step s s'"
| job_runtime: "updateJobRuntime k a b c d s = Inr (s', r) \<Longrightarrow> auto_step s s'"
| run_new: "arun_insert row s = Inr (s', x) \<Longrightarrow> unleased row \<Longrightarrow> auto_step s s'"
| run_manual: "reserveManualRun m s = Inr (s', x) \<Longrightarrow> auto_step s s'"
| run_bind: "bindRunId k ow run t s = Inr (s', ro) \<Longrightarrow> auto_step s s'"
| materialize: "materializeDueJob mz s = Inr (s', md) \<Longrightarrow> list_all unleased (mz_runs mz) \<Longrightarrow> auto_step s s'"
| claim: "claimRun k ow t e s = Inr (s', ro) \<Longrightarrow> auto_step s s'"
| running: "markRunRunning k ow t e s = Inr (s', ro) \<Longrightarrow> auto_step s s'"
| renew: "renewRunLease k ow t e s = Inr (s', ro) \<Longrightarrow> auto_step s s'"
| finish: "finishRun f s = Inr (s', ro) \<Longrightarrow> fi_status f \<in> {SUCCEEDED, FAILED, CANCELLED} \<Longrightarrow> auto_step s s'"
| recover: "recoverExpiredRuns now s = Inr (s', rv) \<Longrightarrow> auto_step s s'"

lemma auto_step_keeps: "auto_step s s' \<Longrightarrow> auto_step_ok s s'"
proof (induction rule: auto_step.induct)
  case (run_new row s s' x)
  then show ?case by (cases x) (auto intro: arun_insert_step)
next
  case (run_manual m s s' x)
  then show ?case by (cases x) (auto intro: reserveManualRun_step)
qed (auto intro: insertJob_step updateJobConfig_step updateJobRuntime_step bindRunId_step materializeDueJob_step
    claimRun_step markRunRunning_step renewRunLease_step finishRun_step recoverExpiredRuns_step)

lemma auto_steps_keep: "auto_step\<^sup>*\<^sup>* s s' \<Longrightarrow> auto_step_ok s s'"
  by (induction rule: rtranclp_induct) (auto intro: autos.refl autos.trans auto_step_keeps)

section \<open>One step\<close>

text \<open>A step moves every run at most once, the recovery of all expired runs included.\<close>

definition runs_keep :: "db \<Rightarrow> db \<Rightarrow> bool" where
  "runs_keep s s' \<longleftrightarrow> (\<forall>k r. arun_get k s = Some r \<longrightarrow> arun_get k s' = Some r)"

lemma runs_keep_refl: "runs_keep s s"
  by (simp add: runs_keep_def)

lemma runs_keep_trans: "runs_keep a b \<Longrightarrow> runs_keep b c \<Longrightarrow> runs_keep a c"
  by (simp add: runs_keep_def)

lemma runs_keep_move: "runs_keep s s' \<Longrightarrow> runs_move s s'"
  by (simp add: runs_keep_def runs_move_def arun_moves_def)

lemma runs_move_keep: "runs_move a b \<Longrightarrow> runs_keep b c \<Longrightarrow> runs_move a c"
  unfolding runs_move_def runs_keep_def by blast

lemma job_write_keeps: "job_write p f s = Inr (s', n) \<Longrightarrow> runs_keep s s'"
  by (auto simp: job_write_Inr runs_keep_def arun_get_def)

lemma arun_insert_keeps: "arun_insert row s = Inr (s', c, r) \<Longrightarrow> runs_keep s s'"
  by (erule arun_insert_cases) (auto simp: runs_keep_def arun_get_def tbl_get_append)

lemma insert_runs_keeps: "insert_runs rs s = Inr (s', stored) \<Longrightarrow> runs_keep s s'"
  by (induction rs arbitrary: s stored) (auto intro: runs_keep_refl runs_keep_trans dest: arun_insert_keeps)

lemma manual_loop_keeps: "manual_loop i n t s = Inr (s', c, r) \<Longrightarrow> runs_keep s s'"
proof (induction n arbitrary: t s)
  case (Suc n)
  then show ?case
    by (auto simp: manual_loop_Suc split: sum.splits if_splits option.splits intro: runs_keep_refl dest: arun_insert_keeps)
      (meson runs_keep_trans arun_insert_keeps)+
qed simp

lemma reserveManualRun_keeps: "reserveManualRun i s = Inr (s', c, r) \<Longrightarrow> runs_keep s s'"
  by (auto simp: reserveManualRun_def split: option.splits if_splits intro: manual_loop_keeps runs_keep_refl)

lemma materializeDueJob_keeps: "materializeDueJob i s = Inr (s', r) \<Longrightarrow> runs_keep s s'"
  by (auto simp: materializeDueJob_def Let_def split: option.splits if_splits
      intro: runs_keep_refl runs_keep_trans dest!: insert_runs_keeps job_write_keeps)

lemma job_calls_keep:
  "insertJob row s = Inr (s1, r) \<Longrightarrow> runs_keep s s1"
  "updateJobConfig i s = Inr (s2, r) \<Longrightarrow> runs_keep s s2"
  "updateJobRuntime k a b c d s = Inr (s3, r) \<Longrightarrow> runs_keep s s3"
  by (auto simp: insertJob_def updateJobConfig_def updateJobRuntime_def runs_keep_def arun_get_def
      split: if_splits option.splits dest!: job_write_keeps [unfolded runs_keep_def arun_get_def])

lemma arun_write_rows:
  assumes "arun_write p f s = Inr (s', n)" and "\<And>r. x_automationRunId (f r) = x_automationRunId r"
  shows "arun_get k s' = map_option (\<lambda>r. if p r then f r else r) (arun_get k s)"
proof -
  have "tbl_get x_automationRunId k (tbl_modify p f rows) = map_option (\<lambda>r. if p r then f r else r) (tbl_get x_automationRunId k rows)" for rows
    by (induction rows) (auto simp: tbl_get_def tbl_modify_def assms(2))
  then show ?thesis using assms(1) by (simp add: arun_write_Inr arun_get_def)
qed

lemma arun_write_moves:
  assumes "arun_write p f s = Inr (s', n)" and "\<And>r. p r \<Longrightarrow> arun_moves r (f r)" and "\<And>r. x_automationRunId (f r) = x_automationRunId r"
  shows "runs_move s s'"
proof -
  have "arun_moves r (if p r then f r else r)" for r using assms(2) by (simp add: arun_moves_def)
  with arun_write_rows [OF assms(1,3)] show ?thesis by (simp add: runs_move_def)
qed

lemmas arun_move_defs = arun_moves_def arun_same_def arun_next_def released_def

lemma lease_calls_move:
  "claimRun k ow a e s = Inr (s1, ro) \<Longrightarrow> runs_move s s1"
  "markRunRunning k ow a e s = Inr (s2, ro) \<Longrightarrow> runs_move s s2"
  "renewRunLease k ow a e s = Inr (s3, ro) \<Longrightarrow> runs_move s s3"
  "bindRunId k ow run at s = Inr (s4, ro) \<Longrightarrow> runs_move s s4"
  by (auto simp: claimRun_def markRunRunning_def renewRunLease_def bindRunId_def arun_move_defs split: if_splits
      intro: runs_keep_move [OF runs_keep_refl] elim!: arun_write_moves)

lemma finishRun_moves:
  assumes "finishRun i s = Inr (s', ro)" and "fi_status i \<in> {SUCCEEDED, FAILED, CANCELLED}"
  shows "runs_move s s'"
proof -
  have w: "runs_move s s1" if "arun_write (\<lambda>r. x_automationRunId r = fi_automationRunId i \<and> x_status r = RUNNING
        \<and> lease_valid (fi_leaseOwner i) (fi_terminalAt i) r)
      (\<lambda>r. (released (fi_status i) (fi_errorCode i) (fi_terminalAt i) r)
         \<lparr>x_runId := (case fi_runId i of None \<Rightarrow> x_runId r | Some k \<Rightarrow> Some k)\<rparr>) s = Inr (s1, n)" for s1 n
    using that by (rule arun_write_moves) (use assms(2) in \<open>auto simp: arun_move_defs\<close>)
  show ?thesis
    using assms(1) unfolding finishRun_def
    by (auto split: option.splits if_splits intro: runs_keep_move [OF runs_keep_refl] w runs_move_keep [OF w job_write_keeps])
qed

text \<open>Recovering one run moves that run at most and keeps the others.\<close>

definition run_moves :: "string \<Rightarrow> db \<Rightarrow> db \<Rightarrow> bool" where
  "run_moves i s s' \<longleftrightarrow> runs_move s s' \<and> (\<forall>k. k \<noteq> i \<longrightarrow> arun_get k s' = arun_get k s)"

lemma released_moves:
  assumes "arun_write (\<lambda>r. x_automationRunId r = i \<and> x_status r = st \<and> lease_expired now r) (released st' e now) s = Inr (s', n)"
    and "st' \<in> arun_next st" and "st' \<noteq> CLAIMED"
  shows "run_moves i s s'"
proof -
  have "runs_move s s'" by (rule arun_write_moves [OF assms(1)]) (use assms(2,3) in \<open>auto simp: arun_moves_def arun_same_def released_def\<close>)
  moreover have "arun_get k s' = arun_get k s" if "k \<noteq> i" for k
    using arun_write_rows [OF assms(1), of k] that
    by (cases "arun_get k s") (auto simp: released_def arun_get_def dest: tbl_get_key)
  ultimately show ?thesis by (simp add: run_moves_def)
qed

lemma run_moves_job: "run_moves i a b \<Longrightarrow> job_write p f b = Inr (c, n) \<Longrightarrow> run_moves i a c"
  unfolding run_moves_def runs_move_def job_write_Inr arun_get_def by auto

lemma recover_run_moves:
  assumes "recover_run now run (s, acc) = Inr (s', acc')"
  shows "run_moves (x_automationRunId run) s s'"
proof -
  have q: "requeue st now run acc s = Inr (s', acc') \<Longrightarrow> st \<in> {CLAIMED, RUNNING} \<Longrightarrow> run_moves (x_automationRunId run) s s'" for st
    by (auto simp: requeue_def elim!: released_moves) (auto simp: arun_next_def)
  have w: "run_moves (x_automationRunId run) s s1" if "arun_write (\<lambda>r. x_automationRunId r = x_automationRunId run \<and> x_status r = RUNNING
      \<and> lease_expired now r) (released FAILED e now) s = Inr (s1, n)" for s1 n e
    using that by (rule released_moves) (auto simp: arun_next_def)
  show ?thesis using assms unfolding recover_run_def
    by (auto split: if_splits option.splits intro: q w run_moves_job [OF w])
qed

lemma recover_runs_move:
  assumes "res_fold (recover_run now) xs (s, acc) = Inr (s', acc')" and "distinct (map x_automationRunId xs)" and "arun_get k s = Some r"
  shows "\<exists>r'. arun_get k s' = Some r' \<and> arun_moves r r' \<and> (k \<notin> x_automationRunId ` set xs \<longrightarrow> r' = r)"
  using assms
proof (induction xs arbitrary: s acc r)
  case Nil
  then show ?case by (simp add: arun_moves_def)
next
  case (Cons x xs)
  obtain s1 acc1 where x: "recover_run now x (s, acc) = Inr (s1, acc1)"
    and xs: "res_fold (recover_run now) xs (s1, acc1) = Inr (s', acc')" using Cons.prems(1) by auto
  note m = recover_run_moves [OF x, unfolded run_moves_def runs_move_def]
  from m Cons.prems(3) obtain r1 where r1: "arun_get k s1 = Some r1" "arun_moves r r1" by blast
  from Cons.IH [OF xs _ r1(1)] Cons.prems(2) obtain r' where
    r': "arun_get k s' = Some r'" "arun_moves r1 r'" "k \<notin> x_automationRunId ` set xs \<longrightarrow> r' = r1" by auto
  have "k \<noteq> x_automationRunId x \<longrightarrow> r1 = r" using m r1(1) Cons.prems(3) by auto
  moreover have "k = x_automationRunId x \<longrightarrow> r' = r1" using r'(3) Cons.prems(2) by auto
  ultimately show ?case using r' r1(2) by auto
qed

lemma auto_step_moves: "auto_step s s' \<Longrightarrow> autos_inv s \<Longrightarrow> runs_move s s'"
proof (induction rule: auto_step.induct)
  case (run_new row s s' x)
  then show ?case by (cases x) (auto intro: runs_keep_move arun_insert_keeps)
next
  case (run_manual m s s' x)
  then show ?case by (cases x) (auto intro: runs_keep_move reserveManualRun_keeps)
next
  case (recover now s s' rv)
  have "distinct (map x_automationRunId (sort_key (\<lambda>r. (x_scheduledFor r, x_automationRunId r))
      (filter (\<lambda>r. x_status r \<in> {CLAIMED, RUNNING} \<and> lease_expired now r) (automation_runs s))))"
    using recover(2) by (simp add: autos_inv_def distinct_map inj_on_def)
  from recover_runs_move [OF recover(1) [unfolded recoverExpiredRuns_def] this] show ?case unfolding runs_move_def by blast
qed (auto intro: runs_keep_move job_calls_keep materializeDueJob_keeps lease_calls_move finishRun_moves)

end
