(* ===== verification/Automation_Properties.thy ===== *)
theory Automation_Properties
  imports Automation_Machine
begin

text \<open>
  What the automation ledger promises to the schedulers that share it: leases are exclusive, a lease
  that was recovered is gone for its owner, occurrences are materialized once, manual requests are
  idempotent and find a free slot whenever there is one, and runs that have ended stay as they are.
\<close>

section \<open>Lemmas\<close>

definition auto_reachable :: "db \<Rightarrow> bool" where
  "auto_reachable s \<longleftrightarrow> (\<exists>s0. automation_jobs s0 = [] \<and> automation_runs s0 = [] \<and> auto_step\<^sup>*\<^sup>* s0 s)"

lemma auto_reachable_inv: "auto_reachable s \<Longrightarrow> autos_inv s"
proof -
  assume "auto_reachable s"
  then obtain s0 where s0: "automation_jobs s0 = []" "automation_runs s0 = []" "auto_step\<^sup>*\<^sup>* s0 s"
    by (auto simp: auto_reachable_def)
  then have "autos_inv s0" by (simp add: autos_inv_def unique_requests_def)
  with auto_steps_keep [OF s0(3)] show ?thesis by (simp add: auto_step_ok_def)
qed

lemma arun_get_key: "arun_get k s = Some r \<Longrightarrow> x_automationRunId r = k"
  by (auto simp: arun_get_def dest: tbl_get_key)

lemma arun_write_none:
  assumes "\<And>r. r \<in> set (automation_runs s) \<Longrightarrow> \<not> p r"
  shows "arun_write p f s = Inr (s, 0)"
proof -
  have "tbl_modify p f (automation_runs s) = automation_runs s"
    unfolding tbl_modify_def using assms by (intro map_idI) auto
  then show ?thesis using assms by (simp add: arun_write_Inr tbl_changes_def filter_empty_conv)
qed

lemma inv_run_ids: "autos_inv s \<Longrightarrow> distinct (map x_automationRunId (automation_runs s))"
  by (simp add: autos_inv_def)

text \<open>A write to one run by its key.\<close>

lemma arun_write_one:
  assumes "distinct (map x_automationRunId (automation_runs s))"
    and "arun_write (\<lambda>r. x_automationRunId r = k \<and> q r) f s = Inr (s', n)"
    and "\<And>r. x_automationRunId (f r) = x_automationRunId r"
  shows "arun_get k' s' = (if k' = k then map_option (\<lambda>r. if q r then f r else r) (arun_get k s) else arun_get k' s)"
    and "n = (case arun_get k s of None \<Rightarrow> 0 | Some r \<Rightarrow> if q r then 1 else 0)"
proof -
  let ?p = "\<lambda>r. x_automationRunId r = k \<and> q r"
  have s': "s' = s\<lparr>automation_runs := tbl_modify ?p f (automation_runs s)\<rparr>" and n: "n = tbl_changes ?p (automation_runs s)"
    using assms(2) by (auto simp: arun_write_Inr)
  have "arun_get k' s' = map_option (\<lambda>r. if ?p r then f r else r) (arun_get k' s)"
    unfolding s' arun_get_def by (simp add: tbl_get_modify [OF assms(3) assms(1)])
  then show "arun_get k' s' = (if k' = k then map_option (\<lambda>r. if q r then f r else r) (arun_get k s) else arun_get k' s)"
    by (cases "arun_get k' s") (auto dest: arun_get_key)
  have "filter ?p rows = (case tbl_get x_automationRunId k rows of None \<Rightarrow> [] | Some r \<Rightarrow> if q r then [r] else [])"
    if "distinct (map x_automationRunId rows)" for rows
    using that
  proof (induction rows)
    case (Cons a rows)
    then have "x_automationRunId a = k \<Longrightarrow> tbl_get x_automationRunId k rows = None" by (auto simp: tbl_get_None)
    with Cons show ?case by (auto simp: tbl_get_def)
  qed (simp add: tbl_get_def)
  with assms(1) n show "n = (case arun_get k s of None \<Rightarrow> 0 | Some r \<Rightarrow> if q r then 1 else 0)"
    by (auto simp: tbl_changes_def arun_get_def split: option.splits)
qed

section \<open>An example\<close>

text \<open>A job, one pending occurrence of it, and its claim by a scheduler.\<close>

definition sample_job :: job_row where
  "sample_job = \<lparr>j_jobId = ''j1'', j_name = ''report'', j_enabled = True, j_scheduleType = INTERVAL,
     j_schedulePayload = JObj [(''kind'', JStr ''interval''), (''everyMs'', JNum 60000), (''anchorMs'', JNum 0)],
     j_timezone = ''UTC'', j_conversationTemplate = JObj [], j_catchUpPolicy = SKIP, j_catchUpLimit = None,
     j_failurePolicy = JObj [], j_revision = 1, j_nextScheduledFor = Some 60000, j_lastScheduledFor = None,
     j_consecutiveFailures = 0, j_createdAt = 1, j_updatedAt = 1\<rparr>"

definition sample_run :: arun_row where
  "sample_run = \<lparr>x_automationRunId = ''x1'', x_jobId = ''j1'', x_scheduledFor = 60000, x_triggerKind = SCHEDULED,
     x_requestKey = None, x_claimedAt = None, x_leaseOwner = None, x_leaseExpiresAt = None, x_runId = None,
     x_status = PENDING, x_attempt = 0, x_errorCode = None, x_createdAt = 60001, x_updatedAt = 60001\<rparr>"

definition sample_claimed :: arun_row where
  "sample_claimed = sample_run\<lparr>x_claimedAt := Some 60002, x_leaseOwner := Some ''host'', x_leaseExpiresAt := Some 90002,
     x_status := CLAIMED, x_attempt := 1, x_updatedAt := 60002\<rparr>"

definition sample_materialize :: materialize_input where
  "sample_materialize = \<lparr>mz_jobId = ''j1'', mz_expectedNextScheduledFor = 60000, mz_nextScheduledFor = Some 120000,
     mz_lastScheduledFor = None, mz_runs = [sample_run], mz_updatedAt = 60001\<rparr>"

definition auto1 :: db where "auto1 = empty_db\<lparr>automation_jobs := [sample_job]\<rparr>"

definition auto2 :: db where
  "auto2 = auto1\<lparr>automation_jobs := [sample_job\<lparr>j_nextScheduledFor := Some 120000, j_updatedAt := 60001\<rparr>],
     automation_runs := [sample_run]\<rparr>"

definition auto3 :: db where "auto3 = auto2\<lparr>automation_runs := [sample_claimed]\<rparr>"

lemmas auto_data = empty_db_def sample_job_def sample_run_def sample_claimed_def sample_materialize_def
  auto1_def auto2_def auto3_def

lemmas auto_defs = insertJob_def job_json_ok_def job_checks_def job_stored_def getJob_def tbl_get_def
  materializeDueJob_def arun_insert_def arun_checks_def getRunBySchedule_def arun_get_def getRunByRequestKey_def
  arun_refs_def run_exists_def job_write_def advance_cursor_def tbl_modify_def tbl_changes_def Let_def
  arun_write_def claimRun_def arun_changed_def lease_valid_def lease_expired_def

lemma auto1_ok: "insertJob sample_job empty_db = Inr (auto1, sample_job)"
  by (simp add: auto_defs auto_data)

lemma auto2_ok: "materializeDueJob sample_materialize auto1 = Inr (auto2,
    \<lparr>md_materialized = True, md_job = Some (sample_job\<lparr>j_nextScheduledFor := Some 120000, j_updatedAt := 60001\<rparr>), md_runs = [sample_run]\<rparr>)"
  by (simp add: auto_defs auto_data)

lemma auto3_ok: "claimRun ''x1'' ''host'' 60002 90002 auto2 = Inr (auto3, Some sample_claimed)"
  by (simp add: auto_defs auto_data)

lemma sample_unleased: "list_all unleased (mz_runs sample_materialize)"
  by (simp add: unleased_def sample_materialize_def sample_run_def)

lemmas auto_demo_steps = auto_step.job_new [OF auto1_ok] auto_step.materialize [OF auto2_ok sample_unleased]
  auto_step.claim [OF auto3_ok]

lemma auto_empty: "automation_jobs empty_db = []" "automation_runs empty_db = []"
  by (simp_all add: empty_db_def)

lemma auto1_reachable: "auto_reachable auto1"
  unfolding auto_reachable_def using auto_empty auto_demo_steps(1) by (meson r_into_rtranclp)

lemma auto2_reachable: "auto_reachable auto2"
  using auto1_reachable auto_demo_steps(2) unfolding auto_reachable_def by (meson rtranclp.rtrancl_into_rtrancl)

lemma auto3_reachable: "auto_reachable auto3"
  using auto2_reachable auto_demo_steps(3) unfolding auto_reachable_def by (meson rtranclp.rtrancl_into_rtrancl)

section \<open>Runs\<close>

text \<open>C18. After any operations, the next one moves a run of an automation by one arrow of its life cycle at most: a pending run is
  claimed, which counts an attempt; a claimed one is started or given back; a running one succeeds, fails, is cancelled or is given
  back. Otherwise the run stays as it is, or it stays claimed or running with the same owner and attempt. A run holds a lease exactly
  while it is claimed or running, and one that has ended never changes again.\<close>

theorem automation_run_lifecycle:
  assumes "auto_reachable s" and "auto_step\<^sup>*\<^sup>* s s'" and "auto_step s' s''" and "arun_get k s = Some r"
  shows "\<exists>r' r''. arun_get k s' = Some r' \<and> arun_get k s'' = Some r''
    \<and> (r'' = r'
       \<or> x_status r'' \<in> arun_next (x_status r') \<and> x_attempt r'' = x_attempt r' + (if x_status r'' = CLAIMED then 1 else 0)
       \<or> x_status r' \<in> {CLAIMED, RUNNING} \<and> x_status r'' = x_status r' \<and> x_attempt r'' = x_attempt r'
           \<and> x_leaseOwner r'' = x_leaseOwner r')
    \<and> (x_leaseOwner r'' \<noteq> None \<longleftrightarrow> x_status r'' \<in> {CLAIMED, RUNNING})
    \<and> (arun_terminal (x_status r) \<longrightarrow> r'' = r) \<and> x_attempt r \<le> x_attempt r''
    \<and> x_jobId r'' = x_jobId r \<and> x_scheduledFor r'' = x_scheduledFor r"
proof -
  have inv: "autos_inv s" using assms(1) by (rule auto_reachable_inv)
  from assms(2,3) have st: "auto_step\<^sup>*\<^sup>* s s''" by (rule rtranclp.rtrancl_into_rtrancl)
  with inv auto_steps_keep [OF assms(2)] auto_steps_keep [OF st] have i: "autos_inv s'" "autos_inv s''" "runs_evolve s s'" "runs_evolve s s''"
    by (simp_all add: auto_step_ok_def)
  then obtain r' r'' where r: "arun_get k s' = Some r'" "arun_get k s'' = Some r''" "arun_evolves r r''"
    using assms(4) unfolding runs_evolve_def by blast
  have "runs_move s' s''" using auto_step_moves [OF assms(3) i(1)] .
  with r(1,2) have "arun_moves r' r''" unfolding runs_move_def by (metis option.inject)
  moreover have "arun_shape r''" using i(2) r(2) by (auto simp: autos_inv_def arun_get_def dest: tbl_get_key)
  ultimately show ?thesis using r by (auto simp: arun_moves_def arun_evolves_def arun_same_def arun_shape_def)
qed

theorem automation_run_lifecycle_witness:
  "\<exists>r''. arun_get ''x1'' auto3 = Some r'' \<and> x_status r'' = CLAIMED \<and> CLAIMED \<in> arun_next PENDING \<and> x_attempt r'' = 1
     \<and> x_leaseOwner r'' \<noteq> None"
proof -
  have "arun_get ''x1'' auto2 = Some sample_run" "arun_get ''x1'' auto3 = Some sample_claimed" by (simp_all add: auto_defs auto_data)
  moreover have "x_status sample_run = PENDING" "x_attempt sample_run = 0" "x_status sample_claimed = CLAIMED" by (simp_all add: auto_data)
  ultimately show ?thesis using automation_run_lifecycle [OF auto2_reachable rtranclp.rtrancl_refl auto_demo_steps(3), of "''x1''" sample_run]
    by auto
qed

text \<open>C19. No two schedulers hold the same run: once one has claimed it, a claim by any other gets
  nothing and changes nothing.\<close>

theorem claim_exclusive:
  assumes "auto_reachable s" and "claimRun k ow t e s = Inr (s1, Some r)" and "t2 \<le> e2"
  shows "x_status r = CLAIMED \<and> x_leaseOwner r = Some ow \<and> arun_get k s1 = Some r
    \<and> claimRun k ow2 t2 e2 s1 = Inr (s1, None)"
proof -
  have ids: "distinct (map x_automationRunId (automation_runs s))" using auto_reachable_inv [OF assms(1)] by (rule inv_run_ids)
  let ?f = "\<lambda>ow t e r. r\<lparr>x_claimedAt := Some t, x_leaseOwner := Some ow, x_leaseExpiresAt := Some e,
    x_status := CLAIMED, x_attempt := x_attempt r + 1, x_errorCode := None, x_updatedAt := t\<rparr>"
  from assms(2) obtain n where w: "arun_write (\<lambda>r. x_automationRunId r = k \<and> x_status r = PENDING) (?f ow t e) s = Inr (s1, n)"
    and n: "n = 1" "arun_get k s1 = Some r"
    by (auto simp: claimRun_def split: if_splits)
  note one = arun_write_one [OF ids w]
  have r: "x_status r = CLAIMED" "x_leaseOwner r = Some ow"
    using one(1) [of k] one(2) n by (auto split: option.splits if_splits)
  have inv1: "autos_inv s1"
    using claimRun_step [OF assms(2)] auto_reachable_inv [OF assms(1)] by (simp add: auto_step_ok_def)
  have none: "\<not> (x_automationRunId x = k \<and> x_status x = PENDING)" if "x \<in> set (automation_runs s1)" for x
    using tbl_get_distinct [OF inv_run_ids [OF inv1] that] n(2) r(1) by (auto simp: arun_get_def)
  have "arun_write (\<lambda>r. x_automationRunId r = k \<and> x_status r = PENDING) (?f ow2 t2 e2) s1 = Inr (s1, 0)"
    using none by (rule arun_write_none)
  then show ?thesis using r n(2) by (simp add: claimRun_def)
qed

theorem claim_exclusive_witness: "claimRun ''x1'' ''other'' 60003 90003 auto3 = Inr (auto3, None)"
  using claim_exclusive [OF auto2_reachable auto3_ok, of 60003 90003 "''other''"] by simp

section \<open>Recovery\<close>

definition given_up :: "arun_row option \<Rightarrow> bool" where
  "given_up ro \<longleftrightarrow> (\<exists>r. ro = Some r \<and> x_status r \<in> {PENDING, FAILED} \<and> x_leaseOwner r = None)"

lemma released_simps [simp]:
  "x_automationRunId (released st e now r) = x_automationRunId r" "x_status (released st e now r) = st"
  "x_leaseOwner (released st e now r) = None"
  by (simp_all add: released_def)

lemma job_write_runs: "job_write p f s = Inr (s', n) \<Longrightarrow> arun_get k s' = arun_get k s \<and> automation_runs s' = automation_runs s"
  by (auto simp: job_write_Inr arun_get_def)

text \<open>Recovering one run gives that run up and touches no other.\<close>

lemma recover_run_effect:
  assumes ids: "distinct (map x_automationRunId (automation_runs s))"
    and r: "recover_run now run (s, acc) = Inr (s', acc')"
    and run: "arun_get (x_automationRunId run) s = Some run" "x_status run \<in> {CLAIMED, RUNNING}" "lease_expired now run"
  shows "given_up (arun_get (x_automationRunId run) s')" and "k \<noteq> x_automationRunId run \<Longrightarrow> arun_get k s' = arun_get k s"
proof -
  let ?k = "x_automationRunId run"
  obtain st st' e s1 n where w: "arun_write (\<lambda>r. x_automationRunId r = ?k \<and> x_status r = st \<and> lease_expired now r)
      (released st' e now) s = Inr (s1, n)" "st = x_status run" "st' \<in> {PENDING, FAILED}"
    and s': "arun_get k s' = arun_get k s1" for k
  proof -
    consider "x_status run = CLAIMED" | "x_status run = RUNNING" "resumable_run (x_runId run) s"
      | "x_status run = RUNNING" "\<not> resumable_run (x_runId run) s" using run(2) by auto
    then show thesis
    proof cases
      case 1
      with r show ?thesis by (auto simp: recover_run_def requeue_def intro!: that)
    next
      case 2
      with r show ?thesis by (auto simp: recover_run_def requeue_def intro!: that)
    next
      case 3
      with r obtain s1 n where s1: "arun_write (\<lambda>r. x_automationRunId r = ?k \<and> x_status r = RUNNING \<and> lease_expired now r)
        (released FAILED (Some ''AUTOMATION_INTERRUPTED_BY_RESTART'') now) s = Inr (s1, n)"
        by (auto simp: recover_run_def)
      with r 3 have "arun_get k s' = arun_get k s1" for k
        by (cases "arun_get ?k s1") (auto simp: recover_run_def split: if_splits dest: job_write_runs)
      with s1 3 show ?thesis by (auto intro!: that)
    qed
  qed
  note one = arun_write_one(1) [OF ids w(1) released_simps(1)]
  show "given_up (arun_get ?k s')" using one [of ?k] run w(2,3) by (auto simp: s' given_up_def)
  show "arun_get k s' = arun_get k s" if "k \<noteq> ?k" using one [of k] that by (simp add: s')
qed

lemma recover_runs_effect:
  assumes "res_fold (recover_run now) xs (s, acc) = Inr (s', acc')" and "autos_inv s"
    and "distinct (map x_automationRunId xs)"
    and "\<And>x. x \<in> set xs \<Longrightarrow> arun_get (x_automationRunId x) s = Some x \<and> x_status x \<in> {CLAIMED, RUNNING} \<and> lease_expired now x"
  shows "(\<forall>x \<in> set xs. given_up (arun_get (x_automationRunId x) s'))
    \<and> (\<forall>k. k \<notin> x_automationRunId ` set xs \<longrightarrow> arun_get k s' = arun_get k s)"
  using assms
proof (induction xs arbitrary: s acc)
  case Nil
  then show ?case by simp
next
  case (Cons x xs)
  obtain s1 acc1 where x: "recover_run now x (s, acc) = Inr (s1, acc1)"
    and xs: "res_fold (recover_run now) xs (s1, acc1) = Inr (s', acc')" using Cons.prems(1) by auto
  have row: "arun_get (x_automationRunId x) s = Some x" "x_status x \<in> {CLAIMED, RUNNING}" "lease_expired now x"
    using Cons.prems(4) [of x] by auto
  note eff = recover_run_effect [OF inv_run_ids [OF Cons.prems(2)] x row]
  have inv1: "autos_inv s1" using recover_run_step [OF x] Cons.prems(2) by (simp add: auto_step_ok_def)
  have keep: "arun_get (x_automationRunId y) s1 = arun_get (x_automationRunId y) s" if "y \<in> set xs" for y
    using Cons.prems(3) that by (intro eff(2)) (metis distinct.simps(2) image_eqI list.map(2) list.set_map)
  have ih: "\<forall>x \<in> set xs. given_up (arun_get (x_automationRunId x) s')"
    "\<forall>k. k \<notin> x_automationRunId ` set xs \<longrightarrow> arun_get k s' = arun_get k s1"
    using Cons.IH [OF xs inv1] Cons.prems(3) Cons.prems(4) keep by simp_all
  moreover have "arun_get (x_automationRunId x) s' = arun_get (x_automationRunId x) s1" using ih(2) Cons.prems(3) by simp
  ultimately show ?case using eff by simp
qed

text \<open>C20. Recovery fences the old owner off: after it, a run whose lease had run out holds no lease, and
  neither starting, renewing, binding nor finishing it under the old lease changes anything.\<close>

theorem recovery_fences_owner:
  assumes "auto_reachable s" and "recoverExpiredRuns now s = Inr (s', rv)"
    and "arun_get k s = Some r" and "x_status r \<in> {CLAIMED, RUNNING}" and "lease_expired now r"
    and "fi_automationRunId i = k"
  shows "finishRun i s' = Inr (s', None) \<and> markRunRunning k ow t e s' = Inr (s', None) \<and> renewRunLease k ow t e s' = Inr (s', None)"
proof -
  have inv: "autos_inv s" using assms(1) by (rule auto_reachable_inv)
  let ?xs = "sort_key (\<lambda>r. (x_scheduledFor r, x_automationRunId r))
    (filter (\<lambda>r. x_status r \<in> {CLAIMED, RUNNING} \<and> lease_expired now r) (automation_runs s))"
  have d: "distinct (map x_automationRunId ?xs)"
    using inv_run_ids [OF inv] by (simp add: distinct_map inj_on_def)
  have mem: "r \<in> set ?xs" and k: "x_automationRunId r = k" using assms(3-5) by (auto simp: arun_get_def dest: tbl_get_key)
  have "given_up (arun_get k s')"
    using recover_runs_effect [OF assms(2) [unfolded recoverExpiredRuns_def] inv d] mem k
      tbl_get_distinct [OF inv_run_ids [OF inv]] by (auto simp: arun_get_def)
  then obtain r' where r': "arun_get k s' = Some r'" "x_status r' \<in> {PENDING, FAILED}" "x_leaseOwner r' = None"
    by (auto simp: given_up_def)
  have inv': "autos_inv s'" using recoverExpiredRuns_step [OF assms(2)] inv by (simp add: auto_step_ok_def)
  have unleased: "x_leaseOwner x = None" if "x \<in> set (automation_runs s')" "x_automationRunId x = k" for x
    using tbl_get_distinct [OF inv_run_ids [OF inv'] that(1)] that(2) r' by (simp add: arun_get_def)
  have "arun_write (\<lambda>r. x_automationRunId r = k \<and> q r \<and> lease_valid ow t r) f s' = Inr (s', 0)" for q f
    using unleased by (intro arun_write_none) (auto simp: lease_valid_def)
  moreover have "finishRun i s' = Inr (s', None)" using r' assms(6) by (auto simp: finishRun_def)
  ultimately show ?thesis by (simp add: markRunRunning_def renewRunLease_def)
qed

theorem recovery_fences_owner_witness:
  "\<exists>s' rv. recoverExpiredRuns 90002 auto3 = Inr (s', rv) \<and> markRunRunning ''x1'' ''host'' 90002 99999 s' = Inr (s', None)"
proof -
  obtain s' rv where r: "recoverExpiredRuns 90002 auto3 = Inr (s', rv)"
    by (simp add: recoverExpiredRuns_def recover_run_def requeue_def auto_defs auto_data released_def)
  have "arun_get ''x1'' auto3 = Some sample_claimed" by (simp add: auto_defs auto_data)
  from recovery_fences_owner [OF auto3_reachable r this, of
      "\<lparr>fi_automationRunId = ''x1'', fi_leaseOwner = ''host'', fi_status = SUCCEEDED, fi_runId = None, fi_errorCode = None, fi_terminalAt = 90002\<rparr>"]
  show ?thesis using r by (simp add: sample_claimed_def lease_expired_def)
qed

section \<open>Manual requests\<close>

lemma manual_loop_outcome:
  assumes "manual_loop i n t s = Inr (s', c, r)" and "getRunByRequestKey (mi_requestKey i) s = None"
  shows "c \<and> s' = s\<lparr>automation_runs := automation_runs s @ [r]\<rparr>
    \<and> (\<exists>d < n. r = manual_row i (t + int d) \<and> (\<forall>d' < d. getRunBySchedule (mi_jobId i) (t + int d') s \<noteq> None))"
  using assms(1)
proof (induction n arbitrary: t)
  case 0
  then show ?case by simp
next
  case (Suc n)
  show ?case
  proof (cases "arun_insert (manual_row i t) s")
    case (Inl e)
    with Suc.prems assms(2) have "e = Sql_Constraint (Sql_Unique ''automation_runs.job_id, automation_runs.scheduled_for'')"
      by (auto simp: manual_loop_Suc split: if_splits)
    with Inl show ?thesis by (auto simp: arun_insert_def split: if_splits option.splits)
  next
    case (Inr x)
    obtain s1 c1 r1 where x: "x = (s1, c1, r1)" by (cases x)
    from Inr [unfolded x] show ?thesis
    proof (cases rule: arun_insert_cases)
      case found
      with Suc.prems Inr x have "manual_loop i n (t + 1) s = Inr (s', c, r)" by (simp add: manual_loop_Suc)
      from Suc.IH [OF this] obtain d where d: "c" "s' = s\<lparr>automation_runs := automation_runs s @ [r]\<rparr>" "d < n"
        "r = manual_row i (t + 1 + int d)" "\<forall>d' < d. getRunBySchedule (mi_jobId i) (t + 1 + int d') s \<noteq> None" by blast
      have "getRunBySchedule (mi_jobId i) (t + int d') s \<noteq> None" if "d' < Suc d" for d'
        using that d(5) found(3) by (cases d') (auto simp: manual_row_def algebra_simps)
      with d show ?thesis by (auto intro!: exI [of _ "Suc d"] simp: algebra_simps)
    next
      case inserted
      with Suc.prems Inr x show ?thesis by (auto simp: manual_loop_Suc)
    qed
  qed
qed

lemma getRunByRequestKey_append:
  "getRunByRequestKey k s = None \<Longrightarrow> x_requestKey r = Some k \<Longrightarrow>
   getRunByRequestKey k (s\<lparr>automation_runs := automation_runs s @ [r]\<rparr>) = Some r"
  by (simp add: getRunByRequestKey_def tbl_get_append)

lemma reserveManualRun_found:
  assumes "reserveManualRun i s = Inr (s1, c, r)"
  shows "getRunByRequestKey (mi_requestKey i) s1 = Some r \<and> x_jobId r = mi_jobId i \<and> x_triggerKind r = MANUAL"
proof (cases "getRunByRequestKey (mi_requestKey i) s")
  case None
  with assms have loop: "manual_loop i 1000 (mi_requestedAt i) s = Inr (s1, c, r)"
    by (auto simp: reserveManualRun_def split: if_splits)
  from manual_loop_outcome [OF loop None] obtain d where
    s1: "s1 = s\<lparr>automation_runs := automation_runs s @ [r]\<rparr>" and r: "r = manual_row i (mi_requestedAt i + int d)" by blast
  then have "getRunByRequestKey (mi_requestKey i) s1 = Some r"
    using getRunByRequestKey_append [OF None] by (simp add: manual_row_def)
  with r show ?thesis by (simp add: manual_row_def)
next
  case (Some q)
  with assms show ?thesis by (auto simp: reserveManualRun_def split: if_splits)
qed

text \<open>A manual request is idempotent: repeating it, whenever and with whatever new identifier, finds
  the run the first request reserved and changes nothing.\<close>

theorem manual_request_idempotent:
  assumes "reserveManualRun i s = Inr (s1, c, r)"
    and "mi_requestKey j = mi_requestKey i" and "mi_jobId j = mi_jobId i"
  shows "reserveManualRun j s1 = Inr (s1, False, r)"
  using reserveManualRun_found [OF assms(1)] assms(2,3) by (simp add: reserveManualRun_def)

theorem manual_request_idempotent_witness:
  "\<exists>s1 r. reserveManualRun \<lparr>mi_automationRunId = ''x2'', mi_jobId = ''j1'', mi_requestKey = ''now'', mi_requestedAt = 60000\<rparr> auto2 = Inr (s1, True, r)
    \<and> reserveManualRun \<lparr>mi_automationRunId = ''x3'', mi_jobId = ''j1'', mi_requestKey = ''now'', mi_requestedAt = 70000\<rparr> s1 = Inr (s1, False, r)"
proof -
  let ?i = "\<lparr>mi_automationRunId = ''x2'', mi_jobId = ''j1'', mi_requestKey = ''now'', mi_requestedAt = 60000\<rparr>"
  obtain s1 r where "reserveManualRun ?i auto2 = Inr (s1, True, r)"
    by (simp add: reserveManualRun_def manual_loop.simps [of ?i 1000] manual_loop.simps [of ?i 999] manual_row_def auto_defs auto_data)
  with manual_request_idempotent [OF this] show ?thesis by simp
qed

lemma manual_loop_free:
  assumes "getJob (mi_jobId i) s \<noteq> None" "getRunByRequestKey (mi_requestKey i) s = None"
    and "arun_get (mi_automationRunId i) s = None" "1 \<le> length (mi_requestKey i)" "length (mi_requestKey i) \<le> 128" "0 \<le> t"
    and "d < n" and "getRunBySchedule (mi_jobId i) (t + int d) s = None"
  shows "\<exists>s' r. manual_loop i n t s = Inr (s', True, r)"
  using assms(6-8)
proof (induction n arbitrary: t d)
  case 0
  then show ?case by simp
next
  case (Suc n)
  have checks: "arun_checks (manual_row i t)" using assms(4,5) Suc.prems(1) by (simp add: arun_checks_def manual_row_def)
  show ?case
  proof (cases "getRunBySchedule (mi_jobId i) t s")
    case None
    then have "arun_insert (manual_row i t) s = Inr (s\<lparr>automation_runs := automation_runs s @ [manual_row i t]\<rparr>, True, manual_row i t)"
      using assms(1-3) checks by (auto simp: arun_insert_def manual_row_def arun_refs_def run_exists_def getJob_def)
    then show ?thesis by (simp add: manual_loop_Suc)
  next
    case (Some q)
    then have "arun_insert (manual_row i t) s = Inr (s, False, q)" using checks by (simp add: arun_insert_def manual_row_def)
    moreover obtain d' where "d = Suc d'" using Some Suc.prems(3) by (cases d) auto
    ultimately show ?thesis using Suc.IH [of "t + 1" d'] Suc.prems by (simp add: manual_loop_Suc algebra_simps)
  qed
qed

text \<open>A new manual request for an existing job is granted whenever one of the thousand milliseconds
  from its time on is free.\<close>

theorem manual_request_granted:
  assumes "getJob (mi_jobId i) s \<noteq> None" and "getRunByRequestKey (mi_requestKey i) s = None"
    and "arun_get (mi_automationRunId i) s = None" and "1 \<le> length (mi_requestKey i)" and "length (mi_requestKey i) \<le> 128"
    and "0 \<le> mi_requestedAt i" and "d < 1000" and "getRunBySchedule (mi_jobId i) (mi_requestedAt i + int d) s = None"
  shows "\<exists>s' r. reserveManualRun i s = Inr (s', True, r) \<and> x_status r = PENDING \<and> x_requestKey r = Some (mi_requestKey i)
    \<and> mi_requestedAt i \<le> x_scheduledFor r \<and> x_scheduledFor r < mi_requestedAt i + 1000"
proof -
  obtain s' r where loop: "manual_loop i 1000 (mi_requestedAt i) s = Inr (s', True, r)"
    using manual_loop_free [OF assms] by blast
  from manual_loop_outcome [OF loop assms(2)] obtain d where "d < 1000" "r = manual_row i (mi_requestedAt i + int d)" by blast
  with loop assms(1,2) show ?thesis by (auto simp: reserveManualRun_def manual_row_def)
qed

theorem manual_request_granted_witness:
  "\<exists>s' r. reserveManualRun \<lparr>mi_automationRunId = ''x2'', mi_jobId = ''j1'', mi_requestKey = ''now'', mi_requestedAt = 60000\<rparr> auto2 = Inr (s', True, r)"
  using manual_request_granted [of "\<lparr>mi_automationRunId = ''x2'', mi_jobId = ''j1'', mi_requestKey = ''now'', mi_requestedAt = 60000\<rparr>" auto2 1]
  by (auto simp: auto_defs auto_data)

section \<open>Materializing\<close>

lemma insert_runs_jobs: "insert_runs rs s = Inr (s', st) \<Longrightarrow> automation_jobs s' = automation_jobs s"
proof (induction rs arbitrary: s st)
  case (Cons r rs)
  then obtain s1 c x rest where i: "arun_insert r s = Inr (s1, c, x)" "insert_runs rs s1 = Inr (s', rest)" by auto
  from i(1) have "automation_jobs s1 = automation_jobs s" by (cases rule: arun_insert_cases) auto
  with Cons.IH [OF i(2)] show ?case by simp
qed simp

text \<open>C23. An occurrence is materialized once: of two schedulers that saw the same cursor of a job, the
  second finds it moved and inserts nothing.\<close>

theorem materialized_once:
  assumes "auto_reachable s" and "materializeDueJob i s = Inr (s1, m)" and "md_materialized m"
    and "mz_nextScheduledFor i \<noteq> Some (mz_expectedNextScheduledFor i)"
    and "mz_jobId j = mz_jobId i" and "mz_expectedNextScheduledFor j = mz_expectedNextScheduledFor i"
  shows "\<exists>job. materializeDueJob j s1 = Inr (s1, \<lparr>md_materialized = False, md_job = Some job, md_runs = []\<rparr>)
    \<and> j_nextScheduledFor job = mz_nextScheduledFor i"
proof -
  have inv: "autos_inv s" using assms(1) by (rule auto_reachable_inv)
  let ?p = "\<lambda>r. j_jobId r = mz_jobId i \<and> j_enabled r \<and> j_nextScheduledFor r = Some (mz_expectedNextScheduledFor i)"
  from assms(2,3) obtain c s0 st n where c: "getJob (mz_jobId i) s = Some c" "j_enabled c"
      "j_nextScheduledFor c = Some (mz_expectedNextScheduledFor i)"
    and s0: "insert_runs (mz_runs i) s = Inr (s0, st)" and w: "job_write ?p (advance_cursor i) s0 = Inr (s1, n)"
    by (auto simp: materializeDueJob_def Let_def split: if_splits option.splits)
  have s1: "s1 = s0\<lparr>automation_jobs := tbl_modify ?p (advance_cursor i) (automation_jobs s)\<rparr>"
    using w insert_runs_jobs [OF s0] by (auto simp: job_write_Inr)
  have key: "j_jobId c = mz_jobId i" using c(1) by (auto simp: getJob_def dest: tbl_get_key)
  have "getJob (mz_jobId i) s1 = map_option (\<lambda>r. if ?p r then advance_cursor i r else r) (getJob (mz_jobId i) s)"
    unfolding s1 getJob_def using inv by (simp add: tbl_get_modify advance_cursor_def autos_inv_def)
  then have "getJob (mz_jobId i) s1 = Some (advance_cursor i c)" using c key by simp
  moreover have "j_nextScheduledFor (advance_cursor i c) = mz_nextScheduledFor i" by (simp add: advance_cursor_def)
  ultimately show ?thesis using assms(4-6) by (simp add: materializeDueJob_def)
qed

theorem materialized_once_witness:
  "\<exists>job. materializeDueJob sample_materialize auto2 = Inr (auto2, \<lparr>md_materialized = False, md_job = Some job, md_runs = []\<rparr>)"
  using materialized_once [OF auto1_reachable auto2_ok, of sample_materialize] by (auto simp: sample_materialize_def)

end
