(* ===== verification/Cron_Facts.thy ===== *)
theory Cron_Facts
  imports Cron_Schedule
begin

text \<open>
  Facts about schedules: what a cron field denotes and that printed items parse to what they denote,
  that the caches are transparent and bounded, normal forms of expressions and timestamps, the
  calendar check of timestamps, and that the search for an occurrence finds the first one.
\<close>

lemma finiteInteger_Inr [simp]:
  "finiteInteger v lo hi = Inr x \<longleftrightarrow> x = v \<and> safe_integer v \<and> lo \<le> v \<and> v \<le> hi"
  by (auto simp: finiteInteger_def)

section \<open>Cron fields\<close>

lemma cron_range_set:
  "1 \<le> step \<Longrightarrow> set (cron_range start stop step) = {v. start \<le> v \<and> v \<le> stop \<and> step dvd (v - start)}"
proof (induction start stop step rule: cron_range.induct)
  case (1 start stop step)
  show ?case
  proof (cases "start \<le> stop")
    case True
    have "{v. start \<le> v \<and> v \<le> stop \<and> step dvd v - start}
        = insert start {v. start + step \<le> v \<and> v \<le> stop \<and> step dvd v - (start + step)}" (is "?A = insert start ?B")
    proof (intro equalityI subsetI)
      fix v assume v: "v \<in> ?A"
      then obtain k where k: "v - start = step * k" by (auto elim: dvdE)
      show "v \<in> insert start ?B"
      proof (cases "k \<le> 0")
        case True
        with 1(2) have "step * k \<le> 0" by (simp add: mult_nonneg_nonpos)
        with v k have "v = start" by simp
        then show ?thesis by simp
      next
        case False
        have "v - (start + step) = step * (k - 1)" using k by (simp add: algebra_simps)
        moreover have "0 \<le> step * (k - 1)" using False 1(2) by simp
        ultimately show ?thesis using v by auto
      qed
    next
      fix v assume "v \<in> insert start ?B"
      then show "v \<in> ?A" using True 1(2) by (auto simp: dvd_diff_commute algebra_simps elim!: dvdE)
    qed
    with True 1 show ?thesis by (simp add: cron_range.simps [of start stop step])
  next
    case False
    then show ?thesis by (auto simp: cron_range.simps [of start stop step])
  qed
qed

lemma set_set_add [simp]: "set (set_add v vs) = insert v (set vs)"
  and distinct_set_add: "distinct vs \<Longrightarrow> distinct (set_add v vs)"
  by (auto simp: set_add_def)

lemma add_values_set:
  "set (add_values dow new vs) = set vs \<union> (if dow then normalizeDow else id) ` set new"
  by (induction new arbitrary: vs) (auto simp: add_values_def)

lemma add_values_distinct: "distinct vs \<Longrightarrow> distinct (add_values dow new vs)"
  by (induction new arbitrary: vs) (auto simp: add_values_def distinct_set_add)

section \<open>Numbers as text\<close>

lemma show_nat_digits: "list_all js_digit (show_nat n)"
  by (induction n rule: show_nat.induct) (subst show_nat.simps, auto simp: digit_char)

lemma show_nat_not_Nil [simp]: "show_nat n \<noteq> []"
  by (subst show_nat.simps) simp

lemma digits_value_show [simp]: "digits_value (show_nat n) = n"
proof (induction n rule: show_nat.induct)
  case (1 n)
  then show ?case
    by (subst show_nat.simps) (simp add: digits_value_snoc digit_char, simp add: digits_value_def digit_char)
qed

lemma parseCronNumber_show:
  "parseCronNumber (show_nat n) lo hi = (if lo \<le> int n \<and> int n \<le> hi then Inr (int n) else Inl invalid_schedule)"
  by (simp add: parseCronNumber_def show_nat_digits digits_int_def Let_def)

lemma show_nat_chars: "c \<in> set (show_nat n) \<Longrightarrow> js_digit c"
  using show_nat_digits [of n] by (simp add: list_all_iff)

section \<open>Cron text\<close>

datatype cron_item = Star "nat option" | Span nat nat "nat option" | One nat

definition step_text :: "nat option \<Rightarrow> string" where
  "step_text st = (case st of None \<Rightarrow> [] | Some k \<Rightarrow> CHR ''/'' # show_nat k)"

fun item_text :: "cron_item \<Rightarrow> string" where
  "item_text (Star st) = CHR ''*'' # step_text st"
| "item_text (Span a b st) = show_nat a @ CHR ''-'' # show_nat b @ step_text st"
| "item_text (One n) = show_nat n"

definition step_value :: "nat option \<Rightarrow> int" where
  "step_value st = (case st of None \<Rightarrow> 1 | Some k \<Rightarrow> int k)"

fun item_ok :: "int \<Rightarrow> int \<Rightarrow> cron_item \<Rightarrow> bool" where
  "item_ok lo hi (Star st) \<longleftrightarrow> 1 \<le> step_value st \<and> step_value st \<le> hi - lo + 1"
| "item_ok lo hi (Span a b st) \<longleftrightarrow>
     lo \<le> int a \<and> a \<le> b \<and> int b \<le> hi \<and> 1 \<le> step_value st \<and> step_value st \<le> hi - lo + 1"
| "item_ok lo hi (One n) \<longleftrightarrow> lo \<le> int n \<and> int n \<le> hi"

fun item_values :: "int \<Rightarrow> int \<Rightarrow> cron_item \<Rightarrow> int set" where
  "item_values lo hi (Star st) = {v. lo \<le> v \<and> v \<le> hi \<and> step_value st dvd (v - lo)}"
| "item_values lo hi (Span a b st) = {v. int a \<le> v \<and> v \<le> int b \<and> step_value st dvd (v - int a)}"
| "item_values lo hi (One n) = {int n}"

lemma show_nat_no: "\<not> js_digit c \<Longrightarrow> c \<notin> set (show_nat n)"
  using show_nat_chars by blast

lemma step_text_no: "\<not> js_digit c \<Longrightarrow> c \<noteq> CHR ''/'' \<Longrightarrow> c \<notin> set (step_text st)"
  by (auto simp: step_text_def show_nat_no split: option.splits)

lemma item_text_no_comma: "CHR '','' \<notin> set (item_text i)"
  by (cases i) (auto simp: show_nat_no step_text_no js_digit_def)

lemma split_step:
  assumes "CHR ''/'' \<notin> set base"
  shows "js_split CHR ''/'' (base @ step_text st) = base # (case st of None \<Rightarrow> [] | Some k \<Rightarrow> [show_nat k])"
  using assms by (cases st) (simp_all add: step_text_def js_split_plain js_split_append show_nat_no js_digit_def)

lemma includes_dash: "str_includes s ''-'' \<longleftrightarrow> CHR ''-'' \<in> set s"
  by (induction s) (auto simp: starts_with_def)

lemma show_nat_star: "show_nat n \<noteq> ''*''" "show_nat n @ r \<noteq> ''*''"
  using show_nat_chars [of "CHR ''*''" n] by (cases "show_nat n"; auto simp: js_digit_def)+

lemma parse_cron_item_text:
  assumes "item_ok lo hi i" and "lo \<le> hi"
  shows "\<exists>new. parse_cron_item lo hi dow (item_text i) vs = Inr (add_values dow new vs) \<and> set new = item_values lo hi i"
proof (cases i)
  case (Star st)
  have "js_split CHR ''/'' (item_text i) = ''*'' # (case st of None \<Rightarrow> [] | Some k \<Rightarrow> [show_nat k])"
    using split_step [of "''*''" st] Star by simp
  with Star assms show ?thesis
    by (cases st) (auto simp: parse_cron_item_def Let_def parseCronNumber_show step_value_def cron_range_set)
next
  case (Span a b st)
  let ?base = "show_nat a @ CHR ''-'' # show_nat b"
  have "js_split CHR ''/'' (item_text i) = ?base # (case st of None \<Rightarrow> [] | Some k \<Rightarrow> [show_nat k])"
    using split_step [of ?base st] Span by (simp add: show_nat_no js_digit_def)
  moreover have "js_split CHR ''-'' ?base = [show_nat a, show_nat b]"
    by (simp add: js_split_append js_split_plain show_nat_no js_digit_def)
  ultimately show ?thesis using Span assms
    by (cases st) (auto simp: parse_cron_item_def Let_def parseCronNumber_show step_value_def cron_range_set
        includes_dash show_nat_star)
next
  case (One n)
  have "js_split CHR ''/'' (item_text i) = [show_nat n]"
    using One by (simp add: js_split_plain show_nat_no js_digit_def)
  moreover have "\<not> str_includes (show_nat n) ''-''" by (simp add: includes_dash show_nat_no js_digit_def)
  ultimately show ?thesis using One assms
    by (intro exI [of _ "[int n]"]) (auto simp: parse_cron_item_def Let_def parseCronNumber_show show_nat_star)
qed

lemma parse_cron_items:
  assumes "\<forall>i \<in> set its. item_ok lo hi i" and "lo \<le> hi"
  shows "\<exists>vs'. res_fold (parse_cron_item lo hi dow) (map item_text its) vs = Inr vs'
    \<and> set vs' = set vs \<union> (if dow then normalizeDow else id) ` (\<Union>i \<in> set its. item_values lo hi i)"
  using assms(1)
proof (induction its arbitrary: vs)
  case Nil
  then show ?case by simp
next
  case (Cons i its)
  obtain new where new: "parse_cron_item lo hi dow (item_text i) vs = Inr (add_values dow new vs)"
    "set new = item_values lo hi i" using parse_cron_item_text [of lo hi i dow vs] Cons.prems assms(2) by auto
  from Cons.IH [of "add_values dow new vs"] Cons.prems obtain vs' where
    "res_fold (parse_cron_item lo hi dow) (map item_text its) (add_values dow new vs) = Inr vs'"
    "set vs' = set (add_values dow new vs) \<union> (if dow then normalizeDow else id) ` (\<Union>i \<in> set its. item_values lo hi i)"
    by auto
  with new show ?case by (auto simp: add_values_set)
qed

lemma item_values_nonempty: "item_ok lo hi i \<Longrightarrow> lo \<le> hi \<Longrightarrow> item_values lo hi i \<noteq> {}"
proof (cases i)
  case (Span a b st)
  then show "item_ok lo hi i \<Longrightarrow> item_values lo hi i \<noteq> {}" by (auto intro: exI [of _ "int a"])
qed (auto intro: exI [of _ lo])

text \<open>A printed list of items parses to the union of what the items denote.\<close>

lemma parseCronField_text:
  assumes "its \<noteq> []" and "\<forall>i \<in> set its. item_ok lo hi i" and "lo \<le> hi"
  shows "\<exists>f. parseCronField (js_join '','' (map item_text its)) lo hi dow = Inr f
    \<and> set (cf_values f) = (if dow then normalizeDow else id) ` (\<Union>i \<in> set its. item_values lo hi i)"
proof -
  have "js_split CHR '','' (js_join '','' (map item_text its)) = map item_text its"
    using assms(1) item_text_no_comma by (intro js_split_join) auto
  moreover obtain vs where vs: "res_fold (parse_cron_item lo hi dow) (map item_text its) [] = Inr vs"
    "set vs = (if dow then normalizeDow else id) ` (\<Union>i \<in> set its. item_values lo hi i)"
    using parse_cron_items [OF assms(2,3), of dow "[]"] by auto
  moreover have "(\<Union>i \<in> set its. item_values lo hi i) \<noteq> {}"
    using assms item_values_nonempty by (cases its) auto
  then have "vs \<noteq> []" using vs(2) by (auto split: if_splits)
  ultimately show ?thesis by (auto simp: parseCronField_def)
qed

section \<open>The caches\<close>

lemma evict_suffix: "\<exists>ys. es = ys @ evict n es"
proof (induction es)
  case (Cons e es)
  then obtain ys where "es = ys @ evict n es" by blast
  then show ?case by (cases "n \<le> length (e # es)") (auto intro: exI [of _ "e # ys"])
qed simp

lemma evict_length: "0 < n \<Longrightarrow> length (evict n es) < n"
  by (induction es) auto

lemma evict_set: "set (evict n es) \<subseteq> set es"
  using evict_suffix [of es n] by (metis Un_upper2 set_append)

lemma evict_distinct: "distinct (map fst es) \<Longrightarrow> distinct (map fst (evict n es))"
  using evict_suffix [of es n] by (metis distinct_append map_append)

definition cache_ok :: "nat \<Rightarrow> ('k \<Rightarrow> 'v \<Rightarrow> bool) \<Rightarrow> ('k \<times> 'v) list \<Rightarrow> bool" where
  "cache_ok limit good c \<longleftrightarrow> distinct (map fst c) \<and> length c \<le> limit \<and> (\<forall>(k, v) \<in> set c. good k v)"

lemma cache_delete_ok:
  "cache_ok n good c \<Longrightarrow> cache_ok n good (cache_delete k c) \<and> k \<notin> fst ` set (cache_delete k c)"
  by (auto simp: cache_ok_def cache_delete_def distinct_map_filter intro: order_trans [OF length_filter_le])

lemma boundedCacheSet_ok:
  assumes "cache_ok n good c" and "0 < n" and "good k v"
  shows "cache_ok n good (boundedCacheSet c k v n)"
proof -
  let ?d = "cache_delete k c"
  note d = cache_delete_ok [OF assms(1), of k]
  have "k \<notin> fst ` set (evict n ?d)" using d evict_set by blast
  moreover have "\<forall>(k, v) \<in> set (evict n ?d). good k v" using d evict_set unfolding cache_ok_def by blast
  ultimately show ?thesis
    using d evict_length [OF assms(2), of ?d] evict_distinct [of ?d n] assms(3)
    by (simp add: cache_ok_def boundedCacheSet_def)
qed

lemma cache_delete_length: "k \<in> fst ` set c \<Longrightarrow> length (cache_delete k c) < length c"
  by (auto simp: cache_delete_def intro: length_filter_less)

lemma cache_touch_ok:
  assumes "cache_ok n good c" and "map_of c k = Some v"
  shows "cache_ok n good (cache_touch c k v)"
proof -
  have kv: "(k, v) \<in> set c" using assms(2) by (rule map_of_SomeD)
  then have "length (cache_delete k c) < length c" by (intro cache_delete_length) force
  with kv cache_delete_ok [OF assms(1), of k] assms(1) show ?thesis by (auto simp: cache_ok_def cache_touch_def)
qed

lemma parseCronExpression_transparent:
  assumes "cache_ok 256 (\<lambda>k v. parse_fields k = Inr v) c"
  shows "fst (parseCronExpression c e) = parse_cron e"
    and "cache_ok 256 (\<lambda>k v. parse_fields k = Inr v) (snd (parseCronExpression c e))"
proof -
  let ?n = "normalize_expression e"
  show "fst (parseCronExpression c e) = parse_cron e"
    using assms by (fastforce simp: parseCronExpression_def parse_cron_def Let_def cache_ok_def
        split: option.splits sum.splits dest: map_of_SomeD)
  show "cache_ok 256 (\<lambda>k v. parse_fields k = Inr v) (snd (parseCronExpression c e))"
    using assms by (auto simp: parseCronExpression_def Let_def split: option.splits sum.splits
        intro: cache_touch_ok boundedCacheSet_ok)
qed

section \<open>Normal forms\<close>

lemma split_white_eq:
  "split_white s = (if dropWhile (\<lambda>c. \<not> js_white c) s = [] then [takeWhile (\<lambda>c. \<not> js_white c) s]
     else takeWhile (\<lambda>c. \<not> js_white c) s # split_white (dropWhile js_white (dropWhile (\<lambda>c. \<not> js_white c) s)))"
  by (subst split_white.simps) (simp add: Let_def)

lemma split_white_words:
  "w \<in> set (split_white s) \<Longrightarrow> list_all (\<lambda>c. \<not> js_white c) w"
proof (induction s arbitrary: w rule: split_white.induct)
  case (1 s)
  let ?w = "takeWhile (\<lambda>c. \<not> js_white c) s" and ?r = "dropWhile (\<lambda>c. \<not> js_white c) s"
  have w: "list_all (\<lambda>c. \<not> js_white c) ?w" by (auto simp: list_all_iff dest: set_takeWhileD)
  with 1 show ?case using split_white_eq [of s] by (auto split: if_splits)
qed

lemma last_dropWhile: "dropWhile P s \<noteq> [] \<Longrightarrow> last (dropWhile P s) = last s"
  using takeWhile_dropWhile_id [of P s] by (metis last_appendR)

lemma js_trim_last: "js_trim s \<noteq> [] \<Longrightarrow> \<not> js_white (last (js_trim s))"
proof -
  assume "js_trim s \<noteq> []"
  then obtain c cs where c: "dropWhile js_white (rev (dropWhile js_white s)) = c # cs"
    by (metis js_trim_def neq_Nil_conv rev.simps(1))
  then show ?thesis using dropWhile_hd [OF c] by (simp add: js_trim_def)
qed

lemma split_white_nonempty:
  "s = [] \<or> \<not> js_white (hd s) \<and> \<not> js_white (last s) \<Longrightarrow> s \<noteq> [] \<Longrightarrow> w \<in> set (split_white s) \<Longrightarrow> w \<noteq> []"
proof (induction s arbitrary: w rule: split_white.induct)
  case (1 s)
  let ?w = "takeWhile (\<lambda>c. \<not> js_white c) s" and ?r = "dropWhile (\<lambda>c. \<not> js_white c) s"
  have w: "?w \<noteq> []" using 1 by (cases s) auto
  show ?case
  proof (cases "?r = []")
    case True
    then have "split_white s = [?w]" using split_white_eq [of s] by simp
    with w 1 show ?thesis by simp
  next
    case False
    have e: "split_white s = ?w # split_white (dropWhile js_white ?r)"
      unfolding split_white_eq [of s] by (rule if_not_P [OF False])
    let ?n = "dropWhile js_white ?r"
    have l: "\<not> js_white (last ?r)" using 1(2,3) last_dropWhile [OF False] by auto
    have n: "?n \<noteq> []"
    proof
      assume "?n = []"
      then have "\<forall>c \<in> set ?r. js_white c" unfolding dropWhile_eq_Nil_conv .
      with l last_in_set [OF False] show False by blast
    qed
    have "\<not> js_white (hd ?n)" using n by (rule hd_dropWhile)
    moreover have "\<not> js_white (last ?n)" using l last_dropWhile [OF n] by simp
    ultimately show ?thesis using 1(1) [of ?w ?r w] False n w 1(4) unfolding e by auto
  qed
qed

lemma split_white_join:
  assumes "ws \<noteq> []" and "\<And>w. w \<in> set ws \<Longrightarrow> w \<noteq> [] \<and> list_all (\<lambda>c. \<not> js_white c) w"
  shows "split_white (js_join '' '' ws) = ws"
  using assms
proof (induction ws)
  case Nil
  then show ?case by simp
next
  case (Cons w ws)
  have w: "w \<noteq> []" "\<forall>c \<in> set w. \<not> js_white c" using Cons.prems by (auto simp: list_all_iff)
  have sp: "js_white CHR '' ''" by (simp add: js_white_def)
  show ?case
  proof (cases "ws = []")
    case True
    then show ?thesis using w by (subst split_white.simps) (simp add: Let_def takeWhile_eq_all_conv)
  next
    case False
    then obtain v vs where ws: "ws = v # vs" by (cases ws) auto
    let ?j = "js_join '' '' ws"
    have j: "?j = hd v # tl (?j)" "\<not> js_white (hd v)"
      using Cons.prems(2) [of v] ws by (cases v; cases vs; auto)+
    have "split_white (w @ CHR '' '' # ?j) = w # split_white ?j"
      using w sp j by (subst split_white.simps) (simp add: Let_def takeWhile_append dropWhile_append, metis dropWhile.simps(2) j)
    then show ?thesis using Cons.IH Cons.prems(2) False by (simp add: js_join_Cons)
  qed
qed

lemma js_trim_noop: "s = [] \<or> \<not> js_white (hd s) \<and> \<not> js_white (last s) \<Longrightarrow> js_trim s = s"
proof -
  assume a: "s = [] \<or> \<not> js_white (hd s) \<and> \<not> js_white (last s)"
  then have "dropWhile js_white s = s" by (intro dropWhile_noop) auto
  moreover have "dropWhile js_white (rev s) = rev s" using a by (intro dropWhile_noop) (auto simp: hd_rev)
  ultimately show ?thesis by (simp add: js_trim_def)
qed

lemma join_ends:
  assumes "ws \<noteq> []" and "\<And>w. w \<in> set ws \<Longrightarrow> w \<noteq> [] \<and> list_all (\<lambda>c. \<not> js_white c) w"
  shows "js_join sep ws \<noteq> [] \<and> \<not> js_white (hd (js_join sep ws)) \<and> \<not> js_white (last (js_join sep ws))"
  using assms
proof (induction ws)
  case Nil
  then show ?case by simp
next
  case (Cons w ws)
  have w: "w \<noteq> []" "\<forall>c \<in> set w. \<not> js_white c" using Cons.prems by (auto simp: list_all_iff)
  then have "\<not> js_white (hd w)" "\<not> js_white (last w)" by simp_all
  with w Cons show ?case by (cases "ws = []") (auto simp: js_join_Cons)
qed

lemma normalize_expression_idem [simp]: "normalize_expression (normalize_expression e) = normalize_expression e"
proof (cases "js_trim e = []")
  case True
  have "split_white [] = [[]]" by (subst split_white.simps) (simp add: Let_def)
  with True show ?thesis by (simp add: normalize_expression_def js_trim_def [of "[]"])
next
  case False
  let ?ws = "split_white (js_trim e)"
  have ends: "\<not> js_white (hd (js_trim e))" "\<not> js_white (last (js_trim e))"
    using False js_trim_hd js_trim_last by (metis list.collapse, blast)
  have "?ws \<noteq> []" using split_white_eq [of "js_trim e"] by (auto split: if_splits)
  moreover have "w \<noteq> [] \<and> list_all (\<lambda>c. \<not> js_white c) w" if "w \<in> set ?ws" for w
    using split_white_nonempty [OF _ False that] split_white_words [OF that] ends by blast
  ultimately have ws: "?ws \<noteq> []" "\<And>w. w \<in> set ?ws \<Longrightarrow> w \<noteq> [] \<and> list_all (\<lambda>c. \<not> js_white c) w" by auto
  show ?thesis
    using js_trim_noop [OF disjI2] join_ends [OF ws, of "'' ''"] split_white_join [OF ws]
    by (simp add: normalize_expression_def)
qed

lemma parse_fields_expression: "parse_fields n = Inr p \<Longrightarrow> cron_expression p = n"
  by (auto simp: parse_fields_def split: list.splits)

lemma parse_cron_normal: "parse_cron e = Inr p \<Longrightarrow> parse_cron (cron_expression p) = Inr p"
  using parse_fields_expression [of "normalize_expression e" p] by (simp add: parse_cron_def)

section \<open>Timestamps\<close>

lemma rx_digits_pad [simp]: "rx_digits w (pad_digits w n @ r) = Some (pad_digits w n, r)"
  by (simp add: rx_digits_def)

lemma rx_char_Cons [simp]: "rx_char c (d # r) = (if d = c then Some r else None)"
  by (simp add: rx_char_def)

lemma rx_fraction_pad: "rx_fraction (CHR ''.'' # pad_digits 3 n @ r) = (Some (pad_digits 3 n), r)"
proof -
  have t: "takeWhile js_digit (take 3 (pad_digits 3 n @ r)) = pad_digits 3 n"
    using pad_digits_digits [of 3 n] by (simp add: takeWhile_eq_all_conv list_all_iff)
  have "pad_digits 3 n \<noteq> []" using pad_digits_length [of 3 n] by fastforce
  then show ?thesis unfolding rx_fraction_def rx_char_Cons by (simp only: simp_thms if_True option.case Let_def t) simp
qed

lemma year_10000:
  assumes "0 \<le> t" and "t < 253402300800000"
  shows "1970 \<le> year_from_day (t div 86400000)" and "year_from_day (t div 86400000) \<le> 9999"
proof -
  let ?d = "t div 86400000"
  have d: "0 \<le> ?d" "?d < 2932897" using assms mult_div_mod_eq [of 86400000 t] pos_mod_sign [of 86400000 t] by (simp_all add: pos_imp_zdiv_nonneg_iff)
  note b = year_from_day_bracket [of ?d]
  have e: "day_from_year 1970 = 0" "day_from_year 10000 = 2932897" by (simp_all add: day_from_year_def)
  show "1970 \<le> year_from_day ?d" using day_from_year_mono [of "year_from_day ?d + 1" 1970] b d e by force
  show "year_from_day ?d \<le> 9999" using day_from_year_mono [of 10000 "year_from_day ?d"] b d e by force
qed

text \<open>A time value up to the year 9999 is what its ISO text parses to.\<close>

lemma parse_to_iso_string:
  assumes "0 \<le> t" and "t < 253402300800000"
  shows "parseAbsoluteTimestamp (to_iso_string t) = Inr t"
proof -
  obtain y m d where u: "utc_date (t div 86400000) = (y, m, d)" by (cases "utc_date (t div 86400000)") auto
  note v = utc_date_valid [OF u]
  have y: "1970 \<le> y" "y \<le> 9999" using year_10000 [OF assms] u by (auto simp: utc_date_def Let_def)
  have m: "m < 12" and d: "1 \<le> d" "d \<le> 31"
    using v(1) by (auto simp: valid_date_def month_lengths_def nth_Cons' split: if_splits)
  note b = utc_time_bounds [of t]
  let ?m = "\<lparr>tm_year = pad_digits 4 (nat y), tm_month = pad_digits 2 (Suc m), tm_day = pad_digits 2 (nat d),
    tm_hour = pad_digits 2 (nat (utc_hours t)), tm_minute = pad_digits 2 (nat (utc_minutes t)),
    tm_second = Some (pad_digits 2 (nat (utc_seconds t))), tm_fraction = Some (pad_digits 3 (nat (utc_millis t))), tm_zone = None\<rparr>"
  have match: "match_timestamp (to_iso_string t) = Some ?m"
    using y by (simp add: to_iso_string_def u match_timestamp_def rx_seconds_def rx_fraction_pad rx_zone_def
        del: pad_digits.simps)
  have vals: "digits_int (pad_digits 4 (nat y)) = y" "digits_int (pad_digits 2 (Suc m)) = int m + 1"
    "digits_int (pad_digits 2 (nat d)) = d" "digits_int (pad_digits 2 (nat (utc_hours t))) = utc_hours t"
    "digits_int (pad_digits 2 (nat (utc_minutes t))) = utc_minutes t"
    "digits_int (pad_digits 2 (nat (utc_seconds t))) = utc_seconds t"
    "digits_int (pad_digits 3 (nat (utc_millis t))) = utc_millis t"
    using y m d b by (simp_all add: digits_int_def pad_digits_value del: pad_digits.simps)
  have t: "date_utc y m d (utc_hours t) (utc_minutes t) (utc_seconds t) (utc_millis t) = t"
    using y v(2) utc_time_split [of t] by (simp add: date_utc_def)
  have "safe_integer t" using assms by (simp add: safe_integer_def max_safe_integer_def)
  then show ?thesis
    using assms b m d u by (simp add: parseAbsoluteTimestamp_def match Let_def vals t offset_ms_def del: pad_digits.simps)
qed

text \<open>The comparison with the calendar accepts exactly the real dates of the years from 100 on.\<close>

lemma date_check:
  assumes "0 \<le> y" "m < 12" "1 \<le> d" "0 \<le> h" "h < 24" "0 \<le> mi" "mi < 60" "0 \<le> sec" "sec < 60" "0 \<le> ms" "ms < 1000"
  defines "t \<equiv> date_utc y m d h mi sec ms"
  shows "utc_date (t div 86400000) = (y, m, d) \<and> utc_hours t = h \<and> utc_minutes t = mi \<and> utc_seconds t = sec
    \<longleftrightarrow> 100 \<le> y \<and> valid_date y m d"
proof -
  let ?y = "if 0 \<le> y \<and> y \<le> 99 then 1900 + y else y"
  note j = utc_time_join [OF assms(4-11), of t "make_day ?y m d"]
  have n: "t div 86400000 = make_day ?y m d" and r: "utc_hours t = h" "utc_minutes t = mi" "utc_seconds t = sec"
    by (intro j; simp add: t_def date_utc_def)+
  have False if "utc_date (make_day ?y m d) = (y, m, d)" "y \<le> 99"
  proof -
    have "make_day y m d = make_day (1900 + y) m d" using utc_date_valid(2) [OF that(1)] that(2) assms(1) by simp
    moreover have "make_day y m d < day_from_year (y + 1)"
      using month_offset(2) [OF utc_date_valid(1) [OF that(1)]] day_from_year_Suc [of y] by (simp add: make_day_def)
    moreover have "day_from_year (y + 1) \<le> day_from_year (1900 + y)" by (rule day_from_year_mono) simp
    moreover have "0 \<le> sum_list (take m (month_lengths (1900 + y)))"
      using month_lengths_pos(1) [of "1900 + y"] by (intro sum_list_nonneg) (force dest!: in_set_takeD)
    ultimately show False using assms(3) by (simp add: make_day_def)
  qed
  then show ?thesis unfolding n r using utc_date_valid(1) [of "make_day ?y m d" y m d] utc_date_make_day [of y m d] by force
qed

lemma digits_int_nonneg [simp]: "0 \<le> digits_int s"
  by (simp add: digits_int_def)

text \<open>What an accepted timestamp says, and the time value it stands for.\<close>

lemma parseAbsoluteTimestamp_Inr:
  assumes "parseAbsoluteTimestamp v = Inr t"
  shows "\<exists>m. match_timestamp v = Some m \<and> 0 \<le> t \<and> safe_integer t \<and> 1 \<le> digits_int (tm_month m)
    \<and> valid_date (digits_int (tm_year m)) (nat (digits_int (tm_month m) - 1)) (digits_int (tm_day m))"
proof (cases "match_timestamp v")
  case None
  with assms show ?thesis by (simp add: parseAbsoluteTimestamp_def)
next
  case (Some m)
  have "0 \<le> t \<and> safe_integer t \<and> 1 \<le> digits_int (tm_month m)
    \<and> (\<exists>n. utc_date n = (digits_int (tm_year m), nat (digits_int (tm_month m) - 1), digits_int (tm_day m)))"
    using assms unfolding parseAbsoluteTimestamp_def Some option.case Let_def
    by (clarsimp split: if_splits) blast
  with Some show ?thesis using utc_date_valid(1) by blast
qed

section \<open>Searching\<close>

definition cron_due :: "intl \<Rightarrow> parsed_cron \<Rightarrow> string \<Rightarrow> int \<Rightarrow> bool" where
  "cron_due zones cron timezone t \<longleftrightarrow> (case zonedParts zones t timezone of Inl e \<Rightarrow> False | Inr p \<Rightarrow> cronMatches cron p)"

lemma cron_search_0 [simp]: "cron_search zones cron tz 0 c = Inl (Automation_Error AUTOMATION_SCHEDULE_NO_FUTURE)"
  and cron_search_Suc [simp]: "cron_search zones cron tz (Suc n) c = res_bind (zonedParts zones c tz) (\<lambda>p.
    if cronMatches cron p then Inr c else cron_search zones cron tz n (c + 60000))"
  by (simp_all add: cron_search.simps [of zones cron tz 0 c] cron_search.simps [of zones cron tz "Suc n" c] cong: if_cong)

lemma cron_search_Inr:
  "cron_search zones cron tz n c = Inr t \<Longrightarrow>
   \<exists>k < n. t = c + int k * 60000 \<and> cron_due zones cron tz t \<and> (\<forall>j < k. \<not> cron_due zones cron tz (c + int j * 60000))"
proof (induction n arbitrary: c)
  case 0
  then show ?case by simp
next
  case (Suc n)
  from Suc.prems obtain p where p: "zonedParts zones c tz = Inr p"
    and c: "(if cronMatches cron p then Inr c else cron_search zones cron tz n (c + 60000)) = Inr t"
    by auto
  show ?case
  proof (cases "cronMatches cron p")
    case True
    with c p show ?thesis by (intro exI [of _ 0]) (simp add: cron_due_def)
  next
    case False
    with c Suc.IH obtain k where k: "k < n" "t = c + 60000 + int k * 60000" "cron_due zones cron tz t"
      "\<forall>j < k. \<not> cron_due zones cron tz (c + 60000 + int j * 60000)" by auto
    have "\<not> cron_due zones cron tz (c + int j * 60000)" if "j < Suc k" for j
      using that k(4) False p by (cases j) (auto simp: cron_due_def algebra_simps)
    with k show ?thesis by (intro exI [of _ "Suc k"]) simp
  qed
qed

text \<open>Where the formatter works, the search is exhaustive.\<close>

lemma cron_search_Inl:
  assumes "\<And>j. j < n \<Longrightarrow> \<exists>p. zonedParts zones (c + int j * 60000) tz = Inr p"
    and "cron_search zones cron tz n c = Inl e"
  shows "e = Automation_Error AUTOMATION_SCHEDULE_NO_FUTURE \<and> (\<forall>j < n. \<not> cron_due zones cron tz (c + int j * 60000))"
  using assms
proof (induction n arbitrary: c)
  case 0
  then show ?case by simp
next
  case (Suc n)
  from Suc.prems(1) [of 0] obtain p where p: "zonedParts zones c tz = Inr p" by auto
  with Suc.prems(2) have np: "\<not> cronMatches cron p" "cron_search zones cron tz n (c + 60000) = Inl e"
    by (auto split: if_splits)
  have "\<exists>p. zonedParts zones (c + 60000 + int j * 60000) tz = Inr p" if "j < n" for j
    using Suc.prems(1) [of "Suc j"] that by (simp add: algebra_simps)
  from Suc.IH [OF this np(2)] have e: "e = Automation_Error AUTOMATION_SCHEDULE_NO_FUTURE"
    and j: "\<forall>j < n. \<not> cron_due zones cron tz (c + 60000 + int j * 60000)" by auto
  have "\<not> cron_due zones cron tz (c + int j * 60000)" if "j < Suc n" for j
    using that j np p by (cases j) (auto simp: cron_due_def algebra_simps)
  with e show ?case by blast
qed

lemma cron_search_none:
  assumes "\<And>j. j < n \<Longrightarrow> \<exists>p. zonedParts zones (c + int j * 60000) tz = Inr p \<and> \<not> cronMatches cron p"
  shows "cron_search zones cron tz n c = Inl (Automation_Error AUTOMATION_SCHEDULE_NO_FUTURE)"
  using assms
proof (induction n arbitrary: c)
  case 0
  then show ?case by simp
next
  case (Suc n)
  from Suc.prems [of 0] obtain p where "zonedParts zones c tz = Inr p" "\<not> cronMatches cron p" by auto
  moreover have "\<exists>p. zonedParts zones (c + 60000 + int j * 60000) tz = Inr p \<and> \<not> cronMatches cron p" if "j < n" for j
    using Suc.prems [of "Suc j"] that by (simp add: algebra_simps)
  ultimately show ?case using Suc.IH by simp
qed

end
