(* ===== verification/Schedule_Properties.thy ===== *)
theory Schedule_Properties
  imports Cron_Facts
begin

text \<open>
  What the schedules of automations promise: the next occurrence is the first one after the given
  time, normal forms are stable, timestamps name real dates, cron text denotes what it says, and the
  cache of parsed expressions is invisible. The examples use a formatter for UTC built from the
  calendar.
\<close>

definition utc_zones :: intl where
  "utc_zones = \<lparr>intl_resolve = (\<lambda>z. if z = ''UTC'' then Some ''UTC'' else None),
     intl_parts = (\<lambda>z t. case utc_date (t div 86400000) of (y, m, d) \<Rightarrow>
       [(''weekday'', [''Sun'', ''Mon'', ''Tue'', ''Wed'', ''Thu'', ''Fri'', ''Sat''] ! nat ((t div 86400000 + 4) mod 7)),
        (''year'', pad_digits 4 (nat y)), (''month'', pad_digits 2 (Suc m)), (''day'', pad_digits 2 (nat d)),
        (''hour'', pad_digits 2 (nat (utc_hours t))), (''minute'', pad_digits 2 (nat (utc_minutes t)))])\<rparr>"

definition work_days :: parsed_cron where
  "work_days = \<lparr>cron_expression = ''30 9 * * 1-5'', cron_minute = \<lparr>cf_values = [30], cf_wildcard = False\<rparr>,
     cron_hour = \<lparr>cf_values = [9], cf_wildcard = False\<rparr>,
     cron_dayOfMonth = \<lparr>cf_values = [1..31], cf_wildcard = True\<rparr>,
     cron_month = \<lparr>cf_values = [1..12], cf_wildcard = True\<rparr>,
     cron_dayOfWeek = \<lparr>cf_values = [1, 2, 3, 4, 5], cf_wildcard = False\<rparr>\<rparr>"

definition feb_30 :: parsed_cron where
  "feb_30 = \<lparr>cron_expression = ''0 0 30 2 *'', cron_minute = \<lparr>cf_values = [0], cf_wildcard = False\<rparr>,
     cron_hour = \<lparr>cf_values = [0], cf_wildcard = False\<rparr>,
     cron_dayOfMonth = \<lparr>cf_values = [30], cf_wildcard = False\<rparr>,
     cron_month = \<lparr>cf_values = [2], cf_wildcard = False\<rparr>,
     cron_dayOfWeek = \<lparr>cf_values = [0, 1, 2, 3, 4, 5, 6], cf_wildcard = True\<rparr>\<rparr>"

fun parse_through :: "cron_cache \<Rightarrow> string list \<Rightarrow> (err + parsed_cron) list \<times> cron_cache" where
  "parse_through c [] = ([], c)"
| "parse_through c (e # es) =
     (let (r, c1) = parseCronExpression c e; (rs, c2) = parse_through c1 es in (r # rs, c2))"

lemma next_minute:
  fixes after :: int
  shows "after < after div 60000 * 60000 + 60000" "after div 60000 * 60000 \<le> after"
  using mult_div_mod_eq [of 60000 after] pos_mod_bound [of 60000 after] pos_mod_sign [of 60000 after] by linarith+

text \<open>C9. The next occurrence of a cron schedule is the first whole minute after the given time at
  which the zone's clock matches the expression, and it lies within the search limit.\<close>

theorem next_cron_occurrence:
  assumes "computeNextScheduledFor zones (Cron e) tz after = Inr (Some t)"
  shows "\<exists>cron z. parse_cron e = Inr cron \<and> normalizeTimezone zones tz = Inr z
    \<and> after < t \<and> 60000 dvd t \<and> t \<le> after + int cron_search_limit * 60000 \<and> cron_due zones cron z t
    \<and> (\<forall>u. after < u \<and> u < t \<and> 60000 dvd u \<longrightarrow> \<not> cron_due zones cron z u)"
proof -
  let ?c = "after div 60000 * 60000 + 60000"
  from assms obtain cron z where cz: "parse_cron e = Inr cron" "normalizeTimezone zones tz = Inr z"
    and t: "cron_search zones cron z cron_search_limit ?c = Inr t"
    by (fastforce simp: computeNextScheduledFor_def normalizeSchedule_def dest: parse_cron_normal)
  from cron_search_Inr [OF t] obtain k where k: "k < cron_search_limit" "t = ?c + int k * 60000"
    "cron_due zones cron z t" and before: "\<forall>j < k. \<not> cron_due zones cron z (?c + int j * 60000)" by blast
  have "\<not> cron_due zones cron z u" if u: "after < u" "u < t" "60000 dvd u" for u
  proof -
    obtain q where q: "u = 60000 * q" using u(3) by (elim dvdE)
    have "after div 60000 < q" using u(1) q next_minute(2) [of after] by linarith
    then obtain j where j: "q = after div 60000 + 1 + int j" using zle_iff_zadd [of "after div 60000 + 1" q] by auto
    then have "u = ?c + int j * 60000" "j < k" using q u(2) k(2) by auto
    with before show ?thesis by blast
  qed
  moreover have "after < t" "60000 dvd t" "t \<le> after + int cron_search_limit * 60000"
    using k(1,2) next_minute [of after] by auto
  ultimately show ?thesis using cz k(3) by blast
qed

lemma work_days_text: "normalize_expression ''30  9 * * 1-5'' = ''30 9 * * 1-5''"
  by code_simp

lemma work_days_minute: "parseCronField ''30'' 0 59 False = Inr (cron_minute work_days)"
  by code_simp

lemma work_days_hour: "parseCronField ''9'' 0 23 False = Inr (cron_hour work_days)"
  by code_simp

lemma work_days_day: "parseCronField ''*'' 1 31 False = Inr (cron_dayOfMonth work_days)"
  by code_simp

lemma work_days_month: "parseCronField ''*'' 1 12 False = Inr (cron_month work_days)"
  by code_simp

lemma work_days_weekday: "parseCronField ''1-5'' 0 7 True = Inr (cron_dayOfWeek work_days)"
  by code_simp

lemma work_days_parsed: "parse_cron ''30  9 * * 1-5'' = Inr work_days"
proof -
  have "js_split CHR '' '' ''30 9 * * 1-5'' = [''30'', ''9'', ''*'', ''*'', ''1-5'']" by code_simp
  then show ?thesis
    unfolding parse_cron_def parse_fields_def work_days_text
    by (simp add: work_days_minute work_days_hour work_days_day work_days_month work_days_weekday del: js_split.simps)
      (simp add: work_days_def)
qed

lemma utc_resolved: "normalizeTimezone utc_zones '' UTC'' = Inr ''UTC''"
proof -
  have "js_trim '' UTC'' = ''UTC''" by code_simp
  then show ?thesis by (simp add: normalizeTimezone_def utc_zones_def)
qed

lemma first_thursday:
  "zonedParts utc_zones 34200000 ''UTC'' = Inr \<lparr>zp_year = 1970, zp_month = 1, zp_day = 1, zp_hour = 9, zp_minute = 30, zp_dayOfWeek = 4\<rparr>"
proof -
  have "utc_date 0 = (1970, 0, 1)" by code_simp
  moreover have "pad_digits w n = [] \<longleftrightarrow> w = 0" for w n by (metis pad_digits_length length_0_conv)
  ultimately show ?thesis
    by (simp add: zonedParts_def utc_zones_def parts_record_def part_number_def digits_int_def pad_digits_value
        weekday_number_def utc_hours_def utc_minutes_def)
qed

lemma work_days_next: "computeNextScheduledFor utc_zones (Cron ''30  9 * * 1-5'') '' UTC'' 34140000 = Inr (Some 34200000)"
proof -
  have "finiteInteger 34140000 0 max_safe_integer = Inr 34140000"
    by (simp add: safe_integer_def max_safe_integer_def)
  moreover have "cron_search utc_zones work_days ''UTC'' cron_search_limit 34200000 = Inr 34200000"
    by (subst cron_search.simps) (simp add: first_thursday cron_search_limit_def cronMatches_def work_days_def Let_def)
  ultimately show ?thesis
    by (simp add: computeNextScheduledFor_def normalizeSchedule_def work_days_parsed utc_resolved
        parse_cron_normal [OF work_days_parsed])
qed

theorem next_cron_occurrence_witness:
  "34140000 < (34200000 :: int) \<and> cron_due utc_zones work_days ''UTC'' 34200000"
  using next_cron_occurrence [OF work_days_next] by (auto simp: work_days_parsed utc_resolved)

text \<open>Where the zone's formatter works, a cron schedule is refused as having no future only if no
  minute of the search window matches.\<close>

theorem cron_search_exhaustive:
  assumes "computeNextScheduledFor zones (Cron e) tz after = Inl err" and "parse_cron e = Inr cron"
    and "normalizeTimezone zones tz = Inr z" and "0 \<le> after" and "after \<le> max_safe_integer"
    and "\<And>u. after < u \<Longrightarrow> u \<le> after + int cron_search_limit * 60000 \<Longrightarrow> \<exists>p. zonedParts zones u z = Inr p"
  shows "err = Automation_Error AUTOMATION_SCHEDULE_NO_FUTURE
    \<and> (\<forall>u. after < u \<and> u \<le> after + int (cron_search_limit - 1) * 60000 \<and> 60000 dvd u \<longrightarrow> \<not> cron_due zones cron z u)"
proof -
  let ?c = "after div 60000 * 60000 + 60000"
  have "finiteInteger after 0 max_safe_integer = Inr after"
    using assms(4,5) by (simp add: safe_integer_def max_safe_integer_def)
  with assms(1-3) have s: "cron_search zones cron z cron_search_limit ?c = Inl err"
    by (simp add: computeNextScheduledFor_def normalizeSchedule_def parse_cron_normal [OF assms(2)] res_bind_eq_Inl)
  have "\<exists>p. zonedParts zones (?c + int j * 60000) z = Inr p" if "j < cron_search_limit" for j
    using that next_minute [of after] by (intro assms(6)) auto
  from cron_search_Inl [OF this s] have e: "err = Automation_Error AUTOMATION_SCHEDULE_NO_FUTURE"
    and none: "\<forall>j < cron_search_limit. \<not> cron_due zones cron z (?c + int j * 60000)" by auto
  have "\<not> cron_due zones cron z u" if u: "after < u" "u \<le> after + int (cron_search_limit - 1) * 60000" "60000 dvd u" for u
  proof -
    obtain q where q: "u = 60000 * q" using u(3) by (elim dvdE)
    have "after div 60000 < q" using u(1) q next_minute(2) [of after] by linarith
    then obtain j where j: "q = after div 60000 + 1 + int j" using zle_iff_zadd [of "after div 60000 + 1" q] by auto
    then have "u = ?c + int j * 60000" "j < cron_search_limit"
      using q u(2) next_minute [of after] by (auto simp: cron_search_limit_def)
    with none show ?thesis by blast
  qed
  with e show ?thesis by blast
qed

lemma feb_30_text: "normalize_expression ''0 0 30 2 *'' = ''0 0 30 2 *''"
  by code_simp

lemma feb_30_time:
  "parseCronField ''0'' 0 59 False = Inr (cron_minute feb_30)" "parseCronField ''0'' 0 23 False = Inr (cron_hour feb_30)"
  by (code_simp, code_simp)

lemma feb_30_day: "parseCronField ''30'' 1 31 False = Inr (cron_dayOfMonth feb_30)"
  by code_simp

lemma feb_30_month: "parseCronField ''2'' 1 12 False = Inr (cron_month feb_30)"
  by code_simp

lemma feb_30_weekday: "parseCronField ''*'' 0 7 True = Inr (cron_dayOfWeek feb_30)"
  by code_simp

lemma feb_30_parsed: "parse_cron ''0 0 30 2 *'' = Inr feb_30"
proof -
  have "js_split CHR '' '' ''0 0 30 2 *'' = [''0'', ''0'', ''30'', ''2'', ''*'']" by code_simp
  then show ?thesis
    unfolding parse_cron_def parse_fields_def feb_30_text
    by (simp add: feb_30_time feb_30_day feb_30_month feb_30_weekday del: js_split.simps) (simp add: feb_30_def)
qed

text \<open>In UTC there is no 30 February.\<close>

lemma utc_parts_day:
  assumes "0 \<le> t" and "t \<le> 8640000000000000"
  shows "\<exists>p. zonedParts utc_zones t ''UTC'' = Inr p \<and> \<not> cronMatches feb_30 p"
proof -
  obtain y m d where u: "utc_date (t div 86400000) = (y, m, d)" by (cases "utc_date (t div 86400000)") auto
  have v: "m < 12" "1 \<le> d" "d \<le> 31" "m = 1 \<Longrightarrow> d \<le> 29"
    using utc_date_valid(1) [OF u] by (auto simp: valid_date_def month_lengths_def nth_Cons' split: if_splits)
  have ne: "pad_digits w n = [] \<longleftrightarrow> w = 0" for w n by (metis pad_digits_length length_0_conv)
  have mo: "digits_value (pad_digits 2 (Suc m)) = Suc m" "digits_value (pad_digits 2 (nat d)) = nat d"
    using v by (auto intro!: pad_digits_value)
  let ?w = "[''Sun'', ''Mon'', ''Tue'', ''Wed'', ''Thu'', ''Fri'', ''Sat''] ! nat ((t div 86400000 + 4) mod 7)"
  have "\<exists>k. weekday_number ?w = Some k"
  proof -
    have "nat ((t div 86400000 + 4) mod 7) < 7" using pos_mod_bound [of 7 "t div 86400000 + 4"] by linarith
    then have "?w \<in> set [''Sun'', ''Mon'', ''Tue'', ''Wed'', ''Thu'', ''Fri'', ''Sat'']" by (intro nth_mem) simp
    then show ?thesis by (auto simp: weekday_number_def)
  qed
  then obtain k where k: "weekday_number ?w = Some k" by blast
  show ?thesis
    using assms v by (simp add: zonedParts_def utc_zones_def parts_record_def part_number_def digits_int_def u ne k mo
        cronMatches_def feb_30_def del: nth_Cons_numeral) linarith
qed

lemma feb_30_never:
  "computeNextScheduledFor utc_zones (Cron ''0 0 30 2 *'') '' UTC'' 0 = Inl (Automation_Error AUTOMATION_SCHEDULE_NO_FUTURE)"
proof -
  have "cron_search utc_zones feb_30 ''UTC'' cron_search_limit 60000 = Inl (Automation_Error AUTOMATION_SCHEDULE_NO_FUTURE)"
    by (intro cron_search_none utc_parts_day) (auto simp: cron_search_limit_def)
  then show ?thesis
    using parse_cron_normal [OF feb_30_parsed]
    by (simp add: computeNextScheduledFor_def normalizeSchedule_def feb_30_parsed utc_resolved finiteInteger_def
        safe_integer_def max_safe_integer_def)
qed

theorem cron_search_exhaustive_witness:
  "\<not> cron_due utc_zones feb_30 ''UTC'' 5097600000"
proof -
  have "\<exists>p. zonedParts utc_zones u ''UTC'' = Inr p" if "0 < u" "u \<le> 0 + int cron_search_limit * 60000" for u
    using utc_parts_day [of u] that by (auto simp: cron_search_limit_def)
  from cron_search_exhaustive [OF feb_30_never feb_30_parsed utc_resolved _ _ this]
  have "\<forall>u. 0 < u \<and> u \<le> 0 + int (cron_search_limit - 1) * 60000 \<and> 60000 dvd u \<longrightarrow> \<not> cron_due utc_zones feb_30 ''UTC'' u"
    by (simp add: max_safe_integer_def)
  then show ?thesis by (simp add: cron_search_limit_def)
qed

text \<open>C11. The next occurrence of an interval schedule is its first tick, counted from the anchor, after
  the given time.\<close>

theorem next_interval_occurrence:
  assumes "computeNextScheduledFor zones (Interval every anchor) tz after = Inr (Some t)"
  shows "after < t \<and> (\<exists>k. t = anchor + int k * every) \<and> (\<forall>k. after < anchor + int k * every \<longrightarrow> t \<le> anchor + int k * every)"
proof -
  from assms have every: "1000 \<le> every" and safe: "t = (if after < anchor then anchor else anchor + ((after - anchor) div every + 1) * every)"
    by (auto simp: computeNextScheduledFor_def normalizeSchedule_def Let_def split: if_splits)
  define q where "q = (after - anchor) div every"
  have "0 < every" using every by simp
  then have q: "q * every \<le> after - anchor" "after - anchor < (q + 1) * every"
    using every mult_div_mod_eq [of every "after - anchor"] pos_mod_bound [of every "after - anchor"]
      pos_mod_sign [of every "after - anchor"] unfolding q_def [symmetric] by (simp_all add: algebra_simps, linarith+)
  show ?thesis
  proof (cases "after < anchor")
    case True
    have "0 \<le> int k * every" for k using every by simp
    with True safe show ?thesis by (auto intro: exI [of _ 0])
  next
    case False
    then have "0 \<le> q" using every by (simp add: q_def pos_imp_zdiv_nonneg_iff)
    have t: "t = anchor + (q + 1) * every" using safe False by (simp add: q_def)
    have "(q + 1) * every \<le> int k * every" if "after < anchor + int k * every" for k
    proof -
      have "q * every < int k * every" using that q(1) by linarith
      then have "q < int k" using every by (simp add: mult_less_cancel_right)
      then show ?thesis using every by (intro mult_right_mono) auto
    qed
    moreover have "\<exists>k. t = anchor + int k * every" using t \<open>0 \<le> q\<close> by (intro exI [of _ "nat (q + 1)"]) simp
    ultimately show ?thesis using t q(2) by simp
  qed
qed

theorem next_interval_occurrence_witness:
  "computeNextScheduledFor utc_zones (Interval 60000 1000) '' UTC'' 120000 = Inr (Some 121000)
   \<and> (\<exists>k. 121000 = 1000 + int k * 60000)"
proof -
  have "computeNextScheduledFor utc_zones (Interval 60000 1000) '' UTC'' 120000 = Inr (Some 121000)"
    by (simp add: computeNextScheduledFor_def normalizeSchedule_def utc_resolved finiteInteger_def safe_integer_def
        max_safe_integer_def Let_def)
  with next_interval_occurrence [OF this] show ?thesis by blast
qed

text \<open>A time value up to the year 9999 is what its ISO text parses to.\<close>

theorem timestamp_roundtrip:
  assumes "0 \<le> t" and "t < 253402300800000"
  shows "parseAbsoluteTimestamp (to_iso_string t) = Inr t"
  using assms by (rule parse_to_iso_string)

theorem timestamp_roundtrip_witness: "parseAbsoluteTimestamp (to_iso_string 951782400123) = Inr 951782400123"
  using timestamp_roundtrip [of 951782400123] by simp

text \<open>An accepted timestamp names a date of the calendar: no 30 February, and 29 February in leap
  years only.\<close>

theorem timestamp_real_date:
  assumes "parseAbsoluteTimestamp v = Inr t"
  shows "\<exists>m. match_timestamp v = Some m \<and> 0 \<le> t \<and> 1 \<le> digits_int (tm_month m)
    \<and> valid_date (digits_int (tm_year m)) (nat (digits_int (tm_month m) - 1)) (digits_int (tm_day m))"
  using parseAbsoluteTimestamp_Inr [OF assms] by blast

lemma leap_day_accepted: "parseAbsoluteTimestamp ''2024-02-29T09:30+09:00'' = Inr 1709166600000"
  by code_simp

theorem timestamp_real_date_witness:
  "\<exists>m. match_timestamp ''2024-02-29T09:30+09:00'' = Some m
    \<and> valid_date (digits_int (tm_year m)) (nat (digits_int (tm_month m) - 1)) (digits_int (tm_day m))"
  using timestamp_real_date [OF leap_day_accepted] by blast

text \<open>Normalizing a schedule is stable and keeps its meaning: the normal form is its own normal
  form and has the same next occurrence, for timestamps up to the year 9999.\<close>

theorem schedule_normal_form:
  assumes "normalizeSchedule s = Inr s'"
    and "\<And>a t. s = At a \<Longrightarrow> parseAbsoluteTimestamp a = Inr t \<Longrightarrow> t < 253402300800000"
  shows "normalizeSchedule s' = Inr s' \<and> computeNextScheduledFor zones s' tz after = computeNextScheduledFor zones s tz after"
proof -
  have n: "normalizeSchedule s' = Inr s'"
  proof (cases s)
    case (At a)
    with assms(1) obtain t where t: "parseAbsoluteTimestamp a = Inr t" "s' = At (to_iso_string t)"
      by (auto simp: normalizeSchedule_def)
    then have "parseAbsoluteTimestamp (to_iso_string t) = Inr t"
      using assms(2) [OF At] parseAbsoluteTimestamp_Inr [OF t(1)] by (intro parse_to_iso_string) auto
    with t show ?thesis by (simp add: normalizeSchedule_def)
  next
    case (Interval e a)
    with assms(1) show ?thesis by (auto simp: normalizeSchedule_def)
  next
    case (Cron e)
    with assms(1) show ?thesis by (auto simp: normalizeSchedule_def dest: parse_cron_normal)
  qed
  then show ?thesis using assms(1) by (simp add: computeNextScheduledFor_def)
qed

theorem schedule_normal_form_witness:
  "normalizeSchedule (Cron (cron_expression work_days)) = Inr (Cron (cron_expression work_days))"
proof -
  have "normalizeSchedule (Cron ''30  9 * * 1-5'') = Inr (Cron (cron_expression work_days))"
    by (simp add: normalizeSchedule_def work_days_parsed)
  from schedule_normal_form [OF this] show ?thesis by simp
qed

text \<open>Past the year 9999 the normal form is lost: a timestamp of the last hours of 9999 west of
  Greenwich is accepted, but what it is normalized to is rejected.\<close>

theorem at_year_10000:
  "\<exists>s'. normalizeSchedule (At ''9999-12-31T23:59:59-14:00'') = Inr s' \<and> normalizeSchedule s' = Inl invalid_schedule"
proof -
  have "parseAbsoluteTimestamp ''9999-12-31T23:59:59-14:00'' = Inr 253402351199000" by code_simp
  moreover have "utc_date 2932897 = (10000, 0, 1)" by code_simp
  then have "\<exists>r. to_iso_string 253402351199000 = CHR ''+'' # r" by (simp add: to_iso_string_def)
  moreover have "match_timestamp (CHR ''+'' # r) = None" for r
    by (simp add: match_timestamp_def rx_digits_def js_digit_def)
  ultimately show ?thesis by (auto simp: normalizeSchedule_def parseAbsoluteTimestamp_def)
qed

text \<open>A printed cron field parses to the union of what its items denote.\<close>

theorem cron_field_text:
  assumes "its \<noteq> []" and "\<forall>i \<in> set its. item_ok lo hi i" and "lo \<le> hi"
  shows "\<exists>f. parseCronField (js_join '','' (map item_text its)) lo hi dow = Inr f
    \<and> set (cf_values f) = (if dow then normalizeDow else id) ` (\<Union>i \<in> set its. item_values lo hi i)"
  using assms by (rule parseCronField_text)

theorem cron_field_text_witness:
  "\<exists>f. parseCronField (js_join '','' (map item_text [Span 9 17 (Some 4), One 22])) 0 23 False = Inr f \<and> 13 \<in> set (cf_values f)"
  using cron_field_text [of "[Span 9 17 (Some 4), One 22]" 0 23 False] by (auto simp: step_value_def)

text \<open>The cache of parsed expressions is invisible: whatever expressions are parsed through it, each
  result is that of the parser without a cache, and the cache never holds more than 256 of them.\<close>

theorem cron_cache_transparent:
  "fst (parse_through [] es) = map parse_cron es \<and> length (snd (parse_through [] es)) \<le> 256"
proof -
  have "cache_ok 256 (\<lambda>k v. parse_fields k = Inr v) c \<Longrightarrow>
    fst (parse_through c es) = map parse_cron es \<and> cache_ok 256 (\<lambda>k v. parse_fields k = Inr v) (snd (parse_through c es))" for c
  proof (induction es arbitrary: c)
    case (Cons e es)
    show ?case using Cons.IH parseCronExpression_transparent [OF Cons.prems, of e]
      by (simp add: case_prod_beta)
  qed simp
  from this [of "[]"] show ?thesis by (simp add: cache_ok_def)
qed

end
