(* ===== verification/Scheduler_Properties.thy ===== *)
theory Scheduler_Properties
  imports Automation_Scheduler Automation_Properties Schedule_Properties
begin

text \<open>
  What the scheduler makes of the ledger: the occurrences it plans after a start, what a wake leaves
  behind, how an execution ends, and the life of the scheduler object.
\<close>

section \<open>Plans\<close>

lemma computeNext_later:
  assumes "computeNextScheduledFor zones sch tz t = Inr (Some u)"
  shows "t < u"
proof -
  obtain n z where n: "normalizeSchedule sch = Inr n" "normalizeTimezone zones tz = Inr z"
    using assms by (auto simp: computeNextScheduledFor_def)
  show ?thesis
  proof (cases n)
    case (At a)
    with n assms show ?thesis by (auto simp: computeNextScheduledFor_def split: if_splits)
  next
    case (Interval every anchor)
    then have "1000 \<le> every" using n(1) by (cases sch) (auto simp: normalizeSchedule_def)
    moreover have "t - anchor < ((t - anchor) div every + 1) * every" if "0 < every"
    proof -
      have "every * ((t - anchor) div every) + (t - anchor) mod every = t - anchor" "(t - anchor) mod every < every"
        using that by simp_all
      moreover have "((t - anchor) div every + 1) * every = every * ((t - anchor) div every) + every"
        by (simp add: algebra_simps)
      ultimately show ?thesis by linarith
    qed
    ultimately show ?thesis
      using n assms Interval by (auto simp: computeNextScheduledFor_def Let_def split: if_splits)
  next
    case (Cron e)
    with n assms obtain cron where "cron_search zones cron z cron_search_limit (t div 60000 * 60000 + 60000) = Inr u"
      by (auto simp: computeNextScheduledFor_def)
    from cron_search_Inr [OF this] obtain k where "u = t div 60000 * 60000 + 60000 + int k * 60000" by blast
    moreover have "t < t div 60000 * 60000 + 60000" by (simp add: minus_mod_eq_div_mult [symmetric])
    ultimately show ?thesis by linarith
  qed
qed

lemma next_after_later: "next_after zones row t = Inr (Some u) \<Longrightarrow> t < u"
  by (auto simp: next_after_def intro: computeNext_later)

lemma catch_up_loop_spec:
  assumes "catch_up_loop zones row now n cursor = Inr (ts, final)"
  shows "length ts \<le> n \<and> sorted_wrt (<) ts \<and> (\<forall>t \<in> set ts. t \<le> now \<and> (\<exists>c. cursor = Some c \<and> c \<le> t))
    \<and> successively (\<lambda>a b. next_after zones row a = Inr (Some b)) ts
    \<and> (ts \<noteq> [] \<longrightarrow> cursor = Some (hd ts))
    \<and> (length ts < n \<longrightarrow> (\<forall>c. final = Some c \<longrightarrow> now < c))"
  using assms
proof (induction zones row now n cursor arbitrary: ts final rule: catch_up_loop.induct)
  case (3 zones row now n c)
  show ?case
  proof (cases "now < c")
    case True
    with "3.prems" show ?thesis by auto
  next
    case False
    with "3.prems" obtain cursor rest where r: "next_after zones row c = Inr cursor"
      "catch_up_loop zones row now n cursor = Inr (rest, final)" "ts = c # rest" by auto
    note ih = "3.IH" [OF False r(2)]
    have later: "c < t" if "t \<in> set rest" for t
      using ih that r(1) next_after_later [of zones row c] by fastforce
    have "successively (\<lambda>a b. next_after zones row a = Inr (Some b)) ts"
      using ih r(1,3) by (cases rest) auto
    with ih later False r(3) show ?thesis by (auto intro: less_imp_le)
  qed
qed auto

text \<open>C24. What a scheduler plans for a job that is due when it starts: occurrences that have passed, in
  strictly ascending order and one after the other by the schedule, the first one being the cursor of
  the job, never more than the catch-up policy allows; and the new cursor lies in the future.\<close>

theorem startup_plan_bounded:
  assumes "startupPlan zones row now = Inr p" and "j_nextScheduledFor row = Some first" and "first \<le> now" and "job_checks row"
  shows "pl_pending p @ pl_skipped p \<noteq> [] \<and> hd (pl_pending p @ pl_skipped p) = first
    \<and> sorted_wrt (<) (pl_pending p @ pl_skipped p) \<and> (\<forall>t \<in> set (pl_pending p @ pl_skipped p). t \<le> now)
    \<and> successively (\<lambda>a b. next_after zones row a = Inr (Some b)) (pl_pending p)
    \<and> int (length (pl_pending p)) \<le> (case j_catchUpPolicy row of SKIP \<Rightarrow> 0 | RUN_ONCE \<Rightarrow> 1 | BOUNDED \<Rightarrow> the (j_catchUpLimit row))
    \<and> (\<forall>n. pl_nextScheduledFor p = Some n \<longrightarrow> now < n)"
proof (cases "j_catchUpPolicy row")
  case BOUNDED
  with assms(4) obtain l where l: "j_catchUpLimit row = Some l" "1 \<le> l" by (auto simp: job_checks_def split: option.splits)
  with assms(1-3) BOUNDED obtain ts c where loop: "catch_up_loop zones row now (nat l) (Some first) = Inr (ts, c)"
    and p: "pl_pending p = ts" "pl_skipped p = []"
    and nx: "(case c of Some c' \<Rightarrow> if c' \<le> now then next_after zones row now else Inr c | None \<Rightarrow> Inr c) = Inr (pl_nextScheduledFor p)"
    by (auto simp: startupPlan_def sched_catchUpDomain_def split: if_splits)
  note spec = catch_up_loop_spec [OF loop]
  obtain m where m: "nat l = Suc m" using l(2) by (cases "nat l") auto
  have "ts \<noteq> []" using loop assms(3) unfolding m by auto
  moreover have "\<forall>n. pl_nextScheduledFor p = Some n \<longrightarrow> now < n"
    using nx by (auto split: option.splits if_splits dest: next_after_later)
  ultimately show ?thesis using spec p BOUNDED l by (auto simp: le_nat_iff)
qed (use assms in \<open>auto simp: startupPlan_def sched_catchUpDomain_def dest: next_after_later\<close>)

definition bounded_job :: job_row where
  "bounded_job = sample_job\<lparr>j_timezone := '' UTC'', j_catchUpPolicy := BOUNDED, j_catchUpLimit := Some 2\<rparr>"

lemmas interval_next = next_after_def sched_scheduleDomain_def payload_schedule_def json_field_def normalizeSchedule_def
  computeNextScheduledFor_def finiteInteger_def safe_integer_def max_safe_integer_def utc_resolved Let_def

lemma bounded_next: "0 \<le> t \<Longrightarrow> t \<le> 1000000 \<Longrightarrow> next_after utc_zones bounded_job t = Inr (Some ((t div 60000 + 1) * 60000))"
  by (simp add: interval_next bounded_job_def sample_job_def)

lemma bounded_plan: "startupPlan utc_zones bounded_job 250000
    = Inr \<lparr>pl_pending = [60000, 120000], pl_skipped = [], pl_nextScheduledFor = Some 300000, pl_lastScheduledFor = None\<rparr>"
proof -
  have "catch_up_loop utc_zones bounded_job 250000 2 (Some 60000) = Inr ([60000, 120000], Some 180000)"
    by (simp add: bounded_next numeral_2_eq_2)
  moreover have "j_nextScheduledFor bounded_job = Some 60000" "sched_catchUpDomain bounded_job = Inr (CatchUp_BOUNDED 2)"
    by (simp_all add: bounded_job_def sample_job_def sched_catchUpDomain_def)
  ultimately show ?thesis
    by (simp add: startupPlan_def bounded_next del: catch_up_loop.simps)
qed

theorem startup_plan_bounded_witness:
  "sorted_wrt (<) [60000 :: int, 120000] \<and> successively (\<lambda>a b. next_after utc_zones bounded_job a = Inr (Some b)) [60000, 120000]"
  using startup_plan_bounded [OF bounded_plan, of 60000] by (simp add: bounded_job_def sample_job_def job_checks_def)

section \<open>Wakes\<close>

text \<open>Calls of the scheduler keep the database reachable.\<close>

definition keeps_reachable :: "db \<Rightarrow> db \<Rightarrow> bool" where
  "keeps_reachable s s' \<longleftrightarrow> (auto_reachable s \<longrightarrow> auto_reachable s')"

interpretation reach: step_preorder keeps_reachable
  by unfold_locales (auto simp: keeps_reachable_def)

lemma auto_step_reachable: "auto_step s s' \<Longrightarrow> keeps_reachable s s'"
  unfolding keeps_reachable_def auto_reachable_def by (meson rtranclp.rtrancl_into_rtrancl)

lemma plan_rows_unleased:
  "plan_rows k st code now ts ids = Inr (rows, rest) \<Longrightarrow> st \<notin> {CLAIMED, RUNNING} \<Longrightarrow> list_all unleased rows"
  by (induction ts arbitrary: ids rows) (auto simp: createRunRow_def unleased_def split: list.splits)

lemma materialize_job_reach: "reach.steps (materialize_job zones startup now row acc)"
  unfolding reach.steps_def
proof
  fix s
  obtain r s' where m: "materialize_job zones startup now row acc s = (r, s')" by (cases "materialize_job zones startup now row acc s")
  have "s' = s \<or> (\<exists>i x. materializeDueJob i s = Inr (s', x) \<and> list_all unleased (mz_runs i))"
  proof (rule disjCI)
    assume "\<nexists>i x. materializeDueJob i s = Inr (s', x) \<and> list_all unleased (mz_runs i)"
    with m show "s' = s"
      by (fastforce simp: materialize_job_def svc_bind_def transaction_def split: sum.splits prod.splits if_splits
          dest: plan_rows_unleased)
  qed
  then have "keeps_reachable s s'" by (auto intro: reach.refl auto_step_reachable auto_step.materialize)
  with m show "keeps_reachable s (snd (materialize_job zones startup now row acc s))" by simp
qed

lemma materializeDue_reach: "reach.steps (materializeDue zones c now startup ids)"
  unfolding materializeDue_def by (intro reach.steps_intros materialize_job_reach)

lemma claim_next_reach: "reach.steps (claim_next c t)"
  unfolding claim_next_def
  by (rule reach.steps_transaction) (auto split: list.splits intro: reach.refl auto_step_reachable auto_step.claim)

lemma execute_begin_reach: "reach.steps (execute_begin c t run)"
  unfolding execute_begin_def by (intro reach.steps_intros auto_step_reachable auto_step.running)

lemma execute_renew_reach: "reach.steps (execute_renew c run t b)"
  unfolding execute_renew_def by (intro reach.steps_intros auto_step_reachable auto_step.renew)

lemma execute_bind_reach: "reach.steps (execute_bind c run k t)"
  unfolding execute_bind_def by (intro reach.steps_intros auto_step_reachable auto_step.run_bind)

lemma execute_end_reach: "reach.steps (execute_end c run b r t)"
proof -
  have f: "fi_status i \<in> {SUCCEEDED, FAILED} \<Longrightarrow> finishRun i s = Inr (s', x) \<Longrightarrow> keeps_reachable s s'" for i s s' x
    by (rule auto_step_reachable) (auto intro: auto_step.finish)
  show ?thesis
    unfolding execute_end_def
    by (cases r) (auto intro!: reach.steps_intros elim!: f [rotated])
qed

text \<open>What other parts of the host leave in the database is reachable too.\<close>

definition events_ok :: "exec_event list \<Rightarrow> bool" where
  "events_ok es \<longleftrightarrow> (\<forall>d. Elsewhere d \<in> set es \<longrightarrow> auto_reachable d)"

lemma execute_event_reach: "events_ok [e] \<Longrightarrow> reach.steps (execute_event c run e b)"
proof (cases e)
  case (Bind k t)
  then show ?thesis using execute_bind_reach [of c run k t] by (simp add: execute_event_def reach.steps_def)
next
  case (Elsewhere d)
  assume "events_ok [e]"
  with Elsewhere show ?thesis by (simp add: execute_event_def reach.steps_def events_ok_def keeps_reachable_def)
qed (simp add: execute_event_def execute_renew_reach)

lemma execute_events_reach: "events_ok es \<Longrightarrow> reach.steps (svc_fold (execute_event c run) es b)"
  by (induction es arbitrary: b) (auto simp: events_ok_def intro!: reach.steps_return reach.steps_bind execute_event_reach)

lemma executeClaimed_reach:
  assumes "events_ok (tn_events t)"
  shows "reach.steps (executeClaimed zones c t run)"
  unfolding executeClaimed_def
  by (intro reach.steps_intros execute_begin_reach)
    (auto split: sum.splits intro!: reach.steps_bind execute_end_reach execute_events_reach assms)

lemma wake_loop_reach:
  assumes "\<And>i. events_ok (tn_events (turns i))"
  shows "reach.steps (wake_loop zones c n turns w)"
proof (induction n arbitrary: w)
  case (Suc n)
  then show ?case
    unfolding wake_loop.simps Let_def
    by (intro reach.steps_intros claim_next_reach executeClaimed_reach assms)
qed (simp add: reach.steps_return)

lemma run_wake_reach:
  assumes "\<And>i. events_ok (tn_events (turns i))"
  shows "reach.steps (run_wake zones c clock ids turns)"
  unfolding run_wake_def by (intro reach.steps_intros materializeDue_reach wake_loop_reach assms)

lemma claim_next_none:
  assumes "claim_next c t s = (Inr None, s')" and "autos_inv s"
  shows "listClaimableRuns 1 s' = []"
proof (cases "listClaimableRuns 1 s")
  case Nil
  with assms(1) show ?thesis by (simp add: claim_next_def transaction_def)
next
  case (Cons r rs)
  then have "r \<in> set (listClaimableRuns 1 s)" by simp
  then have r: "r \<in> set (automation_runs s)" "x_status r = PENDING"
    unfolding listClaimableRuns_def by (auto dest!: in_set_takeD)
  with assms(1) Cons obtain n where
    "arun_write (\<lambda>x. x_automationRunId x = x_automationRunId r \<and> x_status x = PENDING)
       (\<lambda>x. x\<lparr>x_claimedAt := Some t, x_leaseOwner := Some (sc_ownerId c), x_leaseExpiresAt := Some (t + sc_leaseDurationMs c),
          x_status := CLAIMED, x_attempt := x_attempt x + 1, x_errorCode := None, x_updatedAt := t\<rparr>) s = Inr (s', n)"
    and n: "n = 1 \<longrightarrow> arun_get (x_automationRunId r) s' = None"
    by (auto simp: claim_next_def transaction_def claimRun_def split: sum.splits if_splits)
  from arun_write_one [OF inv_run_ids [OF assms(2)] this(1)] tbl_get_distinct [OF inv_run_ids [OF assms(2)] r(1)] r(2) n
  show ?thesis by (simp add: arun_get_def)
qed

lemma wake_loop_spec:
  assumes "wake_loop zones c n turns w s = (Inr w', s')" and "\<And>i. events_ok (tn_events (turns i))" and "auto_reachable s"
  shows "wr_claimedRuns w' + wr_succeededRuns w + wr_failedRuns w = wr_succeededRuns w' + wr_failedRuns w' + wr_claimedRuns w
    \<and> wr_claimedRuns w \<le> wr_claimedRuns w' \<and> wr_claimedRuns w' \<le> wr_claimedRuns w + n
    \<and> (wr_claimedRuns w' < wr_claimedRuns w + n \<longrightarrow>
         tn_closing (turns (wr_claimedRuns w')) \<or> listClaimableRuns 1 s' = [])"
  using assms(1,3)
proof (induction n arbitrary: w s)
  case (Suc n)
  let ?t = "turns (wr_claimedRuns w)"
  show ?case
  proof (cases "tn_closing ?t")
    case True
    with Suc.prems(1) show ?thesis by (simp add: Let_def)
  next
    case False
    with Suc.prems(1) obtain at cl s1 where cl: "clock_value (tn_claimedAt ?t) = Inr at" "claim_next c at s = (Inr cl, s1)"
      and rest: "(case cl of None \<Rightarrow> svc_return w | Some run \<Rightarrow> svc_bind (executeClaimed zones c ?t run) (\<lambda>ok.
            wake_loop zones c n turns (w\<lparr>wr_claimedRuns := Suc (wr_claimedRuns w),
              wr_succeededRuns := wr_succeededRuns w + (if ok then 1 else 0),
              wr_failedRuns := wr_failedRuns w + (if ok then 0 else 1)\<rparr>))) s1 = (Inr w', s')"
      by (auto simp: Let_def svc_bind_Inr split: sum.splits)
    have s1: "auto_reachable s1"
      using reach.stepsD [OF claim_next_reach cl(2)] Suc.prems(2) by (simp add: keeps_reachable_def)
    show ?thesis
    proof (cases cl)
      case None
      with rest claim_next_none [OF _ auto_reachable_inv [OF Suc.prems(2)], of c at s1] cl(2) show ?thesis by simp
    next
      case (Some run)
      with rest obtain ok s2 where ex: "executeClaimed zones c ?t run s1 = (Inr ok, s2)"
        and loop: "wake_loop zones c n turns (w\<lparr>wr_claimedRuns := Suc (wr_claimedRuns w),
              wr_succeededRuns := wr_succeededRuns w + (if ok then 1 else 0),
              wr_failedRuns := wr_failedRuns w + (if ok then 0 else 1)\<rparr>) s2 = (Inr w', s')"
        by (auto simp: svc_bind_Inr)
      have "auto_reachable s2"
        using reach.stepsD [OF executeClaimed_reach ex] assms(2) s1 by (simp add: keeps_reachable_def)
      from Suc.IH [OF loop this] show ?thesis by (cases ok) auto
    qed
  qed
qed simp

lemma no_claimable: "listClaimableRuns 1 s = [] \<Longrightarrow> r \<in> set (automation_runs s) \<Longrightarrow> x_status r \<noteq> PENDING"
proof
  assume a: "listClaimableRuns 1 s = []" "r \<in> set (automation_runs s)" "x_status r = PENDING"
  then have "r \<in> set (sort_key (\<lambda>r. (x_scheduledFor r, x_automationRunId r)) (filter (\<lambda>r. x_status r = PENDING) (automation_runs s)))"
    by simp
  with a(1) show False unfolding listClaimableRuns_def
    by (cases "sort_key (\<lambda>r. (x_scheduledFor r, x_automationRunId r)) (filter (\<lambda>r. x_status r = PENDING) (automation_runs s))") auto
qed

text \<open>C25. A wake that returns has drained the queue: it claimed at most as many runs as its limit, each
  of them succeeded or failed, and unless the limit was reached or the scheduler was closing no run is
  left pending; and it leaves a database in which every invariant of the ledger holds.\<close>

theorem wake_drains:
  assumes "run_wake zones c clock ids turns s = (Inr w, s')" and "auto_reachable s"
    and "\<And>i. events_ok (tn_events (turns i))" and "0 \<le> sc_runLimit c"
  shows "auto_reachable s' \<and> wr_claimedRuns w = wr_succeededRuns w + wr_failedRuns w
    \<and> int (wr_claimedRuns w) \<le> sc_runLimit c
    \<and> (int (wr_claimedRuns w) = sc_runLimit c \<or> tn_closing (turns (wr_claimedRuns w))
        \<or> (\<forall>r \<in> set (automation_runs s'). x_status r \<noteq> PENDING))"
proof -
  from assms(1) obtain now m s1 where m: "materializeDue zones c now False ids s = (Inr m, s1)"
    and loop: "wake_loop zones c (nat (sc_runLimit c)) turns \<lparr>wr_materializedRuns = ct_materializedRuns m,
       wr_skippedRuns = ct_skippedRuns m, wr_claimedRuns = 0, wr_succeededRuns = 0, wr_failedRuns = 0\<rparr> s1 = (Inr w, s')"
    by (auto simp: run_wake_def svc_bind_Inr split: sum.splits)
  have "auto_reachable s1"
    using reach.stepsD [OF materializeDue_reach m] assms(2) by (simp add: keeps_reachable_def)
  note spec = wake_loop_spec [OF loop assms(3) this]
  moreover have "auto_reachable s'"
    using reach.stepsD [OF run_wake_reach assms(1)] assms(2,3) by (simp add: keeps_reachable_def)
  ultimately show ?thesis using assms(4) no_claimable [of s'] by fastforce
qed

section \<open>Executions\<close>

lemma finishRun_Some:
  assumes "finishRun i s = Inr (s', Some r)" and "autos_inv s" and "fi_status i \<in> {SUCCEEDED, FAILED}"
  shows "arun_get (fi_automationRunId i) s' = Some r \<and> x_status r = fi_status i \<and> x_leaseOwner r = None
    \<and> x_errorCode r = fi_errorCode i
    \<and> (\<exists>j. getJob (x_jobId r) s = Some j
        \<and> getJob (x_jobId r) s' = Some (count_outcome (x_scheduledFor r) (fi_status i = FAILED) (fi_terminalAt i) j))"
proof -
  let ?k = "fi_automationRunId i"
  let ?f = "\<lambda>r. (released (fi_status i) (fi_errorCode i) (fi_terminalAt i) r)
    \<lparr>x_runId := (case fi_runId i of None \<Rightarrow> x_runId r | Some k \<Rightarrow> Some k)\<rparr>"
  let ?q = "\<lambda>r. x_status r = RUNNING \<and> lease_valid (fi_leaseOwner i) (fi_terminalAt i) r"
  from assms(1,3) obtain cur s1 m where cur: "arun_get ?k s = Some cur" "?q cur"
    and w: "arun_write (\<lambda>r. x_automationRunId r = ?k \<and> ?q r) ?f s = Inr (s1, 1)"
    and j: "job_write (\<lambda>r. j_jobId r = x_jobId cur) (count_outcome (x_scheduledFor cur) (fi_status i = FAILED) (fi_terminalAt i)) s1 = Inr (s', m)"
    and r: "arun_get ?k s' = Some r"
    by (auto simp: finishRun_def split: option.splits if_splits)
  from arun_write_one(1) [OF inv_run_ids [OF assms(2)] w, of ?k] cur r job_write_runs [OF j, of ?k]
  have rr: "r = ?f cur" by simp
  have same: "x_jobId r = x_jobId cur" "x_scheduledFor r = x_scheduledFor cur" "x_errorCode r = fi_errorCode i"
    by (simp_all add: rr released_def)
  have "cur \<in> set (automation_runs s)" using cur(1) by (auto simp: arun_get_def dest: tbl_get_key)
  then obtain job where job: "getJob (x_jobId cur) s = Some job" using assms(2) by (fastforce simp: autos_inv_def)
  have "automation_jobs s1 = automation_jobs s" using w by (auto simp: arun_write_Inr)
  moreover have "distinct (map j_jobId (automation_jobs s))" using assms(2) by (simp add: autos_inv_def)
  ultimately have "getJob (x_jobId cur) s' = Some (count_outcome (x_scheduledFor cur) (fi_status i = FAILED) (fi_terminalAt i) job)"
    using j job tbl_get_key [of j_jobId "x_jobId cur" "automation_jobs s" job]
    by (auto simp: job_write_Inr getJob_def tbl_get_modify count_outcome_def)
  with job same r rr show ?thesis by simp
qed

lemma execute_end_Inr:
  assumes "execute_end c run lost res t s = (Inr ok, s')"
  shows "\<exists>i r. finishRun i s = Inr (s', Some r) \<and> fi_automationRunId i = x_automationRunId run \<and> \<not> lost
    \<and> fi_status i = (if ok then SUCCEEDED else FAILED) \<and> (ok \<longleftrightarrow> (\<exists>k. res = Exec_Succeeded k))
    \<and> fi_errorCode i = (case res of Exec_Succeeded k \<Rightarrow> None | Exec_Failed code k \<Rightarrow> Some code)
    \<and> (\<forall>code k. res = Exec_Failed code k \<longrightarrow> ERROR_CODE_PATTERN code)"
  using assms
  by (cases res) (auto simp: execute_end_def svc_bind_Inr transaction_def some_or_def sched_errorCode_def
      split: sum.splits option.splits if_splits)

lemma caught_succeeded: "caught r = Exec_Succeeded k \<longleftrightarrow> r = Inr (Exec_Succeeded k)"
  by (auto simp: caught_def split: sum.splits err.splits)

lemma executeClaimed_ends:
  assumes "executeClaimed zones c t run s = (Inr ok, s')" and "auto_reachable s" and "events_ok (tn_events t)"
  shows "\<exists>running lost res s1. x_automationRunId running = x_automationRunId run \<and> auto_reachable s1
    \<and> execute_end c running lost res (tn_terminalAt t) s1 = (Inr ok, s')
    \<and> (res = caught (tn_outcome t) \<or> (\<exists>j e. sched_jobDomain zones j = Inl e \<and> res = caught (Inl e)))"
proof -
  from assms(1) obtain running job s0 where b: "execute_begin c (tn_runningAt t) run s = (Inr (running, job), s0)"
    and rest: "(case sched_jobDomain zones job of
       Inl e \<Rightarrow> execute_end c running False (caught (Inl e)) (tn_terminalAt t)
     | Inr job \<Rightarrow> svc_bind (svc_fold (execute_event c running) (tn_events t) False) (\<lambda>leaseLost.
         execute_end c running leaseLost (caught (tn_outcome t)) (tn_terminalAt t))) s0 = (Inr ok, s')"
    by (auto simp: executeClaimed_def svc_bind_Inr)
  have k: "x_automationRunId running = x_automationRunId run"
    using b by (auto simp: execute_begin_def svc_bind_Inr transaction_def some_or_def markRunRunning_def
        split: sum.splits option.splits if_splits dest!: arun_get_key)
  have s0: "auto_reachable s0" using reach.stepsD [OF execute_begin_reach b] assms(2) by (simp add: keeps_reachable_def)
  show ?thesis
  proof (cases "sched_jobDomain zones job")
    case (Inl e)
    with rest have "execute_end c running False (caught (Inl e)) (tn_terminalAt t) s0 = (Inr ok, s')" by simp
    with k s0 Inl show ?thesis by blast
  next
    case (Inr j)
    with rest obtain lost s1 where f: "svc_fold (execute_event c running) (tn_events t) False s0 = (Inr lost, s1)"
      and e: "execute_end c running lost (caught (tn_outcome t)) (tn_terminalAt t) s1 = (Inr ok, s')"
      by (auto simp: svc_bind_Inr)
    have "auto_reachable s1"
      using reach.stepsD [OF execute_events_reach [OF assms(3)] f] s0 by (simp add: keeps_reachable_def)
    with e k show ?thesis by auto
  qed
qed

text \<open>An execution that returns has committed its outcome: the run has ended with the status that is
  returned, which is a success only if the executor succeeded, and holds no lease; a failure carries a well-formed error code, and the job counts the
  outcome: no consecutive failure after a success, at least one after a failure.\<close>

theorem execution_committed:
  assumes "executeClaimed zones c t run s = (Inr ok, s')" and "auto_reachable s" and "events_ok (tn_events t)"
  shows "\<exists>r j. arun_get (x_automationRunId run) s' = Some r \<and> x_status r = (if ok then SUCCEEDED else FAILED)
    \<and> x_leaseOwner r = None \<and> (ok \<longrightarrow> (\<exists>k. tn_outcome t = Inr (Exec_Succeeded k)))
    \<and> (if ok then x_errorCode r = None else \<exists>code. x_errorCode r = Some code \<and> ERROR_CODE_PATTERN code)
    \<and> getJob (x_jobId r) s' = Some j \<and> (if ok then j_consecutiveFailures j = 0 else 0 < j_consecutiveFailures j)
    \<and> (\<exists>l. j_lastScheduledFor j = Some l \<and> x_scheduledFor r \<le> l)"
proof -
  from executeClaimed_ends [OF assms] obtain running lost res s1
    where run: "x_automationRunId running = x_automationRunId run" and s1: "auto_reachable s1"
    and e: "execute_end c running lost res (tn_terminalAt t) s1 = (Inr ok, s')"
    and res: "res = caught (tn_outcome t) \<or> (\<exists>j e. sched_jobDomain zones j = Inl e \<and> res = caught (Inl e))" by blast
  from execute_end_Inr [OF e] obtain i r where f: "finishRun i s1 = Inr (s', Some r)"
    and i: "fi_automationRunId i = x_automationRunId running" "fi_status i = (if ok then SUCCEEDED else FAILED)"
      "ok \<longleftrightarrow> (\<exists>k. res = Exec_Succeeded k)"
      "fi_errorCode i = (case res of Exec_Succeeded k \<Rightarrow> None | Exec_Failed code k \<Rightarrow> Some code)"
      "\<forall>code k. res = Exec_Failed code k \<longrightarrow> ERROR_CODE_PATTERN code" by blast
  have inv: "autos_inv s1" using s1 by (rule auto_reachable_inv)
  from finishRun_Some [OF f inv] i(2) obtain j where r: "arun_get (x_automationRunId run) s' = Some r" "x_status r = fi_status i"
      "x_leaseOwner r = None" "x_errorCode r = fi_errorCode i"
    and j: "getJob (x_jobId r) s1 = Some j"
      "getJob (x_jobId r) s' = Some (count_outcome (x_scheduledFor r) (fi_status i = FAILED) (fi_terminalAt i) j)"
    by (auto simp: i(1) run split: if_splits)
  have "j \<in> set (automation_jobs s1)" using j(1) by (auto simp: getJob_def dest: tbl_get_key)
  then have "0 \<le> j_consecutiveFailures j" using inv by (auto simp: autos_inv_def job_checks_def)
  moreover have "\<exists>k. tn_outcome t = Inr (Exec_Succeeded k)" if ok
    using that i(3) res caught_succeeded by (metis sum.distinct(1))
  ultimately show ?thesis
    using r j(2) i(2-5) by (cases res) (auto simp: count_outcome_def split: option.splits)
qed

text \<open>C27. A scheduler that has lost the lease of a run commits nothing for it, whatever the executor
  returned: the call throws and the database stays as it is.\<close>

theorem lost_lease_commits_nothing:
  assumes "case arun_get (x_automationRunId run) s of None \<Rightarrow> True
    | Some r \<Rightarrow> \<not> (x_status r = RUNNING \<and> lease_valid (sc_ownerId c) t r)"
  shows "\<exists>e. execute_end c run lost result t s = (Inl e, s)"
proof -
  have none: "finishRun i s = Inr (s, None)"
    if "fi_automationRunId i = x_automationRunId run" "fi_leaseOwner i = sc_ownerId c" "fi_terminalAt i = t" for i
    using assms that by (auto simp: finishRun_def split: option.splits)
  show ?thesis
    by (cases result) (auto simp: execute_end_def svc_bind_def transaction_def some_or_def none svc_require_def
        sched_errorCode_def clock_value_def integerValue_def split: sum.splits option.splits prod.splits)
qed

section \<open>The life of a scheduler\<close>

text \<open>The promise of \<open>close\<close> determines the flags; once it has settled it stays.\<close>

definition life_inv :: "scheduler \<Rightarrow> bool" where
  "life_inv c \<longleftrightarrow>
     (sc_closed c \<longleftrightarrow> sc_closePromise c = Some (Some (Inr ())))
     \<and> (sc_closing c \<longleftrightarrow> sc_closePromise c = Some None \<or> (\<exists>e. sc_closePromise c = Some (Some (Inl e))))
     \<and> (sc_closed c \<longrightarrow> \<not> sc_started c)
     \<and> (\<forall>d. sc_timer c = Some d \<longrightarrow> sc_started c \<and> \<not> sc_closing c \<and> \<not> sc_closed c \<and> 0 \<le> d \<and> d \<le> MAX_TIMER_DELAY_MS)"

definition life_ok :: "scheduler \<Rightarrow> scheduler \<Rightarrow> bool" where
  "life_ok c c' \<longleftrightarrow> (life_inv c \<longrightarrow> life_inv c' \<and> (\<forall>r. sc_closePromise c = Some (Some r) \<longrightarrow> sc_closePromise c' = Some (Some r)))"

lemma life_ok_refl [simp]: "life_ok c c"
  by (simp add: life_ok_def)

lemma life_ok_trans: "life_ok a b \<Longrightarrow> life_ok b c \<Longrightarrow> life_ok a c"
  by (auto simp: life_ok_def)

lemma armTimer_life: "armTimer clock s c = Inr c' \<Longrightarrow> life_ok c c'"
  by (auto simp: armTimer_def life_ok_def life_inv_def MAX_TIMER_DELAY_MS_def split: if_splits option.splits)

lemma start_life:
  assumes "scheduler_start zones clock clock2 ids c s = (r, c', s')"
  shows "life_ok c c'"
proof -
  have set: "life_ok c (c\<lparr>sc_started := True, sc_recoveredClaims := n, sc_interruptedRuns := m\<rparr>)"
    "life_ok c (c\<lparr>sc_started := True\<rparr>)" if "\<not> sc_closed c" for n m
    using that by (auto simp: life_ok_def life_inv_def)
  from assms show ?thesis
    unfolding scheduler_start_def Let_def
    by (auto split: if_splits prod.splits sum.splits dest!: armTimer_life intro: set life_ok_trans [OF set(1)])
qed

lemma wake_begin_life: "wake_begin clock c = (r, c') \<Longrightarrow> life_ok c c'"
  by (auto simp: wake_begin_def life_ok_def life_inv_def split: if_splits)

lemma life_step_ok: "life_step zones c c' \<Longrightarrow> life_ok c c'"
proof (induction rule: life_step.induct)
  case (fire c clock)
  have "life_ok c (c\<lparr>sc_timer := None\<rparr>)" by (auto simp: life_ok_def life_inv_def)
  then show ?case unfolding timer_fires_def by (rule life_ok_trans) (metis wake_begin_life prod.collapse)
next
  case (wake_done c clock s c')
  have "life_ok c (c\<lparr>sc_waking := False\<rparr>)" by (auto simp: life_ok_def life_inv_def)
  with wake_done show ?case
    by (auto simp: wake_end_def Let_def split: if_splits dest!: armTimer_life intro: life_ok_trans)
next
  case (close c)
  show ?case by (auto simp: close_begin_def life_ok_def life_inv_def)
next
  case (close_done c r)
  then show ?case by (auto simp: close_end_def life_ok_def life_inv_def split: sum.splits)
qed (auto simp: life_ok_def life_inv_def dest: armTimer_life start_life wake_begin_life)

lemma life_steps_ok: "(life_step zones)\<^sup>*\<^sup>* c c' \<Longrightarrow> life_ok c c'"
  by (induction rule: rtranclp_induct) (auto intro: life_ok_trans life_step_ok)

lemma scheduler_new_life: "scheduler_new opts = Inr c \<Longrightarrow> life_inv c"
  by (auto simp: scheduler_new_def life_inv_def)

text \<open>C28. Whatever is called, and in whatever order: a timer is armed only while the scheduler is started,
  with a delay a timer can have; and a scheduler that is closed stays closed and refuses to start and to
  wake.\<close>

theorem scheduler_life:
  assumes "scheduler_new opts = Inr c0" and "(life_step zones)\<^sup>*\<^sup>* c0 c" and "(life_step zones)\<^sup>*\<^sup>* c c'"
  shows "(\<forall>d. sc_timer c = Some d \<longrightarrow> scheduler_status c = S_STARTED \<and> 0 \<le> d \<and> d \<le> 2147000000)
    \<and> (scheduler_status c = S_CLOSED \<longrightarrow> scheduler_status c' = S_CLOSED
        \<and> scheduler_start zones clock clock2 ids c' s = (Inl scheduler_closed, c', s)
        \<and> wake_begin clock c' = (Inl scheduler_closed, c'))"
proof -
  have c: "life_inv c" using life_steps_ok [OF assms(2)] scheduler_new_life [OF assms(1)] by (simp add: life_ok_def)
  moreover have "life_inv c' \<and> (\<forall>r. sc_closePromise c = Some (Some r) \<longrightarrow> sc_closePromise c' = Some (Some r))"
    using life_steps_ok [OF assms(3)] c by (simp add: life_ok_def)
  ultimately show ?thesis
    by (auto simp: life_inv_def scheduler_status_def scheduler_start_def wake_begin_def MAX_TIMER_DELAY_MS_def split: if_splits)
qed

text \<open>A scheduler whose \<open>close\<close> met a failing wake never gets closed: its status is \<open>CLOSING\<close> for ever,
  and every later \<open>close\<close> is the rejected promise of the first.\<close>

theorem failed_close_is_final:
  assumes "scheduler_new opts = Inr c0" and "(life_step zones)\<^sup>*\<^sup>* c0 c" and "sc_closePromise c = Some None"
    and "(life_step zones)\<^sup>*\<^sup>* (close_end (Inl e) c) c'"
  shows "scheduler_status c' = S_CLOSING \<and> close_begin c' = c' \<and> sc_closePromise c' = Some (Some (Inl e))"
proof -
  have c: "life_inv c" using life_steps_ok [OF assms(2)] scheduler_new_life [OF assms(1)] by (simp add: life_ok_def)
  then have "life_inv (close_end (Inl e) c)" using assms(3)
    by (auto simp: close_end_def life_inv_def)
  with life_steps_ok [OF assms(4)] have "life_inv c'" "sc_closePromise c' = Some (Some (Inl e))"
    by (simp_all add: life_ok_def close_end_def)
  then show ?thesis by (simp add: life_inv_def scheduler_status_def close_begin_def)
qed

section \<open>A scheduler at work\<close>

definition host_options :: scheduler_options where
  "host_options = \<lparr>so_ownerId = ''host'', so_leaseDurationMs = None, so_renewIntervalMs = None, so_dueJobLimit = None,
     so_runLimit = None, so_autoArm = None\<rparr>"

definition host :: scheduler where
  "host = \<lparr>sc_ownerId = ''host'', sc_leaseDurationMs = 30000, sc_renewIntervalMs = 10000, sc_dueJobLimit = 100,
     sc_runLimit = 100, sc_autoArm = True, sc_started = False, sc_closing = False, sc_closed = False, sc_timer = None,
     sc_waking = False, sc_closePromise = None, sc_lastWakeAt = None, sc_recoveredClaims = 0, sc_interruptedRuns = 0\<rparr>"

lemma host_new: "scheduler_new host_options = Inr host"
proof -
  have "ID_PATTERN ''host''" by code_simp
  then show ?thesis
    by (simp add: scheduler_new_def host_options_def host_def sched_identifier_def or_default_def integerValue_def
        safe_integer_def max_safe_integer_def)
qed

definition good_turn :: turn where
  "good_turn = \<lparr>tn_closing = False, tn_claimedAt = 60002, tn_runningAt = 60003, tn_events = [Renew 70003],
     tn_outcome = Inr (Exec_Succeeded None), tn_terminalAt = 70004\<rparr>"

lemma good_events: "events_ok (tn_events good_turn)"
  by (simp add: events_ok_def good_turn_def)

definition auto4 :: db where
  "auto4 = auto2\<lparr>automation_jobs := [sample_job\<lparr>j_nextScheduledFor := Some 120000, j_updatedAt := 70004, j_lastScheduledFor := Some 60000\<rparr>],
     automation_runs := [sample_run\<lparr>x_status := SUCCEEDED, x_attempt := 1, x_updatedAt := 70004\<rparr>]\<rparr>"

lemmas exec_defs = executeClaimed_def execute_begin_def execute_end_def execute_event_def execute_renew_def transaction_def
  svc_bind_def svc_require_def some_or_def clock_value_def integerValue_def safe_integer_def max_safe_integer_def markRunRunning_def
  renewRunLease_def finishRun_def released_def count_outcome_def caught_def

lemma sample_job_domain: "\<exists>j. sched_jobDomain utc_zones (sample_job\<lparr>j_nextScheduledFor := Some 120000, j_updatedAt := 60001\<rparr>) = Inr j"
proof -
  have "js_trim ''UTC'' = ''UTC''" by code_simp
  then show ?thesis
    by (simp add: sched_jobDomain_def sched_scheduleDomain_def payload_schedule_def json_field_def normalizeSchedule_def
        finiteInteger_def safe_integer_def max_safe_integer_def normalizeTimezone_def utc_zones_def sched_catchUpDomain_def sample_job_def)
qed

lemma sample_begin:
  "execute_begin host 60003 sample_claimed auto3 =
     (Inr (sample_claimed\<lparr>x_status := RUNNING, x_leaseExpiresAt := Some 90003, x_updatedAt := 60003\<rparr>,
       sample_job\<lparr>j_nextScheduledFor := Some 120000, j_updatedAt := 60001\<rparr>),
      auto3\<lparr>automation_runs := [sample_claimed\<lparr>x_status := RUNNING, x_leaseExpiresAt := Some 90003, x_updatedAt := 60003\<rparr>]\<rparr>)"
  by (simp add: exec_defs auto_defs auto_data host_def)

lemma sample_exec: "executeClaimed utc_zones host good_turn sample_claimed auto3 = (Inr True, auto4)"
proof -
  obtain j where j: "sched_jobDomain utc_zones (sample_job\<lparr>j_nextScheduledFor := Some 120000, j_updatedAt := 60001\<rparr>) = Inr j"
    using sample_job_domain by blast
  let ?run = "sample_claimed\<lparr>x_status := RUNNING, x_leaseExpiresAt := Some 90003, x_updatedAt := 60003\<rparr>"
  let ?run' = "sample_claimed\<lparr>x_status := RUNNING, x_leaseExpiresAt := Some 100003, x_updatedAt := 70003\<rparr>"
  have "svc_fold (execute_event host ?run) [Renew 70003] False (auto3\<lparr>automation_runs := [?run]\<rparr>)
      = (Inr False, auto3\<lparr>automation_runs := [?run']\<rparr>)"
    by (simp add: exec_defs auto_defs auto_data host_def)
  moreover have "execute_end host ?run False (Exec_Succeeded None) 70004 (auto3\<lparr>automation_runs := [?run']\<rparr>) = (Inr True, auto4)"
    by (simp add: exec_defs auto_defs auto_data host_def auto4_def)
  moreover have "tn_runningAt good_turn = 60003" "tn_events good_turn = [Renew 70003]" "caught (tn_outcome good_turn) = Exec_Succeeded None"
    "tn_terminalAt good_turn = 70004" by (simp_all add: good_turn_def caught_def)
  ultimately show ?thesis
    unfolding executeClaimed_def by (simp add: svc_bind_def sample_begin j)
qed

theorem execution_committed_witness:
  "\<exists>r. arun_get ''x1'' auto4 = Some r \<and> x_status r = SUCCEEDED \<and> x_leaseOwner r = None"
  using execution_committed [OF sample_exec auto3_reachable good_events]
  by (auto simp: sample_claimed_def sample_run_def)

lemma sample_wake: "\<exists>w. run_wake utc_zones host 60002 [] (\<lambda>_. good_turn) auto2 = (Inr w, auto4) \<and> wr_claimedRuns w = 1"
proof -
  have c: "clock_value 60002 = Inr 60002"
    by (simp add: clock_value_def integerValue_def safe_integer_def max_safe_integer_def)
  have "nat (sc_runLimit host) = Suc (Suc 98)" by (simp add: host_def)
  then obtain m where n: "nat (sc_runLimit host) = Suc (Suc m)" by blast
  have t: "tn_closing good_turn = False" "tn_claimedAt good_turn = 60002" by (simp_all add: good_turn_def)
  have "listDueJobs 60002 (nat (sc_dueJobLimit host)) auto2 = []" by (simp add: listDueJobs_def auto_data)
  then have due: "materializeDue utc_zones host 60002 False [] auto2
      = (Inr \<lparr>ct_materializedRuns = 0, ct_skippedRuns = 0, ct_ids = []\<rparr>, auto2)"
    by (simp add: materializeDue_def host_def)
  have "listClaimableRuns 1 auto2 = [sample_run]" by (simp add: listClaimableRuns_def auto_data)
  then have first: "claim_next host 60002 auto2 = (Inr (Some sample_claimed), auto3)"
    using auto3_ok by (simp add: claim_next_def transaction_def) (simp add: host_def sample_run_def)
  have "listClaimableRuns 1 auto4 = []" by (simp add: listClaimableRuns_def auto_data auto4_def)
  then have second: "claim_next host 60002 auto4 = (Inr None, auto4)" by (simp add: claim_next_def transaction_def)
  show ?thesis
    unfolding run_wake_def by (simp add: svc_bind_def c due n t first second sample_exec)
qed

theorem wake_drains_witness:
  "\<exists>w. run_wake utc_zones host 60002 [] (\<lambda>_. good_turn) auto2 = (Inr w, auto4) \<and> wr_succeededRuns w + wr_failedRuns w = 1"
proof -
  obtain w where w: "run_wake utc_zones host 60002 [] (\<lambda>_. good_turn) auto2 = (Inr w, auto4)" "wr_claimedRuns w = 1"
    using sample_wake by blast
  have "0 \<le> sc_runLimit host" by (simp add: host_def)
  from wake_drains [OF w(1) auto2_reachable good_events this] w show ?thesis by auto
qed

theorem lost_lease_commits_nothing_witness:
  "\<exists>e. execute_end host sample_claimed False (Exec_Succeeded None) 70004 auto2 = (Inl e, auto2)"
  by (rule lost_lease_commits_nothing) (simp add: auto_defs auto_data)

lemma host_close: "(life_step utc_zones)\<^sup>*\<^sup>* host (close_end (Inr ()) (close_begin host))"
proof -
  have "life_step utc_zones host (close_begin host)" by (rule life_step.close)
  moreover have "life_step utc_zones (close_begin host) (close_end (Inr ()) (close_begin host))"
    by (rule life_step.close_done) (simp add: close_begin_def host_def)
  ultimately show ?thesis by (meson converse_rtranclp_into_rtranclp r_into_rtranclp)
qed

theorem scheduler_life_witness:
  "wake_begin 5 (close_end (Inr ()) (close_begin host)) = (Inl scheduler_closed, close_end (Inr ()) (close_begin host))"
  using scheduler_life [OF host_new host_close rtranclp.rtrancl_refl, where clock = 5]
  by (simp add: scheduler_status_def close_end_def)

text \<open>Started, waking, and closed while the wake is under way.\<close>

definition host_closing :: scheduler where
  "host_closing = close_begin (snd (wake_begin 60003 (host\<lparr>sc_started := True\<rparr>)))"

lemma host_closing_reached: "(life_step utc_zones)\<^sup>*\<^sup>* host host_closing"
proof -
  have "scheduler_start utc_zones 60002 60002 [] host empty_db = (Inr (), host\<lparr>sc_started := True\<rparr>, empty_db)"
    by (simp add: scheduler_start_def Let_def host_def clock_value_def integerValue_def safe_integer_def max_safe_integer_def
        svc_bind_def transaction_def recoverExpiredRuns_def materializeDue_def listDueJobs_def armTimer_def nextWakeAt_def empty_db_def)
  then have "life_step utc_zones host (host\<lparr>sc_started := True\<rparr>)" by (rule life_step.start)
  moreover have "life_step utc_zones (host\<lparr>sc_started := True\<rparr>) (snd (wake_begin 60003 (host\<lparr>sc_started := True\<rparr>)))"
    by (rule life_step.wake) (rule surjective_pairing)
  ultimately show ?thesis unfolding host_closing_def
    by (meson life_step.close converse_rtranclp_into_rtranclp r_into_rtranclp)
qed

theorem failed_close_is_final_witness: "scheduler_status (close_end (Inl lease_lost) host_closing) = S_CLOSING"
proof -
  have "sc_closePromise host_closing = Some None"
    by (simp add: host_closing_def close_begin_def wake_begin_def host_def)
  from failed_close_is_final [OF host_new host_closing_reached this rtranclp.rtrancl_refl] show ?thesis by blast
qed

end
