(* ===== verification/Job_Properties.thy ===== *)
theory Job_Properties
  imports Scheduler_Properties
begin

text \<open>
  What the definition service promises of jobs: a created job reads back as it was returned and is
  scheduled in the future, an update is an atomic step from one revision to the next, and a manual
  start is idempotent and classifies its errors.
\<close>

section \<open>Jobs and rows\<close>

lemma payload_schedule_json [simp]:
  "payload_schedule (scheduleType s) (schedule_json s) = Some s" "json_clean (schedule_json s) = schedule_json s"
  "schedule_json s \<noteq> JUndef"
  by (cases s; simp add: payload_schedule_def scheduleType_def schedule_json_def json_field_def)+

lemma catchUpDomain_ledger [simp]: "catchUpDomain (fst (catchUpLedger p)) (snd (catchUpLedger p)) = Inr p"
  by (cases p) (simp_all add: catchUpDomain_def catchUpLedger_def)

lemma template_clean: "normalizeConversationTemplate i = Inr t \<Longrightarrow> json_clean t = t \<and> t \<noteq> JUndef"
  by (auto simp: normalizeConversationTemplate_def field_if_def split: option.splits)

lemma failure_clean: "normalizeFailurePolicy i = Inr t \<Longrightarrow> json_clean t = t \<and> t \<noteq> JUndef"
  by (auto simp: normalizeFailurePolicy_def)

lemma stringValue_Inr: "stringValue v lo hi p = Inr w \<longleftrightarrow> w = v \<and> lo \<le> length v \<and> length v \<le> hi \<and> p v"
  by (auto simp: stringValue_def)

lemma integerValue_Inr: "integerValue v lo hi = Inr w \<longleftrightarrow> w = v \<and> safe_integer v \<and> lo \<le> v \<and> v \<le> hi"
  by (auto simp: integerValue_def)

lemma jobDomain_row:
  assumes "j_scheduleType r = scheduleType sch" and "j_schedulePayload r = schedule_json sch"
    and "j_catchUpPolicy r = fst (catchUpLedger p)" and "j_catchUpLimit r = snd (catchUpLedger p)"
  shows "\<exists>job. jobDomain r = Inr job"
  using assms by (simp add: jobDomain_def scheduleDomain_def)

lemma automation_get_eq:
  "automation_get k s = (res_bind (stringValue k 1 128 ID_PATTERN) (\<lambda>_.
     case getJob k s of None \<Rightarrow> Inl (Automation_Error AUTOMATION_JOB_NOT_FOUND) | Some r \<Rightarrow> jobDomain r), s)"
  by (auto simp: automation_get_def stringValue_def require_def split: option.splits)

lemma automation_get_bind:
  "svc_bind (automation_get k) f s = (case fst (automation_get k s) of Inl e \<Rightarrow> (Inl e, s) | Inr x \<Rightarrow> f x s)"
  by (simp add: svc_bind_def automation_get_eq)

lemma automation_get_readonly: "automation_get k s = (fst (automation_get k s), s)"
  by (simp add: automation_get_eq)

lemma updated_config_fields:
  assumes "updated_config zones clock k n patch old = Inr i"
  shows "jc_jobId i = k \<and> jc_expectedRevision i = n
    \<and> (\<exists>sch p. jc_scheduleType i = scheduleType sch \<and> jc_schedulePayload i = schedule_json sch
        \<and> jc_catchUpPolicy i = fst (catchUpLedger p) \<and> jc_catchUpLimit i = snd (catchUpLedger p))"
  using assms unfolding updated_config_def Let_def by clarsimp blast

lemma schedule_state_future:
  assumes "normalizeScheduleState zones sch tz enabled now = Inr st"
  shows "if enabled then \<exists>t. ss_nextScheduledFor st = Some t \<and> now < t else ss_nextScheduledFor st = None"
  using assms computeNext_later
  by (fastforce simp: normalizeScheduleState_def split: if_splits option.splits)

section \<open>Creating\<close>

lemma insertJob_row: "insertJob row s = Inr (s', r) \<Longrightarrow> r = row \<and> insertJob row s = Inr (s', row)"
  by (auto simp: insertJob_def split: if_splits)

text \<open>C30. A created job reads back exactly as it was returned; it is the first revision, and its next
  occurrence lies in the future if it is enabled and is absent if it is not.\<close>

theorem created_job_reads_back:
  assumes "automation_create zones clock newId i s = (Inr job, s')"
  shows "automation_get (aj_jobId job) s' = (Inr job, s') \<and> aj_jobId job = newId \<and> aj_revision job = 1
    \<and> cfg_enabled (aj_config job) = cj_enabled i \<and> cfg_name (aj_config job) = js_trim (cj_name i)
    \<and> (if cj_enabled i then \<exists>t. aj_nextScheduledFor job = Some t \<and> clock < t else aj_nextScheduledFor job = None)"
proof -
  from assms obtain sch template catchUp failure row where
    sch: "normalizeScheduleState zones (cj_schedule i) (cj_timezone i) (cj_enabled i) clock = Inr sch"
    and t: "normalizeConversationTemplate (cj_conversationTemplate i) = Inr template"
    and f: "normalizeFailurePolicy (cj_failurePolicy i) = Inr failure"
    and id: "stringValue newId 1 128 ID_PATTERN = Inr newId"
    and row: "row = \<lparr>j_jobId = newId, j_name = js_trim (cj_name i), j_enabled = cj_enabled i,
       j_scheduleType = scheduleType (ss_schedule sch), j_schedulePayload = schedule_json (ss_schedule sch),
       j_timezone = ss_timezone sch, j_conversationTemplate = template, j_catchUpPolicy = fst (catchUpLedger catchUp),
       j_catchUpLimit = snd (catchUpLedger catchUp), j_failurePolicy = failure, j_revision = 1,
       j_nextScheduledFor = ss_nextScheduledFor sch, j_lastScheduledFor = None, j_consecutiveFailures = 0,
       j_createdAt = clock, j_updatedAt = clock\<rparr>"
    and ins: "insertJob row s = Inr (s', row)" and job: "jobDomain row = Inr job"
    unfolding automation_create_def
    by (auto simp: svc_bind_Inr transaction_Inr stringValue_Inr integerValue_Inr dest: insertJob_row split: sum.splits)
  have "job_stored row = row" using template_clean [OF t] failure_clean [OF f] by (simp add: row job_stored_def)
  with ins have "getJob newId s' = Some row"
    by (auto simp: insertJob_def getJob_def tbl_get_append row split: if_splits)
  with id job have "automation_get newId s' = (Inr job, s')" by (simp add: automation_get_eq)
  moreover have "aj_jobId job = newId \<and> aj_revision job = 1 \<and> cfg_enabled (aj_config job) = cj_enabled i
    \<and> cfg_name (aj_config job) = js_trim (cj_name i) \<and> aj_nextScheduledFor job = ss_nextScheduledFor sch"
    using job by (auto simp: jobDomain_def row)
  ultimately show ?thesis using schedule_state_future [OF sch] by auto
qed

section \<open>Updating\<close>

lemma updateJobConfig_Inr:
  assumes "updateJobConfig i s = Inr (s', r)" and "distinct (map j_jobId (automation_jobs s))"
  shows "\<exists>old. getJob (jc_jobId i) s = Some old \<and> j_revision old = jc_expectedRevision i \<and> r = job_configured i old
    \<and> getJob (jc_jobId i) s' = Some r"
proof -
  let ?p = "\<lambda>r. j_jobId r = jc_jobId i \<and> j_revision r = jc_expectedRevision i"
  from assms(1) have s': "s' = s\<lparr>automation_jobs := tbl_modify ?p (job_configured i) (automation_jobs s)\<rparr>"
    and n: "tbl_changes ?p (automation_jobs s) = 1" and r: "getJob (jc_jobId i) s' = Some r"
    by (auto simp: updateJobConfig_def job_write_Inr split: if_splits option.splits)
  from n obtain old where old: "old \<in> set (automation_jobs s)" "?p old"
    unfolding tbl_changes_def by (metis (mono_tags, lifting) filter_False list.size(3) zero_neq_one)
  then have get: "getJob (jc_jobId i) s = Some old"
    using tbl_get_distinct [OF assms(2) old(1)] by (simp add: getJob_def)
  moreover have "getJob (jc_jobId i) s' = Some (job_configured i old)"
    using get old(2) unfolding s' getJob_def
    by (simp add: tbl_get_modify [where key = j_jobId, OF _ assms(2)] job_configured_def)
  ultimately show ?thesis using r old by auto
qed

text \<open>C31. An update takes a job from the revision it names to the next one, and what it returns is what
  is read afterwards; identity, creation time and run-time counters stay. If it throws, for a stale
  revision or any other reason, nothing has changed.\<close>

theorem update_is_atomic:
  assumes "automation_update zones clock k n patch s = (result, s')" and "auto_reachable s"
  shows "case result of
      Inl e \<Rightarrow> s' = s
    | Inr job \<Rightarrow> \<exists>old. automation_get k s = (Inr old, s) \<and> aj_revision old = n \<and> aj_revision job = n + 1
        \<and> automation_get k s' = (Inr job, s') \<and> aj_jobId job = aj_jobId old \<and> aj_createdAt job = aj_createdAt old
        \<and> aj_lastScheduledFor job = aj_lastScheduledFor old \<and> aj_consecutiveFailures job = aj_consecutiveFailures old"
proof -
  have ids: "distinct (map j_jobId (automation_jobs s))" using auto_reachable_inv [OF assms(2)] by (simp add: autos_inv_def)
  show ?thesis
  proof (cases "s' = s \<and> (\<exists>e. result = Inl e)")
    case True
    then show ?thesis by auto
  next
    case False
    obtain old i where old: "automation_get k s = (Inr old, s)" and i: "updated_config zones clock k n patch old = Inr i"
      and u: "svc_catch revision_conflict (svc_bind (transaction (updateJobConfig i)) (\<lambda>row. svc_of (jobDomain row))) s = (result, s')"
      using assms(1) False automation_get_readonly [of k s] unfolding automation_update_def
      by (cases "fst (automation_get k s)") (auto simp: automation_get_bind split: sum.splits)
    note fields = updated_config_fields [OF i]
    show ?thesis
    proof (cases "updateJobConfig i s")
      case (Inl e)
      with u False show ?thesis by (auto simp: svc_catch_def svc_bind_def transaction_def)
    next
      case (Inr x)
      obtain s1 row where x: "x = (s1, row)" by (cases x)
      from updateJobConfig_Inr [OF Inr [unfolded x] ids] obtain r where r: "getJob k s = Some r" "j_revision r = n"
        "row = job_configured i r" "getJob k s1 = Some row" using fields by auto
      obtain job where job: "jobDomain row = Inr job"
        using fields jobDomain_row [of row] r(3) by (fastforce simp: job_configured_def)
      with u Inr x have res: "result = Inr job" "s' = s1" by (auto simp: svc_catch_def svc_bind_def transaction_def)
      have "stringValue k 1 128 ID_PATTERN = Inr k" "jobDomain r = Inr old"
        using old r(1) by (auto simp: automation_get_eq stringValue_Inr)
      moreover from this(2) job r(2,3) have "aj_revision old = n" "aj_revision job = n + 1" "aj_jobId job = aj_jobId old"
        "aj_createdAt job = aj_createdAt old" "aj_lastScheduledFor job = aj_lastScheduledFor old"
        "aj_consecutiveFailures job = aj_consecutiveFailures old"
        using fields by (auto simp: jobDomain_def job_configured_def)
      ultimately show ?thesis using res old job r(4) by (simp add: automation_get_eq)
    qed
  qed
qed

section \<open>Starting now\<close>

lemma starts_with_iff: "starts_with s p \<longleftrightarrow> (\<exists>v. s = p @ v)"
  by (metis append_eq_conv_conj starts_with_def append_take_drop_id)

lemma str_includes_iff: "str_includes s p \<longleftrightarrow> (\<exists>u v. s = u @ p @ v)"
proof (induction s)
  case (Cons c cs)
  have "(\<exists>u v. c # cs = u @ p @ v) \<longleftrightarrow> (\<exists>v. c # cs = p @ v) \<or> (\<exists>u v. cs = u @ p @ v)"
    by (metis append_Cons append_Nil list.exhaust list.inject)
  with Cons show ?case by (simp add: starts_with_iff)
qed simp

lemma id_no_space: "ID_PATTERN k \<Longrightarrow> CHR '' '' \<notin> set (js_lower k)"
proof -
  assume "ID_PATTERN k"
  moreover have "js_lower_char c \<noteq> CHR '' ''" if "alnum c \<or> c \<in> set ''._:-''" for c
  proof
    assume "js_lower_char c = CHR '' ''"
    then have "of_char (js_lower_char c) = (32 :: nat)" by simp
    then have "of_char c = (32 :: nat)"
      by (auto simp: js_lower_char_def Let_def of_char_of split: if_splits)
    with that show False by (auto simp: alnum_def)
  qed
  ultimately show ?thesis
    by (cases k) (simp_all add: ID_PATTERN_def js_lower_def list_all_iff image_iff, metis)
qed

lemma append_longer: "xs @ ys = u @ zs \<Longrightarrow> length xs \<le> length u \<Longrightarrow> \<exists>w. ys = w @ zs"
  by (auto simp: append_eq_append_conv_if)

lemma conflict_message: "ID_PATTERN key \<Longrightarrow> \<not> str_includes (js_lower (''automation manual request conflict: '' @ key)) ''job not found''"
proof
  let ?pre = "''automation manual request conflict: ''"
  assume key: "ID_PATTERN key" and "str_includes (js_lower (?pre @ key)) ''job not found''"
  moreover have "js_lower ?pre = ?pre" by code_simp
  ultimately obtain u v where uv: "?pre @ js_lower key = u @ ''job not found'' @ v"
    by (auto simp: str_includes_iff js_lower_def)
  show False
  proof (cases "length u < length ?pre")
    case True
    then have "(?pre @ js_lower key) ! length u = ?pre ! length u" by (simp only: nth_append if_True)
    moreover have "(u @ ''job not found'' @ v) ! length u = CHR ''j''" by simp
    ultimately have "CHR ''j'' \<in> set ?pre" using uv True nth_mem [OF True] by metis
    then show False by simp
  next
    case False
    then obtain w where "js_lower key = w @ ''job not found'' @ v"
      using append_longer [OF uv] by (meson not_less)
    with id_no_space [OF key] show False by simp
  qed
qed

lemma id_value: "ID_PATTERN k \<Longrightarrow> stringValue k 1 128 ID_PATTERN = Inr k"
  by (auto simp: stringValue_Inr ID_PATTERN_def split: list.splits)

text \<open>Starting a job twice with the same request key starts it once: the second call returns the run of
  the first and changes nothing. Used for another job, the key is refused as a conflict, told apart from
  a missing job by the text of the message.\<close>

theorem run_now_idempotent:
  assumes "automation_runNow clock newId k key s = (Inr (c, r), s')"
    and "0 \<le> clock2" and "clock2 \<le> max_safe_integer" and "ID_PATTERN newId2" and "ID_PATTERN k2" and "k2 \<noteq> k"
  shows "automation_runNow clock2 newId2 k key s' = (Inr (False, r), s')
    \<and> automation_runNow clock2 newId2 k2 key s' = (Inl (Automation_Error AUTOMATION_REQUEST_CONFLICT), s')"
proof -
  from assms(1) have k: "ID_PATTERN k" "ID_PATTERN key"
    and m: "reserveManualRun \<lparr>mi_automationRunId = newId, mi_jobId = k, mi_requestKey = key, mi_requestedAt = clock\<rparr> s = Inr (s', c, r)"
    by (auto simp: automation_runNow_def svc_catch_def transaction_def stringValue_Inr integerValue_Inr split: sum.splits prod.splits)
  have t: "integerValue clock2 0 max_safe_integer = Inr clock2"
    using assms(2,3) by (simp add: integerValue_Inr safe_integer_def max_safe_integer_def)
  note ids = id_value [OF k(1)] id_value [OF k(2)] id_value [OF assms(4)] id_value [OF assms(5)]
  from reserveManualRun_found [OF m] assms(6) show ?thesis
    unfolding automation_runNow_def
    by (simp add: ids [unfolded One_nat_def] t svc_catch_def transaction_def reserveManualRun_def manual_conflict_def conflict_message [OF k(2), simplified])
qed

section \<open>Examples\<close>

definition sample_input :: create_job_input where
  "sample_input = \<lparr>cj_name = '' report'', cj_enabled = True, cj_schedule = Interval 60000 0, cj_timezone = '' UTC'',
     cj_conversationTemplate = \<lparr>ct_workspaceId = ''main'', ct_prompt = ''Report.'', ct_modelProfile = None, ct_title = None\<rparr>,
     cj_catchUpPolicy = CatchUp_BOUNDED 3,
     cj_failurePolicy = \<lparr>fp_backoffMs = 1000, fp_maxConsecutiveFailures = 5, fp_autoDisable = True\<rparr>\<rparr>"

lemma sample_texts: "ID_PATTERN ''j2''" "ID_PATTERN ''j1''" "ID_PATTERN ''now''" "ID_PATTERN ''x2''" "ID_PATTERN ''x3''"
  "WORKSPACE_ID_PATTERN ''main''" "js_trim '' report'' = ''report''"
  by code_simp+

lemma utc_normal: "normalizeTimezone utc_zones ''UTC'' = Inr ''UTC''"
proof -
  have "js_trim ''UTC'' = ''UTC''" by code_simp
  then show ?thesis by (simp add: normalizeTimezone_def utc_zones_def)
qed

lemmas service_defs = svc_bind_def transaction_def integerValue_def stringValue_def any_text_def safe_integer_def max_safe_integer_def
  normalizeScheduleState_def normalizeSchedule_def computeNextScheduledFor_def finiteInteger_def utc_resolved utc_normal
  normalizeConversationTemplate_def optional_string_def field_if_def normalizeCatchUpPolicy_def normalizeFailurePolicy_def
  catchUpLedger_def catchUpDomain_def scheduleType_def jobDomain_def scheduleDomain_def Let_def

lemma sample_created: "\<exists>job s'. automation_create utc_zones 60001 ''j2'' sample_input empty_db = (Inr job, s') \<and> aj_nextScheduledFor job = Some 120000"
  by (simp add: automation_create_def service_defs sample_texts sample_input_def insertJob_def job_json_ok_def job_checks_def
      getJob_def tbl_get_def empty_db_def payload_schedule_def schedule_json_def json_field_def)

theorem created_job_reads_back_witness:
  "\<exists>job s'. automation_get ''j2'' s' = (Inr job, s') \<and> aj_revision job = 1"
proof -
  obtain job s' where "automation_create utc_zones 60001 ''j2'' sample_input empty_db = (Inr job, s')" using sample_created by blast
  from created_job_reads_back [OF this] show ?thesis by metis
qed

definition rename :: update_job_patch where
  "rename = \<lparr>up_name = Some '' report'', up_enabled = Some False, up_schedule = None, up_timezone = Some '' UTC'', up_conversationTemplate = None,
     up_catchUpPolicy = None, up_failurePolicy = None\<rparr>"

lemma sample_updated: "\<exists>job s'. automation_update utc_zones 70000 ''j1'' 1 rename auto1 = (Inr job, s')"
  by (simp add: automation_update_def updated_config_def automation_get_def rename_def given_def service_defs sample_texts svc_catch_def
      updateJobConfig_def job_write_def job_configured_def job_checks_def getJob_def tbl_get_def tbl_modify_def tbl_changes_def auto_data
      payload_schedule_def schedule_json_def json_field_def)

theorem update_is_atomic_witness:
  "\<exists>old job s'. automation_get ''j1'' auto1 = (Inr old, auto1) \<and> automation_get ''j1'' s' = (Inr job, s') \<and> aj_revision job = aj_revision old + 1"
proof -
  obtain job s' where "automation_update utc_zones 70000 ''j1'' 1 rename auto1 = (Inr job, s')" using sample_updated by blast
  from update_is_atomic [OF this auto1_reachable] show ?thesis by (simp only: sum.case) metis
qed

lemma sample_run_now: "\<exists>r s'. automation_runNow 60000 ''x2'' ''j1'' ''now'' auto2 = (Inr (True, r), s')"
proof -
  let ?i = "\<lparr>mi_automationRunId = ''x2'', mi_jobId = ''j1'', mi_requestKey = ''now'', mi_requestedAt = 60000\<rparr>"
  have "getJob (mi_jobId ?i) auto2 \<noteq> None" "getRunByRequestKey (mi_requestKey ?i) auto2 = None" "arun_get (mi_automationRunId ?i) auto2 = None"
    "1 \<le> length (mi_requestKey ?i)" "length (mi_requestKey ?i) \<le> 128" "0 \<le> mi_requestedAt ?i" "(1 :: nat) < 1000"
    "getRunBySchedule (mi_jobId ?i) (mi_requestedAt ?i + int 1) auto2 = None"
    by (simp_all add: auto_defs auto_data)
  from manual_loop_free [OF this] obtain s' r where "manual_loop ?i 1000 (mi_requestedAt ?i) auto2 = Inr (s', True, r)" by blast
  then have "reserveManualRun \<lparr>mi_automationRunId = ''x2'', mi_jobId = ''j1'', mi_requestKey = ''now'', mi_requestedAt = 60000\<rparr> auto2 = Inr (s', True, r)"
    by (simp add: reserveManualRun_def) (simp add: auto_defs auto_data)
  then show ?thesis
    by (simp add: automation_runNow_def svc_catch_def service_defs sample_texts)
qed

theorem run_now_idempotent_witness:
  "\<exists>r s'. automation_runNow 70000 ''x3'' ''j1'' ''now'' s' = (Inr (False, r), s')
    \<and> automation_runNow 70000 ''x3'' ''j2'' ''now'' s' = (Inl (Automation_Error AUTOMATION_REQUEST_CONFLICT), s')"
proof -
  obtain r s' where "automation_runNow 60000 ''x2'' ''j1'' ''now'' auto2 = (Inr (True, r), s')" using sample_run_now by blast
  from run_now_idempotent [OF this, of 70000, OF _ _ sample_texts(5,1)]
  have "automation_runNow 70000 ''x3'' ''j1'' ''now'' s' = (Inr (False, r), s')
    \<and> automation_runNow 70000 ''x3'' ''j2'' ''now'' s' = (Inl (Automation_Error AUTOMATION_REQUEST_CONFLICT), s')"
    by (simp add: max_safe_integer_def)
  then show ?thesis by blast
qed

end
