(* ===== verification/Web_Socket.thy ===== *)
theory Web_Socket
  imports Prelude "HOL-Library.Word"
begin

text \<open>
  \<open>services/agent-host/src/transport/websocket-codec.ts\<close>: the frames a peer of the host writes and the
  incremental parser of the frames it reads. A \<open>Buffer\<close> is a list of \<open>8 word\<close>. The text codec
  (\<open>TextDecoder\<close> in fatal mode, \<open>Buffer.from(text, "utf8")\<close>) and what the handler of a text does
  are parameters. What a call does to the outside is returned as a list of effects.
\<close>

unbundle bit_operations_syntax

type_synonym byte = "8 word"

section \<open>Frames\<close>

definition byte_of :: "nat \<Rightarrow> byte" where
  "byte_of n = word_of_nat n"

text \<open>\<open>readUInt16BE\<close>, \<open>readUInt32BE\<close> and \<open>writeUInt16BE\<close>.\<close>

definition read_be :: "byte list \<Rightarrow> nat" where
  "read_be bs = foldl (\<lambda>n b. 256 * n + unat b) 0 bs"

definition write_u16 :: "nat \<Rightarrow> byte list" where
  "write_u16 n = [byte_of (n div 256), byte_of n]"

definition encodeFrame :: "byte \<Rightarrow> byte list \<Rightarrow> byte list" where
  "encodeFrame opcode payload =
     (let len = length payload in
      [0x80 OR opcode]
      @ (if len < 126 then [byte_of len]
         else if len \<le> 0xffff then [126, byte_of (len div 256), byte_of len]
         else [127, 0, 0, 0, 0, byte_of (len div 2 ^ 24), byte_of (len div 2 ^ 16), byte_of (len div 256), byte_of len])
      @ payload)"

definition MAX_SAFE_PAYLOAD :: nat where
  "MAX_SAFE_PAYLOAD = 1024 * 1024"

text \<open>The loop that takes the mask off a payload.\<close>

fun unmask :: "byte list \<Rightarrow> nat \<Rightarrow> byte list \<Rightarrow> byte list" where
  "unmask key index [] = []"
| "unmask key index (b # bs) = (b XOR key ! (index mod 4)) # unmask key (Suc index) bs"

text \<open>One turn of the loop of \<open>accept\<close> up to the taking of a frame from the buffer: more bytes are
  needed, the peer fails with a message and a close code, or there is a frame.\<close>

datatype parsed = Need_More | Reject string nat | Frame byte "byte list" "byte list"

definition take_frame :: "byte \<Rightarrow> nat \<Rightarrow> nat \<Rightarrow> byte list \<Rightarrow> parsed" where
  "take_frame opcode len offset buffer =
     (if len > MAX_SAFE_PAYLOAD then Reject ''frame payload is too large'' 1009
      else
        let total = offset + 4 + len in
        if length buffer < total then Need_More
        else Frame opcode
          (unmask (take 4 (drop offset buffer)) 0 (take len (drop (offset + 4) buffer)))
          (drop total buffer))"

definition parse_frame :: "byte list \<Rightarrow> parsed" where
  "parse_frame buffer = (case buffer of
     first # second # rest \<Rightarrow>
       let fin = first AND 0x80 \<noteq> 0; rsv = first AND 0x70; opcode = first AND 0x0f;
           masked = second AND 0x80 \<noteq> 0; len = unat (second AND 0x7f) in
       if \<not> fin \<or> rsv \<noteq> 0 then Reject ''fragmented or extended frames are not supported'' 1003
       else if 8 \<le> opcode \<and> 125 < len then Reject ''control frame payload is too large'' 1002
       else if \<not> masked then Reject ''client frames must be masked'' 1002
       else if len = 126 then
         (if length buffer < 4 then Need_More
          else take_frame opcode (read_be (take 2 (drop 2 buffer))) 4 buffer)
       else if len = 127 then
         (if length buffer < 10 then Need_More
          else if read_be (take 4 (drop 2 buffer)) \<noteq> 0 then Reject ''frame payload is too large'' 1009
          else take_frame opcode (read_be (take 4 (drop 6 buffer))) 10 buffer)
       else take_frame opcode len 2 buffer
   | _ \<Rightarrow> Need_More)"

section \<open>The peer\<close>

record codec =
  utf8_decode :: "byte list \<Rightarrow> string option"
  utf8_encode :: "string \<Rightarrow> byte list"

datatype effect = Write "byte list" | Text string nat | Protocol_Error string | On_Close nat string

text \<open>What the handler \<open>onText\<close> does: it may close the peer, and it may throw.\<close>

record reaction =
  re_close :: "(nat \<times> string) option"
  re_throws :: bool

record peer =
  pe_buffer :: "byte list"
  pe_closing :: bool
  pe_closed :: bool

definition new_peer :: peer where
  "new_peer = \<lparr>pe_buffer = [], pe_closing = False, pe_closed = False\<rparr>"

definition isClosed :: "peer \<Rightarrow> bool" where
  "isClosed p \<longleftrightarrow> pe_closed p \<or> pe_closing p"

definition sendJson :: "codec \<Rightarrow> string \<Rightarrow> peer \<Rightarrow> effect list" where
  "sendJson c text p = (if pe_closed p \<or> pe_closing p then [] else [Write (encodeFrame 1 (utf8_encode c text))])"

definition peer_close :: "codec \<Rightarrow> nat \<Rightarrow> string \<Rightarrow> peer \<Rightarrow> effect list \<times> peer" where
  "peer_close c code reason p =
     (if pe_closed p \<or> pe_closing p then ([], p)
      else ([Write (encodeFrame 8 (write_u16 code @ take 123 (utf8_encode c reason)))], p\<lparr>pe_closing := True\<rparr>))"

definition finish :: "nat \<Rightarrow> string \<Rightarrow> peer \<Rightarrow> effect list \<times> peer" where
  "finish code reason p =
     (if pe_closed p then ([], p) else ([On_Close code reason], p\<lparr>pe_closed := True, pe_closing := False\<rparr>))"

definition peer_fail :: "codec \<Rightarrow> string \<Rightarrow> nat \<Rightarrow> peer \<Rightarrow> effect list \<times> peer" where
  "peer_fail c message code p =
     (case peer_close c code message p of (es, p') \<Rightarrow> (Protocol_Error message # es, p'))"

definition close_frame :: "codec \<Rightarrow> byte list \<Rightarrow> peer \<Rightarrow> effect list \<times> peer" where
  "close_frame c payload p =
     (if length payload = 1 then peer_fail c ''invalid close frame payload'' 1002 p
      else
        let code = (if 2 \<le> length payload then read_be (take 2 payload) else 1000);
            reason = (if 2 < length payload
              then (case utf8_decode c (drop 2 payload) of Some r \<Rightarrow> r | None \<Rightarrow> ''invalid close reason'') else [])
        in peer_close c code reason p)"

definition text_frame :: "codec \<Rightarrow> (string \<Rightarrow> nat \<Rightarrow> reaction) \<Rightarrow> byte list \<Rightarrow> peer \<Rightarrow> bool \<times> effect list \<times> peer" where
  "text_frame c onText payload p =
     (let invalid = (\<lambda>es p. case peer_fail c ''text frame is not valid UTF-8'' 1007 p of (es', p') \<Rightarrow> (False, es @ es', p')) in
      case utf8_decode c payload of
        None \<Rightarrow> invalid [] p
      | Some text \<Rightarrow>
          let r = onText text (length payload);
              (es, p1) = (case re_close r of None \<Rightarrow> ([], p) | Some (code, reason) \<Rightarrow> peer_close c code reason p);
              es1 = Text text (length payload) # es
          in if re_throws r then invalid es1 p1 else (True, es1, p1))"

lemma take_frame_shorter: "take_frame opcode len offset buffer = Frame opc payload rest \<Longrightarrow> 2 \<le> offset \<Longrightarrow> length rest < length buffer"
  by (auto simp: take_frame_def Let_def split: if_splits)

lemma parse_frame_shorter: "parse_frame buffer = Frame opcode payload rest \<Longrightarrow> length rest < length buffer"
  by (auto simp: parse_frame_def Let_def split: list.splits if_splits dest: take_frame_shorter)

lemma peer_close_buffer: "peer_close c code reason p = (es, p') \<Longrightarrow> pe_buffer p' = pe_buffer p"
  by (auto simp: peer_close_def split: if_splits)

lemma text_frame_buffer: "text_frame c onText payload p = (go, es, p') \<Longrightarrow> pe_buffer p' = pe_buffer p"
  by (auto simp: text_frame_def peer_fail_def Let_def split: option.splits prod.splits if_splits dest!: peer_close_buffer)

lemma text_frame_shorter:
  "parse_frame (pe_buffer p) = Frame opcode payload rest \<Longrightarrow> (go, es, p') = text_frame c onText payload (p\<lparr>pe_buffer := rest\<rparr>) \<Longrightarrow>
   length (pe_buffer p') < length (pe_buffer p)"
  using parse_frame_shorter text_frame_buffer by (metis peer.select_convs(1) peer.surjective peer.update_convs(1))

text \<open>The loop of \<open>accept\<close>. A peer is closed by an event of the socket only, so \<open>closed\<close> does not change
  inside the loop.\<close>

function accept_loop :: "codec \<Rightarrow> (string \<Rightarrow> nat \<Rightarrow> reaction) \<Rightarrow> peer \<Rightarrow> effect list \<times> peer" where
  "accept_loop c onText p =
     (case parse_frame (pe_buffer p) of
        Need_More \<Rightarrow> ([], p)
      | Reject message code \<Rightarrow> peer_fail c message code p
      | Frame opcode payload rest \<Rightarrow>
          let p1 = p\<lparr>pe_buffer := rest\<rparr> in
          if opcode = 8 then close_frame c payload p1
          else if opcode = 9 then (case accept_loop c onText p1 of (es, p2) \<Rightarrow> (Write (encodeFrame 10 payload) # es, p2))
          else if opcode = 10 then accept_loop c onText p1
          else if opcode \<noteq> 1 then peer_fail c ''only UTF-8 text frames are supported'' 1003 p1
          else
            case text_frame c onText payload p1 of (go, es, p2) \<Rightarrow>
              if go then (case accept_loop c onText p2 of (es', p3) \<Rightarrow> (es @ es', p3)) else (es, p2))"
  by pat_completeness auto
termination
  by (relation "measure (\<lambda>(c, f, p). length (pe_buffer p))") (auto dest: parse_frame_shorter text_frame_shorter)

declare accept_loop.simps [simp del]

definition accept :: "codec \<Rightarrow> (string \<Rightarrow> nat \<Rightarrow> reaction) \<Rightarrow> byte list \<Rightarrow> peer \<Rightarrow> effect list \<times> peer" where
  "accept c onText chunk p =
     (if pe_closed p then ([], p) else accept_loop c onText (p\<lparr>pe_buffer := pe_buffer p @ chunk\<rparr>))"

section \<open>Upgrades\<close>

definition base64_char :: "char \<Rightarrow> bool" where
  "base64_char ch \<longleftrightarrow> (let n = (of_char ch :: nat) in
     (65 \<le> n \<and> n \<le> 90) \<or> (97 \<le> n \<and> n \<le> 122) \<or> (48 \<le> n \<and> n \<le> 57) \<or> ch = CHR ''+'' \<or> ch = CHR ''/'')"

text \<open>22 characters of base 64 and two of padding: what such a text decodes to has 16 bytes, so the
  second test of \<open>validWebSocketKey\<close> never fails after the first.\<close>

definition validWebSocketKey :: "string option \<Rightarrow> bool" where
  "validWebSocketKey value = (case value of None \<Rightarrow> False
     | Some v \<Rightarrow> length v = 24 \<and> list_all base64_char (take 22 v) \<and> drop 22 v = ''=='')"

end
