(* ===== verification/Web_Socket_Properties.thy ===== *)
theory Web_Socket_Properties
  imports Web_Socket "HOL-Library.Sublist"
begin

text \<open>
  The parser of a peer against the frames of RFC 6455: a reference encoder for clients and a reference
  decoder for what the host writes. However the bytes a client sends are cut into chunks, the peer does the
  same, as long as the connection does not begin to close; after that the chunks do matter.
\<close>

section \<open>Bytes\<close>

lemma unat_byte_of: "unat (byte_of n) = n mod 256"
  by (simp add: byte_of_def unat_of_nat)

lemma small_lengths: "Suc (Suc 0) = 2" "Suc (Suc (Suc (Suc 0))) = 4" "Suc (Suc 2) = 4"
  "Suc (Suc (Suc (Suc (Suc (Suc (Suc (Suc (Suc (Suc 0))))))))) = 10" "Suc (Suc (Suc (Suc (Suc (Suc 4))))) = 10"
  by simp_all

lemma read_u16: "n < 65536 \<Longrightarrow> read_be [byte_of (n div 256), byte_of n] = n"
  by (simp add: read_be_def unat_byte_of)

lemma read_u32:
  assumes "n < 2 ^ 32"
  shows "read_be [byte_of (n div 2 ^ 24), byte_of (n div 2 ^ 16), byte_of (n div 256), byte_of n] = n"
proof -
  have "n div 2 ^ 24 = n div 256 div 256 div 256" "n div 2 ^ 16 = n div 256 div 256"
    by (simp_all add: div_mult2_eq [symmetric])
  moreover have "n div 256 div 256 div 256 < 256" using assms by (simp add: div_mult2_eq [symmetric] less_mult_imp_div_less)
  ultimately show ?thesis by (simp add: read_be_def unat_byte_of)
qed

lemma masked_length:
  assumes "n < 128"
  shows "(0x80 OR byte_of n) AND 0x80 \<noteq> 0" and "unat ((0x80 OR byte_of n) AND 0x7f) = n"
proof -
  have "bit ((0x80 OR byte_of n) AND 0x80) 7" by (simp add: bit_simps)
  then show "(0x80 OR byte_of n) AND 0x80 \<noteq> 0" by (metis bit_0_eq bot_apply bot_bool_def)
  have "(0x7f :: byte) = mask 7" by (simp add: mask_eq_exp_minus_1)
  then have "(0x80 OR byte_of n) AND 0x7f = take_bit 7 (0x80 OR byte_of n)" by (simp add: take_bit_eq_mask)
  also have "\<dots> = take_bit 7 (byte_of n)" by (simp add: take_bit_or)
  finally have "unat ((0x80 OR byte_of n) AND 0x7f) = take_bit 7 (unat (byte_of n))" by (simp add: unsigned_take_bit_eq)
  also have "\<dots> = n" using assms by (simp add: unat_byte_of take_bit_nat_eq_self)
  finally show "unat ((0x80 OR byte_of n) AND 0x7f) = n" .
qed

section \<open>Frames of a client\<close>

text \<open>What a client writes, after RFC 6455: a final frame with its opcode, the shortest form of the length
  with the mask bit, the mask and the masked payload.\<close>

definition client_header :: "byte \<Rightarrow> nat \<Rightarrow> byte list" where
  "client_header opcode len =
     [0x80 OR opcode]
     @ (if len < 126 then [0x80 OR byte_of len]
        else if len < 65536 then [0x80 OR byte_of 126, byte_of (len div 256), byte_of len]
        else [0x80 OR byte_of 127, 0, 0, 0, 0, byte_of (len div 2 ^ 24), byte_of (len div 2 ^ 16), byte_of (len div 256), byte_of len])"

definition client_frame :: "byte list \<Rightarrow> byte \<Rightarrow> byte list \<Rightarrow> byte list" where
  "client_frame key opcode payload = client_header opcode (length payload) @ key @ unmask key 0 payload"

lemma unmask_length [simp]: "length (unmask key n bs) = length bs"
  by (induction bs arbitrary: n) auto

lemma unmask_involution [simp]: "unmask key n (unmask key n bs) = bs"
  by (induction bs arbitrary: n) (auto simp: xor.assoc)

definition known_opcode :: "byte \<Rightarrow> bool" where
  "known_opcode opcode \<longleftrightarrow> opcode = 1 \<or> opcode = 8 \<or> opcode = 9 \<or> opcode = 10"

definition frame_fits :: "byte \<Rightarrow> byte list \<Rightarrow> bool" where
  "frame_fits opcode payload \<longleftrightarrow>
     length payload \<le> MAX_SAFE_PAYLOAD \<and> (8 \<le> opcode \<longrightarrow> length payload \<le> 125)"

lemma first_byte:
  assumes "known_opcode opcode"
  shows "(0x80 OR opcode) AND 0x80 \<noteq> 0" "(0x80 OR opcode) AND 0x70 = 0" "(0x80 OR opcode) AND 0x0f = opcode"
  using assms by (auto simp: known_opcode_def)

text \<open>Bytes that begin with the header of a client's frame: the parser finds the frame if it is there,
  and waits if it is not.\<close>

lemma parse_header:
  assumes "known_opcode opcode" and "frame_fits opcode payload"
    and "buffer = client_header opcode (length payload) @ rest"
  shows "parse_frame buffer = take_frame opcode (length payload) (length (client_header opcode (length payload))) buffer"
proof -
  let ?n = "length payload"
  have n: "?n \<le> 1048576" "8 \<le> opcode \<Longrightarrow> ?n \<le> 125" using assms(2) by (auto simp: frame_fits_def MAX_SAFE_PAYLOAD_def)
  note first = first_byte [OF assms(1)]
  consider (short) "?n < 126" | (medium) "126 \<le> ?n" "?n < 65536" | (long) "65536 \<le> ?n" by linarith
  then show ?thesis
  proof cases
    case short
    then show ?thesis using first masked_length [of ?n] n by (simp add: assms(3) parse_frame_def client_header_def Let_def small_lengths)
  next
    case medium
    then have "\<not> 8 \<le> opcode" using n by auto
    moreover have "read_be [byte_of (?n div 256), byte_of ?n] = ?n" using medium by (intro read_u16) simp
    ultimately show ?thesis using medium first masked_length [of 126]
      by (simp add: assms(3) parse_frame_def client_header_def Let_def small_lengths)
  next
    case long
    then have "\<not> 8 \<le> opcode" using n by auto
    moreover have "read_be [byte_of (?n div 2 ^ 24), byte_of (?n div 2 ^ 16), byte_of (?n div 256), byte_of ?n] = ?n"
      using n by (intro read_u32) simp
    moreover have "read_be [0, 0, 0, 0] = 0" by (simp add: read_be_def)
    ultimately show ?thesis using long first masked_length [of 127]
      by (simp add: assms(3) parse_frame_def client_header_def Let_def small_lengths)
  qed
qed

lemma parse_partial_header:
  assumes "known_opcode opcode" and "frame_fits opcode payload"
    and "k < length (client_header opcode (length payload))"
  shows "parse_frame (take k (client_header opcode (length payload))) = Need_More"
proof -
  let ?n = "length payload"
  have n: "8 \<le> opcode \<Longrightarrow> ?n \<le> 125" using assms(2) by (auto simp: frame_fits_def)
  note first = first_byte [OF assms(1)]
  consider "k = 0" | "k = 1" | j where "k = Suc (Suc j)" by (metis One_nat_def not0_implies_Suc)
  then show ?thesis
  proof cases
    case 3
    then have "126 \<le> ?n" using assms(3) by (auto simp: client_header_def split: if_splits)
    then have "\<not> 8 \<le> opcode" using n by auto
    then show ?thesis using assms(3) first masked_length [of 126] masked_length [of 127] 3 \<open>126 \<le> ?n\<close>
      by (cases "?n < 65536") (simp_all add: parse_frame_def client_header_def Let_def)
  qed (simp_all add: parse_frame_def client_header_def)
qed

lemma parse_client_frame:
  assumes "known_opcode opcode" and "frame_fits opcode payload" and "length key = 4"
  shows "parse_frame (client_frame key opcode payload @ rest) = Frame opcode payload rest"
proof -
  let ?h = "client_header opcode (length payload)"
  let ?b = "client_frame key opcode payload @ rest"
  have "parse_frame ?b = take_frame opcode (length payload) (length ?h) ?b"
    by (rule parse_header [OF assms(1,2)]) (simp add: client_frame_def)
  moreover have "length payload \<le> MAX_SAFE_PAYLOAD" using assms(2) by (simp add: frame_fits_def)
  ultimately show ?thesis using assms(3) by (simp add: take_frame_def client_frame_def Let_def)
qed

lemma parse_partial_frame:
  assumes "known_opcode opcode" and "frame_fits opcode payload" and "length key = 4"
    and "strict_prefix buffer (client_frame key opcode payload)"
  shows "parse_frame buffer = Need_More"
proof -
  let ?h = "client_header opcode (length payload)"
  let ?f = "client_frame key opcode payload"
  have f: "?f = ?h @ key @ unmask key 0 payload" by (simp add: client_frame_def)
  have short: "length buffer < length ?f" using assms(4) by (rule prefix_length_less)
  have b: "buffer = take (length buffer) ?f" using assms(4) by (metis prefix_def append_eq_conv_conj strict_prefix_def)
  show ?thesis
  proof (cases "length buffer < length ?h")
    case True
    then have "buffer = take (length buffer) ?h" using b by (simp add: f)
    with parse_partial_header [OF assms(1,2) True] show ?thesis by metis
  next
    case False
    then have "buffer = ?h @ take (length buffer - length ?h) (key @ unmask key 0 payload)" using b by (simp add: f)
    from parse_header [OF assms(1,2) this] have
      "parse_frame buffer = take_frame opcode (length payload) (length ?h) buffer" .
    moreover have "length payload \<le> MAX_SAFE_PAYLOAD" using assms(2) by (simp add: frame_fits_def)
    moreover have "length ?f = length ?h + 4 + length payload" using assms(3) by (simp add: f)
    ultimately show ?thesis using short by (simp add: take_frame_def)
  qed
qed

section \<open>Streams\<close>

datatype message = Message (msg_key: "byte list") (msg_opcode: byte) (msg_payload: "byte list")

definition wire :: "message \<Rightarrow> byte list" where
  "wire m = client_frame (msg_key m) (msg_opcode m) (msg_payload m)"

text \<open>A message a peer delivers without closing: a text that decodes and whose handler returns, a ping or
  a pong.\<close>

definition quiet :: "codec \<Rightarrow> (string \<Rightarrow> nat \<Rightarrow> reaction) \<Rightarrow> message \<Rightarrow> bool" where
  "quiet c onText m \<longleftrightarrow> length (msg_key m) = 4 \<and> frame_fits (msg_opcode m) (msg_payload m)
     \<and> (msg_opcode m = 9 \<or> msg_opcode m = 10
        \<or> msg_opcode m = 1 \<and> (\<exists>t. utf8_decode c (msg_payload m) = Some t
            \<and> onText t (length (msg_payload m)) = \<lparr>re_close = None, re_throws = False\<rparr>))"

definition delivered :: "codec \<Rightarrow> message \<Rightarrow> effect list" where
  "delivered c m =
     (if msg_opcode m = 1 then [Text (the (utf8_decode c (msg_payload m))) (length (msg_payload m))]
      else if msg_opcode m = 9 then [Write (encodeFrame 10 (msg_payload m))] else [])"

lemma accept_loop_message:
  assumes "quiet c onText m" and "pe_buffer p = wire m @ rest"
  shows "accept_loop c onText p =
    (let (es, p') = accept_loop c onText (p\<lparr>pe_buffer := rest\<rparr>) in (delivered c m @ es, p'))"
proof -
  have "known_opcode (msg_opcode m)" "frame_fits (msg_opcode m) (msg_payload m)" "length (msg_key m) = 4"
    using assms(1) by (auto simp: quiet_def known_opcode_def)
  from parse_client_frame [OF this] have "parse_frame (pe_buffer p) = Frame (msg_opcode m) (msg_payload m) rest"
    by (simp add: assms(2) wire_def)
  then show ?thesis using assms(1)
    by (subst accept_loop.simps) (auto simp: quiet_def delivered_def text_frame_def Let_def split: prod.splits)
qed

lemma accept_loop_partial:
  assumes "quiet c onText m" and "strict_prefix (pe_buffer p) (wire m)"
  shows "accept_loop c onText p = ([], p)"
proof -
  have "known_opcode (msg_opcode m)" "frame_fits (msg_opcode m) (msg_payload m)" "length (msg_key m) = 4"
    using assms(1) by (auto simp: quiet_def known_opcode_def)
  from parse_partial_frame [OF this] assms(2) have "parse_frame (pe_buffer p) = Need_More" by (simp add: wire_def)
  then show ?thesis by (subst accept_loop.simps) simp
qed

lemma accept_loop_empty: "pe_buffer p = [] \<Longrightarrow> accept_loop c onText p = ([], p)"
  by (subst accept_loop.simps) (simp add: parse_frame_def)

text \<open>What is left in the buffer is the beginning of the next message.\<close>

fun incomplete :: "message list \<Rightarrow> byte list \<Rightarrow> bool" where
  "incomplete [] b \<longleftrightarrow> b = []"
| "incomplete (m # ms) b \<longleftrightarrow> strict_prefix b (wire m)"

lemma accept_loop_stream:
  assumes "list_all (quiet c onText) ms" and "prefix (pe_buffer p) (concat (map wire ms))"
  shows "\<exists>ms1 ms2 b. ms = ms1 @ ms2 \<and> pe_buffer p = concat (map wire ms1) @ b \<and> incomplete ms2 b
    \<and> accept_loop c onText p = (concat (map (delivered c) ms1), p\<lparr>pe_buffer := b\<rparr>)"
  using assms
proof (induction ms arbitrary: p)
  case Nil
  then show ?case using accept_loop_empty [of p c onText] by auto
next
  case (Cons m ms)
  have q: "quiet c onText m" "list_all (quiet c onText) ms" using Cons.prems(1) by auto
  show ?case
  proof (cases "strict_prefix (pe_buffer p) (wire m)")
    case True
    from accept_loop_partial [OF q(1) this] True show ?thesis
      by (intro exI [of _ "[]"] exI [of _ "m # ms"] exI [of _ "pe_buffer p"]) simp
  next
    case False
    then obtain rest where rest: "pe_buffer p = wire m @ rest" "prefix rest (concat (map wire ms))"
      using Cons.prems(2) by (auto simp: prefix_append strict_prefix_def)
    from Cons.IH [OF q(2), of "p\<lparr>pe_buffer := rest\<rparr>"] rest(2) obtain ms1 ms2 b where
      ih: "ms = ms1 @ ms2" "rest = concat (map wire ms1) @ b" "incomplete ms2 b"
        "accept_loop c onText (p\<lparr>pe_buffer := rest\<rparr>) = (concat (map (delivered c) ms1), p\<lparr>pe_buffer := b\<rparr>)" by auto
    with accept_loop_message [OF q(1) rest(1)] rest(1) show ?thesis
      by (intro exI [of _ "m # ms1"] exI [of _ ms2] exI [of _ b]) simp
  qed
qed

primrec feed :: "codec \<Rightarrow> (string \<Rightarrow> nat \<Rightarrow> reaction) \<Rightarrow> byte list list \<Rightarrow> peer \<Rightarrow> effect list \<times> peer" where
  "feed c onText [] p = ([], p)"
| "feed c onText (x # xs) p =
     (let (es, p1) = accept c onText x p; (es', p2) = feed c onText xs p1 in (es @ es', p2))"

lemma feed_stream:
  assumes "list_all (quiet c onText) ms" and "pe_buffer p @ concat chunks = concat (map wire ms)"
    and "incomplete ms (pe_buffer p)" and "\<not> pe_closed p"
  shows "feed c onText chunks p = (concat (map (delivered c) ms), p\<lparr>pe_buffer := []\<rparr>)"
  using assms
proof (induction chunks arbitrary: ms p)
  case Nil
  have "ms = []"
  proof (cases ms)
    case (Cons m ms')
    with Nil show ?thesis by (auto simp: strict_prefix_def prefix_def)
  qed
  with Nil show ?case by simp
next
  case (Cons x xs)
  let ?p = "p\<lparr>pe_buffer := pe_buffer p @ x\<rparr>"
  have "prefix (pe_buffer ?p) (concat (map wire ms))" using Cons.prems(2) by (simp add: prefix_def) (metis append.assoc)
  from accept_loop_stream [OF Cons.prems(1) this] obtain ms1 ms2 b where
    a: "ms = ms1 @ ms2" "pe_buffer p @ x = concat (map wire ms1) @ b" "incomplete ms2 b"
      "accept_loop c onText ?p = (concat (map (delivered c) ms1), p\<lparr>pe_buffer := b\<rparr>)" by auto
  have "concat (map wire ms1) @ (b @ concat xs) = concat (map wire ms1) @ concat (map wire ms2)"
    using Cons.prems(2) a(1,2) by (metis append.assoc concat.simps(2) concat_append map_append)
  then have "b @ concat xs = concat (map wire ms2)" by (rule same_append_eq [THEN iffD1])
  with Cons.IH [of ms2 "p\<lparr>pe_buffer := b\<rparr>"] Cons.prems(1,4) a show ?case by (simp add: accept_def)
qed

section \<open>Chunks\<close>

text \<open>More bytes change nothing about a frame that is complete or rejected.\<close>

definition with_more :: "byte list \<Rightarrow> parsed \<Rightarrow> parsed" where
  "with_more x r = (case r of Frame opcode payload rest \<Rightarrow> Frame opcode payload (rest @ x) | _ \<Rightarrow> r)"

lemma take_frame_more:
  assumes "take_frame opcode len offset b \<noteq> Need_More"
  shows "take_frame opcode len offset (b @ x) = with_more x (take_frame opcode len offset b)"
proof (cases "len > MAX_SAFE_PAYLOAD")
  case True
  then show ?thesis by (simp add: take_frame_def with_more_def)
next
  case False
  then have "offset + 4 + len \<le> length b" using assms by (simp add: take_frame_def Let_def split: if_splits)
  with False show ?thesis by (simp add: take_frame_def with_more_def Let_def)
qed

lemma parse_frame_more:
  assumes "parse_frame b \<noteq> Need_More"
  shows "parse_frame (b @ x) = with_more x (parse_frame b)"
proof -
  from assms obtain v w rest where b: "b = v # w # rest" by (auto simp: parse_frame_def split: list.splits)
  note more = take_frame_more [of _ _ _ "v # w # rest" x, simplified append_Cons]
  consider "v AND 0x80 = 0 \<or> v AND 0x70 \<noteq> 0 \<or> 8 \<le> v AND 0x0f \<and> 125 < unat (w AND 0x7f) \<or> w AND 0x80 = 0"
    | (plain) "\<not> (v AND 0x80 = 0 \<or> v AND 0x70 \<noteq> 0 \<or> 8 \<le> v AND 0x0f \<and> 125 < unat (w AND 0x7f) \<or> w AND 0x80 = 0)" by blast
  then show ?thesis
  proof cases
    case 1
    then show ?thesis by (auto simp: b parse_frame_def Let_def with_more_def)
  next
    case plain
    consider (two) "unat (w AND 0x7f) = 126" | (eight) "unat (w AND 0x7f) = 127"
      | (short) "unat (w AND 0x7f) \<noteq> 126" "unat (w AND 0x7f) \<noteq> 127" by blast
    then show ?thesis
    proof cases
      case two
      with assms plain have "2 \<le> length rest" by (auto simp: b parse_frame_def Let_def split: if_splits)
      with two plain assms show ?thesis by (simp add: b parse_frame_def Let_def more)
    next
      case eight
      with assms plain have "8 \<le> length rest" by (auto simp: b parse_frame_def Let_def split: if_splits)
      with eight plain assms show ?thesis
        by (cases "read_be (take 4 rest) = 0") (simp_all add: b parse_frame_def Let_def more with_more_def)
    next
      case short
      from plain have "(8 \<le> v AND 0x0f \<and> 125 < unat (w AND 0x7f)) = False" by blast
      with short plain assms show ?thesis by (auto simp: b parse_frame_def Let_def more)
    qed
  qed
qed

text \<open>A peer that is closing stays so, and the loop closes no socket.\<close>

lemma peer_close_closing: "peer_close c code reason p = (es, q) \<Longrightarrow> isClosed q \<and> pe_closed q = pe_closed p"
  by (auto simp: peer_close_def isClosed_def split: if_splits)

lemma peer_fail_closing: "peer_fail c m code p = (es, q) \<Longrightarrow> isClosed q \<and> pe_closed q = pe_closed p"
  by (auto simp: peer_fail_def split: prod.splits dest: peer_close_closing)

lemma close_frame_closing: "close_frame c payload p = (es, q) \<Longrightarrow> isClosed q \<and> pe_closed q = pe_closed p"
  by (auto simp: close_frame_def Let_def split: if_splits dest: peer_close_closing peer_fail_closing)

lemma text_frame_closing:
  "text_frame c onText payload p = (go, es, q) \<Longrightarrow> pe_closed q = pe_closed p \<and> (isClosed p \<longrightarrow> isClosed q) \<and> (\<not> go \<longrightarrow> isClosed q)"
  by (auto simp: text_frame_def Let_def isClosed_def split: option.splits prod.splits if_splits
      dest!: peer_close_closing peer_fail_closing)

lemma accept_loop_closing:
  "accept_loop c onText p = (es, q) \<Longrightarrow> pe_closed q = pe_closed p \<and> (isClosed p \<longrightarrow> isClosed q)"
proof (induction c onText p arbitrary: es q rule: accept_loop.induct)
  case (1 c onText p)
  show ?case
  proof (cases "parse_frame (pe_buffer p)")
    case Need_More
    with 1(4) show ?thesis by (simp add: accept_loop.simps [of c onText p])
  next
    case (Reject m code)
    with 1(4) show ?thesis by (auto simp: accept_loop.simps [of c onText p] dest: peer_fail_closing)
  next
    case (Frame opcode payload rest)
    have same: "isClosed (p\<lparr>pe_buffer := rest\<rparr>) = isClosed p" by (simp add: isClosed_def)
    from 1(4) Frame show ?thesis
      using 1(1) [OF Frame HOL.refl] 1(2) [OF Frame HOL.refl] 1(3) [OF Frame HOL.refl] same
      by (subst (asm) accept_loop.simps)
        (fastforce simp: Let_def split: if_splits prod.splits dest: close_frame_closing peer_fail_closing text_frame_closing)
  qed
qed

lemma peer_close_more:
  "peer_close c code reason p = (es, q) \<Longrightarrow> peer_close c code reason (p\<lparr>pe_buffer := pe_buffer p @ x\<rparr>) = (es, q\<lparr>pe_buffer := pe_buffer q @ x\<rparr>)"
  by (cases p) (auto simp: peer_close_def split: if_splits)

lemma peer_fail_more:
  "peer_fail c m code p = (es, q) \<Longrightarrow> peer_fail c m code (p\<lparr>pe_buffer := pe_buffer p @ x\<rparr>) = (es, q\<lparr>pe_buffer := pe_buffer q @ x\<rparr>)"
  by (auto simp: peer_fail_def peer_close_more split: prod.splits)

lemma text_frame_more:
  assumes "text_frame c onText payload p = (go, es, q)"
  shows "text_frame c onText payload (p\<lparr>pe_buffer := pe_buffer p @ x\<rparr>) = (go, es, q\<lparr>pe_buffer := pe_buffer q @ x\<rparr>)"
  using assms
  by (auto simp: text_frame_def Let_def peer_close_more peer_fail_more split: option.splits prod.splits if_splits)

text \<open>The loop over some bytes and then over more is the loop over all of them, unless the connection began
  to close.\<close>

lemma accept_loop_append:
  assumes "accept_loop c onText p = (es, q)"
  shows "if isClosed q then isClosed (snd (accept_loop c onText (p\<lparr>pe_buffer := pe_buffer p @ x\<rparr>)))
    else accept_loop c onText (p\<lparr>pe_buffer := pe_buffer p @ x\<rparr>)
      = (let (es', r) = accept_loop c onText (q\<lparr>pe_buffer := pe_buffer q @ x\<rparr>) in (es @ es', r))"
  using assms
proof (induction c onText p arbitrary: es q rule: accept_loop.induct)
  case (1 c onText p)
  let ?p = "p\<lparr>pe_buffer := pe_buffer p @ x\<rparr>"
  show ?case
  proof (cases "parse_frame (pe_buffer p)")
    case Need_More
    with 1(4) have "es = []" "q = p" by (auto simp: accept_loop.simps [of c onText p])
    moreover have "isClosed p \<Longrightarrow> isClosed (snd (accept_loop c onText ?p))"
      using accept_loop_closing [of c onText ?p] by (cases "accept_loop c onText ?p") (auto simp: isClosed_def)
    ultimately show ?thesis by simp
  next
    case (Reject m code)
    with 1(4) have "isClosed q" by (auto simp: accept_loop.simps [of c onText p] dest: peer_fail_closing)
    moreover have "isClosed (snd (accept_loop c onText ?p))"
      using parse_frame_more [of "pe_buffer p" x] Reject peer_fail_closing [of c m code ?p]
      by (cases "peer_fail c m code ?p") (simp add: accept_loop.simps [of c onText ?p] with_more_def)
    ultimately show ?thesis by simp
  next
    case (Frame opcode payload rest)
    have more: "parse_frame (pe_buffer p @ x) = Frame opcode payload (rest @ x)"
      using parse_frame_more [of "pe_buffer p" x] Frame by (simp add: with_more_def)
    let ?q = "p\<lparr>pe_buffer := rest\<rparr>"
    consider (close) "opcode = 8" | (ping) "opcode = 9" | (pong) "opcode = 10" | (words) "opcode = 1"
      | (other) "opcode \<noteq> 8" "opcode \<noteq> 9" "opcode \<noteq> 10" "opcode \<noteq> 1" by blast
    then show ?thesis
    proof cases
      case close
      have "isClosed (snd (close_frame c payload r))" for r
        using close_frame_closing [of c payload r] by (cases "close_frame c payload r") simp
      then show ?thesis using 1(4) close Frame more
        by (auto simp: accept_loop.simps [of c onText p] accept_loop.simps [of c onText ?p] dest: close_frame_closing)
    next
      case other
      have "isClosed (snd (peer_fail c m code r))" for m code r
        using peer_fail_closing [of c m code r] by (cases "peer_fail c m code r") simp
      then show ?thesis using 1(4) other Frame more
        by (auto simp: accept_loop.simps [of c onText p] accept_loop.simps [of c onText ?p] dest: peer_fail_closing)
    next
      case ping
      then obtain es' where es': "accept_loop c onText ?q = (es', q)" "es = Write (encodeFrame 10 payload) # es'"
        using 1(4) Frame by (auto simp: accept_loop.simps [of c onText p] split: prod.splits)
      from 1(1) [OF Frame HOL.refl _ _ es'(1)] ping Frame more show ?thesis
        by (auto simp: accept_loop.simps [of c onText ?p] es'(2) split: prod.splits if_splits)
    next
      case pong
      then have es': "accept_loop c onText ?q = (es, q)"
        using 1(4) Frame by (auto simp: accept_loop.simps [of c onText p])
      from 1(2) [OF Frame HOL.refl _ _ _ es'] pong Frame more show ?thesis
        by (auto simp: accept_loop.simps [of c onText ?p] split: prod.splits if_splits)
    next
      case words
      obtain go es1 p2 where t: "text_frame c onText payload ?q = (go, es1, p2)" by (metis prod_cases3)
      have t': "text_frame c onText payload (?p\<lparr>pe_buffer := rest @ x\<rparr>) = (go, es1, p2\<lparr>pe_buffer := pe_buffer p2 @ x\<rparr>)"
        using text_frame_more [OF t, of x] by simp
      show ?thesis
      proof (cases go)
        case False
        with 1(4) words Frame more t t' text_frame_closing [OF t] show ?thesis
          by (auto simp: accept_loop.simps [of c onText p] accept_loop.simps [of c onText ?p] isClosed_def)
      next
        case True
        with 1(4) words Frame t obtain es' where es': "accept_loop c onText p2 = (es', q)" "es = es1 @ es'"
          by (auto simp: accept_loop.simps [of c onText p] split: prod.splits)
        from 1(3) [OF Frame HOL.refl _ _ _ _ t [symmetric] HOL.refl True es'(1)] words True Frame more t' show ?thesis
          by (auto simp: accept_loop.simps [of c onText ?p] es'(2) split: prod.splits if_splits)
      qed
    qed
  qed
qed

lemma accept_append:
  assumes "accept c onText x p = (es, q)" and "\<not> pe_closed p"
  shows "if isClosed q then isClosed (snd (accept c onText (x @ y) p))
    else accept c onText (x @ y) p = (let (es', r) = accept c onText y q in (es @ es', r))"
proof -
  have a: "accept_loop c onText (p\<lparr>pe_buffer := pe_buffer p @ x\<rparr>) = (es, q)" using assms by (simp add: accept_def)
  then have "\<not> pe_closed q" using accept_loop_closing assms(2) by fastforce
  with accept_loop_append [OF a, of y] assms(2) show ?thesis by (cases p) (simp add: accept_def split: if_splits)
qed

lemma accept_closing: "accept c onText x p = (es, q) \<Longrightarrow> isClosed p \<longrightarrow> isClosed q"
  by (auto simp: accept_def isClosed_def split: if_splits dest!: accept_loop_closing)

lemma feed_closing: "isClosed p \<Longrightarrow> isClosed (snd (feed c onText xs p))"
proof (induction xs arbitrary: p)
  case (Cons x xs)
  obtain es q where q: "accept c onText x p = (es, q)" by fastforce
  with accept_closing Cons.prems have "isClosed q" by blast
  from Cons.IH [OF this] q show ?case by (auto split: prod.splits)
qed simp

text \<open>After a chunk the buffer holds no frame and no bytes the peer rejects, or the peer is closing.\<close>

lemma accept_loop_idle: "accept_loop c onText p = (es, q) \<Longrightarrow> \<not> isClosed q \<Longrightarrow> parse_frame (pe_buffer q) = Need_More"
proof (induction c onText p arbitrary: es q rule: accept_loop.induct)
  case (1 c onText p)
  show ?case
  proof (cases "parse_frame (pe_buffer p)")
    case Need_More
    with 1(4) show ?thesis by (simp add: accept_loop.simps [of c onText p])
  next
    case (Reject m code)
    with 1(4,5) show ?thesis by (auto simp: accept_loop.simps [of c onText p] dest: peer_fail_closing)
  next
    case (Frame opcode payload rest)
    from 1(4,5) Frame show ?thesis
      using 1(1) [OF Frame HOL.refl] 1(2) [OF Frame HOL.refl] 1(3) [OF Frame HOL.refl]
      by (subst (asm) accept_loop.simps)
        (fastforce simp: Let_def split: if_splits prod.splits dest: close_frame_closing peer_fail_closing text_frame_closing)
  qed
qed

lemma accept_nothing: "parse_frame (pe_buffer p) = Need_More \<Longrightarrow> accept c onText [] p = ([], p)"
  by (simp add: accept_def accept_loop.simps [of c onText p])

lemma feed_concat:
  assumes "parse_frame (pe_buffer p) = Need_More" and "\<not> isClosed p"
  shows "if isClosed (snd (feed c onText xs p)) then isClosed (snd (accept c onText (concat xs) p))
    else feed c onText xs p = accept c onText (concat xs) p"
  using assms
proof (induction xs arbitrary: p)
  case Nil
  then show ?case by (simp add: accept_nothing)
next
  case (Cons x xs)
  obtain es q where q: "accept c onText x p = (es, q)" by fastforce
  have open_p: "\<not> pe_closed p" using Cons.prems(2) by (simp add: isClosed_def)
  show ?case
  proof (cases "isClosed q")
    case True
    with accept_append [OF q open_p, of "concat xs"] feed_closing [OF True, of c onText xs] q show ?thesis
      by (auto split: prod.splits)
  next
    case False
    have "parse_frame (pe_buffer q) = Need_More"
      using accept_loop_idle q open_p False by (fastforce simp: accept_def)
    from Cons.IH [OF this False] accept_append [OF q open_p, of "concat xs"] q False show ?thesis
      by (auto split: prod.splits if_splits)
  qed
qed

text \<open>C33. How the bytes of a client are cut into chunks is irrelevant as long as the connection does not
  begin to close: two ways of cutting the same bytes, whatever they are, either both make the peer begin to
  close, or have exactly the same effects in the same order and leave the peer in the same state. And when the bytes
  are the frames of a stream of texts the handler accepts, pings and pongs, the peer has delivered
  every text once and in order, answered every ping, and is ready for the next message.\<close>

theorem chunking_irrelevant:
  assumes "concat xs = concat ys"
  shows "isClosed (snd (feed c onText xs new_peer)) = isClosed (snd (feed c onText ys new_peer))
    \<and> (\<not> isClosed (snd (feed c onText xs new_peer)) \<longrightarrow> feed c onText xs new_peer = feed c onText ys new_peer)
    \<and> (list_all (quiet c onText) ms \<and> concat xs = concat (map wire ms)
        \<longrightarrow> feed c onText xs new_peer = (concat (map (delivered c) ms), new_peer))"
proof -
  have new: "parse_frame (pe_buffer new_peer) = Need_More" "\<not> isClosed new_peer"
    by (simp_all add: new_peer_def parse_frame_def isClosed_def)
  have "incomplete ms (pe_buffer new_peer)"
    by (cases ms) (auto simp: new_peer_def wire_def client_frame_def client_header_def strict_prefix_def)
  then have "list_all (quiet c onText) ms \<and> concat xs = concat (map wire ms)
      \<longrightarrow> feed c onText xs new_peer = (concat (map (delivered c) ms), new_peer)"
    using feed_stream [of c onText ms new_peer xs] by (simp add: new_peer_def)
  with feed_concat [OF new, of c onText xs] feed_concat [OF new, of c onText ys] assms show ?thesis
    by (auto split: if_splits)
qed

text \<open>Bytes as characters, for examples in ASCII.\<close>

definition ascii :: codec where
  "ascii = \<lparr>utf8_decode = (\<lambda>bs. if list_all (\<lambda>b. unat b < 128) bs then Some (map (\<lambda>b. char_of (unat b)) bs) else None),
     utf8_encode = map (\<lambda>ch. byte_of (of_char ch))\<rparr>"

definition silent :: "string \<Rightarrow> nat \<Rightarrow> reaction" where
  "silent t n = \<lparr>re_close = None, re_throws = False\<rparr>"

definition hello :: message where
  "hello = Message [1, 2, 3, 4] 1 [104, 105]"

definition ping :: message where
  "ping = Message [5, 6, 7, 8] 9 [42]"

lemma examples_quiet: "quiet ascii silent hello" "quiet ascii silent ping"
  by (auto simp: quiet_def hello_def ping_def ascii_def silent_def frame_fits_def MAX_SAFE_PAYLOAD_def)

theorem chunking_irrelevant_witness:
  "feed ascii silent (map (\<lambda>b. [b]) (wire hello @ wire ping)) new_peer = ([Text ''hi'' 2, Write (encodeFrame 10 [42])], new_peer)"
proof -
  have "concat (map (\<lambda>b. [b]) (wire hello @ wire ping)) = concat [wire hello @ wire ping]" by simp
  with chunking_irrelevant [OF this, of ascii silent "[hello, ping]"] examples_quiet
  have "feed ascii silent (map (\<lambda>b. [b]) (wire hello @ wire ping)) new_peer = (delivered ascii hello @ delivered ascii ping, new_peer)"
    by simp
  moreover have "delivered ascii hello = [Text ''hi'' 2]" "delivered ascii ping = [Write (encodeFrame 10 [42])]"
    by (simp_all add: delivered_def hello_def ping_def ascii_def char_of_def bit_0)
  ultimately show ?thesis by simp
qed

text \<open>A peer that is closing still reads: a message that arrives after the close frame is delivered to
  the handler, although RFC 6455 has a peer discard what it receives after a close frame.\<close>

theorem closing_peer_still_reads:
  assumes "quiet c onText m" and "length key = 4" and "length payload \<noteq> 1" and "length payload \<le> 125"
  shows "\<exists>es p. accept c onText (client_frame key 8 payload) new_peer = (es, p) \<and> isClosed p
    \<and> accept c onText (wire m) p = (delivered c m, p)"
proof -
  have "parse_frame (client_frame key 8 payload @ []) = Frame 8 payload []"
    by (rule parse_client_frame) (use assms in \<open>auto simp: known_opcode_def frame_fits_def MAX_SAFE_PAYLOAD_def\<close>)
  then have "\<exists>es. accept c onText (client_frame key 8 payload) new_peer = (es, new_peer\<lparr>pe_closing := True\<rparr>)"
    using assms(3) by (subst accept_def, subst accept_loop.simps)
      (simp add: new_peer_def close_frame_def peer_close_def Let_def)
  moreover have "accept c onText (wire m) (new_peer\<lparr>pe_closing := True\<rparr>) = (delivered c m, new_peer\<lparr>pe_closing := True\<rparr>)"
    using accept_loop_message [OF assms(1), of "new_peer\<lparr>pe_closing := True, pe_buffer := wire m\<rparr>" "[]"]
      accept_loop_empty [of "new_peer\<lparr>pe_closing := True\<rparr>" c onText]
    by (simp add: accept_def new_peer_def)
  ultimately show ?thesis by (auto simp: isClosed_def)
qed

theorem closing_peer_still_reads_witness:
  "\<exists>es p. accept ascii silent (client_frame [0, 0, 0, 0] 8 []) new_peer = (es, p) \<and> isClosed p
    \<and> accept ascii silent (wire hello) p = ([Text ''hi'' 2], p)"
proof -
  have "delivered ascii hello = [Text ''hi'' 2]"
    by (simp add: delivered_def hello_def ascii_def char_of_def bit_0)
  with closing_peer_still_reads [OF examples_quiet(1), of "[0, 0, 0, 0]" "[]"] show ?thesis by simp
qed

section \<open>Frames of the host\<close>

text \<open>How a client reads an unmasked frame, after RFC 6455: opcode, payload and the bytes that follow.\<close>

definition client_read :: "byte list \<Rightarrow> (byte \<times> byte list \<times> byte list) option" where
  "client_read bs = (case bs of
     first # second # rest \<Rightarrow>
       let n = unat second;
           body = (\<lambda>len xs. if length xs < len then None else Some (first AND 0x0f, take len xs, drop len xs))
       in if first AND 0x80 = 0 \<or> 128 \<le> n then None
          else if n < 126 then body n rest
          else if n = 126 then (if length rest < 2 then None else body (read_be (take 2 rest)) (drop 2 rest))
          else (if length rest < 8 then None else body (read_be (take 8 rest)) (drop 8 rest))
   | _ \<Rightarrow> None)"

text \<open>C35. What the host writes reads back: a client that follows RFC 6455 takes the opcode and the payload
  from an encoded frame and is left with what follows it, for payloads below 4 GiB.\<close>

theorem host_frame_reads_back:
  assumes "known_opcode opcode" and "length payload < 2 ^ 32"
  shows "client_read (encodeFrame opcode payload @ rest) = Some (opcode, payload, rest)"
proof -
  let ?n = "length payload"
  note first = first_byte [OF assms(1)]
  consider (short) "?n < 126" | (medium) "126 \<le> ?n" "?n < 65536" | (long) "65536 \<le> ?n" by linarith
  then show ?thesis
  proof cases
    case short
    then show ?thesis using first by (simp add: client_read_def encodeFrame_def Let_def unat_byte_of)
  next
    case medium
    then have "read_be [byte_of (?n div 256), byte_of ?n] = ?n" by (intro read_u16) simp
    then show ?thesis using medium first by (simp add: client_read_def encodeFrame_def Let_def small_lengths)
  next
    case long
    have "read_be ([0, 0, 0, 0] @ [byte_of (?n div 2 ^ 24), byte_of (?n div 2 ^ 16), byte_of (?n div 256), byte_of ?n]) = ?n"
      using read_u32 [OF assms(2)] by (simp add: read_be_def)
    then show ?thesis using long first by (simp add: client_read_def encodeFrame_def Let_def small_lengths)
  qed
qed

theorem host_frame_reads_back_witness: "client_read (encodeFrame 1 (replicate 300 7) @ [9]) = Some (1, replicate 300 7, [9])"
  using host_frame_reads_back [of 1 "replicate 300 7" "[9]"] by (simp add: known_opcode_def)

end
