(* ===== verification/Protocol_Validation.thy ===== *)
theory Protocol_Validation
  imports Automation_Service
begin

text \<open>
  \<open>packages/protocol/src/validation.ts\<close>: the structural checks of the frames and of the inputs of the
  operations. A value is what \<open>JSON.parse\<close> returned, a success carries the value, a failure its message.
  A chain of \<open>if (bad) return failure(message)\<close> is the list \<open>checked\<close> walks; a field of something that is
  not an object is \<open>JUndef\<close>, which the checks before it exclude.
\<close>

section \<open>Values\<close>

definition fld :: "json \<Rightarrow> string \<Rightarrow> json" where
  "fld v k = json_field k v"

definition isRecord :: "json \<Rightarrow> bool" where
  "isRecord v = (case v of JObj ms \<Rightarrow> True | _ \<Rightarrow> False)"

definition object_keys :: "json \<Rightarrow> string list" where
  "object_keys v = (case v of JObj ms \<Rightarrow> map fst ms | _ \<Rightarrow> [])"

definition hasExactKeys :: "json \<Rightarrow> string list \<Rightarrow> string list \<Rightarrow> bool" where
  "hasExactKeys v required optional \<longleftrightarrow>
     list_all (\<lambda>k. k \<in> set (object_keys v)) required \<and> list_all (\<lambda>k. k \<in> set (required @ optional)) (object_keys v)"

definition boundedString :: "json \<Rightarrow> nat \<Rightarrow> nat \<Rightarrow> bool" where
  "boundedString v lo hi = (case v of JStr s \<Rightarrow> lo \<le> length s \<and> length s \<le> hi | _ \<Rightarrow> False)"

definition boundedInteger :: "json \<Rightarrow> int \<Rightarrow> int \<Rightarrow> bool" where
  "boundedInteger v lo hi = (case v of JNum n \<Rightarrow> lo \<le> n \<and> n \<le> hi | _ \<Rightarrow> False)"

definition boundedJson :: "json \<Rightarrow> nat \<Rightarrow> bool" where
  "boundedJson v hi = (case json_stringify v of None \<Rightarrow> False | Some text \<Rightarrow> length text \<le> hi)"

definition is_boolean :: "json \<Rightarrow> bool" where
  "is_boolean v = (case v of JBool b \<Rightarrow> True | _ \<Rightarrow> False)"

definition is_string :: "json \<Rightarrow> bool" where
  "is_string v = (case v of JStr s \<Rightarrow> True | _ \<Rightarrow> False)"

definition json_items :: "json \<Rightarrow> json list option" where
  "json_items v = (case v of JArr xs \<Rightarrow> Some xs | _ \<Rightarrow> None)"

text \<open>\<open>String(value)\<close>: an array is its items joined by commas, a missing item the empty string. That an
  object with a member \<open>toString\<close> makes it throw is left out.\<close>

fun js_string :: "json \<Rightarrow> string" and js_strings :: "json list \<Rightarrow> string list" where
  "js_string JUndef = ''undefined''"
| "js_string JNull = ''null''"
| "js_string (JBool b) = (if b then ''true'' else ''false'')"
| "js_string (JNum n) = show_int n"
| "js_string (JStr s) = s"
| "js_string (JArr xs) = js_join '','' (js_strings xs)"
| "js_string (JObj ms) = ''[object Object]''"
| "js_strings [] = []"
| "js_strings (x # xs) = (if x = JUndef \<or> x = JNull then [] else js_string x) # js_strings xs"

fun checked :: "(bool \<times> string) list \<Rightarrow> json \<Rightarrow> string + json" where
  "checked [] v = Inr v"
| "checked ((bad, message) # cs) v = (if bad then Inl message else checked cs v)"

definition not_closed :: "json \<Rightarrow> string list \<Rightarrow> string list \<Rightarrow> bool" where
  "not_closed v required optional \<longleftrightarrow> \<not> isRecord v \<or> \<not> hasExactKeys v required optional"

text \<open>\<open>value.k !== undefined && !p(value.k)\<close>.\<close>

definition bad_option :: "json \<Rightarrow> string \<Rightarrow> (json \<Rightarrow> bool) \<Rightarrow> bool" where
  "bad_option v k p \<longleftrightarrow> fld v k \<noteq> JUndef \<and> \<not> p (fld v k)"

section \<open>Frames\<close>

definition num_value :: "json \<Rightarrow> int" where
  "num_value v = (case v of JNum n \<Rightarrow> n | _ \<Rightarrow> 0)"


definition validateOpenFrame :: "json \<Rightarrow> string + json" where
  "validateOpenFrame v = checked
     [(not_closed v [''type'', ''minProtocol'', ''maxProtocol'', ''client'', ''credential''] [''cursor''],
        ''open frame must be a closed object''),
      (\<not> (fld v ''type'' = JStr ''open''), ''first frame type must be open''),
      (\<not> boundedInteger (fld v ''minProtocol'') 1 65535 \<or> \<not> boundedInteger (fld v ''maxProtocol'') 1 65535
        \<or> num_value (fld v ''minProtocol'') > num_value (fld v ''maxProtocol''),
        ''invalid protocol range''),
      (bad_option v ''cursor'' (\<lambda>x. boundedInteger x 0 max_safe_integer), ''invalid notice cursor''),
      (not_closed (fld v ''client'') [''id'', ''version'', ''platform'', ''kind''] [''instanceId''],
        ''client metadata must be a closed object''),
      (\<not> boundedString (fld (fld v ''client'') ''id'') 1 64 \<or> \<not> boundedString (fld (fld v ''client'') ''version'') 1 64
        \<or> \<not> boundedString (fld (fld v ''client'') ''platform'') 1 64,
        ''invalid client metadata''),
      (fld (fld v ''client'') ''kind'' \<notin> set (map JStr [''cli'', ''web'', ''desktop'', ''test'']), ''invalid client kind''),
      (bad_option (fld v ''client'') ''instanceId'' (\<lambda>x. boundedString x 1 128), ''invalid client instanceId''),
      (not_closed (fld v ''credential'') [''kind'', ''token''] [], ''credential must be a closed object''),
      (\<not> (fld (fld v ''credential'') ''kind'' = JStr ''profile-token'')
        \<or> \<not> boundedString (fld (fld v ''credential'') ''token'') 24 512,
        ''invalid profile credential'')] v"

definition validateCallFrame :: "json \<Rightarrow> string + json" where
  "validateCallFrame v = checked
     [(not_closed v [''type'', ''callId'', ''idempotencyKey'', ''operation'', ''input''] [], ''call frame must be a closed object''),
      (\<not> (fld v ''type'' = JStr ''call''), ''authenticated client frame type must be call''),
      (\<not> boundedString (fld v ''callId'') 1 128, ''invalid callId''),
      (\<not> boundedString (fld v ''idempotencyKey'') 1 128, ''invalid idempotencyKey''),
      (\<not> boundedString (fld v ''operation'') 1 128, ''invalid operation'')] v"

text \<open>\<open>JSON.parse\<close> is a parameter.\<close>

definition parseJsonFrame :: "(string \<Rightarrow> json option) \<Rightarrow> string \<Rightarrow> string + json" where
  "parseJsonFrame json_parse text = (case json_parse text of
     None \<Rightarrow> Inl ''frame must contain valid JSON'' | Some v \<Rightarrow> Inr v)"

definition negotiateProtocol :: "int \<Rightarrow> int \<Rightarrow> int \<Rightarrow> int \<Rightarrow> int option" where
  "negotiateProtocol minProtocol maxProtocol serverMin serverMax =
     (let selected = min maxProtocol serverMax in if selected \<ge> max minProtocol serverMin then Some selected else None)"

definition isClosedEmptyObject :: "json \<Rightarrow> bool" where
  "isClosedEmptyObject v \<longleftrightarrow> isRecord v \<and> object_keys v = []"

section \<open>Extensions and connectors\<close>

definition extension_id :: "string \<Rightarrow> bool" where
  "extension_id s = (case s of [] \<Rightarrow> False
     | c # cs \<Rightarrow> 97 \<le> (of_char c :: nat) \<and> (of_char c :: nat) \<le> 122 \<and> length cs \<le> 63
         \<and> list_all (\<lambda>c. lower_alnum c \<or> c \<in> set ''.-'') cs)"

definition matches :: "(string \<Rightarrow> bool) \<Rightarrow> json \<Rightarrow> bool" where
  "matches pattern v = (case v of JStr s \<Rightarrow> pattern s | _ \<Rightarrow> False)"

definition validateExtensionListInput :: "json \<Rightarrow> string + json" where
  "validateExtensionListInput v = checked
     [(\<not> isClosedEmptyObject v, ''extension.list input must be an empty object'')] v"

definition validateExtensionIdentityInput :: "json \<Rightarrow> string \<Rightarrow> string + json" where
  "validateExtensionIdentityInput v operation = checked
     [(not_closed v [''extensionId''] [], operation @ '' input must be a closed object''),
      (\<not> boundedString (fld v ''extensionId'') 1 64 \<or> \<not> matches extension_id (fld v ''extensionId''), ''invalid extensionId'')] v"

definition validateExtensionGetInput :: "json \<Rightarrow> string + json" where
  "validateExtensionGetInput v = validateExtensionIdentityInput v ''extension.get''"

definition validateExtensionEnableInput :: "json \<Rightarrow> string + json" where
  "validateExtensionEnableInput v = validateExtensionIdentityInput v ''extension.enable''"

definition validateExtensionDisableInput :: "json \<Rightarrow> string + json" where
  "validateExtensionDisableInput v = validateExtensionIdentityInput v ''extension.disable''"

definition CONNECTOR_ID_PATTERN :: "string \<Rightarrow> bool" where
  "CONNECTOR_ID_PATTERN = ID_PATTERN"

definition connector_id :: "json \<Rightarrow> bool" where
  "connector_id x \<longleftrightarrow> boundedString x 1 128 \<and> matches CONNECTOR_ID_PATTERN x"

definition validateConnectorListBase :: "json \<Rightarrow> string \<Rightarrow> string list option \<Rightarrow> string + json" where
  "validateConnectorListBase v operation statuses = checked
     [(not_closed v [] (if statuses = None then [''connectorId''] else [''connectorId'', ''accountId'', ''status'', ''limit'']),
        operation @ '' input must be a closed object''),
      (bad_option v ''connectorId'' connector_id, ''invalid connectorId''),
      (bad_option v ''accountId'' connector_id, ''invalid accountId''),
      (bad_option v ''status'' (\<lambda>x. case statuses of None \<Rightarrow> False | Some ss \<Rightarrow> matches (\<lambda>s. s \<in> set ss) x), ''invalid '' @ operation @ '' status''),
      (bad_option v ''limit'' (\<lambda>x. boundedInteger x 1 1000), ''limit must be 1..1000'')] v"

definition validateConnectorAccountListInput :: "json \<Rightarrow> string + json" where
  "validateConnectorAccountListInput v = validateConnectorListBase v ''connector.account.list'' None"

definition validateConnectorIngressListInput :: "json \<Rightarrow> string + json" where
  "validateConnectorIngressListInput v = validateConnectorListBase v ''connector.ingress.list''
     (Some [''RECEIVED'', ''CLAIMED'', ''ADOPTED'', ''IGNORED'', ''DEAD''])"

definition validateConnectorDeliveryListInput :: "json \<Rightarrow> string + json" where
  "validateConnectorDeliveryListInput v = validateConnectorListBase v ''connector.delivery.list''
     (Some [''PENDING'', ''DELIVERING'', ''DELIVERED'', ''SUPPRESSED'', ''UNCERTAIN'', ''DEAD''])"

definition validateConnectorDeadLetterListInput :: "json \<Rightarrow> string + json" where
  "validateConnectorDeadLetterListInput v = validateConnectorListBase v ''connector.deadLetter.list''
     (Some [''OPEN'', ''RESOLVED''])"

definition validateConnectorIdentityInput :: "json \<Rightarrow> string \<Rightarrow> string + json" where
  "validateConnectorIdentityInput v operation = checked
     [(not_closed v [''connectorId''] [], operation @ '' input must be a closed object''),
      (\<not> connector_id (fld v ''connectorId''), ''invalid connectorId'')] v"

definition validateConnectorStatusInput :: "json \<Rightarrow> string + json" where
  "validateConnectorStatusInput v = validateConnectorIdentityInput v ''connector.status''"

definition validateConnectorDoctorInput :: "json \<Rightarrow> string + json" where
  "validateConnectorDoctorInput v = validateConnectorIdentityInput v ''connector.doctor''"

definition validateDiagnosticsPingInput :: "json \<Rightarrow> string + json" where
  "validateDiagnosticsPingInput v = checked
     [(not_closed v [] [''echo''], ''diagnostics.ping input must be a closed object''),
      (bad_option v ''echo'' (\<lambda>x. boundedString x 0 256), ''diagnostics.ping echo must be at most 256 characters'')] v"

section \<open>Frames of the host\<close>

definition REJECT_CODES :: "string list" where
  "REJECT_CODES = [''INVALID_HANDSHAKE'', ''PROTOCOL_MISMATCH'', ''AUTH_FAILED'', ''RESYNC_REQUIRED'']"

definition RESULT_ERROR_CODES :: "string list" where
  "RESULT_ERROR_CODES = [''INVALID_FRAME'', ''OPERATION_NOT_FOUND'', ''INVALID_INPUT'', ''IDEMPOTENCY_CONFLICT'', ''INTERNAL_ERROR'',
     ''NOT_FOUND'', ''ACCESS_DENIED'', ''CONFLICT'', ''INVALID_STATE'']"

definition validateAcceptedFrame :: "json \<Rightarrow> string + json" where
  "validateAcceptedFrame v = checked
     [(not_closed v [''type'', ''protocol'', ''connectionId'', ''server'', ''capabilities'', ''snapshot'', ''cursor'', ''resyncRequired''] [],
        ''accepted frame must be a closed object''),
      (\<not> (fld v ''type'' = JStr ''accepted'') \<or> \<not> boundedInteger (fld v ''protocol'') 1 65535
        \<or> \<not> boundedString (fld v ''connectionId'') 1 128 \<or> \<not> boundedInteger (fld v ''cursor'') 0 max_safe_integer
        \<or> \<not> is_boolean (fld v ''resyncRequired''),
        ''invalid accepted frame''),
      (not_closed (fld v ''server'') [''product'', ''version'', ''profile'', ''instanceId''] []
        \<or> \<not> (fld (fld v ''server'') ''product'' = JStr ''OpenRill'')
        \<or> \<not> boundedString (fld (fld v ''server'') ''version'') 1 64
        \<or> \<not> boundedString (fld (fld v ''server'') ''profile'') 1 64
        \<or> \<not> boundedString (fld (fld v ''server'') ''instanceId'') 1 128,
        ''invalid accepted server identity''),
      (not_closed (fld v ''capabilities'') [''operations'', ''notices''] []
        \<or> json_items (fld (fld v ''capabilities'') ''operations'') = None
        \<or> json_items (fld (fld v ''capabilities'') ''notices'') = None,
        ''invalid accepted capabilities''),
      (list_ex (\<lambda>x. not_closed x [''name'', ''permission''] [] \<or> \<not> boundedString (fld x ''name'') 1 128
        \<or> \<not> boundedString (fld x ''permission'') 1 128) (the (json_items (fld (fld v ''capabilities'') ''operations''))),
        ''invalid operation capability''),
      (\<not> list_all (\<lambda>x. boundedString x 1 128) (the (json_items (fld (fld v ''capabilities'') ''notices''))),
        ''invalid notice capability'')] v"

definition validateRejectedFrame :: "json \<Rightarrow> string + json" where
  "validateRejectedFrame v = checked
     [(not_closed v [''type'', ''code'', ''message'', ''retryable''] [], ''rejected frame must be a closed object''),
      (\<not> (fld v ''type'' = JStr ''rejected'') \<or> \<not> (js_string (fld v ''code'') \<in> set REJECT_CODES)
        \<or> \<not> boundedString (fld v ''message'') 1 512 \<or> \<not> is_boolean (fld v ''retryable''),
        ''invalid rejected frame'')] v"

definition validateResultFrame :: "json \<Rightarrow> string + json" where
  "validateResultFrame v = checked
     [(not_closed v [''type'', ''callId'', ''ok''] [''output'', ''error'', ''replayed''], ''result frame must be a closed object''),
      (\<not> (fld v ''type'' = JStr ''result'') \<or> \<not> boundedString (fld v ''callId'') 1 128
        \<or> \<not> is_boolean (fld v ''ok'') \<or> bad_option v ''replayed'' (\<lambda>x. is_boolean x),
        ''invalid result frame''),
      (fld v ''ok'' = JBool True \<and> fld v ''error'' \<noteq> JUndef, ''successful result cannot contain error''),
      (fld v ''ok'' = JBool False \<and> (not_closed (fld v ''error'') [''code'', ''message'', ''retryable''] []
        \<or> \<not> (js_string (fld (fld v ''error'') ''code'') \<in> set RESULT_ERROR_CODES)
        \<or> \<not> boundedString (fld (fld v ''error'') ''message'') 1 512
        \<or> \<not> is_boolean (fld (fld v ''error'') ''retryable'') \<or> fld v ''output'' \<noteq> JUndef),
        ''invalid result error'')] v"

definition validateNoticeFrame :: "json \<Rightarrow> string + json" where
  "validateNoticeFrame v = checked
     [(not_closed v [''type'', ''topic'', ''sequence'', ''emittedAt'', ''data''] [], ''notice frame must be a closed object''),
      (\<not> (fld v ''type'' = JStr ''notice'') \<or> \<not> boundedString (fld v ''topic'') 1 128
        \<or> \<not> boundedInteger (fld v ''sequence'') 1 max_safe_integer \<or> \<not> boundedString (fld v ''emittedAt'') 20 64,
        ''invalid notice frame'')] v"

definition validateServerFrame :: "json \<Rightarrow> string + json" where
  "validateServerFrame v =
     (if \<not> isRecord v \<or> \<not> is_string (fld v ''type'') then Inl ''server frame must be an object with a type''
      else if fld v ''type'' = JStr ''accepted'' then validateAcceptedFrame v
      else if fld v ''type'' = JStr ''rejected'' then validateRejectedFrame v
      else if fld v ''type'' = JStr ''result'' then validateResultFrame v
      else if fld v ''type'' = JStr ''notice'' then validateNoticeFrame v
      else Inl ''unknown server frame type'')"

section \<open>Conversations\<close>

definition LEDGER_ID_PATTERN :: "string \<Rightarrow> bool" where
  "LEDGER_ID_PATTERN s \<longleftrightarrow> 1 \<le> length s \<and> length s \<le> 128 \<and> list_all (\<lambda>c. alnum c \<or> c \<in> set ''._:-'') s"

definition validWorkspaceId :: "json \<Rightarrow> bool" where
  "validWorkspaceId v = matches WORKSPACE_ID_PATTERN v"

definition validLedgerId :: "json \<Rightarrow> bool" where
  "validLedgerId v = matches LEDGER_ID_PATTERN v"

definition validateConversationCreateInput :: "json \<Rightarrow> string + json" where
  "validateConversationCreateInput v = checked
     [(not_closed v [''workspaceId''] [''modelProfile'', ''title''], ''conversation.create input must be a closed object''),
      (\<not> validWorkspaceId (fld v ''workspaceId''), ''invalid workspaceId''),
      (bad_option v ''modelProfile'' (\<lambda>x. boundedString x 1 64), ''invalid modelProfile''),
      (bad_option v ''title'' (\<lambda>x. boundedString x 1 256), ''invalid title'')] v"

definition validateConversationListInput :: "json \<Rightarrow> string + json" where
  "validateConversationListInput v = checked
     [(not_closed v [''workspaceId''] [''limit''], ''conversation.list input must be a closed object''),
      (\<not> validWorkspaceId (fld v ''workspaceId''), ''invalid workspaceId''),
      (bad_option v ''limit'' (\<lambda>x. boundedInteger x 1 100), ''invalid limit'')] v"

definition validateConversationGetInput :: "json \<Rightarrow> string + json" where
  "validateConversationGetInput v = checked
     [(not_closed v [''workspaceId'', ''conversationId''] [], ''conversation.get input must be a closed object''),
      (\<not> validWorkspaceId (fld v ''workspaceId'') \<or> \<not> validLedgerId (fld v ''conversationId''), ''invalid conversation identity'')] v"

definition validateConversationSendInput :: "json \<Rightarrow> string + json" where
  "validateConversationSendInput v = checked
     [(not_closed v [''workspaceId'', ''conversationId'', ''submissionKey'', ''text''] [], ''conversation.send input must be a closed object''),
      (\<not> validWorkspaceId (fld v ''workspaceId'') \<or> \<not> validLedgerId (fld v ''conversationId'')
        \<or> \<not> validLedgerId (fld v ''submissionKey''),
        ''invalid conversation send identity''),
      (\<not> boundedString (fld v ''text'') 1 65536, ''message text must be 1..65536 characters'')] v"

definition validateConversationCancelInput :: "json \<Rightarrow> string + json" where
  "validateConversationCancelInput v = checked
     [(not_closed v [''workspaceId'', ''conversationId'', ''runId''] [], ''conversation.cancel input must be a closed object''),
      (\<not> validWorkspaceId (fld v ''workspaceId'') \<or> \<not> validLedgerId (fld v ''conversationId'')
        \<or> \<not> validLedgerId (fld v ''runId''),
        ''invalid conversation cancel identity'')] v"

definition validateConversationExecuteInput :: "json \<Rightarrow> string + json" where
  "validateConversationExecuteInput v = checked
     [(not_closed v [''workspaceId'', ''text''] [''conversationId'', ''modelProfile'', ''title'', ''submissionKey'', ''timeoutMs''],
        ''conversation.execute input must be a closed object''),
      (\<not> validWorkspaceId (fld v ''workspaceId'') \<or> \<not> boundedString (fld v ''text'') 1 65536,
        ''invalid conversation execute input''),
      (bad_option v ''conversationId'' (\<lambda>x. validLedgerId x), ''invalid conversationId''),
      (bad_option v ''modelProfile'' (\<lambda>x. boundedString x 1 64), ''invalid modelProfile''),
      (bad_option v ''title'' (\<lambda>x. boundedString x 1 256), ''invalid title''),
      (bad_option v ''submissionKey'' (\<lambda>x. validLedgerId x), ''invalid submissionKey''),
      (bad_option v ''timeoutMs'' (\<lambda>x. boundedInteger x 1000 900000), ''invalid timeoutMs''),
      (fld v ''conversationId'' \<noteq> JUndef \<and> (fld v ''title'' \<noteq> JUndef \<or> fld v ''modelProfile'' \<noteq> JUndef),
        ''existing conversation execution cannot replace title or modelProfile'')] v"

section \<open>Automations\<close>

definition validAutomationSchedule :: "json \<Rightarrow> bool" where
  "validAutomationSchedule v \<longleftrightarrow>
     (if \<not> isRecord v \<or> \<not> is_string (fld v ''kind'') then False
      else if fld v ''kind'' = JStr ''at'' then hasExactKeys v [''kind'', ''at''] [] \<and> boundedString (fld v ''at'') 20 64
      else if fld v ''kind'' = JStr ''interval'' then hasExactKeys v [''kind'', ''everyMs'', ''anchorMs''] []
        \<and> boundedInteger (fld v ''everyMs'') 1 max_safe_integer \<and> boundedInteger (fld v ''anchorMs'') 0 max_safe_integer
      else if fld v ''kind'' = JStr ''cron'' then hasExactKeys v [''kind'', ''expression''] [] \<and> boundedString (fld v ''expression'') 9 128
      else False)"

definition validAutomationConversationTemplate :: "json \<Rightarrow> bool" where
  "validAutomationConversationTemplate v \<longleftrightarrow>
     isRecord v \<and> hasExactKeys v [''workspaceId'', ''prompt''] [''modelProfile'', ''title'']
     \<and> validWorkspaceId (fld v ''workspaceId'') \<and> boundedString (fld v ''prompt'') 1 65536
     \<and> (fld v ''modelProfile'' = JUndef \<or> boundedString (fld v ''modelProfile'') 1 64)
     \<and> (fld v ''title'' = JUndef \<or> boundedString (fld v ''title'') 1 256)"

definition validAutomationCatchUp :: "json \<Rightarrow> bool" where
  "validAutomationCatchUp v \<longleftrightarrow>
     (if \<not> isRecord v \<or> \<not> is_string (fld v ''kind'') then False
      else if fld v ''kind'' = JStr ''SKIP'' \<or> fld v ''kind'' = JStr ''RUN_ONCE'' then hasExactKeys v [''kind''] []
      else fld v ''kind'' = JStr ''BOUNDED'' \<and> hasExactKeys v [''kind'', ''limit''] [] \<and> boundedInteger (fld v ''limit'') 1 100)"

definition validAutomationFailurePolicy :: "json \<Rightarrow> bool" where
  "validAutomationFailurePolicy v \<longleftrightarrow>
     isRecord v \<and> hasExactKeys v [''backoffMs'', ''maxConsecutiveFailures'', ''autoDisable''] []
     \<and> boundedInteger (fld v ''backoffMs'') 0 2592000000 \<and> boundedInteger (fld v ''maxConsecutiveFailures'') 1 100
     \<and> is_boolean (fld v ''autoDisable'')"

definition validAutomationPatchField :: "string \<Rightarrow> json \<Rightarrow> bool" where
  "validAutomationPatchField key v \<longleftrightarrow>
     (if key = ''name'' then boundedString v 1 128
      else if key = ''enabled'' then is_boolean v
      else if key = ''schedule'' then validAutomationSchedule v
      else if key = ''timezone'' then boundedString v 1 128
      else if key = ''conversationTemplate'' then validAutomationConversationTemplate v
      else if key = ''catchUpPolicy'' then validAutomationCatchUp v
      else if key = ''failurePolicy'' then validAutomationFailurePolicy v
      else False)"

definition validateAutomationCreateInput :: "json \<Rightarrow> string + json" where
  "validateAutomationCreateInput v = checked
     [(not_closed v [''name'', ''enabled'', ''schedule'', ''timezone'', ''conversationTemplate'', ''catchUpPolicy'', ''failurePolicy''] [],
        ''automation.create input must be a closed object''),
      (\<not> boundedString (fld v ''name'') 1 128 \<or> \<not> is_boolean (fld v ''enabled'')
        \<or> \<not> validAutomationSchedule (fld v ''schedule'') \<or> \<not> boundedString (fld v ''timezone'') 1 128
        \<or> \<not> validAutomationConversationTemplate (fld v ''conversationTemplate'')
        \<or> \<not> validAutomationCatchUp (fld v ''catchUpPolicy'')
        \<or> \<not> validAutomationFailurePolicy (fld v ''failurePolicy''),
        ''invalid automation.create input'')] v"

definition validateAutomationListInput :: "json \<Rightarrow> string + json" where
  "validateAutomationListInput v = checked
     [(not_closed v [] [''includeDisabled'', ''limit''], ''automation.list input must be a closed object''),
      (bad_option v ''includeDisabled'' (\<lambda>x. is_boolean x), ''invalid includeDisabled''),
      (bad_option v ''limit'' (\<lambda>x. boundedInteger x 1 1000), ''invalid automation list limit'')] v"

definition validateAutomationGetInput :: "json \<Rightarrow> string + json" where
  "validateAutomationGetInput v = checked
     [(not_closed v [''jobId''] [] \<or> \<not> validLedgerId (fld v ''jobId''), ''invalid automation job identity'')] v"

definition validateAutomationUpdateInput :: "json \<Rightarrow> string + json" where
  "validateAutomationUpdateInput v = checked
     [(not_closed v [''jobId'', ''expectedRevision'', ''patch''] [], ''automation.update input must be a closed object''),
      (\<not> validLedgerId (fld v ''jobId'') \<or> \<not> boundedInteger (fld v ''expectedRevision'') 1 max_safe_integer
        \<or> \<not> isRecord (fld v ''patch''),
        ''invalid automation.update identity''),
      (object_keys (fld v ''patch'') = []
        \<or> list_ex (\<lambda>k. \<not> validAutomationPatchField k (fld (fld v ''patch'') k)) (object_keys (fld v ''patch'')),
        ''invalid automation.update patch'')] v"

definition validateAutomationRunNowInput :: "json \<Rightarrow> string + json" where
  "validateAutomationRunNowInput v = checked
     [(not_closed v [''jobId'', ''requestKey''] [] \<or> \<not> validLedgerId (fld v ''jobId'')
        \<or> \<not> validLedgerId (fld v ''requestKey''),
        ''invalid automation.run_now input'')] v"

definition validateAutomationHistoryInput :: "json \<Rightarrow> string + json" where
  "validateAutomationHistoryInput v = checked
     [(not_closed v [''jobId''] [''limit''] \<or> \<not> validLedgerId (fld v ''jobId''), ''invalid automation.history input''),
      (bad_option v ''limit'' (\<lambda>x. boundedInteger x 1 1000), ''invalid automation history limit'')] v"

section \<open>Approvals, delegations, artifacts\<close>

definition APPROVAL_STATUSES :: "string list" where
  "APPROVAL_STATUSES = [''PENDING'', ''APPROVED'', ''DENIED'', ''EXPIRED'', ''CONSUMED'', ''CANCELLED'']"

definition APPROVAL_DECISIONS :: "string list" where
  "APPROVAL_DECISIONS = [''allow_once'', ''allow_for_conversation'', ''deny'']"

definition validateApprovalListInput :: "json \<Rightarrow> string + json" where
  "validateApprovalListInput v = checked
     [(not_closed v [] [''status''], ''approval.list input must be a closed object''),
      (bad_option v ''status'' (\<lambda>x. js_string x \<in> set APPROVAL_STATUSES), ''invalid approval status'')] v"

definition validateApprovalGetInput :: "json \<Rightarrow> string + json" where
  "validateApprovalGetInput v = checked
     [(not_closed v [''requestId''] [] \<or> \<not> validLedgerId (fld v ''requestId''), ''invalid approval request identity'')] v"

definition validateApprovalResolveInput :: "json \<Rightarrow> string + json" where
  "validateApprovalResolveInput v = checked
     [(not_closed v [''requestId'', ''expectedVersion'', ''decision''] [], ''approval.resolve input must be a closed object''),
      (\<not> validLedgerId (fld v ''requestId'') \<or> \<not> boundedInteger (fld v ''expectedVersion'') 1 max_safe_integer
        \<or> \<not> (js_string (fld v ''decision'') \<in> set APPROVAL_DECISIONS),
        ''invalid approval resolve input'')] v"

definition validateApprovalCancelInput :: "json \<Rightarrow> string + json" where
  "validateApprovalCancelInput v = checked
     [(not_closed v [''requestId''] [] \<or> \<not> validLedgerId (fld v ''requestId''), ''invalid approval cancel input'')] v"

definition DELEGATION_STATUSES :: "string list" where
  "DELEGATION_STATUSES = [''CREATED'', ''RUNNING'', ''WAITING'', ''COMPLETED'', ''FAILED'', ''CANCELLED'', ''TIMED_OUT'']"

definition validateDelegationListInput :: "json \<Rightarrow> string + json" where
  "validateDelegationListInput v = checked
     [(not_closed v [] [''rootRunId'', ''parentRunId'', ''status'', ''limit''], ''delegation.list input must be a closed object''),
      (bad_option v ''rootRunId'' (\<lambda>x. validLedgerId x), ''invalid delegation root Run identity''),
      (bad_option v ''parentRunId'' (\<lambda>x. validLedgerId x), ''invalid delegation parent Run identity''),
      (fld v ''rootRunId'' \<noteq> JUndef \<and> fld v ''parentRunId'' \<noteq> JUndef,
        ''delegation.list accepts rootRunId or parentRunId, not both''),
      (bad_option v ''status'' (\<lambda>x. js_string x \<in> set DELEGATION_STATUSES), ''invalid delegation status''),
      (bad_option v ''limit'' (\<lambda>x. boundedInteger x 1 200), ''delegation limit must be 1..200'')] v"

definition validateDelegationGetInput :: "json \<Rightarrow> string + json" where
  "validateDelegationGetInput v = checked
     [(not_closed v [''delegationId''] [] \<or> \<not> validLedgerId (fld v ''delegationId''), ''invalid delegation identity'')] v"

definition validateDelegationCancelInput :: "json \<Rightarrow> string + json" where
  "validateDelegationCancelInput v = checked
     [(not_closed v [''delegationId''] [] \<or> \<not> validLedgerId (fld v ''delegationId''), ''invalid delegation cancel input'')] v"

definition validateUiSnapshotInput :: "json \<Rightarrow> string + json" where
  "validateUiSnapshotInput v = checked
     [(\<not> isClosedEmptyObject v, ''ui.snapshot input must be an empty object'')] v"

definition validateWorkspaceListInput :: "json \<Rightarrow> string + json" where
  "validateWorkspaceListInput v = checked
     [(\<not> isClosedEmptyObject v, ''workspace.list input must be an empty object'')] v"

definition validateArtifactListInput :: "json \<Rightarrow> string + json" where
  "validateArtifactListInput v = checked
     [(not_closed v [] [''runId'', ''limit''], ''artifact.list input must be a closed object''),
      (bad_option v ''runId'' (\<lambda>x. validLedgerId x), ''invalid artifact run identity''),
      (bad_option v ''limit'' (\<lambda>x. boundedInteger x 1 100), ''artifact limit must be 1..100'')] v"

definition validateArtifactGetInput :: "json \<Rightarrow> string + json" where
  "validateArtifactGetInput v = checked
     [(not_closed v [''artifactId''] [] \<or> \<not> validLedgerId (fld v ''artifactId''), ''invalid artifact identity'')] v"

section \<open>Tasks\<close>

definition TASK_STATUSES :: "string list" where
  "TASK_STATUSES = [''QUEUED'', ''RUNNING'', ''SUCCEEDED'', ''FAILED'', ''TIMED_OUT'', ''CANCELLED'', ''LOST'']"

definition TASK_RUNTIMES :: "string list" where
  "TASK_RUNTIMES = [''CONVERSATION'', ''DELEGATION'', ''AUTOMATION'']"

definition validateTaskListInput :: "json \<Rightarrow> string + json" where
  "validateTaskListInput v = checked
     [(not_closed v [''workspaceId''] [''status'', ''runtime'', ''limit''], ''task.list input must be a closed object''),
      (\<not> validWorkspaceId (fld v ''workspaceId''), ''invalid task workspace identity''),
      (bad_option v ''status'' (\<lambda>x. js_string x \<in> set TASK_STATUSES), ''invalid task status''),
      (bad_option v ''runtime'' (\<lambda>x. js_string x \<in> set TASK_RUNTIMES), ''invalid task runtime''),
      (bad_option v ''limit'' (\<lambda>x. boundedInteger x 1 200), ''task limit must be 1..200'')] v"

definition validateTaskGetInput :: "json \<Rightarrow> string + json" where
  "validateTaskGetInput v = checked
     [(not_closed v [''workspaceId'', ''taskId''] [] \<or> \<not> validWorkspaceId (fld v ''workspaceId'')
        \<or> \<not> validLedgerId (fld v ''taskId''),
        ''invalid task identity'')] v"

definition validateTaskCancelInput :: "json \<Rightarrow> string + json" where
  "validateTaskCancelInput v = checked
     [(not_closed v [''workspaceId'', ''taskId''] [] \<or> \<not> validWorkspaceId (fld v ''workspaceId'')
        \<or> \<not> validLedgerId (fld v ''taskId''),
        ''invalid task cancel input'')] v"

definition validateTaskAuditInput :: "json \<Rightarrow> string + json" where
  "validateTaskAuditInput v = checked
     [(not_closed v [''workspaceId''] [''limit''] \<or> \<not> validWorkspaceId (fld v ''workspaceId''), ''invalid task audit input''),
      (bad_option v ''limit'' (\<lambda>x. boundedInteger x 1 200), ''task audit limit must be 1..200'')] v"

definition validateTaskReconcileInput :: "json \<Rightarrow> string + json" where
  "validateTaskReconcileInput v = checked
     [(not_closed v [''workspaceId'', ''mode''] [''limit''] \<or> \<not> validWorkspaceId (fld v ''workspaceId'')
        \<or> fld v ''mode'' \<noteq> JStr ''PREVIEW'' \<and> fld v ''mode'' \<noteq> JStr ''APPLY'',
        ''invalid task reconcile input''),
      (bad_option v ''limit'' (\<lambda>x. boundedInteger x 1 200), ''task reconcile limit must be 1..200'')] v"

definition validateTaskRetentionPreviewInput :: "json \<Rightarrow> string + json" where
  "validateTaskRetentionPreviewInput v = checked
     [(not_closed v [''workspaceId''] [''limit''] \<or> \<not> validWorkspaceId (fld v ''workspaceId''),
        ''invalid task retention preview input''),
      (bad_option v ''limit'' (\<lambda>x. boundedInteger x 1 200), ''task retention preview limit must be 1..200'')] v"

section \<open>Task flows\<close>

definition TASK_FLOW_STATUSES :: "string list" where
  "TASK_FLOW_STATUSES = [''QUEUED'', ''RUNNING'', ''WAITING'', ''BLOCKED'', ''SUCCEEDED'', ''FAILED'', ''CANCELLED'', ''LOST'']"

definition validateTaskFlowListInput :: "json \<Rightarrow> string + json" where
  "validateTaskFlowListInput v = checked
     [(not_closed v [''workspaceId'', ''ownerKey''] [''status'', ''controllerId'', ''limit''], ''taskFlow.list input must be a closed object''),
      (\<not> validWorkspaceId (fld v ''workspaceId''), ''invalid task flow workspace identity''),
      (\<not> validLedgerId (fld v ''ownerKey''), ''invalid task flow owner identity''),
      (bad_option v ''status'' (\<lambda>x. js_string x \<in> set TASK_FLOW_STATUSES), ''invalid task flow status''),
      (bad_option v ''controllerId'' (\<lambda>x. matches (\<lambda>s. 1 \<le> length (js_trim s) \<and> length (js_trim s) \<le> 128) x),
        ''invalid task flow controller identity''),
      (bad_option v ''limit'' (\<lambda>x. boundedInteger x 1 200), ''task flow limit must be 1..200'')] v"

definition validateTaskFlowGetInput :: "json \<Rightarrow> string + json" where
  "validateTaskFlowGetInput v = checked
     [(not_closed v [''workspaceId'', ''ownerKey'', ''flowId''] [] \<or> \<not> validWorkspaceId (fld v ''workspaceId'')
        \<or> \<not> validLedgerId (fld v ''ownerKey'') \<or> \<not> validLedgerId (fld v ''flowId''),
        ''invalid task flow identity'')] v"

definition validateTaskFlowCancelInput :: "json \<Rightarrow> string + json" where
  "validateTaskFlowCancelInput v = checked
     [(not_closed v [''workspaceId'', ''ownerKey'', ''flowId'', ''expectedRevision''] []
        \<or> \<not> validWorkspaceId (fld v ''workspaceId'') \<or> \<not> validLedgerId (fld v ''ownerKey'')
        \<or> \<not> validLedgerId (fld v ''flowId'') \<or> \<not> boundedInteger (fld v ''expectedRevision'') 1 max_safe_integer,
        ''invalid task flow cancel input'')] v"

definition validateTaskFlowAuditInput :: "json \<Rightarrow> string + json" where
  "validateTaskFlowAuditInput v = checked
     [(not_closed v [''workspaceId'', ''ownerKey''] [''limit''] \<or> \<not> validWorkspaceId (fld v ''workspaceId'')
        \<or> \<not> validLedgerId (fld v ''ownerKey''),
        ''invalid task flow audit input''),
      (bad_option v ''limit'' (\<lambda>x. boundedInteger x 1 200), ''task flow audit limit must be 1..200'')] v"

definition validateTaskFlowReconcileInput :: "json \<Rightarrow> string + json" where
  "validateTaskFlowReconcileInput v = checked
     [(not_closed v [''workspaceId'', ''ownerKey'', ''mode''] [''limit''] \<or> \<not> validWorkspaceId (fld v ''workspaceId'')
        \<or> \<not> validLedgerId (fld v ''ownerKey'')
        \<or> fld v ''mode'' \<noteq> JStr ''PREVIEW'' \<and> fld v ''mode'' \<noteq> JStr ''APPLY'',
        ''invalid task flow reconcile input''),
      (bad_option v ''limit'' (\<lambda>x. boundedInteger x 1 200), ''task flow reconcile limit must be 1..200'')] v"

definition validateTaskFlowRetentionPreviewInput :: "json \<Rightarrow> string + json" where
  "validateTaskFlowRetentionPreviewInput v = checked
     [(not_closed v [''workspaceId'', ''ownerKey''] [''limit''] \<or> \<not> validWorkspaceId (fld v ''workspaceId'')
        \<or> \<not> validLedgerId (fld v ''ownerKey''),
        ''invalid task flow retention preview input''),
      (bad_option v ''limit'' (\<lambda>x. boundedInteger x 1 200), ''task flow retention preview limit must be 1..200'')] v"

definition validTaskFlowControllerIdentity :: "json \<Rightarrow> bool" where
  "validTaskFlowControllerIdentity v \<longleftrightarrow> validWorkspaceId (fld v ''workspaceId'') \<and> validLedgerId (fld v ''ownerKey'')
     \<and> boundedString (fld v ''controllerId'') 1 128"

definition validateTaskFlowCreateInput :: "json \<Rightarrow> string + json" where
  "validateTaskFlowCreateInput v = checked
     [(not_closed v [''workspaceId'', ''ownerKey'', ''controllerId'', ''requestKey'', ''goal''] [''currentStep'', ''state'', ''status''],
        ''taskFlow.create input must be a closed object''),
      (\<not> validTaskFlowControllerIdentity v \<or> \<not> boundedString (fld v ''requestKey'') 1 128
        \<or> \<not> boundedString (fld v ''goal'') 1 65536,
        ''invalid task flow create identity''),
      (bad_option v ''currentStep'' (\<lambda>x. x = JNull \<or> boundedString x 1 256), ''invalid task flow current step''),
      (bad_option v ''state'' (\<lambda>x. boundedJson x 262144), ''invalid task flow state''),
      (bad_option v ''status'' (\<lambda>x. x = JStr ''QUEUED'' \<or> x = JStr ''RUNNING''), ''invalid initial task flow status'')] v"

definition validateTaskFlowRunInput :: "json \<Rightarrow> string + json" where
  "validateTaskFlowRunInput v = checked
     [(not_closed v [''workspaceId'', ''ownerKey'', ''controllerId'', ''flowId'', ''expectedRevision'', ''requestKey'', ''stepKey'', ''text''] [],
        ''taskFlow.run input must be a closed object''),
      (\<not> validTaskFlowControllerIdentity v \<or> \<not> validLedgerId (fld v ''flowId'')
        \<or> \<not> boundedInteger (fld v ''expectedRevision'') 1 max_safe_integer,
        ''invalid task flow run identity''),
      (\<not> boundedString (fld v ''requestKey'') 1 128 \<or> \<not> boundedString (fld v ''stepKey'') 1 256
        \<or> \<not> boundedString (fld v ''text'') 1 65536,
        ''invalid task flow child input'')] v"

definition validateTaskFlowWaitInput :: "json \<Rightarrow> string + json" where
  "validateTaskFlowWaitInput v = checked
     [(not_closed v [''workspaceId'', ''ownerKey'', ''controllerId'', ''flowId'', ''expectedRevision''] [''currentStep'', ''state'', ''wait''],
        ''taskFlow.wait input must be a closed object''),
      (\<not> validTaskFlowControllerIdentity v \<or> \<not> validLedgerId (fld v ''flowId'')
        \<or> \<not> boundedInteger (fld v ''expectedRevision'') 1 max_safe_integer,
        ''invalid task flow wait identity''),
      (bad_option v ''currentStep'' (\<lambda>x. x = JNull \<or> boundedString x 1 256), ''invalid task flow current step''),
      (bad_option v ''state'' (\<lambda>x. boundedJson x 262144), ''invalid task flow state''),
      (bad_option v ''wait'' (\<lambda>x. boundedJson x 262144), ''invalid task flow wait state'')] v"

definition validateTaskFlowResumeInput :: "json \<Rightarrow> string + json" where
  "validateTaskFlowResumeInput v = checked
     [(not_closed v [''workspaceId'', ''ownerKey'', ''controllerId'', ''flowId'', ''expectedRevision''] [''status'', ''currentStep'', ''state''],
        ''taskFlow.resume input must be a closed object''),
      (\<not> validTaskFlowControllerIdentity v \<or> \<not> validLedgerId (fld v ''flowId'')
        \<or> \<not> boundedInteger (fld v ''expectedRevision'') 1 max_safe_integer,
        ''invalid task flow resume identity''),
      (bad_option v ''status'' (\<lambda>x. x = JStr ''QUEUED'' \<or> x = JStr ''RUNNING''), ''invalid resumed task flow status''),
      (bad_option v ''currentStep'' (\<lambda>x. x = JNull \<or> boundedString x 1 256), ''invalid task flow current step''),
      (bad_option v ''state'' (\<lambda>x. boundedJson x 262144), ''invalid task flow state'')] v"

definition validateTaskFlowFinishInput :: "json \<Rightarrow> string + json" where
  "validateTaskFlowFinishInput v = checked
     [(not_closed v [''workspaceId'', ''ownerKey'', ''controllerId'', ''flowId'', ''expectedRevision''] [''state''],
        ''taskFlow.finish input must be a closed object''),
      (\<not> validTaskFlowControllerIdentity v \<or> \<not> validLedgerId (fld v ''flowId'')
        \<or> \<not> boundedInteger (fld v ''expectedRevision'') 1 max_safe_integer,
        ''invalid task flow finish identity''),
      (bad_option v ''state'' (\<lambda>x. boundedJson x 262144), ''invalid task flow state'')] v"

definition validateTaskFlowFailInput :: "json \<Rightarrow> string + json" where
  "validateTaskFlowFailInput v = checked
     [(not_closed v [''workspaceId'', ''ownerKey'', ''controllerId'', ''flowId'', ''expectedRevision''] [''state'', ''blockedSummary''],
        ''taskFlow.fail input must be a closed object''),
      (\<not> validTaskFlowControllerIdentity v \<or> \<not> validLedgerId (fld v ''flowId'')
        \<or> \<not> boundedInteger (fld v ''expectedRevision'') 1 max_safe_integer,
        ''invalid task flow fail identity''),
      (bad_option v ''state'' (\<lambda>x. boundedJson x 262144), ''invalid task flow state''),
      (bad_option v ''blockedSummary'' (\<lambda>x. x = JNull \<or> boundedString x 1 4096), ''invalid task flow failure summary'')] v"

section \<open>Goal executions\<close>

definition validGoalExecutionOwner :: "json \<Rightarrow> bool" where
  "validGoalExecutionOwner v \<longleftrightarrow> boundedString (fld v ''workspaceId'') 1 64 \<and> validLedgerId (fld v ''conversationId'') \<and> validLedgerId (fld v ''goalId'')"

definition validateGoalExecutionStartInput :: "json \<Rightarrow> string + json" where
  "validateGoalExecutionStartInput v = checked
     [(not_closed v [''workspaceId'', ''conversationId'', ''goalId'', ''expectedGoalRevision''] [],
        ''goalExecution.start input must be a closed object''),
      (\<not> validGoalExecutionOwner v \<or> \<not> boundedInteger (fld v ''expectedGoalRevision'') 1 max_safe_integer,
        ''invalid goal execution start input'')] v"

definition validateGoalExecutionGetInput :: "json \<Rightarrow> string + json" where
  "validateGoalExecutionGetInput v = checked
     [(not_closed v [''workspaceId'', ''conversationId'', ''goalId''] [], ''goalExecution.get input must be a closed object''),
      (\<not> validGoalExecutionOwner v, ''invalid goal execution get input'')] v"

definition validateGoalExecutionResumeInput :: "json \<Rightarrow> string + json" where
  "validateGoalExecutionResumeInput v = checked
     [(not_closed v [''workspaceId'', ''conversationId'', ''goalId'', ''expectedExecutionRevision'', ''expectedFlowRevision''] [],
        ''goalExecution.resume input must be a closed object''),
      (\<not> validGoalExecutionOwner v \<or> \<not> boundedInteger (fld v ''expectedExecutionRevision'') 1 max_safe_integer
        \<or> \<not> boundedInteger (fld v ''expectedFlowRevision'') 1 max_safe_integer,
        ''invalid goal execution resume input'')] v"

definition validateGoalExecutionCancelInput :: "json \<Rightarrow> string + json" where
  "validateGoalExecutionCancelInput v = checked
     [(not_closed v [''workspaceId'', ''conversationId'', ''goalId'', ''expectedExecutionRevision'', ''expectedFlowRevision''] [],
        ''goalExecution.cancel input must be a closed object''),
      (\<not> validGoalExecutionOwner v \<or> \<not> boundedInteger (fld v ''expectedExecutionRevision'') 1 max_safe_integer
        \<or> \<not> boundedInteger (fld v ''expectedFlowRevision'') 1 max_safe_integer,
        ''invalid goal execution cancel input'')] v"

definition validateGoalExecutionRevisePlanInput :: "json \<Rightarrow> string + json" where
  "validateGoalExecutionRevisePlanInput v = checked
     ([(not_closed v [''workspaceId'', ''conversationId'', ''goalId'', ''expectedGoalRevision'', ''expectedExecutionRevision'', ''expectedPlanRevision'', ''steps''] [],
        ''goalExecution.revisePlan input must be a closed object''),
      (\<not> validGoalExecutionOwner v \<or> \<not> boundedInteger (fld v ''expectedGoalRevision'') 1 max_safe_integer
        \<or> \<not> boundedInteger (fld v ''expectedExecutionRevision'') 1 max_safe_integer
        \<or> \<not> boundedInteger (fld v ''expectedPlanRevision'') 1 max_safe_integer
        \<or> (case json_items (fld v ''steps'') of None \<Rightarrow> True | Some xs \<Rightarrow> length xs < 1
        \<or> 200 < length xs),
        ''invalid goal execution Plan revision input'')]
     @ flat_map (\<lambda>x. [(not_closed x [''stepId'', ''ordinal'', ''title'', ''required'', ''retryMode'', ''maxAttempts''] [],
           ''goalExecution revised Plan Step must be a closed object''),
         (\<not> validLedgerId (fld x ''stepId'') \<or> \<not> boundedInteger (fld x ''ordinal'') 1 200 \<or> \<not> boundedString (fld x ''title'') 1 1000
           \<or> \<not> is_boolean (fld x ''required'') \<or> fld x ''retryMode'' \<noteq> JStr ''MANUAL'' \<or> \<not> boundedInteger (fld x ''maxAttempts'') 1 20,
           ''invalid goal execution revised Plan Step'')]) (case json_items (fld v ''steps'') of None \<Rightarrow> [] | Some xs \<Rightarrow> xs)) v"

definition validateGoalExecutionAdoptPlanRevisionInput :: "json \<Rightarrow> string + json" where
  "validateGoalExecutionAdoptPlanRevisionInput v = checked
     [(not_closed v [''workspaceId'', ''conversationId'', ''goalId'', ''targetPlanRevision'', ''expectedExecutionRevision'', ''expectedFlowRevision''] [],
        ''goalExecution.adoptPlanRevision input must be a closed object''),
      (\<not> validGoalExecutionOwner v \<or> \<not> boundedInteger (fld v ''targetPlanRevision'') 1 max_safe_integer
        \<or> \<not> boundedInteger (fld v ''expectedExecutionRevision'') 1 max_safe_integer
        \<or> \<not> boundedInteger (fld v ''expectedFlowRevision'') 1 max_safe_integer,
        ''invalid goal execution Plan adoption input'')] v"

definition validateGoalExecutionRetryInput :: "json \<Rightarrow> string + json" where
  "validateGoalExecutionRetryInput v = checked
     [(not_closed v [''workspaceId'', ''conversationId'', ''goalId'', ''blockerId'', ''expectedBlockerRevision'', ''expectedExecutionRevision'', ''expectedFlowRevision'', ''requestedBy'', ''reason''] [],
        ''goalExecution.retry input must be a closed object''),
      (\<not> validGoalExecutionOwner v \<or> \<not> validLedgerId (fld v ''blockerId'')
        \<or> \<not> boundedInteger (fld v ''expectedBlockerRevision'') 1 max_safe_integer
        \<or> \<not> boundedInteger (fld v ''expectedExecutionRevision'') 1 max_safe_integer
        \<or> \<not> boundedInteger (fld v ''expectedFlowRevision'') 1 max_safe_integer
        \<or> \<not> boundedString (fld v ''requestedBy'') 1 256 \<or> \<not> boundedString (fld v ''reason'') 1 2000,
        ''invalid goal execution retry input'')] v"

definition validateGoalExecutionResolveBlockerInput :: "json \<Rightarrow> string + json" where
  "validateGoalExecutionResolveBlockerInput v = checked
     [(not_closed v [''workspaceId'', ''conversationId'', ''goalId'', ''blockerId'', ''expectedBlockerRevision'', ''expectedExecutionRevision'', ''expectedFlowRevision'', ''resolvedBy'', ''resolution''] [],
        ''goalExecution.resolveBlocker input must be a closed object''),
      (\<not> validGoalExecutionOwner v \<or> \<not> validLedgerId (fld v ''blockerId'')
        \<or> \<not> boundedInteger (fld v ''expectedBlockerRevision'') 1 max_safe_integer
        \<or> \<not> boundedInteger (fld v ''expectedExecutionRevision'') 1 max_safe_integer
        \<or> \<not> boundedInteger (fld v ''expectedFlowRevision'') 1 max_safe_integer
        \<or> \<not> boundedString (fld v ''resolvedBy'') 1 256 \<or> \<not> boundedString (fld v ''resolution'') 1 2000,
        ''invalid goal execution blocker resolution input'')] v"

section \<open>Maintenance\<close>

definition validMaintenanceWorkspaceId :: "json \<Rightarrow> bool" where
  "validMaintenanceWorkspaceId v \<longleftrightarrow> boundedString v 1 64 \<and> matches WORKSPACE_ID_PATTERN v"

definition validMaintenanceCursor :: "json \<Rightarrow> bool" where
  "validMaintenanceCursor v \<longleftrightarrow> boundedString v 1 2048 \<and> matches (\<lambda>s. s \<noteq> [] \<and> list_all (\<lambda>c. alnum c \<or> c \<in> set ''_-'') s) v"

definition MAINTENANCE_RETENTION_KINDS :: "string list" where
  "MAINTENANCE_RETENTION_KINDS = [''TASK'', ''TASK_FLOW'', ''CONNECTOR_DELIVERY'']"

definition validateMaintenanceRetentionPreviewInput :: "json \<Rightarrow> string + json" where
  "validateMaintenanceRetentionPreviewInput v = checked
     [(not_closed v [''workspaceId''] [''limit'', ''cursor''], ''maintenance.retention.preview input must be a closed object''),
      (\<not> validMaintenanceWorkspaceId (fld v ''workspaceId''), ''invalid maintenance workspaceId''),
      (bad_option v ''limit'' (\<lambda>x. boundedInteger x 1 1000), ''maintenance retention limit must be 1..1000''),
      (bad_option v ''cursor'' (\<lambda>x. validMaintenanceCursor x), ''invalid maintenance retention cursor'')] v"

definition validateMaintenanceRetentionPruneInput :: "json \<Rightarrow> string + json" where
  "validateMaintenanceRetentionPruneInput v = checked
     [(not_closed v [''workspaceId''] [''limit'', ''cursor''], ''maintenance.retention.prune input must be a closed object''),
      (\<not> validMaintenanceWorkspaceId (fld v ''workspaceId''), ''invalid maintenance workspaceId''),
      (bad_option v ''limit'' (\<lambda>x. boundedInteger x 1 1000), ''maintenance retention limit must be 1..1000''),
      (bad_option v ''cursor'' (\<lambda>x. validMaintenanceCursor x), ''invalid maintenance retention cursor'')] v"

definition validateMaintenanceRetentionTombstoneListInput :: "json \<Rightarrow> string + json" where
  "validateMaintenanceRetentionTombstoneListInput v = checked
     [(not_closed v [''workspaceId''] [''entityKind'', ''limit''], ''maintenance.retention.tombstones input must be a closed object''),
      (\<not> validMaintenanceWorkspaceId (fld v ''workspaceId''), ''invalid maintenance workspaceId''),
      (bad_option v ''entityKind'' (\<lambda>x. matches (\<lambda>s. s \<in> set MAINTENANCE_RETENTION_KINDS) x),
        ''invalid maintenance retention entityKind''),
      (bad_option v ''limit'' (\<lambda>x. boundedInteger x 1 1000), ''maintenance tombstone limit must be 1..1000'')] v"

end
