(* ===== verification/Protocol_Session.thy ===== *)
theory Protocol_Session
  imports Protocol_Validation Calendar
begin

text \<open>
  The protocol server of the host: \<open>notice-window.ts\<close>, \<open>upgrade-policy.ts\<close> and the connection of
  \<open>protocol-server.ts\<close> (under \<open>services/agent-host/src/transport\<close>). Texts of a connection are handled one
  after the other, as the chain of promises does; the operations behind \<open>registry.invoke\<close>, \<open>JSON.parse\<close>,
  the URL parser and the fill of the socket's buffer are parameters. The identity of the host in an
  accepted frame is left out. The replies are what is handed to the peer: once it is closing,
  \<open>sendJson\<close> and \<open>close\<close> of \<open>websocket-codec.ts\<close> drop them.
\<close>

section \<open>Notices\<close>

record notice =
  nt_topic :: string
  nt_sequence :: int
  nt_emittedAt :: string
  nt_data :: json

record notice_window =
  nw_capacity :: int
  nw_sequence :: int
  nw_retained :: "notice list"

definition notice_window_new :: "int \<Rightarrow> err + notice_window" where
  "notice_window_new capacity =
     res_bind (require (1 \<le> capacity \<and> capacity \<le> 4096) Js_Error) (\<lambda>_.
     Inr \<lparr>nw_capacity = capacity, nw_sequence = 0, nw_retained = []\<rparr>)"

fun shift_to :: "int \<Rightarrow> 'a list \<Rightarrow> 'a list" where
  "shift_to n [] = []"
| "shift_to n (x # xs) = (if int (length (x # xs)) > n then shift_to n xs else x # xs)"

definition publish :: "string \<Rightarrow> json \<Rightarrow> int \<Rightarrow> notice_window \<Rightarrow> notice \<times> notice_window" where
  "publish topic data now w =
     (let n = \<lparr>nt_topic = topic, nt_sequence = nw_sequence w + 1, nt_emittedAt = to_iso_string now, nt_data = data\<rparr> in
      (n, w\<lparr>nw_sequence := nw_sequence w + 1, nw_retained := shift_to (nw_capacity w) (nw_retained w @ [n])\<rparr>))"

record replay =
  rp_resyncRequired :: bool
  rp_cursor :: int
  rp_notices :: "notice list"

definition replayAfter :: "int option \<Rightarrow> notice_window \<Rightarrow> replay" where
  "replayAfter cursor w = (case cursor of
     None \<Rightarrow> \<lparr>rp_resyncRequired = False, rp_cursor = nw_sequence w, rp_notices = []\<rparr>
   | Some c \<Rightarrow>
       let oldest = (case nw_retained w of [] \<Rightarrow> nw_sequence w + 1 | n # ns \<Rightarrow> nt_sequence n) in
       if c > nw_sequence w \<or> c < oldest - 1
       then \<lparr>rp_resyncRequired = True, rp_cursor = nw_sequence w, rp_notices = []\<rparr>
       else \<lparr>rp_resyncRequired = False, rp_cursor = c, rp_notices = filter (\<lambda>n. c < nt_sequence n) (nw_retained w)\<rparr>)"

section \<open>Upgrades\<close>

datatype upgrade_code = UP_OK | PATH_DENIED | REMOTE_DENIED | PROXY_DENIED | HOST_DENIED | ORIGIN_DENIED
  | UPGRADE_INVALID | SUBPROTOCOL_REQUIRED

record upgrade_decision =
  ud_accepted :: bool
  ud_statusCode :: int
  ud_code :: upgrade_code

record upgrade_request =
  rq_url :: string
  rq_method :: string
  rq_remoteAddress :: "string option"
  rq_forwarded :: "string option"
  rq_xForwardedFor :: "string option"
  rq_xRealIp :: "string option"
  rq_host :: "string option"
  rq_origin :: "string option"
  rq_upgrade :: "string option"
  rq_connection :: "string option"
  rq_version :: "string option"
  rq_protocol :: "string option"

text \<open>What \<open>new URL(origin)\<close> gives: protocol, host name and port, or nothing where it throws.\<close>

record url =
  ur_protocol :: string
  ur_hostname :: string
  ur_port :: string

definition isLoopbackAddress :: "string option \<Rightarrow> bool" where
  "isLoopbackAddress value = (case value of
     None \<Rightarrow> False
   | Some v \<Rightarrow> v \<noteq> [] \<and> js_lower v \<in> {''127.0.0.1'', ''::1'', ''::ffff:127.0.0.1''})"

definition index_of :: "char \<Rightarrow> string \<Rightarrow> int" where
  "index_of c s = (if c \<in> set s then int (length (takeWhile (\<lambda>x. x \<noteq> c) s)) else - 1)"

definition normalizeHost :: "string option \<Rightarrow> string" where
  "normalizeHost value = (case value of
     None \<Rightarrow> []
   | Some v \<Rightarrow>
       if v = [] then []
       else if starts_with v ''['' then js_lower (take (nat (index_of (CHR '']'') v + 1)) v)
       else js_lower (hd (js_split (CHR '':'') v)))"

definition isLocalHostName :: "string \<Rightarrow> bool" where
  "isLocalHostName v \<longleftrightarrow> v = ''localhost'' \<or> v = ''127.0.0.1'' \<or> v = ''[::1]''"

definition hasForwardedHeaders :: "upgrade_request \<Rightarrow> bool" where
  "hasForwardedHeaders r \<longleftrightarrow> rq_forwarded r \<noteq> None \<or> rq_xForwardedFor r \<noteq> None \<or> rq_xRealIp r \<noteq> None"

definition connectionRequestsUpgrade :: "upgrade_request \<Rightarrow> bool" where
  "connectionRequestsUpgrade r = (case rq_connection r of
     None \<Rightarrow> False | Some v \<Rightarrow> list_ex (\<lambda>item. js_lower (js_trim item) = ''upgrade'') (js_split (CHR '','') v))"

definition hasRequiredSubprotocol :: "upgrade_request \<Rightarrow> bool" where
  "hasRequiredSubprotocol r = (case rq_protocol r of
     None \<Rightarrow> False | Some v \<Rightarrow> ''openrill.local.v1'' \<in> set (map js_trim (js_split (CHR '','') v)))"

definition originAllowed :: "(string \<Rightarrow> url option) \<Rightarrow> string option \<Rightarrow> int \<Rightarrow> bool" where
  "originAllowed parse_url origin port = (case origin of
     None \<Rightarrow> True
   | Some v \<Rightarrow>
       if v = [] then True
       else (case parse_url v of
           None \<Rightarrow> False
         | Some u \<Rightarrow>
             let hostname = js_lower (ur_hostname u) in
             if hostname \<notin> {''localhost'', ''127.0.0.1'', ''[::1]'', ''::1''}
               \<or> (ur_protocol u \<noteq> ''http:'' \<and> ur_protocol u \<noteq> ''https:'') then False
             else (if ur_port u = [] then (if ur_protocol u = ''https:'' then 443 else 80)
               else int (digits_value (ur_port u))) = port))"

definition evaluateProtocolUpgrade :: "(string \<Rightarrow> url option) \<Rightarrow> upgrade_request \<Rightarrow> int \<Rightarrow> upgrade_decision" where
  "evaluateProtocolUpgrade parse_url r localPort =
     (let deny = (\<lambda>status code. \<lparr>ud_accepted = False, ud_statusCode = status, ud_code = code\<rparr>) in
      if rq_url r \<noteq> ''/protocol'' then deny 404 PATH_DENIED
      else if \<not> isLoopbackAddress (rq_remoteAddress r) then deny 403 REMOTE_DENIED
      else if hasForwardedHeaders r then deny 403 PROXY_DENIED
      else if \<not> isLocalHostName (normalizeHost (rq_host r)) then deny 403 HOST_DENIED
      else if \<not> originAllowed parse_url (rq_origin r) localPort then deny 403 ORIGIN_DENIED
      else if rq_method r \<noteq> ''GET'' \<or> map_option js_lower (rq_upgrade r) \<noteq> Some ''websocket''
        \<or> \<not> connectionRequestsUpgrade r \<or> rq_version r \<noteq> Some ''13'' then deny 400 UPGRADE_INVALID
      else if \<not> hasRequiredSubprotocol r then deny 400 SUBPROTOCOL_REQUIRED
      else \<lparr>ud_accepted = True, ud_statusCode = 101, ud_code = UP_OK\<rparr>)"

section \<open>Connections\<close>

definition tokenMatches :: "string \<Rightarrow> string \<Rightarrow> bool" where
  "tokenMatches actual expected \<longleftrightarrow> actual = expected"

record result_frame =
  rf_callId :: string
  rf_ok :: bool
  rf_output :: json
  rf_error :: json
  rf_replayed :: bool

datatype reply =
    Rejected string string
  | Accepted int int bool
  | Notice notice
  | Result result_frame
  | Closing nat string

record cached_result =
  ca_operation :: string
  ca_inputCanonical :: string
  ca_result :: result_frame

record session =
  se_authenticated :: bool
  se_preauthFrames :: nat
  se_preauthBytes :: nat
  se_cache :: "(string \<times> cached_result) list"

definition new_session :: session where
  "new_session = \<lparr>se_authenticated = False, se_preauthFrames = 0, se_preauthBytes = 0, se_cache = []\<rparr>"

text \<open>What a connection uses of the host: \<open>'w\<close> is the state the operations work on.\<close>

record 'w host_env =
  he_parse :: "string \<Rightarrow> json option"
  he_profileToken :: string
  he_invoke :: "string \<Rightarrow> string \<Rightarrow> json \<Rightarrow> 'w \<Rightarrow> result_frame \<times> 'w"

text \<open>\<open>send\<close>: the fill of the socket's buffer is read before each frame.\<close>

definition MAX_OUTBOUND_BUFFER_BYTES :: nat where
  "MAX_OUTBOUND_BUFFER_BYTES = 256 * 1024"

fun sends :: "(nat \<Rightarrow> nat) \<Rightarrow> nat \<Rightarrow> reply list \<Rightarrow> reply list" where
  "sends buffered i [] = []"
| "sends buffered i (f # fs) =
     (if buffered i > MAX_OUTBOUND_BUFFER_BYTES then Closing 1013 ''slow consumer'' else f) # sends buffered (Suc i) fs"

definition failHandshake :: "(nat \<Rightarrow> nat) \<Rightarrow> string \<Rightarrow> string \<Rightarrow> nat \<Rightarrow> reply list" where
  "failHandshake buffered code message closeCode =
     sends buffered 0 [Rejected code message] @ [Closing closeCode (js_lower code)]"

definition handshake_timeout :: "session \<Rightarrow> reply list" where
  "handshake_timeout se = (if se_authenticated se then []
     else [Rejected ''INVALID_HANDSHAKE'' ''handshake timeout'', Closing 1008 ''handshake timeout''])"

definition invalidResult :: "string \<Rightarrow> string \<Rightarrow> string \<Rightarrow> result_frame" where
  "invalidResult callId code message = \<lparr>rf_callId = callId, rf_ok = False, rf_output = JUndef,
     rf_error = JObj [(''code'', JStr code), (''message'', JStr message), (''retryable'', JBool False)], rf_replayed = False\<rparr>"

definition MAX_IDEMPOTENCY_ENTRIES :: nat where
  "MAX_IDEMPOTENCY_ENTRIES = 128"

definition str_value :: "json \<Rightarrow> string" where
  "str_value v = (case v of JStr s \<Rightarrow> s | _ \<Rightarrow> [])"

definition handleCall :: "'w host_env \<Rightarrow> (nat \<Rightarrow> nat) \<Rightarrow> json \<Rightarrow> session \<times> 'w \<Rightarrow> reply list \<times> session \<times> 'w" where
  "handleCall h buffered frame = (\<lambda>(se, w).
     let callId = str_value (fld frame ''callId''); key = str_value (fld frame ''idempotencyKey'');
         operation = str_value (fld frame ''operation''); inputCanonical = canonical (fld frame ''input'') in
     case map_of (se_cache se) key of
       Some existing \<Rightarrow>
         if ca_operation existing \<noteq> operation \<or> ca_inputCanonical existing \<noteq> inputCanonical
         then (sends buffered 0 [Result (invalidResult callId ''IDEMPOTENCY_CONFLICT''
             ''idempotency key was already used with different input'')], se, w)
         else (sends buffered 0 [Result ((ca_result existing)\<lparr>rf_callId := callId, rf_replayed := True\<rparr>)], se, w)
     | None \<Rightarrow>
         let (result, w') = he_invoke h callId operation (fld frame ''input'') w;
             entry = \<lparr>ca_operation = operation, ca_inputCanonical = inputCanonical, ca_result = result\<rparr> in
         (sends buffered 0 [Result result],
          se\<lparr>se_cache := shift_to (int MAX_IDEMPOTENCY_ENTRIES) (se_cache se @ [(key, entry)])\<rparr>, w'))"

definition cursor_value :: "json \<Rightarrow> int option" where
  "cursor_value v = (case v of JNum n \<Rightarrow> Some n | _ \<Rightarrow> None)"

definition open_session :: "'w host_env \<Rightarrow> (nat \<Rightarrow> nat) \<Rightarrow> notice_window \<Rightarrow> string \<Rightarrow> session \<Rightarrow> reply list \<times> session" where
  "open_session h buffered notices text se =
     (case parseJsonFrame (he_parse h) text of
        Inl e \<Rightarrow> (failHandshake buffered ''INVALID_HANDSHAKE'' e 1008, se)
      | Inr value \<Rightarrow>
          (case validateOpenFrame value of
             Inl e \<Rightarrow> (failHandshake buffered ''INVALID_HANDSHAKE'' e 1008, se)
           | Inr opened \<Rightarrow>
               (case negotiateProtocol (num_value (fld opened ''minProtocol'')) (num_value (fld opened ''maxProtocol'')) 1 1 of
                  None \<Rightarrow> (failHandshake buffered ''PROTOCOL_MISMATCH'' ''no compatible protocol version'' 1002, se)
                | Some protocol \<Rightarrow>
                    if \<not> tokenMatches (str_value (fld (fld opened ''credential'') ''token'')) (he_profileToken h)
                    then (failHandshake buffered ''AUTH_FAILED'' ''profile authentication failed'' 1008, se)
                    else
                      let replay = replayAfter (cursor_value (fld opened ''cursor'')) notices in
                      (sends buffered 0 (Accepted protocol (rp_cursor replay) (rp_resyncRequired replay)
                         # (if rp_resyncRequired replay then [] else map Notice (rp_notices replay))),
                       se\<lparr>se_authenticated := True\<rparr>))))"

definition MAX_PREAUTH_PAYLOAD_BYTES :: nat where
  "MAX_PREAUTH_PAYLOAD_BYTES = 16 * 1024"

definition MAX_AUTHENTICATED_PAYLOAD_BYTES :: nat where
  "MAX_AUTHENTICATED_PAYLOAD_BYTES = 64 * 1024"

definition handleText ::
    "'w host_env \<Rightarrow> (nat \<Rightarrow> nat) \<Rightarrow> notice_window \<Rightarrow> string \<Rightarrow> nat \<Rightarrow> session \<times> 'w \<Rightarrow> reply list \<times> session \<times> 'w" where
  "handleText h buffered notices text bytes = (\<lambda>(se, w).
     if \<not> se_authenticated se then
       let se1 = se\<lparr>se_preauthFrames := se_preauthFrames se + 1, se_preauthBytes := se_preauthBytes se + bytes\<rparr> in
       if se_preauthFrames se1 > 1
       then (failHandshake buffered ''INVALID_HANDSHAKE'' ''only one pre-auth frame is allowed'' 1008, se1, w)
       else if se_preauthBytes se1 > MAX_PREAUTH_PAYLOAD_BYTES
       then (failHandshake buffered ''INVALID_HANDSHAKE'' ''pre-auth payload is too large'' 1009, se1, w)
       else (case open_session h buffered notices text se1 of (rs, se2) \<Rightarrow> (rs, se2, w))
     else if bytes > MAX_AUTHENTICATED_PAYLOAD_BYTES then ([Closing 1009 ''payload too large''], se, w)
     else
       (case parseJsonFrame (he_parse h) text of
          Inl e \<Rightarrow> (sends buffered 0 [Result (invalidResult ''unknown'' ''INVALID_FRAME'' e)], se, w)
        | Inr value \<Rightarrow>
            (case validateCallFrame value of
               Inl e \<Rightarrow> (sends buffered 0 [Result (invalidResult ''unknown'' ''INVALID_FRAME'' e)], se, w)
             | Inr call \<Rightarrow> handleCall h buffered call (se, w))))"

end
