(* ===== verification/Protocol_Properties.thy ===== *)
theory Protocol_Properties
  imports Protocol_Session
begin

text \<open>
  What the protocol server promises: the retained window answers a cursor as the full log of notices
  would, nothing runs before a connection has opened with the profile's token, a repeated key is
  replayed and never run again, and an accepted frame has the shape its type declares.
\<close>

section \<open>The notice window against the log\<close>

primrec publish_all :: "(string \<times> json \<times> int) list \<Rightarrow> notice_window \<Rightarrow> notice list \<times> notice_window" where
  "publish_all [] w = ([], w)"
| "publish_all (e # es) w =
     (let (n, w1) = publish (fst e) (fst (snd e)) (snd (snd e)) w; (ns, w2) = publish_all es w1 in (n # ns, w2))"

text \<open>The abstract server keeps every notice.\<close>

definition log_replay :: "int \<Rightarrow> int option \<Rightarrow> notice list \<Rightarrow> replay" where
  "log_replay capacity cursor log = (case cursor of
     None \<Rightarrow> \<lparr>rp_resyncRequired = False, rp_cursor = int (length log), rp_notices = []\<rparr>
   | Some c \<Rightarrow>
       if c > int (length log) \<or> c < 0 \<or> c < int (length log) - capacity
       then \<lparr>rp_resyncRequired = True, rp_cursor = int (length log), rp_notices = []\<rparr>
       else \<lparr>rp_resyncRequired = False, rp_cursor = c, rp_notices = drop (nat c) log\<rparr>)"

lemma shift_to_drop: "shift_to n xs = drop (nat (int (length xs) - n)) xs"
proof (induction xs)
  case (Cons x xs)
  show ?case
  proof (cases "n < int (length (x # xs))")
    case True
    then have "nat (int (length (x # xs)) - n) = Suc (nat (int (length xs) - n))" by simp
    with True Cons show ?thesis by simp
  qed simp
qed simp

definition window_of :: "int \<Rightarrow> notice list \<Rightarrow> notice_window \<Rightarrow> bool" where
  "window_of capacity log w \<longleftrightarrow> nw_capacity w = capacity \<and> nw_sequence w = int (length log)
     \<and> nw_retained w = drop (nat (int (length log) - capacity)) log
     \<and> map nt_sequence log = map (\<lambda>i. int i + 1) [0..<length log]"

lemma drop_snoc_drop:
  assumes "0 \<le> c"
  shows "drop (nat (int (length (drop (nat (int (length xs) - c)) xs @ [x])) - c)) (drop (nat (int (length xs) - c)) xs @ [x])
       = drop (nat (int (length (xs @ [x])) - c)) (xs @ [x])"
proof -
  let ?k = "nat (int (length xs) - c)"
  have k: "?k \<le> length xs" using assms by simp
  then have "drop ?k xs @ [x] = drop ?k (xs @ [x])" by simp
  moreover have "nat (int (length (drop ?k (xs @ [x]))) - c) + ?k = nat (int (length (xs @ [x])) - c)"
    using assms k by (auto simp: of_nat_diff)
  ultimately show ?thesis by (simp only: drop_drop)
qed

lemma publish_window_of:
  assumes "window_of capacity log w" "0 \<le> capacity" "publish t d now w = (n, w')"
  shows "window_of capacity (log @ [n]) w'"
  using assms drop_snoc_drop [of capacity log n]
  by (auto simp: window_of_def publish_def Let_def shift_to_drop)

lemma publish_all_window_of:
  "\<lbrakk>window_of capacity log w; 0 \<le> capacity; publish_all es w = (ns, w')\<rbrakk> \<Longrightarrow> window_of capacity (log @ ns) w'"
proof (induction es arbitrary: log w ns w')
  case (Cons e es)
  obtain n w1 where p: "publish (fst e) (fst (snd e)) (snd (snd e)) w = (n, w1)" by fastforce
  obtain ms w2 where q: "publish_all es w1 = (ms, w2)" by fastforce
  have "window_of capacity ((log @ [n]) @ ms) w2"
    using Cons.IH [OF publish_window_of [OF Cons.prems(1,2) p] Cons.prems(2) q] .
  then show ?case using Cons.prems(3) p q by auto
qed simp

lemma sequence_nth: "\<lbrakk>map nt_sequence log = map (\<lambda>i. int i + 1) [0..<length log]; i < length log\<rbrakk> \<Longrightarrow> nt_sequence (log ! i) = int i + 1"
  by (drule arg_cong [where f = "\<lambda>xs. xs ! i"]) simp

lemma filter_sequences:
  "\<lbrakk>\<And>i. i < length log \<Longrightarrow> nt_sequence (log ! i) = b + int i\<rbrakk> \<Longrightarrow>
     filter (\<lambda>n. c < nt_sequence n) log = drop (nat (c - b + 1)) log"
proof (induction log arbitrary: b)
  case (Cons n log)
  have n: "nt_sequence n = b" using Cons.prems [of 0] by simp
  have "filter (\<lambda>n. c < nt_sequence n) log = drop (nat (c - (b + 1) + 1)) log"
    by (rule Cons.IH) (use Cons.prems in \<open>force simp: nth_Cons'\<close>)
  moreover have "nat (c - b + 1) = Suc (nat (c - b))" if "\<not> c < b" using that by simp
  ultimately show ?case using n by (cases "c < b") auto
qed simp

lemma window_replay:
  assumes "window_of capacity log w" "1 \<le> capacity"
  shows "replayAfter cursor w = log_replay capacity cursor log"
proof (cases cursor)
  case (Some c)
  define k where "k = nat (int (length log) - capacity)"
  have r: "nw_retained w = drop k log" and s: "nw_sequence w = int (length log)"
    and q: "map nt_sequence log = map (\<lambda>i. int i + 1) [0..<length log]"
    using assms(1) by (auto simp: window_of_def k_def)
  have old: "(case drop k log of [] \<Rightarrow> nw_sequence w + 1 | n # ns \<Rightarrow> nt_sequence n) = int k + 1"
  proof (cases "log = []")
    case False
    then have "k < length log" using assms(2) by (cases log) (auto simp: k_def)
    then have "drop k log = log ! k # drop (Suc k) log" "nt_sequence (log ! k) = int k + 1"
      using sequence_nth [OF q] by (simp_all add: Cons_nth_drop_Suc)
    then show ?thesis by simp
  qed (use assms(2) s in \<open>simp add: k_def\<close>)
  have f: "filter (\<lambda>n. c < nt_sequence n) (drop k log) = drop (nat (c - int k)) (drop k log)"
    using filter_sequences [of "drop k log" "int k + 1" c] sequence_nth [OF q] by fastforce
  have g: "c < 0 \<or> c < int (length log) - capacity \<longleftrightarrow> c < int k" by (auto simp: k_def)
  have "nat (c - int k) + k = nat c" if "\<not> c < int k" using that by simp
  with f have f': "\<not> c < int k \<Longrightarrow> filter (\<lambda>n. c < nt_sequence n) (drop k log) = drop (nat c) log" by simp
  show ?thesis
    using Some s f' by (simp add: replayAfter_def log_replay_def r old g Let_def)
qed (use assms in \<open>simp add: replayAfter_def log_replay_def window_of_def\<close>)

text \<open>C36. The notice window refines the full log of notices: whatever was published, the window answers
  every cursor as a server that keeps all notices would. The cursor must be resynchronised exactly when it
  lies in the future, is negative or is older than the last \<open>capacity\<close> notices; in every other case the
  replay is exactly the notices after the cursor, in order and without a gap.\<close>

theorem notice_replay_refines_log:
  assumes "notice_window_new capacity = Inr w0" "publish_all events w0 = (log, w)"
  shows "replayAfter cursor w = log_replay capacity cursor log \<and> length log = length events"
proof -
  have c: "1 \<le> capacity" and w0: "window_of capacity [] w0"
    using assms(1) by (auto simp: notice_window_new_def window_of_def split: if_splits)
  have "replayAfter cursor w = log_replay capacity cursor log"
    using window_replay [OF publish_all_window_of [OF w0 _ assms(2)]] c by simp
  moreover have "length (fst (publish_all es v)) = length es" for es v
    by (induction es arbitrary: v) (auto simp: Let_def case_prod_beta)
  ultimately show ?thesis using assms(2) by (metis fst_conv)
qed

theorem notice_replay_refines_log_witness:
  "\<exists>log w. publish_all [(''run.event'', JNull, 0), (''run.updated'', JNull, 5), (''run.event'', JNull, 9)]
       \<lparr>nw_capacity = 2, nw_sequence = 0, nw_retained = []\<rparr> = (log, w)
     \<and> replayAfter (Some 1) w = log_replay 2 (Some 1) log \<and> length log = 3"
proof -
  let ?w0 = "\<lparr>nw_capacity = 2, nw_sequence = 0, nw_retained = []\<rparr>"
  let ?es = "[(''run.event'', JNull, 0), (''run.updated'', JNull, 5), (''run.event'', JNull, 9)]"
  have w0: "notice_window_new 2 = Inr ?w0" by (simp add: notice_window_new_def)
  obtain log w where p: "publish_all ?es ?w0 = (log, w)" by fastforce
  show ?thesis using notice_replay_refines_log [OF w0 p, of "Some 1"] p by auto
qed

section \<open>A connection\<close>

text \<open>One text of a connection with what the host has at that moment: the fill of the buffer and the notices.\<close>

record arrival =
  ar_buffered :: "nat \<Rightarrow> nat"
  ar_notices :: notice_window
  ar_text :: string
  ar_bytes :: nat

primrec handleTexts :: "'w host_env \<Rightarrow> arrival list \<Rightarrow> session \<times> 'w \<Rightarrow> reply list \<times> session \<times> 'w" where
  "handleTexts h [] st = ([], st)"
| "handleTexts h (a # as) st =
     (let (rs, st1) = handleText h (ar_buffered a) (ar_notices a) (ar_text a) (ar_bytes a) st;
          (rs', st2) = handleTexts h as st1 in (rs @ rs', st2))"

definition opens_with_token :: "'w host_env \<Rightarrow> arrival \<Rightarrow> bool" where
  "opens_with_token h a = (case parseJsonFrame (he_parse h) (ar_text a) of
     Inl e \<Rightarrow> False
   | Inr v \<Rightarrow> ar_bytes a \<le> 16384 \<and> validateOpenFrame v = Inr v
       \<and> num_value (fld v ''minProtocol'') \<le> 1
       \<and> fld (fld v ''credential'') ''token'' = JStr (he_profileToken h))"

primrec is_refusal :: "reply \<Rightarrow> bool" where
  "is_refusal (Rejected c m) = True"
| "is_refusal (Accepted p c r) = False"
| "is_refusal (Notice n) = False"
| "is_refusal (Result r) = False"
| "is_refusal (Closing c r) = True"

lemma checked_ok: "checked cs v = Inr f \<longleftrightarrow> f = v \<and> list_all (\<lambda>c. \<not> fst c) cs"
  by (induction cs) (auto split: if_splits)

lemma failHandshake_refuses: "list_all is_refusal (failHandshake b c m k)"
  by (simp add: failHandshake_def)

lemma boundedInteger_num: "boundedInteger v lo hi \<Longrightarrow> \<exists>n. v = JNum n \<and> lo \<le> n \<and> n \<le> hi"
  by (cases v) (auto simp: boundedInteger_def)

lemma boundedString_str: "boundedString v lo hi \<Longrightarrow> \<exists>s. v = JStr s \<and> lo \<le> length s \<and> length s \<le> hi"
  by (cases v) (auto simp: boundedString_def)

lemma validated_open:
  "validateOpenFrame v = Inr f \<Longrightarrow> f = v \<and> 1 \<le> num_value (fld v ''minProtocol'')
     \<and> num_value (fld v ''minProtocol'') \<le> num_value (fld v ''maxProtocol'')
     \<and> (\<exists>t. fld (fld v ''credential'') ''token'' = JStr t)"
  unfolding validateOpenFrame_def checked_ok
  by (auto simp: num_value_def dest!: boundedInteger_num [of "fld v ''minProtocol''"] boundedString_str [of _ 24 512])

lemma negotiate_one: "\<lbrakk>1 \<le> lo; lo \<le> hi\<rbrakk> \<Longrightarrow> (negotiateProtocol lo hi 1 1 = None) = (1 < lo)"
  by (auto simp: negotiateProtocol_def Let_def min_def max_def)

lemma open_refused:
  assumes "\<not> opens_with_token h a" "ar_bytes a \<le> 16384" "\<not> se_authenticated se"
    "open_session h b ns (ar_text a) se = (rs, se')"
  shows "se' = se \<and> list_all is_refusal rs"
proof (cases "parseJsonFrame (he_parse h) (ar_text a)")
  case (Inr v)
  show ?thesis
  proof (cases "validateOpenFrame v")
    case (Inr f)
    note f = validated_open [OF Inr]
    then obtain t where t: "fld (fld v ''credential'') ''token'' = JStr t" by blast
    have "1 < num_value (fld v ''minProtocol'') \<or> t \<noteq> he_profileToken h"
      using assms(1,2) \<open>parseJsonFrame _ _ = _\<close> Inr f t by (auto simp: opens_with_token_def)
    then show ?thesis
      using assms(4) \<open>parseJsonFrame _ _ = _\<close> Inr f t negotiate_one [of "num_value (fld v ''minProtocol'')" "num_value (fld v ''maxProtocol'')"]
      by (auto simp: open_session_def failHandshake_refuses tokenMatches_def str_value_def split: option.splits)
  qed (use assms(4) Inr in \<open>auto simp: open_session_def failHandshake_refuses\<close>)
qed (use assms(4) in \<open>auto simp: open_session_def failHandshake_refuses\<close>)

definition shut_out :: "session \<Rightarrow> bool" where
  "shut_out se \<longleftrightarrow> \<not> se_authenticated se \<and> 1 \<le> se_preauthFrames se"

lemma shut_out_text:
  assumes "shut_out se" "handleText h b ns t k (se, w) = (rs, se', w')"
  shows "w' = w \<and> shut_out se' \<and> list_all is_refusal rs"
  using assms by (auto simp: handleText_def shut_out_def Let_def failHandshake_refuses)

lemma shut_out_texts:
  "\<lbrakk>shut_out se; handleTexts h as (se, w) = (rs, se', w')\<rbrakk> \<Longrightarrow> w' = w \<and> shut_out se' \<and> list_all is_refusal rs"
proof (induction as arbitrary: se w rs)
  case (Cons a as)
  obtain rs1 se1 w1 where h: "handleText h (ar_buffered a) (ar_notices a) (ar_text a) (ar_bytes a) (se, w) = (rs1, se1, w1)"
    by (metis prod_cases3)
  obtain rs2 se2 w2 where hs: "handleTexts h as (se1, w1) = (rs2, se2, w2)" by (metis prod_cases3)
  note s = shut_out_text [OF Cons.prems(1) h]
  show ?case using Cons.IH [of se1 w1 rs2] Cons.prems(2) h hs s by auto
qed simp

lemma first_text_refused:
  assumes "\<not> opens_with_token h a"
    "handleText h (ar_buffered a) (ar_notices a) (ar_text a) (ar_bytes a) (new_session, w) = (rs, se, w')"
  shows "w' = w \<and> shut_out se \<and> list_all is_refusal rs"
proof (cases "ar_bytes a \<le> 16384")
  case True
  let ?se = "new_session\<lparr>se_preauthFrames := 1, se_preauthBytes := ar_bytes a\<rparr>"
  obtain rs2 se2 where o: "open_session h (ar_buffered a) (ar_notices a) (ar_text a) ?se = (rs2, se2)" by fastforce
  have "\<not> se_authenticated ?se" by (simp add: new_session_def)
  with o show ?thesis
    using assms(2) True open_refused [OF assms(1) True _ o]
    by (auto simp: handleText_def new_session_def MAX_PREAUTH_PAYLOAD_BYTES_def shut_out_def)
qed (use assms(2) in \<open>auto simp: handleText_def new_session_def MAX_PREAUTH_PAYLOAD_BYTES_def shut_out_def Let_def failHandshake_refuses\<close>)

text \<open>C37. Nothing runs before a connection is authenticated: when the first text of a connection is not an
  open frame of at most 16 KiB that names protocol 1 and carries the profile's token, then whatever texts follow
  (a correct open frame included) no operation is invoked, the connection stays unauthenticated, and every
  reply is a rejection or a close: no notice, no snapshot and no result leaves the host.\<close>

theorem nothing_before_authentication:
  assumes "\<not> opens_with_token h first"
  shows "case handleTexts h (first # rest) (new_session, w) of
    (rs, se, w') \<Rightarrow> w' = w \<and> \<not> se_authenticated se \<and> list_all is_refusal rs"
proof -
  obtain rs1 se1 w1 where f: "handleText h (ar_buffered first) (ar_notices first) (ar_text first) (ar_bytes first) (new_session, w) = (rs1, se1, w1)"
    by (metis prod_cases3)
  obtain rs2 se2 w2 where r: "handleTexts h rest (se1, w1) = (rs2, se2, w2)" by (metis prod_cases3)
  note a = first_text_refused [OF assms f]
  then have "shut_out se1" by blast
  note b = shut_out_texts [OF this r]
  show ?thesis using a b f r by (simp add: shut_out_def)
qed

definition silent_host :: "nat host_env" where
  "silent_host = \<lparr>he_parse = (\<lambda>t. if t = ''{}'' then Some (JObj []) else None), he_profileToken = ''0123456789abcdef01234567'',
     he_invoke = (\<lambda>c m i n. (\<lparr>rf_callId = c, rf_ok = True, rf_output = i, rf_error = JUndef, rf_replayed = False\<rparr>, n + 1))\<rparr>"

definition arriving :: "string \<Rightarrow> arrival" where
  "arriving t = \<lparr>ar_buffered = (\<lambda>_. 0), ar_notices = \<lparr>nw_capacity = 128, nw_sequence = 0, nw_retained = []\<rparr>,
     ar_text = t, ar_bytes = length t\<rparr>"

theorem nothing_before_authentication_witness:
  "case handleTexts silent_host [arriving ''{}'', arriving ''call''] (new_session, 7) of
     (rs, se, w') \<Rightarrow> w' = 7 \<and> \<not> se_authenticated se \<and> list_all is_refusal rs"
proof (rule nothing_before_authentication)
  show "\<not> opens_with_token silent_host (arriving ''{}'')"
    by (simp add: opens_with_token_def silent_host_def arriving_def parseJsonFrame_def fld_def json_field_def)
qed

section \<open>Repeated calls\<close>

definition call_of :: "'w host_env \<Rightarrow> arrival \<Rightarrow> json option" where
  "call_of h a = (case parseJsonFrame (he_parse h) (ar_text a) of
     Inl e \<Rightarrow> None
   | Inr v \<Rightarrow> (case validateCallFrame v of Inl e \<Rightarrow> None | Inr f \<Rightarrow> if ar_bytes a \<le> 65536 then Some f else None))"

definition call_key :: "json \<Rightarrow> string" where
  "call_key f = str_value (fld f ''idempotencyKey'')"

definition same_call :: "json \<Rightarrow> json \<Rightarrow> bool" where
  "same_call f g \<longleftrightarrow> str_value (fld f ''operation'') = str_value (fld g ''operation'')
     \<and> canonical (fld f ''input'') = canonical (fld g ''input'')"

text \<open>The entry of a key lies at most \<open>m\<close> entries before the end of the cache.\<close>

definition cached_within :: "nat \<Rightarrow> string \<Rightarrow> cached_result \<Rightarrow> session \<Rightarrow> bool" where
  "cached_within m key e se \<longleftrightarrow> se_authenticated se
     \<and> (\<exists>older newer. se_cache se = older @ (key, e) # newer \<and> key \<notin> fst ` set older \<and> length newer \<le> m)"

lemma cached_lookup: "cached_within m key e se \<Longrightarrow> map_of (se_cache se) key = Some e"
  by (auto simp: cached_within_def map_add_def map_of_eq_None_iff [symmetric])

lemma cached_within_mono: "\<lbrakk>cached_within m key e se; m \<le> n\<rbrakk> \<Longrightarrow> cached_within n key e se"
  by (fastforce simp: cached_within_def)

lemma cached_withinI:
  "\<lbrakk>se_authenticated se; se_cache se = older @ (key, e) # newer; set older \<subseteq> set before; key \<notin> fst ` set before;
    length newer \<le> m\<rbrakk> \<Longrightarrow> cached_within m key e se"
  unfolding cached_within_def by blast

definition call_entry :: "json \<Rightarrow> result_frame \<Rightarrow> cached_result" where
  "call_entry f result = \<lparr>ca_operation = str_value (fld f ''operation''), ca_inputCanonical = canonical (fld f ''input''),
     ca_result = result\<rparr>"

lemma fresh_call:
  assumes "map_of (se_cache se) (call_key f) = None"
    "he_invoke h (str_value (fld f ''callId'')) (str_value (fld f ''operation'')) (fld f ''input'') w = (result, v)"
  shows "handleCall h b f (se, w) =
    (sends b 0 [Result result], se\<lparr>se_cache := shift_to 128 (se_cache se @ [(call_key f, call_entry f result)])\<rparr>, v)"
  using assms by (simp add: handleCall_def call_key_def call_entry_def Let_def MAX_IDEMPOTENCY_ENTRIES_def)

lemma authenticated_call:
  "\<lbrakk>call_of h a = Some f; se_authenticated se\<rbrakk> \<Longrightarrow>
     handleText h (ar_buffered a) (ar_notices a) (ar_text a) (ar_bytes a) (se, w) = handleCall h (ar_buffered a) f (se, w)"
  by (auto simp: handleText_def call_of_def MAX_AUTHENTICATED_PAYLOAD_BYTES_def split: sum.splits if_splits)

lemma authenticated_no_call:
  "\<lbrakk>call_of h a = None; se_authenticated se\<rbrakk> \<Longrightarrow>
     snd (handleText h (ar_buffered a) (ar_notices a) (ar_text a) (ar_bytes a) (se, w)) = (se, w)"
  by (auto simp: handleText_def call_of_def MAX_AUTHENTICATED_PAYLOAD_BYTES_def split: sum.splits if_splits)

lemma shift_keeps:
  assumes "length newer < n"
  shows "\<exists>older'. shift_to (int n) (older @ x # newer) = older' @ x # newer \<and> set older' \<subseteq> set older"
proof -
  let ?d = "nat (int (length (older @ x # newer)) - int n)"
  have "?d \<le> length older" using assms by simp
  then have "shift_to (int n) (older @ x # newer) = drop ?d older @ x # newer" by (simp add: shift_to_drop)
  then show ?thesis using set_drop_subset [of ?d older] by (intro exI [of _ "drop ?d older"]) simp
qed

lemma call_keeps_cached:
  assumes "cached_within m key e se" "m + 1 < 128" "handleCall h b f (se, w) = (rs, se', w')"
  shows "cached_within (m + 1) key e se'"
proof (cases "map_of (se_cache se) (call_key f)")
  case None
  obtain older newer where c: "se_cache se = older @ (key, e) # newer" "key \<notin> fst ` set older" "length newer \<le> m"
    using assms(1) by (auto simp: cached_within_def)
  obtain result v where "he_invoke h (str_value (fld f ''callId'')) (str_value (fld f ''operation'')) (fld f ''input'') w = (result, v)"
    by fastforce
  from fresh_call [OF None this, of b] obtain x
    where "se_cache se' = shift_to 128 (older @ (key, e) # (newer @ [x]))" "se_authenticated se'"
    using assms(1,3) c by (auto simp: cached_within_def)
  moreover have "length (newer @ [x]) < 128" using c assms(2) by simp
  from shift_keeps [OF this, of older "(key, e)"] obtain older' where
    "shift_to 128 (older @ (key, e) # (newer @ [x])) = older' @ (key, e) # (newer @ [x])" "set older' \<subseteq> set older" by auto
  ultimately show ?thesis using c by (intro cached_withinI [where newer = "newer @ [x]" and before = older]) auto
next
  case (Some c)
  then have "se' = se" using assms(3) by (auto simp: handleCall_def call_key_def Let_def split: if_splits)
  then show ?thesis using cached_within_mono [OF assms(1)] by simp
qed

lemma texts_keep_cached:
  "\<lbrakk>cached_within m key e se; m + length as < 128; handleTexts h as (se, w) = (rs, se', w')\<rbrakk> \<Longrightarrow>
     cached_within (m + length as) key e se'"
proof (induction as arbitrary: m se w rs se' w')
  case (Cons a as)
  obtain rs1 se1 w1 where h: "handleText h (ar_buffered a) (ar_notices a) (ar_text a) (ar_bytes a) (se, w) = (rs1, se1, w1)"
    by (metis prod_cases3)
  obtain rs2 se2 w2 where hs: "handleTexts h as (se1, w1) = (rs2, se2, w2)" by (metis prod_cases3)
  have a: "se_authenticated se" using Cons.prems(1) by (simp add: cached_within_def)
  have "cached_within (m + 1) key e se1"
  proof (cases "call_of h a")
    case None
    then have "se1 = se" using authenticated_no_call [OF None a, of w] h by simp
    then show ?thesis using cached_within_mono [OF Cons.prems(1)] by simp
  next
    case (Some f)
    then show ?thesis
      using call_keeps_cached [OF Cons.prems(1), of h "ar_buffered a" f w rs1 se1 w1] Cons.prems(2)
        authenticated_call [OF Some a, of w] h by simp
  qed
  from Cons.IH [OF this _ hs] show ?case using Cons.prems(2,3) h hs by simp
qed (simp add: cached_within_def)

lemma first_call_cached:
  assumes "se_authenticated se" "map_of (se_cache se) (call_key f) = None" "handleCall h b f (se, w) = (rs, se', w')"
  shows "\<exists>result. he_invoke h (str_value (fld f ''callId'')) (str_value (fld f ''operation'')) (fld f ''input'') w = (result, w')
     \<and> rs = sends b 0 [Result result]
     \<and> cached_within 0 (call_key f) (call_entry f result) se'"
proof -
  obtain result v where i: "he_invoke h (str_value (fld f ''callId'')) (str_value (fld f ''operation'')) (fld f ''input'') w = (result, v)"
    by fastforce
  let ?x = "(call_key f, call_entry f result)"
  note h = fresh_call [OF assms(2) i, of b]
  obtain older' where "shift_to 128 (se_cache se @ [?x]) = older' @ [?x]" "set older' \<subseteq> set (se_cache se)"
    using shift_keeps [of "[]" 128 "se_cache se" ?x] by auto
  moreover have "call_key f \<notin> fst ` set (se_cache se)" using assms(2) by (simp add: map_of_eq_None_iff)
  ultimately have "cached_within 0 (call_key f) (call_entry f result) se'"
    using assms(1,3) h by (intro cached_withinI [where older = older' and newer = "[]" and before = "se_cache se"]) auto
  then show ?thesis using i h assms(3) by simp
qed

text \<open>C38. A key runs once: a call with a fresh key on an authenticated connection is invoked, and when the
  key comes again within the next 128 texts it is not invoked again and changes nothing: with the same
  operation and the same canonical input (the order of the keys aside) the reply is the first result
  under the new call id, marked as replayed; with another operation or input it is an
  \<open>IDEMPOTENCY_CONFLICT\<close>.\<close>

theorem repeated_key_runs_once:
  assumes "se_authenticated se" "call_of h a1 = Some f1" "map_of (se_cache se) (call_key f1) = None"
    and "handleText h (ar_buffered a1) (ar_notices a1) (ar_text a1) (ar_bytes a1) (se, w) = (rs1, se1, w1)"
    and "length between < 128" "handleTexts h between (se1, w1) = (rs2, se2, w2)"
    and "call_of h a2 = Some f2" "call_key f2 = call_key f1"
  shows "\<exists>result. he_invoke h (str_value (fld f1 ''callId'')) (str_value (fld f1 ''operation'')) (fld f1 ''input'') w = (result, w1)
     \<and> rs1 = sends (ar_buffered a1) 0 [Result result]
     \<and> handleText h (ar_buffered a2) (ar_notices a2) (ar_text a2) (ar_bytes a2) (se2, w2)
       = (sends (ar_buffered a2) 0 [Result
            (if same_call f1 f2 then result\<lparr>rf_callId := str_value (fld f2 ''callId''), rf_replayed := True\<rparr>
             else invalidResult (str_value (fld f2 ''callId'')) ''IDEMPOTENCY_CONFLICT''
               ''idempotency key was already used with different input'')], se2, w2)"
proof -
  obtain result where 1: "he_invoke h (str_value (fld f1 ''callId'')) (str_value (fld f1 ''operation'')) (fld f1 ''input'') w = (result, w1)"
    "rs1 = sends (ar_buffered a1) 0 [Result result]" "cached_within 0 (call_key f1) (call_entry f1 result) se1"
    using first_call_cached [OF assms(1,3), of h "ar_buffered a1" w rs1 se1 w1] assms(4) authenticated_call [OF assms(2,1), of w]
    by auto
  have 2: "cached_within (length between) (call_key f1) (call_entry f1 result) se2"
    using texts_keep_cached [OF 1(3) _ assms(6)] assms(5) by simp
  then have "se_authenticated se2" by (simp add: cached_within_def)
  note 3 = authenticated_call [OF assms(7) this, of w2]
  have 4: "map_of (se_cache se2) (str_value (fld f2 ''idempotencyKey'')) = Some (call_entry f1 result)"
    using cached_lookup [OF 2] assms(8) by (simp add: call_key_def)
  have "handleCall h (ar_buffered a2) f2 (se2, w2) = (sends (ar_buffered a2) 0 [Result
            (if same_call f1 f2 then result\<lparr>rf_callId := str_value (fld f2 ''callId''), rf_replayed := True\<rparr>
             else invalidResult (str_value (fld f2 ''callId'')) ''IDEMPOTENCY_CONFLICT''
               ''idempotency key was already used with different input'')], se2, w2)"
    by (auto simp: handleCall_def Let_def 4 same_call_def call_entry_def)
  with 1(1,2) 3 show ?thesis by (intro exI [of _ result]) simp
qed

definition sample_call :: json where
  "sample_call = JObj [(''type'', JStr ''call''), (''callId'', JStr ''c1''), (''idempotencyKey'', JStr ''k1''),
     (''operation'', JStr ''task.cancel''), (''input'', JObj [(''taskId'', JStr ''t1'')])]"

definition sample_host :: "nat host_env" where
  "sample_host = \<lparr>he_parse = (\<lambda>t. if t = ''call'' then Some sample_call else None), he_profileToken = ''0123456789abcdef01234567'',
     he_invoke = (\<lambda>c m i n. (\<lparr>rf_callId = c, rf_ok = True, rf_output = JNull, rf_error = JUndef, rf_replayed = False\<rparr>, n + 1))\<rparr>"

definition sample_result :: "bool \<Rightarrow> result_frame" where
  "sample_result replayed = \<lparr>rf_callId = ''c1'', rf_ok = True, rf_output = JNull, rf_error = JUndef, rf_replayed = replayed\<rparr>"

lemma sample_call_fields:
  "fld sample_call ''type'' = JStr ''call''" "fld sample_call ''callId'' = JStr ''c1''" "fld sample_call ''idempotencyKey'' = JStr ''k1''"
  "fld sample_call ''operation'' = JStr ''task.cancel''" "fld sample_call ''input'' = JObj [(''taskId'', JStr ''t1'')]"
  by (simp_all add: sample_call_def fld_def json_field_def)

lemma validateCallFrame_iff:
  "validateCallFrame v = Inr c \<longleftrightarrow> c = v \<and> \<not> not_closed v [''type'', ''callId'', ''idempotencyKey'', ''operation'', ''input''] []
     \<and> fld v ''type'' = JStr ''call'' \<and> boundedString (fld v ''callId'') 1 128
     \<and> boundedString (fld v ''idempotencyKey'') 1 128 \<and> boundedString (fld v ''operation'') 1 128"
  unfolding validateCallFrame_def checked_ok by auto

lemma sample_call_of: "call_of sample_host (arriving ''call'') = Some sample_call"
proof -
  have "validateCallFrame sample_call = Inr sample_call"
    by (simp add: validateCallFrame_iff sample_call_fields boundedString_def)
       (simp add: sample_call_def not_closed_def isRecord_def hasExactKeys_def object_keys_def)
  then show ?thesis by (simp add: call_of_def parseJsonFrame_def sample_host_def arriving_def)
qed

theorem repeated_key_runs_once_witness:
  "\<exists>se1. handleText sample_host (\<lambda>_. 0) (ar_notices (arriving ''call'')) ''call'' 4 (new_session\<lparr>se_authenticated := True\<rparr>, 0)
       = ([Result (sample_result False)], se1, 1)
     \<and> handleText sample_host (\<lambda>_. 0) (ar_notices (arriving ''call'')) ''call'' 4 (se1, 1) = ([Result (sample_result True)], se1, 1)"
proof -
  let ?a = "arriving ''call''"
  let ?se = "new_session\<lparr>se_authenticated := True\<rparr>"
  have a: "ar_buffered ?a = (\<lambda>_. 0)" "ar_text ?a = ''call''" "ar_bytes ?a = 4" by (simp_all add: arriving_def)
  obtain rs1 se1 w1 where h: "handleText sample_host (ar_buffered ?a) (ar_notices ?a) (ar_text ?a) (ar_bytes ?a) (?se, 0) = (rs1, se1, w1)"
    by (metis prod_cases3)
  have i: "he_invoke sample_host (str_value (fld sample_call ''callId'')) (str_value (fld sample_call ''operation'')) (fld sample_call ''input'') 0
      = (sample_result False, 1)"
    by (simp add: sample_host_def sample_result_def sample_call_fields str_value_def)
  have auth: "se_authenticated ?se" by simp
  have fresh: "map_of (se_cache ?se) (call_key sample_call) = None" by (simp add: new_session_def)
  show ?thesis
    using repeated_key_runs_once [OF auth sample_call_of fresh h, of "[]" "[]" se1 w1 ?a sample_call] sample_call_of i h
    by (auto simp: a same_call_def MAX_OUTBOUND_BUFFER_BYTES_def sample_result_def sample_call_fields str_value_def)
qed

section \<open>Accepted frames\<close>

text \<open>\<open>CallFrame\<close> of \<open>frames.ts\<close>.\<close>

record call_frame =
  cf_callId :: string
  cf_idempotencyKey :: string
  cf_operation :: string
  cf_input :: json

definition call_frame_json :: "call_frame \<Rightarrow> (string \<times> json) list" where
  "call_frame_json f = [(''type'', JStr ''call''), (''callId'', JStr (cf_callId f)), (''idempotencyKey'', JStr (cf_idempotencyKey f)),
     (''operation'', JStr (cf_operation f)), (''input'', cf_input f)]"

lemma closed_object:
  "\<not> not_closed v required optional \<Longrightarrow>
     \<exists>ms. v = JObj ms \<and> set required \<subseteq> fst ` set ms \<and> fst ` set ms \<subseteq> set required \<union> set optional"
  by (cases v) (auto simp: not_closed_def isRecord_def hasExactKeys_def object_keys_def list_all_iff)

lemma field_of_object: "k \<in> fst ` set ms \<Longrightarrow> map_of ms k = Some (fld (JObj ms) k)"
  by (auto simp: fld_def json_field_def weak_map_of_SomeI split: option.splits)

text \<open>C39. An accepted call frame has the type \<open>CallFrame\<close> declares: it is an object with exactly the five keys,
  whose call id, idempotency key and operation are strings of 1 to 128 code units, and the frame handed to
  the operations is the value that was parsed.\<close>

theorem accepted_call_is_typed:
  "validateCallFrame v = Inr c \<longleftrightarrow> c = v \<and> (\<exists>f ms. v = JObj ms
     \<and> map_of ms = map_of (call_frame_json f)
     \<and> length (cf_callId f) \<in> {1..128} \<and> length (cf_idempotencyKey f) \<in> {1..128} \<and> length (cf_operation f) \<in> {1..128})"
  (is "?l \<longleftrightarrow> ?r")
proof
  assume ?l
  then have c: "c = v" "\<not> not_closed v [''type'', ''callId'', ''idempotencyKey'', ''operation'', ''input''] []"
    and t: "fld v ''type'' = JStr ''call''"
    and b: "boundedString (fld v ''callId'') 1 128" "boundedString (fld v ''idempotencyKey'') 1 128" "boundedString (fld v ''operation'') 1 128"
    by (simp_all add: validateCallFrame_iff)
  obtain ms where ms: "v = JObj ms" "fst ` set ms = set [''type'', ''callId'', ''idempotencyKey'', ''operation'', ''input'']"
    using closed_object [OF c(2)] by auto
  obtain i k m where s: "fld v ''callId'' = JStr i" "fld v ''idempotencyKey'' = JStr k" "fld v ''operation'' = JStr m"
    "length i \<in> {1..128}" "length k \<in> {1..128}" "length m \<in> {1..128}"
    using boundedString_str [OF b(1)] boundedString_str [OF b(2)] boundedString_str [OF b(3)] by auto
  let ?f = "\<lparr>cf_callId = i, cf_idempotencyKey = k, cf_operation = m, cf_input = fld v ''input''\<rparr>"
  have "map_of ms x = map_of (call_frame_json ?f) x" for x
  proof (cases "x \<in> fst ` set ms")
    case True
    then show ?thesis using field_of_object [OF True] ms s t by (auto simp: call_frame_json_def)
  next
    case False
    then show ?thesis using ms(2) by (auto simp: call_frame_json_def map_of_eq_None_iff)
  qed
  then have "map_of ms = map_of (call_frame_json ?f)" by blast
  then show ?r using c(1) ms(1) s by fastforce
next
  assume ?r
  then obtain f ms where f: "c = v" "v = JObj ms" "map_of ms = map_of (call_frame_json f)"
    "length (cf_callId f) \<in> {1..128}" "length (cf_idempotencyKey f) \<in> {1..128}" "length (cf_operation f) \<in> {1..128}" by blast
  have "fst ` set ms = dom (map_of (call_frame_json f))" using f(3) by (metis dom_map_of_conv_image_fst)
  then have "fst ` set ms = {''type'', ''callId'', ''idempotencyKey'', ''operation'', ''input''}"
    by (simp add: dom_map_of_conv_image_fst call_frame_json_def)
  then have "\<not> not_closed v [''type'', ''callId'', ''idempotencyKey'', ''operation'', ''input''] []"
    using f(2) by (auto simp: not_closed_def isRecord_def hasExactKeys_def object_keys_def list_all_iff image_iff)
  moreover have "fld v k = (case map_of (call_frame_json f) k of None \<Rightarrow> JUndef | Some x \<Rightarrow> x)" for k
    by (simp add: fld_def json_field_def f(2,3))
  ultimately show ?l
    using f by (simp add: validateCallFrame_iff boundedString_def call_frame_json_def)
qed

end
