(* ===== verification/Delegation_Ledger.thy ===== *)
theory Delegation_Ledger
  imports Conversation_Ledger
begin

text \<open>
  \<open>packages/state/src/delegation-repository.ts\<close> and the tables of the migrations 012, 013 and 014: the
  budget envelope of a run, delegations from a parent run to a child run with their events, the waits of a
  parent, the delivery of a result to the tool call that waits for it, and the part of the parent's budget a
  delegation reserves and is charged. A column of JSON strings is the list of them.
\<close>

section \<open>Budget envelopes\<close>

definition json_within :: "nat \<Rightarrow> json \<Rightarrow> bool" where
  "json_within limit v = (case json_stringify v of None \<Rightarrow> False | Some t \<Rightarrow> length t \<le> limit)"

definition string_list_ok :: "string list \<Rightarrow> bool" where
  "string_list_ok xs = json_within 65536 (JArr (map JStr xs))"

definition budget_checks :: "budget_row \<Rightarrow> bool" where
  "budget_checks r \<longleftrightarrow>
     0 \<le> be_depth r \<and> 0 < be_maxTurns r \<and> 0 < be_maxModelCalls r \<and> 0 \<le> be_maxToolCalls r
     \<and> 0 < be_maxOutputTokens r \<and> 0 < be_maxTotalTokens r \<and> 0 < be_maxDurationMs r \<and> 0 \<le> be_deadlineAt r
     \<and> 0 \<le> be_maxDelegationDepth r \<and> be_maxDelegationDepth r \<le> 16
     \<and> 0 \<le> be_maxActiveChildren r \<and> be_maxActiveChildren r \<le> 64
     \<and> 0 \<le> be_maxTotalChildren r \<and> be_maxTotalChildren r \<le> 1024
     \<and> string_list_ok (be_allowedWorkspaceIds r) \<and> string_list_ok (be_allowedSkillIds r) \<and> string_list_ok (be_allowedToolNames r)
     \<and> 0 \<le> be_usedTurns r \<and> 0 \<le> be_usedInputTokens r \<and> 0 \<le> be_usedOutputTokens r
     \<and> 0 \<le> be_usedModelCalls r \<and> 0 \<le> be_usedToolCalls r
     \<and> 0 \<le> be_delegatedUsedTurns r \<and> 0 \<le> be_delegatedUsedInputTokens r \<and> 0 \<le> be_delegatedUsedOutputTokens r
     \<and> 0 \<le> be_delegatedUsedModelCalls r \<and> 0 \<le> be_delegatedUsedToolCalls r
     \<and> (be_depth r = 0 \<and> be_parentRunId r = None \<and> be_rootRunId r = be_runId r
        \<or> 0 < be_depth r \<and> be_parentRunId r \<noteq> None \<and> be_rootRunId r \<noteq> be_runId r \<and> be_parentRunId r \<noteq> Some (be_runId r))
     \<and> be_maxActiveChildren r \<le> be_maxTotalChildren r"

definition run_known :: "string \<Rightarrow> db \<Rightarrow> bool" where
  "run_known runId s \<longleftrightarrow> getRun runId s \<noteq> None"

definition schema_inconsistent :: "string \<Rightarrow> err" where
  "schema_inconsistent message = State_Error STATE_SCHEMA_INCONSISTENT message"

definition getBudgetEnvelope :: "string \<Rightarrow> db \<Rightarrow> budget_row option" where
  "getBudgetEnvelope runId s = tbl_get be_runId runId (run_budget_envelopes s)"

definition insertBudgetEnvelope :: "budget_row \<Rightarrow> db \<Rightarrow> err + db" where
  "insertBudgetEnvelope row s =
     res_bind (require (budget_checks row) (Sql_Constraint Sql_Check)) (\<lambda>_.
     res_bind (require (getBudgetEnvelope (be_runId row) s = None) (Sql_Constraint (Sql_Unique ''run_budget_envelopes.run_id''))) (\<lambda>_.
     res_bind (require (run_known (be_runId row) s \<and> run_known (be_rootRunId row) s
         \<and> (case be_parentRunId row of None \<Rightarrow> True | Some p \<Rightarrow> run_known p s)) (Sql_Constraint Sql_ForeignKey)) (\<lambda>_.
     Inr (s\<lparr>run_budget_envelopes := run_budget_envelopes s @ [row]\<rparr>))))"

text \<open>An \<open>UPDATE\<close> of one envelope: how many rows it changed, and the checks on them.\<close>

definition budget_write :: "string \<Rightarrow> (budget_row \<Rightarrow> budget_row) \<Rightarrow> string \<Rightarrow> db \<Rightarrow> err + db" where
  "budget_write runId f message s =
     (let p = (\<lambda>r. be_runId r = runId) in
      res_bind (require (list_all (\<lambda>r. p r \<longrightarrow> budget_checks (f r)) (run_budget_envelopes s)) (Sql_Constraint Sql_Check)) (\<lambda>_.
      res_bind (require (tbl_changes p (run_budget_envelopes s) = 1) (schema_inconsistent message)) (\<lambda>_.
      Inr (s\<lparr>run_budget_envelopes := tbl_modify p f (run_budget_envelopes s)\<rparr>))))"

definition updateBudgetUsage :: "string \<Rightarrow> attempt_usage \<Rightarrow> int \<Rightarrow> db \<Rightarrow> err + db" where
  "updateBudgetUsage runId u updatedAt =
     budget_write runId (\<lambda>r. r\<lparr>be_usedTurns := au_turns u, be_usedInputTokens := au_inputTokens u,
       be_usedOutputTokens := au_outputTokens u, be_usedModelCalls := au_modelCalls u, be_usedToolCalls := au_toolCalls u,
       be_updatedAt := updatedAt\<rparr>) ''run budget usage target missing''"

section \<open>Delegations\<close>

definition delegation_active :: "delegation_status \<Rightarrow> bool" where
  "delegation_active st \<longleftrightarrow> st \<in> {N_CREATED, N_RUNNING, N_WAITING}"

definition delegation_checks :: "delegation_row \<Rightarrow> bool" where
  "delegation_checks r \<longleftrightarrow>
     1 \<le> length (dg_idempotencyKey r) \<and> length (dg_idempotencyKey r) \<le> 128
     \<and> 1 \<le> dg_depth r \<and> dg_depth r \<le> 16 \<and> length (dg_taskSha256 r) = 64
     \<and> string_list_ok (dg_workspaceScope r) \<and> string_list_ok (dg_skillIds r) \<and> string_list_ok (dg_toolNames r)
     \<and> (case dg_resultSummarySha256 r of None \<Rightarrow> True | Some h \<Rightarrow> length h = 64)
     \<and> dg_parentRunId r \<noteq> dg_childRunId r
     \<and> (dg_status r = N_CREATED \<and> dg_startedAt r = None \<and> dg_endedAt r = None
        \<or> dg_status r \<in> {N_RUNNING, N_WAITING} \<and> dg_startedAt r \<noteq> None \<and> dg_endedAt r = None
        \<or> \<not> delegation_active (dg_status r) \<and> dg_endedAt r \<noteq> None)"

definition getDelegation :: "string \<Rightarrow> db \<Rightarrow> delegation_row option" where
  "getDelegation delegationId s = tbl_get dg_delegationId delegationId (run_delegations s)"

definition getDelegationByChildRun :: "string \<Rightarrow> db \<Rightarrow> delegation_row option" where
  "getDelegationByChildRun childRunId s = tbl_get dg_childRunId childRunId (run_delegations s)"

definition getDelegationByIdempotency :: "string \<Rightarrow> string \<Rightarrow> db \<Rightarrow> delegation_row option" where
  "getDelegationByIdempotency parentRunId idempotencyKey s =
     tbl_get (\<lambda>r. (dg_parentRunId r, dg_idempotencyKey r)) (parentRunId, idempotencyKey) (run_delegations s)"

definition insertDelegation :: "delegation_row \<Rightarrow> db \<Rightarrow> err + db" where
  "insertDelegation row s =
     res_bind (require (delegation_checks row) (Sql_Constraint Sql_Check)) (\<lambda>_.
     res_bind (require (getDelegation (dg_delegationId row) s = None)
       (Sql_Constraint (Sql_Unique ''run_delegations.delegation_id''))) (\<lambda>_.
     res_bind (require (getDelegationByChildRun (dg_childRunId row) s = None)
       (Sql_Constraint (Sql_Unique ''run_delegations.child_run_id''))) (\<lambda>_.
     res_bind (require (getDelegationByIdempotency (dg_parentRunId row) (dg_idempotencyKey row) s = None)
       (Sql_Constraint (Sql_Unique ''run_delegations.parent_run_id, run_delegations.idempotency_key''))) (\<lambda>_.
     res_bind (require (run_known (dg_rootRunId row) s \<and> run_known (dg_parentRunId row) s \<and> run_known (dg_childRunId row) s
         \<and> getAttempt (dg_parentAttemptId row) s \<noteq> None \<and> getConversation (dg_childConversationId row) s \<noteq> None)
       (Sql_Constraint Sql_ForeignKey)) (\<lambda>_.
     Inr (s\<lparr>run_delegations := run_delegations s @ [row]\<rparr>))))))"

definition delegation_order :: "delegation_row \<Rightarrow> int \<times> string" where
  "delegation_order r = (dg_createdAt r, dg_delegationId r)"

definition listDirectChildren :: "string \<Rightarrow> db \<Rightarrow> delegation_row list" where
  "listDirectChildren parentRunId s = sort_key delegation_order (filter (\<lambda>r. dg_parentRunId r = parentRunId) (run_delegations s))"

definition opt_eq :: "'a option \<Rightarrow> 'a \<Rightarrow> bool" where
  "opt_eq v x = (case v of None \<Rightarrow> True | Some y \<Rightarrow> y = x)"

definition listDelegations ::
    "string option \<Rightarrow> string option \<Rightarrow> delegation_status option \<Rightarrow> nat \<Rightarrow> db \<Rightarrow> delegation_row list" where
  "listDelegations rootRunId parentRunId status limit s =
     take limit (sort_key (\<lambda>r. (- dg_createdAt r, dg_delegationId r))
       (filter (\<lambda>r. opt_eq rootRunId (dg_rootRunId r) \<and> opt_eq parentRunId (dg_parentRunId r) \<and> opt_eq status (dg_status r))
         (run_delegations s)))"

definition by_depth :: "delegation_row \<Rightarrow> int \<times> int \<times> string" where
  "by_depth r = (dg_depth r, dg_createdAt r, dg_delegationId r)"

definition deepest_first :: "delegation_row \<Rightarrow> int \<times> int \<times> string" where
  "deepest_first r = (- dg_depth r, dg_createdAt r, dg_delegationId r)"

definition listDescendants :: "string \<Rightarrow> db \<Rightarrow> delegation_row list" where
  "listDescendants rootRunId s = sort_key by_depth (filter (\<lambda>r. dg_rootRunId r = rootRunId) (run_delegations s))"

text \<open>The recursive query, one level per round. The child runs of a round are the parents of the next;
  delegations that form a tree are exhausted after as many rounds as there are delegations.\<close>

primrec subtree_runs :: "nat \<Rightarrow> delegation_row list \<Rightarrow> string list \<Rightarrow> string list" where
  "subtree_runs 0 ds runs = []"
| "subtree_runs (Suc n) ds runs =
     (let level = filter (\<lambda>r. dg_parentRunId r \<in> set runs) ds in
      map dg_delegationId level @ subtree_runs n ds (map dg_childRunId level))"

definition listDescendantsOfRun :: "string \<Rightarrow> db \<Rightarrow> delegation_row list" where
  "listDescendantsOfRun parentRunId s =
     (let ids = subtree_runs (length (run_delegations s)) (run_delegations s) [parentRunId] in
      sort_key by_depth (filter (\<lambda>r. dg_delegationId r \<in> set ids) (run_delegations s)))"

definition listSubtreeByChildRun :: "string \<Rightarrow> db \<Rightarrow> delegation_row list" where
  "listSubtreeByChildRun childRunId s = (case getDelegationByChildRun childRunId s of
     None \<Rightarrow> [] | Some root \<Rightarrow> root # listDescendantsOfRun childRunId s)"

definition listExpiredActiveDelegations :: "int \<Rightarrow> db \<Rightarrow> delegation_row list" where
  "listExpiredActiveDelegations now s = sort_key deepest_first
     (filter (\<lambda>r. delegation_active (dg_status r)
        \<and> (case getBudgetEnvelope (dg_childRunId r) s of None \<Rightarrow> False | Some b \<Rightarrow> be_deadlineAt b \<le> now)) (run_delegations s))"

definition getResultDelivery :: "string \<Rightarrow> db \<Rightarrow> result_delivery_row option" where
  "getResultDelivery delegationId s = tbl_get dr_delegationId delegationId (run_delegation_result_deliveries s)"

definition listTerminalChildDelegations :: "db \<Rightarrow> delegation_row list" where
  "listTerminalChildDelegations s = sort_key deepest_first
     (filter (\<lambda>r. (case getRun (dg_childRunId r) s of None \<Rightarrow> False
          | Some c \<Rightarrow> r_status c \<in> {R_COMPLETED, R_FAILED, R_CANCELLED})
        \<and> (delegation_active (dg_status r)
           \<or> (case getResultDelivery (dg_delegationId r) s of None \<Rightarrow> False | Some v \<Rightarrow> dr_status v = DR_PENDING)))
       (run_delegations s))"

definition listRunnableChildRunIds :: "db \<Rightarrow> string list" where
  "listRunnableChildRunIds s = map dg_childRunId (sort_key by_depth
     (filter (\<lambda>r. delegation_active (dg_status r)
        \<and> (case getRun (dg_childRunId r) s of None \<Rightarrow> False | Some c \<Rightarrow> r_status c = R_CREATED)
        \<and> \<not> list_ex (\<lambda>w. dw_parentRunId w = dg_childRunId r) (run_delegation_waits s)) (run_delegations s)))"

definition delegation_write :: "string \<Rightarrow> (delegation_row \<Rightarrow> delegation_row) \<Rightarrow> db \<Rightarrow> err + db" where
  "delegation_write delegationId f s =
     (let p = (\<lambda>r. dg_delegationId r = delegationId) in
      res_bind (require (list_all (\<lambda>r. p r \<longrightarrow> delegation_checks (f r)) (run_delegations s)) (Sql_Constraint Sql_Check)) (\<lambda>_.
      res_bind (require (tbl_changes p (run_delegations s) = 1) (schema_inconsistent ''delegation update target missing'')) (\<lambda>_.
      Inr (s\<lparr>run_delegations := tbl_modify p f (run_delegations s)\<rparr>))))"

definition updateDelegationStatus ::
    "string \<Rightarrow> delegation_status \<Rightarrow> int option \<Rightarrow> int option \<Rightarrow> string option \<Rightarrow> int \<Rightarrow> db \<Rightarrow> err + db" where
  "updateDelegationStatus delegationId status startedAt endedAt resultSummarySha256 updatedAt =
     delegation_write delegationId (\<lambda>r. r\<lparr>dg_status := status, dg_startedAt := coalesce (dg_startedAt r) startedAt,
       dg_endedAt := endedAt, dg_resultSummarySha256 := coalesce resultSummarySha256 (dg_resultSummarySha256 r),
       dg_updatedAt := updatedAt\<rparr>)"

section \<open>Events and waits\<close>

definition delegation_nextEventSequence :: "string \<Rightarrow> db \<Rightarrow> int" where
  "delegation_nextEventSequence delegationId s =
     next_sequence (\<lambda>e. dv_delegationId e = delegationId) dv_sequence (run_delegation_events s)"

definition delegation_insertEvent :: "delegation_event_row \<Rightarrow> db \<Rightarrow> err + db" where
  "delegation_insertEvent row s =
     res_bind (require (dv_payload row \<noteq> JUndef) Js_Error) (\<lambda>_.
     res_bind (require (0 < dv_sequence row \<and> json_within 65536 (dv_payload row)) (Sql_Constraint Sql_Check)) (\<lambda>_.
     res_bind (require (tbl_get (\<lambda>e. (dv_delegationId e, dv_sequence e)) (dv_delegationId row, dv_sequence row) (run_delegation_events s) = None)
       (Sql_Constraint (Sql_Unique ''run_delegation_events.delegation_id, run_delegation_events.sequence''))) (\<lambda>_.
     res_bind (require (getDelegation (dv_delegationId row) s \<noteq> None) (Sql_Constraint Sql_ForeignKey)) (\<lambda>_.
     Inr (s\<lparr>run_delegation_events := run_delegation_events s @ [row\<lparr>dv_payload := json_clean (dv_payload row)\<rparr>]\<rparr>)))))"

definition delegation_listEvents :: "string \<Rightarrow> db \<Rightarrow> delegation_event_row list" where
  "delegation_listEvents delegationId s = sort_key dv_sequence (filter (\<lambda>e. dv_delegationId e = delegationId) (run_delegation_events s))"

text \<open>\<open>ON CONFLICT(parent_run_id, delegation_id) DO UPDATE\<close>.\<close>

definition insertWait :: "wait_row \<Rightarrow> db \<Rightarrow> err + db" where
  "insertWait row s =
     (let same = (\<lambda>w. dw_parentRunId w = dw_parentRunId row \<and> dw_delegationId w = dw_delegationId row) in
      res_bind (require (dw_state row = ''WAITING_DELEGATION'') (Sql_Constraint Sql_Check)) (\<lambda>_.
      if list_ex same (run_delegation_waits s)
      then Inr (s\<lparr>run_delegation_waits := tbl_modify same (\<lambda>w. w\<lparr>dw_updatedAt := dw_updatedAt row\<rparr>) (run_delegation_waits s)\<rparr>)
      else
        res_bind (require (\<not> list_ex (\<lambda>w. dw_delegationId w = dw_delegationId row) (run_delegation_waits s))
          (Sql_Constraint (Sql_Unique ''run_delegation_waits.delegation_id''))) (\<lambda>_.
        res_bind (require (run_known (dw_parentRunId row) s \<and> getDelegation (dw_delegationId row) s \<noteq> None)
          (Sql_Constraint Sql_ForeignKey)) (\<lambda>_.
        Inr (s\<lparr>run_delegation_waits := run_delegation_waits s @ [row]\<rparr>)))))"

definition deleteWait :: "string \<Rightarrow> string \<Rightarrow> db \<Rightarrow> db \<times> bool" where
  "deleteWait parentRunId delegationId s =
     (let same = (\<lambda>w. dw_parentRunId w = parentRunId \<and> dw_delegationId w = delegationId) in
      (s\<lparr>run_delegation_waits := filter (\<lambda>w. \<not> same w) (run_delegation_waits s)\<rparr>, tbl_changes same (run_delegation_waits s) = 1))"

definition listWaits :: "string \<Rightarrow> db \<Rightarrow> wait_row list" where
  "listWaits parentRunId s = sort_key (\<lambda>w. (dw_createdAt w, dw_delegationId w))
     (filter (\<lambda>w. dw_parentRunId w = parentRunId) (run_delegation_waits s))"

definition hasActiveWait :: "string \<Rightarrow> db \<Rightarrow> bool" where
  "hasActiveWait parentRunId s = list_ex (\<lambda>w. dw_parentRunId w = parentRunId) (run_delegation_waits s)"

section \<open>Deliveries of a result\<close>

definition result_delivery_checks :: "result_delivery_row \<Rightarrow> bool" where
  "result_delivery_checks r \<longleftrightarrow>
     1 \<le> length (dr_parentToolCallId r) \<and> length (dr_parentToolCallId r) \<le> 128 \<and> dr_toolName r = ''agent.wait''
     \<and> (case dr_resultSha256 r of None \<Rightarrow> True | Some h \<Rightarrow> length h = 64)
     \<and> (dr_status r = DR_PENDING \<and> dr_deliveredAt r = None \<and> dr_resultSha256 r = None
        \<or> dr_status r = DR_DELIVERED \<and> dr_deliveredAt r \<noteq> None \<and> dr_resultSha256 r \<noteq> None)"

definition getResultDeliveryByToolCall :: "string \<Rightarrow> string \<Rightarrow> db \<Rightarrow> result_delivery_row option" where
  "getResultDeliveryByToolCall parentRunId parentToolCallId s =
     tbl_get (\<lambda>r. (dr_parentRunId r, dr_parentToolCallId r)) (parentRunId, parentToolCallId) (run_delegation_result_deliveries s)"

definition insertResultDelivery :: "result_delivery_row \<Rightarrow> db \<Rightarrow> err + db" where
  "insertResultDelivery row s =
     res_bind (require (result_delivery_checks row) (Sql_Constraint Sql_Check)) (\<lambda>_.
     res_bind (require (getResultDelivery (dr_delegationId row) s = None)
       (Sql_Constraint (Sql_Unique ''run_delegation_result_deliveries.delegation_id''))) (\<lambda>_.
     res_bind (require (getResultDeliveryByToolCall (dr_parentRunId row) (dr_parentToolCallId row) s = None)
       (Sql_Constraint (Sql_Unique ''run_delegation_result_deliveries.parent_run_id, run_delegation_result_deliveries.parent_tool_call_id''))) (\<lambda>_.
     res_bind (require (getDelegation (dr_delegationId row) s \<noteq> None \<and> run_known (dr_parentRunId row) s
         \<and> getAttempt (dr_parentAttemptId row) s \<noteq> None) (Sql_Constraint Sql_ForeignKey)) (\<lambda>_.
     Inr (s\<lparr>run_delegation_result_deliveries := run_delegation_result_deliveries s @ [row]\<rparr>)))))"

definition markResultDelivered :: "string \<Rightarrow> string \<Rightarrow> int \<Rightarrow> int \<Rightarrow> db \<Rightarrow> err + db" where
  "markResultDelivered delegationId resultSha256 deliveredAt updatedAt s =
     (let p = (\<lambda>r. dr_delegationId r = delegationId \<and> dr_status r = DR_PENDING);
          f = (\<lambda>r. r\<lparr>dr_status := DR_DELIVERED, dr_resultSha256 := Some resultSha256, dr_deliveredAt := Some deliveredAt, dr_updatedAt := updatedAt\<rparr>) in
      res_bind (require (list_all (\<lambda>r. p r \<longrightarrow> result_delivery_checks (f r)) (run_delegation_result_deliveries s)) (Sql_Constraint Sql_Check)) (\<lambda>_.
      res_bind (require (tbl_changes p (run_delegation_result_deliveries s) = 1)
        (schema_inconsistent ''delegation result delivery target missing or not pending'')) (\<lambda>_.
      Inr (s\<lparr>run_delegation_result_deliveries := tbl_modify p f (run_delegation_result_deliveries s)\<rparr>))))"

section \<open>Reservations\<close>

record reservation_summary =
  rv_activeChildren :: nat
  rv_totalChildren :: nat
  rv_reservedTurns :: int
  rv_reservedModelCalls :: int
  rv_reservedToolCalls :: int
  rv_reservedTotalTokens :: int

definition reserved_of :: "string \<Rightarrow> db \<Rightarrow> reservation_row list" where
  "reserved_of parentRunId s = filter (\<lambda>r. rs_parentRunId r = parentRunId \<and> rs_status r = RESERVED) (run_delegation_budget_reservations s)"

definition reservationSummary :: "string \<Rightarrow> db \<Rightarrow> reservation_summary" where
  "reservationSummary parentRunId s =
     (let rs = reserved_of parentRunId s in
      \<lparr>rv_activeChildren = length rs,
       rv_totalChildren = length (filter (\<lambda>r. dg_parentRunId r = parentRunId) (run_delegations s)),
       rv_reservedTurns = sum_list (map rs_reservedTurns rs), rv_reservedModelCalls = sum_list (map rs_reservedModelCalls rs),
       rv_reservedToolCalls = sum_list (map rs_reservedToolCalls rs), rv_reservedTotalTokens = sum_list (map rs_reservedTotalTokens rs)\<rparr>)"

definition no_charge :: "reservation_row \<Rightarrow> bool" where
  "no_charge r \<longleftrightarrow> rs_chargedTurns r = 0 \<and> rs_chargedInputTokens r = 0 \<and> rs_chargedOutputTokens r = 0
     \<and> rs_chargedModelCalls r = 0 \<and> rs_chargedToolCalls r = 0"

definition reservation_checks :: "reservation_row \<Rightarrow> bool" where
  "reservation_checks r \<longleftrightarrow>
     0 \<le> rs_reservedTurns r \<and> 0 \<le> rs_reservedModelCalls r \<and> 0 \<le> rs_reservedToolCalls r \<and> 0 \<le> rs_reservedTotalTokens r
     \<and> 0 \<le> rs_chargedTurns r \<and> 0 \<le> rs_chargedInputTokens r \<and> 0 \<le> rs_chargedOutputTokens r
     \<and> 0 \<le> rs_chargedModelCalls r \<and> 0 \<le> rs_chargedToolCalls r
     \<and> (case rs_releaseReason r of None \<Rightarrow> True | Some st \<Rightarrow> \<not> delegation_active st)
     \<and> (rs_status r = RESERVED \<and> rs_releaseReason r = None \<and> rs_releasedAt r = None \<and> no_charge r
        \<or> rs_status r = RELEASED \<and> rs_releaseReason r \<noteq> None \<and> rs_releasedAt r \<noteq> None)"

definition getBudgetReservation :: "string \<Rightarrow> db \<Rightarrow> reservation_row option" where
  "getBudgetReservation delegationId s = tbl_get rs_delegationId delegationId (run_delegation_budget_reservations s)"

definition insertBudgetReservation :: "reservation_row \<Rightarrow> db \<Rightarrow> err + db" where
  "insertBudgetReservation row s =
     res_bind (require (reservation_checks row) (Sql_Constraint Sql_Check)) (\<lambda>_.
     res_bind (require (getBudgetReservation (rs_delegationId row) s = None)
       (Sql_Constraint (Sql_Unique ''run_delegation_budget_reservations.delegation_id''))) (\<lambda>_.
     res_bind (require (tbl_get rs_childRunId (rs_childRunId row) (run_delegation_budget_reservations s) = None)
       (Sql_Constraint (Sql_Unique ''run_delegation_budget_reservations.child_run_id''))) (\<lambda>_.
     res_bind (require (getDelegation (rs_delegationId row) s \<noteq> None \<and> run_known (rs_parentRunId row) s
         \<and> run_known (rs_childRunId row) s) (Sql_Constraint Sql_ForeignKey)) (\<lambda>_.
     Inr (s\<lparr>run_delegation_budget_reservations := run_delegation_budget_reservations s @ [row]\<rparr>)))))"

definition released_with :: "delegation_status \<Rightarrow> attempt_usage \<Rightarrow> reservation_row \<Rightarrow> bool" where
  "released_with reason u r \<longleftrightarrow> rs_releaseReason r = Some reason \<and> rs_chargedTurns r = au_turns u
     \<and> rs_chargedInputTokens r = au_inputTokens u \<and> rs_chargedOutputTokens r = au_outputTokens u
     \<and> rs_chargedModelCalls r = au_modelCalls u \<and> rs_chargedToolCalls r = au_toolCalls u"

definition release_row :: "delegation_status \<Rightarrow> attempt_usage \<Rightarrow> int \<Rightarrow> reservation_row \<Rightarrow> reservation_row" where
  "release_row reason u releasedAt r = r\<lparr>rs_status := RELEASED, rs_chargedTurns := au_turns u,
     rs_chargedInputTokens := au_inputTokens u, rs_chargedOutputTokens := au_outputTokens u,
     rs_chargedModelCalls := au_modelCalls u, rs_chargedToolCalls := au_toolCalls u,
     rs_releaseReason := Some reason, rs_releasedAt := Some releasedAt, rs_updatedAt := releasedAt\<rparr>"

definition charge_parent :: "attempt_usage \<Rightarrow> int \<Rightarrow> budget_row \<Rightarrow> budget_row" where
  "charge_parent u releasedAt b = b\<lparr>be_delegatedUsedTurns := be_delegatedUsedTurns b + au_turns u,
     be_delegatedUsedInputTokens := be_delegatedUsedInputTokens b + au_inputTokens u,
     be_delegatedUsedOutputTokens := be_delegatedUsedOutputTokens b + au_outputTokens u,
     be_delegatedUsedModelCalls := be_delegatedUsedModelCalls b + au_modelCalls u,
     be_delegatedUsedToolCalls := be_delegatedUsedToolCalls b + au_toolCalls u, be_updatedAt := releasedAt\<rparr>"

definition releaseBudgetReservation ::
    "string \<Rightarrow> delegation_status \<Rightarrow> attempt_usage \<Rightarrow> int \<Rightarrow> db \<Rightarrow> err + (db \<times> (bool \<times> reservation_row))" where
  "releaseBudgetReservation delegationId reason u releasedAt s =
     (case getBudgetReservation delegationId s of
        None \<Rightarrow> Inl (schema_inconsistent ''delegation budget reservation is missing'')
      | Some current \<Rightarrow>
          if rs_status current = RELEASED then
            res_bind (require (released_with reason u current) (schema_inconsistent ''delegation budget release conflicts with durable charge'')) (\<lambda>_.
            Inr (s, (False, current)))
          else
            let p = (\<lambda>r. rs_delegationId r = delegationId \<and> rs_status r = RESERVED); f = release_row reason u releasedAt in
            res_bind (require (list_all (\<lambda>r. p r \<longrightarrow> reservation_checks (f r)) (run_delegation_budget_reservations s)) (Sql_Constraint Sql_Check)) (\<lambda>_.
            res_bind (require (tbl_changes p (run_delegation_budget_reservations s) = 1)
              (schema_inconsistent ''delegation budget reservation release failed'')) (\<lambda>_.
            let s1 = s\<lparr>run_delegation_budget_reservations := tbl_modify p f (run_delegation_budget_reservations s)\<rparr> in
            res_bind (budget_write (rs_parentRunId current) (charge_parent u releasedAt)
              ''delegation parent budget charge target is missing'' s1) (\<lambda>s2.
            (case getBudgetReservation delegationId s2 of
               None \<Rightarrow> Inl (schema_inconsistent ''released delegation budget reservation disappeared'')
             | Some reservation \<Rightarrow> Inr (s2, (True, reservation)))))))"

end
