(* ===== verification/Conversation_Service.thy ===== *)
theory Conversation_Service
  imports Delegation_Ledger
begin

text \<open>
  \<open>packages/conversations/src/service.ts\<close>: conversations, the runs that execute them and the life of a run
  from its submission to its end or its recovery. A public method is a transaction (\<open>svc\<close>) or several of
  them in turn; what runs inside a transaction is an \<open>rop\<close>. Parameters: the hash \<open>sha256\<close>, every reading of
  the clock, and the identifiers \<open>createId\<close> returns, the first as \<open>ids 0\<close>, the second as \<open>ids 1\<close> and so on.
  The readings of the clock by one call of \<open>list\<close> are one.
\<close>

section \<open>Arguments\<close>

record conversation_service =
  cs_workspaceIds :: "string list"
  cs_sha256 :: "string \<Rightarrow> string"

definition conv_bounded :: "string \<Rightarrow> nat \<Rightarrow> (string \<Rightarrow> bool) \<Rightarrow> err + string" where
  "conv_bounded v limit pattern =
     (if v = [] \<or> length v > limit \<or> \<not> pattern v then Inl (Conversation_Error INVALID_ARGUMENT) else Inr v)"

definition starts_then :: "(char \<Rightarrow> bool) \<Rightarrow> (char \<Rightarrow> bool) \<Rightarrow> string \<Rightarrow> bool" where
  "starts_then p q v = (case v of [] \<Rightarrow> False | c # cs \<Rightarrow> p c \<and> list_all q cs)"

text \<open>The patterns \<open>/^[a-z][a-z0-9._-]{0,63}$/\<close>, \<open>/^[a-zA-Z0-9._-]+$/\<close>, \<open>/^[A-Za-z0-9._:-]+$/\<close>,
  \<open>/^[a-z][a-z0-9._-]+$/\<close> and \<open>/^[A-Z][A-Z0-9_]+$/\<close>.\<close>

definition workspace_pattern :: "string \<Rightarrow> bool" where
  "workspace_pattern v \<longleftrightarrow> starts_then lower_letter (\<lambda>c. lower_alnum c \<or> c \<in> set ''._-'') v \<and> length v \<le> 64"

definition profile_pattern :: "string \<Rightarrow> bool" where
  "profile_pattern v \<longleftrightarrow> v \<noteq> [] \<and> list_all (\<lambda>c. alnum c \<or> c \<in> set ''._-'') v"

definition key_pattern :: "string \<Rightarrow> bool" where
  "key_pattern v \<longleftrightarrow> v \<noteq> [] \<and> list_all (\<lambda>c. alnum c \<or> c \<in> set ''._:-'') v"

definition event_type_pattern :: "string \<Rightarrow> bool" where
  "event_type_pattern v \<longleftrightarrow> starts_then lower_letter (\<lambda>c. lower_alnum c \<or> c \<in> set ''._-'') v \<and> 2 \<le> length v"

definition lost_code_pattern :: "string \<Rightarrow> bool" where
  "lost_code_pattern v \<longleftrightarrow> starts_then upper_letter (\<lambda>c. upper_letter c \<or> js_digit c \<or> c = CHR ''_'') v \<and> 2 \<le> length v"

definition conv_authorize :: "conversation_service \<Rightarrow> string \<Rightarrow> err + unit" where
  "conv_authorize cs workspaceId =
     res_bind (conv_bounded workspaceId 64 workspace_pattern) (\<lambda>_.
     require (workspaceId \<in> set (cs_workspaceIds cs)) (Conversation_Error WORKSPACE_ACCESS_DENIED))"

text \<open>\<open>hash\<close> and \<open>same\<close>.\<close>

definition conv_hash :: "conversation_service \<Rightarrow> json \<Rightarrow> string" where
  "conv_hash cs v = cs_sha256 cs (canonical v)"

definition same_json :: "json \<Rightarrow> json \<Rightarrow> bool" where
  "same_json l r \<longleftrightarrow> canonical l = canonical r"

definition TRANSITIONS :: "run_status \<Rightarrow> run_status set" where
  "TRANSITIONS st = (case st of
     R_CREATED \<Rightarrow> {R_RUNNING, R_FAILED, R_CANCELLED}
   | R_RUNNING \<Rightarrow> {R_WAITING_APPROVAL, R_COMPLETED, R_FAILED, R_CANCELLED}
   | R_WAITING_APPROVAL \<Rightarrow> {R_RUNNING, R_COMPLETED, R_FAILED, R_CANCELLED}
   | _ \<Rightarrow> {})"

text \<open>\<open>hasRecoverableCheckpoint\<close>: what follows the last checkpoint are only requests to the model.\<close>

definition hasRecoverableCheckpoint :: "event_row list \<Rightarrow> bool" where
  "hasRecoverableCheckpoint events \<longleftrightarrow>
     list_ex (\<lambda>e. e_eventType e = ''run.checkpoint'') events
     \<and> list_all (\<lambda>e. e_eventType e \<in> {''model.requested'', ''model.retry''})
         (takeWhile (\<lambda>e. e_eventType e \<noteq> ''run.checkpoint'') (rev events))"

definition recovery_text :: "recovery_state \<Rightarrow> string" where
  "recovery_text st = (case st of NONE \<Rightarrow> ''NONE'' | RESUMABLE \<Rightarrow> ''RESUMABLE'' | NON_RESUMABLE \<Rightarrow> ''NON_RESUMABLE'')"

section \<open>Conversations\<close>

record conversation_info =
  cv_conversationId :: string
  cv_workspaceId :: string
  cv_modelProfile :: string
  cv_title :: "string option"
  cv_status :: conversation_status
  cv_createdAt :: int
  cv_updatedAt :: int

definition asConversation :: "conversation_row \<Rightarrow> conversation_info" where
  "asConversation c = \<lparr>cv_conversationId = c_conversationId c, cv_workspaceId = c_workspaceId c,
     cv_modelProfile = c_modelProfile c, cv_title = c_title c, cv_status = c_status c,
     cv_createdAt = c_createdAt c, cv_updatedAt = c_updatedAt c\<rparr>"

record conversation_summary =
  cy_conversation :: conversation_info
  cy_projection :: projection_row

definition conv_summary :: "int \<Rightarrow> conversation_row \<Rightarrow> conversation_summary rop" where
  "conv_summary now row =
     rop_bind (rop_read (getProjection (c_conversationId row))) (\<lambda>stored.
     rop_bind (case stored of Some p \<Rightarrow> rop_return p | None \<Rightarrow> rebuildProjection (c_conversationId row) now) (\<lambda>projection.
     rop_return \<lparr>cy_conversation = asConversation row, cy_projection = projection\<rparr>))"

definition createWithRepositories ::
    "conversation_service \<Rightarrow> string \<Rightarrow> int \<Rightarrow> int \<Rightarrow> string \<Rightarrow> string option \<Rightarrow> string option \<Rightarrow> conversation_summary rop" where
  "createWithRepositories cs newId now now2 workspaceId modelProfile title =
     rop_bind (rop_of (conv_authorize cs workspaceId)) (\<lambda>_.
     rop_bind (rop_of (conv_bounded (or_default modelProfile ''default'') 64 profile_pattern)) (\<lambda>profile.
     rop_bind (rop_of (case title of None \<Rightarrow> Inr None
         | Some t \<Rightarrow> res_bind (conv_bounded t 256 any_text) (\<lambda>x. Inr (Some x)))) (\<lambda>bounded_title.
     let row = \<lparr>c_conversationId = newId, c_workspaceId = workspaceId, c_modelProfile = profile, c_title = bounded_title,
           c_status = ACTIVE, c_lastMessageSequence = 0, c_createdAt = now, c_updatedAt = now\<rparr> in
     rop_bind (rop_do (createConversation row)) (\<lambda>_.
     rop_bind (rebuildProjection newId now) (\<lambda>_.
     conv_summary now2 row)))))"

definition conversation_create ::
    "conversation_service \<Rightarrow> string \<Rightarrow> int \<Rightarrow> int \<Rightarrow> string \<Rightarrow> string option \<Rightarrow> string option \<Rightarrow> conversation_summary svc" where
  "conversation_create cs newId now now2 workspaceId modelProfile title =
     transaction (createWithRepositories cs newId now now2 workspaceId modelProfile title)"

definition conversation_list :: "conversation_service \<Rightarrow> int \<Rightarrow> string \<Rightarrow> int option \<Rightarrow> conversation_summary list svc" where
  "conversation_list cs now workspaceId limit =
     svc_bind (svc_of (conv_authorize cs workspaceId)) (\<lambda>_.
     let l = or_default limit 50 in
     svc_bind (svc_require (1 \<le> l \<and> l \<le> 100) (Conversation_Error INVALID_ARGUMENT)) (\<lambda>_.
     transaction (rop_bind (rop_read (listConversations workspaceId (nat l))) (rop_each (conv_summary now)))))"

record conversation_view =
  cw_summary :: conversation_summary
  cw_messages :: "message_row list"
  cw_runs :: "run_row list"

text \<open>The row of a conversation of the workspace.\<close>

definition owned_conversation :: "string \<Rightarrow> string \<Rightarrow> conversation_row rop" where
  "owned_conversation workspaceId conversationId =
     rop_bind (rop_found (Conversation_Error CONVERSATION_NOT_FOUND) (getConversation conversationId)) (\<lambda>row.
     rop_bind (rop_require (c_workspaceId row = workspaceId) (Conversation_Error WORKSPACE_ACCESS_DENIED)) (\<lambda>_.
     rop_return row))"

definition conversation_get :: "conversation_service \<Rightarrow> int \<Rightarrow> string \<Rightarrow> string \<Rightarrow> conversation_view svc" where
  "conversation_get cs now workspaceId conversationId =
     svc_bind (svc_of (conv_authorize cs workspaceId)) (\<lambda>_.
     svc_bind (svc_of (conv_bounded conversationId 128 any_text)) (\<lambda>_.
     transaction (
       rop_bind (owned_conversation workspaceId conversationId) (\<lambda>row.
       rop_bind (conv_summary now row) (\<lambda>summary.
       rop_bind (rop_read (\<lambda>s. (listMessages conversationId s, listRuns conversationId s))) (\<lambda>(ms, rs).
       rop_return \<lparr>cw_summary = summary, cw_messages = ms, cw_runs = rs\<rparr>))))))"

section \<open>Events\<close>

record event_input =
  ev_runId :: string
  ev_attemptId :: "string option"
  ev_eventType :: string
  ev_payload :: json
  ev_idempotencyKey :: "string option"
  ev_expectedSequence :: "int option"
  ev_emittedAt :: int

definition stored_event :: "event_input \<Rightarrow> string \<Rightarrow> int \<Rightarrow> event_row" where
  "stored_event i eventId sequence = \<lparr>e_runId = ev_runId i, e_sequence = sequence, e_eventId = eventId,
     e_attemptId = ev_attemptId i, e_eventType = ev_eventType i, e_payload = ev_payload i,
     e_idempotencyKey = ev_idempotencyKey i, e_emittedAt = ev_emittedAt i\<rparr>"

definition append_new :: "string \<Rightarrow> event_input \<Rightarrow> run_row \<Rightarrow> (event_row \<times> bool) rop" where
  "append_new eventId i run =
     rop_bind (rop_require (opt_eq (ev_expectedSequence i) (r_lastEventSequence run + 1)) (Conversation_Error EVENT_SEQUENCE_CONFLICT)) (\<lambda>_.
     rop_bind (nextEventSequence (ev_runId i) (ev_emittedAt i)) (\<lambda>sequence.
     rop_bind (rop_do (insertEvent (stored_event i eventId sequence))) (\<lambda>_.
     rop_return (stored_event i eventId sequence, False))))"

text \<open>The second component is \<open>replayed\<close>.\<close>

definition appendEventWithRepositories :: "string \<Rightarrow> event_input \<Rightarrow> (event_row \<times> bool) rop" where
  "appendEventWithRepositories eventId i =
     rop_bind (rop_of (conv_bounded (ev_eventType i) 128 event_type_pattern)) (\<lambda>_.
     rop_bind (rop_found (Conversation_Error RUN_NOT_FOUND) (getRun (ev_runId i))) (\<lambda>run.
     (case truthy (ev_idempotencyKey i) of
        None \<Rightarrow> append_new eventId i run
      | Some key \<Rightarrow>
          rop_bind (rop_of (conv_bounded key 128 key_pattern)) (\<lambda>_.
          rop_bind (rop_read (getEventByIdempotency (ev_runId i) key)) (\<lambda>existing.
          (case existing of
             None \<Rightarrow> append_new eventId i run
           | Some e \<Rightarrow>
               rop_bind (rop_require (e_eventType e = ev_eventType i \<and> e_attemptId e = ev_attemptId i
                   \<and> same_json (e_payload e) (ev_payload i)) (Conversation_Error EVENT_IDEMPOTENCY_CONFLICT)) (\<lambda>_.
               rop_return (e, True))))))))"

definition conversation_appendEvent :: "string \<Rightarrow> event_input \<Rightarrow> (event_row \<times> bool) svc" where
  "conversation_appendEvent eventId i = transaction (appendEventWithRepositories eventId i)"

text \<open>An event a method records about a run.\<close>

definition record_event :: "string \<Rightarrow> string \<Rightarrow> string option \<Rightarrow> string \<Rightarrow> json \<Rightarrow> string option \<Rightarrow> int \<Rightarrow> unit rop" where
  "record_event eventId runId attemptId eventType payload key now =
     rop_bind (appendEventWithRepositories eventId \<lparr>ev_runId = runId, ev_attemptId = attemptId, ev_eventType = eventType,
       ev_payload = payload, ev_idempotencyKey = key, ev_expectedSequence = None, ev_emittedAt = now\<rparr>) (\<lambda>_. rop_return ())"

section \<open>Submitting a message\<close>

definition new_attempt :: "string \<Rightarrow> string \<Rightarrow> int \<Rightarrow> int \<Rightarrow> attempt_row" where
  "new_attempt attemptId runId number now = \<lparr>a_attemptId = attemptId, a_runId = runId, a_attemptNumber = number,
     a_status = A_RUN R_CREATED, a_startedAt = None, a_endedAt = None, a_recoveryReason = None, a_providerId = None,
     a_modelId = None, a_maxTurns = None, a_maxModelCalls = None, a_maxToolCalls = None, a_maxOutputTokens = None,
     a_maxTotalTokens = None, a_maxDurationMs = None, a_usedTurns = 0, a_usedInputTokens = 0, a_usedOutputTokens = 0,
     a_modelCallCount = 0, a_toolCallCount = 0, a_terminalReason = None, a_createdAt = now, a_updatedAt = now\<rparr>"

record send_input =
  sd_workspaceId :: string
  sd_conversationId :: string
  sd_submissionKey :: string
  sd_text :: string

record send_result =
  sr_conversation :: conversation_summary
  sr_message :: message_row
  sr_run :: run_row
  sr_replayed :: bool

definition validateSendInput :: "conversation_service \<Rightarrow> send_input \<Rightarrow> err + unit" where
  "validateSendInput cs i =
     res_bind (conv_authorize cs (sd_workspaceId i)) (\<lambda>_.
     res_bind (conv_bounded (sd_conversationId i) 128 any_text) (\<lambda>_.
     res_bind (conv_bounded (sd_submissionKey i) 128 key_pattern) (\<lambda>_.
     res_bind (conv_bounded (sd_text i) 65536 any_text) (\<lambda>_. Inr ()))))"

definition send_hash :: "conversation_service \<Rightarrow> message_role \<Rightarrow> string \<Rightarrow> string" where
  "send_hash cs role text = conv_hash cs (if role = Role_user then JObj [(''text'', JStr text)]
     else JObj [(''role'', JStr ''system''), (''text'', JStr text)])"

text \<open>A submission that was made before.\<close>

definition send_replay :: "string \<Rightarrow> int \<Rightarrow> submission_row \<Rightarrow> send_result rop" where
  "send_replay inputHash now existing =
     rop_bind (rop_require (s_inputHash existing = inputHash) (Conversation_Error SUBMISSION_CONFLICT)) (\<lambda>_.
     rop_bind (rop_found Js_Error (getMessage (s_messageId existing))) (\<lambda>message.
     rop_bind (rop_found Js_Error (getRun (s_runId existing))) (\<lambda>run.
     rop_bind (rop_found Js_Error (getConversation (s_conversationId existing))) (\<lambda>row.
     rop_bind (conv_summary now row) (\<lambda>summary.
     rop_return \<lparr>sr_conversation = summary, sr_message = message, sr_run = run, sr_replayed = True\<rparr>)))))"

definition send_rows :: "(nat \<Rightarrow> string) \<Rightarrow> int \<Rightarrow> message_role \<Rightarrow> send_input \<Rightarrow> message_row rop" where
  "send_rows ids now role i =
     rop_bind (nextMessageSequence (sd_conversationId i) now) (\<lambda>sequence.
     let message = \<lparr>m_messageId = ids 0, m_conversationId = sd_conversationId i, m_sequence = sequence, m_role = role,
           m_content = JObj [(''type'', JStr ''text''), (''text'', JStr (sd_text i))], m_createdAt = now\<rparr> in
     rop_bind (rop_do (insertMessage message)) (\<lambda>_.
     rop_bind (rop_do (insertRun \<lparr>r_runId = ids 1, r_conversationId = sd_conversationId i, r_triggerMessageId = Some (ids 0),
         r_status = R_CREATED, r_recoveryState = NONE, r_currentAttemptId = Some (ids 2), r_lastEventSequence = 0,
         r_createdAt = now, r_startedAt = None, r_endedAt = None, r_updatedAt = now\<rparr>)) (\<lambda>_.
     rop_bind (rop_do (insertAttempt (new_attempt (ids 2) (ids 1) 1 now))) (\<lambda>_.
     rop_return message))))"

definition sendWithRepositories ::
    "conversation_service \<Rightarrow> (nat \<Rightarrow> string) \<Rightarrow> int \<Rightarrow> int \<Rightarrow> message_role \<Rightarrow> send_input \<Rightarrow> send_result rop" where
  "sendWithRepositories cs ids now now2 role i =
     rop_bind (owned_conversation (sd_workspaceId i) (sd_conversationId i)) (\<lambda>conversation.
     rop_bind (rop_read (getSubmission (sd_conversationId i) (sd_submissionKey i))) (\<lambda>existing.
     (case existing of
        Some submission \<Rightarrow> send_replay (send_hash cs role (sd_text i)) now2 submission
      | None \<Rightarrow>
          rop_bind (send_rows ids now role i) (\<lambda>message.
          rop_bind (appendEventWithRepositories (ids 3) \<lparr>ev_runId = ids 1, ev_attemptId = Some (ids 2), ev_eventType = ''run.created'',
              ev_payload = JObj [(''triggerMessageId'', JStr (ids 0))],
              ev_idempotencyKey = Some (''submission:'' @ sd_submissionKey i), ev_expectedSequence = Some 1, ev_emittedAt = now\<rparr>) (\<lambda>_.
          rop_bind (rop_do (insertSubmission \<lparr>s_conversationId = sd_conversationId i, s_submissionKey = sd_submissionKey i,
              s_inputHash = send_hash cs role (sd_text i), s_messageId = ids 0, s_runId = ids 1, s_createdAt = now\<rparr>)) (\<lambda>_.
          rop_bind (rebuildProjection (sd_conversationId i) now) (\<lambda>_.
          rop_bind (rop_found Js_Error (getConversation (sd_conversationId i))) (\<lambda>row.
          rop_bind (conv_summary now2 row) (\<lambda>summary.
          rop_bind (rop_found Js_Error (getRun (ids 1))) (\<lambda>run.
          rop_return \<lparr>sr_conversation = summary, sr_message = message, sr_run = run, sr_replayed = False\<rparr>))))))))))"

definition sendInTransaction :: "conversation_service \<Rightarrow> (nat \<Rightarrow> string) \<Rightarrow> int \<Rightarrow> int \<Rightarrow> send_input \<Rightarrow> send_result rop" where
  "sendInTransaction cs ids now now2 i =
     rop_bind (rop_of (validateSendInput cs i)) (\<lambda>_. sendWithRepositories cs ids now now2 Role_user i)"

definition sendSystemInTransaction :: "conversation_service \<Rightarrow> (nat \<Rightarrow> string) \<Rightarrow> int \<Rightarrow> int \<Rightarrow> send_input \<Rightarrow> send_result rop" where
  "sendSystemInTransaction cs ids now now2 i =
     rop_bind (rop_of (validateSendInput cs i)) (\<lambda>_. sendWithRepositories cs ids now now2 Role_system i)"

definition conversation_send :: "conversation_service \<Rightarrow> (nat \<Rightarrow> string) \<Rightarrow> int \<Rightarrow> int \<Rightarrow> send_input \<Rightarrow> send_result svc" where
  "conversation_send cs ids now now2 i =
     svc_bind (svc_of (validateSendInput cs i)) (\<lambda>_. transaction (sendWithRepositories cs ids now now2 Role_user i))"

section \<open>Executing a run\<close>

record execution_context =
  ec_conversation :: conversation_info
  ec_messages :: "message_row list"
  ec_run :: run_row
  ec_attempt :: attempt_row
  ec_budgetEnvelope :: "budget_row option"

definition state_invalid :: err where
  "state_invalid = Conversation_Error RUN_STATE_INVALID"

definition run_not_found :: err where
  "run_not_found = Conversation_Error RUN_NOT_FOUND"

definition found_run :: "string \<Rightarrow> run_row rop" where
  "found_run runId = rop_found run_not_found (getRun runId)"

text \<open>The current attempt of a run: an identifier that is not empty, and its row.\<close>

definition attempt_of_run :: "run_row \<Rightarrow> attempt_row rop" where
  "attempt_of_run run = (case truthy (r_currentAttemptId run) of
     None \<Rightarrow> rop_throw state_invalid
   | Some a \<Rightarrow> rop_found state_invalid (getAttempt a))"

definition context_of :: "conversation_row \<Rightarrow> run_row \<Rightarrow> attempt_row \<Rightarrow> execution_context rop" where
  "context_of conversation run attempt =
     rop_bind (rop_read (\<lambda>s. (listMessages (c_conversationId conversation) s, getBudgetEnvelope (r_runId run) s))) (\<lambda>(ms, budget).
     rop_return \<lparr>ec_conversation = asConversation conversation, ec_messages = ms, ec_run = run, ec_attempt = attempt,
       ec_budgetEnvelope = budget\<rparr>)"

definition executionContext :: "string \<Rightarrow> execution_context svc" where
  "executionContext runId = transaction (
     rop_bind (found_run runId) (\<lambda>run.
     rop_bind (rop_found (Conversation_Error CONVERSATION_NOT_FOUND) (getConversation (r_conversationId run))) (\<lambda>conversation.
     rop_bind (attempt_of_run run) (\<lambda>attempt.
     context_of conversation run attempt))))"

text \<open>What \<open>updateRun\<close> is called with; the projection of the task is left to the ledger unless said otherwise.\<close>

definition run_set ::
    "run_row \<Rightarrow> run_status \<Rightarrow> recovery_state \<Rightarrow> string option \<Rightarrow> int option \<Rightarrow> int option \<Rightarrow> int \<Rightarrow> run_update" where
  "run_set run status recovery attemptId startedAt endedAt now = \<lparr>ru_runId = r_runId run, ru_status = status,
     ru_recoveryState = recovery, ru_currentAttemptId = attemptId, ru_startedAt = startedAt, ru_endedAt = endedAt,
     ru_updatedAt = now, ru_taskProjectionLost = False, ru_taskProjectionErrorCode = None, ru_taskCompletionText = None\<rparr>"

definition insert_next_attempt :: "string \<Rightarrow> run_row \<Rightarrow> int \<Rightarrow> unit rop" where
  "insert_next_attempt attemptId run now =
     rop_bind (rop_read (nextAttemptNumber (r_runId run))) (\<lambda>number.
     rop_do (insertAttempt (new_attempt attemptId (r_runId run) number now)))"

text \<open>A run whose attempt was aborted gets the next attempt before it is prepared.\<close>

definition replace_aborted :: "(nat \<Rightarrow> string) \<Rightarrow> int \<Rightarrow> run_row \<Rightarrow> attempt_row \<Rightarrow> attempt_row rop" where
  "replace_aborted ids now run attempt =
     (if r_status run = R_CREATED \<and> a_status attempt = A_ABORTED then
        rop_bind (insert_next_attempt (ids 0) run now) (\<lambda>_.
        rop_bind (rop_do (updateRun (run_set run (r_status run) (r_recoveryState run) (Some (ids 0)) (r_startedAt run) None now))) (\<lambda>_.
        rop_bind (record_event (ids 1) (r_runId run) (Some (ids 0)) ''run.attempt.prepared''
          (JObj [(''previousAttemptId'', JStr (a_attemptId attempt)), (''previousRecoveryReason'', jopt_str (a_recoveryReason attempt))])
          None now) (\<lambda>_.
        rop_bind (rebuildProjection (r_conversationId run) now) (\<lambda>_.
        rop_found state_invalid (getAttempt (ids 0))))))
      else rop_return attempt)"

definition prepareExecutionAttempt :: "(nat \<Rightarrow> string) \<Rightarrow> int \<Rightarrow> string \<Rightarrow> execution_context svc" where
  "prepareExecutionAttempt ids now runId = transaction (
     rop_bind (found_run runId) (\<lambda>run.
     rop_bind (rop_require (r_status run = R_CREATED \<or> r_status run = R_WAITING_APPROVAL) state_invalid) (\<lambda>_.
     rop_bind (rop_found (Conversation_Error CONVERSATION_NOT_FOUND) (getConversation (r_conversationId run))) (\<lambda>conversation.
     rop_bind (attempt_of_run run) (\<lambda>first.
     rop_bind (replace_aborted ids now run first) (\<lambda>attempt.
     rop_bind (rop_require (r_status run = R_CREATED \<longrightarrow> a_status attempt = A_RUN R_CREATED) state_invalid) (\<lambda>_.
     rop_bind (rop_require (r_status run = R_WAITING_APPROVAL \<longrightarrow> a_status attempt = A_RUN R_WAITING_APPROVAL) state_invalid) (\<lambda>_.
     rop_bind (rop_found state_invalid (getRun runId)) (\<lambda>currentRun.
     rop_bind (attempt_of_run currentRun) (\<lambda>currentAttempt.
     context_of conversation currentRun currentAttempt))))))))))"

definition runnableRunIds :: "string list svc" where
  "runnableRunIds = svc_read (\<lambda>s. map r_runId (listCreatedRuns s))"

record execution_budget =
  eb_maxTurns :: int
  eb_maxModelCalls :: int
  eb_maxToolCalls :: int
  eb_maxOutputTokens :: int
  eb_maxTotalTokens :: "int option"
  eb_maxDurationMs :: "int option"

definition total_tokens :: "execution_budget \<Rightarrow> int" where
  "total_tokens b = or_default (eb_maxTotalTokens b) 65536"

definition duration_ms :: "execution_budget \<Rightarrow> int" where
  "duration_ms b = or_default (eb_maxDurationMs b) (15 * 60 * 1000)"

definition same_budget :: "execution_budget \<Rightarrow> budget_row \<Rightarrow> bool" where
  "same_budget b e \<longleftrightarrow> be_maxTurns e = eb_maxTurns b \<and> be_maxModelCalls e = eb_maxModelCalls b
     \<and> be_maxToolCalls e = eb_maxToolCalls b \<and> be_maxOutputTokens e = eb_maxOutputTokens b
     \<and> be_maxTotalTokens e = total_tokens b \<and> be_maxDurationMs e = duration_ms b"

definition root_envelope :: "run_row \<Rightarrow> string \<Rightarrow> execution_budget \<Rightarrow> int \<Rightarrow> budget_row" where
  "root_envelope run workspaceId b now = \<lparr>be_runId = r_runId run, be_rootRunId = r_runId run, be_parentRunId = None, be_depth = 0,
     be_maxTurns = eb_maxTurns b, be_maxModelCalls = eb_maxModelCalls b, be_maxToolCalls = eb_maxToolCalls b,
     be_maxOutputTokens = eb_maxOutputTokens b, be_maxTotalTokens = total_tokens b, be_maxDurationMs = duration_ms b,
     be_deadlineAt = or_default (r_startedAt run) now + duration_ms b, be_maxDelegationDepth = 0, be_maxActiveChildren = 0,
     be_maxTotalChildren = 0, be_allowedWorkspaceIds = [workspaceId], be_allowedSkillIds = [], be_allowedToolNames = [],
     be_usedTurns = 0, be_usedInputTokens = 0, be_usedOutputTokens = 0, be_usedModelCalls = 0, be_usedToolCalls = 0,
     be_delegatedUsedTurns = 0, be_delegatedUsedInputTokens = 0, be_delegatedUsedOutputTokens = 0,
     be_delegatedUsedModelCalls = 0, be_delegatedUsedToolCalls = 0, be_createdAt = now, be_updatedAt = now\<rparr>"

definition budget_json :: "execution_budget \<Rightarrow> json" where
  "budget_json b = JObj [(''maxTurns'', JNum (eb_maxTurns b)), (''maxModelCalls'', JNum (eb_maxModelCalls b)),
     (''maxToolCalls'', JNum (eb_maxToolCalls b)), (''maxOutputTokens'', JNum (eb_maxOutputTokens b)),
     (''maxTotalTokens'', JNum (total_tokens b)), (''maxDurationMs'', JNum (duration_ms b))]"

text \<open>The attempt an execution starts: the current one, or a new one where it is missing or aborted.\<close>

definition startable_attempt :: "(nat \<Rightarrow> string) \<Rightarrow> int \<Rightarrow> run_row \<Rightarrow> string rop" where
  "startable_attempt ids now run =
     rop_bind (rop_read (\<lambda>s. case truthy (r_currentAttemptId run) of None \<Rightarrow> None | Some a \<Rightarrow> getAttempt a s)) (\<lambda>attempt.
     (case attempt of
        Some a \<Rightarrow> if a_status a = A_ABORTED then rop_bind (insert_next_attempt (ids 0) run now) (\<lambda>_. rop_return (ids 0))
                  else rop_return (a_attemptId a)
      | None \<Rightarrow> rop_bind (insert_next_attempt (ids 0) run now) (\<lambda>_. rop_return (ids 0))))"

definition claim_envelope :: "run_row \<Rightarrow> string \<Rightarrow> execution_budget \<Rightarrow> int \<Rightarrow> unit rop" where
  "claim_envelope run workspaceId b now =
     rop_bind (rop_read (getBudgetEnvelope (r_runId run))) (\<lambda>existing.
     (case existing of
        Some e \<Rightarrow> rop_require (same_budget b e) (Conversation_Error DELEGATION_BUDGET_CONFLICT)
      | None \<Rightarrow> rop_do (insertBudgetEnvelope (root_envelope run workspaceId b now))))"

definition startExecution ::
    "(nat \<Rightarrow> string) \<Rightarrow> int \<Rightarrow> string \<Rightarrow> string \<Rightarrow> string \<Rightarrow> execution_budget \<Rightarrow> execution_context svc" where
  "startExecution ids now runId providerId modelId b = transaction (
     rop_bind (found_run runId) (\<lambda>run.
     rop_bind (rop_require (r_status run = R_CREATED) state_invalid) (\<lambda>_.
     rop_bind (startable_attempt ids now run) (\<lambda>attemptId.
     rop_bind (rop_require (attemptId \<noteq> []) state_invalid) (\<lambda>_.
     rop_bind (rop_found (Conversation_Error CONVERSATION_NOT_FOUND) (getConversation (r_conversationId run))) (\<lambda>conversation.
     rop_bind (claim_envelope run (c_workspaceId conversation) b now) (\<lambda>_.
     rop_bind (rop_do (configureAttempt attemptId \<lparr>ac_providerId = providerId, ac_modelId = modelId, ac_maxTurns = eb_maxTurns b,
         ac_maxModelCalls = eb_maxModelCalls b, ac_maxToolCalls = eb_maxToolCalls b, ac_maxOutputTokens = eb_maxOutputTokens b,
         ac_maxTotalTokens = total_tokens b, ac_maxDurationMs = duration_ms b, ac_updatedAt = now\<rparr>)) (\<lambda>_.
     rop_bind (rop_do (updateAttempt attemptId (A_RUN R_RUNNING) (Some now) None None now)) (\<lambda>_.
     rop_bind (rop_do (updateRun (run_set run R_RUNNING NONE (Some attemptId) (Some now) None now))) (\<lambda>_.
     rop_bind (record_event (ids 1) runId (Some attemptId) ''run.started''
       (JObj [(''providerId'', JStr providerId), (''modelId'', JStr modelId), (''budget'', budget_json b)])
       (Some (''run-start:'' @ attemptId)) now) (\<lambda>_.
     rop_bind (rebuildProjection (r_conversationId run) now) (\<lambda>_.
     rop_bind (rop_found Js_Error (getRun runId)) (\<lambda>started.
     rop_bind (rop_found Js_Error (getAttempt attemptId)) (\<lambda>attempt.
     context_of conversation started attempt))))))))))))))"

definition appendExecutionMessage :: "string \<Rightarrow> int \<Rightarrow> string \<Rightarrow> message_role \<Rightarrow> json \<Rightarrow> message_row svc" where
  "appendExecutionMessage messageId now runId role content = transaction (
     rop_bind (found_run runId) (\<lambda>run.
     rop_bind (rop_require (\<not> run_terminal (r_status run)) state_invalid) (\<lambda>_.
     rop_bind (nextMessageSequence (r_conversationId run) now) (\<lambda>sequence.
     let message = \<lparr>m_messageId = messageId, m_conversationId = r_conversationId run, m_sequence = sequence, m_role = role,
           m_content = content, m_createdAt = now\<rparr> in
     rop_bind (rop_do (insertMessage message)) (\<lambda>_.
     rop_bind (rebuildProjection (r_conversationId run) now) (\<lambda>_.
     rop_return message))))))"

definition startModelInvocation ::
    "string \<Rightarrow> int \<Rightarrow> string \<Rightarrow> string \<Rightarrow> int \<Rightarrow> int \<Rightarrow> string \<Rightarrow> string \<Rightarrow> string \<Rightarrow> invocation_row svc" where
  "startModelInvocation invocationId now runId attemptId turnNumber requestNumber providerId modelId requestHash =
     (let row = \<lparr>i_invocationId = invocationId, i_runId = runId, i_attemptId = attemptId, i_turnNumber = turnNumber,
           i_requestNumber = requestNumber, i_providerId = providerId, i_modelId = modelId, i_requestHash = requestHash,
           i_status = I_STARTED, i_providerResponseId = None, i_inputTokens = 0, i_outputTokens = 0, i_errorCode = None,
           i_startedAt = now, i_endedAt = None\<rparr> in
      transaction (rop_bind (rop_do (insertModelInvocation row)) (\<lambda>_. rop_return row)))"

definition finishModelInvocation ::
    "int \<Rightarrow> string \<Rightarrow> invocation_status \<Rightarrow> string option \<Rightarrow> int \<Rightarrow> int \<Rightarrow> string option \<Rightarrow> unit svc" where
  "finishModelInvocation now invocationId status providerResponseId inputTokens outputTokens errorCode =
     transaction (rop_do (completeModelInvocation invocationId status providerResponseId inputTokens outputTokens errorCode now))"

section \<open>Usage\<close>

definition usage_beyond :: "attempt_usage \<Rightarrow> attempt_usage \<Rightarrow> attempt_usage" where
  "usage_beyond u prior = \<lparr>au_turns = max 0 (au_turns u - au_turns prior), au_inputTokens = max 0 (au_inputTokens u - au_inputTokens prior),
     au_outputTokens = max 0 (au_outputTokens u - au_outputTokens prior), au_modelCalls = max 0 (au_modelCalls u - au_modelCalls prior),
     au_toolCalls = max 0 (au_toolCalls u - au_toolCalls prior)\<rparr>"

definition updateExecutionUsage :: "int \<Rightarrow> string \<Rightarrow> attempt_usage \<Rightarrow> string option \<Rightarrow> attempt_row svc" where
  "updateExecutionUsage now runId u terminalReason = transaction (
     rop_bind (found_run runId) (\<lambda>run.
     (case truthy (r_currentAttemptId run) of
        None \<Rightarrow> rop_throw run_not_found
      | Some attemptId \<Rightarrow>
          rop_bind (rop_read (aggregateRunUsageExcluding runId attemptId)) (\<lambda>prior.
          rop_bind (rop_do (updateAttemptUsage attemptId (usage_beyond u prior) terminalReason now)) (\<lambda>_.
          rop_bind (rop_read (getBudgetEnvelope runId)) (\<lambda>envelope.
          rop_bind (rop_when (envelope \<noteq> None) (rop_do (updateBudgetUsage runId u now))) (\<lambda>_.
          rop_found Js_Error (getAttempt attemptId))))))))"

section \<open>Transitions\<close>

record transition_input =
  ti_runId :: string
  ti_status :: run_status
  ti_eventType :: "string option"
  ti_payload :: json
  ti_taskCompletionText :: "string option"

definition attempt_for :: "(nat \<Rightarrow> string) \<Rightarrow> int \<Rightarrow> run_status \<Rightarrow> run_row \<Rightarrow> string option rop" where
  "attempt_for ids now status run =
     rop_bind (rop_read (\<lambda>s. case truthy (r_currentAttemptId run) of None \<Rightarrow> None | Some a \<Rightarrow> getAttempt a s)) (\<lambda>attempt.
     if status = R_RUNNING \<and> (case attempt of None \<Rightarrow> True | Some a \<Rightarrow> a_status a = A_ABORTED)
     then rop_bind (insert_next_attempt (ids 0) run now) (\<lambda>_. rop_return (Some (ids 0)))
     else rop_return (r_currentAttemptId run))"

definition attempt_follows :: "string option \<Rightarrow> attempt_status \<Rightarrow> int option \<Rightarrow> int option \<Rightarrow> string option \<Rightarrow> int \<Rightarrow> unit rop" where
  "attempt_follows attemptId status startedAt endedAt reason now = (case truthy attemptId of
     None \<Rightarrow> rop_return ()
   | Some a \<Rightarrow> rop_do (updateAttempt a status startedAt endedAt reason now))"

definition transitionRun :: "(nat \<Rightarrow> string) \<Rightarrow> int \<Rightarrow> transition_input \<Rightarrow> run_row svc" where
  "transitionRun ids now i = transaction (
     rop_bind (found_run (ti_runId i)) (\<lambda>run.
     rop_bind (rop_require (ti_status i \<in> TRANSITIONS (r_status run)) state_invalid) (\<lambda>_.
     let endedAt = (if run_terminal (ti_status i) then Some now else None) in
     rop_bind (attempt_for ids now (ti_status i) run) (\<lambda>attemptId.
     rop_bind (rop_do (updateRun ((run_set run (ti_status i) NONE attemptId
         (if ti_status i = R_RUNNING then Some now else r_startedAt run) endedAt now)\<lparr>ru_taskCompletionText := ti_taskCompletionText i\<rparr>))) (\<lambda>_.
     rop_bind (attempt_follows attemptId (A_RUN (ti_status i)) (if ti_status i = R_RUNNING then Some now else None) endedAt None now) (\<lambda>_.
     rop_bind (record_event (ids 1) (ti_runId i) attemptId
       (or_default (ti_eventType i) (''run.'' @ js_lower (run_status_name (ti_status i))))
       (if ti_payload i = JUndef \<or> ti_payload i = JNull then JObj [] else ti_payload i) None now) (\<lambda>_.
     rop_bind (rebuildProjection (r_conversationId run) now) (\<lambda>_.
     rop_found Js_Error (getRun (ti_runId i))))))))))"

definition usage_json :: "attempt_usage \<Rightarrow> json" where
  "usage_json u = JObj [(''turns'', JNum (au_turns u)), (''inputTokens'', JNum (au_inputTokens u)),
     (''outputTokens'', JNum (au_outputTokens u)), (''modelCalls'', JNum (au_modelCalls u)), (''toolCalls'', JNum (au_toolCalls u))]"

text \<open>The methods that first record the usage: \<open>now\<close> is read by the first transaction, \<open>now2\<close> by the second.\<close>

definition waitForApproval :: "(nat \<Rightarrow> string) \<Rightarrow> int \<Rightarrow> int \<Rightarrow> string \<Rightarrow> attempt_usage \<Rightarrow> string \<Rightarrow> run_row svc" where
  "waitForApproval ids now now2 runId u requestId =
     svc_bind (updateExecutionUsage now runId u (Some ''WAITING_APPROVAL'')) (\<lambda>_.
     transitionRun ids now2 \<lparr>ti_runId = runId, ti_status = R_WAITING_APPROVAL, ti_eventType = Some ''approval.requested'',
       ti_payload = JObj [(''requestId'', JStr requestId)], ti_taskCompletionText = None\<rparr>)"

definition completeExecution ::
    "(nat \<Rightarrow> string) \<Rightarrow> int \<Rightarrow> int \<Rightarrow> string \<Rightarrow> attempt_usage \<Rightarrow> string \<Rightarrow> string option \<Rightarrow> run_row svc" where
  "completeExecution ids now now2 runId u terminalReason completionText =
     svc_bind (updateExecutionUsage now runId u (Some terminalReason)) (\<lambda>_.
     transitionRun ids now2 \<lparr>ti_runId = runId, ti_status = R_COMPLETED, ti_eventType = Some ''run.completed'',
       ti_payload = JObj [(''terminalReason'', JStr terminalReason), (''usage'', usage_json u)],
       ti_taskCompletionText = completionText\<rparr>)"

definition failExecution :: "(nat \<Rightarrow> string) \<Rightarrow> int \<Rightarrow> int \<Rightarrow> string \<Rightarrow> attempt_usage \<Rightarrow> string \<Rightarrow> string \<Rightarrow> run_row svc" where
  "failExecution ids now now2 runId u errorCode message =
     svc_bind (updateExecutionUsage now runId u (Some errorCode)) (\<lambda>_.
     transitionRun ids now2 \<lparr>ti_runId = runId, ti_status = R_FAILED, ti_eventType = Some ''run.failed'',
       ti_payload = JObj [(''errorCode'', JStr errorCode), (''message'', JStr message)], ti_taskCompletionText = None\<rparr>)"

definition waits_here :: "run_row \<Rightarrow> string \<Rightarrow> string \<Rightarrow> result_delivery_row option \<Rightarrow> bool" where
  "waits_here run attemptId toolCallId delivery = (case delivery of None \<Rightarrow> False
     | Some w \<Rightarrow> dr_parentRunId w = r_runId run \<and> dr_parentAttemptId w = attemptId \<and> dr_parentToolCallId w = toolCallId
         \<and> dr_status w = DR_PENDING)"

definition waitForDelegation :: "string \<Rightarrow> int \<Rightarrow> int \<Rightarrow> string \<Rightarrow> attempt_usage \<Rightarrow> string \<Rightarrow> string \<Rightarrow> run_row svc" where
  "waitForDelegation eventId now now2 runId u delegationId toolCallId =
     svc_bind (updateExecutionUsage now runId u (Some ''WAITING_DELEGATION'')) (\<lambda>_.
     transaction (
       rop_bind (found_run runId) (\<lambda>run.
       (case truthy (r_currentAttemptId run) of
          None \<Rightarrow> rop_throw run_not_found
        | Some attemptId \<Rightarrow>
            rop_bind (rop_require (r_status run = R_RUNNING) state_invalid) (\<lambda>_.
            rop_bind (rop_read (getResultDelivery delegationId)) (\<lambda>delivery.
            rop_bind (rop_require (waits_here run attemptId toolCallId delivery) state_invalid) (\<lambda>_.
            rop_bind (rop_do (updateAttempt attemptId A_ABORTED None (Some now2) (Some ''DELEGATION_WAIT'') now2)) (\<lambda>_.
            rop_bind (rop_do (updateRun (run_set run R_CREATED RESUMABLE (Some attemptId) (r_startedAt run) None now2))) (\<lambda>_.
            rop_bind (record_event eventId runId (Some attemptId) ''delegation.waiting''
              (JObj [(''delegationId'', JStr delegationId), (''toolCallId'', JStr toolCallId)])
              (Some (''delegation-wait:'' @ delegationId)) now2) (\<lambda>_.
            rop_bind (rebuildProjection (r_conversationId run) now2) (\<lambda>_.
            rop_found Js_Error (getRun runId))))))))))))"

definition resumeExecution :: "string \<Rightarrow> int \<Rightarrow> string \<Rightarrow> execution_context svc" where
  "resumeExecution eventId now runId = transaction (
     rop_bind (found_run runId) (\<lambda>run.
     rop_bind (rop_require (r_status run = R_WAITING_APPROVAL \<and> truthy (r_currentAttemptId run) \<noteq> None) state_invalid) (\<lambda>_.
     rop_bind (attempt_of_run run) (\<lambda>attempt.
     rop_bind (rop_require (a_status attempt = A_RUN R_WAITING_APPROVAL) state_invalid) (\<lambda>_.
     rop_bind (rop_do (updateRun (run_set run R_RUNNING NONE (r_currentAttemptId run) (Some (or_default (r_startedAt run) now)) None now))) (\<lambda>_.
     rop_bind (rop_do (updateAttempt (a_attemptId attempt) (A_RUN R_RUNNING) (Some (or_default (a_startedAt attempt) now)) None None now)) (\<lambda>_.
     rop_bind (record_event eventId runId (r_currentAttemptId run) ''run.resumed'' (JObj [(''from'', JStr ''WAITING_APPROVAL'')]) None now) (\<lambda>_.
     rop_bind (rebuildProjection (r_conversationId run) now) (\<lambda>_.
     rop_bind (rop_found Js_Error (getConversation (r_conversationId run))) (\<lambda>conversation.
     rop_bind (rop_found Js_Error (getRun runId)) (\<lambda>resumed.
     rop_bind (rop_found Js_Error (getAttempt (a_attemptId attempt))) (\<lambda>running.
     context_of conversation resumed running))))))))))))"

section \<open>Results of approved tools\<close>

definition is_tool_result :: "string \<Rightarrow> message_row \<Rightarrow> bool" where
  "is_tool_result toolCallId m \<longleftrightarrow> m_role m = Role_tool
     \<and> json_field ''type'' (m_content m) = JStr ''tool_result'' \<and> json_field ''toolCallId'' (m_content m) = JStr toolCallId"

definition same_tool_result :: "string \<Rightarrow> json \<Rightarrow> bool \<Rightarrow> json \<Rightarrow> bool" where
  "same_tool_result name output isError content \<longleftrightarrow> json_field ''name'' content = JStr name
     \<and> json_field ''isError'' content = JBool isError \<and> same_json (json_field ''output'' content) output"

definition append_tool_result ::
    "(nat \<Rightarrow> string) \<Rightarrow> int \<Rightarrow> run_row \<Rightarrow> string \<Rightarrow> string \<Rightarrow> string \<Rightarrow> json \<Rightarrow> bool \<Rightarrow> message_row rop" where
  "append_tool_result ids now run requestId toolCallId name output isError =
     rop_bind (nextMessageSequence (r_conversationId run) now) (\<lambda>sequence.
     let message = \<lparr>m_messageId = ids 0, m_conversationId = r_conversationId run, m_sequence = sequence, m_role = Role_tool,
           m_content = JObj [(''type'', JStr ''tool_result''), (''toolCallId'', JStr toolCallId), (''name'', JStr name),
             (''output'', output), (''isError'', JBool isError)], m_createdAt = now\<rparr> in
     rop_bind (rop_do (insertMessage message)) (\<lambda>_.
     rop_bind (record_event (ids 1) (r_runId run) (r_currentAttemptId run) ''approval.resolved''
       (JObj [(''requestId'', JStr requestId), (''toolCallId'', JStr toolCallId), (''name'', JStr name), (''isError'', JBool isError)])
       (Some (''approval-result:'' @ requestId)) now) (\<lambda>_.
     rop_bind (record_event (ids 2) (r_runId run) (r_currentAttemptId run) ''tool.completed''
       (JObj [(''toolCallId'', JStr toolCallId), (''name'', JStr name), (''isError'', JBool isError), (''resumedFromApproval'', JBool True)])
       (Some (''tool-complete:'' @ toolCallId)) now) (\<lambda>_.
     rop_bind (rebuildProjection (r_conversationId run) now) (\<lambda>_.
     rop_return message)))))"

definition appendApprovalToolResult ::
    "(nat \<Rightarrow> string) \<Rightarrow> int \<Rightarrow> string \<Rightarrow> string \<Rightarrow> string \<Rightarrow> string \<Rightarrow> json \<Rightarrow> bool \<Rightarrow> message_row svc" where
  "appendApprovalToolResult ids now runId requestId toolCallId name output isError = transaction (
     rop_bind (found_run runId) (\<lambda>run.
     rop_bind (rop_require (\<not> run_terminal (r_status run)) state_invalid) (\<lambda>_.
     rop_bind (rop_require (truthy (r_currentAttemptId run) \<noteq> None) state_invalid) (\<lambda>_.
     rop_bind (rop_read (\<lambda>s. find (is_tool_result toolCallId) (listMessages (r_conversationId run) s))) (\<lambda>existing.
     (case existing of
        Some m \<Rightarrow>
          rop_bind (rop_require (same_tool_result name output isError (m_content m)) (Conversation_Error EVENT_IDEMPOTENCY_CONFLICT)) (\<lambda>_.
          rop_return m)
      | None \<Rightarrow> append_tool_result ids now run requestId toolCallId name output isError))))))"

section \<open>Cancelling, losing, interrupting\<close>

definition conversation_cancel :: "conversation_service \<Rightarrow> string \<Rightarrow> int \<Rightarrow> string \<Rightarrow> string \<Rightarrow> string \<Rightarrow> (run_row \<times> bool) svc" where
  "conversation_cancel cs eventId now workspaceId conversationId runId =
     svc_bind (svc_of (conv_authorize cs workspaceId)) (\<lambda>_.
     transaction (
       rop_bind (owned_conversation workspaceId conversationId) (\<lambda>conversation.
       rop_bind (found_run runId) (\<lambda>run.
       rop_bind (rop_require (r_conversationId run = conversationId) run_not_found) (\<lambda>_.
       if run_terminal (r_status run) then rop_return (run, True)
       else
         rop_bind (rop_do (updateRun (run_set run R_CANCELLED NONE (r_currentAttemptId run) (r_startedAt run) (Some now) now))) (\<lambda>_.
         rop_bind (attempt_follows (r_currentAttemptId run) (A_RUN R_CANCELLED) None (Some now) None now) (\<lambda>_.
         rop_bind (record_event eventId runId (r_currentAttemptId run) ''run.cancelled'' (JObj [(''reason'', JStr ''user'')])
           (Some ''cancel'') now) (\<lambda>_.
         rop_bind (rebuildProjection conversationId now) (\<lambda>_.
         rop_bind (rop_found Js_Error (getRun runId)) (\<lambda>cancelled.
         rop_return (cancelled, False)))))))))))"

definition conversation_rebuildProjection :: "int \<Rightarrow> string \<Rightarrow> projection_row svc" where
  "conversation_rebuildProjection now conversationId = transaction (
     rop_bind (rop_found (Conversation_Error CONVERSATION_NOT_FOUND) (getConversation conversationId)) (\<lambda>_.
     rebuildProjection conversationId now))"

record classification =
  rc_runId :: string
  rc_previousStatus :: run_status
  rc_status :: run_status
  rc_recoveryState :: recovery_state

definition unchanged_run :: "run_row \<Rightarrow> classification" where
  "unchanged_run run = \<lparr>rc_runId = r_runId run, rc_previousStatus = r_status run, rc_status = r_status run,
     rc_recoveryState = r_recoveryState run\<rparr>"

definition attempt_over :: "attempt_status \<Rightarrow> bool" where
  "attempt_over st \<longleftrightarrow> st \<in> {A_RUN R_COMPLETED, A_RUN R_FAILED, A_RUN R_CANCELLED, A_ABORTED}"

definition usage_of_attempt :: "attempt_row \<Rightarrow> attempt_usage" where
  "usage_of_attempt a = \<lparr>au_turns = a_usedTurns a, au_inputTokens = a_usedInputTokens a, au_outputTokens = a_usedOutputTokens a,
     au_modelCalls = a_modelCallCount a, au_toolCalls = a_toolCallCount a\<rparr>"

definition lose_attempt :: "string option \<Rightarrow> string \<Rightarrow> int \<Rightarrow> unit rop" where
  "lose_attempt attemptId errorCode now = (case truthy attemptId of
     None \<Rightarrow> rop_return ()
   | Some a \<Rightarrow>
       rop_bind (rop_read (getAttempt a)) (\<lambda>found.
       (case found of
          None \<Rightarrow> rop_return ()
        | Some attempt \<Rightarrow>
            rop_bind (rop_when (\<not> attempt_over (a_status attempt))
              (rop_do (updateAttempt a A_ABORTED (a_startedAt attempt) (Some now) (Some errorCode) now))) (\<lambda>_.
            rop_do (updateAttemptUsage a (usage_of_attempt attempt) (Some errorCode) now)))))"

definition markExecutionLost :: "string \<Rightarrow> int \<Rightarrow> string \<Rightarrow> string \<Rightarrow> classification svc" where
  "markExecutionLost eventId now runId errorCode =
     svc_bind (svc_of (conv_bounded errorCode 128 lost_code_pattern)) (\<lambda>_.
     transaction (
       rop_bind (found_run runId) (\<lambda>run.
       if run_terminal (r_status run) then rop_return (unchanged_run run)
       else
         rop_bind (rop_require (r_status run \<noteq> R_WAITING_APPROVAL) state_invalid) (\<lambda>_.
         rop_bind (\<lambda>s. Inr (recoverStartedModelInvocations runId now s)) (\<lambda>_.
         rop_bind (lose_attempt (r_currentAttemptId run) errorCode now) (\<lambda>_.
         rop_bind (rop_do (updateRun ((run_set run R_FAILED NON_RESUMABLE (r_currentAttemptId run) (r_startedAt run) (Some now) now)
             \<lparr>ru_taskProjectionLost := True, ru_taskProjectionErrorCode := Some errorCode\<rparr>))) (\<lambda>_.
         rop_bind (record_event eventId runId (r_currentAttemptId run) ''run.execution_lost''
           (JObj [(''previousStatus'', JStr (run_status_name (r_status run))), (''status'', JStr ''FAILED''),
             (''recoveryState'', JStr ''NON_RESUMABLE''), (''errorCode'', JStr errorCode)]) (Some ''execution-lost'') now) (\<lambda>_.
         rop_bind (rebuildProjection (r_conversationId run) now) (\<lambda>_.
         rop_return \<lparr>rc_runId = runId, rc_previousStatus = r_status run, rc_status = R_FAILED,
           rc_recoveryState = NON_RESUMABLE\<rparr>)))))))))"

definition interruptExecution :: "string \<Rightarrow> int \<Rightarrow> string \<Rightarrow> string \<Rightarrow> classification svc" where
  "interruptExecution eventId now runId recoveryReason = transaction (
     rop_bind (found_run runId) (\<lambda>run.
     if r_status run \<noteq> R_RUNNING then rop_return (unchanged_run run)
     else
       rop_bind (rop_read (listEvents runId)) (\<lambda>events.
       let recoverable = hasRecoverableCheckpoint events;
           status = (if recoverable then R_CREATED else R_FAILED);
           recovery = (if recoverable then RESUMABLE else NON_RESUMABLE) in
       rop_bind (\<lambda>s. Inr (recoverStartedModelInvocations runId now s)) (\<lambda>_.
       rop_bind (attempt_follows (r_currentAttemptId run) A_ABORTED None (Some now) (Some recoveryReason) now) (\<lambda>_.
       rop_bind (rop_do (updateRun (run_set run status recovery (r_currentAttemptId run) (r_startedAt run)
           (if status = R_FAILED then Some now else None) now))) (\<lambda>_.
       rop_bind (record_event eventId runId (r_currentAttemptId run) ''run.interrupted''
         (JObj [(''previousStatus'', JStr (run_status_name (r_status run))), (''status'', JStr (run_status_name status)),
           (''recoveryState'', JStr (recovery_text recovery)), (''recoveryReason'', JStr recoveryReason),
           (''checkpointRecoverable'', JBool recoverable)]) None now) (\<lambda>_.
       rop_bind (rebuildProjection (r_conversationId run) now) (\<lambda>_.
       rop_return \<lparr>rc_runId = runId, rc_previousStatus = r_status run, rc_status = status, rc_recoveryState = recovery\<rparr>))))))))"

section \<open>Recovery after a restart\<close>

definition recover_run_state :: "string \<Rightarrow> int \<Rightarrow> run_row \<Rightarrow> classification rop" where
  "recover_run_state eventId now run =
     rop_bind (rop_read (\<lambda>s. (hasRecoverableCheckpoint (listEvents (r_runId run) s), hasActiveWait (r_runId run) s))) (\<lambda>(checkpoint, waiting).
     let resumable = r_status run = R_WAITING_APPROVAL \<or> checkpoint \<or> waiting;
         status = (if resumable then if r_status run = R_WAITING_APPROVAL then R_WAITING_APPROVAL else R_CREATED else R_FAILED);
         recovery = (if resumable then RESUMABLE else NON_RESUMABLE) in
     rop_bind (\<lambda>s. Inr (recoverStartedModelInvocations (r_runId run) now s)) (\<lambda>_.
     rop_bind (if r_status run = R_RUNNING
       then attempt_follows (r_currentAttemptId run) A_ABORTED None (Some now) (Some ''HOST_RESTART'') now else rop_return ()) (\<lambda>_.
     rop_bind (rop_do (updateRun (run_set run status recovery (r_currentAttemptId run) (r_startedAt run)
         (if status = R_FAILED then Some now else None) now))) (\<lambda>_.
     rop_bind (record_event eventId (r_runId run) (r_currentAttemptId run) ''run.recovery_classified''
       (JObj [(''previousStatus'', JStr (run_status_name (r_status run))), (''status'', JStr (run_status_name status)),
         (''recoveryState'', JStr (recovery_text recovery)), (''waitingDelegation'', JBool waiting)])
       (Some (''recovery:'' @ show_int (r_lastEventSequence run))) now) (\<lambda>_.
     rop_bind (rebuildProjection (r_conversationId run) now) (\<lambda>_.
     rop_return \<lparr>rc_runId = r_runId run, rc_previousStatus = r_status run, rc_status = status, rc_recoveryState = recovery\<rparr>))))))"

text \<open>The loop over the runs read before it, each with its identifier and its reading of the clock.\<close>

definition recoverIncompleteRuns :: "(string \<Rightarrow> string) \<Rightarrow> (string \<Rightarrow> int) \<Rightarrow> classification list svc" where
  "recoverIncompleteRuns eventIds now = transaction (
     rop_bind (rop_read listIncompleteRuns) (\<lambda>runs.
     rop_each (\<lambda>run. recover_run_state (eventIds (r_runId run)) (now (r_runId run)) run) runs))"

definition conversation_events :: "string \<Rightarrow> event_row list svc" where
  "conversation_events runId = svc_read (listEvents runId)"

definition conversation_modelInvocations :: "string \<Rightarrow> invocation_row list svc" where
  "conversation_modelInvocations runId = svc_read (listModelInvocations runId)"

end
