(* ===== verification/Workspace_Ledger.thy ===== *)
theory Workspace_Ledger
  imports State_Db
begin

text \<open>
  \<open>packages/state/src/workspace-repository.ts\<close>: the registered workspaces and the artifacts runs left in them.
\<close>

definition upsertWorkspace :: "workspace_row \<Rightarrow> db \<Rightarrow> err + db" where
  "upsertWorkspace row s = Inr (s\<lparr>workspace_registrations :=
     (if list_ex (\<lambda>w. wg_workspaceId w = wg_workspaceId row) (workspace_registrations s)
      then tbl_modify (\<lambda>w. wg_workspaceId w = wg_workspaceId row) (\<lambda>_. row) (workspace_registrations s)
      else workspace_registrations s @ [row])\<rparr>)"

definition getWorkspace :: "string \<Rightarrow> db \<Rightarrow> workspace_row option" where
  "getWorkspace workspaceId s = tbl_get wg_workspaceId workspaceId (workspace_registrations s)"

definition listWorkspaces :: "db \<Rightarrow> workspace_row list" where
  "listWorkspaces s = sort_key wg_workspaceId (workspace_registrations s)"

definition getArtifact :: "string \<Rightarrow> db \<Rightarrow> artifact_row option" where
  "getArtifact artifactId s = tbl_get wa_artifactId artifactId (workspace_artifacts s)"

definition insertArtifact :: "artifact_row \<Rightarrow> db \<Rightarrow> err + db" where
  "insertArtifact row s =
     res_bind (require (0 \<le> wa_sizeBytes row) (Sql_Constraint Sql_Check)) (\<lambda>_.
     res_bind (require (getArtifact (wa_artifactId row) s = None) (Sql_Constraint (Sql_Unique ''workspace_artifacts.artifact_id''))) (\<lambda>_.
     res_bind (require (getRun (wa_runId row) s \<noteq> None \<and> getAttempt (wa_attemptId row) s \<noteq> None
         \<and> getWorkspace (wa_workspaceId row) s \<noteq> None) (Sql_Constraint Sql_ForeignKey)) (\<lambda>_.
     Inr (s\<lparr>workspace_artifacts := workspace_artifacts s @ [row]\<rparr>))))"

definition listRecentArtifacts :: "nat \<Rightarrow> db \<Rightarrow> artifact_row list" where
  "listRecentArtifacts limit s = take limit (rev (sort_key (\<lambda>a. (wa_createdAt a, wa_artifactId a)) (workspace_artifacts s)))"

definition listArtifacts :: "string \<Rightarrow> db \<Rightarrow> artifact_row list" where
  "listArtifacts runId s = sort_key (\<lambda>a. (wa_createdAt a, wa_artifactId a)) (filter (\<lambda>a. wa_runId a = runId) (workspace_artifacts s))"

end
