(* ===== verification/Delegation_Service.thy ===== *)
theory Delegation_Service
  imports Conversation_Service Workspace_Ledger
begin

text \<open>
  \<open>packages/conversations/src/delegation.ts\<close>: a run hands work to a child run within a budget, waits for it and
  gets its result. Parameters: the hash \<open>sha256\<close>, the clock and the identifiers (\<open>ids 0\<close> is the first that is
  created in a call). All exceptions of the argument checks have one code, so each check is one predicate.
\<close>

section \<open>Budgets and scopes\<close>

record delegation_service =
  ds_workspaceIds :: "string list"
  ds_sha256 :: "string \<Rightarrow> string"

record delegation_budget =
  bu_maxTurns :: int
  bu_maxModelCalls :: int
  bu_maxToolCalls :: int
  bu_maxOutputTokens :: int
  bu_maxTotalTokens :: int
  bu_maxDurationMs :: int
  bu_maxDelegationDepth :: int
  bu_maxActiveChildren :: int
  bu_maxTotalChildren :: int

record delegation_scope =
  dl_workspaceIds :: "string list"
  dl_skillIds :: "string list"
  dl_toolNames :: "string list"

definition delegation_invalid :: err where
  "delegation_invalid = Conversation_Error INVALID_ARGUMENT"

definition boundedText :: "string \<Rightarrow> nat \<Rightarrow> (string \<Rightarrow> bool) \<Rightarrow> err + string" where
  "boundedText v limit pattern = (if v = [] \<or> length v > limit \<or> \<not> pattern v then Inl delegation_invalid else Inr v)"

definition normalizedSet :: "string list \<Rightarrow> (string \<Rightarrow> bool) \<Rightarrow> err + string list" where
  "normalizedSet vs pattern =
     res_bind (require (length vs \<le> 256) delegation_invalid) (\<lambda>_.
     res_bind (res_map (\<lambda>v. boundedText v 128 pattern) vs) (\<lambda>xs.
     let result = sort (remdups xs) in
     res_bind (require (length result = length vs) delegation_invalid) (\<lambda>_. Inr result)))"

definition normalizeBudget :: "delegation_budget \<Rightarrow> err + delegation_budget" where
  "normalizeBudget b =
     res_bind (require (1 \<le> bu_maxTurns b \<and> 1 \<le> bu_maxModelCalls b \<and> 0 \<le> bu_maxToolCalls b \<and> 1 \<le> bu_maxOutputTokens b
         \<and> 1 \<le> bu_maxTotalTokens b \<and> 1 \<le> bu_maxDurationMs b \<and> 0 \<le> bu_maxDelegationDepth b
         \<and> 0 \<le> bu_maxActiveChildren b \<and> 0 \<le> bu_maxTotalChildren b) delegation_invalid) (\<lambda>_.
     res_bind (require (bu_maxDelegationDepth b \<le> 16 \<and> bu_maxActiveChildren b \<le> 64 \<and> bu_maxTotalChildren b \<le> 1024) delegation_invalid) (\<lambda>_.
     res_bind (require (bu_maxActiveChildren b \<le> bu_maxTotalChildren b) delegation_invalid) (\<lambda>_.
     res_bind (require (bu_maxOutputTokens b \<le> bu_maxTotalTokens b) delegation_invalid) (\<lambda>_. Inr b))))"

text \<open>\<open>/^[A-Za-z0-9][A-Za-z0-9._:-]{0,127}$/\<close> and \<open>/^[a-z][a-z0-9._-]{0,127}$/\<close>.\<close>

definition skill_pattern :: "string \<Rightarrow> bool" where
  "skill_pattern v \<longleftrightarrow> starts_then alnum (\<lambda>c. alnum c \<or> c \<in> set ''._:-'') v \<and> length v \<le> 128"

definition tool_pattern :: "string \<Rightarrow> bool" where
  "tool_pattern v \<longleftrightarrow> starts_then lower_letter (\<lambda>c. lower_alnum c \<or> c \<in> set ''._-'') v \<and> length v \<le> 128"

definition normalizeScope :: "delegation_scope \<Rightarrow> err + delegation_scope" where
  "normalizeScope sc =
     res_bind (normalizedSet (dl_workspaceIds sc) workspace_pattern) (\<lambda>w.
     res_bind (normalizedSet (dl_skillIds sc) skill_pattern) (\<lambda>k.
     res_bind (normalizedSet (dl_toolNames sc) tool_pattern) (\<lambda>t.
     Inr \<lparr>dl_workspaceIds = w, dl_skillIds = k, dl_toolNames = t\<rparr>)))"

definition subset_of :: "string list \<Rightarrow> string list \<Rightarrow> bool" where
  "subset_of child parent = list_all (\<lambda>v. v \<in> set parent) child"

definition limits_json :: "int list \<Rightarrow> json" where
  "limits_json ns = JObj (zip [''maxTurns'', ''maxModelCalls'', ''maxToolCalls'', ''maxOutputTokens'', ''maxTotalTokens'',
     ''maxDurationMs'', ''maxDelegationDepth'', ''maxActiveChildren'', ''maxTotalChildren''] (map JNum ns))"

definition envelope_limits :: "budget_row \<Rightarrow> int list" where
  "envelope_limits b = [be_maxTurns b, be_maxModelCalls b, be_maxToolCalls b, be_maxOutputTokens b, be_maxTotalTokens b,
     be_maxDurationMs b, be_maxDelegationDepth b, be_maxActiveChildren b, be_maxTotalChildren b]"

definition budget_limits :: "delegation_budget \<Rightarrow> int list" where
  "budget_limits b = [bu_maxTurns b, bu_maxModelCalls b, bu_maxToolCalls b, bu_maxOutputTokens b, bu_maxTotalTokens b,
     bu_maxDurationMs b, bu_maxDelegationDepth b, bu_maxActiveChildren b, bu_maxTotalChildren b]"

definition budgetSignature :: "budget_row \<Rightarrow> json" where
  "budgetSignature b = limits_json (envelope_limits b)"

definition same_strings :: "string list \<Rightarrow> string list \<Rightarrow> bool" where
  "same_strings l r = same_json (JArr (map JStr l)) (JArr (map JStr r))"

definition sameBudgetAndScope :: "budget_row \<Rightarrow> delegation_budget \<Rightarrow> delegation_scope \<Rightarrow> bool" where
  "sameBudgetAndScope existing budget scope \<longleftrightarrow>
     same_json (budgetSignature existing) (limits_json (budget_limits budget))
     \<and> same_strings (be_allowedWorkspaceIds existing) (dl_workspaceIds scope)
     \<and> same_strings (be_allowedSkillIds existing) (dl_skillIds scope)
     \<and> same_strings (be_allowedToolNames existing) (dl_toolNames scope)"

definition effectiveUsage :: "budget_row \<Rightarrow> attempt_usage" where
  "effectiveUsage b = \<lparr>au_turns = be_usedTurns b + be_delegatedUsedTurns b,
     au_inputTokens = be_usedInputTokens b + be_delegatedUsedInputTokens b,
     au_outputTokens = be_usedOutputTokens b + be_delegatedUsedOutputTokens b,
     au_modelCalls = be_usedModelCalls b + be_delegatedUsedModelCalls b,
     au_toolCalls = be_usedToolCalls b + be_delegatedUsedToolCalls b\<rparr>"

definition new_envelope ::
    "string \<Rightarrow> string \<Rightarrow> string option \<Rightarrow> int \<Rightarrow> delegation_budget \<Rightarrow> delegation_scope \<Rightarrow> int \<Rightarrow> budget_row" where
  "new_envelope runId rootRunId parentRunId depth b scope now = \<lparr>be_runId = runId, be_rootRunId = rootRunId, be_parentRunId = parentRunId,
     be_depth = depth, be_maxTurns = bu_maxTurns b, be_maxModelCalls = bu_maxModelCalls b, be_maxToolCalls = bu_maxToolCalls b,
     be_maxOutputTokens = bu_maxOutputTokens b, be_maxTotalTokens = bu_maxTotalTokens b, be_maxDurationMs = bu_maxDurationMs b,
     be_deadlineAt = now + bu_maxDurationMs b, be_maxDelegationDepth = bu_maxDelegationDepth b,
     be_maxActiveChildren = bu_maxActiveChildren b, be_maxTotalChildren = bu_maxTotalChildren b,
     be_allowedWorkspaceIds = dl_workspaceIds scope, be_allowedSkillIds = dl_skillIds scope, be_allowedToolNames = dl_toolNames scope,
     be_usedTurns = 0, be_usedInputTokens = 0, be_usedOutputTokens = 0, be_usedModelCalls = 0, be_usedToolCalls = 0,
     be_delegatedUsedTurns = 0, be_delegatedUsedInputTokens = 0, be_delegatedUsedOutputTokens = 0,
     be_delegatedUsedModelCalls = 0, be_delegatedUsedToolCalls = 0, be_createdAt = now, be_updatedAt = now\<rparr>"

definition configureRootBudget ::
    "delegation_service \<Rightarrow> int \<Rightarrow> string \<Rightarrow> delegation_budget \<Rightarrow> delegation_scope \<Rightarrow> budget_row svc" where
  "configureRootBudget ds now runId budget scope =
     svc_bind (svc_of (normalizeBudget budget)) (\<lambda>b.
     svc_bind (svc_of (normalizeScope scope)) (\<lambda>sc.
     transaction (
       rop_bind (found_run runId) (\<lambda>run.
       rop_bind (rop_found (Conversation_Error CONVERSATION_NOT_FOUND) (getConversation (r_conversationId run))) (\<lambda>conversation.
       rop_bind (rop_require (c_workspaceId conversation \<in> set (ds_workspaceIds ds) \<and> c_workspaceId conversation \<in> set (dl_workspaceIds sc))
         (Conversation_Error WORKSPACE_ACCESS_DENIED)) (\<lambda>_.
       rop_bind (rop_read (getBudgetEnvelope runId)) (\<lambda>existing.
       (case existing of
          Some envelope \<Rightarrow>
            rop_bind (rop_require (sameBudgetAndScope envelope b sc) (Conversation_Error DELEGATION_BUDGET_CONFLICT)) (\<lambda>_.
            rop_return envelope)
        | None \<Rightarrow>
            let row = new_envelope runId runId None 0 b sc now in
            rop_bind (rop_do (insertBudgetEnvelope row)) (\<lambda>_. rop_return row)))))))))"

definition delegation_budget_of :: "string \<Rightarrow> budget_row option svc" where
  "delegation_budget_of runId = svc_read (getBudgetEnvelope runId)"

definition delegation_get :: "string \<Rightarrow> delegation_row option svc" where
  "delegation_get delegationId = svc_read (getDelegation delegationId)"

definition getByChildRun :: "string \<Rightarrow> delegation_row option svc" where
  "getByChildRun childRunId = svc_read (getDelegationByChildRun childRunId)"

section \<open>The result of a child\<close>

definition delegation_status_name :: "delegation_status \<Rightarrow> string" where
  "delegation_status_name st = (case st of N_CREATED \<Rightarrow> ''CREATED'' | N_RUNNING \<Rightarrow> ''RUNNING'' | N_WAITING \<Rightarrow> ''WAITING''
     | N_COMPLETED \<Rightarrow> ''COMPLETED'' | N_FAILED \<Rightarrow> ''FAILED'' | N_CANCELLED \<Rightarrow> ''CANCELLED'' | N_TIMED_OUT \<Rightarrow> ''TIMED_OUT'')"

definition expected_output_name :: "expected_output \<Rightarrow> string" where
  "expected_output_name x = (case x of TEXT \<Rightarrow> ''TEXT'' | JSON \<Rightarrow> ''JSON'' | ARTIFACTS \<Rightarrow> ''ARTIFACTS'')"

definition artifact_kind_name :: "artifact_kind \<Rightarrow> string" where
  "artifact_kind_name k = (case k of READ_OUTPUT \<Rightarrow> ''READ_OUTPUT'' | SEARCH_OUTPUT \<Rightarrow> ''SEARCH_OUTPUT'' | FILE_CHANGE \<Rightarrow> ''FILE_CHANGE''
     | BROWSER_SCREENSHOT \<Rightarrow> ''BROWSER_SCREENSHOT'' | BROWSER_DOWNLOAD \<Rightarrow> ''BROWSER_DOWNLOAD'')"

record terminal_result =
  tr_delegationId :: string
  tr_childRunId :: string
  tr_status :: delegation_status
  tr_expectedOutput :: expected_output
  tr_summary :: "string option"
  tr_artifacts :: "artifact_row list"
  tr_usage :: attempt_usage
  tr_errorCode :: "string option"
  tr_truncated :: bool

definition artifact_json :: "artifact_row \<Rightarrow> json" where
  "artifact_json a = JObj [(''artifactId'', JStr (wa_artifactId a)), (''kind'', JStr (artifact_kind_name (wa_kind a))),
     (''workspaceId'', JStr (wa_workspaceId a)), (''relativePath'', jopt_str (wa_relativePath a)), (''sizeBytes'', JNum (wa_sizeBytes a))]"

definition result_json :: "terminal_result \<Rightarrow> json" where
  "result_json r = JObj [(''delegationId'', JStr (tr_delegationId r)), (''childRunId'', JStr (tr_childRunId r)),
     (''status'', JStr (delegation_status_name (tr_status r))), (''expectedOutput'', JStr (expected_output_name (tr_expectedOutput r))),
     (''summary'', jopt_str (tr_summary r)), (''artifacts'', JArr (map artifact_json (tr_artifacts r))),
     (''usage'', JObj [(''turns'', JNum (au_turns (tr_usage r))), (''inputTokens'', JNum (au_inputTokens (tr_usage r))),
        (''outputTokens'', JNum (au_outputTokens (tr_usage r))), (''modelCalls'', JNum (au_modelCalls (tr_usage r))),
        (''toolCalls'', JNum (au_toolCalls (tr_usage r)))]),
     (''errorCode'', jopt_str (tr_errorCode r)), (''truncated'', JBool (tr_truncated r))]"

text \<open>\<open>sha256\<close>: a string is hashed as it is, any other value as its canonical text.\<close>

definition delegation_sha256 :: "delegation_service \<Rightarrow> json \<Rightarrow> string" where
  "delegation_sha256 ds v = ds_sha256 ds (case v of JStr t \<Rightarrow> t | _ \<Rightarrow> canonical v)"

definition boundedSummary :: "string \<Rightarrow> string \<times> bool" where
  "boundedSummary v = (if length v \<le> 8192 then (v, False) else (take 8192 v, True))"

definition terminalStatusForRun :: "run_status \<Rightarrow> string option \<Rightarrow> delegation_status" where
  "terminalStatusForRun st reason =
     (if st = R_COMPLETED then N_COMPLETED else if st = R_CANCELLED then N_CANCELLED
      else if reason = Some ''AGENT_TIME_BUDGET_EXCEEDED'' then N_TIMED_OUT else N_FAILED)"

definition assistant_text :: "message_row \<Rightarrow> string option" where
  "assistant_text m = (if m_role m \<noteq> Role_assistant then None
     else (case m_content m of
        JObj ms \<Rightarrow>
          if json_field ''type'' (m_content m) \<noteq> JStr ''assistant'' then None
          else (case json_field ''text'' (m_content m) of JStr t \<Rightarrow> truthy (Some t) | _ \<Rightarrow> None)
      | _ \<Rightarrow> None))"

definition first_some :: "('a \<Rightarrow> 'b option) \<Rightarrow> 'a list \<Rightarrow> 'b option" where
  "first_some f xs = (case find (\<lambda>x. f x \<noteq> None) xs of None \<Rightarrow> None | Some x \<Rightarrow> f x)"

definition failure_code :: "event_row list \<Rightarrow> string option" where
  "failure_code events = (case find (\<lambda>e. e_eventType e = ''run.failed'') (rev events) of
     None \<Rightarrow> None
   | Some e \<Rightarrow> (case e_payload e of JObj ms \<Rightarrow> (case json_field ''errorCode'' (e_payload e) of JStr c \<Rightarrow> Some c | _ \<Rightarrow> None) | _ \<Rightarrow> None))"

definition attempt_reason :: "run_row \<Rightarrow> db \<Rightarrow> string option" where
  "attempt_reason run s = (case truthy (r_currentAttemptId run) of None \<Rightarrow> None
     | Some a \<Rightarrow> (case getAttempt a s of None \<Rightarrow> None | Some attempt \<Rightarrow> a_terminalReason attempt))"

definition result_of :: "delegation_row \<Rightarrow> run_row \<Rightarrow> db \<Rightarrow> terminal_result" where
  "result_of d childRun s =
     (let summary = map_option boundedSummary (first_some assistant_text (rev (listMessages (dg_childConversationId d) s)));
          all = listArtifacts (dg_childRunId d) s; artifacts = take 32 all; code = failure_code (listEvents (dg_childRunId d) s) in
      \<lparr>tr_delegationId = dg_delegationId d, tr_childRunId = dg_childRunId d, tr_status = dg_status d,
       tr_expectedOutput = dg_expectedOutput d, tr_summary = map_option fst summary, tr_artifacts = artifacts,
       tr_usage = aggregateRunUsage (dg_childRunId d) s,
       tr_errorCode = (if truthy code = None \<and> dg_status d \<noteq> N_COMPLETED
          then Some (or_default (attempt_reason childRun s) (delegation_status_name (dg_status d))) else code),
       tr_truncated = ((case summary of Some (_, t) \<Rightarrow> t | None \<Rightarrow> False) \<or> length artifacts < length all)\<rparr>)"

definition terminal_result_of :: "delegation_row \<Rightarrow> terminal_result rop" where
  "terminal_result_of d =
     rop_bind (rop_require (\<not> delegation_active (dg_status d)) state_invalid) (\<lambda>_.
     rop_bind (rop_found state_invalid (getRun (dg_childRunId d))) (\<lambda>childRun.
     rop_bind (rop_require (run_terminal (r_status childRun)) state_invalid) (\<lambda>_.
     rop_read (result_of d childRun))))"

definition delegation_missing :: err where
  "delegation_missing = Conversation_Error DELEGATION_NOT_FOUND"

definition delegation_of_parent :: "string \<Rightarrow> string \<Rightarrow> delegation_row rop" where
  "delegation_of_parent parentRunId delegationId =
     rop_bind (rop_found delegation_missing (getDelegation delegationId)) (\<lambda>d.
     rop_bind (rop_require (dg_parentRunId d = parentRunId) delegation_missing) (\<lambda>_. rop_return d))"

definition terminalResult :: "string \<Rightarrow> string \<Rightarrow> terminal_result option svc" where
  "terminalResult parentRunId delegationId = transaction (
     rop_bind (delegation_of_parent parentRunId delegationId) (\<lambda>d.
     if delegation_active (dg_status d) then rop_return None
     else rop_bind (terminal_result_of d) (\<lambda>r. rop_return (Some r))))"

section \<open>What a client sees of a delegation\<close>

record delegation_view =
  dq_delegation :: delegation_row
  dq_waiting :: bool
  dq_budget :: budget_row
  dq_usage :: attempt_usage
  dq_summary :: "string option"
  dq_artifacts :: "artifact_row list"
  dq_errorCode :: "string option"
  dq_truncated :: bool
  dq_events :: "delegation_event_row list"

text \<open>\<open>#publicView\<close>; of the rows it shows a selection of the columns.\<close>

definition publicView :: "delegation_row \<Rightarrow> delegation_view rop" where
  "publicView d =
     rop_bind (rop_found state_invalid (getBudgetEnvelope (dg_childRunId d))) (\<lambda>budget.
     rop_bind (if delegation_active (dg_status d) then rop_return None
       else rop_bind (terminal_result_of d) (\<lambda>r. rop_return (Some r))) (\<lambda>terminal.
     rop_read (\<lambda>s. let events = delegation_listEvents (dg_delegationId d) s in
       \<lparr>dq_delegation = d,
        dq_waiting = list_ex (\<lambda>w. dw_delegationId w = dg_delegationId d) (listWaits (dg_parentRunId d) s),
        dq_budget = budget, dq_usage = effectiveUsage budget,
        dq_summary = (case terminal of None \<Rightarrow> None | Some t \<Rightarrow> tr_summary t),
        dq_artifacts = (case terminal of None \<Rightarrow> [] | Some t \<Rightarrow> tr_artifacts t),
        dq_errorCode = (case terminal of None \<Rightarrow> None | Some t \<Rightarrow> tr_errorCode t),
        dq_truncated = (case terminal of None \<Rightarrow> False | Some t \<Rightarrow> tr_truncated t),
        dq_events = drop (length events - 100) events\<rparr>)))"

definition listPublic ::
    "string option \<Rightarrow> string option \<Rightarrow> delegation_status option \<Rightarrow> int option \<Rightarrow> delegation_view list svc" where
  "listPublic rootRunId parentRunId status limit =
     (let l = or_default limit 100 in
      svc_bind (svc_require (1 \<le> l \<and> l \<le> 200) delegation_invalid) (\<lambda>_.
      transaction (rop_bind (rop_read (listDelegations rootRunId parentRunId status (nat l))) (rop_each publicView))))"

definition getPublic :: "string \<Rightarrow> delegation_view svc" where
  "getPublic delegationId =
     svc_bind (svc_of (boundedText delegationId 128 any_text)) (\<lambda>_.
     transaction (rop_bind (rop_found delegation_missing (getDelegation delegationId)) publicView))"

section \<open>Events of a run\<close>

definition append_run_event :: "string \<Rightarrow> string \<Rightarrow> string option \<Rightarrow> string \<Rightarrow> json \<Rightarrow> string \<Rightarrow> int \<Rightarrow> unit rop" where
  "append_run_event eventId runId attemptId eventType payload key emittedAt =
     rop_bind (rop_read (getEventByIdempotency runId key)) (\<lambda>existing.
     (case existing of
        Some e \<Rightarrow> rop_require (e_eventType e = eventType \<and> e_attemptId e = attemptId \<and> same_json (e_payload e) payload)
          (Conversation_Error EVENT_IDEMPOTENCY_CONFLICT)
      | None \<Rightarrow>
          rop_bind (nextEventSequence runId emittedAt) (\<lambda>sequence.
          rop_do (insertEvent \<lparr>e_runId = runId, e_sequence = sequence, e_eventId = eventId, e_attemptId = attemptId,
            e_eventType = eventType, e_payload = payload, e_idempotencyKey = Some key, e_emittedAt = emittedAt\<rparr>))))"

definition delegation_event :: "string \<Rightarrow> delegation_event_type \<Rightarrow> json \<Rightarrow> int \<Rightarrow> unit rop" where
  "delegation_event delegationId eventType payload emittedAt =
     rop_bind (rop_read (delegation_nextEventSequence delegationId)) (\<lambda>sequence.
     rop_do (delegation_insertEvent \<lparr>dv_delegationId = delegationId, dv_sequence = sequence, dv_eventType = eventType,
       dv_payload = payload, dv_emittedAt = emittedAt\<rparr>))"

definition releaseReservation :: "delegation_row \<Rightarrow> delegation_status \<Rightarrow> int \<Rightarrow> bool rop" where
  "releaseReservation d reason releasedAt =
     rop_bind (rop_found state_invalid (getBudgetEnvelope (dg_childRunId d))) (\<lambda>childBudget.
     rop_bind (releaseBudgetReservation (dg_delegationId d) reason (effectiveUsage childBudget) releasedAt) (\<lambda>(released, _).
     rop_return released))"

section \<open>Creating a delegated run\<close>

record delegate_input =
  dt_parentRunId :: string
  dt_parentAttemptId :: string
  dt_idempotencyKey :: string
  dt_task :: string
  dt_workspaceId :: string
  dt_budget :: delegation_budget
  dt_scope :: delegation_scope
  dt_expectedOutput :: expected_output
  dt_parentToolCallId :: "string option"

record delegate_result =
  dx_delegation :: delegation_row
  dx_childBudget :: budget_row
  dx_replayed :: bool

definition check_delegate_input :: "delegation_service \<Rightarrow> delegate_input \<Rightarrow> err + (delegation_budget \<times> delegation_scope)" where
  "check_delegate_input ds i =
     res_bind (boundedText (dt_idempotencyKey i) 128 key_pattern) (\<lambda>_.
     res_bind (boundedText (dt_task i) 65536 any_text) (\<lambda>_.
     res_bind (boundedText (dt_parentAttemptId i) 128 any_text) (\<lambda>_.
     res_bind (case dt_parentToolCallId i of None \<Rightarrow> Inr [] | Some t \<Rightarrow> boundedText t 128 any_text) (\<lambda>_.
     res_bind (normalizeBudget (dt_budget i)) (\<lambda>requested.
     res_bind (normalizeScope (dt_scope i)) (\<lambda>scope.
     res_bind (require (dt_workspaceId i \<in> set (dl_workspaceIds scope) \<and> dt_workspaceId i \<in> set (ds_workspaceIds ds))
       (Conversation_Error WORKSPACE_ACCESS_DENIED)) (\<lambda>_.
     Inr (requested, scope))))))))"

definition delegate_parent :: "delegate_input \<Rightarrow> (run_row \<times> budget_row) rop" where
  "delegate_parent i =
     rop_bind (found_run (dt_parentRunId i)) (\<lambda>parentRun.
     rop_bind (rop_require (\<not> run_terminal (r_status parentRun)) state_invalid) (\<lambda>_.
     rop_bind (rop_require (r_currentAttemptId parentRun = Some (dt_parentAttemptId i)) state_invalid) (\<lambda>_.
     rop_bind (rop_found state_invalid (getAttempt (dt_parentAttemptId i))) (\<lambda>attempt.
     rop_bind (rop_require (a_runId attempt = r_runId parentRun) state_invalid) (\<lambda>_.
     rop_bind (rop_found (Conversation_Error DELEGATION_BUDGET_NOT_CONFIGURED) (getBudgetEnvelope (dt_parentRunId i))) (\<lambda>parentBudget.
     rop_return (parentRun, parentBudget)))))))"

definition delegate_replay ::
    "delegation_service \<Rightarrow> delegate_input \<Rightarrow> delegation_budget \<Rightarrow> delegation_scope \<Rightarrow> delegation_row \<Rightarrow> delegate_result rop" where
  "delegate_replay ds i requested scope existing =
     rop_bind (rop_found state_invalid (getBudgetEnvelope (dg_childRunId existing))) (\<lambda>childBudget.
     rop_bind (rop_require (dg_taskSha256 existing = ds_sha256 ds (dt_task i)
         \<and> dg_parentAttemptId existing = dt_parentAttemptId i \<and> dg_parentToolCallId existing = dt_parentToolCallId i
         \<and> dg_expectedOutput existing = dt_expectedOutput i
         \<and> same_strings (dg_workspaceScope existing) (dl_workspaceIds scope)
         \<and> same_strings (dg_skillIds existing) (dl_skillIds scope)
         \<and> same_strings (dg_toolNames existing) (dl_toolNames scope)
         \<and> same_json (budgetSignature childBudget) (limits_json (budget_limits requested)))
       (Conversation_Error DELEGATION_IDEMPOTENCY_CONFLICT)) (\<lambda>_.
     rop_return \<lparr>dx_delegation = existing, dx_childBudget = childBudget, dx_replayed = True\<rparr>))"

text \<open>What the parent has left: its limits less what it used, what its children used and what is reserved for them.\<close>

definition remaining_turns :: "budget_row \<Rightarrow> reservation_summary \<Rightarrow> int" where
  "remaining_turns p r = be_maxTurns p - be_usedTurns p - be_delegatedUsedTurns p - rv_reservedTurns r"

definition remaining_modelCalls :: "budget_row \<Rightarrow> reservation_summary \<Rightarrow> int" where
  "remaining_modelCalls p r = be_maxModelCalls p - be_usedModelCalls p - be_delegatedUsedModelCalls p - rv_reservedModelCalls r"

definition remaining_toolCalls :: "budget_row \<Rightarrow> reservation_summary \<Rightarrow> int" where
  "remaining_toolCalls p r = be_maxToolCalls p - be_usedToolCalls p - be_delegatedUsedToolCalls p - rv_reservedToolCalls r"

definition remaining_totalTokens :: "budget_row \<Rightarrow> reservation_summary \<Rightarrow> int" where
  "remaining_totalTokens p r = be_maxTotalTokens p - be_usedInputTokens p - be_usedOutputTokens p
     - be_delegatedUsedInputTokens p - be_delegatedUsedOutputTokens p - rv_reservedTotalTokens r"

definition admit :: "budget_row \<Rightarrow> reservation_summary \<Rightarrow> delegation_budget \<Rightarrow> delegation_scope \<Rightarrow> int \<Rightarrow> err + unit" where
  "admit p r requested scope now =
     res_bind (require (subset_of (dl_workspaceIds scope) (be_allowedWorkspaceIds p) \<and> subset_of (dl_skillIds scope) (be_allowedSkillIds p)
         \<and> subset_of (dl_toolNames scope) (be_allowedToolNames p)) (Conversation_Error DELEGATION_SCOPE_ESCALATION)) (\<lambda>_.
     res_bind (require (be_depth p + 1 \<le> be_maxDelegationDepth p) (Conversation_Error DELEGATION_DEPTH_EXCEEDED)) (\<lambda>_.
     res_bind (require (bu_maxDelegationDepth requested \<le> be_maxDelegationDepth p \<and> bu_maxActiveChildren requested \<le> be_maxActiveChildren p
         \<and> bu_maxTotalChildren requested \<le> be_maxTotalChildren p) (Conversation_Error DELEGATION_BUDGET_ESCALATION)) (\<lambda>_.
     res_bind (require (bu_maxOutputTokens requested \<le> be_maxOutputTokens p) (Conversation_Error DELEGATION_BUDGET_ESCALATION)) (\<lambda>_.
     res_bind (require (\<not> (be_deadlineAt p - now \<le> 0 \<or> bu_maxDurationMs requested > be_deadlineAt p - now))
       (Conversation_Error DELEGATION_TIME_BUDGET_EXCEEDED)) (\<lambda>_.
     res_bind (require (int (rv_activeChildren r) < be_maxActiveChildren p) (Conversation_Error DELEGATION_ACTIVE_CHILD_LIMIT)) (\<lambda>_.
     res_bind (require (int (rv_totalChildren r) < be_maxTotalChildren p) (Conversation_Error DELEGATION_TOTAL_CHILD_LIMIT)) (\<lambda>_.
     require (bu_maxTurns requested \<le> remaining_turns p r \<and> bu_maxModelCalls requested \<le> remaining_modelCalls p r
         \<and> bu_maxToolCalls requested \<le> remaining_toolCalls p r \<and> bu_maxTotalTokens requested \<le> remaining_totalTokens p r)
       (Conversation_Error DELEGATION_BUDGET_EXCEEDED))))))))"

definition child_rows :: "delegation_service \<Rightarrow> (nat \<Rightarrow> string) \<Rightarrow> int \<Rightarrow> delegate_input \<Rightarrow> run_row \<Rightarrow> unit rop" where
  "child_rows ds ids now i parentRun =
     rop_bind (rop_read (\<lambda>s. case getConversation (r_conversationId parentRun) s of None \<Rightarrow> ''default'' | Some c \<Rightarrow> c_modelProfile c)) (\<lambda>profile.
     rop_bind (rop_do (createConversation \<lparr>c_conversationId = ids 1, c_workspaceId = dt_workspaceId i, c_modelProfile = profile,
       c_title = Some ''Delegated work'', c_status = ACTIVE, c_lastMessageSequence = 0, c_createdAt = now, c_updatedAt = now\<rparr>)) (\<lambda>_.
     rop_bind (nextMessageSequence (ids 1) now) (\<lambda>sequence.
     rop_bind (rop_do (insertMessage \<lparr>m_messageId = ids 2, m_conversationId = ids 1, m_sequence = sequence, m_role = Role_user,
       m_content = JObj [(''type'', JStr ''text''), (''text'', JStr (dt_task i))], m_createdAt = now\<rparr>)) (\<lambda>_.
     rop_bind (rop_do (insertRun \<lparr>r_runId = ids 3, r_conversationId = ids 1, r_triggerMessageId = Some (ids 2),
       r_status = R_CREATED, r_recoveryState = NONE, r_currentAttemptId = Some (ids 4), r_lastEventSequence = 0,
       r_createdAt = now, r_startedAt = None, r_endedAt = None, r_updatedAt = now\<rparr>)) (\<lambda>_.
     rop_bind (rop_do (insertAttempt (new_attempt (ids 4) (ids 3) 1 now))) (\<lambda>_.
     rop_bind (nextEventSequence (ids 3) now) (\<lambda>n.
     rop_bind (rop_do (insertEvent \<lparr>e_runId = ids 3, e_sequence = n, e_eventId = ids 5, e_attemptId = Some (ids 4),
       e_eventType = ''run.created'', e_payload = JObj [(''triggerMessageId'', JStr (ids 2)),
         (''delegatedFromRunId'', JStr (r_runId parentRun)), (''delegationId'', JStr (ids 0))],
       e_idempotencyKey = Some (''delegation:'' @ ids 0), e_emittedAt = now\<rparr>)) (\<lambda>_.
     rop_bind (rop_do (insertSubmission \<lparr>s_conversationId = ids 1, s_submissionKey = ''delegation:'' @ ids 0,
       s_inputHash = ds_sha256 ds (dt_task i), s_messageId = ids 2, s_runId = ids 3, s_createdAt = now\<rparr>)) (\<lambda>_.
     rop_bind (rebuildProjection (ids 1) now) (\<lambda>_. rop_return ()))))))))))"

definition new_delegation ::
    "delegation_service \<Rightarrow> (nat \<Rightarrow> string) \<Rightarrow> int \<Rightarrow> delegate_input \<Rightarrow> delegation_scope \<Rightarrow> budget_row \<Rightarrow> delegation_row" where
  "new_delegation ds ids now i scope p = \<lparr>dg_delegationId = ids 0, dg_idempotencyKey = dt_idempotencyKey i, dg_rootRunId = be_rootRunId p,
     dg_parentRunId = dt_parentRunId i, dg_parentAttemptId = dt_parentAttemptId i, dg_parentToolCallId = dt_parentToolCallId i,
     dg_childConversationId = ids 1, dg_childRunId = ids 3, dg_depth = be_depth p + 1, dg_status = N_CREATED,
     dg_taskSha256 = ds_sha256 ds (dt_task i), dg_workspaceScope = dl_workspaceIds scope, dg_skillIds = dl_skillIds scope,
     dg_toolNames = dl_toolNames scope, dg_expectedOutput = dt_expectedOutput i, dg_resultSummarySha256 = None,
     dg_createdAt = now, dg_startedAt = None, dg_endedAt = None, dg_updatedAt = now\<rparr>"

definition new_reservation :: "(nat \<Rightarrow> string) \<Rightarrow> int \<Rightarrow> delegate_input \<Rightarrow> delegation_budget \<Rightarrow> reservation_row" where
  "new_reservation ids now i requested = \<lparr>rs_delegationId = ids 0, rs_parentRunId = dt_parentRunId i, rs_childRunId = ids 3,
     rs_status = RESERVED, rs_reservedTurns = bu_maxTurns requested, rs_reservedModelCalls = bu_maxModelCalls requested,
     rs_reservedToolCalls = bu_maxToolCalls requested, rs_reservedTotalTokens = bu_maxTotalTokens requested,
     rs_chargedTurns = 0, rs_chargedInputTokens = 0, rs_chargedOutputTokens = 0, rs_chargedModelCalls = 0, rs_chargedToolCalls = 0,
     rs_releaseReason = None, rs_createdAt = now, rs_releasedAt = None, rs_updatedAt = now\<rparr>"

definition delegate_new ::
    "delegation_service \<Rightarrow> (nat \<Rightarrow> string) \<Rightarrow> int \<Rightarrow> delegate_input \<Rightarrow> delegation_budget \<Rightarrow> delegation_scope
      \<Rightarrow> run_row \<Rightarrow> budget_row \<Rightarrow> delegate_result rop" where
  "delegate_new ds ids now i requested scope parentRun p =
     rop_bind (rop_read (reservationSummary (dt_parentRunId i))) (\<lambda>reserved.
     rop_bind (rop_of (admit p reserved requested scope now)) (\<lambda>_.
     rop_bind (child_rows ds ids now i parentRun) (\<lambda>_.
     let childBudget = new_envelope (ids 3) (be_rootRunId p) (Some (dt_parentRunId i)) (be_depth p + 1) requested scope now;
         d = new_delegation ds ids now i scope p in
     rop_bind (rop_do (insertBudgetEnvelope childBudget)) (\<lambda>_.
     rop_bind (rop_do (insertDelegation d)) (\<lambda>_.
     rop_bind (classifyRun \<lparr>ci_runId = ids 3, ci_runtime = DELEGATION, ci_taskKind = ''agent.delegation'',
       ci_sourceId = Some (ids 0), ci_parentRunId = Some (dt_parentRunId i), ci_notifyPolicy = None, ci_updatedAt = now\<rparr>) (\<lambda>_.
     rop_bind (rop_do (insertBudgetReservation (new_reservation ids now i requested))) (\<lambda>_.
     rop_bind (rop_do (delegation_insertEvent \<lparr>dv_delegationId = ids 0, dv_sequence = 1, dv_eventType = V_STATUS N_CREATED,
       dv_payload = JObj [(''parentRunId'', JStr (dt_parentRunId i)), (''childRunId'', JStr (ids 3)), (''depth'', JNum (be_depth p + 1)),
         (''expectedOutput'', JStr (expected_output_name (dt_expectedOutput i)))], dv_emittedAt = now\<rparr>)) (\<lambda>_.
     rop_return \<lparr>dx_delegation = d, dx_childBudget = childBudget, dx_replayed = False\<rparr>))))))))"

definition createDelegatedRun :: "delegation_service \<Rightarrow> (nat \<Rightarrow> string) \<Rightarrow> int \<Rightarrow> delegate_input \<Rightarrow> delegate_result svc" where
  "createDelegatedRun ds ids now i =
     svc_bind (svc_of (check_delegate_input ds i)) (\<lambda>(requested, scope).
     transaction (
       rop_bind (delegate_parent i) (\<lambda>(parentRun, parentBudget).
       rop_bind (rop_read (getDelegationByIdempotency (dt_parentRunId i) (dt_idempotencyKey i))) (\<lambda>existing.
       (case existing of
          Some d \<Rightarrow> delegate_replay ds i requested scope d
        | None \<Rightarrow> delegate_new ds ids now i requested scope parentRun parentBudget)))))"

section \<open>Waiting\<close>

record wait_identity =
  wi_parentAttemptId :: string
  wi_parentToolCallId :: string
  wi_toolName :: string

definition check_wait_identity :: "run_row \<Rightarrow> wait_identity \<Rightarrow> err + unit" where
  "check_wait_identity parentRun w =
     res_bind (boundedText (wi_parentAttemptId w) 128 any_text) (\<lambda>_.
     res_bind (boundedText (wi_parentToolCallId w) 128 any_text) (\<lambda>_.
     res_bind (require (wi_toolName w = ''agent.wait'') delegation_invalid) (\<lambda>_.
     require (r_currentAttemptId parentRun = Some (wi_parentAttemptId w)) state_invalid)))"

definition pending_delivery :: "string \<Rightarrow> string \<Rightarrow> wait_identity \<Rightarrow> int \<Rightarrow> result_delivery_row" where
  "pending_delivery parentRunId delegationId w now = \<lparr>dr_delegationId = delegationId, dr_parentRunId = parentRunId,
     dr_parentAttemptId = wi_parentAttemptId w, dr_parentToolCallId = wi_parentToolCallId w, dr_toolName = wi_toolName w,
     dr_status = DR_PENDING, dr_resultSha256 = None, dr_createdAt = now, dr_deliveredAt = None, dr_updatedAt = now\<rparr>"

definition claim_delivery :: "string \<Rightarrow> string \<Rightarrow> wait_identity \<Rightarrow> int \<Rightarrow> unit rop" where
  "claim_delivery parentRunId delegationId w now =
     rop_bind (rop_read (\<lambda>s. case getResultDelivery delegationId s of Some v \<Rightarrow> Some v
        | None \<Rightarrow> getResultDeliveryByToolCall parentRunId (wi_parentToolCallId w) s)) (\<lambda>existing.
     (case existing of
        Some v \<Rightarrow> rop_require (dr_delegationId v = delegationId \<and> dr_parentRunId v = parentRunId
            \<and> dr_parentAttemptId v = wi_parentAttemptId w \<and> dr_parentToolCallId v = wi_parentToolCallId w
            \<and> dr_toolName v = wi_toolName w) (Conversation_Error DELEGATION_IDEMPOTENCY_CONFLICT)
      | None \<Rightarrow> rop_do (insertResultDelivery (pending_delivery parentRunId delegationId w now))))"

definition markWaiting :: "int \<Rightarrow> string \<Rightarrow> string \<Rightarrow> wait_identity option \<Rightarrow> wait_row list svc" where
  "markWaiting now parentRunId delegationId toolIdentity = transaction (
     rop_bind (delegation_of_parent parentRunId delegationId) (\<lambda>d.
     rop_bind (rop_require (delegation_active (dg_status d)) state_invalid) (\<lambda>_.
     rop_bind (rop_found state_invalid (getRun parentRunId)) (\<lambda>parentRun.
     rop_bind (rop_require (truthy (r_currentAttemptId parentRun) \<noteq> None) state_invalid) (\<lambda>_.
     rop_bind (rop_of (case toolIdentity of None \<Rightarrow> Inr () | Some w \<Rightarrow> check_wait_identity parentRun w)) (\<lambda>_.
     rop_bind (rop_when (dg_status d \<noteq> N_WAITING)
       (rop_bind (rop_do (updateDelegationStatus delegationId N_WAITING (Some now) None None now)) (\<lambda>_.
        delegation_event delegationId (V_STATUS N_WAITING) (JObj [(''parentRunId'', JStr parentRunId), (''childRunId'', JStr (dg_childRunId d))]) now))) (\<lambda>_.
     rop_bind (rop_do (insertWait \<lparr>dw_parentRunId = parentRunId, dw_delegationId = delegationId, dw_state = ''WAITING_DELEGATION'',
       dw_createdAt = now, dw_updatedAt = now\<rparr>)) (\<lambda>_.
     rop_bind (case toolIdentity of None \<Rightarrow> rop_return () | Some w \<Rightarrow> claim_delivery parentRunId delegationId w now) (\<lambda>_.
     rop_read (listWaits parentRunId))))))))))"

section \<open>The life of a delegation\<close>

definition DELEGATION_TRANSITIONS :: "delegation_status \<Rightarrow> delegation_status set" where
  "DELEGATION_TRANSITIONS st = (case st of
     N_CREATED \<Rightarrow> {N_RUNNING, N_FAILED, N_CANCELLED, N_TIMED_OUT}
   | N_RUNNING \<Rightarrow> {N_WAITING, N_COMPLETED, N_FAILED, N_CANCELLED, N_TIMED_OUT}
   | N_WAITING \<Rightarrow> {N_RUNNING, N_COMPLETED, N_FAILED, N_CANCELLED, N_TIMED_OUT}
   | _ \<Rightarrow> {})"

definition child_payload :: "delegation_row \<Rightarrow> bool \<Rightarrow> json" where
  "child_payload d released = JObj [(''parentRunId'', JStr (dg_parentRunId d)), (''childRunId'', JStr (dg_childRunId d)),
     (''reservationReleased'', JBool released)]"

definition remove_wait :: "string \<Rightarrow> string \<Rightarrow> bool rop" where
  "remove_wait parentRunId delegationId s = Inr (deleteWait parentRunId delegationId s)"

definition transitionDelegation :: "delegation_service \<Rightarrow> int \<Rightarrow> string \<Rightarrow> delegation_status \<Rightarrow> json \<Rightarrow> delegation_row svc" where
  "transitionDelegation ds now delegationId status resultSummary = transaction (
     rop_bind (rop_found delegation_missing (getDelegation delegationId)) (\<lambda>d.
     rop_bind (rop_require (status \<in> DELEGATION_TRANSITIONS (dg_status d)) state_invalid) (\<lambda>_.
     let terminal = (\<not> delegation_active status) in
     rop_bind (rop_do (updateDelegationStatus delegationId status (Some now) (if terminal then Some now else None)
       (if resultSummary = JUndef then None else Some (delegation_sha256 ds resultSummary)) now)) (\<lambda>_.
     rop_bind (if terminal then releaseReservation d status now else rop_return False) (\<lambda>released.
     rop_bind (if terminal then remove_wait (dg_parentRunId d) delegationId else rop_return False) (\<lambda>_.
     rop_bind (delegation_event delegationId (if status = N_RUNNING then V_STARTED else V_STATUS status) (child_payload d released) now) (\<lambda>_.
     rop_found state_invalid (getDelegation delegationId))))))))"

record completion =
  cp_delegation :: delegation_row
  cp_result :: terminal_result
  cp_parentRunId :: string
  cp_resumeParent :: bool
  cp_replayed :: bool

text \<open>The row of the delegation and its event, once; afterwards the stored hash has to agree.\<close>

definition settle_delegation :: "int \<Rightarrow> delegation_row \<Rightarrow> delegation_status \<Rightarrow> string \<Rightarrow> bool \<Rightarrow> delegation_row rop" where
  "settle_delegation now d status resultSha released =
     (if delegation_active (dg_status d) then
        rop_bind (rop_do (updateDelegationStatus (dg_delegationId d) status (Some now) (Some now) (Some resultSha) now)) (\<lambda>_.
        rop_bind (delegation_event (dg_delegationId d) (V_STATUS status) (child_payload d released) now) (\<lambda>_.
        rop_found state_invalid (getDelegation (dg_delegationId d))))
      else
        rop_bind (rop_require (truthy (dg_resultSummarySha256 d) = None \<or> dg_resultSummarySha256 d = Some resultSha)
          (Conversation_Error EVENT_IDEMPOTENCY_CONFLICT)) (\<lambda>_.
        rop_return d))"

text \<open>The result becomes a message of the parent's conversation, with the events of the call that waited for it.\<close>

definition deliver_message :: "string \<Rightarrow> int \<Rightarrow> run_row \<Rightarrow> result_delivery_row \<Rightarrow> json \<Rightarrow> unit rop" where
  "deliver_message messageId now parentRun v content =
     rop_bind (rop_read (\<lambda>s. find (is_tool_result (dr_parentToolCallId v)) (listMessages (r_conversationId parentRun) s))) (\<lambda>existing.
     (case existing of
        Some m \<Rightarrow> rop_require (same_json (m_content m) content) (Conversation_Error EVENT_IDEMPOTENCY_CONFLICT)
      | None \<Rightarrow>
          rop_bind (nextMessageSequence (r_conversationId parentRun) now) (\<lambda>sequence.
          rop_do (insertMessage \<lparr>m_messageId = messageId, m_conversationId = r_conversationId parentRun, m_sequence = sequence,
            m_role = Role_tool, m_content = content, m_createdAt = now\<rparr>))))"

definition deliver_events :: "(nat \<Rightarrow> string) \<Rightarrow> int \<Rightarrow> delegation_row \<Rightarrow> delegation_status \<Rightarrow> result_delivery_row \<Rightarrow> unit rop" where
  "deliver_events ids now d status v =
     (let append = (\<lambda>n kind payload key. append_run_event (ids n) (dr_parentRunId v) (Some (dr_parentAttemptId v)) kind payload key now) in
      rop_bind (append 1 ''delegation.resolved'' (JObj [(''delegationId'', JStr (dg_delegationId d)), (''childRunId'', JStr (dg_childRunId d)),
        (''status'', JStr (delegation_status_name status))]) (''delegation-result:'' @ dg_delegationId d)) (\<lambda>_.
      rop_bind (append 2 ''tool.completed'' (JObj [(''toolCallId'', JStr (dr_parentToolCallId v)), (''name'', JStr (dr_toolName v)),
        (''isError'', JBool False), (''resumedFromDelegation'', JBool True)]) (''tool-complete:'' @ dr_parentToolCallId v)) (\<lambda>_.
      append 3 ''run.checkpoint'' (JObj [(''kind'', JStr ''tool.completed''), (''toolCallId'', JStr (dr_parentToolCallId v)),
        (''name'', JStr (dr_toolName v)), (''isError'', JBool False)]) (''checkpoint:tool:'' @ dr_parentToolCallId v))))"

definition deliver_result ::
    "(nat \<Rightarrow> string) \<Rightarrow> int \<Rightarrow> delegation_row \<Rightarrow> delegation_status \<Rightarrow> result_delivery_row \<Rightarrow> terminal_result \<Rightarrow> string \<Rightarrow> run_row rop" where
  "deliver_result ids now d status v result resultSha =
     rop_bind (found_run (dr_parentRunId v)) (\<lambda>parentRun.
     rop_bind (deliver_message (ids 0) now parentRun v (JObj [(''type'', JStr ''tool_result''),
       (''toolCallId'', JStr (dr_parentToolCallId v)), (''name'', JStr (dr_toolName v)), (''output'', result_json result),
       (''isError'', JBool False)])) (\<lambda>_.
     rop_bind (deliver_events ids now d status v) (\<lambda>_.
     rop_bind (rop_do (markResultDelivered (dg_delegationId d) resultSha now now)) (\<lambda>_.
     rop_bind (remove_wait (r_runId parentRun) (dg_delegationId d)) (\<lambda>removed.
     rop_bind (rop_when removed (delegation_event (dg_delegationId d) V_WAIT_CLEARED
       (JObj [(''parentRunId'', JStr (r_runId parentRun)), (''delivered'', JBool True)]) now)) (\<lambda>_.
     rop_bind (rebuildProjection (r_conversationId parentRun) now) (\<lambda>_.
     rop_return parentRun)))))))"

definition complete_terminal :: "delegation_service \<Rightarrow> (nat \<Rightarrow> string) \<Rightarrow> int \<Rightarrow> delegation_row \<Rightarrow> run_row \<Rightarrow> completion rop" where
  "complete_terminal ds ids now d childRun =
     rop_bind (rop_read (\<lambda>s. terminalStatusForRun (r_status childRun) (attempt_reason childRun s))) (\<lambda>status.
     rop_bind (terminal_result_of (d\<lparr>dg_status := status\<rparr>)) (\<lambda>result.
     let resultSha = delegation_sha256 ds (result_json result) in
     rop_bind (releaseReservation d status now) (\<lambda>released.
     rop_bind (settle_delegation now d status resultSha released) (\<lambda>updated.
     let done = (\<lambda>resume replayed. \<lparr>cp_delegation = updated, cp_result = result, cp_parentRunId = dg_parentRunId d,
       cp_resumeParent = resume, cp_replayed = replayed\<rparr>) in
     rop_bind (rop_read (getResultDelivery (dg_delegationId d))) (\<lambda>delivery.
     (case delivery of
        None \<Rightarrow> rop_return (done False False)
      | Some v \<Rightarrow>
          if dr_status v = DR_DELIVERED then
            rop_bind (rop_require (dr_resultSha256 v = Some resultSha) (Conversation_Error EVENT_IDEMPOTENCY_CONFLICT)) (\<lambda>_.
            rop_return (done False True))
          else
            rop_bind (deliver_result ids now d status v result resultSha) (\<lambda>parentRun.
            rop_return ((done (\<not> run_terminal (r_status parentRun)) False)\<lparr>cp_parentRunId := r_runId parentRun\<rparr>))))))))"

definition completeChild :: "delegation_service \<Rightarrow> (nat \<Rightarrow> string) \<Rightarrow> int \<Rightarrow> string \<Rightarrow> completion option svc" where
  "completeChild ds ids now childRunId = transaction (
     rop_bind (rop_read (\<lambda>s. (getDelegationByChildRun childRunId s, getRun childRunId s))) (\<lambda>(found, run).
     (case (found, run) of
        (Some d, Some childRun) \<Rightarrow>
          if run_terminal (r_status childRun)
          then rop_bind (complete_terminal ds ids now d childRun) (\<lambda>c. rop_return (Some c))
          else rop_return None
      | _ \<Rightarrow> rop_return None)))"

definition no_usage :: attempt_usage where
  "no_usage = \<lparr>au_turns = 0, au_inputTokens = 0, au_outputTokens = 0, au_modelCalls = 0, au_toolCalls = 0\<rparr>"

definition failChildBeforeStart :: "delegation_service \<Rightarrow> string \<Rightarrow> int \<Rightarrow> string \<Rightarrow> string \<Rightarrow> delegation_row svc" where
  "failChildBeforeStart ds eventId now delegationId errorCode =
     svc_bind (svc_of (boundedText errorCode 128 lost_code_pattern)) (\<lambda>_.
     transaction (
       rop_bind (rop_found delegation_missing (getDelegation delegationId)) (\<lambda>d.
       if \<not> delegation_active (dg_status d) then rop_return d
       else
         rop_bind (rop_found state_invalid (getRun (dg_childRunId d))) (\<lambda>childRun.
         (case truthy (r_currentAttemptId childRun) of
            None \<Rightarrow> rop_throw state_invalid
          | Some a \<Rightarrow>
              rop_bind (rop_do (updateAttempt a (A_RUN R_FAILED) None (Some now) None now)) (\<lambda>_.
              rop_bind (rop_do (updateAttemptUsage a no_usage (Some errorCode) now)) (\<lambda>_.
              rop_bind (rop_do (updateRun (run_set childRun R_FAILED NONE (Some a) (r_startedAt childRun) (Some now) now))) (\<lambda>_.
              rop_bind (append_run_event eventId (r_runId childRun) (Some a) ''run.failed'' (JObj [(''errorCode'', JStr errorCode)])
                (''delegation-schedule-failed:'' @ delegationId) now) (\<lambda>_.
              rop_bind (rebuildProjection (r_conversationId childRun) now) (\<lambda>_.
              rop_bind (terminal_result_of (d\<lparr>dg_status := N_FAILED\<rparr>)) (\<lambda>result.
              rop_bind (releaseReservation d N_FAILED now) (\<lambda>released.
              rop_bind (rop_do (updateDelegationStatus delegationId N_FAILED (Some now) (Some now)
                (Some (delegation_sha256 ds (result_json result))) now)) (\<lambda>_.
              rop_bind (delegation_event delegationId (V_STATUS N_FAILED) (JObj [(''parentRunId'', JStr (dg_parentRunId d)),
                (''childRunId'', JStr (dg_childRunId d)), (''errorCode'', JStr errorCode), (''reservationReleased'', JBool released)]) now) (\<lambda>_.
              rop_found state_invalid (getDelegation delegationId)))))))))))))))"

section \<open>Cancelling the subtree of a run\<close>

text \<open>\<open>right.depth - left.depth || right.createdAt - left.createdAt || right.delegationId.localeCompare(left.delegationId)\<close>;
  \<open>localeCompare\<close> is a parameter.\<close>

definition later_first :: "(string \<Rightarrow> string \<Rightarrow> int) \<Rightarrow> delegation_row \<Rightarrow> delegation_row \<Rightarrow> int" where
  "later_first localeCompare l r =
     (if dg_depth r - dg_depth l \<noteq> 0 then dg_depth r - dg_depth l
      else if dg_createdAt r - dg_createdAt l \<noteq> 0 then dg_createdAt r - dg_createdAt l
      else localeCompare (dg_delegationId r) (dg_delegationId l))"

definition active_later_first :: "(string \<Rightarrow> string \<Rightarrow> int) \<Rightarrow> delegation_row list \<Rightarrow> delegation_row list" where
  "active_later_first localeCompare ds = js_sort (later_first localeCompare) (filter (\<lambda>d. delegation_active (dg_status d)) ds)"

definition cancellationOrder :: "(string \<Rightarrow> string \<Rightarrow> int) \<Rightarrow> string \<Rightarrow> delegation_row list svc" where
  "cancellationOrder localeCompare parentRunId = svc_read (\<lambda>s. active_later_first localeCompare (listDescendantsOfRun parentRunId s))"

definition subtreeCancellationOrder :: "(string \<Rightarrow> string \<Rightarrow> int) \<Rightarrow> string \<Rightarrow> delegation_row list svc" where
  "subtreeCancellationOrder localeCompare childRunId = svc_read (\<lambda>s. active_later_first localeCompare (listSubtreeByChildRun childRunId s))"

definition expiredChildRunIds :: "int \<Rightarrow> string list svc" where
  "expiredChildRunIds at = svc_read (\<lambda>s. map dg_childRunId (listExpiredActiveDelegations at s))"

definition runnableChildRunIds :: "string list svc" where
  "runnableChildRunIds = svc_read listRunnableChildRunIds"

text \<open>One service call after the other; what a failed call had done before stays done.\<close>

primrec complete_each :: "(string \<Rightarrow> completion option svc) \<Rightarrow> string list \<Rightarrow> completion list svc" where
  "complete_each f [] = svc_return []"
| "complete_each f (r # rs) = svc_bind (f r) (\<lambda>c. svc_bind (complete_each f rs) (\<lambda>cs.
     svc_return ((case c of None \<Rightarrow> [] | Some x \<Rightarrow> [x]) @ cs)))"

definition reconcileTerminalChildren ::
    "delegation_service \<Rightarrow> (string \<Rightarrow> nat \<Rightarrow> string) \<Rightarrow> (string \<Rightarrow> int) \<Rightarrow> completion list svc" where
  "reconcileTerminalChildren ds ids clock =
     svc_bind (svc_read (\<lambda>s. map dg_childRunId (listTerminalChildDelegations s))) (\<lambda>runs.
     complete_each (\<lambda>r. completeChild ds (ids r) (clock r) r) runs)"

definition end_child :: "string \<Rightarrow> int \<Rightarrow> delegation_row \<Rightarrow> run_row \<Rightarrow> bool \<Rightarrow> string \<Rightarrow> unit rop" where
  "end_child eventId now d childRun cancelled errorCode =
     (let status = (if cancelled then R_CANCELLED else R_FAILED);
          reason = (if cancelled then errorCode else ''AGENT_TIME_BUDGET_EXCEEDED'') in
      rop_bind (rop_read (\<lambda>s. case truthy (r_currentAttemptId childRun) of None \<Rightarrow> None | Some a \<Rightarrow> getAttempt a s)) (\<lambda>attempt.
      rop_bind (case attempt of
          None \<Rightarrow> rop_return ()
        | Some a \<Rightarrow> rop_bind (rop_do (updateAttemptUsage (a_attemptId a) (usage_of_attempt a) (Some reason) now)) (\<lambda>_.
            rop_do (updateAttempt (a_attemptId a) (A_RUN status) None (Some now) None now))) (\<lambda>_.
      rop_bind (rop_do (updateRun (run_set childRun status NONE (r_currentAttemptId childRun) (r_startedAt childRun) (Some now) now))) (\<lambda>_.
      rop_bind (append_run_event eventId (r_runId childRun) (r_currentAttemptId childRun) (if cancelled then ''run.cancelled'' else ''run.failed'')
        (if cancelled then JObj [(''reason'', JStr errorCode)] else JObj [(''errorCode'', JStr errorCode)])
        (''delegation-terminal:'' @ dg_delegationId d @ '':'' @ (if cancelled then ''CANCELLED'' else ''TIMED_OUT'')) now) (\<lambda>_.
      rop_bind (rebuildProjection (r_conversationId childRun) now) (\<lambda>_. rop_return ()))))))"

text \<open>\<open>terminateChild\<close>; \<open>cancelled\<close> tells \<open>CANCELLED\<close> from \<open>TIMED_OUT\<close>.\<close>

definition terminateChild ::
    "delegation_service \<Rightarrow> (nat \<Rightarrow> string) \<Rightarrow> int \<Rightarrow> int \<Rightarrow> string \<Rightarrow> bool \<Rightarrow> string \<Rightarrow> completion option svc" where
  "terminateChild ds ids now now2 childRunId cancelled errorCode =
     svc_bind (svc_of (boundedText errorCode 128 lost_code_pattern)) (\<lambda>_.
     svc_bind (transaction (
       rop_bind (rop_read (getDelegationByChildRun childRunId)) (\<lambda>found.
       (case found of
          None \<Rightarrow> rop_return False
        | Some d \<Rightarrow>
            rop_bind (found_run childRunId) (\<lambda>childRun.
            if run_terminal (r_status childRun) then rop_return True
            else rop_bind (end_child (ids 4) now d childRun cancelled errorCode) (\<lambda>_. rop_return True)))))) (\<lambda>exists.
     if exists then completeChild ds ids now2 childRunId else svc_return None))"

definition terminateDescendants ::
    "delegation_service \<Rightarrow> (string \<Rightarrow> string \<Rightarrow> int) \<Rightarrow> (string \<Rightarrow> nat \<Rightarrow> string) \<Rightarrow> (string \<Rightarrow> int) \<Rightarrow> (string \<Rightarrow> int)
      \<Rightarrow> string \<Rightarrow> bool \<Rightarrow> string \<Rightarrow> completion list svc" where
  "terminateDescendants ds localeCompare ids now now2 parentRunId cancelled errorCode =
     svc_bind (cancellationOrder localeCompare parentRunId) (\<lambda>order.
     complete_each (\<lambda>r. terminateChild ds (ids r) (now r) (now2 r) r cancelled errorCode) (map dg_childRunId order))"

definition waiting_state :: "wait_row list \<Rightarrow> wait_row list option" where
  "waiting_state waits = (if waits = [] then None else Some waits)"

definition clearWait :: "int \<Rightarrow> string \<Rightarrow> string \<Rightarrow> wait_row list option svc" where
  "clearWait now parentRunId delegationId = transaction (
     rop_bind (remove_wait parentRunId delegationId) (\<lambda>removed.
     rop_bind (rop_when removed (delegation_event delegationId V_WAIT_CLEARED (JObj [(''parentRunId'', JStr parentRunId)]) now)) (\<lambda>_.
     rop_read (\<lambda>s. waiting_state (listWaits parentRunId s)))))"

definition waitState :: "string \<Rightarrow> wait_row list option svc" where
  "waitState parentRunId = svc_read (\<lambda>s. waiting_state (listWaits parentRunId s))"

definition delegation_descendants :: "string \<Rightarrow> delegation_row list svc" where
  "delegation_descendants rootRunId = svc_read (listDescendants rootRunId)"

definition delegation_events :: "string \<Rightarrow> delegation_event_row list svc" where
  "delegation_events delegationId = svc_read (delegation_listEvents delegationId)"

end
