(* ===== verification/Transaction_Rules.thy ===== *)
theory Transaction_Rules
  imports State_Db
begin

text \<open>
  How a preorder on databases passes through the body of a transaction: a body all of whose statements are steps
  of the preorder is one, and so is the service call that runs it.
\<close>

section \<open>Rows by key\<close>

lemma tbl_get_write:
  "(\<And>r. key (f r) = key r) \<Longrightarrow>
   tbl_get key k (tbl_modify p f rows) = map_option (\<lambda>r. if p r then f r else r) (tbl_get key k rows)"
  by (induction rows) (auto simp: tbl_get_def tbl_modify_def)

lemma key_fresh: "distinct (map key (r # rows)) \<Longrightarrow> x \<in> set rows \<Longrightarrow> key x \<noteq> key r"
  by (metis distinct.simps(2) image_eqI image_set list.simps(9))

lemma keepsD: "keeps R m \<Longrightarrow> m s = Inr (t, x) \<Longrightarrow> R s t"
  unfolding keeps_def by blast

section \<open>Bodies of transactions\<close>

context step_preorder
begin

lemma keeps_seq: "keeps R m \<Longrightarrow> (\<And>x. keeps R (f x)) \<Longrightarrow> keeps R (rop_bind m f)"
  unfolding keeps_def rop_bind_Inr by (blast intro: trans)

lemma keeps_return: "keeps R (rop_return x)" and keeps_query: "keeps R (rop_read q)"
  and keeps_require: "keeps R (rop_require b e)" and keeps_of: "keeps R (rop_of r)"
  and keeps_found: "keeps R (rop_found e2 q2)" and keeps_throw: "keeps R (rop_throw e3)"
  by (auto simp: keeps_def rop_of_Inr rop_found_Inr rop_return_def rop_read_def rop_require_def rop_throw_def refl split: if_splits)

lemma keeps_rop_do: "(\<And>s s'. f s = Inr s' \<Longrightarrow> R s s') \<Longrightarrow> keeps R (rop_do f)"
  by (simp add: keeps_do)

lemma keeps_op: "(\<And>s s' x. m s = Inr (s', x) \<Longrightarrow> R s s') \<Longrightarrow> keeps R m"
  by (simp add: keeps_def)

lemma keeps_when: "keeps R m \<Longrightarrow> keeps R (rop_when b m)"
  by (simp add: rop_when_def keeps_return)

lemma keeps_rop_each: "(\<And>x. keeps R (f x)) \<Longrightarrow> keeps R (rop_each f xs)"
  by (induction xs) (simp_all add: keeps_return keeps_seq)

lemma keeps_if: "keeps R m \<Longrightarrow> keeps R n \<Longrightarrow> keeps R (if b then m else n)"
  by simp

lemma keeps_let: "(\<And>x. keeps R (f x)) \<Longrightarrow> keeps R (Let v f)"
  by (simp add: Let_def)

lemma keeps_split: "(\<And>x y. keeps R (f x y)) \<Longrightarrow> keeps R (case p of (x, y) \<Rightarrow> f x y)"
  by (simp split: prod.splits)

lemma keeps_option: "keeps R m \<Longrightarrow> (\<And>x. keeps R (f x)) \<Longrightarrow> keeps R (case v of None \<Rightarrow> m | Some x \<Rightarrow> f x)"
  by (simp split: option.splits)

lemmas keeps_intros = keeps_seq keeps_return keeps_query keeps_require keeps_of keeps_found keeps_throw keeps_when
  keeps_rop_each keeps_if keeps_let keeps_split keeps_option

lemma steps_body: "keeps R m \<Longrightarrow> steps (transaction m)"
  by (rule steps_transaction) (simp add: keeps_def)

end

end
