(* ===== verification/Conversation_Machine.thy ===== *)
theory Conversation_Machine
  imports Delegation_Service Transaction_Rules
begin

text \<open>
  The calls of the conversation and the delegation service as steps on the database. What every statement of the
  repositories keeps, every call keeps: the locale \<open>conversation_statements\<close> is the contract of the statements all
  calls but \<open>createDelegatedRun\<close> are built from, \<open>delegation_statements\<close> adds those that one needs.
\<close>

section \<open>Statements\<close>

locale conversation_statements = step_preorder +
  assumes conversation_new: "createConversation c s = Inr t \<Longrightarrow> R s t"
    and message_sequence: "nextMessageSequence i now s = Inr (t, n) \<Longrightarrow> R s t"
    and message_new: "insertMessage m s = Inr t \<Longrightarrow> R s t"
    and submission_new: "insertSubmission sub s = Inr t \<Longrightarrow> R s t"
    and event_sequence: "nextEventSequence i now s = Inr (t, n) \<Longrightarrow> R s t"
    and event_new: "insertEvent e s = Inr t \<Longrightarrow> R s t"
    and attempt_new: "insertAttempt a s = Inr t \<Longrightarrow> R s t"
    and attempt_write: "write_attempt i msg f s = Inr t \<Longrightarrow> R s t"
    and run_new: "insertRun run s = Inr t \<Longrightarrow> R s t"
    and run_write: "updateRun u s = Inr t \<Longrightarrow> R s t"
    and invocation_new: "insertModelInvocation v s = Inr t \<Longrightarrow> R s t"
    and invocation_end: "completeModelInvocation i st resp inp outp err now s = Inr t \<Longrightarrow> R s t"
    and invocations_recovered: "recoverStartedModelInvocations i now s = (t, k) \<Longrightarrow> R s t"
    and projection_rebuilt: "rebuildProjection i now s = Inr (t, p) \<Longrightarrow> R s t"
    and envelope_new: "insertBudgetEnvelope b s = Inr t \<Longrightarrow> R s t"
    and envelope_usage: "updateBudgetUsage i us now s = Inr t \<Longrightarrow> R s t"
    and delegation_write: "updateDelegationStatus i ds x y z now s = Inr t \<Longrightarrow> R s t"
    and delegation_event_new: "delegation_insertEvent dv s = Inr t \<Longrightarrow> R s t"
    and wait_new: "insertWait w s = Inr t \<Longrightarrow> R s t"
    and wait_gone: "deleteWait i j s = (t, gone) \<Longrightarrow> R s t"
    and delivery_new: "insertResultDelivery rd s = Inr t \<Longrightarrow> R s t"
    and delivery_done: "markResultDelivered i h at now s = Inr t \<Longrightarrow> R s t"
    and reservation_released: "releaseBudgetReservation i rr us now s = Inr (t, released) \<Longrightarrow> R s t"
begin

lemma statement_keeps:
  "keeps R (rop_do (createConversation c))" "keeps R (nextMessageSequence i now)" "keeps R (rop_do (insertMessage m))"
  "keeps R (rop_do (insertSubmission sub))" "keeps R (nextEventSequence i now)" "keeps R (rop_do (insertEvent e))"
  "keeps R (rop_do (insertAttempt a))" "keeps R (rop_do (updateAttempt i ast x y z now))"
  "keeps R (rop_do (updateAttemptUsage i us tr now))" "keeps R (rop_do (configureAttempt i ac))"
  "keeps R (rop_do (insertRun run))" "keeps R (rop_do (updateRun u))" "keeps R (rop_do (insertModelInvocation v))"
  "keeps R (rop_do (completeModelInvocation i st resp inp outp err now))" "keeps R (rebuildProjection i now)"
  "keeps R (rop_do (insertBudgetEnvelope b))" "keeps R (rop_do (updateBudgetUsage i us now))"
  "keeps R (rop_do (updateDelegationStatus i dst x y h now))" "keeps R (rop_do (delegation_insertEvent dv))"
  "keeps R (rop_do (insertWait w))" "keeps R (rop_do (insertResultDelivery rd))" "keeps R (rop_do (markResultDelivered i hh n now))"
  "keeps R (releaseBudgetReservation i rr us now)"
  unfolding updateAttempt_def updateAttemptUsage_def configureAttempt_def
  by (rule keeps_rop_do keeps_op;
      erule conversation_new message_sequence message_new submission_new event_sequence event_new attempt_new attempt_write
        run_new run_write invocation_new invocation_end projection_rebuilt envelope_new envelope_usage delegation_write
        delegation_event_new wait_new delivery_new delivery_done reservation_released)+

lemma total_statement_keeps:
  "keeps R (\<lambda>s. Inr (recoverStartedModelInvocations i now s))" "keeps R (remove_wait i j)"
  by (auto simp: keeps_def remove_wait_def intro: invocations_recovered wait_gone)

lemmas body_intros = keeps_intros statement_keeps total_statement_keeps

section \<open>Conversations\<close>

lemma conv_summary_keeps: "keeps R (conv_summary now row)"
  unfolding conv_summary_def by (intro body_intros)

lemma createWithRepositories_keeps: "keeps R (createWithRepositories cs i now now2 w mp title)"
  unfolding createWithRepositories_def by (intro body_intros conv_summary_keeps)

lemma owned_conversation_keeps: "keeps R (owned_conversation w i)"
  unfolding owned_conversation_def by (intro body_intros)

lemma append_new_keeps: "keeps R (append_new eid i run)"
  unfolding append_new_def by (intro body_intros)

lemma appendEvent_keeps: "keeps R (appendEventWithRepositories eid i)"
  unfolding appendEventWithRepositories_def by (intro body_intros append_new_keeps)

lemma record_event_keeps: "keeps R (record_event eid i a ty p k now)"
  unfolding record_event_def by (intro body_intros appendEvent_keeps)

lemma send_keeps: "keeps R (sendWithRepositories cs ids now now2 role i)"
  unfolding sendWithRepositories_def send_replay_def send_rows_def
  by (intro body_intros owned_conversation_keeps conv_summary_keeps appendEvent_keeps)

lemma small_keeps: "keeps R (found_run i)" "keeps R (attempt_of_run run)" "keeps R (context_of conv run att)"
  "keeps R (insert_next_attempt aid run now)" "keeps R (attempt_follows ao st x y z now)"
  unfolding found_run_def attempt_of_run_def context_of_def insert_next_attempt_def attempt_follows_def by (intro body_intros)+

lemma more_keeps: "keeps R (replace_aborted ids now run att)" "keeps R (startable_attempt ids now run)"
  "keeps R (claim_envelope run w b now)" "keeps R (attempt_for ids now st run)"
  "keeps R (append_tool_result ids now run q tc name outp err)" "keeps R (lose_attempt ao code now)"
  unfolding replace_aborted_def startable_attempt_def claim_envelope_def attempt_for_def append_tool_result_def lose_attempt_def
  by (intro body_intros small_keeps record_event_keeps)+

lemma recover_run_keeps: "keeps R (recover_run_state eid now run)"
  unfolding recover_run_state_def by (intro body_intros small_keeps record_event_keeps)

lemmas conversation_keeps = conv_summary_keeps createWithRepositories_keeps owned_conversation_keeps appendEvent_keeps
  record_event_keeps send_keeps small_keeps more_keeps recover_run_keeps

lemmas call_intros = steps_return steps_of steps_read steps_require steps_bind steps_body steps_if steps_split steps_let steps_option

lemma updateExecutionUsage_steps: "steps (updateExecutionUsage now i us tr)"
  unfolding updateExecutionUsage_def by (intro call_intros body_intros conversation_keeps)

lemma transitionRun_steps: "steps (transitionRun ids now ti)"
  unfolding transitionRun_def by (intro call_intros body_intros conversation_keeps)

section \<open>Delegations\<close>

lemma delegation_small_keeps: "keeps R (append_run_event eid i ao ty p k now)" "keeps R (delegation_event i vt p now)"
  "keeps R (releaseReservation d rr now)" "keeps R (terminal_result_of d)" "keeps R (delegation_of_parent i j)"
  unfolding append_run_event_def delegation_event_def releaseReservation_def terminal_result_of_def delegation_of_parent_def
  by (intro body_intros)+

lemma claim_delivery_keeps: "keeps R (claim_delivery i j w now)"
  unfolding claim_delivery_def by (intro body_intros)

lemma settle_keeps: "keeps R (settle_delegation now d st h released)"
  unfolding settle_delegation_def by (intro body_intros delegation_small_keeps)

lemma deliver_keeps: "keeps R (deliver_result ids now d st v r h)"
  unfolding deliver_result_def deliver_message_def deliver_events_def Let_def
  by (intro body_intros small_keeps delegation_small_keeps)

lemma complete_terminal_keeps: "keeps R (complete_terminal ds ids now d run)"
  unfolding complete_terminal_def by (intro body_intros delegation_small_keeps settle_keeps deliver_keeps)

lemma end_child_keeps: "keeps R (end_child eid now d run cancelled code)"
  unfolding end_child_def by (intro body_intros delegation_small_keeps)

lemma completeChild_steps: "steps (completeChild ds ids now i)"
  unfolding completeChild_def by (intro call_intros body_intros complete_terminal_keeps)

lemma terminateChild_steps: "steps (terminateChild ds ids now now2 i cancelled code)"
  unfolding terminateChild_def by (intro call_intros body_intros small_keeps end_child_keeps completeChild_steps)

lemma complete_each_steps: "(\<And>r. steps (f r)) \<Longrightarrow> steps (complete_each f rs)"
  by (induction rs) (simp_all add: steps_return steps_bind)

lemmas delegation_keeps = delegation_small_keeps claim_delivery_keeps settle_keeps deliver_keeps complete_terminal_keeps end_child_keeps

end

section \<open>Calls\<close>

text \<open>Every method of the two services that writes, whether it returns or throws, but \<open>createDelegatedRun\<close>.\<close>

inductive conversation_step :: "db \<Rightarrow> db \<Rightarrow> bool" where
  created: "conversation_create cs i now now2 w mp title s = (r, t) \<Longrightarrow> conversation_step s t"
| listed: "conversation_list cs now w l s = (r, t) \<Longrightarrow> conversation_step s t"
| got: "conversation_get cs now w i s = (r, t) \<Longrightarrow> conversation_step s t"
| appended: "conversation_appendEvent eid ei s = (r, t) \<Longrightarrow> conversation_step s t"
| sent: "conversation_send cs ids now now2 si s = (r, t) \<Longrightarrow> conversation_step s t"
| prepared: "prepareExecutionAttempt ids now i s = (r, t) \<Longrightarrow> conversation_step s t"
| started: "startExecution ids now i p m b s = (r, t) \<Longrightarrow> conversation_step s t"
| messaged: "appendExecutionMessage mid now i role content s = (r, t) \<Longrightarrow> conversation_step s t"
| invoked: "startModelInvocation vid now i a tn rn p m h s = (r, t) \<Longrightarrow> conversation_step s t"
| answered: "finishModelInvocation now vid st resp inp outp err s = (r, t) \<Longrightarrow> conversation_step s t"
| used: "updateExecutionUsage now i us tr s = (r, t) \<Longrightarrow> conversation_step s t"
| transitioned: "transitionRun ids now ti s = (r, t) \<Longrightarrow> conversation_step s t"
| approval_awaited: "waitForApproval ids now now2 i us q s = (r, t) \<Longrightarrow> conversation_step s t"
| completed: "completeExecution ids now now2 i us tr text s = (r, t) \<Longrightarrow> conversation_step s t"
| failed: "failExecution ids now now2 i us code msg s = (r, t) \<Longrightarrow> conversation_step s t"
| delegation_awaited: "waitForDelegation eid now now2 i us d tc s = (r, t) \<Longrightarrow> conversation_step s t"
| resumed: "resumeExecution eid now i s = (r, t) \<Longrightarrow> conversation_step s t"
| tool_returned: "appendApprovalToolResult ids now i q tc name outp err s = (r, t) \<Longrightarrow> conversation_step s t"
| cancelled: "conversation_cancel cs eid now w i rid s = (r, t) \<Longrightarrow> conversation_step s t"
| projected: "conversation_rebuildProjection now i s = (r, t) \<Longrightarrow> conversation_step s t"
| lost: "markExecutionLost eid now i code s = (r, t) \<Longrightarrow> conversation_step s t"
| interrupted: "interruptExecution eid now i reason s = (r, t) \<Longrightarrow> conversation_step s t"
| recovered: "recoverIncompleteRuns eids nows s = (r, t) \<Longrightarrow> conversation_step s t"
| budget_set: "configureRootBudget ds now i b sc s = (r, t) \<Longrightarrow> conversation_step s t"
| waits: "markWaiting now i d w s = (r, t) \<Longrightarrow> conversation_step s t"
| delegation_moved: "transitionDelegation ds now d st res s = (r, t) \<Longrightarrow> conversation_step s t"
| child_completed: "completeChild ds ids now i s = (r, t) \<Longrightarrow> conversation_step s t"
| child_failed: "failChildBeforeStart ds eid now d code s = (r, t) \<Longrightarrow> conversation_step s t"
| children_reconciled: "reconcileTerminalChildren ds idf clock s = (r, t) \<Longrightarrow> conversation_step s t"
| child_terminated: "terminateChild ds ids now now2 i c code s = (r, t) \<Longrightarrow> conversation_step s t"
| children_terminated: "terminateDescendants ds lc idf nows nows2 i c code s = (r, t) \<Longrightarrow> conversation_step s t"
| wait_cleared: "clearWait now i d s = (r, t) \<Longrightarrow> conversation_step s t"

context conversation_statements
begin

lemma call_steps:
  "steps (conversation_create cs i now now2 w mp title)" "steps (conversation_list cs now w l)"
  "steps (conversation_get cs now w i)" "steps (conversation_appendEvent eid ei)" "steps (conversation_send cs ids now now2 si)"
  "steps (prepareExecutionAttempt ids now i)" "steps (startExecution ids now i p m b)"
  "steps (appendExecutionMessage mid now i role content)" "steps (startModelInvocation vid now i a tn rn p m h)"
  "steps (finishModelInvocation now vid st resp inp outp err)"
  "steps (waitForApproval ids now now2 i us q)" "steps (completeExecution ids now now2 i us tr text)"
  "steps (failExecution ids now now2 i us code msg)" "steps (waitForDelegation eid now now2 i us d tc)"
  "steps (resumeExecution eid now i)" "steps (appendApprovalToolResult ids now i q tc name out2 err2)"
  "steps (conversation_cancel cs eid now w i rid)" "steps (conversation_rebuildProjection now i)"
  "steps (markExecutionLost eid now i code)" "steps (interruptExecution eid now i reason)" "steps (recoverIncompleteRuns eids nows)"
  unfolding conversation_create_def conversation_list_def conversation_get_def conversation_appendEvent_def conversation_send_def
    prepareExecutionAttempt_def startExecution_def appendExecutionMessage_def startModelInvocation_def finishModelInvocation_def
    waitForApproval_def completeExecution_def failExecution_def waitForDelegation_def resumeExecution_def
    appendApprovalToolResult_def conversation_cancel_def conversation_rebuildProjection_def markExecutionLost_def
    interruptExecution_def recoverIncompleteRuns_def
  by (intro call_intros body_intros conversation_keeps updateExecutionUsage_steps transitionRun_steps)+

lemma delegation_call_steps:
  "steps (configureRootBudget ds now i b sc)" "steps (markWaiting now i d w)" "steps (transitionDelegation ds now d st res)"
  "steps (failChildBeforeStart ds eid now d code)" "steps (reconcileTerminalChildren ds idf clock)"
  "steps (terminateDescendants ds lc idf nows nows2 i c code)" "steps (clearWait now i d)"
  unfolding configureRootBudget_def markWaiting_def transitionDelegation_def failChildBeforeStart_def reconcileTerminalChildren_def
    terminateDescendants_def clearWait_def cancellationOrder_def
  by (intro call_intros body_intros small_keeps delegation_keeps complete_each_steps completeChild_steps terminateChild_steps)+

lemma conversation_step_R: "conversation_step s t \<Longrightarrow> R s t"
  by (induction rule: conversation_step.induct)
    (erule stepsD [rotated], rule call_steps delegation_call_steps updateExecutionUsage_steps transitionRun_steps completeChild_steps terminateChild_steps)+

end

section \<open>Calls with delegation\<close>

inductive agent_step :: "db \<Rightarrow> db \<Rightarrow> bool" where
  call: "conversation_step s t \<Longrightarrow> agent_step s t"
| delegated: "createDelegatedRun ds ids now i s = (r, t) \<Longrightarrow> agent_step s t"

definition agent_reachable :: "db \<Rightarrow> bool" where
  "agent_reachable s \<longleftrightarrow> agent_step\<^sup>*\<^sup>* empty_db s"

locale delegation_statements = conversation_statements +
  assumes delegation_new: "insertDelegation d s = Inr t \<Longrightarrow> R s t"
    and reservation_new: "insertBudgetReservation rs s = Inr t \<Longrightarrow> R s t"
    and task_classified: "classifyRun ci s = Inr (t, v) \<Longrightarrow> R s t"
begin

lemma delegation_statement_keeps: "keeps R (rop_do (insertDelegation d))" "keeps R (rop_do (insertBudgetReservation rs))"
  "keeps R (classifyRun ci)"
  by (rule keeps_rop_do keeps_op; erule delegation_new reservation_new task_classified)+

lemma createDelegatedRun_steps: "steps (createDelegatedRun ds ids now i)"
  unfolding createDelegatedRun_def delegate_parent_def delegate_replay_def delegate_new_def child_rows_def
  by (intro call_intros body_intros delegation_statement_keeps small_keeps)

lemma agent_step_R: "agent_step s t \<Longrightarrow> R s t"
  by (induction rule: agent_step.induct) (erule conversation_step_R, erule stepsD [OF createDelegatedRun_steps])

end

end
