(* ===== verification/Delegation_Scenario.thy ===== *)
theory Delegation_Scenario
  imports Delegation_Service
begin

text \<open>
  A conversation of the workspace, a message to it with the run that answers, the budget of the run, and the child it
  hands work to, evaluated call by call from the empty database. The states serve as concrete inputs for the
  properties of conversations and delegations.
\<close>

section \<open>A conversation with a run\<close>

definition no_hash :: "string \<Rightarrow> string" where
  "no_hash t = replicate 64 (CHR ''0'')"

definition sample_conversations :: conversation_service where
  "sample_conversations = \<lparr>cs_workspaceIds = [''w''], cs_sha256 = no_hash\<rparr>"

definition sample_send :: send_input where
  "sample_send = \<lparr>sd_workspaceId = ''w'', sd_conversationId = ''c1'', sd_submissionKey = ''k'', sd_text = ''go''\<rparr>"

definition send_ids :: "nat \<Rightarrow> string" where
  "send_ids n = [''m1'', ''r1'', ''a1'', ''e1''] ! n"

definition sample_conversation :: conversation_row where
  "sample_conversation = \<lparr>c_conversationId = ''c1'', c_workspaceId = ''w'', c_modelProfile = ''default'', c_title = None, c_status = ACTIVE,
     c_lastMessageSequence = 0, c_createdAt = 0, c_updatedAt = 0\<rparr>"

definition conversation_db :: db where
  "conversation_db = empty_db\<lparr>conversations := [sample_conversation],
     conversation_projections := [\<lparr>p_conversationId = ''c1'', p_messageCount = 0, p_lastMessageSequence = 0, p_lastRunId = None,
       p_lastRunStatus = None, p_rebuiltAt = 0\<rparr>]\<rparr>"

definition sample_message :: message_row where
  "sample_message = \<lparr>m_messageId = ''m1'', m_conversationId = ''c1'', m_sequence = 1, m_role = Role_user,
     m_content = JObj [(''type'', JStr ''text''), (''text'', JStr ''go'')], m_createdAt = 0\<rparr>"

definition sample_first_run :: run_row where
  "sample_first_run = \<lparr>r_runId = ''r1'', r_conversationId = ''c1'', r_triggerMessageId = Some ''m1'', r_status = R_CREATED, r_recoveryState = NONE,
     r_currentAttemptId = Some ''a1'', r_lastEventSequence = 1, r_createdAt = 0, r_startedAt = None, r_endedAt = None, r_updatedAt = 0\<rparr>"

definition sample_task :: task_row where
  "sample_task = new_task_row \<lparr>cr_taskId = ''task:r1'', cr_workspaceId = ''w'', cr_conversationId = ''c1'', cr_runId = ''r1'',
     cr_taskText = ''go'', cr_createdAt = 0\<rparr>"

definition submitted_db :: db where
  "submitted_db = empty_db\<lparr>conversations := [sample_conversation\<lparr>c_lastMessageSequence := 1\<rparr>], conversation_messages := [sample_message],
     agent_runs := [sample_first_run], run_attempts := [new_attempt ''a1'' ''r1'' 1 0],
     run_events := [\<lparr>e_runId = ''r1'', e_sequence = 1, e_eventId = ''e1'', e_attemptId = Some ''a1'', e_eventType = ''run.created'',
       e_payload = JObj [(''triggerMessageId'', JStr ''m1'')], e_idempotencyKey = Some ''submission:k'', e_emittedAt = 0\<rparr>],
     conversation_submissions := [\<lparr>s_conversationId = ''c1'', s_submissionKey = ''k'', s_inputHash = no_hash [], s_messageId = ''m1'',
       s_runId = ''r1'', s_createdAt = 0\<rparr>],
     conversation_projections := [\<lparr>p_conversationId = ''c1'', p_messageCount = 1, p_lastMessageSequence = 1, p_lastRunId = Some ''r1'',
       p_lastRunStatus = Some R_CREATED, p_rebuiltAt = 0\<rparr>],
     background_tasks := [sample_task],
     background_task_events := [\<lparr>te_taskId = ''task:r1'', te_sequence = 1, te_eventType = ''task.queued'', te_status = T_QUEUED,
       te_recoveryState = NONE, te_payload = JObj [(''runId'', JStr ''r1''), (''runtime'', JStr ''CONVERSATION'')],
       te_runEventSequence = None, te_emittedAt = 0\<rparr>]\<rparr>"

lemmas table_reads = getRun_def getAttempt_def getBudgetEnvelope_def getConversation_def getMessage_def getProjection_def getSubmission_def
  getDelegationByIdempotency_def getDelegation_def getDelegationByChildRun_def getBudgetReservation_def task_get_def task_getByRun_def
  getEventByIdempotency_def tbl_get_def tbl_modify_def tbl_changes_def next_sequence_def

lemmas statement_defs = rop_bind_def rop_found_def rop_of_def rop_do_def require_def Let_def truthy_def json_field_def js_trim_def js_white_def
  createConversation_def nextMessageSequence_def insertMessage_def insertRun_def createForRun_def taskText_def new_task_row_def
  task_insert_def task_checks_def parent_exists_def task_appendEvent_def runtime_name_def insertAttempt_def new_attempt_def
  attempt_checks_def opt_all_def nextEventSequence_def insertEvent_def insertSubmission_def rebuildProjection_def latest_run_def listRuns_def

lemmas sample_defs = sample_conversations_def sample_send_def conversation_db_def sample_conversation_def submitted_db_def sample_message_def
  sample_first_run_def sample_task_def empty_db_def no_hash_def

lemma workspace_ok: "workspace_pattern ''w''" "profile_pattern ''default''" "key_pattern ''k''" "event_type_pattern ''run.created''"
  "key_pattern ''submission:k''"
  by code_simp+

lemma conversation_created: "\<exists>out. conversation_create sample_conversations ''c1'' 0 0 ''w'' None None empty_db = (Inr out, conversation_db)"
  by (simp add: conversation_create_def transaction_def createWithRepositories_def conv_authorize_def conv_bounded_def workspace_ok or_default_def
      conv_summary_def statement_defs table_reads sample_defs)

lemma send_ids_at: "send_ids 0 = ''m1''" "send_ids 1 = ''r1''" "send_ids (Suc 0) = ''r1''" "send_ids 2 = ''a1''" "send_ids 3 = ''e1''"
  by (simp_all add: send_ids_def)

lemma message_sent: "\<exists>out. conversation_send sample_conversations send_ids 0 0 sample_send conversation_db = (Inr out, submitted_db)"
  by (simp add: conversation_send_def transaction_def validateSendInput_def conv_authorize_def conv_bounded_def workspace_ok any_text_def
      sendWithRepositories_def owned_conversation_def send_rows_def send_ids_at appendEventWithRepositories_def append_new_def stored_event_def
      opt_eq_def send_hash_def conv_hash_def conv_summary_def statement_defs table_reads sample_defs)

section \<open>A budget and a child\<close>

definition sample_ids :: "nat \<Rightarrow> string" where
  "sample_ids n = [''d'', ''c2'', ''m2'', ''r2'', ''a2'', ''e2''] ! n"

definition sample_delegation_service :: delegation_service where
  "sample_delegation_service = \<lparr>ds_workspaceIds = [''w''], ds_sha256 = no_hash\<rparr>"

definition sample_limits :: "int \<Rightarrow> delegation_budget" where
  "sample_limits n = \<lparr>bu_maxTurns = n, bu_maxModelCalls = n, bu_maxToolCalls = n, bu_maxOutputTokens = n, bu_maxTotalTokens = n,
     bu_maxDurationMs = n, bu_maxDelegationDepth = 2, bu_maxActiveChildren = 1, bu_maxTotalChildren = 1\<rparr>"

definition sample_scope :: delegation_scope where
  "sample_scope = \<lparr>dl_workspaceIds = [''w''], dl_skillIds = [], dl_toolNames = []\<rparr>"

definition parent_db :: db where
  "parent_db = submitted_db\<lparr>run_budget_envelopes := [new_envelope ''r1'' ''r1'' None 0 (sample_limits 10) sample_scope 0]\<rparr>"

definition sample_work :: delegate_input where
  "sample_work = \<lparr>dt_parentRunId = ''r1'', dt_parentAttemptId = ''a1'', dt_idempotencyKey = ''k'', dt_task = ''test'', dt_workspaceId = ''w'',
     dt_budget = sample_limits 4, dt_scope = sample_scope, dt_expectedOutput = TEXT, dt_parentToolCallId = None\<rparr>"

definition with_child :: db where
  "with_child = snd (createDelegatedRun sample_delegation_service sample_ids 1 sample_work parent_db)"

lemma sample_ids_at: "sample_ids 0 = ''d''" "sample_ids 1 = ''c2''" "sample_ids (Suc 0) = ''c2''" "sample_ids 2 = ''m2''" "sample_ids 3 = ''r2''" "sample_ids 4 = ''a2''" "sample_ids 5 = ''e2''"
  by (simp_all add: sample_ids_def)

lemma small_within:
  assumes "length (the (json_stringify v)) \<le> 400" and "v \<noteq> JUndef"
  shows "json_within 65536 v"
  using assms by (auto simp: json_within_def split: option.splits)

lemma lists_ok: "string_list_ok [''w'']" "string_list_ok []"
  unfolding string_list_ok_def by (rule small_within; code_simp)+

lemma payload_ok: "json_within 65536 (JObj [(''parentRunId'', JStr ''r1''), (''childRunId'', JStr ''r2''), (''depth'', JNum 1), (''expectedOutput'', JStr ''TEXT'')])"
  by (rule small_within; code_simp)

lemma scope_ok: "normalizeScope sample_scope = Inr sample_scope"
  by code_simp

lemma input_ok: "check_delegate_input sample_delegation_service sample_work = Inr (sample_limits 4, sample_scope)"
  by (simp add: check_delegate_input_def sample_work_def sample_delegation_service_def boundedText_def key_pattern_def scope_ok any_text_def alnum_def lower_alnum_def lower_letter_def upper_letter_def js_digit_def
     normalizeBudget_def sample_limits_def require_def) (simp add: sample_scope_def)

lemma budget_set:
  "\<exists>out. configureRootBudget sample_delegation_service 0 ''r1'' (sample_limits 10) sample_scope submitted_db = (Inr out, parent_db)"
  by (simp add: configureRootBudget_def scope_ok normalizeBudget_def transaction_def found_run_def)
    (simp add: sample_limits_def sample_scope_def sample_delegation_service_def parent_db_def insertBudgetEnvelope_def budget_checks_def
      new_envelope_def run_known_def lists_ok statement_defs table_reads sample_defs)

lemmas created_defs = delegate_parent_def found_run_def run_terminal_def new_envelope_def delegate_new_def admit_def reservationSummary_def
  reserved_of_def subset_of_def remaining_turns_def remaining_modelCalls_def remaining_toolCalls_def remaining_totalTokens_def
  child_rows_def insertBudgetEnvelope_def budget_checks_def run_known_def insertDelegation_def new_delegation_def delegation_checks_def
  delegation_active_def classifyRun_def classify_patch_def keep_task_def task_update_def task_updated_row_def task_nextEventSequence_def
  insertBudgetReservation_def new_reservation_def reservation_checks_def no_charge_def delegation_insertEvent_def expected_output_name_def

lemma sample_delegated:
  "\<exists>out. createDelegatedRun sample_delegation_service sample_ids 1 sample_work parent_db = (Inr out, with_child) \<and> \<not> dx_replayed out"
  apply (simp add: createDelegatedRun_def input_ok with_child_def transaction_def)
  apply (simp add: sample_work_def parent_db_def sample_limits_def sample_scope_def sample_delegation_service_def sample_ids_at
      lists_ok payload_ok created_defs statement_defs table_reads sample_defs)
  done

end
