(* ===== verification/Task_Frame.thy ===== *)
theory Task_Frame
  imports Ledger_Machine Transaction_Rules
begin

text \<open>
  The operations of the task ledger write the tables of tasks, their events and their deliveries, and nothing else;
  \<open>insertRun\<close> and \<open>updateRun\<close> also write the run.
\<close>

definition only_tasks :: "db \<Rightarrow> db \<Rightarrow> bool" where
  "only_tasks s t \<longleftrightarrow> (\<exists>x y z. t = s\<lparr>background_tasks := x, background_task_events := y, task_completion_deliveries := z\<rparr>)"

lemma only_tasksI:
  "t = s\<lparr>background_tasks := background_tasks t, background_task_events := background_task_events t,
     task_completion_deliveries := task_completion_deliveries t\<rparr> \<Longrightarrow> only_tasks s t"
  unfolding only_tasks_def by blast

interpretation ot: step_preorder only_tasks
proof
  show "only_tasks s s" for s by (rule only_tasksI) simp
  show "only_tasks a b \<Longrightarrow> only_tasks b c \<Longrightarrow> only_tasks a c" for a b c
    by (rule only_tasksI) (auto simp: only_tasks_def)
qed

lemma only_tasks_eq:
  assumes "only_tasks s t"
  shows "conversations t = conversations s" "conversation_messages t = conversation_messages s" "agent_runs t = agent_runs s"
    "run_attempts t = run_attempts s" "run_events t = run_events s" "conversation_submissions t = conversation_submissions s"
    "conversation_projections t = conversation_projections s" "run_budget_envelopes t = run_budget_envelopes s"
    "run_delegations t = run_delegations s" "run_delegation_waits t = run_delegation_waits s"
    "run_delegation_budget_reservations t = run_delegation_budget_reservations s"
  using assms by (auto simp: only_tasks_def)

lemma task_ops_only: "task_update p s = Inr (t, ro) \<Longrightarrow> only_tasks s t"
  by (rule only_tasksI) (auto simp: task_update_def Let_def split: option.splits if_splits)

lemma task_appendEvent_only: "task_appendEvent e s = Inr t \<Longrightarrow> only_tasks s t"
  by (rule only_tasksI) (auto dest: task_appendEvent_Inr)

lemma task_insert_only: "task_insert v s = Inr t \<Longrightarrow> only_tasks s t"
  by (rule only_tasksI)
    (auto simp: task_insert_def split: if_splits)

lemma deliver_completion_only: "deliver_completion r sq i s = Inr t \<Longrightarrow> only_tasks s t"
  by (rule only_tasksI)
    (auto simp: deliver_completion_def Let_def split: option.splits if_splits dest!: delivery_insert_Inr)

lemma createForRun_only: "createForRun i s = Inr (t, v) \<Longrightarrow> only_tasks s t"
  unfolding createForRun_def Let_def
  by (auto dest!: task_appendEvent_only task_insert_only intro: ot.trans simp del: require_Inr_iff)

lemma syncRunLifecycle_only:
  assumes "syncRunLifecycle i s = Inr (t, v)"
  shows "only_tasks s t"
  using assms
proof (cases rule: syncRunLifecycle_cases)
  case same
  then show ?thesis by (simp add: ot.refl)
next
  case (logged cur s1 e s2)
  have "only_tasks s s2" using task_ops_only [OF logged(3)] task_appendEvent_only [OF logged(4)] by (rule ot.trans)
  then show ?thesis using logged(8) deliver_completion_only ot.trans by (metis (full_types))
qed

lemma classifyRun_only: "classifyRun i s = Inr (t, v) \<Longrightarrow> only_tasks s t"
  by (auto simp: classifyRun_def Let_def split: option.splits if_splits
      dest!: task_ops_only task_appendEvent_only intro: ot.trans ot.refl)

lemma insertRun_only: "insertRun run s = Inr t \<Longrightarrow> only_tasks (s\<lparr>agent_runs := agent_runs s @ [run]\<rparr>) t \<and> getRun (r_runId run) s = None"
  by (auto simp: insertRun_def Let_def dest!: createForRun_only split: option.splits if_splits)

lemma updateRun_only:
  "updateRun u s = Inr t \<Longrightarrow>
     only_tasks (s\<lparr>agent_runs := tbl_modify (\<lambda>r. r_runId r = ru_runId u) (updated_run u) (agent_runs s)\<rparr>) t
     \<and> tbl_changes (\<lambda>r. r_runId r = ru_runId u) (agent_runs s) = 1"
  by (auto simp: updateRun_def Let_def dest!: syncRunLifecycle_only split: if_splits)

end
