(* ===== verification/Delegation_Properties.thy ===== *)
theory Delegation_Properties
  imports Delegation_Scenario Task_Frame
begin

text \<open>
  What the delegation service promises: a child is admitted within what its parent has left, and the budget reserved for it
  is settled once.
\<close>

section \<open>What the other ledgers leave alone\<close>

definition same_delegations :: "db \<Rightarrow> db \<Rightarrow> bool" where
  "same_delegations s t \<longleftrightarrow> run_delegations t = run_delegations s \<and> run_budget_envelopes t = run_budget_envelopes s
     \<and> run_delegation_budget_reservations t = run_delegation_budget_reservations s"

interpretation sd: step_preorder same_delegations
  by unfold_locales (auto simp: same_delegations_def)

lemma conversation_ops_same:
  "createConversation row s = Inr s1 \<Longrightarrow> same_delegations s s1"
  "nextMessageSequence i now s = Inr (s2, n) \<Longrightarrow> same_delegations s s2"
  "insertMessage m s = Inr s3 \<Longrightarrow> same_delegations s s3"
  "insertSubmission sub s = Inr s4 \<Longrightarrow> same_delegations s s4"
  "nextEventSequence i now s = Inr (s5, n) \<Longrightarrow> same_delegations s s5"
  "insertEvent e s = Inr s6 \<Longrightarrow> same_delegations s s6"
  "insertAttempt a s = Inr s7 \<Longrightarrow> same_delegations s s7"
  "write_attempt i msg f s = Inr s8 \<Longrightarrow> same_delegations s s8"
  "rebuildProjection i now s = Inr (s12, p) \<Longrightarrow> same_delegations s s12"
  by (force simp: same_delegations_def createConversation_def nextMessageSequence_def insertMessage_def
        insertSubmission_def nextEventSequence_def insertEvent_def insertAttempt_def write_attempt_def
        rebuildProjection_def Let_def split: if_splits option.splits)+

lemma only_tasks_same: "only_tasks s t \<Longrightarrow> same_delegations s t"
  by (simp add: same_delegations_def only_tasks_eq)

lemma insertRun_same: "insertRun row s = Inr t \<Longrightarrow> same_delegations s t"
  by (auto simp: same_delegations_def only_tasks_eq dest!: insertRun_only)

lemma updateRun_same: "updateRun u s = Inr t \<Longrightarrow> same_delegations s t"
  by (auto simp: same_delegations_def only_tasks_eq dest!: updateRun_only)

lemma classifyRun_same: "classifyRun i s = Inr (t, v) \<Longrightarrow> same_delegations s t"
  by (rule only_tasks_same) (rule classifyRun_only)

lemma delegation_insertEvent_same: "delegation_insertEvent e s = Inr t \<Longrightarrow> same_delegations s t"
  by (auto simp: delegation_insertEvent_def same_delegations_def split: if_splits)

lemma statement_rules:
  "keeps same_delegations (rop_do (createConversation c))"
  "keeps same_delegations (nextMessageSequence i now)"
  "keeps same_delegations (rop_do (insertMessage m))"
  "keeps same_delegations (rop_do (insertSubmission sub))"
  "keeps same_delegations (nextEventSequence i now)"
  "keeps same_delegations (rop_do (insertEvent e))"
  "keeps same_delegations (rop_do (insertAttempt a))"
  "keeps same_delegations (rop_do (updateAttempt aid ast b f rr now))"
  "keeps same_delegations (rop_do (updateAttemptUsage aid us tr now))"
  "keeps same_delegations (rop_do (insertRun run))"
  "keeps same_delegations (rop_do (updateRun u))"
  "keeps same_delegations (classifyRun y)"
  "keeps same_delegations (rebuildProjection i now)"
  "keeps same_delegations (rop_do (delegation_insertEvent v))"
  unfolding updateAttempt_def updateAttemptUsage_def
  by (rule sd.keeps_rop_do sd.keeps_op;
      erule conversation_ops_same insertRun_same updateRun_same classifyRun_same delegation_insertEvent_same)+

lemma child_rows_same: "keeps same_delegations (child_rows ds ids now i run)"
  unfolding child_rows_def by (intro sd.keeps_intros statement_rules)

lemma invocation_ops_same:
  "insertModelInvocation v s = Inr s1 \<Longrightarrow> same_delegations s s1"
  "completeModelInvocation i st resp inp outp err now s = Inr s2 \<Longrightarrow> same_delegations s s2"
  "recoverStartedModelInvocations i now s = (s3, k) \<Longrightarrow> same_delegations s s3"
  by (auto simp: same_delegations_def insertModelInvocation_def completeModelInvocation_def recoverStartedModelInvocations_def Let_def
      split: if_splits)

section \<open>Releasing a reservation\<close>

definition release_where :: "string \<Rightarrow> reservation_row \<Rightarrow> bool" where
  "release_where i r \<longleftrightarrow> rs_delegationId r = i \<and> rs_status r = RESERVED"

lemma release_Inr:
  assumes "releaseBudgetReservation i reason u now s = Inr (t, first, r)"
  shows "\<exists>r0. getBudgetReservation i s = Some r0 \<and>
    (if rs_status r0 = RELEASED then released_with reason u r0 \<and> t = s \<and> \<not> first \<and> r = r0
     else first \<and> getBudgetReservation i t = Some r
       \<and> budget_write (rs_parentRunId r0) (charge_parent u now) ''delegation parent budget charge target is missing''
           (s\<lparr>run_delegation_budget_reservations := tbl_modify (release_where i) (release_row reason u now)
              (run_delegation_budget_reservations s)\<rparr>) = Inr t)"
  using assms
  by (auto simp: releaseBudgetReservation_def release_where_def [abs_def] Let_def split: option.splits if_splits)

section \<open>Admission\<close>

lemma insert_rows:
  "insertBudgetEnvelope b s = Inr t \<Longrightarrow> getBudgetEnvelope (be_runId b) s = None \<and> t = s\<lparr>run_budget_envelopes := run_budget_envelopes s @ [b]\<rparr>"
  "insertDelegation d s = Inr t \<Longrightarrow> getDelegation (dg_delegationId d) s = None \<and> getDelegationByChildRun (dg_childRunId d) s = None
     \<and> t = s\<lparr>run_delegations := run_delegations s @ [d]\<rparr>"
  "insertBudgetReservation r s = Inr t \<Longrightarrow> getBudgetReservation (rs_delegationId r) s = None
     \<and> t = s\<lparr>run_delegation_budget_reservations := run_delegation_budget_reservations s @ [r]\<rparr>"
  by (auto simp: insertBudgetEnvelope_def insertDelegation_def insertBudgetReservation_def split: if_splits)

lemma delegate_new_effect:
  assumes "delegate_new ds ids now i requested scope run p s = Inr (t, out)"
  shows "admit p (reservationSummary (dt_parentRunId i) s) requested scope now = Inr ()
    \<and> out = \<lparr>dx_delegation = new_delegation ds ids now i scope p,
        dx_childBudget = new_envelope (ids 3) (be_rootRunId p) (Some (dt_parentRunId i)) (be_depth p + 1) requested scope now, dx_replayed = False\<rparr>
    \<and> getBudgetEnvelope (ids 3) s = None \<and> getDelegation (ids 0) s = None
    \<and> run_delegations t = run_delegations s @ [dx_delegation out]
    \<and> run_budget_envelopes t = run_budget_envelopes s @ [dx_childBudget out]
    \<and> run_delegation_budget_reservations t = run_delegation_budget_reservations s @ [new_reservation ids now i requested]"
proof -
  let ?d = "new_delegation ds ids now i scope p"
  let ?b = "new_envelope (ids 3) (be_rootRunId p) (Some (dt_parentRunId i)) (be_depth p + 1) requested scope now"
  from assms obtain s1 u s2 s3 s4 w s5 e where adm: "admit p (reservationSummary (dt_parentRunId i) s) requested scope now = Inr ()"
    and c: "child_rows ds ids now i run s = Inr (s1, u)" and b: "insertBudgetEnvelope ?b s1 = Inr s2"
    and d: "insertDelegation ?d s2 = Inr s3" and k: "classifyRun \<lparr>ci_runId = ids 3, ci_runtime = DELEGATION, ci_taskKind = ''agent.delegation'',
       ci_sourceId = Some (ids 0), ci_parentRunId = Some (dt_parentRunId i), ci_notifyPolicy = None, ci_updatedAt = now\<rparr> s3 = Inr (s4, w)"
    and r: "insertBudgetReservation (new_reservation ids now i requested) s4 = Inr s5" and e: "delegation_insertEvent e s5 = Inr t"
    and o: "out = \<lparr>dx_delegation = ?d, dx_childBudget = ?b, dx_replayed = False\<rparr>"
    by (auto simp: delegate_new_def Let_def rop_bind_Inr rop_do_Inr rop_of_Inr)
  from c child_rows_same have 1: "same_delegations s s1" by (auto simp: keeps_def)
  note 2 = insert_rows(1) [OF b] and 3 = insert_rows(2) [OF d] and 4 = classifyRun_same [OF k] and 5 = insert_rows(3) [OF r]
    and 6 = delegation_insertEvent_same [OF e]
  have "getBudgetEnvelope (ids 3) s = None" "getDelegation (ids 0) s = None" using 1 2 3
    by (simp_all add: same_delegations_def getBudgetEnvelope_def getDelegation_def new_envelope_def new_delegation_def)
  with adm o 1 2 3 4 5 6 show ?thesis by (simp add: same_delegations_def)
qed

lemma admit_Inr: "admit p r b sc now = Inr u \<longleftrightarrow>
    set (dl_workspaceIds sc) \<subseteq> set (be_allowedWorkspaceIds p) \<and> set (dl_skillIds sc) \<subseteq> set (be_allowedSkillIds p)
    \<and> set (dl_toolNames sc) \<subseteq> set (be_allowedToolNames p) \<and> be_depth p + 1 \<le> be_maxDelegationDepth p
    \<and> bu_maxDelegationDepth b \<le> be_maxDelegationDepth p \<and> bu_maxActiveChildren b \<le> be_maxActiveChildren p
    \<and> bu_maxTotalChildren b \<le> be_maxTotalChildren p \<and> bu_maxOutputTokens b \<le> be_maxOutputTokens p
    \<and> now < be_deadlineAt p \<and> now + bu_maxDurationMs b \<le> be_deadlineAt p
    \<and> int (rv_activeChildren r) < be_maxActiveChildren p \<and> int (rv_totalChildren r) < be_maxTotalChildren p
    \<and> bu_maxTurns b \<le> remaining_turns p r \<and> bu_maxModelCalls b \<le> remaining_modelCalls p r
    \<and> bu_maxToolCalls b \<le> remaining_toolCalls p r \<and> bu_maxTotalTokens b \<le> remaining_totalTokens p r"
  by (auto simp: admit_def subset_of_def list_all_iff split: if_splits)

definition within_parent :: "budget_row \<Rightarrow> reservation_summary \<Rightarrow> budget_row \<Rightarrow> bool" where
  "within_parent p r c \<longleftrightarrow>
     0 \<le> remaining_turns p r \<and> 0 \<le> remaining_modelCalls p r \<and> 0 \<le> remaining_toolCalls p r \<and> 0 \<le> remaining_totalTokens p r
     \<and> int (rv_activeChildren r) \<le> be_maxActiveChildren p \<and> int (rv_totalChildren r) \<le> be_maxTotalChildren p
     \<and> be_depth c = be_depth p + 1 \<and> be_depth c \<le> be_maxDelegationDepth p \<and> be_deadlineAt c \<le> be_deadlineAt p
     \<and> be_maxDelegationDepth c \<le> be_maxDelegationDepth p \<and> be_maxActiveChildren c \<le> be_maxActiveChildren p
     \<and> be_maxTotalChildren c \<le> be_maxTotalChildren p \<and> be_maxOutputTokens c \<le> be_maxOutputTokens p
     \<and> set (be_allowedWorkspaceIds c) \<subseteq> set (be_allowedWorkspaceIds p) \<and> set (be_allowedSkillIds c) \<subseteq> set (be_allowedSkillIds p)
     \<and> set (be_allowedToolNames c) \<subseteq> set (be_allowedToolNames p)"

lemma delegate_parent_Inr: "delegate_parent i s = Inr (t, run, p) \<Longrightarrow> t = s \<and> getRun (dt_parentRunId i) s = Some run
     \<and> getBudgetEnvelope (dt_parentRunId i) s = Some p"
  by (auto simp: delegate_parent_def found_run_def rop_bind_Inr rop_found_Inr split: if_splits)

lemma delegate_replay_Inr: "delegate_replay ds i b sc d s = Inr (t, out) \<Longrightarrow> t = s \<and> dx_replayed out"
  by (auto simp: delegate_replay_def rop_bind_Inr rop_found_Inr split: if_splits)

text \<open>A call that returns a new delegation.\<close>

lemma createDelegatedRun_new:
  assumes "createDelegatedRun ds ids now i s = (Inr out, s')" and "\<not> dx_replayed out"
  obtains requested scope run p where "getBudgetEnvelope (dt_parentRunId i) s = Some p"
    and "delegate_new ds ids now i requested scope run p s = Inr (s', out)" and "check_delegate_input ds i = Inr (requested, scope)"
proof -
  from assms(1) obtain requested scope where check: "check_delegate_input ds i = Inr (requested, scope)" and "transaction (rop_bind (delegate_parent i) (\<lambda>(run, p).
       rop_bind (rop_read (getDelegationByIdempotency (dt_parentRunId i) (dt_idempotencyKey i))) (\<lambda>existing.
       (case existing of Some d \<Rightarrow> delegate_replay ds i requested scope d
        | None \<Rightarrow> delegate_new ds ids now i requested scope run p)))) s = (Inr out, s')"
    by (auto simp: createDelegatedRun_def split: sum.splits prod.splits)
  from this(2) obtain run p s1 where "delegate_parent i s = Inr (s1, run, p)" and c: "(case getDelegationByIdempotency (dt_parentRunId i) (dt_idempotencyKey i) s1 of
       Some d \<Rightarrow> delegate_replay ds i requested scope d | None \<Rightarrow> delegate_new ds ids now i requested scope run p) s1 = Inr (s', out)"
    by (auto simp: transaction_def rop_bind_Inr split: sum.splits prod.splits)
  from delegate_parent_Inr [OF this(1)] have 1: "s1 = s" "getBudgetEnvelope (dt_parentRunId i) s = Some p" by auto
  with c assms(2) have "delegate_new ds ids now i requested scope run p s = Inr (s', out)"
    by (auto split: option.splits dest: delegate_replay_Inr)
  with 1 check that show ?thesis by blast
qed

lemma createDelegatedRun_old:
  assumes "createDelegatedRun ds ids now i s = (r, t)" and "\<forall>out. r = Inr out \<longrightarrow> dx_replayed out"
  shows "t = s"
proof (cases r)
  case (Inl e)
  with assms(1) show ?thesis by (auto simp: createDelegatedRun_def transaction_def split: sum.splits prod.splits)
next
  case (Inr out)
  with assms obtain rq sc where "transaction (rop_bind (delegate_parent i) (\<lambda>(run, p).
       rop_bind (rop_read (getDelegationByIdempotency (dt_parentRunId i) (dt_idempotencyKey i))) (\<lambda>existing.
       (case existing of Some d \<Rightarrow> delegate_replay ds i rq sc d
        | None \<Rightarrow> delegate_new ds ids now i rq sc run p)))) s = (Inr out, t)"
    by (auto simp: createDelegatedRun_def split: sum.splits prod.splits)
  then obtain run p s1 where 1: "delegate_parent i s = Inr (s1, run, p)" and c: "(case getDelegationByIdempotency (dt_parentRunId i) (dt_idempotencyKey i) s1 of
       Some d \<Rightarrow> delegate_replay ds i rq sc d | None \<Rightarrow> delegate_new ds ids now i rq sc run p) s1 = Inr (t, out)"
    by (auto simp: transaction_def rop_bind_Inr split: sum.splits prod.splits)
  show ?thesis
  proof (cases "getDelegationByIdempotency (dt_parentRunId i) (dt_idempotencyKey i) s1")
    case None
    with c have "delegate_new ds ids now i rq sc run p s1 = Inr (t, out)" by simp
    from delegate_new_effect [OF this] have "\<not> dx_replayed out" by auto
    with assms(2) Inr show ?thesis by simp
  next
    case (Some d)
    with c delegate_parent_Inr [OF 1] show ?thesis by (auto dest: delegate_replay_Inr)
  qed
qed

text \<open>C13. A child is admitted only within what its parent may still give away. After a delegation that is not a replay, the
  parent's envelope is what it was, and what it has left when everything reserved for its children is taken off, the new child
  included, is not negative in turns, model calls, tool calls and tokens; the numbers of active and of all children are within its
  limits; and the child's own envelope is one level deeper, ends no later and allows nothing that the parent's does not.\<close>

theorem delegated_within_budget:
  assumes "createDelegatedRun ds ids now i s = (Inr out, s')" and "\<not> dx_replayed out"
  shows "\<exists>p. getBudgetEnvelope (dt_parentRunId i) s = Some p \<and> getBudgetEnvelope (dt_parentRunId i) s' = Some p
    \<and> getBudgetEnvelope (dg_childRunId (dx_delegation out)) s' = Some (dx_childBudget out)
    \<and> within_parent p (reservationSummary (dt_parentRunId i) s') (dx_childBudget out)"
proof -
  from createDelegatedRun_new [OF assms] obtain requested scope run p where p: "getBudgetEnvelope (dt_parentRunId i) s = Some p"
    and n: "delegate_new ds ids now i requested scope run p s = Inr (s', out)" and "check_delegate_input ds i = Inr (requested, scope)" .
  note eff = delegate_new_effect [OF n]
  have "reservationSummary (dt_parentRunId i) s' = (let r = reservationSummary (dt_parentRunId i) s in
      r\<lparr>rv_activeChildren := rv_activeChildren r + 1, rv_totalChildren := rv_totalChildren r + 1,
        rv_reservedTurns := rv_reservedTurns r + bu_maxTurns requested, rv_reservedModelCalls := rv_reservedModelCalls r + bu_maxModelCalls requested,
        rv_reservedToolCalls := rv_reservedToolCalls r + bu_maxToolCalls requested,
        rv_reservedTotalTokens := rv_reservedTotalTokens r + bu_maxTotalTokens requested\<rparr>)"
    using eff by (simp add: reservationSummary_def reserved_of_def Let_def new_reservation_def new_delegation_def)
  moreover have "getBudgetEnvelope (dt_parentRunId i) s' = Some p" "getBudgetEnvelope (ids 3) s' = Some (dx_childBudget out)"
    using eff p by (simp_all add: getBudgetEnvelope_def tbl_get_append new_envelope_def)
  moreover have "within_parent p (reservationSummary (dt_parentRunId i) s') (dx_childBudget out)"
    using conjunct1 [OF eff, unfolded admit_Inr] eff calculation(1)
    by (simp add: within_parent_def Let_def new_envelope_def remaining_turns_def remaining_modelCalls_def
        remaining_toolCalls_def remaining_totalTokens_def)
  ultimately show ?thesis using eff p by (simp add: new_delegation_def)
qed

theorem delegated_within_budget_witness:
  "\<exists>out p. createDelegatedRun sample_delegation_service sample_ids 1 sample_work parent_db = (Inr out, with_child)
     \<and> getBudgetEnvelope ''r1'' with_child = Some p \<and> within_parent p (reservationSummary ''r1'' with_child) (dx_childBudget out)"
proof -
  from sample_delegated obtain out where o: "createDelegatedRun sample_delegation_service sample_ids 1 sample_work parent_db = (Inr out, with_child)"
    "\<not> dx_replayed out" by blast
  from delegated_within_budget [OF this] o(1) show ?thesis by (auto simp: sample_work_def)
qed

section \<open>Settlement\<close>

lemma budget_write_Inr: "budget_write k f msg s = Inr t \<longleftrightarrow>
    list_all (\<lambda>b. be_runId b = k \<longrightarrow> budget_checks (f b)) (run_budget_envelopes s)
    \<and> tbl_changes (\<lambda>b. be_runId b = k) (run_budget_envelopes s) = 1
    \<and> t = s\<lparr>run_budget_envelopes := tbl_modify (\<lambda>b. be_runId b = k) f (run_budget_envelopes s)\<rparr>"
  by (auto simp: budget_write_def Let_def split: if_splits)

lemma one_row: "tbl_changes (\<lambda>b. key b = k) rows = 1 \<Longrightarrow> \<exists>b. tbl_get key k rows = Some b"
  by (induction rows) (auto simp: tbl_changes_def tbl_get_def)

definition open_of :: "string \<Rightarrow> reservation_row \<Rightarrow> bool" where
  "open_of k r \<longleftrightarrow> rs_parentRunId r = k \<and> rs_status r = RESERVED"

lemma sum_released:
  fixes f :: "reservation_row \<Rightarrow> int"
  assumes "distinct (map rs_delegationId rows)" and "tbl_get rs_delegationId i rows = Some r0"
    and "open_of k r0" and "\<And>r. rs_status (g r) = RELEASED"
  shows "sum_list (map f (filter (open_of k) (tbl_modify (release_where i) g rows))) = sum_list (map f (filter (open_of k) rows)) - f r0"
  using assms(1,2)
proof (induction rows)
  case Nil
  then show ?case by (simp add: tbl_get_def)
next
  case (Cons a rows)
  show ?case
  proof (cases "rs_delegationId a = i")
    case True
    with Cons.prems have a: "r0 = a" by (simp add: tbl_get_def)
    have "\<forall>x \<in> set rows. rs_delegationId x \<noteq> i" by (simp add: True [symmetric] key_fresh [OF Cons.prems(1)])
    then have "tbl_modify (release_where i) g rows = rows" unfolding tbl_modify_def
      by (intro map_idI) (simp add: release_where_def)
    with a assms(3,4) True show ?thesis by (simp add: tbl_modify_def release_where_def open_of_def)
  next
    case False
    with Cons show ?thesis by (auto simp: tbl_get_def tbl_modify_def release_where_def)
  qed
qed

text \<open>C22. A reservation is settled once, and settling it moves what it held. When it is released, what the parent has left grows
  by what was reserved for the child and shrinks by what the child used, in turns, model calls, tool calls and tokens, and
  one child less is active. A second release of the same delegation changes nothing: with the same reason and usage it
  returns the settled row, and with any other it is refused.\<close>

theorem reservation_settled_once:
  assumes "releaseBudgetReservation i reason u now s = Inr (t, True, r)"
    and "distinct (map rs_delegationId (run_delegation_budget_reservations s))"
  shows "(\<exists>r0 p p' v w. getBudgetReservation i s = Some r0 \<and> rs_status r0 = RESERVED
      \<and> getBudgetEnvelope (rs_parentRunId r0) s = Some p \<and> getBudgetEnvelope (rs_parentRunId r0) t = Some p'
      \<and> v = reservationSummary (rs_parentRunId r0) s \<and> w = reservationSummary (rs_parentRunId r0) t
      \<and> remaining_turns p' w = remaining_turns p v + rs_reservedTurns r0 - au_turns u
      \<and> remaining_modelCalls p' w = remaining_modelCalls p v + rs_reservedModelCalls r0 - au_modelCalls u
      \<and> remaining_toolCalls p' w = remaining_toolCalls p v + rs_reservedToolCalls r0 - au_toolCalls u
      \<and> remaining_totalTokens p' w = remaining_totalTokens p v + rs_reservedTotalTokens r0 - au_inputTokens u - au_outputTokens u
      \<and> int (rv_activeChildren w) = int (rv_activeChildren v) - 1 \<and> rv_totalChildren w = rv_totalChildren v)
    \<and> releaseBudgetReservation i reason' u' now' t = (if reason' = reason \<and> u' = u then Inr (t, False, r)
        else Inl (schema_inconsistent ''delegation budget release conflicts with durable charge''))"
proof -
  let ?rows = "run_delegation_budget_reservations s" and ?g = "release_row reason u now"
  from release_Inr [OF assms(1)] obtain r0 where r0: "getBudgetReservation i s = Some r0" "rs_status r0 \<noteq> RELEASED"
    and r: "getBudgetReservation i t = Some r" and w: "budget_write (rs_parentRunId r0) (charge_parent u now)
        ''delegation parent budget charge target is missing''
        (s\<lparr>run_delegation_budget_reservations := tbl_modify (release_where i) ?g ?rows\<rparr>) = Inr t"
    by (auto split: if_splits)
  have reserved: "rs_status r0 = RESERVED" using r0(2) by (cases "rs_status r0") auto
  let ?k = "rs_parentRunId r0"
  from w obtain p where p: "getBudgetEnvelope ?k s = Some p" unfolding budget_write_Inr getBudgetEnvelope_def
    using one_row [of be_runId ?k "run_budget_envelopes s"] by auto
  have t: "t = s\<lparr>run_delegation_budget_reservations := tbl_modify (release_where i) ?g ?rows,
      run_budget_envelopes := tbl_modify (\<lambda>b. be_runId b = ?k) (charge_parent u now) (run_budget_envelopes s)\<rparr>"
    using w by (simp add: budget_write_Inr)
  have p': "getBudgetEnvelope ?k t = Some (charge_parent u now p)" using p
    by (simp add: t getBudgetEnvelope_def tbl_get_write charge_parent_def) (auto dest: tbl_get_key)
  have "getBudgetReservation i t = map_option (\<lambda>x. if release_where i x then ?g x else x) (getBudgetReservation i s)"
    by (simp add: t getBudgetReservation_def tbl_get_write release_row_def)
  with r r0 reserved have r_eq: "r = ?g r0" by (auto simp: release_where_def getBudgetReservation_def dest: tbl_get_key)
  have sums: "sum_list (map f (reserved_of ?k t)) = sum_list (map f (reserved_of ?k s)) - f r0" for f :: "reservation_row \<Rightarrow> int"
    using sum_released [OF assms(2) r0(1) [unfolded getBudgetReservation_def], of ?k ?g f] reserved
    by (simp add: t reserved_of_def open_of_def [abs_def] release_row_def)
  let ?q = "charge_parent u now p" and ?v = "reservationSummary ?k s" and ?w = "reservationSummary ?k t"
  have "run_delegations t = run_delegations s" by (simp add: t)
  then have left: "remaining_turns ?q ?w = remaining_turns p ?v + rs_reservedTurns r0 - au_turns u"
    "remaining_modelCalls ?q ?w = remaining_modelCalls p ?v + rs_reservedModelCalls r0 - au_modelCalls u"
    "remaining_toolCalls ?q ?w = remaining_toolCalls p ?v + rs_reservedToolCalls r0 - au_toolCalls u"
    "remaining_totalTokens ?q ?w = remaining_totalTokens p ?v + rs_reservedTotalTokens r0 - au_inputTokens u - au_outputTokens u"
    "int (rv_activeChildren ?w) = int (rv_activeChildren ?v) - 1" "rv_totalChildren ?w = rv_totalChildren ?v"
    using sums sums [of "\<lambda>_. 1"]
    by (simp_all add: reservationSummary_def Let_def remaining_turns_def remaining_modelCalls_def remaining_toolCalls_def
        remaining_totalTokens_def charge_parent_def sum_list_triv)
  have again: "releaseBudgetReservation i reason' u' now' t = (if reason' = reason \<and> u' = u then Inr (t, False, r)
        else Inl (schema_inconsistent ''delegation budget release conflicts with durable charge''))"
    using r by (auto simp: r_eq releaseBudgetReservation_def released_with_def release_row_def)
  show ?thesis
    by (rule conjI [OF _ again], rule exI [of _ r0], rule exI [of _ p], rule exI [of _ ?q], rule exI [of _ ?v], rule exI [of _ ?w])
      (simp only: r0(1) reserved p p' left simp_thms)
qed

definition child_usage :: attempt_usage where
  "child_usage = \<lparr>au_turns = 1, au_inputTokens = 1, au_outputTokens = 1, au_modelCalls = 1, au_toolCalls = 0\<rparr>"

definition settled_db :: db where
  "settled_db = (case releaseBudgetReservation ''d'' N_COMPLETED child_usage 2 with_child of Inl e \<Rightarrow> with_child | Inr (t, out) \<Rightarrow> t)"

lemma with_child_rows:
  "run_budget_envelopes with_child = [new_envelope ''r1'' ''r1'' None 0 (sample_limits 10) sample_scope 0,
     new_envelope ''r2'' ''r1'' (Some ''r1'') 1 (sample_limits 4) sample_scope 1]"
  "run_delegation_budget_reservations with_child = [new_reservation sample_ids 1 sample_work (sample_limits 4)]"
proof -
  from sample_delegated obtain out where o: "createDelegatedRun sample_delegation_service sample_ids 1 sample_work parent_db = (Inr out, with_child)"
    "\<not> dx_replayed out" by blast
  obtain rq sc run p where p: "getBudgetEnvelope (dt_parentRunId sample_work) parent_db = Some p"
    and n: "delegate_new sample_delegation_service sample_ids 1 sample_work rq sc run p parent_db = Inr (with_child, out)"
    and "check_delegate_input sample_delegation_service sample_work = Inr (rq, sc)"
    using createDelegatedRun_new [OF o] .
  then have "rq = sample_limits 4" "sc = sample_scope" by (simp_all add: input_ok)
  moreover have "p = new_envelope ''r1'' ''r1'' None 0 (sample_limits 10) sample_scope 0" using p
    by (simp add: parent_db_def getBudgetEnvelope_def tbl_get_def new_envelope_def sample_work_def)
  ultimately show "run_budget_envelopes with_child = [new_envelope ''r1'' ''r1'' None 0 (sample_limits 10) sample_scope 0,
     new_envelope ''r2'' ''r1'' (Some ''r1'') 1 (sample_limits 4) sample_scope 1]"
   "run_delegation_budget_reservations with_child = [new_reservation sample_ids 1 sample_work (sample_limits 4)]"
    using delegate_new_effect [OF n] by (simp_all add: parent_db_def submitted_db_def empty_db_def sample_ids_at sample_work_def new_envelope_def)
qed

lemma sample_released: "\<exists>r. releaseBudgetReservation ''d'' N_COMPLETED child_usage 2 with_child = Inr (settled_db, True, r)"
  by (simp add: settled_db_def releaseBudgetReservation_def getBudgetReservation_def with_child_rows new_reservation_def sample_ids_at
      sample_work_def release_row_def reservation_checks_def delegation_active_def child_usage_def budget_write_def new_envelope_def
      budget_checks_def lists_ok sample_limits_def sample_scope_def charge_parent_def tbl_get_def tbl_changes_def tbl_modify_def require_def Let_def)

theorem reservation_settled_once_witness:
  "\<exists>r e. releaseBudgetReservation ''d'' N_COMPLETED child_usage 2 with_child = Inr (settled_db, True, r)
     \<and> releaseBudgetReservation ''d'' N_COMPLETED child_usage 3 settled_db = Inr (settled_db, False, r)
     \<and> releaseBudgetReservation ''d'' N_FAILED child_usage 3 settled_db = Inl e"
proof -
  from sample_released obtain r where r: "releaseBudgetReservation ''d'' N_COMPLETED child_usage 2 with_child = Inr (settled_db, True, r)" ..
  have "distinct (map rs_delegationId (run_delegation_budget_reservations with_child))" by (simp add: with_child_rows)
  note again = conjunct2 [OF reservation_settled_once [OF r this]]
  have "releaseBudgetReservation ''d'' N_COMPLETED child_usage 3 settled_db = Inr (settled_db, False, r)"
    "releaseBudgetReservation ''d'' N_FAILED child_usage 3 settled_db = Inl (schema_inconsistent ''delegation budget release conflicts with durable charge'')"
    by (simp_all add: again)
  with r show ?thesis by blast
qed

end
