(* ===== verification/Agent_Machine.thy ===== *)
theory Agent_Machine
  imports Conversation_Machine Delegation_Properties Scenario
begin

text \<open>
  What the calls of the conversation and the delegation service keep: the ledgers of tasks and flows stay sound, and
  the delegations stay a forest.
\<close>

section \<open>Ledgers\<close>

lemma delegation_ops_world:
  "insertBudgetEnvelope b s = Inr s1 \<Longrightarrow> world_step s s1"
  "updateBudgetUsage i us now s = Inr s2 \<Longrightarrow> world_step s s2"
  "updateDelegationStatus i ds x y z now s = Inr s3 \<Longrightarrow> world_step s s3"
  "delegation_insertEvent dv s = Inr s4 \<Longrightarrow> world_step s s4"
  "insertWait w s = Inr s5 \<Longrightarrow> world_step s s5"
  "deleteWait i j s = (s6, gone) \<Longrightarrow> world_step s s6"
  "insertResultDelivery rd s = Inr s7 \<Longrightarrow> world_step s s7"
  "markResultDelivered i h at now s = Inr s8 \<Longrightarrow> world_step s s8"
  "releaseBudgetReservation i rr us now s = Inr (s9, br) \<Longrightarrow> world_step s s9"
  "insertDelegation d s = Inr s10 \<Longrightarrow> world_step s s10"
  "insertBudgetReservation r s = Inr s11 \<Longrightarrow> world_step s s11"
  by (intro world_step_frame;
      force simp: same_flows_def insertBudgetEnvelope_def updateBudgetUsage_def budget_write_def updateDelegationStatus_def
        delegation_write_def delegation_insertEvent_def insertWait_def deleteWait_def insertResultDelivery_def
        markResultDelivered_def releaseBudgetReservation_def insertDelegation_def insertBudgetReservation_def Let_def
        split: if_splits option.splits)+

interpretation cw: delegation_statements world_step
  by unfold_locales
    (erule conversation_ops_world insertRun_world updateRun_world classifyRun_world delegation_ops_world)+

inductive system_step :: "db \<Rightarrow> db \<Rightarrow> bool" where
  ledger: "ledger_step s t \<Longrightarrow> system_step s t"
| agent: "agent_step s t \<Longrightarrow> system_step s t"

definition system_reachable :: "db \<Rightarrow> bool" where
  "system_reachable s \<longleftrightarrow> system_step\<^sup>*\<^sup>* empty_db s"

lemma system_step_world: "system_step s t \<Longrightarrow> world_step s t"
  by (induction rule: system_step.induct) (auto dest: ledger_step_world cw.agent_step_R)

lemma system_steps_world: "system_step\<^sup>*\<^sup>* s t \<Longrightarrow> world_step s t"
  by (induction rule: rtranclp_induct) (auto intro: world_step_refl world_step_trans dest: system_step_world)

lemma system_world_ok: "system_reachable s \<Longrightarrow> world_ok s"
  using system_steps_world empty_db_ok by (auto simp: system_reachable_def world_step_def)

section \<open>The forest of delegations\<close>

definition hand_over :: "delegation_row \<Rightarrow> string \<times> string \<times> string \<times> int" where
  "hand_over d = (dg_delegationId d, dg_parentRunId d, dg_childRunId d, dg_depth d)"

definition run_depth :: "string \<Rightarrow> db \<Rightarrow> int option" where
  "run_depth r s = map_option be_depth (getBudgetEnvelope r s)"

definition forest_kept :: "db \<Rightarrow> db \<Rightarrow> bool" where
  "forest_kept s t \<longleftrightarrow> map hand_over (run_delegations t) = map hand_over (run_delegations s)
     \<and> (\<forall>r n. run_depth r s = Some n \<longrightarrow> run_depth r t = Some n)"

definition forest_ok :: "db \<Rightarrow> bool" where
  "forest_ok s \<longleftrightarrow> distinct (map dg_delegationId (run_delegations s))
     \<and> (\<forall>d \<in> set (run_delegations s). run_depth (dg_childRunId d) s = Some (dg_depth d)
          \<and> run_depth (dg_parentRunId d) s = Some (dg_depth d - 1))"

lemma same_forest: "same_delegations s t \<Longrightarrow> forest_kept s t"
  by (simp add: same_delegations_def forest_kept_def run_depth_def getBudgetEnvelope_def)

lemma budget_write_depth:
  assumes "budget_write i f msg s = Inr t" and "\<And>b. be_runId (f b) = be_runId b \<and> be_depth (f b) = be_depth b"
  shows "run_delegations t = run_delegations s \<and> (\<forall>r. run_depth r t = run_depth r s)"
proof -
  from assms(1) have "t = s\<lparr>run_budget_envelopes := tbl_modify (\<lambda>b. be_runId b = i) f (run_budget_envelopes s)\<rparr>"
    by (auto simp: budget_write_def Let_def split: if_splits)
  then show ?thesis using assms(2)
    by (simp add: run_depth_def getBudgetEnvelope_def tbl_get_write option.map_comp) (auto intro!: option.map_cong)
qed

lemma run_depth_reservations: "run_depth r (s\<lparr>run_delegation_budget_reservations := x\<rparr>) = run_depth r s"
  by (simp add: run_depth_def getBudgetEnvelope_def)

lemma delegation_ops_forest:
  "insertBudgetEnvelope b s = Inr s1 \<Longrightarrow> forest_kept s s1"
  "updateBudgetUsage i us now s = Inr s2 \<Longrightarrow> forest_kept s s2"
  "updateDelegationStatus i ds x y z now s = Inr s3 \<Longrightarrow> forest_kept s s3"
  "insertWait w s = Inr s5 \<Longrightarrow> forest_kept s s5"
  "deleteWait i j s = (s6, gone) \<Longrightarrow> forest_kept s s6"
  "insertResultDelivery rd s = Inr s7 \<Longrightarrow> forest_kept s s7"
  "markResultDelivered i h at now s = Inr s8 \<Longrightarrow> forest_kept s s8"
  "releaseBudgetReservation i rr us now s = Inr (s9, br) \<Longrightarrow> forest_kept s s9"
proof -
  show "insertBudgetEnvelope b s = Inr s1 \<Longrightarrow> forest_kept s s1"
    by (auto simp: forest_kept_def run_depth_def getBudgetEnvelope_def tbl_get_append dest!: insert_rows(1) split: option.splits)
  show "updateBudgetUsage i us now s = Inr s2 \<Longrightarrow> forest_kept s s2"
    unfolding updateBudgetUsage_def by (drule budget_write_depth) (auto simp: forest_kept_def)
  show "updateDelegationStatus i ds x y z now s = Inr s3 \<Longrightarrow> forest_kept s s3"
    by (auto simp: updateDelegationStatus_def delegation_write_def Let_def forest_kept_def run_depth_def getBudgetEnvelope_def
        tbl_modify_def hand_over_def split: if_splits)
  show "insertWait w s = Inr s5 \<Longrightarrow> forest_kept s s5" "deleteWait i j s = (s6, gone) \<Longrightarrow> forest_kept s s6"
    "insertResultDelivery rd s = Inr s7 \<Longrightarrow> forest_kept s s7" "markResultDelivered i h at now s = Inr s8 \<Longrightarrow> forest_kept s s8"
    by (auto simp: insertWait_def deleteWait_def insertResultDelivery_def markResultDelivered_def Let_def same_delegations_def
        intro!: same_forest split: if_splits)
  assume "releaseBudgetReservation i rr us now s = Inr (s9, br)"
  then have "releaseBudgetReservation i rr us now s = Inr (s9, fst br, snd br)" by simp
  from release_Inr [OF this] show "forest_kept s s9"
    by (auto simp: forest_kept_def charge_parent_def run_depth_reservations dest!: budget_write_depth split: if_splits)
qed

interpretation cf: conversation_statements forest_kept
proof
  show "forest_kept s s" "forest_kept a b \<Longrightarrow> forest_kept b c \<Longrightarrow> forest_kept a c" for s a b c
    by (simp_all add: forest_kept_def)
qed (auto intro: same_forest conversation_ops_same insertRun_same updateRun_same delegation_insertEvent_same delegation_ops_forest
    invocation_ops_same)

lemma forest_kept_ok:
  assumes "forest_kept s t" and "forest_ok s"
  shows "forest_ok t"
proof -
  have "map dg_delegationId ds = map fst (map hand_over ds)" for ds by (simp add: hand_over_def)
  with assms have "distinct (map dg_delegationId (run_delegations t))" unfolding forest_kept_def forest_ok_def by metis
  moreover have "run_depth (dg_childRunId d) t = Some (dg_depth d) \<and> run_depth (dg_parentRunId d) t = Some (dg_depth d - 1)"
    if "d \<in> set (run_delegations t)" for d
  proof -
    from that assms(1) have "hand_over d \<in> hand_over ` set (run_delegations s)" unfolding forest_kept_def by (metis image_eqI list.set_map)
    then obtain d' where "d' \<in> set (run_delegations s)" "hand_over d' = hand_over d" by auto
    with assms show ?thesis by (auto simp: forest_ok_def forest_kept_def hand_over_def)
  qed
  ultimately show ?thesis by (simp add: forest_ok_def)
qed

lemma delegated_forest:
  assumes "createDelegatedRun ds ids now i s = (r, t)" and "forest_ok s"
  shows "forest_ok t"
proof (cases "\<exists>out. r = Inr out \<and> \<not> dx_replayed out")
  case True
  with assms(1) obtain out where c: "createDelegatedRun ds ids now i s = (Inr out, t)" "\<not> dx_replayed out" by auto
  from createDelegatedRun_new [OF c] obtain rq sc run p where p: "getBudgetEnvelope (dt_parentRunId i) s = Some p"
    and n: "delegate_new ds ids now i rq sc run p s = Inr (t, out)" and "check_delegate_input ds i = Inr (rq, sc)" .
  note eff = delegate_new_effect [OF n]
  have old: "run_depth k t = Some n" if "run_depth k s = Some n" for k n
    using eff that by (auto simp: run_depth_def getBudgetEnvelope_def tbl_get_append)
  have child: "run_depth (ids 3) t = Some (be_depth p + 1)"
    using eff by (auto simp: run_depth_def getBudgetEnvelope_def tbl_get_append new_envelope_def)
  have "run_depth (dt_parentRunId i) s = Some (be_depth p)" using p by (simp add: run_depth_def)
  with old child eff assms(2) show ?thesis
    by (auto simp: forest_ok_def new_delegation_def getDelegation_def tbl_get_None)
next
  case False
  with assms have "t = s" by (auto dest: createDelegatedRun_old)
  with assms(2) show ?thesis by simp
qed

lemma agent_forest: "agent_step s t \<Longrightarrow> forest_ok s \<Longrightarrow> forest_ok t"
  by (induction rule: agent_step.induct) (auto intro: delegated_forest forest_kept_ok cf.conversation_step_R)

lemma agent_reachable_forest: "agent_reachable s \<Longrightarrow> forest_ok s"
  unfolding agent_reachable_def
proof (induction rule: rtranclp_induct)
  case base
  show ?case by (simp add: forest_ok_def empty_db_def)
next
  case (step s t)
  then show ?case by (blast intro: agent_forest)
qed

section \<open>Descendants\<close>

definition child_of :: "delegation_row list \<Rightarrow> string \<Rightarrow> string \<Rightarrow> bool" where
  "child_of ds a b \<longleftrightarrow> (\<exists>d \<in> set ds. dg_parentRunId d = a \<and> dg_childRunId d = b)"

text \<open>The rounds of the recursive query: the runs it goes on from after \<open>n\<close> of them.\<close>

primrec level_runs :: "nat \<Rightarrow> delegation_row list \<Rightarrow> string list \<Rightarrow> string list" where
  "level_runs 0 ds runs = runs"
| "level_runs (Suc n) ds runs = level_runs n ds (map dg_childRunId (filter (\<lambda>r. dg_parentRunId r \<in> set runs) ds))"

lemma set_level_runs: "set (level_runs n ds runs) = {y. \<exists>r \<in> set runs. (child_of ds ^^ n) r y}"
proof (induction n arbitrary: runs)
  case 0
  then show ?case by auto
next
  case (Suc n)
  have step: "(child_of ds ^^ Suc n) r y \<longleftrightarrow> (\<exists>z. child_of ds r z \<and> (child_of ds ^^ n) z y)" for r y
    by (metis relpowp_Suc_D2 relpowp_Suc_I2)
  have "q \<in> set (map dg_childRunId (filter (\<lambda>d. dg_parentRunId d \<in> set runs) ds)) \<longleftrightarrow> (\<exists>r \<in> set runs. child_of ds r q)" for q
    by (auto simp: child_of_def)
  then show ?case by (simp only: level_runs.simps Suc.IH step) blast
qed

lemma set_subtree_runs:
  "set (subtree_runs n ds runs) = {i. \<exists>k < n. \<exists>d \<in> set ds. dg_delegationId d = i \<and> dg_parentRunId d \<in> set (level_runs k ds runs)}"
proof (induction n arbitrary: runs)
  case 0
  then show ?case by simp
next
  case (Suc n)
  show ?case by (simp only: Ex_less_Suc2) (auto simp: Let_def Suc.IH)
qed

lemma subtree_runs_add: "subtree_runs (m + n) ds runs = subtree_runs m ds runs @ subtree_runs n ds (level_runs m ds runs)"
  by (induction m arbitrary: runs) (simp_all add: Let_def)

lemma subtree_runs_Nil: "set runs \<inter> dg_parentRunId ` set ds = {} \<Longrightarrow> subtree_runs n ds runs = []"
proof (induction n arbitrary: runs)
  case (Suc n)
  then have "filter (\<lambda>r. dg_parentRunId r \<in> set runs) ds = []" by (auto simp: filter_empty_conv)
  with Suc.IH [of "[]"] show ?case by simp
qed simp

text \<open>Along a path from run to run the depth grows, so the delegations on it are different ones.\<close>

lemma path_bounded:
  assumes "forest_ok s" and "(child_of (run_delegations s) ^^ n) r x"
  shows "n \<le> card {d \<in> set (run_delegations s). dg_depth d \<le> the (run_depth x s)}"
  using assms(2)
proof (induction n arbitrary: x)
  case 0
  then show ?case by simp
next
  case (Suc n)
  from Suc.prems obtain y where y: "(child_of (run_delegations s) ^^ n) r y" "child_of (run_delegations s) y x" by auto
  then obtain d where d: "d \<in> set (run_delegations s)" "dg_parentRunId d = y" "dg_childRunId d = x" by (auto simp: child_of_def)
  with assms(1) have depth: "run_depth x s = Some (dg_depth d)" "run_depth y s = Some (dg_depth d - 1)" by (auto simp: forest_ok_def)
  let ?A = "\<lambda>z. {e \<in> set (run_delegations s). dg_depth e \<le> the (run_depth z s)}"
  have "insert d (?A y) \<subseteq> ?A x" using d depth by auto
  then have "card (insert d (?A y)) \<le> card (?A x)" by (rule card_mono [rotated]) simp
  with depth Suc.IH [OF y(1)] show ?case by simp
qed

lemma no_long_path:
  assumes "forest_ok s" and "(child_of (run_delegations s) ^^ n) r (dg_parentRunId d)" and "d \<in> set (run_delegations s)"
  shows "n < length (run_delegations s)"
proof -
  have "(child_of (run_delegations s) ^^ Suc n) r (dg_childRunId d)" 
    using assms(2) by (rule relpowp_Suc_I) (use assms(3) in \<open>auto simp: child_of_def\<close>)
  from path_bounded [OF assms(1) this] have "Suc n \<le> card (set (run_delegations s))"
    by (rule order_trans) (rule card_mono, auto)
  then show ?thesis using card_length [of "run_delegations s"] by simp
qed

end
