(* ===== verification/Agent_Properties.thy ===== *)
theory Agent_Properties
  imports Agent_Machine
begin

text \<open>
  What the conversation and the delegation service promise together: whatever they do the ledgers stay sound, and the
  recursive query for the descendants of a run comes to an end.
\<close>

section \<open>Reachable states\<close>

lemma with_child_reachable: "agent_reachable with_child"
proof -
  have "agent_step empty_db conversation_db" "agent_step conversation_db submitted_db" "agent_step submitted_db parent_db"
    "agent_step parent_db with_child"
    using conversation_created message_sent budget_set sample_delegated
    by (blast intro: agent_step.intros conversation_step.intros)+
  then show ?thesis unfolding agent_reachable_def by (meson rtranclp.rtrancl_refl rtranclp.rtrancl_into_rtrancl)
qed

lemma agent_reachable_system: "agent_reachable s \<Longrightarrow> system_reachable s"
  unfolding agent_reachable_def system_reachable_def
  by (erule rtranclp_mono [THEN predicate2D, rotated]) (auto intro: system_step.agent)

text \<open>C3. Whatever calls of the conversation and the delegation service, of the flow service and of the repositories follow
  one another, the ledger of tasks stays sound: the row of a task is well-formed, its revision never falls and names its row,
  and a task that has ended stays as it ended.\<close>

theorem agents_keep_ledgers:
  assumes "system_reachable s" and "system_step\<^sup>*\<^sup>* s s'" and "task_get k s = Some t"
  shows "task_row_ok t \<and> (\<exists>t'. task_get k s' = Some t' \<and> t_revision t \<le> t_revision t'
    \<and> (t_revision t' = t_revision t \<longrightarrow> t' = t)
    \<and> (task_terminal (t_status t) \<longrightarrow> t_status t' = t_status t \<and> t_endedAt t' = t_endedAt t \<and> t_errorCode t' = t_errorCode t))"
proof -
  have ok: "world_ok s" using assms(1) by (rule system_world_ok)
  with system_steps_world [OF assms(2)] have "tasks_evolve s s'" by (simp add: world_step_def)
  moreover have "task_row_ok t" using ok assms(3)
    by (auto simp: world_ok_def ledger_ok_def tasks_inv_def rows_inv_def task_get_def dest: tbl_get_key)
  ultimately show ?thesis using assms(3) unfolding tasks_evolve_def row_evolves_def by blast
qed

theorem agents_keep_ledgers_witness:
  "\<exists>t. task_get ''task:r1'' submitted_db = Some t \<and> t_revision t = 1
     \<and> (\<exists>t'. task_get ''task:r1'' with_child = Some t' \<and> t_revision t \<le> t_revision t')"
proof -
  have "agent_step empty_db conversation_db" "agent_step conversation_db submitted_db"
    and s: "agent_step submitted_db parent_db" "agent_step parent_db with_child"
    using conversation_created message_sent budget_set sample_delegated
    by (blast intro: agent_step.intros conversation_step.intros)+
  then have r: "system_reachable submitted_db" and p: "system_step\<^sup>*\<^sup>* submitted_db with_child"
    unfolding system_reachable_def by (meson system_step.agent rtranclp.rtrancl_refl rtranclp.rtrancl_into_rtrancl)+
  have "task_get ''task:r1'' submitted_db = Some sample_task \<and> t_revision sample_task = 1"
    by (simp add: submitted_db_def task_get_def tbl_get_def sample_task_def new_task_row_def)
  with agents_keep_ledgers [OF r p, of "''task:r1''" sample_task] show ?thesis by blast
qed

section \<open>The forest of delegations\<close>

text \<open>C4. The recursive query for the descendants of a run comes to an end: on every database the services produce, after as
  many rounds as there are delegations no round finds another one. What it then returns are exactly the delegations of the runs
  that can be reached from the run along delegations.\<close>

theorem descendants_query_terminates:
  assumes "agent_reachable s" and "length (run_delegations s) \<le> n"
  shows "subtree_runs n (run_delegations s) [r] = subtree_runs (length (run_delegations s)) (run_delegations s) [r]
    \<and> set (listDescendantsOfRun r s) = {d \<in> set (run_delegations s). (child_of (run_delegations s))\<^sup>*\<^sup>* r (dg_parentRunId d)}"
proof -
  let ?ds = "run_delegations s" let ?m = "length ?ds"
  have ok: "forest_ok s" using assms(1) by (rule agent_reachable_forest)
  have reach: "dg_parentRunId d \<in> set (level_runs k ?ds [r]) \<longleftrightarrow> (child_of ?ds ^^ k) r (dg_parentRunId d)" for k d
    by (simp add: set_level_runs)
  have "set (level_runs ?m ?ds [r]) \<inter> dg_parentRunId ` set ?ds = {}"
    using no_long_path [OF ok] by (auto simp: set_level_runs)
  from subtree_runs_Nil [OF this] have rest: "subtree_runs k ?ds (level_runs ?m ?ds [r]) = []" for k .
  obtain k where "n = ?m + k" using assms(2) le_Suc_ex by blast
  with rest have "subtree_runs n ?ds [r] = subtree_runs ?m ?ds [r]" by (simp add: subtree_runs_add)
  moreover have "d \<in> set (listDescendantsOfRun r s) \<longleftrightarrow> d \<in> set ?ds \<and> (child_of ?ds)\<^sup>*\<^sup>* r (dg_parentRunId d)" for d
  proof -
    have id: "d' = d" if "d \<in> set ?ds" "d' \<in> set ?ds" "dg_delegationId d' = dg_delegationId d" for d'
      using ok that by (auto simp: forest_ok_def distinct_map inj_on_def)
    have "dg_delegationId d \<in> set (subtree_runs ?m ?ds [r]) \<longleftrightarrow> (\<exists>k < ?m. (child_of ?ds ^^ k) r (dg_parentRunId d))" if "d \<in> set ?ds"
      unfolding set_subtree_runs reach using id [OF that] that by blast
    then have "d \<in> set (listDescendantsOfRun r s) \<longleftrightarrow> d \<in> set ?ds \<and> (\<exists>k < ?m. (child_of ?ds ^^ k) r (dg_parentRunId d))"
      by (auto simp: listDescendantsOfRun_def Let_def)
    also have "\<dots> \<longleftrightarrow> d \<in> set ?ds \<and> (\<exists>k. (child_of ?ds ^^ k) r (dg_parentRunId d))"
      using no_long_path [OF ok] by blast
    finally show ?thesis by (simp add: rtranclp_power)
  qed
  then have "set (listDescendantsOfRun r s) = {d \<in> set ?ds. (child_of ?ds)\<^sup>*\<^sup>* r (dg_parentRunId d)}"
    by (intro set_eqI) simp
  ultimately show ?thesis by (rule conjI)
qed

lemma with_child_delegations: "\<exists>d. run_delegations with_child = [d] \<and> dg_parentRunId d = ''r1''"
proof -
  from sample_delegated obtain out where o: "createDelegatedRun sample_delegation_service sample_ids 1 sample_work parent_db = (Inr out, with_child)"
    "\<not> dx_replayed out" by blast
  obtain rq sc run p where "delegate_new sample_delegation_service sample_ids 1 sample_work rq sc run p parent_db = Inr (with_child, out)"
    using createDelegatedRun_new [OF o] by metis
  from delegate_new_effect [OF this] show ?thesis
    by (simp add: parent_db_def submitted_db_def empty_db_def new_delegation_def sample_work_def)
qed

theorem descendants_query_terminates_witness:
  "\<exists>d. run_delegations with_child = [d] \<and> set (listDescendantsOfRun ''r1'' with_child) = {d}"
proof -
  from with_child_delegations obtain d where d: "run_delegations with_child = [d]" "dg_parentRunId d = ''r1''" by blast
  from conjunct2 [OF descendants_query_terminates [OF with_child_reachable order_refl, of "''r1''"]] d
  have "set (listDescendantsOfRun ''r1'' with_child) = {d}" by (simp add: Collect_conv_if)
  with d(1) show ?thesis by blast
qed

end
