(* ===== verification/Conversation_Properties.thy ===== *)
theory Conversation_Properties
  imports Conversation_Machine Delegation_Properties Scenario
begin

text \<open>
  What the conversation service promises by itself: after a restart no run is left running, and a message is taken
  once.
\<close>

section \<open>What a statement about one run leaves alone\<close>

definition others_same :: "string \<Rightarrow> db \<Rightarrow> db \<Rightarrow> bool" where
  "others_same k s t \<longleftrightarrow> filter (\<lambda>e. e_runId e \<noteq> k) (run_events t) = filter (\<lambda>e. e_runId e \<noteq> k) (run_events s)
     \<and> filter (\<lambda>r. r_runId r \<noteq> k) (agent_runs t) = filter (\<lambda>r. r_runId r \<noteq> k) (agent_runs s)
     \<and> run_delegation_waits t = run_delegation_waits s"

definition run_state :: "string \<Rightarrow> db \<Rightarrow> (run_status \<times> recovery_state) option" where
  "run_state k s = map_option (\<lambda>r. (r_status r, r_recoveryState r)) (getRun k s)"

definition states_kept :: "db \<Rightarrow> db \<Rightarrow> bool" where
  "states_kept s t \<longleftrightarrow> (\<forall>k. run_state k t = run_state k s)"

interpretation os: step_preorder "others_same k" for k
  by unfold_locales (auto simp: others_same_def)

interpretation sk: step_preorder states_kept
  by unfold_locales (auto simp: states_kept_def)

lemma updateRun_Inr:
  assumes "updateRun u s = Inr t"
  shows "agent_runs t = tbl_modify (\<lambda>r. r_runId r = ru_runId u) (updated_run u) (agent_runs s)
    \<and> run_events t = run_events s \<and> run_delegation_waits t = run_delegation_waits s
    \<and> tbl_changes (\<lambda>r. r_runId r = ru_runId u) (agent_runs s) = 1"
  using updateRun_only [OF assms] by (auto dest: only_tasks_eq)

lemma filter_modify_other: "(\<And>r. p r \<Longrightarrow> \<not> q r) \<Longrightarrow> (\<And>r. p r \<Longrightarrow> \<not> q (f r)) \<Longrightarrow> filter q (tbl_modify p f rows) = filter q rows"
  by (induction rows) (auto simp: tbl_modify_def)

lemma one_run_keeps:
  "keeps (others_same k) (rop_do (updateAttempt aid ast b f rr now))"
  "keeps (others_same k) (rop_do (updateRun (run_set run st rc ao sa ea now)))" if "r_runId run = k"
proof -
  show "keeps (others_same k) (rop_do (updateAttempt aid ast b f rr now))"
    by (rule os.keeps_rop_do) (auto simp: others_same_def updateAttempt_def write_attempt_def Let_def split: if_splits)
  show "keeps (others_same k) (rop_do (updateRun (run_set run st rc ao sa ea now)))"
    by (rule os.keeps_rop_do) (auto simp: others_same_def run_set_def that updated_run_def intro!: filter_modify_other dest!: updateRun_Inr)
qed

lemma one_run_event_keeps: "keeps (others_same k) (record_event eid k ao ty p key now)"
proof -
  have n: "keeps (others_same k) (nextEventSequence k now)"
    by (rule os.keeps_op) (auto simp: others_same_def nextEventSequence_def intro!: filter_modify_other split: option.splits)
  have i: "keeps (others_same k) (rop_do (insertEvent e))" if "e_runId e = k" for e
    by (rule os.keeps_rop_do) (use that in \<open>auto simp: others_same_def insertEvent_def split: if_splits\<close>)
  show ?thesis
    unfolding record_event_def appendEventWithRepositories_def append_new_def
    by (intro os.keeps_intros) (simp_all add: n i stored_event_def)
qed

lemma silent_keeps:
  "keeps (others_same k) (\<lambda>s. Inr (recoverStartedModelInvocations i now s))" "keeps (others_same k) (rebuildProjection c now)"
  "keeps states_kept (\<lambda>s. Inr (recoverStartedModelInvocations i now s))" "keeps states_kept (rebuildProjection c now)"
  "keeps states_kept (rop_do (updateAttempt aid ast b f rr now))" "keeps states_kept (rop_do (insertEvent e))"
  by (auto simp: keeps_def others_same_def states_kept_def run_state_def getRun_def recoverStartedModelInvocations_def rebuildProjection_def
      updateAttempt_def write_attempt_def insertEvent_def rop_do_Inr Let_def split: if_splits)

lemma map_tbl_get_write:
  assumes "\<And>r. key (f r) = key r" and "\<And>r. g (f r) = g r"
  shows "map_option g (tbl_get key k (tbl_modify p f rows)) = map_option g (tbl_get key k rows)"
  by (cases "tbl_get key k rows") (simp_all add: tbl_get_write assms)

lemma sequence_keeps: "keeps states_kept (nextEventSequence i now)"
  by (rule sk.keeps_op)
    (auto simp: nextEventSequence_def states_kept_def run_state_def getRun_def intro!: map_tbl_get_write split: option.splits)

lemma record_event_states: "keeps states_kept (record_event eid k ao ty p key now)"
  unfolding record_event_def appendEventWithRepositories_def append_new_def
  by (intro sk.keeps_intros silent_keeps sequence_keeps)

lemma updateRun_state:
  assumes "updateRun (run_set run st rc ao sa ea now) s = Inr t"
  shows "run_state (r_runId run) t = Some (st, rc)"
proof -
  note u = updateRun_Inr [OF assms]
  then obtain r where "getRun (r_runId run) s = Some r"
    using one_row [of r_runId "r_runId run" "agent_runs s"] by (auto simp: getRun_def run_set_def)
  with u show ?thesis
    by (simp add: run_state_def getRun_def run_set_def tbl_get_write updated_run_def) (auto dest: tbl_get_key)
qed

section \<open>Recovery\<close>

definition recovered_state :: "db \<Rightarrow> run_row \<Rightarrow> run_status \<times> recovery_state" where
  "recovered_state s r = (case r_status r of
     R_RUNNING \<Rightarrow> if hasRecoverableCheckpoint (listEvents (r_runId r) s) \<or> hasActiveWait (r_runId r) s then (R_CREATED, RESUMABLE)
                  else (R_FAILED, NON_RESUMABLE)
   | R_WAITING_APPROVAL \<Rightarrow> (R_WAITING_APPROVAL, RESUMABLE)
   | st \<Rightarrow> (st, r_recoveryState r))"

lemma recover_state_effect:
  assumes "recover_run_state eid now run s = Inr (t, c)" and "r_status run \<in> {R_RUNNING, R_WAITING_APPROVAL}"
  shows "others_same (r_runId run) s t \<and> run_state (r_runId run) t = Some (recovered_state s run)
    \<and> (rc_status c, rc_recoveryState c) = recovered_state s run"
proof -
  let ?k = "r_runId run"
  let ?b = "hasRecoverableCheckpoint (listEvents ?k s) \<or> hasActiveWait ?k s"
  have st: "recovered_state s run = (if r_status run = R_WAITING_APPROVAL \<or> ?b
      then if r_status run = R_WAITING_APPROVAL then R_WAITING_APPROVAL else R_CREATED else R_FAILED,
      if r_status run = R_WAITING_APPROVAL \<or> ?b then RESUMABLE else NON_RESUMABLE)"
    using assms(2) by (auto simp: recovered_state_def)
  define status where "status = fst (recovered_state s run)"
  define recovery where "recovery = snd (recovered_state s run)"
  from assms(1) obtain s1 s2 s3 s4 u2 u4 p payload key where
        r: "recoverStartedModelInvocations ?k now s = s1"
    and a: "(if r_status run = R_RUNNING then attempt_follows (r_currentAttemptId run) A_ABORTED None (Some now) (Some ''HOST_RESTART'') now
        else rop_return ()) (fst s1) = Inr (s2, u2)"
    and u: "updateRun (run_set run status recovery (r_currentAttemptId run) (r_startedAt run) (if status = R_FAILED then Some now else None) now) s2 = Inr s3"
    and e: "record_event eid ?k (r_currentAttemptId run) ''run.recovery_classified'' payload key now s3 = Inr (s4, u4)"
    and p: "rebuildProjection (r_conversationId run) now s4 = Inr (t, p)"
    and c: "c = \<lparr>rc_runId = ?k, rc_previousStatus = r_status run, rc_status = status, rc_recoveryState = recovery\<rparr>"
    unfolding recover_run_state_def Let_def status_def recovery_def st
    by (auto simp: rop_bind_Inr rop_do_Inr)
  have 1: "others_same ?k s (fst s1)" using silent_keeps(1) [of ?k ?k now] r by (cases s1) (auto simp: keeps_def)
  have 2: "others_same ?k (fst s1) s2" using a one_run_keeps(1) [of run ?k]
    by (auto simp: keeps_def attempt_follows_def os.refl split: if_splits option.splits)
  have 3: "others_same ?k s2 s3" using one_run_keeps(2) [of run ?k] u by (auto simp: keeps_def rop_do_Inr)
  have 4: "others_same ?k s3 s4" by (rule keepsD [OF one_run_event_keeps e])
  have 5: "others_same ?k s4 t" by (rule keepsD [OF silent_keeps(2) p])
  have "run_state ?k s3 = Some (status, recovery)" using u by (rule updateRun_state)
  moreover have "states_kept s3 s4" by (rule keepsD [OF record_event_states e])
  moreover have "states_kept s4 t" by (rule keepsD [OF silent_keeps(4) p])
  ultimately have "run_state ?k t = Some (status, recovery)" by (simp add: states_kept_def)
  with c show ?thesis unfolding status_def recovery_def using os.trans [OF os.trans [OF os.trans [OF os.trans [OF 1 2] 3] 4] 5] by simp
qed

lemma others_same_other:
  assumes "others_same k s t" and "j \<noteq> k"
  shows "getRun j t = getRun j s \<and> listEvents j t = listEvents j s \<and> hasActiveWait i t = hasActiveWait i s"
proof -
  have f: "filter (\<lambda>e. e_runId e = j) es = filter (\<lambda>e. e_runId e = j) (filter (\<lambda>e. e_runId e \<noteq> k) es)" for es
    using assms(2) by (induction es) auto
  have g: "tbl_get r_runId j rs = tbl_get r_runId j (filter (\<lambda>r. r_runId r \<noteq> k) rs)" for rs
    using assms(2) by (induction rs) (auto simp: tbl_get_def)
  show ?thesis using assms(1) f [of "run_events t"] f [of "run_events s"] g [of "agent_runs t"] g [of "agent_runs s"]
    by (simp add: others_same_def getRun_def listEvents_def hasActiveWait_def)
qed

lemma recover_all:
  assumes "rop_each (\<lambda>run. recover_run_state (ids (r_runId run)) (now (r_runId run)) run) runs s = Inr (t, cs)"
    and "distinct (map r_runId runs)" and "\<forall>r \<in> set runs. r_status r \<in> {R_RUNNING, R_WAITING_APPROVAL}"
  shows "(\<forall>k. k \<notin> r_runId ` set runs \<longrightarrow> getRun k t = getRun k s)
    \<and> (\<forall>r \<in> set runs. run_state (r_runId r) t = Some (recovered_state s r))
    \<and> map (\<lambda>c. (rc_status c, rc_recoveryState c)) cs = map (recovered_state s) runs"
  using assms
proof (induction runs arbitrary: s cs)
  case Nil
  then show ?case by simp
next
  case (Cons r runs)
  from Cons.prems(1) obtain s1 c cs' where one: "recover_run_state (ids (r_runId r)) (now (r_runId r)) r s = Inr (s1, c)"
    and rest: "rop_each (\<lambda>run. recover_run_state (ids (r_runId run)) (now (r_runId run)) run) runs s1 = Inr (t, cs')" and cs: "cs = c # cs'"
    by (auto simp: rop_bind_Inr)
  note e = recover_state_effect [OF one] and IH = Cons.IH [OF rest]
  have o: "others_same (r_runId r) s s1" using e Cons.prems(3) by simp
  have "recovered_state s1 x = recovered_state s x" if "x \<in> set runs" for x
  proof -
    from key_fresh [OF Cons.prems(2) that] have "r_runId x \<noteq> r_runId r" .
    from others_same_other [OF o this] show ?thesis by (simp add: recovered_state_def)
  qed
  moreover have "getRun k t = getRun k s1" if "k \<notin> r_runId ` set runs" for k using IH Cons.prems that by simp
  moreover have "getRun k s1 = getRun k s" if "k \<noteq> r_runId r" for k using others_same_other [OF o that] by simp
  ultimately show ?case using e IH Cons.prems cs by (auto simp: run_state_def)
qed

text \<open>C40. After a restart no run is left running. When \<open>recoverIncompleteRuns\<close> returns, a run that was \<open>RUNNING\<close> is \<open>CREATED\<close> and
  resumable if its events end in a checkpoint or it waits for a delegation, and otherwise has failed for good; a run that waits for
  an approval still waits; every other run is as it was. The hypothesis is the primary key of the table.\<close>

theorem recovery_leaves_none_running:
  assumes "recoverIncompleteRuns ids now s = (Inr cs, t)" and "distinct (map r_runId (agent_runs s))"
  shows "run_state k t = map_option (recovered_state s) (getRun k s) \<and> (\<nexists>rc. run_state k t = Some (R_RUNNING, rc))"
proof -
  let ?runs = "listIncompleteRuns s"
  have set: "set ?runs = {r \<in> set (agent_runs s). r_status r \<in> {R_RUNNING, R_WAITING_APPROVAL}}"
    by (auto simp: listIncompleteRuns_def)
  have "inj_on r_runId (set ?runs)" using assms(2) by (auto simp: set distinct_map inj_on_def)
  moreover have "distinct ?runs" using assms(2) by (simp add: listIncompleteRuns_def distinct_map)
  ultimately have dist: "distinct (map r_runId ?runs)" by (simp add: distinct_map)
  from assms(1) have "rop_each (\<lambda>run. recover_run_state (ids (r_runId run)) (now (r_runId run)) run) ?runs s = Inr (t, cs)"
    by (auto simp: recoverIncompleteRuns_def transaction_def split: sum.splits prod.splits)
  note all = recover_all [OF this dist]
  have "run_state k t = map_option (recovered_state s) (getRun k s)"
  proof (cases "k \<in> r_runId ` set ?runs")
    case True
    then obtain r where r: "r \<in> set ?runs" "r_runId r = k" by auto
    then have "getRun k s = Some r" using tbl_get_distinct [OF assms(2), of r] by (simp add: set getRun_def)
    with all r set show ?thesis by auto
  next
    case False
    have "recovered_state s r = (r_status r, r_recoveryState r)" if "getRun k s = Some r" for r
      using False tbl_get_key [OF that [unfolded getRun_def]] set by (cases "r_status r") (auto simp: recovered_state_def)
    with all False set show ?thesis by (cases "getRun k s") (auto simp: run_state_def)
  qed
  moreover have "fst (recovered_state s r) \<noteq> R_RUNNING" for r by (simp add: recovered_state_def split: run_status.splits)
  ultimately show ?thesis by (auto simp: map_option_case split: option.splits) (metis fst_conv)
qed

text \<open>The host stops while the first run is executing.\<close>

definition running_db :: db where
  "running_db = submitted_db\<lparr>agent_runs := [sample_first_run\<lparr>r_status := R_RUNNING, r_startedAt := Some 1\<rparr>],
     run_attempts := [(new_attempt ''a1'' ''r1'' 1 0)\<lparr>a_status := A_RUN R_RUNNING\<rparr>]\<rparr>"

definition recovered_db :: db where
  "recovered_db = snd (recoverIncompleteRuns (\<lambda>_. ''e2'') (\<lambda>_. 5) running_db)"

lemma sample_recovered: "\<exists>cs. recoverIncompleteRuns (\<lambda>_. ''e2'') (\<lambda>_. 5) running_db = (Inr cs, recovered_db)"
proof -
  have k: "show_int 1 = ''1''" "key_pattern ''recovery:1''" "event_type_pattern ''run.recovery_classified''" by code_simp+
  have l: "js_lower ''FAILED'' = ''failed''" by code_simp
  show ?thesis
    apply (simp add: recovered_db_def recoverIncompleteRuns_def transaction_def listIncompleteRuns_def running_db_def sample_defs)
    apply (simp add: recover_run_state_def listEvents_def hasRecoverableCheckpoint_def hasActiveWait_def recoverStartedModelInvocations_def
      attempt_follows_def updateAttempt_def write_attempt_def coalesce_def updateRun_def run_set_def updated_run_def
      record_event_def appendEventWithRepositories_def append_new_def stored_event_def opt_eq_def conv_bounded_def k l
      statement_defs table_reads sync_defs task_defs)
    done
qed

theorem recovery_leaves_none_running_witness:
  "\<exists>cs. recoverIncompleteRuns (\<lambda>_. ''e2'') (\<lambda>_. 5) running_db = (Inr cs, recovered_db)
     \<and> run_state ''r1'' recovered_db = Some (R_FAILED, NON_RESUMABLE)"
proof -
  from sample_recovered obtain cs where r: "recoverIncompleteRuns (\<lambda>_. ''e2'') (\<lambda>_. 5) running_db = (Inr cs, recovered_db)" ..
  have "distinct (map r_runId (agent_runs running_db))" by (simp add: running_db_def)
  from recovery_leaves_none_running [OF r this, of "''r1''"] r show ?thesis
    by (simp add: running_db_def getRun_def tbl_get_def sample_first_run_def recovered_state_def listEvents_def submitted_db_def
        hasRecoverableCheckpoint_def hasActiveWait_def empty_db_def)
qed

section \<open>Submissions\<close>

text \<open>What no call takes back: a submission, its message, its run, its conversation and the projection of that.\<close>

definition records_kept :: "db \<Rightarrow> db \<Rightarrow> bool" where
  "records_kept s t \<longleftrightarrow>
     (\<forall>c k x. getSubmission c k s = Some x \<longrightarrow> getSubmission c k t = Some x)
     \<and> (\<forall>i x. getMessage i s = Some x \<longrightarrow> getMessage i t = Some x)
     \<and> (\<forall>i. getRun i s \<noteq> None \<longrightarrow> getRun i t \<noteq> None)
     \<and> (\<forall>i x. getConversation i s = Some x \<longrightarrow> (\<exists>y. getConversation i t = Some y \<and> c_workspaceId y = c_workspaceId x))
     \<and> (\<forall>i. getProjection i s \<noteq> None \<longrightarrow> getProjection i t \<noteq> None)"

lemmas record_reads = getSubmission_def getMessage_def getRun_def getConversation_def getProjection_def

definition same_records :: "db \<Rightarrow> db \<Rightarrow> bool" where
  "same_records s t \<longleftrightarrow> conversation_submissions t = conversation_submissions s \<and> conversation_messages t = conversation_messages s
     \<and> agent_runs t = agent_runs s \<and> conversations t = conversations s \<and> conversation_projections t = conversation_projections s"

lemma same_records_kept: "same_records s t \<Longrightarrow> records_kept s t"
  by (simp add: same_records_def records_kept_def record_reads)

lemma only_tasks_kept: "only_tasks s t \<Longrightarrow> records_kept s t"
  by (rule same_records_kept) (simp add: same_records_def only_tasks_eq)

lemma records_keptD:
  assumes "records_kept s t"
  shows "getSubmission c k s = Some x \<Longrightarrow> getSubmission c k t = Some x" "getMessage i s = Some m \<Longrightarrow> getMessage i t = Some m"
    "getRun i s \<noteq> None \<Longrightarrow> getRun i t \<noteq> None"
    "getConversation i s = Some v \<Longrightarrow> \<exists>w. getConversation i t = Some w \<and> c_workspaceId w = c_workspaceId v"
    "getProjection i s \<noteq> None \<Longrightarrow> getProjection i t \<noteq> None"
  using assms by (simp_all add: records_kept_def)

lemma kept_trans: "records_kept a b \<Longrightarrow> records_kept b c \<Longrightarrow> records_kept a c"
  unfolding records_kept_def [of a c]
  by (intro conjI allI impI)
    (blast dest: records_keptD(1), blast dest: records_keptD(2), blast dest: records_keptD(3), metis records_keptD(4), blast dest: records_keptD(5))

lemma conversation_ops_kept:
  "createConversation row s = Inr s1 \<Longrightarrow> records_kept s s1"
  "nextMessageSequence i now s = Inr (s2, n) \<Longrightarrow> records_kept s s2"
  "insertMessage m s = Inr s3 \<Longrightarrow> records_kept s s3"
  "insertSubmission sub s = Inr s4 \<Longrightarrow> records_kept s s4"
  "nextEventSequence i now s = Inr (s5, n) \<Longrightarrow> records_kept s s5"
  by (auto simp: records_kept_def record_reads createConversation_def nextMessageSequence_def insertMessage_def insertSubmission_def
      nextEventSequence_def tbl_get_append tbl_get_write Let_def split: if_splits option.splits)

lemma rebuild_projection:
  assumes "rebuildProjection i now s = Inr (t, p)"
  shows "records_kept s t \<and> getProjection i t \<noteq> None"
proof -
  have "key ` set (tbl_modify (\<lambda>r. key r = i) (\<lambda>_. row) rows) = key ` set rows" if "key row = i" for key :: "projection_row \<Rightarrow> string" and row rows
    using that by (auto simp: set_tbl_modify image_iff) (metis)
  then show ?thesis using assms
    by (auto simp: records_kept_def record_reads rebuildProjection_def tbl_get_None tbl_get_append Let_def
        split: if_splits option.splits simp del: not_None_eq)
qed

lemma conversation_ops_same_records:
  "insertEvent e s = Inr s1 \<Longrightarrow> same_records s s1"
  "insertAttempt a s = Inr s2 \<Longrightarrow> same_records s s2"
  "write_attempt i msg f s = Inr s3 \<Longrightarrow> same_records s s3"
  "insertModelInvocation v s = Inr s4 \<Longrightarrow> same_records s s4"
  "completeModelInvocation i st resp inp outp err now s = Inr s5 \<Longrightarrow> same_records s s5"
  "recoverStartedModelInvocations i now s = (s6, k) \<Longrightarrow> same_records s s6"
  by (auto simp: same_records_def insertEvent_def insertAttempt_def write_attempt_def insertModelInvocation_def
      completeModelInvocation_def recoverStartedModelInvocations_def Let_def split: if_splits)

lemma delegation_ops_same_records:
  "insertBudgetEnvelope b s = Inr s1 \<Longrightarrow> same_records s s1"
  "updateBudgetUsage i us now s = Inr s2 \<Longrightarrow> same_records s s2"
  "updateDelegationStatus i ds x y z now s = Inr s3 \<Longrightarrow> same_records s s3"
  "delegation_insertEvent dv s = Inr s4 \<Longrightarrow> same_records s s4"
  "insertWait w s = Inr s5 \<Longrightarrow> same_records s s5"
  "deleteWait i j s = (s6, gone) \<Longrightarrow> same_records s s6"
  "insertResultDelivery rd s = Inr s7 \<Longrightarrow> same_records s s7"
  "markResultDelivered i h at now s = Inr s8 \<Longrightarrow> same_records s s8"
  "releaseBudgetReservation i rr us now s = Inr (s9, br) \<Longrightarrow> same_records s s9"
  "insertDelegation d s = Inr s10 \<Longrightarrow> same_records s s10"
  "insertBudgetReservation r s = Inr s11 \<Longrightarrow> same_records s s11"
  by (auto simp: same_records_def insertBudgetEnvelope_def updateBudgetUsage_def budget_write_def updateDelegationStatus_def
      delegation_write_def delegation_insertEvent_def insertWait_def deleteWait_def insertResultDelivery_def
      markResultDelivered_def releaseBudgetReservation_def insertDelegation_def insertBudgetReservation_def Let_def
      split: if_splits option.splits)

lemma run_ops_kept: "insertRun run s = Inr t \<Longrightarrow> records_kept s t" "updateRun u s = Inr t \<Longrightarrow> records_kept s t"
proof -
  have a: "records_kept s (s\<lparr>agent_runs := agent_runs s @ [run]\<rparr>)"
    by (auto simp: records_kept_def record_reads tbl_get_append split: option.splits)
  have w: "records_kept s (s\<lparr>agent_runs := tbl_modify (\<lambda>r. r_runId r = ru_runId u) (updated_run u) (agent_runs s)\<rparr>)"
    by (auto simp: records_kept_def record_reads tbl_get_write updated_run_def)
  show "insertRun run s = Inr t \<Longrightarrow> records_kept s t" by (drule insertRun_only) (auto intro: kept_trans [OF a] only_tasks_kept)
  show "updateRun u s = Inr t \<Longrightarrow> records_kept s t" by (drule updateRun_only) (auto intro: kept_trans [OF w] only_tasks_kept)
qed

interpretation rk: delegation_statements records_kept
  by unfold_locales
    (erule kept_trans | (erule conversation_ops_kept run_ops_kept | drule rebuild_projection, erule conjunct1 | rule same_records_kept, erule conversation_ops_same_records delegation_ops_same_records | rule only_tasks_kept, erule classifyRun_only) | simp add: records_kept_def)+

definition message_taken :: "conversation_service \<Rightarrow> send_input \<Rightarrow> message_row \<Rightarrow> string \<Rightarrow> db \<Rightarrow> bool" where
  "message_taken cs i message runId s \<longleftrightarrow> (\<exists>x c.
     getSubmission (sd_conversationId i) (sd_submissionKey i) s = Some x \<and> s_conversationId x = sd_conversationId i
     \<and> s_inputHash x = send_hash cs Role_user (sd_text i) \<and> getMessage (s_messageId x) s = Some message
     \<and> s_runId x = runId \<and> getRun runId s \<noteq> None
     \<and> getConversation (sd_conversationId i) s = Some c \<and> c_workspaceId c = sd_workspaceId i
     \<and> getProjection (sd_conversationId i) s \<noteq> None)"

lemma taken_kept:
  assumes "records_kept s t" and "message_taken cs i message runId s"
  shows "message_taken cs i message runId t"
proof -
  note keep = records_keptD [OF assms(1)]
  from assms(2) show ?thesis unfolding message_taken_def
    by (elim exE conjE) (drule keep(4), elim exE conjE, intro exI conjI, erule keep(1), assumption+, erule keep(2), assumption+,
      erule keep(3), assumption, simp, erule keep(5))
qed

lemma conv_summary_Inr: "conv_summary now row s = Inr (t, y) \<Longrightarrow> records_kept s t \<and> getProjection (c_conversationId row) t \<noteq> None"
  by (auto simp: conv_summary_def rop_bind_Inr rk.refl dest!: rebuild_projection split: option.splits)

lemma conv_summary_stored:
  "getProjection (c_conversationId row) s = Some p \<Longrightarrow> conv_summary now row s = Inr (s, \<lparr>cy_conversation = asConversation row, cy_projection = p\<rparr>)"
  by (simp add: conv_summary_def)

lemma getConversation_id: "getConversation i s = Some c \<Longrightarrow> c_conversationId c = i"
  by (auto simp: getConversation_def dest: tbl_get_key)

lemma taken_again:
  assumes "validateSendInput cs i = Inr ()" and "message_taken cs i message runId s"
  shows "\<exists>again. conversation_send cs ids now now2 i s = (Inr again, s) \<and> sr_replayed again \<and> sr_message again = message
    \<and> r_runId (sr_run again) = runId"
proof -
  from assms(2) obtain x c run p where *: "getSubmission (sd_conversationId i) (sd_submissionKey i) s = Some x"
     "s_conversationId x = sd_conversationId i" "s_inputHash x = send_hash cs Role_user (sd_text i)"
     "getMessage (s_messageId x) s = Some message" "s_runId x = runId" "getRun runId s = Some run"
     "getConversation (sd_conversationId i) s = Some c" "c_workspaceId c = sd_workspaceId i"
     "getProjection (sd_conversationId i) s = Some p" by (auto simp: message_taken_def)
  moreover have "c_conversationId c = sd_conversationId i" "r_runId run = runId"
    using *(6,7) by (auto simp: getConversation_def getRun_def dest: tbl_get_key)
  ultimately show ?thesis
    by (simp add: conversation_send_def assms(1) transaction_def sendWithRepositories_def owned_conversation_def send_replay_def
        rop_bind_def rop_found_def conv_summary_stored)
qed

lemma other_text_refused:
  assumes "message_taken cs i message runId s" and "send_hash cs Role_user text \<noteq> send_hash cs Role_user (sd_text i)"
  shows "\<exists>e. conversation_send cs ids now now2 (i\<lparr>sd_text := text\<rparr>) s = (Inl e, s)"
  using assms
  by (auto simp: message_taken_def conversation_send_def transaction_def sendWithRepositories_def owned_conversation_def send_replay_def
      rop_bind_def rop_found_def split: sum.splits)

lemma insertMessage_get:
  assumes "insertMessage m s = Inr t" and "json_clean (m_content m) = m_content m"
  shows "getMessage (m_messageId m) t = Some m"
proof -
  have "m\<lparr>m_content := json_clean (m_content m)\<rparr> = m" using assms(2) by simp
  with assms(1) show ?thesis by (auto simp: insertMessage_def getMessage_def tbl_get_append split: if_splits)
qed

lemma insertSubmission_get: "insertSubmission x s = Inr t \<Longrightarrow> getSubmission (s_conversationId x) (s_submissionKey x) t = Some x"
  by (force simp: insertSubmission_def getSubmission_def tbl_get_append tbl_get_None split: if_splits option.splits dest: tbl_get_key)

lemma send_rows_Inr:
  assumes "send_rows ids now role i s = Inr (t, message)"
  shows "records_kept s t \<and> getMessage (ids 0) t = Some message \<and> getRun (ids 1) t \<noteq> None"
proof -
  from assms obtain n s1 s2 run s3 a where 1: "nextMessageSequence (sd_conversationId i) now s = Inr (s1, n)"
    and 2: "insertMessage message s1 = Inr s2" and 3: "insertRun run s2 = Inr s3" and 4: "insertAttempt a s3 = Inr t"
    and m: "m_messageId message = ids 0" "json_clean (m_content message) = m_content message" and r: "r_runId run = ids 1"
    unfolding send_rows_def Let_def by (auto simp: rop_bind_Inr rop_do_Inr)
  note kept = conversation_ops_kept(2) [OF 1] conversation_ops_kept(3) [OF 2] run_ops_kept(1) [OF 3]
    same_records_kept [OF conversation_ops_same_records(2) [OF 4]]
  have "getRun (ids 1) s3 \<noteq> None"
    using insertRun_only [OF 3] r by (auto simp: getRun_def tbl_get_append dest!: only_tasks_eq(3) split: option.splits)
  with kept insertMessage_get [OF 2 m(2)] m(1) show ?thesis by (metis kept_trans records_keptD(2,3))
qed

lemma getSubmission_conversation: "getSubmission c k s = Some x \<Longrightarrow> s_conversationId x = c"
  by (auto simp: getSubmission_def dest: tbl_get_key)

lemma replay_taken:
  assumes "send_replay (send_hash cs Role_user (sd_text i)) now x s = Inr (t, out)"
    and "getSubmission (sd_conversationId i) (sd_submissionKey i) s = Some x"
    and "getConversation (sd_conversationId i) s = Some c" and "c_workspaceId c = sd_workspaceId i"
  shows "message_taken cs i (sr_message out) (r_runId (sr_run out)) t"
proof -
  have x: "s_conversationId x = sd_conversationId i" using assms(2) by (rule getSubmission_conversation)
  from assms(1,3) x obtain message run y where "s_inputHash x = send_hash cs Role_user (sd_text i)" "getMessage (s_messageId x) s = Some message"
    "getRun (s_runId x) s = Some run" and y: "conv_summary now c s = Inr (t, y)"
    and out: "out = \<lparr>sr_conversation = y, sr_message = message, sr_run = run, sr_replayed = True\<rparr>"
    by (auto simp: send_replay_def rop_bind_Inr rop_found_Inr split: if_splits)
  moreover have "r_runId run = s_runId x" using calculation(3) by (auto simp: getRun_def dest: tbl_get_key)
  moreover note p = conv_summary_Inr [OF y]
  moreover note keep = records_keptD [OF conjunct1 [OF p]]
  ultimately show ?thesis using keep(1) [OF assms(2)] keep(4) [OF assms(3)] x assms(4) getConversation_id [OF assms(3)]
    by (auto simp: message_taken_def)
qed

lemma new_taken:
  assumes "getConversation (sd_conversationId i) s = Some c" and "c_workspaceId c = sd_workspaceId i"
    and "send_rows ids now Role_user i s = Inr (s1, message)"
    and "appendEventWithRepositories eid ei s1 = Inr (s2, ev)"
    and "insertSubmission \<lparr>s_conversationId = sd_conversationId i, s_submissionKey = sd_submissionKey i,
              s_inputHash = send_hash cs Role_user (sd_text i), s_messageId = ids 0, s_runId = ids 1, s_createdAt = now\<rparr> s2 = Inr s3"
    and "rebuildProjection (sd_conversationId i) now s3 = Inr (s4, pr)" and "conv_summary now2 row s4 = Inr (t, y)"
  shows "message_taken cs i message (ids 1) t"
proof -
  note 1 = send_rows_Inr [OF assms(3)] and 4 = rebuild_projection [OF assms(6)]
  have 2: "records_kept s1 s2" by (rule keepsD [OF rk.appendEvent_keeps assms(4)])
  have 3: "records_kept s2 s3" by (rule conversation_ops_kept(4) [OF assms(5)])
  have 5: "records_kept s4 t" using conv_summary_Inr [OF assms(7)] by simp
  have k14: "records_kept s1 s4" using 2 3 4 kept_trans by blast
  have "getSubmission (sd_conversationId i) (sd_submissionKey i) s4 = Some \<lparr>s_conversationId = sd_conversationId i, s_submissionKey = sd_submissionKey i,
              s_inputHash = send_hash cs Role_user (sd_text i), s_messageId = ids 0, s_runId = ids 1, s_createdAt = now\<rparr>"
    using insertSubmission_get [OF assms(5)] 4 records_keptD(1) by fastforce
  moreover have "getMessage (ids 0) s4 = Some message" "getRun (ids 1) s4 \<noteq> None" using 1 k14 records_keptD(2,3) by blast+
  moreover obtain c' where "getConversation (sd_conversationId i) s4 = Some c'" "c_workspaceId c' = sd_workspaceId i"
    using records_keptD(4) [OF kept_trans [OF conjunct1 [OF 1] k14] assms(1)] assms(2) by auto
  ultimately have "message_taken cs i message (ids 1) s4" using 4 by (simp add: message_taken_def)
  with 5 show ?thesis by (rule taken_kept)
qed

lemma send_taken:
  assumes "conversation_send cs ids now now2 i s = (Inr out, t)"
  shows "validateSendInput cs i = Inr () \<and> message_taken cs i (sr_message out) (r_runId (sr_run out)) t"
proof -
  from assms have v: "validateSendInput cs i = Inr ()" and w: "sendWithRepositories cs ids now now2 Role_user i s = Inr (t, out)"
    by (auto simp: conversation_send_def transaction_def split: sum.splits prod.splits)
  from w obtain c where c: "getConversation (sd_conversationId i) s = Some c" "c_workspaceId c = sd_workspaceId i"
    by (auto simp: sendWithRepositories_def owned_conversation_def rop_bind_Inr rop_found_Inr split: if_splits)
  have "message_taken cs i (sr_message out) (r_runId (sr_run out)) t"
  proof (cases "getSubmission (sd_conversationId i) (sd_submissionKey i) s")
    case (Some x)
    with w c have "send_replay (send_hash cs Role_user (sd_text i)) now2 x s = Inr (t, out)"
      by (auto simp: sendWithRepositories_def owned_conversation_def rop_bind_Inr rop_found_Inr split: if_splits)
    from replay_taken [OF this Some c] show ?thesis .
  next
    case None
    with w c obtain s1 message s2 ev s3 s4 pr row y run where "send_rows ids now Role_user i s = Inr (s1, message)"
      "appendEventWithRepositories (ids 3) \<lparr>ev_runId = ids 1, ev_attemptId = Some (ids 2), ev_eventType = ''run.created'',
              ev_payload = JObj [(''triggerMessageId'', JStr (ids 0))],
              ev_idempotencyKey = Some (''submission:'' @ sd_submissionKey i), ev_expectedSequence = Some 1, ev_emittedAt = now\<rparr> s1 = Inr (s2, ev)"
      "insertSubmission \<lparr>s_conversationId = sd_conversationId i, s_submissionKey = sd_submissionKey i,
              s_inputHash = send_hash cs Role_user (sd_text i), s_messageId = ids 0, s_runId = ids 1, s_createdAt = now\<rparr> s2 = Inr s3"
      "rebuildProjection (sd_conversationId i) now s3 = Inr (s4, pr)" "conv_summary now2 row s4 = Inr (t, y)"
      "getRun (ids 1) t = Some run" "out = \<lparr>sr_conversation = y, sr_message = message, sr_run = run, sr_replayed = False\<rparr>"
      by (auto simp: sendWithRepositories_def owned_conversation_def rop_bind_Inr rop_found_Inr rop_do_Inr split: if_splits)
    moreover have "r_runId run = ids 1" using calculation(6) by (auto simp: getRun_def dest: tbl_get_key)
    ultimately show ?thesis using new_taken [OF c] by auto
  qed
  with v show ?thesis by simp
qed

text \<open>C8. A message is taken once. If \<open>send\<close> has accepted a message under a submission key, then after any further calls of the
  conversation and the delegation service the same call returns the same message and the same run as a replay and changes
  nothing; with another text, whose hash differs, it is refused and changes nothing.\<close>

theorem message_sent_once:
  assumes "conversation_send cs ids now now2 i s = (Inr out, s')" and "agent_step\<^sup>*\<^sup>* s' t"
  shows "(\<exists>again. conversation_send cs ids' m m2 i t = (Inr again, t) \<and> sr_replayed again \<and> sr_message again = sr_message out
      \<and> r_runId (sr_run again) = r_runId (sr_run out))
    \<and> (send_hash cs Role_user text = send_hash cs Role_user (sd_text i)
      \<or> (\<exists>e. conversation_send cs ids' m m2 (i\<lparr>sd_text := text\<rparr>) t = (Inl e, t)))"
proof -
  note first = send_taken [OF assms(1)]
  have "records_kept s' t" using assms(2)
    by (induction rule: rtranclp_induct) (auto intro: kept_trans rk.agent_step_R rk.refl)
  from taken_kept [OF this conjunct2 [OF first]] have "message_taken cs i (sr_message out) (r_runId (sr_run out)) t" .
  with taken_again [OF conjunct1 [OF first] this] other_text_refused show ?thesis by blast
qed

theorem message_sent_once_witness:
  "\<exists>out again. conversation_send sample_conversations send_ids 0 0 sample_send conversation_db = (Inr out, submitted_db)
     \<and> conversation_send sample_conversations send_ids 9 9 sample_send submitted_db = (Inr again, submitted_db) \<and> sr_replayed again"
proof -
  from message_sent obtain out where o: "conversation_send sample_conversations send_ids 0 0 sample_send conversation_db = (Inr out, submitted_db)" ..
  from message_sent_once [OF o rtranclp.rtrancl_refl] o show ?thesis by blast
qed

section \<open>Long submission keys\<close>

text \<open>\<open>validateSendInput\<close> accepts keys of up to 128 characters, but the event of the new run gets the key with the prefix
  \<open>submission:\<close>, which is checked against the same bound: a first message under a longer key than 117 characters is always
  refused.\<close>

theorem long_submission_key_refused:
  assumes "117 < length (sd_submissionKey i)"
    and "getSubmission (sd_conversationId i) (sd_submissionKey i) s = None"
  shows "\<exists>e. conversation_send cs ids now now2 i s = (Inl e, s)"
proof -
  have "sendWithRepositories cs ids now now2 Role_user i s \<noteq> Inr (t, out)" for t out
    using assms
    by (auto simp: sendWithRepositories_def owned_conversation_def rop_bind_Inr rop_found_Inr rop_do_Inr rop_of_Inr
        appendEventWithRepositories_def truthy_def conv_bounded_def split: if_splits)
  then show ?thesis by (auto simp: conversation_send_def transaction_def split: sum.splits)
qed

end
