(* ===== verification/Approval_Ledger.thy ===== *)
theory Approval_Ledger
  imports Workspace_Ledger
begin

text \<open>
  \<open>packages/state/src/approval-process-repository.ts\<close>: the calls of tools, the requests for approval, the grants
  for a conversation and the processes. \<open>undefined\<close> in a patch keeps the column, \<open>null\<close> clears it: a patched
  column is an option, \<open>None\<close> for \<open>undefined\<close>.
\<close>

section \<open>Tool calls\<close>

definition hash_ok :: "string \<Rightarrow> bool" where
  "hash_ok h \<longleftrightarrow> length h = 64"

definition stored_json :: "json \<Rightarrow> err + json" where
  "stored_json v = (case json_stringify v of None \<Rightarrow> Inl Js_Error | Some t \<Rightarrow> Inr (json_clean v))"

definition getToolCall :: "string \<Rightarrow> string \<Rightarrow> db \<Rightarrow> tool_call_row option" where
  "getToolCall runId toolCallId s = tbl_get (\<lambda>r. (tc_runId r, tc_toolCallId r)) (runId, toolCallId) (tool_calls s)"

definition getToolCallByExecutionId :: "string \<Rightarrow> db \<Rightarrow> tool_call_row option" where
  "getToolCallByExecutionId toolExecutionId s = tbl_get tc_toolExecutionId toolExecutionId (tool_calls s)"

definition call_refs :: "string \<Rightarrow> string \<Rightarrow> string \<Rightarrow> string \<Rightarrow> db \<Rightarrow> bool" where
  "call_refs runId attemptId conversationId workspaceId s \<longleftrightarrow> getRun runId s \<noteq> None \<and> getAttempt attemptId s \<noteq> None
     \<and> getConversation conversationId s \<noteq> None \<and> getWorkspace workspaceId s \<noteq> None"

definition insertToolCall :: "tool_call_row \<Rightarrow> db \<Rightarrow> err + db" where
  "insertToolCall row s =
     res_bind (stored_json (tc_input row)) (\<lambda>input.
     res_bind (require (hash_ok (tc_inputHash row) \<and> hash_ok (tc_schemaHash row) \<and> hash_ok (tc_bindingDigest row)) (Sql_Constraint Sql_Check)) (\<lambda>_.
     res_bind (require (getToolCallByExecutionId (tc_toolExecutionId row) s = None)
       (Sql_Constraint (Sql_Unique ''tool_calls.tool_execution_id''))) (\<lambda>_.
     res_bind (require (getToolCall (tc_runId row) (tc_toolCallId row) s = None)
       (Sql_Constraint (Sql_Unique ''tool_calls.run_id, tool_calls.tool_call_id''))) (\<lambda>_.
     res_bind (require (call_refs (tc_runId row) (tc_attemptId row) (tc_conversationId row) (tc_workspaceId row) s)
       (Sql_Constraint Sql_ForeignKey)) (\<lambda>_.
     Inr (s\<lparr>tool_calls := tool_calls s @ [row\<lparr>tc_input := input, tc_result := map_option json_clean (tc_result row)\<rparr>]\<rparr>))))))"

definition call_write :: "tool_call_status \<Rightarrow> json option option \<Rightarrow> string option option \<Rightarrow> int \<Rightarrow> tool_call_row \<Rightarrow> tool_call_row" where
  "call_write status result errorCode updatedAt r = r\<lparr>tc_status := status,
     tc_result := (case result of None \<Rightarrow> tc_result r | Some v \<Rightarrow> map_option json_clean v),
     tc_errorCode := or_default errorCode (tc_errorCode r), tc_updatedAt := updatedAt\<rparr>"

definition updateToolCall ::
    "string \<Rightarrow> tool_call_status \<Rightarrow> json option option \<Rightarrow> string option option \<Rightarrow> int \<Rightarrow> db \<Rightarrow> err + db" where
  "updateToolCall toolExecutionId status result errorCode updatedAt s =
     res_bind (require (getToolCallByExecutionId toolExecutionId s \<noteq> None)
       (State_Error STATE_SCHEMA_INCONSISTENT ''tool call update target missing'')) (\<lambda>_.
     Inr (s\<lparr>tool_calls := tbl_modify (\<lambda>r. tc_toolExecutionId r = toolExecutionId)
       (call_write status result errorCode updatedAt) (tool_calls s)\<rparr>))"

section \<open>Requests for approval\<close>

definition getApproval :: "string \<Rightarrow> db \<Rightarrow> approval_row option" where
  "getApproval requestId s = tbl_get ap_requestId requestId (approval_requests s)"

definition getApprovalByToolExecution :: "string \<Rightarrow> db \<Rightarrow> approval_row option" where
  "getApprovalByToolExecution toolExecutionId s = tbl_get ap_toolExecutionId toolExecutionId (approval_requests s)"

definition insertApproval :: "approval_row \<Rightarrow> db \<Rightarrow> err + db" where
  "insertApproval row s =
     res_bind (stored_json (ap_summary row)) (\<lambda>summary.
     res_bind (stored_json (ap_continuation row)) (\<lambda>continuation.
     res_bind (require (0 < ap_version row \<and> hash_ok (ap_bindingDigest row) \<and> hash_ok (ap_policyFingerprint row)) (Sql_Constraint Sql_Check)) (\<lambda>_.
     res_bind (require (getApproval (ap_requestId row) s = None) (Sql_Constraint (Sql_Unique ''approval_requests.request_id''))) (\<lambda>_.
     res_bind (require (getApprovalByToolExecution (ap_toolExecutionId row) s = None)
       (Sql_Constraint (Sql_Unique ''approval_requests.tool_execution_id''))) (\<lambda>_.
     res_bind (require (getToolCallByExecutionId (ap_toolExecutionId row) s \<noteq> None
         \<and> call_refs (ap_runId row) (ap_attemptId row) (ap_conversationId row) (ap_workspaceId row) s)
       (Sql_Constraint Sql_ForeignKey)) (\<lambda>_.
     Inr (s\<lparr>approval_requests := approval_requests s @ [row\<lparr>ap_summary := summary, ap_continuation := continuation\<rparr>]\<rparr>)))))))"

definition listApprovals :: "approval_status option \<Rightarrow> db \<Rightarrow> approval_row list" where
  "listApprovals status s = sort_key (\<lambda>r. (ap_createdAt r, ap_requestId r))
     (filter (\<lambda>r. case status of None \<Rightarrow> True | Some st \<Rightarrow> ap_status r = st) (approval_requests s))"

text \<open>The conditional updates: whether a row was changed, and the table.\<close>

definition approval_write :: "(approval_row \<Rightarrow> bool) \<Rightarrow> (approval_row \<Rightarrow> approval_row) \<Rightarrow> bool rop" where
  "approval_write p f s = Inr (s\<lparr>approval_requests := tbl_modify p (\<lambda>r. (f r)\<lparr>ap_version := ap_version r + 1\<rparr>) (approval_requests s)\<rparr>,
     tbl_changes p (approval_requests s) = 1)"

definition resolveApproval :: "string \<Rightarrow> int \<Rightarrow> approval_status \<Rightarrow> approval_decision \<Rightarrow> int \<Rightarrow> bool rop" where
  "resolveApproval requestId expectedVersion status decision resolvedAt =
     approval_write (\<lambda>r. ap_requestId r = requestId \<and> ap_version r = expectedVersion \<and> ap_status r = AP_PENDING)
       (\<lambda>r. r\<lparr>ap_status := status, ap_decision := Some decision, ap_resolvedAt := Some resolvedAt, ap_updatedAt := resolvedAt\<rparr>)"

definition consumeApproval :: "string \<Rightarrow> int \<Rightarrow> string \<Rightarrow> int \<Rightarrow> bool rop" where
  "consumeApproval requestId expectedVersion bindingDigest consumedAt =
     approval_write (\<lambda>r. ap_requestId r = requestId \<and> ap_version r = expectedVersion \<and> ap_status r = AP_APPROVED
         \<and> ap_bindingDigest r = bindingDigest)
       (\<lambda>r. r\<lparr>ap_status := AP_CONSUMED, ap_consumedAt := Some consumedAt, ap_updatedAt := consumedAt\<rparr>)"

definition markApprovalTerminal :: "string \<Rightarrow> approval_status \<Rightarrow> int \<Rightarrow> bool rop" where
  "markApprovalTerminal requestId status updatedAt =
     approval_write (\<lambda>r. ap_requestId r = requestId \<and> ap_status r = AP_PENDING)
       (\<lambda>r. r\<lparr>ap_status := status, ap_updatedAt := updatedAt\<rparr>)"

text \<open>The query has no \<open>ORDER BY\<close>; the rows are taken in the order of the table.\<close>

definition overdue :: "int \<Rightarrow> approval_row \<Rightarrow> bool" where
  "overdue now r \<longleftrightarrow> ap_status r = AP_PENDING \<and> ap_expiresAt r \<le> now"

definition ledger_expirePending :: "int \<Rightarrow> string list rop" where
  "ledger_expirePending now =
     rop_bind (rop_read (\<lambda>s. map ap_requestId (filter (overdue now) (approval_requests s)))) (\<lambda>ids.
     rop_bind (approval_write (overdue now) (\<lambda>r. r\<lparr>ap_status := AP_EXPIRED, ap_updatedAt := now\<rparr>)) (\<lambda>_.
     rop_return ids))"

definition hasConversationGrant :: "string \<Rightarrow> string \<Rightarrow> db \<Rightarrow> bool" where
  "hasConversationGrant conversationId policyFingerprint s =
     list_ex (\<lambda>g. ag_conversationId g = conversationId \<and> ag_policyFingerprint g = policyFingerprint) (approval_conversation_grants s)"

definition insertConversationGrant :: "grant_row \<Rightarrow> db \<Rightarrow> err + db" where
  "insertConversationGrant g s =
     res_bind (require (hash_ok (ag_policyFingerprint g)) (Sql_Constraint Sql_Check)) (\<lambda>_.
     if hasConversationGrant (ag_conversationId g) (ag_policyFingerprint g) s then Inr s
     else
       res_bind (require (getConversation (ag_conversationId g) s \<noteq> None \<and> getApproval (ag_createdFromRequestId g) s \<noteq> None)
         (Sql_Constraint Sql_ForeignKey)) (\<lambda>_.
       Inr (s\<lparr>approval_conversation_grants := approval_conversation_grants s @ [g]\<rparr>)))"

section \<open>Processes\<close>

definition getProcess :: "string \<Rightarrow> db \<Rightarrow> process_row option" where
  "getProcess processId s = tbl_get pc_processId processId (process_records s)"

definition getProcessByToolExecution :: "string \<Rightarrow> db \<Rightarrow> process_row option" where
  "getProcessByToolExecution toolExecutionId s = tbl_get pc_toolExecutionId toolExecutionId (process_records s)"

definition insertProcess :: "process_row \<Rightarrow> db \<Rightarrow> err + db" where
  "insertProcess row s =
     res_bind (case pc_confinement row of None \<Rightarrow> Inr None | Some v \<Rightarrow> res_bind (stored_json v) (\<lambda>c. Inr (Some c))) (\<lambda>confinement.
     res_bind (require (getProcess (pc_processId row) s = None) (Sql_Constraint (Sql_Unique ''process_records.process_id''))) (\<lambda>_.
     res_bind (require (getProcessByToolExecution (pc_toolExecutionId row) s = None)
       (Sql_Constraint (Sql_Unique ''process_records.tool_execution_id''))) (\<lambda>_.
     res_bind (require (getToolCallByExecutionId (pc_toolExecutionId row) s \<noteq> None \<and> getRun (pc_runId row) s \<noteq> None
         \<and> getAttempt (pc_attemptId row) s \<noteq> None \<and> getWorkspace (pc_workspaceId row) s \<noteq> None) (Sql_Constraint Sql_ForeignKey)) (\<lambda>_.
     Inr (s\<lparr>process_records := process_records s @ [row\<lparr>pc_confinement := confinement\<rparr>]\<rparr>)))))"

definition process_order :: "process_row \<Rightarrow> int \<times> string" where
  "process_order r = (pc_updatedAt r, pc_processId r)"

definition process_live :: "process_row \<Rightarrow> bool" where
  "process_live r \<longleftrightarrow> pc_status r \<in> {PC_STARTING, PC_RUNNING}"

definition listProcesses :: "string option \<Rightarrow> db \<Rightarrow> process_row list" where
  "listProcesses runId s = sort_key process_order
     (filter (\<lambda>r. case runId of None \<Rightarrow> True | Some i \<Rightarrow> i = [] \<or> pc_runId r = i) (process_records s))"

definition listActiveProcesses :: "db \<Rightarrow> process_row list" where
  "listActiveProcesses s = sort_key process_order (filter process_live (process_records s))"

definition process_write :: "string \<Rightarrow> (process_row \<Rightarrow> bool) \<Rightarrow> (process_row \<Rightarrow> process_row) \<Rightarrow> db \<Rightarrow> err + db" where
  "process_write message p f s =
     res_bind (require (tbl_changes p (process_records s) = 1) (State_Error STATE_SCHEMA_INCONSISTENT message)) (\<lambda>_.
     Inr (s\<lparr>process_records := tbl_modify p f (process_records s)\<rparr>))"

definition bindProcessBackend :: "string \<Rightarrow> backend_kind \<Rightarrow> string \<Rightarrow> bool \<Rightarrow> json \<Rightarrow> int \<Rightarrow> db \<Rightarrow> err + db" where
  "bindProcessBackend processId kind handleId sandboxed confinement updatedAt s =
     res_bind (stored_json confinement) (\<lambda>c.
     process_write ''process backend bind target missing or not starting'' (\<lambda>r. pc_processId r = processId \<and> pc_status r = PC_STARTING)
       (\<lambda>r. r\<lparr>pc_backendKind := kind, pc_backendHandleId := Some handleId, pc_sandboxed := sandboxed, pc_confinement := Some c,
          pc_updatedAt := updatedAt\<rparr>) s)"

record process_patch =
  pp_processId :: string
  pp_status :: process_status
  pp_pid :: "int option option"
  pp_exitCode :: "int option option"
  pp_exitSignal :: "string option option"
  pp_startedAt :: "int option option"
  pp_endedAt :: "int option option"
  pp_updatedAt :: int

definition patched_process :: "process_patch \<Rightarrow> process_row \<Rightarrow> process_row" where
  "patched_process p r = r\<lparr>pc_status := pp_status p, pc_pid := or_default (pp_pid p) (pc_pid r),
     pc_exitCode := or_default (pp_exitCode p) (pc_exitCode r), pc_exitSignal := or_default (pp_exitSignal p) (pc_exitSignal r),
     pc_startedAt := or_default (pp_startedAt p) (pc_startedAt r), pc_endedAt := or_default (pp_endedAt p) (pc_endedAt r),
     pc_updatedAt := pp_updatedAt p\<rparr>"

definition updateProcess :: "process_patch \<Rightarrow> db \<Rightarrow> err + db" where
  "updateProcess p = process_write ''process update target missing'' (\<lambda>r. pc_processId r = pp_processId p) (patched_process p)"

definition markActiveProcessesOrphaned :: "int \<Rightarrow> string list rop" where
  "markActiveProcessesOrphaned now s = Inr (s\<lparr>process_records := tbl_modify process_live
       (\<lambda>r. r\<lparr>pc_status := PC_ORPHANED, pc_endedAt := Some now, pc_updatedAt := now\<rparr>) (process_records s)\<rparr>,
     map pc_processId (filter process_live (process_records s)))"

end
