(* ===== verification/Approval_Service.thy ===== *)
theory Approval_Service
  imports Approval_Ledger
begin

text \<open>
  \<open>packages/approval/src/index.ts\<close>: whether a tool may run, is refused or has to be approved, and the life of a
  request for approval. Parameters: the hash \<open>sha256\<close>, the clock and the identifiers.
\<close>

section \<open>The execution policy\<close>

datatype policy_decision = DENY | PROMPT | ALLOW

record policy_rule =
  pl_decision :: policy_decision
  pl_toolName :: "string option"
  pl_commandKind :: "string option"
  pl_executable :: "string option"
  pl_workspaceId :: "string option"

record execution_policy =
  ep_defaultDecision :: policy_decision
  ep_rules :: "policy_rule list option"

record policy_subject =
  po_toolName :: string
  po_commandKind :: "string option"
  po_executable :: "string option"
  po_workspaceId :: string

definition decision_name :: "policy_decision \<Rightarrow> string" where
  "decision_name d = (case d of DENY \<Rightarrow> ''DENY'' | PROMPT \<Rightarrow> ''PROMPT'' | ALLOW \<Rightarrow> ''ALLOW'')"

definition member :: "string \<Rightarrow> string option \<Rightarrow> (string \<times> json) list" where
  "member k v = (case v of None \<Rightarrow> [] | Some x \<Rightarrow> [(k, JStr x)])"

definition rule_json :: "policy_rule \<Rightarrow> json" where
  "rule_json r = JObj ([(''decision'', JStr (decision_name (pl_decision r)))] @ member ''toolName'' (pl_toolName r)
     @ member ''commandKind'' (pl_commandKind r) @ member ''executable'' (pl_executable r) @ member ''workspaceId'' (pl_workspaceId r))"

definition subject_json :: "policy_subject \<Rightarrow> json" where
  "subject_json x = JObj ([(''toolName'', JStr (po_toolName x)), (''workspaceId'', JStr (po_workspaceId x))]
     @ member ''commandKind'' (po_commandKind x) @ member ''executable'' (po_executable x))"

definition approvalSha256 :: "(string \<Rightarrow> string) \<Rightarrow> json \<Rightarrow> string" where
  "approvalSha256 sha v = sha (canonical v)"

definition rule_matches :: "policy_subject \<Rightarrow> policy_rule \<Rightarrow> bool" where
  "rule_matches x r \<longleftrightarrow>
     (pl_toolName r = None \<or> pl_toolName r = Some (po_toolName x))
     \<and> (pl_commandKind r = None \<or> pl_commandKind r = po_commandKind x)
     \<and> (pl_executable r = None \<or> pl_executable r = po_executable x)
     \<and> (pl_workspaceId r = None \<or> pl_workspaceId r = Some (po_workspaceId x))"

definition matchExecutionPolicy :: "(string \<Rightarrow> string) \<Rightarrow> execution_policy \<Rightarrow> policy_subject \<Rightarrow> policy_decision \<times> string" where
  "matchExecutionPolicy sha policy x =
     (let rule = find (rule_matches x) (or_default (ep_rules policy) []);
          decision = (case rule of None \<Rightarrow> ep_defaultDecision policy | Some r \<Rightarrow> pl_decision r) in
      (decision, approvalSha256 sha (JObj [(''decision'', JStr (decision_name decision)), (''subject'', subject_json x),
         (''rule'', case rule of None \<Rightarrow> JNull | Some r \<Rightarrow> rule_json r)])))"

section \<open>Asking\<close>

record approval_view =
  av_requestId :: string
  av_version :: int
  av_runId :: string
  av_conversationId :: string
  av_workspaceId :: string
  av_toolCallId :: string
  av_toolName :: string
  av_bindingDigest :: string
  av_policyFingerprint :: string
  av_status :: approval_status
  av_decision :: "approval_decision option"
  av_summary :: json
  av_expiresAt :: int
  av_createdAt :: int
  av_updatedAt :: int

definition approval_view_of :: "approval_row \<Rightarrow> approval_view" where
  "approval_view_of r = \<lparr>av_requestId = ap_requestId r, av_version = ap_version r, av_runId = ap_runId r,
     av_conversationId = ap_conversationId r, av_workspaceId = ap_workspaceId r, av_toolCallId = ap_toolCallId r,
     av_toolName = ap_toolName r, av_bindingDigest = ap_bindingDigest r, av_policyFingerprint = ap_policyFingerprint r,
     av_status = ap_status r, av_decision = ap_decision r, av_summary = ap_summary r, av_expiresAt = ap_expiresAt r,
     av_createdAt = ap_createdAt r, av_updatedAt = ap_updatedAt r\<rparr>"

record approval_service =
  sv_sha256 :: "string \<Rightarrow> string"
  sv_timeoutMs :: "int option"

record approval_input =
  ai_runId :: string
  ai_attemptId :: string
  ai_conversationId :: string
  ai_workspaceId :: string
  ai_toolCallId :: string
  ai_toolName :: string
  ai_input :: json
  ai_toolSchema :: json
  ai_policySubject :: "(string \<times> json) list"
  ai_policy :: execution_policy
  ai_summary :: json
  ai_continuation :: json

text \<open>What the subject of the policy says of the command: a \<open>commandKind\<close> other than \<open>argv\<close> and \<open>shell\<close> and an
  \<open>executable\<close> that is no string are left out.\<close>

definition subject_of :: "approval_input \<Rightarrow> policy_subject" where
  "subject_of i = \<lparr>po_toolName = ai_toolName i,
     po_commandKind = (case map_of (ai_policySubject i) ''commandKind'' of
        Some (JStr k) \<Rightarrow> if k = ''argv'' \<or> k = ''shell'' then Some k else None | _ \<Rightarrow> None),
     po_executable = (case map_of (ai_policySubject i) ''executable'' of Some (JStr x) \<Rightarrow> Some x | _ \<Rightarrow> None),
     po_workspaceId = ai_workspaceId i\<rparr>"

definition binding_of :: "(string \<Rightarrow> string) \<Rightarrow> approval_input \<Rightarrow> string" where
  "binding_of sha i = approvalSha256 sha (JObj [(''runId'', JStr (ai_runId i)), (''attemptId'', JStr (ai_attemptId i)),
     (''conversationId'', JStr (ai_conversationId i)), (''workspaceId'', JStr (ai_workspaceId i)),
     (''toolCallId'', JStr (ai_toolCallId i)), (''toolName'', JStr (ai_toolName i)),
     (''inputHash'', JStr (approvalSha256 sha (ai_input i))), (''schemaHash'', JStr (approvalSha256 sha (ai_toolSchema i))),
     (''policySubject'', JObj (ai_policySubject i))])"

datatype authorization =
    Allowed string string string bool
  | Denied string string string
  | Prompted approval_view string

definition new_call :: "approval_input \<Rightarrow> (string \<Rightarrow> string) \<Rightarrow> string \<Rightarrow> string \<Rightarrow> policy_decision \<Rightarrow> int \<Rightarrow> tool_call_row" where
  "new_call i sha bindingDigest toolExecutionId effective now = \<lparr>tc_toolExecutionId = toolExecutionId, tc_runId = ai_runId i,
     tc_attemptId = ai_attemptId i, tc_conversationId = ai_conversationId i, tc_workspaceId = ai_workspaceId i,
     tc_toolCallId = ai_toolCallId i, tc_toolName = ai_toolName i, tc_input = ai_input i,
     tc_inputHash = approvalSha256 sha (ai_input i), tc_schemaHash = approvalSha256 sha (ai_toolSchema i), tc_bindingDigest = bindingDigest,
     tc_status = (case effective of PROMPT \<Rightarrow> TC_PENDING_APPROVAL | DENY \<Rightarrow> TC_DENIED | ALLOW \<Rightarrow> TC_APPROVED), tc_result = None,
     tc_errorCode = (if effective = DENY then Some ''PROCESS_POLICY_DENIED'' else None), tc_createdAt = now, tc_updatedAt = now\<rparr>"

definition new_request :: "approval_input \<Rightarrow> string \<Rightarrow> string \<Rightarrow> string \<Rightarrow> string \<Rightarrow> int \<Rightarrow> int \<Rightarrow> approval_row" where
  "new_request i requestId toolExecutionId bindingDigest fingerprint now expiresAt = \<lparr>ap_requestId = requestId, ap_version = 1,
     ap_toolExecutionId = toolExecutionId, ap_runId = ai_runId i, ap_attemptId = ai_attemptId i,
     ap_conversationId = ai_conversationId i, ap_workspaceId = ai_workspaceId i, ap_toolCallId = ai_toolCallId i,
     ap_toolName = ai_toolName i, ap_bindingDigest = bindingDigest, ap_policyFingerprint = fingerprint,
     ap_status = AP_PENDING, ap_decision = None, ap_summary = ai_summary i, ap_continuation = ai_continuation i,
     ap_expiresAt = expiresAt, ap_resolvedAt = None, ap_consumedAt = None, ap_createdAt = now, ap_updatedAt = now\<rparr>"

text \<open>A call the ledger already knows: what it was told before, if that still stands.\<close>

definition known_call :: "string \<Rightarrow> string \<Rightarrow> tool_call_row option \<Rightarrow> authorization option rop" where
  "known_call bindingDigest fingerprint existing = (case existing of
     None \<Rightarrow> rop_return None
   | Some call \<Rightarrow>
       rop_bind (rop_require (tc_bindingDigest call = bindingDigest) (Approval_Error APPROVAL_TOOL_CALL_CONFLICT)) (\<lambda>_.
       rop_bind (rop_read (getApprovalByToolExecution (tc_toolExecutionId call))) (\<lambda>approval.
       rop_return (case approval of
           Some a \<Rightarrow>
             if ap_status a = AP_PENDING then Some (Prompted (approval_view_of a) (tc_toolExecutionId call))
             else if tc_status call \<in> {TC_RUNNING, TC_COMPLETED} then Some (Allowed bindingDigest fingerprint (tc_toolExecutionId call) False)
             else None
         | None \<Rightarrow>
             if tc_status call \<in> {TC_RUNNING, TC_COMPLETED} then Some (Allowed bindingDigest fingerprint (tc_toolExecutionId call) False)
             else None))))"

definition decide :: "approval_service \<Rightarrow> (nat \<Rightarrow> string) \<Rightarrow> int \<Rightarrow> approval_input \<Rightarrow> tool_call_row option \<Rightarrow> authorization rop" where
  "decide sv ids now i existing =
     (let sha = sv_sha256 sv; bindingDigest = binding_of sha i; (decision, fingerprint) = matchExecutionPolicy sha (ai_policy i) (subject_of i);
          toolExecutionId = (case existing of Some call \<Rightarrow> tc_toolExecutionId call | None \<Rightarrow> ids 0);
          requestId = (case existing of Some call \<Rightarrow> ids 0 | None \<Rightarrow> ids 1) in
      rop_bind (rop_read (hasConversationGrant (ai_conversationId i) fingerprint)) (\<lambda>granted.
      let effective = (if granted then ALLOW else decision) in
      rop_bind (rop_when (existing = None) (rop_do (insertToolCall (new_call i sha bindingDigest toolExecutionId effective now)))) (\<lambda>_.
      (case effective of
         ALLOW \<Rightarrow> rop_return (Allowed bindingDigest fingerprint toolExecutionId granted)
       | DENY \<Rightarrow> rop_return (Denied bindingDigest fingerprint toolExecutionId)
       | PROMPT \<Rightarrow>
           let request = new_request i requestId toolExecutionId bindingDigest fingerprint now (now + or_default (sv_timeoutMs sv) 120000) in
           rop_bind (rop_do (insertApproval request)) (\<lambda>_.
           rop_return (Prompted (approval_view_of request) toolExecutionId))))))"

definition authorizeOrRequest :: "approval_service \<Rightarrow> (nat \<Rightarrow> string) \<Rightarrow> int \<Rightarrow> approval_input \<Rightarrow> authorization svc" where
  "authorizeOrRequest sv ids now i =
     (let sha = sv_sha256 sv in
      transaction (
        rop_bind (rop_read (getToolCall (ai_runId i) (ai_toolCallId i))) (\<lambda>existing.
        rop_bind (known_call (binding_of sha i) (snd (matchExecutionPolicy sha (ai_policy i) (subject_of i))) existing) (\<lambda>known.
        (case known of Some answer \<Rightarrow> rop_return answer | None \<Rightarrow> decide sv ids now i existing)))))"

section \<open>Answering and executing\<close>

definition approval_missing :: err where
  "approval_missing = Approval_Error APPROVAL_NOT_FOUND"

definition found_approval :: "string \<Rightarrow> approval_row rop" where
  "found_approval requestId = rop_found approval_missing (getApproval requestId)"

definition approval_get :: "string \<Rightarrow> approval_view svc" where
  "approval_get requestId = transaction (rop_bind (found_approval requestId) (\<lambda>r. rop_return (approval_view_of r)))"

definition cancel_call :: "string \<Rightarrow> int \<Rightarrow> string \<Rightarrow> unit rop" where
  "cancel_call code now toolExecutionId = rop_do (updateToolCall toolExecutionId TC_CANCELLED None (Some (Some code)) now)"

definition approval_expirePending :: "int \<Rightarrow> string list svc" where
  "approval_expirePending now = transaction (
     rop_bind (ledger_expirePending now) (\<lambda>ids.
     rop_bind (rop_each (\<lambda>i. rop_bind (rop_read (getApproval i)) (\<lambda>row. case row of None \<Rightarrow> rop_return ()
        | Some r \<Rightarrow> cancel_call ''APPROVAL_EXPIRED'' now (ap_toolExecutionId r))) ids) (\<lambda>_.
     rop_return ids)))"

definition approval_list :: "int \<Rightarrow> approval_status option \<Rightarrow> approval_view list svc" where
  "approval_list now status =
     svc_bind (approval_expirePending now) (\<lambda>_.
     transaction (rop_read (\<lambda>s. map approval_view_of (listApprovals status s))))"

text \<open>An expired request is marked and its call cancelled, and then the exception leaves the transaction.\<close>

definition refuse_expired :: "int \<Rightarrow> approval_row \<Rightarrow> unit rop" where
  "refuse_expired now row =
     rop_bind (markApprovalTerminal (ap_requestId row) AP_EXPIRED now) (\<lambda>_.
     rop_bind (cancel_call ''APPROVAL_EXPIRED'' now (ap_toolExecutionId row)) (\<lambda>_.
     rop_throw (Approval_Error APPROVAL_STATE_INVALID)))"

definition approval_resolve :: "int \<Rightarrow> string \<Rightarrow> int \<Rightarrow> approval_decision \<Rightarrow> (approval_view \<times> bool) svc" where
  "approval_resolve now requestId expectedVersion decision = transaction (
     rop_bind (found_approval requestId) (\<lambda>row.
     if ap_status row \<noteq> AP_PENDING then
       rop_bind (rop_require (ap_decision row = Some decision \<and> ap_status row \<in> {AP_APPROVED, AP_DENIED, AP_CONSUMED})
         (Approval_Error APPROVAL_STATE_INVALID)) (\<lambda>_.
       rop_return (approval_view_of row, True))
     else
       rop_bind (rop_when (ap_expiresAt row \<le> now) (refuse_expired now row)) (\<lambda>_.
       rop_bind (rop_require (ap_version row = expectedVersion) (Approval_Error APPROVAL_VERSION_CONFLICT)) (\<lambda>_.
       rop_bind (resolveApproval requestId expectedVersion (if decision = Deny then AP_DENIED else AP_APPROVED) decision now) (\<lambda>changed.
       rop_bind (rop_require changed (Approval_Error APPROVAL_VERSION_CONFLICT)) (\<lambda>_.
       rop_bind (rop_do (updateToolCall (ap_toolExecutionId row) (if decision = Deny then TC_DENIED else TC_APPROVED) None
         (Some (if decision = Deny then Some ''APPROVAL_DENIED'' else None)) now)) (\<lambda>_.
       rop_bind (rop_when (decision = Allow_for_conversation) (rop_do (insertConversationGrant
         \<lparr>ag_conversationId = ap_conversationId row, ag_policyFingerprint = ap_policyFingerprint row,
          ag_createdFromRequestId = ap_requestId row, ag_createdAt = now\<rparr>))) (\<lambda>_.
       rop_bind (rop_found Js_Error (getApproval requestId)) (\<lambda>updated.
       rop_return (approval_view_of updated, False))))))))))"

definition approval_consume :: "int \<Rightarrow> string \<Rightarrow> int \<Rightarrow> string \<Rightarrow> (approval_view \<times> tool_call_row \<times> json) svc" where
  "approval_consume now requestId expectedVersion bindingDigest = transaction (
     rop_bind (found_approval requestId) (\<lambda>row.
     rop_bind (rop_require (ap_bindingDigest row = bindingDigest) (Approval_Error APPROVAL_BINDING_MISMATCH)) (\<lambda>_.
     rop_bind (rop_require (ap_status row = AP_APPROVED) (Approval_Error APPROVAL_STATE_INVALID)) (\<lambda>_.
     rop_bind (consumeApproval requestId expectedVersion bindingDigest now) (\<lambda>changed.
     rop_bind (rop_require changed (Approval_Error APPROVAL_VERSION_CONFLICT)) (\<lambda>_.
     rop_bind (rop_do (updateToolCall (ap_toolExecutionId row) TC_RUNNING None (Some None) now)) (\<lambda>_.
     rop_bind (rop_found Js_Error (getApproval requestId)) (\<lambda>updated.
     rop_bind (rop_found Js_Error (getToolCallByExecutionId (ap_toolExecutionId row))) (\<lambda>call.
     rop_return (approval_view_of updated, call, ap_continuation row))))))))))"

definition beginAllowedToolCall :: "int \<Rightarrow> string \<Rightarrow> unit svc" where
  "beginAllowedToolCall now toolExecutionId = transaction (
     rop_bind (rop_found approval_missing (getToolCallByExecutionId toolExecutionId)) (\<lambda>call.
     if tc_status call = TC_RUNNING then rop_return ()
     else
       rop_bind (rop_require (tc_status call = TC_APPROVED) (Approval_Error APPROVAL_STATE_INVALID)) (\<lambda>_.
       rop_do (updateToolCall toolExecutionId TC_RUNNING None (Some None) now))))"

definition given_result :: "json \<Rightarrow> json option option" where
  "given_result v = (case v of JUndef \<Rightarrow> None | JNull \<Rightarrow> Some None | _ \<Rightarrow> Some (Some v))"

definition completeToolCall :: "int \<Rightarrow> string \<Rightarrow> json \<Rightarrow> bool \<Rightarrow> string option \<Rightarrow> unit svc" where
  "completeToolCall now toolExecutionId result isError errorCode = transaction (
     rop_do (updateToolCall toolExecutionId (if isError then TC_FAILED else TC_COMPLETED) (given_result result) (Some errorCode) now))"

definition recordApprovalTerminalResult :: "int \<Rightarrow> string \<Rightarrow> tool_call_status \<Rightarrow> json \<Rightarrow> string \<Rightarrow> approval_view svc" where
  "recordApprovalTerminalResult now requestId status result errorCode = transaction (
     rop_bind (found_approval requestId) (\<lambda>row.
     rop_bind (rop_do (updateToolCall (ap_toolExecutionId row) status (given_result result) (Some (Some errorCode)) now)) (\<lambda>_.
     rop_return (approval_view_of row))))"

definition approval_cancel :: "int \<Rightarrow> string \<Rightarrow> approval_view svc" where
  "approval_cancel now requestId = transaction (
     rop_bind (found_approval requestId) (\<lambda>row.
     rop_bind (rop_when (ap_status row = AP_PENDING)
       (rop_bind (markApprovalTerminal requestId AP_CANCELLED now) (\<lambda>_. cancel_call ''APPROVAL_CANCELLED'' now (ap_toolExecutionId row)))) (\<lambda>_.
     rop_bind (rop_found Js_Error (getApproval requestId)) (\<lambda>updated.
     rop_return (approval_view_of updated)))))"

text \<open>\<open>cancelRun\<close>: the clock is read for the listing and for each cancellation.\<close>

definition approval_cancelRun :: "(nat \<Rightarrow> int) \<Rightarrow> string \<Rightarrow> approval_view list svc" where
  "approval_cancelRun clock runId =
     svc_bind (approval_list (clock 0) (Some AP_PENDING)) (\<lambda>views.
     let pending = filter (\<lambda>v. av_runId v = runId) views in
     foldr (\<lambda>(n, v) k. svc_bind (approval_cancel (clock (n + 1)) (av_requestId v)) (\<lambda>x. svc_bind k (\<lambda>xs. svc_return (x # xs))))
       (zip [0..<length pending] pending) (svc_return []))"

end
