(* ===== verification/Approval_Properties.thy ===== *)
theory Approval_Properties
  imports Approval_Service Transaction_Rules
begin

text \<open>
  The life of a request for approval: which changes the operations of the approval service can make to it, as a
  preorder on databases, and what follows from it for the execution of a tool call.
\<close>

section \<open>How a request evolves\<close>

definition approval_path :: "approval_status \<Rightarrow> approval_status \<Rightarrow> bool" where
  "approval_path st st' \<longleftrightarrow> st = AP_PENDING \<and> st' \<noteq> AP_PENDING \<or> st = AP_APPROVED \<and> st' = AP_CONSUMED"

definition approval_evolves :: "approval_row \<Rightarrow> approval_row \<Rightarrow> bool" where
  "approval_evolves a b \<longleftrightarrow> b = a \<or> ap_version a < ap_version b \<and> ap_requestId b = ap_requestId a
     \<and> ap_toolExecutionId b = ap_toolExecutionId a \<and> ap_bindingDigest b = ap_bindingDigest a
     \<and> ap_policyFingerprint b = ap_policyFingerprint a \<and> ap_expiresAt b = ap_expiresAt a
     \<and> approval_path (ap_status a) (ap_status b)"

definition approvals_evolve :: "db \<Rightarrow> db \<Rightarrow> bool" where
  "approvals_evolve s t \<longleftrightarrow> (\<forall>i a. getApproval i s = Some a \<longrightarrow> (\<exists>b. getApproval i t = Some b \<and> approval_evolves a b))"

lemma approval_evolves_trans: "approval_evolves a b \<Longrightarrow> approval_evolves b c \<Longrightarrow> approval_evolves a c"
  by (auto simp: approval_evolves_def approval_path_def)

interpretation apv: step_preorder approvals_evolve
proof unfold_locales
  show "approvals_evolve s s" for s by (auto simp: approvals_evolve_def approval_evolves_def)
  show "approvals_evolve a b \<Longrightarrow> approvals_evolve b c \<Longrightarrow> approvals_evolve a c" for a b c
    unfolding approvals_evolve_def using approval_evolves_trans by metis
qed

lemma same_approvals: "approval_requests t = approval_requests s \<Longrightarrow> approvals_evolve s t"
  using apv.refl [of s] by (simp add: approvals_evolve_def getApproval_def)

lemma approval_write_evolves:
  assumes "\<And>r. p r \<Longrightarrow> approval_evolves r ((f r)\<lparr>ap_version := ap_version r + 1\<rparr>)" and "\<And>r. ap_requestId (f r) = ap_requestId r"
  shows "keeps approvals_evolve (approval_write p f)"
proof (rule apv.keeps_op)
  fix s s' x
  assume "approval_write p f s = Inr (s', x)"
  then have s': "getApproval i s' = map_option (\<lambda>r. if p r then (f r)\<lparr>ap_version := ap_version r + 1\<rparr> else r) (getApproval i s)" for i
    by (auto simp: approval_write_def getApproval_def assms(2) tbl_get_write)
  show "approvals_evolve s s'"
    using assms(1) by (auto simp: approvals_evolve_def s' approval_evolves_def)
qed

lemma ledger_writes_evolve:
  "st \<noteq> AP_PENDING \<Longrightarrow> keeps approvals_evolve (resolveApproval r v st d now)"
  "keeps approvals_evolve (consumeApproval r v b now)"
  "st \<noteq> AP_PENDING \<Longrightarrow> keeps approvals_evolve (markApprovalTerminal r st now)"
  "keeps approvals_evolve (ledger_expirePending now)"
  unfolding resolveApproval_def consumeApproval_def markApprovalTerminal_def ledger_expirePending_def
  by (intro apv.keeps_intros approval_write_evolves; auto simp: approval_evolves_def approval_path_def overdue_def)+

lemma row_writes_evolve:
  "insertToolCall c s = Inr s1 \<Longrightarrow> approvals_evolve s s1"
  "updateToolCall i st res code now s = Inr s2 \<Longrightarrow> approvals_evolve s s2"
  "insertConversationGrant g s = Inr s3 \<Longrightarrow> approvals_evolve s s3"
  by (auto intro!: same_approvals simp: insertToolCall_def updateToolCall_def insertConversationGrant_def split: if_splits)

lemma insertApproval_evolves: "insertApproval a s = Inr t \<Longrightarrow> approvals_evolve s t"
  by (auto simp: insertApproval_def approvals_evolve_def getApproval_def tbl_get_append approval_evolves_def split: if_splits)

lemma body_rules:
  "keeps approvals_evolve (rop_do (insertToolCall c))"
  "keeps approvals_evolve (rop_do (updateToolCall i st res code now))"
  "keeps approvals_evolve (rop_do (insertConversationGrant g))"
  "keeps approvals_evolve (rop_do (insertApproval a))"
  by (rule apv.keeps_rop_do, erule row_writes_evolve insertApproval_evolves)+

lemma keeps_decision:
  "keeps R a \<Longrightarrow> keeps R b \<Longrightarrow> keeps R c \<Longrightarrow> keeps R (case e of DENY \<Rightarrow> a | PROMPT \<Rightarrow> b | ALLOW \<Rightarrow> c)"
  by (cases e) auto

lemma decide_evolves: "keeps approvals_evolve (decide sv ids now i existing)"
  unfolding decide_def by (intro keeps_decision apv.keeps_intros body_rules)

lemmas service_rules = apv.keeps_intros apv.steps_intros apv.steps_body body_rules ledger_writes_evolve decide_evolves

lemma service_evolves:
  "apv.steps (authorizeOrRequest sv ids now i)"
  "apv.steps (approval_get r)"
  "apv.steps (approval_expirePending now)"
  "apv.steps (approval_resolve now r v d)"
  "apv.steps (approval_consume now r v b)"
  "apv.steps (beginAllowedToolCall now x)"
  "apv.steps (completeToolCall now x res isError code)"
  "apv.steps (recordApprovalTerminalResult now r tst res c)"
  "apv.steps (approval_cancel now r)"
  unfolding authorizeOrRequest_def known_call_def approval_get_def found_approval_def approval_expirePending_def cancel_call_def
    approval_resolve_def refuse_expired_def approval_consume_def beginAllowedToolCall_def completeToolCall_def
    recordApprovalTerminalResult_def approval_cancel_def
  by (intro service_rules; simp)+

lemma listing_evolves: "apv.steps (approval_list now st)"
  unfolding approval_list_def by (intro apv.steps_intros apv.steps_body apv.keeps_query service_evolves)

lemma cancelRun_evolves: "apv.steps (approval_cancelRun clock run)"
proof -
  have "apv.steps (foldr (\<lambda>(n, v) k. svc_bind (approval_cancel (clock (n + 1)) (av_requestId v)) (\<lambda>x. svc_bind k (\<lambda>xs. svc_return (x # xs))))
      vs (svc_return []))" for vs :: "(nat \<times> approval_view) list"
  proof (induction vs)
    case Nil
    then show ?case by (simp only: foldr.simps id_apply apv.steps_return)
  next
    case (Cons v vs)
    obtain n w where "v = (n, w)" by fastforce
    with Cons show ?case
      by (simp only: foldr.simps comp_apply case_prod_conv) (intro apv.steps_bind apv.steps_return service_evolves)
  qed
  then show ?thesis
    unfolding approval_cancelRun_def Let_def by (intro apv.steps_bind listing_evolves)
qed

inductive approval_step :: "db \<Rightarrow> db \<Rightarrow> bool" where
  ask: "authorizeOrRequest sv ids now i s = (x, t) \<Longrightarrow> approval_step s t"
| expire: "approval_expirePending now s = (x1, t) \<Longrightarrow> approval_step s t"
| answer: "approval_resolve now r v d s = (x2, t) \<Longrightarrow> approval_step s t"
| spend: "approval_consume now r v b s = (x3, t) \<Longrightarrow> approval_step s t"
| begin_call: "beginAllowedToolCall now c s = (x4, t) \<Longrightarrow> approval_step s t"
| end_call: "completeToolCall now c res isError code s = (x5, t) \<Longrightarrow> approval_step s t"
| record_end: "recordApprovalTerminalResult now r st res cd s = (x6, t) \<Longrightarrow> approval_step s t"
| cancel: "approval_cancel now r s = (x7, t) \<Longrightarrow> approval_step s t"
| cancel_run: "approval_cancelRun clock run s = (x8, t) \<Longrightarrow> approval_step s t"

lemma approval_steps_evolve: "approval_step\<^sup>*\<^sup>* s t \<Longrightarrow> approvals_evolve s t"
proof (induction rule: rtranclp_induct)
  case base
  then show ?case by (rule apv.refl)
next
  case (step t u)
  from step(2) have "approvals_evolve t u"
    by cases (auto dest: service_evolves [THEN apv.stepsD] cancelRun_evolves [THEN apv.stepsD])
  with step(3) show ?case by (rule apv.trans)
qed

section \<open>Executing once\<close>

text \<open>A consumed request is consumed, and no operation takes it back.\<close>

lemma consume_consumes:
  assumes "approval_consume now r v b s = (Inr out, s')" and "distinct (map ap_requestId (approval_requests s))"
  shows "\<exists>a. getApproval r s = Some a \<and> ap_status a = AP_APPROVED \<and> ap_bindingDigest a = b \<and> ap_version a = v
     \<and> (\<exists>a'. getApproval r s' = Some a' \<and> ap_status a' = AP_CONSUMED)"
proof -
  let ?p = "\<lambda>x. ap_requestId x = r \<and> ap_version x = v \<and> ap_status x = AP_APPROVED \<and> ap_bindingDigest x = b"
  from assms(1) obtain a s1 s2 where a: "getApproval r s = Some a"
    and c: "consumeApproval r v b now s = Inr (s1, True)"
    and u: "updateToolCall (ap_toolExecutionId a) TC_RUNNING None (Some None) now s1 = Inr s2" and s': "s' = s2"
    by (auto simp: approval_consume_def transaction_def found_approval_def rop_bind_Inr rop_found_Inr rop_do_Inr split: sum.splits prod.splits if_splits)
  from c have n: "tbl_changes ?p (approval_requests s) = 1"
    and s1: "approval_requests s1 = tbl_modify ?p (\<lambda>x. (x\<lparr>ap_status := AP_CONSUMED, ap_consumedAt := Some now, ap_updatedAt := now\<rparr>)
        \<lparr>ap_version := ap_version x + 1\<rparr>) (approval_requests s)"
    by (auto simp: consumeApproval_def approval_write_def)
  from n have "filter ?p (approval_requests s) \<noteq> []" by (auto simp: tbl_changes_def)
  then obtain x where x: "x \<in> set (approval_requests s)" "?p x" by (auto simp: filter_empty_conv)
  with tbl_get_distinct [OF assms(2), of x] a have "x = a" by (simp add: getApproval_def)
  moreover have "getApproval r s2 = getApproval r s1"
    using u by (auto simp: updateToolCall_def getApproval_def split: if_splits)
  moreover have "getApproval r s1 = map_option (\<lambda>x. if ?p x then (x\<lparr>ap_status := AP_CONSUMED, ap_consumedAt := Some now, ap_updatedAt := now\<rparr>)
        \<lparr>ap_version := ap_version x + 1\<rparr> else x) (getApproval r s)"
    unfolding getApproval_def s1 by (rule tbl_get_write) simp
  ultimately show ?thesis using a x s' by simp
qed

lemma consumed_stays:
  assumes "approvals_evolve s t" and "getApproval r s = Some a" and "ap_status a = AP_CONSUMED"
  shows "getApproval r t = Some a"
proof -
  from assms(1,2) obtain b where "getApproval r t = Some b" "approval_evolves a b" by (auto simp: approvals_evolve_def)
  with assms(3) show ?thesis by (auto simp: approval_evolves_def approval_path_def)
qed

lemma consumed_refused:
  assumes "getApproval r t = Some a" and "ap_status a = AP_CONSUMED"
  shows "\<exists>e. approval_consume now r v b t = (Inl e, t)"
  using assms by (simp add: approval_consume_def transaction_def found_approval_def rop_bind_def rop_found_def rop_require_def)

text \<open>C15. An approval is spent once. If \<open>consume\<close> hands out the tool call of a request, the request had been approved, with the
  binding digest and in the version the caller names; and after any further operations of the approval service no call of
  \<open>consume\<close> hands it out again: each throws and changes nothing. The hypothesis is the primary key of the table.\<close>

theorem approval_spent_once:
  assumes "approval_consume now r v b s = (Inr out, s')" and "distinct (map ap_requestId (approval_requests s))"
    and "approval_step\<^sup>*\<^sup>* s' t"
  shows "(\<exists>a. getApproval r s = Some a \<and> ap_status a = AP_APPROVED \<and> ap_bindingDigest a = b \<and> ap_version a = v)
    \<and> (\<exists>e. approval_consume now' r v' b' t = (Inl e, t))"
proof -
  from consume_consumes [OF assms(1,2)] obtain a a' where a: "getApproval r s = Some a" "ap_status a = AP_APPROVED"
      "ap_bindingDigest a = b" "ap_version a = v" and a': "getApproval r s' = Some a'" "ap_status a' = AP_CONSUMED" by blast
  from consumed_stays [OF approval_steps_evolve [OF assms(3)] a'] have "getApproval r t = Some a'" .
  from consumed_refused [OF this a'(2)] a show ?thesis by blast
qed

definition sample_tool_call :: tool_call_row where
  "sample_tool_call = \<lparr>tc_toolExecutionId = ''x1'', tc_runId = ''r1'', tc_attemptId = ''a1'', tc_conversationId = ''c1'', tc_workspaceId = ''w1'',
     tc_toolCallId = ''t1'', tc_toolName = ''process.run'', tc_input = JObj [], tc_inputHash = [], tc_schemaHash = [], tc_bindingDigest = ''b'',
     tc_status = TC_APPROVED, tc_result = None, tc_errorCode = None, tc_createdAt = 0, tc_updatedAt = 1\<rparr>"

definition sample_approval :: approval_row where
  "sample_approval = \<lparr>ap_requestId = ''q1'', ap_version = 2, ap_toolExecutionId = ''x1'', ap_runId = ''r1'', ap_attemptId = ''a1'',
     ap_conversationId = ''c1'', ap_workspaceId = ''w1'', ap_toolCallId = ''t1'', ap_toolName = ''process.run'', ap_bindingDigest = ''b'',
     ap_policyFingerprint = [], ap_status = AP_APPROVED, ap_decision = Some Allow_once, ap_summary = JNull, ap_continuation = JNull,
     ap_expiresAt = 120000, ap_resolvedAt = Some 1, ap_consumedAt = None, ap_createdAt = 0, ap_updatedAt = 1\<rparr>"

definition approved_db :: db where
  "approved_db = empty_db\<lparr>tool_calls := [sample_tool_call], approval_requests := [sample_approval]\<rparr>"

definition spent_db :: db where
  "spent_db = snd (approval_consume 5 ''q1'' 2 ''b'' approved_db)"

lemma sample_consumed: "\<exists>out. approval_consume 5 ''q1'' 2 ''b'' approved_db = (Inr out, spent_db)"
  by (simp add: spent_db_def approved_db_def sample_tool_call_def sample_approval_def approval_consume_def transaction_def found_approval_def
      rop_bind_def rop_found_def rop_do_def consumeApproval_def approval_write_def updateToolCall_def call_write_def getApproval_def
      getToolCallByExecutionId_def tbl_get_def tbl_modify_def tbl_changes_def empty_db_def)

theorem approval_spent_once_witness:
  "\<exists>out. approval_consume 5 ''q1'' 2 ''b'' approved_db = (Inr out, spent_db) \<and> (\<exists>e. approval_consume 6 ''q1'' 3 ''b'' spent_db = (Inl e, spent_db))"
proof -
  from sample_consumed obtain out where c: "approval_consume 5 ''q1'' 2 ''b'' approved_db = (Inr out, spent_db)" ..
  have "distinct (map ap_requestId (approval_requests approved_db))" by (simp add: approved_db_def)
  from approval_spent_once [OF c this rtranclp.rtrancl_refl, of 6 3 "''b''"] c show ?thesis by blast
qed

section \<open>An answer that comes too late\<close>

text \<open>\<open>resolve\<close> marks an expired request and cancels its call, and then throws, which rolls the transaction back: the request
  is as pending as before.\<close>

theorem expired_answer_rolled_back:
  assumes "getApproval r s = Some a" and "ap_status a = AP_PENDING" and "ap_expiresAt a \<le> now"
  shows "\<exists>e. approval_resolve now r v d s = (Inl e, s)"
proof -
  have "\<exists>e. refuse_expired now a s = Inl e"
    by (simp add: refuse_expired_def rop_bind_def markApprovalTerminal_def approval_write_def split: sum.splits)
  then show ?thesis using assms
    by (auto simp: approval_resolve_def transaction_def found_approval_def rop_found_def rop_bind_def rop_when_def)
qed

end
