(* ===== verification/Goal_Ledger.thy ===== *)
theory Goal_Ledger
  imports Conversation_Ledger
begin

text \<open>
  \<open>packages/state/src/goal-repository.ts\<close> and the tables of the migrations 017, 023 and 024: goals, the steps of
  their plan, the immutable snapshot of every plan revision, the execution of a plan with one row per step and
  revision, what blocked a step, and events. An \<open>UPDATE ... WHERE revision = ? RETURNING\<close> gives the new row or
  nothing; the partial unique indexes (one open goal per conversation, one active step per execution) are checks
  of every statement that can violate them.
\<close>

section \<open>Constraints\<close>

definition run_ref :: "string option \<Rightarrow> db \<Rightarrow> bool" where
  "run_ref v s = (case v of None \<Rightarrow> True | Some r \<Rightarrow> getRun r s \<noteq> None)"

definition attempt_ref :: "string option \<Rightarrow> db \<Rightarrow> bool" where
  "attempt_ref v s = (case v of None \<Rightarrow> True | Some a \<Rightarrow> getAttempt a s \<noteq> None)"

definition task_ref :: "string option \<Rightarrow> db \<Rightarrow> bool" where
  "task_ref v s = (case v of None \<Rightarrow> True | Some t \<Rightarrow> task_get t s \<noteq> None)"

definition goal_open :: "goal_status \<Rightarrow> bool" where
  "goal_open st \<longleftrightarrow> st \<in> {G_ACTIVE, G_PAUSED, G_BLOCKED}"

definition goal_checks :: "goal_row \<Rightarrow> bool" where
  "goal_checks g \<longleftrightarrow> 1 \<le> length (g_objective g) \<and> length (g_objective g) \<le> 4000 \<and> 0 \<le> g_consecutiveBlockerCount g
     \<and> 0 \<le> g_continuationCount g \<and> 0 < g_planRevision g \<and> 0 < g_revision g"

definition step_checks :: "step_row \<Rightarrow> bool" where
  "step_checks p \<longleftrightarrow> 0 < ps_ordinal p \<and> 1 \<le> length (ps_title p) \<and> length (ps_title p) \<le> 1000 \<and> 0 < ps_revision p"

definition revision_step_checks :: "revision_step_row \<Rightarrow> bool" where
  "revision_step_checks p \<longleftrightarrow> 0 < pr_planRevision p \<and> 0 < pr_ordinal p \<and> 1 \<le> length (pr_title p) \<and> length (pr_title p) \<le> 1000
     \<and> 1 \<le> pr_maxAttempts p \<and> pr_maxAttempts p \<le> 20"

definition execution_checks :: "execution_row \<Rightarrow> bool" where
  "execution_checks e \<longleftrightarrow> 0 < gx_planRevision e \<and> 1 \<le> length (gx_controllerId e) \<and> length (gx_controllerId e) \<le> 128 \<and> 0 < gx_revision e"

definition step_execution_checks :: "step_execution_row \<Rightarrow> bool" where
  "step_execution_checks x \<longleftrightarrow> 0 < sx_planRevision x \<and> 0 < sx_ordinal x \<and> 0 \<le> sx_attemptCount x \<and> 0 < sx_revision x
     \<and> 1 \<le> sx_maxAttempts x \<and> sx_maxAttempts x \<le> 20"

definition step_active :: "step_execution_status \<Rightarrow> bool" where
  "step_active st \<longleftrightarrow> st \<in> {P_RUNNING, P_WAITING, P_BLOCKED}"

definition blocker_checks :: "blocker_row \<Rightarrow> bool" where
  "blocker_checks b \<longleftrightarrow> 0 < bk_planRevision b \<and> length (bk_fingerprint b) = 64 \<and> 1 \<le> length (bk_summary b)
     \<and> length (bk_summary b) \<le> 2000 \<and> 0 < bk_occurrenceCount b \<and> 0 < bk_revision b"

section \<open>Goals\<close>

definition goal_get :: "string \<Rightarrow> db \<Rightarrow> goal_row option" where
  "goal_get goalId s = tbl_get g_goalId goalId (agent_goals s)"

definition other_open :: "goal_row \<Rightarrow> db \<Rightarrow> bool" where
  "other_open g s \<longleftrightarrow> goal_open (g_status g)
     \<and> list_ex (\<lambda>h. g_goalId h \<noteq> g_goalId g \<and> g_conversationId h = g_conversationId g \<and> goal_open (g_status h)) (agent_goals s)"

definition goal_refs :: "goal_row \<Rightarrow> db \<Rightarrow> bool" where
  "goal_refs g s \<longleftrightarrow> getConversation (g_conversationId g) s \<noteq> None \<and> run_ref (g_sourceRunId g) s \<and> attempt_ref (g_sourceAttemptId g) s"

definition insertGoal :: "goal_row \<Rightarrow> db \<Rightarrow> err + db" where
  "insertGoal g s =
     res_bind (require (goal_checks g) (Sql_Constraint Sql_Check)) (\<lambda>_.
     res_bind (require (goal_get (g_goalId g) s = None) (Sql_Constraint (Sql_Unique ''agent_goals.goal_id''))) (\<lambda>_.
     res_bind (require (\<not> other_open g s) (Sql_Constraint (Sql_Unique ''agent_goals.conversation_id''))) (\<lambda>_.
     res_bind (require (goal_refs g s) (Sql_Constraint Sql_ForeignKey)) (\<lambda>_.
     Inr (s\<lparr>agent_goals := agent_goals s @ [g]\<rparr>)))))"

text \<open>The newest first; \<open>getOpen\<close> orders by the time only, and there is one open goal at most.\<close>

definition goals_of :: "string \<Rightarrow> db \<Rightarrow> goal_row list" where
  "goals_of conversationId s = filter (\<lambda>g. g_conversationId g = conversationId) (agent_goals s)"

definition getOpen :: "string \<Rightarrow> db \<Rightarrow> goal_row option" where
  "getOpen conversationId s = (case sort_key (\<lambda>g. - g_createdAt g) (filter (\<lambda>g. goal_open (g_status g)) (goals_of conversationId s)) of
     [] \<Rightarrow> None | g # gs \<Rightarrow> Some g)"

definition getLatest :: "string \<Rightarrow> db \<Rightarrow> goal_row option" where
  "getLatest conversationId s = (case rev (sort_key (\<lambda>g. (g_createdAt g, g_goalId g)) (goals_of conversationId s)) of
     [] \<Rightarrow> None | g # gs \<Rightarrow> Some g)"

record goal_patch =
  gp_goalId :: string
  gp_expectedRevision :: int
  gp_status :: goal_status
  gp_lastNote :: "string option"
  gp_blockerFingerprint :: "string option"
  gp_consecutiveBlockerCount :: int
  gp_continuationCount :: int
  gp_planRevision :: int
  gp_sourceRunId :: "string option"
  gp_sourceAttemptId :: "string option"
  gp_updatedAt :: int
  gp_terminalAt :: "int option"

definition patched_goal :: "goal_patch \<Rightarrow> goal_row \<Rightarrow> goal_row" where
  "patched_goal p g = g\<lparr>g_status := gp_status p, g_lastNote := gp_lastNote p, g_blockerFingerprint := gp_blockerFingerprint p,
     g_consecutiveBlockerCount := gp_consecutiveBlockerCount p, g_continuationCount := gp_continuationCount p,
     g_planRevision := gp_planRevision p, g_sourceRunId := gp_sourceRunId p, g_sourceAttemptId := gp_sourceAttemptId p,
     g_updatedAt := gp_updatedAt p, g_terminalAt := gp_terminalAt p, g_revision := g_revision g + 1\<rparr>"

definition updateGoal :: "goal_patch \<Rightarrow> goal_row option rop" where
  "updateGoal p s = (case goal_get (gp_goalId p) s of
     None \<Rightarrow> Inr (s, None)
   | Some g \<Rightarrow>
       if g_revision g \<noteq> gp_expectedRevision p then Inr (s, None)
       else
         let g' = patched_goal p g in
         res_bind (require (goal_checks g') (Sql_Constraint Sql_Check)) (\<lambda>_.
         res_bind (require (\<not> other_open g' s) (Sql_Constraint (Sql_Unique ''agent_goals.conversation_id''))) (\<lambda>_.
         res_bind (require (goal_refs g' s) (Sql_Constraint Sql_ForeignKey)) (\<lambda>_.
         Inr (s\<lparr>agent_goals := tbl_modify (\<lambda>h. g_goalId h = gp_goalId p) (\<lambda>_. g') (agent_goals s)\<rparr>, Some g')))))"

section \<open>Steps of the plan\<close>

definition getStepById :: "string \<Rightarrow> db \<Rightarrow> step_row option" where
  "getStepById stepId s = tbl_get ps_stepId stepId (agent_goal_plan_steps s)"

definition getStep :: "string \<Rightarrow> string \<Rightarrow> db \<Rightarrow> step_row option" where
  "getStep goalId stepId s = (case getStepById stepId s of None \<Rightarrow> None | Some p \<Rightarrow> if ps_goalId p = goalId then Some p else None)"

definition ordinal_taken :: "step_row \<Rightarrow> step_row list \<Rightarrow> bool" where
  "ordinal_taken p rows \<longleftrightarrow> list_ex (\<lambda>q. ps_stepId q \<noteq> ps_stepId p \<and> ps_goalId q = ps_goalId p \<and> ps_ordinal q = ps_ordinal p) rows"

definition ordinal_unique :: err where
  "ordinal_unique = Sql_Constraint (Sql_Unique ''agent_goal_plan_steps.goal_id, agent_goal_plan_steps.ordinal'')"

definition step_refs :: "step_row \<Rightarrow> db \<Rightarrow> bool" where
  "step_refs p s \<longleftrightarrow> goal_get (ps_goalId p) s \<noteq> None \<and> run_ref (ps_sourceRunId p) s \<and> attempt_ref (ps_sourceAttemptId p) s"

definition insertStep :: "step_row \<Rightarrow> db \<Rightarrow> err + db" where
  "insertStep p s =
     res_bind (require (step_checks p) (Sql_Constraint Sql_Check)) (\<lambda>_.
     res_bind (require (getStepById (ps_stepId p) s = None) (Sql_Constraint (Sql_Unique ''agent_goal_plan_steps.step_id''))) (\<lambda>_.
     res_bind (require (\<not> ordinal_taken p (agent_goal_plan_steps s)) ordinal_unique) (\<lambda>_.
     res_bind (require (step_refs p s) (Sql_Constraint Sql_ForeignKey)) (\<lambda>_.
     Inr (s\<lparr>agent_goal_plan_steps := agent_goal_plan_steps s @ [p]\<rparr>)))))"

definition step_write :: "string \<Rightarrow> string \<Rightarrow> int option \<Rightarrow> (step_row \<Rightarrow> step_row) \<Rightarrow> step_row option rop" where
  "step_write goalId stepId expectedRevision f s = (case getStep goalId stepId s of
     None \<Rightarrow> Inr (s, None)
   | Some p \<Rightarrow>
       if (case expectedRevision of None \<Rightarrow> False | Some r \<Rightarrow> ps_revision p \<noteq> r) then Inr (s, None)
       else
         let p' = (f p)\<lparr>ps_revision := ps_revision p + 1\<rparr> in
         res_bind (require (step_checks p') (Sql_Constraint Sql_Check)) (\<lambda>_.
         res_bind (require (\<not> ordinal_taken p' (agent_goal_plan_steps s)) ordinal_unique) (\<lambda>_.
         res_bind (require (step_refs p' s) (Sql_Constraint Sql_ForeignKey)) (\<lambda>_.
         Inr (s\<lparr>agent_goal_plan_steps := tbl_modify (\<lambda>q. ps_stepId q = stepId) (\<lambda>_. p') (agent_goal_plan_steps s)\<rparr>, Some p')))))"

record step_patch =
  sp_goalId :: string
  sp_stepId :: string
  sp_expectedRevision :: int
  sp_status :: step_status
  sp_note :: "string option"
  sp_sourceRunId :: "string option"
  sp_sourceAttemptId :: "string option"
  sp_startedAt :: "int option"
  sp_completedAt :: "int option"
  sp_updatedAt :: int

definition goal_updateStep :: "step_patch \<Rightarrow> step_row option rop" where
  "goal_updateStep p = step_write (sp_goalId p) (sp_stepId p) (Some (sp_expectedRevision p))
     (\<lambda>q. q\<lparr>ps_status := sp_status p, ps_note := sp_note p, ps_sourceRunId := sp_sourceRunId p,
        ps_sourceAttemptId := sp_sourceAttemptId p, ps_startedAt := sp_startedAt p, ps_completedAt := sp_completedAt p,
        ps_updatedAt := sp_updatedAt p\<rparr>)"

definition updatePlanDefinition :: "string \<Rightarrow> string \<Rightarrow> int \<Rightarrow> string \<Rightarrow> int \<Rightarrow> step_row option rop" where
  "updatePlanDefinition goalId stepId ordinal title updatedAt = step_write goalId stepId None
     (\<lambda>q. q\<lparr>ps_ordinal := ordinal, ps_title := title, ps_updatedAt := updatedAt\<rparr>)"

text \<open>\<open>UPDATE ... SET ordinal = ordinal + ? WHERE goal_id = ?\<close>: the rows are visited in the order of their row
  identifiers, which is that of the table, and SQLite checks the unique key after each of them.\<close>

definition shift_ordinal :: "int \<Rightarrow> string \<Rightarrow> step_row list \<Rightarrow> err + step_row list" where
  "shift_ordinal offset stepId rows =
     (let rows' = tbl_modify (\<lambda>q. ps_stepId q = stepId) (\<lambda>q. q\<lparr>ps_ordinal := ps_ordinal q + offset\<rparr>) rows in
      if list_ex (\<lambda>q. ps_stepId q = stepId \<and> ordinal_taken q rows') rows' then Inl ordinal_unique else Inr rows')"

definition resequencePlanDefinitions :: "string \<Rightarrow> int \<Rightarrow> db \<Rightarrow> err + db" where
  "resequencePlanDefinitions goalId offset s =
     (let visited = map ps_stepId (filter (\<lambda>q. ps_goalId q = goalId) (agent_goal_plan_steps s)) in
      res_bind (res_fold (shift_ordinal offset) visited (agent_goal_plan_steps s)) (\<lambda>rows.
      Inr (s\<lparr>agent_goal_plan_steps := rows\<rparr>)))"

section \<open>Revisions of the plan\<close>

definition listPlanRevisionSteps :: "string \<Rightarrow> int \<Rightarrow> db \<Rightarrow> revision_step_row list" where
  "listPlanRevisionSteps goalId planRevision s =
     sort_key pr_ordinal (filter (\<lambda>r. pr_goalId r = goalId \<and> pr_planRevision r = planRevision) (agent_goal_plan_revision_steps s))"

definition getPlanRevisionStep :: "string \<Rightarrow> int \<Rightarrow> string \<Rightarrow> db \<Rightarrow> revision_step_row option" where
  "getPlanRevisionStep goalId planRevision stepId s =
     tbl_get (\<lambda>r. (pr_goalId r, pr_planRevision r, pr_stepId r)) (goalId, planRevision, stepId) (agent_goal_plan_revision_steps s)"

definition insertPlanRevisionStep :: "revision_step_row \<Rightarrow> db \<Rightarrow> err + db" where
  "insertPlanRevisionStep r s =
     res_bind (require (revision_step_checks r) (Sql_Constraint Sql_Check)) (\<lambda>_.
     res_bind (require (getPlanRevisionStep (pr_goalId r) (pr_planRevision r) (pr_stepId r) s = None)
       (Sql_Constraint (Sql_Unique ''agent_goal_plan_revision_steps.goal_id, agent_goal_plan_revision_steps.plan_revision, agent_goal_plan_revision_steps.step_id''))) (\<lambda>_.
     res_bind (require (\<not> list_ex (\<lambda>x. pr_goalId x = pr_goalId r \<and> pr_planRevision x = pr_planRevision r \<and> pr_ordinal x = pr_ordinal r)
         (agent_goal_plan_revision_steps s))
       (Sql_Constraint (Sql_Unique ''agent_goal_plan_revision_steps.goal_id, agent_goal_plan_revision_steps.plan_revision, agent_goal_plan_revision_steps.ordinal''))) (\<lambda>_.
     res_bind (require (goal_get (pr_goalId r) s \<noteq> None \<and> getStepById (pr_stepId r) s \<noteq> None) (Sql_Constraint Sql_ForeignKey)) (\<lambda>_.
     Inr (s\<lparr>agent_goal_plan_revision_steps := agent_goal_plan_revision_steps s @ [r]\<rparr>)))))"

text \<open>The steps of the goal under its current revision; of a goal without a snapshot, all of them.\<close>

definition current_step :: "goal_row \<Rightarrow> db \<Rightarrow> step_row \<Rightarrow> step_row option" where
  "current_step g s p = (case getPlanRevisionStep (g_goalId g) (g_planRevision g) (ps_stepId p) s of
     Some r \<Rightarrow> Some (p\<lparr>ps_ordinal := pr_ordinal r, ps_title := pr_title r\<rparr>)
   | None \<Rightarrow> if listPlanRevisionSteps (g_goalId g) (g_planRevision g) s = [] then Some p else None)"

definition listSteps :: "string \<Rightarrow> db \<Rightarrow> step_row list" where
  "listSteps goalId s = (case goal_get goalId s of
     None \<Rightarrow> []
   | Some g \<Rightarrow> sort_key ps_ordinal (List.map_filter (current_step g s) (filter (\<lambda>p. ps_goalId p = goalId) (agent_goal_plan_steps s))))"

section \<open>Executions\<close>

definition getExecution :: "string \<Rightarrow> db \<Rightarrow> execution_row option" where
  "getExecution goalId s = tbl_get gx_goalId goalId (agent_goal_executions s)"

definition getExecutionByFlow :: "string \<Rightarrow> db \<Rightarrow> execution_row option" where
  "getExecutionByFlow flowId s = tbl_get gx_flowId flowId (agent_goal_executions s)"

definition flow_known :: "string \<Rightarrow> db \<Rightarrow> bool" where
  "flow_known flowId s \<longleftrightarrow> tbl_get f_flowId flowId (task_flows s) \<noteq> None"

definition step_ref :: "string option \<Rightarrow> db \<Rightarrow> bool" where
  "step_ref v s = (case v of None \<Rightarrow> True | Some p \<Rightarrow> getStepById p s \<noteq> None)"

definition execution_refs :: "execution_row \<Rightarrow> db \<Rightarrow> bool" where
  "execution_refs e s \<longleftrightarrow> goal_get (gx_goalId e) s \<noteq> None \<and> getConversation (gx_conversationId e) s \<noteq> None
     \<and> flow_known (gx_flowId e) s \<and> step_ref (gx_currentStepId e) s"

definition insertExecution :: "execution_row \<Rightarrow> db \<Rightarrow> err + db" where
  "insertExecution e s =
     res_bind (require (execution_checks e) (Sql_Constraint Sql_Check)) (\<lambda>_.
     res_bind (require (getExecution (gx_goalId e) s = None) (Sql_Constraint (Sql_Unique ''agent_goal_executions.goal_id''))) (\<lambda>_.
     res_bind (require (getExecutionByFlow (gx_flowId e) s = None) (Sql_Constraint (Sql_Unique ''agent_goal_executions.flow_id''))) (\<lambda>_.
     res_bind (require (execution_refs e s) (Sql_Constraint Sql_ForeignKey)) (\<lambda>_.
     Inr (s\<lparr>agent_goal_executions := agent_goal_executions s @ [e]\<rparr>)))))"

definition listActiveExecutions :: "nat \<Rightarrow> db \<Rightarrow> execution_row list" where
  "listActiveExecutions limit s = take limit (sort_key (\<lambda>e. (gx_updatedAt e, gx_goalId e))
     (filter (\<lambda>e. gx_status e \<in> {E_QUEUED, E_RUNNING, E_WAITING, E_BLOCKED}) (agent_goal_executions s)))"

definition execution_write :: "string \<Rightarrow> int \<Rightarrow> (execution_row \<Rightarrow> execution_row) \<Rightarrow> execution_row option rop" where
  "execution_write goalId expectedRevision f s = (case getExecution goalId s of
     None \<Rightarrow> Inr (s, None)
   | Some e \<Rightarrow>
       if gx_revision e \<noteq> expectedRevision then Inr (s, None)
       else
         let e' = (f e)\<lparr>gx_revision := gx_revision e + 1\<rparr> in
         res_bind (require (execution_checks e') (Sql_Constraint Sql_Check)) (\<lambda>_.
         res_bind (require (execution_refs e' s) (Sql_Constraint Sql_ForeignKey)) (\<lambda>_.
         Inr (s\<lparr>agent_goal_executions := tbl_modify (\<lambda>x. gx_goalId x = goalId) (\<lambda>_. e') (agent_goal_executions s)\<rparr>, Some e'))))"

definition updateExecution :: "string \<Rightarrow> int \<Rightarrow> execution_status \<Rightarrow> string option \<Rightarrow> int \<Rightarrow> int option \<Rightarrow> execution_row option rop" where
  "updateExecution goalId expectedRevision status currentStepId updatedAt endedAt = execution_write goalId expectedRevision
     (\<lambda>e. e\<lparr>gx_status := status, gx_currentStepId := currentStepId, gx_updatedAt := updatedAt, gx_endedAt := endedAt\<rparr>)"

definition updateExecutionPlanRevision ::
    "string \<Rightarrow> int \<Rightarrow> int \<Rightarrow> execution_status \<Rightarrow> string option \<Rightarrow> int \<Rightarrow> int option \<Rightarrow> execution_row option rop" where
  "updateExecutionPlanRevision goalId expectedRevision planRevision status currentStepId updatedAt endedAt =
     execution_write goalId expectedRevision
       (\<lambda>e. e\<lparr>gx_planRevision := planRevision, gx_status := status, gx_currentStepId := currentStepId,
          gx_updatedAt := updatedAt, gx_endedAt := endedAt\<rparr>)"

section \<open>Executions of a step\<close>

definition step_execution_key :: "step_execution_row \<Rightarrow> string \<times> string \<times> int" where
  "step_execution_key x = (sx_goalId x, sx_stepId x, sx_planRevision x)"

definition getStepExecution :: "string \<Rightarrow> string \<Rightarrow> int \<Rightarrow> db \<Rightarrow> step_execution_row option" where
  "getStepExecution goalId stepId planRevision s =
     tbl_get step_execution_key (goalId, stepId, planRevision) (agent_goal_step_executions s)"

definition listStepExecutions :: "string \<Rightarrow> int \<Rightarrow> db \<Rightarrow> step_execution_row list" where
  "listStepExecutions goalId planRevision s =
     sort_key sx_ordinal (filter (\<lambda>x. sx_goalId x = goalId \<and> sx_planRevision x = planRevision) (agent_goal_step_executions s))"

definition getStepExecutionByTask :: "string \<Rightarrow> db \<Rightarrow> step_execution_row option" where
  "getStepExecutionByTask taskId s = tbl_get sx_currentTaskId (Some taskId) (agent_goal_step_executions s)"

definition task_taken :: "step_execution_row \<Rightarrow> db \<Rightarrow> bool" where
  "task_taken x s \<longleftrightarrow> sx_currentTaskId x \<noteq> None
     \<and> list_ex (\<lambda>y. step_execution_key y \<noteq> step_execution_key x \<and> sx_currentTaskId y = sx_currentTaskId x) (agent_goal_step_executions s)"

definition other_active :: "step_execution_row \<Rightarrow> db \<Rightarrow> bool" where
  "other_active x s \<longleftrightarrow> step_active (sx_status x)
     \<and> list_ex (\<lambda>y. step_execution_key y \<noteq> step_execution_key x \<and> sx_goalId y = sx_goalId x \<and> sx_planRevision y = sx_planRevision x
         \<and> step_active (sx_status y)) (agent_goal_step_executions s)"

definition step_execution_refs :: "step_execution_row \<Rightarrow> db \<Rightarrow> bool" where
  "step_execution_refs x s \<longleftrightarrow> getExecution (sx_goalId x) s \<noteq> None \<and> getStepById (sx_stepId x) s \<noteq> None \<and> task_ref (sx_currentTaskId x) s"

text \<open>The constraints of a row that is inserted or has been changed.\<close>

definition step_execution_ok :: "step_execution_row \<Rightarrow> db \<Rightarrow> err + unit" where
  "step_execution_ok x s =
     res_bind (require (step_execution_checks x) (Sql_Constraint Sql_Check)) (\<lambda>_.
     res_bind (require (\<not> task_taken x s) (Sql_Constraint (Sql_Unique ''agent_goal_step_executions.current_task_id''))) (\<lambda>_.
     res_bind (require (\<not> other_active x s)
       (Sql_Constraint (Sql_Unique ''agent_goal_step_executions.goal_id, agent_goal_step_executions.plan_revision''))) (\<lambda>_.
     require (step_execution_refs x s) (Sql_Constraint Sql_ForeignKey))))"

definition insertStepExecution :: "step_execution_row \<Rightarrow> db \<Rightarrow> err + db" where
  "insertStepExecution x s =
     res_bind (require (getStepExecution (sx_goalId x) (sx_stepId x) (sx_planRevision x) s = None)
       (Sql_Constraint (Sql_Unique ''agent_goal_step_executions.goal_id, agent_goal_step_executions.step_id, agent_goal_step_executions.plan_revision''))) (\<lambda>_.
     res_bind (step_execution_ok x s) (\<lambda>_.
     Inr (s\<lparr>agent_goal_step_executions := agent_goal_step_executions s @ [x]\<rparr>)))"

text \<open>\<open>updateStepExecution\<close>: \<open>x\<close> is the row as it is to be, with the revision it must still have.\<close>

definition updateStepExecution :: "step_execution_row \<Rightarrow> step_execution_row option rop" where
  "updateStepExecution x s = (case getStepExecution (sx_goalId x) (sx_stepId x) (sx_planRevision x) s of
     None \<Rightarrow> Inr (s, None)
   | Some y \<Rightarrow>
       if sx_revision y \<noteq> sx_revision x then Inr (s, None)
       else
         let x' = x\<lparr>sx_ordinal := sx_ordinal y, sx_revision := sx_revision y + 1\<rparr> in
         res_bind (step_execution_ok x' s) (\<lambda>_.
         Inr (s\<lparr>agent_goal_step_executions := tbl_modify (\<lambda>z. step_execution_key z = step_execution_key x) (\<lambda>_. x')
           (agent_goal_step_executions s)\<rparr>, Some x')))"

section \<open>Blockers\<close>

definition getBlocker :: "string \<Rightarrow> db \<Rightarrow> blocker_row option" where
  "getBlocker blockerId s = tbl_get bk_blockerId blockerId (agent_goal_step_blockers s)"

definition getBlockerByFingerprint :: "string \<Rightarrow> string \<Rightarrow> int \<Rightarrow> string \<Rightarrow> db \<Rightarrow> blocker_row option" where
  "getBlockerByFingerprint goalId stepId planRevision fingerprint s =
     tbl_get (\<lambda>b. (bk_goalId b, bk_stepId b, bk_planRevision b, bk_fingerprint b)) (goalId, stepId, planRevision, fingerprint)
       (agent_goal_step_blockers s)"

definition first_of :: "'a list \<Rightarrow> 'a option" where
  "first_of xs = (case xs of [] \<Rightarrow> None | x # _ \<Rightarrow> Some x)"

definition getOpenBlocker :: "string \<Rightarrow> string \<Rightarrow> int \<Rightarrow> db \<Rightarrow> blocker_row option" where
  "getOpenBlocker goalId stepId planRevision s = first_of (sort_key (\<lambda>b. - bk_updatedAt b)
     (filter (\<lambda>b. bk_goalId b = goalId \<and> bk_stepId b = stepId \<and> bk_planRevision b = planRevision \<and> bk_status b = B_OPEN)
       (agent_goal_step_blockers s)))"

definition getAnyOpenBlocker :: "string \<Rightarrow> int \<Rightarrow> db \<Rightarrow> blocker_row option" where
  "getAnyOpenBlocker goalId planRevision s = first_of (sort_key (\<lambda>b. (bk_createdAt b, bk_blockerId b))
     (filter (\<lambda>b. bk_goalId b = goalId \<and> bk_planRevision b = planRevision \<and> bk_status b = B_OPEN) (agent_goal_step_blockers s)))"

definition listBlockers :: "string \<Rightarrow> int \<Rightarrow> nat \<Rightarrow> db \<Rightarrow> blocker_row list" where
  "listBlockers goalId planRevision limit s = take limit (sort_key (\<lambda>b. (bk_createdAt b, bk_blockerId b))
     (filter (\<lambda>b. bk_goalId b = goalId \<and> bk_planRevision b = planRevision) (agent_goal_step_blockers s)))"

definition insertBlocker :: "blocker_row \<Rightarrow> db \<Rightarrow> err + db" where
  "insertBlocker b s =
     res_bind (require (json_stringify (bk_evidence b) \<noteq> None) Js_Error) (\<lambda>_.
     res_bind (require (blocker_checks b) (Sql_Constraint Sql_Check)) (\<lambda>_.
     res_bind (require (getBlocker (bk_blockerId b) s = None) (Sql_Constraint (Sql_Unique ''agent_goal_step_blockers.blocker_id''))) (\<lambda>_.
     res_bind (require (getBlockerByFingerprint (bk_goalId b) (bk_stepId b) (bk_planRevision b) (bk_fingerprint b) s = None)
       (Sql_Constraint (Sql_Unique ''agent_goal_step_blockers.fingerprint''))) (\<lambda>_.
     res_bind (require (getStepExecution (bk_goalId b) (bk_stepId b) (bk_planRevision b) s \<noteq> None \<and> task_ref (bk_taskId b) s)
       (Sql_Constraint Sql_ForeignKey)) (\<lambda>_.
     Inr (s\<lparr>agent_goal_step_blockers := agent_goal_step_blockers s @ [b\<lparr>bk_evidence := json_clean (bk_evidence b)\<rparr>]\<rparr>))))))"

definition blocker_write :: "string \<Rightarrow> (blocker_row \<Rightarrow> bool) \<Rightarrow> (blocker_row \<Rightarrow> blocker_row) \<Rightarrow> blocker_row option rop" where
  "blocker_write blockerId p f s = (case getBlocker blockerId s of
     None \<Rightarrow> Inr (s, None)
   | Some b \<Rightarrow>
       if \<not> p b then Inr (s, None)
       else
         let b' = (f b)\<lparr>bk_revision := bk_revision b + 1\<rparr> in
         res_bind (require (blocker_checks b') (Sql_Constraint Sql_Check)) (\<lambda>_.
         res_bind (require (task_ref (bk_taskId b') s) (Sql_Constraint Sql_ForeignKey)) (\<lambda>_.
         Inr (s\<lparr>agent_goal_step_blockers := tbl_modify (\<lambda>x. bk_blockerId x = blockerId) (\<lambda>_. b') (agent_goal_step_blockers s)\<rparr>, Some b'))))"

definition incrementBlocker :: "string \<Rightarrow> int \<Rightarrow> string option \<Rightarrow> string \<Rightarrow> json \<Rightarrow> int \<Rightarrow> blocker_row option rop" where
  "incrementBlocker blockerId expectedRevision taskId summary evidence updatedAt =
     rop_bind (rop_require (json_stringify evidence \<noteq> None) Js_Error) (\<lambda>_.
     blocker_write blockerId (\<lambda>b. bk_revision b = expectedRevision)
       (\<lambda>b. b\<lparr>bk_taskId := taskId, bk_summary := summary, bk_evidence := json_clean evidence, bk_status := B_OPEN,
          bk_occurrenceCount := bk_occurrenceCount b + 1, bk_updatedAt := updatedAt, bk_resolvedAt := None,
          bk_resolvedBy := None, bk_resolution := None\<rparr>))"

definition goal_resolveBlocker :: "string \<Rightarrow> int \<Rightarrow> string \<Rightarrow> string \<Rightarrow> int \<Rightarrow> blocker_row option rop" where
  "goal_resolveBlocker blockerId expectedRevision resolvedBy resolution updatedAt =
     blocker_write blockerId (\<lambda>b. bk_revision b = expectedRevision \<and> bk_status b = B_OPEN)
       (\<lambda>b. b\<lparr>bk_status := B_RESOLVED, bk_resolvedAt := Some updatedAt, bk_resolvedBy := Some resolvedBy,
          bk_resolution := Some resolution, bk_updatedAt := updatedAt\<rparr>)"

section \<open>Events\<close>

definition goal_nextEventSequence :: "string \<Rightarrow> db \<Rightarrow> int" where
  "goal_nextEventSequence goalId s = next_sequence (\<lambda>e. ge_goalId e = goalId) ge_sequence (agent_goal_events s)"

definition goal_appendEvent :: "goal_event_row \<Rightarrow> db \<Rightarrow> err + db" where
  "goal_appendEvent e s =
     res_bind (require (json_stringify (ge_payload e) \<noteq> None) Js_Error) (\<lambda>_.
     res_bind (require (0 < ge_sequence e) (Sql_Constraint Sql_Check)) (\<lambda>_.
     res_bind (require (tbl_get (\<lambda>x. (ge_goalId x, ge_sequence x)) (ge_goalId e, ge_sequence e) (agent_goal_events s) = None)
       (Sql_Constraint (Sql_Unique ''agent_goal_events.goal_id, agent_goal_events.sequence''))) (\<lambda>_.
     res_bind (require (goal_get (ge_goalId e) s \<noteq> None \<and> run_ref (ge_sourceRunId e) s \<and> attempt_ref (ge_sourceAttemptId e) s)
       (Sql_Constraint Sql_ForeignKey)) (\<lambda>_.
     Inr (s\<lparr>agent_goal_events := agent_goal_events s @ [e\<lparr>ge_payload := json_clean (ge_payload e)\<rparr>]\<rparr>)))))"

definition goal_listEvents :: "string \<Rightarrow> nat \<Rightarrow> db \<Rightarrow> goal_event_row list" where
  "goal_listEvents goalId limit s =
     rev (take limit (rev (sort_key ge_sequence (filter (\<lambda>e. ge_goalId e = goalId) (agent_goal_events s)))))"

end
