(* ===== verification/Goal_Service.thy ===== *)
theory Goal_Service
  imports Goal_Ledger
begin

text \<open>
  \<open>packages/goals/src/service.ts\<close>: one open goal per conversation with an ordered plan. Parameters: \<open>fold\<close>, which
  is \<open>normalize("NFKC").toLocaleLowerCase("en-US")\<close>, the hash \<open>sha256\<close>, the clock and the identifiers
  (\<open>ids 0\<close> the first that is created). \<open>toGoal\<close> and \<open>toStep\<close> rename fields; their result is the row of the goal
  with the rows of its steps.
\<close>

section \<open>Arguments\<close>

record goal_service =
  gs_fold :: "string \<Rightarrow> string"
  gs_sha256 :: "string \<Rightarrow> string"

text \<open>\<open>value.replace(/\r\n?/gu, "\n")\<close>.\<close>

fun unix_lines :: "string \<Rightarrow> string" where
  "unix_lines [] = []"
| "unix_lines (c # cs) =
     (if c = CHR 0x0D then CHR 0x0A # (case cs of [] \<Rightarrow> [] | d # ds \<Rightarrow> if d = CHR 0x0A then unix_lines ds else unix_lines cs)
      else c # unix_lines cs)"

definition goal_bounded :: "string \<Rightarrow> nat \<Rightarrow> err + string" where
  "goal_bounded v limit =
     (let normalized = js_trim (unix_lines v) in
      if normalized = [] \<or> length normalized > limit then Inl (Goal_Error GOAL_INPUT_INVALID) else Inr normalized)"

text \<open>\<open>input.note ? bounded(...) : null\<close>.\<close>

definition optional_note :: "string option \<Rightarrow> err + string option" where
  "optional_note v = (case truthy v of None \<Rightarrow> Inr None | Some n \<Rightarrow> res_bind (goal_bounded n 2000) (\<lambda>x. Inr (Some x)))"

definition goal_fingerprint :: "goal_service \<Rightarrow> string \<Rightarrow> string" where
  "goal_fingerprint gs v = gs_sha256 gs (gs_fold gs v)"

definition GOAL_TRANSITIONS :: "goal_status \<Rightarrow> goal_status set" where
  "GOAL_TRANSITIONS st = (case st of
     G_ACTIVE \<Rightarrow> {G_PAUSED, G_BLOCKED, G_COMPLETED, G_CANCELLED}
   | G_PAUSED \<Rightarrow> {G_ACTIVE, G_CANCELLED}
   | G_BLOCKED \<Rightarrow> {G_ACTIVE, G_CANCELLED}
   | _ \<Rightarrow> {})"

definition STEP_TRANSITIONS :: "step_status \<Rightarrow> step_status set" where
  "STEP_TRANSITIONS st = (case st of
     S_PENDING \<Rightarrow> {S_IN_PROGRESS, S_COMPLETED, S_CANCELLED}
   | S_IN_PROGRESS \<Rightarrow> {S_BLOCKED, S_COMPLETED, S_CANCELLED}
   | S_BLOCKED \<Rightarrow> {S_IN_PROGRESS, S_CANCELLED}
   | _ \<Rightarrow> {})"

record goal_record =
  gr_row :: goal_row
  gr_steps :: "step_row list"

definition toGoal :: "goal_row \<Rightarrow> step_row list \<Rightarrow> goal_record" where
  "toGoal g steps = \<lparr>gr_row = g, gr_steps = steps\<rparr>"

text \<open>Who asks, and on behalf of which run.\<close>

record goal_caller =
  gc_workspaceId :: string
  gc_conversationId :: string
  gc_sourceRunId :: "string option"
  gc_sourceAttemptId :: "string option"

definition provenance_invalid :: err where
  "provenance_invalid = Goal_Error GOAL_PROVENANCE_INVALID"

definition provenance :: "goal_caller \<Rightarrow> unit rop" where
  "provenance c =
     rop_bind (rop_found provenance_invalid (getConversation (gc_conversationId c))) (\<lambda>conversation.
     rop_bind (rop_require (c_workspaceId conversation = gc_workspaceId c) provenance_invalid) (\<lambda>_.
     rop_bind (case truthy (gc_sourceRunId c) of
         None \<Rightarrow> rop_return ()
       | Some r \<Rightarrow> rop_bind (rop_found provenance_invalid (getRun r)) (\<lambda>run.
           rop_require (r_conversationId run = gc_conversationId c) provenance_invalid)) (\<lambda>_.
     (case truthy (gc_sourceAttemptId c) of
         None \<Rightarrow> rop_return ()
       | Some a \<Rightarrow> rop_bind (rop_found provenance_invalid (getAttempt a)) (\<lambda>attempt.
           rop_require (Some (a_runId attempt) = gc_sourceRunId c) provenance_invalid)))))"

definition assertExecutionNotActive :: "string \<Rightarrow> unit rop" where
  "assertExecutionNotActive goalId =
     rop_bind (rop_read (getExecution goalId)) (\<lambda>execution. rop_require (execution = None) (Goal_Error GOAL_EXECUTION_ACTIVE))"

definition snapshotPlan :: "string \<Rightarrow> int \<Rightarrow> step_row list \<Rightarrow> int \<Rightarrow> unit list rop" where
  "snapshotPlan goalId planRevision steps createdAt = rop_each (\<lambda>p. rop_do (insertPlanRevisionStep
     \<lparr>pr_goalId = goalId, pr_planRevision = planRevision, pr_stepId = ps_stepId p, pr_ordinal = ps_ordinal p,
       pr_title = ps_title p, pr_required = True, pr_retryMode = RETRY_MANUAL, pr_maxAttempts = 3, pr_createdAt = createdAt\<rparr>)) steps"

definition goal_event :: "string \<Rightarrow> string \<Rightarrow> json \<Rightarrow> string option \<Rightarrow> string option \<Rightarrow> int \<Rightarrow> unit rop" where
  "goal_event goalId eventType payload sourceRunId sourceAttemptId emittedAt =
     rop_bind (rop_read (goal_nextEventSequence goalId)) (\<lambda>sequence.
     rop_do (goal_appendEvent \<lparr>ge_goalId = goalId, ge_sequence = sequence, ge_eventType = eventType, ge_payload = payload,
       ge_sourceRunId = sourceRunId, ge_sourceAttemptId = sourceAttemptId, ge_emittedAt = emittedAt\<rparr>))"

section \<open>Rendering\<close>

definition step_status_name :: "step_status \<Rightarrow> string" where
  "step_status_name st = (case st of S_PENDING \<Rightarrow> ''PENDING'' | S_IN_PROGRESS \<Rightarrow> ''IN_PROGRESS'' | S_BLOCKED \<Rightarrow> ''BLOCKED''
     | S_COMPLETED \<Rightarrow> ''COMPLETED'' | S_CANCELLED \<Rightarrow> ''CANCELLED'')"

definition nl :: string where
  "nl = [CHR 0x0A]"

definition renderContext :: "goal_row \<Rightarrow> step_row list \<Rightarrow> string" where
  "renderContext g steps =
     (let compact = js_join nl (map (\<lambda>p. show_int (ps_ordinal p) @ ''. ['' @ step_status_name (ps_status p) @ ''] '' @ ps_title p) (take 20 steps)) in
      nl @ nl @ ''## Active Goal Context'' @ nl @ ''Goal ID: '' @ g_goalId g @ nl @ ''Goal revision: '' @ show_int (g_revision g) @ nl
      @ ''Objective: '' @ g_objective g @ nl @ ''Continuation turn: '' @ show_int (g_continuationCount g) @ nl
      @ ''Plan revision: '' @ show_int (g_planRevision g) @ nl
      @ (if compact \<noteq> [] then ''Plan:'' @ nl @ compact @ nl else ''Plan: not set'' @ nl)
      @ ''Advance the first unfinished step. Do not claim completion without durable step evidence.'')"

section \<open>Creating a goal\<close>

text \<open>The titles of a plan, each bounded, and different from each other up to case.\<close>

definition plan_titles :: "goal_service \<Rightarrow> nat \<Rightarrow> string list \<Rightarrow> err + string list" where
  "plan_titles gs least steps =
     res_bind (res_map (\<lambda>t. goal_bounded t 1000) steps) (\<lambda>titles.
     res_bind (require (least \<le> length titles \<and> length titles \<le> 20) (Goal_Error GOAL_PLAN_INVALID)) (\<lambda>_.
     res_bind (require (distinct (map (gs_fold gs) titles)) (Goal_Error GOAL_PLAN_INVALID)) (\<lambda>_. Inr titles)))"

definition new_steps :: "(nat \<Rightarrow> string) \<Rightarrow> string \<Rightarrow> goal_caller \<Rightarrow> int \<Rightarrow> string list \<Rightarrow> step_row list" where
  "new_steps ids goalId c now titles = map (\<lambda>(i, title). \<lparr>ps_stepId = ids i, ps_goalId = goalId, ps_ordinal = int i + 1,
     ps_title = title, ps_status = S_PENDING, ps_note = None, ps_sourceRunId = gc_sourceRunId c,
     ps_sourceAttemptId = gc_sourceAttemptId c, ps_startedAt = None, ps_completedAt = None, ps_updatedAt = now, ps_revision = 1\<rparr>)
     (zip [0..<length titles] titles)"

definition new_goal :: "string \<Rightarrow> goal_caller \<Rightarrow> string \<Rightarrow> int \<Rightarrow> goal_row" where
  "new_goal goalId c objective now = \<lparr>g_goalId = goalId, g_workspaceId = gc_workspaceId c, g_conversationId = gc_conversationId c,
     g_objective = objective, g_status = G_ACTIVE, g_lastNote = None, g_blockerFingerprint = None, g_consecutiveBlockerCount = 0,
     g_continuationCount = 0, g_planRevision = 1, g_sourceRunId = gc_sourceRunId c, g_sourceAttemptId = gc_sourceAttemptId c,
     g_createdAt = now, g_updatedAt = now, g_terminalAt = None, g_revision = 1\<rparr>"

definition goal_create :: "goal_service \<Rightarrow> (nat \<Rightarrow> string) \<Rightarrow> int \<Rightarrow> goal_caller \<Rightarrow> string \<Rightarrow> string list option \<Rightarrow> goal_record svc" where
  "goal_create gs ids now c objective steps =
     svc_bind (svc_of (goal_bounded objective 4000)) (\<lambda>normalized.
     svc_bind (svc_of (plan_titles gs 0 (or_default steps []))) (\<lambda>titles.
     transaction (
       rop_bind (provenance c) (\<lambda>_.
       rop_bind (rop_read (getOpen (gc_conversationId c))) (\<lambda>opened.
       rop_bind (rop_require (opened = None) (Goal_Error GOAL_ALREADY_OPEN)) (\<lambda>_.
       let row = new_goal (ids 0) c normalized now; rows = new_steps (\<lambda>i. ids (i + 1)) (ids 0) c now titles in
       rop_bind (rop_do (insertGoal row)) (\<lambda>_.
       rop_bind (rop_each (\<lambda>p. rop_do (insertStep p)) rows) (\<lambda>_.
       rop_bind (snapshotPlan (ids 0) 1 rows now) (\<lambda>_.
       rop_bind (goal_event (ids 0) ''goal.created'' (JObj [(''objective'', JStr normalized), (''planSteps'', JNum (int (length rows)))])
         (gc_sourceRunId c) (gc_sourceAttemptId c) now) (\<lambda>_.
       rop_return (toGoal row rows)))))))))))"

record goal_view =
  gw_goal :: goal_record
  gw_recentEvents :: "goal_event_row list"

definition goal_current :: "string \<Rightarrow> string \<Rightarrow> goal_view option svc" where
  "goal_current workspaceId conversationId = transaction (
     rop_bind (provenance \<lparr>gc_workspaceId = workspaceId, gc_conversationId = conversationId, gc_sourceRunId = None, gc_sourceAttemptId = None\<rparr>) (\<lambda>_.
     rop_bind (rop_read (\<lambda>s. case getOpen conversationId s of Some g \<Rightarrow> Some g | None \<Rightarrow> getLatest conversationId s)) (\<lambda>found.
     (case found of
        None \<Rightarrow> rop_return None
      | Some g \<Rightarrow>
          if g_workspaceId g \<noteq> workspaceId then rop_return None
          else rop_read (\<lambda>s. Some \<lparr>gw_goal = toGoal g (listSteps (g_goalId g) s), gw_recentEvents = goal_listEvents (g_goalId g) 20 s\<rparr>)))))"

section \<open>Changing a goal\<close>

text \<open>The goal of the caller, which no execution owns.\<close>

definition owned_goal :: "goal_caller \<Rightarrow> string \<Rightarrow> goal_row rop" where
  "owned_goal c goalId =
     rop_bind (provenance c) (\<lambda>_.
     rop_bind (rop_found (Goal_Error GOAL_NOT_FOUND) (goal_get goalId)) (\<lambda>g.
     rop_bind (rop_require (g_workspaceId g = gc_workspaceId c \<and> g_conversationId g = gc_conversationId c) (Goal_Error GOAL_NOT_FOUND)) (\<lambda>_.
     rop_bind (assertExecutionNotActive goalId) (\<lambda>_.
     rop_return g))))"

definition goal_revision_conflict :: err where
  "goal_revision_conflict = Goal_Error GOAL_REVISION_CONFLICT"

definition active_goal :: "goal_caller \<Rightarrow> string \<Rightarrow> int \<Rightarrow> goal_row rop" where
  "active_goal c goalId expectedRevision =
     rop_bind (owned_goal c goalId) (\<lambda>g.
     rop_bind (rop_require (g_status g = G_ACTIVE \<and> g_revision g = expectedRevision) goal_revision_conflict) (\<lambda>_.
     rop_return g))"

text \<open>A patch that keeps everything but the caller and the time.\<close>

definition goal_keep :: "goal_row \<Rightarrow> goal_caller \<Rightarrow> int \<Rightarrow> goal_patch" where
  "goal_keep g c now = \<lparr>gp_goalId = g_goalId g, gp_expectedRevision = g_revision g, gp_status = g_status g,
     gp_lastNote = g_lastNote g, gp_blockerFingerprint = g_blockerFingerprint g,
     gp_consecutiveBlockerCount = g_consecutiveBlockerCount g, gp_continuationCount = g_continuationCount g,
     gp_planRevision = g_planRevision g, gp_sourceRunId = gc_sourceRunId c, gp_sourceAttemptId = gc_sourceAttemptId c,
     gp_updatedAt = now, gp_terminalAt = None\<rparr>"

definition changed :: "err \<Rightarrow> 'a option rop \<Rightarrow> 'a rop" where
  "changed e m = rop_bind m (\<lambda>r. case r of None \<Rightarrow> rop_throw e | Some x \<Rightarrow> rop_return x)"

definition setPlan :: "goal_service \<Rightarrow> (nat \<Rightarrow> string) \<Rightarrow> int \<Rightarrow> goal_caller \<Rightarrow> string \<Rightarrow> int \<Rightarrow> string list \<Rightarrow> goal_record svc" where
  "setPlan gs ids now c goalId expectedRevision steps =
     svc_bind (svc_of (plan_titles gs 1 steps)) (\<lambda>titles.
     transaction (
       rop_bind (active_goal c goalId expectedRevision) (\<lambda>g.
       rop_bind (rop_read (listSteps goalId)) (\<lambda>existing.
       rop_bind (rop_require (existing = []) (Goal_Error GOAL_PLAN_INVALID)) (\<lambda>_.
       let rows = new_steps ids goalId c now titles in
       rop_bind (rop_each (\<lambda>p. rop_do (insertStep p)) rows) (\<lambda>_.
       rop_bind (changed goal_revision_conflict (updateGoal ((goal_keep g c now)\<lparr>gp_planRevision := g_planRevision g + 1\<rparr>))) (\<lambda>updated.
       rop_bind (snapshotPlan goalId (g_planRevision updated) rows now) (\<lambda>_.
       rop_bind (goal_event goalId ''plan.created'' (JObj [(''steps'', JNum (int (length rows))), (''planRevision'', JNum (g_planRevision updated))])
         (gc_sourceRunId c) (gc_sourceAttemptId c) now) (\<lambda>_.
       rop_return (toGoal updated rows))))))))))"

definition advances :: "step_status \<Rightarrow> bool" where
  "advances st \<longleftrightarrow> st = S_IN_PROGRESS \<or> st = S_COMPLETED"

definition earlier_open :: "step_row \<Rightarrow> step_row list \<Rightarrow> bool" where
  "earlier_open target steps \<longleftrightarrow>
     list_ex (\<lambda>p. ps_ordinal p < ps_ordinal target \<and> ps_status p \<noteq> S_COMPLETED \<and> ps_status p \<noteq> S_CANCELLED) steps"

definition updated_step :: "step_row \<Rightarrow> goal_caller \<Rightarrow> step_status \<Rightarrow> string option \<Rightarrow> int \<Rightarrow> step_patch" where
  "updated_step target c status note now = \<lparr>sp_goalId = ps_goalId target, sp_stepId = ps_stepId target,
     sp_expectedRevision = ps_revision target, sp_status = status, sp_note = note, sp_sourceRunId = gc_sourceRunId c,
     sp_sourceAttemptId = gc_sourceAttemptId c,
     sp_startedAt = (case ps_startedAt target of Some t \<Rightarrow> Some t | None \<Rightarrow> if advances status then Some now else None),
     sp_completedAt = (if status = S_COMPLETED then Some now else ps_completedAt target), sp_updatedAt = now\<rparr>"

definition service_updateStep ::
    "int \<Rightarrow> goal_caller \<Rightarrow> string \<Rightarrow> string \<Rightarrow> int \<Rightarrow> int \<Rightarrow> step_status \<Rightarrow> string option \<Rightarrow> goal_record svc" where
  "service_updateStep now c goalId stepId expectedGoalRevision expectedStepRevision status note =
     svc_bind (svc_of (optional_note note)) (\<lambda>bounded_note.
     transaction (
       rop_bind (active_goal c goalId expectedGoalRevision) (\<lambda>g.
       rop_bind (rop_read (listSteps goalId)) (\<lambda>steps.
       rop_bind (rop_found (Goal_Error GOAL_PLAN_INVALID) (\<lambda>_. find (\<lambda>p. ps_stepId p = stepId) steps)) (\<lambda>target.
       rop_bind (rop_require (ps_revision target = expectedStepRevision) goal_revision_conflict) (\<lambda>_.
       rop_bind (rop_require (status \<in> STEP_TRANSITIONS (ps_status target)) (Goal_Error GOAL_TRANSITION_INVALID)) (\<lambda>_.
       rop_bind (rop_require (\<not> (advances status \<and> earlier_open target steps)) (Goal_Error GOAL_PLAN_INVALID)) (\<lambda>_.
       rop_bind (changed goal_revision_conflict (goal_updateStep (updated_step target c status bounded_note now))) (\<lambda>_.
       rop_bind (changed goal_revision_conflict (updateGoal ((goal_keep g c now)\<lparr>
           gp_lastNote := (case bounded_note of None \<Rightarrow> g_lastNote g | Some n \<Rightarrow> Some n), gp_blockerFingerprint := None,
           gp_consecutiveBlockerCount := 0, gp_planRevision := g_planRevision g + 1\<rparr>))) (\<lambda>updated.
       rop_bind (rop_read (listSteps goalId)) (\<lambda>revised.
       rop_bind (snapshotPlan goalId (g_planRevision updated) revised now) (\<lambda>_.
       rop_bind (goal_event goalId ''plan.step.updated'' (JObj [(''stepId'', JStr stepId), (''from'', JStr (step_status_name (ps_status target))),
           (''to'', JStr (step_status_name status)), (''note'', jopt_str bounded_note), (''planRevision'', JNum (g_planRevision updated))])
         (gc_sourceRunId c) (gc_sourceAttemptId c) now) (\<lambda>_.
       rop_return (toGoal updated revised))))))))))))))"

definition reportBlocker :: "goal_service \<Rightarrow> int \<Rightarrow> goal_caller \<Rightarrow> string \<Rightarrow> int \<Rightarrow> string \<Rightarrow> goal_record svc" where
  "reportBlocker gs now c goalId expectedRevision note =
     svc_bind (svc_of (goal_bounded note 2000)) (\<lambda>bounded_note.
     let fingerprint = goal_fingerprint gs bounded_note in
     transaction (
       rop_bind (active_goal c goalId expectedRevision) (\<lambda>g.
       let count = (if g_blockerFingerprint g = Some fingerprint then g_consecutiveBlockerCount g + 1 else 1);
           status = (if count \<ge> 3 then G_BLOCKED else G_ACTIVE) in
       rop_bind (changed goal_revision_conflict (updateGoal ((goal_keep g c now)\<lparr>gp_status := status, gp_lastNote := Some bounded_note,
           gp_blockerFingerprint := Some fingerprint, gp_consecutiveBlockerCount := count\<rparr>))) (\<lambda>updated.
       rop_bind (goal_event goalId (if status = G_BLOCKED then ''goal.blocked'' else ''goal.blocker.observed'')
         (JObj [(''note'', JStr bounded_note), (''consecutiveCount'', JNum count)]) (gc_sourceRunId c) (gc_sourceAttemptId c) now) (\<lambda>_.
       rop_bind (rop_read (listSteps goalId)) (\<lambda>steps.
       rop_return (toGoal updated steps)))))))"

datatype goal_action = PAUSE | RESUME | CANCEL

definition action_status :: "goal_action \<Rightarrow> goal_status" where
  "action_status a = (case a of PAUSE \<Rightarrow> G_PAUSED | RESUME \<Rightarrow> G_ACTIVE | CANCEL \<Rightarrow> G_CANCELLED)"

definition action_event :: "goal_action \<Rightarrow> string" where
  "action_event a = (case a of PAUSE \<Rightarrow> ''goal.pause'' | RESUME \<Rightarrow> ''goal.resume'' | CANCEL \<Rightarrow> ''goal.cancel'')"

definition goal_control :: "int \<Rightarrow> goal_caller \<Rightarrow> string \<Rightarrow> int \<Rightarrow> goal_action \<Rightarrow> string option \<Rightarrow> goal_record svc" where
  "goal_control now c goalId expectedRevision action note =
     svc_bind (svc_of (optional_note note)) (\<lambda>bounded_note.
     transaction (
       rop_bind (owned_goal c goalId) (\<lambda>g.
       rop_bind (rop_require (g_revision g = expectedRevision) goal_revision_conflict) (\<lambda>_.
       let status = action_status action in
       rop_bind (rop_require (status \<in> GOAL_TRANSITIONS (g_status g)) (Goal_Error GOAL_TRANSITION_INVALID)) (\<lambda>_.
       rop_bind (changed goal_revision_conflict (updateGoal ((goal_keep g c now)\<lparr>gp_status := status,
           gp_lastNote := (case bounded_note of None \<Rightarrow> g_lastNote g | Some n \<Rightarrow> Some n),
           gp_blockerFingerprint := (if status = G_ACTIVE then None else g_blockerFingerprint g),
           gp_consecutiveBlockerCount := (if status = G_ACTIVE then 0 else g_consecutiveBlockerCount g),
           gp_terminalAt := (if status = G_CANCELLED then Some now else None)\<rparr>))) (\<lambda>updated.
       rop_bind (goal_event goalId (action_event action) (JObj [(''note'', jopt_str bounded_note)]) (gc_sourceRunId c) (gc_sourceAttemptId c) now) (\<lambda>_.
       rop_bind (rop_read (listSteps goalId)) (\<lambda>steps.
       rop_return (toGoal updated steps)))))))))"

definition goal_complete :: "int \<Rightarrow> goal_caller \<Rightarrow> string \<Rightarrow> int \<Rightarrow> string option \<Rightarrow> goal_record svc" where
  "goal_complete now c goalId expectedRevision note =
     svc_bind (svc_of (optional_note note)) (\<lambda>bounded_note.
     transaction (
       rop_bind (active_goal c goalId expectedRevision) (\<lambda>g.
       rop_bind (rop_read (listSteps goalId)) (\<lambda>steps.
       rop_bind (rop_require (list_all (\<lambda>p. ps_status p = S_COMPLETED) steps) (Goal_Error GOAL_COMPLETION_UNPROVEN)) (\<lambda>_.
       rop_bind (changed goal_revision_conflict (updateGoal ((goal_keep g c now)\<lparr>gp_status := G_COMPLETED,
           gp_lastNote := (case bounded_note of None \<Rightarrow> g_lastNote g | Some n \<Rightarrow> Some n), gp_blockerFingerprint := None,
           gp_consecutiveBlockerCount := 0, gp_terminalAt := Some now\<rparr>))) (\<lambda>updated.
       rop_bind (goal_event goalId ''goal.completed'' (JObj [(''note'', jopt_str bounded_note), (''completedSteps'', JNum (int (length steps)))])
         (gc_sourceRunId c) (gc_sourceAttemptId c) now) (\<lambda>_.
       rop_return (toGoal updated steps))))))))"

section \<open>The context of a run\<close>

definition open_goal :: "goal_caller \<Rightarrow> goal_row option rop" where
  "open_goal c =
     rop_bind (provenance c) (\<lambda>_.
     rop_bind (rop_read (getOpen (gc_conversationId c))) (\<lambda>found.
     rop_return (case found of None \<Rightarrow> None
       | Some g \<Rightarrow> if g_workspaceId g = gc_workspaceId c \<and> g_status g = G_ACTIVE then Some g else None)))"

definition prepareContext :: "int \<Rightarrow> goal_caller \<Rightarrow> string option svc" where
  "prepareContext now c = transaction (
     rop_bind (open_goal c) (\<lambda>found.
     (case found of
        None \<Rightarrow> rop_return None
      | Some g \<Rightarrow>
          rop_bind (changed goal_revision_conflict (updateGoal ((goal_keep g c now)\<lparr>gp_continuationCount := g_continuationCount g + 1\<rparr>))) (\<lambda>updated.
          rop_bind (rop_read (listSteps (g_goalId g))) (\<lambda>steps.
          rop_bind (goal_event (g_goalId g) ''goal.continued'' (JObj [(''continuationCount'', JNum (g_continuationCount updated)),
              (''runId'', jopt_str (gc_sourceRunId c))]) (gc_sourceRunId c) (gc_sourceAttemptId c) now) (\<lambda>_.
          rop_return (Some (renderContext updated steps))))))))"

definition readContext :: "string \<Rightarrow> string \<Rightarrow> string option svc" where
  "readContext workspaceId conversationId = transaction (
     rop_bind (open_goal \<lparr>gc_workspaceId = workspaceId, gc_conversationId = conversationId, gc_sourceRunId = None, gc_sourceAttemptId = None\<rparr>) (\<lambda>found.
     (case found of
        None \<Rightarrow> rop_return None
      | Some g \<Rightarrow> rop_read (\<lambda>s. Some (renderContext g (listSteps (g_goalId g) s))))))"

end
