(* ===== verification/Goal_Properties.thy ===== *)
theory Goal_Properties
  imports Goal_Service Task_Frame Delegation_Scenario
begin

text \<open>
  The life of a goal along the calls of the goal service: a call moves the status by one arrow of the transition table at most, an
  ended goal never changes, a completed goal has only completed steps, a blocked one has met the same blocker three times
  in a row, and a conversation has at most one open goal.
\<close>

section \<open>The plan of a goal\<close>

definition plan_of :: "string \<Rightarrow> db \<Rightarrow> step_row list \<times> revision_step_row list" where
  "plan_of k s = (filter (\<lambda>p. ps_goalId p = k) (agent_goal_plan_steps s), filter (\<lambda>r. pr_goalId r = k) (agent_goal_plan_revision_steps s))"

definition step_ids_ok :: "db \<Rightarrow> bool" where
  "step_ids_ok s \<longleftrightarrow> distinct (map ps_stepId (agent_goal_plan_steps s))"

text \<open>A statement about the goal \<open>k\<close> that does not write its row.\<close>

definition other_plans :: "string \<Rightarrow> db \<Rightarrow> db \<Rightarrow> bool" where
  "other_plans k s t \<longleftrightarrow> agent_goals t = agent_goals s
     \<and> (step_ids_ok s \<longrightarrow> step_ids_ok t \<and> (\<forall>j. j \<noteq> k \<longrightarrow> plan_of j t = plan_of j s))"

interpretation op: step_preorder "other_plans k" for k
  by unfold_locales (auto simp: other_plans_def)

lemma tbl_get_filter: "(\<And>r. key r = i \<Longrightarrow> p r) \<Longrightarrow> tbl_get key i (filter p rows) = tbl_get key i rows"
  by (induction rows) (auto simp: tbl_get_def)

lemma listSteps_plan:
  assumes "plan_of k t = plan_of k s"
    and "map_option g_planRevision (goal_get k t) = map_option g_planRevision (goal_get k s)"
  shows "listSteps k t = listSteps k s"
proof -
  have r: "listPlanRevisionSteps k n s = sort_key pr_ordinal (filter (\<lambda>r. pr_planRevision r = n) (snd (plan_of k s)))" for n s
    by (simp add: listPlanRevisionSteps_def plan_of_def conj_commute)
  have q: "getPlanRevisionStep k n i s = tbl_get (\<lambda>r. (pr_goalId r, pr_planRevision r, pr_stepId r)) (k, n, i) (snd (plan_of k s))" for n i s
    unfolding getPlanRevisionStep_def plan_of_def snd_conv by (rule tbl_get_filter [symmetric]) simp
  have "current_step g t = current_step h s" if "g_goalId g = k" "g_goalId h = k" "g_planRevision g = g_planRevision h" for g h
    using that assms(1) by (simp add: fun_eq_iff current_step_def r q)
  moreover have "g_goalId g = k" if "goal_get k u = Some g" for g u
    using that by (auto simp: goal_get_def dest: tbl_get_key)
  ultimately show ?thesis using assms
    by (auto simp: listSteps_def plan_of_def split: option.splits) metis
qed

lemma plan_statements:
  "keeps (other_plans k) (rop_do (insertStep p))" if "ps_goalId p = k"
  by (rule op.keeps_rop_do)
    (use that in \<open>auto simp: other_plans_def insertStep_def plan_of_def step_ids_ok_def getStepById_def tbl_get_None split: if_splits\<close>)

lemma snapshot_keeps: "keeps (other_plans k) (snapshotPlan k n steps now)"
proof -
  have "keeps (other_plans k) (rop_do (insertPlanRevisionStep r))" if "pr_goalId r = k" for r
    by (rule op.keeps_rop_do)
      (use that in \<open>auto simp: other_plans_def insertPlanRevisionStep_def plan_of_def step_ids_ok_def split: if_splits\<close>)
  then show ?thesis unfolding snapshotPlan_def by (intro op.keeps_rop_each) simp
qed

lemma goal_event_keeps: "keeps (other_plans k) (goal_event i ty p a b now)"
  unfolding goal_event_def
  by (intro op.keeps_intros op.keeps_rop_do)
    (auto simp: other_plans_def goal_appendEvent_def plan_of_def step_ids_ok_def split: if_splits)

lemma step_write_Inr:
  "step_write k i er f s = Inr (t, x) \<Longrightarrow> t = s \<or> (\<exists>q. getStep k i s = Some q
     \<and> t = s\<lparr>agent_goal_plan_steps := tbl_modify (\<lambda>r. ps_stepId r = i) (\<lambda>_. (f q)\<lparr>ps_revision := ps_revision q + 1\<rparr>) (agent_goal_plan_steps s)\<rparr>)"
  unfolding step_write_def Let_def by (auto split: option.splits if_splits)

lemma one_step_plan:
  assumes "step_ids_ok s" and "getStep k i s = Some q" and "ps_goalId q' = ps_goalId q" and "ps_stepId q' = ps_stepId q"
    and "t = s\<lparr>agent_goal_plan_steps := tbl_modify (\<lambda>r. ps_stepId r = i) (\<lambda>_. q') (agent_goal_plan_steps s)\<rparr>"
  shows "step_ids_ok t \<and> (\<forall>j. j \<noteq> k \<longrightarrow> plan_of j t = plan_of j s)"
proof -
  let ?rows = "agent_goal_plan_steps s"
  from assms(2) have q: "tbl_get ps_stepId i ?rows = Some q" "ps_goalId q = k" "ps_stepId q = i"
    by (auto simp: getStep_def getStepById_def split: option.splits if_splits dest: tbl_get_key)
  then have rows: "tbl_modify (\<lambda>r. ps_stepId r = i) (\<lambda>_. q') ?rows = tbl_replace ps_stepId i q' ?rows"
    using tbl_modify_unique [OF assms(1) [unfolded step_ids_ok_def] q(1), of "\<lambda>r. ps_stepId r = i" "\<lambda>_. q'"] by simp
  have others: "filter (\<lambda>r. ps_goalId r = j) (tbl_modify (\<lambda>r. ps_stepId r = i) (\<lambda>_. q') rs) = filter (\<lambda>r. ps_goalId r = j) rs"
    if "j \<noteq> k" "\<forall>r \<in> set rs. ps_stepId r = i \<longrightarrow> ps_goalId r = k" for j rs
    using that assms(3) q(2) by (induction rs) (auto simp: tbl_modify_def)
  have "\<forall>r \<in> set ?rows. ps_stepId r = i \<longrightarrow> ps_goalId r = k"
  proof (intro ballI impI)
    fix r
    assume "r \<in> set ?rows" "ps_stepId r = i"
    with tbl_get_distinct [OF assms(1) [unfolded step_ids_ok_def], of r] q show "ps_goalId r = k" by simp
  qed
  with others have "\<forall>j. j \<noteq> k \<longrightarrow> filter (\<lambda>r. ps_goalId r = j) (agent_goal_plan_steps t) = filter (\<lambda>r. ps_goalId r = j) ?rows"
    by (simp add: assms(5))
  moreover have "step_ids_ok t" using assms(1,4,5) q(3) by (simp add: step_ids_ok_def rows)
  ultimately show ?thesis by (simp add: plan_of_def assms(5))
qed

lemma step_update_keeps: "keeps (other_plans k) (goal_updateStep p)" if "sp_goalId p = k"
proof (rule op.keeps_op)
  fix s t x
  assume "goal_updateStep p s = Inr (t, x)"
  from step_write_Inr [OF this [unfolded goal_updateStep_def]] show "other_plans k s t"
  proof (elim disjE exE conjE)
    show "t = s \<Longrightarrow> other_plans k s t" by (simp add: op.refl)
    fix q
    assume "getStep (sp_goalId p) (sp_stepId p) s = Some q" and t: "t = s\<lparr>agent_goal_plan_steps := tbl_modify (\<lambda>r. ps_stepId r = sp_stepId p)
      (\<lambda>_. (q\<lparr>ps_status := sp_status p, ps_note := sp_note p, ps_sourceRunId := sp_sourceRunId p,
        ps_sourceAttemptId := sp_sourceAttemptId p, ps_startedAt := sp_startedAt p, ps_completedAt := sp_completedAt p,
        ps_updatedAt := sp_updatedAt p\<rparr>)\<lparr>ps_revision := ps_revision q + 1\<rparr>) (agent_goal_plan_steps s)\<rparr>"
    with that one_step_plan [OF _ _ _ _ t, of k q] show "other_plans k s t" by (auto simp: other_plans_def)
  qed
qed

section \<open>What a call does to a goal\<close>

definition goal_shape :: "goal_row \<Rightarrow> bool" where
  "goal_shape g \<longleftrightarrow> (g_terminalAt g = None \<longleftrightarrow> goal_open (g_status g)) \<and> (g_status g = G_BLOCKED \<longrightarrow> 3 \<le> g_consecutiveBlockerCount g)"

definition goal_same :: "goal_row \<Rightarrow> goal_row \<Rightarrow> bool" where
  "goal_same g h \<longleftrightarrow> g_goalId h = g_goalId g \<and> g_workspaceId h = g_workspaceId g \<and> g_conversationId h = g_conversationId g
     \<and> g_objective h = g_objective g \<and> g_createdAt h = g_createdAt g"

definition goal_move :: "goal_row \<Rightarrow> goal_row \<Rightarrow> bool" where
  "goal_move g h \<longleftrightarrow> goal_same g h \<and> goal_open (g_status g) \<and> g_revision h = g_revision g + 1
     \<and> (g_status h = g_status g \<or> g_status h \<in> GOAL_TRANSITIONS (g_status g))
     \<and> g_planRevision g \<le> g_planRevision h \<and> g_continuationCount g \<le> g_continuationCount h \<and> goal_shape h"

definition steps_done :: "string \<Rightarrow> db \<Rightarrow> bool" where
  "steps_done k s \<longleftrightarrow> list_all (\<lambda>p. ps_status p = S_COMPLETED) (listSteps k s)"

text \<open>What a call does to the blocker of a goal: it leaves it or forgets it, or it counts a report.\<close>

definition blocker_kept :: "goal_row \<Rightarrow> goal_row \<Rightarrow> bool" where
  "blocker_kept g h \<longleftrightarrow> g_status h \<noteq> G_BLOCKED
     \<and> (g_consecutiveBlockerCount h = 0
        \<or> g_consecutiveBlockerCount h = g_consecutiveBlockerCount g \<and> g_blockerFingerprint h = g_blockerFingerprint g
            \<and> (g_status h = G_ACTIVE \<longrightarrow> g_status g = G_ACTIVE))"

definition blocker_counted :: "string \<Rightarrow> goal_row \<Rightarrow> goal_row \<Rightarrow> bool" where
  "blocker_counted fp g h \<longleftrightarrow> g_status g = G_ACTIVE \<and> g_blockerFingerprint h = Some fp
     \<and> g_consecutiveBlockerCount h = (if g_blockerFingerprint g = Some fp then g_consecutiveBlockerCount g + 1 else 1)
     \<and> g_status h = (if 3 \<le> g_consecutiveBlockerCount h then G_BLOCKED else G_ACTIVE)"

definition goal_moves :: "(goal_row \<Rightarrow> goal_row \<Rightarrow> bool) \<Rightarrow> string \<Rightarrow> db \<Rightarrow> db \<Rightarrow> bool" where
  "goal_moves Q k s t \<longleftrightarrow> (\<exists>g h. goal_get k s = Some g \<and> goal_move g h \<and> Q g h \<and> \<not> other_open h s
     \<and> agent_goals t = tbl_modify (\<lambda>x. g_goalId x = k) (\<lambda>_. h) (agent_goals s)
     \<and> (step_ids_ok s \<longrightarrow> step_ids_ok t \<and> (\<forall>j. j \<noteq> k \<longrightarrow> plan_of j t = plan_of j s))
     \<and> (g_status h = G_COMPLETED \<longrightarrow> steps_done k t))"

lemma updateGoal_Inr:
  assumes "changed e (updateGoal p) s = Inr (t, h)" and "goal_get (gp_goalId p) s = Some g"
  shows "h = patched_goal p g \<and> \<not> other_open h s \<and> t = s\<lparr>agent_goals := tbl_modify (\<lambda>x. g_goalId x = gp_goalId p) (\<lambda>_. h) (agent_goals s)\<rparr>"
  using assms by (auto simp: changed_def rop_bind_Inr updateGoal_def Let_def split: option.splits if_splits)

lemma goal_written:
  assumes "goal_get k s = Some g" and "other_plans k s s1" and "changed e (updateGoal p) s1 = Inr (s2, h)" and "gp_goalId p = k"
    and "other_plans k s2 t" and "goal_move g (patched_goal p g)" and "Q g (patched_goal p g)" and "gp_status p = G_COMPLETED \<Longrightarrow> steps_done k t"
  shows "goal_moves Q k s t"
proof -
  have "goal_get (gp_goalId p) s1 = Some g" using assms(1,2,4) by (simp add: goal_get_def other_plans_def)
  note u = updateGoal_Inr [OF assms(3) this]
  have st: "g_status h = gp_status p" using u by (simp add: patched_goal_def)
  have "plan_of j s2 = plan_of j s1" "step_ids_ok s2 = step_ids_ok s1" for j using u by (simp_all add: plan_of_def step_ids_ok_def)
  with assms(2,5) have "step_ids_ok s \<longrightarrow> step_ids_ok t \<and> (\<forall>j. j \<noteq> k \<longrightarrow> plan_of j t = plan_of j s)"
    by (auto simp: other_plans_def)
  moreover have "agent_goals t = tbl_modify (\<lambda>x. g_goalId x = k) (\<lambda>_. h) (agent_goals s)"
    using u assms(2,4,5) by (simp add: other_plans_def)
  moreover have "other_open h s1 = other_open h s" using assms(2) by (simp add: other_plans_def other_open_def)
  ultimately show ?thesis using assms(1,6-8) u st
    unfolding goal_moves_def by - (rule exI [of _ g], rule exI [of _ h], auto)
qed

lemma provenance_same: "provenance c s = Inr (t, x) \<Longrightarrow> t = s"
  by (auto simp: provenance_def rop_bind_Inr rop_found_Inr split: option.splits if_splits)

lemma owned_goal_Inr: "owned_goal c k s = Inr (t, g) \<Longrightarrow> t = s \<and> goal_get k s = Some g \<and> g_goalId g = k"
  by (auto simp: owned_goal_def assertExecutionNotActive_def rop_bind_Inr rop_found_Inr goal_get_def
      dest: tbl_get_key dest!: provenance_same split: if_splits)

lemma active_goal_Inr: "active_goal c k n s = Inr (t, g) \<Longrightarrow> t = s \<and> goal_get k s = Some g \<and> g_goalId g = k \<and> g_status g = G_ACTIVE \<and> g_revision g = n"
  by (auto simp: active_goal_def rop_bind_Inr dest!: owned_goal_Inr split: if_splits)

definition owns :: "goal_caller \<Rightarrow> string \<Rightarrow> goal_row \<Rightarrow> db \<Rightarrow> bool" where
  "owns c k g s \<longleftrightarrow> owned_goal c k s = Inr (s, g)"

definition is_active :: "goal_caller \<Rightarrow> string \<Rightarrow> int \<Rightarrow> goal_row \<Rightarrow> db \<Rightarrow> bool" where
  "is_active c k n g s \<longleftrightarrow> active_goal c k n s = Inr (s, g)"

lemma owned_goal_iff: "owned_goal c k s = Inr (t, g) \<longleftrightarrow> t = s \<and> owns c k g s"
  by (auto simp: owns_def dest: owned_goal_Inr)

lemma active_goal_iff: "active_goal c k n s = Inr (t, g) \<longleftrightarrow> t = s \<and> is_active c k n g s"
  by (auto simp: is_active_def dest: active_goal_Inr)

lemma kept_patch:
  "g_status g = G_ACTIVE \<Longrightarrow> gp_goalId p = g_goalId g \<Longrightarrow> goal_open (gp_status p) \<longleftrightarrow> gp_terminalAt p = None
    \<Longrightarrow> gp_status p = G_ACTIVE \<or> gp_status p \<in> GOAL_TRANSITIONS G_ACTIVE \<Longrightarrow> g_planRevision g \<le> gp_planRevision p
    \<Longrightarrow> g_continuationCount g \<le> gp_continuationCount p \<Longrightarrow> gp_status p = G_BLOCKED \<longrightarrow> 3 \<le> gp_consecutiveBlockerCount p
    \<Longrightarrow> goal_move g (patched_goal p g)"
  by (auto simp: goal_move_def goal_same_def goal_shape_def patched_goal_def goal_open_def)

lemma kept_blocker:
  "g_status g = G_ACTIVE \<Longrightarrow> gp_status p \<noteq> G_BLOCKED \<Longrightarrow> gp_consecutiveBlockerCount p = 0
      \<or> gp_consecutiveBlockerCount p = g_consecutiveBlockerCount g \<and> gp_blockerFingerprint p = g_blockerFingerprint g
    \<Longrightarrow> blocker_kept g (patched_goal p g)"
  by (auto simp: blocker_kept_def patched_goal_def)

lemma insertSteps_keeps: "keeps (other_plans k) (rop_each (\<lambda>p. rop_do (insertStep p)) (new_steps ids k c now titles))"
proof -
  have "keeps (other_plans k) (rop_each (\<lambda>p. rop_do (insertStep p)) rows)" if "\<forall>p \<in> set rows. ps_goalId p = k" for rows
    using that by (induction rows) (auto intro!: op.keeps_seq op.keeps_return plan_statements)
  moreover have "\<forall>p \<in> set (new_steps ids k c now titles). ps_goalId p = k" by (auto simp: new_steps_def)
  ultimately show ?thesis by blast
qed

lemma setPlan_moves:
  assumes "setPlan gs ids now c k n steps s = (Inr out, t)"
  shows "goal_moves blocker_kept k s t"
proof -
  from assms obtain titles g s1 u s2 h s3 v ty pl a b w where a: "is_active c k n g s"
    and 1: "rop_each (\<lambda>p. rop_do (insertStep p)) (new_steps ids k c now titles) s = Inr (s1, u)"
    and 2: "changed goal_revision_conflict (updateGoal ((goal_keep g c now)\<lparr>gp_planRevision := g_planRevision g + 1\<rparr>)) s1 = Inr (s2, h)"
    and 3: "snapshotPlan k (g_planRevision h) (new_steps ids k c now titles) now s2 = Inr (s3, v)"
    and 4: "goal_event k ty pl a b now s3 = Inr (t, w)"
    by (auto simp: setPlan_def transaction_def rop_bind_Inr active_goal_iff Let_def split: sum.splits prod.splits if_splits)
  note g = active_goal_Inr [OF a [unfolded is_active_def]]
  have "other_plans k s2 t" using keepsD [OF snapshot_keeps 3] keepsD [OF goal_event_keeps 4] by (rule op.trans)
  from goal_written [where Q = blocker_kept, OF _ keepsD [OF insertSteps_keeps 1] 2 _ this] g
  show ?thesis by (simp add: goal_keep_def kept_patch kept_blocker goal_open_def)
qed

lemma service_updateStep_moves:
  assumes "service_updateStep now c k i n m st note s = (Inr out, t)"
  shows "goal_moves blocker_kept k s t"
proof -
  from assms obtain nt g target s1 x s2 h s3 v ty pl a b w where a: "is_active c k n g s"
    and f: "find (\<lambda>p. ps_stepId p = i) (listSteps k s) = Some target"
    and 1: "changed goal_revision_conflict (goal_updateStep (updated_step target c st nt now)) s = Inr (s1, x)"
    and 2: "changed goal_revision_conflict (updateGoal ((goal_keep g c now)\<lparr>
           gp_lastNote := (case nt of None \<Rightarrow> g_lastNote g | Some n \<Rightarrow> Some n), gp_blockerFingerprint := None,
           gp_consecutiveBlockerCount := 0, gp_planRevision := g_planRevision g + 1\<rparr>)) s1 = Inr (s2, h)"
    and 3: "snapshotPlan k (g_planRevision h) (listSteps k s2) now s2 = Inr (s3, v)"
    and 4: "goal_event k ty pl a b now s3 = Inr (t, w)"
    by (auto simp: service_updateStep_def transaction_def rop_bind_Inr rop_found_Inr active_goal_iff Let_def split: sum.splits prod.splits if_splits)
  note g = active_goal_Inr [OF a [unfolded is_active_def]]
  have "target \<in> set (listSteps k s)" using f by (auto simp: find_Some_iff)
  then have "ps_goalId target = k" using g
    by (auto simp: listSteps_def map_filter_def current_step_def split: option.splits if_splits)
  then have "keeps (other_plans k) (changed goal_revision_conflict (goal_updateStep (updated_step target c st nt now)))"
    unfolding changed_def by (intro op.keeps_intros step_update_keeps) (simp add: updated_step_def)
  note first = keepsD [OF this 1]
  have "other_plans k s2 t" using keepsD [OF snapshot_keeps 3] keepsD [OF goal_event_keeps 4] by (rule op.trans)
  from goal_written [where Q = blocker_kept, OF _ first 2 _ this] g show ?thesis by (simp add: goal_keep_def kept_patch kept_blocker goal_open_def)
qed

text \<open>The fingerprint of a report.\<close>

definition blocker_of :: "goal_service \<Rightarrow> string \<Rightarrow> string" where
  "blocker_of gs note = goal_fingerprint gs (js_trim (unix_lines note))"

lemma reportBlocker_moves:
  assumes "reportBlocker gs now c k n note s = (Inr out, t)"
  shows "goal_moves (blocker_counted (blocker_of gs note)) k s t"
proof -
  let ?fp = "blocker_of gs note"
  from assms obtain nt count st g s2 h ty pl a b w where a: "is_active c k n g s"
    and count: "count = (if g_blockerFingerprint g = Some ?fp then g_consecutiveBlockerCount g + 1 else 1)"
    and st: "st = (if count \<ge> 3 then G_BLOCKED else G_ACTIVE)"
    and 2: "changed goal_revision_conflict (updateGoal ((goal_keep g c now)\<lparr>gp_status := st, gp_lastNote := Some nt,
           gp_blockerFingerprint := Some ?fp, gp_consecutiveBlockerCount := count\<rparr>)) s = Inr (s2, h)"
    and 4: "goal_event k ty pl a b now s2 = Inr (t, w)"
    by (auto simp: reportBlocker_def transaction_def rop_bind_Inr active_goal_iff Let_def goal_bounded_def blocker_of_def
        split: sum.splits prod.splits if_splits)
  note g = active_goal_Inr [OF a [unfolded is_active_def]]
  have "blocker_counted ?fp g (patched_goal ((goal_keep g c now)\<lparr>gp_status := st, gp_lastNote := Some nt,
      gp_blockerFingerprint := Some ?fp, gp_consecutiveBlockerCount := count\<rparr>) g)"
    using g count st by (simp add: blocker_counted_def patched_goal_def goal_keep_def)
  from goal_written [where Q = "blocker_counted ?fp", OF _ op.refl 2 _ keepsD [OF goal_event_keeps 4] _ this] g st show ?thesis
    by (cases "3 \<le> count"; simp add: goal_keep_def GOAL_TRANSITIONS_def goal_open_def kept_patch)
qed

lemma goal_control_moves:
  assumes "goal_control now c k n action note s = (Inr out, t)"
  shows "goal_moves blocker_kept k s t"
proof -
  from assms obtain nt g p s2 h ty pl a b w where a: "owns c k g s"
    and tr: "action_status action \<in> GOAL_TRANSITIONS (g_status g)"
    and p: "p = (goal_keep g c now)\<lparr>gp_status := action_status action,
           gp_lastNote := (case nt of None \<Rightarrow> g_lastNote g | Some n \<Rightarrow> Some n),
           gp_blockerFingerprint := (if action_status action = G_ACTIVE then None else g_blockerFingerprint g),
           gp_consecutiveBlockerCount := (if action_status action = G_ACTIVE then 0 else g_consecutiveBlockerCount g),
           gp_terminalAt := (if action_status action = G_CANCELLED then Some now else None)\<rparr>"
    and 2: "changed goal_revision_conflict (updateGoal p) s = Inr (s2, h)"
    and 4: "goal_event k ty pl a b now s2 = Inr (t, w)"
    by (auto simp: goal_control_def transaction_def rop_bind_Inr owned_goal_iff Let_def split: sum.splits prod.splits if_splits)
  note g = owned_goal_Inr [OF a [unfolded owns_def]]
  have "goal_move g (patched_goal p g)" using tr g
    by (cases action; cases "g_status g")
      (auto simp: p goal_keep_def action_status_def GOAL_TRANSITIONS_def goal_move_def goal_same_def goal_shape_def patched_goal_def goal_open_def)
  moreover have "blocker_kept g (patched_goal p g)" using tr g
    by (cases action; cases "g_status g")
      (auto simp: p goal_keep_def action_status_def GOAL_TRANSITIONS_def blocker_kept_def patched_goal_def)
  moreover have "gp_goalId p = k" "gp_status p \<noteq> G_COMPLETED" using g by (cases action; simp add: p goal_keep_def action_status_def)+
  ultimately show ?thesis using goal_written [where Q = blocker_kept, OF _ op.refl 2 _ keepsD [OF goal_event_keeps 4]] g by blast
qed

lemma goal_event_plan:
  assumes "goal_event i ty pl a b now s = Inr (t, u)"
  shows "plan_of j t = plan_of j s \<and> agent_goals t = agent_goals s"
  using assms by (auto simp: goal_event_def rop_do_Inr goal_appendEvent_def plan_of_def split: if_splits)

lemma goal_complete_moves:
  assumes "goal_complete now c k n note s = (Inr out, t)"
  shows "goal_moves blocker_kept k s t"
proof -
  from assms obtain nt g p s2 h ty pl a b w where a: "is_active c k n g s"
    and d: "steps_done k s"
    and p: "p = (goal_keep g c now)\<lparr>gp_status := G_COMPLETED,
           gp_lastNote := (case nt of None \<Rightarrow> g_lastNote g | Some n \<Rightarrow> Some n), gp_blockerFingerprint := None,
           gp_consecutiveBlockerCount := 0, gp_terminalAt := Some now\<rparr>"
    and 2: "changed goal_revision_conflict (updateGoal p) s = Inr (s2, h)"
    and 4: "goal_event k ty pl a b now s2 = Inr (t, w)"
    by (auto simp: goal_complete_def transaction_def rop_bind_Inr active_goal_iff steps_done_def Let_def split: sum.splits prod.splits if_splits)
  note g = active_goal_Inr [OF a [unfolded is_active_def]]
  have k: "gp_goalId p = k" using g by (simp add: p goal_keep_def)
  with updateGoal_Inr [OF 2, of g] g have u: "h = patched_goal p g"
    "s2 = s\<lparr>agent_goals := tbl_modify (\<lambda>x. g_goalId x = k) (\<lambda>_. h) (agent_goals s)\<rparr>" by auto
  have "goal_get k s2 = Some h"
    using g u tbl_get_replace [of g_goalId h k k "agent_goals s"]
    by (simp add: goal_get_def tbl_modify_def tbl_replace_def patched_goal_def)
  then have "listSteps k t = listSteps k s" using goal_event_plan [OF 4] u g
    by (intro listSteps_plan) (simp_all add: plan_of_def goal_get_def patched_goal_def p goal_keep_def)
  with d have "steps_done k t" by (simp add: steps_done_def)
  with goal_written [where Q = blocker_kept, OF _ op.refl 2 k keepsD [OF goal_event_keeps 4]] g show ?thesis
    by (simp add: p goal_keep_def GOAL_TRANSITIONS_def goal_open_def kept_patch kept_blocker)
qed

lemma getOpen_Some:
  assumes "getOpen i s = Some g"
  shows "g \<in> set (agent_goals s)"
proof -
  let ?open = "filter (\<lambda>g. goal_open (g_status g)) (goals_of i s)"
  from assms obtain gs where sorted: "sort_key (\<lambda>g. - g_createdAt g) ?open = g # gs" by (auto simp: getOpen_def split: list.splits)
  have "g \<in> set (sort_key (\<lambda>g. - g_createdAt g) ?open)" unfolding sorted by simp
  then show ?thesis by (auto simp: goals_of_def)
qed

lemma open_goal_Inr:
  assumes "open_goal c s = Inr (t, v)"
  shows "t = s \<and> (case v of None \<Rightarrow> True | Some g \<Rightarrow> g \<in> set (agent_goals s) \<and> g_status g = G_ACTIVE)"
proof -
  from assms obtain u where "provenance c s = Inr (t, u)" and v: "v = (case getOpen (gc_conversationId c) t of None \<Rightarrow> None
       | Some g \<Rightarrow> if g_workspaceId g = gc_workspaceId c \<and> g_status g = G_ACTIVE then Some g else None)"
    by (auto simp: open_goal_def rop_bind_Inr)
  then have "t = s" by (simp add: provenance_same)
  with v show ?thesis by (cases "getOpen (gc_conversationId c) s") (auto dest: getOpen_Some)
qed

lemma prepareContext_moves:
  assumes "prepareContext now c s = (Inr out, t)" and "distinct (map g_goalId (agent_goals s))"
  shows "t = s \<or> (\<exists>k. goal_moves blocker_kept k s t)"
proof -
  from assms(1) obtain v where v: "open_goal c s = Inr (s, v)"
    and r: "(case v of None \<Rightarrow> rop_return None
      | Some g \<Rightarrow>
          rop_bind (changed goal_revision_conflict (updateGoal ((goal_keep g c now)\<lparr>gp_continuationCount := g_continuationCount g + 1\<rparr>))) (\<lambda>updated.
          rop_bind (rop_read (listSteps (g_goalId g))) (\<lambda>steps.
          rop_bind (goal_event (g_goalId g) ''goal.continued'' (JObj [(''continuationCount'', JNum (g_continuationCount updated)),
              (''runId'', jopt_str (gc_sourceRunId c))]) (gc_sourceRunId c) (gc_sourceAttemptId c) now) (\<lambda>_.
          rop_return (Some (renderContext updated steps)))))) s = Inr (t, out)"
    by (auto simp: prepareContext_def transaction_def rop_bind_Inr [of "open_goal c"] split: sum.splits prod.splits dest: open_goal_Inr)
  show ?thesis
  proof (cases v)
    case None
    with r show ?thesis by simp
  next
    case (Some g)
    with r obtain s2 h ty pl a b w where 2: "changed goal_revision_conflict (updateGoal ((goal_keep g c now)\<lparr>gp_continuationCount := g_continuationCount g + 1\<rparr>)) s = Inr (s2, h)"
      and 4: "goal_event (g_goalId g) ty pl a b now s2 = Inr (t, w)"
      by (auto simp: rop_bind_Inr)
    from open_goal_Inr [OF v] Some have g: "g \<in> set (agent_goals s)" "g_status g = G_ACTIVE" by auto
    have "goal_get (g_goalId g) s = Some g" using tbl_get_distinct [OF assms(2) g(1)] by (simp add: goal_get_def)
    from goal_written [where Q = blocker_kept, OF this op.refl 2 _ keepsD [OF goal_event_keeps 4]] g have "goal_moves blocker_kept (g_goalId g) s t"
      by (simp add: goal_keep_def goal_open_def kept_patch kept_blocker)
    then show ?thesis by blast
  qed
qed

lemma goal_create_adds:
  assumes "goal_create gs ids now c objective steps s = (Inr out, t)"
  shows "\<exists>g. agent_goals t = agent_goals s @ [g] \<and> goal_get (g_goalId g) s = None \<and> \<not> other_open g s \<and> goal_shape g \<and> g_status g = G_ACTIVE
    \<and> g_consecutiveBlockerCount g = 0 \<and> (step_ids_ok s \<longrightarrow> step_ids_ok t \<and> (\<forall>j. j \<noteq> g_goalId g \<longrightarrow> plan_of j t = plan_of j s))"
proof -
  from assms obtain objective' titles s0 u0 s1 s2 u s3 v ty pl a b w where p: "provenance c s = Inr (s0, u0)"
    and 1: "insertGoal (new_goal (ids 0) c objective' now) s0 = Inr s1"
    and 2: "rop_each (\<lambda>p. rop_do (insertStep p)) (new_steps (\<lambda>i. ids (i + 1)) (ids 0) c now titles) s1 = Inr (s2, u)"
    and 3: "snapshotPlan (ids 0) 1 (new_steps (\<lambda>i. ids (i + 1)) (ids 0) c now titles) now s2 = Inr (s3, v)"
    and 4: "goal_event (ids 0) ty pl a b now s3 = Inr (t, w)"
    by (auto simp: goal_create_def transaction_def rop_bind_Inr rop_do_Inr Let_def split: sum.splits prod.splits if_splits)
  have "s0 = s" using p by (rule provenance_same)
  with 1 have i: "s1 = s\<lparr>agent_goals := agent_goals s @ [new_goal (ids 0) c objective' now]\<rparr>" "goal_get (ids 0) s = None"
    "\<not> other_open (new_goal (ids 0) c objective' now) s"
    by (auto simp: insertGoal_def new_goal_def split: if_splits)
  have "other_plans (ids 0) s1 t"
    using op.trans [OF op.trans [OF keepsD [OF insertSteps_keeps 2] keepsD [OF snapshot_keeps 3]] keepsD [OF goal_event_keeps 4]] .
  with i show ?thesis
    by (intro exI [of _ "new_goal (ids 0) c objective' now"])
      (auto simp: other_plans_def plan_of_def step_ids_ok_def new_goal_def goal_shape_def goal_open_def)
qed

section \<open>Calls\<close>

inductive goal_step :: "db \<Rightarrow> db \<Rightarrow> bool" where
  created: "goal_create gs ids now c objective steps s = (r, t) \<Longrightarrow> goal_step s t"
| planned: "setPlan gs ids now c k n steps s = (r2, t) \<Longrightarrow> goal_step s t"
| stepped: "service_updateStep now c k i n m st note s = (r3, t) \<Longrightarrow> goal_step s t"
| blocked: "reportBlocker gs now c k n text s = (r4, t) \<Longrightarrow> goal_step s t"
| controlled: "goal_control now c k n action note s = (r5, t) \<Longrightarrow> goal_step s t"
| completed: "goal_complete now c k n note s = (r6, t) \<Longrightarrow> goal_step s t"
| continued: "prepareContext now c s = (r7, t) \<Longrightarrow> goal_step s t"

text \<open>A call that throws changes nothing.\<close>

lemma transaction_Inl: "transaction m s = (Inl e, t) \<Longrightarrow> t = s"
  by (auto simp: transaction_def split: sum.splits prod.splits)

lemma goal_calls_roll_back:
  "goal_create gs ids now c objective steps s = (Inl e, t) \<Longrightarrow> t = s"
  "setPlan gs ids now c k n steps' s = (Inl e, t) \<Longrightarrow> t = s"
  "service_updateStep now c k i n m st note s = (Inl e, t) \<Longrightarrow> t = s"
  "reportBlocker gs now c k n text s = (Inl e, t) \<Longrightarrow> t = s"
  "goal_control now c k n action note s = (Inl e, t) \<Longrightarrow> t = s"
  "goal_complete now c k n note s = (Inl e, t) \<Longrightarrow> t = s"
  "prepareContext now c s = (Inl e, t) \<Longrightarrow> t = s"
  by (auto simp: goal_create_def setPlan_def service_updateStep_def reportBlocker_def goal_control_def goal_complete_def prepareContext_def Let_def
      dest: transaction_Inl split: sum.splits)

text \<open>\<open>blocker_met k fp n s\<close>: in the calls that led to \<open>s\<close> the last \<open>n\<close> reports about the goal \<open>k\<close> were of the blocker with the fingerprint
  \<open>fp\<close>, and no call between them made the goal forget it.\<close>

inductive blocker_met :: "string \<Rightarrow> string \<Rightarrow> nat \<Rightarrow> db \<Rightarrow> bool" for k fp where
  first: "reportBlocker gs now c k r note s = (Inr out, t) \<Longrightarrow> blocker_of gs note = fp \<Longrightarrow> blocker_met k fp 1 t"
| again: "blocker_met k fp n s \<Longrightarrow> reportBlocker gs now c k r note s = (Inr out, t) \<Longrightarrow> blocker_of gs note = fp
    \<Longrightarrow> blocker_met k fp (Suc n) t"
| between: "blocker_met k fp n s \<Longrightarrow> goal_step s t \<Longrightarrow> goal_get k s = Some g \<Longrightarrow> goal_get k t = Some h
    \<Longrightarrow> g_blockerFingerprint h = g_blockerFingerprint g \<Longrightarrow> g_consecutiveBlockerCount h = g_consecutiveBlockerCount g
    \<Longrightarrow> blocker_met k fp n t"

definition goal_reported :: "db \<Rightarrow> db \<Rightarrow> bool" where
  "goal_reported s t \<longleftrightarrow> (\<exists>gs now c k r note out. reportBlocker gs now c k r note s = (Inr out, t)
     \<and> goal_moves (blocker_counted (blocker_of gs note)) k s t)"

definition goal_added :: "db \<Rightarrow> db \<Rightarrow> bool" where
  "goal_added s t \<longleftrightarrow> (\<exists>g. agent_goals t = agent_goals s @ [g] \<and> goal_get (g_goalId g) s = None \<and> \<not> other_open g s \<and> goal_shape g
    \<and> g_status g = G_ACTIVE \<and> g_consecutiveBlockerCount g = 0
    \<and> (step_ids_ok s \<longrightarrow> step_ids_ok t \<and> (\<forall>j. j \<noteq> g_goalId g \<longrightarrow> plan_of j t = plan_of j s)))"

lemma goal_step_cases:
  assumes "goal_step s t" and "distinct (map g_goalId (agent_goals s))"
  shows "t = s \<or> goal_added s t \<or> (\<exists>k. goal_moves blocker_kept k s t) \<or> goal_reported s t"
  using assms
proof (induction rule: goal_step.induct)
  case (created gs ids now c objective steps s r t)
  then show ?case using goal_create_adds by (cases r) (auto simp: goal_added_def dest: goal_calls_roll_back)
next
  case (planned gs ids now c k n steps s r t)
  then show ?case by (cases r) (blast dest: goal_calls_roll_back setPlan_moves)+
next
  case (stepped now c k i n m st nt s r t)
  then show ?case by (cases r) (blast dest: goal_calls_roll_back service_updateStep_moves)+
next
  case (blocked gs now c k n tx s r t)
  show ?case
  proof (cases r)
    case (Inl e)
    with blocked(1) show ?thesis by (blast dest: goal_calls_roll_back)
  next
    case (Inr out)
    with blocked(1) have "goal_reported s t" unfolding goal_reported_def using reportBlocker_moves by blast
    then show ?thesis by blast
  qed
next
  case (controlled now c k n action nt s r t)
  then show ?case by (cases r) (blast dest: goal_calls_roll_back goal_control_moves)+
next
  case (completed now c k n nt s r t)
  then show ?case by (cases r) (blast dest: goal_calls_roll_back goal_complete_moves)+
next
  case (continued now c s r t)
  then show ?case by (cases r) (blast dest: goal_calls_roll_back prepareContext_moves)+
qed

section \<open>The life of a goal\<close>

definition goals_ok :: "db \<Rightarrow> bool" where
  "goals_ok s \<longleftrightarrow> distinct (map g_goalId (agent_goals s)) \<and> step_ids_ok s
     \<and> (\<forall>g \<in> set (agent_goals s). goal_shape g \<and> (g_status g = G_COMPLETED \<longrightarrow> steps_done (g_goalId g) s)
          \<and> \<not> other_open g s)"

definition goal_evolves :: "goal_row \<Rightarrow> goal_row \<Rightarrow> bool" where
  "goal_evolves g h \<longleftrightarrow> goal_same g h
     \<and> g_revision g \<le> g_revision h \<and> (g_revision h = g_revision g \<longrightarrow> h = g) \<and> (goal_open (g_status g) \<or> h = g)
     \<and> g_planRevision g \<le> g_planRevision h \<and> g_continuationCount g \<le> g_continuationCount h"

lemma goal_evolves_refl: "goal_evolves g g"
  by (simp add: goal_evolves_def goal_same_def)

lemma goal_evolves_trans: "goal_evolves a b \<Longrightarrow> goal_evolves b c \<Longrightarrow> goal_evolves a c"
proof -
  assume ab: "goal_evolves a b" and bc: "goal_evolves b c"
  have "g_revision c = g_revision a \<longrightarrow> c = a" using ab bc unfolding goal_evolves_def by (metis order_antisym)
  moreover have "goal_open (g_status a) \<or> c = a" using ab bc unfolding goal_evolves_def by metis
  ultimately show ?thesis using ab bc by (simp add: goal_evolves_def goal_same_def)
qed

lemma goal_move_evolves: "goal_move g h \<Longrightarrow> goal_evolves g h"
  by (auto simp: goal_move_def goal_evolves_def)

definition goals_evolve :: "db \<Rightarrow> db \<Rightarrow> bool" where
  "goals_evolve s t \<longleftrightarrow> (goals_ok s \<longrightarrow> goals_ok t \<and> (\<forall>k g. goal_get k s = Some g \<longrightarrow> (\<exists>h. goal_get k t = Some h \<and> goal_evolves g h)))"

lemma goals_evolve_refl: "goals_evolve s s"
  by (auto simp: goals_evolve_def intro: goal_evolves_refl)

lemma goals_evolve_trans:
  assumes "goals_evolve a b" and "goals_evolve b c"
  shows "goals_evolve a c"
  unfolding goals_evolve_def
proof (intro impI conjI allI)
  assume ok: "goals_ok a"
  with assms have b: "goals_ok b" by (simp add: goals_evolve_def)
  with assms(2) show "goals_ok c" by (simp add: goals_evolve_def)
  fix k g
  assume "goal_get k a = Some g"
  with assms(1) ok obtain h where h: "goal_get k b = Some h" "goal_evolves g h" by (auto simp: goals_evolve_def)
  with assms(2) b obtain i where "goal_get k c = Some i" "goal_evolves h i" by (auto simp: goals_evolve_def)
  with h(2) show "\<exists>h. goal_get k c = Some h \<and> goal_evolves g h" using goal_evolves_trans by blast
qed

lemma steps_done_other:
  "plan_of j t = plan_of j s \<Longrightarrow> goal_get j t = goal_get j s \<Longrightarrow> steps_done j t = steps_done j s"
  using listSteps_plan [of j t s] by (simp add: steps_done_def)

lemma other_open_iff: "other_open g s \<longleftrightarrow> goal_open (g_status g)
    \<and> (\<exists>h \<in> set (agent_goals s). g_goalId h \<noteq> g_goalId g \<and> g_conversationId h = g_conversationId g \<and> goal_open (g_status h))"
  by (auto simp: other_open_def list_ex_iff)

lemma added_evolves:
  assumes "goal_added s t"
  shows "goals_evolve s t"
  unfolding goals_evolve_def
proof (intro impI conjI allI)
  assume ok: "goals_ok s"
  from assms obtain g where t: "agent_goals t = agent_goals s @ [g]" and new: "goal_get (g_goalId g) s = None" "\<not> other_open g s"
      "goal_shape g" "g_status g = G_ACTIVE"
    and plan: "step_ids_ok t" "\<And>j. j \<noteq> g_goalId g \<Longrightarrow> plan_of j t = plan_of j s"
    using ok by (auto simp: goal_added_def goals_ok_def)
  have fresh: "g_goalId x \<noteq> g_goalId g" if "x \<in> set (agent_goals s)" for x
    using new(1) that by (metis goal_get_def tbl_get_None image_eqI)
  have old: "goal_get j t = goal_get j s" if "j \<noteq> g_goalId g" for j
    using that by (simp add: goal_get_def t tbl_get_append split: option.splits)
  have "\<not> other_open x t" if "x \<in> set (agent_goals t)" for x
    using that ok new(2) fresh by (auto simp: goals_ok_def other_open_iff t)
  moreover have "steps_done (g_goalId x) t" if "x \<in> set (agent_goals s)" "g_status x = G_COMPLETED" for x
    using that ok steps_done_other [OF plan(2) old, OF fresh fresh] by (auto simp: goals_ok_def)
  moreover have "distinct (map g_goalId (agent_goals t))" using ok by (auto simp: goals_ok_def t dest: fresh)
  ultimately show "goals_ok t" using ok new plan(1) by (auto simp: goals_ok_def t)
  fix k x
  assume x: "goal_get k s = Some x"
  then have "k \<noteq> g_goalId g" using new(1) by auto
  with x old show "\<exists>h. goal_get k t = Some h \<and> goal_evolves x h" by (auto intro: goal_evolves_refl)
qed

text \<open>What a call does to the rows of the goals.\<close>

lemma moves_get:
  assumes "goal_moves Q k s t"
  obtains g h where "goal_get k s = Some g" "goal_move g h" "Q g h" "\<And>j. goal_get j t = (if j = k then Some h else goal_get j s)"
proof -
  from assms obtain g h where g: "goal_get k s = Some g" "goal_move g h" "Q g h"
    and t: "agent_goals t = tbl_modify (\<lambda>x. g_goalId x = k) (\<lambda>_. h) (agent_goals s)" by (auto simp: goal_moves_def)
  have k: "g_goalId h = k" using g(1,2) by (auto simp: goal_get_def goal_move_def goal_same_def dest: tbl_get_key)
  have "agent_goals t = tbl_replace g_goalId k h (agent_goals s)" by (simp add: t tbl_modify_def tbl_replace_def)
  then have "goal_get j t = (if j = k then Some h else goal_get j s)" for j
    using g(1) tbl_get_replace [of g_goalId h k j "agent_goals s"] k by (simp add: goal_get_def)
  with g show ?thesis by (rule that)
qed

lemma moves_rows: "goal_moves Q k s t \<Longrightarrow> goal_get j s = Some x \<Longrightarrow> \<exists>h. goal_get j t = Some h \<and> (h = x \<or> goal_move x h)"
  by (erule moves_get) auto

lemma added_rows:
  assumes "goal_added s t"
  shows "goal_get j s = Some x \<Longrightarrow> goal_get j t = Some x"
    and "goal_get j t = Some y \<Longrightarrow> goal_get j s = Some y \<or> g_consecutiveBlockerCount y = 0"
  using assms by (auto simp: goal_added_def goal_get_def tbl_get_append split: option.splits if_splits)

lemma goal_step_rows:
  assumes "goal_step s t" and "distinct (map g_goalId (agent_goals s))" and "goal_get j s = Some x"
  shows "\<exists>h. goal_get j t = Some h \<and> (h = x \<or> goal_move x h)"
  using goal_step_cases [OF assms(1,2)] moves_rows [OF _ assms(3)] added_rows(1) [OF _ assms(3)] assms(3)
  unfolding goal_reported_def by (metis (mono_tags))

lemma moves_evolve:
  assumes "goal_moves Q k s t"
  shows "goals_evolve s t"
  unfolding goals_evolve_def
proof (intro impI conjI allI)
  assume ok: "goals_ok s"
  then have ids: "distinct (map g_goalId (agent_goals s))" by (simp add: goals_ok_def)
  from assms obtain g h where g: "goal_get k s = Some g" and m: "goal_move g h" and o: "\<not> other_open h s"
    and t: "agent_goals t = tbl_modify (\<lambda>x. g_goalId x = k) (\<lambda>_. h) (agent_goals s)"
    and plan: "step_ids_ok t" "\<And>j. j \<noteq> k \<Longrightarrow> plan_of j t = plan_of j s" and d: "g_status h = G_COMPLETED \<Longrightarrow> steps_done k t"
    using ok by (auto simp: goal_moves_def goals_ok_def)
  have k: "g_goalId g = k" "g_goalId h = k" using g m by (auto simp: goal_get_def goal_move_def goal_same_def dest: tbl_get_key)
  have t': "agent_goals t = tbl_replace g_goalId k h (agent_goals s)"
    by (simp add: t tbl_modify_def tbl_replace_def)
  have set: "set (agent_goals t) = insert h {x \<in> set (agent_goals s). g_goalId x \<noteq> k}"
    unfolding t' by (rule set_tbl_replace [OF g [unfolded goal_get_def]])
  have get: "goal_get j t = (if j = k then Some h else goal_get j s)" for j
    using g tbl_get_replace [of g_goalId h k j "agent_goals s"] k by (simp add: goal_get_def t')
  have "\<not> other_open x t" if "x \<in> set (agent_goals t)" for x
    using that ok o k by (auto simp: goals_ok_def other_open_iff set)
  moreover have "steps_done (g_goalId x) t" if "x \<in> set (agent_goals s)" "g_goalId x \<noteq> k" "g_status x = G_COMPLETED" for x
    using that ok steps_done_other [OF plan(2), of "g_goalId x"] by (auto simp: goals_ok_def get)
  moreover have "distinct (map g_goalId (agent_goals t))" using ids k by (simp add: t')
  moreover have "goal_shape h" using m by (simp add: goal_move_def)
  ultimately show "goals_ok t" using ok plan(1) d k by (auto simp: goals_ok_def set)
  fix j x
  assume "goal_get j s = Some x"
  with g m show "\<exists>h. goal_get j t = Some h \<and> goal_evolves x h"
    by (cases "j = k") (auto simp: get intro: goal_evolves_refl goal_move_evolves)
qed

lemma goal_step_evolves:
  assumes "goal_step s t"
  shows "goals_evolve s t"
proof (cases "goals_ok s")
  case True
  then have "distinct (map g_goalId (agent_goals s))" by (simp add: goals_ok_def)
  from goal_step_cases [OF assms this] show ?thesis using added_evolves moves_evolve goals_evolve_refl unfolding goal_reported_def by blast
next
  case False
  then show ?thesis by (simp add: goals_evolve_def)
qed

lemma goal_steps_evolve: "goal_step\<^sup>*\<^sup>* s t \<Longrightarrow> goals_evolve s t"
  by (induction rule: rtranclp_induct) (auto intro: goals_evolve_refl goals_evolve_trans goal_step_evolves)

text \<open>The blocker of a goal was met as often in a row as the row says, and never more than three times.\<close>

definition blocker_row_ok :: "string \<Rightarrow> goal_row \<Rightarrow> db \<Rightarrow> bool" where
  "blocker_row_ok k g s \<longleftrightarrow> 0 \<le> g_consecutiveBlockerCount g \<and> g_consecutiveBlockerCount g \<le> 3
     \<and> (g_consecutiveBlockerCount g = 3 \<longrightarrow> g_status g \<in> {G_BLOCKED, G_CANCELLED})
     \<and> (g_consecutiveBlockerCount g \<noteq> 0 \<longrightarrow> (\<exists>fp. g_blockerFingerprint g = Some fp \<and> blocker_met k fp (nat (g_consecutiveBlockerCount g)) s))"

definition blockers_ok :: "db \<Rightarrow> bool" where
  "blockers_ok s \<longleftrightarrow> (\<forall>k g. goal_get k s = Some g \<longrightarrow> blocker_row_ok k g s)"

lemma blocker_row_between:
  assumes "blocker_row_ok k g s" and "goal_step s t" and "goal_get k s = Some g" and "goal_get k t = Some h"
    and "g_blockerFingerprint h = g_blockerFingerprint g" and "g_consecutiveBlockerCount h = g_consecutiveBlockerCount g"
    and "g_consecutiveBlockerCount h = 3 \<longrightarrow> g_status h \<in> {G_BLOCKED, G_CANCELLED}"
  shows "blocker_row_ok k h t"
  using assms(1,5-7) blocker_met.between [OF _ assms(2-6)] by (auto simp: blocker_row_ok_def)

lemma blocker_row_kept:
  assumes "blocker_row_ok k g s" and "goal_step s t" and "goal_get k s = Some g" and "goal_get k t = Some h"
    and "goal_move g h" and "blocker_kept g h"
  shows "blocker_row_ok k h t"
proof (cases "g_consecutiveBlockerCount h = 0")
  case True
  then show ?thesis by (simp add: blocker_row_ok_def)
next
  case False
  with assms(6) have same: "g_blockerFingerprint h = g_blockerFingerprint g" "g_consecutiveBlockerCount h = g_consecutiveBlockerCount g"
    "g_status h \<noteq> G_BLOCKED" "g_status h = G_ACTIVE \<longrightarrow> g_status g = G_ACTIVE" by (auto simp: blocker_kept_def)
  have "g_status h = G_CANCELLED" if "g_consecutiveBlockerCount g = 3"
  proof -
    from that assms(1) have "g_status g \<in> {G_BLOCKED, G_CANCELLED}" by (simp add: blocker_row_ok_def)
    then show ?thesis using assms(5) same(3,4) by (auto simp: goal_move_def goal_open_def GOAL_TRANSITIONS_def)
  qed
  with same show ?thesis by (intro blocker_row_between [OF assms(1-4)]) auto
qed

lemma blocker_row_counted:
  assumes "blocker_row_ok k g s" and "reportBlocker gs now c k r note s = (Inr out, t)" and "blocker_counted (blocker_of gs note) g h"
  shows "blocker_row_ok k h t"
proof -
  let ?fp = "blocker_of gs note" and ?n = "g_consecutiveBlockerCount g"
  have n: "0 \<le> ?n" "?n \<le> 2" using assms(1,3) by (auto simp: blocker_row_ok_def blocker_counted_def)
  have "blocker_met k ?fp (nat (g_consecutiveBlockerCount h)) t"
  proof (cases "g_blockerFingerprint g = Some ?fp \<and> ?n \<noteq> 0")
    case True
    with assms(1) have "blocker_met k ?fp (nat ?n) s" by (auto simp: blocker_row_ok_def)
    from blocker_met.again [OF this assms(2)] True assms(3) n show ?thesis
      by (simp add: blocker_counted_def Suc_nat_eq_nat_zadd1 add.commute)
  next
    case False
    with blocker_met.first [OF assms(2), where fp = ?fp] assms(3) show ?thesis by (auto simp: blocker_counted_def)
  qed
  with assms(3) n show ?thesis by (auto simp: blocker_row_ok_def blocker_counted_def split: if_splits)
qed

lemma goal_step_blockers:
  assumes "goal_step s t" and "distinct (map g_goalId (agent_goals s))" and "blockers_ok s"
  shows "blockers_ok t"
  unfolding blockers_ok_def
proof (intro allI impI)
  fix k h assume h: "goal_get k t = Some h"
  have same: "blocker_row_ok k h t" if "goal_get k s = Some h"
    using that assms(3) blocker_row_between [OF _ assms(1) that h] by (auto simp: blockers_ok_def blocker_row_ok_def)
  have moved: "blocker_row_ok k h t"
    if m: "goal_moves Q j s t" and Q: "\<And>g. j = k \<Longrightarrow> goal_get k s = Some g \<Longrightarrow> goal_move g h \<Longrightarrow> Q g h \<Longrightarrow> blocker_row_ok k h t" for Q j
    using m by (rule moves_get) (use h same Q in \<open>auto split: if_splits\<close>)
  from goal_step_cases [OF assms(1,2)] show "blocker_row_ok k h t"
  proof (elim disjE exE)
    assume "t = s"
    with h assms(3) show ?thesis by (simp add: blockers_ok_def)
  next
    assume "goal_added s t"
    from added_rows(2) [OF this h] same show ?thesis by (auto simp: blocker_row_ok_def)
  next
    fix j assume "goal_moves blocker_kept j s t"
    then show ?thesis
      by (rule moved) (use assms(1) assms(3) [unfolded blockers_ok_def] h blocker_row_kept in \<open>blast\<close>)
  next
    assume "goal_reported s t"
    then obtain gs now c j r tx out where r: "reportBlocker gs now c j r tx s = (Inr out, t)"
      and m: "goal_moves (blocker_counted (blocker_of gs tx)) j s t" by (auto simp: goal_reported_def)
    from m show ?thesis
      by (rule moved) (use assms(3) [unfolded blockers_ok_def] r blocker_row_counted in \<open>blast\<close>)
  qed
qed

lemma goal_steps_blockers: "goal_step\<^sup>*\<^sup>* s t \<Longrightarrow> goals_ok s \<Longrightarrow> blockers_ok s \<Longrightarrow> blockers_ok t"
proof (induction rule: rtranclp_induct)
  case (step t u)
  then have "goals_ok t" using goal_steps_evolve by (simp add: goals_evolve_def)
  with step show ?case by (auto intro: goal_step_blockers simp: goals_ok_def)
qed

text \<open>C21. The life of a goal. From a database without goals on, after any calls of the goal service: the next call leaves a goal
  as it is or writes it once, under the next revision, with the status it had or one that the transition table lists after it. A goal
  that has ended never changes again, its revision names its row, and the revision of its plan and its number of continuations only
  grow. A goal is completed only with all steps of its plan completed; it is blocked only after the last three reports were of one and
  the same blocker with nothing between that made it forget; and a conversation never has two open goals.\<close>

theorem goal_lifecycle:
  assumes "agent_goals s0 = []" and "step_ids_ok s0" and "goal_step\<^sup>*\<^sup>* s0 s" and "goal_step\<^sup>*\<^sup>* s t" and "goal_step t u"
    and "goal_get k s = Some g"
  shows "(\<exists>h i. goal_get k t = Some h \<and> goal_get k u = Some i \<and> goal_evolves g h
        \<and> (i = h \<or> g_revision i = g_revision h + 1 \<and> goal_open (g_status h)
            \<and> (g_status i = g_status h \<or> g_status i \<in> GOAL_TRANSITIONS (g_status h))))
    \<and> (g_status g = G_COMPLETED \<longrightarrow> list_all (\<lambda>p. ps_status p = S_COMPLETED) (listSteps k s))
    \<and> (g_status g = G_BLOCKED \<longrightarrow> (\<exists>fp. g_blockerFingerprint g = Some fp \<and> blocker_met k fp 3 s))
    \<and> \<not> other_open g s"
proof -
  have ok0: "goals_ok s0" "blockers_ok s0" using assms(1,2) by (simp_all add: goals_ok_def blockers_ok_def goal_get_def tbl_get_def)
  with goal_steps_evolve [OF assms(3)] have ok: "goals_ok s" by (simp add: goals_evolve_def)
  with goal_steps_evolve [OF assms(4)] have okt: "distinct (map g_goalId (agent_goals t))" by (simp add: goals_evolve_def goals_ok_def)
  have "g \<in> set (agent_goals s)" "g_goalId g = k" using assms(6) by (auto simp: goal_get_def dest: tbl_get_key)
  with ok have shape: "goal_shape g" "g_status g = G_COMPLETED \<longrightarrow> steps_done k s" "\<not> other_open g s" by (auto simp: goals_ok_def)
  have row: "blocker_row_ok k g s" using goal_steps_blockers [OF assms(3) ok0] assms(6) by (simp add: blockers_ok_def)
  have "\<exists>fp. g_blockerFingerprint g = Some fp \<and> blocker_met k fp 3 s" if "g_status g = G_BLOCKED"
  proof -
    from that shape(1) row have "g_consecutiveBlockerCount g = 3" by (simp add: goal_shape_def blocker_row_ok_def)
    with row show ?thesis by (simp add: blocker_row_ok_def)
  qed
  moreover obtain h where h: "goal_get k t = Some h" "goal_evolves g h"
    using goal_steps_evolve [OF assms(4)] ok assms(6) by (auto simp: goals_evolve_def)
  ultimately show ?thesis using goal_step_rows [OF assms(5) okt h(1)] shape by (auto simp: goal_move_def steps_done_def)
qed

definition goal_ids :: "nat \<Rightarrow> string" where
  "goal_ids n = [''g'', ''p1''] ! n"

definition sample_caller :: goal_caller where
  "sample_caller = \<lparr>gc_workspaceId = ''w'', gc_conversationId = ''c1'', gc_sourceRunId = None, gc_sourceAttemptId = None\<rparr>"

definition sample_goals :: goal_service where
  "sample_goals = \<lparr>gs_fold = (\<lambda>t. t), gs_sha256 = no_hash\<rparr>"

definition sample_goal :: goal_row where
  "sample_goal = new_goal ''g'' sample_caller ''ship'' 0"

definition created_goal_db :: db where
  "created_goal_db = snd (goal_create sample_goals goal_ids 0 sample_caller ''ship'' None conversation_db)"

definition completed_goal_db :: db where
  "completed_goal_db = snd (goal_complete 2 sample_caller ''g'' 1 None created_goal_db)"

lemmas goal_defs = goal_create_def goal_bounded_def plan_titles_def res_bind_def svc_bind_def svc_of_def transaction_def provenance_def
  goal_ids_def sample_caller_def sample_goals_def insertGoal_def snapshotPlan_def goal_event_def goal_nextEventSequence_def
  goal_appendEvent_def toGoal_def new_steps_def new_goal_def getOpen_def goals_of_def goal_checks_def goal_refs_def run_ref_def
  attempt_ref_def goal_get_def other_open_def goal_open_def getExecution_def

lemma created_goal:
  "agent_goals created_goal_db = [sample_goal]" "agent_goal_executions created_goal_db = []" "listSteps ''g'' created_goal_db = []"
  "getConversation ''c1'' created_goal_db = Some sample_conversation"
  by (simp_all add: created_goal_db_def listSteps_def listPlanRevisionSteps_def getPlanRevisionStep_def sample_goal_def goal_defs
      statement_defs table_reads sample_defs or_default_def)

lemma completed_goal: "agent_goals completed_goal_db = [sample_goal\<lparr>g_status := G_COMPLETED, g_terminalAt := Some 2, g_updatedAt := 2, g_revision := 2\<rparr>]"
  by (simp add: completed_goal_db_def goal_complete_def active_goal_def owned_goal_def assertExecutionNotActive_def changed_def updateGoal_def
      patched_goal_def goal_keep_def optional_note_def listSteps_def goal_defs statement_defs table_reads sample_defs or_default_def
      listPlanRevisionSteps_def getPlanRevisionStep_def created_goal_db_def sample_goal_def)

lemma sample_goal_steps: "goal_step conversation_db created_goal_db" "goal_step created_goal_db completed_goal_db"
  unfolding created_goal_db_def completed_goal_db_def by (rule goal_step.intros, rule prod.collapse [symmetric])+

theorem goal_lifecycle_witness:
  "(\<exists>h i. goal_get ''g'' created_goal_db = Some h \<and> goal_get ''g'' completed_goal_db = Some i \<and> g_revision i = g_revision h + 1
      \<and> G_COMPLETED \<in> GOAL_TRANSITIONS G_ACTIVE) \<and> \<not> other_open sample_goal created_goal_db"
proof -
  have g: "goal_get ''g'' created_goal_db = Some sample_goal"
    using created_goal(1) by (simp add: goal_get_def tbl_get_def sample_goal_def new_goal_def)
  obtain i where i: "goal_get ''g'' completed_goal_db = Some i" "g_status i = G_COMPLETED"
    using completed_goal by (simp add: goal_get_def tbl_get_def sample_goal_def new_goal_def)
  have a: "g_status sample_goal = G_ACTIVE" by (simp add: sample_goal_def new_goal_def)
  have "agent_goals conversation_db = []" "step_ids_ok conversation_db" by (simp_all add: step_ids_ok_def conversation_db_def empty_db_def)
  from goal_lifecycle [OF this r_into_rtranclp [of goal_step, OF sample_goal_steps(1)] rtranclp.rtrancl_refl sample_goal_steps(2) g] g i a
  show ?thesis by auto
qed

end
