(* ===== verification/Task_Flow_Controller.thy ===== *)
theory Task_Flow_Controller
  imports Task_Flow_Service Conversation_Service
begin

text \<open>
  \<open>packages/task-flows/src/controller-runtime.ts\<close>: the runtime a controller drives a managed flow with, bound to one
  conversation and one controller. Parameters: the services it is made of, the hash \<open>sha256\<close>, \<open>scheduleRun\<close>, which only
  puts a run into the queue of the host and says whether it did, \<open>cancelTask\<close>, the identifiers, and the readings of the
  clock in the order in which they are taken.
\<close>

section \<open>The runtime\<close>

record controller_env =
  ce_flows :: flow_service
  ce_conversations :: conversation_service
  ce_taskWorkspaceIds :: "string list"
  ce_sha256 :: "string \<Rightarrow> string"
  ce_scheduleRun :: "string \<Rightarrow> bool"
  ce_cancelTask :: "(task_row \<Rightarrow> task_row svc) option"

record controller =
  ct_env :: controller_env
  ct_workspaceId :: string
  ct_ownerKey :: string
  ct_controllerId :: string

definition flow_digest :: "controller_env \<Rightarrow> json \<Rightarrow> string" where
  "flow_digest ce v = ce_sha256 ce (canonical v)"

definition deterministicFlowId :: "controller \<Rightarrow> string \<Rightarrow> string" where
  "deterministicFlowId ct requestKey = ''flow:'' @ flow_digest (ct_env ct) (JObj [(''workspaceId'', JStr (ct_workspaceId ct)),
     (''ownerKey'', JStr (ct_ownerKey ct)), (''controllerId'', JStr (ct_controllerId ct)), (''requestKey'', JStr requestKey)])"

definition deterministicSubmissionKey :: "controller_env \<Rightarrow> string \<Rightarrow> string \<Rightarrow> string" where
  "deterministicSubmissionKey ce flowId requestKey =
     ''flow-task:'' @ flow_digest ce (JObj [(''flowId'', JStr flowId), (''requestKey'', JStr requestKey)])"

text \<open>The constructor, called by \<open>TaskFlowControllerRuntimeFactory.bind\<close>.\<close>

definition ctl_bind :: "controller_env \<Rightarrow> int \<Rightarrow> string \<Rightarrow> string \<Rightarrow> string \<Rightarrow> controller svc" where
  "ctl_bind ce now workspaceId ownerKey controllerId =
     svc_bind (svc_of (flow_bounded workspaceId 64)) (\<lambda>w.
     svc_bind (svc_of (flow_bounded ownerKey 256)) (\<lambda>owner.
     svc_bind (svc_of (flow_bounded controllerId 128)) (\<lambda>c.
     svc_bind (conversation_get (ce_conversations ce) now w owner) (\<lambda>v.
     svc_bind (svc_require (cv_workspaceId (cy_conversation (cw_summary v)) = w) (Flow_Error TASK_FLOW_ACCESS_DENIED)) (\<lambda>_.
     svc_return \<lparr>ct_env = ce, ct_workspaceId = w, ct_ownerKey = owner, ct_controllerId = c\<rparr>)))))"

definition assertControlled :: "controller \<Rightarrow> flow_row \<Rightarrow> unit svc" where
  "assertControlled ct flow = svc_require (f_controllerId flow = ct_controllerId ct) (Flow_Error TASK_FLOW_ACCESS_DENIED)"

definition bounded_state :: "json \<Rightarrow> err + unit" where
  "bounded_state v = require (length (canonical v) \<le> 262144) invalid_argument"

section \<open>Creating a managed flow\<close>

record managed_input =
  mg_requestKey :: string
  mg_goal :: string
  mg_currentStep :: "string option"
  mg_state :: json
  mg_running :: "bool option"

type_synonym managed_hook = "flow_row \<Rightarrow> bool \<Rightarrow> int \<Rightarrow> db \<Rightarrow> err + db"

definition managed_fingerprint :: "controller_env \<Rightarrow> string \<Rightarrow> string option \<Rightarrow> json \<Rightarrow> flow_status \<Rightarrow> string" where
  "managed_fingerprint ce goal currentStep state status = flow_digest ce (JObj [(''goal'', JStr goal),
     (''currentStep'', jopt_str currentStep), (''state'', state), (''status'', JStr (flow_status_name status))])"

text \<open>The input hash that was recorded when the flow was created.\<close>

definition created_hash :: "string \<Rightarrow> db \<Rightarrow> json" where
  "created_hash flowId s = (case find (\<lambda>e. fe_eventType e = ''taskFlow.created'') (flow_listEvents flowId 200 s) of
     None \<Rightarrow> JUndef | Some e \<Rightarrow> json_field ''inputHash'' (fe_payload e))"

definition managed_row :: "controller \<Rightarrow> string \<Rightarrow> string \<Rightarrow> string option \<Rightarrow> json \<Rightarrow> flow_status \<Rightarrow> int \<Rightarrow> flow_row" where
  "managed_row ct flowId goal currentStep state status now = \<lparr>f_flowId = flowId, f_workspaceId = ct_workspaceId ct,
     f_ownerKey = ct_ownerKey ct, f_controllerId = ct_controllerId ct, f_goal = goal, f_status = status,
     f_currentStep = currentStep, f_blockedTaskId = None, f_blockedSummary = None, f_state = state, f_wait = JNull,
     f_cancelRequestedAt = None, f_createdAt = now, f_updatedAt = now, f_endedAt = None, f_cleanupAfter = None, f_revision = 1\<rparr>"

definition create_transaction ::
    "controller \<Rightarrow> managed_hook \<Rightarrow> string \<Rightarrow> string \<Rightarrow> string \<Rightarrow> flow_row \<Rightarrow> (flow_row \<times> bool) rop" where
  "create_transaction ct hook flowId fingerprint requestKey row =
     rop_bind (rop_found (Flow_Error TASK_FLOW_NOT_FOUND) (getConversation (ct_ownerKey ct))) (\<lambda>owner.
     rop_bind (rop_require (c_workspaceId owner = ct_workspaceId ct) (Flow_Error TASK_FLOW_ACCESS_DENIED)) (\<lambda>_.
     rop_bind (rop_read (\<lambda>s. (flow_get flowId s, created_hash flowId s))) (\<lambda>(existing, inputHash).
     (case existing of
        Some f \<Rightarrow>
          rop_bind (rop_require (f_workspaceId f = ct_workspaceId ct \<and> f_ownerKey f = ct_ownerKey ct
              \<and> f_controllerId f = ct_controllerId ct \<and> inputHash = JStr fingerprint) (Flow_Error TASK_FLOW_REQUEST_CONFLICT)) (\<lambda>_.
          rop_bind (rop_do (hook f True (f_createdAt row))) (\<lambda>_.
          rop_return (f, True)))
      | None \<Rightarrow>
          rop_bind (rop_do (flow_insert row)) (\<lambda>_.
          rop_bind (rop_do (flow_appendEvent \<lparr>fe_flowId = flowId, fe_sequence = 1, fe_eventType = ''taskFlow.created'',
              fe_status = f_status row, fe_revision = 1,
              fe_payload = JObj [(''controllerId'', JStr (ct_controllerId ct)),
                (''requestHash'', JStr (flow_digest (ct_env ct) (JStr requestKey))), (''inputHash'', JStr fingerprint),
                (''currentStep'', jopt_str (f_currentStep row))],
              fe_emittedAt = f_createdAt row\<rparr>)) (\<lambda>_.
          rop_bind (rop_do (hook row False (f_createdAt row))) (\<lambda>_.
          rop_return (row, False))))))))"

definition createManaged :: "controller \<Rightarrow> managed_hook \<Rightarrow> int \<Rightarrow> managed_input \<Rightarrow> (flow_row \<times> bool) svc" where
  "createManaged ct hook now i =
     svc_bind (svc_of (flow_bounded (mg_requestKey i) 128)) (\<lambda>requestKey.
     svc_bind (svc_of (flow_bounded (mg_goal i) 65536)) (\<lambda>goal.
     svc_bind (svc_of (optionalBounded (mg_currentStep i) 256)) (\<lambda>currentStep.
     let state = (if mg_state i = JUndef then JNull else mg_state i) in
     svc_bind (svc_of (bounded_state state)) (\<lambda>_.
     let status = initial_status (mg_running i); flowId = deterministicFlowId ct requestKey in
     transaction (create_transaction ct hook flowId (managed_fingerprint (ct_env ct) goal currentStep state status) requestKey
       (managed_row ct flowId goal currentStep state status now))))))"

section \<open>Reading\<close>

definition ctl_get :: "controller \<Rightarrow> string \<Rightarrow> flow_view svc" where
  "ctl_get ct flowId =
     svc_bind (svc_of (flow_bounded flowId 256)) (\<lambda>normalized.
     svc_bind (flow_service_get (ce_flows (ct_env ct)) (ct_workspaceId ct) (ct_ownerKey ct) normalized) (\<lambda>v.
     svc_bind (assertControlled ct (fv_flow v)) (\<lambda>_. svc_return v)))"

text \<open>A limit of 0 is left out, and so the default of the service.\<close>

definition ctl_list :: "controller \<Rightarrow> flow_status option \<Rightarrow> int option \<Rightarrow> flow_row list svc" where
  "ctl_list ct status limit = flow_service_list (ce_flows (ct_env ct)) (ct_workspaceId ct) (ct_ownerKey ct) status
     (Some (ct_controllerId ct)) (if limit = Some 0 then None else limit)"

section \<open>Admitting a child\<close>

record child_input =
  ch_flowId :: string
  ch_expectedRevision :: int
  ch_requestKey :: string
  ch_stepKey :: string
  ch_text :: string
  ch_state :: json

type_synonym admission_hook = "flow_row \<Rightarrow> task_row \<Rightarrow> run_row \<Rightarrow> message_row \<Rightarrow> bool \<Rightarrow> int \<Rightarrow> db \<Rightarrow> err + db"

definition no_admission_hook :: admission_hook where
  "no_admission_hook flow task run message replayed now s = Inr s"

record admitted =
  ad_taskId :: string
  ad_run :: run_row
  ad_message :: message_row
  ad_replayed :: bool

text \<open>A request that was admitted before: the message is found by its submission key.\<close>

definition admit_again :: "flow_row \<Rightarrow> string \<Rightarrow> admission_hook \<Rightarrow> int \<Rightarrow> send_result \<Rightarrow> admitted rop" where
  "admit_again flow stepKey hook now sent =
     rop_bind (rop_read (\<lambda>s. case task_getByRun (r_runId (sr_run sent)) s of None \<Rightarrow> None
        | Some t \<Rightarrow> (case getTaskLink (t_taskId t) s of None \<Rightarrow> None | Some l \<Rightarrow> Some (t, l)))) (\<lambda>found.
     (case found of
        None \<Rightarrow> rop_throw (Flow_Error TASK_FLOW_REQUEST_CONFLICT)
      | Some (task, link) \<Rightarrow>
          rop_bind (rop_require (l_flowId link = f_flowId flow \<and> l_stepKey link = Some stepKey)
            (Flow_Error TASK_FLOW_REQUEST_CONFLICT)) (\<lambda>_.
          rop_bind (rop_do (hook flow task (sr_run sent) (sr_message sent) True now)) (\<lambda>_.
          rop_return \<lparr>ad_taskId = t_taskId task, ad_run = sr_run sent, ad_message = sr_message sent, ad_replayed = True\<rparr>))))"

definition admission_guards :: "flow_row \<Rightarrow> int \<Rightarrow> err + unit" where
  "admission_guards flow expectedRevision =
     res_bind (require (f_revision flow = expectedRevision) (Flow_Error TASK_FLOW_REVISION_CONFLICT)) (\<lambda>_.
     res_bind (require (\<not> flow_terminal (f_status flow)) (Flow_Error TASK_FLOW_STATE_INVALID)) (\<lambda>_.
     res_bind (require (f_cancelRequestedAt flow = None) (Flow_Error TASK_FLOW_STATE_INVALID)) (\<lambda>_.
     require (f_status flow = F_QUEUED \<or> f_status flow = F_RUNNING) (Flow_Error TASK_FLOW_STATE_INVALID))))"

definition admission_patch :: "flow_row \<Rightarrow> string \<Rightarrow> json \<Rightarrow> int \<Rightarrow> flow_patch" where
  "admission_patch flow stepKey state now = \<lparr>fu_flowId = f_flowId flow, fu_expectedRevision = f_revision flow,
     fu_status = F_RUNNING, fu_currentStep = Some stepKey, fu_blockedTaskId = None, fu_blockedSummary = None,
     fu_state = (if state = JUndef then f_state flow else state), fu_wait = JNull, fu_cancelRequestedAt = None,
     fu_updatedAt = now, fu_endedAt = None, fu_cleanupAfter = None\<rparr>"

definition admit_new ::
    "controller \<Rightarrow> flow_row \<Rightarrow> child_input \<Rightarrow> admission_hook \<Rightarrow> int \<Rightarrow> send_result \<Rightarrow> admitted rop" where
  "admit_new ct flow i hook now sent =
     rop_bind (classifyRun \<lparr>ci_runId = r_runId (sr_run sent), ci_runtime = CONVERSATION, ci_taskKind = ''task_flow.child'',
         ci_sourceId = Some (f_flowId flow), ci_parentRunId = None, ci_notifyPolicy = Some DONE_ONLY, ci_updatedAt = now\<rparr>) (\<lambda>task.
     rop_bind (flow_linkTask \<lparr>l_flowId = f_flowId flow, l_taskId = t_taskId task, l_stepKey = Some (ch_stepKey i), l_linkedAt = now\<rparr>) (\<lambda>linked.
     rop_bind (rop_require (linked = LINKED) (Flow_Error TASK_FLOW_TASK_CONFLICT)) (\<lambda>_.
     rop_bind (flow_update (admission_patch flow (ch_stepKey i) (ch_state i) now)) (\<lambda>changed.
     (case changed of
        None \<Rightarrow> rop_throw (Flow_Error TASK_FLOW_REVISION_CONFLICT)
      | Some updated \<Rightarrow>
          rop_bind (rop_read (flow_nextEventSequence (f_flowId flow))) (\<lambda>sequence.
          rop_bind (rop_do (flow_appendEvent \<lparr>fe_flowId = f_flowId flow, fe_sequence = sequence,
              fe_eventType = ''taskFlow.task.admitted'', fe_status = f_status updated, fe_revision = f_revision updated,
              fe_payload = JObj [(''taskId'', JStr (t_taskId task)), (''runId'', JStr (r_runId (sr_run sent))),
                (''stepKey'', JStr (ch_stepKey i)), (''requestHash'', JStr (flow_digest (ct_env ct) (JStr (ch_requestKey i))))],
              fe_emittedAt = now\<rparr>)) (\<lambda>_.
          rop_bind (rop_do (hook updated task (sr_run sent) (sr_message sent) False now)) (\<lambda>_.
          rop_return \<lparr>ad_taskId = t_taskId task, ad_run = sr_run sent, ad_message = sr_message sent, ad_replayed = False\<rparr>))))))))"

definition child_send :: "controller \<Rightarrow> string \<Rightarrow> string \<Rightarrow> send_input" where
  "child_send ct submissionKey text = \<lparr>sd_workspaceId = ct_workspaceId ct, sd_conversationId = ct_ownerKey ct,
     sd_submissionKey = submissionKey, sd_text = text\<rparr>"

text \<open>The transaction of \<open>runTask\<close> over arguments already normalized; \<open>clock 0\<close> is its own reading of the clock, the other
  two are those of \<open>sendInTransaction\<close>.\<close>

definition admit_transaction ::
    "controller \<Rightarrow> (nat \<Rightarrow> string) \<Rightarrow> (nat \<Rightarrow> int) \<Rightarrow> admission_hook \<Rightarrow> child_input \<Rightarrow> admitted rop" where
  "admit_transaction ct ids clock hook i =
     (let submissionKey = deterministicSubmissionKey (ct_env ct) (ch_flowId i) (ch_requestKey i);
          send = sendInTransaction (ce_conversations (ct_env ct)) ids (clock 1) (clock 2) (child_send ct submissionKey (ch_text i)) in
      rop_bind (rop_found (Flow_Error TASK_FLOW_NOT_FOUND) (flow_get (ch_flowId i))) (\<lambda>flow.
      rop_bind (rop_require (f_workspaceId flow = ct_workspaceId ct \<and> f_ownerKey flow = ct_ownerKey ct) (Flow_Error TASK_FLOW_ACCESS_DENIED)) (\<lambda>_.
      rop_bind (rop_require (f_controllerId flow = ct_controllerId ct) (Flow_Error TASK_FLOW_ACCESS_DENIED)) (\<lambda>_.
      rop_bind (rop_read (getSubmission (ct_ownerKey ct) submissionKey)) (\<lambda>existing.
      if existing \<noteq> None then rop_bind send (admit_again flow (ch_stepKey i) hook (clock 0))
      else
        rop_bind (rop_of (admission_guards flow (ch_expectedRevision i))) (\<lambda>_.
        rop_bind send (admit_new ct flow i hook (clock 0))))))))"

definition normal_child :: "child_input \<Rightarrow> err + child_input" where
  "normal_child i =
     res_bind (flow_bounded (ch_flowId i) 256) (\<lambda>flowId.
     res_bind (flow_bounded (ch_requestKey i) 128) (\<lambda>requestKey.
     res_bind (flow_bounded (ch_stepKey i) 256) (\<lambda>stepKey.
     res_bind (flow_bounded (ch_text i) 65536) (\<lambda>text.
     res_bind (if ch_state i = JUndef then Inr () else bounded_state (ch_state i)) (\<lambda>_.
     Inr (i\<lparr>ch_flowId := flowId, ch_requestKey := requestKey, ch_stepKey := stepKey, ch_text := text\<rparr>))))))"

record admission_result =
  ar_flow :: flow_view
  ar_task :: task_row
  ar_run :: run_row
  ar_message :: message_row
  ar_replayed :: bool
  ar_scheduled :: bool

definition schedulable :: "run_status \<Rightarrow> bool" where
  "schedulable st \<longleftrightarrow> st = R_CREATED \<or> st = R_RUNNING"

definition runTask ::
    "controller \<Rightarrow> (nat \<Rightarrow> string) \<Rightarrow> (nat \<Rightarrow> int) \<Rightarrow> admission_hook \<Rightarrow> child_input \<Rightarrow> admission_result svc" where
  "runTask ct ids clock hook input =
     svc_bind (svc_of (normal_child input)) (\<lambda>i.
     svc_bind (transaction (admit_transaction ct ids clock hook i)) (\<lambda>a.
     let scheduled = schedulable (r_status (ad_run a)) \<and> ce_scheduleRun (ct_env ct) (r_runId (ad_run a)) in
     svc_bind (task_service_get (ce_taskWorkspaceIds (ct_env ct)) (ct_workspaceId ct) (ad_taskId a)) (\<lambda>v.
     svc_bind (ctl_get ct (ch_flowId i)) (\<lambda>flow.
     svc_return \<lparr>ar_flow = flow, ar_task = vw_task v, ar_run = ad_run a, ar_message = ad_message a, ar_replayed = ad_replayed a,
       ar_scheduled = scheduled\<rparr>))))"

section \<open>Transitions\<close>

record move_input =
  tn_flowId :: string
  tn_expectedRevision :: int
  tn_currentStep :: "string option option"
  tn_state :: json

definition ctl_ref :: "controller \<Rightarrow> move_input \<Rightarrow> flow_ref" where
  "ctl_ref ct i = \<lparr>fr_workspaceId = ct_workspaceId ct, fr_ownerKey = ct_ownerKey ct, fr_flowId = tn_flowId i,
     fr_expectedRevision = tn_expectedRevision i, fr_currentStep = tn_currentStep i, fr_state = tn_state i\<rparr>"

text \<open>Every method first reads the flow and checks whose it is.\<close>

definition controlled :: "controller \<Rightarrow> string \<Rightarrow> 'a svc \<Rightarrow> 'a svc" where
  "controlled ct flowId m =
     svc_bind (flow_service_get (ce_flows (ct_env ct)) (ct_workspaceId ct) (ct_ownerKey ct) flowId) (\<lambda>v.
     svc_bind (assertControlled ct (fv_flow v)) (\<lambda>_. m))"

definition ctl_setWaiting :: "controller \<Rightarrow> flow_hook \<Rightarrow> int \<Rightarrow> move_input \<Rightarrow> json \<Rightarrow> flow_row svc" where
  "ctl_setWaiting ct hook now i wait =
     controlled ct (tn_flowId i) (flow_setWaiting (ce_flows (ct_env ct)) hook now (ctl_ref ct i) wait)"

definition ctl_setBlocked ::
    "controller \<Rightarrow> flow_hook \<Rightarrow> int \<Rightarrow> move_input \<Rightarrow> string \<Rightarrow> string option \<Rightarrow> flow_row svc" where
  "ctl_setBlocked ct hook now i blockedTaskId blockedSummary =
     controlled ct (tn_flowId i) (flow_setBlocked (ce_flows (ct_env ct)) hook now (ctl_ref ct i) blockedTaskId blockedSummary)"

definition ctl_resume :: "controller \<Rightarrow> flow_hook \<Rightarrow> int \<Rightarrow> move_input \<Rightarrow> bool option \<Rightarrow> flow_row svc" where
  "ctl_resume ct hook now i running =
     controlled ct (tn_flowId i) (flow_resume (ce_flows (ct_env ct)) hook now (ctl_ref ct i) running)"

definition ctl_finish :: "controller \<Rightarrow> flow_hook \<Rightarrow> int \<Rightarrow> move_input \<Rightarrow> flow_row svc" where
  "ctl_finish ct hook now i = controlled ct (tn_flowId i) (flow_finish (ce_flows (ct_env ct)) hook now (ctl_ref ct i))"

definition ctl_fail :: "controller \<Rightarrow> flow_hook \<Rightarrow> int \<Rightarrow> move_input \<Rightarrow> string option \<Rightarrow> flow_row svc" where
  "ctl_fail ct hook now i blockedSummary =
     controlled ct (tn_flowId i) (flow_fail (ce_flows (ct_env ct)) hook now (ctl_ref ct i) None blockedSummary)"

definition ctl_requestCancel :: "controller \<Rightarrow> int \<Rightarrow> int \<Rightarrow> string \<Rightarrow> int \<Rightarrow> flow_row svc" where
  "ctl_requestCancel ct requestedAt now flowId expectedRevision = controlled ct flowId
     (flow_requestCancel (ce_flows (ct_env ct)) requestedAt now (ct_workspaceId ct) (ct_ownerKey ct) flowId expectedRevision)"

definition ctl_cancel :: "controller \<Rightarrow> int \<Rightarrow> int \<Rightarrow> int \<Rightarrow> string \<Rightarrow> int \<Rightarrow> flow_cancel_result svc" where
  "ctl_cancel ct requestedAt now1 now2 flowId expectedRevision =
     (case ce_cancelTask (ct_env ct) of
        None \<Rightarrow> svc_of (Inl (Flow_Error TASK_FLOW_EXECUTOR_UNAVAILABLE))
      | Some cancelTask \<Rightarrow> controlled ct flowId
          (flow_cancel (ce_flows (ct_env ct)) cancelTask requestedAt now1 now2 (ct_workspaceId ct) (ct_ownerKey ct) flowId expectedRevision))"

end
