(* ===== verification/Goal_Executor_Base.thy ===== *)
theory Goal_Executor_Base
  imports Goal_Service Task_Flow_Controller
begin

text \<open>
  The first half of \<open>packages/goal-executor/src/service.ts\<close>: the rows of an execution, what it shows of itself, how a blocker is
  recorded and what an execution projects onto the steps of the goal. Parameters: the controller runtimes of the flows with
  their services, the hash \<open>sha256\<close> (that of the runtimes), the identifiers, and the readings of the clock.
\<close>

section \<open>Arguments\<close>

definition exec_error :: "executor_code \<Rightarrow> err" where
  "exec_error c = Executor_Error c"

definition exec_conflict :: err where
  "exec_conflict = Executor_Error GOAL_EXECUTION_REVISION_CONFLICT"

definition exec_bounded :: "string \<Rightarrow> nat \<Rightarrow> err + string" where
  "exec_bounded v limit =
     (let normalized = js_trim v in
      if normalized = [] \<or> length normalized > limit then Inl (exec_error GOAL_EXECUTION_PLAN_INVALID) else Inr normalized)"

definition execution_terminal :: "execution_status \<Rightarrow> bool" where
  "execution_terminal st \<longleftrightarrow> st \<in> {E_SUCCEEDED, E_FAILED, E_CANCELLED}"

definition controllerIdFor :: "string \<Rightarrow> string" where
  "controllerIdFor goalId = ''goal-plan-executor:'' @ goalId"

text \<open>A hook run inside a transaction of the runtime.\<close>

definition rop_run :: "unit rop \<Rightarrow> db \<Rightarrow> err + db" where
  "rop_run m s = (case m s of Inl e \<Rightarrow> Inl e | Inr (t, _) \<Rightarrow> Inr t)"

text \<open>The update must find the row in the revision it was read in.\<close>

definition exec_changed :: "'a option rop \<Rightarrow> 'a rop" where
  "exec_changed m = changed exec_conflict m"

section \<open>Texts\<close>

definition execution_status_name :: "execution_status \<Rightarrow> string" where
  "execution_status_name st = (case st of E_QUEUED \<Rightarrow> ''QUEUED'' | E_RUNNING \<Rightarrow> ''RUNNING'' | E_WAITING \<Rightarrow> ''WAITING''
     | E_BLOCKED \<Rightarrow> ''BLOCKED'' | E_SUCCEEDED \<Rightarrow> ''SUCCEEDED'' | E_FAILED \<Rightarrow> ''FAILED'' | E_CANCELLED \<Rightarrow> ''CANCELLED'')"

definition step_execution_name :: "step_execution_status \<Rightarrow> string" where
  "step_execution_name st = (case st of P_PENDING \<Rightarrow> ''PENDING'' | P_READY \<Rightarrow> ''READY'' | P_RUNNING \<Rightarrow> ''RUNNING''
     | P_WAITING \<Rightarrow> ''WAITING'' | P_BLOCKED \<Rightarrow> ''BLOCKED'' | P_SUCCEEDED \<Rightarrow> ''SUCCEEDED'' | P_FAILED \<Rightarrow> ''FAILED''
     | P_CANCELLED \<Rightarrow> ''CANCELLED'' | P_SKIPPED \<Rightarrow> ''SKIPPED'')"

definition blocker_type_name :: "blocker_type \<Rightarrow> string" where
  "blocker_type_name t = (case t of TASK_OUTPUT \<Rightarrow> ''TASK_OUTPUT'' | TASK_FAILURE \<Rightarrow> ''TASK_FAILURE'' | OPERATOR \<Rightarrow> ''OPERATOR''
     | DEPENDENCY \<Rightarrow> ''DEPENDENCY'' | RETRY_LIMIT \<Rightarrow> ''RETRY_LIMIT'')"

definition exec_taskText :: "goal_row \<Rightarrow> revision_step_row \<Rightarrow> nat \<Rightarrow> string" where
  "exec_taskText g p n = js_join nl [''Goal: '' @ g_objective g,
     ''Plan step '' @ show_int (pr_ordinal p) @ ''/'' @ show_int (int n) @ '': '' @ pr_title p,
     ''Complete this single step and return a concrete final deliverable. Do not return only a progress promise.'']"

definition requestKey :: "string \<Rightarrow> int \<Rightarrow> string \<Rightarrow> int \<Rightarrow> string" where
  "requestKey goalId planRevision stepId attempt =
     ''goal-step:'' @ goalId @ '':'' @ show_int planRevision @ '':'' @ stepId @ '':'' @ show_int attempt"

section \<open>Drafts of a plan\<close>

record draft_step =
  dr_stepId :: string
  dr_ordinal :: int
  dr_title :: string
  dr_required :: bool
  dr_retryMode :: retry_mode
  dr_maxAttempts :: int

text \<open>The steps in the order of their ordinals; \<open>n\<close> is the ordinal that comes next and \<open>ids\<close> the identifiers seen.\<close>

primrec draft_steps :: "int \<Rightarrow> string set \<Rightarrow> draft_step list \<Rightarrow> err + draft_step list" where
  "draft_steps n ids [] = Inr []"
| "draft_steps n ids (d # ds) =
     res_bind (exec_bounded (dr_stepId d) 256) (\<lambda>stepId.
     res_bind (exec_bounded (dr_title d) 1000) (\<lambda>title.
     res_bind (require (stepId \<notin> ids) (exec_error GOAL_EXECUTION_PLAN_INVALID)) (\<lambda>_.
     res_bind (require (dr_ordinal d = n) (exec_error GOAL_EXECUTION_PLAN_INVALID)) (\<lambda>_.
     res_bind (require (1 \<le> dr_maxAttempts d \<and> dr_maxAttempts d \<le> 20) (exec_error GOAL_EXECUTION_PLAN_INVALID)) (\<lambda>_.
     res_bind (draft_steps (n + 1) (insert stepId ids) ds) (\<lambda>rest.
     Inr (d\<lparr>dr_stepId := stepId, dr_title := title\<rparr> # rest)))))))"

definition normalizedDraft :: "draft_step list \<Rightarrow> err + draft_step list" where
  "normalizedDraft steps =
     res_bind (require (1 \<le> length steps \<and> length steps \<le> 200) (exec_error GOAL_EXECUTION_PLAN_INVALID)) (\<lambda>_.
     draft_steps 1 {} (sort_key dr_ordinal steps))"

definition draft_of :: "revision_step_row \<Rightarrow> draft_step" where
  "draft_of p = \<lparr>dr_stepId = pr_stepId p, dr_ordinal = pr_ordinal p, dr_title = pr_title p, dr_required = pr_required p,
     dr_retryMode = pr_retryMode p, dr_maxAttempts = pr_maxAttempts p\<rparr>"

definition sameRevisionDraft :: "revision_step_row list \<Rightarrow> draft_step list \<Rightarrow> bool" where
  "sameRevisionDraft left right \<longleftrightarrow> map draft_of left = right"

text \<open>Everything but the place in the plan.\<close>

definition sameStableStepDefinition :: "draft_step \<Rightarrow> draft_step \<Rightarrow> bool" where
  "sameStableStepDefinition l r \<longleftrightarrow> dr_stepId l = dr_stepId r \<and> dr_title l = dr_title r \<and> dr_required l = dr_required r
     \<and> dr_retryMode l = dr_retryMode r \<and> dr_maxAttempts l = dr_maxAttempts r"

section \<open>Blockers\<close>

text \<open>\<open>replace(/\s+/g, " ")\<close>.\<close>

function collapse_white :: "string \<Rightarrow> string" where
  "collapse_white [] = []"
| "collapse_white (c # cs) = (if js_white c then CHR '' '' # collapse_white (dropWhile js_white cs) else c # collapse_white cs)"
  by pat_completeness auto

termination collapse_white
  by (relation "measure length") (auto simp: le_imp_less_Suc length_dropWhile_le)

definition blocker_key :: "string \<Rightarrow> int \<Rightarrow> string \<Rightarrow> blocker_type \<Rightarrow> string \<Rightarrow> string" where
  "blocker_key goalId planRevision stepId t summary = (case json_stringify (JObj [(''goalId'', JStr goalId),
       (''planRevision'', JNum planRevision), (''stepId'', JStr stepId), (''blockerType'', JStr (blocker_type_name t)),
       (''summary'', JStr (js_lower (collapse_white (js_trim summary))))]) of None \<Rightarrow> [] | Some text \<Rightarrow> text)"

definition exec_fingerprint :: "controller_env \<Rightarrow> string \<Rightarrow> int \<Rightarrow> string \<Rightarrow> blocker_type \<Rightarrow> string \<Rightarrow> string" where
  "exec_fingerprint ce goalId planRevision stepId t summary = ce_sha256 ce (blocker_key goalId planRevision stepId t summary)"

definition recordBlocker ::
    "controller_env \<Rightarrow> string \<Rightarrow> goal_row \<Rightarrow> execution_row \<Rightarrow> step_execution_row \<Rightarrow> string option \<Rightarrow> blocker_type \<Rightarrow> string
     \<Rightarrow> json \<Rightarrow> int \<Rightarrow> blocker_row rop" where
  "recordBlocker ce newId g e x taskId t summary evidence now =
     (let fingerprint = exec_fingerprint ce (g_goalId g) (gx_planRevision e) (sx_stepId x) t summary in
      rop_bind (rop_read (getBlockerByFingerprint (g_goalId g) (sx_stepId x) (gx_planRevision e) fingerprint)) (\<lambda>existing.
      (case existing of
         Some b \<Rightarrow> exec_changed (incrementBlocker (bk_blockerId b) (bk_revision b) taskId summary evidence now)
       | None \<Rightarrow>
           let created = \<lparr>bk_blockerId = ''blocker:'' @ newId, bk_goalId = g_goalId g, bk_stepId = sx_stepId x,
                 bk_planRevision = gx_planRevision e, bk_taskId = taskId, bk_blockerType = t, bk_fingerprint = fingerprint,
                 bk_summary = summary, bk_evidence = evidence, bk_status = B_OPEN, bk_occurrenceCount = 1, bk_createdAt = now,
                 bk_updatedAt = now, bk_resolvedAt = None, bk_resolvedBy = None, bk_resolution = None, bk_revision = 1\<rparr> in
           rop_bind (rop_do (insertBlocker created)) (\<lambda>_. rop_return created))))"

section \<open>The state a flow shows\<close>

definition plan_of_step :: "string \<Rightarrow> revision_step_row list \<Rightarrow> revision_step_row option" where
  "plan_of_step stepId plan = find (\<lambda>p. pr_stepId p = stepId) plan"

definition first_with :: "step_execution_status \<Rightarrow> step_execution_row list \<Rightarrow> step_execution_row option" where
  "first_with st xs = find (\<lambda>x. sx_status x = st) xs"

definition projected_next :: "goal_row \<Rightarrow> int \<Rightarrow> revision_step_row list \<Rightarrow> step_execution_row list \<Rightarrow> json" where
  "projected_next g planRevision plan xs = (case first_with P_READY xs of
     None \<Rightarrow> JNull
   | Some x \<Rightarrow> (case plan_of_step (sx_stepId x) plan of
       None \<Rightarrow> JNull
     | Some p \<Rightarrow> JObj [(''stepId'', JStr (sx_stepId x)), (''ordinal'', JNum (sx_ordinal x)), (''title'', JStr (pr_title p)),
         (''requestKey'', JStr (requestKey (g_goalId g) planRevision (sx_stepId x) (sx_attemptCount x + 1))),
         (''stepKey'', JStr (sx_stepId x)), (''text'', JStr (exec_taskText g p (length plan))), (''attempt'', JNum (sx_attemptCount x + 1))]))"

definition projectedState ::
    "goal_row \<Rightarrow> int \<Rightarrow> execution_status \<Rightarrow> string option \<Rightarrow> revision_step_row list \<Rightarrow> step_execution_row list \<Rightarrow> json" where
  "projectedState g planRevision status currentStepId plan xs = JObj [(''kind'', JStr ''goal-plan-executor''),
     (''mode'', JStr ''SINGLE_ACTIVE_STEP''), (''goalId'', JStr (g_goalId g)), (''planRevision'', JNum planRevision),
     (''executionStatus'', JStr (execution_status_name status)), (''currentStepId'', jopt_str currentStepId),
     (''nextStep'', projected_next g planRevision plan xs),
     (''steps'', JArr (map (\<lambda>x. JObj [(''stepId'', JStr (sx_stepId x)), (''ordinal'', JNum (sx_ordinal x)),
        (''status'', JStr (step_execution_name (sx_status x))), (''currentTaskId'', jopt_str (sx_currentTaskId x)),
        (''attemptCount'', JNum (sx_attemptCount x)), (''terminalOutcome'', outcome_json (sx_lastTerminalOutcome x)),
        (''summary'', jopt_str (sx_lastSummary x))]) xs))]"

section \<open>The rows of an execution\<close>

text \<open>Whose execution is asked for.\<close>

record exec_caller =
  xc_workspaceId :: string
  xc_conversationId :: string
  xc_goalId :: string

definition owned_by :: "goal_row \<Rightarrow> exec_caller \<Rightarrow> bool" where
  "owned_by g c \<longleftrightarrow> g_workspaceId g = xc_workspaceId c \<and> g_conversationId g = xc_conversationId c"

definition execution_owned_by :: "execution_row \<Rightarrow> exec_caller \<Rightarrow> bool" where
  "execution_owned_by e c \<longleftrightarrow> gx_workspaceId e = xc_workspaceId c \<and> gx_conversationId e = xc_conversationId c"

definition assertOwned :: "string \<Rightarrow> exec_caller \<Rightarrow> goal_row rop" where
  "assertOwned goalId c =
     rop_bind (rop_found (exec_error GOAL_EXECUTION_NOT_FOUND) (goal_get goalId)) (\<lambda>g.
     rop_bind (rop_require (owned_by g c) (exec_error GOAL_EXECUTION_ACCESS_DENIED)) (\<lambda>_. rop_return g))"

record execution_rows =
  er_goal :: goal_row
  er_execution :: execution_row
  er_planSteps :: "revision_step_row list"
  er_stepExecutions :: "step_execution_row list"

definition executor_rows :: "string \<Rightarrow> execution_rows svc" where
  "executor_rows goalId = transaction (
     rop_bind (rop_found (exec_error GOAL_EXECUTION_NOT_FOUND) (goal_get goalId)) (\<lambda>g.
     rop_bind (rop_found (exec_error GOAL_EXECUTION_NOT_FOUND) (getExecution goalId)) (\<lambda>e.
     rop_bind (rop_read (\<lambda>s. (listPlanRevisionSteps goalId (gx_planRevision e) s, listStepExecutions goalId (gx_planRevision e) s))) (\<lambda>(plan, xs).
     rop_bind (rop_require (length plan = length xs) (exec_error GOAL_EXECUTION_PLAN_INVALID)) (\<lambda>_.
     rop_return \<lparr>er_goal = g, er_execution = e, er_planSteps = plan, er_stepExecutions = xs\<rparr>)))))"

text \<open>The rows of the caller's execution, as most methods begin.\<close>

definition owned_rows :: "string \<Rightarrow> exec_caller \<Rightarrow> execution_rows svc" where
  "owned_rows goalId c =
     svc_bind (executor_rows goalId) (\<lambda>rows.
     svc_bind (svc_require (owned_by (er_goal rows) c) (exec_error GOAL_EXECUTION_ACCESS_DENIED)) (\<lambda>_. svc_return rows))"

text \<open>\<open>#base\<close>.\<close>

definition exec_base :: "controller_env \<Rightarrow> int \<Rightarrow> execution_row \<Rightarrow> controller svc" where
  "exec_base ce now e = ctl_bind ce now (gx_workspaceId e) (gx_conversationId e) (gx_controllerId e)"

definition canProjectMutablePlanStep :: "goal_row \<Rightarrow> execution_row \<Rightarrow> string \<Rightarrow> db \<Rightarrow> bool" where
  "canProjectMutablePlanStep g e stepId s \<longleftrightarrow> gx_planRevision e = g_planRevision g
     \<or> (case getPlanRevisionStep (g_goalId g) (gx_planRevision e) stepId s of None \<Rightarrow> False
        | Some pinned \<Rightarrow> (case getPlanRevisionStep (g_goalId g) (g_planRevision g) stepId s of None \<Rightarrow> False
            | Some current \<Rightarrow> sameStableStepDefinition (draft_of pinned) (draft_of current)))"

definition active_task :: "step_execution_row \<Rightarrow> bool" where
  "active_task x \<longleftrightarrow> sx_currentTaskId x \<noteq> None \<and> (sx_status x = P_RUNNING \<or> sx_status x = P_WAITING)"

definition assertNoActiveTask :: "execution_rows \<Rightarrow> unit svc" where
  "assertNoActiveTask rows = svc_require (\<not> list_ex active_task (er_stepExecutions rows)) (exec_error GOAL_EXECUTION_STATE_INVALID)"

text \<open>A string that is used as a condition and then looked for.\<close>

definition current_step_of :: "execution_rows \<Rightarrow> step_execution_row option" where
  "current_step_of rows = (case truthy (gx_currentStepId (er_execution rows)) of None \<Rightarrow> None
     | Some k \<Rightarrow> find (\<lambda>x. sx_stepId x = k) (er_stepExecutions rows))"

record decision_snapshot =
  sn_executionRevision :: "int option"
  sn_stepRevision :: "int option"
  sn_flowRevision :: "int option"

definition assertControllerSnapshot :: "controller_env \<Rightarrow> int \<Rightarrow> execution_rows \<Rightarrow> decision_snapshot option \<Rightarrow> unit svc" where
  "assertControllerSnapshot ce now rows expected = (case expected of
     None \<Rightarrow> svc_return ()
   | Some n \<Rightarrow>
       svc_bind (exec_base ce now (er_execution rows)) (\<lambda>base.
       svc_bind (ctl_get base (gx_flowId (er_execution rows))) (\<lambda>v.
       svc_require (opt_eq (sn_executionRevision n) (gx_revision (er_execution rows))
           \<and> (sn_stepRevision n = None \<or> sn_stepRevision n = map_option sx_revision (current_step_of rows))
           \<and> opt_eq (sn_flowRevision n) (f_revision (fv_flow v)))
         (exec_error GOAL_EXECUTION_STALE_DECISION))))"

section \<open>Reading\<close>

record goal_summary =
  gy_goalId :: string
  gy_objective :: string
  gy_status :: goal_status
  gy_revision :: int
  gy_planRevision :: int

record step_view =
  sw_row :: step_execution_row
  sw_title :: string
  sw_planStatus :: step_status

record execution_view =
  xw_goal :: goal_summary
  xw_execution :: execution_row
  xw_steps :: "step_view list"
  xw_blockers :: "blocker_row list"
  xw_flow :: flow_view

definition toStepExecution :: "step_execution_row \<Rightarrow> revision_step_row \<Rightarrow> step_row option \<Rightarrow> step_view" where
  "toStepExecution x p currentPlan = \<lparr>sw_row = x, sw_title = pr_title p, sw_planStatus = (case currentPlan of
       Some q \<Rightarrow> ps_status q
     | None \<Rightarrow> if sx_status x = P_SUCCEEDED then S_COMPLETED
         else if sx_status x = P_BLOCKED \<or> sx_status x = P_FAILED then S_BLOCKED else S_PENDING)\<rparr>"

text \<open>The steps of the goal as they are now, where their definition is the one the execution is pinned to.\<close>

definition current_by_id :: "execution_rows \<Rightarrow> db \<Rightarrow> step_row list" where
  "current_by_id rows s = (let g = er_goal rows; e = er_execution rows in
     if gx_planRevision e = g_planRevision g then listSteps (g_goalId g) s
     else filter (\<lambda>q. (case plan_of_step (ps_stepId q) (er_planSteps rows) of None \<Rightarrow> False
         | Some pinned \<Rightarrow> (case plan_of_step (ps_stepId q) (listPlanRevisionSteps (g_goalId g) (g_planRevision g) s) of None \<Rightarrow> False
             | Some current \<Rightarrow> sameStableStepDefinition (draft_of pinned) (draft_of current)))) (listSteps (g_goalId g) s))"

definition step_views :: "execution_rows \<Rightarrow> step_row list \<Rightarrow> err + step_view list" where
  "step_views rows current = res_map (\<lambda>x. case plan_of_step (sx_stepId x) (er_planSteps rows) of
       None \<Rightarrow> Inl Js_Error
     | Some p \<Rightarrow> Inr (toStepExecution x p (find (\<lambda>q. ps_stepId q = sx_stepId x) current))) (er_stepExecutions rows)"

definition executor_get :: "controller_env \<Rightarrow> exec_caller \<Rightarrow> execution_view svc" where
  "executor_get ce c =
     svc_bind (svc_of (exec_bounded (xc_goalId c) 256)) (\<lambda>goalId.
     svc_bind (owned_rows goalId c) (\<lambda>rows.
     let g = er_goal rows; e = er_execution rows in
     svc_bind (svc_require (execution_owned_by e c) (exec_error GOAL_EXECUTION_ACCESS_DENIED)) (\<lambda>_.
     svc_bind (svc_read (current_by_id rows)) (\<lambda>current.
     svc_bind (svc_read (listBlockers (g_goalId g) (gx_planRevision e) 200)) (\<lambda>blockers.
     svc_bind (svc_of (step_views rows current)) (\<lambda>views.
     svc_bind (flow_service_get (ce_flows ce) (gx_workspaceId e) (gx_conversationId e) (gx_flowId e)) (\<lambda>flow.
     svc_return \<lparr>xw_goal = \<lparr>gy_goalId = g_goalId g, gy_objective = g_objective g, gy_status = g_status g,
         gy_revision = g_revision g, gy_planRevision = g_planRevision g\<rparr>,
       xw_execution = e, xw_steps = views, xw_blockers = blockers, xw_flow = flow\<rparr>)))))))"

definition caller_of :: "execution_row \<Rightarrow> exec_caller" where
  "caller_of e = \<lparr>xc_workspaceId = gx_workspaceId e, xc_conversationId = gx_conversationId e, xc_goalId = gx_goalId e\<rparr>"

definition getByFlow :: "controller_env \<Rightarrow> string \<Rightarrow> execution_view option svc" where
  "getByFlow ce flowId =
     svc_bind (svc_of (exec_bounded flowId 256)) (\<lambda>k.
     svc_bind (svc_read (getExecutionByFlow k)) (\<lambda>found.
     (case found of
        None \<Rightarrow> svc_return None
      | Some e \<Rightarrow> svc_bind (executor_get ce (caller_of e)) (\<lambda>v. svc_return (Some v)))))"

end
