(* ===== verification/Goal_Executor.thy ===== *)
theory Goal_Executor
  imports Goal_Executor_Base
begin

text \<open>
  The second half of \<open>packages/goal-executor/src/service.ts\<close>: \<open>GoalPlanExecutorService\<close>. A method that moves the flow does so
  through the controller runtime, with a hook that moves the execution, its steps, the plan and the goal in the same
  transaction. \<open>clock n\<close> is the \<open>n\<close>-th reading of the clock by a call, \<open>ids n\<close> the \<open>n\<close>-th identifier; a method that calls
  another hands on what it has not used itself. Where a method binds the runtime, the reading that \<open>conversations.get\<close> takes
  is one of them.
\<close>

section \<open>Projections\<close>

text \<open>The patch of a goal that keeps everything but the time.\<close>

definition goal_hold :: "goal_row \<Rightarrow> int \<Rightarrow> goal_patch" where
  "goal_hold g now = \<lparr>gp_goalId = g_goalId g, gp_expectedRevision = g_revision g, gp_status = g_status g,
     gp_lastNote = g_lastNote g, gp_blockerFingerprint = g_blockerFingerprint g,
     gp_consecutiveBlockerCount = g_consecutiveBlockerCount g, gp_continuationCount = g_continuationCount g,
     gp_planRevision = g_planRevision g, gp_sourceRunId = g_sourceRunId g, gp_sourceAttemptId = g_sourceAttemptId g,
     gp_updatedAt = now, gp_terminalAt = None\<rparr>"

definition goal_unblocked :: "goal_row \<Rightarrow> int \<Rightarrow> goal_patch" where
  "goal_unblocked g now = (goal_hold g now)\<lparr>gp_status := G_ACTIVE, gp_blockerFingerprint := None, gp_consecutiveBlockerCount := 0\<rparr>"

definition step_hold :: "step_row \<Rightarrow> step_status \<Rightarrow> int \<Rightarrow> step_patch" where
  "step_hold q status now = \<lparr>sp_goalId = ps_goalId q, sp_stepId = ps_stepId q, sp_expectedRevision = ps_revision q,
     sp_status = status, sp_note = ps_note q, sp_sourceRunId = ps_sourceRunId q, sp_sourceAttemptId = ps_sourceAttemptId q,
     sp_startedAt = ps_startedAt q, sp_completedAt = ps_completedAt q, sp_updatedAt = now\<rparr>"

definition or_some :: "'a option \<Rightarrow> 'a option \<Rightarrow> 'a option" where
  "or_some x y = (case x of None \<Rightarrow> y | Some _ \<Rightarrow> x)"

text \<open>\<open>conversations.getRun(runId)?.currentAttemptId ?? null\<close>.\<close>

definition run_attempt :: "string \<Rightarrow> db \<Rightarrow> string option" where
  "run_attempt runId s = (case getRun runId s of None \<Rightarrow> None | Some r \<Rightarrow> r_currentAttemptId r)"

definition exec_update :: "execution_row \<Rightarrow> execution_status \<Rightarrow> string option \<Rightarrow> int \<Rightarrow> int option \<Rightarrow> unit rop" where
  "exec_update e status currentStepId now endedAt =
     rop_bind (exec_changed (updateExecution (gx_goalId e) (gx_revision e) status currentStepId now endedAt)) (\<lambda>_. rop_return ())"

definition exec_step :: "step_execution_row \<Rightarrow> step_execution_row rop" where
  "exec_step x = exec_changed (updateStepExecution x)"

definition exec_plan_step :: "step_patch \<Rightarrow> unit rop" where
  "exec_plan_step p = rop_bind (exec_changed (goal_updateStep p)) (\<lambda>_. rop_return ())"

definition exec_goal :: "goal_patch \<Rightarrow> unit rop" where
  "exec_goal p = rop_bind (exec_changed (updateGoal p)) (\<lambda>_. rop_return ())"

definition set_step :: "string \<Rightarrow> (step_execution_row \<Rightarrow> step_execution_row) \<Rightarrow> step_execution_row list \<Rightarrow> step_execution_row list" where
  "set_step stepId f xs = map (\<lambda>x. if sx_stepId x = stepId then f x else x) xs"

definition step_done :: "step_execution_row \<Rightarrow> bool" where
  "step_done x \<longleftrightarrow> sx_status x = P_SUCCEEDED \<or> sx_status x = P_SKIPPED"

definition transition :: "execution_row \<Rightarrow> int \<Rightarrow> string option option \<Rightarrow> json \<Rightarrow> move_input" where
  "transition e expectedRevision currentStep state = \<lparr>tn_flowId = gx_flowId e, tn_expectedRevision = expectedRevision,
     tn_currentStep = currentStep, tn_state = state\<rparr>"

section \<open>Admitting the next step\<close>

datatype advance_action = ADV_OBSERVING | ADV_ADMITTED | ADV_WAITING | ADV_BLOCKED | ADV_COMPLETED | ADV_TERMINAL

record advance_result =
  av_view :: execution_view
  av_action :: advance_action
  av_replayed :: bool
  av_scheduled :: bool

definition step_occupied :: "step_execution_row \<Rightarrow> bool" where
  "step_occupied x \<longleftrightarrow> sx_status x = P_RUNNING \<or> sx_status x = P_WAITING \<or> sx_status x = P_BLOCKED"

text \<open>What the admission of a child writes about the execution.\<close>

definition admission_projection ::
    "execution_rows \<Rightarrow> step_execution_row \<Rightarrow> task_row \<Rightarrow> run_row \<Rightarrow> bool \<Rightarrow> int \<Rightarrow> unit rop" where
  "admission_projection rows ready task run replayed now =
     (let k = g_goalId (er_goal rows) in
      rop_bind (rop_found (exec_error GOAL_EXECUTION_NOT_FOUND) (getExecution k)) (\<lambda>e.
      rop_bind (rop_found (exec_error GOAL_EXECUTION_NOT_FOUND) (getStepExecution k (sx_stepId ready) (gx_planRevision (er_execution rows)))) (\<lambda>x.
      rop_bind (rop_found (exec_error GOAL_EXECUTION_NOT_FOUND) (goal_get k)) (\<lambda>g.
      if replayed then rop_require (sx_currentTaskId x = Some (t_taskId task) \<and> sx_status x = P_RUNNING) (exec_error GOAL_EXECUTION_REQUEST_CONFLICT)
      else
        rop_bind (rop_require (gx_revision e = gx_revision (er_execution rows) \<and> sx_revision x = sx_revision ready
            \<and> sx_status x = P_READY) exec_conflict) (\<lambda>_.
        rop_bind (rop_read (listStepExecutions k (gx_planRevision e))) (\<lambda>steps.
        rop_bind (rop_require (\<not> list_ex step_occupied steps) (exec_error GOAL_EXECUTION_STATE_INVALID)) (\<lambda>_.
        rop_bind (exec_step (x\<lparr>sx_status := P_RUNNING, sx_currentTaskId := Some (t_taskId task), sx_attemptCount := sx_attemptCount x + 1,
            sx_lastTerminalOutcome := None, sx_lastSummary := None, sx_startedAt := or_some (sx_startedAt x) (Some now),
            sx_completedAt := None, sx_nextRetryAt := None, sx_lastRetryReason := None, sx_updatedAt := now\<rparr>)) (\<lambda>updated.
        rop_bind (rop_found (exec_error GOAL_EXECUTION_PLAN_INVALID) (getStep (sx_goalId x) (sx_stepId x))) (\<lambda>q.
        rop_bind (rop_read (canProjectMutablePlanStep g e (sx_stepId x))) (\<lambda>can.
        rop_bind (rop_when (can \<and> (ps_status q = S_PENDING \<or> ps_status q = S_BLOCKED)) (exec_plan_step ((step_hold q S_IN_PROGRESS now)
            \<lparr>sp_goalId := sx_goalId x, sp_stepId := sx_stepId x, sp_sourceRunId := Some (r_runId run),
              sp_sourceAttemptId := r_currentAttemptId run, sp_startedAt := or_some (ps_startedAt q) (Some now), sp_completedAt := None\<rparr>))) (\<lambda>_.
        rop_bind (exec_update e E_RUNNING (Some (sx_stepId x)) now None) (\<lambda>_.
        goal_event (gx_goalId e) ''plan.step.task.admitted'' (JObj [(''stepId'', JStr (sx_stepId x)), (''ordinal'', JNum (sx_ordinal x)),
            (''taskId'', JStr (t_taskId task)), (''runId'', JStr (r_runId run)), (''attempt'', JNum (sx_attemptCount updated))])
          (Some (r_runId run)) (r_currentAttemptId run) now))))))))))))"

definition step_request :: "execution_rows \<Rightarrow> step_execution_row \<Rightarrow> revision_step_row \<Rightarrow> int \<Rightarrow> int \<Rightarrow> child_input" where
  "step_request rows x p attempt expectedRevision = \<lparr>ch_flowId = gx_flowId (er_execution rows), ch_expectedRevision = expectedRevision,
     ch_requestKey = requestKey (g_goalId (er_goal rows)) (gx_planRevision (er_execution rows)) (sx_stepId x) attempt,
     ch_stepKey = sx_stepId x, ch_text = exec_taskText (er_goal rows) p (length (er_planSteps rows)), ch_state = JUndef\<rparr>"

definition same_request :: "child_input \<Rightarrow> child_input \<Rightarrow> bool" where
  "same_request a b \<longleftrightarrow> ch_requestKey a = ch_requestKey b \<and> ch_stepKey a = ch_stepKey b \<and> ch_text a = ch_text b"

definition admitReady ::
    "controller_env \<Rightarrow> (nat \<Rightarrow> string) \<Rightarrow> (nat \<Rightarrow> int) \<Rightarrow> execution_rows \<Rightarrow> child_input option \<Rightarrow> (advance_result \<times> admission_result) svc" where
  "admitReady ce ids clock rows requested =
     (let e = er_execution rows; xs = er_stepExecutions rows in
      (case first_with P_READY xs of
         None \<Rightarrow> svc_of (Inl (exec_error GOAL_EXECUTION_STATE_INVALID))
       | Some ready \<Rightarrow>
           svc_bind (svc_require (\<not> list_ex step_occupied xs) (exec_error GOAL_EXECUTION_STATE_INVALID)) (\<lambda>_.
           (case plan_of_step (sx_stepId ready) (er_planSteps rows) of
              None \<Rightarrow> svc_of (Inl Js_Error)
            | Some p \<Rightarrow>
                let expected = step_request rows ready p (sx_attemptCount ready + 1) in
                svc_bind (case requested of None \<Rightarrow> svc_return ()
                  | Some r \<Rightarrow>
                      svc_bind (exec_base ce (clock 0) e) (\<lambda>base.
                      svc_bind (ctl_get base (gx_flowId e)) (\<lambda>v.
                      svc_require (ch_expectedRevision r = f_revision (fv_flow v) \<and> same_request r (expected 0))
                        (exec_error GOAL_EXECUTION_REQUEST_CONFLICT)))) (\<lambda>_.
                let projectedSteps = set_step (sx_stepId ready) (\<lambda>x. x\<lparr>sx_status := P_RUNNING, sx_attemptCount := sx_attemptCount x + 1,
                      sx_startedAt := or_some (sx_startedAt x) (Some (clock 1))\<rparr>) xs;
                    state = projectedState (er_goal rows) (gx_planRevision e) E_RUNNING (Some (sx_stepId ready)) (er_planSteps rows) projectedSteps in
                svc_bind (exec_base ce (clock 2) e) (\<lambda>base.
                svc_bind (ctl_get base (gx_flowId e)) (\<lambda>v.
                svc_bind (runTask base ids (\<lambda>n. clock (n + 3))
                    (\<lambda>flow task run message replayed now. rop_run (admission_projection rows ready task run replayed now))
                    ((expected (case requested of None \<Rightarrow> f_revision (fv_flow v) | Some r \<Rightarrow> ch_expectedRevision r))\<lparr>ch_state := state\<rparr>)) (\<lambda>a.
                svc_bind (executor_get ce \<lparr>xc_workspaceId = gx_workspaceId e, xc_conversationId = gx_conversationId e,
                    xc_goalId = g_goalId (er_goal rows)\<rparr>) (\<lambda>view.
                svc_return (\<lparr>av_view = view, av_action = ADV_ADMITTED, av_replayed = ar_replayed a, av_scheduled = ar_scheduled a\<rparr>, a))))))))))"

section \<open>The end of a task\<close>

record ended_task =
  ts_rows :: execution_rows
  ts_task :: task_row
  ts_step :: step_execution_row

definition success_projection :: "ended_task \<Rightarrow> string option \<Rightarrow> string \<Rightarrow> int \<Rightarrow> unit rop" where
  "success_projection n nextStepId summary now =
     (let k = g_goalId (er_goal (ts_rows n)); pinned = gx_planRevision (er_execution (ts_rows n)); task = ts_task n in
      rop_bind (rop_read (getStep k (sx_stepId (ts_step n)))) (\<lambda>plan.
      rop_bind (rop_found exec_conflict (getStepExecution k (sx_stepId (ts_step n)) pinned)) (\<lambda>x.
      rop_bind (rop_found exec_conflict (getExecution k)) (\<lambda>e.
      rop_bind (rop_found exec_conflict (goal_get k)) (\<lambda>g.
      rop_bind (rop_require (sx_currentTaskId x = Some (t_taskId task)) exec_conflict) (\<lambda>_.
      rop_bind (exec_step (x\<lparr>sx_status := P_SUCCEEDED, sx_lastTerminalOutcome := Some O_SUCCEEDED, sx_lastSummary := Some summary,
          sx_completedAt := Some now, sx_nextRetryAt := None, sx_updatedAt := now\<rparr>)) (\<lambda>_.
      rop_bind (rop_read (canProjectMutablePlanStep g e (sx_stepId x))) (\<lambda>can.
      rop_bind (if \<not> can then rop_return () else (case plan of
          None \<Rightarrow> rop_throw (exec_error GOAL_EXECUTION_PLAN_INVALID)
        | Some q \<Rightarrow> rop_bind (rop_read (run_attempt (t_runId task))) (\<lambda>attempt.
            exec_plan_step ((step_hold q S_COMPLETED now)\<lparr>sp_note := Some summary, sp_sourceRunId := Some (t_runId task),
              sp_sourceAttemptId := attempt, sp_startedAt := or_some (ps_startedAt q) (or_some (sx_startedAt x) (Some now)),
              sp_completedAt := Some now\<rparr>)))) (\<lambda>_.
      rop_bind (case truthy nextStepId of
          None \<Rightarrow> rop_return ()
        | Some nk \<Rightarrow>
            rop_bind (rop_found (exec_error GOAL_EXECUTION_STATE_INVALID) (getStepExecution k nk pinned)) (\<lambda>y.
            rop_bind (rop_require (sx_status y = P_PENDING) (exec_error GOAL_EXECUTION_STATE_INVALID)) (\<lambda>_.
            rop_bind (exec_step (y\<lparr>sx_status := P_READY, sx_currentTaskId := None, sx_nextRetryAt := None, sx_updatedAt := now\<rparr>)) (\<lambda>_.
            rop_return ())))) (\<lambda>_.
      rop_bind (exec_update e E_RUNNING nextStepId now None) (\<lambda>_.
      rop_bind (rop_read (run_attempt (t_runId task))) (\<lambda>attempt.
      goal_event k ''plan.step.task.succeeded'' (JObj [(''stepId'', JStr (sx_stepId x)), (''taskId'', JStr (t_taskId task)),
          (''summary'', JStr summary), (''nextStepId'', jopt_str nextStepId)]) (Some (t_runId task)) attempt now))))))))))))"

text \<open>A goal that is active becomes blocked with the blocker that was recorded.\<close>

definition goal_blocked_by :: "goal_row \<Rightarrow> blocker_row \<Rightarrow> string \<Rightarrow> string \<Rightarrow> int \<Rightarrow> unit rop" where
  "goal_blocked_by g b summary runId now = rop_when (g_status g = G_ACTIVE)
     (rop_bind (rop_read (run_attempt runId)) (\<lambda>attempt.
      exec_goal ((goal_hold g now)\<lparr>gp_status := G_BLOCKED, gp_lastNote := Some summary, gp_blockerFingerprint := Some (bk_fingerprint b),
        gp_consecutiveBlockerCount := bk_occurrenceCount b, gp_sourceRunId := Some runId, gp_sourceAttemptId := attempt\<rparr>)))"

definition plan_blocked :: "step_row \<Rightarrow> step_execution_row \<Rightarrow> string \<Rightarrow> string \<Rightarrow> int \<Rightarrow> unit rop" where
  "plan_blocked q x summary runId now =
     rop_bind (rop_read (run_attempt runId)) (\<lambda>attempt.
     exec_plan_step ((step_hold q S_BLOCKED now)\<lparr>sp_note := Some summary, sp_sourceRunId := Some runId, sp_sourceAttemptId := attempt,
       sp_startedAt := or_some (ps_startedAt q) (or_some (sx_startedAt x) (Some now)), sp_completedAt := None\<rparr>))"

text \<open>The rows that the projections of a blocked and of a failed step read first.\<close>

definition projection_rows :: "ended_task \<Rightarrow> (step_execution_row \<times> execution_row \<times> step_row \<times> goal_row) rop" where
  "projection_rows n =
     (let k = g_goalId (er_goal (ts_rows n)); missing = exec_error GOAL_EXECUTION_NOT_FOUND in
      rop_bind (rop_found missing (getStepExecution k (sx_stepId (ts_step n)) (gx_planRevision (er_execution (ts_rows n))))) (\<lambda>x.
      rop_bind (rop_found missing (getExecution k)) (\<lambda>e.
      rop_bind (rop_found missing (getStep k (sx_stepId (ts_step n)))) (\<lambda>q.
      rop_bind (rop_found missing (goal_get k)) (\<lambda>g.
      rop_return (x, e, q, g))))))"

definition blocked_projection :: "controller_env \<Rightarrow> string \<Rightarrow> ended_task \<Rightarrow> string \<Rightarrow> int \<Rightarrow> unit rop" where
  "blocked_projection ce newId n summary now =
     (let task = ts_task n in
      rop_bind (projection_rows n) (\<lambda>(x, e, q, g).
      rop_bind (exec_step (x\<lparr>sx_status := P_BLOCKED, sx_lastTerminalOutcome := Some O_BLOCKED, sx_lastSummary := Some summary,
          sx_completedAt := None, sx_updatedAt := now\<rparr>)) (\<lambda>_.
      rop_bind (rop_read (canProjectMutablePlanStep g e (sx_stepId x))) (\<lambda>can.
      rop_bind (rop_when (can \<and> ps_status q = S_IN_PROGRESS) (plan_blocked q x summary (t_runId task) now)) (\<lambda>_.
      rop_bind (exec_update e E_BLOCKED (Some (sx_stepId x)) now None) (\<lambda>_.
      rop_bind (recordBlocker ce newId g e x (Some (t_taskId task)) TASK_OUTPUT summary (JObj [(''taskId'', JStr (t_taskId task)),
          (''taskStatus'', JStr (task_status_name (t_status task))), (''terminalOutcome'', outcome_json (t_terminalOutcome task))]) now) (\<lambda>b.
      rop_bind (goal_blocked_by g b summary (t_runId task) now) (\<lambda>_.
      rop_bind (rop_read (run_attempt (t_runId task))) (\<lambda>attempt.
      goal_event (g_goalId (er_goal (ts_rows n))) ''plan.step.task.blocked'' (JObj [(''stepId'', JStr (sx_stepId x)),
          (''taskId'', JStr (t_taskId task)), (''summary'', JStr summary), (''blockerId'', JStr (bk_blockerId b)),
          (''fingerprint'', JStr (bk_fingerprint b)), (''occurrenceCount'', JNum (bk_occurrenceCount b))])
        (Some (t_runId task)) attempt now)))))))))"

definition failed_projection :: "controller_env \<Rightarrow> string \<Rightarrow> ended_task \<Rightarrow> string \<Rightarrow> int \<Rightarrow> unit rop" where
  "failed_projection ce newId n summary now =
     (let task = ts_task n in
      rop_bind (projection_rows n) (\<lambda>(x, e, q, g).
      rop_bind (exec_step (x\<lparr>sx_status := P_FAILED, sx_lastTerminalOutcome := t_terminalOutcome task, sx_lastSummary := Some summary,
          sx_completedAt := Some now, sx_updatedAt := now\<rparr>)) (\<lambda>_.
      rop_bind (rop_read (canProjectMutablePlanStep g e (sx_stepId x))) (\<lambda>can.
      rop_bind (rop_when (can \<and> (ps_status q = S_IN_PROGRESS \<or> ps_status q = S_BLOCKED)) (plan_blocked q x summary (t_runId task) now)) (\<lambda>_.
      rop_bind (exec_update e E_BLOCKED (Some (sx_stepId x)) now None) (\<lambda>_.
      let t = (if sx_attemptCount x \<ge> sx_maxAttempts x then RETRY_LIMIT else TASK_FAILURE) in
      rop_bind (recordBlocker ce newId g e x (Some (t_taskId task)) t summary (JObj [(''taskId'', JStr (t_taskId task)),
          (''taskStatus'', JStr (task_status_name (t_status task))), (''errorCode'', jopt_str (t_errorCode task)),
          (''attemptCount'', JNum (sx_attemptCount x)), (''maxAttempts'', JNum (sx_maxAttempts x))]) now) (\<lambda>b.
      rop_bind (goal_blocked_by g b summary (t_runId task) now) (\<lambda>_.
      rop_bind (rop_read (run_attempt (t_runId task))) (\<lambda>attempt.
      goal_event (g_goalId (er_goal (ts_rows n))) ''plan.step.task.failed'' (JObj [(''stepId'', JStr (sx_stepId x)),
          (''taskId'', JStr (t_taskId task)), (''taskStatus'', JStr (task_status_name (t_status task))), (''summary'', JStr summary),
          (''blockerId'', JStr (bk_blockerId b)), (''blockerType'', JStr (blocker_type_name t)),
          (''occurrenceCount'', JNum (bk_occurrenceCount b))])
        (Some (t_runId task)) attempt now)))))))))"

section \<open>Cancelling\<close>

text \<open>The steps that have not ended, one after the other.\<close>

definition cancel_step :: "int \<Rightarrow> step_execution_row \<Rightarrow> bool rop" where
  "cancel_step now x =
     (if sx_status x \<in> {P_SUCCEEDED, P_FAILED, P_CANCELLED, P_SKIPPED} then rop_return False
      else
        rop_bind (exec_step (x\<lparr>sx_status := P_CANCELLED, sx_completedAt := Some now, sx_nextRetryAt := None, sx_updatedAt := now\<rparr>)) (\<lambda>_.
        rop_bind (rop_read (getStep (sx_goalId x) (sx_stepId x))) (\<lambda>plan.
        rop_bind (case plan of None \<Rightarrow> rop_return ()
          | Some q \<Rightarrow> rop_when (ps_status q \<noteq> S_COMPLETED \<and> ps_status q \<noteq> S_CANCELLED)
              (exec_plan_step ((step_hold q S_CANCELLED now)\<lparr>sp_completedAt := Some now\<rparr>))) (\<lambda>_.
        rop_return True))))"

definition projectCancelled :: "int \<Rightarrow> string \<Rightarrow> bool svc" where
  "projectCancelled now goalId = transaction (
     rop_bind (rop_found (exec_error GOAL_EXECUTION_NOT_FOUND) (getExecution goalId)) (\<lambda>e.
     rop_bind (rop_found (exec_error GOAL_EXECUTION_NOT_FOUND) (goal_get goalId)) (\<lambda>g.
     rop_bind (rop_when (\<not> execution_terminal (gx_status e)) (exec_update e E_CANCELLED (gx_currentStepId e) now (Some now))) (\<lambda>_.
     rop_bind (rop_read (listStepExecutions goalId (gx_planRevision e))) (\<lambda>steps.
     rop_bind (rop_each (cancel_step now) steps) (\<lambda>cancelled.
     let goal_ends = g_status g \<noteq> G_COMPLETED \<and> g_status g \<noteq> G_CANCELLED in
     rop_bind (rop_when goal_ends (exec_goal ((goal_hold g now)\<lparr>gp_status := G_CANCELLED, gp_terminalAt := Some now\<rparr>))) (\<lambda>_.
     let has_changed = (\<not> execution_terminal (gx_status e) \<or> True \<in> set cancelled \<or> goal_ends) in
     rop_bind (rop_when has_changed (goal_event (g_goalId g) ''goal.execution.cancelled'' (JObj [(''flowId'', JStr (gx_flowId e))]) None None now)) (\<lambda>_.
     rop_return has_changed))))))))"

definition executor_cancel :: "controller_env \<Rightarrow> (nat \<Rightarrow> int) \<Rightarrow> exec_caller \<Rightarrow> int \<Rightarrow> int \<Rightarrow> execution_view svc" where
  "executor_cancel ce clock c expectedExecutionRevision expectedFlowRevision =
     svc_bind (owned_rows (xc_goalId c) c) (\<lambda>rows.
     let e = er_execution rows in
     svc_bind (svc_require (gx_revision e = expectedExecutionRevision) exec_conflict) (\<lambda>_.
     svc_bind (exec_base ce (clock 0) e) (\<lambda>base.
     svc_bind (ctl_cancel base (clock 1) (clock 2) (clock 3) (gx_flowId e) expectedFlowRevision) (\<lambda>_.
     svc_bind (projectCancelled (clock 4) (g_goalId (er_goal rows))) (\<lambda>_.
     executor_get ce c)))))"

section \<open>Reconciling\<close>

definition task_snapshot_of :: "string \<Rightarrow> ended_task option rop" where
  "task_snapshot_of taskId =
     rop_bind (rop_of (exec_bounded taskId 256)) (\<lambda>k.
     rop_bind (rop_read (getStepExecutionByTask k)) (\<lambda>found.
     (case found of
        None \<Rightarrow> rop_return None
      | Some x \<Rightarrow>
          let missing = exec_error GOAL_EXECUTION_NOT_FOUND in
          rop_bind (rop_found missing (getExecution (sx_goalId x))) (\<lambda>e.
          rop_bind (rop_found missing (goal_get (sx_goalId x))) (\<lambda>g.
          rop_bind (rop_found missing (task_get taskId)) (\<lambda>task.
          rop_bind (rop_read (\<lambda>s. (listPlanRevisionSteps (g_goalId g) (gx_planRevision e) s, listStepExecutions (g_goalId g) (gx_planRevision e) s))) (\<lambda>(plan, xs).
          rop_return (Some \<lparr>ts_rows = \<lparr>er_goal = g, er_execution = e, er_planSteps = plan, er_stepExecutions = xs\<rparr>,
            ts_task = task, ts_step = x\<rparr>))))))))"

definition terminal_summary :: "task_row \<Rightarrow> string" where
  "terminal_summary t = (case t_terminalSummary t of Some v \<Rightarrow> v | None \<Rightarrow> (case t_errorCode t of Some v \<Rightarrow> v
     | None \<Rightarrow> task_status_name (t_status t)))"

text \<open>The steps after a success: the step itself, and the one after it if it waits for its turn.\<close>

definition succeeded_steps :: "step_execution_row \<Rightarrow> string \<Rightarrow> int \<Rightarrow> step_execution_row list \<Rightarrow> step_execution_row list" where
  "succeeded_steps done summary now xs = map (\<lambda>x.
     if sx_stepId x = sx_stepId done then x\<lparr>sx_status := P_SUCCEEDED, sx_lastTerminalOutcome := Some O_SUCCEEDED,
       sx_lastSummary := Some summary, sx_completedAt := Some now\<rparr>
     else if sx_status x = P_PENDING \<and> sx_ordinal x = sx_ordinal done + 1 then x\<lparr>sx_status := P_READY\<rparr> else x) xs"

definition reconcile_ended ::
    "controller_env \<Rightarrow> (nat \<Rightarrow> string) \<Rightarrow> (nat \<Rightarrow> int) \<Rightarrow> ended_task \<Rightarrow> controller \<Rightarrow> flow_row \<Rightarrow> unit svc" where
  "reconcile_ended ce ids clock n base flow =
     (let rows = ts_rows n; g = er_goal rows; e = er_execution rows; x = ts_step n; task = ts_task n; plan = er_planSteps rows;
          xs = er_stepExecutions rows; summary = terminal_summary task;
          state = projectedState g (gx_planRevision e);
          go = (\<lambda>currentStep v. \<lparr>tn_flowId = f_flowId flow, tn_expectedRevision = f_revision flow, tn_currentStep = Some currentStep, tn_state = v\<rparr>) in
      if t_status task = T_SUCCEEDED \<and> t_terminalOutcome task = Some O_SUCCEEDED then
        let nextSteps = succeeded_steps x summary (clock 0) xs; next = map_option sx_stepId (first_with P_READY nextSteps) in
        svc_bind (ctl_resume base (\<lambda>before after now. rop_run (success_projection n next summary now)) (clock 1)
          (go next (state E_RUNNING next plan nextSteps)) (Some True)) (\<lambda>_. svc_return ())
      else if t_status task = T_SUCCEEDED \<and> t_terminalOutcome task = Some O_BLOCKED then
        let blockedSteps = set_step (sx_stepId x) (\<lambda>y. y\<lparr>sx_status := P_BLOCKED, sx_lastTerminalOutcome := Some O_BLOCKED,
              sx_lastSummary := Some summary\<rparr>) xs in
        svc_bind (ctl_setBlocked base (\<lambda>before after now. rop_run (blocked_projection ce (ids 0) n summary now)) (clock 1)
          (go (Some (sx_stepId x)) (state E_BLOCKED (Some (sx_stepId x)) plan blockedSteps)) (t_taskId task) (Some summary)) (\<lambda>_. svc_return ())
      else if t_status task = T_CANCELLED then
        svc_bind (executor_cancel ce (\<lambda>k. clock (k + 1)) \<lparr>xc_workspaceId = gx_workspaceId e, xc_conversationId = gx_conversationId e,
          xc_goalId = g_goalId g\<rparr> (gx_revision e) (f_revision flow)) (\<lambda>_. svc_return ())
      else
        let failedSteps = set_step (sx_stepId x) (\<lambda>y. y\<lparr>sx_status := P_FAILED, sx_lastTerminalOutcome := t_terminalOutcome task,
              sx_lastSummary := Some summary, sx_completedAt := Some (clock 0)\<rparr>) xs in
        svc_bind (ctl_setBlocked base (\<lambda>before after now. rop_run (failed_projection ce (ids 0) n summary now)) (clock 1)
          (go (Some (sx_stepId x)) (state E_BLOCKED (Some (sx_stepId x)) plan failedSteps)) (t_taskId task) (Some summary)) (\<lambda>_. svc_return ()))"

definition reconcileTask ::
    "controller_env \<Rightarrow> (nat \<Rightarrow> string) \<Rightarrow> (nat \<Rightarrow> int) \<Rightarrow> string \<Rightarrow> execution_view option svc" where
  "reconcileTask ce ids clock taskId =
     svc_bind (transaction (task_snapshot_of taskId)) (\<lambda>snapshot.
     (case snapshot of
        None \<Rightarrow> svc_return None
      | Some n \<Rightarrow>
          let e = er_execution (ts_rows n);
              view = svc_bind (executor_get ce \<lparr>xc_workspaceId = gx_workspaceId e, xc_conversationId = gx_conversationId e,
                xc_goalId = g_goalId (er_goal (ts_rows n))\<rparr>) (\<lambda>v. svc_return (Some v)) in
          if \<not> task_terminal (t_status (ts_task n)) \<or> sx_status (ts_step n) \<noteq> P_RUNNING then view
          else
            svc_bind (exec_base ce (clock 0) e) (\<lambda>base.
            svc_bind (ctl_get base (gx_flowId e)) (\<lambda>v.
            svc_bind (reconcile_ended ce ids (\<lambda>k. clock (k + 1)) n base (fv_flow v)) (\<lambda>_.
            view)))))"

definition reconcileRun :: "controller_env \<Rightarrow> (nat \<Rightarrow> string) \<Rightarrow> (nat \<Rightarrow> int) \<Rightarrow> string \<Rightarrow> execution_view option svc" where
  "reconcileRun ce ids clock runId =
     svc_bind (svc_of (exec_bounded runId 256)) (\<lambda>k.
     svc_bind (svc_read (task_getByRun k)) (\<lambda>found.
     (case found of None \<Rightarrow> svc_return None | Some t \<Rightarrow> reconcileTask ce ids clock (t_taskId t))))"

section \<open>Advancing\<close>

definition observed :: "controller_env \<Rightarrow> exec_caller \<Rightarrow> advance_action \<Rightarrow> advance_result svc" where
  "observed ce c action =
     svc_bind (executor_get ce c) (\<lambda>v. svc_return \<lparr>av_view = v, av_action = action, av_replayed = True, av_scheduled = False\<rparr>)"

definition advance_rows ::
    "controller_env \<Rightarrow> (nat \<Rightarrow> string) \<Rightarrow> (nat \<Rightarrow> int) \<Rightarrow> exec_caller \<Rightarrow> execution_rows \<Rightarrow> advance_result svc" where
  "advance_rows ce ids clock c rows =
     (let st = gx_status (er_execution rows); xs = er_stepExecutions rows in
      if st = E_WAITING then observed ce c ADV_WAITING
      else if st = E_BLOCKED \<or> st = E_FAILED then observed ce c ADV_BLOCKED
      else if list_ex (\<lambda>x. sx_status x = P_READY) xs then
        if st = E_QUEUED then svc_bind (admitReady ce ids clock rows None) (\<lambda>(result, _). svc_return result)
        else observed ce c ADV_OBSERVING
      else if list_all step_done xs then observed ce c ADV_COMPLETED
      else observed ce c ADV_OBSERVING)"

definition advance ::
    "controller_env \<Rightarrow> (nat \<Rightarrow> string) \<Rightarrow> (nat \<Rightarrow> int) \<Rightarrow> exec_caller \<Rightarrow> advance_result svc" where
  "advance ce ids clock c =
     svc_bind (svc_of (exec_bounded (xc_goalId c) 256)) (\<lambda>goalId.
     svc_bind (owned_rows goalId c) (\<lambda>rows.
     if execution_terminal (gx_status (er_execution rows)) then observed ce c ADV_TERMINAL
     else (case Option.bind (current_step_of rows) (\<lambda>x. truthy (sx_currentTaskId x)) of
        None \<Rightarrow> advance_rows ce ids clock c rows
      | Some taskId \<Rightarrow>
          svc_bind (task_service_get (ce_taskWorkspaceIds ce) (xc_workspaceId c) taskId) (\<lambda>v.
          if \<not> task_terminal (t_status (vw_task v)) then observed ce c ADV_OBSERVING
          else
            svc_bind (reconcileTask ce ids clock (t_taskId (vw_task v))) (\<lambda>_.
            svc_bind (executor_rows (xc_goalId c)) (\<lambda>again.
            advance_rows ce (\<lambda>n. ids (n + 1)) (\<lambda>n. clock (n + 7)) c again))))))"

end
