(* ===== verification/Goal_Executor_Plan.thy ===== *)
theory Goal_Executor_Plan
  imports Goal_Executor
begin

text \<open>
  The rest of \<open>packages/goal-executor/src/service.ts\<close>: starting an execution, revising a plan and adopting the revision,
  resolving a blocker, finishing, waiting, resuming and failing, recovery after a restart, and \<open>GoalPlanControllerRuntime\<close>,
  the runtime a controller of a goal's flow is given.
\<close>

section \<open>Starting\<close>

definition initial_step :: "string \<Rightarrow> int \<Rightarrow> int \<Rightarrow> nat \<Rightarrow> revision_step_row \<Rightarrow> step_execution_row" where
  "initial_step goalId planRevision now i p = \<lparr>sx_goalId = goalId, sx_stepId = pr_stepId p, sx_planRevision = planRevision,
     sx_ordinal = pr_ordinal p, sx_status = (if i = 0 then P_READY else P_PENDING), sx_currentTaskId = None, sx_attemptCount = 0,
     sx_lastTerminalOutcome = None, sx_lastSummary = None, sx_startedAt = None, sx_completedAt = None,
     sx_retryMode = pr_retryMode p, sx_maxAttempts = pr_maxAttempts p, sx_nextRetryAt = None, sx_lastRetryReason = None,
     sx_updatedAt = now, sx_revision = 1\<rparr>"

definition initial_steps :: "goal_row \<Rightarrow> revision_step_row list \<Rightarrow> int \<Rightarrow> step_execution_row list" where
  "initial_steps g plan now = map (\<lambda>(i, p). initial_step (g_goalId g) (g_planRevision g) now i p) (zip [0..<length plan] plan)"

definition start_replay :: "exec_caller \<Rightarrow> string \<Rightarrow> execution_row option rop" where
  "start_replay c goalId =
     rop_bind (assertOwned goalId c) (\<lambda>_.
     rop_bind (rop_read (getExecution goalId)) (\<lambda>found.
     (case found of
        None \<Rightarrow> rop_return None
      | Some e \<Rightarrow> rop_bind (rop_require (execution_owned_by e c \<and> gx_controllerId e = controllerIdFor goalId)
          (exec_error GOAL_EXECUTION_REQUEST_CONFLICT)) (\<lambda>_. rop_return (Some e)))))"

definition start_snapshot :: "exec_caller \<Rightarrow> string \<Rightarrow> int \<Rightarrow> (goal_row \<times> revision_step_row list) rop" where
  "start_snapshot c goalId expectedGoalRevision =
     rop_bind (assertOwned goalId c) (\<lambda>g.
     rop_bind (rop_require (g_revision g = expectedGoalRevision) exec_conflict) (\<lambda>_.
     rop_bind (rop_require (g_status g = G_ACTIVE) (exec_error GOAL_EXECUTION_STATE_INVALID)) (\<lambda>_.
     rop_bind (rop_read (\<lambda>s. (listPlanRevisionSteps goalId (g_planRevision g) s, listSteps goalId s))) (\<lambda>(plan, current).
     rop_bind (rop_require (1 \<le> length plan \<and> length current = length plan) (exec_error GOAL_EXECUTION_PLAN_INVALID)) (\<lambda>_.
     rop_bind (rop_require (list_all (\<lambda>q. ps_status q = S_PENDING) current) (exec_error GOAL_EXECUTION_PLAN_INVALID)) (\<lambda>_.
     rop_return (g, plan)))))))"

text \<open>What the creation of the flow writes about the execution.\<close>

definition start_projection ::
    "exec_caller \<Rightarrow> goal_row \<Rightarrow> revision_step_row list \<Rightarrow> flow_row \<Rightarrow> bool \<Rightarrow> int \<Rightarrow> unit rop" where
  "start_projection c g0 plan flow replayed now =
     (let goalId = g_goalId g0; controllerId = controllerIdFor goalId in
      rop_bind (assertOwned goalId c) (\<lambda>g.
      rop_bind (rop_require (g_planRevision g = g_planRevision g0) exec_conflict) (\<lambda>_.
      rop_bind (rop_read (getExecution goalId)) (\<lambda>existing.
      (case existing of
         Some e \<Rightarrow> rop_require (gx_flowId e = f_flowId flow \<and> gx_controllerId e = controllerId \<and> execution_owned_by e c)
           (exec_error GOAL_EXECUTION_REQUEST_CONFLICT)
       | None \<Rightarrow>
           rop_bind (rop_require (\<not> replayed) (exec_error GOAL_EXECUTION_REQUEST_CONFLICT)) (\<lambda>_.
           rop_bind (rop_do (insertExecution \<lparr>gx_goalId = goalId, gx_workspaceId = xc_workspaceId c, gx_conversationId = xc_conversationId c,
               gx_planRevision = g_planRevision g0, gx_flowId = f_flowId flow, gx_controllerId = controllerId, gx_status = E_QUEUED,
               gx_currentStepId = map_option pr_stepId (first_of plan), gx_createdAt = now, gx_updatedAt = now, gx_endedAt = None,
               gx_revision = 1\<rparr>)) (\<lambda>_.
           rop_bind (rop_each (\<lambda>x. rop_do (insertStepExecution x)) (initial_steps g0 plan now)) (\<lambda>_.
           goal_event goalId ''goal.execution.started'' (JObj [(''flowId'', JStr (f_flowId flow)), (''controllerId'', JStr controllerId),
               (''planRevision'', JNum (g_planRevision g)), (''mode'', JStr ''SINGLE_ACTIVE_STEP'')]) None None now))))))))"

record start_result =
  st_view :: execution_view
  st_replayed :: bool
  st_admitted :: bool
  st_scheduled :: bool

definition started :: "bool \<Rightarrow> advance_result \<Rightarrow> start_result" where
  "started replayed a = \<lparr>st_view = av_view a, st_replayed = replayed, st_admitted = (av_action a = ADV_ADMITTED), st_scheduled = av_scheduled a\<rparr>"

definition executor_start ::
    "controller_env \<Rightarrow> (nat \<Rightarrow> string) \<Rightarrow> (nat \<Rightarrow> int) \<Rightarrow> exec_caller \<Rightarrow> int \<Rightarrow> start_result svc" where
  "executor_start ce ids clock c expectedGoalRevision =
     svc_bind (svc_of (exec_bounded (xc_goalId c) 256)) (\<lambda>goalId.
     svc_bind (transaction (start_replay c goalId)) (\<lambda>replay.
     let go = (\<lambda>replayed clk. svc_bind (advance ce ids clk (c\<lparr>xc_goalId := goalId\<rparr>)) (\<lambda>a. svc_return (started replayed a))) in
     if replay \<noteq> None then go True clock
     else
       svc_bind (transaction (start_snapshot c goalId expectedGoalRevision)) (\<lambda>(g, plan).
       svc_bind (ctl_bind ce (clock 0) (xc_workspaceId c) (xc_conversationId c) (controllerIdFor goalId)) (\<lambda>runtime.
       let first = map_option pr_stepId (first_of plan) in
       svc_bind (createManaged runtime (\<lambda>flow replayed now. rop_run (start_projection c g plan flow replayed now)) (clock 1)
         \<lparr>mg_requestKey = ''goal-execution:'' @ goalId @ '':plan:'' @ show_int (g_planRevision g), mg_goal = g_objective g,
           mg_currentStep = first,
           mg_state = projectedState g (g_planRevision g) E_QUEUED first plan (initial_steps g plan 0),
           mg_running = Some False\<rparr>) (\<lambda>(_, replayed).
       go replayed (\<lambda>n. clock (n + 2)))))))"

section \<open>Revising the plan\<close>

record revise_result =
  rx_goalId :: string
  rx_previousPlanRevision :: int
  rx_planRevision :: int
  rx_steps :: "draft_step list"
  rx_replayed :: bool

definition draft_json :: "draft_step \<Rightarrow> json" where
  "draft_json d = JObj [(''stepId'', JStr (dr_stepId d)), (''ordinal'', JNum (dr_ordinal d)), (''title'', JStr (dr_title d)),
     (''required'', JBool (dr_required d)), (''retryMode'', JStr ''MANUAL''), (''maxAttempts'', JNum (dr_maxAttempts d))]"

text \<open>A step that is new, or that keeps its identifier; one whose definition changes starts again.\<close>

definition revise_step :: "string \<Rightarrow> revision_step_row list \<Rightarrow> int \<Rightarrow> int \<Rightarrow> draft_step \<Rightarrow> unit rop" where
  "revise_step goalId previous nextRevision now d =
     rop_bind (rop_read (getStepById (dr_stepId d))) (\<lambda>existing.
     rop_bind (case existing of
         None \<Rightarrow> rop_do (insertStep \<lparr>ps_stepId = dr_stepId d, ps_goalId = goalId, ps_ordinal = dr_ordinal d, ps_title = dr_title d,
           ps_status = S_PENDING, ps_note = None, ps_sourceRunId = None, ps_sourceAttemptId = None, ps_startedAt = None,
           ps_completedAt = None, ps_updatedAt = now, ps_revision = 1\<rparr>)
       | Some q \<Rightarrow>
           rop_bind (rop_require (ps_goalId q = goalId) (exec_error GOAL_EXECUTION_PLAN_INVALID)) (\<lambda>_.
           rop_bind (exec_changed (updatePlanDefinition goalId (dr_stepId d) (dr_ordinal d) (dr_title d) now)) (\<lambda>updated.
           rop_when (case plan_of_step (dr_stepId d) previous of None \<Rightarrow> True | Some p \<Rightarrow> \<not> sameStableStepDefinition (draft_of p) d)
             (exec_plan_step \<lparr>sp_goalId = ps_goalId updated, sp_stepId = ps_stepId updated, sp_expectedRevision = ps_revision updated,
               sp_status = S_PENDING, sp_note = None, sp_sourceRunId = None, sp_sourceAttemptId = None, sp_startedAt = None,
               sp_completedAt = None, sp_updatedAt = now\<rparr>)))) (\<lambda>_.
     rop_do (insertPlanRevisionStep \<lparr>pr_goalId = goalId, pr_planRevision = nextRevision, pr_stepId = dr_stepId d,
       pr_ordinal = dr_ordinal d, pr_title = dr_title d, pr_required = dr_required d, pr_retryMode = dr_retryMode d,
       pr_maxAttempts = dr_maxAttempts d, pr_createdAt = now\<rparr>)))"

record revise_input =
  ri_expectedGoalRevision :: int
  ri_expectedExecutionRevision :: int
  ri_expectedPlanRevision :: int
  ri_steps :: "draft_step list"

definition revise_new :: "string \<Rightarrow> revise_input \<Rightarrow> draft_step list \<Rightarrow> int \<Rightarrow> goal_row \<Rightarrow> execution_row \<Rightarrow> revise_result rop" where
  "revise_new goalId i steps now g e =
     (let nextRevision = g_planRevision g + 1 in
      rop_bind (rop_require (g_revision g = ri_expectedGoalRevision i \<and> g_planRevision g = ri_expectedPlanRevision i) exec_conflict) (\<lambda>_.
      rop_bind (rop_require (g_status g \<noteq> G_COMPLETED \<and> g_status g \<noteq> G_CANCELLED \<and> \<not> execution_terminal (gx_status e))
        (exec_error GOAL_EXECUTION_STATE_INVALID)) (\<lambda>_.
      rop_bind (rop_read (listPlanRevisionSteps goalId (g_planRevision g))) (\<lambda>previous.
      rop_bind (rop_do (resequencePlanDefinitions goalId 10000)) (\<lambda>_.
      rop_bind (rop_each (revise_step goalId previous nextRevision now) steps) (\<lambda>_.
      rop_bind (exec_goal ((goal_hold g now)\<lparr>gp_planRevision := nextRevision, gp_terminalAt := g_terminalAt g\<rparr>)) (\<lambda>_.
      rop_bind (goal_event goalId ''goal.plan.revised'' (JObj [(''previousPlanRevision'', JNum (ri_expectedPlanRevision i)),
          (''planRevision'', JNum nextRevision), (''executionPlanRevision'', JNum (gx_planRevision e)),
          (''steps'', JArr (map draft_json steps))]) None None now) (\<lambda>_.
      rop_return \<lparr>rx_goalId = goalId, rx_previousPlanRevision = ri_expectedPlanRevision i, rx_planRevision = nextRevision,
        rx_steps = steps, rx_replayed = False\<rparr>))))))))"

definition revisePlan :: "int \<Rightarrow> exec_caller \<Rightarrow> revise_input \<Rightarrow> revise_result svc" where
  "revisePlan now c i =
     svc_bind (svc_of (exec_bounded (xc_goalId c) 256)) (\<lambda>goalId.
     svc_bind (svc_of (normalizedDraft (ri_steps i))) (\<lambda>steps.
     transaction (
       rop_bind (assertOwned goalId c) (\<lambda>g.
       rop_bind (rop_found (exec_error GOAL_EXECUTION_NOT_FOUND) (getExecution goalId)) (\<lambda>e.
       rop_bind (rop_require (gx_revision e = ri_expectedExecutionRevision i) exec_conflict) (\<lambda>_.
       if g_planRevision g = ri_expectedPlanRevision i + 1 then
         rop_bind (rop_read (listPlanRevisionSteps goalId (g_planRevision g))) (\<lambda>replay.
         rop_bind (rop_require (sameRevisionDraft replay steps) (exec_error GOAL_EXECUTION_REQUEST_CONFLICT)) (\<lambda>_.
         rop_return \<lparr>rx_goalId = goalId, rx_previousPlanRevision = ri_expectedPlanRevision i, rx_planRevision = g_planRevision g,
           rx_steps = steps, rx_replayed = True\<rparr>))
       else revise_new goalId i steps now g e))))))"

section \<open>Adopting a revision\<close>

definition preserved_step :: "execution_rows \<Rightarrow> revision_step_row \<Rightarrow> step_execution_row option" where
  "preserved_step rows p = (case find (\<lambda>x. sx_stepId x = pr_stepId p) (er_stepExecutions rows) of
     None \<Rightarrow> None
   | Some x \<Rightarrow> (case plan_of_step (pr_stepId p) (er_planSteps rows) of
       None \<Rightarrow> None
     | Some old \<Rightarrow> if sameStableStepDefinition (draft_of old) (draft_of p) then Some x else None))"

text \<open>A step with the same definition keeps its attempts, and its result if it is done.\<close>

definition adopted_step :: "execution_rows \<Rightarrow> int \<Rightarrow> int \<Rightarrow> revision_step_row \<Rightarrow> step_execution_row" where
  "adopted_step rows target now p =
     (let stable = preserved_step rows p; preserved = (case stable of Some x \<Rightarrow> if step_done x then Some x else None | None \<Rightarrow> None) in
      \<lparr>sx_goalId = g_goalId (er_goal rows), sx_stepId = pr_stepId p, sx_planRevision = target, sx_ordinal = pr_ordinal p,
        sx_status = (case preserved of Some x \<Rightarrow> sx_status x | None \<Rightarrow> P_PENDING), sx_currentTaskId = None,
        sx_attemptCount = (case stable of Some x \<Rightarrow> sx_attemptCount x | None \<Rightarrow> 0),
        sx_lastTerminalOutcome = Option.bind preserved sx_lastTerminalOutcome, sx_lastSummary = Option.bind preserved sx_lastSummary,
        sx_startedAt = Option.bind preserved sx_startedAt, sx_completedAt = Option.bind preserved sx_completedAt,
        sx_retryMode = pr_retryMode p, sx_maxAttempts = pr_maxAttempts p, sx_nextRetryAt = None, sx_lastRetryReason = None,
        sx_updatedAt = now, sx_revision = 1\<rparr>)"

primrec ready_first :: "step_execution_row list \<Rightarrow> step_execution_row list" where
  "ready_first [] = []"
| "ready_first (x # xs) = (if sx_status x = P_PENDING then x\<lparr>sx_status := P_READY\<rparr> # xs else x # ready_first xs)"

definition removed_incomplete :: "execution_rows \<Rightarrow> revision_step_row list \<Rightarrow> step_execution_row list" where
  "removed_incomplete rows target = filter (\<lambda>x. (case plan_of_step (sx_stepId x) (er_planSteps rows) of None \<Rightarrow> False | Some p \<Rightarrow> pr_required p)
     \<and> sx_stepId x \<notin> pr_stepId ` set target \<and> \<not> step_done x) (er_stepExecutions rows)"

definition adopted_plan_step :: "goal_row \<Rightarrow> step_execution_row list \<Rightarrow> int \<Rightarrow> revision_step_row \<Rightarrow> unit rop" where
  "adopted_plan_step g projected now p =
     rop_bind (rop_found (exec_error GOAL_EXECUTION_PLAN_INVALID) (getStep (g_goalId g) (pr_stepId p))) (\<lambda>q.
     (case find (\<lambda>x. sx_stepId x = pr_stepId p) projected of
        None \<Rightarrow> rop_throw Js_Error
      | Some x \<Rightarrow> exec_plan_step ((step_hold q (if step_done x then S_COMPLETED
            else if sx_status x = P_BLOCKED \<or> sx_status x = P_FAILED then S_BLOCKED else S_PENDING) now)
          \<lparr>sp_note := sx_lastSummary x, sp_startedAt := sx_startedAt x, sp_completedAt := sx_completedAt x\<rparr>)))"

definition adoption_projection ::
    "execution_rows \<Rightarrow> int \<Rightarrow> int \<Rightarrow> revision_step_row list \<Rightarrow> step_execution_row list \<Rightarrow> string option \<Rightarrow> int \<Rightarrow> unit rop" where
  "adoption_projection rows target expectedExecutionRevision plan projected next now =
     (let k = g_goalId (er_goal rows) in
      rop_bind (rop_found exec_conflict (getExecution k)) (\<lambda>e.
      rop_bind (rop_found exec_conflict (goal_get k)) (\<lambda>g.
      rop_bind (rop_require (gx_revision e = expectedExecutionRevision) exec_conflict) (\<lambda>_.
      rop_bind (rop_read (listStepExecutions (g_goalId g) target)) (\<lambda>there.
      rop_bind (rop_require (there = []) (exec_error GOAL_EXECUTION_REQUEST_CONFLICT)) (\<lambda>_.
      rop_bind (rop_each (\<lambda>x. rop_do (insertStepExecution (x\<lparr>sx_updatedAt := now\<rparr>))) projected) (\<lambda>_.
      rop_bind (exec_changed (updateExecutionPlanRevision (gx_goalId e) (gx_revision e) target
        (if next = None then E_RUNNING else E_QUEUED) next now None)) (\<lambda>_.
      rop_bind (rop_when (g_status g = G_BLOCKED \<or> g_status g = G_PAUSED) (exec_goal (goal_unblocked g now))) (\<lambda>_.
      rop_bind (rop_each (adopted_plan_step g projected now) plan) (\<lambda>_.
      goal_event (g_goalId g) ''goal.execution.plan_revision.adopted'' (JObj [
          (''previousPlanRevision'', JNum (gx_planRevision (er_execution rows))), (''planRevision'', JNum target),
          (''preservedSteps'', JArr (map (\<lambda>x. JStr (sx_stepId x)) (filter step_done projected))),
          (''nextStepId'', jopt_str next)]) None None now))))))))))"

record adopt_result =
  ao_view :: execution_view
  ao_previousPlanRevision :: int
  ao_planRevision :: int
  ao_replayed :: bool
  ao_action :: advance_action
  ao_scheduled :: bool

definition adopted :: "int \<Rightarrow> int \<Rightarrow> bool \<Rightarrow> advance_result \<Rightarrow> adopt_result" where
  "adopted previous target replayed a = \<lparr>ao_view = av_view a, ao_previousPlanRevision = previous, ao_planRevision = target,
     ao_replayed = replayed, ao_action = av_action a, ao_scheduled = av_scheduled a\<rparr>"

definition adopt_new ::
    "controller_env \<Rightarrow> (nat \<Rightarrow> string) \<Rightarrow> (nat \<Rightarrow> int) \<Rightarrow> exec_caller \<Rightarrow> execution_rows \<Rightarrow> int \<Rightarrow> int \<Rightarrow> int \<Rightarrow> adopt_result svc" where
  "adopt_new ce ids clock c rows target expectedExecutionRevision expectedFlowRevision =
     (let g = er_goal rows; e = er_execution rows in
      svc_bind (svc_require (gx_revision e = expectedExecutionRevision) exec_conflict) (\<lambda>_.
      svc_bind (svc_require (target = g_planRevision g \<and> target > gx_planRevision e) (exec_error GOAL_EXECUTION_PLAN_INVALID)) (\<lambda>_.
      svc_bind (svc_require (gx_status e = E_BLOCKED \<or> gx_status e = E_WAITING) (exec_error GOAL_EXECUTION_STATE_INVALID)) (\<lambda>_.
      svc_bind (assertNoActiveTask rows) (\<lambda>_.
      svc_bind (svc_read (getAnyOpenBlocker (g_goalId g) (gx_planRevision e))) (\<lambda>blocker.
      svc_bind (svc_require (blocker = None) (exec_error GOAL_EXECUTION_BLOCKER_REQUIRED)) (\<lambda>_.
      svc_bind (svc_read (listPlanRevisionSteps (g_goalId g) target)) (\<lambda>plan.
      svc_bind (svc_require (plan \<noteq> []) (exec_error GOAL_EXECUTION_PLAN_INVALID)) (\<lambda>_.
      svc_bind (svc_require (removed_incomplete rows plan = []) (exec_error GOAL_EXECUTION_PLAN_INVALID)) (\<lambda>_.
      let projected = ready_first (map (adopted_step rows target (clock 0)) plan);
          next = map_option sx_stepId (first_with P_READY projected) in
      svc_bind (exec_base ce (clock 1) e) (\<lambda>base.
      svc_bind (ctl_resume base
          (\<lambda>before after now. rop_run (adoption_projection rows target expectedExecutionRevision plan projected next now)) (clock 2)
          (transition e expectedFlowRevision (Some next)
            (projectedState g target (if next = None then E_RUNNING else E_QUEUED) next plan projected))
          (Some (next = None))) (\<lambda>_.
      svc_bind (if next \<noteq> None then advance ce ids (\<lambda>n. clock (n + 3)) c else observed ce c ADV_OBSERVING) (\<lambda>a.
      svc_return (adopted (gx_planRevision e) target False a))))))))))))))"

definition adoptPlanRevision ::
    "controller_env \<Rightarrow> (nat \<Rightarrow> string) \<Rightarrow> (nat \<Rightarrow> int) \<Rightarrow> exec_caller \<Rightarrow> int \<Rightarrow> int \<Rightarrow> int \<Rightarrow> adopt_result svc" where
  "adoptPlanRevision ce ids clock c target expectedExecutionRevision expectedFlowRevision =
     svc_bind (svc_of (exec_bounded (xc_goalId c) 256)) (\<lambda>goalId.
     svc_bind (owned_rows goalId c) (\<lambda>rows.
     let current = gx_planRevision (er_execution rows) in
     if current = target then svc_bind (advance ce ids clock c) (\<lambda>a. svc_return (adopted current current True a))
     else adopt_new ce ids clock c rows target expectedExecutionRevision expectedFlowRevision))"

section \<open>Resolving a blocker\<close>

record resolve_input =
  rz_blockerId :: string
  rz_expectedBlockerRevision :: int
  rz_expectedExecutionRevision :: int
  rz_expectedFlowRevision :: int
  rz_resolvedBy :: string
  rz_resolution :: string

definition resolution_projection ::
    "execution_rows \<Rightarrow> resolve_input \<Rightarrow> bool \<Rightarrow> string \<Rightarrow> string \<Rightarrow> string \<Rightarrow> string \<Rightarrow> int \<Rightarrow> unit rop" where
  "resolution_projection rows i requireFailed stepId blockerId resolvedBy resolution now =
     (let k = g_goalId (er_goal rows) in
      rop_bind (rop_found exec_conflict (getExecution k)) (\<lambda>e.
      rop_bind (rop_found exec_conflict (getStepExecution k stepId (gx_planRevision (er_execution rows)))) (\<lambda>x.
      rop_bind (rop_found exec_conflict (goal_get k)) (\<lambda>g.
      rop_bind (rop_found exec_conflict (getBlocker blockerId)) (\<lambda>b.
      rop_bind (rop_require (gx_revision e = rz_expectedExecutionRevision i \<and> bk_revision b = rz_expectedBlockerRevision i) exec_conflict) (\<lambda>_.
      rop_bind (exec_changed (goal_resolveBlocker (bk_blockerId b) (bk_revision b) resolvedBy resolution now)) (\<lambda>resolved.
      rop_bind (exec_step (x\<lparr>sx_status := P_READY, sx_currentTaskId := None, sx_completedAt := None, sx_nextRetryAt := None,
          sx_lastRetryReason := Some resolution, sx_updatedAt := now\<rparr>)) (\<lambda>_.
      rop_bind (rop_read (getStep (g_goalId g) (sx_stepId x))) (\<lambda>mutable.
      rop_bind (rop_read (canProjectMutablePlanStep g e (sx_stepId x))) (\<lambda>can.
      rop_bind (case mutable of None \<Rightarrow> rop_return ()
        | Some q \<Rightarrow> rop_when (can \<and> ps_status q = S_BLOCKED) (exec_plan_step ((step_hold q S_IN_PROGRESS now)
            \<lparr>sp_note := Some resolution, sp_startedAt := or_some (ps_startedAt q) (Some now), sp_completedAt := None\<rparr>))) (\<lambda>_.
      rop_bind (exec_update e E_QUEUED (Some (sx_stepId x)) now None) (\<lambda>_.
      rop_bind (rop_when (g_status g = G_BLOCKED) (exec_goal ((goal_unblocked g now)\<lparr>gp_lastNote := Some resolution\<rparr>))) (\<lambda>_.
      goal_event (g_goalId g) (if requireFailed then ''plan.step.retry.requested'' else ''plan.step.blocker.resolved'')
        (JObj [(''blockerId'', JStr (bk_blockerId resolved)), (''stepId'', JStr (sx_stepId x)), (''resolvedBy'', JStr resolvedBy),
          (''resolution'', JStr resolution), (''nextAttempt'', JNum (sx_attemptCount x + 1))]) None None now)))))))))))))"

text \<open>A failed or blocked step whose attempts are not used up.\<close>

definition resumable_step :: "bool \<Rightarrow> blocker_row \<Rightarrow> execution_rows \<Rightarrow> err + step_execution_row" where
  "resumable_step requireFailed b rows = (case find (\<lambda>x. sx_stepId x = bk_stepId b) (er_stepExecutions rows) of
     None \<Rightarrow> Inl (exec_error GOAL_EXECUTION_STATE_INVALID)
   | Some x \<Rightarrow>
       res_bind (require (sx_status x = P_FAILED \<or> (\<not> requireFailed \<and> sx_status x = P_BLOCKED)) (exec_error GOAL_EXECUTION_STATE_INVALID)) (\<lambda>_.
       res_bind (require (sx_attemptCount x < sx_maxAttempts x) (exec_error GOAL_EXECUTION_RETRY_LIMIT)) (\<lambda>_. Inr x)))"

definition resumeBlockedStep ::
    "controller_env \<Rightarrow> (nat \<Rightarrow> string) \<Rightarrow> (nat \<Rightarrow> int) \<Rightarrow> exec_caller \<Rightarrow> resolve_input \<Rightarrow> bool \<Rightarrow> (blocker_row \<times> advance_result) svc" where
  "resumeBlockedStep ce ids clock c i requireFailed =
     svc_bind (svc_of (exec_bounded (xc_goalId c) 256)) (\<lambda>goalId.
     svc_bind (owned_rows goalId c) (\<lambda>rows.
     let g = er_goal rows; e = er_execution rows in
     svc_bind (svc_require (gx_revision e = rz_expectedExecutionRevision i) exec_conflict) (\<lambda>_.
     svc_bind (svc_require (gx_status e = E_BLOCKED) (exec_error GOAL_EXECUTION_STATE_INVALID)) (\<lambda>_.
     svc_bind (assertNoActiveTask rows) (\<lambda>_.
     svc_bind (svc_of (exec_bounded (rz_blockerId i) 256)) (\<lambda>blockerId.
     svc_bind (svc_read (getBlocker blockerId)) (\<lambda>found.
     (case found of
        None \<Rightarrow> svc_of (Inl (exec_error GOAL_EXECUTION_BLOCKER_REQUIRED))
      | Some b \<Rightarrow>
          svc_bind (svc_require (bk_goalId b = g_goalId g \<and> bk_planRevision b = gx_planRevision e \<and> bk_status b = B_OPEN)
            (exec_error GOAL_EXECUTION_BLOCKER_REQUIRED)) (\<lambda>_.
          svc_bind (svc_of (resumable_step requireFailed b rows)) (\<lambda>target.
          svc_bind (svc_of (exec_bounded (rz_resolution i) 2000)) (\<lambda>resolution.
          svc_bind (svc_of (exec_bounded (rz_resolvedBy i) 256)) (\<lambda>resolvedBy.
          let stepId = sx_stepId target;
              projectedSteps = set_step stepId (\<lambda>x. x\<lparr>sx_status := P_READY, sx_currentTaskId := None, sx_nextRetryAt := None,
                sx_lastRetryReason := Some resolution, sx_completedAt := None\<rparr>) (er_stepExecutions rows) in
          svc_bind (exec_base ce (clock 0) e) (\<lambda>base.
          svc_bind (ctl_resume base
              (\<lambda>before after now. rop_run (resolution_projection rows i requireFailed stepId (bk_blockerId b) resolvedBy resolution now)) (clock 1)
              (transition e (rz_expectedFlowRevision i) (Some (Some stepId))
                (projectedState g (gx_planRevision e) E_QUEUED (Some stepId) (er_planSteps rows) projectedSteps))
              (Some False)) (\<lambda>_.
          svc_bind (advance ce ids (\<lambda>n. clock (n + 2)) c) (\<lambda>a.
          svc_bind (svc_read (getBlocker (bk_blockerId b))) (\<lambda>again.
          svc_return (or_default again b, a)))))))))))))))))"

record resolve_result =
  rq_view :: execution_view
  rq_blocker :: blocker_row
  rq_action :: advance_action
  rq_scheduled :: bool

definition resolved_result :: "blocker_row \<times> advance_result \<Rightarrow> resolve_result" where
  "resolved_result = (\<lambda>(b, a). \<lparr>rq_view = av_view a, rq_blocker = b, rq_action = av_action a, rq_scheduled = av_scheduled a\<rparr>)"

definition executor_retry ::
    "controller_env \<Rightarrow> (nat \<Rightarrow> string) \<Rightarrow> (nat \<Rightarrow> int) \<Rightarrow> exec_caller \<Rightarrow> resolve_input \<Rightarrow> resolve_result svc" where
  "executor_retry ce ids clock c i = svc_bind (resumeBlockedStep ce ids clock c i True) (\<lambda>r. svc_return (resolved_result r))"

definition executor_resolveBlocker ::
    "controller_env \<Rightarrow> (nat \<Rightarrow> string) \<Rightarrow> (nat \<Rightarrow> int) \<Rightarrow> exec_caller \<Rightarrow> resolve_input \<Rightarrow> resolve_result svc" where
  "executor_resolveBlocker ce ids clock c i = svc_bind (resumeBlockedStep ce ids clock c i False) (\<lambda>r. svc_return (resolved_result r))"

end
