(* ===== verification/Goal_Executor_Life.thy ===== *)
theory Goal_Executor_Life
  imports Goal_Executor_Plan
begin

text \<open>
  \<open>packages/goal-executor/src/service.ts\<close>: how an execution finishes, waits, resumes and fails, its recovery after a restart, and
  \<open>GoalPlanControllerRuntime\<close>, the runtime a controller of the flow of a goal is given, which stands between the controller and
  the runtime of the flow.
\<close>

section \<open>Finishing, waiting, resuming, failing\<close>

text \<open>The execution and the goal in a hook; the execution must be in the revision the caller has read.\<close>

definition hook_rows :: "string \<Rightarrow> int \<Rightarrow> (execution_row \<times> goal_row) rop" where
  "hook_rows goalId expectedExecutionRevision =
     rop_bind (rop_found exec_conflict (getExecution goalId)) (\<lambda>e.
     rop_bind (rop_found exec_conflict (goal_get goalId)) (\<lambda>g.
     rop_bind (rop_require (gx_revision e = expectedExecutionRevision) exec_conflict) (\<lambda>_.
     rop_return (e, g))))"

definition finish_projection :: "execution_rows \<Rightarrow> int \<Rightarrow> int \<Rightarrow> unit rop" where
  "finish_projection rows expectedExecutionRevision now =
     (let n = JNum (int (length (er_stepExecutions rows))) in
      rop_bind (hook_rows (g_goalId (er_goal rows)) expectedExecutionRevision) (\<lambda>(e, g).
      rop_bind (exec_update e E_SUCCEEDED None now (Some now)) (\<lambda>_.
      rop_bind (rop_require (g_status g = G_ACTIVE) (exec_error GOAL_EXECUTION_STATE_INVALID)) (\<lambda>_.
      rop_bind (exec_goal ((goal_hold g now)\<lparr>gp_status := G_COMPLETED, gp_blockerFingerprint := None, gp_consecutiveBlockerCount := 0,
          gp_terminalAt := Some now\<rparr>)) (\<lambda>_.
      rop_bind (goal_event (g_goalId g) ''goal.execution.succeeded'' (JObj [(''flowId'', JStr (gx_flowId e)), (''completedSteps'', n)]) None None now) (\<lambda>_.
      goal_event (g_goalId g) ''goal.completed'' (JObj [(''executor'', JBool True), (''completedSteps'', n)]) None None now))))))"

text \<open>The caller's rows in the revision it has read.\<close>

definition revision_rows :: "exec_caller \<Rightarrow> int \<Rightarrow> execution_rows svc" where
  "revision_rows c expectedExecutionRevision =
     svc_bind (owned_rows (xc_goalId c) c) (\<lambda>rows.
     svc_bind (svc_require (gx_revision (er_execution rows) = expectedExecutionRevision) exec_conflict) (\<lambda>_. svc_return rows))"

definition executor_finish :: "controller_env \<Rightarrow> (nat \<Rightarrow> int) \<Rightarrow> exec_caller \<Rightarrow> int \<Rightarrow> int \<Rightarrow> execution_view svc" where
  "executor_finish ce clock c expectedExecutionRevision expectedFlowRevision =
     svc_bind (revision_rows c expectedExecutionRevision) (\<lambda>rows.
     let e = er_execution rows in
     svc_bind (svc_require (list_all step_done (er_stepExecutions rows)) (exec_error GOAL_EXECUTION_STATE_INVALID)) (\<lambda>_.
     svc_bind (exec_base ce (clock 0) e) (\<lambda>base.
     svc_bind (ctl_finish base (\<lambda>before after now. rop_run (finish_projection rows expectedExecutionRevision now)) (clock 1)
       (transition e expectedFlowRevision None
         (projectedState (er_goal rows) (gx_planRevision e) E_SUCCEEDED None (er_planSteps rows) (er_stepExecutions rows)))) (\<lambda>_.
     executor_get ce c))))"

definition wait_projection :: "execution_rows \<Rightarrow> string \<Rightarrow> int \<Rightarrow> json \<Rightarrow> int \<Rightarrow> unit rop" where
  "wait_projection rows stepId expectedExecutionRevision wait now =
     (let k = g_goalId (er_goal rows) in
      rop_bind (rop_found exec_conflict (getExecution k)) (\<lambda>e.
      rop_bind (rop_found exec_conflict (getStepExecution k stepId (gx_planRevision (er_execution rows)))) (\<lambda>x.
      rop_bind (rop_require (gx_revision e = expectedExecutionRevision \<and> sx_status x = P_READY) exec_conflict) (\<lambda>_.
      rop_bind (exec_step (x\<lparr>sx_status := P_WAITING, sx_currentTaskId := None, sx_updatedAt := now\<rparr>)) (\<lambda>_.
      rop_bind (exec_update e E_WAITING (Some (sx_stepId x)) now None) (\<lambda>_.
      goal_event (gx_goalId e) ''goal.execution.waiting'' (JObj [(''stepId'', JStr (sx_stepId x)), (''wait'', wait)]) None None now))))))"

definition executor_wait :: "controller_env \<Rightarrow> (nat \<Rightarrow> int) \<Rightarrow> exec_caller \<Rightarrow> int \<Rightarrow> int \<Rightarrow> json \<Rightarrow> execution_view svc" where
  "executor_wait ce clock c expectedExecutionRevision expectedFlowRevision wait =
     svc_bind (revision_rows c expectedExecutionRevision) (\<lambda>rows.
     let e = er_execution rows in
     (case first_with P_READY (er_stepExecutions rows) of
        None \<Rightarrow> svc_of (Inl (exec_error GOAL_EXECUTION_STATE_INVALID))
      | Some target \<Rightarrow>
          let stepId = sx_stepId target; projectedSteps = set_step stepId (\<lambda>x. x\<lparr>sx_status := P_WAITING\<rparr>) (er_stepExecutions rows) in
          svc_bind (exec_base ce (clock 0) e) (\<lambda>base.
          svc_bind (ctl_setWaiting base (\<lambda>before after now. rop_run (wait_projection rows stepId expectedExecutionRevision wait now)) (clock 1)
            (transition e expectedFlowRevision (Some (Some stepId))
              (projectedState (er_goal rows) (gx_planRevision e) E_WAITING (Some stepId) (er_planSteps rows) projectedSteps)) wait) (\<lambda>_.
          executor_get ce c))))"

definition resume_projection :: "execution_rows \<Rightarrow> string \<Rightarrow> int \<Rightarrow> int \<Rightarrow> unit rop" where
  "resume_projection rows stepId expectedExecutionRevision now =
     (let k = g_goalId (er_goal rows) in
      rop_bind (hook_rows k expectedExecutionRevision) (\<lambda>(e, g).
      rop_bind (rop_found exec_conflict (getStepExecution k stepId (gx_planRevision (er_execution rows)))) (\<lambda>x.
      rop_bind (rop_found exec_conflict (getStep k stepId)) (\<lambda>q.
      rop_bind (exec_step (x\<lparr>sx_status := P_READY, sx_currentTaskId := None, sx_completedAt := None, sx_nextRetryAt := None,
          sx_updatedAt := now\<rparr>)) (\<lambda>_.
      rop_bind (rop_read (canProjectMutablePlanStep g e (sx_stepId x))) (\<lambda>can.
      rop_bind (rop_when (can \<and> ps_status q = S_BLOCKED) (exec_plan_step ((step_hold q S_IN_PROGRESS now)
          \<lparr>sp_startedAt := or_some (ps_startedAt q) (Some now), sp_completedAt := None\<rparr>))) (\<lambda>_.
      rop_bind (exec_update e E_QUEUED (Some (sx_stepId x)) now None) (\<lambda>_.
      rop_bind (if g_status g = G_BLOCKED then rop_bind (updateGoal (goal_unblocked g now)) (\<lambda>_. rop_return ()) else rop_return ()) (\<lambda>_.
      goal_event (gx_goalId e) ''goal.execution.resumed'' (JObj [(''stepId'', JStr (sx_stepId x)),
        (''nextAttempt'', JNum (sx_attemptCount x + 1))]) None None now)))))))))"

definition executor_resume ::
    "controller_env \<Rightarrow> (nat \<Rightarrow> string) \<Rightarrow> (nat \<Rightarrow> int) \<Rightarrow> exec_caller \<Rightarrow> int \<Rightarrow> int \<Rightarrow> advance_result svc" where
  "executor_resume ce ids clock c expectedExecutionRevision expectedFlowRevision =
     svc_bind (revision_rows c expectedExecutionRevision) (\<lambda>rows.
     let e = er_execution rows; xs = er_stepExecutions rows in
     (case first_with P_WAITING xs of
        None \<Rightarrow> svc_of (Inl (exec_error (if list_ex (\<lambda>x. sx_status x = P_BLOCKED \<or> sx_status x = P_FAILED) xs
          then GOAL_EXECUTION_BLOCKER_REQUIRED else GOAL_EXECUTION_STATE_INVALID)))
      | Some target \<Rightarrow>
          let stepId = sx_stepId target; projectedSteps = set_step stepId (\<lambda>x. x\<lparr>sx_status := P_READY, sx_currentTaskId := None\<rparr>) xs in
          svc_bind (exec_base ce (clock 0) e) (\<lambda>base.
          svc_bind (ctl_resume base (\<lambda>before after now. rop_run (resume_projection rows stepId expectedExecutionRevision now)) (clock 1)
            (transition e expectedFlowRevision (Some (Some stepId))
              (projectedState (er_goal rows) (gx_planRevision e) E_QUEUED (Some stepId) (er_planSteps rows) projectedSteps)) (Some False)) (\<lambda>_.
          advance ce ids (\<lambda>n. clock (n + 2)) c))))"

text \<open>The results of the two updates are not looked at.\<close>

definition fail_projection :: "execution_rows \<Rightarrow> int \<Rightarrow> string \<Rightarrow> int \<Rightarrow> unit rop" where
  "fail_projection rows expectedExecutionRevision summary now =
     rop_bind (hook_rows (g_goalId (er_goal rows)) expectedExecutionRevision) (\<lambda>(e, g).
     rop_bind (updateExecution (gx_goalId e) (gx_revision e) E_FAILED (gx_currentStepId e) now (Some now)) (\<lambda>_.
     rop_bind (if g_status g = G_ACTIVE
       then rop_bind (updateGoal ((goal_hold g now)\<lparr>gp_status := G_BLOCKED, gp_lastNote := Some summary\<rparr>)) (\<lambda>_. rop_return ())
       else rop_return ()) (\<lambda>_.
     goal_event (g_goalId g) ''goal.execution.failed'' (JObj [(''flowId'', JStr (gx_flowId e)), (''summary'', JStr summary)]) None None now)))"

definition executor_fail :: "controller_env \<Rightarrow> (nat \<Rightarrow> int) \<Rightarrow> exec_caller \<Rightarrow> int \<Rightarrow> int \<Rightarrow> string \<Rightarrow> execution_view svc" where
  "executor_fail ce clock c expectedExecutionRevision expectedFlowRevision summary =
     svc_bind (owned_rows (xc_goalId c) c) (\<lambda>rows.
     let e = er_execution rows in
     svc_bind (svc_of (exec_bounded summary 2000)) (\<lambda>v.
     svc_bind (exec_base ce (clock 0) e) (\<lambda>base.
     svc_bind (ctl_fail base (\<lambda>before after now. rop_run (fail_projection rows expectedExecutionRevision v now)) (clock 1)
       (transition e expectedFlowRevision None JUndef) (Some v)) (\<lambda>_.
     executor_get ce c))))"

section \<open>Recovery\<close>

record recovery_result =
  ry_scanned :: nat
  ry_reconciled :: nat
  ry_admitted :: nat
  ry_scheduled :: nat
  ry_blocked :: nat
  ry_failed :: nat

text \<open>The first part of the body of the loop: how many executions it has reconciled, and whether the loop goes on with the
  next execution because the flow was cancelled.\<close>

definition recover_reconcile ::
    "controller_env \<Rightarrow> (nat \<Rightarrow> string) \<Rightarrow> (nat \<Rightarrow> int) \<Rightarrow> execution_row \<Rightarrow> (nat \<times> bool) svc" where
  "recover_reconcile ce ids clock e =
     svc_bind (executor_get ce (caller_of e)) (\<lambda>before.
     if f_status (fv_flow (xw_flow before)) = F_CANCELLED then
       svc_bind (projectCancelled (clock 0) (gx_goalId e)) (\<lambda>has_changed. svc_return (if has_changed then 1 else 0, True))
     else (case Option.bind (truthy (gx_currentStepId (xw_execution before)))
         (\<lambda>k. Option.bind (find (\<lambda>v. sx_stepId (sw_row v) = k) (xw_steps before)) (\<lambda>v. truthy (sx_currentTaskId (sw_row v)))) of
       None \<Rightarrow> svc_return (0, False)
     | Some taskId \<Rightarrow>
         svc_bind (task_service_get (ce_taskWorkspaceIds ce) (gx_workspaceId e) taskId) (\<lambda>v.
         if task_terminal (t_status (vw_task v))
         then svc_bind (reconcileTask ce ids clock (t_taskId (vw_task v))) (\<lambda>_. svc_return (1, False))
         else svc_return (0, False))))"

text \<open>\<open>try\<close> with a handler that only counts: what was counted and committed before it stays.\<close>

definition recover_one ::
    "controller_env \<Rightarrow> (nat \<Rightarrow> string) \<Rightarrow> (nat \<Rightarrow> int) \<Rightarrow> execution_row \<Rightarrow> recovery_result \<times> db \<Rightarrow> recovery_result \<times> db" where
  "recover_one ce ids clock e = (\<lambda>(n, s). case recover_reconcile ce ids clock e s of
     (Inl _, t) \<Rightarrow> (n\<lparr>ry_failed := ry_failed n + 1\<rparr>, t)
   | (Inr (k, over), t) \<Rightarrow>
       let m = n\<lparr>ry_reconciled := ry_reconciled n + k\<rparr> in
       if over then (m, t)
       else (case advance ce (\<lambda>j. ids (j + 1)) (\<lambda>j. clock (j + 7)) (caller_of e) t of
           (Inl _, u) \<Rightarrow> (m\<lparr>ry_failed := ry_failed m + 1\<rparr>, u)
         | (Inr a, u) \<Rightarrow> (m\<lparr>ry_admitted := ry_admitted m + (if av_action a = ADV_ADMITTED then 1 else 0),
             ry_scheduled := ry_scheduled m + (if av_scheduled a then 1 else 0),
             ry_blocked := ry_blocked m + (if av_action a = ADV_BLOCKED then 1 else 0)\<rparr>, u)))"

text \<open>The identifiers and the readings of the clock are those of the execution of each goal.\<close>

definition executor_recover ::
    "controller_env \<Rightarrow> (string \<Rightarrow> nat \<Rightarrow> string) \<Rightarrow> (string \<Rightarrow> nat \<Rightarrow> int) \<Rightarrow> db \<Rightarrow> recovery_result \<times> db" where
  "executor_recover ce ids clock s =
     (let executions = listActiveExecutions 1000 s in
      fold (\<lambda>e. recover_one ce (ids (gx_goalId e)) (clock (gx_goalId e)) e) executions
        (\<lparr>ry_scanned = length executions, ry_reconciled = 0, ry_admitted = 0, ry_scheduled = 0, ry_blocked = 0, ry_failed = 0\<rparr>, s))"

section \<open>The runtime of a controller\<close>

definition validateControllerDecision :: "controller_env \<Rightarrow> int \<Rightarrow> string \<Rightarrow> decision_snapshot option \<Rightarrow> unit svc" where
  "validateControllerDecision ce now goalId expected =
     svc_bind (executor_rows goalId) (\<lambda>rows. assertControllerSnapshot ce now rows expected)"

record plan_runtime =
  pl_env :: controller_env
  pl_base :: controller
  pl_goalId :: string
  pl_expected :: "decision_snapshot option"

record decision_input =
  de_workspaceId :: string
  de_ownerKey :: string
  de_controllerId :: string
  de_snapshot :: decision_snapshot

definition controllerForFlow :: "controller_env \<Rightarrow> int \<Rightarrow> string \<Rightarrow> decision_input option \<Rightarrow> plan_runtime option svc" where
  "controllerForFlow ce now flowId expected =
     svc_bind (getByFlow ce flowId) (\<lambda>found.
     (case found of
        None \<Rightarrow> svc_return None
      | Some v \<Rightarrow>
          let e = xw_execution v in
          svc_bind (svc_require (case expected of None \<Rightarrow> True | Some d \<Rightarrow> gx_workspaceId e = de_workspaceId d
              \<and> gx_conversationId e = de_ownerKey d \<and> gx_controllerId e = de_controllerId d) (exec_error GOAL_EXECUTION_ACCESS_DENIED)) (\<lambda>_.
          svc_bind (executor_rows (gy_goalId (xw_goal v))) (\<lambda>rows.
          svc_bind (exec_base ce now (er_execution rows)) (\<lambda>base.
          svc_return (Some \<lparr>pl_env = ce, pl_base = base, pl_goalId = gy_goalId (xw_goal v),
            pl_expected = map_option de_snapshot expected\<rparr>))))))"

definition runNextFromController ::
    "controller_env \<Rightarrow> (nat \<Rightarrow> string) \<Rightarrow> (nat \<Rightarrow> int) \<Rightarrow> child_input \<Rightarrow> admission_result svc" where
  "runNextFromController ce ids clock i =
     svc_bind (getByFlow ce (ch_flowId i)) (\<lambda>found.
     (case found of
        None \<Rightarrow> svc_of (Inl (exec_error GOAL_EXECUTION_NOT_FOUND))
      | Some v \<Rightarrow>
          svc_bind (executor_rows (gy_goalId (xw_goal v))) (\<lambda>rows.
          let xs = er_stepExecutions rows in
          if list_ex (\<lambda>x. sx_status x = P_READY) xs then svc_bind (admitReady ce ids clock rows (Some i)) (\<lambda>(_, a). svc_return a)
          else (case find (\<lambda>x. sx_status x = P_RUNNING \<and> sx_currentTaskId x \<noteq> None) xs of
              None \<Rightarrow> svc_of (Inl (exec_error GOAL_EXECUTION_STATE_INVALID))
            | Some x \<Rightarrow> (case plan_of_step (sx_stepId x) (er_planSteps rows) of
                None \<Rightarrow> svc_of (Inl (exec_error GOAL_EXECUTION_STATE_INVALID))
              | Some p \<Rightarrow>
                  svc_bind (svc_require (same_request i (step_request rows x p (sx_attemptCount x) 0)) (exec_error GOAL_EXECUTION_REQUEST_CONFLICT)) (\<lambda>_.
                  svc_bind (exec_base ce (clock 0) (er_execution rows)) (\<lambda>base.
                  runTask base ids (\<lambda>n. clock (n + 1)) no_admission_hook i)))))))"

text \<open>\<open>guard\<close>, and the view the methods begin with; a flow without an execution is an error of the language.\<close>

definition guarded :: "plan_runtime \<Rightarrow> int \<Rightarrow> 'a svc \<Rightarrow> 'a svc" where
  "guarded r now m = svc_bind (validateControllerDecision (pl_env r) now (pl_goalId r) (pl_expected r)) (\<lambda>_. m)"

definition guarded_view :: "plan_runtime \<Rightarrow> int \<Rightarrow> string \<Rightarrow> (execution_view \<Rightarrow> exec_caller \<Rightarrow> 'a svc) \<Rightarrow> 'a svc" where
  "guarded_view r now flowId f = guarded r now (
     svc_bind (getByFlow (pl_env r) flowId) (\<lambda>found.
     (case found of
        None \<Rightarrow> svc_of (Inl Js_Error)
      | Some v \<Rightarrow> f v \<lparr>xc_workspaceId = gx_workspaceId (xw_execution v), xc_conversationId = gx_conversationId (xw_execution v),
          xc_goalId = pl_goalId r\<rparr>)))"

definition plan_get :: "plan_runtime \<Rightarrow> string \<Rightarrow> flow_view svc" where
  "plan_get r flowId = ctl_get (pl_base r) flowId"

definition plan_runTask :: "plan_runtime \<Rightarrow> (nat \<Rightarrow> string) \<Rightarrow> (nat \<Rightarrow> int) \<Rightarrow> child_input \<Rightarrow> admission_result svc" where
  "plan_runTask r ids clock i = guarded r (clock 0) (runNextFromController (pl_env r) ids (\<lambda>n. clock (n + 1)) i)"

definition plan_setWaiting :: "plan_runtime \<Rightarrow> (nat \<Rightarrow> int) \<Rightarrow> move_input \<Rightarrow> json \<Rightarrow> flow_row svc" where
  "plan_setWaiting r clock i wait = guarded_view r (clock 0) (tn_flowId i) (\<lambda>v c.
     svc_bind (executor_wait (pl_env r) (\<lambda>n. clock (n + 1)) c (gx_revision (xw_execution v)) (tn_expectedRevision i) wait) (\<lambda>w.
     svc_return (fv_flow (xw_flow w))))"

definition plan_setBlocked :: "plan_runtime \<Rightarrow> (nat \<Rightarrow> int) \<Rightarrow> move_input \<Rightarrow> string \<Rightarrow> string option \<Rightarrow> flow_row svc" where
  "plan_setBlocked r clock i blockedTaskId blockedSummary = guarded_view r (clock 0) (tn_flowId i) (\<lambda>v c.
     svc_bind (svc_require (gx_status (xw_execution v) = E_BLOCKED) (exec_error GOAL_EXECUTION_STATE_INVALID)) (\<lambda>_.
     ctl_setBlocked (pl_base r) no_hook (clock 1) i blockedTaskId blockedSummary))"

definition plan_resume :: "plan_runtime \<Rightarrow> (nat \<Rightarrow> string) \<Rightarrow> (nat \<Rightarrow> int) \<Rightarrow> move_input \<Rightarrow> flow_row svc" where
  "plan_resume r ids clock i = guarded_view r (clock 0) (tn_flowId i) (\<lambda>v c.
     svc_bind (executor_resume (pl_env r) ids (\<lambda>n. clock (n + 1)) c (gx_revision (xw_execution v)) (tn_expectedRevision i)) (\<lambda>a.
     svc_return (fv_flow (xw_flow (av_view a)))))"

definition plan_finish :: "plan_runtime \<Rightarrow> (nat \<Rightarrow> int) \<Rightarrow> move_input \<Rightarrow> flow_row svc" where
  "plan_finish r clock i = guarded_view r (clock 0) (tn_flowId i) (\<lambda>v c.
     svc_bind (executor_finish (pl_env r) (\<lambda>n. clock (n + 1)) c (gx_revision (xw_execution v)) (tn_expectedRevision i)) (\<lambda>w.
     svc_return (fv_flow (xw_flow w))))"

definition plan_fail :: "plan_runtime \<Rightarrow> (nat \<Rightarrow> int) \<Rightarrow> move_input \<Rightarrow> string option \<Rightarrow> flow_row svc" where
  "plan_fail r clock i blockedSummary = guarded_view r (clock 0) (tn_flowId i) (\<lambda>v c.
     svc_bind (executor_fail (pl_env r) (\<lambda>n. clock (n + 1)) c (gx_revision (xw_execution v)) (tn_expectedRevision i)
       (or_default blockedSummary ''Goal Plan executor failed'')) (\<lambda>w.
     svc_return (fv_flow (xw_flow w))))"

definition plan_requestCancel :: "plan_runtime \<Rightarrow> (nat \<Rightarrow> int) \<Rightarrow> string \<Rightarrow> int \<Rightarrow> flow_row svc" where
  "plan_requestCancel r clock flowId expectedRevision =
     guarded r (clock 0) (ctl_requestCancel (pl_base r) (clock 1) (clock 2) flowId expectedRevision)"

definition plan_cancel :: "plan_runtime \<Rightarrow> (nat \<Rightarrow> int) \<Rightarrow> string \<Rightarrow> int \<Rightarrow> flow_cancel_result svc" where
  "plan_cancel r clock flowId expectedRevision = guarded_view r (clock 0) flowId (\<lambda>v c.
     svc_bind (executor_cancel (pl_env r) (\<lambda>n. clock (n + 1)) c (gx_revision (xw_execution v)) expectedRevision) (\<lambda>w.
     svc_return \<lparr>cn_flow = xw_flow w,
       cn_affectedTasks = length (filter (\<lambda>t. \<not> task_terminal (t_status (fl_task t))) (fv_tasks (xw_flow v))), cn_replayed = False\<rparr>))"

end
