(* ===== verification/Plan_Frame.thy ===== *)
theory Plan_Frame
  imports Goal_Executor_Life Conversation_Properties
begin

text \<open>
  The services of conversations and delegations leave flows and goals alone, and what only reads leaves everything alone.
  So the state a method of a controller or of the executor ends in is that of its one transaction.
\<close>

section \<open>Flows and goals under the conversation services\<close>

definition same_plans :: "db \<Rightarrow> db \<Rightarrow> bool" where
  "same_plans s t \<longleftrightarrow> task_flows t = task_flows s \<and> task_flow_tasks t = task_flow_tasks s \<and> task_flow_events t = task_flow_events s
     \<and> agent_goals t = agent_goals s \<and> agent_goal_plan_steps t = agent_goal_plan_steps s
     \<and> agent_goal_plan_revision_steps t = agent_goal_plan_revision_steps s \<and> agent_goal_events t = agent_goal_events s
     \<and> agent_goal_executions t = agent_goal_executions s \<and> agent_goal_step_executions t = agent_goal_step_executions s
     \<and> agent_goal_step_blockers t = agent_goal_step_blockers s"

lemma same_plans_trans: "same_plans a b \<Longrightarrow> same_plans b c \<Longrightarrow> same_plans a c"
  by (simp add: same_plans_def)

lemma only_tasks_plans: "only_tasks s t \<Longrightarrow> same_plans s t"
  by (auto simp: only_tasks_def same_plans_def)

lemma conversation_ops_plans:
  "createConversation row s = Inr s1 \<Longrightarrow> same_plans s s1"
  "nextMessageSequence i now s = Inr (s2, n) \<Longrightarrow> same_plans s s2"
  "insertMessage m s = Inr s3 \<Longrightarrow> same_plans s s3"
  "insertSubmission sub s = Inr s4 \<Longrightarrow> same_plans s s4"
  "nextEventSequence i now s = Inr (s5, n) \<Longrightarrow> same_plans s s5"
  "insertEvent e s = Inr s6 \<Longrightarrow> same_plans s s6"
  "insertAttempt a s = Inr s7 \<Longrightarrow> same_plans s s7"
  "write_attempt i msg f s = Inr s8 \<Longrightarrow> same_plans s s8"
  "insertModelInvocation v s = Inr s9 \<Longrightarrow> same_plans s s9"
  "completeModelInvocation i st resp inp outp err now s = Inr s10 \<Longrightarrow> same_plans s s10"
  "recoverStartedModelInvocations i now s = (s11, k) \<Longrightarrow> same_plans s s11"
  "rebuildProjection i now s = Inr (s12, p) \<Longrightarrow> same_plans s s12"
  by (auto simp: same_plans_def createConversation_def nextMessageSequence_def insertMessage_def insertSubmission_def
      nextEventSequence_def insertEvent_def insertAttempt_def write_attempt_def insertModelInvocation_def
      completeModelInvocation_def recoverStartedModelInvocations_def rebuildProjection_def Let_def split: if_splits option.splits)

lemma delegation_ops_plans:
  "insertBudgetEnvelope b s = Inr s1 \<Longrightarrow> same_plans s s1"
  "updateBudgetUsage i us now s = Inr s2 \<Longrightarrow> same_plans s s2"
  "updateDelegationStatus i ds x y z now s = Inr s3 \<Longrightarrow> same_plans s s3"
  "delegation_insertEvent dv s = Inr s4 \<Longrightarrow> same_plans s s4"
  "insertWait w s = Inr s5 \<Longrightarrow> same_plans s s5"
  "deleteWait i j s = (s6, gone) \<Longrightarrow> same_plans s s6"
  "insertResultDelivery rd s = Inr s7 \<Longrightarrow> same_plans s s7"
  "markResultDelivered i h at now s = Inr s8 \<Longrightarrow> same_plans s s8"
  "releaseBudgetReservation i rr us now s = Inr (s9, br) \<Longrightarrow> same_plans s s9"
  by (auto simp: same_plans_def insertBudgetEnvelope_def updateBudgetUsage_def budget_write_def updateDelegationStatus_def
      delegation_write_def delegation_insertEvent_def insertWait_def deleteWait_def insertResultDelivery_def
      markResultDelivered_def releaseBudgetReservation_def Let_def split: if_splits option.splits)

lemma run_ops_plans: "insertRun run s = Inr t \<Longrightarrow> same_plans s t" "updateRun u s = Inr t \<Longrightarrow> same_plans s t"
  by (auto dest!: insertRun_only updateRun_only only_tasks_plans simp: same_plans_def)

interpretation pl: conversation_statements same_plans
proof
  show "same_plans s s" "same_plans a b \<Longrightarrow> same_plans b c \<Longrightarrow> same_plans a c" for s a b c
    by (simp_all add: same_plans_def)
qed (blast intro: conversation_ops_plans delegation_ops_plans run_ops_plans)+

section \<open>Reading\<close>

lemma flow_owned_reads: "readonly.steps (flow_owned fs w owner k)"
  unfolding flow_owned_def by (intro readonly.steps_intros)

lemma task_get_reads: "readonly.steps (task_service_get ws w k)"
  unfolding readonly.steps_def by (auto simp: task_service_get_def transaction_def svc_bind_def svc_of_def split: sum.splits option.splits)

lemma flow_get_reads: "readonly.steps (flow_service_get fs w owner k)"
  unfolding flow_service_get_def by (intro readonly.steps_intros flow_owned_reads task_get_reads)

lemma ctl_get_reads: "readonly.steps (ctl_get ct k)"
  unfolding ctl_get_def assertControlled_def by (intro readonly.steps_intros flow_get_reads)

lemma executor_rows_reads: "readonly.steps (executor_rows k)"
  unfolding executor_rows_def
  by (rule readonly.steps_transaction) (auto simp: rop_bind_Inr rop_found_Inr split: prod.splits if_splits)

lemma owned_rows_reads: "readonly.steps (owned_rows k c)"
  unfolding owned_rows_def by (intro readonly.steps_intros executor_rows_reads)

lemma executor_get_reads: "readonly.steps (executor_get ce c)"
  unfolding executor_get_def Let_def by (intro readonly.steps_intros owned_rows_reads flow_get_reads)

lemma reads_same: "readonly.steps m \<Longrightarrow> m s = (r, t) \<Longrightarrow> t = s"
  by (rule readonly.stepsD)

section \<open>Binding a controller\<close>

text \<open>Binding reads the conversation, which may rebuild its projection.\<close>

lemma conversation_get_plans: "pl.steps (conversation_get cs now w k)" and conversation_get_records: "rk.steps (conversation_get cs now w k)"
  unfolding conversation_get_def
  by (intro pl.call_intros pl.body_intros pl.conversation_keeps, intro rk.call_intros rk.body_intros rk.conversation_keeps)

lemma ctl_bind_plans: "pl.steps (ctl_bind ce now w owner k)"
  unfolding ctl_bind_def by (intro pl.call_intros conversation_get_plans)

lemma exec_base_plans: "pl.steps (exec_base ce now e)"
  unfolding exec_base_def by (rule ctl_bind_plans)

lemma ctl_bind_Inr: "ctl_bind ce now w owner k s = (Inr ct, t) \<Longrightarrow>
    ct_env ct = ce \<and> ct_workspaceId ct = js_trim w \<and> ct_ownerKey ct = js_trim owner \<and> ct_controllerId ct = js_trim k"
  by (auto simp: ctl_bind_def svc_bind_Inr flow_bounded_def Let_def split: sum.splits if_splits)

end
