(* ===== verification/Controller_Properties.thy ===== *)
theory Controller_Properties
  imports Plan_Frame
begin

text \<open>
  What the runtime of a flow promises a controller: a child is admitted once, however often its request is repeated.
\<close>

section \<open>The statements of an admission\<close>

lemma flow_row_writes:
  "flow_linkTask l s = Inr (s1, o1) \<Longrightarrow> same_records s s1 \<and> background_tasks s1 = background_tasks s \<and> task_flows s1 = task_flows s"
  "flow_update u s = Inr (s2, ro) \<Longrightarrow> same_records s s2 \<and> background_tasks s2 = background_tasks s \<and> task_flow_tasks s2 = task_flow_tasks s"
  "flow_appendEvent e s = Inr s3 \<Longrightarrow> same_records s s3 \<and> background_tasks s3 = background_tasks s \<and> task_flow_tasks s3 = task_flow_tasks s
     \<and> task_flows s3 = task_flows s"
  by (auto simp: same_records_def flow_linkTask_def flow_update_def flow_appendEvent_def Let_def split: option.splits if_splits)

lemma linked_reads: "flow_linkTask l s = Inr (t, LINKED) \<Longrightarrow> getTaskLink (l_taskId l) t = Some l"
  by (auto simp: flow_linkTask_def getTaskLink_def tbl_get_append split: option.splits if_splits)

text \<open>The flow of the controller.\<close>

definition own_flow :: "controller \<Rightarrow> string \<Rightarrow> db \<Rightarrow> bool" where
  "own_flow ct k s \<longleftrightarrow> (\<exists>f. flow_get k s = Some f \<and> f_workspaceId f = ct_workspaceId ct \<and> f_ownerKey f = ct_ownerKey ct
     \<and> f_controllerId f = ct_controllerId ct)"

lemma own_flow_update: "flow_update u s = Inr (t, ro) \<Longrightarrow> own_flow ct k s \<Longrightarrow> own_flow ct k t"
  by (auto simp: own_flow_def flow_update_def flow_get_def tbl_get_write split: option.splits if_splits)

lemma own_flow_cong: "task_flows t = task_flows s \<Longrightarrow> own_flow ct k t = own_flow ct k s"
  by (simp add: own_flow_def flow_get_def)

lemma task_update_by_run:
  assumes "task_update p s = Inr (t, Some v)" and "task_getByRun k s = Some c"
  shows "t_taskId v = tu_taskId p \<and> (\<exists>w. task_getByRun k t = Some w \<and> t_taskId w = t_taskId c)"
proof -
  from assms(1) obtain e where e: "task_get (tu_taskId p) s = Some e" "v = task_updated_row p e e"
    and t: "background_tasks t = tbl_modify (\<lambda>r. t_taskId r = tu_taskId p \<and> t_revision r = tu_expectedRevision p) (task_updated_row p e)
      (background_tasks s)"
    by (auto simp: task_update_def Let_def split: option.splits if_splits)
  have "t_taskId e = tu_taskId p" using e(1) by (auto simp: task_get_def dest: tbl_get_key)
  with e(2) assms(2) show ?thesis by (auto simp: task_getByRun_def t tbl_get_write task_updated_row_def)
qed

lemma classifyRun_task:
  assumes "classifyRun i s = Inr (t, v)"
  shows "\<exists>w. task_getByRun (ci_runId i) t = Some w \<and> t_taskId w = t_taskId v"
proof -
  from assms obtain c where c: "task_getByRun (ci_runId i) s = Some c" by (auto simp: classifyRun_def split: option.splits)
  show ?thesis
  proof (cases "t = s \<and> v = c")
    case True
    with c show ?thesis by simp
  next
    case False
    with assms c obtain parent notify s1 e where u: "task_update (classify_patch i c parent notify) s = Inr (s1, Some v)"
      and e: "task_appendEvent e s1 = Inr t"
      by (auto simp: classifyRun_def Let_def split: if_splits option.splits prod.splits)
    have "tu_taskId (classify_patch i c parent notify) = t_taskId c" by (simp add: classify_patch_def)
    with task_update_by_run [OF u c] task_appendEvent_Inr [OF e] show ?thesis by (simp add: task_getByRun_def)
  qed
qed

section \<open>A child that has been admitted\<close>

definition child_message :: "controller \<Rightarrow> child_input \<Rightarrow> send_input" where
  "child_message ct i = child_send ct (deterministicSubmissionKey (ct_env ct) (ch_flowId i) (ch_requestKey i)) (ch_text i)"

definition child_taken :: "controller \<Rightarrow> child_input \<Rightarrow> admitted \<Rightarrow> db \<Rightarrow> bool" where
  "child_taken ct i a s \<longleftrightarrow> own_flow ct (ch_flowId i) s
     \<and> validateSendInput (ce_conversations (ct_env ct)) (child_message ct i) = Inr ()
     \<and> message_taken (ce_conversations (ct_env ct)) (child_message ct i) (ad_message a) (r_runId (ad_run a)) s
     \<and> (\<exists>w l. task_getByRun (r_runId (ad_run a)) s = Some w \<and> t_taskId w = ad_taskId a \<and> getTaskLink (ad_taskId a) s = Some l
          \<and> l_flowId l = ch_flowId i \<and> l_stepKey l = Some (ch_stepKey i))"

lemma flow_get_id: "flow_get k s = Some f \<Longrightarrow> f_flowId f = k"
  by (auto simp: flow_get_def dest: tbl_get_key)

lemma send_in_transaction:
  assumes "sendInTransaction cs ids now now2 i s = Inr (t, out)"
  shows "validateSendInput cs i = Inr ()" "message_taken cs i (sr_message out) (r_runId (sr_run out)) t" "same_plans s t"
proof -
  from assms have v: "validateSendInput cs i = Inr ()" and w: "sendWithRepositories cs ids now now2 Role_user i s = Inr (t, out)"
    by (auto simp: sendInTransaction_def rop_bind_Inr rop_of_Inr)
  then have "conversation_send cs ids now now2 i s = (Inr out, t)" by (simp add: conversation_send_def transaction_def)
  from send_taken [OF this] show "validateSendInput cs i = Inr ()" "message_taken cs i (sr_message out) (r_runId (sr_run out)) t" by auto
  show "same_plans s t" by (rule keepsD [OF pl.send_keeps w])
qed

lemma send_again:
  assumes "validateSendInput cs i = Inr ()" and "message_taken cs i message runId s"
  shows "\<exists>again. sendInTransaction cs ids now now2 i s = Inr (s, again) \<and> sr_message again = message \<and> r_runId (sr_run again) = runId"
proof -
  from taken_again [OF assms] obtain again where "conversation_send cs ids now now2 i s = (Inr again, s)" "sr_message again = message"
    "r_runId (sr_run again) = runId" by blast
  with assms(1) show ?thesis
    by (auto simp: sendInTransaction_def rop_bind_def rop_of_def conversation_send_def transaction_def split: sum.splits)
qed

lemma taken_child_again:
  assumes "child_taken ct i a s"
  shows "\<exists>b. admit_transaction ct ids clock no_admission_hook i s = Inr (s, b) \<and> ad_replayed b \<and> ad_taskId b = ad_taskId a
    \<and> r_runId (ad_run b) = r_runId (ad_run a) \<and> ad_message b = ad_message a"
proof -
  let ?m = "child_message ct i"
  from assms obtain f w l x where f: "flow_get (ch_flowId i) s = Some f" "f_workspaceId f = ct_workspaceId ct" "f_ownerKey f = ct_ownerKey ct"
      "f_controllerId f = ct_controllerId ct"
    and w: "task_getByRun (r_runId (ad_run a)) s = Some w" "t_taskId w = ad_taskId a" "getTaskLink (ad_taskId a) s = Some l"
      "l_flowId l = ch_flowId i" "l_stepKey l = Some (ch_stepKey i)"
    and x: "getSubmission (sd_conversationId ?m) (sd_submissionKey ?m) s = Some x"
    by (auto simp: child_taken_def own_flow_def message_taken_def)
  from assms send_again obtain again where again: "sendInTransaction (ce_conversations (ct_env ct)) ids (clock 1) (clock 2) ?m s = Inr (s, again)"
    "sr_message again = ad_message a" "r_runId (sr_run again) = r_runId (ad_run a)"
    unfolding child_taken_def by blast
  from x have "getSubmission (ct_ownerKey ct) (deterministicSubmissionKey (ct_env ct) (ch_flowId i) (ch_requestKey i)) s = Some x"
    by (simp add: child_message_def child_send_def)
  then show ?thesis using f w again flow_get_id [OF f(1)]
    by (simp add: admit_transaction_def Let_def rop_bind_def rop_found_def child_message_def [symmetric] admit_again_def rop_do_def no_admission_hook_def)
qed

lemma admit_again_Inr:
  assumes "admit_again f k no_admission_hook now sent s = Inr (t, a)"
  shows "t = s \<and> ad_run a = sr_run sent \<and> ad_message a = sr_message sent
    \<and> (\<exists>w l. task_getByRun (r_runId (ad_run a)) s = Some w \<and> t_taskId w = ad_taskId a \<and> getTaskLink (ad_taskId a) s = Some l
          \<and> l_flowId l = f_flowId f \<and> l_stepKey l = Some k)"
  using assms by (auto simp: admit_again_def no_admission_hook_def rop_bind_Inr rop_do_Inr split: option.splits if_splits)

lemma admit_new_Inr:
  assumes "admit_new ct f i no_admission_hook now sent s = Inr (t, a)"
  shows "records_kept s t \<and> ad_run a = sr_run sent \<and> ad_message a = sr_message sent \<and> (own_flow ct k s \<longrightarrow> own_flow ct k t)
    \<and> (\<exists>w l. task_getByRun (r_runId (ad_run a)) t = Some w \<and> t_taskId w = ad_taskId a \<and> getTaskLink (ad_taskId a) t = Some l
          \<and> l_flowId l = f_flowId f \<and> l_stepKey l = Some (ch_stepKey i))"
proof -
  from assms obtain s1 task s2 s3 g e ci l where c: "classifyRun ci s = Inr (s1, task)" "ci_runId ci = r_runId (sr_run sent)"
    and l: "flow_linkTask l s1 = Inr (s2, LINKED)" "l_taskId l = t_taskId task" "l_flowId l = f_flowId f" "l_stepKey l = Some (ch_stepKey i)"
    and u: "flow_update (admission_patch f (ch_stepKey i) (ch_state i) now) s2 = Inr (s3, Some g)" and e: "flow_appendEvent e s3 = Inr t"
    and a: "ad_run a = sr_run sent" "ad_message a = sr_message sent" "ad_taskId a = t_taskId task"
    by (auto simp: admit_new_def no_admission_hook_def rop_bind_Inr rop_do_Inr split: option.splits if_splits)
  note w = flow_row_writes(1) [OF l(1)] flow_row_writes(2) [OF u] flow_row_writes(3) [OF e]
  have "same_records s1 t" using w by (simp add: same_records_def)
  then have "records_kept s t" using kept_trans [OF only_tasks_kept [OF classifyRun_only [OF c(1)]] same_records_kept] by blast
  moreover have "own_flow ct k t" if "own_flow ct k s"
    using that w own_flow_update [OF u] only_tasks_plans [OF classifyRun_only [OF c(1)]]
    by (simp add: own_flow_cong [of t s3] own_flow_cong [of s2 s1] own_flow_cong [of s1 s] same_plans_def)
  moreover have "task_getByRun (r_runId (ad_run a)) t = task_getByRun (ci_runId ci) s1" "getTaskLink (ad_taskId a) t = Some l"
    using w linked_reads [OF l(1)] l(2) a c(2) by (simp_all add: task_getByRun_def getTaskLink_def)
  ultimately show ?thesis using classifyRun_task [OF c(1)] l a by auto
qed

lemma admitted_taken:
  assumes "admit_transaction ct ids clock no_admission_hook i s = Inr (t, a)"
  shows "child_taken ct i a t"
proof -
  let ?m = "child_message ct i"
  from assms obtain f s1 sent where f: "flow_get (ch_flowId i) s = Some f" "f_workspaceId f = ct_workspaceId ct" "f_ownerKey f = ct_ownerKey ct"
      "f_controllerId f = ct_controllerId ct"
    and sent: "sendInTransaction (ce_conversations (ct_env ct)) ids (clock 1) (clock 2) ?m s = Inr (s1, sent)"
    and a: "admit_again f (ch_stepKey i) no_admission_hook (clock 0) sent s1 = Inr (t, a) \<or> admit_new ct f i no_admission_hook (clock 0) sent s1 = Inr (t, a)"
    by (auto simp: admit_transaction_def Let_def rop_bind_Inr rop_found_Inr rop_of_Inr child_message_def [symmetric] split: if_splits)
  note sends = send_in_transaction [OF sent]
  have own: "own_flow ct (ch_flowId i) s1"
    using f sends(3) by (auto simp: own_flow_def flow_get_def same_plans_def)
  have id: "f_flowId f = ch_flowId i" using f(1) by (rule flow_get_id)
  from a show ?thesis
  proof
    assume "admit_again f (ch_stepKey i) no_admission_hook (clock 0) sent s1 = Inr (t, a)"
    from admit_again_Inr [OF this] own sends(1,2) id show ?thesis unfolding child_taken_def by force
  next
    assume "admit_new ct f i no_admission_hook (clock 0) sent s1 = Inr (t, a)"
    note n = admit_new_Inr [OF this, of "ch_flowId i"]
    with taken_kept [OF conjunct1 [OF n] sends(2)] own sends(1) id show ?thesis unfolding child_taken_def by force
  qed
qed

section \<open>Repeating a request\<close>

lemma normal_child_admission: "normal_child i = Inr j \<Longrightarrow> normal_child (i\<lparr>ch_expectedRevision := r\<rparr>) = Inr (j\<lparr>ch_expectedRevision := r\<rparr>)"
  by (auto simp: normal_child_def split: if_splits)

lemma child_taken_revision: "child_taken ct (i\<lparr>ch_expectedRevision := r\<rparr>) a s = child_taken ct i a s"
  by (simp add: child_taken_def child_message_def)

text \<open>C12. A request for a child of a flow that was admitted is answered by the same request at any later reading of the clock,
  with other identifiers and naming any revision of the flow: with the same task, run and message, as a replay, and without a change.\<close>

theorem child_admitted_once:
  assumes "runTask ct ids clock no_admission_hook i s = (Inr a, t)"
  shows "\<exists>b. runTask ct ids' clock' no_admission_hook (i\<lparr>ch_expectedRevision := r\<rparr>) t = (Inr b, t) \<and> ar_replayed b
    \<and> ar_task b = ar_task a \<and> r_runId (ar_run b) = r_runId (ar_run a) \<and> ar_message b = ar_message a \<and> ar_flow b = ar_flow a"
proof -
  from assms obtain j c s1 v s2 where j: "normal_child i = Inr j" and c: "admit_transaction ct ids clock no_admission_hook j s = Inr (s1, c)"
    and v: "task_service_get (ce_taskWorkspaceIds (ct_env ct)) (ct_workspaceId ct) (ad_taskId c) s1 = (Inr v, s2)"
    and flow: "ctl_get ct (ch_flowId j) s2 = (Inr (ar_flow a), t)"
    and a: "ar_task a = vw_task v" "ar_run a = ad_run c" "ar_message a = ad_message c"
    by (auto simp: runTask_def transaction_def Let_def svc_bind_Inr split: sum.splits)
  from reads_same [OF task_get_reads v] reads_same [OF ctl_get_reads flow] have t: "s2 = s1" "t = s1" by simp_all
  let ?j = "j\<lparr>ch_expectedRevision := r\<rparr>"
  from admitted_taken [OF c] have "child_taken ct ?j c s1" by (simp add: child_taken_revision)
  from taken_child_again [OF this, of ids' clock'] obtain b where "admit_transaction ct ids' clock' no_admission_hook ?j s1 = Inr (s1, b)"
    "ad_replayed b" "ad_taskId b = ad_taskId c" "r_runId (ad_run b) = r_runId (ad_run c)" "ad_message b = ad_message c" by blast
  then show ?thesis using normal_child_admission [OF j] v flow a
    by (simp add: runTask_def transaction_def Let_def svc_bind_def t)
qed

definition sample_env :: controller_env where
  "sample_env = \<lparr>ce_flows = \<lparr>fs_workspaceIds = [''w''], fs_taskWorkspaceIds = [''w'']\<rparr>, ce_conversations = sample_conversations,
     ce_taskWorkspaceIds = [''w''], ce_sha256 = no_hash, ce_scheduleRun = (\<lambda>_. True), ce_cancelTask = None\<rparr>"

definition sample_controller :: controller where
  "sample_controller = \<lparr>ct_env = sample_env, ct_workspaceId = ''w'', ct_ownerKey = ''c1'', ct_controllerId = ''x''\<rparr>"

definition sample_child :: child_input where
  "sample_child = \<lparr>ch_flowId = ''f'', ch_expectedRevision = 1, ch_requestKey = ''q'', ch_stepKey = ''p1'', ch_text = ''go'', ch_state = JUndef\<rparr>"

definition sample_flow :: flow_row where
  "sample_flow = managed_row sample_controller ''f'' ''ship'' None JNull F_QUEUED 0"

definition flow_db :: db where
  "flow_db = conversation_db\<lparr>task_flows := [sample_flow]\<rparr>"

definition child_db :: db where
  "child_db = snd (runTask sample_controller send_ids (\<lambda>_. 0) no_admission_hook sample_child flow_db)"

lemma sample_env_simps [simp]: "ce_conversations sample_env = sample_conversations" "ce_taskWorkspaceIds sample_env = [''w'']"
  "ce_sha256 sample_env = no_hash" "ce_scheduleRun sample_env r" "fs_workspaceIds (ce_flows sample_env) = [''w'']"
  "fs_taskWorkspaceIds (ce_flows sample_env) = [''w'']"
  by (simp_all add: sample_env_def)

definition sample_key :: string where
  "sample_key = ''flow-task:'' @ no_hash []"

lemma sample_submission: "deterministicSubmissionKey sample_env k q = sample_key"
  by (simp add: deterministicSubmissionKey_def flow_digest_def sample_key_def no_hash_def)

lemma sample_key_ok [simp]: "key_pattern sample_key" "key_pattern (''submission:'' @ sample_key)" "sample_key \<noteq> []" "length sample_key = 74"
  by code_simp+

lemma sample_submission_key [simp]:
  "key_pattern (CHR ''s'' # CHR ''u'' # CHR ''b'' # CHR ''m'' # CHR ''i'' # CHR ''s'' # CHR ''s'' # CHR ''i'' # CHR ''o'' # CHR ''n'' # CHR '':'' # sample_key)"
  using sample_key_ok(2) by simp

lemmas child_defs = runTask_def normal_child_def admit_transaction_def admission_guards_def admit_new_def admission_patch_def
  no_admission_hook_def flow_linkTask_def flow_update_def flow_appendEvent_def flow_nextEventSequence_def flow_get_def getTaskLink_def listTaskLinks_def flow_listEvents_def
  flow_checks_def blocked_exists_def flow_updated_row_def store_json_def task_service_get_def ctl_get_def flow_service_get_def
  flow_owned_def flow_authorize_def flow_bounded_def task_authorize_def task_bounded_def assertControlled_def managed_row_def
  sample_controller_def sample_child_def sample_flow_def flow_db_def flow_terminal_def child_send_def classifyRun_def classify_patch_def
  keep_task_def task_update_def task_updated_row_def task_nextEventSequence_def

lemma sample_admission: "\<exists>out. runTask sample_controller send_ids (\<lambda>_. 0) no_admission_hook sample_child flow_db = (Inr out, child_db)"
  by (simp add: child_db_def child_defs svc_bind_def svc_require_def svc_read_def svc_of_def svc_return_def jopt_str_def
      sample_submission flow_digest_def transaction_def validateSendInput_def conv_authorize_def conv_bounded_def
      workspace_ok any_text_def sendInTransaction_def
      sendWithRepositories_def owned_conversation_def send_rows_def send_ids_at appendEventWithRepositories_def append_new_def stored_event_def
      opt_eq_def send_hash_def conv_hash_def conv_summary_def statement_defs table_reads sample_defs)

theorem child_admitted_once_witness: "\<exists>a b. runTask sample_controller send_ids (\<lambda>_. 0) no_admission_hook sample_child flow_db = (Inr a, child_db)
  \<and> runTask sample_controller send_ids (\<lambda>_. 5) no_admission_hook (sample_child\<lparr>ch_expectedRevision := 2\<rparr>) child_db = (Inr b, child_db)
  \<and> ar_replayed b \<and> r_runId (ar_run b) = r_runId (ar_run a)"
proof -
  obtain a where a: "runTask sample_controller send_ids (\<lambda>_. 0) no_admission_hook sample_child flow_db = (Inr a, child_db)"
    using sample_admission by blast
  then show ?thesis using child_admitted_once [OF a, of send_ids "\<lambda>_. 5" 2] by blast
qed

end
