(* ===== verification/Executor_Properties.thy ===== *)
theory Executor_Properties
  imports Controller_Properties Goal_Properties
begin

text \<open>
  What the executor of goal plans promises: an execution finishes in one transaction with its flow and its goal, and only when
  every step is done.
\<close>

section \<open>Calls\<close>

lemma svc_bind_cases: "svc_bind m f s = (r, t) \<longleftrightarrow> (\<exists>e. m s = (Inl e, t) \<and> r = Inl e) \<or> (\<exists>x u. m s = (Inr x, u) \<and> f x u = (r, t))"
  by (auto simp: svc_bind_def split: sum.splits prod.splits)

lemma transaction_cases: "transaction m s = (r, t) \<longleftrightarrow> (\<exists>e. m s = Inl e \<and> r = Inl e \<and> t = s) \<or> (\<exists>x. m s = Inr (t, x) \<and> r = Inr x)"
  by (auto simp: transaction_def split: sum.splits)

lemma svc_require_cases: "svc_require b e s = (r, t) \<longleftrightarrow> t = s \<and> r = (if b then Inr () else Inl e)"
  by (auto simp: svc_require_def)

lemma svc_of_cases: "svc_of x s = (r, t) \<longleftrightarrow> t = s \<and> r = x"
  by (auto simp: svc_of_def)

lemma owned_rows_Inr:
  assumes "owned_rows k c s = (Inr rows, t)"
  shows "t = s \<and> goal_get k s = Some (er_goal rows) \<and> getExecution k s = Some (er_execution rows) \<and> owned_by (er_goal rows) c
    \<and> er_planSteps rows = listPlanRevisionSteps k (gx_planRevision (er_execution rows)) s
    \<and> er_stepExecutions rows = listStepExecutions k (gx_planRevision (er_execution rows)) s"
  using assms by (auto simp: owned_rows_def executor_rows_def svc_bind_cases svc_require_cases svc_return_def transaction_cases
      rop_bind_Inr rop_found_Inr split: if_splits prod.splits)

text \<open>A transition of the flow does nothing, or is one transaction.\<close>

lemma flow_owned_Inr:
  assumes "flow_owned fs w owner k s = (Inr f, u)"
  shows "u = s \<and> flow_get (js_trim k) s = Some f \<and> f_flowId f = js_trim k"
proof -
  have "x = js_trim v" if "flow_bounded v n = Inr x" for v n x
    using that by (auto simp: flow_bounded_def Let_def split: if_splits)
  then show ?thesis using assms
    by (auto simp: flow_owned_def svc_bind_cases svc_of_cases svc_read_def svc_require_cases svc_return_def flow_get_id split: option.splits if_splits sum.splits)
qed

lemma flow_mutate_cases:
  assumes "flow_mutate fs hook now i s = (r, t)"
  shows "(\<exists>e. r = Inl e) \<and> t = s \<or> (\<exists>f. r = Inr f \<and> mutate_transaction hook (js_trim (fm_flowId i)) i now s = Inr (t, f))"
proof -
  from assms consider (fails) e u where "flow_owned fs (fm_workspaceId i) (fm_ownerKey i) (fm_flowId i) s = (Inl e, u)" "r = Inl e" "t = u"
    | (owned) f u where "flow_owned fs (fm_workspaceId i) (fm_ownerKey i) (fm_flowId i) s = (Inr f, u)"
      "transaction (mutate_transaction hook (f_flowId f) i now) u = (r, t)"
    unfolding flow_mutate_def svc_bind_cases by blast
  then show ?thesis
  proof cases
    case fails
    then show ?thesis using reads_same [OF flow_owned_reads] by blast
  next
    case owned
    with flow_owned_Inr [OF owned(1)] show ?thesis unfolding transaction_cases by auto
  qed
qed

lemma controlled_cases: "controlled ct k m s = (r, t) \<Longrightarrow> (\<exists>e. r = Inl e) \<and> t = s \<or> m s = (r, t)"
  unfolding controlled_def assertControlled_def svc_bind_cases svc_require_cases by (metis flow_get_reads reads_same)

section \<open>What a hook writes\<close>

text \<open>The tables a transition of the flow leaves to its hook.\<close>

definition same_goals :: "db \<Rightarrow> db \<Rightarrow> bool" where
  "same_goals s t \<longleftrightarrow> agent_goals t = agent_goals s \<and> agent_goal_executions t = agent_goal_executions s
     \<and> agent_goal_step_executions t = agent_goal_step_executions s"

lemma find_also: "tbl_get key k rows = Some c \<Longrightarrow> q c \<Longrightarrow> find (\<lambda>r. key r = k \<and> q r) rows = Some c"
  by (induction rows) (auto simp: tbl_get_def split: if_splits)

lemma flow_written:
  assumes "flow_get k s = Some c" and "f_revision c = fu_expectedRevision p" and "fu_flowId p = f_flowId c"
    and "flow_update p s = Inr (t, Some r)"
  shows "r = flow_updated_row p c \<and> flow_get k t = Some r \<and> same_goals s t"
proof -
  have k: "f_flowId c = k" using assms(1) by (rule flow_get_id)
  let ?p = "\<lambda>r. f_flowId r = fu_flowId p \<and> f_revision r = fu_expectedRevision p"
  have "find ?p (task_flows s) = Some c"
    using find_also [of f_flowId k "task_flows s" c "\<lambda>r. f_revision r = fu_expectedRevision p"] assms(1-3) k
    unfolding flow_get_def by metis
  with assms(4) have "t = s\<lparr>task_flows := tbl_modify ?p (flow_updated_row p) (task_flows s)\<rparr>" and r: "r = flow_updated_row p c"
    by (auto simp: flow_update_def split: if_splits)
  moreover have "tbl_get f_flowId k (tbl_modify ?p (flow_updated_row p) (task_flows s)) = Some (flow_updated_row p c)"
    by (subst tbl_get_write) (use assms(1-3) in \<open>auto simp: flow_get_def\<close>)
  ultimately show ?thesis by (simp add: flow_get_def same_goals_def)
qed

lemma event_written: "flow_appendEvent e s = Inr t \<Longrightarrow> same_goals s t \<and> task_flows t = task_flows s"
  "goal_event k ty p a b now s = Inr (t, u) \<Longrightarrow> same_goals s t \<and> task_flows t = task_flows s"
  by (auto simp: flow_appendEvent_def goal_event_def goal_appendEvent_def rop_bind_Inr rop_do_Inr same_goals_def Let_def split: if_splits option.splits)

lemma tbl_get_set: "tbl_get key k rows = Some r \<Longrightarrow> key x = k \<Longrightarrow> tbl_get key k (tbl_modify (\<lambda>y. key y = k) (\<lambda>_. x) rows) = Some x"
  by (induction rows) (auto simp: tbl_get_def tbl_modify_def split: if_splits)

lemma execution_written:
  assumes "exec_update e st cur now en s = Inr (t, u)"
  shows "\<exists>x y. getExecution (gx_goalId e) s = Some x \<and> gx_revision x = gx_revision e \<and> getExecution (gx_goalId e) t = Some y
    \<and> y = x\<lparr>gx_status := st, gx_currentStepId := cur, gx_updatedAt := now, gx_endedAt := en, gx_revision := gx_revision x + 1\<rparr>
    \<and> (\<exists>rows. t = s\<lparr>agent_goal_executions := rows\<rparr>)"
proof -
  let ?f = "\<lambda>x. x\<lparr>gx_status := st, gx_currentStepId := cur, gx_updatedAt := now, gx_endedAt := en, gx_revision := gx_revision x + 1\<rparr>"
  from assms obtain x where x: "getExecution (gx_goalId e) s = Some x" "gx_revision x = gx_revision e"
    and t: "t = s\<lparr>agent_goal_executions := tbl_modify (\<lambda>y. gx_goalId y = gx_goalId e) (\<lambda>_. ?f x) (agent_goal_executions s)\<rparr>"
    by (auto simp: exec_update_def exec_changed_def changed_def updateExecution_def execution_write_def rop_bind_Inr Let_def
        split: option.splits if_splits)
  have "gx_goalId (?f x) = gx_goalId e" using x(1) by (auto simp: getExecution_def dest: tbl_get_key)
  with x(1) have "getExecution (gx_goalId e) t = Some (?f x)"
    unfolding t getExecution_def by (simp add: tbl_get_set)
  then show ?thesis using x(1,2) t by blast
qed

lemma goal_row_written:
  assumes "exec_goal p s = Inr (t, u)" and "goal_get (gp_goalId p) s = Some g"
  shows "goal_get (gp_goalId p) t = Some (patched_goal p g) \<and> (\<exists>rows. t = s\<lparr>agent_goals := rows\<rparr>)"
proof -
  from assms(1) obtain h where "changed exec_conflict (updateGoal p) s = Inr (t, h)"
    by (auto simp: exec_goal_def exec_changed_def rop_bind_Inr)
  from updateGoal_Inr [OF this assms(2)] have "t = s\<lparr>agent_goals := tbl_modify (\<lambda>x. g_goalId x = gp_goalId p) (\<lambda>_. patched_goal p g) (agent_goals s)\<rparr>"
    by auto
  moreover have "g_goalId (patched_goal p g) = gp_goalId p"
    using assms(2) by (auto simp: patched_goal_def goal_get_def dest: tbl_get_key)
  ultimately show ?thesis using assms(2) tbl_get_set [of g_goalId "gp_goalId p" "agent_goals s"] by (auto simp: goal_get_def)
qed

section \<open>Finishing\<close>

lemma finish_written:
  assumes "finish_projection rows er now s = Inr (t, u)" and "g_goalId (er_goal rows) = k"
  shows "\<exists>e g f h. getExecution k s = Some e \<and> gx_revision e = er \<and> goal_get k s = Some g \<and> g_status g = G_ACTIVE
    \<and> getExecution k t = Some f \<and> gx_status f = E_SUCCEEDED \<and> goal_get k t = Some h \<and> g_status h = G_COMPLETED
    \<and> task_flows t = task_flows s \<and> agent_goal_step_executions t = agent_goal_step_executions s"
proof -
  from assms obtain e g s1 s2 s3 ty p a b ty' p' a' b' u1 u2 u3 where
    e: "getExecution k s = Some e" "gx_revision e = er" and g: "goal_get k s = Some g" "g_status g = G_ACTIVE"
    and w: "exec_update e E_SUCCEEDED None now (Some now) s = Inr (s1, u1)"
      "exec_goal ((goal_hold g now)\<lparr>gp_status := G_COMPLETED, gp_blockerFingerprint := None, gp_consecutiveBlockerCount := 0,
          gp_terminalAt := Some now\<rparr>) s1 = Inr (s2, u2)"
      "goal_event (g_goalId g) ty p a b now s2 = Inr (s3, u3)" "goal_event (g_goalId g) ty' p' a' b' now s3 = Inr (t, u)"
    by (auto simp: finish_projection_def hook_rows_def Let_def rop_bind_Inr rop_found_Inr split: if_splits)
  have k: "gx_goalId e = k" "g_goalId g = k"
    using e g by (auto simp: getExecution_def goal_get_def dest: tbl_get_key)
  from execution_written [OF w(1)] obtain f xs where f: "getExecution k s1 = Some f" "gx_status f = E_SUCCEEDED"
    and s1: "s1 = s\<lparr>agent_goal_executions := xs\<rparr>" unfolding k by force
  have "goal_get k s1 = Some g" using g s1 by (simp add: goal_get_def)
  with goal_row_written [OF w(2)] obtain h gs where h: "goal_get k s2 = Some h" "g_status h = G_COMPLETED"
    and s2: "s2 = s1\<lparr>agent_goals := gs\<rparr>" by (auto simp: goal_hold_def k patched_goal_def)
  note same = event_written(2) [OF w(3)] event_written(2) [OF w(4)]
  show ?thesis using e g f h same s1 s2 by (simp add: same_goals_def getExecution_def goal_get_def)
qed

text \<open>The execution, the goal and the flow before and after.\<close>

definition execution_finished :: "exec_caller \<Rightarrow> int \<Rightarrow> int \<Rightarrow> db \<Rightarrow> db \<Rightarrow> bool" where
  "execution_finished c er fr s t \<longleftrightarrow> (\<exists>e g w f h v. let k = xc_goalId c in
     getExecution k s = Some e \<and> gx_revision e = er \<and> list_all step_done (listStepExecutions k (gx_planRevision e) s)
     \<and> goal_get k s = Some g \<and> g_status g = G_ACTIVE \<and> owned_by g c
     \<and> flow_get (js_trim (gx_flowId e)) s = Some w \<and> f_revision w = fr \<and> \<not> flow_terminal (f_status w)
     \<and> getExecution k t = Some f \<and> gx_status f = E_SUCCEEDED \<and> goal_get k t = Some h \<and> g_status h = G_COMPLETED
     \<and> flow_get (js_trim (gx_flowId e)) t = Some v \<and> f_status v = F_SUCCEEDED
     \<and> agent_goal_step_executions t = agent_goal_step_executions s)"

lemma transition_finished:
  assumes "mutate_transaction (\<lambda>before after now. rop_run (finish_projection rows er now)) flowId
      (base_mutation r F_SUCCEEDED ''taskFlow.succeeded'') now s = Inr (t, v)" and "g_goalId (er_goal rows) = k"
  shows "\<exists>e g w f h. getExecution k s = Some e \<and> gx_revision e = er \<and> goal_get k s = Some g \<and> g_status g = G_ACTIVE
    \<and> getExecution k t = Some f \<and> gx_status f = E_SUCCEEDED \<and> goal_get k t = Some h \<and> g_status h = G_COMPLETED
    \<and> flow_get flowId s = Some w \<and> f_revision w = fr_expectedRevision r \<and> \<not> flow_terminal (f_status w)
    \<and> flow_get flowId t = Some v \<and> f_status v = F_SUCCEEDED \<and> agent_goal_step_executions t = agent_goal_step_executions s"
proof -
  let ?m = "base_mutation r F_SUCCEEDED ''taskFlow.succeeded''"
  from assms(1) obtain w b p s1 e s2 where w: "flow_get flowId s = Some w" "f_revision w = fm_expectedRevision ?m" "\<not> flow_terminal (f_status w)"
    and p: "mutation_patch ?m w b now = Inr p" and u: "flow_update p s = Inr (s1, Some v)" and ev: "flow_appendEvent e s1 = Inr s2"
    and hook: "rop_run (finish_projection rows er now) s2 = Inr t" by (rule mutate_transaction_cases)
  have pw: "fu_flowId p = f_flowId w" "fu_expectedRevision p = f_revision w" "fu_status p = F_SUCCEEDED"
    using p by (auto simp: mutation_patch_def base_mutation_def Let_def res_bind_def split: sum.splits)
  from flow_written [OF w(1) _ pw(1) u] pw have v: "f_status v = F_SUCCEEDED" "flow_get flowId s1 = Some v" "same_goals s s1" by auto
  note ev' = event_written(1) [OF ev]
  from hook obtain x where "finish_projection rows er now s2 = Inr (t, x)" by (auto simp: rop_run_def split: sum.splits)
  from finish_written [OF this assms(2)] v ev' w show ?thesis
    by (auto simp: same_goals_def getExecution_def goal_get_def flow_get_def base_mutation_def)
qed

lemma ctl_finish_cases:
  assumes "ctl_finish ct hook now i s = (r, t)"
  shows "(\<exists>x. r = Inl x) \<and> t = s \<or> (\<exists>v. mutate_transaction hook (js_trim (tn_flowId i))
    (base_mutation (ctl_ref ct i) F_SUCCEEDED ''taskFlow.succeeded'') now s = Inr (t, v))"
  using controlled_cases [OF assms [unfolded ctl_finish_def]]
proof
  assume "flow_finish (ce_flows (ct_env ct)) hook now (ctl_ref ct i) s = (r, t)"
  from flow_mutate_cases [OF this [unfolded flow_finish_def]] show ?thesis by (auto simp: base_mutation_def ctl_ref_def)
qed simp

lemma finish_moved:
  assumes "svc_bind (exec_base ce now0 e) (\<lambda>base. svc_bind (ctl_finish base (\<lambda>before after now. rop_run (finish_projection rows er now)) now
      (transition e fr None state)) (\<lambda>_. executor_get ce c)) s = (r, t)"
    and "g_goalId (er_goal rows) = k"
  shows "(\<exists>x. r = Inl x) \<and> same_plans s t \<or> (\<exists>s1 v i. same_plans s s1 \<and> mutate_transaction (\<lambda>before after now. rop_run (finish_projection rows er now))
      (js_trim (gx_flowId e)) (base_mutation i F_SUCCEEDED ''taskFlow.succeeded'') now s1 = Inr (t, v) \<and> fr_expectedRevision i = fr)"
proof -
  let ?hook = "\<lambda>before after now. rop_run (finish_projection rows er now)"
  let ?i = "transition e fr None state"
  from assms(1) consider (unbound) x where "exec_base ce now0 e s = (Inl x, t)" "r = Inl x"
    | (bound) base s1 where "exec_base ce now0 e s = (Inr base, s1)"
      "svc_bind (ctl_finish base ?hook now ?i) (\<lambda>_. executor_get ce c) s1 = (r, t)"
    unfolding svc_bind_cases [of "exec_base ce now0 e"] by blast
  then show ?thesis
  proof cases
    case unbound
    then show ?thesis using pl.stepsD [OF exec_base_plans] by blast
  next
    case bound
    have p: "same_plans s s1" by (rule pl.stepsD [OF exec_base_plans bound(1)])
    from bound(2) obtain q s2 where f: "ctl_finish base ?hook now ?i s1 = (q, s2)" and t: "t = s2" and qr: "\<And>x. q = Inl x \<Longrightarrow> r = Inl x"
    proof -
      assume out: "\<And>q s2. \<lbrakk>ctl_finish base ?hook now ?i s1 = (q, s2); t = s2; \<And>x. q = Inl x \<Longrightarrow> r = Inl x\<rbrakk> \<Longrightarrow> thesis"
      from bound(2) consider x where "ctl_finish base ?hook now ?i s1 = (Inl x, t)" "r = Inl x"
        | v s2 where "ctl_finish base ?hook now ?i s1 = (Inr v, s2)" "executor_get ce c s2 = (r, t)"
        unfolding svc_bind_cases by blast
      then show thesis
        by cases (use out reads_same [OF executor_get_reads] in blast)+
    qed
    from f have "(\<exists>x. q = Inl x) \<and> s2 = s1 \<or> (\<exists>v. mutate_transaction ?hook (js_trim (gx_flowId e))
        (base_mutation (ctl_ref base ?i) F_SUCCEEDED ''taskFlow.succeeded'') now s1 = Inr (s2, v))"
      using ctl_finish_cases [of base ?hook now ?i s1 q s2] by (simp add: transition_def)
    then show ?thesis
    proof (elim disjE conjE exE)
      fix x assume "q = Inl x" "s2 = s1"
      then show ?thesis using p qr t by blast
    next
      fix v assume "mutate_transaction ?hook (js_trim (gx_flowId e))
        (base_mutation (ctl_ref base ?i) F_SUCCEEDED ''taskFlow.succeeded'') now s1 = Inr (s2, v)"
      moreover have "fr_expectedRevision (ctl_ref base ?i) = fr" by (simp add: ctl_ref_def transition_def)
      ultimately show ?thesis using p t by blast
    qed
  qed
qed

text \<open>C10. A call that finishes the execution of a goal throws and leaves goals, plans, executions and flows as they were, or
  every step of the execution was done, goal, execution and flow were in the state and the revisions the caller named, and all
  three have ended with success in one transaction (whatever the reading of the result afterwards does).\<close>

theorem goal_finished_when_done:
  "case executor_finish ce clock c er fr s of (r, t) \<Rightarrow> (\<exists>e. r = Inl e) \<and> same_plans s t \<or> execution_finished c er fr s t"
proof -
  obtain r t where rt: "executor_finish ce clock c er fr s = (r, t)" by fastforce
  have "(\<exists>e. r = Inl e) \<and> same_plans s t \<or> execution_finished c er fr s t"
  proof (cases "\<exists>rows. owned_rows (xc_goalId c) c s = (Inr rows, s) \<and> gx_revision (er_execution rows) = er \<and> list_all step_done (er_stepExecutions rows)")
    case False
    then have "(\<exists>e. r = Inl e) \<and> t = s"
      using rt reads_same [OF owned_rows_reads]
      by (auto simp: executor_finish_def revision_rows_def svc_bind_cases svc_require_cases svc_return_def Let_def split: if_splits)
    then show ?thesis by (auto simp: same_plans_def)
  next
    case True
    then obtain rows where rows: "owned_rows (xc_goalId c) c s = (Inr rows, s)" "gx_revision (er_execution rows) = er"
      "list_all step_done (er_stepExecutions rows)" by blast
    note o = owned_rows_Inr [OF rows(1)]
    have k: "g_goalId (er_goal rows) = xc_goalId c" using o by (auto simp: goal_get_def dest: tbl_get_key)
    from rt rows have "svc_bind (exec_base ce (clock 0) (er_execution rows)) (\<lambda>base. svc_bind (ctl_finish base
        (\<lambda>before after now. rop_run (finish_projection rows er now)) (clock 1) (transition (er_execution rows) fr None
          (projectedState (er_goal rows) (gx_planRevision (er_execution rows)) E_SUCCEEDED None (er_planSteps rows) (er_stepExecutions rows))))
        (\<lambda>_. executor_get ce c)) s = (r, t)"
      by (simp add: executor_finish_def revision_rows_def svc_bind_def svc_require_def svc_return_def Let_def)
    from finish_moved [OF this k] show ?thesis
    proof (elim disjE exE conjE)
      fix s1 v i assume p: "same_plans s s1" and fr: "fr_expectedRevision i = fr"
        and m: "mutate_transaction (\<lambda>before after now. rop_run (finish_projection rows er now)) (js_trim (gx_flowId (er_execution rows)))
          (base_mutation i F_SUCCEEDED ''taskFlow.succeeded'') (clock 1) s1 = Inr (t, v)"
      from transition_finished [OF m k] p o rows(2,3) fr have "execution_finished c er fr s t"
        by (auto simp: execution_finished_def same_plans_def getExecution_def goal_get_def flow_get_def Let_def)
      then show ?thesis by blast
    qed auto
  qed
  with rt show ?thesis by simp
qed

end
