(* ===== verification/Revision_Properties.thy ===== *)
theory Revision_Properties
  imports Executor_Properties
begin

text \<open>
  Revisions of a plan. A revision moves every step of the goal out of the way by 10000 and then writes the steps it names in
  their new places; a step it leaves out stays where it was moved to, and may be in the way of the next revision.
\<close>

section \<open>Moving the steps out of the way\<close>

abbreviation moved :: "int \<Rightarrow> step_row \<Rightarrow> step_row" where
  "moved n q \<equiv> q\<lparr>ps_ordinal := ps_ordinal q + n\<rparr>"

lemma shift_Inr: "shift_ordinal n k rows = Inr out \<Longrightarrow> out = tbl_modify (\<lambda>q. ps_stepId q = k) (moved n) rows"
  by (auto simp: shift_ordinal_def Let_def split: if_splits)

lemma shifts_moved:
  "res_fold (shift_ordinal n) ks rows = Inr out \<Longrightarrow> distinct ks \<Longrightarrow> out = tbl_modify (\<lambda>q. ps_stepId q \<in> set ks) (moved n) rows"
proof (induction ks arbitrary: rows)
  case (Cons k ks)
  then have "res_fold (shift_ordinal n) ks (tbl_modify (\<lambda>q. ps_stepId q = k) (moved n) rows) = Inr out"
    by (auto dest!: shift_Inr)
  from Cons.IH [OF this] Cons.prems(2) show ?case by (auto simp: tbl_modify_def)
qed (simp add: tbl_modify_def)

lemma visited_steps:
  assumes "distinct (map ps_stepId rows)" and "q \<in> set rows"
  shows "ps_stepId q \<in> ps_stepId ` set (filter (\<lambda>q. ps_goalId q = k) rows) \<longleftrightarrow> ps_goalId q = k"
  using assms by (auto simp: distinct_map inj_on_def)

lemma resequence_moves:
  assumes "resequencePlanDefinitions k n s = Inr t" and "step_ids_ok s"
  shows "t = s\<lparr>agent_goal_plan_steps := tbl_modify (\<lambda>q. ps_goalId q = k) (moved n) (agent_goal_plan_steps s)\<rparr>"
proof -
  let ?rows = "agent_goal_plan_steps s"
  let ?ks = "map ps_stepId (filter (\<lambda>q. ps_goalId q = k) ?rows)"
  have d: "distinct (map ps_stepId ?rows)" using assms(2) by (simp add: step_ids_ok_def)
  then have "distinct ?ks" by (simp add: distinct_map_filter)
  then have "t = s\<lparr>agent_goal_plan_steps := tbl_modify (\<lambda>q. ps_stepId q \<in> set ?ks) (moved n) ?rows\<rparr>"
    using assms(1) by (auto simp: resequencePlanDefinitions_def Let_def dest: shifts_moved)
  moreover have "tbl_modify (\<lambda>q. ps_stepId q \<in> set ?ks) (moved n) ?rows = tbl_modify (\<lambda>q. ps_goalId q = k) (moved n) ?rows"
    unfolding tbl_modify_def by (rule map_cong [OF refl]) (use visited_steps [OF d] in auto)
  ultimately show ?thesis by simp
qed

text \<open>A step that is visited before the one in whose place it would be moved.\<close>

lemma shift_clash:
  assumes "p \<in> set rows" and "q \<in> set rows" and "ps_stepId p \<noteq> ps_stepId q" and "ps_goalId q = ps_goalId p"
    and "ps_ordinal q = ps_ordinal p + n"
  shows "shift_ordinal n (ps_stepId p) rows = Inl ordinal_unique"
proof -
  let ?rows = "tbl_modify (\<lambda>r. ps_stepId r = ps_stepId p) (moved n) rows"
  have "moved n p \<in> set ?rows" "q \<in> set ?rows" using assms(1-3) by (auto simp: set_tbl_modify)
  moreover have "ordinal_taken (moved n p) ?rows"
    unfolding ordinal_taken_def list_ex_iff by (rule bexI [of _ q]) (use assms(3-5) calculation(2) in auto)
  ultimately have "list_ex (\<lambda>r. ps_stepId r = ps_stepId p \<and> ordinal_taken r ?rows) ?rows"
    unfolding list_ex_iff by (intro bexI [of _ "moved n p"]) auto
  then show ?thesis by (simp add: shift_ordinal_def Let_def)
qed

lemma shifts_clash:
  assumes "p \<in> set rows" and "q \<in> set rows" and "ps_stepId p \<noteq> ps_stepId q" and "ps_goalId q = ps_goalId p"
    and "ps_ordinal q = ps_ordinal p + n" and "ps_stepId p \<notin> set xs" and "ps_stepId q \<notin> set xs"
  shows "\<exists>e. res_fold (shift_ordinal n) (xs @ ps_stepId p # ys) rows = Inl e"
  using assms
proof (induction xs arbitrary: rows)
  case Nil
  then show ?case by (simp add: shift_clash)
next
  case (Cons x xs)
  show ?case
  proof (cases "shift_ordinal n x rows")
    case (Inr out)
    then have "out = tbl_modify (\<lambda>r. ps_stepId r = x) (moved n) rows" by (auto simp: shift_ordinal_def Let_def split: if_splits)
    with Cons.prems have "p \<in> set out" "q \<in> set out" by (auto simp: set_tbl_modify)
    from Cons.IH [OF this] Cons.prems Inr show ?thesis by auto
  qed simp
qed

text \<open>One step of the goal is in the way of another that comes before it in the table.\<close>

definition blocked_plan :: "string \<Rightarrow> db \<Rightarrow> bool" where
  "blocked_plan k s \<longleftrightarrow> (\<exists>xs p ys q zs. agent_goal_plan_steps s = xs @ p # ys @ q # zs \<and> ps_goalId p = k \<and> ps_goalId q = k
     \<and> ps_ordinal q = ps_ordinal p + 10000)"

lemma blocked_resequence:
  assumes "blocked_plan k s" and "step_ids_ok s"
  shows "\<exists>e. resequencePlanDefinitions k 10000 s = Inl e"
proof -
  from assms(1) obtain xs p ys q zs where rows: "agent_goal_plan_steps s = xs @ p # ys @ q # zs" and k: "ps_goalId p = k" "ps_goalId q = k"
    and o: "ps_ordinal q = ps_ordinal p + 10000" by (auto simp: blocked_plan_def)
  let ?g = "\<lambda>l. map ps_stepId (filter (\<lambda>q. ps_goalId q = k) l)"
  have ids: "ps_stepId p \<noteq> ps_stepId q" "ps_stepId p \<notin> set (?g xs)" "ps_stepId q \<notin> set (?g xs)"
    using assms(2) by (auto simp: step_ids_ok_def rows)
  have "\<exists>e. res_fold (shift_ordinal 10000) (?g xs @ ps_stepId p # ?g (ys @ q # zs)) (agent_goal_plan_steps s) = Inl e"
    by (rule shifts_clash [where q = q]) (use ids k o in \<open>auto simp: rows\<close>)
  then show ?thesis using k by (auto simp: resequencePlanDefinitions_def Let_def rows)
qed

section \<open>Writing the steps\<close>

definition step_order :: "db \<Rightarrow> string list" where
  "step_order s = map ps_stepId (agent_goal_plan_steps s)"

definition step_place :: "string \<Rightarrow> db \<Rightarrow> (string \<times> int) option" where
  "step_place i s = map_option (\<lambda>q. (ps_goalId q, ps_ordinal q)) (getStepById i s)"

text \<open>Other steps stay where they are, new ones come last.\<close>

definition others_stay :: "string set \<Rightarrow> db \<Rightarrow> db \<Rightarrow> bool" where
  "others_stay ids s t \<longleftrightarrow> (\<exists>new. step_order t = step_order s @ new) \<and> (\<forall>i. i \<notin> ids \<longrightarrow> step_place i t = step_place i s)
     \<and> (step_ids_ok s \<longrightarrow> step_ids_ok t)"

lemma others_stay_trans: "others_stay A s t \<Longrightarrow> others_stay B t u \<Longrightarrow> others_stay (A \<union> B) s u"
  by (auto simp: others_stay_def)

lemma others_stay_eq: "agent_goal_plan_steps t = agent_goal_plan_steps s \<Longrightarrow> others_stay A s t"
  by (simp add: others_stay_def step_order_def step_place_def step_ids_ok_def getStepById_def)

lemma insertStep_stays:
  assumes "insertStep p s = Inr t"
  shows "others_stay {ps_stepId p} s t \<and> step_place (ps_stepId p) t = Some (ps_goalId p, ps_ordinal p)"
proof -
  from assms have t: "t = s\<lparr>agent_goal_plan_steps := agent_goal_plan_steps s @ [p]\<rparr>" and n: "getStepById (ps_stepId p) s = None"
    by (auto simp: insertStep_def split: if_splits)
  have "getStepById i t = getStepById i s" if "i \<noteq> ps_stepId p" for i
    using n that by (auto simp: t getStepById_def tbl_get_append split: option.splits)
  moreover have "ps_stepId p \<notin> ps_stepId ` set (agent_goal_plan_steps s)" using n by (simp add: getStepById_def tbl_get_None)
  moreover have "getStepById (ps_stepId p) t = Some p" using n by (auto simp: t getStepById_def tbl_get_append)
  ultimately show ?thesis by (auto simp: others_stay_def step_order_def step_place_def step_ids_ok_def t)
qed

lemma tbl_get_elsewhere: "j \<noteq> i \<Longrightarrow> key x = i \<Longrightarrow> tbl_get key j (tbl_modify (\<lambda>y. key y = i) (\<lambda>_. x) rows) = tbl_get key j rows"
  by (induction rows) (auto simp: tbl_get_def tbl_modify_def)

lemma step_write_stays:
  assumes "step_write k i r f s = Inr (t, Some q)" and "\<And>p. ps_stepId (f p) = ps_stepId p" and "\<And>p. ps_goalId (f p) = ps_goalId p"
  shows "others_stay {i} s t \<and> ps_goalId q = k \<and> ps_stepId q = i \<and> step_place i t = Some (k, ps_ordinal q)
    \<and> (\<exists>p. getStepById i s = Some p \<and> ps_ordinal q = ps_ordinal (f p))"
proof -
  from assms(1) obtain p where p: "getStep k i s = Some p" and q: "q = (f p)\<lparr>ps_revision := ps_revision p + 1\<rparr>"
    and t: "t = s\<lparr>agent_goal_plan_steps := tbl_modify (\<lambda>x. ps_stepId x = i) (\<lambda>_. q) (agent_goal_plan_steps s)\<rparr>"
    by (auto simp: step_write_def Let_def split: option.splits if_splits)
  from p have g: "getStepById i s = Some p" "ps_goalId p = k" "ps_stepId p = i"
    by (auto simp: getStep_def getStepById_def dest: tbl_get_key split: option.splits if_splits)
  have qi: "ps_stepId q = i" "ps_goalId q = k" using g assms(2,3) by (simp_all add: q)
  have o: "step_order t = step_order s" using qi by (auto simp: step_order_def t tbl_modify_def)
  have "getStepById i t = Some q" using tbl_get_set [of ps_stepId i "agent_goal_plan_steps s" p q] g qi by (simp add: getStepById_def t)
  moreover have "getStepById j t = getStepById j s" if "j \<noteq> i" for j
    using that qi by (auto simp: getStepById_def t tbl_get_elsewhere)
  ultimately show ?thesis using o g qi by (auto simp: others_stay_def step_place_def step_ids_ok_def step_order_def q)
qed

lemma definition_stays:
  assumes "exec_changed (updatePlanDefinition k i n title now) s = Inr (t, q)"
  shows "others_stay {i} s t \<and> ps_goalId q = k \<and> ps_stepId q = i \<and> step_place i t = Some (k, n)"
proof -
  from assms have "step_write k i None (\<lambda>q. q\<lparr>ps_ordinal := n, ps_title := title, ps_updatedAt := now\<rparr>) s = Inr (t, Some q)"
    by (auto simp: exec_changed_def changed_def updatePlanDefinition_def rop_bind_Inr split: option.splits)
  from step_write_stays [OF this] show ?thesis by auto
qed

lemma status_stays:
  assumes "exec_plan_step p s = Inr (t, u)"
  shows "others_stay {sp_stepId p} s t \<and> step_place (sp_stepId p) t = step_place (sp_stepId p) s"
proof -
  from assms obtain q where q: "step_write (sp_goalId p) (sp_stepId p) (Some (sp_expectedRevision p))
      (\<lambda>q. q\<lparr>ps_status := sp_status p, ps_note := sp_note p, ps_sourceRunId := sp_sourceRunId p,
        ps_sourceAttemptId := sp_sourceAttemptId p, ps_startedAt := sp_startedAt p, ps_completedAt := sp_completedAt p,
        ps_updatedAt := sp_updatedAt p\<rparr>) s = Inr (t, Some q)"
    by (auto simp: exec_plan_step_def exec_changed_def changed_def goal_updateStep_def rop_bind_Inr split: option.splits)
  then obtain p0 where "getStepById (sp_stepId p) s = Some p0" "ps_goalId p0 = sp_goalId p"
    by (auto simp: step_write_def getStep_def split: option.splits if_splits)
  with step_write_stays [OF q] show ?thesis by (auto simp: step_place_def)
qed

lemma revise_step_stays:
  assumes "revise_step k previous n now d s = Inr (t, u)"
  shows "others_stay {dr_stepId d} s t \<and> step_place (dr_stepId d) t = Some (k, dr_ordinal d)"
proof -
  let ?i = "dr_stepId d"
  from assms obtain s1 row where r: "insertPlanRevisionStep row s1 = Inr t"
    and w: "(\<exists>p. insertStep p s = Inr s1 \<and> ps_stepId p = ?i \<and> ps_goalId p = k \<and> ps_ordinal p = dr_ordinal d)
      \<or> (\<exists>s2 q title p. exec_changed (updatePlanDefinition k ?i (dr_ordinal d) title now) s = Inr (s2, q)
          \<and> (s1 = s2 \<or> (exec_plan_step p s2 = Inr (s1, ()) \<and> sp_stepId p = ps_stepId q)))"
    by (fastforce simp: revise_step_def rop_bind_Inr rop_do_Inr rop_when_def split: option.splits if_splits)
  have t: "agent_goal_plan_steps t = agent_goal_plan_steps s1"
    using r by (auto simp: insertPlanRevisionStep_def split: if_splits)
  then have place: "step_place ?i t = step_place ?i s1" by (simp add: step_place_def getStepById_def)
  have "others_stay {?i} s s1 \<and> step_place ?i s1 = Some (k, dr_ordinal d)" using w
  proof (elim disjE exE conjE)
    fix p assume "insertStep p s = Inr s1" "ps_stepId p = ?i" "ps_goalId p = k" "ps_ordinal p = dr_ordinal d"
    then show ?thesis using insertStep_stays by metis
  next
    fix s2 q title p assume "exec_changed (updatePlanDefinition k ?i (dr_ordinal d) title now) s = Inr (s2, q)" "s1 = s2"
    then show ?thesis using definition_stays by metis
  next
    fix s2 q title p assume a: "exec_changed (updatePlanDefinition k ?i (dr_ordinal d) title now) s = Inr (s2, q)"
      and b: "exec_plan_step p s2 = Inr (s1, ())" "sp_stepId p = ps_stepId q"
    from definition_stays [OF a] status_stays [OF b(1)] b(2) others_stay_trans [of "{?i}" s s2 "{?i}" s1] show ?thesis by simp
  qed
  then show ?thesis using others_stay_trans [of "{?i}" s s1 "{?i}" t] others_stay_eq [OF t, of "{?i}"] place by simp
qed

lemma revise_steps_stay:
  assumes "rop_each (revise_step k previous n now) ds s = Inr (t, us)" and "distinct (map dr_stepId ds)"
  shows "others_stay (dr_stepId ` set ds) s t \<and> (\<forall>d \<in> set ds. step_place (dr_stepId d) t = Some (k, dr_ordinal d))"
  using assms
proof (induction ds arbitrary: s us)
  case Nil
  then show ?case by (auto intro: others_stay_eq)
next
  case (Cons d ds)
  then obtain s1 u us' where a: "revise_step k previous n now d s = Inr (s1, u)" and b: "rop_each (revise_step k previous n now) ds s1 = Inr (t, us')"
    by (auto simp: rop_bind_Inr)
  from Cons.IH [OF b] Cons.prems(2) have ih: "others_stay (dr_stepId ` set ds) s1 t"
    "\<forall>d \<in> set ds. step_place (dr_stepId d) t = Some (k, dr_ordinal d)" by auto
  moreover have "step_place (dr_stepId d) t = Some (k, dr_ordinal d)"
    using revise_step_stays [OF a] ih(1) Cons.prems(2) by (auto simp: others_stay_def)
  ultimately show ?case using others_stay_trans [OF conjunct1 [OF revise_step_stays [OF a]] ih(1)] by auto
qed

section \<open>The next revision\<close>

lemma draft_ids:
  "draft_steps n ids ds = Inr out \<Longrightarrow> distinct (map dr_stepId out) \<and> dr_stepId ` set out \<inter> ids = {}"
proof (induction ds arbitrary: n ids out)
  case (Cons d ds)
  then obtain i title rest where "i \<notin> ids" "draft_steps (n + 1) (insert i ids) ds = Inr rest" "out = d\<lparr>dr_stepId := i, dr_title := title\<rparr> # rest"
    by (auto simp: res_bind_def split: sum.splits if_splits)
  with Cons.IH [of "n + 1" "insert i ids" rest] show ?case by auto
qed simp

lemma resequence_places:
  assumes "resequencePlanDefinitions k n s = Inr t" and "step_ids_ok s"
  shows "step_order t = step_order s \<and> step_ids_ok t \<and> (\<forall>j m. step_place j s = Some (k, m) \<longrightarrow> step_place j t = Some (k, m + n))"
proof -
  note t = resequence_moves [OF assms]
  have o: "step_order t = step_order s" by (auto simp: step_order_def t tbl_modify_def)
  then have "step_ids_ok t" using assms(2) by (simp add: step_ids_ok_def step_order_def)
  moreover have "step_place j t = Some (k, m + n)" if "step_place j s = Some (k, m)" for j m
    using that by (auto simp: step_place_def getStepById_def t tbl_get_write)
  ultimately show ?thesis using o by blast
qed

lemma updateGoal_steps: "updateGoal p s = Inr (t, ro) \<Longrightarrow> agent_goal_plan_steps t = agent_goal_plan_steps s"
  unfolding updateGoal_def Let_def by (cases "goal_get (gp_goalId p) s") (auto split: if_splits)

lemma goal_steps_same:
  "exec_goal p s = Inr (t, u) \<Longrightarrow> agent_goal_plan_steps t = agent_goal_plan_steps s"
  "goal_event k ty pl a b now s = Inr (t, u') \<Longrightarrow> agent_goal_plan_steps t = agent_goal_plan_steps s"
proof -
  assume "exec_goal p s = Inr (t, u)"
  then obtain ro where "updateGoal p s = Inr (t, ro)" by (auto simp: exec_goal_def exec_changed_def changed_def rop_bind_Inr split: option.splits)
  then show "agent_goal_plan_steps t = agent_goal_plan_steps s" by (rule updateGoal_steps)
next
  assume "goal_event k ty pl a b now s = Inr (t, u')"
  then show "agent_goal_plan_steps t = agent_goal_plan_steps s"
    by (auto simp: goal_event_def goal_appendEvent_def rop_bind_Inr rop_do_Inr split: if_splits)
qed

lemma revise_new_Inr:
  assumes "revise_new k i ds now g e s = Inr (t, out)" and "distinct (map dr_stepId ds)" and "step_ids_ok s"
  shows "rx_steps out = ds \<and> step_ids_ok t \<and> (\<exists>new. step_order t = step_order s @ new) \<and> (\<forall>d \<in> set ds. step_place (dr_stepId d) t = Some (k, dr_ordinal d))
    \<and> (\<forall>j m. j \<notin> dr_stepId ` set ds \<longrightarrow> step_place j s = Some (k, m) \<longrightarrow> step_place j t = Some (k, m + 10000))"
proof -
  from assms(1) obtain s1 previous us s2 p s3 ty pl a b u u' where w: "resequencePlanDefinitions k 10000 s = Inr s1"
    "rop_each (revise_step k previous (g_planRevision g + 1) now) ds s1 = Inr (s2, us)" "exec_goal p s2 = Inr (s3, u)"
    "goal_event k ty pl a b now s3 = Inr (t, u')" and out: "rx_steps out = ds"
    by (auto simp: revise_new_def Let_def rop_bind_Inr rop_do_Inr split: if_splits)
  have t: "agent_goal_plan_steps t = agent_goal_plan_steps s2" using goal_steps_same w(3,4) by metis
  then have "step_order t = step_order s2" "step_place j t = step_place j s2" "step_ids_ok t = step_ids_ok s2" for j
    by (simp_all add: step_order_def step_place_def step_ids_ok_def getStepById_def)
  with resequence_places [OF w(1) assms(3)] revise_steps_stay [OF w(2) assms(2)] out show ?thesis
    by (auto simp: others_stay_def)
qed

lemma blocked_from_places:
  assumes "step_order t = as @ i # bs @ j # cs" and "step_place i t = Some (k, m)" and "step_place j t = Some (k, m + 10000)" and "step_ids_ok t"
  shows "blocked_plan k t"
proof -
  from assms(1) obtain xs p ys q zs where rows: "agent_goal_plan_steps t = xs @ p # ys @ q # zs" and ids: "ps_stepId p = i" "ps_stepId q = j"
    by (auto simp: step_order_def map_eq_append_conv append_eq_map_conv map_eq_Cons_conv Cons_eq_map_conv)
  have d: "distinct (map ps_stepId (agent_goal_plan_steps t))" using assms(4) by (simp add: step_ids_ok_def)
  have "getStepById i t = Some p" "getStepById j t = Some q"
    unfolding getStepById_def ids [symmetric] by (rule tbl_get_distinct [OF d], simp add: rows)+
  with assms(2,3) have "ps_goalId p = k" "ps_goalId q = k" "ps_ordinal q = ps_ordinal p + 10000"
    by (auto simp: step_place_def)
  with rows show ?thesis unfolding blocked_plan_def by blast
qed

lemma revisePlan_cases:
  assumes "revisePlan now c i s = (r, t)" and "js_trim (xc_goalId c) = k"
  shows "t = s \<and> (case r of Inl e \<Rightarrow> True | Inr out \<Rightarrow> rx_replayed out)
    \<or> (\<exists>ds g e out. r = Inr out \<and> normalizedDraft (ri_steps i) = Inr ds \<and> revise_new k i ds now g e s = Inr (t, out))"
proof -
  from assms consider (refused) e where "r = Inl e" "t = s"
    | (tried) ds where "normalizedDraft (ri_steps i) = Inr ds" "transaction (
       rop_bind (assertOwned k c) (\<lambda>g.
       rop_bind (rop_found (exec_error GOAL_EXECUTION_NOT_FOUND) (getExecution k)) (\<lambda>e.
       rop_bind (rop_require (gx_revision e = ri_expectedExecutionRevision i) exec_conflict) (\<lambda>_.
       if g_planRevision g = ri_expectedPlanRevision i + 1 then
         rop_bind (rop_read (listPlanRevisionSteps k (g_planRevision g))) (\<lambda>replay.
         rop_bind (rop_require (sameRevisionDraft replay ds) (exec_error GOAL_EXECUTION_REQUEST_CONFLICT)) (\<lambda>_.
         rop_return \<lparr>rx_goalId = k, rx_previousPlanRevision = ri_expectedPlanRevision i, rx_planRevision = g_planRevision g,
           rx_steps = ds, rx_replayed = True\<rparr>))
       else revise_new k i ds now g e)))) s = (r, t)"
    by (auto simp: revisePlan_def svc_bind_cases svc_of_cases exec_bounded_def Let_def split: if_splits sum.splits)
  then show ?thesis
  proof cases
    case tried
    from tried(2) show ?thesis unfolding transaction_cases
    proof (elim disjE exE conjE)
      fix out assume r: "r = Inr out" and m: "(rop_bind (assertOwned k c) (\<lambda>g.
       rop_bind (rop_found (exec_error GOAL_EXECUTION_NOT_FOUND) (getExecution k)) (\<lambda>e.
       rop_bind (rop_require (gx_revision e = ri_expectedExecutionRevision i) exec_conflict) (\<lambda>_.
       if g_planRevision g = ri_expectedPlanRevision i + 1 then
         rop_bind (rop_read (listPlanRevisionSteps k (g_planRevision g))) (\<lambda>replay.
         rop_bind (rop_require (sameRevisionDraft replay ds) (exec_error GOAL_EXECUTION_REQUEST_CONFLICT)) (\<lambda>_.
         rop_return \<lparr>rx_goalId = k, rx_previousPlanRevision = ri_expectedPlanRevision i, rx_planRevision = g_planRevision g,
           rx_steps = ds, rx_replayed = True\<rparr>))
       else revise_new k i ds now g e)))) s = Inr (t, out)"
      then show ?thesis using tried(1)
        by (auto simp: rop_bind_Inr rop_found_Inr assertOwned_def split: if_splits)
    qed auto
  qed simp
qed

lemma blocked_revision:
  assumes "blocked_plan k s" and "step_ids_ok s" and "revisePlan now c i s = (r, t)" and "js_trim (xc_goalId c) = k"
  shows "t = s \<and> (case r of Inl e \<Rightarrow> True | Inr out \<Rightarrow> rx_replayed out)"
  using revisePlan_cases [OF assms(3,4)] blocked_resequence [OF assms(1,2)]
  by (auto simp: revise_new_def Let_def rop_bind_Inr rop_do_Inr split: if_splits)

text \<open>C16. A revision of a plan that leaves out a step and gives its place to a step that is older makes every later revision
  of the plan fail: the step that was left out is where the next revision moves the other one first.\<close>

theorem revision_blocks_next:
  assumes "revisePlan now c i s = (Inr out, t)" and "\<not> rx_replayed out" and "step_ids_ok s"
    and "step_order s = as @ p # bs @ q # cs" and "step_place q s = Some (rx_goalId out, n)"
    and "d \<in> set (rx_steps out)" and "dr_stepId d = p" and "dr_ordinal d = n" and "q \<notin> dr_stepId ` set (rx_steps out)"
    and "js_trim (xc_goalId c') = rx_goalId out"
  shows "case revisePlan now' c' j t of (r, u) \<Rightarrow> u = t \<and> (case r of Inl e \<Rightarrow> True | Inr out' \<Rightarrow> rx_replayed out')"
proof -
  let ?k = "js_trim (xc_goalId c)"
  from revisePlan_cases [OF assms(1) refl] assms(2) obtain ds g e where ds: "normalizedDraft (ri_steps i) = Inr ds"
    and w: "revise_new ?k i ds now g e s = Inr (t, out)" by auto
  have d: "distinct (map dr_stepId ds)" using ds draft_ids by (auto simp: normalizedDraft_def split: if_splits)
  have k: "rx_goalId out = ?k" using w by (auto simp: revise_new_def Let_def rop_bind_Inr split: if_splits)
  note n = revise_new_Inr [OF w d assms(3)]
  from n obtain new where "step_order t = as @ p # bs @ q # (cs @ new)" using assms(4) by auto
  moreover have "step_place p t = Some (?k, n)" "step_place q t = Some (?k, n + 10000)"
    using n assms(5-9) unfolding k by auto
  ultimately have "blocked_plan ?k t" using n by (auto intro: blocked_from_places)
  with n assms(10) k show ?thesis using blocked_revision [of ?k t now' c' j] by (auto split: prod.splits)
qed

definition revision_row :: "string \<Rightarrow> int \<Rightarrow> step_row" where
  "revision_row i n = \<lparr>ps_stepId = i, ps_goalId = ''g'', ps_ordinal = n, ps_title = ''do'', ps_status = S_PENDING, ps_note = None,
     ps_sourceRunId = None, ps_sourceAttemptId = None, ps_startedAt = None, ps_completedAt = None, ps_updatedAt = 0, ps_revision = 1\<rparr>"

definition revision_draft :: "string \<Rightarrow> int \<Rightarrow> draft_step" where
  "revision_draft i n = \<lparr>dr_stepId = i, dr_ordinal = n, dr_title = ''do'', dr_required = True, dr_retryMode = RETRY_MANUAL, dr_maxAttempts = 1\<rparr>"

definition revision_db :: db where
  "revision_db = conversation_db\<lparr>agent_goals := [sample_goal], agent_goal_plan_steps := [revision_row ''a'' 1, revision_row ''b'' 2],
     agent_goal_executions := [\<lparr>gx_goalId = ''g'', gx_workspaceId = ''w'', gx_conversationId = ''c1'', gx_planRevision = 1, gx_flowId = ''f'',
       gx_controllerId = ''x'', gx_status = E_QUEUED, gx_currentStepId = None, gx_createdAt = 0, gx_updatedAt = 0, gx_endedAt = None,
       gx_revision = 1\<rparr>]\<rparr>"

definition revision_caller :: exec_caller where
  "revision_caller = \<lparr>xc_workspaceId = ''w'', xc_conversationId = ''c1'', xc_goalId = ''g''\<rparr>"

text \<open>A step in front of the first, and the last one left out; then the plan as it was.\<close>

definition first_revision :: revise_input where
  "first_revision = \<lparr>ri_expectedGoalRevision = 1, ri_expectedExecutionRevision = 1, ri_expectedPlanRevision = 1,
     ri_steps = [revision_draft ''x'' 1, revision_draft ''a'' 2]\<rparr>"

definition second_revision :: revise_input where
  "second_revision = \<lparr>ri_expectedGoalRevision = 2, ri_expectedExecutionRevision = 1, ri_expectedPlanRevision = 2,
     ri_steps = [revision_draft ''a'' 1, revision_draft ''b'' 2]\<rparr>"

definition revised_db :: db where
  "revised_db = snd (revisePlan 1 revision_caller first_revision revision_db)"

lemma revision_texts [simp]: "exec_bounded ''g'' 256 = Inr ''g''" "exec_bounded ''x'' 256 = Inr ''x''" "exec_bounded ''a'' 256 = Inr ''a''"
  "exec_bounded ''do'' 1000 = Inr ''do''" "js_trim ''g'' = ''g''"
  by (simp_all add: exec_bounded_def js_trim_def js_white_def)

lemma first_revised: "\<exists>out. revisePlan 1 revision_caller first_revision revision_db = (Inr out, revised_db) \<and> \<not> rx_replayed out
    \<and> rx_goalId out = ''g'' \<and> rx_steps out = [revision_draft ''x'' 1, revision_draft ''a'' 2]"
  by (simp add: revised_db_def revisePlan_def svc_bind_def svc_of_def transaction_def first_revision_def revision_caller_def normalizedDraft_def
      revision_draft_def assertOwned_def owned_by_def revision_db_def goal_get_def sample_goal_def new_goal_def sample_caller_def tbl_get_def
      getExecution_def revise_new_def execution_terminal_def resequencePlanDefinitions_def shift_ordinal_def ordinal_taken_def revision_row_def
      tbl_modify_def revise_step_def getStepById_def insertStep_def step_checks_def step_refs_def run_ref_def attempt_ref_def
      exec_changed_def changed_def updatePlanDefinition_def step_write_def getStep_def listPlanRevisionSteps_def plan_of_step_def
      exec_plan_step_def goal_updateStep_def insertPlanRevisionStep_def revision_step_checks_def getPlanRevisionStep_def
      exec_goal_def updateGoal_def goal_hold_def patched_goal_def goal_checks_def other_open_def goal_open_def goal_refs_def getConversation_def
      conversation_db_def empty_db_def sample_conversation_def goal_event_def goal_nextEventSequence_def goal_appendEvent_def draft_json_def
      statement_defs res_bind_def or_default_def rop_when_def rop_throw_def next_sequence_def)

theorem revision_blocks_next_witness: "\<exists>out. revisePlan 1 revision_caller first_revision revision_db = (Inr out, revised_db) \<and> \<not> rx_replayed out
  \<and> (case revisePlan 2 revision_caller second_revision revised_db of (r, u) \<Rightarrow> u = revised_db
      \<and> (case r of Inl e \<Rightarrow> True | Inr out' \<Rightarrow> rx_replayed out'))"
proof -
  from first_revised obtain out where out: "revisePlan 1 revision_caller first_revision revision_db = (Inr out, revised_db)" "\<not> rx_replayed out"
    "rx_goalId out = ''g''" "rx_steps out = [revision_draft ''x'' 1, revision_draft ''a'' 2]" by blast
  have "step_ids_ok revision_db" "step_order revision_db = [] @ ''a'' # [] @ ''b'' # []" "step_place ''b'' revision_db = Some (''g'', 2)"
    by (simp_all add: step_ids_ok_def step_order_def step_place_def getStepById_def tbl_get_def revision_db_def revision_row_def)
  from revision_blocks_next [OF out(1,2) this(1,2), of 2 "revision_draft ''a'' 2" revision_caller 2 second_revision] this(3) out
  show ?thesis by (simp add: revision_draft_def revision_caller_def)
qed

end
