(* ===== verification/Agent_Kernel_Base.thy ===== *)
theory Agent_Kernel_Base
  imports Delegation_Service
begin

text \<open>
  The agent kernel, first half: what can be thrown while a run executes, the state of an execution and its steps, the registry of
  tools (\<open>packages/tool-runtime/src/index.ts\<close>), the messages a model sees, and one turn of the model with its retries
  (\<open>packages/agent-kernel/src/kernel.ts\<close>). A step is a call of a service, a reading of the clock or of the signal, or an
  \<open>await\<close>; steps are numbered, and what the outside does is a function of the number: \<open>ke_world n\<close> is what other code does to the
  database while the step \<open>n\<close> awaits. Streams of a model are finite.
\<close>

section \<open>What is thrown\<close>

datatype kernel_code = AGENT_CANCELLED | AGENT_HOST_SHUTDOWN | AGENT_TURN_BUDGET_EXCEEDED | AGENT_MODEL_CALL_BUDGET_EXCEEDED
  | AGENT_TOOL_CALL_BUDGET_EXCEEDED | AGENT_TOTAL_TOKEN_BUDGET_EXCEEDED | AGENT_TIME_BUDGET_EXCEEDED | AGENT_MODEL_STREAM_INVALID
  | AGENT_TOOL_ARGUMENTS_INVALID | AGENT_TOOL_CALL_CONFLICT | AGENT_TOOL_NOT_ALLOWED | AGENT_MODEL_FAILED | AGENT_TOOL_FAILED

definition kernel_code_name :: "kernel_code \<Rightarrow> string" where
  "kernel_code_name c = (case c of AGENT_CANCELLED \<Rightarrow> ''AGENT_CANCELLED'' | AGENT_HOST_SHUTDOWN \<Rightarrow> ''AGENT_HOST_SHUTDOWN''
     | AGENT_TURN_BUDGET_EXCEEDED \<Rightarrow> ''AGENT_TURN_BUDGET_EXCEEDED'' | AGENT_MODEL_CALL_BUDGET_EXCEEDED \<Rightarrow> ''AGENT_MODEL_CALL_BUDGET_EXCEEDED''
     | AGENT_TOOL_CALL_BUDGET_EXCEEDED \<Rightarrow> ''AGENT_TOOL_CALL_BUDGET_EXCEEDED'' | AGENT_TOTAL_TOKEN_BUDGET_EXCEEDED \<Rightarrow> ''AGENT_TOTAL_TOKEN_BUDGET_EXCEEDED''
     | AGENT_TIME_BUDGET_EXCEEDED \<Rightarrow> ''AGENT_TIME_BUDGET_EXCEEDED'' | AGENT_MODEL_STREAM_INVALID \<Rightarrow> ''AGENT_MODEL_STREAM_INVALID''
     | AGENT_TOOL_ARGUMENTS_INVALID \<Rightarrow> ''AGENT_TOOL_ARGUMENTS_INVALID'' | AGENT_TOOL_CALL_CONFLICT \<Rightarrow> ''AGENT_TOOL_CALL_CONFLICT''
     | AGENT_TOOL_NOT_ALLOWED \<Rightarrow> ''AGENT_TOOL_NOT_ALLOWED'' | AGENT_MODEL_FAILED \<Rightarrow> ''AGENT_MODEL_FAILED'' | AGENT_TOOL_FAILED \<Rightarrow> ''AGENT_TOOL_FAILED'')"

text \<open>\<open>ModelAdapterError\<close>; a status or a cause plays no part here.\<close>

record model_error =
  me_code :: string
  me_message :: string
  me_retryable :: bool

datatype tool_error_code = TOOL_NOT_FOUND | TOOL_INPUT_INVALID | TOOL_ABORTED | TOOL_EXECUTION_FAILED

text \<open>The errors of the kernel (with the model's error that is their cause, if one is), of a model adapter, of the registry of
  tools, the two that suspend a run, and those of the services.\<close>

datatype fault =
    Agent_Fault kernel_code string "model_error option"
  | Model_Fault model_error
  | Tool_Fault tool_error_code string
  | Approval_Fault string
  | Wait_Fault json
  | Service_Fault err

datatype abort_signal = NOT_ABORTED | ABORTED | SHUTDOWN

section \<open>Messages of a model\<close>

record tool_result =
  tr_output :: json
  tr_isError :: bool

record model_call =
  mc_toolCallId :: string
  mc_name :: string
  mc_arguments :: json

datatype model_block = Text_Block string | Call_Block model_call | Result_Block string string tool_result

record model_message =
  mm_role :: message_role
  mm_content :: "model_block list"

definition role_name :: "message_role \<Rightarrow> string" where
  "role_name r = (case r of Role_user \<Rightarrow> ''user'' | Role_assistant \<Rightarrow> ''assistant'' | Role_tool \<Rightarrow> ''tool'' | Role_system \<Rightarrow> ''system'')"

definition block_json :: "model_block \<Rightarrow> json" where
  "block_json b = (case b of
     Text_Block t \<Rightarrow> JObj [(''type'', JStr ''text''), (''text'', JStr t)]
   | Call_Block c \<Rightarrow> JObj [(''type'', JStr ''tool_call''), (''toolCallId'', JStr (mc_toolCallId c)), (''name'', JStr (mc_name c)),
       (''arguments'', mc_arguments c)]
   | Result_Block i n r \<Rightarrow> JObj [(''type'', JStr ''tool_result''), (''toolCallId'', JStr i), (''name'', JStr n),
       (''output'', tr_output r), (''isError'', JBool (tr_isError r))])"

definition message_json :: "model_message \<Rightarrow> json" where
  "message_json m = JObj [(''role'', JStr (role_name (mm_role m))), (''content'', JArr (map block_json (mm_content m)))]"

text \<open>\<open>record\<close>: an object that is neither \<open>null\<close> nor an array.\<close>

definition json_object :: "json \<Rightarrow> bool" where
  "json_object v = (case v of JObj ms \<Rightarrow> True | _ \<Rightarrow> False)"

definition json_text :: "json \<Rightarrow> string option" where
  "json_text v = (case v of JStr s \<Rightarrow> Some s | _ \<Rightarrow> None)"

definition json_elements :: "json \<Rightarrow> json list option" where
  "json_elements v = (case v of JArr xs \<Rightarrow> Some xs | _ \<Rightarrow> None)"

text \<open>A stored tool call that has an identifier, a name and an object of arguments.\<close>

definition stored_call :: "json \<Rightarrow> model_call option" where
  "stored_call raw = (case (json_text (json_field ''toolCallId'' raw), json_text (json_field ''name'' raw)) of
     (Some i, Some n) \<Rightarrow> if json_object (json_field ''arguments'' raw)
       then Some \<lparr>mc_toolCallId = i, mc_name = n, mc_arguments = json_field ''arguments'' raw\<rparr> else None
   | _ \<Rightarrow> None)"

definition stored_calls :: "json \<Rightarrow> model_call list" where
  "stored_calls content = (case json_elements (json_field ''toolCalls'' content) of None \<Rightarrow> [] | Some xs \<Rightarrow> List.map_filter stored_call xs)"

definition stored_result :: "json \<Rightarrow> (string \<times> string \<times> tool_result) option" where
  "stored_result content = (if json_field ''type'' content \<noteq> JStr ''tool_result'' then None
     else (case (json_text (json_field ''toolCallId'' content), json_text (json_field ''name'' content)) of
       (Some i, Some n) \<Rightarrow> Some (i, n, \<lparr>tr_output = json_field ''output'' content, tr_isError = (json_field ''isError'' content = JBool True)\<rparr>)
     | _ \<Rightarrow> None))"

definition conversationMessageToModel :: "message_row \<Rightarrow> model_message" where
  "conversationMessageToModel m =
     (let content = m_content m; t = json_field ''type'' content; text = json_text (json_field ''text'' content) in
      if t = JStr ''text'' \<and> text \<noteq> None then \<lparr>mm_role = m_role m, mm_content = [Text_Block (the text)]\<rparr>
      else if t = JStr ''assistant'' then \<lparr>mm_role = Role_assistant,
        mm_content = (case truthy text of None \<Rightarrow> [] | Some x \<Rightarrow> [Text_Block x]) @ map Call_Block (stored_calls content)\<rparr>
      else (case stored_result content of
          Some (i, n, r) \<Rightarrow> \<lparr>mm_role = Role_tool, mm_content = [Result_Block i n r]\<rparr>
        | None \<Rightarrow> \<lparr>mm_role = m_role m, mm_content = [Text_Block (canonical content)]\<rparr>))"

text \<open>The code of an error a tool has returned as its output: \<open>/^[A-Z][A-Z0-9_]{0,127}$/\<close>.\<close>

definition error_code_pattern :: "string \<Rightarrow> bool" where
  "error_code_pattern v \<longleftrightarrow> starts_then upper_letter (\<lambda>c. upper_letter c \<or> js_digit c \<or> c = CHR ''_'') v \<and> length v \<le> 128"

definition typedToolErrorCode :: "tool_result \<Rightarrow> string option" where
  "typedToolErrorCode r = (if \<not> tr_isError r then None
     else (case json_field ''code'' (json_field ''error'' (tr_output r)) of
       JStr code \<Rightarrow> if error_code_pattern code then Some code else None
     | _ \<Rightarrow> None))"

section \<open>Tools\<close>

record tool_definition =
  td_name :: string
  td_description :: string
  td_inputSchema :: json

record tool_context =
  tx_runId :: string
  tx_attemptId :: string
  tx_workspaceId :: string
  tx_conversationId :: string
  tx_toolCallId :: string
  tx_allowedToolNames :: "string list option"

text \<open>\<open>rt_execute n\<close> is what the tool does at the step \<open>n\<close>.\<close>

record registered_tool =
  rt_definition :: tool_definition
  rt_validateInput :: "json \<Rightarrow> bool"
  rt_execute :: "nat \<Rightarrow> json \<Rightarrow> tool_context \<Rightarrow> fault + tool_result"

definition tool_name_pattern :: "string \<Rightarrow> bool" where
  "tool_name_pattern v \<longleftrightarrow> starts_then lower_letter (\<lambda>c. lower_alnum c \<or> c \<in> set ''_.-'') v \<and> length v \<le> 128"

definition find_tool :: "string \<Rightarrow> registered_tool list \<Rightarrow> registered_tool option" where
  "find_tool name ts = find (\<lambda>t. td_name (rt_definition t) = name) ts"

definition registry_register :: "registered_tool \<Rightarrow> registered_tool list \<Rightarrow> err + registered_tool list" where
  "registry_register t ts =
     res_bind (require (tool_name_pattern (td_name (rt_definition t))) Js_Error) (\<lambda>_.
     res_bind (require (find_tool (td_name (rt_definition t)) ts = None) Js_Error) (\<lambda>_.
     Inr (ts @ [t])))"

definition registry_definitions :: "(string \<Rightarrow> string \<Rightarrow> int) \<Rightarrow> registered_tool list \<Rightarrow> tool_definition list" where
  "registry_definitions localeCompare ts = js_sort (\<lambda>a b. localeCompare (td_name a) (td_name b)) (map rt_definition ts)"

definition definition_json :: "tool_definition \<Rightarrow> json" where
  "definition_json d = JObj [(''name'', JStr (td_name d)), (''description'', JStr (td_description d)), (''inputSchema'', td_inputSchema d)]"

section \<open>Streams and adapters\<close>

record model_usage =
  mu_inputTokens :: int
  mu_outputTokens :: int
  mu_totalTokens :: int

datatype model_event = Started_Event "string option" | Text_Event string | Reasoning_Event string | Call_Event string string string
  | Usage_Event model_usage | Completed_Event string "string option"

text \<open>What a stream gives before it ends, and what it throws if it does not end by itself.\<close>

record model_stream =
  ms_events :: "model_event list"
  ms_fault :: "fault option"

record model_request =
  mq_requestId :: string
  mq_provider :: string
  mq_model :: string
  mq_systemInstructions :: string
  mq_messages :: "model_message list"
  mq_tools :: "tool_definition list"
  mq_maxOutputTokens :: int

record model_resolution =
  rl_provider :: string
  rl_model :: string
  rl_maxOutputTokens :: int
  rl_maxRetries :: int
  rl_stream :: "nat \<Rightarrow> model_request \<Rightarrow> model_stream"

section \<open>The steps of an execution\<close>

text \<open>The budget of the options: a field that is absent takes its default.\<close>

record partial_budget =
  pb_maxTurns :: "int option"
  pb_maxModelCalls :: "int option"
  pb_maxToolCalls :: "int option"
  pb_maxOutputTokens :: "int option"
  pb_maxTotalTokens :: "int option"
  pb_maxDurationMs :: "int option"

text \<open>The options of \<open>executeAgentRun\<close> with what the code relies on: \<open>ke_clock n j\<close> and \<open>ke_ids n j\<close> are the readings of the clock
  and the identifiers of the step \<open>n\<close>, \<open>ke_parse\<close> is \<open>JSON.parse\<close> and \<open>ke_text\<close> the message of an error of a service.\<close>

record kernel_env =
  ke_runId :: string
  ke_clock :: "nat \<Rightarrow> nat \<Rightarrow> int"
  ke_ids :: "nat \<Rightarrow> nat \<Rightarrow> string"
  ke_signal :: "nat \<Rightarrow> abort_signal"
  ke_world :: "nat \<Rightarrow> db \<Rightarrow> db"
  ke_resolve :: "string \<Rightarrow> fault + model_resolution"
  ke_tools :: "registered_tool list"
  ke_localeCompare :: "string \<Rightarrow> string \<Rightarrow> int"
  ke_delegations :: "delegation_service option"
  ke_budget :: "partial_budget option"
  ke_systemInstructions :: "string option"
  ke_modelToolNames :: "string list option"
  ke_sha256 :: "string \<Rightarrow> string"
  ke_parse :: "string \<Rightarrow> json option"
  ke_text :: "err \<Rightarrow> string"

record kernel_state =
  kn_step :: nat
  kn_db :: db
  kn_usage :: attempt_usage
  kn_requests :: int
  kn_completed :: "(string \<times> string \<times> tool_result) list"
  kn_messages :: "model_message list"

type_synonym 'a kern = "kernel_state \<Rightarrow> (fault + 'a) \<times> kernel_state"

definition kern_return :: "'a \<Rightarrow> 'a kern" where
  "kern_return x k = (Inr x, k)"

definition kern_throw :: "fault \<Rightarrow> 'a kern" where
  "kern_throw f k = (Inl f, k)"

definition kern_bind :: "'a kern \<Rightarrow> ('a \<Rightarrow> 'b kern) \<Rightarrow> 'b kern" where
  "kern_bind m f k = (case m k of (Inl e, t) \<Rightarrow> (Inl e, t) | (Inr x, t) \<Rightarrow> f x t)"

text \<open>\<open>try\<close>: what was thrown is a value, and what was done stays done.\<close>

definition kern_try :: "'a kern \<Rightarrow> (fault + 'a) kern" where
  "kern_try m k = (case m k of (r, t) \<Rightarrow> (Inr r, t))"

definition kern_require :: "bool \<Rightarrow> fault \<Rightarrow> unit kern" where
  "kern_require b f = (if b then kern_return () else kern_throw f)"

definition kern_get :: "(kernel_state \<Rightarrow> 'a) \<Rightarrow> 'a kern" where
  "kern_get f k = (Inr (f k), k)"

definition kern_put :: "(kernel_state \<Rightarrow> kernel_state) \<Rightarrow> unit kern" where
  "kern_put f k = (Inr (), f k)"

definition kern_tick :: "nat kern" where
  "kern_tick k = (Inr (kn_step k), k\<lparr>kn_step := kn_step k + 1\<rparr>)"

definition kern_call :: "(nat \<Rightarrow> 'a svc) \<Rightarrow> 'a kern" where
  "kern_call f k = (case f (kn_step k) (kn_db k) of (r, t) \<Rightarrow>
     ((case r of Inl e \<Rightarrow> Inl (Service_Fault e) | Inr x \<Rightarrow> Inr x), k\<lparr>kn_step := kn_step k + 1, kn_db := t\<rparr>))"

text \<open>Other code runs.\<close>

definition kern_await :: "kernel_env \<Rightarrow> nat kern" where
  "kern_await ke k = (Inr (kn_step k), k\<lparr>kn_step := kn_step k + 1, kn_db := ke_world ke (kn_step k) (kn_db k)\<rparr>)"

definition agent_fault :: "kernel_code \<Rightarrow> string \<Rightarrow> fault" where
  "agent_fault c m = Agent_Fault c m None"

definition shutdown_fault :: fault where
  "shutdown_fault = agent_fault AGENT_HOST_SHUTDOWN ''agent execution was interrupted by Host shutdown''"

definition cancelled_fault :: fault where
  "cancelled_fault = agent_fault AGENT_CANCELLED ''agent execution was cancelled''"

definition kern_signal :: "kernel_env \<Rightarrow> abort_signal kern" where
  "kern_signal ke = kern_bind kern_tick (\<lambda>n. kern_return (ke_signal ke n))"

definition kern_now :: "kernel_env \<Rightarrow> int kern" where
  "kern_now ke = kern_bind kern_tick (\<lambda>n. kern_return (ke_clock ke n 0))"

definition abortIfNeeded :: "kernel_env \<Rightarrow> unit kern" where
  "abortIfNeeded ke = kern_bind (kern_signal ke) (\<lambda>s. case s of
     NOT_ABORTED \<Rightarrow> kern_return () | SHUTDOWN \<Rightarrow> kern_throw shutdown_fault | ABORTED \<Rightarrow> kern_throw cancelled_fault)"

definition fault_message :: "kernel_env \<Rightarrow> fault \<Rightarrow> string" where
  "fault_message ke f = (case f of Agent_Fault c m cause \<Rightarrow> m | Model_Fault e \<Rightarrow> me_message e | Tool_Fault c m \<Rightarrow> m
     | Approval_Fault requestId \<Rightarrow> ''approval required: '' @ requestId | Wait_Fault d \<Rightarrow> ''tool execution suspended: DELEGATION''
     | Service_Fault e \<Rightarrow> ke_text ke e)"

definition kernel_hash :: "kernel_env \<Rightarrow> json \<Rightarrow> string" where
  "kernel_hash ke v = ke_sha256 ke (canonical v)"

definition kern_event :: "kernel_env \<Rightarrow> string \<Rightarrow> string \<Rightarrow> json \<Rightarrow> string \<Rightarrow> unit kern" where
  "kern_event ke attemptId eventType payload key =
     kern_bind (kern_call (\<lambda>n. conversation_appendEvent (ke_ids ke n 0) \<lparr>ev_runId = ke_runId ke, ev_attemptId = Some attemptId,
       ev_eventType = eventType, ev_payload = payload, ev_idempotencyKey = Some key, ev_expectedSequence = None,
       ev_emittedAt = ke_clock ke n 0\<rparr>)) (\<lambda>_. kern_return ())"

section \<open>Executing a tool\<close>

definition tool_failed :: "string \<Rightarrow> fault \<Rightarrow> fault" where
  "tool_failed name f = (case f of Tool_Fault c m \<Rightarrow> f | Approval_Fault r \<Rightarrow> f | Wait_Fault d \<Rightarrow> f
     | _ \<Rightarrow> Tool_Fault TOOL_EXECUTION_FAILED (''tool execution failed: '' @ name))"

definition registry_execute :: "kernel_env \<Rightarrow> string \<Rightarrow> json \<Rightarrow> tool_context \<Rightarrow> tool_result kern" where
  "registry_execute ke name input context =
     kern_bind (kern_signal ke) (\<lambda>s.
     kern_bind (kern_require (s = NOT_ABORTED) (Tool_Fault TOOL_ABORTED (''tool aborted before execution: '' @ name))) (\<lambda>_.
     (case find_tool name (ke_tools ke) of
        None \<Rightarrow> kern_throw (Tool_Fault TOOL_NOT_FOUND (''tool not found: '' @ name))
      | Some t \<Rightarrow>
          kern_bind (kern_require (rt_validateInput t input) (Tool_Fault TOOL_INPUT_INVALID (''tool input is invalid: '' @ name))) (\<lambda>_.
          kern_bind (kern_await ke) (\<lambda>n.
          (case rt_execute t n input context of
             Inl f \<Rightarrow> kern_throw (tool_failed name f)
           | Inr result \<Rightarrow>
               kern_bind (kern_signal ke) (\<lambda>s'.
               kern_bind (kern_require (s' = NOT_ABORTED) (Tool_Fault TOOL_ABORTED (''tool aborted during execution: '' @ name))) (\<lambda>_.
               kern_return result))))))))"

section \<open>A turn of the model\<close>

definition parseToolArguments :: "kernel_env \<Rightarrow> string \<Rightarrow> fault + json" where
  "parseToolArguments ke argumentsJson = (case ke_parse ke (if argumentsJson = [] then ''{}'' else argumentsJson) of
     None \<Rightarrow> Inl (agent_fault AGENT_TOOL_ARGUMENTS_INVALID ''model tool arguments are not valid JSON'')
   | Some v \<Rightarrow> if json_object v then Inr v else Inl (agent_fault AGENT_TOOL_ARGUMENTS_INVALID ''model tool arguments must be an object''))"

record turn_result =
  tu_text :: string
  tu_reasoning :: string
  tu_toolCalls :: "model_call list"
  tu_usage :: model_usage
  tu_stopReason :: string
  tu_providerResponseId :: "string option"

text \<open>The variables of one request; \<open>ta_durable\<close>: something of the answer was recorded.\<close>

record turn_acc =
  ta_result :: turn_result
  ta_durable :: bool
  ta_completed :: bool
  ta_deltas :: nat

definition empty_turn :: turn_acc where
  "empty_turn = \<lparr>ta_result = \<lparr>tu_text = [], tu_reasoning = [], tu_toolCalls = [],
     tu_usage = \<lparr>mu_inputTokens = 0, mu_outputTokens = 0, mu_totalTokens = 0\<rparr>, tu_stopReason = [], tu_providerResponseId = None\<rparr>,
     ta_durable = False, ta_completed = False, ta_deltas = 0\<rparr>"

definition response_id :: "string option \<Rightarrow> turn_result \<Rightarrow> turn_result" where
  "response_id v r = (case v of None \<Rightarrow> r | Some i \<Rightarrow> r\<lparr>tu_providerResponseId := Some i\<rparr>)"

definition request_key :: "int \<Rightarrow> string \<Rightarrow> string \<Rightarrow> string" where
  "request_key requestNumber kind key = ''model:'' @ show_int requestNumber @ '':'' @ kind @ '':'' @ key"

text \<open>What an event changes among the variables, and what is done then.\<close>

definition turn_event :: "kernel_env \<Rightarrow> string \<Rightarrow> int \<Rightarrow> int \<Rightarrow> model_event \<Rightarrow> turn_acc \<Rightarrow> turn_acc \<times> unit kern" where
  "turn_event ke attemptId turn requestNumber ev a = (case ev of
     Started_Event i \<Rightarrow> (a\<lparr>ta_result := response_id i (ta_result a)\<rparr>, kern_return ())
   | Text_Event delta \<Rightarrow> (a\<lparr>ta_durable := True, ta_deltas := ta_deltas a + 1, ta_result := (ta_result a)\<lparr>tu_text := tu_text (ta_result a) @ delta\<rparr>\<rparr>,
       kern_event ke attemptId ''model.text_delta'' (JObj [(''turn'', JNum turn), (''delta'', JStr delta)])
         (request_key requestNumber ''text'' (show_int (int (ta_deltas a + 1)))))
   | Reasoning_Event delta \<Rightarrow> (a\<lparr>ta_durable := True, ta_deltas := ta_deltas a + 1,
         ta_result := (ta_result a)\<lparr>tu_reasoning := tu_reasoning (ta_result a) @ delta\<rparr>\<rparr>,
       kern_event ke attemptId ''model.reasoning_delta'' (JObj [(''turn'', JNum turn), (''delta'', JStr delta)])
         (request_key requestNumber ''reasoning'' (show_int (int (ta_deltas a + 1)))))
   | Call_Event i name argumentsJson \<Rightarrow> (case parseToolArguments ke argumentsJson of
       Inl f \<Rightarrow> (a\<lparr>ta_durable := True\<rparr>, kern_throw f)
     | Inr v \<Rightarrow> (a\<lparr>ta_durable := True, ta_result := (ta_result a)\<lparr>tu_toolCalls := tu_toolCalls (ta_result a)
           @ [\<lparr>mc_toolCallId = i, mc_name = name, mc_arguments = v\<rparr>]\<rparr>\<rparr>,
         kern_event ke attemptId ''model.tool_call'' (JObj [(''turn'', JNum turn), (''toolCallId'', JStr i), (''name'', JStr name), (''arguments'', v)])
           (request_key requestNumber ''tool'' i)))
   | Usage_Event u \<Rightarrow> (a\<lparr>ta_result := (ta_result a)\<lparr>tu_usage := u\<rparr>\<rparr>, kern_return ())
   | Completed_Event stopReason i \<Rightarrow> (a\<lparr>ta_completed := True, ta_result := response_id i ((ta_result a)\<lparr>tu_stopReason := stopReason\<rparr>)\<rparr>,
       kern_return ()))"

text \<open>\<open>for await\<close> over the stream; the variables are those at the time of what was thrown.\<close>

primrec read_stream :: "kernel_env \<Rightarrow> string \<Rightarrow> int \<Rightarrow> int \<Rightarrow> fault option \<Rightarrow> model_event list \<Rightarrow> turn_acc \<Rightarrow> (fault option \<times> turn_acc) kern" where
  "read_stream ke attemptId turn requestNumber final [] a = kern_bind (kern_await ke) (\<lambda>_. kern_return (final, a))"
| "read_stream ke attemptId turn requestNumber final (ev # evs) a =
     kern_bind (kern_await ke) (\<lambda>_.
     kern_bind (kern_try (abortIfNeeded ke)) (\<lambda>r.
     (case r of
        Inl f \<Rightarrow> kern_return (Some f, a)
      | Inr _ \<Rightarrow>
          (case turn_event ke attemptId turn requestNumber ev a of (b, m) \<Rightarrow>
             kern_bind (kern_try m) (\<lambda>r'.
             (case r' of
                Inl f \<Rightarrow> kern_return (Some f, b)
              | Inr _ \<Rightarrow> read_stream ke attemptId turn requestNumber final evs b))))))"

definition usage_of_model :: "model_usage \<Rightarrow> json" where
  "usage_of_model u = JObj [(''inputTokens'', JNum (mu_inputTokens u)), (''outputTokens'', JNum (mu_outputTokens u)),
     (''totalTokens'', JNum (mu_totalTokens u))]"

definition finish_invocation :: "kernel_env \<Rightarrow> string \<Rightarrow> invocation_status \<Rightarrow> turn_result \<Rightarrow> string option \<Rightarrow> unit kern" where
  "finish_invocation ke invocationId status r errorCode = kern_call (\<lambda>n. finishModelInvocation (ke_clock ke n 0) invocationId status
     (tu_providerResponseId r) (mu_inputTokens (tu_usage r)) (mu_outputTokens (tu_usage r)) errorCode)"

text \<open>The end of a stream that did not throw.\<close>

definition complete_request :: "kernel_env \<Rightarrow> string \<Rightarrow> int \<Rightarrow> int \<Rightarrow> string \<Rightarrow> turn_acc \<Rightarrow> turn_result kern" where
  "complete_request ke attemptId turn requestNumber invocationId a =
     (let r = ta_result a in
      kern_bind (kern_require (ta_completed a) (agent_fault AGENT_MODEL_STREAM_INVALID ''model stream ended without completed event'')) (\<lambda>_.
      kern_bind (finish_invocation ke invocationId I_COMPLETED r None) (\<lambda>_.
      kern_bind (kern_event ke attemptId ''model.completed'' (JObj [(''turn'', JNum turn), (''requestNumber'', JNum requestNumber),
          (''stopReason'', JStr (tu_stopReason r)), (''usage'', usage_of_model (tu_usage r)),
          (''providerResponseId'', jopt_str (tu_providerResponseId r))]) (''model-complete:'' @ show_int requestNumber)) (\<lambda>_.
      kern_return r))))"

definition fault_aborts :: "fault \<Rightarrow> bool" where
  "fault_aborts f = (case f of Agent_Fault c m cause \<Rightarrow> c = AGENT_CANCELLED \<or> c = AGENT_HOST_SHUTDOWN
     | Model_Fault e \<Rightarrow> me_code e = ''MODEL_ABORTED'' | _ \<Rightarrow> False)"

definition fault_shutdown :: "fault \<Rightarrow> bool" where
  "fault_shutdown f = (case f of Agent_Fault c m cause \<Rightarrow> c = AGENT_HOST_SHUTDOWN | _ \<Rightarrow> False)"

definition request_error_code :: "bool \<Rightarrow> fault \<Rightarrow> string" where
  "request_error_code hostShutdown f = (if hostShutdown then ''AGENT_HOST_SHUTDOWN'' else (case f of
     Model_Fault e \<Rightarrow> me_code e | Agent_Fault c m cause \<Rightarrow> kernel_code_name c | _ \<Rightarrow> ''AGENT_MODEL_FAILED''))"

text \<open>The handler: the invocation ends; the answer is whether the request is made again.\<close>

definition request_failed :: "kernel_env \<Rightarrow> string \<Rightarrow> int \<Rightarrow> int \<Rightarrow> int \<Rightarrow> int \<Rightarrow> string \<Rightarrow> fault \<Rightarrow> turn_acc \<Rightarrow> unit kern" where
  "request_failed ke attemptId turn requestNumber maxRetries retry invocationId f a =
     kern_bind (kern_signal ke) (\<lambda>s.
     let is_aborted = s \<noteq> NOT_ABORTED \<or> fault_aborts f; hostShutdown = s = SHUTDOWN \<or> fault_shutdown f in
     kern_bind (finish_invocation ke invocationId (if is_aborted then I_CANCELLED else I_FAILED) (ta_result a)
       (Some (request_error_code hostShutdown f))) (\<lambda>_.
     if is_aborted then kern_throw (if hostShutdown then shutdown_fault else cancelled_fault)
     else (case f of
         Model_Fault e \<Rightarrow>
           if me_retryable e \<and> \<not> ta_durable a \<and> retry < maxRetries then
             kern_event ke attemptId ''model.retry'' (JObj [(''turn'', JNum turn), (''requestNumber'', JNum requestNumber),
               (''nextRetry'', JNum (retry + 1)), (''code'', JStr (me_code e))]) (''model-retry:'' @ show_int requestNumber)
           else kern_throw (Agent_Fault AGENT_MODEL_FAILED (me_message e) (Some e))
       | Agent_Fault c m cause \<Rightarrow> kern_throw f
       | _ \<Rightarrow> kern_throw (agent_fault AGENT_MODEL_FAILED ''model execution failed''))))"

definition request_hash :: "kernel_env \<Rightarrow> model_request \<Rightarrow> string" where
  "request_hash ke q = kernel_hash ke (JObj [(''provider'', JStr (mq_provider q)), (''model'', JStr (mq_model q)),
     (''messages'', JArr (map message_json (mq_messages q))), (''tools'', JArr (map definition_json (mq_tools q))),
     (''maxOutputTokens'', JNum (mq_maxOutputTokens q))])"

text \<open>\<open>left\<close> requests may still be made, the first of them the retry number \<open>retry\<close>; \<open>before\<close> is \<open>beforeRequest\<close>.\<close>

primrec runModelTurn ::
    "kernel_env \<Rightarrow> model_resolution \<Rightarrow> string \<Rightarrow> unit kern \<Rightarrow> model_request \<Rightarrow> int \<Rightarrow> nat \<Rightarrow> int \<Rightarrow> turn_result kern" where
  "runModelTurn ke rl attemptId before q turn 0 retry = kern_throw (agent_fault AGENT_MODEL_FAILED ''model retry loop exhausted'')"
| "runModelTurn ke rl attemptId before q turn (Suc left) retry =
     kern_bind (abortIfNeeded ke) (\<lambda>_.
     kern_bind before (\<lambda>_.
     kern_bind (kern_put (\<lambda>k. k\<lparr>kn_requests := kn_requests k + 1\<rparr>)) (\<lambda>_.
     kern_bind (kern_get kn_requests) (\<lambda>requestNumber.
     kern_bind (kern_call (\<lambda>n. startModelInvocation (ke_ids ke n 0) (ke_clock ke n 0) (ke_runId ke) attemptId turn requestNumber
         (mq_provider q) (mq_model q) (request_hash ke q))) (\<lambda>invocation.
     kern_bind (kern_event ke attemptId ''model.requested'' (JObj [(''turn'', JNum turn), (''requestNumber'', JNum requestNumber),
         (''retry'', JNum retry)]) (''model-request:'' @ show_int requestNumber)) (\<lambda>_.
     kern_bind (kern_get (\<lambda>k. rl_stream rl (kn_step k) q)) (\<lambda>stream.
     kern_bind (read_stream ke attemptId turn requestNumber (ms_fault stream) (ms_events stream) empty_turn) (\<lambda>(thrown, a).
     kern_bind (case thrown of Some f \<Rightarrow> kern_return (Inl f)
       | None \<Rightarrow> kern_try (complete_request ke attemptId turn requestNumber (i_invocationId invocation) a)) (\<lambda>r.
     (case r of
        Inr result \<Rightarrow> kern_return result
      | Inl f \<Rightarrow>
          kern_bind (request_failed ke attemptId turn requestNumber (rl_maxRetries rl) retry (i_invocationId invocation) f a) (\<lambda>_.
          runModelTurn ke rl attemptId before q turn left (retry + 1))))))))))))"

end
