(* ===== verification/Agent_Kernel.thy ===== *)
theory Agent_Kernel
  imports Agent_Kernel_Base "HOL-Library.AList"
begin

text \<open>
  The agent kernel, second half: \<open>executeAgentRun\<close> of \<open>packages/agent-kernel/src/kernel.ts\<close>, the loop in which turns of the model
  and calls of tools alternate until the model answers without a call, the run is suspended, or something is thrown.
\<close>

section \<open>Budgets\<close>

record kernel_budget =
  kb_maxTurns :: int
  kb_maxModelCalls :: int
  kb_maxToolCalls :: int
  kb_maxOutputTokens :: int
  kb_maxTotalTokens :: int
  kb_maxDurationMs :: int

definition positive_integer :: "int \<Rightarrow> bool \<Rightarrow> err + int" where
  "positive_integer v allowZero = (if v < (if allowZero then 0 else 1) then Inl Js_Error else Inr v)"

definition no_budget :: partial_budget where
  "no_budget = \<lparr>pb_maxTurns = None, pb_maxModelCalls = None, pb_maxToolCalls = None, pb_maxOutputTokens = None, pb_maxTotalTokens = None,
     pb_maxDurationMs = None\<rparr>"

definition resolveBudget :: "partial_budget option \<Rightarrow> int \<Rightarrow> err + kernel_budget" where
  "resolveBudget partial maxOutputTokens =
     (let p = or_default partial no_budget in
      res_bind (positive_integer (or_default (pb_maxTurns p) 8) False) (\<lambda>a.
      res_bind (positive_integer (or_default (pb_maxModelCalls p) 10) False) (\<lambda>b.
      res_bind (positive_integer (or_default (pb_maxToolCalls p) 16) True) (\<lambda>c.
      res_bind (positive_integer (or_default (pb_maxOutputTokens p) maxOutputTokens) False) (\<lambda>d.
      res_bind (positive_integer (or_default (pb_maxTotalTokens p) 65536) False) (\<lambda>e.
      res_bind (positive_integer (or_default (pb_maxDurationMs p) (15 * 60 * 1000)) False) (\<lambda>f.
      Inr \<lparr>kb_maxTurns = a, kb_maxModelCalls = b, kb_maxToolCalls = c, kb_maxOutputTokens = d, kb_maxTotalTokens = e,
        kb_maxDurationMs = f\<rparr>)))))))"

text \<open>A number that is used as a condition.\<close>

definition truthy_num :: "int option \<Rightarrow> bool" where
  "truthy_num v = (case v of None \<Rightarrow> False | Some n \<Rightarrow> n \<noteq> 0)"

text \<open>The budget of the envelope of the run, or that of its attempt where the attempt has all of it.\<close>

definition configured_budget :: "execution_context \<Rightarrow> partial_budget option" where
  "configured_budget initial = (case ec_budgetEnvelope initial of
     Some b \<Rightarrow> Some \<lparr>pb_maxTurns = Some (be_maxTurns b), pb_maxModelCalls = Some (be_maxModelCalls b),
       pb_maxToolCalls = Some (be_maxToolCalls b), pb_maxOutputTokens = Some (be_maxOutputTokens b),
       pb_maxTotalTokens = Some (be_maxTotalTokens b), pb_maxDurationMs = Some (be_maxDurationMs b)\<rparr>
   | None \<Rightarrow> let a = ec_attempt initial in
       if truthy_num (a_maxTurns a) \<and> truthy_num (a_maxModelCalls a) \<and> a_maxToolCalls a \<noteq> None \<and> truthy_num (a_maxOutputTokens a)
           \<and> truthy_num (a_maxTotalTokens a) \<and> truthy_num (a_maxDurationMs a)
       then Some \<lparr>pb_maxTurns = a_maxTurns a, pb_maxModelCalls = a_maxModelCalls a, pb_maxToolCalls = a_maxToolCalls a,
         pb_maxOutputTokens = a_maxOutputTokens a, pb_maxTotalTokens = a_maxTotalTokens a, pb_maxDurationMs = a_maxDurationMs a\<rparr>
       else None)"

definition root_budget :: "kernel_budget \<Rightarrow> delegation_budget" where
  "root_budget b = \<lparr>bu_maxTurns = kb_maxTurns b, bu_maxModelCalls = kb_maxModelCalls b, bu_maxToolCalls = kb_maxToolCalls b,
     bu_maxOutputTokens = kb_maxOutputTokens b, bu_maxTotalTokens = kb_maxTotalTokens b, bu_maxDurationMs = kb_maxDurationMs b,
     bu_maxDelegationDepth = 2, bu_maxActiveChildren = 4, bu_maxTotalChildren = 8\<rparr>"

section \<open>What stays the same during an execution\<close>

record kernel_run =
  kr_started :: execution_context
  kr_resolution :: model_resolution
  kr_budget :: kernel_budget
  kr_allowed :: "string list option"
  kr_definitions :: "tool_definition list"
  kr_deadlineAt :: int

definition run_attemptId :: "kernel_run \<Rightarrow> string" where
  "run_attemptId r = a_attemptId (ec_attempt (kr_started r))"

definition assertTimeBudget :: "kernel_env \<Rightarrow> kernel_run \<Rightarrow> unit kern" where
  "assertTimeBudget ke r = kern_bind (kern_now ke) (\<lambda>now.
     kern_require (now < kr_deadlineAt r) (agent_fault AGENT_TIME_BUDGET_EXCEEDED ''agent execution time budget exceeded''))"

definition envelope_delegated :: "budget_row option \<Rightarrow> attempt_usage" where
  "envelope_delegated v = (case v of
     None \<Rightarrow> \<lparr>au_turns = 0, au_inputTokens = 0, au_outputTokens = 0, au_modelCalls = 0, au_toolCalls = 0\<rparr>
   | Some b \<Rightarrow> \<lparr>au_turns = be_delegatedUsedTurns b, au_inputTokens = be_delegatedUsedInputTokens b,
       au_outputTokens = be_delegatedUsedOutputTokens b, au_modelCalls = be_delegatedUsedModelCalls b,
       au_toolCalls = be_delegatedUsedToolCalls b\<rparr>)"

text \<open>What the children of the run have used, as the ledger shows it now.\<close>

definition delegatedUsage :: "kernel_env \<Rightarrow> kernel_run \<Rightarrow> attempt_usage kern" where
  "delegatedUsage ke r = kern_get (\<lambda>k. envelope_delegated
     (case (case ke_delegations ke of None \<Rightarrow> None | Some _ \<Rightarrow> getBudgetEnvelope (ke_runId ke) (kn_db k)) of
        Some b \<Rightarrow> Some b | None \<Rightarrow> ec_budgetEnvelope (kr_started r)))"

definition usage_tokens :: "attempt_usage \<Rightarrow> int" where
  "usage_tokens u = au_inputTokens u + au_outputTokens u"

definition assertCompositeBudget :: "kernel_env \<Rightarrow> kernel_run \<Rightarrow> unit kern" where
  "assertCompositeBudget ke r =
     (let b = kr_budget r in
      kern_bind (delegatedUsage ke r) (\<lambda>d.
      kern_bind (kern_get kn_usage) (\<lambda>u.
      kern_bind (kern_require (au_turns u + au_turns d \<le> kb_maxTurns b) (agent_fault AGENT_TURN_BUDGET_EXCEEDED ''agent plus delegated turn budget exceeded'')) (\<lambda>_.
      kern_bind (kern_require (au_modelCalls u + au_modelCalls d \<le> kb_maxModelCalls b)
        (agent_fault AGENT_MODEL_CALL_BUDGET_EXCEEDED ''agent plus delegated model call budget exceeded'')) (\<lambda>_.
      kern_bind (kern_require (au_toolCalls u + au_toolCalls d \<le> kb_maxToolCalls b)
        (agent_fault AGENT_TOOL_CALL_BUDGET_EXCEEDED ''agent plus delegated tool call budget exceeded'')) (\<lambda>_.
      kern_require (usage_tokens u + usage_tokens d \<le> kb_maxTotalTokens b)
        (agent_fault AGENT_TOTAL_TOKEN_BUDGET_EXCEEDED ''agent plus delegated total token budget exceeded'')))))))"

text \<open>\<open>beforeRequest\<close>: a request counts before it is made.\<close>

definition beforeRequest :: "kernel_env \<Rightarrow> kernel_run \<Rightarrow> unit kern" where
  "beforeRequest ke r =
     kern_bind (delegatedUsage ke r) (\<lambda>d.
     kern_bind (kern_get kn_usage) (\<lambda>u.
     kern_bind (kern_require (au_modelCalls u + au_modelCalls d < kb_maxModelCalls (kr_budget r))
       (agent_fault AGENT_MODEL_CALL_BUDGET_EXCEEDED ''model call budget exceeded including delegated usage'')) (\<lambda>_.
     kern_put (\<lambda>k. k\<lparr>kn_usage := (kn_usage k)\<lparr>au_modelCalls := au_modelCalls (kn_usage k) + 1\<rparr>\<rparr>))))"

section \<open>Results\<close>

datatype kernel_status = K_COMPLETED | K_FAILED | K_CANCELLED | K_WAITING_APPROVAL | K_WAITING_DELEGATION | K_INTERRUPTED

record kernel_result =
  kx_status :: kernel_status
  kx_terminalReason :: string
  kx_usage :: attempt_usage
  kx_messages :: "model_message list"

definition kern_result :: "kernel_status \<Rightarrow> string \<Rightarrow> kernel_result kern" where
  "kern_result status reason = kern_get (\<lambda>k. \<lparr>kx_status = status, kx_terminalReason = reason, kx_usage = kn_usage k, kx_messages = kn_messages k\<rparr>)"

definition push_message :: "model_message \<Rightarrow> unit kern" where
  "push_message m = kern_put (\<lambda>k. k\<lparr>kn_messages := kn_messages k @ [m]\<rparr>)"

definition push_result :: "model_call \<Rightarrow> tool_result \<Rightarrow> unit kern" where
  "push_result c r = push_message \<lparr>mm_role = Role_tool, mm_content = [Result_Block (mc_toolCallId c) (mc_name c) r]\<rparr>"

text \<open>The usage so far is recorded.\<close>

definition record_usage :: "kernel_env \<Rightarrow> string option \<Rightarrow> unit kern" where
  "record_usage ke terminalReason = kern_bind (kern_get kn_usage) (\<lambda>u.
     kern_bind (kern_call (\<lambda>n. updateExecutionUsage (ke_clock ke n 0) (ke_runId ke) u terminalReason)) (\<lambda>_. kern_return ()))"

definition append_message :: "kernel_env \<Rightarrow> message_role \<Rightarrow> json \<Rightarrow> unit kern" where
  "append_message ke role content = kern_bind (kern_call (\<lambda>n. appendExecutionMessage (ke_ids ke n 0) (ke_clock ke n 0) (ke_runId ke) role content))
     (\<lambda>_. kern_return ())"

section \<open>Calls of tools\<close>

definition call_signature :: "kernel_env \<Rightarrow> string \<Rightarrow> json \<Rightarrow> string" where
  "call_signature ke name arguments = kernel_hash ke (JObj [(''name'', JStr name), (''arguments'', arguments)])"

definition call_json :: "model_call \<Rightarrow> (string \<times> json) list" where
  "call_json c = [(''toolCallId'', JStr (mc_toolCallId c)), (''name'', JStr (mc_name c))]"

text \<open>A call whose result is known.\<close>

definition replay_call :: "kernel_env \<Rightarrow> kernel_run \<Rightarrow> model_call \<Rightarrow> tool_result \<Rightarrow> unit kern" where
  "replay_call ke r c result =
     kern_bind (kern_event ke (run_attemptId r) ''tool.replayed'' (JObj (call_json c)) (''tool-replay:'' @ mc_toolCallId c)) (\<lambda>_.
     kern_bind (kern_event ke (run_attemptId r) ''run.checkpoint'' (JObj ((''kind'', JStr ''tool.replayed'') # call_json c))
       (''checkpoint:tool:'' @ mc_toolCallId c)) (\<lambda>_.
     push_result c result))"

definition call_context :: "kernel_env \<Rightarrow> kernel_run \<Rightarrow> model_call \<Rightarrow> tool_context" where
  "call_context ke r c = \<lparr>tx_runId = ke_runId ke, tx_attemptId = run_attemptId r,
     tx_workspaceId = cv_workspaceId (ec_conversation (kr_started r)), tx_conversationId = cv_conversationId (ec_conversation (kr_started r)),
     tx_toolCallId = mc_toolCallId c, tx_allowedToolNames = kr_allowed r\<rparr>"

text \<open>What a tool has thrown: the run is suspended, or an error of the kernel is thrown.\<close>

definition tool_threw :: "kernel_env \<Rightarrow> model_call \<Rightarrow> fault \<Rightarrow> kernel_result kern" where
  "tool_threw ke c f = (case f of
     Approval_Fault requestId \<Rightarrow>
       kern_bind (kern_get kn_usage) (\<lambda>u.
       kern_bind (kern_call (\<lambda>n. waitForApproval (ke_ids ke n) (ke_clock ke n 0) (ke_clock ke n 1) (ke_runId ke) u requestId)) (\<lambda>_.
       kern_result K_WAITING_APPROVAL ''APPROVAL_REQUIRED''))
   | Wait_Fault d \<Rightarrow> (case truthy (json_text (json_field ''delegationId'' d)) of
       None \<Rightarrow> kern_throw (agent_fault AGENT_TOOL_FAILED ''delegation wait identity is missing'')
     | Some delegationId \<Rightarrow>
         kern_bind (kern_get kn_usage) (\<lambda>u.
         kern_bind (kern_call (\<lambda>n. waitForDelegation (ke_ids ke n 0) (ke_clock ke n 0) (ke_clock ke n 1) (ke_runId ke) u delegationId (mc_toolCallId c))) (\<lambda>_.
         kern_result K_WAITING_DELEGATION ''DELEGATION_WAIT'')))
   | Tool_Fault TOOL_ABORTED m \<Rightarrow> kern_bind (kern_signal ke) (\<lambda>s.
       kern_throw (agent_fault (if s = SHUTDOWN then AGENT_HOST_SHUTDOWN else AGENT_CANCELLED) m))
   | _ \<Rightarrow> kern_throw (agent_fault AGENT_TOOL_FAILED (fault_message ke f)))"

definition tool_result_json :: "model_call \<Rightarrow> tool_result \<Rightarrow> json" where
  "tool_result_json c result = JObj [(''type'', JStr ''tool_result''), (''toolCallId'', JStr (mc_toolCallId c)), (''name'', JStr (mc_name c)),
     (''output'', tr_output result), (''isError'', JBool (tr_isError result))]"

definition outcome_fields :: "tool_result \<Rightarrow> (string \<times> json) list" where
  "outcome_fields result = [(''isError'', JBool (tr_isError result)), (''errorCode'', jopt_str (typedToolErrorCode result))]"

definition tool_completed :: "kernel_env \<Rightarrow> kernel_run \<Rightarrow> model_call \<Rightarrow> string \<Rightarrow> tool_result \<Rightarrow> unit kern" where
  "tool_completed ke r c signature result =
     kern_bind (kern_put (\<lambda>k. k\<lparr>kn_completed := AList.update (mc_toolCallId c) (signature, result) (kn_completed k)\<rparr>)) (\<lambda>_.
     kern_bind (append_message ke Role_tool (tool_result_json c result)) (\<lambda>_.
     kern_bind (kern_event ke (run_attemptId r) ''tool.completed'' (JObj (call_json c @ outcome_fields result)) (''tool-complete:'' @ mc_toolCallId c)) (\<lambda>_.
     kern_bind (kern_event ke (run_attemptId r) ''run.checkpoint'' (JObj ((''kind'', JStr ''tool.completed'') # call_json c @ outcome_fields result))
       (''checkpoint:tool:'' @ mc_toolCallId c)) (\<lambda>_.
     push_result c result))))"

text \<open>A call counts before it is made.\<close>

definition countToolCall :: "kernel_env \<Rightarrow> kernel_run \<Rightarrow> unit kern" where
  "countToolCall ke r =
     kern_bind (delegatedUsage ke r) (\<lambda>d.
     kern_bind (kern_get kn_usage) (\<lambda>u.
     kern_bind (kern_require (au_toolCalls u + au_toolCalls d < kb_maxToolCalls (kr_budget r))
       (agent_fault AGENT_TOOL_CALL_BUDGET_EXCEEDED ''tool call budget exceeded including delegated usage'')) (\<lambda>_.
     kern_put (\<lambda>k. k\<lparr>kn_usage := (kn_usage k)\<lparr>au_toolCalls := au_toolCalls (kn_usage k) + 1\<rparr>\<rparr>))))"

definition kernel_call :: "kernel_env \<Rightarrow> kernel_run \<Rightarrow> model_call \<Rightarrow> string \<Rightarrow> kernel_result option kern" where
  "kernel_call ke r c signature =
     kern_bind (kern_require (case kr_allowed r of None \<Rightarrow> True | Some names \<Rightarrow> mc_name c \<in> set names)
       (agent_fault AGENT_TOOL_NOT_ALLOWED (''tool is outside the durable Run scope: '' @ mc_name c))) (\<lambda>_.
     kern_bind (countToolCall ke r) (\<lambda>_.
     kern_bind (record_usage ke None) (\<lambda>_.
     kern_bind (kern_event ke (run_attemptId r) ''tool.started'' (JObj (call_json c @ [(''execution'', JStr ''SEQUENTIAL'')]))
       (''tool-start:'' @ mc_toolCallId c)) (\<lambda>_.
     kern_bind (kern_try (registry_execute ke (mc_name c) (mc_arguments c) (call_context ke r c))) (\<lambda>out.
     (case out of
        Inl f \<Rightarrow> kern_bind (tool_threw ke c f) (\<lambda>x. kern_return (Some x))
      | Inr result \<Rightarrow> kern_bind (tool_completed ke r c signature result) (\<lambda>_. kern_return None)))))))"

primrec run_calls :: "kernel_env \<Rightarrow> kernel_run \<Rightarrow> model_call list \<Rightarrow> kernel_result option kern" where
  "run_calls ke r [] = kern_return None"
| "run_calls ke r (c # cs) =
     kern_bind (abortIfNeeded ke) (\<lambda>_.
     kern_bind (assertTimeBudget ke r) (\<lambda>_.
     let signature = call_signature ke (mc_name c) (mc_arguments c) in
     kern_bind (kern_get (\<lambda>k. map_of (kn_completed k) (mc_toolCallId c))) (\<lambda>existing.
     kern_bind (case existing of
         None \<Rightarrow> kernel_call ke r c signature
       | Some (known, result) \<Rightarrow>
           kern_bind (kern_require (known = signature) (agent_fault AGENT_TOOL_CALL_CONFLICT
             (''tool call id reused with different payload: '' @ mc_toolCallId c))) (\<lambda>_.
           kern_bind (replay_call ke r c result) (\<lambda>_. kern_return None))) (\<lambda>out.
     (case out of Some x \<Rightarrow> kern_return (Some x) | None \<Rightarrow> run_calls ke r cs)))))"

section \<open>The turns\<close>

definition default_instructions :: string where
  "default_instructions = ''You are OpenRill, a local autonomous agent. Use only declared tools and return concise, accurate results.''"

definition turn_request :: "kernel_env \<Rightarrow> kernel_run \<Rightarrow> int \<Rightarrow> kernel_state \<Rightarrow> model_request" where
  "turn_request ke r turn k = \<lparr>mq_requestId = ke_runId ke @ '':'' @ show_int turn @ '':'' @ show_int (kn_requests k + 1),
     mq_provider = rl_provider (kr_resolution r), mq_model = rl_model (kr_resolution r),
     mq_systemInstructions = or_default (ke_systemInstructions ke) default_instructions, mq_messages = kn_messages k,
     mq_tools = kr_definitions r, mq_maxOutputTokens = kb_maxOutputTokens (kr_budget r)\<rparr>"

definition turn_used :: "int \<Rightarrow> model_usage \<Rightarrow> attempt_usage \<Rightarrow> attempt_usage" where
  "turn_used turn m u = u\<lparr>au_turns := max (au_turns u) turn, au_inputTokens := au_inputTokens u + mu_inputTokens m,
     au_outputTokens := au_outputTokens u + mu_outputTokens m\<rparr>"

definition assistant_json :: "turn_result \<Rightarrow> json" where
  "assistant_json t = JObj [(''type'', JStr ''assistant''), (''text'', JStr (tu_text t)),
     (''reasoningSummary'', jopt_str (truthy (Some (tu_reasoning t)))),
     (''toolCalls'', JArr (map (\<lambda>c. JObj (call_json c @ [(''arguments'', mc_arguments c)])) (tu_toolCalls t)))]"

definition answer_message :: "kernel_env \<Rightarrow> turn_result \<Rightarrow> unit kern" where
  "answer_message ke t = (if tu_text t = [] \<and> tu_toolCalls t = [] then kern_return ()
     else kern_bind (append_message ke Role_assistant (assistant_json t)) (\<lambda>_.
       push_message \<lparr>mm_role = Role_assistant,
         mm_content = (if tu_text t = [] then [] else [Text_Block (tu_text t)]) @ map Call_Block (tu_toolCalls t)\<rparr>))"

definition stop_reason :: "turn_result \<Rightarrow> string" where
  "stop_reason t = or_default (truthy (Some (tu_stopReason t))) ''stop''"

definition run_turn :: "kernel_env \<Rightarrow> kernel_run \<Rightarrow> int \<Rightarrow> kernel_result option kern" where
  "run_turn ke r turn =
     kern_bind (abortIfNeeded ke) (\<lambda>_.
     kern_bind (assertTimeBudget ke r) (\<lambda>_.
     kern_bind (assertCompositeBudget ke r) (\<lambda>_.
     kern_bind (kern_get (turn_request ke r turn)) (\<lambda>q.
     kern_bind (runModelTurn ke (kr_resolution r) (run_attemptId r) (beforeRequest ke r) q turn (nat (rl_maxRetries (kr_resolution r) + 1)) 0) (\<lambda>t.
     kern_bind (assertTimeBudget ke r) (\<lambda>_.
     kern_bind (kern_put (\<lambda>k. k\<lparr>kn_usage := turn_used turn (tu_usage t) (kn_usage k)\<rparr>)) (\<lambda>_.
     kern_bind (delegatedUsage ke r) (\<lambda>d.
     kern_bind (kern_get kn_usage) (\<lambda>u.
     kern_bind (kern_require (usage_tokens u + usage_tokens d \<le> kb_maxTotalTokens (kr_budget r))
       (agent_fault AGENT_TOTAL_TOKEN_BUDGET_EXCEEDED ''agent total token budget exceeded including delegated usage'')) (\<lambda>_.
     kern_bind (record_usage ke None) (\<lambda>_.
     kern_bind (answer_message ke t) (\<lambda>_.
     if tu_toolCalls t = [] then
       kern_bind (kern_call (\<lambda>n. completeExecution (ke_ids ke n) (ke_clock ke n 0) (ke_clock ke n 1) (ke_runId ke) u (stop_reason t) (Some (tu_text t)))) (\<lambda>_.
       kern_bind (kern_result K_COMPLETED (stop_reason t)) (\<lambda>x. kern_return (Some x)))
     else run_calls ke r (tu_toolCalls t)))))))))))))"

text \<open>\<open>left\<close> turns may follow, the first of them the turn \<open>turn\<close>.\<close>

primrec run_turns :: "kernel_env \<Rightarrow> kernel_run \<Rightarrow> nat \<Rightarrow> int \<Rightarrow> kernel_result kern" where
  "run_turns ke r 0 turn = kern_throw (agent_fault AGENT_TURN_BUDGET_EXCEEDED ''agent turn budget exceeded'')"
| "run_turns ke r (Suc left) turn =
     kern_bind (run_turn ke r turn) (\<lambda>out. case out of Some x \<Rightarrow> kern_return x | None \<Rightarrow> run_turns ke r left (turn + 1))"

section \<open>The end of an execution\<close>

definition fault_code :: "fault \<Rightarrow> string" where
  "fault_code f = (case f of
     Agent_Fault c m cause \<Rightarrow> (case cause of Some e \<Rightarrow> me_code e | None \<Rightarrow> kernel_code_name c)
   | _ \<Rightarrow> ''AGENT_MODEL_FAILED'')"

text \<open>The handler around the turns. \<open>current\<close> is the run as it is when the handler begins.\<close>

definition execution_threw :: "kernel_env \<Rightarrow> fault \<Rightarrow> kernel_result kern" where
  "execution_threw ke f =
     kern_bind (kern_call (\<lambda>n. executionContext (ke_runId ke))) (\<lambda>c.
     let current = ec_run c in
     kern_bind (kern_get kn_usage) (\<lambda>u.
     if fault_shutdown f then
       kern_bind (kern_call (\<lambda>n. interruptExecution (ke_ids ke n 0) (ke_clock ke n 0) (ke_runId ke) ''HOST_SHUTDOWN'')) (\<lambda>x.
       if rc_status x = R_CREATED \<and> rc_recoveryState x = RESUMABLE then kern_result K_INTERRUPTED ''HOST_SHUTDOWN_RESUMABLE''
       else kern_result K_FAILED ''HOST_SHUTDOWN_NON_RESUMABLE'')
     else (case f of
         Agent_Fault AGENT_CANCELLED m cause \<Rightarrow>
           kern_bind (record_usage ke (Some ''CANCELLED'')) (\<lambda>_.
           kern_bind (if r_status current = R_RUNNING \<or> r_status current = R_WAITING_APPROVAL
             then kern_bind (kern_call (\<lambda>n. transitionRun (ke_ids ke n) (ke_clock ke n 0) \<lparr>ti_runId = ke_runId ke, ti_status = R_CANCELLED,
               ti_eventType = Some ''run.cancelled'', ti_payload = JObj [(''reason'', JStr ''abort-signal'')], ti_taskCompletionText = None\<rparr>)) (\<lambda>_. kern_return ())
             else kern_return ()) (\<lambda>_.
           kern_result K_CANCELLED ''CANCELLED''))
       | _ \<Rightarrow>
           kern_bind (if run_terminal (r_status current) then kern_return ()
             else kern_bind (kern_call (\<lambda>n. failExecution (ke_ids ke n) (ke_clock ke n 0) (ke_clock ke n 1) (ke_runId ke) u (fault_code f) (fault_message ke f)))
               (\<lambda>_. kern_return ())) (\<lambda>_.
           kern_result K_FAILED (fault_code f)))))"

section \<open>The beginning of an execution\<close>

definition max_of :: "('a \<Rightarrow> int) \<Rightarrow> 'a list \<Rightarrow> int" where
  "max_of f xs = fold (\<lambda>x m. max m (f x)) xs 0"

definition sum_of :: "('a \<Rightarrow> int) \<Rightarrow> 'a list \<Rightarrow> int" where
  "sum_of f xs = fold (\<lambda>x m. m + f x) xs 0"

definition prior_usage :: "invocation_row list \<Rightarrow> attempt_usage" where
  "prior_usage vs = \<lparr>au_turns = max_of i_turnNumber vs, au_inputTokens = sum_of i_inputTokens vs, au_outputTokens = sum_of i_outputTokens vs,
     au_modelCalls = int (length vs), au_toolCalls = 0\<rparr>"

text \<open>The calls of the stored messages, and those whose result is stored after them.\<close>

definition learn_message ::
    "kernel_env \<Rightarrow> message_row \<Rightarrow> (string \<times> string \<times> json) list \<times> (string \<times> string \<times> tool_result) list
     \<Rightarrow> (string \<times> string \<times> json) list \<times> (string \<times> string \<times> tool_result) list" where
  "learn_message ke m = (\<lambda>(calls, known). let content = m_content m in
     if json_field ''type'' content = JStr ''assistant'' \<and> json_elements (json_field ''toolCalls'' content) \<noteq> None
     then (fold (\<lambda>c. AList.update (mc_toolCallId c) (mc_name c, mc_arguments c)) (stored_calls content) calls, known)
     else (case stored_result content of
         None \<Rightarrow> (calls, known)
       | Some (i, n, result) \<Rightarrow> (case map_of calls i of
           None \<Rightarrow> (calls, known)
         | Some (name, arguments) \<Rightarrow> (calls, AList.update i (call_signature ke name arguments, result) known))))"

definition known_calls :: "kernel_env \<Rightarrow> message_row list \<Rightarrow> (string \<times> string \<times> tool_result) list" where
  "known_calls ke ms = snd (fold (learn_message ke) ms ([], []))"

definition select_definitions :: "kernel_env \<Rightarrow> string list option \<Rightarrow> tool_definition list" where
  "select_definitions ke allowed =
     (let ds = registry_definitions (ke_localeCompare ke) (ke_tools ke) in
      (case allowed of
         Some names \<Rightarrow> filter (\<lambda>d. td_name d \<in> set names) ds
       | None \<Rightarrow> (case ke_modelToolNames ke of Some names \<Rightarrow> filter (\<lambda>d. td_name d \<in> set names) ds | None \<Rightarrow> ds)))"

definition kern_of :: "err + 'a \<Rightarrow> 'a kern" where
  "kern_of r = (case r of Inl e \<Rightarrow> kern_throw (Service_Fault e) | Inr x \<Rightarrow> kern_return x)"

definition execution_budget_of :: "kernel_budget \<Rightarrow> execution_budget" where
  "execution_budget_of b = \<lparr>eb_maxTurns = kb_maxTurns b, eb_maxModelCalls = kb_maxModelCalls b, eb_maxToolCalls = kb_maxToolCalls b,
     eb_maxOutputTokens = kb_maxOutputTokens b, eb_maxTotalTokens = Some (kb_maxTotalTokens b), eb_maxDurationMs = Some (kb_maxDurationMs b)\<rparr>"

text \<open>A run without an envelope becomes the root of its delegations.\<close>

definition configure_root :: "kernel_env \<Rightarrow> execution_context \<Rightarrow> kernel_budget \<Rightarrow> tool_definition list \<Rightarrow> unit kern" where
  "configure_root ke initial b ds = (case (ke_delegations ke, ec_budgetEnvelope initial) of
     (Some service, None) \<Rightarrow> kern_bind (kern_call (\<lambda>n. configureRootBudget service (ke_clock ke n 0) (ke_runId ke) (root_budget b)
       \<lparr>dl_workspaceIds = [cv_workspaceId (ec_conversation initial)], dl_skillIds = [], dl_toolNames = map td_name ds\<rparr>)) (\<lambda>_. kern_return ())
   | _ \<Rightarrow> kern_return ())"

definition start_run :: "kernel_env \<Rightarrow> execution_context \<Rightarrow> model_resolution \<Rightarrow> kernel_budget \<Rightarrow> execution_context kern" where
  "start_run ke initial rl b = kern_call (\<lambda>n.
     if r_status (ec_run initial) = R_WAITING_APPROVAL then resumeExecution (ke_ids ke n 0) (ke_clock ke n 0) (ke_runId ke)
     else startExecution (ke_ids ke n) (ke_clock ke n 0) (ke_runId ke) (rl_provider rl) (rl_model rl) (execution_budget_of b))"

definition run_deadline :: "kernel_env \<Rightarrow> execution_context \<Rightarrow> kernel_budget \<Rightarrow> int kern" where
  "run_deadline ke started b = (case ec_budgetEnvelope started of
     Some e \<Rightarrow> kern_return (be_deadlineAt e)
   | None \<Rightarrow> (case r_startedAt (ec_run started) of
       Some at \<Rightarrow> kern_return (at + kb_maxDurationMs b)
     | None \<Rightarrow> kern_bind (kern_now ke) (\<lambda>now. kern_return (now + kb_maxDurationMs b))))"

text \<open>What comes before the \<open>try\<close>: what it throws is thrown by the execution.\<close>

definition begin_execution :: "kernel_env \<Rightarrow> (kernel_run \<times> int) kern" where
  "begin_execution ke =
     kern_bind (kern_call (\<lambda>n. executionContext (ke_runId ke))) (\<lambda>initial.
     kern_bind (kern_await ke) (\<lambda>_.
     (case ke_resolve ke (cv_modelProfile (ec_conversation initial)) of
        Inl f \<Rightarrow> kern_throw f
      | Inr rl \<Rightarrow>
          kern_bind (kern_of (resolveBudget (case ke_budget ke of Some p \<Rightarrow> Some p | None \<Rightarrow> configured_budget initial) (rl_maxOutputTokens rl))) (\<lambda>b.
          let allowed = map_option be_allowedToolNames (ec_budgetEnvelope initial);
              ds = select_definitions ke allowed in
          kern_bind (configure_root ke initial b ds) (\<lambda>_.
          kern_bind (start_run ke initial rl b) (\<lambda>started.
          kern_bind (kern_call (\<lambda>n. conversation_modelInvocations (ke_runId ke))) (\<lambda>prior.
          let known = known_calls ke (ec_messages started) in
          kern_bind (kern_put (\<lambda>k. k\<lparr>kn_messages := map conversationMessageToModel (ec_messages started),
              kn_usage := (prior_usage prior)\<lparr>au_toolCalls := int (length known)\<rparr>, kn_requests := max_of i_requestNumber prior,
              kn_completed := known\<rparr>)) (\<lambda>_.
          kern_bind (run_deadline ke started b) (\<lambda>deadline.
          kern_return (\<lparr>kr_started = started, kr_resolution = rl, kr_budget = b, kr_allowed = allowed, kr_definitions = ds,
            kr_deadlineAt = deadline\<rparr>, max_of i_turnNumber prior + 1))))))))))"

definition execute_turns :: "kernel_env \<Rightarrow> kernel_run \<Rightarrow> int \<Rightarrow> kernel_result kern" where
  "execute_turns ke r firstTurn =
     kern_bind (kern_try (run_turns ke r (nat (kb_maxTurns (kr_budget r) - firstTurn + 1)) firstTurn)) (\<lambda>out.
     (case out of Inr x \<Rightarrow> kern_return x | Inl f \<Rightarrow> execution_threw ke f))"

definition fresh_kernel :: "db \<Rightarrow> kernel_state" where
  "fresh_kernel s = \<lparr>kn_step = 0, kn_db = s, kn_usage = \<lparr>au_turns = 0, au_inputTokens = 0, au_outputTokens = 0, au_modelCalls = 0, au_toolCalls = 0\<rparr>,
     kn_requests = 0, kn_completed = [], kn_messages = []\<rparr>"

definition executeAgentRun :: "kernel_env \<Rightarrow> db \<Rightarrow> (fault + kernel_result) \<times> db" where
  "executeAgentRun ke s = (case kern_bind (begin_execution ke) (\<lambda>(r, firstTurn). execute_turns ke r firstTurn) (fresh_kernel s) of
     (out, k) \<Rightarrow> (out, kn_db k))"

end
