(* ===== verification/Kernel_Machine.thy ===== *)
theory Kernel_Machine
  imports Agent_Kernel Conversation_Properties
begin

text \<open>
  What an execution of the kernel keeps: the interfaces between the steps of an execution and a property of its state. \<open>kernel_quiet\<close>
  asks that the calls that record something keep the property, and gives it for the turns up to the call that ends the execution;
  \<open>kernel_frame\<close> and \<open>kernel_invariant\<close> ask it of every call, and give it for whole executions.
\<close>

section \<open>Steps\<close>

definition kern_keeps :: "(kernel_state \<Rightarrow> bool) \<Rightarrow> 'a kern \<Rightarrow> bool" where
  "kern_keeps I m \<longleftrightarrow> (\<forall>k. I k \<longrightarrow> I (snd (m k)))"

lemma kern_keepsD: "kern_keeps I m \<Longrightarrow> m k = (r, t) \<Longrightarrow> I k \<Longrightarrow> I t"
  unfolding kern_keeps_def by (metis snd_conv)

lemma keeps_chain: "kern_keeps I m \<Longrightarrow> (\<And>x. kern_keeps I (f x)) \<Longrightarrow> kern_keeps I (kern_bind m f)"
  by (auto simp: kern_keeps_def kern_bind_def split: prod.splits sum.splits)

lemma keeps_simple: "kern_keeps I (kern_return x)" "kern_keeps I (kern_throw f)" "kern_keeps I (kern_get g)"
  "kern_keeps I (kern_require b f)"
  by (simp_all add: kern_keeps_def kern_return_def kern_throw_def kern_get_def kern_require_def)

lemma keeps_try: "kern_keeps I m \<Longrightarrow> kern_keeps I (kern_try m)"
  by (auto simp: kern_keeps_def kern_try_def split: prod.splits)

lemma keeps_put: "(\<And>k. I k \<Longrightarrow> I (g k)) \<Longrightarrow> kern_keeps I (kern_put g)"
  by (simp add: kern_keeps_def kern_put_def)

lemma keeps_case:
  "\<lbrakk>\<And>a. x = Inl a \<Longrightarrow> kern_keeps I (f a); \<And>b. x = Inr b \<Longrightarrow> kern_keeps I (g b)\<rbrakk> \<Longrightarrow> kern_keeps I (case x of Inl a \<Rightarrow> f a | Inr b \<Rightarrow> g b)"
  "\<lbrakk>y = None \<Longrightarrow> kern_keeps I m; \<And>c. y = Some c \<Longrightarrow> kern_keeps I (h c)\<rbrakk> \<Longrightarrow> kern_keeps I (case y of None \<Rightarrow> m | Some c \<Rightarrow> h c)"
  "\<lbrakk>\<And>a b. p = (a, b) \<Longrightarrow> kern_keeps I (q a b)\<rbrakk> \<Longrightarrow> kern_keeps I (case p of (a, b) \<Rightarrow> q a b)"
  by (cases x, simp_all) (cases y, simp_all, cases p, simp)

lemma keeps_fault:
  "\<lbrakk>\<And>c m e. f = Agent_Fault c m e \<Longrightarrow> kern_keeps I (ma c m e); \<And>e. f = Model_Fault e \<Longrightarrow> kern_keeps I (mm e);
    \<And>c m. f = Tool_Fault c m \<Longrightarrow> kern_keeps I (mt c m); \<And>q. f = Approval_Fault q \<Longrightarrow> kern_keeps I (mq q);
    \<And>d. f = Wait_Fault d \<Longrightarrow> kern_keeps I (mw d); \<And>e. f = Service_Fault e \<Longrightarrow> kern_keeps I (ms e)\<rbrakk>
    \<Longrightarrow> kern_keeps I (case f of Agent_Fault c m e \<Rightarrow> ma c m e | Model_Fault e \<Rightarrow> mm e | Tool_Fault c m \<Rightarrow> mt c m | Approval_Fault q \<Rightarrow> mq q
      | Wait_Fault d \<Rightarrow> mw d | Service_Fault e \<Rightarrow> ms e)"
  by (cases f) simp_all

lemma keeps_tool_code: "kern_keeps I a \<Longrightarrow> kern_keeps I b \<Longrightarrow> kern_keeps I c \<Longrightarrow> kern_keeps I d \<Longrightarrow>
    kern_keeps I (case x of TOOL_NOT_FOUND \<Rightarrow> a | TOOL_INPUT_INVALID \<Rightarrow> b | TOOL_ABORTED \<Rightarrow> c | TOOL_EXECUTION_FAILED \<Rightarrow> d)"
  by (cases x) simp_all

lemma keeps_kernel_code: "kern_keeps I m \<Longrightarrow> kern_keeps I n \<Longrightarrow> kern_keeps I (case c of AGENT_CANCELLED \<Rightarrow> m | _ \<Rightarrow> n)"
  by (cases c) simp_all

lemma keeps_cond: "(b \<Longrightarrow> kern_keeps I m) \<Longrightarrow> (\<not> b \<Longrightarrow> kern_keeps I n) \<Longrightarrow> kern_keeps I (if b then m else n)"
  by simp

lemma keeps_of: "kern_keeps I (kern_of x)"
  unfolding kern_of_def by (simp add: keeps_simple split: sum.splits)

lemmas kern_intros = keeps_chain keeps_simple keeps_try keeps_case keeps_fault keeps_tool_code keeps_kernel_code keeps_cond

lemma kern_bind_assoc: "kern_bind (kern_bind m f) g = kern_bind m (\<lambda>x. kern_bind (f x) g)"
  by (auto simp: kern_bind_def fun_eq_iff split: prod.splits sum.splits)

text \<open>A computation keeps the property unless it returns something of which \<open>E\<close> holds.\<close>

definition keeps_unless :: "(kernel_state \<Rightarrow> bool) \<Rightarrow> ('a \<Rightarrow> bool) \<Rightarrow> 'a kern \<Rightarrow> bool" where
  "keeps_unless I E m \<longleftrightarrow> (\<forall>k r t. I k \<longrightarrow> m k = (r, t) \<longrightarrow> I t \<or> (\<exists>x. r = Inr x \<and> E x))"

lemma unless_keeps: "kern_keeps I m \<Longrightarrow> keeps_unless I E m"
  unfolding keeps_unless_def by (blast dest: kern_keepsD)

lemma unless_chain: "kern_keeps I m \<Longrightarrow> (\<And>x. keeps_unless I E (f x)) \<Longrightarrow> keeps_unless I E (kern_bind m f)"
  unfolding keeps_unless_def kern_bind_def by (fastforce split: prod.splits sum.splits dest: kern_keepsD)

lemma unless_result: "keeps_unless I (\<lambda>x. True) m \<Longrightarrow> keeps_unless I (\<lambda>x. True) (kern_bind m (\<lambda>x. kern_result st reason))"
  by (auto simp: keeps_unless_def kern_bind_def kern_result_def kern_get_def split: prod.splits sum.splits)

lemma unless_some: "keeps_unless I (\<lambda>x. True) m \<Longrightarrow> keeps_unless I (\<lambda>out. out \<noteq> None) (kern_bind m (\<lambda>x. kern_return (Some x)))"
  by (auto simp: keeps_unless_def kern_bind_def kern_return_def split: prod.splits sum.splits)

lemma unless_next:
  assumes "keeps_unless I (\<lambda>out. out \<noteq> None) m" and "keeps_unless I E n" and "\<And>x. E (g x)"
  shows "keeps_unless I E (kern_bind m (\<lambda>out. case out of Some x \<Rightarrow> kern_return (g x) | None \<Rightarrow> n))"
proof -
  have "I t \<or> (\<exists>x. r = Inr x \<and> E x)" if k: "I k" and b: "kern_bind m (\<lambda>out. case out of Some x \<Rightarrow> kern_return (g x) | None \<Rightarrow> n) k = (r, t)" for k r t
  proof (cases "m k")
    case (Pair u k1)
    then have i: "I k1 \<or> (\<exists>x. u = Inr x \<and> x \<noteq> None)" using assms(1) k unfolding keeps_unless_def by blast
    show ?thesis
    proof (cases u)
      case (Inr out)
      with Pair b i assms(2,3) show ?thesis
        by (cases out) (fastforce simp: kern_bind_def kern_return_def keeps_unless_def)+
    qed (use Pair b i in \<open>auto simp: kern_bind_def\<close>)
  qed
  then show ?thesis unfolding keeps_unless_def by blast
qed

lemma unless_if: "(b \<Longrightarrow> keeps_unless I E m) \<Longrightarrow> (\<not> b \<Longrightarrow> keeps_unless I E n) \<Longrightarrow> keeps_unless I E (if b then m else n)"
  by simp

lemma unless_case:
  "\<lbrakk>y = None \<Longrightarrow> keeps_unless I E m; \<And>c. y = Some c \<Longrightarrow> keeps_unless I E (h c)\<rbrakk> \<Longrightarrow> keeps_unless I E (case y of None \<Rightarrow> m | Some c \<Rightarrow> h c)"
  "\<lbrakk>\<And>a. x = Inl a \<Longrightarrow> keeps_unless I E (f a); \<And>b. x = Inr b \<Longrightarrow> keeps_unless I E (g b)\<rbrakk> \<Longrightarrow> keeps_unless I E (case x of Inl a \<Rightarrow> f a | Inr b \<Rightarrow> g b)"
  "\<lbrakk>\<And>a b. p = (a, b) \<Longrightarrow> keeps_unless I E (q a b)\<rbrakk> \<Longrightarrow> keeps_unless I E (case p of (a, b) \<Rightarrow> q a b)"
  by (cases y, simp_all, cases x, simp_all, cases p, simp)

section \<open>The interface\<close>

lemma executionContext_reads: "readonly.steps (executionContext k)"
  unfolding executionContext_def
  by (rule readonly.steps_transaction)
    (auto simp: rop_bind_Inr rop_found_Inr found_run_def attempt_of_run_def context_of_def split: prod.splits option.splits)

text \<open>The calls by which an execution records what it does.\<close>

inductive recording_step :: "db \<Rightarrow> db \<Rightarrow> bool" where
  event: "conversation_appendEvent eid ei s = (r, t) \<Longrightarrow> recording_step s t"
| answer: "finishModelInvocation now vid st resp inp outp err s = (r, t) \<Longrightarrow> recording_step s t"
| invocation: "startModelInvocation vid now i a tn rn p m h s = (r, t) \<Longrightarrow> recording_step s t"
| usage: "updateExecutionUsage now i us tr s = (r, t) \<Longrightarrow> recording_step s t"
| message: "appendExecutionMessage mid now i role content s = (r, t) \<Longrightarrow> recording_step s t"

lemma recording_is_call: "recording_step s t \<Longrightarrow> conversation_step s t"
  by (induction rule: recording_step.induct)
    (erule conversation_step.appended conversation_step.answered conversation_step.invoked conversation_step.used conversation_step.messaged)+

text \<open>A call that would end the execution and throws has recorded the usage at most.\<close>

lemma thrown_recording:
  "waitForApproval ids now now2 i u q s = (Inl e, t) \<Longrightarrow> recording_step s t"
  "completeExecution ids now now2 i u reason text s = (Inl e, t) \<Longrightarrow> recording_step s t"
  "waitForDelegation eid now now2 i u d c s = (Inl e, t) \<Longrightarrow> recording_step s t"
  unfolding waitForApproval_def completeExecution_def waitForDelegation_def transitionRun_def svc_bind_def
  by (auto simp: transaction_def split: prod.splits sum.splits intro: recording_step.usage)

locale kernel_quiet =
  fixes ke :: kernel_env and I :: "kernel_state \<Rightarrow> bool"
  assumes stepped: "I k \<Longrightarrow> I (k\<lparr>kn_step := n\<rparr>)"
    and recorded: "I k \<Longrightarrow> recording_step (kn_db k) s \<Longrightarrow> I (k\<lparr>kn_step := n, kn_db := s\<rparr>)"
    and awaited: "I k \<Longrightarrow> I (k\<lparr>kn_step := n, kn_db := ke_world ke m (kn_db k)\<rparr>)"
    and noted: "I k \<Longrightarrow> I (k\<lparr>kn_requests := q\<rparr>)" "I k \<Longrightarrow> I (k\<lparr>kn_messages := ms\<rparr>)" "I k \<Longrightarrow> I (k\<lparr>kn_completed := AList.update i v (kn_completed k)\<rparr>)"
begin

lemma keeps_tick: "kern_keeps I kern_tick"
  by (simp add: kern_keeps_def kern_tick_def stepped)

lemma keeps_await: "kern_keeps I (kern_await ke)"
  by (simp add: kern_keeps_def kern_await_def awaited)

lemma keeps_recording: "(\<And>n s x t. f n s = (x, t) \<Longrightarrow> recording_step s t) \<Longrightarrow> kern_keeps I (kern_call f)"
  by (auto simp: kern_keeps_def kern_call_def split: prod.splits intro: recorded)

lemma keeps_reading: "(\<And>n. readonly.steps (f n)) \<Longrightarrow> kern_keeps I (kern_call f)"
proof (unfold kern_keeps_def, intro allI impI)
  fix k assume r: "\<And>n. readonly.steps (f n)" and k: "I k"
  obtain x t where f: "f (kn_step k) (kn_db k) = (x, t)" by fastforce
  have "t = kn_db k" by (rule readonly.stepsD [OF r f])
  moreover have "k\<lparr>kn_step := n, kn_db := kn_db k\<rparr> = k\<lparr>kn_step := n\<rparr>" for n by (cases k) simp
  ultimately show "I (snd (kern_call f k))" using f k stepped by (simp add: kern_call_def)
qed

lemma keeps_signal: "kern_keeps I (kern_signal ke)" "kern_keeps I (kern_now ke)" "kern_keeps I (abortIfNeeded ke)"
  unfolding kern_signal_def kern_now_def abortIfNeeded_def
  by (intro kern_intros keeps_tick; simp add: keeps_simple split: abort_signal.splits)+

lemma keeps_event: "kern_keeps I (kern_event ke a ty p key)"
  unfolding kern_event_def by (intro kern_intros keeps_recording) (rule recording_step.event)

lemma keeps_finish: "kern_keeps I (finish_invocation ke i st t e)"
  unfolding finish_invocation_def by (intro keeps_recording) (rule recording_step.answer)

lemma keeps_stream: "kern_keeps I (read_stream ke a turn n final evs acc)"
proof (induction evs arbitrary: acc)
  case Nil
  then show ?case by (simp add: kern_intros keeps_await)
next
  case (Cons ev evs)
  have "kern_keeps I (snd (turn_event ke a turn n ev acc))"
    by (simp add: turn_event_def keeps_event keeps_simple split: model_event.splits sum.splits)
  then show ?case by (simp, intro kern_intros keeps_await keeps_signal Cons.IH) auto
qed

lemma keeps_complete: "kern_keeps I (complete_request ke a turn n i acc)"
  unfolding complete_request_def Let_def by (intro kern_intros keeps_finish keeps_event)

lemma keeps_failed: "kern_keeps I (request_failed ke a turn n mr retry i f acc)"
  unfolding request_failed_def Let_def
  by (intro kern_intros keeps_signal keeps_finish keeps_event)

lemma keeps_usage: "kern_keeps I (record_usage ke tr)"
  unfolding record_usage_def by (intro kern_intros keeps_recording) (rule recording_step.usage)

lemma keeps_append: "kern_keeps I (append_message ke role content)"
  unfolding append_message_def by (intro kern_intros keeps_recording) (rule recording_step.message)

lemma keeps_push: "kern_keeps I (push_message m)" "kern_keeps I (push_result c res)"
  unfolding push_result_def push_message_def by (intro keeps_put noted, assumption)+

lemma keeps_result: "kern_keeps I (kern_result st reason)"
  unfolding kern_result_def by (intro kern_intros)

lemma keeps_execute: "kern_keeps I (registry_execute ke name input cx)"
  unfolding registry_execute_def by (intro kern_intros keeps_signal keeps_await)

lemma keeps_context: "kern_keeps I (kern_call (\<lambda>n. executionContext (ke_runId ke)))"
  by (rule keeps_reading) (rule executionContext_reads)

lemma keeps_deadline: "kern_keeps I (run_deadline ke x y)"
  unfolding run_deadline_def by (intro kern_intros keeps_signal)

lemma keeps_call_unless: "(\<And>n s e t. f n s = (Inl e, t) \<Longrightarrow> recording_step s t) \<Longrightarrow> keeps_unless I (\<lambda>x. True) (kern_call f)"
  by (auto simp: keeps_unless_def kern_call_def split: prod.splits sum.splits intro: recorded)

end

locale kernel_frame =
  fixes ke :: kernel_env and I :: "kernel_state \<Rightarrow> bool"
  assumes stepped: "I k \<Longrightarrow> I (k\<lparr>kn_step := n\<rparr>)"
    and called: "I k \<Longrightarrow> conversation_step (kn_db k) s \<Longrightarrow> I (k\<lparr>kn_step := n, kn_db := s\<rparr>)"
    and awaited: "I k \<Longrightarrow> I (k\<lparr>kn_step := n, kn_db := ke_world ke m (kn_db k)\<rparr>)"
    and noted: "I k \<Longrightarrow> I (k\<lparr>kn_requests := q\<rparr>)" "I k \<Longrightarrow> I (k\<lparr>kn_messages := ms\<rparr>)" "I k \<Longrightarrow> I (k\<lparr>kn_completed := AList.update i v (kn_completed k)\<rparr>)"

sublocale kernel_frame \<subseteq> quiet: kernel_quiet ke I
  by unfold_locales (auto intro: stepped called awaited noted recording_is_call)

context kernel_frame
begin

lemma keeps_call: "(\<And>n s x t. f n s = (x, t) \<Longrightarrow> conversation_step s t) \<Longrightarrow> kern_keeps I (kern_call f)"
  by (auto simp: kern_keeps_def kern_call_def split: prod.splits intro: called)

lemma keeps_threw: "kern_keeps I (tool_threw ke c f)"
proof -
  have a: "kern_keeps I (kern_call (\<lambda>n. waitForApproval (ke_ids ke n) (ke_clock ke n 0) (ke_clock ke n 1) (ke_runId ke) u q))" for u q
    by (rule keeps_call) (rule conversation_step.approval_awaited)
  have b: "kern_keeps I (kern_call (\<lambda>n. waitForDelegation (ke_ids ke n 0) (ke_clock ke n 0) (ke_clock ke n 1) (ke_runId ke) u d tc))" for u d tc
    by (rule keeps_call) (rule conversation_step.delegation_awaited)
  show ?thesis
    unfolding tool_threw_def by (intro kern_intros a b quiet.keeps_result quiet.keeps_signal)
qed

lemma keeps_ended: "kern_keeps I (execution_threw ke f)"
proof -
  have b: "kern_keeps I (kern_call (\<lambda>n. interruptExecution (ke_ids ke n 0) (ke_clock ke n 0) (ke_runId ke) x))" for x
    by (rule keeps_call) (rule conversation_step.interrupted)
  have c: "kern_keeps I (kern_call (\<lambda>n. transitionRun (ke_ids ke n) (ke_clock ke n 0) x))" for x
    by (rule keeps_call) (rule conversation_step.transitioned)
  have d: "kern_keeps I (kern_call (\<lambda>n. failExecution (ke_ids ke n) (ke_clock ke n 0) (ke_clock ke n 1) (ke_runId ke) u x y))" for u x y
    by (rule keeps_call) (rule conversation_step.failed)
  show ?thesis unfolding execution_threw_def Let_def by (intro kern_intros quiet.keeps_context b c d quiet.keeps_result quiet.keeps_usage)
qed

lemma keeps_configure: "kern_keeps I (configure_root ke x y z)"
  unfolding configure_root_def
  by (simp split: prod.splits option.splits; intro conjI allI impI kern_intros keeps_call; erule conversation_step.budget_set)

lemma keeps_start: "kern_keeps I (start_run ke x y z)"
  unfolding start_run_def by (rule keeps_call) (auto split: if_splits intro: conversation_step.started conversation_step.resumed)

lemma keeps_begin:
  assumes "\<And>k ms u q cs. I k \<Longrightarrow> I (k\<lparr>kn_messages := ms, kn_usage := u, kn_requests := q, kn_completed := cs\<rparr>)"
  shows "kern_keeps I (begin_execution ke)"
proof -
  have a: "kern_keeps I (kern_call (\<lambda>n. conversation_modelInvocations (ke_runId ke)))"
    by (rule quiet.keeps_reading) (simp add: conversation_modelInvocations_def readonly.steps_intros)
  have b: "kern_keeps I (run_deadline ke x y)" for x y
    by (rule quiet.keeps_deadline)
  show ?thesis unfolding begin_execution_def Let_def
    by (intro kern_intros a b quiet.keeps_context keeps_configure keeps_start keeps_of quiet.keeps_await keeps_put assms)
qed

end

text \<open>The property may also bound what was used: then the three places where something is counted keep it.\<close>

locale kernel_counting = kernel_quiet +
  fixes r :: kernel_run
  assumes request_counted: "kern_keeps I (beforeRequest ke r)"
    and tool_counted: "kern_keeps I (countToolCall ke r)"
    and turn_counted: "turn \<le> kb_maxTurns (kr_budget r) \<Longrightarrow> I k \<Longrightarrow> I (k\<lparr>kn_usage := turn_used turn u (kn_usage k)\<rparr>)"
begin

lemma keeps_model_turn: "kern_keeps I (runModelTurn ke rl a (beforeRequest ke r) q turn left retry)"
proof (induction left arbitrary: retry)
  case (Suc left)
  have "kern_keeps I (kern_call (\<lambda>n. startModelInvocation (ke_ids ke n 0) (ke_clock ke n 0) (ke_runId ke) a turn m x y h))" for m x y h
    by (rule keeps_recording) (rule recording_step.invocation)
  with Suc show ?case
    by (simp, intro kern_intros keeps_signal request_counted keeps_put noted keeps_event keeps_stream keeps_complete keeps_failed) auto
qed (simp add: keeps_simple)

lemma keeps_budgets: "kern_keeps I (assertTimeBudget ke r)" "kern_keeps I (assertCompositeBudget ke r)" "kern_keeps I (delegatedUsage ke r)"
  unfolding assertTimeBudget_def assertCompositeBudget_def Let_def delegatedUsage_def by (intro kern_intros keeps_signal)+

lemma keeps_answer: "kern_keeps I (answer_message ke x)"
  unfolding answer_message_def by (intro kern_intros keeps_append keeps_push)

lemma keeps_replay: "kern_keeps I (replay_call ke r c res)"
  unfolding replay_call_def by (intro kern_intros keeps_event keeps_push)

lemma keeps_completed: "kern_keeps I (tool_completed ke r c sig res)"
  unfolding tool_completed_def by (intro kern_intros keeps_event keeps_put noted keeps_append keeps_push)

lemma unless_threw: "keeps_unless I (\<lambda>x. True) (tool_threw ke c f)"
proof -
  have a: "keeps_unless I (\<lambda>x. True) (kern_bind (kern_call (\<lambda>n. waitForApproval (ke_ids ke n) (ke_clock ke n 0) (ke_clock ke n 1) (ke_runId ke) u q)) (\<lambda>_.
      kern_result st reason))" for u q st reason
    by (intro unless_result keeps_call_unless) (rule thrown_recording)
  have b: "keeps_unless I (\<lambda>x. True) (kern_bind (kern_call (\<lambda>n. waitForDelegation (ke_ids ke n 0) (ke_clock ke n 0) (ke_clock ke n 1) (ke_runId ke) u d tc)) (\<lambda>_.
      kern_result st reason))" for u d tc st reason
    by (intro unless_result keeps_call_unless) (rule thrown_recording)
  show ?thesis
  proof (cases f)
    case (Approval_Fault q)
    show ?thesis unfolding Approval_Fault tool_threw_def fault.case by (rule unless_chain [OF keeps_simple(3)], rule a)
  next
    case (Wait_Fault d)
    show ?thesis unfolding Wait_Fault tool_threw_def fault.case
      by (rule unless_case, rule unless_keeps, rule keeps_simple, rule unless_chain [OF keeps_simple(3)], rule b)
  next
    case (Tool_Fault code m)
    have "kern_keeps I (tool_threw ke c f)" unfolding Tool_Fault tool_threw_def fault.case by (intro kern_intros keeps_signal)
    then show ?thesis by (rule unless_keeps)
  qed (simp_all add: tool_threw_def unless_keeps keeps_simple)
qed

lemma unless_calls: "keeps_unless I (\<lambda>out. out \<noteq> None) (run_calls ke r cs)"
proof (induction cs)
  case (Cons c cs)
  have a: "keeps_unless I (\<lambda>out. out \<noteq> None) (kernel_call ke r c sig)" for sig
    unfolding kernel_call_def
    by (intro unless_chain unless_case unless_some unless_threw unless_keeps kern_intros tool_counted keeps_usage keeps_event keeps_execute keeps_completed)
  have b: "keeps_unless I (\<lambda>out. out \<noteq> None) (kern_bind (kern_require v f) (\<lambda>_. kern_bind (replay_call ke r c res) (\<lambda>_. kern_return None)))" for v f res
    by (intro unless_keeps kern_intros keeps_replay)
  show ?case unfolding run_calls.simps Let_def
    by (rule unless_chain [OF keeps_signal(3)], rule unless_chain [OF keeps_budgets(1)], rule unless_chain [OF keeps_simple(3)],
        rule unless_next [OF _ Cons.IH], intro unless_case a b) simp
qed (simp add: unless_keeps keeps_simple)

text \<open>A turn keeps the property up to the call that ends the execution.\<close>

lemma unless_turn: "turn \<le> kb_maxTurns (kr_budget r) \<Longrightarrow> keeps_unless I (\<lambda>out. out \<noteq> None) (run_turn ke r turn)"
proof -
  assume turn: "turn \<le> kb_maxTurns (kr_budget r)"
  have c: "keeps_unless I (\<lambda>x. True) (kern_bind (kern_call (\<lambda>n. completeExecution (ke_ids ke n) (ke_clock ke n 0) (ke_clock ke n 1) (ke_runId ke) u reason answer)) (\<lambda>_.
      kern_result K_COMPLETED reason))" for u reason answer
    by (intro unless_result keeps_call_unless) (rule thrown_recording)
  have d: "keeps_unless I (\<lambda>out. out \<noteq> None) (kern_bind (kern_call (\<lambda>n. completeExecution (ke_ids ke n) (ke_clock ke n 0) (ke_clock ke n 1) (ke_runId ke) u reason answer)) (\<lambda>_.
      kern_bind (kern_result K_COMPLETED reason) (\<lambda>x. kern_return (Some x))))" for u reason answer
    using unless_some [OF c, of u reason answer] by (simp add: kern_bind_assoc)
  show ?thesis unfolding run_turn_def
    by (intro unless_chain keeps_signal keeps_budgets keeps_simple keeps_model_turn keeps_put turn_counted [OF turn] keeps_usage keeps_answer unless_if d unless_calls)
qed

lemma unless_turns: "turn + int left \<le> kb_maxTurns (kr_budget r) + 1 \<Longrightarrow> keeps_unless I (\<lambda>x. True) (run_turns ke r left turn)"
proof (induction left arbitrary: turn)
  case (Suc left)
  have "keeps_unless I (\<lambda>out. out \<noteq> None) (run_turn ke r turn)" using Suc.prems by (intro unless_turn) simp
  then show ?case using Suc unfolding run_turns.simps by (intro unless_next) auto
qed (simp add: unless_keeps keeps_simple)

lemma unless_all_turns: "keeps_unless I (\<lambda>x. True) (run_turns ke r (nat (kb_maxTurns (kr_budget r) - turn + 1)) turn)"
  by (cases "turn \<le> kb_maxTurns (kr_budget r) + 1") (auto intro: unless_turns simp: unless_keeps keeps_simple)

end

locale kernel_invariant = kernel_frame +
  fixes r :: kernel_run
  assumes request_counted: "kern_keeps I (beforeRequest ke r)"
    and tool_counted: "kern_keeps I (countToolCall ke r)"
    and turn_counted: "turn \<le> kb_maxTurns (kr_budget r) \<Longrightarrow> I k \<Longrightarrow> I (k\<lparr>kn_usage := turn_used turn u (kn_usage k)\<rparr>)"

sublocale kernel_invariant \<subseteq> counting: kernel_counting ke I r
  by unfold_locales (auto intro: request_counted tool_counted turn_counted)

context kernel_invariant
begin

lemma keeps_kernel_call: "kern_keeps I (kernel_call ke r c sig)"
  unfolding kernel_call_def
  by (intro kern_intros tool_counted quiet.keeps_usage quiet.keeps_event quiet.keeps_execute keeps_threw counting.keeps_completed)

lemma keeps_calls: "kern_keeps I (run_calls ke r cs)"
proof (induction cs)
  case (Cons c cs)
  then show ?case
    by (simp add: Let_def, intro kern_intros keeps_kernel_call quiet.keeps_signal counting.keeps_budgets counting.keeps_replay) auto
qed (simp add: keeps_simple)

lemma keeps_turn: "turn \<le> kb_maxTurns (kr_budget r) \<Longrightarrow> kern_keeps I (run_turn ke r turn)"
proof -
  assume turn: "turn \<le> kb_maxTurns (kr_budget r)"
  have e: "kern_keeps I (kern_call (\<lambda>n. completeExecution (ke_ids ke n) (ke_clock ke n 0) (ke_clock ke n 1) (ke_runId ke) u x y))" for u x y
    by (rule keeps_call) (rule conversation_step.completed)
  show ?thesis unfolding run_turn_def
    by (intro kern_intros quiet.keeps_signal counting.keeps_budgets counting.keeps_answer e counting.keeps_model_turn quiet.keeps_usage
        quiet.keeps_result keeps_calls keeps_put turn_counted [OF turn])
qed

lemma keeps_turns: "turn + int left \<le> kb_maxTurns (kr_budget r) + 1 \<Longrightarrow> kern_keeps I (run_turns ke r left turn)"
proof (induction left arbitrary: turn)
  case (Suc left)
  have "kern_keeps I (run_turn ke r turn)" using Suc.prems by (intro keeps_turn) simp
  then show ?case using Suc by (simp, intro kern_intros) auto
qed (simp add: keeps_simple)

lemma keeps_execution: "kern_keeps I (execute_turns ke r turn)"
proof -
  have "kern_keeps I (run_turns ke r (nat (kb_maxTurns (kr_budget r) - turn + 1)) turn)"
    by (cases "turn \<le> kb_maxTurns (kr_budget r) + 1") (auto intro: keeps_turns simp: keeps_simple)
  then show ?thesis unfolding execute_turns_def by (intro kern_intros keeps_ended)
qed

end

end
