(* ===== verification/Kernel_Endings.thy ===== *)
theory Kernel_Endings
  imports Kernel_Machine
begin

text \<open>
  The state of a run after the calls by which an execution ends: what each of them leaves in the table of runs, what that is for the
  result of an execution, whatever other code does in between, and what it is when no other code moves the run.
\<close>

section \<open>What is recorded leaves the states of the runs\<close>

lemma found_run_Inr: "found_run k s = Inr (t, run) \<longleftrightarrow> t = s \<and> getRun k s = Some run"
  by (simp add: found_run_def rop_found_Inr)

lemma getRun_id: "getRun k s = Some run \<Longrightarrow> r_runId run = k"
  unfolding getRun_def by (drule tbl_get_key) simp

lemma updateRun_run_state:
  assumes "updateRun u s = Inr t"
  shows "run_state (ru_runId u) t = Some (ru_status u, ru_recoveryState u)"
proof -
  note u = updateRun_Inr [OF assms]
  then obtain r where "getRun (ru_runId u) s = Some r"
    using one_row [of r_runId "ru_runId u" "agent_runs s"] by (auto simp: getRun_def)
  with u show ?thesis
    by (simp add: run_state_def getRun_def tbl_get_write updated_run_def) (auto dest: tbl_get_key)
qed

lemma attempts_keep_states:
  "keeps states_kept (attempt_follows ao st x y z now)" "keeps states_kept (attempt_for ids now rst run)"
proof -
  have i: "keeps states_kept (rop_do (insertAttempt a))" for a
    by (rule sk.keeps_rop_do) (auto simp: insertAttempt_def states_kept_def run_state_def getRun_def split: if_splits)
  show "keeps states_kept (attempt_follows ao st x y z now)" "keeps states_kept (attempt_for ids now rst run)"
    unfolding attempt_follows_def attempt_for_def insert_next_attempt_def by (intro sk.keeps_intros silent_keeps i)+
qed

lemma usage_keeps_states: "sk.steps (updateExecutionUsage now i u reason)"
proof -
  have a: "keeps states_kept (rop_do (updateAttemptUsage x y z now))" for x y z
    by (rule sk.keeps_rop_do)
      (auto simp: updateAttemptUsage_def write_attempt_def states_kept_def run_state_def getRun_def Let_def split: if_splits)
  have b: "keeps states_kept (rop_do (updateBudgetUsage i u now))"
    by (rule sk.keeps_rop_do) (auto simp: updateBudgetUsage_def budget_write_Inr states_kept_def run_state_def getRun_def)
  show ?thesis unfolding updateExecutionUsage_def found_run_def
    by (intro sk.steps_body sk.keeps_intros a b)
qed

text \<open>The rest of a transaction after the row of the run is written.\<close>

lemma recorded_state:
  assumes "updateRun u s = Inr s1" and "record_event eid i ao ty p key now s1 = Inr (s2, x)" and "rebuildProjection c now s2 = Inr (t, y)"
  shows "run_state (ru_runId u) t = Some (ru_status u, ru_recoveryState u)"
proof -
  have "states_kept s1 s2" "states_kept s2 t"
    by (rule keepsD [OF record_event_states assms(2)], rule keepsD [OF silent_keeps(4) assms(3)])
  with updateRun_run_state [OF assms(1)] show ?thesis by (simp add: states_kept_def)
qed

section \<open>The calls\<close>

lemma transitionRun_state:
  assumes "transitionRun ids now i s = (Inr x, t)"
  shows "run_state (ti_runId i) t = Some (ti_status i, NONE)"
proof -
  from assms obtain run s1 s2 s3 s4 ao sa ea ty p u1 u2 u3 where g: "getRun (ti_runId i) s = Some run"
    and u: "updateRun ((run_set run (ti_status i) NONE ao sa ea now)\<lparr>ru_taskCompletionText := ti_taskCompletionText i\<rparr>) s1 = Inr s2"
    and a: "attempt_follows ao (A_RUN (ti_status i)) (if ti_status i = R_RUNNING then Some now else None) ea None now s2 = Inr (s3, u1)"
    and e: "record_event (ids 1) (ti_runId i) ao ty p None now s3 = Inr (s4, u2)"
    and r: "rebuildProjection (r_conversationId run) now s4 = Inr (t, u3)"
    unfolding transitionRun_def transaction_Inr Let_def
    by (auto simp: rop_bind_Inr found_run_Inr rop_do_Inr rop_found_Inr split: if_splits)
  have "states_kept s2 s3" "states_kept s3 s4" "states_kept s4 t"
    by (rule keepsD [OF attempts_keep_states(1) a], rule keepsD [OF record_event_states e], rule keepsD [OF silent_keeps(4) r])
  with updateRun_run_state [OF u] getRun_id [OF g] show ?thesis by (simp add: states_kept_def run_set_def)
qed

lemma waitForDelegation_state:
  assumes "waitForDelegation eid now now2 i u d c s = (Inr x, t)"
  shows "run_state i t = Some (R_CREATED, RESUMABLE)"
proof -
  from assms obtain s1 run where g: "getRun i s1 = Some run" and rest: "\<exists>op a. op s1 = Inr (t, x)
      \<and> op = rop_bind (rop_require (r_status run = R_RUNNING) state_invalid) (\<lambda>_.
          rop_bind (rop_read (getResultDelivery d)) (\<lambda>delivery.
          rop_bind (rop_require (waits_here run a c delivery) state_invalid) (\<lambda>_.
          rop_bind (rop_do (updateAttempt a A_ABORTED None (Some now2) (Some ''DELEGATION_WAIT'') now2)) (\<lambda>_.
          rop_bind (rop_do (updateRun (run_set run R_CREATED RESUMABLE (Some a) (r_startedAt run) None now2))) (\<lambda>_.
          rop_bind (record_event eid i (Some a) ''delegation.waiting'' (JObj [(''delegationId'', JStr d), (''toolCallId'', JStr c)])
            (Some (''delegation-wait:'' @ d)) now2) (\<lambda>_.
          rop_bind (rebuildProjection (r_conversationId run) now2) (\<lambda>_. rop_found Js_Error (getRun i))))))))"
    unfolding waitForDelegation_def svc_bind_Inr transaction_Inr rop_bind_Inr found_run_Inr
    by (fastforce simp: rop_throw_def split: option.splits)
  then obtain s2 s3 s4 a p u2 u3 key where u: "updateRun (run_set run R_CREATED RESUMABLE (Some a) (r_startedAt run) None now2) s2 = Inr s3"
    and e: "record_event eid i (Some a) ''delegation.waiting'' p key now2 s3 = Inr (s4, u2)"
    and r: "rebuildProjection (r_conversationId run) now2 s4 = Inr (t, u3)"
    by (auto simp: rop_bind_Inr rop_do_Inr rop_found_Inr split: if_splits)
  from recorded_state [OF u e r] getRun_id [OF g] show ?thesis by (simp add: run_set_def)
qed

lemma interruptExecution_state:
  assumes "interruptExecution eid now i reason s = (Inr x, t)"
  shows "run_state i t = Some (rc_status x, rc_recoveryState x) \<and> rc_status x \<noteq> R_RUNNING"
proof -
  from assms obtain run where g: "getRun i s = Some run" unfolding interruptExecution_def transaction_Inr by (auto simp: rop_bind_Inr found_run_Inr)
  show ?thesis
  proof (cases "r_status run = R_RUNNING")
    case False
    with assms g show ?thesis unfolding interruptExecution_def transaction_Inr
      by (auto simp: rop_bind_Inr found_run_Inr run_state_def unchanged_run_def rop_return_def split: if_splits)
  next
    case True
    with assms g obtain s1 s2 s3 ao sa ea p u1 u2 where
        u: "updateRun (run_set run (rc_status x) (rc_recoveryState x) ao sa ea now) s1 = Inr s2"
      and e: "record_event eid i ao ''run.interrupted'' p None now s2 = Inr (s3, u1)"
      and r: "rebuildProjection (r_conversationId run) now s3 = Inr (t, u2)" and st: "rc_status x \<noteq> R_RUNNING"
      unfolding interruptExecution_def transaction_Inr Let_def
      by (auto simp: rop_bind_Inr found_run_Inr rop_do_Inr rop_return_def split: if_splits)
    from recorded_state [OF u e r] st getRun_id [OF g] show ?thesis by (simp add: run_set_def)
  qed
qed

lemma interruptExecution_running:
  assumes "interruptExecution eid now i reason s = (Inr x, t)" and "run_state i s = Some (R_RUNNING, w)"
  shows "(rc_status x, rc_recoveryState x) = (R_CREATED, RESUMABLE) \<or> (rc_status x, rc_recoveryState x) = (R_FAILED, NON_RESUMABLE)"
proof -
  from assms(2) obtain run where g: "getRun i s = Some run" "r_status run = R_RUNNING" by (auto simp: run_state_def)
  with assms(1) show ?thesis unfolding interruptExecution_def transaction_Inr Let_def
    by (cases "hasRecoverableCheckpoint (listEvents i s)") (auto simp: rop_bind_Inr found_run_Inr rop_return_def rop_read_def)
qed

lemma started_state:
  "startExecution ids now i p m b s = (Inr c, t) \<Longrightarrow> run_state i t = Some (R_RUNNING, NONE)"
  "resumeExecution eid now i s = (Inr c, t) \<Longrightarrow> run_state i t = Some (R_RUNNING, NONE)"
proof -
  assume "startExecution ids now i p m b s = (Inr c, t)"
  then obtain run s1 s2 s3 s4 a at p e key u2 u3 where g: "getRun i s = Some run"
    and u: "updateRun (run_set run R_RUNNING NONE (Some a) (Some at) None now) s1 = Inr s2"
    and e: "record_event (ids 1) i (Some a) ''run.started'' p key now s2 = Inr (s3, u2)"
    and r: "rebuildProjection (r_conversationId run) now s3 = Inr (s4, u3)" and t: "t = s4"
    unfolding startExecution_def transaction_Inr Let_def context_of_def
    by (auto simp: rop_bind_Inr found_run_Inr rop_do_Inr rop_found_Inr rop_return_def rop_read_def split: if_splits)
  from recorded_state [OF u e r] getRun_id [OF g] t show "run_state i t = Some (R_RUNNING, NONE)" by (simp add: run_set_def)
next
  assume "resumeExecution eid now i s = (Inr c, t)"
  then obtain run s1 s2 s3 s4 s5 a b at bt p u0 u2 u3 where g: "getRun i s = Some run"
    and u: "updateRun (run_set run R_RUNNING NONE a at None now) s1 = Inr s2"
    and v: "rop_do (updateAttempt b (A_RUN R_RUNNING) bt None None now) s2 = Inr (s3, u0)"
    and e: "record_event eid i a ''run.resumed'' p None now s3 = Inr (s4, u2)"
    and r: "rebuildProjection (r_conversationId run) now s4 = Inr (s5, u3)" and t: "t = s5"
    unfolding resumeExecution_def transaction_Inr Let_def context_of_def attempt_of_run_def
    by (auto simp: rop_bind_Inr found_run_Inr rop_found_Inr rop_return_def rop_read_def rop_do_Inr split: if_splits option.splits)
  have "states_kept s2 s3" "states_kept s3 s4" "states_kept s4 s5"
    by (rule keepsD [OF silent_keeps(5) v], rule keepsD [OF record_event_states e], rule keepsD [OF silent_keeps(4) r])
  with updateRun_run_state [OF u] getRun_id [OF g] t show "run_state i t = Some (R_RUNNING, NONE)" by (simp add: states_kept_def run_set_def)
qed

lemma settled_state:
  "waitForApproval ids now now2 i u q s = (Inr x, t) \<Longrightarrow> run_state i t = Some (R_WAITING_APPROVAL, NONE)"
  "completeExecution ids now now2 i u reason text s = (Inr x, t) \<Longrightarrow> run_state i t = Some (R_COMPLETED, NONE)"
  "failExecution ids now now2 i u code msg s = (Inr x, t) \<Longrightarrow> run_state i t = Some (R_FAILED, NONE)"
  unfolding waitForApproval_def completeExecution_def failExecution_def svc_bind_Inr
  by (auto dest!: transitionRun_state)

lemma executionContext_state:
  assumes "executionContext i s = (Inr c, t)"
  shows "t = s \<and> getRun i s = Some (ec_run c)"
  using assms unfolding executionContext_def transaction_Inr
  by (auto simp: rop_bind_Inr found_run_Inr rop_found_Inr attempt_of_run_def context_of_def rop_return_def rop_read_def split: option.splits)

section \<open>The result and the run\<close>

text \<open>What the state of a run must be for a result. Other code may have ended the run while the execution awaited, or moved it: a failure
  leaves the run ended, a cancellation leaves it as it is if it does not execute and does not wait for an approval.\<close>

definition settled :: "string \<Rightarrow> kernel_result \<Rightarrow> db \<Rightarrow> bool" where
  "settled i x s = (case kx_status x of
     K_COMPLETED \<Rightarrow> run_state i s = Some (R_COMPLETED, NONE)
   | K_WAITING_APPROVAL \<Rightarrow> run_state i s = Some (R_WAITING_APPROVAL, NONE)
   | K_WAITING_DELEGATION \<Rightarrow> run_state i s = Some (R_CREATED, RESUMABLE)
   | K_INTERRUPTED \<Rightarrow> run_state i s = Some (R_CREATED, RESUMABLE)
   | K_CANCELLED \<Rightarrow> (case run_state i s of None \<Rightarrow> False | Some (v, w) \<Rightarrow> v \<noteq> R_RUNNING \<and> v \<noteq> R_WAITING_APPROVAL)
   | K_FAILED \<Rightarrow> (case run_state i s of None \<Rightarrow> False | Some (v, w) \<Rightarrow> run_terminal v
       \<or> kx_terminalReason x = ''HOST_SHUTDOWN_NON_RESUMABLE'' \<and> v \<noteq> R_RUNNING \<and> (v, w) \<noteq> (R_CREATED, RESUMABLE)))"

text \<open>And what it is when no other code moves the run.\<close>

definition settled_alone :: "string \<Rightarrow> kernel_result \<Rightarrow> db \<Rightarrow> bool" where
  "settled_alone i x s = (case kx_status x of
     K_COMPLETED \<Rightarrow> run_state i s = Some (R_COMPLETED, NONE)
   | K_WAITING_APPROVAL \<Rightarrow> run_state i s = Some (R_WAITING_APPROVAL, NONE)
   | K_WAITING_DELEGATION \<Rightarrow> run_state i s = Some (R_CREATED, RESUMABLE)
   | K_INTERRUPTED \<Rightarrow> run_state i s = Some (R_CREATED, RESUMABLE)
   | K_CANCELLED \<Rightarrow> run_state i s = Some (R_CANCELLED, NONE)
   | K_FAILED \<Rightarrow> run_state i s = Some (R_FAILED, NONE)
       \<or> kx_terminalReason x = ''HOST_SHUTDOWN_NON_RESUMABLE'' \<and> run_state i s = Some (R_FAILED, NON_RESUMABLE))"

lemma alone_settled: "settled_alone i x s \<Longrightarrow> settled i x s"
  by (auto simp: settled_alone_def settled_def run_terminal_def split: kernel_status.splits)

text \<open>The run is as \<open>P\<close> says for the result, and what was used is what the result says.\<close>

definition ended :: "(kernel_result \<Rightarrow> db \<Rightarrow> bool) \<Rightarrow> kernel_result \<Rightarrow> kernel_state \<Rightarrow> bool" where
  "ended P x k \<longleftrightarrow> P x (kn_db k) \<and> kx_usage x = kn_usage k"

text \<open>What a computation gives when it returns.\<close>

definition kern_gives :: "(kernel_state \<Rightarrow> bool) \<Rightarrow> 'a kern \<Rightarrow> ('a \<Rightarrow> kernel_state \<Rightarrow> bool) \<Rightarrow> bool" where
  "kern_gives P m Q \<longleftrightarrow> (\<forall>k x t. P k \<longrightarrow> m k = (Inr x, t) \<longrightarrow> Q x t)"

lemma kern_bind_Inr: "kern_bind m f k = (Inr y, t) \<longleftrightarrow> (\<exists>x k1. m k = (Inr x, k1) \<and> f x k1 = (Inr y, t))"
  by (auto simp: kern_bind_def split: prod.splits sum.splits)

lemma gives_bind: "kern_gives P m Q \<Longrightarrow> (\<And>x. kern_gives (Q x) (f x) R) \<Longrightarrow> kern_gives P (kern_bind m f) R"
  unfolding kern_gives_def kern_bind_Inr by blast

lemma gives_then: "(\<And>x. kern_gives (\<lambda>k. True) (f x) R) \<Longrightarrow> kern_gives P (kern_bind m f) R"
  by (rule gives_bind [where Q = "\<lambda>x k. True"]) (simp_all add: kern_gives_def)

lemma gives_simple: "kern_gives P (kern_throw f) Q" "kern_gives P (kern_get g) (\<lambda>x. P)"
  by (simp_all add: kern_gives_def kern_throw_def kern_get_def)

lemma gives_if: "(b \<Longrightarrow> kern_gives P m Q) \<Longrightarrow> (\<not> b \<Longrightarrow> kern_gives P n Q) \<Longrightarrow> kern_gives P (if b then m else n) Q"
  by simp

lemma gives_option:
  "kern_gives P m Q \<Longrightarrow> (\<And>c. y = Some c \<Longrightarrow> kern_gives P (h c) Q) \<Longrightarrow> kern_gives P (case y of None \<Rightarrow> m | Some c \<Rightarrow> h c) Q"
  by (cases y) simp_all

lemma gives_sum:
  "\<lbrakk>\<And>a. x = Inl a \<Longrightarrow> kern_gives P (f a) Q; \<And>b. x = Inr b \<Longrightarrow> kern_gives P (g b) Q\<rbrakk> \<Longrightarrow> kern_gives P (case x of Inl a \<Rightarrow> f a | Inr b \<Rightarrow> g b) Q"
  by (cases x) simp_all

lemma gives_call:
  "(\<And>n s x t. P s \<Longrightarrow> f n s = (Inr x, t) \<Longrightarrow> Q x t) \<Longrightarrow> kern_gives (\<lambda>k. P (kn_db k)) (kern_call f) (\<lambda>x k. Q x (kn_db k))"
  by (auto simp: kern_gives_def kern_call_def split: prod.splits sum.splits)

lemma gives_result:
  "(\<And>s x. P s \<Longrightarrow> kx_status x = st \<Longrightarrow> kx_terminalReason x = reason \<Longrightarrow> Q x s) \<Longrightarrow>
   kern_gives (\<lambda>k. P (kn_db k)) (kern_result st reason) (ended Q)"
  by (auto simp: kern_gives_def kern_result_def kern_get_def ended_def)

text \<open>A call, and then the result.\<close>

lemma gives_settled:
  assumes "\<And>n s v t x. f n s = (Inr v, t) \<Longrightarrow> kx_status x = st \<Longrightarrow> settled_alone i x t"
  shows "kern_gives (\<lambda>k. True) (kern_bind (kern_call f) (\<lambda>_. kern_result st reason)) (ended (settled_alone i))"
  by (rule gives_bind [OF gives_call [where P = "\<lambda>s. True" and Q = "\<lambda>v t. \<forall>x. kx_status x = st \<longrightarrow> settled_alone i x t"] gives_result])
    (auto intro: assms)

abbreviation gives_end :: "kernel_env \<Rightarrow> kernel_result kern \<Rightarrow> bool" where
  "gives_end ke m \<equiv> kern_gives (\<lambda>k. True) m (ended (settled_alone (ke_runId ke)))"

abbreviation may_end :: "kernel_env \<Rightarrow> kernel_result option kern \<Rightarrow> bool" where
  "may_end ke m \<equiv> kern_gives (\<lambda>k. True) m (\<lambda>out k. \<forall>x. out = Some x \<longrightarrow> ended (settled_alone (ke_runId ke)) x k)"

lemma may_end_simple: "may_end ke (kern_return None)" "gives_end ke m \<Longrightarrow> may_end ke (kern_bind m (\<lambda>x. kern_return (Some x)))"
  by (auto simp: kern_gives_def kern_return_def kern_bind_Inr)

section \<open>The ends of an execution\<close>

lemma waits_settle:
  "waitForApproval ids now now2 i u q s = (Inr v, t) \<Longrightarrow> kx_status x = K_WAITING_APPROVAL \<Longrightarrow> settled_alone i x t"
  "waitForDelegation eid now now2 i u d c s = (Inr w, t) \<Longrightarrow> kx_status x = K_WAITING_DELEGATION \<Longrightarrow> settled_alone i x t"
  "completeExecution ids now now2 i u reason text s = (Inr y, t) \<Longrightarrow> kx_status x = K_COMPLETED \<Longrightarrow> settled_alone i x t"
  by (simp_all add: settled_alone_def settled_state waitForDelegation_state)

lemma tool_threw_ends: "gives_end ke (tool_threw ke c f)"
proof (cases f)
  case (Approval_Fault q)
  show ?thesis unfolding Approval_Fault tool_threw_def fault.case
    by (rule gives_then, rule gives_settled, erule waits_settle, assumption)
next
  case (Wait_Fault d)
  show ?thesis unfolding Wait_Fault tool_threw_def fault.case
    by (rule gives_option, rule gives_simple, rule gives_then, rule gives_settled, erule waits_settle, assumption)
next
  case (Tool_Fault code m)
  show ?thesis unfolding Tool_Fault tool_threw_def fault.case
    by (cases code) (simp_all add: gives_then gives_simple)
qed (simp_all add: tool_threw_def gives_simple)

lemma run_calls_end: "may_end ke (run_calls ke r cs)"
proof (induction cs)
  case (Cons c cs)
  have new: "may_end ke (kernel_call ke r c sig)" for sig
    unfolding kernel_call_def by (rule gives_then)+ (rule gives_sum, rule may_end_simple, rule tool_threw_ends, rule gives_then, rule may_end_simple)
  have replay: "may_end ke (kern_bind (kern_require b f) (\<lambda>_. kern_bind (replay_call ke r c res) (\<lambda>_. kern_return None)))" for b f res
    by (rule gives_then)+ (rule may_end_simple)
  have rest: "kern_gives (\<lambda>k. \<forall>x. out = Some x \<longrightarrow> ended (settled_alone (ke_runId ke)) x k)
      (case out of Some x \<Rightarrow> kern_return (Some x) | None \<Rightarrow> run_calls ke r cs)
      (\<lambda>out k. \<forall>x. out = Some x \<longrightarrow> ended (settled_alone (ke_runId ke)) x k)" for out
    using Cons.IH by (cases out) (simp_all add: kern_gives_def kern_return_def)
  show ?case unfolding run_calls.simps Let_def
    by (rule gives_then, rule gives_then, rule gives_then, rule gives_bind [OF _ rest]) (auto intro: new replay gives_option split: prod.splits)
qed (simp add: may_end_simple)

lemma run_turn_ends: "may_end ke (run_turn ke r turn)"
proof -
  have "gives_end ke (kern_bind (kern_call (\<lambda>n. completeExecution (ke_ids ke n) (ke_clock ke n 0) (ke_clock ke n 1) (ke_runId ke) u reason answer))
      (\<lambda>_. kern_result K_COMPLETED reason))" for u reason answer
    by (rule gives_settled, erule waits_settle)
  then have "may_end ke (kern_bind (kern_call (\<lambda>n. completeExecution (ke_ids ke n) (ke_clock ke n 0) (ke_clock ke n 1) (ke_runId ke) u reason answer))
      (\<lambda>_. kern_bind (kern_result K_COMPLETED reason) (\<lambda>x. kern_return (Some x))))" for u reason answer
    unfolding kern_gives_def kern_bind_Inr by (fastforce simp: kern_return_def)
  note completed = this
  show ?thesis unfolding run_turn_def
    by ((rule gives_then)+, rule gives_if, rule completed, rule run_calls_end)
qed

lemma run_turns_end: "gives_end ke (run_turns ke r left turn)"
proof (induction left arbitrary: turn)
  case (Suc left)
  have "kern_gives (\<lambda>k. \<forall>x. out = Some x \<longrightarrow> ended (settled_alone (ke_runId ke)) x k)
      (case out of Some x \<Rightarrow> kern_return x | None \<Rightarrow> run_turns ke r left (turn + 1))
      (ended (settled_alone (ke_runId ke)))" for out
    using Suc.IH by (cases out) (simp_all add: kern_gives_def kern_return_def)
  then show ?case unfolding run_turns.simps by (rule gives_bind [OF run_turn_ends])
qed (simp add: gives_simple)

text \<open>What was thrown ends the run, unless it ended before.\<close>

lemma record_usage_state:
  "kern_gives (\<lambda>k. run_state i (kn_db k) = v) (record_usage ke reason) (\<lambda>x k. run_state i (kn_db k) = v)"
proof -
  have "kern_gives (\<lambda>k. run_state i (kn_db k) = v) (kern_call (\<lambda>n. updateExecutionUsage (ke_clock ke n 0) (ke_runId ke) u reason))
      (\<lambda>x k. run_state i (kn_db k) = v)" for u
    by (rule gives_call) (use sk.stepsD [OF usage_keeps_states] in \<open>fastforce simp: states_kept_def\<close>)
  then show ?thesis unfolding record_usage_def
    by (intro gives_bind [OF gives_simple(2)] gives_bind) (assumption, simp add: kern_gives_def kern_return_def)
qed

lemma kern_let: "kern_gives P (f v) Q \<Longrightarrow> kern_gives P (Let v f) Q"
  by (simp add: Let_def)

lemma interrupted_end: "kern_gives (\<lambda>k. True) (kern_bind (kern_call (\<lambda>n. interruptExecution (ke_ids ke n 0) (ke_clock ke n 0) (ke_runId ke) reason)) (\<lambda>x.
    if rc_status x = R_CREATED \<and> rc_recoveryState x = RESUMABLE then kern_result K_INTERRUPTED a
    else kern_result K_FAILED ''HOST_SHUTDOWN_NON_RESUMABLE'')) (ended (settled (ke_runId ke)))"
proof (rule gives_bind)
  show "kern_gives (\<lambda>k. True) (kern_call (\<lambda>n. interruptExecution (ke_ids ke n 0) (ke_clock ke n 0) (ke_runId ke) reason))
      (\<lambda>x k. run_state (ke_runId ke) (kn_db k) = Some (rc_status x, rc_recoveryState x) \<and> rc_status x \<noteq> R_RUNNING)"
    by (rule gives_call [where P = "\<lambda>s. True"]) (rule interruptExecution_state)
  show "kern_gives (\<lambda>k. run_state (ke_runId ke) (kn_db k) = Some (rc_status x, rc_recoveryState x) \<and> rc_status x \<noteq> R_RUNNING)
      (if rc_status x = R_CREATED \<and> rc_recoveryState x = RESUMABLE then kern_result K_INTERRUPTED a
       else kern_result K_FAILED ''HOST_SHUTDOWN_NON_RESUMABLE'')
      (ended (settled (ke_runId ke)))" for x
    by (auto simp: kern_gives_def kern_result_def kern_get_def ended_def settled_def)
qed

lemma cancelled_end:
  assumes "v = (if b then R_CANCELLED else st)" and "\<not> b \<Longrightarrow> st \<noteq> R_RUNNING \<and> st \<noteq> R_WAITING_APPROVAL"
  shows "kern_gives (\<lambda>k. run_state (ke_runId ke) (kn_db k) = Some (st, rec)) (kern_bind (record_usage ke reason) (\<lambda>_.
    kern_bind (if b then kern_bind (kern_call (\<lambda>n. transitionRun (ke_ids ke n) (ke_clock ke n 0) \<lparr>ti_runId = ke_runId ke, ti_status = R_CANCELLED,
        ti_eventType = ty, ti_payload = p, ti_taskCompletionText = txt\<rparr>)) (\<lambda>_. kern_return ()) else kern_return ()) (\<lambda>_.
    kern_result K_CANCELLED why))) (ended (settled (ke_runId ke)))"
proof (rule gives_bind [OF record_usage_state], rule gives_bind)
  let ?P = "\<lambda>k. \<exists>w. run_state (ke_runId ke) (kn_db k) = Some (v, w)"
  have "kern_gives (\<lambda>k. True) (kern_call (\<lambda>n. transitionRun (ke_ids ke n) (ke_clock ke n 0) \<lparr>ti_runId = ke_runId ke, ti_status = R_CANCELLED,
        ti_eventType = ty, ti_payload = p, ti_taskCompletionText = txt\<rparr>)) (\<lambda>x k. run_state (ke_runId ke) (kn_db k) = Some (R_CANCELLED, NONE))"
    by (rule gives_call [where P = "\<lambda>s. True"]) (use transitionRun_state in fastforce)
  then show "kern_gives (\<lambda>k. run_state (ke_runId ke) (kn_db k) = Some (st, rec)) (if b then kern_bind (kern_call (\<lambda>n. transitionRun (ke_ids ke n) (ke_clock ke n 0)
      \<lparr>ti_runId = ke_runId ke, ti_status = R_CANCELLED, ti_eventType = ty, ti_payload = p, ti_taskCompletionText = txt\<rparr>)) (\<lambda>_. kern_return ()) else kern_return ())
      (\<lambda>_. ?P)"
    using assms(1) by (auto simp: kern_gives_def kern_bind_Inr kern_return_def)
  show "kern_gives ?P (kern_result K_CANCELLED why) (ended (settled (ke_runId ke)))"
    by (rule gives_result [where P = "\<lambda>s. \<exists>w. run_state (ke_runId ke) s = Some (v, w)"]) (use assms in \<open>auto simp: settled_def split: if_splits\<close>)
qed

lemma failed_end: "kern_gives (\<lambda>k. run_state (ke_runId ke) (kn_db k) = Some (st, rec)) (kern_bind (if run_terminal st then kern_return ()
      else kern_bind (kern_call (\<lambda>n. failExecution (ke_ids ke n) (ke_clock ke n 0) (ke_clock ke n 1) (ke_runId ke) u code msg)) (\<lambda>_. kern_return ())) (\<lambda>_.
    kern_result K_FAILED why)) (ended (settled (ke_runId ke)))"
proof (rule gives_bind)
  let ?P = "\<lambda>s. \<exists>v w. run_state (ke_runId ke) s = Some (v, w) \<and> run_terminal v"
  have "kern_gives (\<lambda>k. True) (kern_call (\<lambda>n. failExecution (ke_ids ke n) (ke_clock ke n 0) (ke_clock ke n 1) (ke_runId ke) u code msg))
      (\<lambda>x k. run_state (ke_runId ke) (kn_db k) = Some (R_FAILED, NONE))"
    by (rule gives_call [where P = "\<lambda>s. True"]) (rule settled_state)
  then show "kern_gives (\<lambda>k. run_state (ke_runId ke) (kn_db k) = Some (st, rec)) (if run_terminal st then kern_return ()
      else kern_bind (kern_call (\<lambda>n. failExecution (ke_ids ke n) (ke_clock ke n 0) (ke_clock ke n 1) (ke_runId ke) u code msg)) (\<lambda>_. kern_return ()))
      (\<lambda>_ k. ?P (kn_db k))"
    by (auto simp: kern_gives_def kern_bind_Inr kern_return_def run_terminal_def)
  show "kern_gives (\<lambda>k. ?P (kn_db k)) (kern_result K_FAILED why) (ended (settled (ke_runId ke)))"
    by (rule gives_result [where P = ?P]) (auto simp: settled_def)
qed

lemma gives_weaken: "kern_gives (\<lambda>k. True) m Q \<Longrightarrow> kern_gives P m Q"
  by (simp add: kern_gives_def)

lemma gives_fault:
  assumes "\<And>m e. kern_gives P (a m e) Q" and "kern_gives P b Q"
  shows "kern_gives P (case f of Agent_Fault AGENT_CANCELLED m e \<Rightarrow> a m e | _ \<Rightarrow> b) Q"
  using assms by (simp split: fault.splits kernel_code.splits)

lemma execution_threw_ends: "kern_gives (\<lambda>k. True) (execution_threw ke f) (ended (settled (ke_runId ke)))"
  unfolding execution_threw_def
  apply (rule gives_bind [OF gives_call [where P = "\<lambda>s. True"
          and Q = "\<lambda>c t. run_state (ke_runId ke) t = Some (r_status (ec_run c), r_recoveryState (ec_run c))"]])
   apply (drule executionContext_state, simp add: run_state_def)
  apply (rule kern_let, rule gives_bind [OF gives_simple(2)], rule gives_if)
   apply (rule gives_weaken, rule interrupted_end)
  apply (rule gives_fault)
   apply (rule cancelled_end [OF HOL.refl], simp)
  apply (rule failed_end)
  done

text \<open>If the run executes when the handler begins, the handler ends it itself.\<close>

abbreviation executing :: "kernel_env \<Rightarrow> kernel_state \<Rightarrow> bool" where
  "executing ke k \<equiv> run_state (ke_runId ke) (kn_db k) = Some (R_RUNNING, NONE)"

lemma interrupted_alone: "kern_gives (executing ke) (kern_bind (kern_call (\<lambda>n. interruptExecution (ke_ids ke n 0) (ke_clock ke n 0) (ke_runId ke) reason)) (\<lambda>x.
    if rc_status x = R_CREATED \<and> rc_recoveryState x = RESUMABLE then kern_result K_INTERRUPTED a
    else kern_result K_FAILED ''HOST_SHUTDOWN_NON_RESUMABLE'')) (ended (settled_alone (ke_runId ke)))"
proof (rule gives_bind)
  let ?Q = "\<lambda>x s. run_state (ke_runId ke) s = Some (rc_status x, rc_recoveryState x)
    \<and> ((rc_status x, rc_recoveryState x) = (R_CREATED, RESUMABLE) \<or> (rc_status x, rc_recoveryState x) = (R_FAILED, NON_RESUMABLE))"
  show "kern_gives (executing ke) (kern_call (\<lambda>n. interruptExecution (ke_ids ke n 0) (ke_clock ke n 0) (ke_runId ke) reason))
      (\<lambda>x k. ?Q x (kn_db k))"
    by (rule gives_call [where P = "\<lambda>s. run_state (ke_runId ke) s = Some (R_RUNNING, NONE)"])
      (blast dest: interruptExecution_state interruptExecution_running)
  show "kern_gives (\<lambda>k. ?Q x (kn_db k)) (if rc_status x = R_CREATED \<and> rc_recoveryState x = RESUMABLE then kern_result K_INTERRUPTED a
       else kern_result K_FAILED ''HOST_SHUTDOWN_NON_RESUMABLE'') (ended (settled_alone (ke_runId ke)))" for x
    by (auto simp: kern_gives_def kern_result_def kern_get_def ended_def settled_alone_def)
qed

lemma call_alone:
  assumes "\<And>n s v t. f n s = (Inr v, t) \<Longrightarrow> run_state (ke_runId ke) t = Some (st, NONE)"
    and "st = R_CANCELLED \<and> res = K_CANCELLED \<or> st = R_FAILED \<and> res = K_FAILED"
  shows "kern_gives P (kern_bind (kern_bind (kern_call f) (\<lambda>_. kern_return ())) (\<lambda>_. kern_result res why)) (ended (settled_alone (ke_runId ke)))"
proof (rule gives_bind)
  show "kern_gives P (kern_bind (kern_call f) (\<lambda>_. kern_return ())) (\<lambda>_ k. run_state (ke_runId ke) (kn_db k) = Some (st, NONE))"
    by (rule gives_weaken, rule gives_bind [OF gives_call [where P = "\<lambda>s. True" and Q = "\<lambda>_ t. run_state (ke_runId ke) t = Some (st, NONE)"]])
      (auto simp: kern_gives_def kern_return_def dest: assms(1))
  show "kern_gives (\<lambda>k. run_state (ke_runId ke) (kn_db k) = Some (st, NONE)) (kern_result res why) (ended (settled_alone (ke_runId ke)))"
    by (rule gives_result [where P = "\<lambda>s. run_state (ke_runId ke) s = Some (st, NONE)"]) (use assms(2) in \<open>auto simp: settled_alone_def\<close>)
qed

lemma cancelled_alone:
  "kern_gives (executing ke) (kern_bind (record_usage ke reason) (\<lambda>_. kern_bind (kern_bind (kern_call (\<lambda>n. transitionRun (ke_ids ke n) (ke_clock ke n 0)
      \<lparr>ti_runId = ke_runId ke, ti_status = R_CANCELLED, ti_eventType = ty, ti_payload = p, ti_taskCompletionText = txt\<rparr>)) (\<lambda>_. kern_return ())) (\<lambda>_.
      kern_result K_CANCELLED why))) (ended (settled_alone (ke_runId ke)))"
  by (rule gives_bind [OF record_usage_state], rule call_alone [where st = R_CANCELLED]) (auto dest: transitionRun_state)

lemma failed_alone:
  "kern_gives P (kern_bind (kern_bind (kern_call (\<lambda>n. failExecution (ke_ids ke n) (ke_clock ke n 0) (ke_clock ke n 1) (ke_runId ke) u code msg)) (\<lambda>_. kern_return ())) (\<lambda>_.
      kern_result K_FAILED why)) (ended (settled_alone (ke_runId ke)))"
  by (rule call_alone [where st = R_FAILED]) (auto dest: settled_state)

lemma running_context: "kern_gives (executing ke) (kern_call (\<lambda>n. executionContext (ke_runId ke))) (\<lambda>c k. executing ke k \<and> r_status (ec_run c) = R_RUNNING)"
  by (rule gives_call [where P = "\<lambda>s. run_state (ke_runId ke) s = Some (R_RUNNING, NONE)"
        and Q = "\<lambda>c s. run_state (ke_runId ke) s = Some (R_RUNNING, NONE) \<and> r_status (ec_run c) = R_RUNNING"])
    (auto dest!: executionContext_state simp: run_state_def)

lemma gives_also: "(b \<Longrightarrow> kern_gives P m Q) \<Longrightarrow> kern_gives (\<lambda>k. P k \<and> b) m Q"
  by (auto simp: kern_gives_def)

lemma execution_threw_alone: "kern_gives (executing ke) (execution_threw ke f) (ended (settled_alone (ke_runId ke)))"
  unfolding execution_threw_def
  apply (rule gives_bind [OF running_context], rule gives_also, rule kern_let, rule gives_bind [OF gives_simple(2)], rule gives_if)
   apply (rule interrupted_alone)
  apply (rule gives_fault)
   apply (simp only: simp_thms if_True, rule cancelled_alone)
  apply (simp only: run_terminal_def insert_iff empty_iff run_status.distinct simp_thms if_False, rule failed_alone)
  done

text \<open>What an execution records leaves the run executing.\<close>

lemma recording_states: "recording_step s t \<Longrightarrow> states_kept s t"
proof (induction rule: recording_step.induct)
  case (event eid ei s r t)
  have "sk.steps (conversation_appendEvent eid ei)"
    unfolding conversation_appendEvent_def appendEventWithRepositories_def append_new_def
    by (intro sk.steps_body sk.keeps_intros sequence_keeps silent_keeps)
  from sk.stepsD [OF this event] show ?case .
next
  case (answer now vid st resp inp outp err s r t)
  have "keeps states_kept (rop_do (completeModelInvocation vid st resp inp outp err now))"
    by (rule sk.keeps_rop_do) (auto simp: completeModelInvocation_def states_kept_def run_state_def getRun_def Let_def split: if_splits)
  then have "sk.steps (finishModelInvocation now vid st resp inp outp err)" unfolding finishModelInvocation_def by (rule sk.steps_body)
  from sk.stepsD [OF this answer] show ?case .
next
  case (invocation vid now i a tn rn p m h s r t)
  have "keeps states_kept (rop_do (insertModelInvocation v))" for v
    by (rule sk.keeps_rop_do) (auto simp: insertModelInvocation_def states_kept_def run_state_def getRun_def split: if_splits)
  then have "sk.steps (startModelInvocation vid now i a tn rn p m h)" unfolding startModelInvocation_def Let_def
    by (intro sk.steps_body sk.keeps_intros)
  from sk.stepsD [OF this invocation] show ?case .
next
  case (usage now i us tr s r t)
  from sk.stepsD [OF usage_keeps_states usage] show ?case .
next
  case (message mid now i role content s r t)
  have a: "keeps states_kept (nextMessageSequence c now)" for c
    by (rule sk.keeps_op) (auto simp: nextMessageSequence_def states_kept_def run_state_def getRun_def split: option.splits)
  have b: "keeps states_kept (rop_do (insertMessage x))" for x
    by (rule sk.keeps_rop_do) (auto simp: insertMessage_def states_kept_def run_state_def getRun_def split: if_splits)
  have "sk.steps (appendExecutionMessage mid now i role content)" unfolding appendExecutionMessage_def found_run_def Let_def
    by (intro sk.steps_body sk.keeps_intros a b silent_keeps)
  from sk.stepsD [OF this message] show ?case .
qed

text \<open>Other code does not move the run while the execution awaits.\<close>

definition world_still :: "kernel_env \<Rightarrow> bool" where
  "world_still ke \<longleftrightarrow> (\<forall>n s. run_state (ke_runId ke) (ke_world ke n s) = run_state (ke_runId ke) s)"

definition alone :: "kernel_env \<Rightarrow> kernel_state \<Rightarrow> bool" where
  "alone ke k \<longleftrightarrow> (world_still ke \<longrightarrow> executing ke k)"

interpretation al: kernel_quiet ke "alone ke" for ke
proof
  show "alone ke k \<Longrightarrow> recording_step (kn_db k) s \<Longrightarrow> alone ke (k\<lparr>kn_step := n, kn_db := s\<rparr>)" for k s n
    by (auto simp: alone_def states_kept_def dest: recording_states)
qed (auto simp: alone_def world_still_def)

interpretation al: kernel_counting ke "alone ke" r for ke r
proof
  show "kern_keeps (alone ke) (beforeRequest ke r)" "kern_keeps (alone ke) (countToolCall ke r)"
    unfolding beforeRequest_def countToolCall_def delegatedUsage_def
    by (intro kern_intros keeps_put; simp add: alone_def)+
qed (simp add: alone_def)

lemma gives_keeps: "kern_keeps I m \<Longrightarrow> kern_gives I m (\<lambda>x. I)"
  unfolding kern_gives_def by (auto dest: kern_keepsD)

lemma begin_alone: "kern_gives (\<lambda>k. True) (begin_execution ke) (\<lambda>p. alone ke)"
proof -
  have st: "kern_gives (\<lambda>k. True) (start_run ke c rl b) (\<lambda>x. alone ke)" for c rl b
    by (auto simp: kern_gives_def start_run_def kern_call_def alone_def split: prod.splits sum.splits if_splits dest: started_state)
  have keep: "kern_keeps (alone ke) (kern_bind (kern_call (\<lambda>n. conversation_modelInvocations (ke_runId ke))) (\<lambda>prior. let known = g started in
      kern_bind (kern_put (\<lambda>k. k\<lparr>kn_messages := ms started, kn_usage := u prior known, kn_requests := q prior, kn_completed := known\<rparr>)) (\<lambda>_.
      kern_bind (run_deadline ke started b) (\<lambda>deadline. kern_return (h prior known deadline)))))" for g started ms u q b h
    unfolding Let_def
    by (intro kern_intros al.keeps_reading keeps_put al.keeps_deadline)
      (simp_all add: conversation_modelInvocations_def readonly.steps_intros alone_def)
  show ?thesis unfolding begin_execution_def
    apply (rule gives_then)+
    apply (rule gives_sum, rule gives_simple)
    apply (rule gives_then)
    apply (rule kern_let, rule kern_let)
    apply (rule gives_then)
    apply (rule gives_bind [OF st])
    apply (rule gives_keeps)
    apply (rule keep)
    done
qed

lemma executeAgentRun_ends:
  "executeAgentRun ke s = (Inr x, t) \<Longrightarrow> settled (ke_runId ke) x t"
  "kern_bind (begin_execution ke) (\<lambda>(r, first). execute_turns ke r first) k = (Inr x, k1) \<Longrightarrow> kx_usage x = kn_usage k1"
  "executeAgentRun ke s = (Inr x, t) \<Longrightarrow> world_still ke \<Longrightarrow> settled_alone (ke_runId ke) x t"
proof -
  have turns: "kern_gives (\<lambda>k. True) (kern_try (run_turns ke r left first)) (\<lambda>out k. \<forall>x. out = Inr x \<longrightarrow> ended (settled_alone (ke_runId ke)) x k)"
    for r left first
    using run_turns_end [of ke r left first] by (auto simp: kern_gives_def kern_try_def split: prod.splits)
  have "kern_gives (\<lambda>k. True) (execute_turns ke r first) (ended (settled (ke_runId ke)))" for r first
    unfolding execute_turns_def
    by (rule gives_bind [OF turns])
      (auto simp: kern_gives_def kern_return_def ended_def alone_settled
        dest: execution_threw_ends [unfolded kern_gives_def ended_def, rule_format, OF TrueI] split: sum.splits)
  then have "kern_gives (\<lambda>k. True) (kern_bind (begin_execution ke) (\<lambda>(r, first). execute_turns ke r first)) (ended (settled (ke_runId ke)))"
    by (intro gives_then) (auto split: prod.splits)
  then show "executeAgentRun ke s = (Inr x, t) \<Longrightarrow> settled (ke_runId ke) x t"
    "kern_bind (begin_execution ke) (\<lambda>(r, first). execute_turns ke r first) k = (Inr x, k1) \<Longrightarrow> kx_usage x = kn_usage k1"
    by (auto simp: executeAgentRun_def kern_gives_def ended_def split: prod.splits)
  have "kern_gives (alone ke) (kern_try (run_turns ke r (nat (kb_maxTurns (kr_budget r) - first + 1)) first)) (\<lambda>out k.
      (\<forall>x. out = Inr x \<longrightarrow> ended (settled_alone (ke_runId ke)) x k) \<and> (\<forall>f. out = Inl f \<longrightarrow> alone ke k))" for r first
    using turns [of r] al.unless_all_turns [of ke r first] by (auto simp: kern_gives_def kern_try_def keeps_unless_def split: prod.splits)
  note all_turns = this
  have "kern_gives (alone ke) (execute_turns ke r first) (\<lambda>x k. world_still ke \<longrightarrow> ended (settled_alone (ke_runId ke)) x k)" for r first
    unfolding execute_turns_def
    by (rule gives_bind [OF all_turns])
      (auto simp: kern_gives_def kern_return_def alone_def
        dest: execution_threw_alone [unfolded kern_gives_def, rule_format] split: sum.splits)
  then have "kern_gives (\<lambda>k. True) (kern_bind (begin_execution ke) (\<lambda>(r, first). execute_turns ke r first))
      (\<lambda>x k. world_still ke \<longrightarrow> ended (settled_alone (ke_runId ke)) x k)"
    by (intro gives_bind [OF begin_alone]) (auto split: prod.splits)
  then show "executeAgentRun ke s = (Inr x, t) \<Longrightarrow> world_still ke \<Longrightarrow> settled_alone (ke_runId ke) x t"
    by (auto simp: executeAgentRun_def kern_gives_def ended_def split: prod.splits)
qed

end
