(* ===== verification/Kernel_Scope.thy ===== *)
theory Kernel_Scope
  imports Kernel_Machine
begin

text \<open>
  Which calls of tools an execution of the kernel makes: the tools of an execution are exchanged, and the execution is the same as long
  as the tools agree on the calls within its scope.
\<close>

section \<open>What does not depend on the tools\<close>

abbreviation with_tools :: "kernel_env \<Rightarrow> registered_tool list \<Rightarrow> kernel_env" where
  "with_tools ke ts \<equiv> ke\<lparr>ke_tools := ts\<rparr>"

lemma fields_untooled:
  "ke_runId (with_tools ke ts) = ke_runId ke" "ke_clock (with_tools ke ts) = ke_clock ke"
  "ke_ids (with_tools ke ts) = ke_ids ke" "ke_signal (with_tools ke ts) = ke_signal ke"
  "ke_world (with_tools ke ts) = ke_world ke" "ke_resolve (with_tools ke ts) = ke_resolve ke"
  "ke_localeCompare (with_tools ke ts) = ke_localeCompare ke" "ke_delegations (with_tools ke ts) = ke_delegations ke"
  "ke_budget (with_tools ke ts) = ke_budget ke" "ke_systemInstructions (with_tools ke ts) = ke_systemInstructions ke"
  "ke_modelToolNames (with_tools ke ts) = ke_modelToolNames ke" "ke_sha256 (with_tools ke ts) = ke_sha256 ke"
  "ke_parse (with_tools ke ts) = ke_parse ke" "ke_text (with_tools ke ts) = ke_text ke"
  by simp_all

lemma small_untooled [simp]:
  "kern_await (with_tools ke ts) = kern_await ke" "kern_signal (with_tools ke ts) = kern_signal ke"
  "kern_now (with_tools ke ts) = kern_now ke" "fault_message (with_tools ke ts) = fault_message ke"
  "kernel_hash (with_tools ke ts) = kernel_hash ke" "kern_event (with_tools ke ts) = kern_event ke"
  "parseToolArguments (with_tools ke ts) = parseToolArguments ke" "finish_invocation (with_tools ke ts) = finish_invocation ke"
  "delegatedUsage (with_tools ke ts) = delegatedUsage ke" "record_usage (with_tools ke ts) = record_usage ke"
  "append_message (with_tools ke ts) = append_message ke" "turn_request (with_tools ke ts) = turn_request ke"
  "start_run (with_tools ke ts) = start_run ke" "configure_root (with_tools ke ts) = configure_root ke"
  unfolding fun_eq_iff
  kern_await_def kern_signal_def kern_now_def fault_message_def kernel_hash_def kern_event_def parseToolArguments_def
    finish_invocation_def delegatedUsage_def record_usage_def append_message_def turn_request_def start_run_def configure_root_def fields_untooled
  by simp_all

lemma parts_untooled [simp]:
  "abortIfNeeded (with_tools ke ts) = abortIfNeeded ke" "turn_event (with_tools ke ts) = turn_event ke"
  "complete_request (with_tools ke ts) = complete_request ke" "request_failed (with_tools ke ts) = request_failed ke"
  "assertTimeBudget (with_tools ke ts) = assertTimeBudget ke" "assertCompositeBudget (with_tools ke ts) = assertCompositeBudget ke"
  "beforeRequest (with_tools ke ts) = beforeRequest ke" "countToolCall (with_tools ke ts) = countToolCall ke"
  "call_signature (with_tools ke ts) = call_signature ke" "replay_call (with_tools ke ts) = replay_call ke"
  "call_context (with_tools ke ts) = call_context ke" "tool_threw (with_tools ke ts) = tool_threw ke"
  "tool_completed (with_tools ke ts) = tool_completed ke" "answer_message (with_tools ke ts) = answer_message ke"
  "execution_threw (with_tools ke ts) = execution_threw ke" "run_deadline (with_tools ke ts) = run_deadline ke"
  "request_hash (with_tools ke ts) = request_hash ke"
  unfolding fun_eq_iff
  abortIfNeeded_def turn_event_def complete_request_def request_failed_def assertTimeBudget_def assertCompositeBudget_def
    beforeRequest_def countToolCall_def call_signature_def replay_call_def call_context_def tool_threw_def tool_completed_def
    answer_message_def execution_threw_def run_deadline_def request_hash_def fields_untooled small_untooled
  by simp_all

lemma stream_untooled [simp]: "read_stream (with_tools ke ts) a turn n final evs acc = read_stream ke a turn n final evs acc"
proof (induction evs arbitrary: acc)
  case (Cons ev evs)
  show ?case unfolding read_stream.simps small_untooled parts_untooled Cons.IH by (rule HOL.refl)
qed simp

lemma turn_untooled [simp]: "runModelTurn (with_tools ke ts) rl a before q turn left retry = runModelTurn ke rl a before q turn left retry"
proof (induction left arbitrary: retry)
  case (Suc left)
  show ?case unfolding runModelTurn.simps small_untooled parts_untooled stream_untooled fields_untooled Suc.IH by (rule HOL.refl)
qed simp

lemma known_untooled [simp]: "known_calls (with_tools ke ts) = known_calls ke"
proof -
  have "learn_message (with_tools ke ts) = learn_message ke" unfolding fun_eq_iff learn_message_def parts_untooled by simp
  then show ?thesis by (intro ext) (simp add: known_calls_def)
qed

section \<open>Tools that agree\<close>

text \<open>A call of a tool within the scope of an execution: the run's durable scope names the tool, its validation accepts the input, the
  call is made for the run, no result was known for it when the execution began, and the signal was not raised when it was last read.\<close>

definition callable :: "kernel_env \<Rightarrow> kernel_run \<Rightarrow> (string \<times> string \<times> tool_result) list \<Rightarrow> registered_tool \<Rightarrow> nat \<Rightarrow> json \<Rightarrow> tool_context \<Rightarrow> bool" where
  "callable ke r known t n input cx \<longleftrightarrow>
     (case kr_allowed r of None \<Rightarrow> True | Some names \<Rightarrow> td_name (rt_definition t) \<in> set names)
     \<and> rt_validateInput t input \<and> tx_runId cx = ke_runId ke \<and> tx_attemptId cx = run_attemptId r \<and> tx_allowedToolNames cx = kr_allowed r
     \<and> map_of known (tx_toolCallId cx) = None \<and> 0 < n \<and> ke_signal ke (n - 1) = NOT_ABORTED"

definition agreeing ::
    "kernel_env \<Rightarrow> kernel_run \<Rightarrow> (string \<times> string \<times> tool_result) list \<Rightarrow> registered_tool \<Rightarrow> registered_tool \<Rightarrow> bool" where
  "agreeing ke r known t u \<longleftrightarrow> rt_definition u = rt_definition t \<and> rt_validateInput u = rt_validateInput t
     \<and> (\<forall>n input cx. callable ke r known t n input cx \<longrightarrow> rt_execute u n input cx = rt_execute t n input cx)"

lemma find_agreeing:
  assumes "list_all2 (agreeing ke r known) ts us"
  shows "(case find_tool name ts of None \<Rightarrow> find_tool name us = None
    | Some t \<Rightarrow> td_name (rt_definition t) = name \<and> (\<exists>u. find_tool name us = Some u \<and> agreeing ke r known t u))"
  using assms unfolding find_tool_def
  by (induction rule: list_all2_induct) (auto simp: agreeing_def split: option.splits)

lemma agreeing_definitions: "list_all2 (agreeing ke r known) ts us \<Longrightarrow> map rt_definition us = map rt_definition ts"
  by (induction rule: list_all2_induct) (auto simp: agreeing_def)

lemma registry_agreeing:
  assumes "list_all2 (agreeing ke r known) (ke_tools ke) ts" and "map_of known (mc_toolCallId c) = None"
    and "case kr_allowed r of None \<Rightarrow> True | Some names \<Rightarrow> mc_name c \<in> set names"
  shows "registry_execute (with_tools ke ts) (mc_name c) input (call_context ke r c) = registry_execute ke (mc_name c) input (call_context ke r c)"
proof
  fix k
  note found = find_agreeing [OF assms(1), of "mc_name c"]
  show "registry_execute (with_tools ke ts) (mc_name c) input (call_context ke r c) k = registry_execute ke (mc_name c) input (call_context ke r c) k"
  proof (cases "find_tool (mc_name c) (ke_tools ke)")
    case None
    with found show ?thesis by (simp add: registry_execute_def)
  next
    case (Some t)
    with found obtain u where u: "find_tool (mc_name c) ts = Some u" "agreeing ke r known t u" "td_name (rt_definition t) = mc_name c" by auto
    have "rt_execute u (Suc (kn_step k)) input (call_context ke r c) = rt_execute t (Suc (kn_step k)) input (call_context ke r c)"
      if "rt_validateInput t input" "ke_signal ke (kn_step k) = NOT_ABORTED"
    proof -
      have "callable ke r known t (Suc (kn_step k)) input (call_context ke r c)"
        using that assms(2,3) u(3) by (auto simp: callable_def call_context_def split: option.splits)
      with u(2) show ?thesis unfolding agreeing_def by blast
    qed
    then show ?thesis using u Some unfolding registry_execute_def small_untooled
      by (simp add: kern_bind_def kern_signal_def kern_tick_def kern_return_def kern_require_def kern_throw_def kern_await_def agreeing_def)
  qed
qed

lemma call_agreeing:
  assumes "list_all2 (agreeing ke r known) (ke_tools ke) ts" and "map_of known (mc_toolCallId c) = None"
  shows "kernel_call (with_tools ke ts) r c signature = kernel_call ke r c signature"
proof (cases "case kr_allowed r of None \<Rightarrow> True | Some names \<Rightarrow> mc_name c \<in> set names")
  case True
  show ?thesis unfolding kernel_call_def small_untooled parts_untooled registry_agreeing [OF assms True] by (rule HOL.refl)
next
  case False
  then have "kern_require (case kr_allowed r of None \<Rightarrow> True | Some names \<Rightarrow> mc_name c \<in> set names) f = kern_throw f" for f
    by (simp add: kern_require_def)
  then show ?thesis unfolding kernel_call_def by (simp add: fun_eq_iff kern_bind_def kern_throw_def)
qed

section \<open>Executions that agree\<close>

text \<open>What was known when the execution began stays known.\<close>

definition knows :: "(string \<times> string \<times> tool_result) list \<Rightarrow> kernel_state \<Rightarrow> bool" where
  "knows known k \<longleftrightarrow> (\<forall>i. map_of known i \<noteq> None \<longrightarrow> map_of (kn_completed k) i \<noteq> None)"

interpretation kn: kernel_invariant ke "knows known" r for ke known r
proof
  show "kern_keeps (knows known) (beforeRequest ke r)" "kern_keeps (knows known) (countToolCall ke r)"
    unfolding beforeRequest_def countToolCall_def delegatedUsage_def
    by (intro kern_intros keeps_put; simp add: knows_def)+
qed (auto simp: knows_def update_conv')

definition kern_same :: "(kernel_state \<Rightarrow> bool) \<Rightarrow> 'a kern \<Rightarrow> 'a kern \<Rightarrow> bool" where
  "kern_same I m n \<longleftrightarrow> (\<forall>k. I k \<longrightarrow> m k = n k)"

lemma same_self: "kern_same I m m"
  by (simp add: kern_same_def)

lemma same_chain: "kern_keeps I m \<Longrightarrow> kern_same I m n \<Longrightarrow> (\<And>x. kern_same I (f x) (g x)) \<Longrightarrow> kern_same I (kern_bind m f) (kern_bind n g)"
  unfolding kern_same_def kern_bind_def by (fastforce split: prod.splits sum.splits dest: kern_keepsD)

lemma same_after: "kern_keeps I m \<Longrightarrow> (\<And>x. kern_same I (f x) (g x)) \<Longrightarrow> kern_same I (kern_bind m f) (kern_bind m g)"
  by (rule same_chain [OF _ same_self])

lemma calls_agree:
  assumes "list_all2 (agreeing ke r known) (ke_tools ke) ts"
  shows "kern_same (knows known) (run_calls (with_tools ke ts) r cs) (run_calls ke r cs)"
proof (induction cs)
  case (Cons c cs)
  let ?known = "\<lambda>k. map_of (kn_completed k) (mc_toolCallId c)"
  let ?sig = "call_signature ke (mc_name c) (mc_arguments c)"
  let ?step = "\<lambda>ke e. case e of None \<Rightarrow> kernel_call ke r c ?sig
    | Some (known, result) \<Rightarrow> kern_bind (kern_require (known = ?sig) (agent_fault AGENT_TOOL_CALL_CONFLICT
        (''tool call id reused with different payload: '' @ mc_toolCallId c))) (\<lambda>_. kern_bind (replay_call ke r c result) (\<lambda>_. kern_return None))"
  let ?rest = "\<lambda>ke out. case out of Some x \<Rightarrow> kern_return (Some x) | None \<Rightarrow> run_calls ke r cs"
  have rest: "kern_same (knows known) (?rest (with_tools ke ts) out) (?rest ke out)" for out
    using Cons.IH by (cases out) (simp_all add: same_self)
  have step: "kern_keeps (knows known) (?step ke e)" for e
    by (intro kern_intros kn.keeps_kernel_call kn.counting.keeps_replay)
  have call: "kern_same (knows known) (kern_bind (kern_get ?known) (\<lambda>e. kern_bind (?step (with_tools ke ts) e) (?rest (with_tools ke ts))))
      (kern_bind (kern_get ?known) (\<lambda>e. kern_bind (?step ke e) (?rest ke)))"
  proof (unfold kern_same_def, intro allI impI)
    fix k assume k: "knows known k"
    have same: "?step (with_tools ke ts) (?known k) = ?step ke (?known k)"
    proof (cases "?known k")
      case None
      with k have "map_of known (mc_toolCallId c) = None" unfolding knows_def by blast
      with None show ?thesis by (simp add: call_agreeing [OF assms])
    qed (simp split: prod.splits)
    have "kern_same (knows known) (kern_bind (?step ke e) (?rest (with_tools ke ts))) (kern_bind (?step ke e) (?rest ke))" for e
      by (rule same_after [OF step rest])
    with k same show "kern_bind (kern_get ?known) (\<lambda>e. kern_bind (?step (with_tools ke ts) e) (?rest (with_tools ke ts))) k
        = kern_bind (kern_get ?known) (\<lambda>e. kern_bind (?step ke e) (?rest ke)) k"
      by (simp add: kern_bind_def [of "kern_get ?known"] kern_get_def kern_same_def)
  qed
  show ?case unfolding run_calls.simps Let_def parts_untooled
    by (rule same_after [OF kn.quiet.keeps_signal(3)], rule same_after [OF kn.counting.keeps_budgets(1)]) (rule call [unfolded parts_untooled])
qed (simp add: same_self)

lemma turn_agrees:
  assumes "list_all2 (agreeing ke r known) (ke_tools ke) ts" and "turn \<le> kb_maxTurns (kr_budget r)"
  shows "kern_same (knows known) (run_turn (with_tools ke ts) r turn) (run_turn ke r turn)"
proof -
  have "kern_same (knows known) (if b then m else run_calls (with_tools ke ts) r cs) (if b then m else run_calls ke r cs)" for b m cs
    using calls_agree [OF assms(1)] by (simp add: same_self)
  note calls = this
  have put: "kern_keeps (knows known) (kern_put (\<lambda>k. k\<lparr>kn_usage := turn_used turn u (kn_usage k)\<rparr>))" for u
    by (rule keeps_put) (rule kn.turn_counted [OF assms(2)])
  show ?thesis unfolding run_turn_def small_untooled parts_untooled turn_untooled fields_untooled
    by (intro same_after calls kn.quiet.keeps_signal kn.counting.keeps_budgets keeps_simple kn.counting.keeps_model_turn put kn.quiet.keeps_usage
        kn.counting.keeps_answer)
qed

lemma turns_agree:
  assumes "list_all2 (agreeing ke r known) (ke_tools ke) ts"
  shows "turn + int left \<le> kb_maxTurns (kr_budget r) + 1 \<Longrightarrow> kern_same (knows known) (run_turns (with_tools ke ts) r left turn) (run_turns ke r left turn)"
proof (induction left arbitrary: turn)
  case (Suc left)
  have "kern_same (knows known) (case out of Some x \<Rightarrow> kern_return x | None \<Rightarrow> run_turns (with_tools ke ts) r left (turn + 1))
      (case out of Some x \<Rightarrow> kern_return x | None \<Rightarrow> run_turns ke r left (turn + 1))" for out
    using Suc by (cases out) (simp_all add: same_self)
  moreover have "turn \<le> kb_maxTurns (kr_budget r)" using Suc.prems by simp
  ultimately show ?case unfolding run_turns.simps
    by (intro same_chain kn.keeps_turn turn_agrees [OF assms])
qed (simp add: same_self)

lemma execution_agrees:
  assumes "list_all2 (agreeing ke r (kn_completed k)) (ke_tools ke) ts"
  shows "execute_turns (with_tools ke ts) r first k = execute_turns ke r first k"
proof -
  let ?n = "nat (kb_maxTurns (kr_budget r) - first + 1)"
  have "kern_same (knows (kn_completed k)) (run_turns (with_tools ke ts) r ?n first) (run_turns ke r ?n first)"
    by (cases "first \<le> kb_maxTurns (kr_budget r) + 1") (auto intro: turns_agree [OF assms] simp: same_self)
  then have "run_turns (with_tools ke ts) r ?n first k = run_turns ke r ?n first k" by (simp add: kern_same_def knows_def)
  then show ?thesis by (simp add: execute_turns_def kern_bind_def kern_try_def split: prod.splits sum.splits)
qed

lemma begin_agrees:
  assumes "map rt_definition ts = map rt_definition (ke_tools ke)"
  shows "begin_execution (with_tools ke ts) = begin_execution ke"
proof -
  have "select_definitions (with_tools ke ts) = select_definitions ke"
    unfolding fun_eq_iff select_definitions_def registry_definitions_def fields_untooled by (simp add: assms)
  note select = this
  show ?thesis unfolding begin_execution_def select small_untooled parts_untooled known_untooled fields_untooled by (rule HOL.refl)
qed

lemma run_agrees:
  assumes "begin_execution ke (fresh_kernel s) = (Inr (r, first), k)" and "list_all2 (agreeing ke r (kn_completed k)) (ke_tools ke) ts"
  shows "executeAgentRun (with_tools ke ts) s = executeAgentRun ke s"
  using execution_agrees [OF assms(2)] begin_agrees [OF agreeing_definitions [OF assms(2)]] assms(1)
  by (simp add: executeAgentRun_def kern_bind_def)

end
