(* ===== verification/Kernel_Properties.thy ===== *)
theory Kernel_Properties
  imports Kernel_Endings Kernel_Scope Delegation_Scenario
begin

text \<open>
  What the kernel promises: it calls a tool within the scope of its run only, it stays within the budget of the run, and when it returns
  the run is in the state the result names.
\<close>

section \<open>The budget\<close>

text \<open>The \<open>CHECK\<close> constraints of the table of envelopes.\<close>

definition envelopes_ok :: "db \<Rightarrow> bool" where
  "envelopes_ok s \<longleftrightarrow> list_all budget_checks (run_budget_envelopes s)"

definition envelopes_kept :: "db \<Rightarrow> db \<Rightarrow> bool" where
  "envelopes_kept s t \<longleftrightarrow> (envelopes_ok s \<longrightarrow> envelopes_ok t)"

lemma budget_write_kept: "budget_write i f now s = Inr t \<Longrightarrow> envelopes_kept s t"
  by (auto simp: budget_write_Inr tbl_modify_def envelopes_kept_def envelopes_ok_def list_all_iff)

lemma envelopes_same: "run_budget_envelopes t = run_budget_envelopes s \<Longrightarrow> envelopes_kept s t"
  by (simp add: envelopes_kept_def envelopes_ok_def)

lemma envelopes_written:
  "insertBudgetEnvelope b s = Inr s1 \<Longrightarrow> envelopes_kept s s1"
  "updateBudgetUsage i us now s = Inr s2 \<Longrightarrow> envelopes_kept s s2"
  "releaseBudgetReservation i rr us now s = Inr (s3, br) \<Longrightarrow> envelopes_kept s s3"
proof -
  show "insertBudgetEnvelope b s = Inr s1 \<Longrightarrow> envelopes_kept s s1"
    by (auto simp: insertBudgetEnvelope_def envelopes_kept_def envelopes_ok_def split: if_splits)
  show "updateBudgetUsage i us now s = Inr s2 \<Longrightarrow> envelopes_kept s s2"
    unfolding updateBudgetUsage_def by (rule budget_write_kept)
  assume "releaseBudgetReservation i rr us now s = Inr (s3, br)"
  then have "releaseBudgetReservation i rr us now s = Inr (s3, fst br, snd br)" by simp
  from release_Inr [OF this] show "envelopes_kept s s3"
    by (auto dest!: budget_write_kept simp: envelopes_kept_def envelopes_ok_def split: if_splits)
qed

lemma envelopes_other:
  "updateDelegationStatus i ds x y z now s = Inr s3 \<Longrightarrow> envelopes_kept s s3"
  "insertWait w s = Inr s5 \<Longrightarrow> envelopes_kept s s5"
  "deleteWait i j s = (s6, gone) \<Longrightarrow> envelopes_kept s s6"
  "insertResultDelivery rd s = Inr s7 \<Longrightarrow> envelopes_kept s s7"
  "markResultDelivered i h at now s = Inr s8 \<Longrightarrow> envelopes_kept s s8"
  by (auto simp: updateDelegationStatus_def delegation_write_def insertWait_def deleteWait_def insertResultDelivery_def
      markResultDelivered_def Let_def intro!: envelopes_same split: if_splits)

lemma envelopes_unchanged: "same_delegations s t \<Longrightarrow> envelopes_kept s t"
  by (simp add: same_delegations_def envelopes_same)

interpretation en: conversation_statements envelopes_kept
proof
  show "envelopes_kept s s" "envelopes_kept a b \<Longrightarrow> envelopes_kept b c \<Longrightarrow> envelopes_kept a c" for s a b c
    by (simp_all add: envelopes_kept_def)
qed (auto intro: envelopes_unchanged conversation_ops_same insertRun_same updateRun_same delegation_insertEvent_same envelopes_written
    envelopes_other invocation_ops_same)

text \<open>What other code leaves of the envelopes, and the envelope a run started with.\<close>

definition world_envelopes :: "kernel_env \<Rightarrow> bool" where
  "world_envelopes ke \<longleftrightarrow> (\<forall>n s. envelopes_ok s \<longrightarrow> envelopes_ok (ke_world ke n s))"

definition checked_context :: "execution_context \<Rightarrow> bool" where
  "checked_context c \<longleftrightarrow> (\<forall>b. ec_budgetEnvelope c = Some b \<longrightarrow> budget_checks b)"

definition envelopes_hold :: "kernel_env \<Rightarrow> kernel_state \<Rightarrow> bool" where
  "envelopes_hold ke k \<longleftrightarrow> (world_envelopes ke \<longrightarrow> envelopes_ok (kn_db k))"

text \<open>What was used is within the budget, or is what was used before.\<close>

definition within :: "kernel_env \<Rightarrow> kernel_run \<Rightarrow> attempt_usage \<Rightarrow> kernel_state \<Rightarrow> bool" where
  "within ke r u k \<longleftrightarrow> (world_envelopes ke \<longrightarrow> checked_context (kr_started r) \<longrightarrow> envelopes_ok (kn_db k)
     \<and> au_turns (kn_usage k) \<le> max (au_turns u) (kb_maxTurns (kr_budget r))
     \<and> au_modelCalls (kn_usage k) \<le> max (au_modelCalls u) (kb_maxModelCalls (kr_budget r))
     \<and> au_toolCalls (kn_usage k) \<le> max (au_toolCalls u) (kb_maxToolCalls (kr_budget r)))"

interpretation eh: kernel_frame ke "envelopes_hold ke" for ke
proof
  show "envelopes_hold ke k \<Longrightarrow> conversation_step (kn_db k) s \<Longrightarrow> envelopes_hold ke (k\<lparr>kn_step := n, kn_db := s\<rparr>)" for k s n
    using en.conversation_step_R [of "kn_db k" s] by (auto simp: envelopes_hold_def envelopes_kept_def)
qed (auto simp: envelopes_hold_def world_envelopes_def)

lemma delegated_not_negative:
  assumes "envelopes_ok (kn_db k)" and "checked_context (kr_started r)" and "delegatedUsage ke r k = (x, t)"
  shows "\<exists>d. x = Inr d \<and> t = k \<and> 0 \<le> au_modelCalls d \<and> 0 \<le> au_toolCalls d"
proof -
  have "budget_checks b" if "getBudgetEnvelope (ke_runId ke) (kn_db k) = Some b" for b
    using assms(1) tbl_get_key [OF that [unfolded getBudgetEnvelope_def]] by (simp add: envelopes_ok_def list_all_iff)
  then show ?thesis using assms(2,3)
    by (auto simp: delegatedUsage_def kern_get_def envelope_delegated_def checked_context_def budget_checks_def split: option.splits)
qed

interpretation wi: kernel_frame ke "within ke r u" for ke r u
proof
  show "within ke r u k \<Longrightarrow> conversation_step (kn_db k) s \<Longrightarrow> within ke r u (k\<lparr>kn_step := n, kn_db := s\<rparr>)" for k s n
    using en.conversation_step_R [of "kn_db k" s] by (auto simp: within_def envelopes_kept_def)
qed (auto simp: within_def world_envelopes_def)

interpretation wi: kernel_invariant ke "within ke r u" r for ke r u
proof
  show "kern_keeps (within ke r u) (beforeRequest ke r)" "kern_keeps (within ke r u) (countToolCall ke r)"
    using delegated_not_negative [of _ r ke]
    by (fastforce simp: kern_keeps_def beforeRequest_def countToolCall_def kern_bind_def kern_get_def kern_put_def kern_require_def
        kern_return_def kern_throw_def within_def split: prod.splits sum.splits)+
qed (auto simp: within_def turn_used_def)

definition context_checked :: "execution_context rop \<Rightarrow> bool" where
  "context_checked op \<longleftrightarrow> (\<forall>s t c. op s = Inr (t, c) \<longrightarrow> envelopes_ok t \<longrightarrow> checked_context c)"

lemma context_checked_bind: "(\<And>x. context_checked (f x)) \<Longrightarrow> context_checked (rop_bind m f)"
  unfolding context_checked_def rop_bind_Inr by blast

lemma context_checked_of: "context_checked (context_of conversation run attempt)"
  unfolding context_checked_def context_of_def
  by (auto simp: rop_bind_Inr rop_read_def rop_return_def checked_context_def envelopes_ok_def list_all_iff getBudgetEnvelope_def dest: tbl_get_key)

lemma checked_transaction: "transaction op s = (Inr c, t) \<Longrightarrow> context_checked op \<Longrightarrow> envelopes_ok t \<Longrightarrow> checked_context c"
  unfolding transaction_Inr context_checked_def by blast

lemma started_checked:
  "startExecution ids now i p m b s = (Inr c, t) \<Longrightarrow> envelopes_ok t \<Longrightarrow> checked_context c"
  "resumeExecution eid now i s = (Inr c, t) \<Longrightarrow> envelopes_ok t \<Longrightarrow> checked_context c"
  unfolding startExecution_def resumeExecution_def
  by (erule checked_transaction, (rule context_checked_bind)+, rule context_checked_of, assumption)+

lemma start_checked: "kern_gives (envelopes_hold ke) (start_run ke initial rl b) (\<lambda>c k. world_envelopes ke \<longrightarrow> checked_context c)"
proof -
  have "kern_gives (envelopes_hold ke) (start_run ke initial rl b) (\<lambda>c. envelopes_hold ke)"
    by (rule gives_keeps) (rule eh.keeps_start)
  then show ?thesis
    by (fastforce simp: kern_gives_def start_run_def kern_call_def envelopes_hold_def split: prod.splits sum.splits if_splits dest: started_checked)
qed

lemma gives_started:
  assumes "kern_gives (\<lambda>k. True) m (\<lambda>p k. kr_started (fst p) = c)"
  shows "kern_gives (\<lambda>k. w \<longrightarrow> checked_context c) m (\<lambda>p k. w \<longrightarrow> checked_context (kr_started (fst p)))"
  using assms unfolding kern_gives_def by metis

lemma begin_checked: "kern_gives (envelopes_hold ke) (begin_execution ke) (\<lambda>p k. world_envelopes ke \<longrightarrow> checked_context (kr_started (fst p)))"
  unfolding begin_execution_def Let_def
  apply (rule gives_bind [OF gives_keeps [OF eh.quiet.keeps_context]])
  apply (rule gives_bind [OF gives_keeps [OF eh.quiet.keeps_await]])
  apply (rule gives_sum, rule gives_simple)
  apply (rule gives_bind [OF gives_keeps [OF keeps_of]])
  apply (rule gives_bind [OF gives_keeps [OF eh.keeps_configure]])
  apply (rule gives_bind [OF start_checked gives_started])
  apply (rule gives_then)+
  apply (simp add: kern_gives_def kern_return_def)
  done

lemma turns_within:
  assumes "envelopes_ok (kn_db k)" and "world_envelopes ke" and "checked_context (kr_started r)" and "execute_turns ke r first k = (x, k1)"
  shows "within ke r (kn_usage k) k1"
proof -
  have "within ke r (kn_usage k) k" using assms(1) by (simp add: within_def)
  then show ?thesis using kern_keepsD [OF wi.keeps_execution assms(4)] by blast
qed

section \<open>An execution\<close>

definition sample_stream :: model_stream where
  "sample_stream = \<lparr>ms_events = [Text_Event ''ok'', Usage_Event \<lparr>mu_inputTokens = 3, mu_outputTokens = 2, mu_totalTokens = 5\<rparr>,
     Completed_Event ''stop'' None], ms_fault = None\<rparr>"

definition sample_model :: model_resolution where
  "sample_model = \<lparr>rl_provider = ''p'', rl_model = ''m'', rl_maxOutputTokens = 10, rl_maxRetries = 0, rl_stream = (\<lambda>n q. sample_stream)\<rparr>"

definition sample_kernel :: kernel_env where
  "sample_kernel = \<lparr>ke_runId = ''r1'', ke_clock = (\<lambda>n j. 1), ke_ids = (\<lambda>n j. replicate n CHR ''x'' @ replicate j CHR ''y''),
     ke_signal = (\<lambda>n. NOT_ABORTED), ke_world = (\<lambda>n s. s), ke_resolve = (\<lambda>p. Inr sample_model),
     ke_tools = [], ke_localeCompare = (\<lambda>a b. 0), ke_delegations = None, ke_budget = None, ke_systemInstructions = None,
     ke_modelToolNames = None, ke_sha256 = no_hash, ke_parse = (\<lambda>v. None), ke_text = (\<lambda>e. [])\<rparr>"

definition sample_budget :: kernel_budget where
  "sample_budget = \<lparr>kb_maxTurns = 8, kb_maxModelCalls = 10, kb_maxToolCalls = 16, kb_maxOutputTokens = 10, kb_maxTotalTokens = 65536,
     kb_maxDurationMs = 900000\<rparr>"

lemma sample_started:
  "\<exists>c t. startExecution (ke_ids sample_kernel n) 1 ''r1'' ''p'' ''m'' (execution_budget_of sample_budget) submitted_db = (Inr c, t)
     \<and> ec_budgetEnvelope c \<noteq> None"
proof -
  have k: "key_pattern ''run-start:a1''" "event_type_pattern ''run.started''" by code_simp+
  show ?thesis
    by (simp add: startExecution_def transaction_def submitted_db_def sample_defs)
      (simp add: found_run_def startable_attempt_def claim_envelope_def insertBudgetEnvelope_def root_envelope_def execution_budget_of_def
        sample_budget_def total_tokens_def duration_ms_def budget_checks_def run_known_def lists_ok configureAttempt_def
        attempt_follows_def updateAttempt_def write_attempt_def coalesce_def updateRun_def run_set_def updated_run_def record_event_def
        appendEventWithRepositories_def append_new_def stored_event_def opt_eq_def conv_bounded_def k sample_kernel_def or_default_def
        statement_defs table_reads sync_defs task_defs context_of_def listMessages_def lower_status)
qed

lemma sample_context: "\<exists>c. executionContext ''r1'' submitted_db = (Inr c, submitted_db) \<and> ec_budgetEnvelope c = None
    \<and> ec_run c = sample_first_run \<and> a_maxTurns (ec_attempt c) = None"
  by (simp add: executionContext_def transaction_def found_run_def attempt_of_run_def context_of_def statement_defs table_reads sample_defs)

lemma tools_begun: "\<exists>r first k. begin_execution (with_tools sample_kernel ts) (fresh_kernel submitted_db) = (Inr (r, first), k) \<and> kr_budget r = sample_budget"
proof -
  from sample_context obtain c where c: "executionContext ''r1'' submitted_db = (Inr c, submitted_db)" "ec_budgetEnvelope c = None"
    "ec_run c = sample_first_run" "a_maxTurns (ec_attempt c) = None" by blast
  from sample_started obtain c' t where s: "startExecution (ke_ids sample_kernel 2) 1 ''r1'' ''p'' ''m'' (execution_budget_of sample_budget) submitted_db = (Inr c', t)"
    "ec_budgetEnvelope c' \<noteq> None" by blast
  have b: "resolveBudget None 10 = Inr sample_budget"
    by (simp add: resolveBudget_def no_budget_def positive_integer_def or_default_def sample_budget_def Let_def)
  have f: "ke_runId sample_kernel = ''r1''" "ke_clock sample_kernel n j = 1" "ke_world sample_kernel n u = u" "ke_resolve sample_kernel p = Inr sample_model"
    "ke_delegations sample_kernel = None" "ke_budget sample_kernel = None" "rl_maxOutputTokens sample_model = 10" "rl_provider sample_model = ''p''"
    "rl_model sample_model = ''m''" for n j u p by (simp_all add: sample_kernel_def sample_model_def)
  show ?thesis using c s
    unfolding begin_execution_def small_untooled parts_untooled known_untooled fields_untooled
    by (auto simp: kern_bind_def kern_call_def kern_await_def kern_of_def kern_return_def kern_put_def fresh_kernel_def f b
        configured_budget_def truthy_num_def configure_root_def start_run_def conversation_modelInvocations_def run_deadline_def numeral_2_eq_2
        sample_first_run_def Let_def split: option.splits)
qed

lemma sample_begun: "\<exists>r first k. begin_execution sample_kernel (fresh_kernel submitted_db) = (Inr (r, first), k) \<and> kr_budget r = sample_budget"
  using tools_begun [of "[]"] by (simp add: sample_kernel_def)


section \<open>The promises\<close>



text \<open>C14. An execution stays within its budget. When it returns, the turns, the requests to the model (retries included) and the
  calls of tools that are counted do not exceed the limits of the budget it began with, unless the run had used more before it
  began; whatever the model and the tools do, and whatever other code does to the envelopes within their checks.\<close>

theorem kernel_within_budget:
  assumes "envelopes_ok s" and "\<forall>n t. envelopes_ok t \<longrightarrow> envelopes_ok (ke_world ke n t)"
    and "begin_execution ke (fresh_kernel s) = (Inr (r, first), k)"
  shows "case executeAgentRun ke s of (Inl f, t) \<Rightarrow> True | (Inr x, t) \<Rightarrow>
      au_turns (kx_usage x) \<le> max (au_turns (kn_usage k)) (kb_maxTurns (kr_budget r))
      \<and> au_modelCalls (kx_usage x) \<le> max (au_modelCalls (kn_usage k)) (kb_maxModelCalls (kr_budget r))
      \<and> au_toolCalls (kx_usage x) \<le> max (au_toolCalls (kn_usage k)) (kb_maxToolCalls (kr_budget r))"
proof -
  have w: "world_envelopes ke" using assms(2) by (simp add: world_envelopes_def)
  have h: "envelopes_hold ke (fresh_kernel s)" using assms(1) by (simp add: envelopes_hold_def fresh_kernel_def)
  obtain out k1 where e: "execute_turns ke r first k = (out, k1)" by fastforce
  have "kern_keeps (envelopes_hold ke) (begin_execution ke)" by (rule eh.keeps_begin) (simp add: envelopes_hold_def)
  from kern_keepsD [OF this assms(3) h] w have "envelopes_ok (kn_db k)" by (simp add: envelopes_hold_def)
  moreover have "checked_context (kr_started r)" using begin_checked h w assms(3) by (fastforce simp: kern_gives_def)
  ultimately have k1: "within ke r (kn_usage k) k1" "checked_context (kr_started r)" using turns_within w e by blast+
  have b: "kern_bind (begin_execution ke) (\<lambda>(r, first). execute_turns ke r first) (fresh_kernel s) = (out, k1)"
    using assms(3) e by (simp add: kern_bind_def)
  then have "kx_usage x = kn_usage k1" if "out = Inr x" for x using executeAgentRun_ends(2) that by blast
  with k1 w b show ?thesis by (auto simp: executeAgentRun_def within_def split: sum.splits)
qed

theorem kernel_within_budget_witness:
  "\<exists>r first k. begin_execution sample_kernel (fresh_kernel submitted_db) = (Inr (r, first), k) \<and> kr_budget r = sample_budget
     \<and> (case executeAgentRun sample_kernel submitted_db of (Inl f, t) \<Rightarrow> True | (Inr x, t) \<Rightarrow>
          au_modelCalls (kx_usage x) \<le> max (au_modelCalls (kn_usage k)) 10)"
proof -
  from sample_begun obtain r first k where b: "begin_execution sample_kernel (fresh_kernel submitted_db) = (Inr (r, first), k)"
    "kr_budget r = sample_budget" by blast
  have "envelopes_ok submitted_db" "\<forall>n t. envelopes_ok t \<longrightarrow> envelopes_ok (ke_world sample_kernel n t)"
    by (simp_all add: envelopes_ok_def submitted_db_def empty_db_def sample_kernel_def)
  from kernel_within_budget [OF this b(1)] b show ?thesis
    by (auto simp: sample_budget_def split: prod.splits sum.splits)
qed

text \<open>C26. An execution leaves no run running. When it returns, the run is in the state its result names: \<open>COMPLETED\<close> or
  \<open>WAITING_APPROVAL\<close>, \<open>CREATED\<close> and resumable if it waits for a delegation or was interrupted; a failure leaves it \<open>COMPLETED\<close>,
  \<open>FAILED\<close> or \<open>CANCELLED\<close> (after a shutdown of the host: neither running nor resumable), and a cancellation leaves it neither
  running nor waiting for an approval, whatever other code did to the run meanwhile. If no other code moves the run while the
  execution awaits, a failure leaves it \<open>FAILED\<close> and a cancellation leaves it \<open>CANCELLED\<close>.\<close>

theorem kernel_settles_run:
  "case executeAgentRun ke s of (Inl f, t) \<Rightarrow> True | (Inr x, t) \<Rightarrow> settled (ke_runId ke) x t
     \<and> ((\<forall>n u. run_state (ke_runId ke) (ke_world ke n u) = run_state (ke_runId ke) u) \<longrightarrow> settled_alone (ke_runId ke) x t)"
  by (auto simp: world_still_def [symmetric] split: prod.splits sum.splits dest: executeAgentRun_ends(1,3))

theorem kernel_settles_run_witness:
  "case executeAgentRun sample_kernel submitted_db of (Inl f, t) \<Rightarrow> True | (Inr x, t) \<Rightarrow> settled_alone ''r1'' x t"
proof -
  have "ke_runId sample_kernel = ''r1''" "ke_world sample_kernel n u = u" for n u by (simp_all add: sample_kernel_def)
  with kernel_settles_run [of sample_kernel submitted_db] show ?thesis by (auto split: prod.splits sum.splits)
qed

end
