(* ===== verification/Connector_Ledger.thy ===== *)
theory Connector_Ledger
  imports Conversation_Ledger
begin

text \<open>
  The tables of the connectors: accounts of an external service, the conversations bound to its threads, the events that come in,
  and the deliveries that go out with their attempts, receipts and dead letters (\<open>packages/state/src/connector-repository.ts\<close>,
  migrations 025 and 026).
\<close>

section \<open>Accounts and bindings\<close>

definition is_account :: "string \<Rightarrow> string \<Rightarrow> account_row \<Rightarrow> bool" where
  "is_account connectorId accountId r \<longleftrightarrow> na_connectorId r = connectorId \<and> na_accountId r = accountId"

definition getAccount :: "string \<Rightarrow> string \<Rightarrow> db \<Rightarrow> account_row option" where
  "getAccount connectorId accountId s = find (is_account connectorId accountId) (connector_accounts s)"

definition account_checks :: "account_row \<Rightarrow> bool" where
  "account_checks r \<longleftrightarrow> 1 \<le> length (na_connectorId r) \<and> length (na_connectorId r) \<le> 128 \<and> 1 \<le> length (na_accountId r)
     \<and> length (na_accountId r) \<le> 128 \<and> 1 \<le> length (na_extensionId r) \<and> length (na_extensionId r) \<le> 128 \<and> 0 < na_revision r"

definition upsertAccount :: "account_row \<Rightarrow> account_row rop" where
  "upsertAccount row s =
     res_bind (require (account_checks row) (Sql_Constraint Sql_Check)) (\<lambda>_.
     let p = is_account (na_connectorId row) (na_accountId row);
         rows = (if getAccount (na_connectorId row) (na_accountId row) s = None then connector_accounts s @ [row]
           else tbl_modify p (\<lambda>r. r\<lparr>na_workspaceId := na_workspaceId row, na_extensionId := na_extensionId row,
             na_status := na_status row, na_revision := na_revision r + 1, na_updatedAt := na_updatedAt row\<rparr>) (connector_accounts s));
         t = s\<lparr>connector_accounts := rows\<rparr> in
     (case getAccount (na_connectorId row) (na_accountId row) t of None \<Rightarrow> Inl Js_Error | Some r \<Rightarrow> Inr (t, r)))"

definition connector_listAccounts :: "string option \<Rightarrow> db \<Rightarrow> account_row list" where
  "connector_listAccounts connectorId s = (case truthy connectorId of
     Some c \<Rightarrow> sort_key na_accountId (filter (\<lambda>r. na_connectorId r = c) (connector_accounts s))
   | None \<Rightarrow> sort_key (\<lambda>r. (na_connectorId r, na_accountId r)) (connector_accounts s))"

definition binding_route :: "binding_row \<Rightarrow> string \<times> string \<times> string \<times> string \<times> string" where
  "binding_route b = (nb_connectorId b, nb_accountId b, nb_externalScopeId b, nb_externalConversationId b, nb_externalThreadId b)"

definition getBinding :: "string \<Rightarrow> db \<Rightarrow> binding_row option" where
  "getBinding i s = tbl_get nb_bindingId i (connector_bindings s)"

definition getBindingByRoute :: "string \<times> string \<times> string \<times> string \<times> string \<Rightarrow> db \<Rightarrow> binding_row option" where
  "getBindingByRoute route s = tbl_get binding_route route (connector_bindings s)"

definition insertBinding :: "binding_row \<Rightarrow> db \<Rightarrow> err + db" where
  "insertBinding b s =
     res_bind (require (1 \<le> length (nb_externalScopeId b) \<and> length (nb_externalScopeId b) \<le> 256
       \<and> 1 \<le> length (nb_externalConversationId b) \<and> length (nb_externalConversationId b) \<le> 256
       \<and> length (nb_externalThreadId b) \<le> 256) (Sql_Constraint Sql_Check)) (\<lambda>_.
     res_bind (require (getBinding (nb_bindingId b) s = None) (Sql_Constraint (Sql_Unique ''connector_conversation_bindings.binding_id''))) (\<lambda>_.
     res_bind (require (getBindingByRoute (binding_route b) s = None) (Sql_Constraint (Sql_Unique ''connector_conversation_bindings.route''))) (\<lambda>_.
     res_bind (require (getAccount (nb_connectorId b) (nb_accountId b) s \<noteq> None \<and> getConversation (nb_conversationId b) s \<noteq> None)
       (Sql_Constraint Sql_ForeignKey)) (\<lambda>_.
     Inr (s\<lparr>connector_bindings := connector_bindings s @ [b]\<rparr>)))))"

section \<open>Ingress\<close>

definition ingress_event :: "ingress_row \<Rightarrow> string \<times> string \<times> string" where
  "ingress_event r = (ni_connectorId r, ni_accountId r, ni_externalEventId r)"

definition getIngress :: "string \<Rightarrow> db \<Rightarrow> ingress_row option" where
  "getIngress i s = tbl_get ni_ingressId i (connector_ingress_events s)"

definition getIngressByExternalEvent :: "string \<Rightarrow> string \<Rightarrow> string \<Rightarrow> db \<Rightarrow> ingress_row option" where
  "getIngressByExternalEvent connectorId accountId externalEventId s =
     tbl_get ingress_event (connectorId, accountId, externalEventId) (connector_ingress_events s)"

definition newest_ingress :: "ingress_row list \<Rightarrow> ingress_row list" where
  "newest_ingress rows = rev (sort_key (\<lambda>r. (ni_receivedAt r, ni_ingressId r)) rows)"

definition getIngressByRunId :: "string \<Rightarrow> db \<Rightarrow> ingress_row option" where
  "getIngressByRunId runId s = (case newest_ingress (filter (\<lambda>r. ni_runId r = Some runId) (connector_ingress_events s)) of
     [] \<Rightarrow> None | r # rs \<Rightarrow> Some r)"

text \<open>A filter of a listing: what is absent or empty does not restrict it.\<close>

definition opt_match :: "'a option \<Rightarrow> 'a \<Rightarrow> bool" where
  "opt_match v x \<longleftrightarrow> (case v of None \<Rightarrow> True | Some y \<Rightarrow> x = y)"

definition repository_listIngress :: "string option \<Rightarrow> string option \<Rightarrow> ingress_status option \<Rightarrow> nat \<Rightarrow> db \<Rightarrow> ingress_row list" where
  "repository_listIngress connectorId accountId status limit s = take limit (newest_ingress
     (filter (\<lambda>r. opt_match (truthy connectorId) (ni_connectorId r) \<and> opt_match (truthy accountId) (ni_accountId r)
       \<and> opt_match status (ni_status r)) (connector_ingress_events s)))"

text \<open>The constraint between a status and a claim.\<close>

definition ingress_claim_ok :: "ingress_row \<Rightarrow> bool" where
  "ingress_claim_ok r \<longleftrightarrow> (ni_status r = NI_CLAIMED) = (ni_claimToken r \<noteq> None \<and> ni_claimDeadlineAt r \<noteq> None)"

definition ingress_checks :: "ingress_row \<Rightarrow> bool" where
  "ingress_checks r \<longleftrightarrow> 1 \<le> length (ni_externalEventId r) \<and> length (ni_externalEventId r) \<le> 256 \<and> 1 \<le> length (ni_laneKey r)
     \<and> length (ni_laneKey r) \<le> 512 \<and> 0 < ni_payloadVersion r \<and> length (ni_payloadHash r) = 64 \<and> 0 \<le> ni_attemptCount r
     \<and> ingress_claim_ok r"

definition ingress_parents :: "ingress_row \<Rightarrow> db \<Rightarrow> bool" where
  "ingress_parents r s \<longleftrightarrow> getAccount (ni_connectorId r) (ni_accountId r) s \<noteq> None
     \<and> (case ni_bindingId r of None \<Rightarrow> True | Some b \<Rightarrow> getBinding b s \<noteq> None)
     \<and> (case ni_messageId r of None \<Rightarrow> True | Some m \<Rightarrow> getMessage m s \<noteq> None)
     \<and> (case ni_runId r of None \<Rightarrow> True | Some i \<Rightarrow> getRun i s \<noteq> None)"

definition insertIngress :: "ingress_row \<Rightarrow> db \<Rightarrow> err + db" where
  "insertIngress r s =
     res_bind (require (json_stringify (ni_payload r) \<noteq> None) Js_Error) (\<lambda>_.
     res_bind (require (ingress_checks r) (Sql_Constraint Sql_Check)) (\<lambda>_.
     res_bind (require (getIngress (ni_ingressId r) s = None) (Sql_Constraint (Sql_Unique ''connector_ingress_events.ingress_id''))) (\<lambda>_.
     res_bind (require (tbl_get ingress_event (ingress_event r) (connector_ingress_events s) = None)
       (Sql_Constraint (Sql_Unique ''connector_ingress_events.external_event_id''))) (\<lambda>_.
     res_bind (require (ingress_parents r s) (Sql_Constraint Sql_ForeignKey)) (\<lambda>_.
     Inr (s\<lparr>connector_ingress_events := connector_ingress_events s @ [r\<lparr>ni_payload := json_clean (ni_payload r)\<rparr>]\<rparr>))))))"

text \<open>A write to the events that come in, with the number of rows it changed.\<close>

definition ingress_write :: "(ingress_row \<Rightarrow> bool) \<Rightarrow> (ingress_row \<Rightarrow> ingress_row) \<Rightarrow> nat rop" where
  "ingress_write p f s =
     (let t = s\<lparr>connector_ingress_events := tbl_modify p f (connector_ingress_events s)\<rparr> in
      res_bind (require (list_all (\<lambda>r. p r \<longrightarrow> ingress_checks (f r)) (connector_ingress_events s)) (Sql_Constraint Sql_Check)) (\<lambda>_.
      res_bind (require (list_all (\<lambda>r. p r \<longrightarrow> ingress_parents (f r) s) (connector_ingress_events s)) (Sql_Constraint Sql_ForeignKey)) (\<lambda>_.
      Inr (t, tbl_changes p (connector_ingress_events s)))))"

record claim_input =
  ic_connectorId :: string
  ic_accountId :: string
  ic_laneKey :: "string option"
  ic_now :: int
  ic_claimToken :: string
  ic_claimDeadlineAt :: int

definition ingress_due :: "claim_input \<Rightarrow> ingress_row \<Rightarrow> bool" where
  "ingress_due i r \<longleftrightarrow> ni_connectorId r = ic_connectorId i \<and> ni_accountId r = ic_accountId i \<and> ni_status r = NI_RECEIVED
     \<and> ni_availableAt r \<le> ic_now i \<and> opt_match (truthy (ic_laneKey i)) (ni_laneKey r)"

definition repository_claimIngress :: "claim_input \<Rightarrow> ingress_row option rop" where
  "repository_claimIngress i =
     rop_bind (rop_read (\<lambda>s. sort_key (\<lambda>r. (ni_receivedAt r, ni_ingressId r)) (filter (ingress_due i) (connector_ingress_events s)))) (\<lambda>due.
     (case due of
        [] \<Rightarrow> rop_return None
      | candidate # _ \<Rightarrow>
          rop_bind (ingress_write (\<lambda>r. ni_ingressId r = ni_ingressId candidate \<and> ni_status r = NI_RECEIVED)
            (\<lambda>r. r\<lparr>ni_status := NI_CLAIMED, ni_attemptCount := ni_attemptCount r + 1, ni_claimToken := Some (ic_claimToken i),
              ni_claimDeadlineAt := Some (ic_claimDeadlineAt i), ni_updatedAt := ic_now i, ni_lastErrorCode := None,
              ni_lastErrorSummary := None\<rparr>)) (\<lambda>changes.
          if changes \<noteq> 1 then rop_return None else rop_read (getIngress (ni_ingressId candidate)))))"

record ingress_outcome =
  io_ingressId :: string
  io_claimToken :: string
  io_status :: ingress_status
  io_availableAt :: int
  io_bindingId :: "string option"
  io_messageId :: "string option"
  io_runId :: "string option"
  io_errorCode :: "string option"
  io_errorSummary :: "string option"
  io_now :: int

definition outcome_row :: "ingress_outcome \<Rightarrow> ingress_row \<Rightarrow> ingress_row" where
  "outcome_row i r = r\<lparr>ni_status := io_status i, ni_availableAt := io_availableAt i, ni_claimToken := None, ni_claimDeadlineAt := None,
     ni_bindingId := coalesce (io_bindingId i) (ni_bindingId r), ni_messageId := coalesce (io_messageId i) (ni_messageId r),
     ni_runId := coalesce (io_runId i) (ni_runId r), ni_lastErrorCode := io_errorCode i, ni_lastErrorSummary := io_errorSummary i,
     ni_updatedAt := io_now i\<rparr>"

definition ingress_claimed :: "string \<Rightarrow> string \<Rightarrow> ingress_row \<Rightarrow> bool" where
  "ingress_claimed ingressId claimToken r \<longleftrightarrow> ni_ingressId r = ingressId \<and> ni_status r = NI_CLAIMED \<and> ni_claimToken r = Some claimToken"

definition updateIngressClaim :: "ingress_outcome \<Rightarrow> bool rop" where
  "updateIngressClaim i = rop_bind (ingress_write (ingress_claimed (io_ingressId i) (io_claimToken i)) (outcome_row i)) (\<lambda>changes. rop_return (changes = 1))"

definition listExpiredIngressClaims :: "int \<Rightarrow> nat \<Rightarrow> db \<Rightarrow> ingress_row list" where
  "listExpiredIngressClaims now limit s = take limit (sort_key (\<lambda>r. (the (ni_claimDeadlineAt r), ni_ingressId r))
     (filter (\<lambda>r. ni_status r = NI_CLAIMED \<and> (case ni_claimDeadlineAt r of None \<Rightarrow> False | Some d \<Rightarrow> d \<le> now)) (connector_ingress_events s)))"

end
