(* ===== verification/Connector_Outbox.thy ===== *)
theory Connector_Outbox
  imports Connector_Ledger
begin

text \<open>
  The second half of the connector tables: deliveries, their attempts and receipts, and dead letters
  (\<open>packages/state/src/connector-repository.ts\<close>).
\<close>

section \<open>Deliveries\<close>

definition outgoing_key :: "outgoing_row \<Rightarrow> string \<times> string \<times> string" where
  "outgoing_key d = (nd_connectorId d, nd_accountId d, nd_idempotencyKey d)"

definition getDelivery :: "string \<Rightarrow> db \<Rightarrow> outgoing_row option" where
  "getDelivery i s = tbl_get nd_deliveryId i (connector_deliveries s)"

definition getDeliveryByIdempotency :: "string \<Rightarrow> string \<Rightarrow> string \<Rightarrow> db \<Rightarrow> outgoing_row option" where
  "getDeliveryByIdempotency connectorId accountId key s = tbl_get outgoing_key (connectorId, accountId, key) (connector_deliveries s)"

definition repository_listDeliveries :: "string option \<Rightarrow> string option \<Rightarrow> outgoing_status option \<Rightarrow> nat \<Rightarrow> db \<Rightarrow> outgoing_row list" where
  "repository_listDeliveries connectorId accountId status limit s = take limit (rev (sort_key (\<lambda>d. (nd_createdAt d, nd_deliveryId d))
     (filter (\<lambda>d. opt_match (truthy connectorId) (nd_connectorId d) \<and> opt_match (truthy accountId) (nd_accountId d)
       \<and> opt_match status (nd_status d)) (connector_deliveries s))))"

definition outgoing_checks :: "outgoing_row \<Rightarrow> bool" where
  "outgoing_checks d \<longleftrightarrow> 1 \<le> length (nd_targetKey d) \<and> length (nd_targetKey d) \<le> 512 \<and> length (nd_threadKey d) \<le> 256
     \<and> 0 < nd_payloadVersion d \<and> length (nd_payloadHash d) = 64 \<and> 1 \<le> length (nd_idempotencyKey d) \<and> length (nd_idempotencyKey d) \<le> 256
     \<and> 0 \<le> nd_attemptCount d \<and> (nd_status d = ND_DELIVERING) = (nd_claimToken d \<noteq> None \<and> nd_claimDeadlineAt d \<noteq> None)
     \<and> (case nd_cleanupAfter d of None \<Rightarrow> True | Some t \<Rightarrow> 0 \<le> t)"

definition outgoing_parents :: "outgoing_row \<Rightarrow> db \<Rightarrow> bool" where
  "outgoing_parents d s \<longleftrightarrow> getAccount (nd_connectorId d) (nd_accountId d) s \<noteq> None \<and> getConversation (nd_conversationId d) s \<noteq> None
     \<and> (case nd_runId d of None \<Rightarrow> True | Some r \<Rightarrow> getRun r s \<noteq> None)
     \<and> (case nd_sourceMessageId d of None \<Rightarrow> True | Some m \<Rightarrow> getMessage m s \<noteq> None)"

definition insertDelivery :: "outgoing_row \<Rightarrow> db \<Rightarrow> err + db" where
  "insertDelivery d s =
     res_bind (require (json_stringify (nd_payload d) \<noteq> None) Js_Error) (\<lambda>_.
     res_bind (require (outgoing_checks d) (Sql_Constraint Sql_Check)) (\<lambda>_.
     res_bind (require (getDelivery (nd_deliveryId d) s = None) (Sql_Constraint (Sql_Unique ''connector_deliveries.delivery_id''))) (\<lambda>_.
     res_bind (require (tbl_get outgoing_key (outgoing_key d) (connector_deliveries s) = None)
       (Sql_Constraint (Sql_Unique ''connector_deliveries.idempotency_key''))) (\<lambda>_.
     res_bind (require (outgoing_parents d s) (Sql_Constraint Sql_ForeignKey)) (\<lambda>_.
     Inr (s\<lparr>connector_deliveries := connector_deliveries s @ [d\<lparr>nd_payload := json_clean (nd_payload d)\<rparr>]\<rparr>))))))"

text \<open>A write to the deliveries, with the number of rows it changed. No column of a foreign key is written.\<close>

definition outgoing_write :: "(outgoing_row \<Rightarrow> bool) \<Rightarrow> (outgoing_row \<Rightarrow> outgoing_row) \<Rightarrow> nat rop" where
  "outgoing_write p f s =
     res_bind (require (list_all (\<lambda>d. p d \<longrightarrow> outgoing_checks (f d)) (connector_deliveries s)) (Sql_Constraint Sql_Check)) (\<lambda>_.
     Inr (s\<lparr>connector_deliveries := tbl_modify p f (connector_deliveries s)\<rparr>, tbl_changes p (connector_deliveries s)))"

section \<open>Attempts\<close>

definition getDeliveryAttempt :: "string \<Rightarrow> db \<Rightarrow> dispatch_row option" where
  "getDeliveryAttempt i s = tbl_get ny_attemptId i (connector_delivery_attempts s)"

definition getDeliveryAttemptByClaim :: "string \<Rightarrow> db \<Rightarrow> dispatch_row option" where
  "getDeliveryAttemptByClaim token s = tbl_get ny_claimToken token (connector_delivery_attempts s)"

definition dispatch_number :: "dispatch_row \<Rightarrow> string \<times> int" where
  "dispatch_number a = (ny_deliveryId a, ny_attemptNumber a)"

definition insertAttemptRow :: "dispatch_row \<Rightarrow> db \<Rightarrow> err + db" where
  "insertAttemptRow a s =
     res_bind (require (0 < ny_attemptNumber a \<and> length (ny_requestHash a) = 64) (Sql_Constraint Sql_Check)) (\<lambda>_.
     res_bind (require (getDeliveryAttempt (ny_attemptId a) s = None) (Sql_Constraint (Sql_Unique ''connector_delivery_attempts.attempt_id''))) (\<lambda>_.
     res_bind (require (getDeliveryAttemptByClaim (ny_claimToken a) s = None) (Sql_Constraint (Sql_Unique ''connector_delivery_attempts.claim_token''))) (\<lambda>_.
     res_bind (require (tbl_get dispatch_number (dispatch_number a) (connector_delivery_attempts s) = None)
       (Sql_Constraint (Sql_Unique ''connector_delivery_attempts.attempt_number''))) (\<lambda>_.
     res_bind (require (getDelivery (ny_deliveryId a) s \<noteq> None) (Sql_Constraint Sql_ForeignKey)) (\<lambda>_.
     Inr (s\<lparr>connector_delivery_attempts := connector_delivery_attempts s @ [a]\<rparr>))))))"

text \<open>A write to the attempts. No column of a constraint is written.\<close>

definition dispatch_write :: "(dispatch_row \<Rightarrow> bool) \<Rightarrow> (dispatch_row \<Rightarrow> dispatch_row) \<Rightarrow> nat rop" where
  "dispatch_write p f s = Inr (s\<lparr>connector_delivery_attempts := tbl_modify p f (connector_delivery_attempts s)\<rparr>,
     tbl_changes p (connector_delivery_attempts s))"

definition outgoing_due :: "string \<Rightarrow> string \<Rightarrow> int \<Rightarrow> outgoing_row \<Rightarrow> bool" where
  "outgoing_due connectorId accountId now d \<longleftrightarrow> nd_connectorId d = connectorId \<and> nd_accountId d = accountId \<and> nd_status d = ND_PENDING
     \<and> nd_availableAt d \<le> now"

definition claimed_outgoing :: "int \<Rightarrow> string \<Rightarrow> int \<Rightarrow> int \<Rightarrow> outgoing_row \<Rightarrow> outgoing_row" where
  "claimed_outgoing number token deadline now d = d\<lparr>nd_status := ND_DELIVERING, nd_attemptCount := number, nd_claimToken := Some token,
     nd_claimDeadlineAt := Some deadline, nd_updatedAt := now, nd_lastErrorCode := None, nd_lastErrorSummary := None\<rparr>"

definition repository_claimDelivery :: "string \<Rightarrow> string \<Rightarrow> int \<Rightarrow> string \<Rightarrow> int \<Rightarrow> string \<Rightarrow> (outgoing_row \<times> dispatch_row) option rop" where
  "repository_claimDelivery connectorId accountId now token deadline attemptId =
     rop_bind (rop_read (\<lambda>s. sort_key (\<lambda>d. (nd_createdAt d, nd_deliveryId d)) (filter (outgoing_due connectorId accountId now) (connector_deliveries s)))) (\<lambda>due.
     (case due of
        [] \<Rightarrow> rop_return None
      | candidate # _ \<Rightarrow>
          let i = nd_deliveryId candidate; number = nd_attemptCount candidate + 1 in
          rop_bind (outgoing_write (\<lambda>d. nd_deliveryId d = i \<and> nd_status d = ND_PENDING) (claimed_outgoing number token deadline now)) (\<lambda>changes.
          if changes \<noteq> 1 then rop_return None
          else
            rop_bind (rop_do (insertAttemptRow \<lparr>ny_attemptId = attemptId, ny_deliveryId = i, ny_attemptNumber = number, ny_claimToken = token,
              ny_requestHash = nd_payloadHash candidate, ny_status = NT_CLAIMED, ny_errorCode = None, ny_errorSummary = None,
              ny_startedAt = now, ny_dispatchedAt = None, ny_endedAt = None\<rparr>)) (\<lambda>_.
            rop_bind (rop_found Js_Error (getDelivery i)) (\<lambda>d.
            rop_bind (rop_found Js_Error (getDeliveryAttempt attemptId)) (\<lambda>a.
            rop_return (Some (d, a))))))))"

definition repository_markDispatched :: "string \<Rightarrow> string \<Rightarrow> int \<Rightarrow> dispatch_row option rop" where
  "repository_markDispatched deliveryId token now =
     rop_bind (dispatch_write (\<lambda>a. ny_deliveryId a = deliveryId \<and> ny_claimToken a = token \<and> ny_status a = NT_CLAIMED)
       (\<lambda>a. a\<lparr>ny_status := NT_DISPATCHED, ny_dispatchedAt := Some now\<rparr>)) (\<lambda>changes.
     if changes \<noteq> 1 then rop_return None else rop_read (getDeliveryAttemptByClaim token))"

record finish_attempt =
  fa_deliveryId :: string
  fa_claimToken :: string
  fa_attemptStatus :: dispatch_status
  fa_deliveryStatus :: outgoing_status
  fa_availableAt :: int
  fa_errorCode :: "string option"
  fa_errorSummary :: "string option"
  fa_now :: int

definition attempt_open :: "dispatch_row \<Rightarrow> bool" where
  "attempt_open a \<longleftrightarrow> ny_status a = NT_CLAIMED \<or> ny_status a = NT_DISPATCHED"

definition outgoing_claimed :: "finish_attempt \<Rightarrow> outgoing_row \<Rightarrow> bool" where
  "outgoing_claimed i d \<longleftrightarrow> nd_deliveryId d = fa_deliveryId i \<and> nd_status d = ND_DELIVERING \<and> nd_claimToken d = Some (fa_claimToken i)"

definition finished_outgoing :: "finish_attempt \<Rightarrow> outgoing_row \<Rightarrow> outgoing_row" where
  "finished_outgoing i d = d\<lparr>nd_status := fa_deliveryStatus i, nd_availableAt := fa_availableAt i, nd_claimToken := None,
     nd_claimDeadlineAt := None, nd_lastErrorCode := fa_errorCode i, nd_lastErrorSummary := fa_errorSummary i, nd_updatedAt := fa_now i\<rparr>"

definition finished_dispatch :: "finish_attempt \<Rightarrow> dispatch_row \<Rightarrow> dispatch_row" where
  "finished_dispatch i a = a\<lparr>ny_status := fa_attemptStatus i, ny_errorCode := fa_errorCode i, ny_errorSummary := fa_errorSummary i,
     ny_endedAt := Some (fa_now i)\<rparr>"

definition finishDeliveryAttempt :: "finish_attempt \<Rightarrow> bool rop" where
  "finishDeliveryAttempt i =
     rop_bind (rop_read (getDeliveryAttemptByClaim (fa_claimToken i))) (\<lambda>attempt.
     (case attempt of
        None \<Rightarrow> rop_return False
      | Some a \<Rightarrow>
          if ny_deliveryId a \<noteq> fa_deliveryId i \<or> \<not> attempt_open a then rop_return False
          else
            rop_bind (dispatch_write (\<lambda>x. ny_attemptId x = ny_attemptId a \<and> attempt_open x) (finished_dispatch i)) (\<lambda>n.
            if n \<noteq> 1 then rop_return False
            else
              rop_bind (outgoing_write (outgoing_claimed i) (finished_outgoing i)) (\<lambda>m.
              rop_bind (rop_require (m = 1) (State_Error STATE_SCHEMA_INCONSISTENT ''connector delivery claim disappeared while finishing attempt'')) (\<lambda>_.
              rop_return True)))))"

section \<open>Receipts and dead letters\<close>

definition getReceiptByAttempt :: "string \<Rightarrow> db \<Rightarrow> receipt_row option" where
  "getReceiptByAttempt i s = tbl_get nr_attemptId i (connector_delivery_receipts s)"

definition getReceiptByDelivery :: "string \<Rightarrow> db \<Rightarrow> receipt_row option" where
  "getReceiptByDelivery i s = (case rev (sort_key (\<lambda>r. (nr_acceptedAt r, nr_receiptId r))
       (filter (\<lambda>r. nr_deliveryId r = i) (connector_delivery_receipts s))) of [] \<Rightarrow> None | r # rs \<Rightarrow> Some r)"

definition receipt_message :: "receipt_row \<Rightarrow> string \<times> string" where
  "receipt_message r = (nr_deliveryId r, nr_providerMessageId r)"

definition insertReceipt :: "receipt_row \<Rightarrow> db \<Rightarrow> err + db" where
  "insertReceipt r s =
     res_bind (require (json_stringify (nr_receipt r) \<noteq> None) Js_Error) (\<lambda>_.
     res_bind (require (1 \<le> length (nr_providerMessageId r) \<and> length (nr_providerMessageId r) \<le> 512 \<and> length (nr_receiptHash r) = 64)
       (Sql_Constraint Sql_Check)) (\<lambda>_.
     res_bind (require (tbl_get nr_receiptId (nr_receiptId r) (connector_delivery_receipts s) = None)
       (Sql_Constraint (Sql_Unique ''connector_delivery_receipts.receipt_id''))) (\<lambda>_.
     res_bind (require (getReceiptByAttempt (nr_attemptId r) s = None) (Sql_Constraint (Sql_Unique ''connector_delivery_receipts.attempt_id''))) (\<lambda>_.
     res_bind (require (tbl_get receipt_message (receipt_message r) (connector_delivery_receipts s) = None)
       (Sql_Constraint (Sql_Unique ''connector_delivery_receipts.provider_message_id''))) (\<lambda>_.
     res_bind (require (getDelivery (nr_deliveryId r) s \<noteq> None \<and> getDeliveryAttempt (nr_attemptId r) s \<noteq> None) (Sql_Constraint Sql_ForeignKey)) (\<lambda>_.
     Inr (s\<lparr>connector_delivery_receipts := connector_delivery_receipts s @ [r\<lparr>nr_receipt := json_clean (nr_receipt r)\<rparr>]\<rparr>)))))))"

definition letter_subject :: "letter_row \<Rightarrow> letter_kind \<times> string" where
  "letter_subject l = (nl_kind l, nl_subjectId l)"

definition letter_checks :: "letter_row \<Rightarrow> bool" where
  "letter_checks l \<longleftrightarrow> 1 \<le> length (nl_reasonCode l) \<and> length (nl_reasonCode l) \<le> 128 \<and> 1 \<le> length (nl_summary l) \<and> length (nl_summary l) \<le> 1000
     \<and> length (nl_payloadHash l) = 64"

text \<open>A second letter about one subject opens the first again.\<close>

definition insertDeadLetter :: "letter_row \<Rightarrow> db \<Rightarrow> err + db" where
  "insertDeadLetter l s =
     res_bind (require (letter_checks l) (Sql_Constraint Sql_Check)) (\<lambda>_.
     if tbl_get letter_subject (letter_subject l) (connector_dead_letters s) \<noteq> None
     then Inr (s\<lparr>connector_dead_letters := tbl_modify (\<lambda>x. letter_subject x = letter_subject l)
       (\<lambda>x. x\<lparr>nl_reasonCode := nl_reasonCode l, nl_summary := nl_summary l, nl_payloadHash := nl_payloadHash l, nl_status := LETTER_OPEN,
         nl_resolvedAt := None, nl_resolution := None\<rparr>) (connector_dead_letters s)\<rparr>)
     else
       res_bind (require (tbl_get nl_deadLetterId (nl_deadLetterId l) (connector_dead_letters s) = None)
         (Sql_Constraint (Sql_Unique ''connector_dead_letters.dead_letter_id''))) (\<lambda>_.
       res_bind (require (getAccount (nl_connectorId l) (nl_accountId l) s \<noteq> None) (Sql_Constraint Sql_ForeignKey)) (\<lambda>_.
       Inr (s\<lparr>connector_dead_letters := connector_dead_letters s @ [l]\<rparr>))))"

definition repository_listDeadLetters :: "string option \<Rightarrow> string option \<Rightarrow> letter_status option \<Rightarrow> nat \<Rightarrow> db \<Rightarrow> letter_row list" where
  "repository_listDeadLetters connectorId accountId status limit s = take limit (rev (sort_key (\<lambda>l. (nl_createdAt l, nl_deadLetterId l))
     (filter (\<lambda>l. opt_match (truthy connectorId) (nl_connectorId l) \<and> opt_match (truthy accountId) (nl_accountId l)
       \<and> opt_match status (nl_status l)) (connector_dead_letters s))))"

section \<open>Expired claims\<close>

text \<open>The join of the deliveries and the attempts: a token belongs to one attempt.\<close>

definition expired_claim :: "int \<Rightarrow> db \<Rightarrow> outgoing_row \<Rightarrow> (outgoing_row \<times> dispatch_row) option" where
  "expired_claim now s d =
     (if nd_status d = ND_DELIVERING \<and> (case nd_claimDeadlineAt d of None \<Rightarrow> False | Some t \<Rightarrow> t \<le> now)
      then (case (case nd_claimToken d of None \<Rightarrow> None | Some t \<Rightarrow> getDeliveryAttemptByClaim t s) of
          None \<Rightarrow> None
        | Some a \<Rightarrow> if ny_deliveryId a = nd_deliveryId d \<and> attempt_open a then Some (d, a) else None)
      else None)"

definition listExpiredDeliveryClaims :: "int \<Rightarrow> nat \<Rightarrow> db \<Rightarrow> (outgoing_row \<times> dispatch_row) list" where
  "listExpiredDeliveryClaims now limit s = take limit (sort_key (\<lambda>(d, a). (the (nd_claimDeadlineAt d), nd_deliveryId d))
     (List.map_filter (expired_claim now s) (connector_deliveries s)))"

end
