(* ===== verification/Connector_Service.thy ===== *)
theory Connector_Service
  imports Connector_Outbox Conversation_Service
begin

text \<open>
  \<open>packages/connectors/src/service.ts\<close>, first half: accounts, and the events of a connector from their admission to the message and
  the run they become. An event is claimed with a token and a deadline; whoever holds the token adopts, ignores or fails it.
  Parameters: readings of the clock, identifiers, the hash.
\<close>

section \<open>Arguments\<close>

record connector_service =
  kc_conversations :: conversation_service
  kc_workspaceIds :: "string list"
  kc_sha256 :: "string \<Rightarrow> string"
  kc_ingressLeaseMs :: int
  kc_deliveryLeaseMs :: int
  kc_maxDeliveryAttempts :: int

text \<open>\<open>/^[A-Za-z0-9][A-Za-z0-9._:-]{0,255}$/\<close>.\<close>

definition id_pattern :: "string \<Rightarrow> bool" where
  "id_pattern v \<longleftrightarrow> starts_then alnum (\<lambda>c. alnum c \<or> c \<in> set ''._:-'') v \<and> length v \<le> 256"

definition connector_invalid :: err where
  "connector_invalid = Connector_Error CONNECTOR_INVALID_ARGUMENT"

definition connector_bounded :: "string \<Rightarrow> nat \<Rightarrow> (string \<Rightarrow> bool) \<Rightarrow> err + string" where
  "connector_bounded v limit pattern = (if v = [] \<or> length v > limit \<or> \<not> pattern v then Inl connector_invalid else Inr v)"

definition connector_optional :: "string option \<Rightarrow> nat \<Rightarrow> err + unit" where
  "connector_optional v limit = (case v of None \<Rightarrow> Inr () | Some x \<Rightarrow> res_bind (connector_bounded x limit any_text) (\<lambda>_. Inr ()))"

definition positiveInteger :: "int \<Rightarrow> int \<Rightarrow> err + int" where
  "positiveInteger v limit = (if v < 1 \<or> v > limit then Inl connector_invalid else Inr v)"

text \<open>The constructor of the service.\<close>

definition connector_service_new ::
    "conversation_service \<Rightarrow> string list \<Rightarrow> (string \<Rightarrow> string) \<Rightarrow> int option \<Rightarrow> int option \<Rightarrow> int option \<Rightarrow> err + connector_service" where
  "connector_service_new cs workspaceIds sha256 ingressLeaseMs deliveryLeaseMs maxDeliveryAttempts =
     res_bind (positiveInteger (or_default ingressLeaseMs 30000) (15 * 60000)) (\<lambda>a.
     res_bind (positiveInteger (or_default deliveryLeaseMs 30000) (15 * 60000)) (\<lambda>b.
     res_bind (positiveInteger (or_default maxDeliveryAttempts 5) 100) (\<lambda>c.
     Inr \<lparr>kc_conversations = cs, kc_workspaceIds = workspaceIds, kc_sha256 = sha256, kc_ingressLeaseMs = a, kc_deliveryLeaseMs = b,
       kc_maxDeliveryAttempts = c\<rparr>)))"

definition connector_hash :: "connector_service \<Rightarrow> json \<Rightarrow> string" where
  "connector_hash kc v = kc_sha256 kc (canonical v)"

text \<open>\<open>replace(/[\r\n\t]+/g, " ")\<close>: \<open>inside\<close> a run of breaks nothing more is written.\<close>

definition line_break :: "char \<Rightarrow> bool" where
  "line_break c \<longleftrightarrow> of_char c \<in> {9 :: nat, 10, 13}"

primrec join_lines :: "bool \<Rightarrow> string \<Rightarrow> string" where
  "join_lines inside [] = []"
| "join_lines inside (c # cs) = (if line_break c then (if inside then join_lines True cs else CHR '' '' # join_lines True cs)
     else c # join_lines False cs)"

definition bounded_summary :: "string \<Rightarrow> string \<Rightarrow> string" where
  "bounded_summary v fallback = (let normalized = js_trim (join_lines False v) in take 1000 (if normalized = [] then fallback else normalized))"

definition connector_workspace :: "connector_service \<Rightarrow> string \<Rightarrow> err + unit" where
  "connector_workspace kc workspaceId =
     res_bind (connector_bounded workspaceId 64 workspace_pattern) (\<lambda>_.
     require (workspaceId \<in> set (kc_workspaceIds kc)) (Connector_Error CONNECTOR_WORKSPACE_ACCESS_DENIED))"

section \<open>Accounts\<close>

definition enabled_account :: "connector_service \<Rightarrow> string \<Rightarrow> string \<Rightarrow> account_row rop" where
  "enabled_account kc connectorId accountId =
     rop_bind (rop_found (Connector_Error CONNECTOR_ACCOUNT_NOT_FOUND) (getAccount connectorId accountId)) (\<lambda>account.
     rop_bind (rop_require (na_status account = ENABLED) (Connector_Error CONNECTOR_ACCOUNT_DISABLED)) (\<lambda>_.
     rop_bind (rop_of (connector_workspace kc (na_workspaceId account))) (\<lambda>_.
     rop_return account)))"

definition registerAccount ::
    "connector_service \<Rightarrow> int \<Rightarrow> string \<Rightarrow> string \<Rightarrow> string \<Rightarrow> string \<Rightarrow> account_status option \<Rightarrow> account_row svc" where
  "registerAccount kc now connectorId accountId workspaceId extensionId status =
     svc_bind (svc_of (connector_bounded connectorId 128 id_pattern)) (\<lambda>_.
     svc_bind (svc_of (connector_bounded accountId 128 id_pattern)) (\<lambda>_.
     svc_bind (svc_of (connector_bounded extensionId 128 id_pattern)) (\<lambda>_.
     svc_bind (svc_of (connector_workspace kc workspaceId)) (\<lambda>_.
     transaction (
       rop_bind (rop_read (getAccount connectorId accountId)) (\<lambda>existing.
       rop_bind (rop_require (case existing of None \<Rightarrow> True
           | Some a \<Rightarrow> na_workspaceId a = workspaceId \<and> na_extensionId a = extensionId) (Connector_Error CONNECTOR_BINDING_CONFLICT)) (\<lambda>_.
       upsertAccount \<lparr>na_connectorId = connectorId, na_accountId = accountId, na_workspaceId = workspaceId, na_extensionId = extensionId,
         na_status = or_default status ENABLED, na_revision = 1,
         na_createdAt = (case existing of None \<Rightarrow> now | Some a \<Rightarrow> na_createdAt a), na_updatedAt = now\<rparr>)))))))"

definition service_listAccounts :: "string option \<Rightarrow> account_row list svc" where
  "service_listAccounts connectorId =
     svc_bind (svc_of (case connectorId of None \<Rightarrow> Inr () | Some c \<Rightarrow> res_bind (connector_bounded c 128 id_pattern) (\<lambda>_. Inr ()))) (\<lambda>_.
     svc_read (connector_listAccounts connectorId))"

section \<open>Admission\<close>

record ingress_admission =
  ia_accountId :: string
  ia_externalEventId :: string
  ia_laneKey :: string
  ia_payloadVersion :: int
  ia_payload :: json
  ia_receivedAt :: "int option"

definition new_ingress :: "connector_service \<Rightarrow> string \<Rightarrow> string \<Rightarrow> ingress_admission \<Rightarrow> int \<Rightarrow> ingress_row" where
  "new_ingress kc ingressId connectorId i now = \<lparr>ni_ingressId = ingressId, ni_connectorId = connectorId, ni_accountId = ia_accountId i,
     ni_externalEventId = ia_externalEventId i, ni_laneKey = ia_laneKey i, ni_payloadVersion = ia_payloadVersion i,
     ni_payload = ia_payload i, ni_payloadHash = connector_hash kc (ia_payload i), ni_status = NI_RECEIVED, ni_attemptCount = 0,
     ni_availableAt = now, ni_claimToken = None, ni_claimDeadlineAt = None, ni_bindingId = None, ni_messageId = None, ni_runId = None,
     ni_lastErrorCode = None, ni_lastErrorSummary = None, ni_receivedAt = now, ni_updatedAt = now\<rparr>"

definition same_ingress :: "connector_service \<Rightarrow> ingress_admission \<Rightarrow> ingress_row \<Rightarrow> bool" where
  "same_ingress kc i r \<longleftrightarrow> ni_laneKey r = ia_laneKey i \<and> ni_payloadVersion r = ia_payloadVersion i
     \<and> ni_payloadHash r = connector_hash kc (ia_payload i) \<and> same_json (ni_payload r) (ia_payload i)"

definition admit_ingress :: "connector_service \<Rightarrow> string \<Rightarrow> int \<Rightarrow> string \<Rightarrow> ingress_admission \<Rightarrow> (ingress_row \<times> bool) rop" where
  "admit_ingress kc ingressId now connectorId i =
     rop_bind (enabled_account kc connectorId (ia_accountId i)) (\<lambda>_.
     rop_bind (rop_read (getIngressByExternalEvent connectorId (ia_accountId i) (ia_externalEventId i))) (\<lambda>existing.
     (case existing of
        Some r \<Rightarrow> rop_bind (rop_require (same_ingress kc i r) (Connector_Error CONNECTOR_INGRESS_CONFLICT)) (\<lambda>_. rop_return (r, True))
      | None \<Rightarrow> rop_bind (rop_do (insertIngress (new_ingress kc ingressId connectorId i now)))
          (\<lambda>_. rop_return (new_ingress kc ingressId connectorId i now, False)))))"

text \<open>The event as it is stored, and whether it was stored before.\<close>

definition receiveIngress :: "connector_service \<Rightarrow> string \<Rightarrow> int \<Rightarrow> string \<Rightarrow> ingress_admission \<Rightarrow> (ingress_row \<times> bool) svc" where
  "receiveIngress kc ingressId clock connectorId i =
     svc_bind (svc_of (connector_bounded connectorId 128 id_pattern)) (\<lambda>_.
     svc_bind (svc_of (connector_bounded (ia_accountId i) 128 id_pattern)) (\<lambda>_.
     svc_bind (svc_of (connector_bounded (ia_externalEventId i) 256 any_text)) (\<lambda>_.
     svc_bind (svc_of (connector_bounded (ia_laneKey i) 512 any_text)) (\<lambda>_.
     svc_bind (svc_of (positiveInteger (ia_payloadVersion i) 1000000)) (\<lambda>_.
     let now = or_default (ia_receivedAt i) clock in
     svc_bind (svc_require (0 \<le> now) connector_invalid) (\<lambda>_.
     transaction (admit_ingress kc ingressId now connectorId i)))))))"

section \<open>Claims\<close>

record ingress_claim =
  il_ingress :: ingress_row
  il_claimToken :: string
  il_claimDeadlineAt :: int

definition reclaim_ingress :: "int \<Rightarrow> ingress_row \<Rightarrow> nat rop" where
  "reclaim_ingress now r = (case truthy (ni_claimToken r) of
     None \<Rightarrow> rop_return 0
   | Some token \<Rightarrow> rop_bind (updateIngressClaim \<lparr>io_ingressId = ni_ingressId r, io_claimToken = token, io_status = NI_RECEIVED,
       io_availableAt = now, io_bindingId = None, io_messageId = None, io_runId = None, io_errorCode = Some ''HOST_RESTART_RECLAIMED'',
       io_errorSummary = Some ''expired ingress claim was safely reclaimed'', io_now = now\<rparr>) (\<lambda>ok. rop_return (if ok then 1 else 0)))"

definition recoverExpiredIngress :: "int \<Rightarrow> nat \<Rightarrow> nat rop" where
  "recoverExpiredIngress now limit =
     rop_bind (rop_read (listExpiredIngressClaims now limit)) (\<lambda>claims.
     rop_bind (rop_each (reclaim_ingress now) claims) (\<lambda>ns. rop_return (sum_list ns)))"

definition recoverExpiredIngressClaims :: "int \<Rightarrow> int \<Rightarrow> nat svc" where
  "recoverExpiredIngressClaims now limit =
     svc_bind (svc_of (positiveInteger limit 1000)) (\<lambda>_. transaction (recoverExpiredIngress now (nat limit)))"

definition service_claimIngress :: "connector_service \<Rightarrow> string \<Rightarrow> int \<Rightarrow> string \<Rightarrow> string \<Rightarrow> string option \<Rightarrow> ingress_claim option svc" where
  "service_claimIngress kc token now connectorId accountId laneKey =
     svc_bind (svc_of (connector_bounded connectorId 128 id_pattern)) (\<lambda>_.
     svc_bind (svc_of (connector_bounded accountId 128 id_pattern)) (\<lambda>_.
     svc_bind (svc_of (connector_optional laneKey 512)) (\<lambda>_.
     transaction (
       rop_bind (enabled_account kc connectorId accountId) (\<lambda>_.
       rop_bind (recoverExpiredIngress now 100) (\<lambda>_.
       let deadline = now + kc_ingressLeaseMs kc in
       rop_bind (repository_claimIngress \<lparr>ic_connectorId = connectorId, ic_accountId = accountId, ic_laneKey = laneKey, ic_now = now,
         ic_claimToken = token, ic_claimDeadlineAt = deadline\<rparr>) (\<lambda>claimed.
       rop_return (map_option (\<lambda>r. \<lparr>il_ingress = r, il_claimToken = token, il_claimDeadlineAt = deadline\<rparr>) claimed))))))))"

text \<open>The event of a claim: it is the claimant's, or it was adopted.\<close>

definition requireIngressClaim :: "ingress_claim \<Rightarrow> ingress_row rop" where
  "requireIngressClaim claim =
     rop_bind (rop_found (Connector_Error CONNECTOR_INGRESS_NOT_FOUND) (getIngress (ni_ingressId (il_ingress claim)))) (\<lambda>current.
     if ni_status current = NI_ADOPTED then rop_return current
     else
       rop_bind (rop_require (ni_status current = NI_CLAIMED) (Connector_Error CONNECTOR_INGRESS_STATE_INVALID)) (\<lambda>_.
       rop_bind (rop_require (ni_claimToken current = Some (il_claimToken claim)) (Connector_Error CONNECTOR_INGRESS_CLAIM_LOST)) (\<lambda>_.
       rop_return current)))"

definition finish_ingress :: "ingress_outcome \<Rightarrow> ingress_row rop" where
  "finish_ingress outcome =
     rop_bind (updateIngressClaim outcome) (\<lambda>ok.
     rop_bind (rop_require ok (Connector_Error CONNECTOR_INGRESS_CLAIM_LOST)) (\<lambda>_.
     rop_found Js_Error (getIngress (io_ingressId outcome))))"

definition outcome_of :: "ingress_claim \<Rightarrow> string \<Rightarrow> ingress_status \<Rightarrow> int \<Rightarrow> string option \<Rightarrow> string option \<Rightarrow> int \<Rightarrow> ingress_outcome" where
  "outcome_of claim ingressId status availableAt code summary now = \<lparr>io_ingressId = ingressId, io_claimToken = il_claimToken claim,
     io_status = status, io_availableAt = availableAt, io_bindingId = None, io_messageId = None, io_runId = None, io_errorCode = code,
     io_errorSummary = summary, io_now = now\<rparr>"

section \<open>Adoption\<close>

record ingress_route =
  ir_workspaceId :: string
  ir_externalScopeId :: string
  ir_externalConversationId :: string
  ir_externalThreadId :: "string option"
  ir_modelProfile :: "string option"
  ir_title :: "string option"

record adoption =
  aq_ingress :: ingress_row
  aq_binding :: binding_row
  aq_conversationId :: string
  aq_messageId :: string
  aq_runId :: string
  aq_replayed :: bool

definition route_thread :: "ingress_route \<Rightarrow> string" where
  "route_thread route = or_default (ir_externalThreadId route) []"

text \<open>An event that was adopted before is replayed when it comes with the same route and text.\<close>

definition route_matches :: "ingress_route \<Rightarrow> binding_row \<Rightarrow> conversation_row \<Rightarrow> bool" where
  "route_matches route b c \<longleftrightarrow> nb_workspaceId b = ir_workspaceId route \<and> nb_externalScopeId b = ir_externalScopeId route
     \<and> nb_externalConversationId b = ir_externalConversationId route \<and> nb_externalThreadId b = route_thread route
     \<and> c_modelProfile c = or_default (ir_modelProfile route) ''default'' \<and> c_title c = ir_title route"

definition text_matches :: "string \<Rightarrow> message_row \<Rightarrow> bool" where
  "text_matches txt m \<longleftrightarrow> m_role m = Role_user \<and> same_json (m_content m) (JObj [(''type'', JStr ''text''), (''text'', JStr txt)])"

definition replay_adoption :: "ingress_route \<Rightarrow> string \<Rightarrow> ingress_row \<Rightarrow> adoption rop" where
  "replay_adoption route txt ingress =
     rop_bind (rop_read (\<lambda>s. (Option.bind (truthy (ni_bindingId ingress)) (\<lambda>i. getBinding i s),
       Option.bind (truthy (ni_messageId ingress)) (\<lambda>i. getMessage i s)))) (\<lambda>(binding, message).
     rop_bind (rop_read (\<lambda>s. Option.bind binding (\<lambda>b. getConversation (nb_conversationId b) s))) (\<lambda>conversation.
     (case (binding, message, conversation, truthy (ni_runId ingress)) of
        (Some b, Some m, Some c, Some runId) \<Rightarrow>
          rop_bind (rop_require (route_matches route b c \<and> text_matches txt m) (Connector_Error CONNECTOR_INGRESS_CONFLICT)) (\<lambda>_.
          rop_return \<lparr>aq_ingress = ingress, aq_binding = b, aq_conversationId = nb_conversationId b,
            aq_messageId = or_default (ni_messageId ingress) [], aq_runId = runId, aq_replayed = True\<rparr>)
      | _ \<Rightarrow> rop_throw (Connector_Error CONNECTOR_INGRESS_STATE_INVALID))))"

text \<open>The binding of the route; the first event of a thread creates its conversation. \<open>ids 0\<close> is the conversation, \<open>ids 1\<close> the binding.\<close>

definition bound_conversation ::
    "connector_service \<Rightarrow> (nat \<Rightarrow> string) \<Rightarrow> (nat \<Rightarrow> int) \<Rightarrow> ingress_row \<Rightarrow> ingress_route \<Rightarrow> binding_row rop" where
  "bound_conversation kc ids clock ingress route =
     rop_bind (rop_read (getBindingByRoute (ni_connectorId ingress, ni_accountId ingress, ir_externalScopeId route,
       ir_externalConversationId route, route_thread route))) (\<lambda>existing.
     (case existing of
        Some b \<Rightarrow> rop_bind (rop_require (nb_workspaceId b = ir_workspaceId route) (Connector_Error CONNECTOR_BINDING_CONFLICT)) (\<lambda>_. rop_return b)
      | None \<Rightarrow>
          rop_bind (createWithRepositories (kc_conversations kc) (ids 0) (clock 0) (clock 1) (ir_workspaceId route) (ir_modelProfile route)
            (ir_title route)) (\<lambda>conversation.
          let b = \<lparr>nb_bindingId = ids 1, nb_connectorId = ni_connectorId ingress, nb_accountId = ni_accountId ingress,
                nb_workspaceId = ir_workspaceId route, nb_externalScopeId = ir_externalScopeId route,
                nb_externalConversationId = ir_externalConversationId route, nb_externalThreadId = route_thread route,
                nb_conversationId = cv_conversationId (cy_conversation conversation), nb_createdAt = clock 2, nb_updatedAt = clock 3\<rparr> in
          rop_bind (rop_do (insertBinding b)) (\<lambda>_. rop_return b))))"

definition submission_key :: "connector_service \<Rightarrow> ingress_row \<Rightarrow> string" where
  "submission_key kc r = ''connector:'' @ take 64 (connector_hash kc (JObj [(''connectorId'', JStr (ni_connectorId r)),
     (''accountId'', JStr (ni_accountId r)), (''externalEventId'', JStr (ni_externalEventId r))]))"

definition adopt_event ::
    "connector_service \<Rightarrow> (nat \<Rightarrow> string) \<Rightarrow> (nat \<Rightarrow> int) \<Rightarrow> ingress_claim \<Rightarrow> ingress_route \<Rightarrow> string \<Rightarrow> ingress_row \<Rightarrow> adoption rop" where
  "adopt_event kc ids clock claim route txt ingress =
     rop_bind (enabled_account kc (ni_connectorId ingress) (ni_accountId ingress)) (\<lambda>account.
     rop_bind (rop_require (na_workspaceId account = ir_workspaceId route) (Connector_Error CONNECTOR_BINDING_CONFLICT)) (\<lambda>_.
     rop_bind (bound_conversation kc ids clock ingress route) (\<lambda>binding.
     rop_bind (sendInTransaction (kc_conversations kc) (\<lambda>n. ids (n + 2)) (clock 4) (clock 5) \<lparr>sd_workspaceId = ir_workspaceId route,
       sd_conversationId = nb_conversationId binding, sd_submissionKey = submission_key kc ingress, sd_text = txt\<rparr>) (\<lambda>sent.
     rop_bind (finish_ingress ((outcome_of claim (ni_ingressId ingress) NI_ADOPTED (clock 6) None None (clock 6))
       \<lparr>io_bindingId := Some (nb_bindingId binding), io_messageId := Some (m_messageId (sr_message sent)),
        io_runId := Some (r_runId (sr_run sent))\<rparr>)) (\<lambda>r.
     rop_return \<lparr>aq_ingress = r, aq_binding = binding, aq_conversationId = nb_conversationId binding,
       aq_messageId = m_messageId (sr_message sent), aq_runId = r_runId (sr_run sent), aq_replayed = sr_replayed sent\<rparr>)))))"

definition adopt_transaction ::
    "connector_service \<Rightarrow> (nat \<Rightarrow> string) \<Rightarrow> (nat \<Rightarrow> int) \<Rightarrow> ingress_claim \<Rightarrow> ingress_route \<Rightarrow> string \<Rightarrow> adoption rop" where
  "adopt_transaction kc ids clock claim route txt =
     rop_bind (requireIngressClaim claim) (\<lambda>ingress.
     if ni_status ingress = NI_ADOPTED then replay_adoption route txt ingress else adopt_event kc ids clock claim route txt ingress)"

definition adoptIngress ::
    "connector_service \<Rightarrow> (nat \<Rightarrow> string) \<Rightarrow> (nat \<Rightarrow> int) \<Rightarrow> ingress_claim \<Rightarrow> ingress_route \<Rightarrow> string \<Rightarrow> adoption svc" where
  "adoptIngress kc ids clock claim route txt =
     svc_bind (svc_of (connector_bounded txt 65536 any_text)) (\<lambda>_.
     svc_bind (svc_of (connector_workspace kc (ir_workspaceId route))) (\<lambda>_.
     svc_bind (svc_of (connector_bounded (ir_externalScopeId route) 256 any_text)) (\<lambda>_.
     svc_bind (svc_of (connector_bounded (ir_externalConversationId route) 256 any_text)) (\<lambda>_.
     svc_bind (svc_of (connector_optional (ir_externalThreadId route) 256)) (\<lambda>_.
     svc_bind (svc_of (connector_optional (ir_modelProfile route) 64)) (\<lambda>_.
     svc_bind (svc_of (connector_optional (ir_title route) 256)) (\<lambda>_.
     transaction (adopt_transaction kc ids clock claim route txt))))))))"

section \<open>Ignoring and failing\<close>

definition new_letter :: "string \<Rightarrow> string \<Rightarrow> string \<Rightarrow> letter_kind \<Rightarrow> string \<Rightarrow> string \<Rightarrow> string \<Rightarrow> string \<Rightarrow> int \<Rightarrow> letter_row" where
  "new_letter letterId connectorId accountId kind subjectId code summary payloadHash now = \<lparr>nl_deadLetterId = letterId,
     nl_connectorId = connectorId, nl_accountId = accountId, nl_kind = kind, nl_subjectId = subjectId, nl_reasonCode = code,
     nl_summary = bounded_summary summary ''connector dead letter'', nl_payloadHash = payloadHash, nl_status = LETTER_OPEN,
     nl_createdAt = now, nl_resolvedAt = None, nl_resolution = None\<rparr>"

definition ignoreIngress :: "int \<Rightarrow> ingress_claim \<Rightarrow> string \<Rightarrow> ingress_row svc" where
  "ignoreIngress now claim reason =
     transaction (
       rop_bind (requireIngressClaim claim) (\<lambda>ingress.
       rop_bind (rop_require (ni_status ingress \<noteq> NI_ADOPTED) (Connector_Error CONNECTOR_INGRESS_STATE_INVALID)) (\<lambda>_.
       finish_ingress (outcome_of claim (ni_ingressId ingress) NI_IGNORED now (Some ''IGNORED'')
         (Some (bounded_summary reason ''connector ingress ignored'')) now))))"

definition valid_retry :: "int option \<Rightarrow> err + int" where
  "valid_retry retryAfterMs = (let n = or_default retryAfterMs 1000 in
     if n < 0 \<or> n > 24 * 60 * 60000 then Inl connector_invalid else Inr n)"

definition failIngress :: "string \<Rightarrow> int \<Rightarrow> ingress_claim \<Rightarrow> string \<Rightarrow> string \<Rightarrow> bool \<Rightarrow> int option \<Rightarrow> ingress_row svc" where
  "failIngress letterId now claim errorCode summary retryable retryAfterMs =
     svc_bind (svc_of (connector_bounded errorCode 128 id_pattern)) (\<lambda>code.
     svc_bind (svc_of (valid_retry retryAfterMs)) (\<lambda>after.
     let text = bounded_summary summary ''connector ingress failed'' in
     transaction (
       rop_bind (requireIngressClaim claim) (\<lambda>ingress.
       rop_bind (rop_require (ni_status ingress \<noteq> NI_ADOPTED) (Connector_Error CONNECTOR_INGRESS_STATE_INVALID)) (\<lambda>_.
       rop_bind (updateIngressClaim (outcome_of claim (ni_ingressId ingress) (if retryable then NI_RECEIVED else NI_DEAD)
         (if retryable then now + after else now) (Some code) (Some text) now)) (\<lambda>ok.
       rop_bind (rop_require ok (Connector_Error CONNECTOR_INGRESS_CLAIM_LOST)) (\<lambda>_.
       rop_bind (rop_when (\<not> retryable) (rop_do (insertDeadLetter (new_letter letterId (ni_connectorId ingress) (ni_accountId ingress)
         INGRESS (ni_ingressId ingress) code text (ni_payloadHash ingress) now)))) (\<lambda>_.
       rop_found Js_Error (getIngress (ni_ingressId ingress))))))))))"

text \<open>The arguments that the listings share.\<close>

definition list_limit :: "string option \<Rightarrow> string option \<Rightarrow> int option \<Rightarrow> nat svc" where
  "list_limit connectorId accountId limit =
     svc_bind (svc_of (positiveInteger (or_default limit 100) 1000)) (\<lambda>l.
     svc_bind (svc_of (case connectorId of None \<Rightarrow> Inr () | Some c \<Rightarrow> res_bind (connector_bounded c 128 id_pattern) (\<lambda>_. Inr ()))) (\<lambda>_.
     svc_bind (svc_of (case accountId of None \<Rightarrow> Inr () | Some c \<Rightarrow> res_bind (connector_bounded c 128 id_pattern) (\<lambda>_. Inr ()))) (\<lambda>_.
     svc_return (nat l))))"

definition service_listIngress :: "string option \<Rightarrow> string option \<Rightarrow> ingress_status option \<Rightarrow> int option \<Rightarrow> ingress_row list svc" where
  "service_listIngress connectorId accountId status limit =
     svc_bind (list_limit connectorId accountId limit) (\<lambda>l. svc_read (repository_listIngress connectorId accountId status l))"

end
