(* ===== verification/Connector_Delivery.thy ===== *)
theory Connector_Delivery
  imports Connector_Service
begin

text \<open>
  \<open>packages/connectors/src/service.ts\<close>, second half: the deliveries of a connector from the moment they are queued to their receipt,
  and the projection of a run that completed to the delivery of its answer.
\<close>

section \<open>Queueing\<close>

record delivery_request =
  dq_accountId :: string
  dq_conversationId :: string
  dq_runId :: "string option"
  dq_sourceMessageId :: "string option"
  dq_targetKey :: string
  dq_threadKey :: "string option"
  dq_payloadVersion :: int
  dq_payload :: json
  dq_idempotencyKey :: string
  dq_availableAt :: "int option"

definition new_outgoing :: "connector_service \<Rightarrow> string \<Rightarrow> string \<Rightarrow> delivery_request \<Rightarrow> int \<Rightarrow> outgoing_row" where
  "new_outgoing kc deliveryId connectorId i now = \<lparr>nd_deliveryId = deliveryId, nd_connectorId = connectorId, nd_accountId = dq_accountId i,
     nd_conversationId = dq_conversationId i, nd_runId = dq_runId i, nd_sourceMessageId = dq_sourceMessageId i, nd_targetKey = dq_targetKey i,
     nd_threadKey = or_default (dq_threadKey i) [], nd_payloadVersion = dq_payloadVersion i, nd_payload = dq_payload i,
     nd_payloadHash = connector_hash kc (dq_payload i), nd_idempotencyKey = dq_idempotencyKey i, nd_status = ND_PENDING, nd_attemptCount = 0,
     nd_availableAt = or_default (dq_availableAt i) now, nd_claimToken = None, nd_claimDeadlineAt = None, nd_lastErrorCode = None,
     nd_lastErrorSummary = None, nd_createdAt = now, nd_updatedAt = now, nd_cleanupAfter = None\<rparr>"

definition same_outgoing :: "connector_service \<Rightarrow> delivery_request \<Rightarrow> outgoing_row \<Rightarrow> bool" where
  "same_outgoing kc i d \<longleftrightarrow> nd_conversationId d = dq_conversationId i \<and> nd_runId d = dq_runId i \<and> nd_sourceMessageId d = dq_sourceMessageId i
     \<and> nd_targetKey d = dq_targetKey i \<and> nd_threadKey d = or_default (dq_threadKey i) [] \<and> nd_payloadVersion d = dq_payloadVersion i
     \<and> nd_payloadHash d = connector_hash kc (dq_payload i) \<and> same_json (nd_payload d) (dq_payload i)"

definition enqueue_transaction :: "connector_service \<Rightarrow> string \<Rightarrow> int \<Rightarrow> string \<Rightarrow> delivery_request \<Rightarrow> (outgoing_row \<times> bool) rop" where
  "enqueue_transaction kc deliveryId now connectorId i =
     rop_bind (enabled_account kc connectorId (dq_accountId i)) (\<lambda>account.
     rop_bind (rop_found (Connector_Error CONNECTOR_DELIVERY_CONFLICT) (getConversation (dq_conversationId i))) (\<lambda>conversation.
     rop_bind (rop_require (c_workspaceId conversation = na_workspaceId account) (Connector_Error CONNECTOR_WORKSPACE_ACCESS_DENIED)) (\<lambda>_.
     rop_bind (rop_read (getDeliveryByIdempotency connectorId (dq_accountId i) (dq_idempotencyKey i))) (\<lambda>existing.
     (case existing of
        Some d \<Rightarrow> rop_bind (rop_require (same_outgoing kc i d) (Connector_Error CONNECTOR_DELIVERY_CONFLICT)) (\<lambda>_. rop_return (d, True))
      | None \<Rightarrow> rop_bind (rop_do (insertDelivery (new_outgoing kc deliveryId connectorId i now)))
          (\<lambda>_. rop_return (new_outgoing kc deliveryId connectorId i now, False)))))))"

definition enqueueDelivery :: "connector_service \<Rightarrow> string \<Rightarrow> int \<Rightarrow> string \<Rightarrow> delivery_request \<Rightarrow> (outgoing_row \<times> bool) svc" where
  "enqueueDelivery kc deliveryId now connectorId i =
     svc_bind (svc_of (connector_bounded connectorId 128 id_pattern)) (\<lambda>_.
     svc_bind (svc_of (connector_bounded (dq_accountId i) 128 id_pattern)) (\<lambda>_.
     svc_bind (svc_of (connector_bounded (dq_targetKey i) 512 any_text)) (\<lambda>_.
     svc_bind (svc_of (connector_optional (dq_threadKey i) 256)) (\<lambda>_.
     svc_bind (svc_of (connector_bounded (dq_idempotencyKey i) 256 any_text)) (\<lambda>_.
     svc_bind (svc_of (positiveInteger (dq_payloadVersion i) 1000000)) (\<lambda>_.
     svc_bind (svc_of (connector_bounded (dq_conversationId i) 128 any_text)) (\<lambda>_.
     svc_bind (svc_of (connector_optional (dq_runId i) 128)) (\<lambda>_.
     svc_bind (svc_of (connector_optional (dq_sourceMessageId i) 128)) (\<lambda>_.
     svc_bind (svc_require (0 \<le> or_default (dq_availableAt i) now) connector_invalid) (\<lambda>_.
     transaction (enqueue_transaction kc deliveryId now connectorId i)))))))))))"

section \<open>Expired claims\<close>

text \<open>The counters: claims that went back to the queue, and claims whose outcome nobody knows.\<close>

definition attempt_outcome ::
    "string \<Rightarrow> string \<Rightarrow> dispatch_status \<Rightarrow> outgoing_status \<Rightarrow> int \<Rightarrow> string option \<Rightarrow> string option \<Rightarrow> int \<Rightarrow> finish_attempt" where
  "attempt_outcome deliveryId token attempt delivery availableAt code summary now = \<lparr>fa_deliveryId = deliveryId, fa_claimToken = token,
     fa_attemptStatus = attempt, fa_deliveryStatus = delivery, fa_availableAt = availableAt, fa_errorCode = code, fa_errorSummary = summary,
     fa_now = now\<rparr>"

definition delivery_letter :: "string \<Rightarrow> outgoing_row \<Rightarrow> string \<Rightarrow> string \<Rightarrow> int \<Rightarrow> letter_row" where
  "delivery_letter letterId d code summary now =
     new_letter letterId (nd_connectorId d) (nd_accountId d) DELIVERY (nd_deliveryId d) code summary (nd_payloadHash d) now"

definition abandoned :: "int \<Rightarrow> outgoing_row \<Rightarrow> dispatch_row \<Rightarrow> finish_attempt" where
  "abandoned now d a = attempt_outcome (nd_deliveryId d) (ny_claimToken a) NT_ABANDONED ND_PENDING now
     (Some ''HOST_RESTART_BEFORE_DISPATCH'') (Some ''delivery claim expired before dispatch and was safely returned to pending'') now"

definition uncertain_summary :: string where
  "uncertain_summary = ''delivery may have been accepted before Host restart; automatic replay is forbidden''"

definition uncertain :: "int \<Rightarrow> outgoing_row \<Rightarrow> dispatch_row \<Rightarrow> finish_attempt" where
  "uncertain now d a = attempt_outcome (nd_deliveryId d) (ny_claimToken a) NT_UNCERTAIN ND_UNCERTAIN now
     (Some ''HOST_RESTART_AFTER_DISPATCH'') (Some uncertain_summary) now"

definition recover_claim :: "(nat \<Rightarrow> string) \<Rightarrow> int \<Rightarrow> nat \<times> (outgoing_row \<times> dispatch_row) \<Rightarrow> (nat \<times> nat) rop" where
  "recover_claim ids now = (\<lambda>(k, d, a).
     if ny_status a = NT_DISPATCHED then
       rop_bind (finishDeliveryAttempt (uncertain now d a)) (\<lambda>ok.
       if \<not> ok then rop_return (0, 0)
       else rop_bind (rop_do (insertDeadLetter (delivery_letter (ids k) d ''HOST_RESTART_AFTER_DISPATCH'' uncertain_summary now)))
         (\<lambda>_. rop_return (0, 1)))
     else
       rop_bind (finishDeliveryAttempt (abandoned now d a)) (\<lambda>ok. rop_return (if ok then (1, 0) else (0, 0))))"

definition recoverExpiredDeliveries :: "(nat \<Rightarrow> string) \<Rightarrow> int \<Rightarrow> nat \<Rightarrow> (nat \<times> nat) rop" where
  "recoverExpiredDeliveries ids now limit =
     rop_bind (rop_read (listExpiredDeliveryClaims now limit)) (\<lambda>items.
     rop_bind (rop_each (recover_claim ids now) (enumerate 0 items)) (\<lambda>counts.
     rop_return (sum_list (map fst counts), sum_list (map snd counts))))"

definition recoverExpiredDeliveryClaims :: "(nat \<Rightarrow> string) \<Rightarrow> int \<Rightarrow> int \<Rightarrow> (nat \<times> nat) svc" where
  "recoverExpiredDeliveryClaims ids now limit =
     svc_bind (svc_of (positiveInteger limit 1000)) (\<lambda>_. transaction (recoverExpiredDeliveries ids now (nat limit)))"

section \<open>The holder of a claim\<close>

record delivery_claim =
  dl_delivery :: outgoing_row
  dl_attempt :: dispatch_row
  dl_claimToken :: string
  dl_claimDeadlineAt :: int

text \<open>\<open>token\<close> and \<open>attemptId\<close> are the identifiers of the claim, \<open>ids\<close> those of the dead letters of the claims that expired.\<close>

definition service_claimDelivery ::
    "connector_service \<Rightarrow> (nat \<Rightarrow> string) \<Rightarrow> string \<Rightarrow> string \<Rightarrow> int \<Rightarrow> string \<Rightarrow> string \<Rightarrow> delivery_claim option svc" where
  "service_claimDelivery kc ids token attemptId now connectorId accountId =
     svc_bind (svc_of (connector_bounded connectorId 128 id_pattern)) (\<lambda>_.
     svc_bind (svc_of (connector_bounded accountId 128 id_pattern)) (\<lambda>_.
     transaction (
       rop_bind (enabled_account kc connectorId accountId) (\<lambda>_.
       rop_bind (recoverExpiredDeliveries ids now 100) (\<lambda>_.
       let deadline = now + kc_deliveryLeaseMs kc in
       rop_bind (repository_claimDelivery connectorId accountId now token deadline attemptId) (\<lambda>claimed.
       rop_return (map_option (\<lambda>(d, a). \<lparr>dl_delivery = d, dl_attempt = a, dl_claimToken = token, dl_claimDeadlineAt = deadline\<rparr>) claimed)))))))"

definition claim_lost :: err where
  "claim_lost = Connector_Error CONNECTOR_DELIVERY_CLAIM_LOST"

definition delivery_missing :: err where
  "delivery_missing = Connector_Error CONNECTOR_DELIVERY_NOT_FOUND"

definition service_markDispatched :: "int \<Rightarrow> delivery_claim \<Rightarrow> delivery_claim svc" where
  "service_markDispatched now claim =
     transaction (
       rop_bind (repository_markDispatched (nd_deliveryId (dl_delivery claim)) (dl_claimToken claim) now) (\<lambda>attempt.
       (case attempt of
          None \<Rightarrow> rop_throw claim_lost
        | Some a \<Rightarrow> rop_bind (rop_found delivery_missing (getDelivery (nd_deliveryId (dl_delivery claim)))) (\<lambda>d.
            rop_return \<lparr>dl_delivery = d, dl_attempt = a, dl_claimToken = dl_claimToken claim, dl_claimDeadlineAt = dl_claimDeadlineAt claim\<rparr>))))"

text \<open>The attempt of a claim.\<close>

definition claim_attempt :: "delivery_claim \<Rightarrow> dispatch_row rop" where
  "claim_attempt claim =
     rop_bind (rop_found claim_lost (getDeliveryAttemptByClaim (dl_claimToken claim))) (\<lambda>a.
     rop_bind (rop_require (ny_deliveryId a = nd_deliveryId (dl_delivery claim)) claim_lost) (\<lambda>_. rop_return a))"

definition finish_claim :: "finish_attempt \<Rightarrow> unit rop" where
  "finish_claim i = rop_bind (finishDeliveryAttempt i) (\<lambda>ok. rop_require ok claim_lost)"

record provider_receipt =
  pr_messageId :: string
  pr_conversationId :: "string option"
  pr_threadId :: "string option"
  pr_receipt :: json

definition same_receipt :: "connector_service \<Rightarrow> provider_receipt \<Rightarrow> receipt_row \<Rightarrow> bool" where
  "same_receipt kc p r \<longleftrightarrow> nr_providerMessageId r = pr_messageId p \<and> nr_providerConversationId r = pr_conversationId p
     \<and> nr_providerThreadId r = pr_threadId p \<and> nr_receiptHash r = connector_hash kc (pr_receipt p) \<and> same_json (nr_receipt r) (pr_receipt p)"

definition new_receipt :: "connector_service \<Rightarrow> string \<Rightarrow> int \<Rightarrow> delivery_claim \<Rightarrow> dispatch_row \<Rightarrow> provider_receipt \<Rightarrow> receipt_row" where
  "new_receipt kc receiptId now claim a p = \<lparr>nr_receiptId = receiptId, nr_deliveryId = nd_deliveryId (dl_delivery claim),
     nr_attemptId = ny_attemptId a, nr_providerMessageId = pr_messageId p, nr_providerConversationId = pr_conversationId p,
     nr_providerThreadId = pr_threadId p, nr_receipt = pr_receipt p, nr_receiptHash = connector_hash kc (pr_receipt p), nr_acceptedAt = now\<rparr>"

definition accept_transaction ::
    "connector_service \<Rightarrow> string \<Rightarrow> int \<Rightarrow> delivery_claim \<Rightarrow> provider_receipt \<Rightarrow> (outgoing_row \<times> receipt_row \<times> bool) rop" where
  "accept_transaction kc receiptId now claim p =
     rop_bind (claim_attempt claim) (\<lambda>a.
     rop_bind (rop_read (getReceiptByAttempt (ny_attemptId a))) (\<lambda>existing.
     (case (ny_status a = NT_ACCEPTED, existing) of
        (True, Some r) \<Rightarrow>
          rop_bind (rop_require (same_receipt kc p r) (Connector_Error CONNECTOR_RECEIPT_CONFLICT)) (\<lambda>_.
          rop_bind (rop_found delivery_missing (getDelivery (nd_deliveryId (dl_delivery claim)))) (\<lambda>d.
          rop_return (d, r, True)))
      | _ \<Rightarrow>
          rop_bind (rop_require (ny_status a = NT_DISPATCHED) (Connector_Error CONNECTOR_DELIVERY_STATE_INVALID)) (\<lambda>_.
          let receipt = new_receipt kc receiptId now claim a p in
          rop_bind (rop_do (insertReceipt receipt)) (\<lambda>_.
          rop_bind (finish_claim (attempt_outcome (nd_deliveryId (dl_delivery claim)) (dl_claimToken claim) NT_ACCEPTED ND_DELIVERED now None None now)) (\<lambda>_.
          rop_bind (rop_found Js_Error (getDelivery (nd_deliveryId (dl_delivery claim)))) (\<lambda>d.
          rop_return (d, receipt, False))))))))"

definition completeDeliveryAccepted ::
    "connector_service \<Rightarrow> string \<Rightarrow> int \<Rightarrow> delivery_claim \<Rightarrow> provider_receipt \<Rightarrow> (outgoing_row \<times> receipt_row \<times> bool) svc" where
  "completeDeliveryAccepted kc receiptId now claim p =
     svc_bind (svc_of (connector_bounded (pr_messageId p) 512 any_text)) (\<lambda>_.
     svc_bind (svc_of (connector_optional (pr_conversationId p) 512)) (\<lambda>_.
     svc_bind (svc_of (connector_optional (pr_threadId p) 512)) (\<lambda>_.
     transaction (accept_transaction kc receiptId now claim p))))"

definition completeDeliverySuppressed :: "int \<Rightarrow> delivery_claim \<Rightarrow> string \<Rightarrow> outgoing_row svc" where
  "completeDeliverySuppressed now claim reason =
     transaction (
       rop_bind (finish_claim (attempt_outcome (nd_deliveryId (dl_delivery claim)) (dl_claimToken claim) NT_REJECTED ND_SUPPRESSED now
         (Some ''SUPPRESSED'') (Some (bounded_summary reason ''connector delivery suppressed'')) now)) (\<lambda>_.
       rop_found Js_Error (getDelivery (nd_deliveryId (dl_delivery claim)))))"

datatype certainty = NOT_SENT | REJECTED | MAYBE_ACCEPTED

record delivery_failure =
  df_errorCode :: string
  df_summary :: string
  df_certainty :: certainty
  df_retryable :: bool
  df_retryAfterMs :: "int option"

definition failed_status :: "connector_service \<Rightarrow> delivery_failure \<Rightarrow> outgoing_row \<Rightarrow> outgoing_status" where
  "failed_status kc f d =
     (if df_certainty f = MAYBE_ACCEPTED then ND_UNCERTAIN
      else if df_retryable f \<and> nd_attemptCount d < kc_maxDeliveryAttempts kc then ND_PENDING else ND_DEAD)"

definition fail_transaction ::
    "connector_service \<Rightarrow> string \<Rightarrow> int \<Rightarrow> delivery_claim \<Rightarrow> delivery_failure \<Rightarrow> int \<Rightarrow> outgoing_row rop" where
  "fail_transaction kc letterId now claim f retry_ms =
     rop_bind (claim_attempt claim) (\<lambda>_.
     rop_bind (rop_found delivery_missing (getDelivery (nd_deliveryId (dl_delivery claim)))) (\<lambda>d.
     let status = failed_status kc f d; summary = bounded_summary (df_summary f) ''connector delivery failed'' in
     rop_bind (finish_claim (attempt_outcome (nd_deliveryId d) (dl_claimToken claim) (if df_certainty f = MAYBE_ACCEPTED then NT_UNCERTAIN else NT_REJECTED)
       status (if status = ND_PENDING then now + retry_ms else now) (Some (df_errorCode f)) (Some summary) now)) (\<lambda>_.
     rop_bind (rop_when (status = ND_UNCERTAIN \<or> status = ND_DEAD)
       (rop_do (insertDeadLetter (delivery_letter letterId d (df_errorCode f) summary now)))) (\<lambda>_.
     rop_found Js_Error (getDelivery (nd_deliveryId d))))))"

definition failDelivery :: "connector_service \<Rightarrow> string \<Rightarrow> int \<Rightarrow> delivery_claim \<Rightarrow> delivery_failure \<Rightarrow> outgoing_row svc" where
  "failDelivery kc letterId now claim f =
     svc_bind (svc_of (connector_bounded (df_errorCode f) 128 id_pattern)) (\<lambda>_.
     svc_bind (svc_of (valid_retry (df_retryAfterMs f))) (\<lambda>ms.
     transaction (fail_transaction kc letterId now claim f ms)))"

section \<open>Listings\<close>

definition service_listDeliveries :: "string option \<Rightarrow> string option \<Rightarrow> outgoing_status option \<Rightarrow> int option \<Rightarrow> outgoing_row list svc" where
  "service_listDeliveries connectorId accountId status limit =
     svc_bind (list_limit connectorId accountId limit) (\<lambda>l. svc_read (repository_listDeliveries connectorId accountId status l))"

definition service_listDeadLetters :: "string option \<Rightarrow> string option \<Rightarrow> letter_status option \<Rightarrow> int option \<Rightarrow> letter_row list svc" where
  "service_listDeadLetters connectorId accountId status limit =
     svc_bind (list_limit connectorId accountId limit) (\<lambda>l. svc_read (repository_listDeadLetters connectorId accountId status l))"

section \<open>The answer of a run\<close>

text \<open>The last message of the model that carries text.\<close>

definition answer_of :: "message_row \<Rightarrow> string option" where
  "answer_of m = (if m_role m \<noteq> Role_assistant then None
     else (case m_content m of
        JObj ms \<Rightarrow> (if json_field ''type'' (m_content m) \<in> {JStr ''assistant'', JStr ''text''}
           then (case json_field ''text'' (m_content m) of JStr t \<Rightarrow> truthy (Some (js_trim t)) | _ \<Rightarrow> None) else None)
      | _ \<Rightarrow> None))"

primrec first_answer :: "message_row list \<Rightarrow> string" where
  "first_answer [] = []"
| "first_answer (m # ms) = (case answer_of m of Some t \<Rightarrow> t | None \<Rightarrow> first_answer ms)"

definition completionText :: "message_row list \<Rightarrow> string" where
  "completionText ms = first_answer (rev ms)"

datatype projection =
    Not_Connector_Run string
  | Not_Deliverable string string
  | Projected string string string outgoing_row bool

definition answer_request :: "ingress_row \<Rightarrow> binding_row \<Rightarrow> string \<Rightarrow> string \<Rightarrow> delivery_request" where
  "answer_request ingress binding runId txt = \<lparr>dq_accountId = ni_accountId ingress, dq_conversationId = nb_conversationId binding,
     dq_runId = Some runId, dq_sourceMessageId = None, dq_targetKey = nb_externalConversationId binding,
     dq_threadKey = truthy (Some (nb_externalThreadId binding)), dq_payloadVersion = 1,
     dq_payload = JObj [(''type'', JStr ''text''), (''text'', JStr txt)],
     dq_idempotencyKey = ''run:'' @ runId @ '':assistant-final:v1'', dq_availableAt = None\<rparr>"

definition project_answer ::
    "connector_service \<Rightarrow> string \<Rightarrow> int \<Rightarrow> string \<Rightarrow> execution_context \<Rightarrow> ingress_row \<Rightarrow> projection svc" where
  "project_answer kc deliveryId now runId context ingress =
     (let txt = completionText (ec_messages context) in
      if r_status (ec_run context) \<noteq> R_COMPLETED then svc_return (Not_Deliverable runId (''run is '' @ run_status_name (r_status (ec_run context))))
      else if txt = [] then svc_return (Not_Deliverable runId ''run has no completion text'')
      else if ni_status ingress \<noteq> NI_ADOPTED \<or> truthy (ni_bindingId ingress) = None
        then svc_return (Not_Deliverable runId ''connector ingress is not adopted'')
      else
        svc_bind (svc_read (getBinding (or_default (ni_bindingId ingress) []))) (\<lambda>found.
        (case found of
           None \<Rightarrow> svc_return (Not_Deliverable runId ''connector binding is unavailable or conflicts with the Run'')
         | Some binding \<Rightarrow>
             if nb_conversationId binding \<noteq> cv_conversationId (ec_conversation context)
             then svc_return (Not_Deliverable runId ''connector binding is unavailable or conflicts with the Run'')
             else
               svc_bind (enqueueDelivery kc deliveryId now (ni_connectorId ingress) (answer_request ingress binding runId txt)) (\<lambda>(d, replayed).
               svc_return (Projected runId (ni_connectorId ingress) (ni_accountId ingress) d replayed)))))"

definition projectRunOutput :: "connector_service \<Rightarrow> string \<Rightarrow> int \<Rightarrow> string \<Rightarrow> projection svc" where
  "projectRunOutput kc deliveryId now runId =
     svc_bind (svc_of (connector_bounded runId 128 id_pattern)) (\<lambda>_.
     svc_bind (executionContext runId) (\<lambda>context.
     svc_bind (svc_read (getIngressByRunId runId)) (\<lambda>found.
     (case found of
        None \<Rightarrow> svc_return (Not_Connector_Run runId)
      | Some ingress \<Rightarrow> project_answer kc deliveryId now runId context ingress))))"

record run_recovery =
  rv_scanned :: nat
  rv_projected :: nat
  rv_replayed :: nat
  rv_skipped :: nat
  rv_deliveries :: "(string \<times> string \<times> string) list"

text \<open>The loop over the adopted events, newest first; \<open>seen\<close> holds the runs it came across, \<open>ids\<close> and \<open>clock\<close> are read once a round.\<close>

primrec recover_outputs ::
    "connector_service \<Rightarrow> (nat \<Rightarrow> string) \<Rightarrow> (nat \<Rightarrow> int) \<Rightarrow> string list \<Rightarrow> run_recovery \<Rightarrow> ingress_row list \<Rightarrow> run_recovery svc" where
  "recover_outputs kc ids clock seen acc [] = svc_return acc"
| "recover_outputs kc ids clock seen acc (i # rest) =
     (case truthy (ni_runId i) of
        None \<Rightarrow> recover_outputs kc (\<lambda>n. ids (Suc n)) (\<lambda>n. clock (Suc n)) seen (acc\<lparr>rv_skipped := rv_skipped acc + 1\<rparr>) rest
      | Some runId \<Rightarrow>
          if runId \<in> set seen
          then recover_outputs kc (\<lambda>n. ids (Suc n)) (\<lambda>n. clock (Suc n)) seen (acc\<lparr>rv_skipped := rv_skipped acc + 1\<rparr>) rest
          else
            svc_bind (projectRunOutput kc (ids 0) (clock 0) runId) (\<lambda>result.
            recover_outputs kc (\<lambda>n. ids (Suc n)) (\<lambda>n. clock (Suc n)) (runId # seen)
              (case result of
                 Projected _ connectorId accountId d replayed \<Rightarrow> acc\<lparr>rv_projected := rv_projected acc + (if replayed then 0 else 1),
                   rv_replayed := rv_replayed acc + (if replayed then 1 else 0),
                   rv_deliveries := rv_deliveries acc @ [(connectorId, accountId, nd_deliveryId d)]\<rparr>
               | _ \<Rightarrow> acc\<lparr>rv_skipped := rv_skipped acc + 1\<rparr>) rest))"

definition recoverRunOutputs :: "connector_service \<Rightarrow> (nat \<Rightarrow> string) \<Rightarrow> (nat \<Rightarrow> int) \<Rightarrow> int \<Rightarrow> run_recovery svc" where
  "recoverRunOutputs kc ids clock limit =
     svc_bind (svc_of (positiveInteger limit 10000)) (\<lambda>l.
     svc_bind (service_listIngress None None (Some NI_ADOPTED) (Some l)) (\<lambda>rows.
     recover_outputs kc ids clock [] \<lparr>rv_scanned = length rows, rv_projected = 0, rv_replayed = 0, rv_skipped = 0, rv_deliveries = []\<rparr> rows))"

end
