(* ===== verification/Connector_Runtime.thy ===== *)
theory Connector_Runtime
  imports Connector_Delivery
begin

text \<open>
  \<open>packages/connectors/src/runtime.ts\<close>: the adapters that are registered, and the loops that hand the claimed events and deliveries of
  an account to its adapter. Parameters: what the adapter answers to the \<open>k\<close>-th claim and what it does to the database meanwhile, whether
  the adapter is still active then, readings of the clock, identifiers.
\<close>

section \<open>The registry\<close>

record adapter_registration =
  ag_extensionId :: string
  ag_connectorId :: string
  ag_registeredAt :: int

definition validateId :: "string \<Rightarrow> nat \<Rightarrow> err + string" where
  "validateId v limit = (if v = [] \<or> length v > limit \<or> \<not> id_pattern v then Inl connector_invalid else Inr v)"

definition find_adapter :: "string \<Rightarrow> adapter_registration list \<Rightarrow> adapter_registration option" where
  "find_adapter connectorId rs = tbl_get ag_connectorId connectorId rs"

definition register_adapter ::
    "int \<Rightarrow> bool \<Rightarrow> string \<Rightarrow> string \<Rightarrow> adapter_registration list \<Rightarrow> err + adapter_registration list" where
  "register_adapter now aborted extensionId connectorId rs =
     (if aborted then Inl (Connector_Error CONNECTOR_NOT_REGISTERED)
      else res_bind (validateId extensionId 128) (\<lambda>e. res_bind (validateId connectorId 128) (\<lambda>c.
        if find_adapter c rs \<noteq> None then Inl (Connector_Error CONNECTOR_ALREADY_REGISTERED)
        else Inr (rs @ [\<lparr>ag_extensionId = e, ag_connectorId = c, ag_registeredAt = now\<rparr>]))))"

text \<open>Only the extension that registered an adapter takes it away.\<close>

definition unregister_adapter :: "string \<Rightarrow> string \<Rightarrow> adapter_registration list \<Rightarrow> err + bool \<times> adapter_registration list" where
  "unregister_adapter extensionId connectorId rs =
     res_bind (validateId extensionId 128) (\<lambda>e. res_bind (validateId connectorId 128) (\<lambda>c.
     (case find_adapter c rs of
        None \<Rightarrow> Inr (False, rs)
      | Some r \<Rightarrow> if ag_extensionId r \<noteq> e then Inr (False, rs) else Inr (True, filter (\<lambda>x. ag_connectorId x \<noteq> c) rs))))"

definition get_adapter :: "string \<Rightarrow> adapter_registration list \<Rightarrow> err + adapter_registration option" where
  "get_adapter connectorId rs = res_bind (validateId connectorId 128) (\<lambda>c. Inr (find_adapter c rs))"

definition drain_limit :: "int option \<Rightarrow> err + nat" where
  "drain_limit v = (let n = or_default v 100 in if n < 1 \<or> n > 1000 then Inl connector_invalid else Inr (nat n))"

section \<open>Draining the events\<close>

datatype disposition = Ignored string | Ingress_Message ingress_route string

text \<open>\<open>ConnectorIngressError\<close>: what an adapter throws to classify a failure. Anything else it throws is \<open>None\<close>.\<close>

record ingress_failure =
  if_errorCode :: string
  if_message :: string
  if_retryable :: bool

record ingress_counts =
  it_processed :: nat
  it_adopted :: nat
  it_ignored :: nat
  it_retried :: nat
  it_dead :: nat

text \<open>\<open>di_admitted\<close> is \<open>onRunAdmitted\<close>, which may throw. Round \<open>k\<close> uses the identifiers \<open>di_ids k\<close> and the clock \<open>di_clock k\<close>.\<close>

record ingress_drain =
  di_active :: "nat \<Rightarrow> bool"
  di_normalize :: "nat \<Rightarrow> ingress_claim \<Rightarrow> db \<Rightarrow> (ingress_failure option + disposition) \<times> db"
  di_admitted :: "nat \<Rightarrow> adoption \<Rightarrow> db \<Rightarrow> (ingress_failure option + unit) \<times> db"
  di_ids :: "nat \<Rightarrow> nat \<Rightarrow> string"
  di_clock :: "nat \<Rightarrow> nat \<Rightarrow> int"

definition classified_ingress :: "ingress_failure option \<Rightarrow> ingress_failure" where
  "classified_ingress e = (case e of Some f \<Rightarrow> f
     | None \<Rightarrow> \<lparr>if_errorCode = ''CONNECTOR_INGRESS_HANDLER_FAILED'', if_message = ''connector ingress handler failed'', if_retryable = True\<rparr>)"

text \<open>The body of the \<open>try\<close> after the adapter answered.\<close>

definition dispose ::
    "connector_service \<Rightarrow> ingress_drain \<Rightarrow> nat \<Rightarrow> ingress_claim \<Rightarrow> disposition \<Rightarrow> ingress_counts \<Rightarrow> db
      \<Rightarrow> (ingress_failure option + ingress_counts) \<times> db" where
  "dispose kc w k claim d c s = (case d of
     Ignored reason \<Rightarrow> (case ignoreIngress (di_clock w k 1) claim reason s of
         (Inl e, s1) \<Rightarrow> (Inl None, s1)
       | (Inr r, s1) \<Rightarrow> (Inr (c\<lparr>it_ignored := it_ignored c + 1\<rparr>), s1))
   | Ingress_Message route txt \<Rightarrow> (case adoptIngress kc (\<lambda>n. di_ids w k (n + 2)) (\<lambda>n. di_clock w k (n + 2)) claim route txt s of
         (Inl e, s1) \<Rightarrow> (Inl None, s1)
       | (Inr a, s1) \<Rightarrow> (case di_admitted w k a s1 of
           (Inl e, s2) \<Rightarrow> (Inl e, s2)
         | (Inr u, s2) \<Rightarrow> (Inr (c\<lparr>it_adopted := it_adopted c + 1\<rparr>), s2))))"

text \<open>The \<open>catch\<close>: the event goes back or is dead. What \<open>failIngress\<close> throws leaves the loop.\<close>

definition reject_ingress :: "ingress_drain \<Rightarrow> nat \<Rightarrow> ingress_claim \<Rightarrow> ingress_failure option \<Rightarrow> ingress_counts \<Rightarrow> ingress_counts svc" where
  "reject_ingress w k claim e c =
     (let f = classified_ingress e in
      svc_bind (failIngress (di_ids w k 1) (di_clock w k 9) claim (if_errorCode f) (if_message f) (if_retryable f) None) (\<lambda>r.
      svc_return (if ni_status r = NI_DEAD then c\<lparr>it_dead := it_dead c + 1\<rparr> else c\<lparr>it_retried := it_retried c + 1\<rparr>)))"

definition handle_ingress :: "connector_service \<Rightarrow> ingress_drain \<Rightarrow> nat \<Rightarrow> ingress_claim \<Rightarrow> ingress_counts \<Rightarrow> ingress_counts svc" where
  "handle_ingress kc w k claim c s = (case di_normalize w k claim s of
     (Inl e, s1) \<Rightarrow> reject_ingress w k claim e c s1
   | (Inr d, s1) \<Rightarrow> (case dispose kc w k claim d c s1 of
       (Inl e, s2) \<Rightarrow> reject_ingress w k claim e c s2
     | (Inr c', s2) \<Rightarrow> (Inr c', s2)))"

primrec drain_ingress_loop ::
    "nat \<Rightarrow> connector_service \<Rightarrow> ingress_drain \<Rightarrow> string \<Rightarrow> string \<Rightarrow> nat \<Rightarrow> ingress_counts \<Rightarrow> ingress_counts svc" where
  "drain_ingress_loop 0 kc w connectorId accountId k c = svc_return c"
| "drain_ingress_loop (Suc n) kc w connectorId accountId k c =
     svc_bind (svc_require (di_active w (Suc k)) (Connector_Error CONNECTOR_NOT_REGISTERED)) (\<lambda>_.
     svc_bind (service_claimIngress kc (di_ids w k 0) (di_clock w k 0) connectorId accountId None) (\<lambda>found.
     (case found of
        None \<Rightarrow> svc_return c
      | Some claim \<Rightarrow>
          svc_bind (handle_ingress kc w k claim (c\<lparr>it_processed := it_processed c + 1\<rparr>))
            (drain_ingress_loop n kc w connectorId accountId (Suc k)))))"

definition drainIngress :: "connector_service \<Rightarrow> ingress_drain \<Rightarrow> string \<Rightarrow> string \<Rightarrow> int option \<Rightarrow> ingress_counts svc" where
  "drainIngress kc w connectorId accountId limit =
     svc_bind (svc_require (di_active w 0) (Connector_Error CONNECTOR_NOT_REGISTERED)) (\<lambda>_.
     svc_bind (svc_of (drain_limit limit)) (\<lambda>n.
     drain_ingress_loop n kc w connectorId accountId 0
       \<lparr>it_processed = 0, it_adopted = 0, it_ignored = 0, it_retried = 0, it_dead = 0\<rparr>))"

section \<open>Draining the deliveries\<close>

datatype provider_result =
    Provider_Accepted provider_receipt
  | Suppressed string
  | Uncertain string string
  | Provider_Rejected string string bool

text \<open>\<open>ConnectorDeliveryError\<close>, and what is made of anything else that is thrown after the claim.\<close>

record dispatch_failure =
  dx_errorCode :: string
  dx_message :: string
  dx_certainty :: certainty
  dx_retryable :: bool

definition classified_delivery :: "dispatch_failure option \<Rightarrow> dispatch_failure" where
  "classified_delivery e = (case e of Some f \<Rightarrow> f
     | None \<Rightarrow> \<lparr>dx_errorCode = ''CONNECTOR_DELIVERY_HANDLER_FAILED'', dx_message = ''connector delivery handler failed after dispatch began'',
         dx_certainty = MAYBE_ACCEPTED, dx_retryable = False\<rparr>)"

record delivery_counts =
  dt_processed :: nat
  dt_delivered :: nat
  dt_suppressed :: nat
  dt_retried :: nat
  dt_uncertain :: nat
  dt_dead :: nat

record delivery_drain =
  dw_active :: "nat \<Rightarrow> bool"
  dw_deliver :: "nat \<Rightarrow> delivery_claim \<Rightarrow> db \<Rightarrow> (dispatch_failure option + provider_result) \<times> db"
  dw_ids :: "nat \<Rightarrow> nat \<Rightarrow> string"
  dw_clock :: "nat \<Rightarrow> nat \<Rightarrow> int"

definition delivery_failure_of :: "string \<Rightarrow> string \<Rightarrow> certainty \<Rightarrow> bool \<Rightarrow> delivery_failure" where
  "delivery_failure_of code summary certain retryable = \<lparr>df_errorCode = code, df_summary = summary, df_certainty = certain,
     df_retryable = retryable, df_retryAfterMs = None\<rparr>"

definition settle_result ::
    "connector_service \<Rightarrow> delivery_drain \<Rightarrow> nat \<Rightarrow> delivery_claim \<Rightarrow> provider_result \<Rightarrow> delivery_counts \<Rightarrow> delivery_counts svc" where
  "settle_result kc w k claim r c = (case r of
     Provider_Accepted receipt \<Rightarrow> svc_bind (completeDeliveryAccepted kc (dw_ids w k 2) (dw_clock w k 2) claim receipt)
       (\<lambda>_. svc_return (c\<lparr>dt_delivered := dt_delivered c + 1\<rparr>))
   | Suppressed reason \<Rightarrow> svc_bind (completeDeliverySuppressed (dw_clock w k 2) claim reason)
       (\<lambda>_. svc_return (c\<lparr>dt_suppressed := dt_suppressed c + 1\<rparr>))
   | Uncertain code summary \<Rightarrow> svc_bind (failDelivery kc (dw_ids w k 2) (dw_clock w k 2) claim (delivery_failure_of code summary MAYBE_ACCEPTED False))
       (\<lambda>_. svc_return (c\<lparr>dt_uncertain := dt_uncertain c + 1\<rparr>))
   | Provider_Rejected code summary retryable \<Rightarrow>
       svc_bind (failDelivery kc (dw_ids w k 2) (dw_clock w k 2) claim (delivery_failure_of code summary REJECTED retryable))
       (\<lambda>d. svc_return (if nd_status d = ND_PENDING then c\<lparr>dt_retried := dt_retried c + 1\<rparr> else c\<lparr>dt_dead := dt_dead c + 1\<rparr>)))"

definition reject_delivery ::
    "connector_service \<Rightarrow> delivery_drain \<Rightarrow> nat \<Rightarrow> delivery_claim \<Rightarrow> dispatch_failure option \<Rightarrow> delivery_counts \<Rightarrow> delivery_counts svc" where
  "reject_delivery kc w k claim e c =
     (let f = classified_delivery e in
      svc_bind (failDelivery kc (dw_ids w k 3) (dw_clock w k 3) claim
        (delivery_failure_of (dx_errorCode f) (dx_message f) (dx_certainty f) (dx_retryable f))) (\<lambda>d.
      svc_return (if nd_status d = ND_PENDING then c\<lparr>dt_retried := dt_retried c + 1\<rparr>
        else if nd_status d = ND_UNCERTAIN then c\<lparr>dt_uncertain := dt_uncertain c + 1\<rparr> else c\<lparr>dt_dead := dt_dead c + 1\<rparr>)))"

definition handle_delivery :: "connector_service \<Rightarrow> delivery_drain \<Rightarrow> nat \<Rightarrow> delivery_claim \<Rightarrow> delivery_counts \<Rightarrow> delivery_counts svc" where
  "handle_delivery kc w k claim c s = (case service_markDispatched (dw_clock w k 1) claim s of
     (Inl e, s1) \<Rightarrow> reject_delivery kc w k claim None c s1
   | (Inr dispatched, s1) \<Rightarrow> (case dw_deliver w k dispatched s1 of
       (Inl e, s2) \<Rightarrow> reject_delivery kc w k dispatched e c s2
     | (Inr r, s2) \<Rightarrow> (case settle_result kc w k dispatched r c s2 of
         (Inl e, s3) \<Rightarrow> reject_delivery kc w k dispatched None c s3
       | (Inr c', s3) \<Rightarrow> (Inr c', s3))))"

text \<open>\<open>dw_ids k 0\<close> and \<open>dw_ids k 1\<close> are the token and the attempt, those from 4 on the dead letters of the claims that expired.\<close>

primrec drain_deliveries_loop ::
    "nat \<Rightarrow> connector_service \<Rightarrow> delivery_drain \<Rightarrow> string \<Rightarrow> string \<Rightarrow> nat \<Rightarrow> delivery_counts \<Rightarrow> delivery_counts svc" where
  "drain_deliveries_loop 0 kc w connectorId accountId k c = svc_return c"
| "drain_deliveries_loop (Suc n) kc w connectorId accountId k c =
     svc_bind (svc_require (dw_active w (Suc k)) (Connector_Error CONNECTOR_NOT_REGISTERED)) (\<lambda>_.
     svc_bind (service_claimDelivery kc (\<lambda>j. dw_ids w k (j + 4)) (dw_ids w k 0) (dw_ids w k 1) (dw_clock w k 0) connectorId accountId) (\<lambda>found.
     (case found of
        None \<Rightarrow> svc_return c
      | Some claim \<Rightarrow>
          svc_bind (handle_delivery kc w k claim (c\<lparr>dt_processed := dt_processed c + 1\<rparr>))
            (drain_deliveries_loop n kc w connectorId accountId (Suc k)))))"

definition drainDeliveries :: "connector_service \<Rightarrow> delivery_drain \<Rightarrow> string \<Rightarrow> string \<Rightarrow> int option \<Rightarrow> delivery_counts svc" where
  "drainDeliveries kc w connectorId accountId limit =
     svc_bind (svc_require (dw_active w 0) (Connector_Error CONNECTOR_NOT_REGISTERED)) (\<lambda>_.
     svc_bind (svc_of (drain_limit limit)) (\<lambda>n.
     drain_deliveries_loop n kc w connectorId accountId 0
       \<lparr>dt_processed = 0, dt_delivered = 0, dt_suppressed = 0, dt_retried = 0, dt_uncertain = 0, dt_dead = 0\<rparr>))"

end
