(* ===== verification/Connector_Machine.thy ===== *)
theory Connector_Machine
  imports Connector_Runtime Delegation_Properties Conversation_Machine
begin

text \<open>
  The connectors as a machine: what every statement on the outbox and on the events that come in keeps, the calls of the
  connector service as steps, and two preorders that all of them are steps of.
\<close>

section \<open>The outbox\<close>

definition outgoing_final :: "outgoing_status \<Rightarrow> bool" where
  "outgoing_final st \<longleftrightarrow> st \<noteq> ND_PENDING \<and> st \<noteq> ND_DELIVERING"

text \<open>What the status of an attempt says about its delivery.\<close>

definition agrees :: "dispatch_row \<Rightarrow> outgoing_row \<Rightarrow> bool" where
  "agrees a d \<longleftrightarrow> (case ny_status a of
     NT_ACCEPTED \<Rightarrow> nd_status d = ND_DELIVERED
   | NT_UNCERTAIN \<Rightarrow> nd_status d = ND_UNCERTAIN
   | NT_REJECTED \<Rightarrow> True
   | NT_ABANDONED \<Rightarrow> True
   | _ \<Rightarrow> nd_status d = ND_DELIVERING \<and> nd_claimToken d = Some (ny_claimToken a))"

definition box_ok :: "outgoing_row list \<Rightarrow> dispatch_row list \<Rightarrow> bool" where
  "box_ok ds as \<longleftrightarrow> distinct (map nd_deliveryId ds) \<and> distinct (map ny_attemptId as) \<and> distinct (map ny_claimToken as)
     \<and> list_all (\<lambda>a. case tbl_get nd_deliveryId (ny_deliveryId a) ds of None \<Rightarrow> False | Some d \<Rightarrow> agrees a d) as
     \<and> list_all (\<lambda>d. nd_status d = ND_DELIVERING \<longrightarrow> list_ex (\<lambda>a. ny_deliveryId a = nd_deliveryId d \<and> attempt_open a) as) ds"

definition outbox_ok :: "db \<Rightarrow> bool" where
  "outbox_ok s \<longleftrightarrow> box_ok (connector_deliveries s) (connector_delivery_attempts s)"

definition attempts_of :: "string \<Rightarrow> dispatch_row list \<Rightarrow> dispatch_row list" where
  "attempts_of i as = filter (\<lambda>a. ny_deliveryId a = i) as"

text \<open>An attempt that has ended stays as it is.\<close>

definition closed_kept :: "dispatch_row list \<Rightarrow> dispatch_row list \<Rightarrow> bool" where
  "closed_kept as as' \<longleftrightarrow> (\<forall>token a. tbl_get ny_claimToken token as = Some a \<longrightarrow> \<not> attempt_open a \<longrightarrow> tbl_get ny_claimToken token as' = Some a)"

text \<open>A delivery that is final stays as it is, and so do its attempts.\<close>

definition finals_kept :: "outgoing_row list \<Rightarrow> dispatch_row list \<Rightarrow> outgoing_row list \<Rightarrow> dispatch_row list \<Rightarrow> bool" where
  "finals_kept ds as ds' as' \<longleftrightarrow> (\<forall>i d. tbl_get nd_deliveryId i ds = Some d \<longrightarrow> outgoing_final (nd_status d) \<longrightarrow>
     tbl_get nd_deliveryId i ds' = Some d \<and> attempts_of i as' = attempts_of i as) \<and> closed_kept as as'"

definition outbox_step :: "db \<Rightarrow> db \<Rightarrow> bool" where
  "outbox_step s t \<longleftrightarrow> outbox_ok s \<longrightarrow> outbox_ok t
     \<and> finals_kept (connector_deliveries s) (connector_delivery_attempts s) (connector_deliveries t) (connector_delivery_attempts t)"

lemma box_okD:
  assumes "box_ok ds as"
  shows "distinct (map nd_deliveryId ds)" "distinct (map ny_attemptId as)" "distinct (map ny_claimToken as)"
    and "a \<in> set as \<Longrightarrow> \<exists>d. tbl_get nd_deliveryId (ny_deliveryId a) ds = Some d \<and> agrees a d"
    and "d \<in> set ds \<Longrightarrow> nd_status d = ND_DELIVERING \<Longrightarrow> \<exists>a \<in> set as. ny_deliveryId a = nd_deliveryId d \<and> attempt_open a"
  using assms by (auto simp: box_ok_def list_all_iff list_ex_iff split: option.splits)

lemma box_okI:
  assumes "distinct (map nd_deliveryId ds)" "distinct (map ny_attemptId as)" "distinct (map ny_claimToken as)"
    and "\<And>a. a \<in> set as \<Longrightarrow> \<exists>d. tbl_get nd_deliveryId (ny_deliveryId a) ds = Some d \<and> agrees a d"
    and "\<And>d. d \<in> set ds \<Longrightarrow> nd_status d = ND_DELIVERING \<Longrightarrow> \<exists>a \<in> set as. ny_deliveryId a = nd_deliveryId d \<and> attempt_open a"
  shows "box_ok ds as"
  using assms by (fastforce simp: box_ok_def list_all_iff list_ex_iff)

lemma agrees_open: "attempt_open a \<Longrightarrow> agrees a d \<longleftrightarrow> nd_status d = ND_DELIVERING \<and> nd_claimToken d = Some (ny_claimToken a)"
  by (auto simp: agrees_def attempt_open_def)

lemma agrees_closed: "\<not> attempt_open a \<Longrightarrow> agrees a d \<Longrightarrow> \<not> outgoing_final (nd_status d) \<Longrightarrow> agrees a e"
  by (cases "ny_status a") (auto simp: agrees_def attempt_open_def outgoing_final_def)

lemma closed_kept_append: "closed_kept as (as @ [b])"
  by (simp add: closed_kept_def tbl_get_append)

lemma finals_kept_refl: "finals_kept ds as ds as"
  by (simp add: finals_kept_def closed_kept_def)

lemma finals_kept_trans: "finals_kept a b c d \<Longrightarrow> finals_kept c d e f \<Longrightarrow> finals_kept a b e f"
  unfolding finals_kept_def closed_kept_def by metis

interpretation obx: step_preorder outbox_step
  by unfold_locales (auto simp: outbox_step_def finals_kept_refl intro: finals_kept_trans)

lemma changes_unique:
  assumes "distinct (map key rows)" and "tbl_get key k rows = Some r" and "p r" and "\<And>x. p x \<Longrightarrow> key x = k"
  shows "tbl_changes p rows = 1"
proof -
  have "filter p rows = [r]" using assms
  proof (induction rows)
    case (Cons x rows)
    then show ?case
      by (cases "key x = k") (auto simp: tbl_get_def filter_empty_conv)
  qed (simp add: tbl_get_def)
  then show ?thesis by (simp add: tbl_changes_def)
qed

text \<open>A delivery that is not final is replaced, and one of its attempts with it.\<close>

lemma finals_kept_replace:
  assumes "tbl_get nd_deliveryId i ds = Some d" and "\<not> outgoing_final (nd_status d)" and "nd_deliveryId d' = i"
    and "\<And>j. j \<noteq> i \<Longrightarrow> attempts_of j as' = attempts_of j as" and "closed_kept as as'"
  shows "finals_kept ds as (tbl_replace nd_deliveryId i d' ds) as'"
  using assms by (auto simp: finals_kept_def tbl_get_replace)

lemma attempts_of_replace:
  assumes "ny_deliveryId a' = ny_deliveryId a" and "tbl_get ny_attemptId k as = Some a" and "j \<noteq> ny_deliveryId a"
    and "distinct (map ny_attemptId as)"
  shows "attempts_of j (tbl_replace ny_attemptId k a' as) = attempts_of j as"
proof -
  have "x = a" if "x \<in> set as" "ny_attemptId x = k" for x
    using tbl_get_distinct [OF assms(4) that(1)] that(2) assms(2) by simp
  with assms(1,3) show ?thesis
    unfolding attempts_of_def tbl_replace_def by (induction as) auto
qed

text \<open>The attempt that is replaced is open.\<close>

lemma closed_kept_replace:
  assumes "distinct (map ny_attemptId as)" and "distinct (map ny_claimToken as)" and "tbl_get ny_attemptId k as = Some a"
    and "attempt_open a" and "ny_attemptId a' = ny_attemptId a" and "ny_claimToken a' = ny_claimToken a"
  shows "closed_kept as (tbl_replace ny_attemptId k a' as)"
proof (unfold closed_kept_def, intro allI impI)
  fix token b assume b: "tbl_get ny_claimToken token as = Some b" "\<not> attempt_open b"
  note key = tbl_get_key [OF b(1)]
  have "b \<noteq> a" using b(2) assms(4) by auto
  have "ny_attemptId b \<noteq> k"
    using key tbl_get_distinct [OF assms(1), of b] assms(3) \<open>b \<noteq> a\<close> by auto
  then have "b \<in> set (tbl_replace ny_attemptId k a' as)" using key set_tbl_replace [OF assms(3), of a'] by auto
  moreover have "distinct (map ny_claimToken (tbl_replace ny_attemptId k a' as))"
    using assms(2) map_tbl_replace [OF assms(1,3), of ny_claimToken a'] assms(6) by simp
  ultimately show "tbl_get ny_claimToken token (tbl_replace ny_attemptId k a' as) = Some b"
    using tbl_get_distinct key by metis
qed

lemma box_finish:
  assumes ok: "box_ok ds as" and a: "tbl_get ny_attemptId k as = Some a" "attempt_open a"
    and d: "tbl_get nd_deliveryId (ny_deliveryId a) ds = Some d"
    and a': "ny_attemptId a' = ny_attemptId a" "ny_deliveryId a' = ny_deliveryId a" "ny_claimToken a' = ny_claimToken a" "\<not> attempt_open a'"
    and d': "nd_deliveryId d' = nd_deliveryId d" "nd_status d' \<noteq> ND_DELIVERING" "agrees a' d'"
  shows "box_ok (tbl_replace nd_deliveryId (ny_deliveryId a) d' ds) (tbl_replace ny_attemptId k a' as)"
    and "finals_kept ds as (tbl_replace nd_deliveryId (ny_deliveryId a) d' ds) (tbl_replace ny_attemptId k a' as)"
proof -
  let ?i = "ny_deliveryId a"
  note dist = box_okD(1-3) [OF ok]
  have k: "ny_attemptId a = k" "a \<in> set as" and i: "nd_deliveryId d = ?i" using tbl_get_key [OF a(1)] tbl_get_key [OF d] by simp_all
  have "agrees a d" using box_okD(4) [OF ok k(2)] d by auto
  with a(2) have dl: "nd_status d = ND_DELIVERING" "nd_claimToken d = Some (ny_claimToken a)" by (simp_all add: agrees_open)
  have other: "agrees x d' \<and> \<not> attempt_open x" if "x \<in> set as" "x \<noteq> a" "ny_deliveryId x = ?i" for x
  proof -
    have x: "agrees x d" using box_okD(4) [OF ok that(1)] that(3) d by auto
    moreover have "ny_claimToken x \<noteq> ny_claimToken a" using dist(3) that(1,2) k(2) by (auto simp: distinct_map dest: inj_onD)
    ultimately have "\<not> attempt_open x" using dl by (auto simp: agrees_open)
    with x dl show ?thesis using agrees_closed [of x d d'] by (simp add: outgoing_final_def)
  qed
  show "box_ok (tbl_replace nd_deliveryId ?i d' ds) (tbl_replace ny_attemptId k a' as)"
  proof (rule box_okI)
    show "distinct (map nd_deliveryId (tbl_replace nd_deliveryId ?i d' ds))" using dist(1) d'(1) i by simp
    show "distinct (map ny_attemptId (tbl_replace ny_attemptId k a' as))" using dist(2) a'(1) k(1) by simp
    show "distinct (map ny_claimToken (tbl_replace ny_attemptId k a' as))"
      using dist(3) map_tbl_replace [OF dist(2) a(1), of ny_claimToken a'] a'(3) by simp
  next
    fix x assume x: "x \<in> set (tbl_replace ny_attemptId k a' as)"
    then consider "x = a'" | "x \<in> set as" "x \<noteq> a" using set_tbl_replace [OF a(1)] k(1) by auto
    then show "\<exists>d. tbl_get nd_deliveryId (ny_deliveryId x) (tbl_replace nd_deliveryId ?i d' ds) = Some d \<and> agrees x d"
    proof cases
      case 1
      with a'(2) d' d i show ?thesis by (simp add: tbl_get_replace)
    next
      case 2
      with box_okD(4) [OF ok 2(1)] other [of x] d d'(1) i show ?thesis by (auto simp: tbl_get_replace)
    qed
  next
    fix e assume e: "e \<in> set (tbl_replace nd_deliveryId ?i d' ds)" "nd_status e = ND_DELIVERING"
    with d'(2) set_tbl_replace [OF d] have e': "e \<in> set ds" "nd_deliveryId e \<noteq> ?i" by auto
    from box_okD(5) [OF ok e'(1) e(2)] obtain x where x: "x \<in> set as" "ny_deliveryId x = nd_deliveryId e" "attempt_open x" by auto
    with e'(2) have "x \<noteq> a" by auto
    with x have "x \<in> set (tbl_replace ny_attemptId k a' as)"
      using set_tbl_replace [OF a(1), of a'] dist(2) k by (auto simp: distinct_map dest: inj_onD)
    with x show "\<exists>a \<in> set (tbl_replace ny_attemptId k a' as). ny_deliveryId a = nd_deliveryId e \<and> attempt_open a" by auto
  qed
  show "finals_kept ds as (tbl_replace nd_deliveryId ?i d' ds) (tbl_replace ny_attemptId k a' as)"
    by (rule finals_kept_replace [OF d _ _ _ closed_kept_replace [OF dist(2,3) a a'(1,3)]])
      (use dl d'(1) i attempts_of_replace [OF a'(2) a(1) _ dist(2)] in \<open>auto simp: outgoing_final_def\<close>)
qed

lemma box_claim:
  assumes ok: "box_ok ds as" and d: "tbl_get nd_deliveryId i ds = Some d" "nd_status d = ND_PENDING"
    and a: "ny_deliveryId a = i" "attempt_open a" "ny_attemptId a \<notin> ny_attemptId ` set as" "ny_claimToken a \<notin> ny_claimToken ` set as"
    and d': "nd_deliveryId d' = i" "nd_status d' = ND_DELIVERING" "nd_claimToken d' = Some (ny_claimToken a)"
  shows "box_ok (tbl_replace nd_deliveryId i d' ds) (as @ [a])" and "finals_kept ds as (tbl_replace nd_deliveryId i d' ds) (as @ [a])"
proof -
  note dist = box_okD(1-3) [OF ok]
  have agree: "agrees x d'" if "x \<in> set as" "ny_deliveryId x = i" for x
  proof -
    have x: "agrees x d" using box_okD(4) [OF ok that(1)] that(2) d by auto
    with d(2) have "\<not> attempt_open x" by (auto simp: agrees_open)
    with x d(2) show ?thesis using agrees_closed [of x d d'] by (simp add: outgoing_final_def)
  qed
  show "box_ok (tbl_replace nd_deliveryId i d' ds) (as @ [a])"
  proof (rule box_okI)
    show "distinct (map nd_deliveryId (tbl_replace nd_deliveryId i d' ds))" using dist(1) d'(1) by simp
    show "distinct (map ny_attemptId (as @ [a]))" "distinct (map ny_claimToken (as @ [a]))" using dist a(3,4) by auto
  next
    fix x assume "x \<in> set (as @ [a])"
    then consider "x = a" | "x \<in> set as" by auto
    then show "\<exists>d. tbl_get nd_deliveryId (ny_deliveryId x) (tbl_replace nd_deliveryId i d' ds) = Some d \<and> agrees x d"
    proof cases
      case 1
      with a d' d(1) show ?thesis by (simp add: tbl_get_replace agrees_open)
    next
      case 2
      with box_okD(4) [OF ok 2] agree [of x] d d'(1) show ?thesis by (auto simp: tbl_get_replace)
    qed
  next
    fix e assume e: "e \<in> set (tbl_replace nd_deliveryId i d' ds)" "nd_status e = ND_DELIVERING"
    show "\<exists>a' \<in> set (as @ [a]). ny_deliveryId a' = nd_deliveryId e \<and> attempt_open a'"
    proof (cases "e = d'")
      case True
      with a d'(1) show ?thesis by auto
    next
      case False
      with e(1) set_tbl_replace [OF d(1)] have "e \<in> set ds" by auto
      from box_okD(5) [OF ok this e(2)] show ?thesis by auto
    qed
  qed
  show "finals_kept ds as (tbl_replace nd_deliveryId i d' ds) (as @ [a])"
    by (rule finals_kept_replace [OF d(1) _ _ _ closed_kept_append]) (use d(2) d'(1) a(1) in \<open>auto simp: outgoing_final_def attempts_of_def\<close>)
qed

lemma box_mark:
  assumes ok: "box_ok ds as" and a: "tbl_get ny_attemptId k as = Some a" "attempt_open a"
    and a': "ny_attemptId a' = ny_attemptId a" "ny_deliveryId a' = ny_deliveryId a" "ny_claimToken a' = ny_claimToken a" "attempt_open a'"
  shows "box_ok ds (tbl_replace ny_attemptId k a' as)" and "finals_kept ds as ds (tbl_replace ny_attemptId k a' as)"
proof -
  note dist = box_okD(1-3) [OF ok]
  have k: "ny_attemptId a = k" "a \<in> set as" using tbl_get_key [OF a(1)] by simp_all
  from box_okD(4) [OF ok k(2)] obtain d where d: "tbl_get nd_deliveryId (ny_deliveryId a) ds = Some d" "agrees a d" by auto
  with a(2) have dl: "nd_status d = ND_DELIVERING" by (simp add: agrees_open)
  have "agrees a' d" using d(2) a(2) a'(3,4) by (simp add: agrees_open)
  note agree = this
  show "box_ok ds (tbl_replace ny_attemptId k a' as)"
  proof (rule box_okI)
    show "distinct (map nd_deliveryId ds)" by (rule dist(1))
    show "distinct (map ny_attemptId (tbl_replace ny_attemptId k a' as))" using dist(2) a'(1) k(1) by simp
    show "distinct (map ny_claimToken (tbl_replace ny_attemptId k a' as))"
      using dist(3) map_tbl_replace [OF dist(2) a(1), of ny_claimToken a'] a'(3) by simp
  next
    fix x assume "x \<in> set (tbl_replace ny_attemptId k a' as)"
    then consider "x = a'" | "x \<in> set as" using set_tbl_replace [OF a(1)] by auto
    then show "\<exists>d. tbl_get nd_deliveryId (ny_deliveryId x) ds = Some d \<and> agrees x d"
      by cases (use agree d(1) a'(2) box_okD(4) [OF ok] in auto)
  next
    fix e assume "e \<in> set ds" "nd_status e = ND_DELIVERING"
    from box_okD(5) [OF ok this] obtain x where x: "x \<in> set as" "ny_deliveryId x = nd_deliveryId e" "attempt_open x" by auto
    show "\<exists>a \<in> set (tbl_replace ny_attemptId k a' as). ny_deliveryId a = nd_deliveryId e \<and> attempt_open a"
    proof (cases "ny_attemptId x = k")
      case True
      then have "x = a" using tbl_get_distinct [OF dist(2) x(1)] a(1) by simp
      with x(2) a' set_tbl_replace [OF a(1), of a'] show ?thesis by auto
    next
      case False
      with x set_tbl_replace [OF a(1), of a'] show ?thesis by auto
    qed
  qed
  have "finals_kept ds as (tbl_replace nd_deliveryId (ny_deliveryId a) d ds) (tbl_replace ny_attemptId k a' as)"
    by (rule finals_kept_replace [OF d(1) _ _ _ closed_kept_replace [OF dist(2,3) a a'(1,3)]])
      (use dl tbl_get_key [OF d(1)] attempts_of_replace [OF a'(2) a(1) _ dist(2)] in \<open>auto simp: outgoing_final_def\<close>)
  moreover have "tbl_replace nd_deliveryId (ny_deliveryId a) d ds = ds"
    unfolding tbl_replace_def using tbl_get_distinct [OF dist(1)] d(1) by (intro map_idI) (metis option.inject)
  ultimately show "finals_kept ds as ds (tbl_replace ny_attemptId k a' as)" by simp
qed

section \<open>Statements on the outbox\<close>

lemma same_outbox:
  "connector_deliveries t = connector_deliveries s \<Longrightarrow> connector_delivery_attempts t = connector_delivery_attempts s \<Longrightarrow> outbox_step s t"
  by (simp add: outbox_step_def outbox_ok_def finals_kept_refl)

lemma outbox_stepI:
  assumes "\<And>ds as. connector_deliveries s = ds \<Longrightarrow> connector_delivery_attempts s = as \<Longrightarrow> box_ok ds as \<Longrightarrow>
    box_ok (connector_deliveries t) (connector_delivery_attempts t)
    \<and> finals_kept ds as (connector_deliveries t) (connector_delivery_attempts t)"
  shows "outbox_step s t"
  using assms by (simp add: outbox_step_def outbox_ok_def)

lemma insertDelivery_step:
  assumes "insertDelivery d s = Inr t" and "nd_status d = ND_PENDING"
  shows "outbox_step s t"
proof (rule outbox_stepI)
  fix ds as assume s: "connector_deliveries s = ds" "connector_delivery_attempts s = as" and ok: "box_ok ds as"
  let ?d = "d\<lparr>nd_payload := json_clean (nd_payload d)\<rparr>"
  from assms(1) s have new: "tbl_get nd_deliveryId (nd_deliveryId d) ds = None"
    and t: "connector_deliveries t = ds @ [?d]" "connector_delivery_attempts t = as"
    by (auto simp: insertDelivery_def getDelivery_def split: if_splits)
  have "box_ok (ds @ [?d]) as"
  proof (rule box_okI)
    show "distinct (map nd_deliveryId (ds @ [?d]))" using box_okD(1) [OF ok] new by (auto simp: tbl_get_None)
    show "\<exists>e. tbl_get nd_deliveryId (ny_deliveryId a) (ds @ [?d]) = Some e \<and> agrees a e" if "a \<in> set as" for a
      using box_okD(4) [OF ok that] by (auto simp: tbl_get_append)
    show "\<exists>a \<in> set as. ny_deliveryId a = nd_deliveryId e \<and> attempt_open a" if "e \<in> set (ds @ [?d])" "nd_status e = ND_DELIVERING" for e
      using that box_okD(5) [OF ok, of e] assms(2) by auto
  qed (rule box_okD [OF ok])+
  with t show "box_ok (connector_deliveries t) (connector_delivery_attempts t)
    \<and> finals_kept ds as (connector_deliveries t) (connector_delivery_attempts t)"
    by (auto simp: finals_kept_def closed_kept_def tbl_get_append)
qed

lemma outgoing_write_Inr:
  "outgoing_write p f s = Inr (t, n) \<Longrightarrow> t = s\<lparr>connector_deliveries := tbl_modify p f (connector_deliveries s)\<rparr>
     \<and> n = tbl_changes p (connector_deliveries s)"
  by (auto simp: outgoing_write_def split: if_splits)

lemma claimed_step:
  assumes w: "outgoing_write (\<lambda>d. nd_deliveryId d = i \<and> nd_status d = ND_PENDING) (claimed_outgoing number token deadline now) s = Inr (s1, n)"
    and d: "getDelivery i s = Some d" "nd_status d = ND_PENDING"
    and a: "insertAttemptRow a s1 = Inr t" "ny_deliveryId a = i" "ny_claimToken a = token" "ny_status a = NT_CLAIMED"
  shows "outbox_step s t"
proof (rule outbox_stepI)
  fix ds as assume s: "connector_deliveries s = ds" "connector_delivery_attempts s = as" and ok: "box_ok ds as"
  let ?d = "claimed_outgoing number token deadline now d"
  from a(1) outgoing_write_Inr [OF w] s have t: "connector_delivery_attempts t = as @ [a]"
      "connector_deliveries t = tbl_modify (\<lambda>d. nd_deliveryId d = i \<and> nd_status d = ND_PENDING) (claimed_outgoing number token deadline now) ds"
    and new: "ny_attemptId a \<notin> ny_attemptId ` set as" "ny_claimToken a \<notin> ny_claimToken ` set as"
    by (auto simp: insertAttemptRow_def getDeliveryAttempt_def getDeliveryAttemptByClaim_def tbl_get_None split: if_splits)
  have g: "tbl_get nd_deliveryId i ds = Some d" using d(1) s by (simp add: getDelivery_def)
  then have "connector_deliveries t = tbl_replace nd_deliveryId i ?d ds"
    unfolding t by (intro tbl_modify_unique box_okD(1) [OF ok]) (simp_all add: d(2) tbl_get_key [OF g])
  moreover have "box_ok (tbl_replace nd_deliveryId i ?d ds) (as @ [a])" "finals_kept ds as (tbl_replace nd_deliveryId i ?d ds) (as @ [a])"
    by (rule box_claim [OF ok g d(2) a(2) _ new]; use tbl_get_key [OF g] a in \<open>simp add: claimed_outgoing_def attempt_open_def\<close>)+
  ultimately show "box_ok (connector_deliveries t) (connector_delivery_attempts t)
    \<and> finals_kept ds as (connector_deliveries t) (connector_delivery_attempts t)" using t(1) by simp
qed

lemma marked_step:
  assumes w: "dispatch_write (\<lambda>a. ny_deliveryId a = i \<and> ny_claimToken a = token \<and> ny_status a = NT_CLAIMED)
      (\<lambda>a. a\<lparr>ny_status := NT_DISPATCHED, ny_dispatchedAt := Some now\<rparr>) s = Inr (t, n)" (is "dispatch_write ?p ?f s = _")
  shows "outbox_step s t"
proof (rule outbox_stepI)
  fix ds as assume s: "connector_deliveries s = ds" "connector_delivery_attempts s = as" and ok: "box_ok ds as"
  from w s have t: "connector_deliveries t = ds" "connector_delivery_attempts t = tbl_modify ?p ?f as"
    by (auto simp: dispatch_write_def)
  show "box_ok (connector_deliveries t) (connector_delivery_attempts t)
    \<and> finals_kept ds as (connector_deliveries t) (connector_delivery_attempts t)"
  proof (cases "list_ex ?p as")
    case False
    then have "tbl_modify ?p ?f as = as" unfolding tbl_modify_def by (intro map_idI) (auto simp: list_ex_iff)
    with t ok show ?thesis by (simp add: finals_kept_refl)
  next
    case True
    then obtain a where a: "a \<in> set as" "?p a" by (auto simp: list_ex_iff)
    note ids = box_okD(2) [OF ok]
    have g: "tbl_get ny_attemptId (ny_attemptId a) as = Some a" by (rule tbl_get_distinct [OF ids a(1)])
    have same: "?p x \<longleftrightarrow> ny_attemptId x = ny_attemptId a \<and> ?p x" if "x \<in> set as" for x
    proof
      assume p: "?p x"
      have "ny_claimToken x = ny_claimToken a"
        by (rule trans [OF conjunct1 [OF conjunct2 [OF p]] sym [OF conjunct1 [OF conjunct2 [OF a(2)]]]])
      then have xa: "x = a" by (rule inj_onD [OF conjunct2 [OF iffD1 [OF distinct_map box_okD(3) [OF ok]]] _ that a(1)])
      show "ny_attemptId x = ny_attemptId a \<and> ?p x" by (rule conjI [OF _ p]) (simp only: xa)
    qed (erule conjunct2)
    have "tbl_modify ?p ?f as = tbl_modify (\<lambda>x. ny_attemptId x = ny_attemptId a \<and> ?p x) ?f as"
      unfolding tbl_modify_def by (rule map_cong [OF refl]) (rule if_cong [OF same refl refl])
    also have "\<dots> = tbl_replace ny_attemptId (ny_attemptId a) (?f a) as"
      by (rule tbl_modify_unique [OF ids g]) (use a(2) in simp_all)
    finally have "tbl_modify ?p ?f as = tbl_replace ny_attemptId (ny_attemptId a) (?f a) as" .
    moreover have "box_ok ds (tbl_replace ny_attemptId (ny_attemptId a) (?f a) as)"
        "finals_kept ds as ds (tbl_replace ny_attemptId (ny_attemptId a) (?f a) as)"
      by (rule box_mark [OF ok g]; use a(2) in \<open>simp add: attempt_open_def\<close>)+
    ultimately show ?thesis using t by simp
  qed
qed

definition ends_well :: "finish_attempt \<Rightarrow> bool" where
  "ends_well i \<longleftrightarrow> fa_attemptStatus i \<noteq> NT_CLAIMED \<and> fa_attemptStatus i \<noteq> NT_DISPATCHED \<and> fa_deliveryStatus i \<noteq> ND_DELIVERING
     \<and> (fa_attemptStatus i = NT_ACCEPTED \<longrightarrow> fa_deliveryStatus i = ND_DELIVERED)
     \<and> (fa_attemptStatus i = NT_UNCERTAIN \<longrightarrow> fa_deliveryStatus i = ND_UNCERTAIN)"

text \<open>The attempt and the delivery of a token end together: the error of a claim that disappeared is never raised.\<close>

lemma finish_effect:
  assumes ok: "box_ok ds as" and a: "tbl_get ny_claimToken (fa_claimToken i) as = Some a" "ny_deliveryId a = fa_deliveryId i" "attempt_open a"
    and e: "ends_well i"
  shows "tbl_changes (\<lambda>x. ny_attemptId x = ny_attemptId a \<and> attempt_open x) as = 1"
    and "tbl_changes (outgoing_claimed i) ds = 1"
    and "box_ok (tbl_modify (outgoing_claimed i) (finished_outgoing i) ds)
      (tbl_modify (\<lambda>x. ny_attemptId x = ny_attemptId a \<and> attempt_open x) (finished_dispatch i) as)"
    and "finals_kept ds as (tbl_modify (outgoing_claimed i) (finished_outgoing i) ds)
      (tbl_modify (\<lambda>x. ny_attemptId x = ny_attemptId a \<and> attempt_open x) (finished_dispatch i) as)"
proof -
  let ?p = "\<lambda>x. ny_attemptId x = ny_attemptId a \<and> attempt_open x"
  note dist = box_okD(1-3) [OF ok]
  have a': "a \<in> set as" "ny_claimToken a = fa_claimToken i" using tbl_get_key [OF a(1)] by simp_all
  have g: "tbl_get ny_attemptId (ny_attemptId a) as = Some a" by (rule tbl_get_distinct [OF dist(2) a'(1)])
  from box_okD(4) [OF ok a'(1)] a(2) obtain d where d: "tbl_get nd_deliveryId (fa_deliveryId i) ds = Some d" "agrees a d" by auto
  with a(3) a'(2) tbl_get_key [OF d(1)] have c: "outgoing_claimed i d" by (simp add: agrees_open outgoing_claimed_def)
  show "tbl_changes ?p as = 1" by (rule changes_unique [OF dist(2) g]) (simp_all add: a(3))
  show "tbl_changes (outgoing_claimed i) ds = 1" by (rule changes_unique [OF dist(1) d(1)]) (simp_all add: c, simp add: outgoing_claimed_def)
  have as: "tbl_modify ?p (finished_dispatch i) as = tbl_replace ny_attemptId (ny_attemptId a) (finished_dispatch i a) as"
    by (rule tbl_modify_unique [OF dist(2) g]) (simp_all add: a(3))
  have ds: "tbl_modify (outgoing_claimed i) (finished_outgoing i) ds = tbl_replace nd_deliveryId (ny_deliveryId a) (finished_outgoing i d) ds"
    unfolding a(2) by (rule tbl_modify_unique [OF dist(1) d(1)]) (simp_all add: c, simp add: outgoing_claimed_def)
  have "agrees (finished_dispatch i a) (finished_outgoing i d)" "\<not> attempt_open (finished_dispatch i a)"
    using e by (cases "fa_attemptStatus i"; simp add: agrees_def attempt_open_def finished_dispatch_def finished_outgoing_def ends_well_def)+
  then show "box_ok (tbl_modify (outgoing_claimed i) (finished_outgoing i) ds) (tbl_modify ?p (finished_dispatch i) as)"
    "finals_kept ds as (tbl_modify (outgoing_claimed i) (finished_outgoing i) ds) (tbl_modify ?p (finished_dispatch i) as)"
    unfolding as ds using box_finish [OF ok g a(3), of d "finished_dispatch i a" "finished_outgoing i d"] d(1) a(2) e
    by (simp_all add: finished_dispatch_def finished_outgoing_def ends_well_def)
qed

lemma finishDeliveryAttempt_step:
  assumes "finishDeliveryAttempt i s = Inr (t, r)" and "ends_well i"
  shows "outbox_step s t"
proof (rule outbox_stepI)
  fix ds as assume s: "connector_deliveries s = ds" "connector_delivery_attempts s = as" and ok: "box_ok ds as"
  show "box_ok (connector_deliveries t) (connector_delivery_attempts t)
    \<and> finals_kept ds as (connector_deliveries t) (connector_delivery_attempts t)"
  proof (cases "t = s")
    case True
    with s ok show ?thesis by (simp add: finals_kept_refl)
  next
    case False
    with assms(1) s obtain a where a: "tbl_get ny_claimToken (fa_claimToken i) as = Some a" "ny_deliveryId a = fa_deliveryId i" "attempt_open a"
      by (auto simp: finishDeliveryAttempt_def getDeliveryAttemptByClaim_def split: option.splits if_splits)
    note e = finish_effect [OF ok a assms(2)]
    from assms(1) s a e(1) have "connector_deliveries t = tbl_modify (outgoing_claimed i) (finished_outgoing i) ds"
      "connector_delivery_attempts t = tbl_modify (\<lambda>x. ny_attemptId x = ny_attemptId a \<and> attempt_open x) (finished_dispatch i) as"
      by (auto simp: finishDeliveryAttempt_def getDeliveryAttemptByClaim_def dispatch_write_def rop_bind_Inr split: if_splits dest!: outgoing_write_Inr)
    with e(3,4) show ?thesis by simp
  qed
qed

lemma insertDeadLetter_step: "insertDeadLetter l s = Inr t \<Longrightarrow> outbox_step s t"
  by (rule same_outbox) (auto simp: insertDeadLetter_def split: if_splits)

lemma insertReceipt_step: "insertReceipt r s = Inr t \<Longrightarrow> outbox_step s t"
  by (rule same_outbox) (auto simp: insertReceipt_def split: if_splits)

lemma repository_claimDelivery_step:
  assumes "repository_claimDelivery connectorId accountId now token deadline attemptId s = Inr (t, r)"
  shows "outbox_step s t"
proof (cases "t = s \<or> \<not> outbox_ok s")
  case True
  then show ?thesis by (auto simp: outbox_step_def finals_kept_refl)
next
  case False
  let ?due = "sort_key (\<lambda>d. (nd_createdAt d, nd_deliveryId d)) (filter (outgoing_due connectorId accountId now) (connector_deliveries s))"
  from False assms obtain d rest where due: "?due = d # rest"
    by (cases ?due) (auto simp: repository_claimDelivery_def)
  then have "d \<in> set (filter (outgoing_due connectorId accountId now) (connector_deliveries s))" by (metis list.set_intros(1) set_sort)
  then have d: "d \<in> set (connector_deliveries s)" "nd_status d = ND_PENDING" by (simp_all add: outgoing_due_def)
  from False have ids: "distinct (map nd_deliveryId (connector_deliveries s))" by (simp add: outbox_ok_def box_ok_def)
  have g: "getDelivery (nd_deliveryId d) s = Some d" unfolding getDelivery_def by (rule tbl_get_distinct [OF ids d(1)])
  have n: "tbl_changes (\<lambda>x. nd_deliveryId x = nd_deliveryId d \<and> nd_status x = ND_PENDING) (connector_deliveries s) = 1"
    by (rule changes_unique [OF ids g [unfolded getDelivery_def]]) (simp_all add: d)
  from assms due obtain s1 m a where w: "outgoing_write (\<lambda>x. nd_deliveryId x = nd_deliveryId d \<and> nd_status x = ND_PENDING)
        (claimed_outgoing (nd_attemptCount d + 1) token deadline now) s = Inr (s1, m)"
    and "m \<noteq> 1 \<or> insertAttemptRow a s1 = Inr t \<and> ny_deliveryId a = nd_deliveryId d \<and> ny_claimToken a = token \<and> ny_status a = NT_CLAIMED"
    by (simp add: repository_claimDelivery_def Let_def rop_bind_Inr) (fastforce simp: rop_bind_Inr rop_do_Inr rop_found_Inr split: if_splits)
  moreover have "m = 1" using outgoing_write_Inr [OF w] n by simp
  ultimately show ?thesis using claimed_step [OF w g d(2), of a t] by simp
qed

section \<open>The rest of the system\<close>

text \<open>No statement of another repository writes the outbox.\<close>

definition same_connectors :: "db \<Rightarrow> db \<Rightarrow> bool" where
  "same_connectors s t \<longleftrightarrow> connector_accounts t = connector_accounts s \<and> connector_bindings t = connector_bindings s
     \<and> connector_ingress_events t = connector_ingress_events s \<and> connector_deliveries t = connector_deliveries s
     \<and> connector_delivery_attempts t = connector_delivery_attempts s \<and> connector_delivery_receipts t = connector_delivery_receipts s
     \<and> connector_dead_letters t = connector_dead_letters s"

lemma only_tasks_connectors: "only_tasks s t \<Longrightarrow> same_connectors s t"
  by (auto simp: only_tasks_def same_connectors_def)

lemma conversation_ops_connectors:
  "createConversation row s = Inr s1 \<Longrightarrow> same_connectors s s1"
  "nextMessageSequence i now s = Inr (s2, n) \<Longrightarrow> same_connectors s s2"
  "insertMessage m s = Inr s3 \<Longrightarrow> same_connectors s s3"
  "insertSubmission sub s = Inr s4 \<Longrightarrow> same_connectors s s4"
  "nextEventSequence i now s = Inr (s5, n) \<Longrightarrow> same_connectors s s5"
  "insertEvent e s = Inr s6 \<Longrightarrow> same_connectors s s6"
  "insertAttempt a s = Inr s7 \<Longrightarrow> same_connectors s s7"
  "write_attempt i msg f s = Inr s8 \<Longrightarrow> same_connectors s s8"
  "insertModelInvocation v s = Inr s9 \<Longrightarrow> same_connectors s s9"
  "completeModelInvocation i st resp inp outp err now s = Inr s10 \<Longrightarrow> same_connectors s s10"
  "recoverStartedModelInvocations i now s = (s11, k) \<Longrightarrow> same_connectors s s11"
  "rebuildProjection i now s = Inr (s12, p) \<Longrightarrow> same_connectors s s12"
  by (auto simp: same_connectors_def createConversation_def nextMessageSequence_def insertMessage_def insertSubmission_def
      nextEventSequence_def insertEvent_def insertAttempt_def write_attempt_def insertModelInvocation_def
      completeModelInvocation_def recoverStartedModelInvocations_def rebuildProjection_def Let_def split: if_splits option.splits)

lemma delegation_ops_connectors:
  "insertBudgetEnvelope b s = Inr s1 \<Longrightarrow> same_connectors s s1"
  "updateBudgetUsage i us now s = Inr s2 \<Longrightarrow> same_connectors s s2"
  "updateDelegationStatus i ds x y z now s = Inr s3 \<Longrightarrow> same_connectors s s3"
  "delegation_insertEvent dv s = Inr s4 \<Longrightarrow> same_connectors s s4"
  "insertWait w s = Inr s5 \<Longrightarrow> same_connectors s s5"
  "deleteWait i j s = (s6, gone) \<Longrightarrow> same_connectors s s6"
  "insertResultDelivery rd s = Inr s7 \<Longrightarrow> same_connectors s s7"
  "markResultDelivered i h at now s = Inr s8 \<Longrightarrow> same_connectors s s8"
  "releaseBudgetReservation i rr us now s = Inr (s9, br) \<Longrightarrow> same_connectors s s9"
  "insertDelegation d s = Inr s10 \<Longrightarrow> same_connectors s s10"
  "insertBudgetReservation rs s = Inr s11 \<Longrightarrow> same_connectors s s11"
  by (auto simp: same_connectors_def insertBudgetEnvelope_def updateBudgetUsage_def budget_write_def updateDelegationStatus_def
      delegation_write_def delegation_insertEvent_def insertWait_def deleteWait_def insertResultDelivery_def
      markResultDelivered_def releaseBudgetReservation_def insertDelegation_def insertBudgetReservation_def Let_def
      split: if_splits option.splits)

lemma run_ops_connectors:
  "insertRun run s = Inr t \<Longrightarrow> same_connectors s t" "updateRun u s = Inr t \<Longrightarrow> same_connectors s t"
  "classifyRun ci s = Inr (t, v) \<Longrightarrow> same_connectors s t"
  by (auto dest!: insertRun_only updateRun_only classifyRun_only only_tasks_connectors simp: same_connectors_def)

interpretation cn: delegation_statements same_connectors
proof
  show "same_connectors s s" "same_connectors a b \<Longrightarrow> same_connectors b c \<Longrightarrow> same_connectors a c" for s a b c
    by (simp_all add: same_connectors_def)
qed (blast intro: conversation_ops_connectors delegation_ops_connectors run_ops_connectors)+

lemma same_connectors_outbox: "same_connectors s t \<Longrightarrow> outbox_step s t"
  by (rule same_outbox) (simp_all add: same_connectors_def)

section \<open>Events that came in\<close>

definition ingress_final :: "ingress_status \<Rightarrow> bool" where
  "ingress_final st \<longleftrightarrow> st \<noteq> NI_RECEIVED \<and> st \<noteq> NI_CLAIMED"

text \<open>An event keeps its row and what it carried; once it is adopted, ignored or dead the row does not change.\<close>

definition event_stays :: "ingress_row \<Rightarrow> ingress_row \<Rightarrow> bool" where
  "event_stays r r' \<longleftrightarrow> ni_ingressId r' = ni_ingressId r \<and> ni_laneKey r' = ni_laneKey r \<and> ni_payloadVersion r' = ni_payloadVersion r
     \<and> ni_payload r' = ni_payload r \<and> ni_payloadHash r' = ni_payloadHash r \<and> (ingress_final (ni_status r) \<longrightarrow> r' = r)"

definition ingress_at :: "string \<times> string \<times> string \<Rightarrow> db \<Rightarrow> ingress_row option" where
  "ingress_at k s = tbl_get ingress_event k (connector_ingress_events s)"

definition events_stay :: "db \<Rightarrow> db \<Rightarrow> bool" where
  "events_stay s t \<longleftrightarrow> (\<forall>k r. ingress_at k s = Some r \<longrightarrow> (\<exists>r'. ingress_at k t = Some r' \<and> event_stays r r'))"

lemma event_stays_refl: "event_stays r r"
  by (simp add: event_stays_def)

lemma event_stays_trans: "event_stays a b \<Longrightarrow> event_stays b c \<Longrightarrow> event_stays a c"
  by (auto simp: event_stays_def)

interpretation evs: step_preorder events_stay
proof
  show "events_stay s s" for s by (simp add: events_stay_def event_stays_refl)
  show "events_stay a c" if "events_stay a b" "events_stay b c" for a b c
    using that unfolding events_stay_def by (blast intro: event_stays_trans)
qed

lemma same_events: "connector_ingress_events t = connector_ingress_events s \<Longrightarrow> events_stay s t"
  by (simp add: events_stay_def ingress_at_def event_stays_refl)

lemma same_connectors_events: "same_connectors s t \<Longrightarrow> events_stay s t"
  by (rule same_events) (simp add: same_connectors_def)

lemma insertIngress_events: "insertIngress r s = Inr t \<Longrightarrow> events_stay s t"
  by (auto simp: insertIngress_def events_stay_def ingress_at_def tbl_get_append event_stays_refl split: if_splits)

lemma ingress_write_Inr: "ingress_write p f s = Inr (t, n) \<Longrightarrow> t = s\<lparr>connector_ingress_events := tbl_modify p f (connector_ingress_events s)\<rparr>"
  by (auto simp: ingress_write_def Let_def split: if_splits)

lemma ingress_write_stay:
  assumes "\<And>r. ingress_event (f r) = ingress_event r" and "\<And>r. p r \<Longrightarrow> event_stays r (f r)"
  shows "keeps events_stay (ingress_write p f)"
  by (rule evs.keeps_op) (auto dest!: ingress_write_Inr simp: events_stay_def ingress_at_def tbl_get_write assms event_stays_refl)

lemma ingress_statements:
  "keeps events_stay (rop_do (insertIngress r))" "keeps events_stay (updateIngressClaim oc)" "keeps events_stay (repository_claimIngress ci)"
proof -
  show "keeps events_stay (rop_do (insertIngress r))" by (rule evs.keeps_rop_do) (rule insertIngress_events)
  show "keeps events_stay (updateIngressClaim oc)" unfolding updateIngressClaim_def
    by (intro evs.keeps_intros ingress_write_stay)
      (auto simp: outcome_row_def ingress_event_def ingress_claimed_def event_stays_def ingress_final_def)
  show "keeps events_stay (repository_claimIngress ci)" unfolding repository_claimIngress_def
    by (intro evs.keeps_seq evs.keeps_query; auto intro!: evs.keeps_intros ingress_write_stay
        simp: ingress_event_def event_stays_def ingress_final_def split: list.split)
qed

lemma keeps_weaken: "keeps R m \<Longrightarrow> (\<And>s t. R s t \<Longrightarrow> Q s t) \<Longrightarrow> keeps Q m"
  by (simp add: keeps_def)

section \<open>What every call of the connectors keeps\<close>

definition connectors_kept :: "db \<Rightarrow> db \<Rightarrow> bool" where
  "connectors_kept s t \<longleftrightarrow> outbox_step s t \<and> events_stay s t"

interpretation ck: step_preorder connectors_kept
  by unfold_locales (auto simp: connectors_kept_def intro: obx.refl obx.trans evs.refl evs.trans)

lemma outbox_kept: "outbox_step s t \<Longrightarrow> connector_ingress_events t = connector_ingress_events s \<Longrightarrow> connectors_kept s t"
  by (simp add: connectors_kept_def same_events)

lemma keeps_both: "keeps outbox_step m \<Longrightarrow> keeps events_stay m \<Longrightarrow> keeps connectors_kept m"
  by (simp add: keeps_def connectors_kept_def)

lemma ingress_write_frame: "keeps outbox_step (ingress_write p f)"
  by (rule obx.keeps_op) (auto dest!: ingress_write_Inr intro: same_outbox)

lemma ingress_statements_kept:
  "keeps connectors_kept (rop_do (insertIngress r))" "keeps connectors_kept (updateIngressClaim oc)"
  "keeps connectors_kept (repository_claimIngress ci)" "keeps connectors_kept (rop_do (insertBinding b))"
  "keeps connectors_kept (upsertAccount ac)"
proof -
  have i: "keeps outbox_step (rop_do (insertIngress r))"
    by (rule obx.keeps_rop_do) (auto simp: insertIngress_def intro!: same_outbox split: if_splits)
  have u: "keeps outbox_step (updateIngressClaim oc)" unfolding updateIngressClaim_def
    by (intro obx.keeps_intros ingress_write_frame)
  have c: "keeps outbox_step (repository_claimIngress ci)" unfolding repository_claimIngress_def
    by (intro obx.keeps_seq obx.keeps_query; auto intro!: obx.keeps_intros ingress_write_frame split: list.split)
  show "keeps connectors_kept (rop_do (insertIngress r))" "keeps connectors_kept (updateIngressClaim oc)"
      "keeps connectors_kept (repository_claimIngress ci)"
    by (rule keeps_both [OF i ingress_statements(1)], rule keeps_both [OF u ingress_statements(2)], rule keeps_both [OF c ingress_statements(3)])
  show "keeps connectors_kept (rop_do (insertBinding b))"
    by (rule ck.keeps_rop_do, rule outbox_kept) (auto simp: insertBinding_def intro!: same_outbox split: if_splits)
  show "keeps connectors_kept (upsertAccount ac)"
    by (rule ck.keeps_op, rule outbox_kept) (auto simp: upsertAccount_def Let_def intro!: same_outbox split: if_splits option.splits)
qed

lemma same_connectors_kept: "same_connectors s t \<Longrightarrow> connectors_kept s t"
  by (simp add: connectors_kept_def same_connectors_outbox same_connectors_events)

lemma statements_kept:
  "nd_status d = ND_PENDING \<Longrightarrow> keeps connectors_kept (rop_do (insertDelivery d))"
  "keeps connectors_kept (rop_do (insertReceipt r))" "keeps connectors_kept (rop_do (insertDeadLetter l))"
  "ends_well i \<Longrightarrow> keeps connectors_kept (finishDeliveryAttempt i)"
  "keeps connectors_kept (dispatch_write (\<lambda>a. ny_deliveryId a = k \<and> ny_claimToken a = token \<and> ny_status a = NT_CLAIMED)
     (\<lambda>a. a\<lparr>ny_status := NT_DISPATCHED, ny_dispatchedAt := Some now\<rparr>))"
  "keeps connectors_kept (repository_claimDelivery c a now token deadline k)"
proof -
  show "keeps connectors_kept (rop_do (insertDelivery d))" if "nd_status d = ND_PENDING"
    by (rule ck.keeps_rop_do, rule outbox_kept, erule insertDelivery_step, rule that) (auto simp: insertDelivery_def split: if_splits)
  show "keeps connectors_kept (rop_do (insertReceipt r))"
    by (rule ck.keeps_rop_do, rule outbox_kept, erule insertReceipt_step) (auto simp: insertReceipt_def split: if_splits)
  show "keeps connectors_kept (rop_do (insertDeadLetter l))"
    by (rule ck.keeps_rop_do, rule outbox_kept, erule insertDeadLetter_step) (auto simp: insertDeadLetter_def split: if_splits)
  show "keeps connectors_kept (finishDeliveryAttempt i)" if "ends_well i"
    by (rule ck.keeps_op, rule outbox_kept, erule finishDeliveryAttempt_step, rule that)
      (auto simp: finishDeliveryAttempt_def dispatch_write_def rop_bind_Inr split: option.splits if_splits dest!: outgoing_write_Inr)
  show "keeps connectors_kept (dispatch_write (\<lambda>a. ny_deliveryId a = k \<and> ny_claimToken a = token \<and> ny_status a = NT_CLAIMED)
     (\<lambda>a. a\<lparr>ny_status := NT_DISPATCHED, ny_dispatchedAt := Some now\<rparr>))"
    by (rule ck.keeps_op, rule outbox_kept, erule marked_step) (auto simp: dispatch_write_def)
  show "keeps connectors_kept (repository_claimDelivery c a now token deadline k)"
    by (rule ck.keeps_op, rule outbox_kept, erule repository_claimDelivery_step)
      (auto simp: repository_claimDelivery_def Let_def insertAttemptRow_def rop_bind_Inr rop_do_Inr rop_found_Inr
        split: list.splits if_splits dest!: outgoing_write_Inr)
qed

section \<open>Calls of the service\<close>

lemma account_keeps: "keeps connectors_kept (enabled_account kc c a)"
  unfolding enabled_account_def by (intro ck.keeps_intros)

lemma outcome_ends_well: "ends_well (attempt_outcome k token NT_REJECTED ND_SUPPRESSED at code sm now)"
  "ends_well (attempt_outcome k token NT_ACCEPTED ND_DELIVERED at code sm now)" "ends_well (uncertain now d a)" "ends_well (abandoned now d a)"
  by (simp_all add: ends_well_def attempt_outcome_def uncertain_def abandoned_def)

lemma failed_ends_well:
  "ends_well (attempt_outcome k token (if df_certainty f = MAYBE_ACCEPTED then NT_UNCERTAIN else NT_REJECTED) (failed_status kc f d) at code sm now)"
  by (simp add: ends_well_def attempt_outcome_def failed_status_def)

lemma recover_keeps: "keeps connectors_kept (recover_claim ids now x)" "keeps connectors_kept (recoverExpiredDeliveries ids now n)"
proof -
  show r: "keeps connectors_kept (recover_claim ids now x)" for x
    unfolding recover_claim_def by (intro ck.keeps_intros statements_kept outcome_ends_well)
  show "keeps connectors_kept (recoverExpiredDeliveries ids now n)"
    unfolding recoverExpiredDeliveries_def by (intro ck.keeps_intros r)
qed

lemma finish_claim_keeps: "ends_well i \<Longrightarrow> keeps connectors_kept (finish_claim i)"
  unfolding finish_claim_def by (intro ck.keeps_intros statements_kept)

lemmas connector_rules = ck.keeps_intros ck.steps_intros ck.steps_body statements_kept account_keeps recover_keeps
  finish_claim_keeps outcome_ends_well failed_ends_well

lemma delivery_bodies:
  "keeps connectors_kept (enqueue_transaction kc i now c dr)" "keeps connectors_kept (claim_attempt cl)"
  "keeps connectors_kept (accept_transaction kc i now cl p)" "keeps connectors_kept (fail_transaction kc i now cl f ms)"
proof -
  show "keeps connectors_kept (enqueue_transaction kc i now c dr)"
    unfolding enqueue_transaction_def by (intro connector_rules) (simp add: new_outgoing_def)
  show c: "keeps connectors_kept (claim_attempt cl)" for cl unfolding claim_attempt_def by (intro connector_rules)
  show "keeps connectors_kept (accept_transaction kc i now cl p)"
    unfolding accept_transaction_def by (intro connector_rules c) (auto intro!: connector_rules split: bool.split option.split)
  show "keeps connectors_kept (fail_transaction kc i now cl f ms)"
    unfolding fail_transaction_def Let_def by (intro connector_rules c)
qed

lemma delivery_steps:
  "ck.steps (enqueueDelivery kc i now c dr)" "ck.steps (recoverExpiredDeliveryClaims ids now n)"
  "ck.steps (service_claimDelivery kc ids token aid now c a)" "ck.steps (service_markDispatched now cl)"
  "ck.steps (completeDeliveryAccepted kc i now cl p)" "ck.steps (completeDeliverySuppressed now cl reason)"
  "ck.steps (failDelivery kc i now cl f)"
  unfolding repository_markDispatched_def enqueueDelivery_def recoverExpiredDeliveryClaims_def service_claimDelivery_def service_markDispatched_def
    completeDeliveryAccepted_def completeDeliverySuppressed_def failDelivery_def
  by (intro connector_rules delivery_bodies)+

end
