(* ===== verification/Connector_Scenario.thy ===== *)
theory Connector_Scenario
  imports Connector_Machine Delegation_Scenario
begin

text \<open>
  One life of a delivery, evaluated call by call: an account, an event, a delivery that is queued, claimed and dispatched, and the
  recovery after its claim expired. The states serve as concrete inputs for the properties of the connectors.
\<close>

definition sample_connectors :: connector_service where
  "sample_connectors = \<lparr>kc_conversations = sample_conversations, kc_workspaceIds = [''w''], kc_sha256 = no_hash, kc_ingressLeaseMs = 30000,
     kc_deliveryLeaseMs = 30000, kc_maxDeliveryAttempts = 5\<rparr>"

definition sample_account :: account_row where
  "sample_account = \<lparr>na_connectorId = ''c'', na_accountId = ''a'', na_workspaceId = ''w'', na_extensionId = ''x'', na_status = ENABLED,
     na_revision = 1, na_createdAt = 0, na_updatedAt = 0\<rparr>"

definition account_db :: db where
  "account_db = conversation_db\<lparr>connector_accounts := [sample_account]\<rparr>"

definition sample_event :: ingress_admission where
  "sample_event = \<lparr>ia_accountId = ''a'', ia_externalEventId = ''e'', ia_laneKey = ''l'', ia_payloadVersion = 1, ia_payload = JNull,
     ia_receivedAt = None\<rparr>"

definition event_db :: db where
  "event_db = account_db\<lparr>connector_ingress_events := [new_ingress sample_connectors ''i'' ''c'' sample_event 0]\<rparr>"

definition sample_request :: delivery_request where
  "sample_request = \<lparr>dq_accountId = ''a'', dq_conversationId = ''c1'', dq_runId = None, dq_sourceMessageId = None, dq_targetKey = ''t'',
     dq_threadKey = None, dq_payloadVersion = 1, dq_payload = JNull, dq_idempotencyKey = ''k'', dq_availableAt = None\<rparr>"

definition queued_delivery :: outgoing_row where
  "queued_delivery = new_outgoing sample_connectors ''d'' ''c'' sample_request 0"

definition queued_db :: db where
  "queued_db = account_db\<lparr>connector_deliveries := [queued_delivery]\<rparr>"

definition sample_dispatch :: dispatch_row where
  "sample_dispatch = \<lparr>ny_attemptId = ''n'', ny_deliveryId = ''d'', ny_attemptNumber = 1, ny_claimToken = ''t'', ny_requestHash = no_hash [],
     ny_status = NT_CLAIMED, ny_errorCode = None, ny_errorSummary = None, ny_startedAt = 0, ny_dispatchedAt = None, ny_endedAt = None\<rparr>"

definition claimed_delivery :: outgoing_row where
  "claimed_delivery = claimed_outgoing 1 ''t'' 30000 0 queued_delivery"

definition claimed_db :: db where
  "claimed_db = account_db\<lparr>connector_deliveries := [claimed_delivery], connector_delivery_attempts := [sample_dispatch]\<rparr>"

definition sample_claim :: delivery_claim where
  "sample_claim = \<lparr>dl_delivery = claimed_delivery, dl_attempt = sample_dispatch, dl_claimToken = ''t'', dl_claimDeadlineAt = 30000\<rparr>"

definition sent_dispatch :: dispatch_row where
  "sent_dispatch = sample_dispatch\<lparr>ny_status := NT_DISPATCHED, ny_dispatchedAt := Some 1\<rparr>"

definition dispatched_db :: db where
  "dispatched_db = account_db\<lparr>connector_deliveries := [claimed_delivery], connector_delivery_attempts := [sent_dispatch]\<rparr>"

definition uncertain_db :: db where
  "uncertain_db = account_db\<lparr>
     connector_deliveries := [finished_outgoing (uncertain 30000 claimed_delivery sent_dispatch) claimed_delivery],
     connector_delivery_attempts := [finished_dispatch (uncertain 30000 claimed_delivery sent_dispatch) sent_dispatch],
     connector_dead_letters := [delivery_letter ''z'' claimed_delivery ''HOST_RESTART_AFTER_DISPATCH'' uncertain_summary 30000]\<rparr>"

lemma id_ok: "id_pattern ''c''" "id_pattern ''a''" "id_pattern ''x''"
  by code_simp+

lemmas connector_reads = getAccount_def is_account_def getDelivery_def getDeliveryByIdempotency_def getDeliveryAttempt_def
  getDeliveryAttemptByClaim_def getIngressByExternalEvent_def getIngress_def getConversation_def tbl_get_def tbl_modify_def tbl_changes_def

lemmas connector_sample_defs = sample_connectors_def sample_account_def account_db_def sample_event_def event_db_def sample_request_def
  queued_delivery_def queued_db_def sample_dispatch_def claimed_delivery_def claimed_db_def sample_claim_def sent_dispatch_def
  dispatched_db_def uncertain_db_def

lemmas connector_call_defs = transaction_def connector_bounded_def connector_optional_def positiveInteger_def connector_workspace_def
  enabled_account_def connector_hash_def any_text_def or_default_def rop_bind_def rop_found_def rop_of_def rop_do_def require_def Let_def

lemma account_registered: "registerAccount sample_connectors 0 ''c'' ''a'' ''w'' ''x'' None conversation_db = (Inr sample_account, account_db)"
  by (simp add: registerAccount_def connector_call_defs id_ok workspace_ok upsertAccount_def account_checks_def connector_reads
      connector_sample_defs sample_defs)

lemma event_received: "receiveIngress sample_connectors ''i'' 0 ''c'' sample_event account_db
    = (Inr (new_ingress sample_connectors ''i'' ''c'' sample_event 0, False), event_db)"
  by (simp add: receiveIngress_def admit_ingress_def connector_call_defs id_ok workspace_ok insertIngress_def ingress_checks_def ingress_parents_def
      ingress_claim_ok_def new_ingress_def ingress_event_def connector_reads connector_sample_defs sample_defs)

lemma delivery_queued: "enqueueDelivery sample_connectors ''d'' 0 ''c'' sample_request account_db = (Inr (queued_delivery, False), queued_db)"
  by (simp add: enqueueDelivery_def enqueue_transaction_def connector_call_defs id_ok workspace_ok insertDelivery_def outgoing_checks_def
      outgoing_parents_def new_outgoing_def outgoing_key_def connector_reads connector_sample_defs sample_defs)

lemma delivery_claimed: "service_claimDelivery sample_connectors (\<lambda>j. ''z'') ''t'' ''n'' 0 ''c'' ''a'' queued_db = (Inr (Some sample_claim), claimed_db)"
  by (simp add: service_claimDelivery_def recoverExpiredDeliveries_def listExpiredDeliveryClaims_def expired_claim_def List.map_filter_def connector_call_defs id_ok workspace_ok
      repository_claimDelivery_def outgoing_due_def outgoing_write_def outgoing_checks_def claimed_outgoing_def insertAttemptRow_def
      dispatch_number_def new_outgoing_def connector_reads connector_sample_defs sample_defs)

lemma delivery_dispatched: "\<exists>cl. service_markDispatched 1 sample_claim claimed_db = (Inr cl, dispatched_db)"
  by (simp add: service_markDispatched_def repository_markDispatched_def dispatch_write_def connector_call_defs claimed_outgoing_def
      new_outgoing_def connector_reads connector_sample_defs sample_defs)

lemma claimed_fields [simp]: "nd_deliveryId claimed_delivery = ''d''" "nd_connectorId claimed_delivery = ''c''" "nd_accountId claimed_delivery = ''a''"
  "nd_status claimed_delivery = ND_DELIVERING" "nd_claimToken claimed_delivery = Some ''t''"
  by (simp_all add: claimed_delivery_def claimed_outgoing_def queued_delivery_def new_outgoing_def connector_sample_defs)

lemma sent_fields [simp]: "ny_attemptId sent_dispatch = ''n''" "ny_deliveryId sent_dispatch = ''d''" "ny_claimToken sent_dispatch = ''t''"
  "ny_status sent_dispatch = NT_DISPATCHED"
  by (simp_all add: sent_dispatch_def sample_dispatch_def)

lemma uncertain_checks: "outgoing_checks (finished_outgoing (uncertain 30000 claimed_delivery sent_dispatch) claimed_delivery)"
  by (simp add: outgoing_checks_def finished_outgoing_def uncertain_def attempt_outcome_def)
    (simp add: claimed_outgoing_def new_outgoing_def connector_hash_def no_hash_def connector_sample_defs or_default_def)

lemma one_expired: "listExpiredDeliveryClaims 30000 10 dispatched_db = [(claimed_delivery, sent_dispatch)]"
  by (simp add: listExpiredDeliveryClaims_def expired_claim_def new_outgoing_def claimed_outgoing_def attempt_open_def connector_reads
      connector_sample_defs List.map_filter_def)

lemma letter_ok: "letter_checks (delivery_letter ''z'' claimed_delivery ''HOST_RESTART_AFTER_DISPATCH'' uncertain_summary 30000)"
  by code_simp

lemma letter_fields: "nl_connectorId (delivery_letter i d code summary now) = nd_connectorId d"
  "nl_accountId (delivery_letter i d code summary now) = nd_accountId d"
  by (simp_all add: delivery_letter_def new_letter_def)

lemma delivery_uncertain: "recoverExpiredDeliveryClaims (\<lambda>j. ''z'') 30000 10 dispatched_db = (Inr (0, 1), uncertain_db)"
proof -
  have "finishDeliveryAttempt (uncertain 30000 claimed_delivery sent_dispatch) dispatched_db
      = Inr (uncertain_db\<lparr>connector_dead_letters := []\<rparr>, True)"
    by (simp add: finishDeliveryAttempt_def uncertain_def attempt_outcome_def dispatch_write_def outgoing_write_def outgoing_claimed_def
        rop_bind_def getDeliveryAttemptByClaim_def tbl_get_def tbl_modify_def tbl_changes_def attempt_open_def dispatched_db_def uncertain_db_def
        account_db_def conversation_db_def empty_db_def uncertain_checks [unfolded uncertain_def attempt_outcome_def, simplified])
  moreover have "insertDeadLetter l (uncertain_db\<lparr>connector_dead_letters := []\<rparr>)
      = Inr (uncertain_db\<lparr>connector_dead_letters := [l]\<rparr>)" if "letter_checks l" "nl_connectorId l = ''c''" "nl_accountId l = ''a''" for l
    using that by (simp add: insertDeadLetter_def tbl_get_def getAccount_def is_account_def uncertain_db_def account_db_def sample_account_def)
  from this [OF letter_ok] have "insertDeadLetter (delivery_letter ''z'' claimed_delivery ''HOST_RESTART_AFTER_DISPATCH'' uncertain_summary 30000)
      (uncertain_db\<lparr>connector_dead_letters := []\<rparr>) = Inr uncertain_db"
    by (simp add: letter_fields) (simp add: uncertain_db_def)
  ultimately show ?thesis
    by (simp add: recoverExpiredDeliveryClaims_def recoverExpiredDeliveries_def one_expired recover_claim_def positiveInteger_def transaction_def
        rop_bind_def rop_do_def)
qed

end
