(* ===== verification/Connector_Properties.thy ===== *)
theory Connector_Properties
  imports Connector_Scenario
begin

text \<open>
  What the connectors promise: an event is taken once, and a delivery whose attempt was or may have been accepted is never attempted
  again.
\<close>

section \<open>Calls\<close>

lemma ingress_bodies:
  "keeps connectors_kept (admit_ingress kc i now c ia)" "keeps connectors_kept (recoverExpiredIngress now n)"
  "keeps connectors_kept (requireIngressClaim cl)" "keeps connectors_kept (finish_ingress oc)"
  "keeps connectors_kept (bound_conversation kc ids clock ing route)" "keeps connectors_kept (replay_adoption route txt ing)"
  "keeps connectors_kept (adopt_event kc ids clock cl route txt ing)"
proof -
  note rules = connector_rules ingress_statements_kept
  show "keeps connectors_kept (admit_ingress kc i now c ia)" unfolding admit_ingress_def by (intro rules)
  have "keeps connectors_kept (reclaim_ingress now r)" for r unfolding reclaim_ingress_def by (intro rules)
  then show "keeps connectors_kept (recoverExpiredIngress now n)" unfolding recoverExpiredIngress_def by (intro rules)
  show "keeps connectors_kept (requireIngressClaim cl)" unfolding requireIngressClaim_def by (intro rules)
  show f: "keeps connectors_kept (finish_ingress oc)" for oc unfolding finish_ingress_def by (intro rules)
  have c: "keeps connectors_kept (createWithRepositories cs i n1 n2 w mp title)" for cs i n1 n2 w mp title
    by (rule keeps_weaken [OF cn.createWithRepositories_keeps same_connectors_kept])
  show b: "keeps connectors_kept (bound_conversation kc ids clock ing route)" for ing unfolding bound_conversation_def by (intro rules c)
  show "keeps connectors_kept (replay_adoption route txt ing)"
    unfolding replay_adoption_def by (intro rules)
  have "keeps connectors_kept (sendWithRepositories cs ids n1 n2 role i)" for cs ids n1 n2 role i
    by (rule keeps_weaken [OF cn.send_keeps same_connectors_kept])
  then show "keeps connectors_kept (adopt_event kc ids clock cl route txt ing)"
    unfolding adopt_event_def sendInTransaction_def by (intro rules b f)
qed

lemma ingress_steps:
  "ck.steps (registerAccount kc now c a w x st)" "ck.steps (receiveIngress kc i clk c ia)" "ck.steps (recoverExpiredIngressClaims now n)"
  "ck.steps (service_claimIngress kc token now c a lane)" "ck.steps (adoptIngress kc ids clock cl route txt)"
  "ck.steps (ignoreIngress now cl reason)" "ck.steps (failIngress lid now cl code sm rt ms)"
  unfolding registerAccount_def receiveIngress_def recoverExpiredIngressClaims_def service_claimIngress_def adoptIngress_def
    adopt_transaction_def ignoreIngress_def failIngress_def
  by (intro connector_rules ingress_statements_kept ingress_bodies)+

lemma executionContext_kept: "ck.steps (executionContext i)"
  unfolding executionContext_def found_run_def attempt_of_run_def context_of_def by (intro connector_rules)

lemma project_steps: "ck.steps (projectRunOutput kc i now k)"
  unfolding projectRunOutput_def project_answer_def Let_def
  by (intro connector_rules executionContext_kept delivery_steps)

text \<open>The methods of the service, and the calls of the conversation and delegation services between them.\<close>

inductive connector_step :: "connector_service \<Rightarrow> db \<Rightarrow> db \<Rightarrow> bool" for kc where
  elsewhere: "agent_step s t \<Longrightarrow> connector_step kc s t"
| registered: "registerAccount kc now c a w x st s = (r, t) \<Longrightarrow> connector_step kc s t"
| received: "receiveIngress kc i clk c ia s = (r, t) \<Longrightarrow> connector_step kc s t"
| reclaimed: "recoverExpiredIngressClaims now n s = (r, t) \<Longrightarrow> connector_step kc s t"
| ingress_claimed: "service_claimIngress kc token now c a lane s = (r, t) \<Longrightarrow> connector_step kc s t"
| adopted: "adoptIngress kc ids clock cl route txt s = (r, t) \<Longrightarrow> connector_step kc s t"
| ignored: "ignoreIngress now cl reason s = (r, t) \<Longrightarrow> connector_step kc s t"
| ingress_failed: "failIngress lid now cl code sm rt ms s = (r, t) \<Longrightarrow> connector_step kc s t"
| enqueued: "enqueueDelivery kc i now c dr s = (r, t) \<Longrightarrow> connector_step kc s t"
| recovered: "recoverExpiredDeliveryClaims ids now n s = (r, t) \<Longrightarrow> connector_step kc s t"
| claimed: "service_claimDelivery kc ids token aid now c a s = (r, t) \<Longrightarrow> connector_step kc s t"
| dispatched: "service_markDispatched now dcl s = (r, t) \<Longrightarrow> connector_step kc s t"
| accepted: "completeDeliveryAccepted kc i now dcl p s = (r, t) \<Longrightarrow> connector_step kc s t"
| suppressed: "completeDeliverySuppressed now dcl reason s = (r, t) \<Longrightarrow> connector_step kc s t"
| failed: "failDelivery kc i now dcl f s = (r, t) \<Longrightarrow> connector_step kc s t"
| projected: "projectRunOutput kc i now k s = (r, t) \<Longrightarrow> connector_step kc s t"

lemma connector_step_kept: "connector_step kc s t \<Longrightarrow> connectors_kept s t"
  by (induction rule: connector_step.induct)
    (erule same_connectors_kept [OF cn.agent_step_R]
      | (erule ck.stepsD [rotated], rule ingress_steps delivery_steps project_steps))+

lemma connector_steps_kept: "(connector_step kc)\<^sup>*\<^sup>* s t \<Longrightarrow> connectors_kept s t"
  by (induction rule: rtranclp_induct) (auto intro: ck.refl ck.trans connector_step_kept)

definition connector_reachable :: "connector_service \<Rightarrow> db \<Rightarrow> bool" where
  "connector_reachable kc s \<longleftrightarrow> (connector_step kc)\<^sup>*\<^sup>* empty_db s"

lemma connector_reachable_ok: "connector_reachable kc s \<Longrightarrow> outbox_ok s"
  using connector_steps_kept [of kc empty_db s]
  by (auto simp: connector_reachable_def connectors_kept_def outbox_step_def outbox_ok_def box_ok_def empty_db_def)

section \<open>Events\<close>

text \<open>An event that is stored: its row, and what the row carries.\<close>

definition event_stored :: "connector_service \<Rightarrow> string \<Rightarrow> ingress_admission \<Rightarrow> string \<Rightarrow> db \<Rightarrow> bool" where
  "event_stored kc c ia k s \<longleftrightarrow> (case ingress_at (c, ia_accountId ia, ia_externalEventId ia) s of
     None \<Rightarrow> False
   | Some r \<Rightarrow> ni_ingressId r = k \<and> ni_laneKey r = ia_laneKey ia \<and> ni_payloadVersion r = ia_payloadVersion ia
       \<and> ni_payloadHash r = connector_hash kc (ia_payload ia))"

lemma event_stored_stays: "event_stored kc c ia k s \<Longrightarrow> events_stay s t \<Longrightarrow> event_stored kc c ia k t"
  unfolding event_stored_def events_stay_def event_stays_def by (fastforce split: option.splits)

lemma enabled_account_Inr: "enabled_account kc c a s = Inr (t, x) \<Longrightarrow> t = s"
  by (auto simp: enabled_account_def rop_bind_Inr rop_found_Inr rop_of_Inr split: if_splits)

lemma admitted_stored:
  assumes "admit_ingress kc i now c ia s = Inr (t, r, b)"
  shows "event_stored kc c ia (ni_ingressId r) t"
proof -
  let ?q = "getIngressByExternalEvent c (ia_accountId ia) (ia_externalEventId ia) s"
  from assms have "(case ?q of
      Some r1 \<Rightarrow> rop_bind (rop_require (same_ingress kc ia r1) (Connector_Error CONNECTOR_INGRESS_CONFLICT)) (\<lambda>_. rop_return (r1, True))
    | None \<Rightarrow> rop_bind (rop_do (insertIngress (new_ingress kc i c ia now))) (\<lambda>_. rop_return (new_ingress kc i c ia now, False))) s = Inr (t, r, b)"
    unfolding admit_ingress_def rop_bind_Inr by (auto simp: rop_bind_Inr dest!: enabled_account_Inr)
  then show ?thesis
  proof (cases ?q)
    case None
    with \<open>(case ?q of Some r1 \<Rightarrow> _ r1 | None \<Rightarrow> _) s = _\<close>
    have "insertIngress (new_ingress kc i c ia now) s = Inr t" "r = new_ingress kc i c ia now"
      by (auto simp: rop_bind_Inr rop_do_Inr)
    with None show ?thesis
      by (auto simp: event_stored_def ingress_at_def insertIngress_def getIngressByExternalEvent_def tbl_get_append new_ingress_def ingress_event_def
          split: if_splits)
  next
    case (Some r1)
    with \<open>(case ?q of Some r1 \<Rightarrow> _ r1 | None \<Rightarrow> _) s = _\<close> have "same_ingress kc ia r" "t = s" "r1 = r" by (auto split: if_splits)
    with Some show ?thesis by (auto simp: event_stored_def ingress_at_def getIngressByExternalEvent_def same_ingress_def)
  qed
qed

lemma stored_again:
  assumes "event_stored kc c ia k s" and "ia_accountId ia' = ia_accountId ia" "ia_externalEventId ia' = ia_externalEventId ia"
    and "admit_ingress kc i now c ia' s = Inr (t, r, b)"
  shows "t = s \<and> b \<and> ni_ingressId r = k \<and> ia_laneKey ia' = ia_laneKey ia \<and> ia_payloadVersion ia' = ia_payloadVersion ia
    \<and> connector_hash kc (ia_payload ia') = connector_hash kc (ia_payload ia)"
proof -
  from assms(1-3) obtain r1 where r1: "getIngressByExternalEvent c (ia_accountId ia') (ia_externalEventId ia') s = Some r1" "ni_ingressId r1 = k"
      "ni_laneKey r1 = ia_laneKey ia" "ni_payloadVersion r1 = ia_payloadVersion ia" "ni_payloadHash r1 = connector_hash kc (ia_payload ia)"
    by (auto simp: event_stored_def ingress_at_def getIngressByExternalEvent_def split: option.splits)
  from assms(4) r1(1) have "t = s" "b" "r = r1" "same_ingress kc ia' r1"
    by (auto simp: admit_ingress_def rop_bind_Inr dest!: enabled_account_Inr split: if_splits)
  with r1 show ?thesis by (simp add: same_ingress_def)
qed

lemma receiveIngress_Inr:
  "receiveIngress kc i clk c ia s = (Inr (r, b), t) \<Longrightarrow> admit_ingress kc i (or_default (ia_receivedAt ia) clk) c ia s = Inr (t, r, b)"
  by (auto simp: receiveIngress_def Let_def transaction_Inr split: sum.splits if_splits)

lemma receiveIngress_Inl: "receiveIngress kc i clk c ia s = (Inl e, t) \<Longrightarrow> t = s"
  by (auto simp: receiveIngress_def Let_def transaction_def split: sum.splits if_splits)

text \<open>C29. An external event is taken once. After \<open>receiveIngress\<close> has returned for an event, and any further calls of the connector
  service and of the conversation and delegation services, receiving an event with the same account and external identifier either
  fails and changes nothing, or replays the row stored first, changes nothing, and brought the same lane, version and payload hash.\<close>

theorem event_taken_once:
  assumes "receiveIngress kc i clk c ia s = (Inr (r, b), s1)" and "(connector_step kc)\<^sup>*\<^sup>* s1 s2"
    and "ia_accountId ia' = ia_accountId ia" and "ia_externalEventId ia' = ia_externalEventId ia"
  shows "case receiveIngress kc i' clk' c ia' s2 of
      (Inl e, t) \<Rightarrow> t = s2
    | (Inr (r', replayed), t) \<Rightarrow> t = s2 \<and> replayed \<and> ni_ingressId r' = ni_ingressId r \<and> ia_laneKey ia' = ia_laneKey ia
        \<and> ia_payloadVersion ia' = ia_payloadVersion ia \<and> connector_hash kc (ia_payload ia') = connector_hash kc (ia_payload ia)"
proof -
  have "event_stored kc c ia (ni_ingressId r) s1" by (rule admitted_stored [OF receiveIngress_Inr [OF assms(1)]])
  moreover have "events_stay s1 s2" using connector_steps_kept [OF assms(2)] by (simp add: connectors_kept_def)
  ultimately have "event_stored kc c ia (ni_ingressId r) s2" by (rule event_stored_stays)
  note again = stored_again [OF this assms(3,4) receiveIngress_Inr]
  obtain out t where o: "receiveIngress kc i' clk' c ia' s2 = (out, t)" by fastforce
  show ?thesis
  proof (cases out)
    case (Inl e)
    from receiveIngress_Inl [OF o [unfolded Inl]] show ?thesis unfolding o Inl by simp
  next
    case (Inr x)
    obtain r' b' where x: "x = (r', b')" by (cases x)
    from again [OF o [unfolded Inr x]] show ?thesis unfolding o Inr x by simp
  qed
qed

theorem event_taken_once_witness:
  "case receiveIngress sample_connectors ''j'' 9 ''c'' sample_event event_db of (Inl e, t) \<Rightarrow> t = event_db
    | (Inr (r, replayed), t) \<Rightarrow> t = event_db \<and> replayed \<and> ni_ingressId r = ''i''"
  using event_taken_once [OF event_received rtranclp.rtrancl_refl refl refl, of "''j''" 9]
  unfolding new_ingress_def by (auto split: sum.splits prod.splits)

section \<open>Deliveries\<close>

text \<open>The deliveries of the example are reached by calls.\<close>

lemma first_step: "connector_step kc a b \<Longrightarrow> (connector_step kc)\<^sup>*\<^sup>* b c \<Longrightarrow> (connector_step kc)\<^sup>*\<^sup>* a c"
  by (rule converse_rtranclp_into_rtranclp)

lemma sample_reachable: "connector_reachable sample_connectors uncertain_db"
proof -
  let ?kc = sample_connectors
  obtain out where "conversation_create sample_conversations ''c1'' 0 0 ''w'' None None empty_db = (Inr out, conversation_db)"
    using conversation_created ..
  then have 1: "connector_step ?kc empty_db conversation_db"
    by (intro connector_step.elsewhere agent_step.call conversation_step.created)
  obtain cl where "service_markDispatched 1 sample_claim claimed_db = (Inr cl, dispatched_db)" using delivery_dispatched ..
  then have 2: "connector_step ?kc claimed_db dispatched_db" by (rule connector_step.dispatched)
  show ?thesis unfolding connector_reachable_def
    by (rule first_step [OF 1], rule first_step [OF connector_step.registered [OF account_registered]],
        rule first_step [OF connector_step.enqueued [OF delivery_queued]], rule first_step [OF connector_step.claimed [OF delivery_claimed]],
        rule first_step [OF 2], rule r_into_rtranclp, rule connector_step.recovered [OF delivery_uncertain])
qed

text \<open>C17. A delivery that was or may have been accepted is never attempted again. Once an attempt is accepted or its outcome is
  uncertain, its delivery is delivered or uncertain, and after any further calls of the connector service (claims, recoveries after a
  restart, failures reported late) and of the other services the delivery and the list of its attempts are what they were.\<close>

theorem delivery_never_repeated:
  assumes "connector_reachable kc s" and "(connector_step kc)\<^sup>*\<^sup>* s t"
    and "getDeliveryAttemptByClaim token s = Some a" and "ny_status a = NT_ACCEPTED \<or> ny_status a = NT_UNCERTAIN"
  shows "\<exists>d. getDelivery (ny_deliveryId a) s = Some d \<and> getDelivery (ny_deliveryId a) t = Some d
    \<and> nd_status d = (if ny_status a = NT_ACCEPTED then ND_DELIVERED else ND_UNCERTAIN)
    \<and> attempts_of (ny_deliveryId a) (connector_delivery_attempts t) = attempts_of (ny_deliveryId a) (connector_delivery_attempts s)"
proof -
  have ok: "outbox_ok s" by (rule connector_reachable_ok [OF assms(1)])
  have "a \<in> set (connector_delivery_attempts s)" using assms(3) by (auto simp: getDeliveryAttemptByClaim_def dest: tbl_get_key)
  from box_okD(4) [OF ok [unfolded outbox_ok_def] this] obtain d where d: "getDelivery (ny_deliveryId a) s = Some d" "agrees a d"
    by (auto simp: getDelivery_def)
  then have st: "nd_status d = (if ny_status a = NT_ACCEPTED then ND_DELIVERED else ND_UNCERTAIN)"
    using assms(4) by (auto simp: agrees_def)
  then have "outgoing_final (nd_status d)" by (simp add: outgoing_final_def)
  with d(1) ok connector_steps_kept [OF assms(2)] st show ?thesis
    by (auto simp: connectors_kept_def outbox_step_def finals_kept_def getDelivery_def)
qed

theorem delivery_never_repeated_witness:
  "\<exists>d. getDelivery ''d'' uncertain_db = Some d \<and> nd_status d = ND_UNCERTAIN
    \<and> getDelivery ''d'' (snd (service_claimDelivery sample_connectors (\<lambda>j. ''y'') ''u'' ''v'' 40000 ''c'' ''a'' uncertain_db)) = Some d"
proof -
  let ?t = "snd (service_claimDelivery sample_connectors (\<lambda>j. ''y'') ''u'' ''v'' 40000 ''c'' ''a'' uncertain_db)"
  have "connector_step sample_connectors uncertain_db ?t" by (rule connector_step.claimed) (rule surjective_pairing)
  then have "(connector_step sample_connectors)\<^sup>*\<^sup>* uncertain_db ?t" by (rule r_into_rtranclp)
  have a: "getDeliveryAttemptByClaim ''t'' uncertain_db = Some (finished_dispatch (uncertain 30000 claimed_delivery sent_dispatch) sent_dispatch)"
    "ny_status (finished_dispatch (uncertain 30000 claimed_delivery sent_dispatch) sent_dispatch) = NT_UNCERTAIN"
    by (simp_all add: getDeliveryAttemptByClaim_def tbl_get_def uncertain_db_def finished_dispatch_def uncertain_def attempt_outcome_def)
  from delivery_never_repeated [OF sample_reachable \<open>(connector_step sample_connectors)\<^sup>*\<^sup>* uncertain_db ?t\<close> a(1) disjI2 [OF a(2)]] a(2)
  show ?thesis by (auto simp: finished_dispatch_def)
qed

section \<open>The limit of a recovery\<close>

text \<open>\<open>recoverRunOutputs\<close> accepts limits up to 10000, but hands them to \<open>listIngress\<close>, which accepts 1000: between the two it always throws.\<close>

theorem recovery_limit_refused:
  assumes "1000 < limit" and "limit \<le> 10000"
  shows "recoverRunOutputs kc ids clock limit s = (Inl connector_invalid, s)"
  using assms by (simp add: recoverRunOutputs_def service_listIngress_def list_limit_def positiveInteger_def or_default_def svc_bind_def svc_of_def)

end
