(* ===== verification/Connector_Drain.thy ===== *)
theory Connector_Drain
  imports Connector_Properties
begin

text \<open>
  The loops of the connector runtime. They are made of calls of the service, so every invariant of the calls holds after them. For the
  loop that drains the deliveries of an account: what a call of the service that returns says about the attempt of its claim, what
  one round of the loop does, and what a drain that returns has done.
\<close>

section \<open>Loops of calls\<close>

interpretation dr: step_preorder "(connector_step kc)\<^sup>*\<^sup>*" for kc
  by unfold_locales auto

text \<open>A call whose error is handled: what both continuations are made of, the whole is.\<close>

lemma handled:
  assumes "(connector_step kc)\<^sup>*\<^sup>* s (snd (m s))" and "\<And>e t. (connector_step kc)\<^sup>*\<^sup>* t (snd (f e t))"
    and "\<And>x t. (connector_step kc)\<^sup>*\<^sup>* t (snd (g x t))"
  shows "(connector_step kc)\<^sup>*\<^sup>* s (snd (case m s of (Inl e, t) \<Rightarrow> f e t | (Inr x, t) \<Rightarrow> g x t))"
proof -
  obtain out t where m: "m s = (out, t)" by fastforce
  with assms(1) have "(connector_step kc)\<^sup>*\<^sup>* s t" by simp
  with m assms(2,3) show ?thesis by (cases out) (auto intro: rtranclp_trans)
qed

lemma service_calls:
  "dr.steps kc (service_claimIngress kc token now c a lane)" "dr.steps kc (adoptIngress kc ids clock cl route txt)"
  "dr.steps kc (ignoreIngress now cl reason)" "dr.steps kc (failIngress lid now cl code sm rt ms)"
  "dr.steps kc (service_claimDelivery kc ids token aid now c a)" "dr.steps kc (service_markDispatched now dcl)"
  "dr.steps kc (completeDeliveryAccepted kc i now dcl p)" "dr.steps kc (completeDeliverySuppressed now dcl reason)"
  "dr.steps kc (failDelivery kc i now dcl f)"
  unfolding dr.steps_def by (intro allI r_into_rtranclp; rule connector_step.intros, rule surjective_pairing)+

lemmas drain_rules = dr.steps_intros service_calls

lemmas call_at = service_calls [unfolded dr.steps_def, rule_format]

text \<open>Draining the events of an account is made of calls, if what the adapter does meanwhile is.\<close>

lemma drained_ingress:
  assumes n: "\<And>k cl s. (connector_step kc)\<^sup>*\<^sup>* s (snd (di_normalize w k cl s))"
    and a: "\<And>k ad s. (connector_step kc)\<^sup>*\<^sup>* s (snd (di_admitted w k ad s))"
  shows "dr.steps kc (drainIngress kc w c acct limit)"
proof -
  have r: "dr.steps kc (reject_ingress w k cl e cnt)" for k cl e cnt
    unfolding reject_ingress_def Let_def by (intro drain_rules)
  have d: "(connector_step kc)\<^sup>*\<^sup>* s (snd (dispose kc w k cl disp cnt s))" for k cl disp cnt s
    unfolding dispose_def by (cases disp) (auto intro!: handled call_at a)
  have h: "dr.steps kc (handle_ingress kc w k cl cnt)" for k cl cnt
    unfolding dr.steps_def handle_ingress_def by (auto intro!: handled n d r [unfolded dr.steps_def, rule_format])
  have "dr.steps kc (drain_ingress_loop m kc w c acct k cnt)" for m k cnt
    by (induction m arbitrary: k cnt) (auto intro!: drain_rules h)
  then show ?thesis unfolding drainIngress_def by (intro drain_rules)
qed

section \<open>The outcome of a claim\<close>

definition dispatch_outcome :: "string \<Rightarrow> db \<Rightarrow> dispatch_status option" where
  "dispatch_outcome token s = map_option ny_status (getDeliveryAttemptByClaim token s)"

lemma dispatch_outcomeI:
  assumes "box_ok ds (connector_delivery_attempts s)" and "a \<in> set (connector_delivery_attempts s)" and "ny_claimToken a = token"
  shows "dispatch_outcome token s = Some (ny_status a)"
  using tbl_get_distinct [OF box_okD(3) [OF assms(1)] assms(2)] assms(3) by (simp add: dispatch_outcome_def getDeliveryAttemptByClaim_def)

lemma outcome_stays:
  assumes "dispatch_outcome token s = Some st" and "st \<noteq> NT_CLAIMED" and "st \<noteq> NT_DISPATCHED" and "outbox_ok s" and "connectors_kept s t"
  shows "dispatch_outcome token t = Some st"
  using assms by (auto simp: dispatch_outcome_def getDeliveryAttemptByClaim_def connectors_kept_def outbox_step_def finals_kept_def closed_kept_def attempt_open_def)

lemma changed_row: "tbl_changes p rows = 1 \<Longrightarrow> \<exists>x \<in> set rows. p x"
  unfolding tbl_changes_def by (metis filter_False list.size(3) zero_neq_one)

lemma finish_outcome:
  assumes f: "finishDeliveryAttempt i s = Inr (t, True)" and ok: "outbox_ok s" and e: "ends_well i"
  shows "outbox_ok t" and "dispatch_outcome (fa_claimToken i) t = Some (fa_attemptStatus i)"
    and "\<exists>d. getDelivery (fa_deliveryId i) t = Some d \<and> nd_status d = fa_deliveryStatus i"
proof -
  let ?as = "connector_delivery_attempts s" and ?ds = "connector_deliveries s"
  from f obtain a where a: "tbl_get ny_claimToken (fa_claimToken i) ?as = Some a" "ny_deliveryId a = fa_deliveryId i" "attempt_open a"
    by (auto simp: finishDeliveryAttempt_def getDeliveryAttemptByClaim_def rop_return_def split: option.splits if_splits)
  note effect = finish_effect [OF ok [unfolded outbox_ok_def] a e]
  let ?p = "\<lambda>x. ny_attemptId x = ny_attemptId a \<and> attempt_open x"
  from f a effect(1) have t: "connector_deliveries t = tbl_modify (outgoing_claimed i) (finished_outgoing i) ?ds"
      "connector_delivery_attempts t = tbl_modify ?p (finished_dispatch i) ?as"
    by (auto simp: finishDeliveryAttempt_def getDeliveryAttemptByClaim_def dispatch_write_def rop_bind_Inr split: if_splits dest!: outgoing_write_Inr)
  show ok': "outbox_ok t" using effect(3) by (simp add: outbox_ok_def t)
  have "finished_dispatch i a \<in> set (connector_delivery_attempts t)" using tbl_get_key [OF a(1)] a(3) by (auto simp: t set_tbl_modify)
  from dispatch_outcomeI [OF ok' [unfolded outbox_ok_def] this] show "dispatch_outcome (fa_claimToken i) t = Some (fa_attemptStatus i)"
    using tbl_get_key [OF a(1)] by (simp add: finished_dispatch_def)
  from effect(2) obtain d where d: "d \<in> set ?ds" "outgoing_claimed i d" by (blast dest: changed_row)
  then have "finished_outgoing i d \<in> set (connector_deliveries t)" by (auto simp: t set_tbl_modify)
  from tbl_get_distinct [OF box_okD(1) [OF ok' [unfolded outbox_ok_def]] this]
  show "\<exists>d. getDelivery (fa_deliveryId i) t = Some d \<and> nd_status d = fa_deliveryStatus i"
    using d(2) by (auto simp: getDelivery_def finished_outgoing_def outgoing_claimed_def)
qed

lemma finish_claim_outcome:
  assumes "finish_claim (attempt_outcome i token st dst at code sm now) s = Inr (t, u)" and "outbox_ok s"
    and "ends_well (attempt_outcome i token st dst at code sm now)"
  shows "outbox_ok t" and "dispatch_outcome token t = Some st" and "\<exists>d. getDelivery i t = Some d \<and> nd_status d = dst"
proof -
  from assms(1) have "finishDeliveryAttempt (attempt_outcome i token st dst at code sm now) s = Inr (t, True)"
    unfolding finish_claim_def by (auto simp: rop_bind_Inr split: if_splits)
  from finish_outcome [OF this assms(2,3)] show "outbox_ok t" "dispatch_outcome token t = Some st" "\<exists>d. getDelivery i t = Some d \<and> nd_status d = dst"
    by (simp_all add: attempt_outcome_def)
qed

section \<open>The calls of a round\<close>

lemma dispatched_outcome:
  assumes m: "service_markDispatched now claim s = (Inr dl, t)" and ok: "outbox_ok s"
  shows "dispatch_outcome (dl_claimToken dl) t = Some NT_DISPATCHED" and "dl_claimToken dl = dl_claimToken claim"
proof -
  let ?token = "dl_claimToken claim"
  let ?p = "\<lambda>a. ny_deliveryId a = nd_deliveryId (dl_delivery claim) \<and> ny_claimToken a = ?token \<and> ny_status a = NT_CLAIMED"
  from m obtain u n where w: "dispatch_write ?p (\<lambda>a. a\<lparr>ny_status := NT_DISPATCHED, ny_dispatchedAt := Some now\<rparr>) s = Inr (u, n)"
    and n: "n = 1" "u = t" and dl: "dl_claimToken dl = ?token"
    unfolding service_markDispatched_def repository_markDispatched_def transaction_Inr
    by (auto simp: rop_bind_Inr rop_found_Inr rop_return_def rop_read_def rop_throw_def split: if_splits option.splits)
  have ok': "outbox_ok t" using marked_step [OF w] n(2) ok by (simp add: outbox_step_def)
  from w n have "tbl_changes ?p (connector_delivery_attempts s) = 1"
      "connector_delivery_attempts t = tbl_modify ?p (\<lambda>a. a\<lparr>ny_status := NT_DISPATCHED, ny_dispatchedAt := Some now\<rparr>) (connector_delivery_attempts s)"
    by (auto simp: dispatch_write_def)
  moreover from this(1) obtain a where "a \<in> set (connector_delivery_attempts s)" "?p a"
    by (blast dest: changed_row)
  ultimately have "a\<lparr>ny_status := NT_DISPATCHED, ny_dispatchedAt := Some now\<rparr> \<in> set (connector_delivery_attempts t)"
    by (auto simp: set_tbl_modify)
  from dispatch_outcomeI [OF ok' [unfolded outbox_ok_def] this, of ?token] \<open>?p a\<close> dl
  show "dispatch_outcome (dl_claimToken dl) t = Some NT_DISPATCHED" by simp
  show "dl_claimToken dl = ?token" by (rule dl)
qed

lemma accepted_outcome:
  assumes "completeDeliveryAccepted kc i now claim p s = (Inr x, t)" and ok: "outbox_ok s"
  shows "dispatch_outcome (dl_claimToken claim) t = Some NT_ACCEPTED"
proof -
  from assms(1) have "accept_transaction kc i now claim p s = Inr (t, x)"
    unfolding completeDeliveryAccepted_def by (auto simp: transaction_Inr split: sum.splits)
  then obtain a where a: "getDeliveryAttemptByClaim (dl_claimToken claim) s = Some a"
    and rest: "ny_status a = NT_ACCEPTED \<and> t = s \<or> (\<exists>s1 u. insertReceipt (new_receipt kc i now claim a p) s = Inr s1
      \<and> finish_claim (attempt_outcome (nd_deliveryId (dl_delivery claim)) (dl_claimToken claim) NT_ACCEPTED ND_DELIVERED now None None now) s1 = Inr (t, u))"
    unfolding accept_transaction_def claim_attempt_def Let_def
    by (auto simp: rop_bind_Inr rop_found_Inr rop_do_Inr rop_return_def split: if_splits option.splits bool.splits)
  from rest show ?thesis
  proof (elim disjE exE conjE)
    fix s1 u assume "insertReceipt (new_receipt kc i now claim a p) s = Inr s1"
    from insertReceipt_step [OF this] ok have "outbox_ok s1" by (simp add: outbox_step_def)
    moreover assume "finish_claim (attempt_outcome (nd_deliveryId (dl_delivery claim)) (dl_claimToken claim) NT_ACCEPTED ND_DELIVERED now None None now) s1 = Inr (t, u)"
    ultimately show ?thesis using finish_claim_outcome(2) by (fastforce simp: ends_well_def attempt_outcome_def)
  qed (use a in \<open>simp add: dispatch_outcome_def\<close>)
qed

lemma suppressed_outcome:
  assumes "completeDeliverySuppressed now claim reason s = (Inr x, t)" and "outbox_ok s"
  shows "dispatch_outcome (dl_claimToken claim) t = Some NT_REJECTED"
  using assms unfolding completeDeliverySuppressed_def transaction_Inr
  by (auto simp: rop_bind_Inr rop_found_Inr ends_well_def attempt_outcome_def intro: finish_claim_outcome(2) [unfolded attempt_outcome_def])

lemma failed_outcome:
  assumes "failDelivery kc i now claim f s = (Inr d, t)" and ok: "outbox_ok s"
  shows "dispatch_outcome (dl_claimToken claim) t = Some (if df_certainty f = MAYBE_ACCEPTED then NT_UNCERTAIN else NT_REJECTED)"
    and "nd_status d = ND_UNCERTAIN \<longleftrightarrow> df_certainty f = MAYBE_ACCEPTED"
proof -
  let ?st = "if df_certainty f = MAYBE_ACCEPTED then NT_UNCERTAIN else NT_REJECTED"
  from assms(1) obtain ms where "fail_transaction kc i now claim f ms s = Inr (t, d)"
    unfolding failDelivery_def by (auto simp: transaction_Inr split: sum.splits)
  then obtain d0 s1 u at code sm v where d0: "getDelivery (nd_deliveryId (dl_delivery claim)) s = Some d0"
    and fin: "finish_claim (attempt_outcome (nd_deliveryId d0) (dl_claimToken claim) ?st (failed_status kc f d0) at code sm now) s = Inr (s1, u)"
    and letter: "rop_when (failed_status kc f d0 = ND_UNCERTAIN \<or> failed_status kc f d0 = ND_DEAD) (rop_do (insertDeadLetter v)) s1 = Inr (t, ())"
    and d: "getDelivery (nd_deliveryId d0) t = Some d"
    unfolding fail_transaction_def claim_attempt_def Let_def
    by (auto simp: rop_bind_Inr rop_found_Inr rop_return_def split: if_splits)
  have "ends_well (attempt_outcome (nd_deliveryId d0) (dl_claimToken claim) ?st (failed_status kc f d0) at code sm now)"
    by (simp add: ends_well_def attempt_outcome_def failed_status_def)
  note o1 = finish_claim_outcome [OF fin ok this]
  have same: "connector_deliveries t = connector_deliveries s1 \<and> connector_delivery_attempts t = connector_delivery_attempts s1"
    using letter by (auto simp: rop_when_def rop_do_Inr insertDeadLetter_def rop_return_def split: if_splits)
  with o1(2) show "dispatch_outcome (dl_claimToken claim) t = Some ?st" by (simp add: dispatch_outcome_def getDeliveryAttemptByClaim_def)
  from o1(3) same d have "nd_status d = failed_status kc f d0" by (auto simp: getDelivery_def)
  then show "nd_status d = ND_UNCERTAIN \<longleftrightarrow> df_certainty f = MAYBE_ACCEPTED" by (simp add: failed_status_def)
qed

section \<open>A round\<close>

text \<open>How an outcome is counted.\<close>

definition counted :: "dispatch_status \<Rightarrow> delivery_counts \<Rightarrow> delivery_counts \<Rightarrow> bool" where
  "counted st c c' \<longleftrightarrow> (case st of
     NT_ACCEPTED \<Rightarrow> c' = c\<lparr>dt_delivered := dt_delivered c + 1\<rparr>
   | NT_UNCERTAIN \<Rightarrow> c' = c\<lparr>dt_uncertain := dt_uncertain c + 1\<rparr>
   | NT_REJECTED \<Rightarrow> c' = c\<lparr>dt_suppressed := dt_suppressed c + 1\<rparr> \<or> c' = c\<lparr>dt_retried := dt_retried c + 1\<rparr> \<or> c' = c\<lparr>dt_dead := dt_dead c + 1\<rparr>
   | _ \<Rightarrow> False)"

lemma settled_round:
  assumes "settle_result kc w k claim r c s = (Inr c', t)" and ok: "outbox_ok s"
  shows "\<exists>st. dispatch_outcome (dl_claimToken claim) t = Some st \<and> counted st c c'"
proof (cases r)
  case (Provider_Accepted p)
  with assms(1) show ?thesis
    by (auto simp: settle_result_def svc_bind_Inr counted_def dest!: accepted_outcome [OF _ ok])
next
  case (Suppressed reason)
  with assms(1) show ?thesis
    by (auto simp: settle_result_def svc_bind_Inr counted_def dest!: suppressed_outcome [OF _ ok])
next
  case (Uncertain code sm)
  with assms(1) obtain d where "failDelivery kc (dw_ids w k 2) (dw_clock w k 2) claim (delivery_failure_of code sm MAYBE_ACCEPTED False) s = (Inr d, t)"
      "c' = c\<lparr>dt_uncertain := dt_uncertain c + 1\<rparr>" by (auto simp: settle_result_def svc_bind_Inr)
  with failed_outcome(1) [OF this(1) ok] show ?thesis by (simp add: delivery_failure_of_def counted_def)
next
  case (Provider_Rejected code sm rt)
  with assms(1) obtain d where "failDelivery kc (dw_ids w k 2) (dw_clock w k 2) claim (delivery_failure_of code sm REJECTED rt) s = (Inr d, t)"
      "c' = (if nd_status d = ND_PENDING then c\<lparr>dt_retried := dt_retried c + 1\<rparr> else c\<lparr>dt_dead := dt_dead c + 1\<rparr>)"
    by (auto simp: settle_result_def svc_bind_Inr)
  with failed_outcome(1) [OF this(1) ok] show ?thesis by (simp add: delivery_failure_of_def counted_def)
qed

lemma rejected_round:
  assumes "reject_delivery kc w k claim e c s = (Inr c', t)" and ok: "outbox_ok s"
  shows "\<exists>st. dispatch_outcome (dl_claimToken claim) t = Some st \<and> counted st c c'"
proof -
  let ?x = "classified_delivery e"
  from assms(1) obtain d where d: "failDelivery kc (dw_ids w k 3) (dw_clock w k 3) claim
      (delivery_failure_of (dx_errorCode ?x) (dx_message ?x) (dx_certainty ?x) (dx_retryable ?x)) s = (Inr d, t)"
    and c': "c' = (if nd_status d = ND_PENDING then c\<lparr>dt_retried := dt_retried c + 1\<rparr>
      else if nd_status d = ND_UNCERTAIN then c\<lparr>dt_uncertain := dt_uncertain c + 1\<rparr> else c\<lparr>dt_dead := dt_dead c + 1\<rparr>)"
    by (auto simp: reject_delivery_def Let_def svc_bind_Inr)
  from failed_outcome [OF d ok] c' show ?thesis
    by (cases "dx_certainty ?x = MAYBE_ACCEPTED") (auto simp: delivery_failure_of_def counted_def)
qed

text \<open>What the adapter does is made of calls of the services.\<close>

definition adapter_steps :: "connector_service \<Rightarrow> delivery_drain \<Rightarrow> bool" where
  "adapter_steps kc w \<longleftrightarrow> (\<forall>k claim u. (connector_step kc)\<^sup>*\<^sup>* u (snd (dw_deliver w k claim u)))"

lemma reaches: "connector_reachable kc s \<Longrightarrow> (connector_step kc)\<^sup>*\<^sup>* s t \<Longrightarrow> connector_reachable kc t"
  unfolding connector_reachable_def by (rule rtranclp_trans)

lemma handled_reaches:
  assumes v: "adapter_steps kc w"
  shows "dr.steps kc (handle_delivery kc w k claim c)"
proof -
  have r: "dr.steps kc (reject_delivery kc w k cl e cnt)" for k cl e cnt
    unfolding reject_delivery_def Let_def by (intro drain_rules)
  have d: "dr.steps kc (settle_result kc w k cl res cnt)" for k cl res cnt
    unfolding settle_result_def by (cases res) (auto intro!: drain_rules)
  show ?thesis unfolding dr.steps_def handle_delivery_def
    by (auto intro!: handled call_at d [unfolded dr.steps_def, rule_format] r [unfolded dr.steps_def, rule_format]
        v [unfolded adapter_steps_def, rule_format])
qed

lemma handled_round:
  assumes h: "handle_delivery kc w k claim c s = (Inr c', t)" and s: "connector_reachable kc s" and w: "adapter_steps kc w"
  shows "\<exists>st. dispatch_outcome (dl_claimToken claim) t = Some st \<and> counted st c c'"
proof -
  obtain m s1 where m: "service_markDispatched (dw_clock w k 1) claim s = (m, s1)" by fastforce
  have s1: "connector_reachable kc s1" using reaches [OF s] call_at(6) [of kc s] m by (metis snd_conv)
  show ?thesis
  proof (cases m)
    case (Inl e)
    with h m rejected_round [OF _ connector_reachable_ok [OF s1]] show ?thesis by (simp add: handle_delivery_def)
  next
    case (Inr dl)
    note token = dispatched_outcome(2) [OF m [unfolded Inr] connector_reachable_ok [OF s]]
    obtain v s2 where v: "dw_deliver w k dl s1 = (v, s2)" by fastforce
    have s2: "connector_reachable kc s2" using reaches [OF s1] w v unfolding adapter_steps_def by (metis snd_conv)
    show ?thesis
    proof (cases v)
      case (Inl e)
      with h m Inr v rejected_round [OF _ connector_reachable_ok [OF s2]] token show ?thesis by (fastforce simp: handle_delivery_def)
    next
      case (Inr r)
      obtain x s3 where x: "settle_result kc w k dl r c s2 = (x, s3)" by fastforce
      have "dr.steps kc (settle_result kc w k dl r c)" unfolding settle_result_def by (cases r) (auto intro!: drain_rules)
      from dr.stepsD [OF this x] have s3: "connector_reachable kc s3" by (rule reaches [OF s2])
      show ?thesis
      proof (cases x)
        case (Inl e)
        with h m \<open>m = Inr dl\<close> v Inr x rejected_round [OF _ connector_reachable_ok [OF s3]] token show ?thesis
          by (fastforce simp: handle_delivery_def)
      next
        case (Inr c1)
        with h m \<open>m = Inr dl\<close> v \<open>v = Inr r\<close> x settled_round [OF x [unfolded Inr] connector_reachable_ok [OF s2]] token show ?thesis
          by (simp add: handle_delivery_def)
      qed
    qed
  qed
qed

section \<open>The rounds\<close>

text \<open>After \<open>k\<close> rounds the counters are the outcomes of the claims of these rounds, and every claim has one.\<close>

definition tally :: "delivery_drain \<Rightarrow> nat \<Rightarrow> db \<Rightarrow> dispatch_status \<Rightarrow> nat" where
  "tally w k s st = length (filter (\<lambda>j. dispatch_outcome (dw_ids w j 0) s = Some st) [0..<k])"

definition tallied :: "delivery_drain \<Rightarrow> delivery_counts \<Rightarrow> db \<Rightarrow> bool" where
  "tallied w c s \<longleftrightarrow> (\<forall>j < dt_processed c. dispatch_outcome (dw_ids w j 0) s \<in> {Some NT_ACCEPTED, Some NT_UNCERTAIN, Some NT_REJECTED})
     \<and> dt_delivered c = tally w (dt_processed c) s NT_ACCEPTED \<and> dt_uncertain c = tally w (dt_processed c) s NT_UNCERTAIN
     \<and> dt_suppressed c + dt_retried c + dt_dead c = tally w (dt_processed c) s NT_REJECTED"

lemma tallied_stays:
  assumes t: "tallied w c s" and s: "connector_reachable kc s" and st: "(connector_step kc)\<^sup>*\<^sup>* s u"
  shows "tallied w c u"
proof -
  have same: "dispatch_outcome (dw_ids w j 0) u = dispatch_outcome (dw_ids w j 0) s" if "j < dt_processed c" for j
    using t that outcome_stays [OF _ _ _ connector_reachable_ok [OF s] connector_steps_kept [OF st], of "dw_ids w j 0"]
    unfolding tallied_def by fastforce
  have "tally w (dt_processed c) u x = tally w (dt_processed c) s x" for x
    unfolding tally_def by (rule arg_cong [of _ _ length], rule filter_cong) (auto simp: same)
  with t same show ?thesis by (simp add: tallied_def)
qed

lemma tallied_round:
  assumes "tallied w c s" and "dispatch_outcome (dw_ids w (dt_processed c) 0) s = Some st"
    and "counted st (c\<lparr>dt_processed := Suc (dt_processed c)\<rparr>) c'"
  shows "tallied w c' s \<and> dt_processed c' = Suc (dt_processed c)"
  using assms by (cases st) (auto simp: tallied_def tally_def counted_def less_Suc_eq)

lemma claimed_token:
  "service_claimDelivery kc ids token aid now c a s = (Inr (Some claim), t) \<Longrightarrow> dl_claimToken claim = token"
  unfolding service_claimDelivery_def by (auto simp: transaction_Inr rop_bind_Inr Let_def rop_return_def split: sum.splits)

lemma drained_tally:
  assumes w: "adapter_steps kc w"
  shows "drain_deliveries_loop n kc w ci ai (dt_processed c) c s = (Inr out, t) \<Longrightarrow> connector_reachable kc s \<Longrightarrow> tallied w c s \<Longrightarrow>
    tallied w out t \<and> dt_processed out \<le> dt_processed c + n"
proof (induction n arbitrary: c s)
  case (Suc n)
  let ?k = "dt_processed c"
  from Suc.prems(1) obtain found s1 where f: "service_claimDelivery kc (\<lambda>j. dw_ids w ?k (j + 4)) (dw_ids w ?k 0) (dw_ids w ?k 1) (dw_clock w ?k 0) ci ai s = (Inr found, s1)"
    and rest: "(case found of None \<Rightarrow> svc_return c | Some claim \<Rightarrow>
          svc_bind (handle_delivery kc w ?k claim (c\<lparr>dt_processed := Suc ?k\<rparr>)) (drain_deliveries_loop n kc w ci ai (Suc ?k))) s1 = (Inr out, t)"
    by (auto simp: svc_bind_Inr split: if_splits)
  have step: "(connector_step kc)\<^sup>*\<^sup>* s s1" using dr.stepsD [OF service_calls(5) f] .
  note s1 = reaches [OF Suc.prems(2) step] and t1 = tallied_stays [OF Suc.prems(3,2) step]
  show ?case
  proof (cases found)
    case None
    with rest t1 show ?thesis by simp
  next
    case (Some claim)
    with rest obtain c' s2 where h: "handle_delivery kc w ?k claim (c\<lparr>dt_processed := Suc ?k\<rparr>) s1 = (Inr c', s2)"
      and l: "drain_deliveries_loop n kc w ci ai (Suc ?k) c' s2 = (Inr out, t)" by (auto simp: svc_bind_Inr)
    have step2: "(connector_step kc)\<^sup>*\<^sup>* s1 s2" by (rule dr.stepsD [OF handled_reaches [OF w] h])
    from handled_round [OF h s1 w] claimed_token [OF f [unfolded Some]]
    have "tallied w c' s2 \<and> dt_processed c' = Suc ?k" using tallied_round [OF tallied_stays [OF t1 s1 step2]] by auto
    with Suc.IH [of c' s2] l reaches [OF s1 step2] show ?thesis by simp
  qed
qed simp

section \<open>Adapters that agree\<close>

lemma untouched_adapter:
  "settle_result kc (w\<lparr>dw_deliver := f\<rparr>) = settle_result kc w" "reject_delivery kc (w\<lparr>dw_deliver := f\<rparr>) = reject_delivery kc w"
  by (intro ext, simp add: settle_result_def reject_delivery_def split: provider_result.splits)+

text \<open>An adapter that does the same for the dispatched claims of the rounds.\<close>

definition same_dispatch :: "delivery_drain \<Rightarrow> nat set \<Rightarrow> (nat \<Rightarrow> delivery_claim \<Rightarrow> db \<Rightarrow> (dispatch_failure option + provider_result) \<times> db) \<Rightarrow> bool" where
  "same_dispatch w ks f \<longleftrightarrow> (\<forall>k claim u. k \<in> ks \<longrightarrow> dl_claimToken claim = dw_ids w k 0 \<longrightarrow> dispatch_outcome (dl_claimToken claim) u = Some NT_DISPATCHED
     \<longrightarrow> f k claim u = dw_deliver w k claim u)"

lemma handled_same:
  assumes "same_dispatch w ks f" and "k \<in> ks" and "dl_claimToken claim = dw_ids w k 0" and "connector_reachable kc s"
  shows "handle_delivery kc (w\<lparr>dw_deliver := f\<rparr>) k claim c s = handle_delivery kc w k claim c s"
proof -
  have "f k dl s1 = dw_deliver w k dl s1" if "service_markDispatched (dw_clock w k 1) claim s = (Inr dl, s1)" for dl s1
    using dispatched_outcome [OF that connector_reachable_ok [OF assms(4)]] assms(1-3) unfolding same_dispatch_def by simp
  then show ?thesis unfolding handle_delivery_def untouched_adapter by (simp split: prod.splits sum.splits)
qed

lemma drained_same:
  assumes w: "adapter_steps kc w"
  shows "connector_reachable kc s \<Longrightarrow> same_dispatch w {k..<k + n} f \<Longrightarrow>
    drain_deliveries_loop n kc (w\<lparr>dw_deliver := f\<rparr>) ci ai k c s = drain_deliveries_loop n kc w ci ai k c s"
proof (induction n arbitrary: k c s)
  case (Suc n)
  have later: "same_dispatch w {Suc k..<Suc k + n} f" using Suc.prems(2) by (auto simp: same_dispatch_def)
  let ?claim = "service_claimDelivery kc (\<lambda>j. dw_ids w k (j + 4)) (dw_ids w k 0) (dw_ids w k 1) (dw_clock w k 0) ci ai"
  let ?rest = "\<lambda>w found. case found of None \<Rightarrow> svc_return c | Some claim \<Rightarrow>
      svc_bind (handle_delivery kc w k claim (c\<lparr>dt_processed := Suc (dt_processed c)\<rparr>)) (drain_deliveries_loop n kc w ci ai (Suc k))"
  have "svc_bind ?claim (?rest (w\<lparr>dw_deliver := f\<rparr>)) s = svc_bind ?claim (?rest w) s"
  proof -
    obtain found s1 where f: "?claim s = (found, s1)" by fastforce
    have s1: "connector_reachable kc s1" by (rule reaches [OF Suc.prems(1) dr.stepsD [OF service_calls(5) f]])
    have "?rest (w\<lparr>dw_deliver := f\<rparr>) x s1 = ?rest w x s1" if x: "found = Inr x" for x
    proof (cases x)
      case (Some claim)
      from claimed_token [OF f [unfolded x Some]] handled_same [OF Suc.prems(2) _ _ s1]
      have h: "handle_delivery kc (w\<lparr>dw_deliver := f\<rparr>) k claim c' s1 = handle_delivery kc w k claim c' s1" for c' by simp
      have "drain_deliveries_loop n kc (w\<lparr>dw_deliver := f\<rparr>) ci ai (Suc k) y s2 = drain_deliveries_loop n kc w ci ai (Suc k) y s2"
        if "handle_delivery kc w k claim c' s1 = (Inr y, s2)" for c' y s2
        by (rule Suc.IH [OF reaches [OF s1 dr.stepsD [OF handled_reaches [OF w] that]] later])
      with h Some show ?thesis by (auto simp: svc_bind_def split: prod.splits sum.splits)
    qed simp
    with f show ?thesis by (auto simp: svc_bind_def split: sum.splits)
  qed
  then show ?case by (simp add: svc_bind_def svc_require_def)
qed simp

section \<open>What a drain has done\<close>

lemma tally_sum:
  assumes "\<And>j. j < k \<Longrightarrow> dispatch_outcome (dw_ids w j 0) s \<in> {Some NT_ACCEPTED, Some NT_UNCERTAIN, Some NT_REJECTED}"
  shows "tally w k s NT_ACCEPTED + tally w k s NT_UNCERTAIN + tally w k s NT_REJECTED = k"
  using assms
proof (induction k)
  case (Suc k)
  then have "dispatch_outcome (dw_ids w k 0) s \<in> {Some NT_ACCEPTED, Some NT_UNCERTAIN, Some NT_REJECTED}" by blast
  with Suc show ?case by (auto simp: tally_def)
qed (simp add: tally_def)

lemma drainDeliveries_Inr:
  "drainDeliveries kc w c a limit s = (Inr out, t) \<Longrightarrow>
   drain_deliveries_loop (nat (or_default limit 100)) kc w c a 0
     \<lparr>dt_processed = 0, dt_delivered = 0, dt_suppressed = 0, dt_retried = 0, dt_uncertain = 0, dt_dead = 0\<rparr> s = (Inr out, t)
   \<and> 0 < or_default limit 100"
  by (auto simp: drainDeliveries_def drain_limit_def Let_def split: if_splits)

text \<open>C34. A drain of the deliveries of an account settles every claim it takes, and counts it right. When \<open>drainDeliveries\<close> returns, it took
  at most as many claims as its limit, the attempt of each of them has ended as accepted, uncertain or rejected, the counters of
  delivered and of uncertain deliveries are the numbers of accepted and of uncertain attempts, and the other counters make up the rest.
  And the adapter is asked to deliver for a claim of these rounds only, after its attempt was marked as dispatched: an adapter that does
  the same then, and whatever it would do otherwise, gives the same result and the same database.\<close>

theorem drain_settles_deliveries:
  assumes "connector_reachable kc s" and "\<forall>k claim u. (connector_step kc)\<^sup>*\<^sup>* u (snd (dw_deliver w k claim u))"
    and "drainDeliveries kc w connectorId accountId limit s = (Inr out, t)"
  shows "int (dt_processed out) \<le> or_default limit 100
    \<and> (\<forall>k < dt_processed out. dispatch_outcome (dw_ids w k 0) t \<in> {Some NT_ACCEPTED, Some NT_UNCERTAIN, Some NT_REJECTED})
    \<and> dt_delivered out = length (filter (\<lambda>k. dispatch_outcome (dw_ids w k 0) t = Some NT_ACCEPTED) [0..<dt_processed out])
    \<and> dt_uncertain out = length (filter (\<lambda>k. dispatch_outcome (dw_ids w k 0) t = Some NT_UNCERTAIN) [0..<dt_processed out])
    \<and> dt_processed out = dt_delivered out + dt_uncertain out + dt_suppressed out + dt_retried out + dt_dead out
    \<and> (\<forall>f. (\<forall>k claim u. int k < or_default limit 100 \<and> dl_claimToken claim = dw_ids w k 0
          \<and> dispatch_outcome (dl_claimToken claim) u = Some NT_DISPATCHED \<longrightarrow> f k claim u = dw_deliver w k claim u)
        \<longrightarrow> drainDeliveries kc (w\<lparr>dw_deliver := f\<rparr>) connectorId accountId limit s = (Inr out, t))"
proof -
  have w: "adapter_steps kc w" using assms(2) by (simp add: adapter_steps_def)
  note loop = drainDeliveries_Inr [OF assms(3)]
  let ?zero = "\<lparr>dt_processed = 0, dt_delivered = 0, dt_suppressed = 0, dt_retried = 0, dt_uncertain = 0, dt_dead = 0\<rparr>"
  have "tallied w ?zero s" by (simp add: tallied_def tally_def)
  with drained_tally [OF w, of "nat (or_default limit 100)" connectorId accountId ?zero s out t] loop assms(1)
  have t: "tallied w out t" "dt_processed out \<le> nat (or_default limit 100)" by simp_all
  have "drainDeliveries kc (w\<lparr>dw_deliver := f\<rparr>) connectorId accountId limit s = (Inr out, t)"
    if f: "\<forall>k claim u. int k < or_default limit 100 \<and> dl_claimToken claim = dw_ids w k 0
      \<and> dispatch_outcome (dl_claimToken claim) u = Some NT_DISPATCHED \<longrightarrow> f k claim u = dw_deliver w k claim u" for f
  proof -
    have "same_dispatch w {0..<0 + nat (or_default limit 100)} f" using f by (auto simp: same_dispatch_def)
    from drained_same [OF w assms(1) this] have "drainDeliveries kc (w\<lparr>dw_deliver := f\<rparr>) connectorId accountId limit s
        = drainDeliveries kc w connectorId accountId limit s"
      by (simp add: drainDeliveries_def drain_limit_def svc_bind_def svc_require_def svc_of_def Let_def)
    then show ?thesis using assms(3) by simp
  qed
  then show ?thesis using t tally_sum [of "dt_processed out" w t] loop by (auto simp: tallied_def tally_def)
qed

text \<open>A provider that breaks the connection when it is asked for the delivery of the example.\<close>

definition lost_provider :: delivery_drain where
  "lost_provider = \<lparr>dw_active = (\<lambda>k. True), dw_deliver = (\<lambda>k claim s. (Inl None, s)),
     dw_ids = (\<lambda>k n. if n = 0 then ''t'' else if n = 1 then ''n'' else ''z''), dw_clock = (\<lambda>k n. int n)\<rparr>"

definition sent_claim :: delivery_claim where
  "sent_claim = \<lparr>dl_delivery = claimed_delivery, dl_attempt = sent_dispatch, dl_claimToken = ''t'', dl_claimDeadlineAt = 30000\<rparr>"

lemma claim_sent: "service_markDispatched 1 sample_claim claimed_db = (Inr sent_claim, dispatched_db)"
  by (simp add: service_markDispatched_def repository_markDispatched_def dispatch_write_def connector_call_defs claimed_outgoing_def
      new_outgoing_def connector_reads connector_sample_defs sample_defs sent_claim_def)

lemma queued_reachable: "connector_reachable sample_connectors queued_db"
proof -
  let ?kc = sample_connectors
  obtain out where "conversation_create sample_conversations ''c1'' 0 0 ''w'' None None empty_db = (Inr out, conversation_db)"
    using conversation_created ..
  then have "connector_step ?kc empty_db conversation_db"
    by (intro connector_step.elsewhere agent_step.call conversation_step.created)
  then show ?thesis unfolding connector_reachable_def
    by (rule first_step, intro first_step [OF connector_step.registered [OF account_registered]] r_into_rtranclp
        connector_step.enqueued [OF delivery_queued])
qed

lemma loss_reported: "\<exists>d t. failDelivery sample_connectors ''z'' 3 sent_claim (delivery_failure_of ''CONNECTOR_DELIVERY_HANDLER_FAILED''
    ''connector delivery handler failed after dispatch began'' MAYBE_ACCEPTED False) dispatched_db = (Inr d, t) \<and> nd_status d = ND_UNCERTAIN"
proof -
  let ?code = "''CONNECTOR_DELIVERY_HANDLER_FAILED''" and ?msg = "''connector delivery handler failed after dispatch began''"
  define sm where "sm = bounded_summary ?msg ''connector delivery failed''"
  let ?i = "attempt_outcome ''d'' ''t'' NT_UNCERTAIN ND_UNCERTAIN 3 (Some ?code) (Some sm) 3"
  let ?lost = "dispatched_db\<lparr>connector_deliveries := [finished_outgoing ?i claimed_delivery],
    connector_delivery_attempts := [finished_dispatch ?i sent_dispatch]\<rparr>"
  have k: "connector_bounded ?code 128 id_pattern = Inr ?code" by code_simp
  have checks: "outgoing_checks (finished_outgoing ?i claimed_delivery)"
    by (simp add: outgoing_checks_def finished_outgoing_def attempt_outcome_def)
      (simp add: claimed_outgoing_def new_outgoing_def connector_hash_def no_hash_def connector_sample_defs or_default_def)
  have fin: "finishDeliveryAttempt ?i dispatched_db = Inr (?lost, True)"
    using checks by (simp add: finishDeliveryAttempt_def attempt_outcome_def dispatch_write_def outgoing_write_def outgoing_claimed_def
        rop_bind_def getDeliveryAttemptByClaim_def tbl_get_def tbl_modify_def tbl_changes_def attempt_open_def dispatched_db_def account_db_def
        conversation_db_def empty_db_def)
  have l: "letter_checks (delivery_letter ''z'' claimed_delivery ?code sm 3)" unfolding sm_def by code_simp
  have ins: "insertDeadLetter (delivery_letter ''z'' claimed_delivery ?code sm 3) ?lost
      = Inr (?lost\<lparr>connector_dead_letters := [delivery_letter ''z'' claimed_delivery ?code sm 3]\<rparr>)"
    using l by (simp add: insertDeadLetter_def letter_fields tbl_get_def getAccount_def is_account_def dispatched_db_def account_db_def
        sample_account_def conversation_db_def empty_db_def)
  have "getDeliveryAttemptByClaim ''t'' dispatched_db = Some sent_dispatch" "getDelivery ''d'' dispatched_db = Some claimed_delivery"
    "getDelivery ''d'' (?lost\<lparr>connector_dead_letters := ls\<rparr>) = Some (finished_outgoing ?i claimed_delivery)" for ls
    by (simp_all add: getDeliveryAttemptByClaim_def getDelivery_def tbl_get_def dispatched_db_def finished_outgoing_def)
  then show ?thesis
    by (simp add: failDelivery_def k valid_retry_def or_default_def fail_transaction_def claim_attempt_def sent_claim_def delivery_failure_of_def transaction_def
        rop_bind_def rop_found_def rop_do_def rop_when_def failed_status_def Let_def sm_def [symmetric] finish_claim_def fin ins)
      (simp add: finished_outgoing_def attempt_outcome_def)
qed

theorem drain_settles_deliveries_witness:
  "\<exists>out t. drainDeliveries sample_connectors lost_provider ''c'' ''a'' (Some 1) queued_db = (Inr out, t)
    \<and> dt_uncertain out = 1 \<and> dt_processed out = 1 \<and> dispatch_outcome ''t'' t = Some NT_UNCERTAIN"
proof -
  obtain d t where d: "failDelivery sample_connectors ''z'' 3 sent_claim (delivery_failure_of ''CONNECTOR_DELIVERY_HANDLER_FAILED''
    ''connector delivery handler failed after dispatch began'' MAYBE_ACCEPTED False) dispatched_db = (Inr d, t)" "nd_status d = ND_UNCERTAIN"
    using loss_reported by blast
  let ?out = "\<lparr>dt_processed = 1, dt_delivered = 0, dt_suppressed = 0, dt_retried = 0, dt_uncertain = 1, dt_dead = 0\<rparr>"
  have run: "drainDeliveries sample_connectors lost_provider ''c'' ''a'' (Some 1) queued_db = (Inr ?out, t)"
    by (simp add: drainDeliveries_def drain_limit_def or_default_def svc_bind_def svc_require_def svc_of_def lost_provider_def delivery_claimed
        handle_delivery_def claim_sent reject_delivery_def classified_delivery_def d)
  have "\<forall>k claim u. (connector_step sample_connectors)\<^sup>*\<^sup>* u (snd (dw_deliver lost_provider k claim u))" by (simp add: lost_provider_def)
  from drain_settles_deliveries [OF queued_reachable this run] have "dispatch_outcome (dw_ids lost_provider 0 0) t = Some NT_UNCERTAIN"
    by (auto split: if_splits)
  with run show ?thesis by (auto simp: lost_provider_def)
qed

end
