(* ===== verification/Spec2Isabelle.thy ===== *)
theory Spec2Isabelle
  imports Ledger_Properties Job_Properties Web_Socket_Properties Protocol_Properties
    Agent_Properties Conversation_Properties Approval_Properties Goal_Properties Executor_Properties
    Revision_Properties Kernel_Properties Connector_Drain
begin

text \<open>
  A verification development for OpenRill, a host for long-running agents (TypeScript, \<open>src/\<close>).

  \<^bold>\<open>The program.\<close> The host keeps its durable state in one SQLite database. Above the tables stand repositories
  (\<open>packages/state\<close>), above them services, each of whose methods is one transaction or several in turn, and above those the
  schedulers, executors and the agent kernel, which call the services. A user sends a message to a conversation; the
  message starts a run; the kernel executes the run in turns of a model and calls of tools within a budget. A run may hand
  work to a child run (a delegation), wait for an approval, or work on the plan of a goal; the plan is a managed flow whose
  steps are background tasks, one per run. Automations start runs on a schedule, connectors start them for messages of
  external channels and carry the answers back, and clients reach the host over a WebSocket protocol.

  \<^bold>\<open>How it is modelled.\<close> The tables are the record \<open>db\<close> of \<open>State_Db\<close>, one list of rows per table in the order of the
  inserts, with the constraints, unique indexes, foreign keys and triggers of \<open>packages/state/migrations\<close> written out at the
  statements that can violate them. A repository method is \<open>db \<Rightarrow> err + db\<close> or \<open>'a rop = db \<Rightarrow> err + db \<times> 'a\<close>, a
  service method is \<open>'a svc = db \<Rightarrow> (err + 'a) \<times> db\<close>: it returns or throws, and what it committed before it threw
  stays. \<open>transaction\<close> runs a body and rolls it back when it throws. The kernel and the executor thread a state of their
  own (\<open>'a kern\<close>) around the database. \<open>err\<close> has every error class of the source with its codes.
  Strings are lists of code units from 0 to 255, numbers are integers (the code checks \<open>Number.isInteger\<close> where it
  matters), bytes are \<open>8 word\<close>, \<open>NULL\<close> and \<open>undefined\<close> are \<open>None\<close>, or \<open>JNull\<close> and \<open>JUndef\<close> inside JSON values.
  \<open>ORDER BY\<close> is \<open>sort_key\<close>, \<open>LIMIT\<close> is \<open>take\<close>. Parameters stand for what is not under \<open>src/\<close>: the clock,
  \<open>randomUUID\<close>, \<open>sha256\<close>, \<open>Intl.DateTimeFormat\<close>, NFKC folding, \<open>localeCompare\<close>, the UTF-8 codec, \<open>JSON.parse\<close>,
  the parser of URLs, the stream of a model, the tools, the adapters of connectors, and what other code does to the database
  while an execution awaits.

  \<^bold>\<open>Theories and sources.\<close>
  \<^item> \<open>Prelude\<close>, \<open>Regex\<close>, \<open>Json\<close>: results, lists, tables by key, JavaScript strings and regular expressions, JSON values
    with \<open>JSON.stringify\<close> and the canonical text that is hashed. \<open>Transaction_Rules\<close>: how a preorder on databases passes
    through the body of a transaction.
  \<^item> \<open>Connector_Rows\<close>, \<open>State_Db\<close>: the rows, the database, transactions; the locale \<open>step_preorder\<close>.
  \<^item> \<open>Interfaces\<close>: the locales of revisioned tables and of status logs, which the ledgers instantiate.
  \<^item> \<open>Task_Completion\<close>, \<open>Task_Ledger\<close>, \<open>Task_Delivery_Ledger\<close> (\<open>packages/state/src/task-*.ts\<close>), \<open>Task_Service\<close>,
    \<open>Task_Maintenance\<close> (\<open>packages/tasks/src\<close>): background tasks, their events and completion deliveries.
  \<^item> \<open>Conversation_Ledger\<close> (\<open>conversation-repository.ts\<close>), \<open>Delegation_Ledger\<close>, \<open>Workspace_Ledger\<close>, \<open>Conversation_Service\<close>,
    \<open>Delegation_Service\<close> (\<open>packages/conversations/src\<close>): conversations, runs with attempts and events, budgets, delegations.
  \<^item> \<open>Task_Flow_Ledger\<close>, \<open>Task_Flow_Service\<close>, \<open>Task_Flow_Maintenance\<close>, \<open>Task_Flow_Controller\<close> (\<open>packages/task-flows/src\<close>):
    managed flows and the runtime of their controllers.
  \<^item> \<open>Goal_Ledger\<close>, \<open>Goal_Service\<close> (\<open>packages/goals/src\<close>), \<open>Goal_Executor_Base\<close>, \<open>Goal_Executor\<close>, \<open>Goal_Executor_Plan\<close>,
    \<open>Goal_Executor_Life\<close> (\<open>packages/goal-executor/src\<close>): goals, plans, their revisions and their execution.
  \<^item> \<open>Approval_Ledger\<close>, \<open>Approval_Service\<close> (\<open>packages/approval/src\<close>): tool calls, approvals, grants, processes.
  \<^item> \<open>Agent_Kernel_Base\<close>, \<open>Agent_Kernel\<close> (\<open>packages/agent-kernel/src/kernel.ts\<close>, \<open>packages/tool-runtime\<close>, the types of
    \<open>packages/model-adapter\<close>): the loop of turns and tool calls of a run.
  \<^item> \<open>Calendar\<close>, \<open>Cron_Schedule\<close>, \<open>Automation_Ledger\<close>, \<open>Automation_Service\<close>, \<open>Automation_Scheduler\<close>
    (\<open>packages/automation/src\<close>): schedules, jobs, and the scheduler with its leases.
  \<^item> \<open>Connector_Ledger\<close>, \<open>Connector_Outbox\<close> (\<open>connector-repository.ts\<close>), \<open>Connector_Service\<close>, \<open>Connector_Delivery\<close>,
    \<open>Connector_Runtime\<close> (\<open>packages/connectors/src\<close>): events that come in, deliveries that go out, and the adapters' loops.
  \<^item> \<open>Web_Socket\<close> (\<open>websocket-codec.ts\<close>), \<open>Protocol_Validation\<close> (\<open>packages/protocol/src/validation.ts\<close>), \<open>Protocol_Session\<close>
    (\<open>notice-window.ts\<close>, \<open>upgrade-policy.ts\<close>, \<open>protocol-server.ts\<close> of \<open>services/agent-host/src/transport\<close>).
  \<^item> \<open>Scenario\<close>, \<open>Delegation_Scenario\<close>, \<open>Connector_Scenario\<close>: lives of a task, a conversation and a delivery evaluated call by
    call from the empty database; the properties are applied to their states.

  \<^bold>\<open>What the lemmas show.\<close>
  \<^item> \<open>Task_Evolution\<close>, \<open>Task_Flow_Machine\<close>, \<open>Ledger_Machine\<close>, \<open>Ledger_Properties\<close>: the ledgers as one state machine. Rows
    stay well-formed, logs are numbered without a gap, revisions are tokens, one operation moves a flow by one arrow of the
    transition table at most, ended tasks and flows stay ended, a completion is delivered once.
  \<^item> \<open>Task_Frame\<close>, \<open>Conversation_Machine\<close>, \<open>Delegation_Properties\<close>, \<open>Agent_Machine\<close>, \<open>Agent_Properties\<close>,
    \<open>Conversation_Properties\<close>: the locales \<open>conversation_statements\<close> and \<open>delegation_statements\<close> name what a repository's
    statements owe a preorder on databases; every call of the two services is then a step of it. Instances: the ledgers stay
    sound, delegations form a forest (so the recursive query for descendants ends), messages are taken once.
  \<^item> \<open>Cron_Facts\<close>, \<open>Schedule_Properties\<close>, \<open>Automation_Machine\<close>, \<open>Automation_Properties\<close>, \<open>Scheduler_Properties\<close>,
    \<open>Job_Properties\<close>: the search for an occurrence finds the first one, one operation moves a run by one arrow of its life
    cycle at most, leases are exclusive, occurrences are materialized once, the scheduler's life.
  \<^item> \<open>Goal_Properties\<close>, \<open>Plan_Frame\<close>, \<open>Controller_Properties\<close>, \<open>Executor_Properties\<close>, \<open>Revision_Properties\<close>: the life of a
    goal, call by call, with the reports a blocked goal owes its state to; a child is admitted once; a goal finishes with all its steps; which revisions block the next one.
  \<^item> \<open>Approval_Properties\<close>: an approval is spent once. \<open>Kernel_Machine\<close>, \<open>Kernel_Endings\<close>, \<open>Kernel_Scope\<close>,
    \<open>Kernel_Properties\<close>: the locales \<open>kernel_quiet\<close> and \<open>kernel_counting\<close> carry a property of the state through the turns up to the
    call that ends the execution, \<open>kernel_frame\<close> and \<open>kernel_invariant\<close> through a whole execution; the kernel calls a tool within the
    scope of its run only (tools that agree on these calls give the same execution), stays within the budget, and leaves the run in
    the state it reports: ended after a failure, and as the result says exactly when no other code moves the run.
  \<^item> \<open>Connector_Machine\<close>, \<open>Connector_Properties\<close>, \<open>Connector_Drain\<close>: an external event is taken once; a delivery whose attempt was
    or may have been accepted is never attempted again; a drain of the deliveries settles and counts every claim it takes, and asks
    the adapter for claims marked as dispatched only.
  \<^item> \<open>Web_Socket_Properties\<close>, \<open>Protocol_Properties\<close>: the frame parser against a reference encoder; how the bytes are cut into
    chunks is irrelevant until the connection begins to close, and not after that; replay of notices against the full log, nothing runs before authentication, a repeated key runs once.

  \<^bold>\<open>Bounds.\<close> The loops of the source are bounded or structural, so every function is total. The search for a cron occurrence
  has the source's limit of 5 * 366 * 24 * 60 minutes, a manual start tries 1000 slots, a plan moves its steps by 10000, caches hold 256
  expressions and 128 formatters, an idempotency window 128 keys, catch-up at most 100 occurrences, delegations are at most 16 deep,
  recoveries take at most 1000 rows. The rounds of the recursive query for descendants are the number of delegations, which
  \<open>descendants_query_terminates\<close> proves to be enough. The turns and retries of the kernel recurse on the limits of the budget;
  a model's stream is a finite list of events. The drains of a connector take at most 1000 claims.

  \<^bold>\<open>Not modelled.\<close> Opening, migrating and backing up SQLite files (library calls and files; the tables are modelled); the
  configuration's YAML subset and secrets, the files of skills, the workspace catalog and the sandboxes (the file system and
  processes of the operating system); tools, browser and model adapters and extensions (glue to external processes, engines and
  services); the wiring of the host and its operation registry (composition of the modelled services with timers and sockets);
  the applications, benchmarks and scripts (user interface, measurement). The records of the memory and the
  pruning of ended rows (full-text search of SQLite, cascades of deletions). Of the modelled components:
  the Korean pattern of task completions (code units above 255), the mapping of SQLite's busy error, the shape checks of what a
  connector's adapter reports as its status, and promise scheduling, which is given by the order of the steps.
\<close>

end
